(* ===== verification/Prelude.thy ===== *)
theory Prelude
  imports Main "HOL-Library.Word" "HOL-Library.Char_ord" "HOL-Library.List_Lexorder"
begin

text \<open>
  What every component theory shares: the named collections that carry the automation, the pieces of
  the Go standard library that the program's pure code calls on strings and integers
  (\<open>strconv.Itoa\<close>, \<open>strconv.ParseInt\<close>, \<open>strings.HasPrefix\<close>, \<open>strings.Fields\<close>,
  \<open>fmt\<close>'s \<open>%q\<close>), Go maps as sorted association lists, and the two interfaces that several
  components implement: a value that is closed at most once (\<open>close_once\<close>) and a buffered channel
  used through non-blocking sends (\<open>bounded_channel\<close>).

  A Go string is a byte sequence, modelled by Isabelle's \<open>string\<close>, whose characters are bytes.
\<close>

section \<open>Named collections\<close>

named_theorems go_defs \<open>definitions of the Go library model, to unfold\<close>
named_theorems go_simps \<open>equations that evaluate the Go library model\<close>

section \<open>Decimal text\<close>

definition digit_char :: "nat \<Rightarrow> char" where
  "digit_char n = char_of (48 + n)"

fun dec_nat :: "nat \<Rightarrow> string" where
  "dec_nat n = (if n < 10 then [digit_char n] else dec_nat (n div 10) @ [digit_char (n mod 10)])"

declare dec_nat.simps [simp del]

definition dec_int :: "int \<Rightarrow> string" where
  "dec_int i = (if i < 0 then CHR ''-'' # dec_nat (nat (- i)) else dec_nat (nat i))"

definition is_digit :: "char \<Rightarrow> bool" where
  "is_digit c \<longleftrightarrow> 48 \<le> (of_char c :: nat) \<and> (of_char c :: nat) \<le> 57"

definition digit_val :: "char \<Rightarrow> nat" where
  "digit_val c = (of_char c :: nat) - 48"

fun digits_val :: "nat \<Rightarrow> string \<Rightarrow> nat option" where
  "digits_val acc [] = Some acc"
| "digits_val acc (c # cs) =
     (if is_digit c then digits_val (10 * acc + digit_val c) cs else None)"

text \<open>\<open>strconv.ParseInt(s, 10, 64)\<close>: an optional sign, at least one digit, a value that fits 64 bits.\<close>

definition min_int64 :: int where "min_int64 = - (2 ^ 63)"

definition max_int64 :: int where "max_int64 = 2 ^ 63 - 1"

definition fits_int64 :: "int \<Rightarrow> bool" where
  "fits_int64 i \<longleftrightarrow> min_int64 \<le> i \<and> i \<le> max_int64"

definition parse_int64 :: "string \<Rightarrow> int option" where
  "parse_int64 s =
     (let (neg, ds) = (case s of [] \<Rightarrow> (False, [])
                       | c # cs \<Rightarrow> if c = CHR ''-'' then (True, cs)
                                   else if c = CHR ''+'' then (False, cs) else (False, s))
      in if ds = [] then None
         else case digits_val 0 ds of None \<Rightarrow> None
              | Some n \<Rightarrow> let i = (if neg then - int n else int n)
                          in if fits_int64 i then Some i else None)"

lemma of_char_digit_char [simp]: "n < 10 \<Longrightarrow> (of_char (digit_char n) :: nat) = 48 + n"
  by (simp add: digit_char_def)

lemma is_digit_digit_char [simp]: "n < 10 \<Longrightarrow> is_digit (digit_char n)"
  by (simp add: is_digit_def)

lemma digit_val_digit_char [simp]: "n < 10 \<Longrightarrow> digit_val (digit_char n) = n"
  by (simp add: digit_val_def)

lemma dec_nat_not_Nil [simp]: "dec_nat n \<noteq> []"
  by (subst dec_nat.simps) simp

lemma dec_nat_digits: "list_all is_digit (dec_nat n)"
proof (induction n rule: dec_nat.induct)
  case (1 n)
  then show ?case by (subst dec_nat.simps) auto
qed

lemma digits_val_append:
  "digits_val acc (xs @ ys) =
     (case digits_val acc xs of None \<Rightarrow> None | Some a \<Rightarrow> digits_val a ys)"
  by (induction xs arbitrary: acc) auto

lemma digits_val_dec_nat: "digits_val 0 (dec_nat n) = Some n"
proof (induction n rule: dec_nat.induct)
  case (1 n)
  show ?case
  proof (cases "n < 10")
    case True
    then show ?thesis by (subst dec_nat.simps) simp
  next
    case False
    with "1" have "digits_val 0 (dec_nat (n div 10)) = Some (n div 10)" by simp
    with False show ?thesis by (subst dec_nat.simps) (simp add: digits_val_append)
  qed
qed

lemma dec_nat_inject [simp]: "dec_nat m = dec_nat n \<longleftrightarrow> m = n"
  by (metis digits_val_dec_nat option.inject)

lemma dec_nat_first:
  obtains c cs where "dec_nat n = c # cs" and "is_digit c"
  using dec_nat_digits [of n] dec_nat_not_Nil [of n] by (cases "dec_nat n") auto

lemma not_digit_signs [simp]: "\<not> is_digit (CHR ''-'')" "\<not> is_digit (CHR ''+'')"
  by (simp_all add: is_digit_def)

lemma parse_int64_fits: "parse_int64 s = Some i \<Longrightarrow> fits_int64 i"
  by (auto simp: parse_int64_def Let_def split: list.splits option.splits if_splits)

lemma parse_int64_dec_int: "fits_int64 i \<Longrightarrow> parse_int64 (dec_int i) = Some i"
proof (cases "i < 0")
  case True
  then show "fits_int64 i \<Longrightarrow> ?thesis"
    by (simp add: parse_int64_def dec_int_def digits_val_dec_nat)
next
  case False
  obtain c cs where c: "dec_nat (nat i) = c # cs" "is_digit c" by (rule dec_nat_first)
  then have "c \<noteq> CHR ''-''" "c \<noteq> CHR ''+''" by auto
  with False c show "fits_int64 i \<Longrightarrow> ?thesis"
    using digits_val_dec_nat [of "nat i"] by (simp add: parse_int64_def dec_int_def)
qed

section \<open>Strings\<close>

definition has_prefix :: "string \<Rightarrow> string \<Rightarrow> bool" where
  "has_prefix s p \<longleftrightarrow> take (length p) s = p"

definition has_suffix :: "string \<Rightarrow> string \<Rightarrow> bool" where
  "has_suffix s p \<longleftrightarrow> length p \<le> length s \<and> drop (length s - length p) s = p"

definition is_space :: "char \<Rightarrow> bool" where
  "is_space c \<longleftrightarrow> of_char c \<in> {9 :: nat, 10, 11, 12, 13, 32}"

text \<open>\<open>strings.Fields\<close> on ASCII white space: maximal runs of non-space bytes.\<close>

fun fields_acc :: "string \<Rightarrow> string \<Rightarrow> string list" where
  "fields_acc cur [] = (if cur = [] then [] else [rev cur])"
| "fields_acc cur (c # cs) =
     (if is_space c then (if cur = [] then fields_acc [] cs else rev cur # fields_acc [] cs)
      else fields_acc (c # cur) cs)"

definition string_fields :: "string \<Rightarrow> string list" where
  "string_fields s = fields_acc [] s"

text \<open>
  \<open>fmt\<close>'s \<open>%q\<close>: quotes and backslashes are escaped, control bytes become escape sequences; bytes of
  multi-byte UTF-8 sequences are copied.
\<close>

definition hex_digit :: "nat \<Rightarrow> char" where
  "hex_digit n = (if n < 10 then char_of (48 + n) else char_of (87 + n))"

definition quote_char :: "char \<Rightarrow> string" where
  "quote_char c =
     (let n = (of_char c :: nat); bs = CHR 0x5C in
      if n = 0x22 \<or> n = 0x5C then [bs, c]
      else if n = 7 then [bs, CHR ''a''] else if n = 8 then [bs, CHR ''b'']
      else if n = 12 then [bs, CHR ''f''] else if n = 10 then [bs, CHR ''n'']
      else if n = 13 then [bs, CHR ''r''] else if n = 9 then [bs, CHR ''t'']
      else if n = 11 then [bs, CHR ''v'']
      else if n < 32 \<or> n = 127 then [bs, CHR ''x'', hex_digit (n div 16), hex_digit (n mod 16)]
      else [c])"

definition go_quote :: "string \<Rightarrow> string" where
  "go_quote s = [CHR 0x22] @ concat (map quote_char s) @ [CHR 0x22]"

section \<open>Go maps\<close>

text \<open>
  A Go map that the code marshals or walks is a list of pairs sorted by key, without duplicates:
  \<open>encoding/json\<close> writes map keys in that order. \<open>map_of\<close> reads it.
\<close>

fun gm_put :: "'k::linorder \<Rightarrow> 'v \<Rightarrow> ('k \<times> 'v) list \<Rightarrow> ('k \<times> 'v) list" where
  "gm_put k v [] = [(k, v)]"
| "gm_put k v ((k', v') # m) =
     (if k < k' then (k, v) # (k', v') # m
      else if k = k' then (k, v) # m
      else (k', v') # gm_put k v m)"

definition gm_del :: "'k \<Rightarrow> ('k \<times> 'v) list \<Rightarrow> ('k \<times> 'v) list" where
  "gm_del k m = filter (\<lambda>p. fst p \<noteq> k) m"

definition gm_wf :: "('k::linorder \<times> 'v) list \<Rightarrow> bool" where
  "gm_wf m \<longleftrightarrow> sorted_wrt (<) (map fst m)"

definition gm_build :: "('k::linorder \<times> 'v) list \<Rightarrow> ('k \<times> 'v) list" where
  "gm_build kvs = fold (\<lambda>(k, v) m. gm_put k v m) kvs []"

lemma map_of_gm_put [simp]: "gm_wf m \<Longrightarrow> map_of (gm_put k v m) = (map_of m)(k \<mapsto> v)"
  by (induction m) (auto simp: gm_wf_def fun_eq_iff)

lemma fst_gm_put: "fst ` set (gm_put k v m) = insert k (fst ` set m)"
  by (induction k v m rule: gm_put.induct) auto

lemma gm_put_wf [simp]: "gm_wf m \<Longrightarrow> gm_wf (gm_put k v m)"
proof (induction m)
  case Nil
  then show ?case by (simp add: gm_wf_def)
next
  case (Cons p m)
  obtain k' v' where p: "p = (k', v')" by (cases p)
  have IH: "sorted_wrt (<) (map fst (gm_put k v m))"
    using Cons by (simp add: gm_wf_def)
  have keys: "set (map fst (gm_put k v m)) = insert k (fst ` set m)"
    using fst_gm_put [of k v m] by simp
  from Cons.prems p have tl: "\<forall>x\<in>fst ` set m. k' < x" "sorted_wrt (<) (map fst m)"
    by (auto simp: gm_wf_def)
  show ?case
    using IH keys tl p by (auto simp: gm_wf_def)
qed

lemma gm_wf_Nil [simp]: "gm_wf []"
  by (simp add: gm_wf_def)

lemma gm_fold_wf: "gm_wf m \<Longrightarrow> gm_wf (fold (\<lambda>(k, v) m. gm_put k v m) kvs m)"
  by (induction kvs arbitrary: m) auto

lemma gm_build_wf [simp]: "gm_wf (gm_build kvs)"
  by (simp add: gm_build_def gm_fold_wf)

lemma map_of_fold_gm_put:
  "gm_wf m \<Longrightarrow> map_of (fold (\<lambda>(k, v) m. gm_put k v m) kvs m) = map_of m ++ map_of (rev kvs)"
  by (induction kvs arbitrary: m) (auto simp: map_add_def fun_eq_iff split: option.splits)

lemma map_of_gm_build: "map_of (gm_build kvs) = map_of (rev kvs)"
  by (simp add: gm_build_def map_of_fold_gm_put)

lemma gm_del_wf [simp]: "gm_wf m \<Longrightarrow> gm_wf (gm_del k m)"
  by (simp add: gm_wf_def gm_del_def sorted_wrt_map sorted_wrt_filter)

lemma map_of_gm_del [simp]: "map_of (gm_del k m) = (map_of m)(k := None)"
  by (induction m) (auto simp: gm_del_def fun_eq_iff)

section \<open>Interfaces\<close>

text \<open>
  A component that ends once: \<open>stop e\<close> closes it with the cause \<open>e\<close> unless it is closed already.
  \<open>ended\<close> reads the closed flag, \<open>cause\<close> the recorded reason.
\<close>

locale close_once =
  fixes ended :: "'s \<Rightarrow> bool"
    and cause :: "'s \<Rightarrow> 'c"
    and stop :: "'e \<Rightarrow> 's \<Rightarrow> 's"
    and recorded :: "'e \<Rightarrow> 'c"
  assumes stop_ended: "ended s \<Longrightarrow> stop e s = s"
    and stop_ends: "ended (stop e s)"
    and stop_cause: "\<not> ended s \<Longrightarrow> cause (stop e s) = recorded e"
begin

lemma stop_twice: "stop e' (stop e s) = stop e s"
  by (rule stop_ended [OF stop_ends])

lemma fold_stop_ended: "ended s \<Longrightarrow> fold stop es s = s"
  by (induction es) (simp_all add: stop_ended)

lemma first_cause_wins: "\<not> ended s \<Longrightarrow> cause (fold stop (e # es) s) = recorded e"
  by (simp add: fold_stop_ended stop_ends stop_cause)

end

text \<open>
  A buffered channel under non-blocking use: \<open>offer\<close> is Go's \<open>select { case ch <- x: default: }\<close> (None
  is the default branch), \<open>poll\<close> is \<open>select { case x := <-ch: default: }\<close>, \<open>buffer\<close> the queued values.
\<close>

locale bounded_channel =
  fixes buffer :: "'q \<Rightarrow> 'a list"
    and limit :: nat
    and offer :: "'a \<Rightarrow> 'q \<Rightarrow> 'q option"
    and poll :: "'q \<Rightarrow> ('a \<times> 'q) option"
  assumes offer_full: "limit \<le> length (buffer q) \<Longrightarrow> offer x q = None"
    and offer_room: "length (buffer q) < limit \<Longrightarrow>
          \<exists>q'. offer x q = Some q' \<and> buffer q' = buffer q @ [x]"
    and poll_empty: "buffer q = [] \<Longrightarrow> poll q = None"
    and poll_some: "buffer q = x # xs \<Longrightarrow> \<exists>q'. poll q = Some (x, q') \<and> buffer q' = xs"
begin

lemma offer_Some: "offer x q = Some q' \<Longrightarrow> buffer q' = buffer q @ [x] \<and> length (buffer q) < limit"
  using offer_full [of q x] offer_room [of q x] by (cases "length (buffer q) < limit") auto

lemma offer_bounded: "offer x q = Some q' \<Longrightarrow> length (buffer q') \<le> limit"
  using offer_Some [of x q q'] by simp

lemma offer_None_iff: "offer x q = None \<longleftrightarrow> limit \<le> length (buffer q)"
  using offer_full [of q x] offer_room [of q x] by (cases "length (buffer q) < limit") auto

lemma poll_Some: "poll q = Some (x, q') \<Longrightarrow> buffer q = x # buffer q'"
  using poll_empty [of q] poll_some [of q] by (cases "buffer q") auto

lemma poll_bounded: "poll q = Some (x, q') \<Longrightarrow> length (buffer q) \<le> limit \<Longrightarrow> length (buffer q') \<le> limit"
  using poll_Some [of q x q'] by simp

fun offer_all :: "'a list \<Rightarrow> 'q \<Rightarrow> 'q option" where
  "offer_all [] q = Some q"
| "offer_all (x # xs) q = (case offer x q of None \<Rightarrow> None | Some q' \<Rightarrow> offer_all xs q')"

lemma offer_all_fifo:
  "offer_all xs q = Some q' \<Longrightarrow> buffer q' = buffer q @ xs"
  by (induction xs arbitrary: q) (auto split: option.splits dest!: offer_Some)

end

end
