(* ===== verification/GoErrors.thy ===== *)
theory GoErrors
  imports Prelude
begin

text \<open>
  The error values of the program. \<open>goerr\<close> has one constructor per concrete error type: the families
  of \<open>internal/ringerrors/errors.go\<close> (which \<open>pkg/ringapimodels/errors.go\<close> re-exports by alias), the
  sentinels and wrappers of \<open>internal/signaling/session.go\<close>, \<open>internal/protocol/websocket_errors.go\<close> and
  \<open>cmd/go-ring/cli_error.go\<close>, and the errors of the Go library that the code passes on. A Go \<open>error\<close>
  interface value is a \<open>goerr option\<close>, with None for nil. Every \<open>Is...\<close> function asks the same
  question of the chain of causes; the locale \<open>error_family\<close> states it once.
\<close>

section \<open>Error values\<close>

datatype goerr =
    AuthenticationError string int
  | ConnectionError string "goerr option"
  | NetworkError string "goerr option"
  | TokenError string "goerr option"
  | BadRequestError string "goerr option"
  | UnauthorizedError string "goerr option"
  | NotFoundError string "goerr option"
  | InternalServerError string "goerr option"
  | HTTPError int string string string
  | ClosedError string "goerr option"
  | Requires2FAError string
  | RateLimitError string "goerr option"
  | TerminalError string
  | SessionContextError string goerr
  | RPCError int string
  | WebSocketURLError string "goerr option"
  | CLIError string "goerr option" string
  | ContextCanceled
  | ContextDeadlineExceeded
  | JSONError
  | ExternalError string bool
    \<comment> \<open>an error of a package outside the repository: its text, and whether it is a timeout\<close>

fun unwrap :: "goerr \<Rightarrow> goerr option" where
  "unwrap (ConnectionError _ c) = c"
| "unwrap (NetworkError _ c) = c"
| "unwrap (TokenError _ c) = c"
| "unwrap (BadRequestError _ c) = c"
| "unwrap (UnauthorizedError _ c) = c"
| "unwrap (NotFoundError _ c) = c"
| "unwrap (InternalServerError _ c) = c"
| "unwrap (ClosedError _ c) = c"
| "unwrap (RateLimitError _ c) = c"
| "unwrap (SessionContextError _ c) = Some c"
| "unwrap (WebSocketURLError _ c) = c"
| "unwrap (CLIError _ c _) = c"
| "unwrap _ = None"

lemma unwrap_size: "unwrap e = Some c \<Longrightarrow> size c < size e"
  by (cases e) auto

text \<open>The values \<open>errors.Is\<close> and \<open>errors.As\<close> visit, outermost first.\<close>

function error_chain :: "goerr \<Rightarrow> goerr list" where
  "error_chain e = e # (case unwrap e of None \<Rightarrow> [] | Some c \<Rightarrow> error_chain c)"
  by pat_completeness auto
termination
  by (relation "measure size") (auto dest: unwrap_size)

declare error_chain.simps [simp del]

lemma error_chain_None: "unwrap e = None \<Longrightarrow> error_chain e = [e]"
  by (subst error_chain.simps) simp

lemma error_chain_Some: "unwrap e = Some c \<Longrightarrow> error_chain e = e # error_chain c"
  by (subst error_chain.simps) simp

definition errors_is :: "goerr \<Rightarrow> goerr \<Rightarrow> bool" where
  "errors_is e t \<longleftrightarrow> t \<in> set (error_chain e)"

definition errors_as :: "(goerr \<Rightarrow> bool) \<Rightarrow> goerr \<Rightarrow> goerr option" where
  "errors_as p e = find p (error_chain e)"

lemma errors_as_None_iff: "errors_as p e = None \<longleftrightarrow> (\<forall>x\<in>set (error_chain e). \<not> p x)"
  by (auto simp: errors_as_def find_None_iff)

lemma find_not_None_iff: "find p xs \<noteq> None \<longleftrightarrow> (\<exists>x\<in>set xs. p x)"
  by (induction xs) auto

section \<open>Constructors\<close>

definition NewAuthenticationError :: "string \<Rightarrow> int \<Rightarrow> goerr" where
  "NewAuthenticationError message status = AuthenticationError message status"

definition NewConnectionError :: "string \<Rightarrow> goerr option \<Rightarrow> goerr" where
  "NewConnectionError message err = ConnectionError message err"

definition NewNetworkError :: "string \<Rightarrow> goerr option \<Rightarrow> goerr" where
  "NewNetworkError message err = NetworkError message err"

definition NewTokenError :: "string \<Rightarrow> goerr option \<Rightarrow> goerr" where
  "NewTokenError message err = TokenError message err"

definition NewBadRequestError :: "string \<Rightarrow> goerr option \<Rightarrow> goerr" where
  "NewBadRequestError message err = BadRequestError message err"

definition NewUnauthorizedError :: "string \<Rightarrow> goerr option \<Rightarrow> goerr" where
  "NewUnauthorizedError message err = UnauthorizedError message err"

definition NewNotFoundError :: "string \<Rightarrow> goerr option \<Rightarrow> goerr" where
  "NewNotFoundError message err = NotFoundError message err"

definition NewInternalServerError :: "string \<Rightarrow> goerr option \<Rightarrow> goerr" where
  "NewInternalServerError message err = InternalServerError message err"

text \<open>The variadic cause of \<open>NewClosedError\<close>: only the first argument is kept.\<close>

definition NewClosedError :: "string \<Rightarrow> goerr option list \<Rightarrow> goerr" where
  "NewClosedError message causes =
     ClosedError message (case causes of [] \<Rightarrow> None | c # _ \<Rightarrow> c)"

definition NewRequires2FAError :: "string \<Rightarrow> goerr" where
  "NewRequires2FAError message = Requires2FAError message"

definition NewRateLimitError :: "string \<Rightarrow> goerr" where
  "NewRateLimitError message = RateLimitError message None"

lemmas new_error_defs = NewAuthenticationError_def NewConnectionError_def NewNetworkError_def
  NewTokenError_def NewBadRequestError_def NewUnauthorizedError_def NewNotFoundError_def
  NewInternalServerError_def NewClosedError_def NewRequires2FAError_def NewRateLimitError_def

section \<open>Texts\<close>

text \<open>The \<open>Error\<close> methods, over the text of the cause where there is one.\<close>

definition AuthenticationError_Error :: "string \<Rightarrow> int \<Rightarrow> string" where
  "AuthenticationError_Error m status =
     (if m \<noteq> [] then ''authentication error: '' @ m
      else ''authentication error (status: '' @ dec_int status @ '')'')"

definition ConnectionError_Error :: "string \<Rightarrow> string option \<Rightarrow> string" where
  "ConnectionError_Error m c =
     (case c of Some t \<Rightarrow> ''connection error: '' @ m @ '': '' @ t | None \<Rightarrow> ''connection error: '' @ m)"

definition NetworkError_Error :: "string \<Rightarrow> string option \<Rightarrow> string" where
  "NetworkError_Error m c =
     (case c of Some t \<Rightarrow> ''network error: '' @ m @ '': '' @ t | None \<Rightarrow> ''network error: '' @ m)"

definition TokenError_Error :: "string \<Rightarrow> string option \<Rightarrow> string" where
  "TokenError_Error m c =
     (case c of Some t \<Rightarrow> ''token error: '' @ m @ '': '' @ t | None \<Rightarrow> ''token error: '' @ m)"

definition BadRequestError_Error :: "string \<Rightarrow> string option \<Rightarrow> string" where
  "BadRequestError_Error m c =
     (case c of Some t \<Rightarrow> ''bad request error: '' @ m @ '': '' @ t | None \<Rightarrow> ''bad request error: '' @ m)"

definition UnauthorizedError_Error :: "string \<Rightarrow> string option \<Rightarrow> string" where
  "UnauthorizedError_Error m c =
     (case c of Some t \<Rightarrow> ''unauthorized error: '' @ m @ '': '' @ t | None \<Rightarrow> ''unauthorized error: '' @ m)"

definition NotFoundError_Error :: "string \<Rightarrow> string" where
  "NotFoundError_Error m = (if m \<noteq> [] then ''not found error: '' @ m else ''not found'')"

text \<open>\<open>%v\<close> prints a nil error as \<open><nil>\<close>.\<close>

definition InternalServerError_Error :: "string \<Rightarrow> string option \<Rightarrow> string" where
  "InternalServerError_Error m c =
     ''internal server error: '' @ m @ '': '' @ (case c of Some t \<Rightarrow> t | None \<Rightarrow> ''<nil>'')"

definition HTTPError_Error :: "int \<Rightarrow> string \<Rightarrow> string \<Rightarrow> string" where
  "HTTPError_Error code status m =
     (if m \<noteq> [] then ''HTTP error '' @ dec_int code @ '' ('' @ status @ ''): '' @ m
      else ''HTTP error '' @ dec_int code @ '' ('' @ status @ '')'')"

definition ClosedError_Error :: "string \<Rightarrow> string" where
  "ClosedError_Error m = (if m \<noteq> [] then ''connection closed: '' @ m else ''connection closed'')"

definition Requires2FAError_Error :: "string \<Rightarrow> string" where
  "Requires2FAError_Error m = (if m \<noteq> [] then ''2FA required: '' @ m else ''2FA required'')"

definition RateLimitError_Error :: "string \<Rightarrow> string" where
  "RateLimitError_Error m = (if m \<noteq> [] then ''rate limit error: '' @ m else ''rate limit error'')"

definition cliError_Error :: "string \<Rightarrow> string option \<Rightarrow> string \<Rightarrow> string" where
  "cliError_Error m c detail =
     m @ (case c of Some t \<Rightarrow> '': '' @ t | None \<Rightarrow> []) @ (if detail \<noteq> [] then '': '' @ detail else [])"

fun error_text :: "goerr \<Rightarrow> string" where
  "error_text (AuthenticationError m s) = AuthenticationError_Error m s"
| "error_text (ConnectionError m c) = ConnectionError_Error m (map_option error_text c)"
| "error_text (NetworkError m c) = NetworkError_Error m (map_option error_text c)"
| "error_text (TokenError m c) = TokenError_Error m (map_option error_text c)"
| "error_text (BadRequestError m c) = BadRequestError_Error m (map_option error_text c)"
| "error_text (UnauthorizedError m c) = UnauthorizedError_Error m (map_option error_text c)"
| "error_text (NotFoundError m c) = NotFoundError_Error m"
| "error_text (InternalServerError m c) = InternalServerError_Error m (map_option error_text c)"
| "error_text (HTTPError code status body m) = HTTPError_Error code status m"
| "error_text (ClosedError m c) = ClosedError_Error m"
| "error_text (Requires2FAError m) = Requires2FAError_Error m"
| "error_text (RateLimitError m c) = RateLimitError_Error m"
| "error_text (TerminalError t) = t"
| "error_text (SessionContextError op c) = op @ '': '' @ error_text c"
| "error_text (RPCError code m) = ''session RPC error '' @ dec_int code"
| "error_text (WebSocketURLError reason c) = reason"
| "error_text (CLIError m c d) = cliError_Error m (map_option error_text c) d"
| "error_text ContextCanceled = ''context canceled''"
| "error_text ContextDeadlineExceeded = ''context deadline exceeded''"
| "error_text JSONError = ''invalid JSON''"
| "error_text (ExternalError t _) = t"

section \<open>Families\<close>

fun is_authentication :: "goerr \<Rightarrow> bool" where
  "is_authentication (AuthenticationError _ _) = True" | "is_authentication _ = False"

fun is_connection :: "goerr \<Rightarrow> bool" where
  "is_connection (ConnectionError _ _) = True" | "is_connection _ = False"

fun is_network :: "goerr \<Rightarrow> bool" where
  "is_network (NetworkError _ _) = True" | "is_network _ = False"

fun is_token :: "goerr \<Rightarrow> bool" where
  "is_token (TokenError _ _) = True" | "is_token _ = False"

fun is_bad_request :: "goerr \<Rightarrow> bool" where
  "is_bad_request (BadRequestError _ _) = True" | "is_bad_request _ = False"

fun is_unauthorized :: "goerr \<Rightarrow> bool" where
  "is_unauthorized (UnauthorizedError _ _) = True" | "is_unauthorized _ = False"

fun is_not_found :: "goerr \<Rightarrow> bool" where
  "is_not_found (NotFoundError _ _) = True" | "is_not_found _ = False"

fun is_internal_server :: "goerr \<Rightarrow> bool" where
  "is_internal_server (InternalServerError _ _) = True" | "is_internal_server _ = False"

fun is_http :: "goerr \<Rightarrow> bool" where
  "is_http (HTTPError _ _ _ _) = True" | "is_http _ = False"

fun is_closed :: "goerr \<Rightarrow> bool" where
  "is_closed (ClosedError _ _) = True" | "is_closed _ = False"

fun is_requires_2fa :: "goerr \<Rightarrow> bool" where
  "is_requires_2fa (Requires2FAError _) = True" | "is_requires_2fa _ = False"

fun is_rate_limit :: "goerr \<Rightarrow> bool" where
  "is_rate_limit (RateLimitError _ _) = True" | "is_rate_limit _ = False"

definition errors_as_option :: "(goerr \<Rightarrow> bool) \<Rightarrow> goerr option \<Rightarrow> bool" where
  "errors_as_option p err = (case err of None \<Rightarrow> False | Some e \<Rightarrow> errors_as p e \<noteq> None)"

definition IsAuthenticationError :: "goerr option \<Rightarrow> bool" where
  "IsAuthenticationError err = errors_as_option is_authentication err"

definition IsConnectionError :: "goerr option \<Rightarrow> bool" where
  "IsConnectionError err = errors_as_option is_connection err"

definition IsNetworkError :: "goerr option \<Rightarrow> bool" where
  "IsNetworkError err = errors_as_option is_network err"

definition IsTokenError :: "goerr option \<Rightarrow> bool" where
  "IsTokenError err = errors_as_option is_token err"

definition IsBadRequestError :: "goerr option \<Rightarrow> bool" where
  "IsBadRequestError err = errors_as_option is_bad_request err"

definition IsUnauthorizedError :: "goerr option \<Rightarrow> bool" where
  "IsUnauthorizedError err = errors_as_option is_unauthorized err"

definition IsNotFoundError :: "goerr option \<Rightarrow> bool" where
  "IsNotFoundError err = errors_as_option is_not_found err"

definition IsInternalServerError :: "goerr option \<Rightarrow> bool" where
  "IsInternalServerError err = errors_as_option is_internal_server err"

definition IsHTTPError :: "goerr option \<Rightarrow> bool" where
  "IsHTTPError err = errors_as_option is_http err"

definition IsClosedError :: "goerr option \<Rightarrow> bool" where
  "IsClosedError err = errors_as_option is_closed err"

definition IsRequires2FAError :: "goerr option \<Rightarrow> bool" where
  "IsRequires2FAError err = errors_as_option is_requires_2fa err"

definition IsRateLimitError :: "goerr option \<Rightarrow> bool" where
  "IsRateLimitError err = errors_as_option is_rate_limit err"

definition IsHTTPStatusCode :: "goerr option \<Rightarrow> int \<Rightarrow> bool" where
  "IsHTTPStatusCode err code =
     (case err of None \<Rightarrow> False
      | Some e \<Rightarrow> (case errors_as is_http e of
                    Some (HTTPError c _ _ _) \<Rightarrow> c = code
                  | _ \<Rightarrow> False))"

section \<open>Classification of HTTP responses\<close>

record http_response =
  resp_code :: int
  resp_status :: string

definition NewHTTPError :: "http_response \<Rightarrow> string \<Rightarrow> goerr" where
  "NewHTTPError resp body = HTTPError (resp_code resp) (resp_status resp) body []"

definition ClassifyHTTPError :: "http_response \<Rightarrow> string \<Rightarrow> goerr" where
  "ClassifyHTTPError resp body =
     (let httpErr = NewHTTPError resp body; code = resp_code resp in
      if code = 400 \<or> code = 422 then NewBadRequestError ''request rejected'' (Some httpErr)
      else if code = 401 \<or> code = 403 then NewUnauthorizedError ''request not authorized'' (Some httpErr)
      else if code = 404 then NewNotFoundError ''resource not found'' (Some httpErr)
      else if code = 429 then RateLimitError ''request rate limited'' (Some httpErr)
      else if code \<ge> 500 then NewInternalServerError ''server request failed'' (Some httpErr)
      else httpErr)"

section \<open>Session errors\<close>

definition ErrClosed :: goerr where "ErrClosed = TerminalError ''session closed''"
definition ErrExpired :: goerr where "ErrExpired = TerminalError ''session reached maximum age''"
definition ErrHeartbeat :: goerr where "ErrHeartbeat = TerminalError ''session heartbeat timed out''"
definition ErrBackpressure :: goerr where "ErrBackpressure = TerminalError ''session event queue full''"

definition wrapSessionContextError :: "string \<Rightarrow> goerr option \<Rightarrow> goerr option" where
  "wrapSessionContextError operation c =
     (case c of None \<Rightarrow> None | Some e \<Rightarrow> Some (SessionContextError operation e))"

definition sessionError :: "string \<Rightarrow> goerr option \<Rightarrow> goerr option" where
  "sessionError message err =
     (case err of None \<Rightarrow> None
      | Some e \<Rightarrow>
          if IsClosedError err \<or> IsConnectionError err \<or> IsBadRequestError err then err
          else if errors_is e ErrClosed then Some (NewClosedError message [err])
          else Some (NewConnectionError message err))"

definition commandError :: "string \<Rightarrow> goerr" where
  "commandError message = CLIError message None []"

definition wrapCommandError :: "string \<Rightarrow> goerr \<Rightarrow> goerr" where
  "wrapCommandError message c = CLIError message (Some c) []"

definition wrapCommandErrorDetail :: "string \<Rightarrow> goerr \<Rightarrow> string \<Rightarrow> goerr" where
  "wrapCommandErrorDetail message c detail = CLIError message (Some c) detail"

section \<open>The family interface\<close>

text \<open>
  What every \<open>Is...\<close> function promises: nil belongs to no family, and an error belongs to a family when
  some error of its chain is of the family's type. Wrapping then never loses a family.
\<close>

locale error_family =
  fixes top :: "goerr \<Rightarrow> bool"
    and member :: "goerr option \<Rightarrow> bool"
  assumes member_nil: "\<not> member None"
    and member_chain: "member (Some e) \<longleftrightarrow> (\<exists>x\<in>set (error_chain e). top x)"
begin

lemma member_top: "top e \<Longrightarrow> member (Some e)"
  by (subst member_chain, subst error_chain.simps) simp

lemma member_wrap: "unwrap e = Some c \<Longrightarrow> member (Some e) \<longleftrightarrow> top e \<or> member (Some c)"
  by (simp add: member_chain error_chain_Some)

lemma member_leaf: "unwrap e = None \<Longrightarrow> member (Some e) \<longleftrightarrow> top e"
  by (simp add: member_chain error_chain_None)

lemma member_unwrap: "member (Some e) \<longleftrightarrow> top e \<or> member (unwrap e)"
  by (cases "unwrap e") (simp_all add: member_wrap member_leaf member_nil)

end

lemma errors_as_option_None [simp]: "\<not> errors_as_option p None"
  by (simp add: errors_as_option_def)

lemma errors_as_option_Some: "errors_as_option p (Some e) \<longleftrightarrow> (\<exists>x\<in>set (error_chain e). p x)"
  using find_not_None_iff [of p "error_chain e"] by (simp add: errors_as_option_def errors_as_def)

interpretation authentication: error_family is_authentication IsAuthenticationError
  by unfold_locales (simp_all add: IsAuthenticationError_def errors_as_option_Some)

interpretation connection: error_family is_connection IsConnectionError
  by unfold_locales (simp_all add: IsConnectionError_def errors_as_option_Some)

interpretation network: error_family is_network IsNetworkError
  by unfold_locales (simp_all add: IsNetworkError_def errors_as_option_Some)

interpretation token: error_family is_token IsTokenError
  by unfold_locales (simp_all add: IsTokenError_def errors_as_option_Some)

interpretation bad_request: error_family is_bad_request IsBadRequestError
  by unfold_locales (simp_all add: IsBadRequestError_def errors_as_option_Some)

interpretation unauthorized: error_family is_unauthorized IsUnauthorizedError
  by unfold_locales (simp_all add: IsUnauthorizedError_def errors_as_option_Some)

interpretation not_found: error_family is_not_found IsNotFoundError
  by unfold_locales (simp_all add: IsNotFoundError_def errors_as_option_Some)

interpretation internal_server: error_family is_internal_server IsInternalServerError
  by unfold_locales (simp_all add: IsInternalServerError_def errors_as_option_Some)

interpretation http: error_family is_http IsHTTPError
  by unfold_locales (simp_all add: IsHTTPError_def errors_as_option_Some)

interpretation closed: error_family is_closed IsClosedError
  by unfold_locales (simp_all add: IsClosedError_def errors_as_option_Some)

interpretation requires_2fa: error_family is_requires_2fa IsRequires2FAError
  by unfold_locales (simp_all add: IsRequires2FAError_def errors_as_option_Some)

interpretation rate_limit: error_family is_rate_limit IsRateLimitError
  by unfold_locales (simp_all add: IsRateLimitError_def errors_as_option_Some)

lemmas member_unwraps = authentication.member_unwrap connection.member_unwrap network.member_unwrap
  token.member_unwrap bad_request.member_unwrap unauthorized.member_unwrap not_found.member_unwrap
  internal_server.member_unwrap http.member_unwrap closed.member_unwrap requires_2fa.member_unwrap
  rate_limit.member_unwrap

lemmas member_nils [simp] = authentication.member_nil connection.member_nil network.member_nil
  token.member_nil bad_request.member_nil unauthorized.member_nil not_found.member_nil
  internal_server.member_nil http.member_nil closed.member_nil requires_2fa.member_nil
  rate_limit.member_nil

lemma errors_is_unwrap:
  "errors_is e t \<longleftrightarrow> e = t \<or> (\<exists>c. unwrap e = Some c \<and> errors_is c t)"
  by (cases "unwrap e") (auto simp: errors_is_def error_chain_None error_chain_Some)

lemmas sentinel_defs = ErrClosed_def ErrExpired_def ErrHeartbeat_def ErrBackpressure_def

lemma sentinels_distinct [simp]:
  "ErrClosed \<noteq> ErrExpired" "ErrExpired \<noteq> ErrClosed" "ErrClosed \<noteq> ErrHeartbeat" "ErrHeartbeat \<noteq> ErrClosed"
  "ErrClosed \<noteq> ErrBackpressure" "ErrBackpressure \<noteq> ErrClosed" "ErrExpired \<noteq> ErrHeartbeat"
  "ErrHeartbeat \<noteq> ErrExpired" "ErrExpired \<noteq> ErrBackpressure" "ErrBackpressure \<noteq> ErrExpired"
  "ErrHeartbeat \<noteq> ErrBackpressure" "ErrBackpressure \<noteq> ErrHeartbeat"
  by (simp_all add: sentinel_defs)

lemma sessionError_cases:
  obtains (kept) "sessionError m (Some e) = Some e"
      "IsClosedError (Some e) \<or> IsConnectionError (Some e) \<or> IsBadRequestError (Some e)"
    | (closed) "sessionError m (Some e) = Some (ClosedError m (Some e))" "errors_is e ErrClosed"
      "\<not> IsClosedError (Some e)" "\<not> IsConnectionError (Some e)" "\<not> IsBadRequestError (Some e)"
    | (connection) "sessionError m (Some e) = Some (ConnectionError m (Some e))" "\<not> errors_is e ErrClosed"
      "\<not> IsClosedError (Some e)" "\<not> IsConnectionError (Some e)" "\<not> IsBadRequestError (Some e)"
  by (auto simp: sessionError_def new_error_defs split: if_splits)

section \<open>Properties\<close>

lemma ClassifyHTTPError_cases:
  "ClassifyHTTPError resp body = NewHTTPError resp body
   \<or> unwrap (ClassifyHTTPError resp body) = Some (NewHTTPError resp body)"
  by (auto simp: ClassifyHTTPError_def new_error_defs Let_def)

lemma chain_ClassifyHTTPError:
  "error_chain (ClassifyHTTPError resp body) =
     (if ClassifyHTTPError resp body = NewHTTPError resp body then [NewHTTPError resp body]
      else [ClassifyHTTPError resp body, NewHTTPError resp body])"
  using ClassifyHTTPError_cases [of resp body]
  by (auto simp: error_chain_Some error_chain_None NewHTTPError_def)

text \<open>The public family of an HTTP failure is a function of its status code alone, the families are
  those the switch names, and the status-bearing error stays reachable: an \<open>IsHTTPStatusCode\<close> test on the
  classified error answers for exactly the response's status.\<close>

theorem ClassifyHTTPError_families:
  "IsBadRequestError (Some (ClassifyHTTPError resp body)) = (resp_code resp \<in> {400, 422})
   \<and> IsUnauthorizedError (Some (ClassifyHTTPError resp body)) = (resp_code resp \<in> {401, 403})
   \<and> IsNotFoundError (Some (ClassifyHTTPError resp body)) = (resp_code resp = 404)
   \<and> IsRateLimitError (Some (ClassifyHTTPError resp body)) = (resp_code resp = 429)
   \<and> IsInternalServerError (Some (ClassifyHTTPError resp body)) = (500 \<le> resp_code resp)
   \<and> IsHTTPError (Some (ClassifyHTTPError resp body))
   \<and> (IsHTTPStatusCode (Some (ClassifyHTTPError resp body)) code = (code = resp_code resp))"
proof -
  let ?e = "ClassifyHTTPError resp body"
  have status: "IsHTTPStatusCode (Some ?e) code = (code = resp_code resp)"
    by (auto simp: IsHTTPStatusCode_def errors_as_def error_chain_Some error_chain_None
        ClassifyHTTPError_def NewHTTPError_def new_error_defs Let_def)
  have "IsHTTPError (Some ?e)"
    unfolding http.member_chain chain_ClassifyHTTPError by (simp add: NewHTTPError_def)
  with status show ?thesis
    unfolding bad_request.member_chain unauthorized.member_chain not_found.member_chain
      rate_limit.member_chain internal_server.member_chain chain_ClassifyHTTPError
    by (auto simp: ClassifyHTTPError_def NewHTTPError_def new_error_defs Let_def)
qed

text \<open>The text of a classified HTTP failure does not depend on the response body, which can hold
  credentials or personal data: two responses with equal status give equal texts.\<close>

theorem ClassifyHTTPError_text_hides_body:
  "error_text (ClassifyHTTPError resp body) = error_text (ClassifyHTTPError resp body')"
  by (simp add: ClassifyHTTPError_def NewHTTPError_def new_error_defs Let_def)

lemma sessionError_families:
  assumes "sessionError m (Some e) = Some e'"
  shows "IsClosedError (Some e') \<or> IsConnectionError (Some e') \<or> IsBadRequestError (Some e')"
    and "set (error_chain e) \<subseteq> set (error_chain e')"
proof -
  show "IsClosedError (Some e') \<or> IsConnectionError (Some e') \<or> IsBadRequestError (Some e')"
    by (rule sessionError_cases [of m e]) (use assms in \<open>auto intro: closed.member_top connection.member_top\<close>)
  show "set (error_chain e) \<subseteq> set (error_chain e')"
    by (rule sessionError_cases [of m e]) (use assms in \<open>auto simp: error_chain_Some\<close>)
qed

lemma sessionError_kept:
  "IsClosedError (Some e) \<or> IsConnectionError (Some e) \<or> IsBadRequestError (Some e)
   \<Longrightarrow> sessionError m (Some e) = Some e"
  by (auto simp: sessionError_def)

lemma sessionError_None_iff [simp]: "sessionError m err = None \<longleftrightarrow> err = None"
  by (simp add: sessionError_def split: option.splits)

lemma sessionError_nil [simp]: "sessionError m None = None"
  by simp

text \<open>\<open>sessionError\<close> puts every failure of a session into one of the three public families, keeps
  the whole chain of causes (so \<open>errors.Is\<close> and \<open>errors.As\<close> find what they found before), and applying it
  again at an outer layer changes nothing.\<close>

theorem sessionError_classifies:
  "\<exists>e'. sessionError m (Some e) = Some e'
    \<and> (IsClosedError (Some e') \<or> IsConnectionError (Some e') \<or> IsBadRequestError (Some e'))
    \<and> set (error_chain e) \<subseteq> set (error_chain e')
    \<and> sessionError m' (Some e') = Some e'"
proof -
  obtain e' where e': "sessionError m (Some e) = Some e'"
    by (cases "sessionError m (Some e)") auto
  then show ?thesis
    using sessionError_families [OF e'] sessionError_kept [of e' m'] by blast
qed

end
