(* ===== verification/H264Bits.thy ===== *)
theory H264Bits
  imports Prelude
begin

text \<open>
  \<open>cmd/go-ring/h264_bits.go\<close>: the bit reader that extracts parameter-set ids from H.264 units. A byte is
  an \<open>8 word\<close>, an id a \<open>64 word\<close>. The functions that report failure through a second result return an
  option here. The reader is refined to plain bit lists (\<open>stream_bits\<close>), and Exp-Golomb
  decoding to its specification on them; the emulation-prevention filter is compared with the escaping
  that H.264 encoders perform (\<open>escape_zeros\<close>, clause 7.4.1.1 of the standard).
\<close>

unbundle bit_operations_syntax

type_synonym byte = "8 word"

section \<open>The reader\<close>

definition h264BitsPerByte :: nat where "h264BitsPerByte = 8"
definition h264HighBitOffset :: nat where "h264HighBitOffset = h264BitsPerByte - 1"
definition h264MaxExpGolombZeros :: nat where "h264MaxExpGolombZeros = 31"
definition h264MinSPSBytes :: nat where "h264MinSPSBytes = 4"
definition h264SPSHeaderBits :: nat where "h264SPSHeaderBits = 24"
definition h264MaxSPSID :: "64 word" where "h264MaxSPSID = 31"
definition h264MaxPPSID :: "64 word" where "h264MaxPPSID = 255"

lemmas h264_consts = h264BitsPerByte_def h264HighBitOffset_def h264MaxExpGolombZeros_def
  h264MinSPSBytes_def h264SPSHeaderBits_def h264MaxSPSID_def h264MaxPPSID_def

record h264Bits =
  data :: "byte list"
  bit_pos :: nat

text \<open>One iteration of the loop of \<open>h264RBSP\<close>: \<open>acc\<close> is the output so far.\<close>

definition rbsp_step :: "byte list \<Rightarrow> byte \<Rightarrow> byte list" where
  "rbsp_step acc v =
     (if length acc \<ge> 2 \<and> acc ! (length acc - 2) = 0 \<and> acc ! (length acc - 1) = 0 \<and> v = 3
      then acc else acc @ [v])"

definition h264RBSP :: "byte list \<Rightarrow> h264Bits" where
  "h264RBSP nalu = \<lparr>data = foldl rbsp_step [] (drop 1 nalu), bit_pos = 0\<rparr>"

definition bitValue :: "h264Bits \<Rightarrow> (64 word \<times> h264Bits) option" where
  "bitValue b =
     (if bit_pos b \<ge> length (data b) * h264BitsPerByte then None
      else Some (ucast (drop_bit (h264HighBitOffset - bit_pos b mod h264BitsPerByte)
                          (data b ! (bit_pos b div h264BitsPerByte)) AND 1),
                 b\<lparr>bit_pos := bit_pos b + 1\<rparr>))"

definition skip :: "nat \<Rightarrow> h264Bits \<Rightarrow> h264Bits option" where
  "skip count b =
     (if bit_pos b + count > length (data b) * h264BitsPerByte then None
      else Some (b\<lparr>bit_pos := bit_pos b + count\<rparr>))"

function ue_zeros :: "nat \<Rightarrow> h264Bits \<Rightarrow> (nat \<times> h264Bits) option" where
  "ue_zeros zeros b =
     (case bitValue b of
        None \<Rightarrow> None
      | Some (v, b') \<Rightarrow>
          if v \<noteq> 0 then Some (zeros, b')
          else if zeros + 1 > h264MaxExpGolombZeros then None
          else ue_zeros (zeros + 1) b')"
  by pat_completeness auto
termination
  by (relation "measure (\<lambda>(z, b). h264MaxExpGolombZeros - z)") (auto simp: h264_consts)

declare ue_zeros.simps [simp del]

fun ue_suffix :: "nat \<Rightarrow> 64 word \<Rightarrow> h264Bits \<Rightarrow> (64 word \<times> h264Bits) option" where
  "ue_suffix 0 v b = Some (v, b)"
| "ue_suffix (Suc n) v b =
     (case bitValue b of None \<Rightarrow> None
      | Some (x, b') \<Rightarrow> ue_suffix n (push_bit 1 v OR x) b')"

definition ue :: "h264Bits \<Rightarrow> (64 word \<times> h264Bits) option" where
  "ue b =
     (case ue_zeros 0 b of None \<Rightarrow> None
      | Some (zeros, b1) \<Rightarrow>
          (case ue_suffix zeros 1 b1 of None \<Rightarrow> None | Some (v, b2) \<Rightarrow> Some (v - 1, b2)))"

section \<open>Parameter-set ids\<close>

text \<open>The Go functions return an id and a flag; callers read the id only when the flag is set.\<close>

definition h264SPSID :: "byte list \<Rightarrow> 64 word option" where
  "h264SPSID nalu =
     (if length nalu < h264MinSPSBytes then None
      else case skip h264SPSHeaderBits (h264RBSP nalu) of None \<Rightarrow> None
           | Some b \<Rightarrow> (case ue b of None \<Rightarrow> None
                        | Some (spsid, _) \<Rightarrow> if spsid \<le> h264MaxSPSID then Some spsid else None))"

definition h264PPSIDs :: "byte list \<Rightarrow> (64 word \<times> 64 word) option" where
  "h264PPSIDs nalu =
     (if length nalu < 2 then None
      else case ue (h264RBSP nalu) of None \<Rightarrow> None
           | Some (ppsID, b) \<Rightarrow>
               (case ue b of None \<Rightarrow> None
                | Some (spsID, _) \<Rightarrow>
                    if ppsID \<le> h264MaxPPSID \<and> spsID \<le> h264MaxSPSID then Some (ppsID, spsID) else None))"

definition h264SlicePPSID :: "byte list \<Rightarrow> 64 word option" where
  "h264SlicePPSID nalu =
     (if length nalu < 2 then None
      else case ue (h264RBSP nalu) of None \<Rightarrow> None
           | Some (_, b) \<Rightarrow>
               (case ue b of None \<Rightarrow> None
                | Some (_, b') \<Rightarrow>
                    (case ue b' of None \<Rightarrow> None
                     | Some (ppsid, _) \<Rightarrow> if ppsid \<le> h264MaxPPSID then Some ppsid else None)))"

section \<open>Bit lists\<close>

definition byte_bits :: "byte \<Rightarrow> bool list" where
  "byte_bits w = map (\<lambda>i. bit w (7 - i)) [0..<8]"

definition stream_bits :: "h264Bits \<Rightarrow> bool list" where
  "stream_bits b = drop (bit_pos b) (concat (map byte_bits (data b)))"

lemma length_byte_bits [simp]: "length (byte_bits w) = 8"
  by (simp add: byte_bits_def)

lemma length_concat_bits [simp]: "length (concat (map byte_bits ws)) = 8 * length ws"
  by (induction ws) auto

lemma nth_concat_bits:
  "i < 8 * length ws \<Longrightarrow> concat (map byte_bits ws) ! i = bit (ws ! (i div 8)) (7 - i mod 8)"
proof (induction ws arbitrary: i)
  case Nil
  then show ?case by simp
next
  case (Cons w ws)
  show ?case
  proof (cases "i < 8")
    case True
    then show ?thesis by (simp add: nth_append byte_bits_def)
  next
    case False
    then have "i = 8 + (i - 8)" by simp
    then obtain j where i: "i = j + 8" by (metis add.commute)
    with Cons.prems have "j < 8 * length ws" by simp
    moreover have "(j + 8) div 8 = Suc (j div 8)" by simp
    ultimately show ?thesis using Cons.IH i by (simp add: nth_append)
  qed
qed

lemma drop_bit_and_1: "drop_bit n w AND 1 = of_bool (bit w n)" for w :: byte
  by (simp add: and_one_eq bit_iff_odd_drop_bit odd_iff_mod_2_eq_one)

text \<open>The reader refines the head of the bit list.\<close>

lemma bitValue_None: "bitValue b = None \<longleftrightarrow> stream_bits b = []"
  by (auto simp: bitValue_def stream_bits_def h264_consts)

lemma bitValue_Some:
  assumes "stream_bits b = x # xs"
  obtains b' where "bitValue b = Some (of_bool x, b')" and "stream_bits b' = xs" and "data b' = data b"
proof -
  let ?bs = "concat (map byte_bits (data b))"
  have lt: "bit_pos b < 8 * length (data b)"
    using assms by (auto simp: stream_bits_def intro: ccontr)
  then have dr: "drop (bit_pos b) ?bs = ?bs ! bit_pos b # drop (Suc (bit_pos b)) ?bs"
    by (simp add: Cons_nth_drop_Suc)
  with assms have x: "x = bit (data b ! (bit_pos b div 8)) (7 - bit_pos b mod 8)"
    and xs: "xs = drop (Suc (bit_pos b)) ?bs"
    using nth_concat_bits [OF lt] by (auto simp: stream_bits_def)
  show thesis
  proof (rule that [of "b\<lparr>bit_pos := bit_pos b + 1\<rparr>"])
    show "bitValue b = Some (of_bool x, b\<lparr>bit_pos := bit_pos b + 1\<rparr>)"
      using lt x by (cases x) (simp_all add: bitValue_def h264_consts drop_bit_and_1)
  qed (simp_all add: xs stream_bits_def)
qed

text \<open>The specification: \<open>k\<close> zeros, a one, and \<open>k\<close> more bits, read as a binary numeral minus one.\<close>

definition bits_nat :: "nat \<Rightarrow> bool list \<Rightarrow> nat" where
  "bits_nat acc bs = foldl (\<lambda>a b. 2 * a + of_bool b) acc bs"

definition ue_spec :: "bool list \<Rightarrow> (nat \<times> bool list) option" where
  "ue_spec bs =
     (let k = length (takeWhile Not bs); rest = drop (Suc k) bs in
      if k < length bs \<and> k \<le> 31 \<and> k \<le> length rest
      then Some (bits_nat 1 (take k rest) - 1, drop k rest) else None)"

lemma bits_nat_bounds:
  "acc * 2 ^ length bs \<le> bits_nat acc bs \<and> bits_nat acc bs < (acc + 1) * 2 ^ length bs"
proof (induction bs arbitrary: acc)
  case Nil
  then show ?case by (simp add: bits_nat_def)
next
  case (Cons b bs)
  have "bits_nat acc (b # bs) = bits_nat (2 * acc + of_bool b) bs" by (simp add: bits_nat_def)
  with Cons [of "2 * acc + of_bool b"] show ?case
    by (cases b) (auto simp: algebra_simps)
qed


lemma bits_nat_Cons: "bits_nat acc (b # bs) = bits_nat (2 * acc + of_bool b) bs"
  by (simp add: bits_nat_def)

lemma bits_nat_append: "bits_nat acc (xs @ ys) = bits_nat (bits_nat acc xs) ys"
  by (simp add: bits_nat_def)

section \<open>The reader meets the specification\<close>

lemma ue_zeros_Some:
  "stream_bits b = replicate k False @ True # rest \<Longrightarrow> zeros + k \<le> 31 \<Longrightarrow>
   \<exists>b'. ue_zeros zeros b = Some (zeros + k, b') \<and> stream_bits b' = rest"
proof (induction k arbitrary: zeros b)
  case 0
  then obtain b' where "bitValue b = Some (1, b')" "stream_bits b' = rest"
    by (auto elim!: bitValue_Some)
  then show ?case by (subst ue_zeros.simps) simp
next
  case (Suc k)
  from Suc.prems obtain b' where b': "bitValue b = Some (0, b')"
      "stream_bits b' = replicate k False @ True # rest"
    by (auto elim!: bitValue_Some)
  with Suc.IH [of b' "Suc zeros"] Suc.prems(2) show ?case
    by (subst ue_zeros.simps) (simp add: h264_consts)
qed

lemma ue_zeros_None:
  "zeros \<le> 31 \<Longrightarrow>
   \<not> (\<exists>k rest. stream_bits b = replicate k False @ True # rest \<and> zeros + k \<le> 31) \<Longrightarrow>
   ue_zeros zeros b = None"
proof (induction zeros b rule: ue_zeros.induct)
  case (1 zeros b)
  show ?case
  proof (cases "stream_bits b")
    case Nil
    then show ?thesis by (subst ue_zeros.simps) (simp add: bitValue_None [THEN iffD2])
  next
    case (Cons x xs)
    then obtain b' where b': "bitValue b = Some (of_bool x, b')" "stream_bits b' = xs"
      by (auto elim!: bitValue_Some)
    have "x = False"
      using "1.prems" Cons by (metis add.right_neutral append_Nil replicate_0)
    have "\<not> (\<exists>k rest. stream_bits b' = replicate k False @ True # rest \<and> zeros + 1 + k \<le> 31)"
    proof
      assume "\<exists>k rest. stream_bits b' = replicate k False @ True # rest \<and> zeros + 1 + k \<le> 31"
      then obtain k rest where "stream_bits b' = replicate k False @ True # rest" "zeros + 1 + k \<le> 31"
        by blast
      with Cons b'(2) \<open>x = False\<close>
      have "stream_bits b = replicate (Suc k) False @ True # rest \<and> zeros + Suc k \<le> 31" by simp
      with "1.prems"(2) show False by blast
    qed
    with "1.IH" [OF b'(1) refl] \<open>x = False\<close> b'(1) show ?thesis
      by (subst ue_zeros.simps) (auto simp: h264_consts)
  qed
qed

lemma push_bit_or_bit: "push_bit 1 v OR of_bool x = 2 * v + of_bool x" for v :: "64 word"
  by (cases x) (simp_all add: or_one_eq push_bit_eq_mult)

lemma unat_push_bit_or:
  "2 * unat v + 1 < 2 ^ 64 \<Longrightarrow> unat (push_bit 1 v OR of_bool x) = 2 * unat v + of_bool x"
  for v :: "64 word"
  unfolding push_bit_or_bit by (cases x) (simp_all add: unat_word_ariths)

lemma ue_suffix_Some:
  "n \<le> length (stream_bits b) \<Longrightarrow> (unat v + 1) * 2 ^ n \<le> 2 ^ 64 \<Longrightarrow>
   \<exists>w b'. ue_suffix n v b = Some (w, b') \<and> unat w = bits_nat (unat v) (take n (stream_bits b))
     \<and> stream_bits b' = drop n (stream_bits b)"
proof (induction n arbitrary: v b)
  case 0
  then show ?case by (simp add: bits_nat_def)
next
  case (Suc n)
  then obtain x xs where x: "stream_bits b = x # xs" by (cases "stream_bits b") auto
  then obtain b' where b': "bitValue b = Some (of_bool x, b')" "stream_bits b' = xs"
    by (auto elim!: bitValue_Some)
  let ?w = "push_bit 1 v OR of_bool x"
  have "1 \<le> (2 :: nat) ^ n" by simp
  then have "2 \<le> (2 :: nat) ^ Suc n" by simp
  then have "(unat v + 1) * 2 \<le> (unat v + 1) * 2 ^ Suc n" by (rule mult_le_mono2)
  from this Suc.prems(2) have "(unat v + 1) * 2 \<le> 2 ^ 64" by (rule order_trans)
  then have "2 * unat v + 1 < 2 ^ 64" by simp
  then have w: "unat ?w = 2 * unat v + of_bool x" by (rule unat_push_bit_or)
  then have "(unat ?w + 1) \<le> 2 * (unat v + 1)" by (cases x) auto
  then have "(unat ?w + 1) * 2 ^ n \<le> 2 * (unat v + 1) * 2 ^ n" by (rule mult_le_mono1)
  with Suc.prems(2) have "(unat ?w + 1) * 2 ^ n \<le> 2 ^ 64" by (simp add: algebra_simps)
  with Suc.IH [of b' ?w] Suc.prems(1) x b' w show ?case
    by (auto simp: bits_nat_Cons)
qed

lemma ue_suffix_None: "length (stream_bits b) < n \<Longrightarrow> ue_suffix n v b = None"
proof (induction n arbitrary: v b)
  case 0
  then show ?case by simp
next
  case (Suc n)
  show ?case
  proof (cases "stream_bits b")
    case Nil
    then show ?thesis by (simp add: bitValue_None [THEN iffD2])
  next
    case (Cons x xs)
    then obtain b' where "bitValue b = Some (of_bool x, b')" "stream_bits b' = xs"
      by (auto elim!: bitValue_Some)
    with Suc Cons show ?thesis by simp
  qed
qed

lemma ue_prefix_split:
  assumes "length (takeWhile Not bs) < length bs"
  shows "bs = replicate (length (takeWhile Not bs)) False @ True # drop (Suc (length (takeWhile Not bs))) bs"
proof -
  let ?k = "length (takeWhile Not bs)"
  have "takeWhile Not bs = replicate ?k False"
    by (rule replicate_eqI) (auto dest: set_takeWhileD)
  moreover have "drop ?k bs = True # drop (Suc ?k) bs"
    using assms nth_length_takeWhile [OF assms] by (simp add: Cons_nth_drop_Suc [symmetric])
  ultimately show ?thesis
    by (metis append_take_drop_id takeWhile_eq_take)
qed

lemma takeWhile_zeros: "takeWhile Not (replicate k False @ True # rest) = replicate k False"
  by (induction k) auto

lemma ue_spec_None_iff:
  "ue_spec bs = None \<longleftrightarrow>
   \<not> (\<exists>k rest. bs = replicate k False @ True # rest \<and> k \<le> 31 \<and> k \<le> length rest)"
proof
  assume none: "ue_spec bs = None"
  show "\<not> (\<exists>k rest. bs = replicate k False @ True # rest \<and> k \<le> 31 \<and> k \<le> length rest)"
  proof
    assume "\<exists>k rest. bs = replicate k False @ True # rest \<and> k \<le> 31 \<and> k \<le> length rest"
    then obtain k rest where "bs = replicate k False @ True # rest" "k \<le> 31" "k \<le> length rest"
      by blast
    with none show False by (simp add: ue_spec_def Let_def takeWhile_zeros)
  qed
next
  assume r: "\<not> (\<exists>k rest. bs = replicate k False @ True # rest \<and> k \<le> 31 \<and> k \<le> length rest)"
  let ?k = "length (takeWhile Not bs)"
  have "\<not> (?k < length bs \<and> ?k \<le> 31 \<and> ?k \<le> length (drop (Suc ?k) bs))"
    using r ue_prefix_split [of bs] by blast
  then show "ue_spec bs = None" by (simp only: ue_spec_def Let_def if_False)
qed

lemma ue_spec_Some:
  "k \<le> 31 \<Longrightarrow> k \<le> length rest \<Longrightarrow>
   ue_spec (replicate k False @ True # rest) = Some (bits_nat 1 (take k rest) - 1, drop k rest)"
  by (simp add: ue_spec_def Let_def takeWhile_zeros)

lemma ue_meets_spec:
  "map_option (\<lambda>(v, b'). (unat v, stream_bits b')) (ue b) = ue_spec (stream_bits b)"
proof (cases "\<exists>k rest. stream_bits b = replicate k False @ True # rest \<and> k \<le> 31")
  case True
  then obtain k rest where bs: "stream_bits b = replicate k False @ True # rest" and k: "k \<le> 31"
    by blast
  then obtain b1 where b1: "ue_zeros 0 b = Some (k, b1)" "stream_bits b1 = rest"
    using ue_zeros_Some [of b k rest 0] by auto
  show ?thesis
  proof (cases "k \<le> length rest")
    case True
    have "(2 :: nat) ^ Suc k \<le> 2 ^ 64" using k by (intro power_increasing) auto
    then obtain w b2 where w: "ue_suffix k 1 b1 = Some (w, b2)"
        "unat w = bits_nat 1 (take k rest)" "stream_bits b2 = drop k rest"
      using ue_suffix_Some [of k b1 1] True b1(2) by auto
    have "1 * 2 ^ length (take k rest) \<le> unat w"
      unfolding w(2) using bits_nat_bounds [of 1 "take k rest"] by blast
    then have "1 \<le> unat w" by (metis le_trans mult_1 one_le_numeral one_le_power)
    then have "unat (w - 1) = unat w - 1" by (simp add: unat_sub_if')
    with bs k True b1(1) w show ?thesis by (simp add: ue_def ue_spec_Some)
  next
    case False
    with b1 have "ue b = None" by (simp add: ue_def ue_suffix_None)
    moreover from False bs k have "ue_spec (stream_bits b) = None"
      by (simp add: ue_spec_def Let_def takeWhile_zeros)
    ultimately show ?thesis by simp
  qed
next
  case False
  then have "ue_zeros 0 b = None" by (intro ue_zeros_None) auto
  then have "ue b = None" by (simp add: ue_def)
  moreover from False have "ue_spec (stream_bits b) = None" by (subst ue_spec_None_iff) blast
  ultimately show ?thesis by simp
qed


text \<open>\<open>ue\<close> decodes exactly the Exp-Golomb codes of at most 31 leading zeros: on every reader state
  it fails when the specification on the remaining bits fails, and otherwise returns the specified value
  and leaves exactly the specified remaining bits. The 64-bit accumulator never wraps.\<close>

theorem ue_refines_spec:
  "map_option (\<lambda>(v, b'). (unat v, stream_bits b')) (ue b) = ue_spec (stream_bits b)"
  by (rule ue_meets_spec)

section \<open>Encoding\<close>

text \<open>The encoder's side: the binary digits of \<open>n + 1\<close>, preceded by one zero for each digit but the first.\<close>

fun nat_bits :: "nat \<Rightarrow> bool list" where
  "nat_bits n = (if n \<le> 1 then [True] else nat_bits (n div 2) @ [odd n])"

declare nat_bits.simps [simp del]

definition ue_code :: "nat \<Rightarrow> bool list" where
  "ue_code n = (let ds = nat_bits (n + 1) in replicate (length ds - 1) False @ ds)"

lemma nat_bits_Cons: "\<exists>ds. nat_bits n = True # ds"
proof (induction n rule: nat_bits.induct)
  case (1 n)
  then show ?case by (subst nat_bits.simps) auto
qed

lemma bits_nat_nat_bits: "0 < n \<Longrightarrow> bits_nat 1 (tl (nat_bits n)) = n"
proof (induction n rule: nat_bits.induct)
  case (1 n)
  show ?case
  proof (cases "n \<le> 1")
    case True
    with "1.prems" show ?thesis by (subst nat_bits.simps) (simp add: bits_nat_def)
  next
    case False
    with "1.IH" have IH: "bits_nat 1 (tl (nat_bits (n div 2))) = n div 2" by auto
    obtain ds where ds: "nat_bits (n div 2) = True # ds" using nat_bits_Cons by blast
    have "nat_bits n = nat_bits (n div 2) @ [odd n]" using False by (subst nat_bits.simps) simp
    with ds IH show ?thesis
      by (simp add: bits_nat_append bits_nat_Cons bits_nat_def [of "_" "[]"])
  qed
qed

lemma length_nat_bits: "0 < n \<Longrightarrow> n < 2 ^ k \<Longrightarrow> length (nat_bits n) \<le> k"
proof (induction n arbitrary: k rule: nat_bits.induct)
  case (1 n)
  obtain k' where k: "k = Suc k'" using "1.prems" by (cases k) auto
  show ?case
  proof (cases "n \<le> 1")
    case True
    with k show ?thesis by (subst nat_bits.simps) simp
  next
    case False
    with "1.prems" k have "n div 2 < 2 ^ k'" "0 < n div 2" by auto
    with "1.IH" False have "length (nat_bits (n div 2)) \<le> k'" by auto
    with False k show ?thesis by (subst nat_bits.simps) simp
  qed
qed

text \<open>Every Exp-Golomb code of a value below \<open>2\<^sup>3\<^sup>2 - 1\<close>, at any bit offset, is read back by \<open>ue\<close>
  as that value, and the reader stops exactly behind the code.\<close>

theorem ue_roundtrip:
  assumes "stream_bits b = ue_code n @ rest" and "n < 2 ^ 32 - 1"
  shows "map_option (\<lambda>(v, b'). (unat v, stream_bits b')) (ue b) = Some (n, rest)"
proof -
  obtain ds where ds: "nat_bits (n + 1) = True # ds" using nat_bits_Cons by blast
  have "length (nat_bits (n + 1)) \<le> 32" using assms(2) by (intro length_nat_bits) auto
  with ds have len: "length ds \<le> 31" by simp
  have "stream_bits b = replicate (length ds) False @ True # (ds @ rest)"
    using assms(1) ds by (simp add: ue_code_def Let_def)
  moreover have "bits_nat 1 ds = n + 1" using bits_nat_nat_bits [of "n + 1"] ds by simp
  ultimately have "ue_spec (stream_bits b) = Some (n, rest)"
    using ue_spec_Some [OF len, of "ds @ rest"] by simp
  then show ?thesis by (simp add: ue_meets_spec)
qed

theorem ue_roundtrip_witness:
  "map_option (\<lambda>(v, b'). (unat v, stream_bits b')) (ue \<lparr>data = [0x60], bit_pos = 0\<rparr>)
     = Some (2, [False, False, False, False, False])"
proof (rule ue_roundtrip)
  show "stream_bits \<lparr>data = [0x60], bit_pos = 0\<rparr> = ue_code 2 @ [False, False, False, False, False]"
    by (simp add: stream_bits_def byte_bits_def ue_code_def nat_bits.simps upt_rec bit_numeral_simps)
qed simp

section \<open>Emulation prevention\<close>

text \<open>
  What an encoder does to a payload: behind two zero bytes, a byte of at most 3 is preceded by an
  inserted 3. The count of zeros restarts behind the inserted byte.
\<close>

fun escape_zeros :: "nat \<Rightarrow> byte list \<Rightarrow> byte list" where
  "escape_zeros z [] = []"
| "escape_zeros z (x # xs) =
     (if z \<ge> 2 \<and> x \<le> 3 then 3 # x # escape_zeros (if x = 0 then 1 else 0) xs
      else x # escape_zeros (if x = 0 then z + 1 else 0) xs)"

fun has_003 :: "byte list \<Rightarrow> bool" where
  "has_003 (a # b # c # xs) \<longleftrightarrow> a = 0 \<and> b = 0 \<and> c = 3 \<or> has_003 (b # c # xs)"
| "has_003 _ = False"

definition ends_00 :: "byte list \<Rightarrow> bool" where
  "ends_00 acc \<longleftrightarrow> length acc \<ge> 2 \<and> acc ! (length acc - 2) = 0 \<and> acc ! (length acc - 1) = 0"


lemma rbsp_step_alt: "rbsp_step acc v = (if ends_00 acc \<and> v = 3 then acc else acc @ [v])"
  by (simp add: rbsp_step_def ends_00_def)

lemma ends_00_snoc: "ends_00 (acc @ [x]) \<longleftrightarrow> acc \<noteq> [] \<and> last acc = 0 \<and> x = 0"
  by (cases acc rule: rev_cases) (auto simp: ends_00_def nth_append)

text \<open>\<open>z\<close> zeros counted by the encoder are at the end of the decoder's output.\<close>

definition counted_zeros :: "nat \<Rightarrow> byte list \<Rightarrow> bool" where
  "counted_zeros z acc \<longleftrightarrow>
     (z \<noteq> 0 \<longrightarrow> acc \<noteq> [] \<and> last acc = 0) \<and> (2 \<le> z \<longrightarrow> ends_00 acc)"

lemma rbsp_escape:
  "counted_zeros z acc \<Longrightarrow> foldl rbsp_step acc (escape_zeros z xs) = foldl rbsp_step acc xs"
proof (induction z xs arbitrary: acc rule: escape_zeros.induct)
  case (1 z)
  then show ?case by simp
next
  case (2 z x xs)
  show ?case
  proof (cases "z \<ge> 2 \<and> x \<le> 3")
    case True
    with "2.prems" have e: "ends_00 acc" by (simp add: counted_zeros_def)
    have "counted_zeros (if x = 0 then 1 else 0) (rbsp_step acc x)"
      by (simp add: counted_zeros_def rbsp_step_alt)
    with "2.IH"(1) True e show ?thesis by (simp add: rbsp_step_alt)
  next
    case False
    have "counted_zeros (if x = 0 then z + 1 else 0) (rbsp_step acc x)"
      using "2.prems" by (auto simp: counted_zeros_def rbsp_step_alt ends_00_snoc)
    with "2.IH"(2) [OF False] show ?thesis
      by (simp only: escape_zeros.simps if_not_P [OF False] foldl_Cons)
  qed
qed

fun drops_3 :: "byte list \<Rightarrow> byte list \<Rightarrow> bool" where
  "drops_3 acc [] = False"
| "drops_3 acc (x # xs) \<longleftrightarrow> ends_00 acc \<and> x = 3 \<or> drops_3 (acc @ [x]) xs"

lemma length_rbsp: "length (foldl rbsp_step acc xs) \<le> length acc + length xs"
proof (induction xs arbitrary: acc)
  case Nil
  then show ?case by simp
next
  case (Cons x xs)
  from Cons [of "rbsp_step acc x"] show ?case by (auto simp: rbsp_step_alt split: if_splits)
qed

lemma rbsp_id_iff: "foldl rbsp_step acc xs = acc @ xs \<longleftrightarrow> \<not> drops_3 acc xs"
proof (induction xs arbitrary: acc)
  case Nil
  then show ?case by simp
next
  case (Cons x xs)
  show ?case
  proof (cases "ends_00 acc \<and> x = 3")
    case True
    then have "length (foldl rbsp_step acc (x # xs)) < length (acc @ x # xs)"
      using length_rbsp [of acc xs] by (simp add: rbsp_step_alt)
    with True show ?thesis by auto
  next
    case False
    then have "rbsp_step acc x = acc @ [x]" by (simp add: rbsp_step_alt)
    with Cons [of "acc @ [x]"] False show ?thesis by auto
  qed
qed

lemma ends_00_two: "ends_00 (acc @ [a, b]) \<longleftrightarrow> a = 0 \<and> b = 0"
  using ends_00_snoc [of "acc @ [a]" b] by simp

lemma drops_3_two: "drops_3 (acc @ [a, b]) xs \<longleftrightarrow> has_003 (a # b # xs)"
proof (induction xs arbitrary: acc a b)
  case Nil
  then show ?case by simp
next
  case (Cons x xs)
  from Cons [of "acc @ [a]" b x] show ?case by (simp add: ends_00_two)
qed

lemma drops_3_Nil: "drops_3 [] xs \<longleftrightarrow> has_003 xs"
proof (cases xs)
  case (Cons a ys)
  then show ?thesis
    using drops_3_two [of "[]" a] by (cases ys) (auto simp: ends_00_def)
qed simp

text \<open>C18: \<open>h264RBSP\<close> undoes the encoder's escaping exactly for the payloads that do not themselves hold
  the bytes 00 00 03. A payload with those bytes loses the 3, because the filter looks for the two zeros
  in its output and not in the input.\<close>

theorem h264RBSP_escape_iff:
  "data (h264RBSP (header # escape_zeros 0 payload)) = payload \<longleftrightarrow> \<not> has_003 payload"
  using rbsp_escape [of 0 "[]" payload] rbsp_id_iff [of "[]" payload]
  by (simp add: h264RBSP_def counted_zeros_def drops_3_Nil)

section \<open>Bounds of the ids\<close>

text \<open>The ids that the readers return are in the ranges of the standard, so they index at most 32
  sequence and 256 picture parameter sets.\<close>

lemma h264_ids_bounded:
  "pred_option (\<lambda>i. unat i \<le> 31) (h264SPSID nalu)
   \<and> pred_option (\<lambda>(p, s). unat p \<le> 255 \<and> unat s \<le> 31) (h264PPSIDs nalu)
   \<and> pred_option (\<lambda>i. unat i \<le> 255) (h264SlicePPSID nalu)"
  by (auto simp: h264SPSID_def h264PPSIDs_def h264SlicePPSID_def h264_consts word_le_nat_alt
      split: option.splits)

end
