(* ===== verification/H264Writer.thy ===== *)
theory H264Writer
  imports H264Bits GoErrors
begin

text \<open>
  \<open>cmd/go-ring/h264_writer.go\<close>: the writer that forwards complete H.264 access units. The RTP
  depacketizer (package \<open>pion/rtp/codecs\<close>) and the output stream are not part of the repository, so they
  are the fields of \<open>h264_lib\<close>: a fresh depacketizer state, its \<open>Unmarshal\<close> and \<open>IsPartitionHead\<close>, and the
  stream's \<open>Write\<close> and optional \<open>Close\<close>. The lemmas show the invariant of the writer's tables and buffer,
  what each access unit writes, and that a loss silences the writer until the next decodable IDR unit.
\<close>

section \<open>State\<close>

record ('d, 'w) h264_lib =
  dep_fresh :: 'd
  dep_unmarshal :: "'d \<Rightarrow> byte list \<Rightarrow> byte list option \<times> 'd"
  dep_is_head :: "byte list \<Rightarrow> bool"
  out_write :: "'w \<Rightarrow> byte list \<Rightarrow> goerr option \<times> 'w"
  out_close :: "('w \<Rightarrow> goerr option \<times> 'w) option"

record rtp_packet =
  rtp_payload :: "byte list"
  rtp_timestamp :: "32 word"
  rtp_sequence :: "16 word"
  rtp_marker :: bool

record h264PPSInfo =
  pps_spsID :: "64 word"
  pps_data :: "byte list"

record ('d, 'w) h264FrameWriter =
  hw_output :: 'w
  hw_depacketizer :: 'd
  hw_frame :: "byte list"
  hw_sps :: "64 word \<rightharpoonup> byte list"
  hw_pps :: "64 word \<rightharpoonup> h264PPSInfo"
  hw_timestamp :: "32 word"
  hw_sequence :: "16 word"
  hw_haveTime :: bool
  hw_haveSequence :: bool
  hw_damaged :: bool
  hw_ready :: bool

definition h264NALType :: "byte \<Rightarrow> byte" where "h264NALType b = b AND 0x1f"
definition h264SPS :: byte where "h264SPS = 7"
definition h264PPS :: byte where "h264PPS = 8"
definition h264IDR :: byte where "h264IDR = 5"
definition h264STAPA :: byte where "h264STAPA = 24"
definition h264FUA :: byte where "h264FUA = 28"
definition minFUAPayloadSize :: nat where "minFUAPayloadSize = 3"
definition maxH264FrameBytes :: nat where "maxH264FrameBytes = 8 * 2 ^ 20"
definition h264StartCode :: "byte list" where "h264StartCode = [0, 0, 0, 1]"

lemmas h264_writer_consts = h264SPS_def h264PPS_def h264IDR_def h264STAPA_def h264FUA_def
  minFUAPayloadSize_def

definition newH264FrameWriter :: "('d, 'w) h264_lib \<Rightarrow> 'w \<Rightarrow> ('d, 'w) h264FrameWriter" where
  "newH264FrameWriter L out =
     \<lparr>hw_output = out, hw_depacketizer = dep_fresh L, hw_frame = [], hw_sps = Map.empty,
      hw_pps = Map.empty, hw_timestamp = 0, hw_sequence = 0, hw_haveTime = False,
      hw_haveSequence = False, hw_damaged = False, hw_ready = False\<rparr>"

section \<open>Payloads\<close>

text \<open>The loop over the units of an aggregation packet, from the given offset on.\<close>

definition be16 :: "byte \<Rightarrow> byte \<Rightarrow> nat" where
  "be16 hi lo = unat hi * 256 + unat lo"

function stapa_units :: "byte list \<Rightarrow> nat \<Rightarrow> bool" where
  "stapa_units payload offset =
     (if offset < length payload then
        (if offset + 2 > length payload then False
         else let n = be16 (payload ! offset) (payload ! (offset + 1)) in
           if n = 0 \<or> offset + 2 + n > length payload then False
           else stapa_units payload (offset + 2 + n))
      else True)"
  by pat_completeness auto
termination
  by (relation "measure (\<lambda>(p, i). length p - i)") (auto simp: Let_def)

declare stapa_units.simps [simp del]

definition validH264Payload :: "byte list \<Rightarrow> bool" where
  "validH264Payload payload =
     (if length payload = 0 then False
      else let kind = h264NALType (payload ! 0) in
        if kind > 0 \<and> kind < h264STAPA then True
        else if kind = h264FUA then length payload \<ge> minFUAPayloadSize
        else if kind = h264STAPA then stapa_units payload 1
        else False)"

definition appendPacketPayload ::
  "('d, 'w) h264_lib \<Rightarrow> byte list \<Rightarrow> ('d, 'w) h264FrameWriter \<Rightarrow> ('d, 'w) h264FrameWriter" where
  "appendPacketPayload L payload w =
     (if \<not> validH264Payload payload then w\<lparr>hw_damaged := True\<rparr>
      else let (res, d) = dep_unmarshal L (hw_depacketizer w) payload;
               w1 = w\<lparr>hw_depacketizer := d\<rparr> in
        case res of
          None \<Rightarrow> w1\<lparr>hw_damaged := True\<rparr>
        | Some bs \<Rightarrow>
            if length (hw_frame w) + length bs > maxH264FrameBytes then w1\<lparr>hw_damaged := True\<rparr>
            else w1\<lparr>hw_frame := hw_frame w @ bs\<rparr>)"

section \<open>Access units\<close>

text \<open>\<open>bytes.Split\<close> with a non-empty separator: the pieces between its leftmost, disjoint occurrences.\<close>

function bytes_split :: "byte list \<Rightarrow> byte list \<Rightarrow> byte list \<Rightarrow> byte list list" where
  "bytes_split sep cur s =
     (if s = [] then [rev cur]
      else if sep \<noteq> [] \<and> take (length sep) s = sep then rev cur # bytes_split sep [] (drop (length sep) s)
      else bytes_split sep (hd s # cur) (tl s))"
  by pat_completeness auto
termination
  by (relation "measure (\<lambda>(sep, cur, s). length s)") (auto simp: neq_Nil_conv)

declare bytes_split.simps [simp del]

text \<open>
  One unit of the loop of \<open>collectParameterReferences\<close>: the accumulated references and IDR flag, or None
  when the unit is invalid. The tables keep what earlier units stored also when a later one is invalid.
\<close>

definition collect_unit ::
  "byte list \<Rightarrow> ('d, 'w) h264FrameWriter \<Rightarrow> 64 word list \<times> bool \<Rightarrow>
   (64 word list \<times> bool) option \<times> ('d, 'w) h264FrameWriter" where
  "collect_unit nalu w acc =
     (let (refs, idr) = acc in
      if length nalu = 0 then (Some (refs, idr), w)
      else let kind = h264NALType (nalu ! 0) in
        if kind = h264SPS then
          (case h264SPSID nalu of None \<Rightarrow> (None, w)
           | Some i \<Rightarrow> (Some (refs, idr), w\<lparr>hw_sps := (hw_sps w)(i \<mapsto> nalu)\<rparr>))
        else if kind = h264PPS then
          (case h264PPSIDs nalu of None \<Rightarrow> (None, w)
           | Some (i, s) \<Rightarrow>
               (Some (refs, idr), w\<lparr>hw_pps := (hw_pps w)(i \<mapsto> \<lparr>pps_spsID = s, pps_data = nalu\<rparr>)\<rparr>))
        else if kind = h264IDR \<or> kind = 1 then
          (case h264SlicePPSID nalu of None \<Rightarrow> (None, w)
           | Some i \<Rightarrow> (Some (refs @ [i], idr \<or> kind = h264IDR), w))
        else (Some (refs, idr), w))"

fun collect_units ::
  "byte list list \<Rightarrow> ('d, 'w) h264FrameWriter \<Rightarrow> 64 word list \<times> bool \<Rightarrow>
   (64 word list \<times> bool) option \<times> ('d, 'w) h264FrameWriter" where
  "collect_units [] w acc = (Some acc, w)"
| "collect_units (nalu # nalus) w acc =
     (case collect_unit nalu w acc of
        (None, w') \<Rightarrow> (None, w')
      | (Some acc', w') \<Rightarrow> collect_units nalus w' acc')"

definition collectParameterReferences ::
  "byte list list \<Rightarrow> ('d, 'w) h264FrameWriter \<Rightarrow>
   (64 word list \<times> bool) option \<times> ('d, 'w) h264FrameWriter" where
  "collectParameterReferences nalus w = collect_units nalus w ([], False)"

definition sps_of :: "('d, 'w) h264FrameWriter \<Rightarrow> 64 word \<Rightarrow> byte list" where
  "sps_of w i = (case hw_sps w i of None \<Rightarrow> [] | Some d \<Rightarrow> d)"

definition hasReferencedParameterSets :: "64 word list \<Rightarrow> ('d, 'w) h264FrameWriter \<Rightarrow> bool" where
  "hasReferencedParameterSets references w =
     list_all (\<lambda>i. case hw_pps w i of None \<Rightarrow> False | Some info \<Rightarrow> sps_of w (pps_spsID info) \<noteq> [])
       references"

text \<open>Writes in order, up to the first that fails; \<open>msgs\<close> names each write for its error.\<close>

fun write_all ::
  "('w \<Rightarrow> byte list \<Rightarrow> goerr option \<times> 'w) \<Rightarrow> (string \<times> byte list) list \<Rightarrow> 'w \<Rightarrow> goerr option \<times> 'w" where
  "write_all wr [] out = (None, out)"
| "write_all wr ((msg, bs) # xs) out =
     (case wr out bs of
        (Some e, out') \<Rightarrow> (Some (wrapCommandError msg e), out')
      | (None, out') \<Rightarrow> write_all wr xs out')"

definition pps_of :: "('d, 'w) h264FrameWriter \<Rightarrow> 64 word \<Rightarrow> h264PPSInfo" where
  "pps_of w i = (case hw_pps w i of None \<Rightarrow> \<lparr>pps_spsID = 0, pps_data = []\<rparr> | Some info \<Rightarrow> info)"

definition parameter_writes :: "64 word list \<Rightarrow> ('d, 'w) h264FrameWriter \<Rightarrow> (string \<times> byte list) list" where
  "parameter_writes references w =
     concat (map (\<lambda>i. let info = pps_of w i in
       concat (map (\<lambda>nalu. [(''write H264 start code'', h264StartCode),
                             (''write H264 parameter set'', nalu)])
         [sps_of w (pps_spsID info), pps_data info])) references)"

definition writeParameterSets ::
  "('d, 'w) h264_lib \<Rightarrow> 64 word list \<Rightarrow> ('d, 'w) h264FrameWriter \<Rightarrow>
   goerr option \<times> ('d, 'w) h264FrameWriter" where
  "writeParameterSets L references w =
     (let (err, out) = write_all (out_write L) (parameter_writes references w) (hw_output w)
      in (err, w\<lparr>hw_output := out\<rparr>))"

definition writeFrame ::
  "('d, 'w) h264_lib \<Rightarrow> ('d, 'w) h264FrameWriter \<Rightarrow> goerr option \<times> ('d, 'w) h264FrameWriter" where
  "writeFrame L w =
     (let nalus = bytes_split h264StartCode [] (hw_frame w);
          (res, w1) = collectParameterReferences nalus w in
      case res of
        None \<Rightarrow> (None, w1\<lparr>hw_ready := False\<rparr>)
      | Some (references, hasIDR) \<Rightarrow>
          if \<not> hasReferencedParameterSets references w1 then (None, w1\<lparr>hw_ready := False\<rparr>)
          else
            let (err, w2) = (if hasIDR then
                               (case writeParameterSets L references w1 of
                                  (Some e, w') \<Rightarrow> (Some e, w')
                                | (None, w') \<Rightarrow> (None, w'\<lparr>hw_ready := True\<rparr>))
                             else (None, w1)) in
            case err of
              Some e \<Rightarrow> (Some e, w2)
            | None \<Rightarrow>
                if \<not> hw_ready w2 then (None, w2)
                else (case out_write L (hw_output w2) (hw_frame w2) of
                        (None, out) \<Rightarrow> (None, w2\<lparr>hw_output := out\<rparr>)
                      | (Some e, out) \<Rightarrow>
                          (Some (wrapCommandError ''write H264 frame'' e), w2\<lparr>hw_output := out\<rparr>)))"

definition resetFrame ::
  "('d, 'w) h264_lib \<Rightarrow> ('d, 'w) h264FrameWriter \<Rightarrow> ('d, 'w) h264FrameWriter" where
  "resetFrame L w = w\<lparr>hw_frame := [], hw_depacketizer := dep_fresh L, hw_haveTime := False,
                      hw_damaged := False\<rparr>"

section \<open>Packets\<close>

text \<open>\<open>WriteRTP\<close> up to the test of the marker bit.\<close>

definition acceptPacket ::
  "('d, 'w) h264_lib \<Rightarrow> rtp_packet \<Rightarrow> ('d, 'w) h264FrameWriter \<Rightarrow> ('d, 'w) h264FrameWriter" where
  "acceptPacket L p w0 =
     (let w1 = (if hw_haveTime w0 \<and> rtp_timestamp p \<noteq> hw_timestamp w0
                then resetFrame L (w0\<lparr>hw_ready := False\<rparr>) else w0);
          w2 = (if hw_haveSequence w1 \<and> rtp_sequence p \<noteq> hw_sequence w1 + 1
                then (if hw_haveTime w1 then w1\<lparr>hw_ready := False, hw_damaged := True\<rparr>
                      else w1\<lparr>hw_ready := False\<rparr>)
                else w1);
          w3 = w2\<lparr>hw_sequence := rtp_sequence p, hw_haveSequence := True\<rparr>;
          w4 = (if \<not> hw_haveTime w3 then
                  (let w' = w3\<lparr>hw_timestamp := rtp_timestamp p, hw_haveTime := True\<rparr>
                   in if \<not> dep_is_head L (rtp_payload p) then w'\<lparr>hw_damaged := True\<rparr> else w')
                else w3)
      in if \<not> hw_damaged w4 then appendPacketPayload L (rtp_payload p) w4 else w4)"

definition WriteRTP ::
  "('d, 'w) h264_lib \<Rightarrow> rtp_packet \<Rightarrow> ('d, 'w) h264FrameWriter \<Rightarrow>
   goerr option \<times> ('d, 'w) h264FrameWriter" where
  "WriteRTP L p w =
     (if length (rtp_payload p) = 0 then (None, w)
      else let w1 = acceptPacket L p w in
        if \<not> rtp_marker p then (None, w1)
        else let (err, w2) = (if \<not> hw_damaged w1 then writeFrame L w1 else (None, w1))
             in (err, resetFrame L w2))"

definition closeFrameWriter ::
  "('d, 'w) h264_lib \<Rightarrow> ('d, 'w) h264FrameWriter \<Rightarrow> goerr option \<times> ('d, 'w) h264FrameWriter" where
  "closeFrameWriter L w =
     (case out_close L of
        None \<Rightarrow> (None, w)
      | Some close \<Rightarrow>
          (case close (hw_output w) of
             (None, out) \<Rightarrow> (None, w\<lparr>hw_output := out\<rparr>)
           | (Some e, out) \<Rightarrow> (Some (wrapCommandError ''close H264 output'' e), w\<lparr>hw_output := out\<rparr>)))"

text \<open>A stream of packets; an error of one packet does not change what the next one meets.\<close>

definition write_packets ::
  "('d, 'w) h264_lib \<Rightarrow> rtp_packet list \<Rightarrow> ('d, 'w) h264FrameWriter \<Rightarrow> ('d, 'w) h264FrameWriter" where
  "write_packets L ps w = foldl (\<lambda>w p. snd (WriteRTP L p w)) w ps"


section \<open>The invariant\<close>

text \<open>The buffered unit is within its limit, and each table entry is a parameter set of the id it is stored under.\<close>

definition writer_wf :: "('d, 'w) h264FrameWriter \<Rightarrow> bool" where
  "writer_wf w \<longleftrightarrow>
     length (hw_frame w) \<le> maxH264FrameBytes
     \<and> (\<forall>i d. hw_sps w i = Some d \<longrightarrow> h264SPSID d = Some i)
     \<and> (\<forall>i x. hw_pps w i = Some x \<longrightarrow> h264PPSIDs (pps_data x) = Some (i, pps_spsID x))"

lemma appendPacketPayload_wf: "writer_wf w \<Longrightarrow> writer_wf (appendPacketPayload L payload w)"
  by (auto simp: writer_wf_def appendPacketPayload_def Let_def split: prod.splits option.splits)

lemma resetFrame_wf: "writer_wf w \<Longrightarrow> writer_wf (resetFrame L w)"
  by (simp add: writer_wf_def resetFrame_def)

lemma writer_wf_updates [simp]:
  "writer_wf (w\<lparr>hw_output := a\<rparr>) = writer_wf w"
  "writer_wf (w\<lparr>hw_depacketizer := b\<rparr>) = writer_wf w"
  "writer_wf (w\<lparr>hw_timestamp := c\<rparr>) = writer_wf w"
  "writer_wf (w\<lparr>hw_sequence := s\<rparr>) = writer_wf w"
  "writer_wf (w\<lparr>hw_haveTime := f\<rparr>) = writer_wf w"
  "writer_wf (w\<lparr>hw_haveSequence := f\<rparr>) = writer_wf w"
  "writer_wf (w\<lparr>hw_damaged := f\<rparr>) = writer_wf w"
  "writer_wf (w\<lparr>hw_ready := f\<rparr>) = writer_wf w"
  by (simp_all add: writer_wf_def)

lemma collect_unit_wf: "writer_wf w \<Longrightarrow> writer_wf (snd (collect_unit nalu w acc))"
  by (auto simp: writer_wf_def collect_unit_def Let_def split: option.splits prod.splits)

lemma collect_units_wf: "writer_wf w \<Longrightarrow> writer_wf (snd (collect_units nalus w acc))"
proof (induction nalus w acc rule: collect_units.induct)
  case (1 w acc)
  then show ?case by simp
next
  case (2 nalu nalus w acc)
  obtain r w' where r: "collect_unit nalu w acc = (r, w')" by fastforce
  then have "writer_wf w'" using collect_unit_wf [OF "2.prems", of nalu acc] by simp
  with 2 r show ?case by (cases r) auto
qed

lemma writeParameterSets_wf:
  "writeParameterSets L refs w = (err, w') \<Longrightarrow> writer_wf w \<Longrightarrow> writer_wf w'"
  by (auto simp: writeParameterSets_def split: prod.splits)

lemma writeFrame_wf:
  assumes "writer_wf w"
  shows "writer_wf (snd (writeFrame L w))"
proof -
  obtain res w1 where c: "collect_units (bytes_split h264StartCode [] (hw_frame w)) w ([], False) = (res, w1)"
    by fastforce
  with collect_units_wf [OF assms] have w1: "writer_wf w1" by (metis snd_conv)
  show ?thesis
  proof (cases res)
    case None
    with c w1 show ?thesis by (simp add: writeFrame_def collectParameterReferences_def Let_def)
  next
    case (Some x)
    obtain refs idr where x: "x = (refs, idr)" by (cases x)
    obtain err w2 where s: "writeParameterSets L refs w1 = (err, w2)" by fastforce
    from this w1 have "writer_wf w2" by (rule writeParameterSets_wf)
    with Some x c w1 s show ?thesis
      by (cases err) (auto simp: writeFrame_def collectParameterReferences_def Let_def
          split: prod.splits option.splits)
  qed
qed

lemma acceptPacket_wf: "writer_wf w \<Longrightarrow> writer_wf (acceptPacket L p w)"
  by (auto simp: acceptPacket_def Let_def intro!: appendPacketPayload_wf resetFrame_wf)

lemma WriteRTP_wf: "writer_wf w \<Longrightarrow> writer_wf (snd (WriteRTP L p w))"
  using acceptPacket_wf [of w L p] writeFrame_wf [of "acceptPacket L p w" L]
  by (auto simp: WriteRTP_def Let_def intro!: resetFrame_wf split: prod.splits)

lemma write_packets_wf: "writer_wf w \<Longrightarrow> writer_wf (write_packets L ps w)"
  unfolding write_packets_def by (induction ps arbitrary: w) (auto intro: WriteRTP_wf)

lemma new_writer_wf: "writer_wf (newH264FrameWriter L out)"
  by (simp add: writer_wf_def newH264FrameWriter_def)

text \<open>Whatever packets arrive, the buffered access unit stays within 8 MiB and every stored parameter
  set parses to the id it is stored under.\<close>

theorem write_packets_invariant:
  "writer_wf (write_packets L ps (newH264FrameWriter L out))"
  by (rule write_packets_wf [OF new_writer_wf])

section \<open>Loss\<close>

definition unit_has_IDR :: "byte list \<Rightarrow> bool" where
  "unit_has_IDR unit_bytes =
     list_ex (\<lambda>nalu. nalu \<noteq> [] \<and> h264NALType (nalu ! 0) = h264IDR)
       (bytes_split h264StartCode [] unit_bytes)"

lemma collect_unit_frame:
  "collect_unit nalu w acc = (res, w') \<Longrightarrow>
   hw_ready w' = hw_ready w \<and> hw_output w' = hw_output w \<and> hw_frame w' = hw_frame w"
  by (auto simp: collect_unit_def Let_def split: prod.splits option.splits if_splits)

lemma collect_units_frame:
  "collect_units nalus w acc = (res, w') \<Longrightarrow>
   hw_ready w' = hw_ready w \<and> hw_output w' = hw_output w \<and> hw_frame w' = hw_frame w"
proof (induction nalus arbitrary: w acc)
  case Nil
  then show ?case by simp
next
  case (Cons nalu nalus)
  obtain r w1 where r: "collect_unit nalu w acc = (r, w1)" by fastforce
  note fr = collect_unit_frame [OF r]
  show ?case
  proof (cases r)
    case None
    with Cons.prems r fr show ?thesis by simp
  next
    case (Some acc')
    with Cons.prems r have "collect_units nalus w1 acc' = (res, w')" by simp
    from Cons.IH [OF this] fr show ?thesis by simp
  qed
qed

lemma collect_unit_idr:
  "collect_unit nalu w (refs, idr) = (Some (refs', idr'), w') \<Longrightarrow>
   idr' \<longleftrightarrow> idr \<or> (nalu \<noteq> [] \<and> h264NALType (nalu ! 0) = h264IDR)"
  by (auto simp: collect_unit_def Let_def h264_writer_consts split: prod.splits option.splits if_splits)

lemma collect_units_idr:
  "collect_units nalus w (refs, idr) = (Some (refs', idr'), w') \<Longrightarrow>
   idr' \<longleftrightarrow> idr \<or> list_ex (\<lambda>nalu. nalu \<noteq> [] \<and> h264NALType (nalu ! 0) = h264IDR) nalus"
proof (induction nalus arbitrary: w refs idr)
  case Nil
  then show ?case by simp
next
  case (Cons nalu nalus)
  then obtain refs1 idr1 w1 where c: "collect_unit nalu w (refs, idr) = (Some (refs1, idr1), w1)"
      "collect_units nalus w1 (refs1, idr1) = (Some (refs', idr'), w')"
    by (auto split: prod.splits option.splits)
  with Cons.IH [OF c(2)] collect_unit_idr [OF c(1)] show ?case by auto
qed

lemma writeFrame_silent:
  assumes "\<not> hw_ready w" and "\<not> unit_has_IDR (hw_frame w)"
  shows "hw_output (snd (writeFrame L w)) = hw_output w \<and> \<not> hw_ready (snd (writeFrame L w))"
proof -
  let ?nalus = "bytes_split h264StartCode [] (hw_frame w)"
  obtain res w1 where c: "collect_units ?nalus w ([], False) = (res, w1)" by fastforce
  note fr = collect_units_frame [OF c]
  show ?thesis
  proof (cases res)
    case None
    with c fr show ?thesis by (simp add: writeFrame_def collectParameterReferences_def Let_def)
  next
    case (Some x)
    obtain refs idr where x: "x = (refs, idr)" by (cases x)
    with Some c have "collect_units ?nalus w ([], False) = (Some (refs, idr), w1)" by simp
    from collect_units_idr [OF this] assms(2) have "\<not> idr" by (simp add: unit_has_IDR_def)
    with Some x c fr assms(1) show ?thesis
      by (simp add: writeFrame_def collectParameterReferences_def Let_def)
  qed
qed

lemma resetFrame_frame [simp]:
  "hw_output (resetFrame L w) = hw_output w" "hw_ready (resetFrame L w) = hw_ready w"
  by (simp_all add: resetFrame_def)

lemma appendPacketPayload_frame [simp]:
  "hw_output (appendPacketPayload L payload w) = hw_output w"
  "hw_ready (appendPacketPayload L payload w) = hw_ready w"
  by (auto simp: appendPacketPayload_def Let_def split: prod.splits option.splits)

lemma acceptPacket_output [simp]: "hw_output (acceptPacket L p w) = hw_output w"
  by (simp add: acceptPacket_def Let_def)

lemma acceptPacket_not_ready: "\<not> hw_ready w \<Longrightarrow> \<not> hw_ready (acceptPacket L p w)"
  by (simp add: acceptPacket_def Let_def)

lemma acceptPacket_gap:
  "hw_haveSequence w \<Longrightarrow> rtp_sequence p \<noteq> hw_sequence w + 1 \<Longrightarrow> \<not> hw_ready (acceptPacket L p w)"
  by (simp add: acceptPacket_def Let_def resetFrame_def)

lemma WriteRTP_silent:
  assumes "\<not> hw_ready (acceptPacket L p w)" and "rtp_payload p \<noteq> []"
    and "\<not> (rtp_marker p \<and> unit_has_IDR (hw_frame (acceptPacket L p w)))"
  shows "hw_output (snd (WriteRTP L p w)) = hw_output w \<and> \<not> hw_ready (snd (WriteRTP L p w))"
proof (cases "rtp_marker p \<and> \<not> hw_damaged (acceptPacket L p w)")
  case True
  obtain err w2 where wf: "writeFrame L (acceptPacket L p w) = (err, w2)" by fastforce
  with assms True writeFrame_silent [of "acceptPacket L p w" L] show ?thesis
    by (simp add: WriteRTP_def Let_def)
next
  case False
  with assms show ?thesis by (auto simp: WriteRTP_def Let_def)
qed

text \<open>No packet of the run completes an access unit that holds an IDR slice.\<close>

fun idr_free :: "('d, 'w) h264_lib \<Rightarrow> rtp_packet list \<Rightarrow> ('d, 'w) h264FrameWriter \<Rightarrow> bool" where
  "idr_free L [] w = True"
| "idr_free L (p # ps) w \<longleftrightarrow>
     \<not> (rtp_marker p \<and> unit_has_IDR (hw_frame (acceptPacket L p w)))
     \<and> idr_free L ps (snd (WriteRTP L p w))"

lemma write_packets_Cons [simp]:
  "write_packets L (p # ps) w = write_packets L ps (snd (WriteRTP L p w))"
  by (simp add: write_packets_def)

lemma write_packets_Nil [simp]: "write_packets L [] w = w"
  by (simp add: write_packets_def)

lemma write_packets_silent:
  "\<not> hw_ready w \<Longrightarrow> idr_free L ps w \<Longrightarrow>
   hw_output (write_packets L ps w) = hw_output w \<and> \<not> hw_ready (write_packets L ps w)"
proof (induction ps arbitrary: w)
  case Nil
  then show ?case by simp
next
  case (Cons p ps)
  have "hw_output (snd (WriteRTP L p w)) = hw_output w \<and> \<not> hw_ready (snd (WriteRTP L p w))"
  proof (cases "rtp_payload p = []")
    case True
    with Cons.prems show ?thesis by (simp add: WriteRTP_def)
  next
    case False
    with Cons.prems acceptPacket_not_ready [of w L p] show ?thesis
      by (intro WriteRTP_silent) auto
  qed
  with Cons show ?case by auto
qed

text \<open>C14: after a lost packet (a sequence number that is not the successor, with the 16-bit wrap-around)
  nothing at all is written until a packet completes an access unit with an IDR slice: predictive frames
  that may refer to lost data never reach the output.\<close>

theorem loss_silences_writer:
  assumes "hw_haveSequence w" and "rtp_sequence p \<noteq> hw_sequence w + 1" and "rtp_payload p \<noteq> []"
    and "idr_free L (p # ps) w"
  shows "hw_output (write_packets L (p # ps) w) = hw_output w"
proof -
  have "hw_output (snd (WriteRTP L p w)) = hw_output w \<and> \<not> hw_ready (snd (WriteRTP L p w))"
    using assms acceptPacket_gap [of w p L] by (intro WriteRTP_silent) auto
  with write_packets_silent [of "snd (WriteRTP L p w)" L ps] assms(4) show ?thesis by simp
qed


text \<open>A concrete library for the examples: one unit per packet, and a stream that keeps what is written.\<close>

definition recorder_lib :: "(unit, byte list list) h264_lib" where
  "recorder_lib =
     \<lparr>dep_fresh = (), dep_unmarshal = (\<lambda>d b. (Some (h264StartCode @ b), d)), dep_is_head = (\<lambda>_. True),
      out_write = (\<lambda>out b. (None, out @ [b])), out_close = None\<rparr>"

definition example_packet :: "16 word \<Rightarrow> byte list \<Rightarrow> rtp_packet" where
  "example_packet sq payload =
     \<lparr>rtp_payload = payload, rtp_timestamp = 0, rtp_sequence = sq, rtp_marker = True\<rparr>"

definition example_writer :: "(unit, byte list list) h264FrameWriter" where
  "example_writer =
     (newH264FrameWriter recorder_lib [])\<lparr>hw_haveSequence := True, hw_sequence := 65535, hw_ready := True\<rparr>"

lemmas example_defs = recorder_lib_def example_packet_def example_writer_def newH264FrameWriter_def

theorem loss_silences_writer_witness:
  "hw_output (write_packets recorder_lib [example_packet 1 [0x41, 0xE0]] example_writer) = []"
proof -
  have "idr_free recorder_lib [example_packet 1 [0x41, 0xE0]] example_writer"
    by (simp add: example_defs acceptPacket_def appendPacketPayload_def validH264Payload_def
        h264NALType_def unit_has_IDR_def h264_writer_consts h264StartCode_def maxH264FrameBytes_def
        bytes_split.simps Let_def)
  from loss_silences_writer [OF _ _ _ this] show ?thesis by (simp add: example_defs)
qed

section \<open>What an IDR unit writes\<close>

lemma write_all_recording:
  "write_all (\<lambda>out b. (None, out @ [b])) xs out = (None, out @ map snd xs)"
  by (induction xs arbitrary: out) auto

lemma parameter_writes_sets:
  assumes wf: "writer_wf w" and refs: "hasReferencedParameterSets refs w" and i: "i \<in> set refs"
  shows "\<exists>s. \<exists>pps\<in>set (map snd (parameter_writes refs w)). \<exists>sps\<in>set (map snd (parameter_writes refs w)).
           h264PPSIDs pps = Some (i, s) \<and> h264SPSID sps = Some s"
proof -
  obtain x where x: "hw_pps w i = Some x" "sps_of w (pps_spsID x) \<noteq> []"
    using refs i by (auto simp: hasReferencedParameterSets_def list_all_iff split: option.splits)
  then have sps: "h264SPSID (sps_of w (pps_spsID x)) = Some (pps_spsID x)"
    using wf by (auto simp: writer_wf_def sps_of_def split: option.splits)
  have pps: "h264PPSIDs (pps_data x) = Some (i, pps_spsID x)"
    using wf x(1) by (simp add: writer_wf_def)
  have "{pps_data x, sps_of w (pps_spsID x)} \<subseteq> set (map snd (parameter_writes refs w))"
    using i x(1) by (force simp: parameter_writes_def pps_of_def Let_def)
  with sps pps show ?thesis by blast
qed

lemma writeFrame_IDR_output:
  assumes rec: "out_write L = (\<lambda>out b. (None, out @ [b]))"
    and c: "collectParameterReferences (bytes_split h264StartCode [] (hw_frame w)) w = (Some (refs, True), w1)"
    and refs: "hasReferencedParameterSets refs w1"
  shows "hw_output (snd (writeFrame L w)) = hw_output w @ map snd (parameter_writes refs w1) @ [hw_frame w]"
proof -
  have fr: "hw_output w1 = hw_output w" "hw_frame w1 = hw_frame w"
    using c collect_units_frame [of _ w "([], False)" "Some (refs, True)" w1]
    by (auto simp: collectParameterReferences_def)
  with c refs rec show ?thesis
    by (simp add: writeFrame_def writeParameterSets_def write_all_recording Let_def)
qed

text \<open>When an access unit with an IDR slice is written to a stream that accepts it, the unit itself
  comes last, unchanged, and among the writes before it there are, for every parameter set that a slice of
  the unit refers to, a picture parameter set with that id and the sequence parameter set that it names.\<close>

theorem IDR_unit_carries_parameter_sets:
  assumes "writer_wf w" and "out_write L = (\<lambda>out b. (None, out @ [b]))"
    and "collectParameterReferences (bytes_split h264StartCode [] (hw_frame w)) w = (Some (refs, True), w1)"
    and "hasReferencedParameterSets refs w1"
  shows "\<exists>sets. hw_output (snd (writeFrame L w)) = hw_output w @ sets @ [hw_frame w]
           \<and> (\<forall>i\<in>set refs. \<exists>s. \<exists>pps\<in>set sets. \<exists>sps\<in>set sets.
                 h264PPSIDs pps = Some (i, s) \<and> h264SPSID sps = Some s)"
proof -
  have "writer_wf w1"
    using collect_units_wf [OF assms(1)] assms(3) by (metis collectParameterReferences_def snd_conv)
  with parameter_writes_sets [of w1 refs] assms(4) writeFrame_IDR_output [OF assms(2-4)]
  show ?thesis by blast
qed


definition example_sps :: "byte list" where "example_sps = [0x67, 0x42, 0, 0x1E, 0x80]"
definition example_pps :: "byte list" where "example_pps = [0x68, 0xC0]"
definition example_idr_slice :: "byte list" where "example_idr_slice = [0x65, 0xE0]"

definition example_unit :: "byte list" where
  "example_unit = h264StartCode @ example_sps @ h264StartCode @ example_pps @ h264StartCode @ example_idr_slice"

definition example_filled :: "(unit, byte list list) h264FrameWriter" where
  "example_filled = (newH264FrameWriter recorder_lib [])\<lparr>hw_frame := example_unit\<rparr>"

lemmas example_unit_defs = example_unit_def example_sps_def example_pps_def example_idr_slice_def
  h264StartCode_def

lemma example_split:
  "bytes_split h264StartCode [] example_unit = [[], example_sps, example_pps, example_idr_slice]"
  by (simp add: example_unit_defs bytes_split.simps)

lemma example_ids:
  "h264SPSID example_sps = Some 0" "h264PPSIDs example_pps = Some (0, 0)"
  "h264SlicePPSID example_idr_slice = Some 0"
  by code_simp+

lemma example_kinds:
  "h264NALType (example_sps ! 0) = h264SPS" "h264NALType (example_pps ! 0) = h264PPS"
  "h264NALType (example_idr_slice ! 0) = h264IDR"
  by (simp_all add: h264NALType_def example_unit_defs h264_writer_consts)

lemma example_collected:
  "collectParameterReferences [[], example_sps, example_pps, example_idr_slice] example_filled =
     (Some ([0], True),
      example_filled\<lparr>hw_sps := [0 \<mapsto> example_sps],
        hw_pps := [0 \<mapsto> \<lparr>pps_spsID = 0, pps_data = example_pps\<rparr>]\<rparr>)"
  by (simp add: collectParameterReferences_def collect_unit_def example_ids example_kinds Let_def
      h264SPS_def h264PPS_def h264IDR_def)
     (simp add: example_unit_defs example_filled_def newH264FrameWriter_def)

theorem IDR_unit_carries_parameter_sets_witness:
  "\<exists>sets. hw_output (snd (writeFrame recorder_lib example_filled)) = [] @ sets @ [example_unit]
     \<and> (\<exists>s. \<exists>pps\<in>set sets. \<exists>sps\<in>set sets. h264PPSIDs pps = Some (0, s) \<and> h264SPSID sps = Some s)"
proof -
  let ?w1 = "example_filled\<lparr>hw_sps := [0 \<mapsto> example_sps],
        hw_pps := [0 \<mapsto> \<lparr>pps_spsID = 0, pps_data = example_pps\<rparr>]\<rparr>"
  have fr: "hw_frame example_filled = example_unit" "hw_output example_filled = []"
    by (simp_all add: example_filled_def newH264FrameWriter_def)
  have "writer_wf example_filled"
    by (simp add: writer_wf_def example_filled_def newH264FrameWriter_def maxH264FrameBytes_def
        example_unit_defs)
  moreover have "out_write recorder_lib = (\<lambda>out b. (None, out @ [b]))" by (simp add: recorder_lib_def)
  moreover have "collectParameterReferences (bytes_split h264StartCode [] (hw_frame example_filled)) example_filled
      = (Some ([0], True), ?w1)"
    unfolding fr example_split by (rule example_collected)
  moreover have "hasReferencedParameterSets [0] ?w1"
    by (simp add: hasReferencedParameterSets_def sps_of_def example_sps_def)
  ultimately show ?thesis
    using IDR_unit_carries_parameter_sets [of example_filled recorder_lib "[0]" ?w1] fr by simp
qed

end
