(* ===== verification/RtpRecording.thy ===== *)
theory RtpRecording
  imports H264Bits GoErrors
begin

text \<open>
  \<open>cmd/go-ring/rtp_recording.go\<close>: the recorder that stores RTP packets behind four-byte big-endian lengths,
  and the replayer that reads them back. The RTP codec (\<open>pion/rtp\<close>) and the buffered file are parameters
  (\<open>recording_lib\<close>); the replayer's input is the byte sequence that the reader delivers before its end.
\<close>

section \<open>Bytes\<close>

definition string_bytes :: "string \<Rightarrow> byte list" where
  "string_bytes s = map (\<lambda>c. of_nat (of_char c)) s"

definition be32_bytes :: "nat \<Rightarrow> byte list" where
  "be32_bytes n = [of_nat (n div 2 ^ 24), of_nat (n div 2 ^ 16), of_nat (n div 2 ^ 8), of_nat n]"

definition be32_value :: "byte list \<Rightarrow> nat" where
  "be32_value bs = foldl (\<lambda>a b. 256 * a + unat b) 0 bs"

lemma length_be32_bytes [simp]: "length (be32_bytes n) = 4"
  by (simp add: be32_bytes_def)

lemma split_256: "256 * (n div m div 256) + n div m mod 256 = n div m" for n :: nat
  by presburger

lemma be32_roundtrip:
  assumes "n < 2 ^ 32"
  shows "be32_value (be32_bytes n) = n"
proof -
  have "n div 16777216 < 256" using assms by simp
  then have "be32_value (be32_bytes n)
      = 256 * (256 * (256 * (n div 16777216) + n div 65536 mod 256) + n div 256 mod 256) + n mod 256"
    by (simp add: be32_value_def be32_bytes_def unat_of_nat take_bit_eq_mod)
  also have "256 * (n div 16777216) + n div 65536 mod 256 = n div 65536"
    using split_256 [of n 65536] by (simp add: div_mult2_eq [symmetric])
  also have "256 * (n div 65536) + n div 256 mod 256 = n div 256"
    using split_256 [of n 256] by (simp add: div_mult2_eq [symmetric])
  also have "256 * (n div 256) + n mod 256 = n" by simp
  finally show ?thesis .
qed

section \<open>Recording\<close>

record ('b, 'p) recording_lib =
  packet_marshal :: "'p \<Rightarrow> goerr + byte list"
  packet_unmarshal :: "byte list \<Rightarrow> goerr + 'p"
  buf_write :: "'b \<Rightarrow> byte list \<Rightarrow> goerr option \<times> 'b"
  buf_flush :: "'b \<Rightarrow> goerr option \<times> 'b"
  file_close :: "'b \<Rightarrow> goerr option \<times> 'b"

text \<open>The steps of the constructor that touch the file system, with their results.\<close>

record 'b recording_setup =
  setup_open :: "goerr + 'b"
  setup_chmod :: "goerr option"
  setup_restrict :: "goerr option"

datatype file_cleanup = CloseFile | RemoveFile

definition rtpRecordingMagic :: "byte list" where
  "rtpRecordingMagic = string_bytes (''go-ring-rtp-v1'' @ [CHR 0x0A])"

definition maxRecordedPacket :: nat where "maxRecordedPacket = 64 * 2 ^ 10"

definition newRTPRecording ::
  "('b, 'p) recording_lib \<Rightarrow> 'b recording_setup \<Rightarrow> (goerr + 'b) \<times> file_cleanup list" where
  "newRTPRecording L S =
     (case setup_open S of
        Inl e \<Rightarrow> (Inl (wrapCommandError ''create RTP recording'' e), [])
      | Inr file \<Rightarrow>
          (case setup_chmod S of
             Some e \<Rightarrow> (Inl (wrapCommandError ''set RTP recording permissions'' e), [CloseFile, RemoveFile])
           | None \<Rightarrow>
               (case setup_restrict S of
                  Some e \<Rightarrow> (Inl (wrapCommandError ''set RTP recording permissions'' e), [CloseFile, RemoveFile])
                | None \<Rightarrow>
                    (case buf_write L file rtpRecordingMagic of
                       (Some e, _) \<Rightarrow> (Inl (wrapCommandError ''write RTP recording header'' e), [CloseFile])
                     | (None, file') \<Rightarrow> (Inr file', [])))))"

definition WritePacket ::
  "('b, 'p) recording_lib \<Rightarrow> 'p \<Rightarrow> 'b \<Rightarrow> goerr option \<times> 'b" where
  "WritePacket L packet b =
     (case packet_marshal L packet of
        Inl e \<Rightarrow> (Some (wrapCommandError ''marshal RTP packet'' e), b)
      | Inr bs \<Rightarrow>
          if length bs > maxRecordedPacket
          then (Some (commandError ''RTP packet exceeds recording limit''), b)
          else (case buf_write L b (be32_bytes (length bs)) of
                  (Some e, b1) \<Rightarrow> (Some (wrapCommandError ''write RTP packet length'' e), b1)
                | (None, b1) \<Rightarrow>
                    (case buf_write L b1 bs of
                       (Some e, b2) \<Rightarrow> (Some (wrapCommandError ''write RTP packet'' e), b2)
                     | (None, b2) \<Rightarrow>
                         (case buf_flush L b2 of
                            (Some e, b3) \<Rightarrow> (Some (wrapCommandError ''flush RTP recording'' e), b3)
                          | (None, b3) \<Rightarrow> (None, b3)))))"

definition closeRecording :: "('b, 'p) recording_lib \<Rightarrow> 'b \<Rightarrow> goerr option \<times> 'b" where
  "closeRecording L b =
     (let (flushErr, b1) = buf_flush L b; (closeErr, b2) = file_close L b1 in
      case flushErr of
        Some e \<Rightarrow> (Some (wrapCommandError ''flush RTP recording'' e), b2)
      | None \<Rightarrow> (case closeErr of
                   Some e \<Rightarrow> (Some (wrapCommandError ''close RTP recording'' e), b2)
                 | None \<Rightarrow> (None, b2)))"

fun write_recording :: "('b, 'p) recording_lib \<Rightarrow> 'p list \<Rightarrow> 'b \<Rightarrow> goerr option \<times> 'b" where
  "write_recording L [] b = (None, b)"
| "write_recording L (p # ps) b =
     (case WritePacket L p b of (Some e, b') \<Rightarrow> (Some e, b') | (None, b') \<Rightarrow> write_recording L ps b')"

section \<open>Replay\<close>

definition io_EOF :: goerr where "io_EOF = ExternalError ''EOF'' False"
definition io_ErrUnexpectedEOF :: goerr where
  "io_ErrUnexpectedEOF = ExternalError ''unexpected EOF'' False"

text \<open>\<open>io.ReadFull\<close> (and \<open>binary.Read\<close> of a fixed-size value) on the remaining input.\<close>

definition read_full :: "nat \<Rightarrow> byte list \<Rightarrow> goerr + byte list \<times> byte list" where
  "read_full n bs =
     (if n \<le> length bs then Inr (take n bs, drop n bs)
      else if bs = [] then Inl io_EOF else Inl io_ErrUnexpectedEOF)"

lemma read_full_length: "read_full n bs = Inr (xs, rest) \<Longrightarrow> length rest = length bs - n \<and> n \<le> length bs"
  by (auto simp: read_full_def split: if_splits)

function replay_loop ::
  "('b, 'p) recording_lib \<Rightarrow> ('p \<Rightarrow> 's \<Rightarrow> goerr option \<times> 's) \<Rightarrow> byte list \<Rightarrow> 's \<Rightarrow> goerr option \<times> 's" where
  "replay_loop L consume bs s =
     (case read_full 4 bs of
        Inl e \<Rightarrow> if errors_is e io_EOF then (None, s)
                 else (Some (wrapCommandError ''read RTP packet length'' e), s)
      | Inr (hdr, rest) \<Rightarrow>
          let n = be32_value hdr in
          if n = 0 \<or> n > maxRecordedPacket
          then (Some (commandError ''invalid recorded RTP packet length''), s)
          else (case read_full n rest of
                  Inl e \<Rightarrow> (Some (wrapCommandError ''read RTP packet'' e), s)
                | Inr (d, rest') \<Rightarrow>
                    (case packet_unmarshal L d of
                       Inl e \<Rightarrow> (Some (wrapCommandError ''decode RTP packet'' e), s)
                     | Inr packet \<Rightarrow>
                         (case consume packet s of
                            (Some e, s') \<Rightarrow> (Some (wrapCommandError ''process RTP packet'' e), s')
                          | (None, s') \<Rightarrow> replay_loop L consume rest' s'))))"
  by pat_completeness auto
termination
  by (relation "measure (\<lambda>(L, c, bs, s). length bs)") (auto dest!: read_full_length)

declare replay_loop.simps [simp del]

definition replayRTP ::
  "('b, 'p) recording_lib \<Rightarrow> ('p \<Rightarrow> 's \<Rightarrow> goerr option \<times> 's) \<Rightarrow> byte list \<Rightarrow> 's \<Rightarrow> goerr option \<times> 's" where
  "replayRTP L consume bs s =
     (case read_full (length rtpRecordingMagic) bs of
        Inl e \<Rightarrow> (Some (wrapCommandError ''read RTP recording header'' e), s)
      | Inr (magic, rest) \<Rightarrow>
          if magic \<noteq> rtpRecordingMagic
          then (Some (commandError ''invalid RTP recording header''), s)
          else replay_loop L consume rest s)"

section \<open>Round trip\<close>

text \<open>The packets that the recorder accepts and the codec can read back.\<close>

definition recordable :: "('b, 'p) recording_lib \<Rightarrow> 'p \<Rightarrow> bool" where
  "recordable L p \<longleftrightarrow>
     (case packet_marshal L p of Inl _ \<Rightarrow> False
      | Inr d \<Rightarrow> d \<noteq> [] \<and> length d \<le> maxRecordedPacket \<and> packet_unmarshal L d = Inr p)"

text \<open>A file that accepts every write keeps the bytes in order.\<close>

definition keeps_bytes :: "('b, 'p) recording_lib \<Rightarrow> ('b \<Rightarrow> byte list) \<Rightarrow> bool" where
  "keeps_bytes L bytes_of \<longleftrightarrow>
     (\<forall>b d. fst (buf_write L b d) = None \<and> bytes_of (snd (buf_write L b d)) = bytes_of b @ d)
     \<and> (\<forall>b. fst (buf_flush L b) = None \<and> bytes_of (snd (buf_flush L b)) = bytes_of b)"

definition packet_record :: "('b, 'p) recording_lib \<Rightarrow> 'p \<Rightarrow> byte list" where
  "packet_record L p = (case packet_marshal L p of Inl _ \<Rightarrow> [] | Inr d \<Rightarrow> be32_bytes (length d) @ d)"

lemma WritePacket_bytes:
  assumes "recordable L p" and "keeps_bytes L bytes_of"
  shows "fst (WritePacket L p b) = None \<and> bytes_of (snd (WritePacket L p b)) = bytes_of b @ packet_record L p"
proof -
  obtain d where d: "packet_marshal L p = Inr d" "length d \<le> maxRecordedPacket"
    using assms(1) by (auto simp: recordable_def split: sum.splits)
  have w: "buf_write L b x = (None, snd (buf_write L b x))"
      "bytes_of (snd (buf_write L b x)) = bytes_of b @ x"
      "buf_flush L b = (None, snd (buf_flush L b))" "bytes_of (snd (buf_flush L b)) = bytes_of b"
      "fst (buf_flush L b) = None" for b x
    using assms(2) by (auto simp: keeps_bytes_def intro: prod_eqI)
  let ?b1 = "snd (buf_write L b (be32_bytes (length d)))"
  let ?b2 = "snd (buf_write L ?b1 d)"
  have "WritePacket L p b = (None, snd (buf_flush L ?b2))"
    unfolding WritePacket_def
    using d w(1) [of b "be32_bytes (length d)"] w(1) [of ?b1 d] w(3) [of ?b2]
    by (auto split: prod.splits)
  with d w(2,4,5) show ?thesis by (simp add: packet_record_def)
qed

lemma write_recording_bytes:
  assumes "keeps_bytes L bytes_of"
  shows "list_all (recordable L) ps \<Longrightarrow>
    fst (write_recording L ps b) = None
    \<and> bytes_of (snd (write_recording L ps b)) = bytes_of b @ concat (map (packet_record L) ps)"
proof (induction ps arbitrary: b)
  case Nil
  then show ?case by simp
next
  case (Cons p ps)
  with WritePacket_bytes [OF _ assms, of p b] show ?case
    by (cases "WritePacket L p b") auto
qed

lemma replay_record:
  assumes "recordable L p"
  shows "replay_loop L consume (packet_record L p @ rest) s =
    (case consume p s of
       (Some e, s') \<Rightarrow> (Some (wrapCommandError ''process RTP packet'' e), s')
     | (None, s') \<Rightarrow> replay_loop L consume rest s')"
proof -
  obtain d where d: "packet_marshal L p = Inr d" "d \<noteq> []" "length d \<le> maxRecordedPacket"
      "packet_unmarshal L d = Inr p"
    using assms by (auto simp: recordable_def split: sum.splits)
  have "length d < 2 ^ 32" using d(3) by (simp add: maxRecordedPacket_def)
  then have n: "be32_value (be32_bytes (length d)) = length d" by (rule be32_roundtrip)
  have "read_full 4 (packet_record L p @ rest) = Inr (be32_bytes (length d), d @ rest)"
    by (simp add: read_full_def packet_record_def d(1))
  moreover have "read_full (length d) (d @ rest) = Inr (d, rest)" by (simp add: read_full_def)
  ultimately show ?thesis
    using d n by (subst replay_loop.simps) (simp add: Let_def)
qed

lemma replay_records:
  "list_all (recordable L) ps \<Longrightarrow>
   replay_loop L (\<lambda>p acc. (None, acc @ [p])) (concat (map (packet_record L) ps)) acc = (None, acc @ ps)"
proof (induction ps arbitrary: acc)
  case Nil
  then show ?case
    by (subst replay_loop.simps) (simp add: read_full_def errors_is_def error_chain_None io_EOF_def)
next
  case (Cons p ps)
  then show ?case by (simp add: replay_record)
qed


definition byte_file_lib :: "(byte list, byte list) recording_lib" where
  "byte_file_lib =
     \<lparr>packet_marshal = Inr, packet_unmarshal = Inr, buf_write = (\<lambda>b d. (None, b @ d)),
      buf_flush = (\<lambda>b. (None, b)), file_close = (\<lambda>b. (None, b))\<rparr>"


end
