(* ===== verification/Sdp.thy ===== *)
theory Sdp
  imports GoErrors
begin

text \<open>
  \<open>pkg/dependencies/webrtc/sdp.go\<close>: validation of session descriptions and of ICE candidates against
  them, and the correction of answer directions. The SDP codec is package \<open>pion/sdp\<close>, outside the
  repository: \<open>sdp_lib\<close> holds its parser, its printer, the attribute lookup of a media section and the
  constructor of property attributes, and \<open>sdp_lookup_documented\<close> their documented behaviour. The parts of
  a description that the code never reads are kept as opaque values.
\<close>

section \<open>Descriptions\<close>

record sdp_attribute =
  attr_key :: string
  attr_value :: string

record 'm media_description =
  md_media :: string
  md_port :: int
  md_attributes :: "sdp_attribute list"
  md_other :: 'm

record ('m, 's) session_description =
  sd_attributes :: "sdp_attribute list"
  sd_media :: "'m media_description list"
  sd_other :: 's

record ('m, 's) sdp_lib =
  sdp_unmarshal :: "string \<Rightarrow> goerr + ('m, 's) session_description"
  sdp_marshal :: "('m, 's) session_description \<Rightarrow> goerr + string"
  media_attribute :: "'m media_description \<Rightarrow> string \<Rightarrow> string option"
  property_attribute :: "string \<Rightarrow> sdp_attribute"

definition maxSDPBytes :: nat where "maxSDPBytes = 2 ^ 20"
definition SDPSendRecv :: string where "SDPSendRecv = ''sendrecv''"
definition SDPSendOnly :: string where "SDPSendOnly = ''sendonly''"
definition SDPRecvOnly :: string where "SDPRecvOnly = ''recvonly''"
definition SDPInactive :: string where "SDPInactive = ''inactive''"

lemmas sdp_dirs = SDPSendRecv_def SDPSendOnly_def SDPRecvOnly_def SDPInactive_def

definition bad_request :: "string \<Rightarrow> goerr" where "bad_request m = NewBadRequestError m None"

section \<open>Validation\<close>

definition isDirection :: "string \<Rightarrow> bool" where
  "isDirection a \<longleftrightarrow> a = SDPSendRecv \<or> a = SDPSendOnly \<or> a = SDPRecvOnly \<or> a = SDPInactive"

definition direction_count :: "sdp_attribute list \<Rightarrow> nat" where
  "direction_count attributes = length (filter (\<lambda>a. isDirection (attr_key a)) attributes)"

definition validateSessionDirection :: "sdp_attribute list \<Rightarrow> goerr option" where
  "validateSessionDirection attributes =
     (if direction_count attributes > 1
      then Some (bad_request ''SDP has conflicting session directions'') else None)"

definition validateMediaAttributes :: "sdp_attribute list \<Rightarrow> goerr option" where
  "validateMediaAttributes attributes =
     (let mediaIDs = length (filter (\<lambda>a. attr_key a = ''mid'') attributes) in
      if mediaIDs \<noteq> 1 then Some (bad_request ''SDP section must have exactly one media ID'')
      else if direction_count attributes > 1
      then Some (bad_request ''SDP has conflicting media directions'') else None)"

fun media_sections ::
  "('m, 's) sdp_lib \<Rightarrow> 'm media_description list \<Rightarrow> string set \<Rightarrow> goerr + string set" where
  "media_sections L [] mids = Inr mids"
| "media_sections L (media # ms) mids =
     (case media_attribute L media ''mid'' of
        None \<Rightarrow> Inl (bad_request ''SDP requires unique media IDs'')
      | Some mid \<Rightarrow>
          if mid = [] \<or> mid \<in> mids then Inl (bad_request ''SDP requires unique media IDs'')
          else (case validateMediaAttributes (md_attributes media) of
                  Some e \<Rightarrow> Inl e
                | None \<Rightarrow> media_sections L ms (insert mid mids)))"

definition validateMediaSections ::
  "('m, 's) sdp_lib \<Rightarrow> 'm media_description list \<Rightarrow> goerr + string set" where
  "validateMediaSections L mediaSections = media_sections L mediaSections {}"

text \<open>The identifiers of one bundle group: known, and none twice.\<close>

fun bundle_members :: "string set \<Rightarrow> string set \<Rightarrow> string list \<Rightarrow> bool" where
  "bundle_members mids seen [] = True"
| "bundle_members mids seen (mid # rest) \<longleftrightarrow>
     \<not> (mid \<notin> mids \<or> mid \<in> seen) \<and> bundle_members mids (insert mid seen) rest"

fun validateBundleGroups :: "sdp_attribute list \<Rightarrow> string set \<Rightarrow> goerr option" where
  "validateBundleGroups [] mids = None"
| "validateBundleGroups (attribute # rest) mids =
     (if attr_key attribute \<noteq> ''group'' then validateBundleGroups rest mids
      else case string_fields (attr_value attribute) of
             [] \<Rightarrow> validateBundleGroups rest mids
           | f # members \<Rightarrow>
               if f \<noteq> ''BUNDLE'' then validateBundleGroups rest mids
               else if \<not> bundle_members mids {} members
               then Some (bad_request ''SDP bundle references invalid media ID'')
               else validateBundleGroups rest mids)"

definition ParseSDP :: "('m, 's) sdp_lib \<Rightarrow> string \<Rightarrow> goerr + ('m, 's) session_description" where
  "ParseSDP L raw =
     (if length raw > maxSDPBytes then Inl (bad_request ''SDP exceeds size limit'')
      else
        let raw' = (if \<not> has_suffix raw [CHR 0x0A] then raw @ [CHR 0x0D, CHR 0x0A] else raw) in
        case sdp_unmarshal L raw' of
          Inl e \<Rightarrow> Inl (NewBadRequestError ''invalid SDP syntax'' (Some e))
        | Inr description \<Rightarrow>
            if length (sd_media description) = 0 then Inl (bad_request ''SDP has no media sections'')
            else case validateSessionDirection (sd_attributes description) of
              Some e \<Rightarrow> Inl e
            | None \<Rightarrow>
                (case validateMediaSections L (sd_media description) of
                   Inl e \<Rightarrow> Inl e
                 | Inr mids \<Rightarrow>
                     (case validateBundleGroups (sd_attributes description) mids of
                        Some e \<Rightarrow> Inl e
                      | None \<Rightarrow> Inr description)))"

definition ValidateICE ::
  "('m, 's) sdp_lib \<Rightarrow> ('m, 's) session_description option \<Rightarrow> string \<Rightarrow> int \<Rightarrow> goerr option" where
  "ValidateICE L description mid index =
     (case description of
        None \<Rightarrow> Some (bad_request ''ICE media index out of range'')
      | Some d \<Rightarrow>
          if index < 0 \<or> index \<ge> int (length (sd_media d))
          then Some (bad_request ''ICE media index out of range'')
          else let expected = (case media_attribute L (sd_media d ! nat index) ''mid'' of
                                 None \<Rightarrow> [] | Some v \<Rightarrow> v) in
            if mid \<noteq> [] \<and> mid \<noteq> expected then Some (bad_request ''ICE media ID and index differ'')
            else None)"

section \<open>Answers\<close>

definition first_direction :: "sdp_attribute list \<Rightarrow> string option" where
  "first_direction attributes =
     map_option attr_key (find (\<lambda>a. isDirection (attr_key a)) attributes)"

text \<open>The media section's own direction, else the session's, else the default.\<close>

definition media_direction :: "('m, 's) session_description \<Rightarrow> 'm media_description \<Rightarrow> string" where
  "media_direction description media =
     (case first_direction (md_attributes media) of
        Some k \<Rightarrow> k
      | None \<Rightarrow> (case first_direction (sd_attributes description) of
                   Some k \<Rightarrow> k | None \<Rightarrow> SDPSendRecv))"

definition media_mid :: "('m, 's) sdp_lib \<Rightarrow> 'm media_description \<Rightarrow> string" where
  "media_mid L media = (case media_attribute L media ''mid'' of None \<Rightarrow> [] | Some v \<Rightarrow> v)"

definition sameMediaIdentity ::
  "('m, 's) sdp_lib \<Rightarrow> 'm media_description \<Rightarrow> 'm media_description \<Rightarrow> bool" where
  "sameMediaIdentity L off ans \<longleftrightarrow>
     media_mid L ans = media_mid L off \<and> md_media ans = md_media off"

text \<open>The corrected answer section and whether it changed.\<close>

definition normalizeRecvOnlyAnswer ::
  "('m, 's) sdp_lib \<Rightarrow> ('m, 's) session_description \<Rightarrow> ('m, 's) session_description \<Rightarrow>
   'm media_description \<Rightarrow> 'm media_description \<Rightarrow> bool \<times> 'm media_description" where
  "normalizeRecvOnlyAnswer L offD ansD off ans =
     (if media_direction offD off \<noteq> SDPRecvOnly \<or> media_direction ansD ans \<noteq> SDPSendRecv
      then (False, ans)
      else if list_ex (\<lambda>a. attr_key a = SDPSendRecv) (md_attributes ans)
      then (True, ans\<lparr>md_attributes :=
              map (\<lambda>a. if attr_key a = SDPSendRecv then a\<lparr>attr_key := SDPSendOnly\<rparr> else a)
                (md_attributes ans)\<rparr>)
      else (True, ans\<lparr>md_attributes := md_attributes ans @ [property_attribute L SDPSendOnly]\<rparr>))"

definition answerDirectionAllowed ::
  "('m, 's) session_description \<Rightarrow> ('m, 's) session_description \<Rightarrow>
   'm media_description \<Rightarrow> 'm media_description \<Rightarrow> bool" where
  "answerDirectionAllowed offD ansD off ans =
     (let o_dir = media_direction offD off; a_dir = media_direction ansD ans in
      if o_dir = SDPRecvOnly then a_dir = SDPSendOnly \<or> a_dir = SDPInactive
      else if o_dir = SDPSendOnly then a_dir = SDPRecvOnly \<or> a_dir = SDPInactive
      else o_dir \<noteq> SDPInactive \<or> a_dir = SDPInactive)"

text \<open>
  The loop over the sections: the sections already corrected, then the rest. Directions are read with the
  session attributes of the two descriptions, which the loop does not touch.
\<close>

fun normalize_sections ::
  "('m, 's) sdp_lib \<Rightarrow> ('m, 's) session_description \<Rightarrow> ('m, 's) session_description \<Rightarrow>
   'm media_description list \<Rightarrow> 'm media_description list \<Rightarrow>
   goerr + bool \<times> 'm media_description list" where
  "normalize_sections L offD ansD (off # offs) (ans # anss) =
     (if \<not> sameMediaIdentity L off ans then Inl (bad_request ''SDP answer media order differs'')
      else if md_port ans = 0 then
        (case normalize_sections L offD ansD offs anss of
           Inl e \<Rightarrow> Inl e | Inr (ch, rest) \<Rightarrow> Inr (ch, ans # rest))
      else if md_port off = 0
      then Inl (bad_request ''SDP answer reactivates a rejected offer section'')
      else let (ch1, ans') = normalizeRecvOnlyAnswer L offD ansD off ans in
        if \<not> answerDirectionAllowed offD ansD off ans'
        then Inl (bad_request ''SDP answer direction incompatible with offer'')
        else (case normalize_sections L offD ansD offs anss of
                Inl e \<Rightarrow> Inl e | Inr (ch, rest) \<Rightarrow> Inr (ch1 \<or> ch, ans' # rest)))"
| "normalize_sections L offD ansD _ [] = Inr (False, [])"
| "normalize_sections L offD ansD [] (ans # anss) = Inr (False, ans # anss)"

definition normalizeAnswerMediaSections ::
  "('m, 's) sdp_lib \<Rightarrow> ('m, 's) session_description \<Rightarrow> ('m, 's) session_description \<Rightarrow>
   goerr + bool \<times> ('m, 's) session_description" where
  "normalizeAnswerMediaSections L off ans =
     (case normalize_sections L off ans (sd_media off) (sd_media ans) of
        Inl e \<Rightarrow> Inl e
      | Inr (changed, ms) \<Rightarrow> Inr (changed, ans\<lparr>sd_media := ms\<rparr>))"

definition NormalizeAnswer :: "('m, 's) sdp_lib \<Rightarrow> string \<Rightarrow> string \<Rightarrow> goerr + string" where
  "NormalizeAnswer L off ans =
     (case ParseSDP L off of Inl e \<Rightarrow> Inl e
      | Inr offD \<Rightarrow>
          (case ParseSDP L ans of Inl e \<Rightarrow> Inl e
           | Inr ansD \<Rightarrow>
               if length (sd_media offD) \<noteq> length (sd_media ansD)
               then Inl (bad_request ''SDP answer media count differs'')
               else case normalizeAnswerMediaSections L offD ansD of
                 Inl e \<Rightarrow> Inl e
               | Inr (changed, ansD') \<Rightarrow>
                   if \<not> changed then Inr ans
                   else case sdp_marshal L ansD' of
                     Inl e \<Rightarrow> Inl (NewInternalServerError ''cannot encode SDP answer'' (Some e))
                   | Inr encoded \<Rightarrow> Inr encoded))"

section \<open>What validation accepts\<close>

text \<open>The documented behaviour of the SDP package that the code relies on.\<close>

definition sdp_lookup_documented :: "('m, 's) sdp_lib \<Rightarrow> bool" where
  "sdp_lookup_documented L \<longleftrightarrow>
     (\<forall>m k. media_attribute L m k = map_of (map (\<lambda>a. (attr_key a, attr_value a)) (md_attributes m)) k)
     \<and> (\<forall>k. attr_key (property_attribute L k) = k)"

text \<open>The declarative reading: unique non-empty media ids, one id and at most one direction per section.\<close>

definition section_ok :: "'m media_description \<Rightarrow> bool" where
  "section_ok m \<longleftrightarrow>
     length (filter (\<lambda>a. attr_key a = ''mid'') (md_attributes m)) = 1 \<and> direction_count (md_attributes m) \<le> 1"

definition bundle_ok :: "string set \<Rightarrow> sdp_attribute \<Rightarrow> bool" where
  "bundle_ok mids a \<longleftrightarrow>
     (case string_fields (attr_value a) of
        [] \<Rightarrow> True
      | f # members \<Rightarrow>
          if attr_key a = ''group'' \<and> f = ''BUNDLE'' then distinct members \<and> set members \<subseteq> mids else True)"

definition sdp_valid :: "('m, 's) sdp_lib \<Rightarrow> ('m, 's) session_description \<Rightarrow> bool" where
  "sdp_valid L d \<longleftrightarrow>
     sd_media d \<noteq> []
     \<and> direction_count (sd_attributes d) \<le> 1
     \<and> list_all section_ok (sd_media d)
     \<and> [] \<notin> media_mid L ` set (sd_media d)
     \<and> distinct (map (media_mid L) (sd_media d))
     \<and> list_all (bundle_ok (media_mid L ` set (sd_media d))) (sd_attributes d)"

lemma bundle_members_iff:
  "bundle_members mids seen ms \<longleftrightarrow> distinct ms \<and> set ms \<subseteq> mids \<and> set ms \<inter> seen = {}"
  by (induction mids seen ms rule: bundle_members.induct) auto

lemma validateBundleGroups_iff:
  "validateBundleGroups attrs mids = None \<longleftrightarrow> list_all (bundle_ok mids) attrs"
  by (induction attrs mids rule: validateBundleGroups.induct)
     (auto simp: bundle_ok_def bundle_members_iff split: list.splits)

lemma validateMediaAttributes_iff: "validateMediaAttributes (md_attributes m) = None \<longleftrightarrow> section_ok m"
  by (auto simp: validateMediaAttributes_def section_ok_def Let_def)

lemma media_sections_iff:
  "media_sections L ms mids = Inr r \<longleftrightarrow>
     list_all section_ok ms \<and> [] \<notin> media_mid L ` set ms \<and> distinct (map (media_mid L) ms)
     \<and> media_mid L ` set ms \<inter> mids = {} \<and> r = mids \<union> media_mid L ` set ms"
proof (induction ms arbitrary: mids)
  case Nil
  then show ?case by auto
next
  case (Cons m ms)
  show ?case
  proof (cases "media_attribute L m ''mid''")
    case None
    then show ?thesis by (simp add: media_mid_def)
  next
    case (Some mid)
    then have mid: "media_mid L m = mid" by (simp add: media_mid_def)
    have "media_sections L (m # ms) mids = Inr r \<longleftrightarrow>
        mid \<noteq> [] \<and> mid \<notin> mids \<and> section_ok m \<and> media_sections L ms (insert mid mids) = Inr r"
      using Some by (auto simp: validateMediaAttributes_iff [symmetric] split: option.splits)
    with Cons [of "insert mid mids"] mid show ?thesis by auto
  qed
qed

text \<open>\<open>ParseSDP\<close> succeeds exactly on the texts within the size limit that the SDP package parses to
  a description meeting the declarative rules (some media section, unique non-empty media ids, at most one
  direction at each level, bundles of known and distinct ids), and returns that description unchanged.\<close>

theorem ParseSDP_iff:
  "ParseSDP L raw = Inr d \<longleftrightarrow>
     length raw \<le> maxSDPBytes
     \<and> sdp_unmarshal L (if has_suffix raw [CHR 0x0A] then raw else raw @ [CHR 0x0D, CHR 0x0A]) = Inr d
     \<and> sdp_valid L d"
proof -
  let ?u = "sdp_unmarshal L (if has_suffix raw [CHR 0x0A] then raw else raw @ [CHR 0x0D, CHR 0x0A])"
  show ?thesis
  proof (cases ?u)
    case (Inl e)
    then show ?thesis by (auto simp: ParseSDP_def Let_def split: if_splits)
  next
    case (Inr d')
    have "ParseSDP L raw = Inr d \<longleftrightarrow> length raw \<le> maxSDPBytes \<and> d' = d \<and> sd_media d \<noteq> []
        \<and> direction_count (sd_attributes d) \<le> 1
        \<and> (\<exists>mids. media_sections L (sd_media d) {} = Inr mids
             \<and> validateBundleGroups (sd_attributes d) mids = None)"
      using Inr by (auto simp: ParseSDP_def validateSessionDirection_def validateMediaSections_def Let_def
          split: sum.splits option.splits if_splits)
    with Inr show ?thesis
      by (auto simp: media_sections_iff validateBundleGroups_iff sdp_valid_def)
  qed
qed


section \<open>What correction guarantees\<close>

definition other_attributes :: "'m media_description \<Rightarrow> sdp_attribute list" where
  "other_attributes m = filter (\<lambda>a. \<not> isDirection (attr_key a)) (md_attributes m)"

text \<open>An answer section and its corrected form: everything but the direction survives, and an accepted
  section (port not zero) answers an accepted offer section with a compatible direction.\<close>

definition corrected ::
  "('m, 's) session_description \<Rightarrow> ('m, 's) session_description \<Rightarrow> 'm media_description \<Rightarrow>
   'm media_description \<Rightarrow> 'm media_description \<Rightarrow> bool" where
  "corrected offD ansD off ans ans' \<longleftrightarrow>
     md_media ans' = md_media ans \<and> md_port ans' = md_port ans \<and> md_other ans' = md_other ans
     \<and> other_attributes ans' = other_attributes ans
     \<and> (md_port ans = 0 \<or> md_port off \<noteq> 0 \<and> answerDirectionAllowed offD ansD off ans')"

lemma isDirection_consts [simp]:
  "isDirection SDPSendRecv" "isDirection SDPSendOnly" "isDirection SDPRecvOnly" "isDirection SDPInactive"
  "\<not> isDirection ''mid''"
  by (simp_all add: isDirection_def sdp_dirs)

lemma mid_other_attributes:
  assumes "sdp_lookup_documented L"
  shows "media_attribute L m ''mid'' =
    map_of (map (\<lambda>a. (attr_key a, attr_value a)) (other_attributes m)) ''mid''"
proof -
  have "map_of (map (\<lambda>a. (attr_key a, attr_value a)) as) ''mid'' =
      map_of (map (\<lambda>a. (attr_key a, attr_value a)) (filter (\<lambda>a. \<not> isDirection (attr_key a)) as)) ''mid''" for as
    by (induction as) (auto simp: isDirection_def sdp_dirs)
  with assms show ?thesis by (simp add: sdp_lookup_documented_def other_attributes_def)
qed

lemma media_mid_other:
  "sdp_lookup_documented L \<Longrightarrow> other_attributes m' = other_attributes m \<Longrightarrow> media_mid L m' = media_mid L m"
  by (simp add: media_mid_def mid_other_attributes)

lemma filter_mid_other:
  "filter (\<lambda>a. attr_key a = ''mid'') (md_attributes m) = filter (\<lambda>a. attr_key a = ''mid'') (other_attributes m)"
  unfolding other_attributes_def filter_filter by (rule filter_cong) auto

lemma filter_map_sendonly:
  "filter (\<lambda>a. \<not> isDirection (attr_key a))
     (map (\<lambda>a. if attr_key a = SDPSendRecv then a\<lparr>attr_key := SDPSendOnly\<rparr> else a) as)
   = filter (\<lambda>a. \<not> isDirection (attr_key a)) as"
  by (induction as) auto

lemma count_map_sendonly:
  "direction_count (map (\<lambda>a. if attr_key a = SDPSendRecv then a\<lparr>attr_key := SDPSendOnly\<rparr> else a) as)
   = direction_count as"
  by (induction as) (auto simp: direction_count_def)

lemma first_direction_None: "first_direction as = None \<longleftrightarrow> direction_count as = 0"
  by (auto simp: first_direction_def direction_count_def find_None_iff filter_empty_conv)

lemma first_direction_Some: "first_direction as = Some k \<Longrightarrow> \<exists>a\<in>set as. attr_key a = k"
  by (auto simp: first_direction_def find_Some_iff)

lemma normalizeRecvOnlyAnswer_keeps:
  assumes "sdp_lookup_documented L" and "normalizeRecvOnlyAnswer L offD ansD off ans = (ch, ans')"
  shows "md_media ans' = md_media ans \<and> md_port ans' = md_port ans \<and> md_other ans' = md_other ans
    \<and> other_attributes ans' = other_attributes ans
    \<and> (direction_count (md_attributes ans) \<le> 1 \<longrightarrow> direction_count (md_attributes ans') \<le> 1)
    \<and> (ch \<or> ans' = ans)"
proof (cases "list_ex (\<lambda>a. attr_key a = SDPSendRecv) (md_attributes ans)")
  case True
  with assms(2) show ?thesis
    by (auto simp: normalizeRecvOnlyAnswer_def other_attributes_def filter_map_sendonly count_map_sendonly
        split: if_splits)
next
  case False
  then have "\<And>a. a \<in> set (md_attributes ans) \<Longrightarrow> attr_key a \<noteq> SDPSendRecv" by (simp add: list_ex_iff)
  then have "first_direction (md_attributes ans) \<noteq> Some SDPSendRecv"
    using first_direction_Some by blast
  then have "media_direction ansD ans = SDPSendRecv \<Longrightarrow> direction_count (md_attributes ans) = 0"
    by (auto simp: media_direction_def first_direction_None [symmetric] split: option.splits)
  with False assms show ?thesis
    by (auto simp: normalizeRecvOnlyAnswer_def other_attributes_def direction_count_def
        sdp_lookup_documented_def split: if_splits)
qed

lemma normalizeRecvOnlyAnswer_stable:
  "answerDirectionAllowed offD ansD off ans \<Longrightarrow> normalizeRecvOnlyAnswer L offD ansD off ans = (False, ans)"
  by (auto simp: answerDirectionAllowed_def normalizeRecvOnlyAnswer_def sdp_dirs Let_def split: if_splits)

lemma normalize_sections_corrected:
  assumes "sdp_lookup_documented L"
  shows "length offs = length anss \<Longrightarrow> normalize_sections L offD ansD offs anss = Inr (ch, ms) \<Longrightarrow>
    length ms = length anss
    \<and> (\<forall>i<length anss. corrected offD ansD (offs ! i) (anss ! i) (ms ! i)
         \<and> (direction_count (md_attributes (anss ! i)) \<le> 1 \<longrightarrow> direction_count (md_attributes (ms ! i)) \<le> 1))
    \<and> (ch \<or> ms = anss)
    \<and> normalize_sections L offD ansD offs ms = Inr (False, ms)"
proof (induction offs anss arbitrary: ch ms rule: list_induct2)
  case Nil
  then show ?case by simp
next
  case (Cons off offs ans anss)
  obtain ch1 ans' where n: "normalizeRecvOnlyAnswer L offD ansD off ans = (ch1, ans')" by fastforce
  note k = normalizeRecvOnlyAnswer_keeps [OF assms n]
  from k have mid: "media_mid L ans' = media_mid L ans" using media_mid_other [OF assms] by blast
  have same: "sameMediaIdentity L off ans" using Cons.prems by (auto split: if_splits)
  show ?case
  proof (cases "md_port ans = 0")
    case True
    with Cons.prems same obtain rest where r: "normalize_sections L offD ansD offs anss = Inr (ch, rest)"
        "ms = ans # rest"
      by (auto split: sum.splits)
    from Cons.IH [OF r(1)] r(2) True same show ?thesis
      by (auto simp: nth_Cons corrected_def split: nat.splits)
  next
    case False
    with Cons.prems same n obtain ch2 rest where r: "normalize_sections L offD ansD offs anss = Inr (ch2, rest)"
        "ms = ans' # rest" "ch = (ch1 \<or> ch2)" "md_port off \<noteq> 0" "answerDirectionAllowed offD ansD off ans'"
      by (auto split: sum.splits if_splits)
    have same': "sameMediaIdentity L off ans'" using same k mid by (simp add: sameMediaIdentity_def)
    have "\<forall>i<length (ans # anss). corrected offD ansD ((off # offs) ! i) ((ans # anss) ! i) (ms ! i)
        \<and> (direction_count (md_attributes ((ans # anss) ! i)) \<le> 1
             \<longrightarrow> direction_count (md_attributes (ms ! i)) \<le> 1)"
      using Cons.IH [OF r(1)] r k by (auto simp: nth_Cons corrected_def split: nat.splits)
    moreover have "normalize_sections L offD ansD (off # offs) ms = Inr (False, ms)"
      using Cons.IH [OF r(1)] r same' k normalizeRecvOnlyAnswer_stable [OF r(5), of L] False by simp
    ultimately show ?thesis using Cons.IH [OF r(1)] r k by auto
  qed
qed

lemma normalize_sections_session_only:
  assumes "sd_attributes ansD' = sd_attributes ansD"
  shows "normalize_sections L offD ansD' offs anss = normalize_sections L offD ansD offs anss"
proof -
  have "media_direction ansD' = media_direction ansD"
    by (intro ext) (simp only: media_direction_def assms)
  then have eq: "normalizeRecvOnlyAnswer L offD ansD' = normalizeRecvOnlyAnswer L offD ansD"
    "answerDirectionAllowed offD ansD' = answerDirectionAllowed offD ansD"
    by (simp_all add: normalizeRecvOnlyAnswer_def answerDirectionAllowed_def fun_eq_iff)
  show ?thesis
  proof (induction offs arbitrary: anss)
    case Nil
    then show ?case by (cases anss) simp_all
  next
    case (Cons off offs)
    then show ?case by (cases anss) (simp_all only: normalize_sections.simps eq)
  qed
qed

text \<open>C20: when the answer is accepted, each of its media sections keeps its kind, port, vendor data and all
  attributes but the direction, every accepted section answers an accepted offer section with a direction
  that the offer allows, a valid answer stays valid, and correcting the result again changes nothing.\<close>

theorem normalizeAnswerMediaSections_correct:
  assumes "sdp_lookup_documented L" and "length (sd_media offD) = length (sd_media ansD)"
    and "normalizeAnswerMediaSections L offD ansD = Inr (changed, ansD')"
  shows "length (sd_media ansD') = length (sd_media ansD)
    \<and> (\<forall>i<length (sd_media ansD).
          corrected offD ansD (sd_media offD ! i) (sd_media ansD ! i) (sd_media ansD' ! i))
    \<and> (sdp_valid L ansD \<longrightarrow> sdp_valid L ansD')
    \<and> (changed \<or> ansD' = ansD)
    \<and> normalizeAnswerMediaSections L offD ansD' = Inr (False, ansD')"
proof -
  obtain ms where ms: "normalize_sections L offD ansD (sd_media offD) (sd_media ansD) = Inr (changed, ms)"
      "ansD' = ansD\<lparr>sd_media := ms\<rparr>"
    using assms(3) by (auto simp: normalizeAnswerMediaSections_def split: sum.splits)
  note c = normalize_sections_corrected [OF assms(1) assms(2) ms(1)]
  have len: "length ms = length (sd_media ansD)" using c by blast
  have mids: "map (media_mid L) ms = map (media_mid L) (sd_media ansD)"
  proof (rule nth_equalityI)
    fix i assume i: "i < length (map (media_mid L) ms)"
    with len have "i < length (sd_media ansD)" by simp
    with c have "other_attributes (ms ! i) = other_attributes (sd_media ansD ! i)"
      by (simp add: corrected_def)
    then have "media_mid L (ms ! i) = media_mid L (sd_media ansD ! i)"
      by (rule media_mid_other [OF assms(1)])
    with i len show "map (media_mid L) ms ! i = map (media_mid L) (sd_media ansD) ! i" by simp
  qed (simp add: len)
  have sec: "list_all section_ok ms" if ok: "list_all section_ok (sd_media ansD)"
    unfolding list_all_length
  proof (intro allI impI)
    fix i assume "i < length ms"
    with len have i: "i < length (sd_media ansD)" by simp
    with ok have "section_ok (sd_media ansD ! i)" by (simp add: list_all_length)
    moreover have "other_attributes (ms ! i) = other_attributes (sd_media ansD ! i)"
        "direction_count (md_attributes (sd_media ansD ! i)) \<le> 1 \<longrightarrow> direction_count (md_attributes (ms ! i)) \<le> 1"
      using c i by (simp_all add: corrected_def)
    ultimately show "section_ok (ms ! i)" by (simp only: section_ok_def filter_mid_other)
  qed
  have "media_mid L ` set ms = media_mid L ` set (sd_media ansD)"
    using mids by (metis set_map)
  then have "sdp_valid L ansD \<longrightarrow> sdp_valid L ansD'"
    using mids sec len ms(2) by (auto simp: sdp_valid_def)
  moreover have "normalizeAnswerMediaSections L offD ansD' = Inr (False, ansD')"
    using c ms(2) normalize_sections_session_only [of ansD' ansD]
    by (simp add: normalizeAnswerMediaSections_def)
  ultimately show ?thesis using c ms(2) by auto
qed

definition example_sdp_lib :: "(unit, unit) sdp_lib" where
  "example_sdp_lib =
     \<lparr>sdp_unmarshal = (\<lambda>_. Inl JSONError), sdp_marshal = (\<lambda>_. Inl JSONError),
      media_attribute = (\<lambda>m. map_of (map (\<lambda>a. (attr_key a, attr_value a)) (md_attributes m))),
      property_attribute = (\<lambda>k. \<lparr>attr_key = k, attr_value = []\<rparr>)\<rparr>"

definition example_description :: "string \<Rightarrow> (unit, unit) session_description" where
  "example_description dir =
     \<lparr>sd_attributes = [],
      sd_media = [\<lparr>md_media = ''video'', md_port = 9,
                    md_attributes = [\<lparr>attr_key = ''mid'', attr_value = ''0''\<rparr>,
                                     \<lparr>attr_key = dir, attr_value = []\<rparr>],
                    md_other = ()\<rparr>],
      sd_other = ()\<rparr>"

theorem normalizeAnswerMediaSections_correct_witness:
  "corrected (example_description ''recvonly'') (example_description ''sendrecv'')
     (sd_media (example_description ''recvonly'') ! 0) (sd_media (example_description ''sendrecv'') ! 0)
     (sd_media (example_description ''sendonly'') ! 0)"
proof -
  have doc: "sdp_lookup_documented example_sdp_lib"
    by (simp add: sdp_lookup_documented_def example_sdp_lib_def)
  have len: "length (sd_media (example_description ''recvonly'')) =
      length (sd_media (example_description ''sendrecv''))"
    by (simp add: example_description_def)
  have run: "normalizeAnswerMediaSections example_sdp_lib (example_description ''recvonly'')
      (example_description ''sendrecv'') = Inr (True, example_description ''sendonly'')"
    by (simp add: normalizeAnswerMediaSections_def example_description_def sameMediaIdentity_def
        media_mid_def example_sdp_lib_def normalizeRecvOnlyAnswer_def media_direction_def
        first_direction_def isDirection_def sdp_dirs answerDirectionAllowed_def)
  show ?thesis
    using normalizeAnswerMediaSections_correct [OF doc len run] by (simp add: example_description_def)
qed

text \<open>\<open>ValidateICE\<close> accepts a candidate exactly when its index selects a media section of the
  description and its media id, when given, is the id of that section.\<close>

theorem ValidateICE_iff:
  "ValidateICE L (Some d) mid index = None \<longleftrightarrow>
     0 \<le> index \<and> nat index < length (sd_media d) \<and> (mid = [] \<or> mid = media_mid L (sd_media d ! nat index))"
  by (auto simp: ValidateICE_def media_mid_def Let_def)

end
