(* ===== verification/GoJson.thy ===== *)
theory GoJson
  imports Complex_Main Prelude
begin

text \<open>
  \<open>encoding/json\<close> as the program uses it, on parsed values. \<open>json\<close> is a parsed document: objects keep the
  order and the duplicates of their members. \<open>raw_message\<close> is a \<open>json.RawMessage\<close> or a byte slice handed to
  the decoder: absent, blank, not JSON, or a document. \<open>gotype\<close> describes a decoding target, one
  constructor per kind of Go type the program decodes into, and \<open>goval\<close> its values.

  \<open>unmarshal\<close> follows the package's rules: null leaves scalars and structs alone and clears pointers, maps
  and slices; an object's members go to the field of that name, or, failing that, to a field whose name is
  equal up to letter case; unknown members are skipped; a later duplicate is decoded over an earlier one;
  a value of the wrong kind is remembered as an error and decoding goes on. The outcome None is a run-time
  panic: the generated enum types look their decoded value up in a map with interface keys, which
  panics for an array or an object. Numbers are read at their exact value; rounding to float64 is modelled
  where the program can see it, at zero and at the overflow bound.
\<close>

section \<open>Documents\<close>

text \<open>A number as its literal text, or as a float64 that the encoder printed.\<close>

datatype jnum = NLit string | NFloat rat

datatype json =
    JNull
  | JBool bool
  | JNum jnum
  | JStr string
  | JArr "json list"
  | JObj "(string \<times> json) list"

datatype raw_message = RawNil | RawBlank | RawBad | RawJson json

section \<open>Numbers\<close>

definition lit_split :: "(char \<Rightarrow> bool) \<Rightarrow> string \<Rightarrow> string \<times> string" where
  "lit_split p s = (takeWhile (\<lambda>c. \<not> p c) s, drop 1 (dropWhile (\<lambda>c. \<not> p c) s))"

definition lit_digits :: "string \<Rightarrow> int" where
  "lit_digits s = (case digits_val 0 s of None \<Rightarrow> 0 | Some n \<Rightarrow> int n)"

definition lit_signed :: "string \<Rightarrow> int" where
  "lit_signed s = (case s of [] \<Rightarrow> 0
     | c # cs \<Rightarrow> if c = CHR ''-'' then - lit_digits cs
                 else if c = CHR ''+'' then lit_digits cs else lit_digits s)"

text \<open>The value of a number literal: mantissa times a power of ten.\<close>

definition lit_value :: "string \<Rightarrow> rat" where
  "lit_value s =
     (let (base, ex) = lit_split (\<lambda>c. c = CHR ''e'' \<or> c = CHR ''E'') s;
          (whole, frac) = lit_split (\<lambda>c. c = CHR ''.'') base;
          neg = (take 1 whole = ''-'');
          ds = lit_digits ((if neg then drop 1 whole else whole) @ frac);
          m = (if neg then - ds else ds);
          e = lit_signed ex - int (length frac)
      in if e \<ge> 0 then of_int m * 10 ^ nat e else of_int m / 10 ^ nat (- e))"

definition num_value :: "jnum \<Rightarrow> rat" where
  "num_value n = (case n of NLit s \<Rightarrow> lit_value s | NFloat q \<Rightarrow> q)"

text \<open>\<open>strconv.ParseFloat\<close>: None when the magnitude rounds past the largest float64, zero when it rounds to zero.\<close>

definition num_float :: "jnum \<Rightarrow> rat option" where
  "num_float n =
     (let q = num_value n in
      if \<bar>q\<bar> \<ge> 2 ^ 1024 - 2 ^ 970 then None
      else if \<bar>q\<bar> * 2 ^ 1075 \<le> 1 then Some 0 else Some q)"

text \<open>Integers are printed without exponent below \<open>10\<^sup>2\<^sup>1\<close>.\<close>

definition num_int :: "jnum \<Rightarrow> int option" where
  "num_int n =
     (case n of
        NLit s \<Rightarrow> parse_int64 s
      | NFloat q \<Rightarrow> if of_int \<lfloor>q\<rfloor> = q \<and> fits_int64 \<lfloor>q\<rfloor> then Some \<lfloor>q\<rfloor> else None)"

text \<open>A value decoded into \<open>interface{}\<close>: numbers become float64, objects become maps.\<close>

fun any_norm :: "json \<Rightarrow> json" where
  "any_norm JNull = JNull"
| "any_norm (JBool b) = JBool b"
| "any_norm (JNum n) = (case num_float n of None \<Rightarrow> JNull | Some q \<Rightarrow> JNum (NFloat q))"
| "any_norm (JStr s) = JStr s"
| "any_norm (JArr js) = JArr (map any_norm js)"
| "any_norm (JObj kvs) = JObj (gm_build (map (\<lambda>kv. (fst kv, any_norm (snd kv))) kvs))"

fun any_ok :: "json \<Rightarrow> bool" where
  "any_ok (JNum n) = (num_float n \<noteq> None)"
| "any_ok (JArr js) = list_all any_ok js"
| "any_ok (JObj kvs) = list_all (\<lambda>kv. any_ok (snd kv)) kvs"
| "any_ok _ = True"

section \<open>Targets\<close>

datatype gotype =
    TString | TInt | TFloat | TBool
  | TAny
  | TMap
  | TRawMap
  | TPtr gotype
  | TSlice gotype
  | TEnum "string list"
  | TStruct "(string \<times> bool \<times> gotype) list"
    \<comment> \<open>JSON name, omitempty, type of each field\<close>

datatype goval =
    VString string | VInt int | VFloat rat | VBool bool
  | VAny json
  | VMap "(string \<times> json) list option"
  | VRawMap "(string \<times> json) list option"
  | VPtr "goval option"
  | VSlice "goval list option"
  | VEnum nat
  | VStruct "goval list"

fun zero_value :: "gotype \<Rightarrow> goval" where
  "zero_value TString = VString []"
| "zero_value TInt = VInt 0"
| "zero_value TFloat = VFloat 0"
| "zero_value TBool = VBool False"
| "zero_value TAny = VAny JNull"
| "zero_value TMap = VMap None"
| "zero_value TRawMap = VRawMap None"
| "zero_value (TPtr _) = VPtr None"
| "zero_value (TSlice _) = VSlice None"
| "zero_value (TEnum _) = VEnum 0"
| "zero_value (TStruct fs) = VStruct (map (\<lambda>f. zero_value (snd (snd f))) fs)"

text \<open>
  \<open>foldName\<close>: ASCII letters in upper case; the two non-ASCII letters that fold to ASCII ones are the long s
  (bytes C5 BF) and the Kelvin sign (bytes E2 84 AA).
\<close>

definition upper_char :: "char \<Rightarrow> char" where
  "upper_char c =
     (let n = (of_char c :: nat) in if 97 \<le> n \<and> n \<le> 122 then char_of (n - 32) else c)"

fun fold_name :: "string \<Rightarrow> string" where
  "fold_name (a # b # c # s) =
     (if a = CHR 0xC5 \<and> b = CHR 0xBF then CHR ''S'' # fold_name (c # s)
      else if a = CHR 0xE2 \<and> b = CHR 0x84 \<and> c = CHR 0xAA then CHR ''K'' # fold_name s
      else upper_char a # fold_name (b # c # s))"
| "fold_name [a, b] =
     (if a = CHR 0xC5 \<and> b = CHR 0xBF then ''S'' else [upper_char a, upper_char b])"
| "fold_name [a] = [upper_char a]"
| "fold_name [] = []"

definition list_index :: "('a \<Rightarrow> bool) \<Rightarrow> 'a list \<Rightarrow> nat option" where
  "list_index p xs = (let n = length (takeWhile (\<lambda>x. \<not> p x) xs) in if n < length xs then Some n else None)"

text \<open>The field that receives the member \<open>k\<close>: the exact name wins over a name equal up to case.\<close>

definition field_index :: "(string \<times> bool \<times> gotype) list \<Rightarrow> string \<Rightarrow> nat option" where
  "field_index fs k =
     (case list_index (\<lambda>f. fst f = k) fs of
        Some i \<Rightarrow> Some i
      | None \<Rightarrow> list_index (\<lambda>f. fold_name (fst f) = fold_name k) fs)"

definition enum_index :: "string list \<Rightarrow> string \<Rightarrow> nat" where
  "enum_index names s = (case list_index (\<lambda>n. n = s) names of None \<Rightarrow> 0 | Some i \<Rightarrow> i)"

section \<open>Decoding\<close>

function (sequential) unmarshal :: "gotype \<Rightarrow> goval \<Rightarrow> json \<Rightarrow> (goval \<times> bool) option"
  and unmarshal_members ::
    "(string \<times> bool \<times> gotype) list \<Rightarrow> goval list \<Rightarrow> (string \<times> json) list \<Rightarrow> (goval list \<times> bool) option"
  and unmarshal_elements :: "gotype \<Rightarrow> goval list \<Rightarrow> json list \<Rightarrow> (goval list \<times> bool) option"
where
  "unmarshal TString old j =
     (case j of JNull \<Rightarrow> Some (old, False) | JStr s \<Rightarrow> Some (VString s, False) | _ \<Rightarrow> Some (old, True))"
| "unmarshal TInt old j =
     (case j of JNull \<Rightarrow> Some (old, False)
      | JNum n \<Rightarrow> (case num_int n of Some i \<Rightarrow> Some (VInt i, False) | None \<Rightarrow> Some (old, True))
      | _ \<Rightarrow> Some (old, True))"
| "unmarshal TFloat old j =
     (case j of JNull \<Rightarrow> Some (old, False)
      | JNum n \<Rightarrow> (case num_float n of Some q \<Rightarrow> Some (VFloat q, False) | None \<Rightarrow> Some (old, True))
      | _ \<Rightarrow> Some (old, True))"
| "unmarshal TBool old j =
     (case j of JNull \<Rightarrow> Some (old, False) | JBool b \<Rightarrow> Some (VBool b, False) | _ \<Rightarrow> Some (old, True))"
| "unmarshal TAny old j = Some (VAny (any_norm j), \<not> any_ok j)"
| "unmarshal TMap old j =
     (case j of
        JNull \<Rightarrow> Some (VMap None, False)
      | JObj kvs \<Rightarrow>
          Some (VMap (Some (fold (\<lambda>kv m. gm_put (fst kv) (any_norm (snd kv)) m) kvs
                       (case old of VMap (Some m) \<Rightarrow> m | _ \<Rightarrow> []))), \<not> any_ok j)
      | _ \<Rightarrow> Some (old, True))"
| "unmarshal TRawMap old j =
     (case j of
        JNull \<Rightarrow> Some (VRawMap None, False)
      | JObj kvs \<Rightarrow>
          Some (VRawMap (Some (fold (\<lambda>kv m. gm_put (fst kv) (snd kv) m) kvs
                          (case old of VRawMap (Some m) \<Rightarrow> m | _ \<Rightarrow> []))), False)
      | _ \<Rightarrow> Some (old, True))"
| "unmarshal (TPtr T) old j =
     (if j = JNull then Some (VPtr None, False)
      else map_option (\<lambda>(v, e). (VPtr (Some v), e))
             (unmarshal T (case old of VPtr (Some v) \<Rightarrow> v | _ \<Rightarrow> zero_value T) j))"
| "unmarshal (TSlice T) old j =
     (case j of
        JNull \<Rightarrow> Some (VSlice None, False)
      | JArr js \<Rightarrow>
          map_option (\<lambda>(vs, e). (VSlice (Some vs), e))
            (unmarshal_elements T (case old of VSlice (Some vs) \<Rightarrow> vs | _ \<Rightarrow> []) js)
      | _ \<Rightarrow> Some (old, True))"
| "unmarshal (TEnum names) old j =
     (if \<not> any_ok j then Some (old, True)
      else case j of JStr s \<Rightarrow> Some (VEnum (enum_index names s), False)
      | JArr _ \<Rightarrow> None | JObj _ \<Rightarrow> None | _ \<Rightarrow> Some (VEnum 0, False))"
| "unmarshal (TStruct fs) old j =
     (case j of
        JNull \<Rightarrow> Some (old, False)
      | JObj kvs \<Rightarrow>
          map_option (\<lambda>(vs, e). (VStruct vs, e))
            (unmarshal_members fs (case old of VStruct vs \<Rightarrow> vs | _ \<Rightarrow> map (\<lambda>f. zero_value (snd (snd f))) fs) kvs)
      | _ \<Rightarrow> Some (old, True))"
| "unmarshal_members fs vs [] = Some (vs, False)"
| "unmarshal_members fs vs ((k, j) # kvs) =
     (case field_index fs k of
        None \<Rightarrow> unmarshal_members fs vs kvs
      | Some i \<Rightarrow>
          (case unmarshal (snd (snd (fs ! i))) (vs ! i) j of
             None \<Rightarrow> None
           | Some (v, e) \<Rightarrow>
               map_option (\<lambda>(vs', e'). (vs', e \<or> e')) (unmarshal_members fs (vs[i := v]) kvs)))"
| "unmarshal_elements T olds [] = Some ([], False)"
| "unmarshal_elements T olds (j # js) =
     (case unmarshal T (case olds of [] \<Rightarrow> zero_value T | v # _ \<Rightarrow> v) j of
        None \<Rightarrow> None
      | Some (v, e) \<Rightarrow>
          map_option (\<lambda>(vs, e'). (v # vs, e \<or> e')) (unmarshal_elements T (drop 1 olds) js))"
  by pat_completeness auto
termination
  by (relation "inv_image (less_than <*lex*> less_than) (\<lambda>x. case x of
        Inl (T, old, j) \<Rightarrow> (size j, size T)
      | Inr (Inl (fs, vs, kvs)) \<Rightarrow> (size_list (size_prod (\<lambda>x. 0) size) kvs, 0)
      | Inr (Inr (T, olds, js)) \<Rightarrow> (size_list size js, 0))")
     auto


text \<open>The result of \<open>json.Unmarshal\<close>: the target's new value, an error, or a panic.\<close>

datatype 'a decoded = Decoded 'a | DecodeError | DecodePanic

definition json_unmarshal :: "gotype \<Rightarrow> goval \<Rightarrow> raw_message \<Rightarrow> goval decoded" where
  "json_unmarshal T old raw =
     (case raw of
        RawJson j \<Rightarrow> (case unmarshal T old j of
                        None \<Rightarrow> DecodePanic
                      | Some (v, err) \<Rightarrow> if err then DecodeError else Decoded v)
      | _ \<Rightarrow> DecodeError)"

definition json_decode :: "gotype \<Rightarrow> raw_message \<Rightarrow> goval decoded" where
  "json_decode T raw = json_unmarshal T (zero_value T) raw"

text \<open>\<open>map[string]json.RawMessage\<close>: the members of an object, the last duplicate winning; null gives a nil map.\<close>

definition json_object :: "raw_message \<Rightarrow> (string \<times> json) list option decoded" where
  "json_object raw =
     (case raw of
        RawJson JNull \<Rightarrow> Decoded None
      | RawJson (JObj kvs) \<Rightarrow> Decoded (Some (gm_build kvs))
      | _ \<Rightarrow> DecodeError)"

definition json_string :: "raw_message \<Rightarrow> string decoded" where
  "json_string raw =
     (case raw of RawJson JNull \<Rightarrow> Decoded [] | RawJson (JStr s) \<Rightarrow> Decoded s | _ \<Rightarrow> DecodeError)"

text \<open>\<open>fields[k]\<close> as a raw message: nil when the member is missing.\<close>

definition raw_member :: "(string \<times> json) list \<Rightarrow> string \<Rightarrow> raw_message" where
  "raw_member m k = (case map_of m k of None \<Rightarrow> RawNil | Some j \<Rightarrow> RawJson j)"

section \<open>Reading decoded structs\<close>

definition field_of :: "gotype \<Rightarrow> string \<Rightarrow> goval \<Rightarrow> goval" where
  "field_of T name v =
     (case (T, v) of
        (TStruct fs, VStruct vs) \<Rightarrow>
          (case list_index (\<lambda>f. fst f = name) fs of Some i \<Rightarrow> vs ! i | None \<Rightarrow> VAny JNull)
      | _ \<Rightarrow> VAny JNull)"

fun as_string :: "goval \<Rightarrow> string" where
  "as_string (VString s) = s" | "as_string _ = []"

fun as_int :: "goval \<Rightarrow> int" where
  "as_int (VInt i) = i" | "as_int _ = 0"

fun as_float :: "goval \<Rightarrow> rat" where
  "as_float (VFloat q) = q" | "as_float _ = 0"

fun as_bool :: "goval \<Rightarrow> bool" where
  "as_bool (VBool b) = b" | "as_bool _ = False"

fun as_pointer :: "goval \<Rightarrow> goval option" where
  "as_pointer (VPtr p) = p" | "as_pointer _ = None"

fun as_map :: "goval \<Rightarrow> (string \<times> json) list option" where
  "as_map (VMap m) = m" | "as_map _ = None"

text \<open>\<open>Value()\<close> of a generated enum: the name at the index, nil past the end.\<close>

definition enum_value :: "string list \<Rightarrow> goval \<Rightarrow> string option" where
  "enum_value names v =
     (case v of VEnum i \<Rightarrow> if i < length names then Some (names ! i) else None | _ \<Rightarrow> None)"

section \<open>Encoding\<close>

fun is_empty_value :: "goval \<Rightarrow> bool" where
  "is_empty_value (VString s) \<longleftrightarrow> s = []"
| "is_empty_value (VInt i) \<longleftrightarrow> i = 0"
| "is_empty_value (VFloat q) \<longleftrightarrow> q = 0"
| "is_empty_value (VBool b) \<longleftrightarrow> \<not> b"
| "is_empty_value (VAny j) \<longleftrightarrow> j = JNull"
| "is_empty_value (VMap m) \<longleftrightarrow> m = None \<or> m = Some []"
| "is_empty_value (VRawMap m) \<longleftrightarrow> m = None \<or> m = Some []"
| "is_empty_value (VPtr p) \<longleftrightarrow> p = None"
| "is_empty_value (VSlice vs) \<longleftrightarrow> vs = None \<or> vs = Some []"
| "is_empty_value (VEnum i) \<longleftrightarrow> i = 0"
| "is_empty_value (VStruct _) \<longleftrightarrow> False"

fun as_any :: "goval \<Rightarrow> json" where
  "as_any (VAny j) = j" | "as_any _ = JNull"

fun as_rawmap :: "goval \<Rightarrow> (string \<times> json) list option" where
  "as_rawmap (VRawMap m) = m" | "as_rawmap _ = None"

fun as_slice :: "goval \<Rightarrow> goval list option" where
  "as_slice (VSlice vs) = vs" | "as_slice _ = None"

fun as_struct :: "goval \<Rightarrow> goval list" where
  "as_struct (VStruct vs) = vs" | "as_struct _ = []"

function (sequential) marshal :: "gotype \<Rightarrow> goval \<Rightarrow> json"
  and marshal_fields :: "(string \<times> bool \<times> gotype) list \<Rightarrow> goval list \<Rightarrow> (string \<times> json) list"
where
  "marshal TString v = JStr (as_string v)"
| "marshal TInt v = JNum (NLit (dec_int (as_int v)))"
| "marshal TFloat v = JNum (NFloat (as_float v))"
| "marshal TBool v = JBool (as_bool v)"
| "marshal TAny v = as_any v"
| "marshal TMap v = (case as_map v of None \<Rightarrow> JNull | Some kvs \<Rightarrow> JObj kvs)"
| "marshal TRawMap v = (case as_rawmap v of None \<Rightarrow> JNull | Some kvs \<Rightarrow> JObj kvs)"
| "marshal (TPtr T) v = (case as_pointer v of None \<Rightarrow> JNull | Some w \<Rightarrow> marshal T w)"
| "marshal (TSlice T) v = (case as_slice v of None \<Rightarrow> JNull | Some vs \<Rightarrow> JArr (map (marshal T) vs))"
| "marshal (TEnum names) v = (case enum_value names v of None \<Rightarrow> JNull | Some s \<Rightarrow> JStr s)"
| "marshal (TStruct fs) v = JObj (marshal_fields fs (as_struct v))"
| "marshal_fields [] vs = []"
| "marshal_fields ((k, omit, T) # fs) vs =
     (case vs of [] \<Rightarrow> []
      | v # vs' \<Rightarrow>
          if omit \<and> is_empty_value v then marshal_fields fs vs' else (k, marshal T v) # marshal_fields fs vs')"
  by pat_completeness auto
termination
  by (relation "measure (\<lambda>x. case x of Inl (T, v) \<Rightarrow> size T
        | Inr (fs, vs) \<Rightarrow> size_list (size_prod (\<lambda>x. 0) (size_prod (\<lambda>x. 0) size)) fs)") auto

section \<open>Round trip\<close>

text \<open>Values of a type that survive encoding: numbers in range, enum indices in range, maps in normal
  form, no pointer to something printed as null, no empty non-nil value under omitempty.\<close>

function (sequential) has_type :: "gotype \<Rightarrow> goval \<Rightarrow> bool"
  and has_fields :: "(string \<times> bool \<times> gotype) list \<Rightarrow> goval list \<Rightarrow> bool"
where
  "has_type TString v = (case v of VString _ \<Rightarrow> True | _ \<Rightarrow> False)"
| "has_type TInt v = (case v of VInt i \<Rightarrow> fits_int64 i | _ \<Rightarrow> False)"
| "has_type TFloat v = (case v of VFloat q \<Rightarrow> num_float (NFloat q) = Some q | _ \<Rightarrow> False)"
| "has_type TBool v = (case v of VBool _ \<Rightarrow> True | _ \<Rightarrow> False)"
| "has_type TAny v = (case v of VAny j \<Rightarrow> any_norm j = j \<and> any_ok j | _ \<Rightarrow> False)"
| "has_type TMap v =
     (case v of VMap None \<Rightarrow> True
      | VMap (Some kvs) \<Rightarrow> gm_wf kvs \<and> any_ok (JObj kvs) \<and> list_all (\<lambda>kv. any_norm (snd kv) = snd kv) kvs
      | _ \<Rightarrow> False)"
| "has_type TRawMap v =
     (case v of VRawMap None \<Rightarrow> True | VRawMap (Some kvs) \<Rightarrow> gm_wf kvs | _ \<Rightarrow> False)"
| "has_type (TPtr T) v =
     (case v of VPtr None \<Rightarrow> True | VPtr (Some w) \<Rightarrow> has_type T w \<and> marshal T w \<noteq> JNull | _ \<Rightarrow> False)"
| "has_type (TSlice T) v =
     (case v of VSlice None \<Rightarrow> True | VSlice (Some vs) \<Rightarrow> list_all (has_type T) vs | _ \<Rightarrow> False)"
| "has_type (TEnum names) v = (case v of VEnum i \<Rightarrow> i < length names \<and> distinct names | _ \<Rightarrow> False)"
| "has_type (TStruct fs) v =
     (case v of VStruct vs \<Rightarrow> distinct (map fst fs) \<and> has_fields fs vs | _ \<Rightarrow> False)"
| "has_fields [] vs = (vs = [])"
| "has_fields ((k, omit, T) # fs) vs =
     (case vs of [] \<Rightarrow> False
      | v # vs' \<Rightarrow>
          has_type T v \<and> (omit \<and> is_empty_value v \<longrightarrow> v = zero_value T) \<and> has_fields fs vs')"
  by pat_completeness auto
termination
  by (relation "measure (\<lambda>x. case x of Inl (T, v) \<Rightarrow> size T
        | Inr (fs, vs) \<Rightarrow> size_list (size_prod (\<lambda>x. 0) (size_prod (\<lambda>x. 0) size)) fs)") auto


lemma list_index_distinct:
  assumes "distinct (map f xs)" and "i < length xs"
  shows "list_index (\<lambda>x. f x = f (xs ! i)) xs = Some i"
proof -
  have "takeWhile (\<lambda>x. \<not> f x = f (xs ! i)) xs = take i xs"
    by (rule takeWhile_eq_take_P_nth)
       (use assms in \<open>auto simp: distinct_conv_nth\<close>)
  with assms(2) show ?thesis by (simp add: list_index_def)
qed

lemma field_index_nth:
  "distinct (map fst fs) \<Longrightarrow> i < length fs \<Longrightarrow> field_index fs (fst (fs ! i)) = Some i"
  by (simp add: field_index_def list_index_distinct)

lemma field_index_append:
  "distinct (map fst (pre @ f # fs)) \<Longrightarrow> field_index (pre @ f # fs) (fst f) = Some (length pre)"
  using field_index_nth [of "pre @ f # fs" "length pre"] by simp

lemma enum_index_nth: "distinct names \<Longrightarrow> i < length names \<Longrightarrow> enum_index names (names ! i) = i"
  using list_index_distinct [of "\<lambda>x. x" names i] by (simp add: enum_index_def)

lemma gm_put_last: "\<forall>x\<in>set (map fst m). x < k \<Longrightarrow> gm_put k v m = m @ [(k, v)]"
  by (induction k v m rule: gm_put.induct) auto

lemma gm_fold_sorted:
  "sorted_wrt (<) (map fst (acc @ kvs)) \<Longrightarrow> list_all (\<lambda>kv. g (snd kv) = snd kv) kvs \<Longrightarrow>
   fold (\<lambda>kv m. gm_put (fst kv) (g (snd kv)) m) kvs acc = acc @ kvs"
proof (induction kvs arbitrary: acc)
  case Nil
  then show ?case by simp
next
  case (Cons kv kvs)
  have "gm_put (fst kv) (g (snd kv)) acc = acc @ [kv]"
    using Cons.prems gm_put_last [of acc "fst kv" "snd kv"] by (auto simp: sorted_wrt_append)
  with Cons show ?case by simp
qed

lemma num_int_dec_int: "fits_int64 i \<Longrightarrow> num_int (NLit (dec_int i)) = Some i"
  by (simp add: num_int_def parse_int64_dec_int)

lemma unmarshal_elements_marshal:
  "\<forall>v\<in>set vs. unmarshal T (zero_value T) (marshal T v) = Some (v, False) \<Longrightarrow>
   unmarshal_elements T [] (map (marshal T) vs) = Some (vs, False)"
  by (induction vs) auto

lemma marshal_roundtrip_mutual:
  "has_type T v \<longrightarrow> unmarshal T (zero_value T) (marshal T v) = Some (v, False)"
  "has_fields fs vs \<longrightarrow>
     (\<forall>pre vpre. distinct (map fst (pre @ fs)) \<longrightarrow> length pre = length vpre \<longrightarrow>
        unmarshal_members (pre @ fs) (vpre @ map (\<lambda>f. zero_value (snd (snd f))) fs) (marshal_fields fs vs)
        = Some (vpre @ vs, False))"
proof (induction T v and fs vs rule: has_type_has_fields.induct)
  case (6 v)
  then show ?case
    using gm_fold_sorted [of "[]" _ any_norm]
    by (auto simp: gm_wf_def split: goval.splits option.splits)
next
  case (7 v)
  then show ?case
    using gm_fold_sorted [of "[]" _ "\<lambda>x. x"]
    by (auto simp: gm_wf_def list_all_iff split: goval.splits option.splits)
next
  case (9 T v)
  then show ?case
    by (auto simp: unmarshal_elements_marshal list_all_iff split: goval.splits option.splits)
next
  case (11 fs v)
  show ?case
  proof
    assume "has_type (TStruct fs) v"
    then obtain vs where v: "v = VStruct vs" "distinct (map fst fs)" "has_fields fs vs"
      by (auto split: goval.splits)
    with 11 [OF v(1)] have "unmarshal_members fs (map (\<lambda>f. zero_value (snd (snd f))) fs) (marshal_fields fs vs)
        = Some (vs, False)"
      by (metis append_Nil list.size(3))
    with v show "unmarshal (TStruct fs) (zero_value (TStruct fs)) (marshal (TStruct fs) v) = Some (v, False)"
      by simp
  qed
next
  case (13 k omit T fs vs)
  show ?case
  proof (intro impI allI)
    fix pre vpre
    assume h: "has_fields ((k, omit, T) # fs) vs" "distinct (map fst (pre @ (k, omit, T) # fs))"
      "length pre = length (vpre :: goval list)"
    then obtain v vs' where vs: "vs = v # vs'" and v: "has_type T v" "has_fields fs vs'"
        and om: "omit \<and> is_empty_value v \<longrightarrow> v = zero_value T"
      by (auto split: list.splits)
    have u: "unmarshal T (zero_value T) (marshal T v) = Some (v, False)" using 13 vs v(1) by blast
    have "distinct (map fst ((pre @ [(k, omit, T)]) @ fs))" using h(2) by simp
    moreover have "length (pre @ [(k, omit, T)]) = length (vpre @ [v])" using h(3) by simp
    ultimately have rest: "unmarshal_members ((pre @ [(k, omit, T)]) @ fs)
        ((vpre @ [v]) @ map (\<lambda>f. zero_value (snd (snd f))) fs) (marshal_fields fs vs') = Some ((vpre @ [v]) @ vs', False)"
      using 13 vs v(2) by blast
    have idx: "field_index (pre @ (k, omit, T) # fs) k = Some (length pre)"
      using field_index_append [of pre "(k, omit, T)" fs] h(2) by simp
    show "unmarshal_members (pre @ (k, omit, T) # fs)
        (vpre @ map (\<lambda>f. zero_value (snd (snd f))) ((k, omit, T) # fs)) (marshal_fields ((k, omit, T) # fs) vs)
        = Some (vpre @ vs, False)"
      using rest idx u vs om h(3) by (auto simp: nth_append list_update_append)
  qed
qed (auto simp: num_int_dec_int enum_value_def enum_index_nth
    split: goval.splits option.splits if_splits)

lemma marshal_roundtrip: "has_type T v \<Longrightarrow> json_decode T (RawJson (marshal T v)) = Decoded v"
  using marshal_roundtrip_mutual(1) by (simp add: json_decode_def json_unmarshal_def)

end
