(* ===== verification/SignalingModels.thy ===== *)
theory SignalingModels
  imports GoJson
begin

text \<open>
  The wire structs and enums of \<open>pkg/dependencymodels/signaling\<close>, one decoding target per Go type,
  field by field with the JSON names and omitempty flags of the tags. Fields tagged \<open>json:"-"\<close> are not
  decoded and do not appear; the tag \<open>json:"-,omitempty"\<close> of \<open>AdditionalProperties\<close> names the member
  \<open>-\<close>. An enum is the list of its names, in the order of its constants.
\<close>

definition AccountEventFrame :: gotype where
  "AccountEventFrame = TStruct
     [(''kind'', True, TString),
      (''device_id'', True, TInt),
      (''timestamp'', True, TString),
      (''-'', True, TMap)]"

definition AnonymousSchema_1_Values :: "string list" where
  "AnonymousSchema_1_Values =
     [''activate_session'',
      ''camera_options'',
      ''camera_started'',
      ''close'',
      ''ice'',
      ''live_view'',
      ''mic_enable'',
      ''notification'',
      ''ping'',
      ''playback'',
      ''pong'',
      ''push_event'',
      ''push_heartbeat'',
      ''push_subscribe'',
      ''push_subscription_ack'',
      ''push_unsubscribe'',
      ''rpc'',
      ''sdp'',
      ''session_created'',
      ''stream_options'']"

definition AnonymousSchema_1 :: gotype where "AnonymousSchema_1 = TEnum AnonymousSchema_1_Values"

definition AnonymousSchema_199_Values :: "string list" where
  "AnonymousSchema_199_Values =
     [''PTZ.Pan.Continuous'',
      ''PTZ.Tilt.Continuous'']"

definition AnonymousSchema_199 :: gotype where "AnonymousSchema_199 = TEnum AnonymousSchema_199_Values"

definition AnonymousSchema_82 :: gotype where
  "AnonymousSchema_82 = TStruct
     []"

definition AnonymousSchema_91 :: gotype where
  "AnonymousSchema_91 = TStruct
     []"

definition IceCandidateBody :: gotype where
  "IceCandidateBody = TStruct
     [(''doorbot_id'', False, TInt),
      (''session_id'', False, TString),
      (''ice'', False, TString),
      (''mlineindex'', False, TInt),
      (''-'', True, TMap)]"

definition IceCandidateFrame :: gotype where
  "IceCandidateFrame = TStruct
     [(''method'', False, TString),
      (''dialog_id'', False, TString),
      (''riid'', True, TString),
      (''body'', False, (TPtr IceCandidateBody)),
      (''-'', True, TMap)]"

definition LiveAnswerInfo :: gotype where
  "LiveAnswerInfo = TStruct
     [(''session_id'', False, TString),
      (''ping_interval'', True, TInt),
      (''-'', True, TMap)]"

definition LiveAnswerBody :: gotype where
  "LiveAnswerBody = TStruct
     [(''doorbot_id'', False, TInt),
      (''session_id'', False, TString),
      (''sdp'', False, TString),
      (''session_info'', False, (TPtr LiveAnswerInfo)),
      (''type'', False, TString),
      (''-'', True, TMap)]"

definition LiveAnswerFrame :: gotype where
  "LiveAnswerFrame = TStruct
     [(''method'', False, TString),
      (''dialog_id'', False, TString),
      (''riid'', True, TString),
      (''body'', False, (TPtr LiveAnswerBody)),
      (''-'', True, TMap)]"

definition LiveIceBody :: gotype where
  "LiveIceBody = TStruct
     [(''doorbot_id'', False, TInt),
      (''ice'', False, TString),
      (''mid'', False, TString),
      (''mlineindex'', False, TInt),
      (''-'', True, TMap)]"

definition LiveIceFrame :: gotype where
  "LiveIceFrame = TStruct
     [(''method'', False, TString),
      (''dialog_id'', False, TString),
      (''riid'', True, TString),
      (''body'', False, (TPtr LiveIceBody)),
      (''-'', True, TMap)]"

definition LiveStreamOptions :: gotype where
  "LiveStreamOptions = TStruct
     [(''audio_enabled'', True, TBool),
      (''video_enabled'', True, TBool),
      (''-'', True, TMap)]"

definition LiveViewBody :: gotype where
  "LiveViewBody = TStruct
     [(''doorbot_id'', False, TInt),
      (''sdp'', False, TString),
      (''stream_options'', False, (TPtr LiveStreamOptions)),
      (''type'', False, TString),
      (''-'', True, TMap)]"

definition LiveViewFrame :: gotype where
  "LiveViewFrame = TStruct
     [(''method'', False, TString),
      (''dialog_id'', False, TString),
      (''body'', False, (TPtr LiveViewBody)),
      (''-'', True, TMap)]"

definition PTzCommand :: gotype where
  "PTzCommand = TStruct
     []"

definition PlaybackSessionInfo :: gotype where
  "PlaybackSessionInfo = TStruct
     [(''ping_interval'', True, TInt),
      (''region'', True, TString),
      (''-'', True, TMap)]"

definition PlaybackAnswerBody :: gotype where
  "PlaybackAnswerBody = TStruct
     [(''doorbot_id'', False, TInt),
      (''session_id'', False, TString),
      (''type'', False, TString),
      (''sdp'', False, TString),
      (''session_info'', True, (TPtr PlaybackSessionInfo)),
      (''-'', True, TMap)]"

definition PlaybackAnswerFrame :: gotype where
  "PlaybackAnswerFrame = TStruct
     [(''method'', False, TString),
      (''dialog_id'', False, TString),
      (''riid'', True, TString),
      (''body'', False, (TPtr PlaybackAnswerBody)),
      (''-'', True, TMap)]"

definition PlaybackCloseReason :: gotype where
  "PlaybackCloseReason = TStruct
     [(''code'', False, TInt),
      (''text'', False, TString),
      (''-'', True, TMap)]"

definition PlaybackCloseBody :: gotype where
  "PlaybackCloseBody = TStruct
     [(''doorbot_id'', False, TInt),
      (''session_id'', False, TString),
      (''reason'', False, (TPtr PlaybackCloseReason)),
      (''-'', True, TMap)]"

definition PlaybackCloseFrame :: gotype where
  "PlaybackCloseFrame = TStruct
     [(''method'', False, TString),
      (''dialog_id'', False, TString),
      (''riid'', True, TString),
      (''body'', False, (TPtr PlaybackCloseBody)),
      (''-'', True, TMap)]"

definition PlaybackOfferBody :: gotype where
  "PlaybackOfferBody = TStruct
     [(''doorbot_id'', False, TInt),
      (''entry_point'', False, TString),
      (''sdp'', False, TString),
      (''type'', False, TString),
      (''-'', True, TMap)]"

definition PlaybackOfferFrame :: gotype where
  "PlaybackOfferFrame = TStruct
     [(''method'', False, TString),
      (''dialog_id'', False, TString),
      (''riid'', True, TString),
      (''body'', False, (TPtr PlaybackOfferBody)),
      (''-'', True, TMap)]"

definition PtzCommandMethod_Values :: "string list" where
  "PtzCommandMethod_Values =
     [''PTZ.Pan.Step'',
      ''PTZ.Pan.Continuous'',
      ''PTZ.Tilt.Step'',
      ''PTZ.Tilt.Continuous'']"

definition PtzCommandMethod :: gotype where "PtzCommandMethod = TEnum PtzCommandMethod_Values"

definition PtzDirection_Values :: "string list" where
  "PtzDirection_Values =
     [''LEFT'',
      ''RIGHT'',
      ''UP'',
      ''DOWN'']"

definition PtzDirection :: gotype where "PtzDirection = TEnum PtzDirection_Values"

definition PtzWireParams :: gotype where
  "PtzWireParams = TStruct
     [(''sessionId'', False, TString),
      (''timestamp'', False, TInt),
      (''version'', False, TInt),
      (''direction'', False, (TPtr PtzDirection)),
      (''speed'', True, TFloat),
      (''reason'', True, TString),
      (''-'', True, TMap)]"

definition PtzWireCommand :: gotype where
  "PtzWireCommand = TStruct
     [(''jsonrpc'', False, TString),
      (''id'', False, TString),
      (''method'', False, (TPtr PtzCommandMethod)),
      (''params'', False, (TPtr PtzWireParams)),
      (''-'', True, TMap)]"

definition PtzCommandBody :: gotype where
  "PtzCommandBody = TStruct
     [(''doorbot_id'', False, TInt),
      (''session_id'', False, TString),
      (''command'', False, (TPtr PtzWireCommand)),
      (''-'', True, TMap)]"

definition PtzCommandFrame :: gotype where
  "PtzCommandFrame = TStruct
     [(''method'', False, TString),
      (''dialog_id'', False, TString),
      (''riid'', True, TString),
      (''body'', False, (TPtr PtzCommandBody)),
      (''-'', True, TMap)]"

definition PtzContinuousParams :: gotype where
  "PtzContinuousParams = TStruct
     [(''sessionId'', False, TString),
      (''timestamp'', False, TInt),
      (''version'', False, TInt),
      (''direction'', False, (TPtr PtzDirection)),
      (''speed'', False, TFloat),
      (''reason'', True, TString),
      (''-'', True, TMap)]"

definition PtzContinuousWireCommand :: gotype where
  "PtzContinuousWireCommand = TStruct
     [(''jsonrpc'', False, TString),
      (''id'', False, TString),
      (''method'', False, (TPtr AnonymousSchema_199)),
      (''params'', False, (TPtr PtzContinuousParams)),
      (''-'', True, TMap)]"

definition PtzContinuousCommandBody :: gotype where
  "PtzContinuousCommandBody = TStruct
     [(''doorbot_id'', False, TInt),
      (''session_id'', False, TString),
      (''command'', False, (TPtr PtzContinuousWireCommand)),
      (''-'', True, TMap)]"

definition PtzContinuousCommandFrame :: gotype where
  "PtzContinuousCommandFrame = TStruct
     [(''method'', False, TString),
      (''dialog_id'', False, TString),
      (''riid'', True, TString),
      (''body'', False, (TPtr PtzContinuousCommandBody)),
      (''-'', True, TMap)]"

definition PushEventPayload :: gotype where
  "PushEventPayload = TStruct
     [(''device_id'', True, TString),
      (''location_id'', True, TString),
      (''start_time'', True, TString),
      (''end_time'', True, TString),
      (''-'', True, TMap)]"

definition PushEventBody :: gotype where
  "PushEventBody = TStruct
     [(''filter_identifiers'', True, (TSlice TString)),
      (''ingestion_time_ms'', True, TInt),
      (''notification_scope'', False, TString),
      (''notification_type'', False, TString),
      (''payload'', False, (TPtr PushEventPayload)),
      (''subscription_id'', False, TString),
      (''-'', True, TMap)]"

definition PushEventFrame :: gotype where
  "PushEventFrame = TStruct
     [(''method'', False, TString),
      (''dialog_id'', False, TString),
      (''riid'', True, TString),
      (''body'', False, (TPtr PushEventBody)),
      (''-'', True, TMap)]"

definition PushFilters :: gotype where
  "PushFilters = TStruct
     [(''doorbot_ids'', True, (TSlice TInt)),
      (''-'', True, TMap)]"

definition PushFilter :: gotype where
  "PushFilter = TStruct
     [(''filter_identifier'', False, TString),
      (''filters'', False, (TPtr PushFilters)),
      (''notification_scope'', False, TString),
      (''notification_type'', False, TString),
      (''-'', True, TMap)]"

definition PushSubscriptionBody :: gotype where
  "PushSubscriptionBody = TStruct
     [(''subscription_id'', False, TString),
      (''-'', True, TMap)]"

definition PushHeartbeatFrame :: gotype where
  "PushHeartbeatFrame = TStruct
     [(''method'', False, TString),
      (''dialog_id'', False, TString),
      (''riid'', True, TString),
      (''body'', False, (TPtr PushSubscriptionBody)),
      (''-'', True, TMap)]"

definition PushSubscribeBody :: gotype where
  "PushSubscribeBody = TStruct
     [(''requested_notifications'', False, (TSlice PushFilter)),
      (''-'', True, TMap)]"

definition PushSubscribeFrame :: gotype where
  "PushSubscribeFrame = TStruct
     [(''method'', False, TString),
      (''dialog_id'', False, TString),
      (''riid'', True, TString),
      (''body'', False, (TPtr PushSubscribeBody)),
      (''-'', True, TMap)]"

definition PushSubscriptionAckBody :: gotype where
  "PushSubscriptionAckBody = TStruct
     [(''status'', False, TString),
      (''subscription_id'', False, TString),
      (''-'', True, TMap)]"

definition PushSubscriptionAckFrame :: gotype where
  "PushSubscriptionAckFrame = TStruct
     [(''method'', False, TString),
      (''dialog_id'', False, TString),
      (''riid'', True, TString),
      (''body'', False, (TPtr PushSubscriptionAckBody)),
      (''-'', True, TMap)]"

definition PushUnsubscribeFrame :: gotype where
  "PushUnsubscribeFrame = TStruct
     [(''method'', False, TString),
      (''dialog_id'', False, TString),
      (''riid'', True, TString),
      (''body'', False, (TPtr PushSubscriptionBody)),
      (''-'', True, TMap)]"

definition RpcCommandWrapper :: gotype where
  "RpcCommandWrapper = TStruct
     [(''message'', False, TMap),
      (''-'', True, TMap)]"

definition RpcErrorValue :: gotype where
  "RpcErrorValue = TStruct
     [(''code'', False, TInt),
      (''message'', False, TString),
      (''-'', True, TMap)]"

definition RpcResultValue :: gotype where
  "RpcResultValue = TStruct
     [(''sessionId'', True, TString),
      (''timestamp'', True, TFloat),
      (''version'', True, TFloat),
      (''-'', True, TMap)]"

definition SessionBody :: gotype where
  "SessionBody = TStruct
     [(''doorbot_id'', False, TInt),
      (''session_id'', False, TString),
      (''-'', True, TMap)]"

definition ServerCameraStartedFrame :: gotype where
  "ServerCameraStartedFrame = TStruct
     [(''method'', False, TString),
      (''dialog_id'', False, TString),
      (''riid'', True, TString),
      (''body'', False, (TPtr SessionBody)),
      (''-'', True, TMap)]"

definition ServerCloseReason :: gotype where
  "ServerCloseReason = TStruct
     [(''code'', True, (TPtr AnonymousSchema_82)),
      (''text'', True, TString),
      (''-'', True, TMap)]"

definition ServerCloseBody :: gotype where
  "ServerCloseBody = TStruct
     [(''doorbot_id'', True, TInt),
      (''session_id'', True, TString),
      (''reason'', True, (TPtr ServerCloseReason)),
      (''-'', True, TMap)]"

definition ServerCloseFrame :: gotype where
  "ServerCloseFrame = TStruct
     [(''method'', False, TString),
      (''dialog_id'', False, TString),
      (''riid'', True, TString),
      (''body'', False, (TPtr ServerCloseBody)),
      (''-'', True, TMap)]"

definition ServerEnvelope :: gotype where
  "ServerEnvelope = TStruct
     []"

definition ServerIceBody :: gotype where
  "ServerIceBody = TStruct
     [(''doorbot_id'', True, TInt),
      (''session_id'', True, TString),
      (''user_id'', True, TInt),
      (''ice'', False, TString),
      (''mid'', True, TString),
      (''mlineindex'', False, TInt),
      (''-'', True, TMap)]"

definition ServerIceFrame :: gotype where
  "ServerIceFrame = TStruct
     [(''method'', False, TString),
      (''dialog_id'', False, TString),
      (''riid'', True, TString),
      (''body'', False, (TPtr ServerIceBody)),
      (''-'', True, TMap)]"

definition ServerRpcBody :: gotype where
  "ServerRpcBody = TStruct
     [(''doorbot_id'', True, TInt),
      (''session_id'', True, TString),
      (''command'', False, (TPtr AnonymousSchema_91)),
      (''-'', True, TMap)]"

definition ServerRpcCommand :: gotype where
  "ServerRpcCommand = TStruct
     [(''jsonrpc'', False, TString),
      (''id'', False, TString),
      (''result'', True, (TPtr RpcResultValue)),
      (''error'', True, (TPtr RpcErrorValue)),
      (''method'', True, TString),
      (''params'', True, TMap),
      (''-'', True, TMap)]"

definition ServerRpcFrame :: gotype where
  "ServerRpcFrame = TStruct
     [(''method'', False, TString),
      (''dialog_id'', False, TString),
      (''riid'', True, TString),
      (''body'', False, (TPtr ServerRpcBody)),
      (''-'', True, TMap)]"

definition SessionActivateFrame :: gotype where
  "SessionActivateFrame = TStruct
     [(''method'', False, TString),
      (''dialog_id'', False, TString),
      (''riid'', True, TString),
      (''body'', False, (TPtr SessionBody)),
      (''-'', True, TMap)]"

definition SessionCloseFrame :: gotype where
  "SessionCloseFrame = TStruct
     [(''method'', False, TString),
      (''dialog_id'', False, TString),
      (''riid'', True, TString),
      (''body'', False, (TPtr SessionBody)),
      (''-'', True, TMap)]"

definition SessionCreatedBody :: gotype where
  "SessionCreatedBody = TStruct
     [(''doorbot_id'', False, TInt),
      (''session_id'', False, TString),
      (''-'', True, TMap)]"

definition SessionCreatedFrame :: gotype where
  "SessionCreatedFrame = TStruct
     [(''method'', False, TString),
      (''dialog_id'', False, TString),
      (''riid'', True, TString),
      (''body'', False, (TPtr SessionCreatedBody)),
      (''-'', True, TMap)]"

definition SessionMicrophoneBody :: gotype where
  "SessionMicrophoneBody = TStruct
     [(''doorbot_id'', False, TInt),
      (''session_id'', False, TString),
      (''enabled'', False, TBool),
      (''-'', True, TMap)]"

definition SessionMicrophoneFrame :: gotype where
  "SessionMicrophoneFrame = TStruct
     [(''method'', False, TString),
      (''dialog_id'', False, TString),
      (''riid'', True, TString),
      (''body'', False, (TPtr SessionMicrophoneBody)),
      (''-'', True, TMap)]"

definition SessionNotificationBody :: gotype where
  "SessionNotificationBody = TStruct
     [(''doorbot_id'', False, TInt),
      (''session_id'', False, TString),
      (''is_ok'', False, TBool),
      (''text'', False, TString),
      (''-'', True, TMap)]"

definition SessionNotificationFrame :: gotype where
  "SessionNotificationFrame = TStruct
     [(''method'', False, TString),
      (''dialog_id'', False, TString),
      (''riid'', True, TString),
      (''body'', False, (TPtr SessionNotificationBody)),
      (''-'', True, TMap)]"

definition SessionPingFrame :: gotype where
  "SessionPingFrame = TStruct
     [(''method'', False, TString),
      (''dialog_id'', False, TString),
      (''riid'', True, TString),
      (''body'', False, (TPtr SessionBody)),
      (''-'', True, TMap)]"

definition SessionPongFrame :: gotype where
  "SessionPongFrame = TStruct
     [(''method'', False, TString),
      (''dialog_id'', False, TString),
      (''riid'', True, TString),
      (''body'', False, (TPtr SessionBody)),
      (''-'', True, TMap)]"

definition SessionStreamAudioOptionsBody :: gotype where
  "SessionStreamAudioOptionsBody = TStruct
     [(''doorbot_id'', False, TInt),
      (''session_id'', False, TString),
      (''audio_enabled'', False, TBool)]"

definition SessionStreamAudioOptionsFrame :: gotype where
  "SessionStreamAudioOptionsFrame = TStruct
     [(''method'', False, TString),
      (''dialog_id'', False, TString),
      (''riid'', True, TString),
      (''body'', False, (TPtr SessionStreamAudioOptionsBody)),
      (''-'', True, TMap)]"

definition SessionStreamAudioVideoOptionsBody :: gotype where
  "SessionStreamAudioVideoOptionsBody = TStruct
     [(''doorbot_id'', False, TInt),
      (''session_id'', False, TString),
      (''audio_enabled'', False, TBool),
      (''video_enabled'', False, TBool)]"

definition SessionStreamAudioVideoOptionsFrame :: gotype where
  "SessionStreamAudioVideoOptionsFrame = TStruct
     [(''method'', False, TString),
      (''dialog_id'', False, TString),
      (''riid'', True, TString),
      (''body'', False, (TPtr SessionStreamAudioVideoOptionsBody)),
      (''-'', True, TMap)]"

definition SessionStreamOptions :: gotype where
  "SessionStreamOptions = TStruct
     []"

definition SessionStreamVideoOptionsBody :: gotype where
  "SessionStreamVideoOptionsBody = TStruct
     [(''doorbot_id'', False, TInt),
      (''session_id'', False, TString),
      (''video_enabled'', False, TBool)]"

definition SessionStreamVideoOptionsFrame :: gotype where
  "SessionStreamVideoOptionsFrame = TStruct
     [(''method'', False, TString),
      (''dialog_id'', False, TString),
      (''riid'', True, TString),
      (''body'', False, (TPtr SessionStreamVideoOptionsBody)),
      (''-'', True, TMap)]"

definition SignalingInboundDiscriminator :: gotype where
  "SignalingInboundDiscriminator = TStruct
     [(''method'', False, (TPtr AnonymousSchema_1)),
      (''dialog_id'', False, TString),
      (''riid'', True, TString),
      (''body'', False, TMap),
      (''-'', True, TMap)]"

lemmas signaling_enum_defs = AnonymousSchema_1_Values_def AnonymousSchema_199_Values_def PtzCommandMethod_Values_def PtzDirection_Values_def

lemmas signaling_model_defs = AccountEventFrame_def AnonymousSchema_1_def AnonymousSchema_199_def AnonymousSchema_82_def
  AnonymousSchema_91_def IceCandidateBody_def IceCandidateFrame_def LiveAnswerInfo_def
  LiveAnswerBody_def LiveAnswerFrame_def LiveIceBody_def LiveIceFrame_def LiveStreamOptions_def
  LiveViewBody_def LiveViewFrame_def PTzCommand_def PlaybackSessionInfo_def
  PlaybackAnswerBody_def PlaybackAnswerFrame_def PlaybackCloseReason_def PlaybackCloseBody_def
  PlaybackCloseFrame_def PlaybackOfferBody_def PlaybackOfferFrame_def PtzCommandMethod_def
  PtzDirection_def PtzWireParams_def PtzWireCommand_def PtzCommandBody_def PtzCommandFrame_def
  PtzContinuousParams_def PtzContinuousWireCommand_def PtzContinuousCommandBody_def
  PtzContinuousCommandFrame_def PushEventPayload_def PushEventBody_def PushEventFrame_def
  PushFilters_def PushFilter_def PushSubscriptionBody_def PushHeartbeatFrame_def
  PushSubscribeBody_def PushSubscribeFrame_def PushSubscriptionAckBody_def
  PushSubscriptionAckFrame_def PushUnsubscribeFrame_def RpcCommandWrapper_def RpcErrorValue_def
  RpcResultValue_def SessionBody_def ServerCameraStartedFrame_def ServerCloseReason_def
  ServerCloseBody_def ServerCloseFrame_def ServerEnvelope_def ServerIceBody_def
  ServerIceFrame_def ServerRpcBody_def ServerRpcCommand_def ServerRpcFrame_def
  SessionActivateFrame_def SessionCloseFrame_def SessionCreatedBody_def SessionCreatedFrame_def
  SessionMicrophoneBody_def SessionMicrophoneFrame_def SessionNotificationBody_def
  SessionNotificationFrame_def SessionPingFrame_def SessionPongFrame_def
  SessionStreamAudioOptionsBody_def SessionStreamAudioOptionsFrame_def
  SessionStreamAudioVideoOptionsBody_def SessionStreamAudioVideoOptionsFrame_def
  SessionStreamOptions_def SessionStreamVideoOptionsBody_def SessionStreamVideoOptionsFrame_def
  SignalingInboundDiscriminator_def

end
