(* ===== verification/Outcome.thy ===== *)
theory Outcome
  imports GoErrors GoJson
begin

text \<open>
  The result of a Go function that returns a value and an error and may panic, with its sequencing, and the
  passage from decoding results to it.
\<close>

datatype 'a outcome = Ok 'a | Err goerr | Panic

fun obind :: "'a outcome \<Rightarrow> ('a \<Rightarrow> 'b outcome) \<Rightarrow> 'b outcome" where
  "obind (Ok x) f = f x"
| "obind (Err e) f = Err e"
| "obind Panic f = Panic"

text \<open>A decoding error becomes the error that the caller builds around it.\<close>

definition on_decode :: "'a decoded \<Rightarrow> (goerr \<Rightarrow> goerr) \<Rightarrow> 'a outcome" where
  "on_decode d wrap =
     (case d of Decoded v \<Rightarrow> Ok v | DecodeError \<Rightarrow> Err (wrap JSONError) | DecodePanic \<Rightarrow> Panic)"

definition require :: "bool \<Rightarrow> goerr \<Rightarrow> unit outcome" where
  "require b e = (if b then Ok () else Err e)"

lemma obind_Ok_iff: "obind x f = Ok y \<longleftrightarrow> (\<exists>a. x = Ok a \<and> f a = Ok y)"
  by (cases x) auto

lemma obind_Panic_iff: "obind x f = Panic \<longleftrightarrow> x = Panic \<or> (\<exists>a. x = Ok a \<and> f a = Panic)"
  by (cases x) auto

lemma obind_Err_iff: "obind x f = Err e \<longleftrightarrow> x = Err e \<or> (\<exists>a. x = Ok a \<and> f a = Err e)"
  by (cases x) auto

lemma obind_assoc: "obind (obind x f) g = obind x (\<lambda>a. obind (f a) g)"
  by (cases x) auto

lemma obind_cong [fundef_cong]:
  "x = x' \<Longrightarrow> (\<And>a. x' = Ok a \<Longrightarrow> f a = g a) \<Longrightarrow> obind x f = obind x' g"
  by (cases x') auto

lemma on_decode_Ok_iff: "on_decode d wrap = Ok v \<longleftrightarrow> d = Decoded v"
  by (cases d) (auto simp: on_decode_def)

lemma on_decode_Panic_iff: "on_decode d wrap = Panic \<longleftrightarrow> d = DecodePanic"
  by (cases d) (auto simp: on_decode_def)

lemma require_Ok_iff: "require b e = Ok u \<longleftrightarrow> b"
  by (simp add: require_def)

lemma require_not_Panic [simp]: "require b e \<noteq> Panic"
  by (simp add: require_def)

lemmas outcome_Ok = obind_Ok_iff on_decode_Ok_iff require_Ok_iff

text \<open>Decoding into a scalar, a raw map or a struct without enum fields cannot panic.\<close>

lemma json_object_no_panic [simp]: "json_object raw \<noteq> DecodePanic"
  by (auto simp: json_object_def split: raw_message.splits json.splits)

lemma json_string_no_panic [simp]: "json_string raw \<noteq> DecodePanic"
  by (auto simp: json_string_def split: raw_message.splits json.splits)

fun enum_free :: "gotype \<Rightarrow> bool" where
  "enum_free (TPtr T) = enum_free T"
| "enum_free (TSlice T) = enum_free T"
| "enum_free (TEnum _) = False"
| "enum_free (TStruct fs) = list_all (\<lambda>f. enum_free (snd (snd f))) fs"
| "enum_free _ = True"

lemma field_index_less: "field_index fs k = Some i \<Longrightarrow> i < length fs"
  by (auto simp: field_index_def list_index_def Let_def split: option.splits if_splits)

lemma unmarshal_enum_free_mutual:
  "enum_free T \<longrightarrow> unmarshal T old j \<noteq> None"
  "list_all (\<lambda>f. enum_free (snd (snd f))) fs \<longrightarrow> unmarshal_members fs vs kvs \<noteq> None"
  "enum_free T' \<longrightarrow> unmarshal_elements T' olds js \<noteq> None"
proof (induction T old j and fs vs kvs and T' olds js
    rule: unmarshal_unmarshal_members_unmarshal_elements.induct)
  case (13 fs vs k j kvs)
  then show ?case
    by (auto simp: list_all_length split: option.splits dest: field_index_less)
qed (auto split: json.splits option.splits)

lemma json_decode_enum_free: "enum_free T \<Longrightarrow> json_decode T raw \<noteq> DecodePanic"
proof (cases raw)
  case (RawJson j)
  assume "enum_free T"
  then have "unmarshal T (zero_value T) j \<noteq> None" using unmarshal_enum_free_mutual(1) by blast
  then show ?thesis using RawJson by (auto simp: json_decode_def json_unmarshal_def split: if_splits)
qed (simp_all add: json_decode_def json_unmarshal_def)

section \<open>Struct literals\<close>

text \<open>A Go struct literal with named fields; the others are zero.\<close>

definition struct_lit :: "gotype \<Rightarrow> (string \<times> goval) list \<Rightarrow> goval" where
  "struct_lit T vals =
     (case T of
        TStruct fs \<Rightarrow>
          VStruct (map (\<lambda>f. case map_of vals (fst f) of Some v \<Rightarrow> v | None \<Rightarrow> zero_value (snd (snd f))) fs)
      | _ \<Rightarrow> VStruct [])"

text \<open>\<open>mustJSON\<close> of \<open>pkg/ring/device_session.go\<close> on values that encode.\<close>

definition mustJSON :: "gotype \<Rightarrow> goval \<Rightarrow> raw_message" where
  "mustJSON T v = RawJson (marshal T v)"

end
