(* ===== verification/Steps.thy ===== *)
theory Steps
  imports Outcome GoErrors
begin

text \<open>
  Operations that pass a state along and may fail or panic, as the clients of this program do with the requests
  they send, and the rules for their pre- and postconditions.
\<close>

section \<open>Operations\<close>

type_synonym ('s, 'a) step = "'s \<Rightarrow> 'a outcome \<times> 's"

definition lreturn :: "'a \<Rightarrow> ('s, 'a) step" where
  "lreturn x w = (Ok x, w)"

definition lfail :: "goerr \<Rightarrow> ('s, 'a) step" where
  "lfail e w = (Err e, w)"

definition lbind :: "('s, 'a) step \<Rightarrow> ('a \<Rightarrow> ('s, 'b) step) \<Rightarrow> ('s, 'b) step" where
  "lbind m f w =
     (case m w of (Ok x, w') \<Rightarrow> f x w' | (Err e, w') \<Rightarrow> (Err e, w') | (Panic, w') \<Rightarrow> (Panic, w'))"

definition lift :: "'a outcome \<Rightarrow> ('s, 'a) step" where
  "lift r w = (r, w)"

definition or_fail :: "goerr + 'a \<Rightarrow> 'a outcome" where
  "or_fail r = (case r of Inl e \<Rightarrow> Err e | Inr x \<Rightarrow> Ok x)"

lemma lbind_ok: "m w = (Ok x, w') \<Longrightarrow> lbind m f w = f x w'"
  by (simp add: lbind_def)

lemma lbind_err: "m w = (Err e, w') \<Longrightarrow> lbind m f w = (Err e, w')"
  by (simp add: lbind_def)

section \<open>Triples\<close>

text \<open>From a state with \<open>P\<close>, a result \<open>x\<close> leaves a state with \<open>Q x\<close> and a failure one with \<open>E\<close>.\<close>

definition ltriple ::
  "('s \<Rightarrow> bool) \<Rightarrow> ('s, 'a) step \<Rightarrow> ('a \<Rightarrow> 's \<Rightarrow> bool) \<Rightarrow> ('s \<Rightarrow> bool) \<Rightarrow> bool" where
  "ltriple P m Q E \<longleftrightarrow>
     (\<forall>w. P w \<longrightarrow> (case fst (m w) of Ok x \<Rightarrow> Q x (snd (m w)) | _ \<Rightarrow> E (snd (m w))))"

lemma ltripleD:
  "ltriple P m Q E \<Longrightarrow> P w \<Longrightarrow> (case fst (m w) of Ok x \<Rightarrow> Q x (snd (m w)) | _ \<Rightarrow> E (snd (m w)))"
  by (simp add: ltriple_def)

lemma ltriple_const:
  fixes m :: "('s, 'a) step"
  shows "ltriple P m (\<lambda>_. Q) Q \<longleftrightarrow> (\<forall>w. P w \<longrightarrow> Q (snd (m w)))"
proof -
  have "(case r of Ok x \<Rightarrow> A | _ \<Rightarrow> A) = A" for r :: "'a outcome" and A :: bool
    by (cases r) simp_all
  then show ?thesis by (simp add: ltriple_def)
qed

lemma lt_bind:
  assumes "ltriple P m R E" and "\<And>x. ltriple (R x) (f x) Q E"
  shows "ltriple P (lbind m f) Q E"
  unfolding ltriple_def
proof (intro allI impI)
  fix w
  assume "P w"
  from ltripleD [OF assms(1) this]
  show "case fst (lbind m f w) of Ok x \<Rightarrow> Q x (snd (lbind m f w)) | _ \<Rightarrow> E (snd (lbind m f w))"
  proof (cases "m w")
    case (Pair r w')
    note m = this and post = \<open>case fst (m w) of Ok x \<Rightarrow> R x (snd (m w)) | _ \<Rightarrow> E (snd (m w))\<close>
    show ?thesis
    proof (cases r)
      case (Ok x)
      with m have eq: "lbind m f w = f x w'" by (simp add: lbind_def)
      from post m Ok have "R x w'" by simp
      from ltripleD [OF assms(2) this] show ?thesis unfolding eq .
    qed (use m post in \<open>simp_all add: lbind_def\<close>)
  qed
qed

lemma lt_return: "(\<And>w. P w \<Longrightarrow> Q x w) \<Longrightarrow> ltriple P (lreturn x) Q E"
  by (simp add: ltriple_def lreturn_def)

lemma lt_fail: "(\<And>w. P w \<Longrightarrow> E w) \<Longrightarrow> ltriple P (lfail e) Q E"
  by (simp add: ltriple_def lfail_def)

lemma lt_lift: "(\<And>w x. P w \<Longrightarrow> r = Ok x \<Longrightarrow> Q x w) \<Longrightarrow> (\<And>w. P w \<Longrightarrow> E w) \<Longrightarrow> ltriple P (lift r) Q E"
  by (auto simp: ltriple_def lift_def split: outcome.splits)

lemma lt_weaken:
  "ltriple P m Q E \<Longrightarrow> (\<And>w. P' w \<Longrightarrow> P w) \<Longrightarrow> (\<And>x w. Q x w \<Longrightarrow> Q' x w) \<Longrightarrow> (\<And>w. E w \<Longrightarrow> E' w)
   \<Longrightarrow> ltriple P' m Q' E'"
  unfolding ltriple_def by (fastforce split: outcome.splits)

text \<open>A step that only looks at the state to choose what to do.\<close>

lemma lt_state: "(\<And>w0. P w0 \<Longrightarrow> ltriple (\<lambda>w. w = w0) (m w0) Q E) \<Longrightarrow> ltriple P (\<lambda>w. m w w) Q E"
  by (simp add: ltriple_def)

text \<open>What a step does at a state with \<open>P\<close> is what some step with the triple does there.\<close>

lemma lt_via:
  assumes "\<And>w. P w \<Longrightarrow> \<exists>m'. m w = m' w \<and> ltriple P m' Q E"
  shows "ltriple P m Q E"
  unfolding ltriple_def
proof (intro allI impI)
  fix w
  assume P: "P w"
  with assms obtain m' where m': "m w = m' w" "ltriple P m' Q E" by blast
  from ltripleD [OF m'(2) P] show "case fst (m w) of Ok x \<Rightarrow> Q x (snd (m w)) | _ \<Rightarrow> E (snd (m w))"
    unfolding m'(1) .
qed

lemma lt_const:
  "(\<And>w. P w \<Longrightarrow> E w) \<Longrightarrow> ltriple P (\<lambda>w. (Err e, w)) Q E"
  "(\<And>w. P w \<Longrightarrow> E w) \<Longrightarrow> ltriple P (\<lambda>w. (Panic, w)) Q E"
  by (simp_all add: ltriple_def)

end
