(* ===== verification/Protocol.thy ===== *)
theory Protocol
  imports Prelude
begin

text \<open>
  The method, field and RPC names of \<open>internal/protocol/signaling.go\<close>.
\<close>

section \<open>Methods, fields and RPC names\<close>

abbreviation MethodActivateSession :: string where "MethodActivateSession \<equiv> ''activate_session''"

abbreviation MethodCameraOptions :: string where "MethodCameraOptions \<equiv> ''camera_options''"

abbreviation MethodCameraStarted :: string where "MethodCameraStarted \<equiv> ''camera_started''"

abbreviation MethodClose :: string where "MethodClose \<equiv> ''close''"

abbreviation MethodICE :: string where "MethodICE \<equiv> ''ice''"

abbreviation MethodLiveView :: string where "MethodLiveView \<equiv> ''live_view''"

abbreviation MethodMicEnable :: string where "MethodMicEnable \<equiv> ''mic_enable''"

abbreviation MethodNotification :: string where "MethodNotification \<equiv> ''notification''"

abbreviation MethodPing :: string where "MethodPing \<equiv> ''ping''"

abbreviation MethodPlayback :: string where "MethodPlayback \<equiv> ''playback''"

abbreviation MethodPong :: string where "MethodPong \<equiv> ''pong''"

abbreviation MethodPushEvent :: string where "MethodPushEvent \<equiv> ''push_event''"

abbreviation MethodPushHeartbeat :: string where "MethodPushHeartbeat \<equiv> ''push_heartbeat''"

abbreviation MethodPushSubscribe :: string where "MethodPushSubscribe \<equiv> ''push_subscribe''"

abbreviation MethodPushSubscriptionAck :: string where "MethodPushSubscriptionAck \<equiv> ''push_subscription_ack''"

abbreviation MethodPushUnsubscribe :: string where "MethodPushUnsubscribe \<equiv> ''push_unsubscribe''"

abbreviation MethodRPC :: string where "MethodRPC \<equiv> ''rpc''"

abbreviation MethodSDP :: string where "MethodSDP \<equiv> ''sdp''"

abbreviation MethodSessionCreated :: string where "MethodSessionCreated \<equiv> ''session_created''"

abbreviation MethodStreamOptions :: string where "MethodStreamOptions \<equiv> ''stream_options''"

abbreviation RPCPanStep :: string where "RPCPanStep \<equiv> ''PTZ.Pan.Step''"

abbreviation RPCPanContinuous :: string where "RPCPanContinuous \<equiv> ''PTZ.Pan.Continuous''"

abbreviation RPCTiltStep :: string where "RPCTiltStep \<equiv> ''PTZ.Tilt.Step''"

abbreviation RPCTiltContinuous :: string where "RPCTiltContinuous \<equiv> ''PTZ.Tilt.Continuous''"

abbreviation RPCPanHalted :: string where "RPCPanHalted \<equiv> ''PTZ.Pan.Halted''"

abbreviation JSONRPCVersion :: string where "JSONRPCVersion \<equiv> ''2.0''"

abbreviation FieldMethod :: string where "FieldMethod \<equiv> ''method''"

abbreviation FieldDialogID :: string where "FieldDialogID \<equiv> ''dialog_id''"

abbreviation FieldRIID :: string where "FieldRIID \<equiv> ''riid''"

abbreviation FieldBody :: string where "FieldBody \<equiv> ''body''"

abbreviation FieldDeviceID :: string where "FieldDeviceID \<equiv> ''doorbot_id''"

abbreviation FieldSessionID :: string where "FieldSessionID \<equiv> ''session_id''"

abbreviation FieldIce :: string where "FieldIce \<equiv> ''ice''"

abbreviation FieldMID :: string where "FieldMID \<equiv> ''mid''"

abbreviation FieldMLineIndex :: string where "FieldMLineIndex \<equiv> ''mlineindex''"

abbreviation FieldIsOK :: string where "FieldIsOK \<equiv> ''is_ok''"

abbreviation FieldText :: string where "FieldText \<equiv> ''text''"

abbreviation FieldNotificationScope :: string where "FieldNotificationScope \<equiv> ''notification_scope''"

abbreviation FieldNotificationType :: string where "FieldNotificationType \<equiv> ''notification_type''"

abbreviation FieldPayload :: string where "FieldPayload \<equiv> ''payload''"

abbreviation FieldSubscriptionID :: string where "FieldSubscriptionID \<equiv> ''subscription_id''"

abbreviation FieldStatus :: string where "FieldStatus \<equiv> ''status''"

abbreviation FieldSessionInfo :: string where "FieldSessionInfo \<equiv> ''session_info''"

abbreviation FieldSDP :: string where "FieldSDP \<equiv> ''sdp''"

abbreviation FieldStreamOptions :: string where "FieldStreamOptions \<equiv> ''stream_options''"

abbreviation FieldType :: string where "FieldType \<equiv> ''type''"

abbreviation FieldEntryPoint :: string where "FieldEntryPoint \<equiv> ''entry_point''"

abbreviation FieldRequestedNotifications :: string where "FieldRequestedNotifications \<equiv> ''requested_notifications''"

abbreviation FieldJSONRPC :: string where "FieldJSONRPC \<equiv> ''jsonrpc''"

abbreviation FieldRPCID :: string where "FieldRPCID \<equiv> ''id''"

abbreviation FieldParams :: string where "FieldParams \<equiv> ''params''"

abbreviation FieldResult :: string where "FieldResult \<equiv> ''result''"

abbreviation FieldError :: string where "FieldError \<equiv> ''error''"

abbreviation FieldCode :: string where "FieldCode \<equiv> ''code''"

abbreviation FieldReason :: string where "FieldReason \<equiv> ''reason''"

abbreviation FieldPingInterval :: string where "FieldPingInterval \<equiv> ''ping_interval''"

abbreviation FieldEnabled :: string where "FieldEnabled \<equiv> ''enabled''"

abbreviation FieldAudioEnabled :: string where "FieldAudioEnabled \<equiv> ''audio_enabled''"

abbreviation FieldVideoEnabled :: string where "FieldVideoEnabled \<equiv> ''video_enabled''"

abbreviation FieldDirection :: string where "FieldDirection \<equiv> ''direction''"

abbreviation FieldSpeed :: string where "FieldSpeed \<equiv> ''speed''"

abbreviation FieldSessionIDRPC :: string where "FieldSessionIDRPC \<equiv> ''sessionId''"

abbreviation FieldTimestamp :: string where "FieldTimestamp \<equiv> ''timestamp''"

abbreviation FieldVersion :: string where "FieldVersion \<equiv> ''version''"

abbreviation FieldCommand :: string where "FieldCommand \<equiv> ''command''"

end
