(* ===== verification/Wire.thy ===== *)
theory Wire
  imports Protocol Outcome SignalingModels
begin

text \<open>
  Signaling frames: \<open>pkg/dependencies/websocket/wire.go\<close> and \<open>wire_close_union.go\<close>. The inbound side decodes
  a frame three times (discriminator, raw fields, generated frame of the method) and accepts it only
  when the three readings agree; the outbound side decodes the body of a message into the generated
  struct of its method and encodes the generated frame around it. Where the code ranges over a Go map
  of envelope fields, whose order is random, the model takes one order: only the text of the error for
  a frame with several faults depends on it.
\<close>

section \<open>Messages and errors\<close>

text \<open>\<open>signaling.Message\<close>; the body is a raw message.\<close>

record signaling_message =
  msg_method :: string
  msg_dialog :: string
  msg_riid :: string
  msg_body :: raw_message

definition signalingWireError :: "string \<Rightarrow> goerr" where
  "signalingWireError text = NewBadRequestError text None"

definition wrapSignalingWireError :: "string \<Rightarrow> goerr \<Rightarrow> goerr" where
  "wrapSignalingWireError text cause = NewBadRequestError text (Some cause)"

section \<open>Reading fields\<close>

definition decodeBodyFields :: "raw_message \<Rightarrow> (string \<times> json) list outcome" where
  "decodeBodyFields encoded =
     obind (on_decode (json_object encoded) (wrapSignalingWireError ''decode signaling body''))
       (\<lambda>values. case values of
          None \<Rightarrow> Err (signalingWireError ''signaling body must be an object'')
        | Some fs \<Rightarrow> Ok fs)"

record signalingEnvelopeFields =
  env_method :: string
  env_dialogID :: string
  env_riid :: string
  env_body :: raw_message

definition decodeEnvelopeField :: "(string \<times> json) list \<Rightarrow> string \<Rightarrow> string outcome" where
  "decodeEnvelopeField values name =
     (case map_of values name of
        None \<Rightarrow> Ok []
      | Some raw \<Rightarrow>
          on_decode (json_string (RawJson raw))
            (wrapSignalingWireError (''decode signaling envelope '' @ name)))"

definition decodeEnvelopeFields :: "raw_message \<Rightarrow> signalingEnvelopeFields outcome" where
  "decodeEnvelopeFields encoded =
     obind (on_decode (json_object encoded) (wrapSignalingWireError ''decode signaling envelope fields''))
       (\<lambda>values. case values of
          None \<Rightarrow> Err (signalingWireError ''signaling envelope must be an object'')
        | Some vs \<Rightarrow>
            obind (decodeEnvelopeField vs FieldMethod) (\<lambda>method.
            obind (decodeEnvelopeField vs FieldDialogID) (\<lambda>dialog.
            obind (decodeEnvelopeField vs FieldRIID) (\<lambda>riid.
              Ok \<lparr>env_method = method, env_dialogID = dialog, env_riid = riid,
                  env_body = raw_member vs FieldBody\<rparr>))))"

definition requireJSONFields :: "(string \<times> json) list \<Rightarrow> string list \<Rightarrow> unit outcome" where
  "requireJSONFields object required =
     (case find (\<lambda>key. map_of object key = None) required of
        None \<Rightarrow> Ok ()
      | Some key \<Rightarrow> Err (signalingWireError (''missing required field '' @ go_quote key)))"

definition decodeBodyProperty :: "(string \<times> json) list \<Rightarrow> string \<Rightarrow> (string \<times> json) list outcome" where
  "decodeBodyProperty object key =
     (case map_of object key of
        None \<Rightarrow> Err (signalingWireError (''missing required field '' @ go_quote key))
      | Some encoded \<Rightarrow>
          (case decodeBodyFields (RawJson encoded) of
             Ok decoded \<Rightarrow> Ok decoded
           | Err err \<Rightarrow> Err (wrapSignalingWireError (''decode field '' @ go_quote key) err)
           | Panic \<Rightarrow> Panic))"

definition bodyHasProperty :: "raw_message \<Rightarrow> string \<Rightarrow> bool" where
  "bodyHasProperty body key =
     (case json_object body of Decoded (Some fs) \<Rightarrow> map_of fs key \<noteq> None | _ \<Rightarrow> False)"

definition hasSessionIdentifier :: "raw_message \<Rightarrow> bool" where
  "hasSessionIdentifier encoded =
     (if encoded = RawNil then False
      else case decodeBodyFields encoded of Ok fs \<Rightarrow> map_of fs FieldSessionID \<noteq> None | _ \<Rightarrow> False)"

section \<open>The close reason\<close>

text \<open>
  \<open>wire_close_union.go\<close>: the generated frame cannot hold a close code that is either a number or a string,
  so the code is checked and removed before the frame is decoded. A JSON number decodes into
  \<open>json.Number\<close> as its literal text; only a canonical 64-bit integer literal passes.
\<close>

definition validCloseReasonCode :: "raw_message \<Rightarrow> bool" where
  "validCloseReasonCode encoded =
     (if json_string encoded \<noteq> DecodeError then True
      else case encoded of
        RawJson (JNum (NLit s)) \<Rightarrow>
          (case parse_int64 s of None \<Rightarrow> False | Some i \<Rightarrow> dec_int i = s)
      | RawJson (JNum (NFloat q)) \<Rightarrow> num_int (NFloat q) \<noteq> None
      | _ \<Rightarrow> False)"

definition rawObjectField :: "(string \<times> json) list \<Rightarrow> string \<Rightarrow> (string \<times> json) list outcome" where
  "rawObjectField object name =
     (case map_of object name of
        None \<Rightarrow> Err (signalingWireError (''signaling frame is missing '' @ go_quote name))
      | Some encoded \<Rightarrow>
          (case json_object (RawJson encoded) of
             Decoded (Some fs) \<Rightarrow> Ok fs
           | _ \<Rightarrow> Err (signalingWireError (''signaling frame field '' @ go_quote name @ '' must be an object''))))"

text \<open>
  The decoded maps are printed again in key order. A frame that is the document null leaves the frame map nil,
  which has no body.
\<close>

definition normalizeCloseReasonCode :: "raw_message \<Rightarrow> raw_message outcome" where
  "normalizeCloseReasonCode encoded =
     obind (on_decode (json_object encoded) (wrapSignalingWireError ''decode generated close frame'')) (\<lambda>decoded.
     let frame = (case decoded of None \<Rightarrow> [] | Some vs \<Rightarrow> vs) in
     obind (rawObjectField frame FieldBody) (\<lambda>body.
       case map_of body FieldReason of
         None \<Rightarrow> Ok encoded
       | Some reason \<Rightarrow>
           (case json_object (RawJson reason) of
              Decoded (Some reasonFields) \<Rightarrow>
                (case map_of reasonFields FieldCode of
                   None \<Rightarrow> Ok encoded
                 | Some code \<Rightarrow>
                     if \<not> validCloseReasonCode (RawJson code)
                     then Err (signalingWireError ''close reason code must be an integer or string'')
                     else
                       let reason' = JObj (gm_del FieldCode reasonFields);
                           body' = JObj (gm_put FieldReason reason' body)
                       in Ok (RawJson (JObj (gm_put FieldBody body' frame))))
            | _ \<Rightarrow> Err (signalingWireError ''close reason must be an object''))))"

section \<open>Inbound frames\<close>

text \<open>The \<open>metadata\<close> callback, the same for every frame type: method, dialog and whether there is a body.\<close>

definition frame_metadata :: "gotype \<Rightarrow> goval \<Rightarrow> string \<times> string \<times> bool" where
  "frame_metadata T frame =
     (as_string (field_of T ''method'' frame), as_string (field_of T ''dialog_id'' frame),
      as_pointer (field_of T ''body'' frame) \<noteq> None)"

definition validateTypedInbound ::
  "gotype \<Rightarrow> raw_message \<Rightarrow> signalingEnvelopeFields \<Rightarrow> (string \<times> json) list \<Rightarrow> string list \<Rightarrow> unit outcome"
where
  "validateTypedInbound T encoded envelope body required =
     obind (if env_method envelope = MethodClose then normalizeCloseReasonCode encoded else Ok encoded)
       (\<lambda>decodeInput.
     obind (on_decode (json_decode T decodeInput)
              (wrapSignalingWireError (''decode generated signaling frame for '' @ go_quote (env_method envelope))))
       (\<lambda>frame.
     let (method, dialogID, hasBody) = frame_metadata T frame in
     if method \<noteq> env_method envelope \<or> dialogID \<noteq> env_dialogID envelope \<or> \<not> hasBody
     then Err (signalingWireError (''signaling method '' @ go_quote (env_method envelope)
            @ '' does not match its generated frame shape''))
     else case find (\<lambda>name. map_of body name = None) required of
         Some name \<Rightarrow> Err (signalingWireError (''signaling body for '' @ go_quote (env_method envelope)
                        @ '' is missing required field '' @ go_quote name))
       | None \<Rightarrow> Ok ()))"

definition validateInboundFrame ::
  "raw_message \<Rightarrow> signalingEnvelopeFields \<Rightarrow> (string \<times> json) list \<Rightarrow> unit outcome"
where
  "validateInboundFrame encoded envelope body =
     (let m = env_method envelope in
      if m = MethodCameraStarted then
        validateTypedInbound ServerCameraStartedFrame encoded envelope body [FieldDeviceID, FieldSessionID]
      else if m = MethodClose then validateTypedInbound ServerCloseFrame encoded envelope body []
      else if m = MethodICE then
        (if map_of body FieldMID \<noteq> None then
           validateTypedInbound LiveIceFrame encoded envelope body
             [FieldDeviceID, FieldIce, FieldMID, FieldMLineIndex]
         else validateTypedInbound ServerIceFrame encoded envelope body [FieldIce, FieldMLineIndex])
      else if m = MethodNotification then
        validateTypedInbound SessionNotificationFrame encoded envelope body
          [FieldDeviceID, FieldSessionID, FieldIsOK, FieldText]
      else if m = MethodPong then
        validateTypedInbound SessionPongFrame encoded envelope body [FieldDeviceID, FieldSessionID]
      else if m = MethodPushEvent then
        validateTypedInbound PushEventFrame encoded envelope body
          [FieldNotificationScope, FieldNotificationType, FieldPayload, FieldSubscriptionID]
      else if m = MethodPushSubscriptionAck then
        validateTypedInbound PushSubscriptionAckFrame encoded envelope body [FieldStatus, FieldSubscriptionID]
      else if m = MethodRPC then validateTypedInbound ServerRpcFrame encoded envelope body [FieldCommand]
      else if m = MethodSDP then
        (if hasSessionIdentifier (raw_member body FieldSessionInfo) then
           validateTypedInbound LiveAnswerFrame encoded envelope body
             [FieldDeviceID, FieldSessionID, FieldSDP, FieldSessionInfo, FieldType]
         else
           validateTypedInbound PlaybackAnswerFrame encoded envelope body
             [FieldDeviceID, FieldSessionID, FieldSDP, FieldType])
      else if m = MethodSessionCreated then
        validateTypedInbound SessionCreatedFrame encoded envelope body [FieldDeviceID, FieldSessionID]
      else Err (signalingWireError (''unsupported inbound signaling method '' @ go_quote m)))"

definition unmarshalSignalingFrame :: "raw_message \<Rightarrow> signaling_message outcome" where
  "unmarshalSignalingFrame encoded =
     obind (on_decode (json_decode SignalingInboundDiscriminator encoded)
              (wrapSignalingWireError ''decode generated signaling discriminator'')) (\<lambda>discriminator.
     let method = as_pointer (field_of SignalingInboundDiscriminator ''method'' discriminator);
         body = as_map (field_of SignalingInboundDiscriminator ''body'' discriminator) in
     if method = None \<or> body = None
     then Err (signalingWireError ''signaling frame requires a recognized method and body'')
     else
     obind (decodeEnvelopeFields encoded) (\<lambda>fields.
     if enum_value AnonymousSchema_1_Values (the method) \<noteq> Some (env_method fields)
     then Err (signalingWireError (''unknown signaling method '' @ go_quote (env_method fields)))
     else if env_dialogID fields = [] \<or> env_body fields = RawNil
     then Err (signalingWireError ''signaling frame requires dialog_id and body'')
     else
     obind (decodeBodyFields (env_body fields)) (\<lambda>bodyFields.
     obind (validateInboundFrame encoded fields bodyFields) (\<lambda>_.
     Ok \<lparr>msg_method = env_method fields, msg_dialog = env_dialogID fields, msg_riid = env_riid fields,
         msg_body = env_body fields\<rparr>))))"

section \<open>Outbound frames\<close>

text \<open>
  \<open>marshalGeneratedFrame\<close>: \<open>T\<close> is the generated body type and \<open>build\<close> encodes the generated frame around the
  decoded body.
\<close>

definition marshalGeneratedFrame ::
  "gotype \<Rightarrow> signaling_message \<Rightarrow> string \<Rightarrow> string list \<Rightarrow> (goval \<Rightarrow> json) \<Rightarrow> json outcome"
where
  "marshalGeneratedFrame T message method required build =
     (if msg_method message \<noteq> method \<or> msg_dialog message = []
      then Err (signalingWireError ''signaling frame method and dialog_id are required'')
      else if msg_body message \<in> {RawNil, RawBlank, RawJson JNull}
      then Err (signalingWireError ''signaling frame body is required'')
      else
      obind (on_decode (json_object (msg_body message)) (wrapSignalingWireError ''decode signaling body fields''))
        (\<lambda>decoded.
      case decoded of
        None \<Rightarrow> Err (signalingWireError ''signaling body must be an object'')
      | Some members \<Rightarrow>
          (case find (\<lambda>name. map_of members name = None) required of
             Some name \<Rightarrow>
               Err (signalingWireError (''signaling body is missing required field '' @ go_quote name))
           | None \<Rightarrow>
               obind (on_decode (json_decode T (msg_body message))
                        (wrapSignalingWireError ''decode generated signaling body''))
                 (\<lambda>body. Ok (build body)))))"

text \<open>The frame literals: every generated frame but \<open>LiveViewFrame\<close> carries the \<open>riid\<close>.\<close>

definition frame_json :: "gotype \<Rightarrow> string \<Rightarrow> signaling_message \<Rightarrow> goval \<Rightarrow> json" where
  "frame_json T method message body =
     marshal T (struct_lit T
       [(FieldMethod, VString method), (FieldDialogID, VString (msg_dialog message)),
        (FieldRIID, VString (msg_riid message)), (FieldBody, VPtr (Some body))])"

definition marshalActivateSessionFrame :: "signaling_message \<Rightarrow> json outcome" where
  "marshalActivateSessionFrame message =
     marshalGeneratedFrame SessionBody message MethodActivateSession [FieldDeviceID, FieldSessionID]
       (frame_json SessionActivateFrame MethodActivateSession message)"

definition marshalCloseFrame :: "signaling_message \<Rightarrow> json outcome" where
  "marshalCloseFrame message =
     (if bodyHasProperty (msg_body message) FieldReason then
        marshalGeneratedFrame PlaybackCloseBody message MethodClose
          [FieldDeviceID, FieldSessionID, FieldReason] (frame_json PlaybackCloseFrame MethodClose message)
      else
        marshalGeneratedFrame SessionBody message MethodClose [FieldDeviceID, FieldSessionID]
          (frame_json SessionCloseFrame MethodClose message))"

definition marshalICEFrame :: "signaling_message \<Rightarrow> json outcome" where
  "marshalICEFrame message =
     (if bodyHasProperty (msg_body message) FieldMID then
        marshalGeneratedFrame LiveIceBody message MethodICE
          [FieldDeviceID, FieldIce, FieldMID, FieldMLineIndex] (frame_json LiveIceFrame MethodICE message)
      else
        marshalGeneratedFrame IceCandidateBody message MethodICE
          [FieldDeviceID, FieldSessionID, FieldIce, FieldMLineIndex]
          (frame_json IceCandidateFrame MethodICE message))"

definition marshalLiveViewFrame :: "signaling_message \<Rightarrow> json outcome" where
  "marshalLiveViewFrame message =
     marshalGeneratedFrame LiveViewBody message MethodLiveView
       [FieldDeviceID, FieldSDP, FieldStreamOptions, FieldType]
       (\<lambda>body. marshal LiveViewFrame (struct_lit LiveViewFrame
          [(FieldMethod, VString MethodLiveView), (FieldDialogID, VString (msg_dialog message)),
           (FieldBody, VPtr (Some body))]))"

definition marshalMicEnableFrame :: "signaling_message \<Rightarrow> json outcome" where
  "marshalMicEnableFrame message =
     marshalGeneratedFrame SessionMicrophoneBody message MethodMicEnable
       [FieldDeviceID, FieldSessionID, FieldEnabled] (frame_json SessionMicrophoneFrame MethodMicEnable message)"

definition marshalPingFrame :: "signaling_message \<Rightarrow> json outcome" where
  "marshalPingFrame message =
     marshalGeneratedFrame SessionBody message MethodPing [FieldDeviceID, FieldSessionID]
       (frame_json SessionPingFrame MethodPing message)"

definition marshalPlaybackFrame :: "signaling_message \<Rightarrow> json outcome" where
  "marshalPlaybackFrame message =
     marshalGeneratedFrame PlaybackOfferBody message MethodPlayback
       [FieldDeviceID, FieldEntryPoint, FieldSDP, FieldType] (frame_json PlaybackOfferFrame MethodPlayback message)"

definition marshalPushHeartbeatFrame :: "signaling_message \<Rightarrow> json outcome" where
  "marshalPushHeartbeatFrame message =
     marshalGeneratedFrame PushSubscriptionBody message MethodPushHeartbeat [FieldSubscriptionID]
       (frame_json PushHeartbeatFrame MethodPushHeartbeat message)"

definition marshalPushSubscribeFrame :: "signaling_message \<Rightarrow> json outcome" where
  "marshalPushSubscribeFrame message =
     marshalGeneratedFrame PushSubscribeBody message MethodPushSubscribe [FieldRequestedNotifications]
       (frame_json PushSubscribeFrame MethodPushSubscribe message)"

definition marshalPushUnsubscribeFrame :: "signaling_message \<Rightarrow> json outcome" where
  "marshalPushUnsubscribeFrame message =
     marshalGeneratedFrame PushSubscriptionBody message MethodPushUnsubscribe [FieldSubscriptionID]
       (frame_json PushUnsubscribeFrame MethodPushUnsubscribe message)"

definition rpcCommandMethod :: "raw_message \<Rightarrow> string outcome" where
  "rpcCommandMethod body =
     obind (decodeBodyFields body) (\<lambda>members.
     case map_of members FieldCommand of
       None \<Rightarrow> Err (signalingWireError ''PTZ RPC body is missing command'')
     | Some commandRaw \<Rightarrow>
         obind (decodeBodyFields (RawJson commandRaw)) (\<lambda>command.
         case map_of command FieldMethod of
           None \<Rightarrow> Err (signalingWireError ''PTZ RPC command is missing method'')
         | Some methodRaw \<Rightarrow>
             on_decode (json_string (RawJson methodRaw)) (wrapSignalingWireError ''decode PTZ RPC method'')))"

definition wrap_outcome :: "string \<Rightarrow> 'a outcome \<Rightarrow> 'a outcome" where
  "wrap_outcome text r = (case r of Err e \<Rightarrow> Err (wrapSignalingWireError text e) | _ \<Rightarrow> r)"

definition validateRPCFields :: "raw_message \<Rightarrow> string list \<Rightarrow> string list \<Rightarrow> unit outcome" where
  "validateRPCFields body commandRequired paramsRequired =
     obind (decodeBodyFields body) (\<lambda>members.
     obind (decodeBodyProperty members FieldCommand) (\<lambda>command.
     obind (wrap_outcome ''PTZ RPC command'' (requireJSONFields command commandRequired)) (\<lambda>_.
     obind (decodeBodyProperty command FieldParams) (\<lambda>params.
     wrap_outcome ''PTZ RPC params'' (requireJSONFields params paramsRequired)))))"

definition marshalRPCFrame :: "signaling_message \<Rightarrow> json outcome" where
  "marshalRPCFrame message =
     obind (rpcCommandMethod (msg_body message)) (\<lambda>commandMethod.
     if commandMethod = RPCPanContinuous \<or> commandMethod = RPCTiltContinuous then
       obind (validateRPCFields (msg_body message)
                [FieldJSONRPC, FieldRPCID, FieldMethod, FieldParams]
                [FieldSessionIDRPC, FieldTimestamp, FieldVersion, FieldDirection, FieldSpeed])
         (\<lambda>_. marshalGeneratedFrame PtzContinuousCommandBody message MethodRPC
                [FieldDeviceID, FieldSessionID, FieldCommand]
                (frame_json PtzContinuousCommandFrame MethodRPC message))
     else if commandMethod = RPCPanStep \<or> commandMethod = RPCTiltStep then
       obind (validateRPCFields (msg_body message)
                [FieldJSONRPC, FieldRPCID, FieldMethod, FieldParams]
                [FieldSessionIDRPC, FieldTimestamp, FieldVersion, FieldDirection])
         (\<lambda>_. marshalGeneratedFrame PtzCommandBody message MethodRPC
                [FieldDeviceID, FieldSessionID, FieldCommand]
                (frame_json PtzCommandFrame MethodRPC message))
     else Err (signalingWireError (''unsupported PTZ RPC method '' @ go_quote commandMethod)))"

definition marshalStreamOptions :: "signaling_message \<Rightarrow> json outcome" where
  "marshalStreamOptions message =
     (let hasAudio = bodyHasProperty (msg_body message) FieldAudioEnabled;
          hasVideo = bodyHasProperty (msg_body message) FieldVideoEnabled in
      if hasAudio \<and> hasVideo then
        marshalGeneratedFrame SessionStreamAudioVideoOptionsBody message MethodStreamOptions
          [FieldDeviceID, FieldSessionID, FieldAudioEnabled, FieldVideoEnabled]
          (frame_json SessionStreamAudioVideoOptionsFrame MethodStreamOptions message)
      else if hasAudio then
        marshalGeneratedFrame SessionStreamAudioOptionsBody message MethodStreamOptions
          [FieldDeviceID, FieldSessionID, FieldAudioEnabled]
          (frame_json SessionStreamAudioOptionsFrame MethodStreamOptions message)
      else if hasVideo then
        marshalGeneratedFrame SessionStreamVideoOptionsBody message MethodStreamOptions
          [FieldDeviceID, FieldSessionID, FieldVideoEnabled]
          (frame_json SessionStreamVideoOptionsFrame MethodStreamOptions message)
      else Err (signalingWireError ''stream_options requires audio_enabled, video_enabled, or both''))"

definition marshalSignalingFrame :: "signaling_message \<Rightarrow> json outcome" where
  "marshalSignalingFrame message =
     (let m = msg_method message in
      if m = MethodActivateSession then marshalActivateSessionFrame message
      else if m = MethodClose then marshalCloseFrame message
      else if m = MethodICE then marshalICEFrame message
      else if m = MethodLiveView then marshalLiveViewFrame message
      else if m = MethodMicEnable then marshalMicEnableFrame message
      else if m = MethodPing then marshalPingFrame message
      else if m = MethodPlayback then marshalPlaybackFrame message
      else if m = MethodPushHeartbeat then marshalPushHeartbeatFrame message
      else if m = MethodPushSubscribe then marshalPushSubscribeFrame message
      else if m = MethodPushUnsubscribe then marshalPushUnsubscribeFrame message
      else if m = MethodRPC then marshalRPCFrame message
      else if m = MethodStreamOptions then marshalStreamOptions message
      else Err (signalingWireError (''unknown or unsupported outbound signaling method '' @ go_quote m)))"

section \<open>What an outbound frame carries\<close>

text \<open>Decoding an object into a struct fills exactly the struct's fields.\<close>

lemma unmarshal_members_length:
  "unmarshal_members fs vs kvs = Some (vs', e) \<Longrightarrow> length vs' = length vs"
proof (induction kvs arbitrary: vs vs' e)
  case (Cons kv kvs)
  obtain k j where kv: "kv = (k, j)" by (cases kv)
  show ?case
  proof (cases "field_index fs k")
    case None
    then show ?thesis using Cons kv by simp
  next
    case (Some i)
    with Cons.prems kv obtain v e1 e2 where
      "unmarshal_members fs (vs[i := v]) kvs = Some (vs', e2)"
      by (auto split: option.splits)
    from Cons.IH [OF this] show ?thesis by simp
  qed
qed simp

lemma json_decode_struct_object:
  assumes "json_decode (TStruct fs) (RawJson (JObj kvs)) = Decoded v"
  shows "\<exists>vs. v = VStruct vs \<and> length vs = length fs"
  using assms unmarshal_members_length [of fs "map (\<lambda>f. zero_value (snd (snd f))) fs" kvs]
  by (fastforce simp: json_decode_def json_unmarshal_def split: option.splits if_splits prod.splits)

lemma marshal_fields_keeps:
  "length vs = length fs \<Longrightarrow> (k, False) \<in> set (map (\<lambda>f. (fst f, fst (snd f))) fs) \<Longrightarrow>
   map_of (marshal_fields fs vs) k \<noteq> None"
proof (induction fs arbitrary: vs)
  case (Cons f fs)
  obtain k' omit T where f: "f = (k', omit, T)" by (cases f)
  from Cons.prems obtain v vs' where vs: "vs = v # vs'" by (cases vs) auto
  show ?case
  proof (cases "k = k' \<and> \<not> omit")
    case True
    then show ?thesis using f vs by simp
  next
    case False
    then have "map_of (marshal_fields fs vs') k \<noteq> None" using Cons f vs by auto
    then show ?thesis using f vs by auto
  qed
qed simp

text \<open>The members that a well-formed outbound frame has; a required field was in the message's body too.\<close>

definition outbound_wellformed :: "signaling_message \<Rightarrow> string list \<Rightarrow> json \<Rightarrow> bool" where
  "outbound_wellformed m required j =
     (case j of
        JObj ms \<Rightarrow>
          map_of ms FieldMethod = Some (JStr (msg_method m)) \<and>
          map_of ms FieldDialogID = Some (JStr (msg_dialog m)) \<and> msg_dialog m \<noteq> [] \<and>
          map_of ms FieldRIID =
            (if msg_riid m = [] \<or> msg_method m = MethodLiveView then None else Some (JStr (msg_riid m))) \<and>
          (case (map_of ms FieldBody, msg_body m) of
             (Some (JObj bs), RawJson (JObj kvs)) \<Rightarrow>
               list_all (\<lambda>f. map_of bs f \<noteq> None \<and> f \<in> fst ` set kvs) required
           | _ \<Rightarrow> False)
      | _ \<Rightarrow> False)"

abbreviation standard_frame :: "gotype \<Rightarrow> gotype" where
  "standard_frame T \<equiv> TStruct
     [(''method'', False, TString), (''dialog_id'', False, TString), (''riid'', True, TString),
      (''body'', False, TPtr T), (''-'', True, TMap)]"

lemma frame_json_standard:
  "frame_json (standard_frame T) method m body =
     JObj ([(''method'', JStr method), (''dialog_id'', JStr (msg_dialog m))]
       @ (if msg_riid m = [] then [] else [(''riid'', JStr (msg_riid m))]) @ [(''body'', marshal T body)])"
  by (simp add: frame_json_def struct_lit_def)

lemma gm_build_missing: "map_of (gm_build kvs) k = None \<longleftrightarrow> k \<notin> fst ` set kvs"
  by (simp add: map_of_gm_build map_of_eq_None_iff)

lemma missing_None_iff:
  "find (\<lambda>name. map_of (gm_build kvs) name = None) required = None \<longleftrightarrow> set required \<subseteq> fst ` set kvs"
  by (auto simp: find_None_iff gm_build_missing)

lemma marshalGeneratedFrame_Ok:
  "marshalGeneratedFrame T m method required build = Ok j \<longleftrightarrow>
     msg_method m = method \<and> msg_dialog m \<noteq> [] \<and>
     (\<exists>kvs body. msg_body m = RawJson (JObj kvs) \<and> set required \<subseteq> fst ` set kvs \<and>
        json_decode T (msg_body m) = Decoded body \<and> j = build body)"
proof (cases "msg_method m = method \<and> msg_dialog m \<noteq> [] \<and> (\<exists>kvs. msg_body m = RawJson (JObj kvs))")
  case True
  then obtain kvs where "msg_method m = method" "msg_dialog m \<noteq> []" "msg_body m = RawJson (JObj kvs)" by blast
  then show ?thesis
    using missing_None_iff [of kvs required]
    by (cases "find (\<lambda>name. map_of (gm_build kvs) name = None) required")
       (auto simp: marshalGeneratedFrame_def outcome_Ok json_object_def simp del: map_of_gm_build)
qed (auto simp: marshalGeneratedFrame_def outcome_Ok json_object_def split: raw_message.splits json.splits)

lemma generated_frame_wellformed:
  assumes "marshalGeneratedFrame (TStruct fs) m method required (frame_json (standard_frame (TStruct fs)) method m) = Ok j"
    and "method \<noteq> MethodLiveView"
    and "list_all (\<lambda>f. (f, False) \<in> set (map (\<lambda>f. (fst f, fst (snd f))) fs)) required"
  shows "outbound_wellformed m required j"
proof -
  from assms(1) obtain kvs body where m: "msg_method m = method" "msg_dialog m \<noteq> []"
      "msg_body m = RawJson (JObj kvs)" "set required \<subseteq> fst ` set kvs" and dec: "json_decode (TStruct fs) (msg_body m) = Decoded body"
      and j: "j = frame_json (standard_frame (TStruct fs)) method m body"
    unfolding marshalGeneratedFrame_Ok by blast
  from dec m(3) obtain vs where "body = VStruct vs" "length vs = length fs"
    using json_decode_struct_object by metis
  then show ?thesis
    using m j assms(2,3) marshal_fields_keeps
    by (auto simp: outbound_wellformed_def frame_json_standard list_all_iff)
qed

text \<open>The fields each method must carry.\<close>

definition outbound_required :: "signaling_message \<Rightarrow> string list" where
  "outbound_required m =
     (let has = bodyHasProperty (msg_body m); method = msg_method m in
      if method \<in> {MethodActivateSession, MethodPing} then [FieldDeviceID, FieldSessionID]
      else if method = MethodClose then
        [FieldDeviceID, FieldSessionID] @ (if has FieldReason then [FieldReason] else [])
      else if method = MethodICE then
        (if has FieldMID then [FieldDeviceID, FieldIce, FieldMID, FieldMLineIndex]
         else [FieldDeviceID, FieldSessionID, FieldIce, FieldMLineIndex])
      else if method = MethodLiveView then [FieldDeviceID, FieldSDP, FieldStreamOptions, FieldType]
      else if method = MethodMicEnable then [FieldDeviceID, FieldSessionID, FieldEnabled]
      else if method = MethodPlayback then [FieldDeviceID, FieldEntryPoint, FieldSDP, FieldType]
      else if method \<in> {MethodPushHeartbeat, MethodPushUnsubscribe} then [FieldSubscriptionID]
      else if method = MethodPushSubscribe then [FieldRequestedNotifications]
      else if method = MethodRPC then [FieldDeviceID, FieldSessionID, FieldCommand]
      else [FieldDeviceID, FieldSessionID]
        @ (if has FieldAudioEnabled then [FieldAudioEnabled] else [])
        @ (if has FieldVideoEnabled then [FieldVideoEnabled] else []))"

definition outbound_methods :: "string list" where
  "outbound_methods =
     [MethodActivateSession, MethodClose, MethodICE, MethodLiveView, MethodMicEnable, MethodPing,
      MethodPlayback, MethodPushHeartbeat, MethodPushSubscribe, MethodPushUnsubscribe, MethodRPC,
      MethodStreamOptions]"

lemmas outbound_models =
  SessionBody_def SessionActivateFrame_def PlaybackCloseBody_def PlaybackCloseFrame_def
  SessionCloseFrame_def LiveIceBody_def LiveIceFrame_def IceCandidateBody_def IceCandidateFrame_def
  SessionMicrophoneBody_def SessionMicrophoneFrame_def SessionPingFrame_def PlaybackOfferBody_def
  PlaybackOfferFrame_def PushSubscriptionBody_def PushHeartbeatFrame_def PushSubscribeBody_def
  PushSubscribeFrame_def PushUnsubscribeFrame_def PtzContinuousCommandBody_def
  PtzContinuousCommandFrame_def PtzCommandBody_def PtzCommandFrame_def
  SessionStreamAudioVideoOptionsBody_def SessionStreamAudioVideoOptionsFrame_def
  SessionStreamAudioOptionsBody_def SessionStreamAudioOptionsFrame_def
  SessionStreamVideoOptionsBody_def SessionStreamVideoOptionsFrame_def

text \<open>A \<open>live_view\<close> frame has no \<open>riid\<close>.\<close>

lemma live_view_wellformed:
  assumes "marshalLiveViewFrame m = Ok j"
  shows "outbound_wellformed m [FieldDeviceID, FieldSDP, FieldStreamOptions, FieldType] j"
proof -
  from assms obtain kvs body where m: "msg_method m = MethodLiveView" "msg_dialog m \<noteq> []"
      "msg_body m = RawJson (JObj kvs)"
      "set [FieldDeviceID, FieldSDP, FieldStreamOptions, FieldType] \<subseteq> fst ` set kvs"
      and dec: "json_decode LiveViewBody (msg_body m) = Decoded body"
      and j: "j = marshal LiveViewFrame (struct_lit LiveViewFrame
          [(FieldMethod, VString MethodLiveView), (FieldDialogID, VString (msg_dialog m)),
           (FieldBody, VPtr (Some body))])"
    unfolding marshalLiveViewFrame_def marshalGeneratedFrame_Ok by blast
  from dec m(3) obtain vs where vs: "body = VStruct vs" "length vs = 5"
    unfolding LiveViewBody_def using json_decode_struct_object by fastforce
  then show ?thesis
    using m j marshal_fields_keeps [of vs "[(''doorbot_id'', False, TInt), (''sdp'', False, TString),
        (''stream_options'', False, TPtr LiveStreamOptions), (''type'', False, TString), (''-'', True, TMap)]"]
    by (simp add: outbound_wellformed_def LiveViewFrame_def LiveViewBody_def struct_lit_def)
qed

text \<open>Each encoder in turn.\<close>

lemma encoders_wellformed:
  "marshalActivateSessionFrame m = Ok j \<Longrightarrow> outbound_wellformed m [FieldDeviceID, FieldSessionID] j"
  "marshalMicEnableFrame m = Ok j \<Longrightarrow>
     outbound_wellformed m [FieldDeviceID, FieldSessionID, FieldEnabled] j"
  "marshalPingFrame m = Ok j \<Longrightarrow> outbound_wellformed m [FieldDeviceID, FieldSessionID] j"
  "marshalPlaybackFrame m = Ok j \<Longrightarrow>
     outbound_wellformed m [FieldDeviceID, FieldEntryPoint, FieldSDP, FieldType] j"
  "marshalPushHeartbeatFrame m = Ok j \<Longrightarrow> outbound_wellformed m [FieldSubscriptionID] j"
  "marshalPushSubscribeFrame m = Ok j \<Longrightarrow> outbound_wellformed m [FieldRequestedNotifications] j"
  "marshalPushUnsubscribeFrame m = Ok j \<Longrightarrow> outbound_wellformed m [FieldSubscriptionID] j"
  unfolding marshalActivateSessionFrame_def marshalMicEnableFrame_def marshalPingFrame_def
    marshalPlaybackFrame_def marshalPushHeartbeatFrame_def marshalPushSubscribeFrame_def
    marshalPushUnsubscribeFrame_def outbound_models
  by (erule generated_frame_wellformed; simp)+

lemma close_wellformed:
  "marshalCloseFrame m = Ok j \<Longrightarrow>
   outbound_wellformed m ([FieldDeviceID, FieldSessionID]
     @ (if bodyHasProperty (msg_body m) FieldReason then [FieldReason] else [])) j"
  unfolding marshalCloseFrame_def outbound_models
  by (cases "bodyHasProperty (msg_body m) FieldReason"; simp only: if_True if_False append_Nil2 append.simps)
     (erule generated_frame_wellformed; simp)+

lemma ice_wellformed:
  "marshalICEFrame m = Ok j \<Longrightarrow>
   outbound_wellformed m (if bodyHasProperty (msg_body m) FieldMID
     then [FieldDeviceID, FieldIce, FieldMID, FieldMLineIndex]
     else [FieldDeviceID, FieldSessionID, FieldIce, FieldMLineIndex]) j"
  unfolding marshalICEFrame_def outbound_models
  by (cases "bodyHasProperty (msg_body m) FieldMID"; simp only: if_True if_False)
     (erule generated_frame_wellformed; simp)+

lemma stream_options_wellformed:
  "marshalStreamOptions m = Ok j \<Longrightarrow>
   outbound_wellformed m ([FieldDeviceID, FieldSessionID]
     @ (if bodyHasProperty (msg_body m) FieldAudioEnabled then [FieldAudioEnabled] else [])
     @ (if bodyHasProperty (msg_body m) FieldVideoEnabled then [FieldVideoEnabled] else [])) j"
  unfolding marshalStreamOptions_def outbound_models Let_def
  by (cases "bodyHasProperty (msg_body m) FieldAudioEnabled";
      cases "bodyHasProperty (msg_body m) FieldVideoEnabled";
      simp only: simp_thms if_True if_False append_Nil append_Nil2 append.simps outcome.distinct)
     (erule generated_frame_wellformed; simp)+

lemma rpc_wellformed:
  assumes "marshalRPCFrame m = Ok j"
  shows "outbound_wellformed m [FieldDeviceID, FieldSessionID, FieldCommand] j"
proof -
  have "marshalGeneratedFrame PtzContinuousCommandBody m MethodRPC [FieldDeviceID, FieldSessionID, FieldCommand]
          (frame_json PtzContinuousCommandFrame MethodRPC m) = Ok j \<or>
        marshalGeneratedFrame PtzCommandBody m MethodRPC [FieldDeviceID, FieldSessionID, FieldCommand]
          (frame_json PtzCommandFrame MethodRPC m) = Ok j"
    using assms by (auto simp: marshalRPCFrame_def obind_Ok_iff split: if_splits)
  then show ?thesis
    unfolding outbound_models by (elim disjE) (erule generated_frame_wellformed; simp)+
qed

text \<open>C11: every frame that the program sends names a method it supports and the dialog it belongs to,
  carries the message's \<open>riid\<close> when there is one (a \<open>live_view\<close> frame never does), and has an object body with
  every field its method requires. A message that lacks one of these fields is not sent.\<close>

theorem outbound_frames_wellformed:
  assumes "marshalSignalingFrame m = Ok j"
  shows "msg_method m \<in> set outbound_methods \<and> outbound_wellformed m (outbound_required m) j"
proof -
  have "msg_method m \<in> set outbound_methods"
    using assms by (auto simp: marshalSignalingFrame_def Let_def outbound_methods_def split: if_splits)
  then show ?thesis
    using assms encoders_wellformed [of m j] close_wellformed [of m j] ice_wellformed [of m j]
      live_view_wellformed [of m j] stream_options_wellformed [of m j] rpc_wellformed [of m j]
    by (auto simp: marshalSignalingFrame_def outbound_methods_def outbound_required_def Let_def
        simp del: append.simps append_Nil append_Nil2 split del: if_split)
qed

text \<open>The witness: a ping with its two fields, one of them in another order.\<close>

definition example_ping :: signaling_message where
  "example_ping = \<lparr>msg_method = MethodPing, msg_dialog = ''d-1'', msg_riid = [],
     msg_body = RawJson (JObj [(''session_id'', JStr ''s''), (''doorbot_id'', JNum (NLit ''7''))])\<rparr>"

definition example_ping_frame :: json where
  "example_ping_frame = JObj [(''method'', JStr MethodPing), (''dialog_id'', JStr ''d-1''),
     (''body'', JObj [(''doorbot_id'', JNum (NLit ''7'')), (''session_id'', JStr ''s'')])]"

lemma example_ping_encodes: "marshalSignalingFrame example_ping = Ok example_ping_frame"
  by code_simp

theorem outbound_frames_wellformed_witness:
  "outbound_wellformed example_ping (outbound_required example_ping) example_ping_frame
   \<and> outbound_required example_ping = [FieldDeviceID, FieldSessionID]"
  using outbound_frames_wellformed [OF example_ping_encodes] by (simp add: outbound_required_def example_ping_def)

section \<open>What an accepted inbound frame carries\<close>

lemma decodeBodyFields_Ok:
  "decodeBodyFields raw = Ok fs \<longleftrightarrow> (\<exists>kvs. raw = RawJson (JObj kvs) \<and> fs = gm_build kvs)"
  by (auto simp: decodeBodyFields_def json_object_def outcome_Ok
      split: raw_message.splits json.splits option.splits)

lemma decodeEnvelopeField_Ok:
  "decodeEnvelopeField vs name = Ok s \<longleftrightarrow>
     (map_of vs name = None \<and> s = []) \<or> (map_of vs name = Some JNull \<and> s = []) \<or> map_of vs name = Some (JStr s)"
  by (auto simp: decodeEnvelopeField_def on_decode_Ok_iff json_string_def split: option.splits json.splits)

lemma decodeEnvelopeFields_Ok:
  "decodeEnvelopeFields raw = Ok e \<longleftrightarrow>
     (\<exists>kvs. raw = RawJson (JObj kvs) \<and>
        decodeEnvelopeField (gm_build kvs) FieldMethod = Ok (env_method e) \<and>
        decodeEnvelopeField (gm_build kvs) FieldDialogID = Ok (env_dialogID e) \<and>
        decodeEnvelopeField (gm_build kvs) FieldRIID = Ok (env_riid e) \<and>
        env_body e = raw_member (gm_build kvs) FieldBody)"
  by (cases e) (auto simp: decodeEnvelopeFields_def outcome_Ok json_object_def
      split: raw_message.splits json.splits option.splits)

lemma metadata_agrees:
  "(case p of (method, dialog, hasBody) \<Rightarrow>
      if method \<noteq> M \<or> dialog \<noteq> D \<or> \<not> hasBody then Err e else c) = Ok u \<longleftrightarrow> p = (M, D, True) \<and> c = Ok u"
  by (cases p) auto

lemma find_missing_Ok:
  "(case find p xs of Some x \<Rightarrow> Err (e x) | None \<Rightarrow> Ok ()) = Ok u \<longleftrightarrow> list_all (\<lambda>x. \<not> p x) xs"
proof (cases "find p xs")
  case None
  then have "\<forall>x\<in>set xs. \<not> p x" by (auto simp: find_None_iff)
  then show ?thesis by (simp add: None list_all_iff)
next
  case (Some x)
  then have "x \<in> set xs" "p x" by (auto simp: find_Some_iff)
  with Some show ?thesis by (auto simp: list_all_iff)
qed

lemma validateTypedInbound_Ok:
  "validateTypedInbound T raw envelope body required = Ok u \<longleftrightarrow>
     (\<exists>input frame.
        (if env_method envelope = MethodClose then normalizeCloseReasonCode raw else Ok raw) = Ok input \<and>
        json_decode T input = Decoded frame \<and>
        frame_metadata T frame = (env_method envelope, env_dialogID envelope, True) \<and>
        list_all (\<lambda>f. map_of body f \<noteq> None) required)"
  unfolding validateTypedInbound_def obind_Ok_iff on_decode_Ok_iff Let_def metadata_agrees find_missing_Ok
  by blast

text \<open>The fields each method must carry; a live answer and a live candidate carry more.\<close>

definition inbound_required :: "string \<Rightarrow> (string \<times> json) list \<Rightarrow> string list" where
  "inbound_required method body =
     (if method \<in> {MethodCameraStarted, MethodPong, MethodSessionCreated} then [FieldDeviceID, FieldSessionID]
      else if method = MethodClose then []
      else if method = MethodICE then
        (if map_of body FieldMID \<noteq> None then [FieldDeviceID, FieldIce, FieldMID, FieldMLineIndex]
         else [FieldIce, FieldMLineIndex])
      else if method = MethodNotification then [FieldDeviceID, FieldSessionID, FieldIsOK, FieldText]
      else if method = MethodPushEvent then
        [FieldNotificationScope, FieldNotificationType, FieldPayload, FieldSubscriptionID]
      else if method = MethodPushSubscriptionAck then [FieldStatus, FieldSubscriptionID]
      else if method = MethodRPC then [FieldCommand]
      else if hasSessionIdentifier (raw_member body FieldSessionInfo)
      then [FieldDeviceID, FieldSessionID, FieldSDP, FieldSessionInfo, FieldType]
      else [FieldDeviceID, FieldSessionID, FieldSDP, FieldType])"

definition inbound_methods :: "string list" where
  "inbound_methods =
     [MethodCameraStarted, MethodClose, MethodICE, MethodNotification, MethodPong, MethodPushEvent,
      MethodPushSubscriptionAck, MethodRPC, MethodSDP, MethodSessionCreated]"

lemma validateInboundFrame_Ok:
  assumes "validateInboundFrame raw e body = Ok u"
  shows "env_method e \<in> set inbound_methods"
    and "list_all (\<lambda>f. map_of body f \<noteq> None) (inbound_required (env_method e) body)"
    and "\<exists>T frame input. json_decode T input = Decoded frame \<and>
           (env_method e \<noteq> MethodClose \<longrightarrow> input = raw) \<and>
           frame_metadata T frame = (env_method e, env_dialogID e, True)"
proof -
  from assms show "env_method e \<in> set inbound_methods"
    by (auto simp: validateInboundFrame_def Let_def inbound_methods_def split: if_splits)
  from assms show "list_all (\<lambda>f. map_of body f \<noteq> None) (inbound_required (env_method e) body)"
    unfolding validateInboundFrame_def Let_def
    by (auto simp: validateTypedInbound_Ok inbound_required_def split: if_splits)
  from assms obtain T required where "validateTypedInbound T raw e body required = Ok u"
    by (auto simp: validateInboundFrame_def Let_def split: if_splits)
  then show "\<exists>T frame input. json_decode T input = Decoded frame \<and>
           (env_method e \<noteq> MethodClose \<longrightarrow> input = raw) \<and>
           frame_metadata T frame = (env_method e, env_dialogID e, True)"
    unfolding validateTypedInbound_Ok by (metis outcome.inject(1))
qed

text \<open>A member of the last duplicate of its name.\<close>

abbreviation member :: "(string \<times> json) list \<Rightarrow> string \<Rightarrow> json option" where
  "member kvs k \<equiv> map_of (gm_build kvs) k"


definition example_close :: raw_message where
  "example_close = RawJson (JObj
     [(''method'', JStr MethodClose), (''dialog_id'', JStr ''d-1''),
      (''body'', JObj [(''reason'', JObj [(''code'', JStr ''gone''), (''text'', JStr ''bye'')])])])"

definition example_close_message :: signaling_message where
  "example_close_message = \<lparr>msg_method = MethodClose, msg_dialog = ''d-1'', msg_riid = [],
     msg_body = RawJson (JObj [(''reason'', JObj [(''code'', JStr ''gone''), (''text'', JStr ''bye'')])])\<rparr>"

lemma example_close_decodes: "unmarshalSignalingFrame example_close = Ok example_close_message"
  by code_simp


section \<open>Panics\<close>

text \<open>A document that the generated enum decoder cannot look up: an array or an object.\<close>

definition unhashable :: "json \<Rightarrow> bool" where
  "unhashable j = (any_ok j \<and> (case j of JArr _ \<Rightarrow> True | JObj _ \<Rightarrow> True | _ \<Rightarrow> False))"

lemma unmarshal_enum_None: "unmarshal (TPtr (TEnum names)) old j = None \<longleftrightarrow> unhashable j"
  by (auto simp: unhashable_def split: json.splits)

abbreviation discriminator_fields :: "(string \<times> bool \<times> gotype) list" where
  "discriminator_fields \<equiv> [(''method'', False, TPtr AnonymousSchema_1), (''dialog_id'', False, TString),
      (''riid'', True, TString), (''body'', False, TMap), (''-'', True, TMap)]"

lemma fold_names:
  "fold_name ''method'' = ''METHOD''" "fold_name ''dialog_id'' = ''DIALOG_ID''" "fold_name ''riid'' = ''RIID''"
  "fold_name ''body'' = ''BODY''" "fold_name ''-'' = ''-''"
  by code_simp+

lemma discriminator_method_index:
  "field_index discriminator_fields k = Some 0 \<longleftrightarrow> fold_name k = ''METHOD''"
proof (cases "k \<in> {''method'', ''dialog_id'', ''riid'', ''body'', ''-''}")
  case True
  then show ?thesis
    by (elim insertE; simp add: field_index_def list_index_def fold_names del: fold_name.simps)
next
  case False
  then have "list_index (\<lambda>f. fst f = k) discriminator_fields = None"
    by (auto simp: list_index_def)
  moreover have "list_index (\<lambda>f. fold_name (fst f) = fold_name k) discriminator_fields = Some 0 \<longleftrightarrow>
      fold_name k = ''METHOD''"
    by (cases "fold_name k = ''METHOD''") (auto simp: list_index_def fold_names Let_def simp del: fold_name.simps)
  ultimately show ?thesis by (simp add: field_index_def del: fold_name.simps)
qed

lemma discriminator_other_fields:
  "field_index discriminator_fields k = Some i \<Longrightarrow> i \<noteq> 0 \<Longrightarrow> enum_free (snd (snd (discriminator_fields ! i)))"
  using field_index_less [of discriminator_fields k i] by (auto simp: less_Suc_eq)

lemma discriminator_members_None:
  "unmarshal_members discriminator_fields vs kvs = None \<longleftrightarrow>
     (\<exists>kv\<in>set kvs. fold_name (fst kv) = ''METHOD'' \<and> unhashable (snd kv))"
proof (induction kvs arbitrary: vs)
  case (Cons kv kvs)
  obtain k j where kv: "kv = (k, j)" by (cases kv)
  let ?T = "\<lambda>i. snd (snd (discriminator_fields ! i))"
  show ?case
  proof (cases "field_index discriminator_fields k")
    case None
    then have "fold_name k \<noteq> ''METHOD''" using discriminator_method_index [of k] by simp
    then show ?thesis using None Cons kv by simp
  next
    case (Some i)
    have step: "unmarshal (?T i) (vs ! i) j = None \<longleftrightarrow> fold_name k = ''METHOD'' \<and> unhashable j"
    proof (cases "i = 0")
      case True
      then show ?thesis
        using Some discriminator_method_index [of k] unmarshal_enum_None
        by (simp add: AnonymousSchema_1_def del: unmarshal.simps)
    next
      case False
      then have "enum_free (?T i)" using discriminator_other_fields Some by blast
      then have "unmarshal (?T i) (vs ! i) j \<noteq> None" using unmarshal_enum_free_mutual(1) by blast
      moreover have "fold_name k \<noteq> ''METHOD''" using False Some discriminator_method_index [of k] by auto
      ultimately show ?thesis by simp
    qed
    show ?thesis
    proof (cases "unmarshal (?T i) (vs ! i) j")
      case None
      then show ?thesis using step Some kv by simp
    next
      case (Some r)
      with step \<open>field_index discriminator_fields k = Some i\<close> Cons.IH [of "vs[i := fst r]"] kv show ?thesis
        by (cases r) (simp; blast)
    qed
  qed
qed simp

lemma discriminator_panics_iff:
  "json_decode SignalingInboundDiscriminator raw = DecodePanic \<longleftrightarrow>
     (\<exists>kvs. raw = RawJson (JObj kvs) \<and>
        (\<exists>kv\<in>set kvs. fold_name (fst kv) = ''METHOD'' \<and> unhashable (snd kv)))"
proof (cases "\<exists>kvs. raw = RawJson (JObj kvs)")
  case True
  then obtain kvs where raw: "raw = RawJson (JObj kvs)" by blast
  have "json_decode SignalingInboundDiscriminator raw = DecodePanic \<longleftrightarrow>
      unmarshal_members discriminator_fields (map (\<lambda>f. zero_value (snd (snd f))) discriminator_fields) kvs = None"
    unfolding raw
    by (cases "unmarshal_members discriminator_fields (map (\<lambda>f. zero_value (snd (snd f))) discriminator_fields) kvs")
       (auto simp: json_decode_def json_unmarshal_def SignalingInboundDiscriminator_def split: if_splits)
  then show ?thesis unfolding discriminator_members_None using raw by auto
qed (auto simp: json_decode_def json_unmarshal_def SignalingInboundDiscriminator_def
      split: raw_message.splits json.splits)

lemma decodeBodyFields_no_panic [simp]: "decodeBodyFields raw \<noteq> Panic"
  by (auto simp: decodeBodyFields_def obind_Panic_iff on_decode_Panic_iff split: option.splits)

lemma decodeEnvelopeFields_no_panic [simp]: "decodeEnvelopeFields raw \<noteq> Panic"
  by (auto simp: decodeEnvelopeFields_def decodeEnvelopeField_def obind_Panic_iff on_decode_Panic_iff
      split: option.splits)

lemma normalizeCloseReasonCode_no_panic [simp]: "normalizeCloseReasonCode raw \<noteq> Panic"
  by (auto simp: normalizeCloseReasonCode_def rawObjectField_def obind_Panic_iff on_decode_Panic_iff Let_def
      split: option.splits decoded.splits)

lemma validateTypedInbound_no_panic:
  "enum_free T \<Longrightarrow> validateTypedInbound T raw e body required \<noteq> Panic"
  by (auto simp: validateTypedInbound_def obind_Panic_iff on_decode_Panic_iff Let_def json_decode_enum_free
      split: option.splits prod.splits if_splits)

lemma inbound_types_enum_free:
  "list_all enum_free [ServerCameraStartedFrame, ServerCloseFrame, LiveIceFrame, ServerIceFrame,
     SessionNotificationFrame, SessionPongFrame, PushEventFrame, PushSubscriptionAckFrame, ServerRpcFrame,
     LiveAnswerFrame, PlaybackAnswerFrame, SessionCreatedFrame]"
  by (simp add: signaling_model_defs)

lemma validateInboundFrame_no_panic [simp]: "validateInboundFrame raw e body \<noteq> Panic"
  using inbound_types_enum_free
  by (auto simp: validateInboundFrame_def Let_def validateTypedInbound_no_panic split: if_splits)


section \<open>Close codes\<close>

text \<open>A close reason code is accepted exactly when it is null, a string, or an integer literal in the
  canonical decimal form of a 64-bit integer.\<close>

theorem validCloseReasonCode_iff:
  "validCloseReasonCode (RawJson j) \<longleftrightarrow>
     j = JNull \<or> (\<exists>s. j = JStr s) \<or> (\<exists>i. fits_int64 i \<and> j = JNum (NLit (dec_int i)))
     \<or> (\<exists>i. fits_int64 i \<and> j = JNum (NFloat (of_int i)))"
proof (cases j)
  case (JNum n)
  show ?thesis
  proof (cases n)
    case (NLit s)
    then show ?thesis using JNum parse_int64_fits
      by (auto simp: validCloseReasonCode_def json_string_def parse_int64_dec_int split: option.splits)
  next
    case (NFloat q)
    have "(of_int \<lfloor>q\<rfloor> = q \<and> fits_int64 \<lfloor>q\<rfloor>) \<longleftrightarrow> (\<exists>i. fits_int64 i \<and> q = of_int i)" by auto
    then show ?thesis using JNum NFloat
      by (simp add: validCloseReasonCode_def json_string_def num_int_def)
  qed
qed (simp_all add: validCloseReasonCode_def json_string_def)

end
