(* ===== verification/SignalingWriter.thy ===== *)
theory SignalingWriter
  imports Wire "HOL-Library.Multiset"
begin

text \<open>
  The socket writer, \<open>pkg/dependencies/websocket/writer.go\<close>: a bounded queue with a priority class for
  frames that end or steady a session, drained by one goroutine. The queue operations are functions on
  \<open>signaling_writer\<close>; \<open>writer_step\<close> interleaves the goroutine of \<open>Run\<close>, cut at the points where it reads a
  channel or a context, with callers of \<open>Send\<close>, with contexts that end and with the closing of \<open>done\<close>. A request is
  identified by a number, as the code identifies it by its address.
\<close>

section \<open>Priority frames\<close>

text \<open>\<open>json.Unmarshal(m[k], &target)\<close> of a raw member, into a map of raw members: nil maps have no members.\<close>

definition member_object :: "(string \<times> json) list \<Rightarrow> string \<Rightarrow> (string \<times> json) list decoded" where
  "member_object m k =
     (case json_object (raw_member m k) of
        Decoded None \<Rightarrow> Decoded [] | Decoded (Some fs) \<Rightarrow> Decoded fs
      | DecodeError \<Rightarrow> DecodeError | DecodePanic \<Rightarrow> DecodePanic)"

definition hasExplicitPTZStop :: "raw_message \<Rightarrow> string \<Rightarrow> bool" where
  "hasExplicitPTZStop encoded method =
     (case json_object encoded of
        Decoded env \<Rightarrow>
          (case member_object (case env of None \<Rightarrow> [] | Some e \<Rightarrow> e) FieldCommand of
             Decoded command \<Rightarrow>
               (case json_string (raw_member command FieldMethod) of
                  Decoded wireMethod \<Rightarrow>
                    wireMethod = method \<and>
                    (case member_object command FieldParams of
                       Decoded params \<Rightarrow> json_decode TFloat (raw_member params FieldSpeed) = Decoded (VFloat 0)
                     | _ \<Rightarrow> False)
                | _ \<Rightarrow> False)
           | _ \<Rightarrow> False)
      | _ \<Rightarrow> False)"

definition prioritySignalingMessage :: "signaling_message \<Rightarrow> bool outcome" where
  "prioritySignalingMessage message =
     (if msg_method message \<in> {MethodClose, MethodPing, MethodPong} then Ok True
      else if msg_method message \<noteq> MethodRPC then Ok False
      else case json_decode PtzContinuousCommandBody (msg_body message) of
        DecodePanic \<Rightarrow> Panic
      | DecodeError \<Rightarrow> Ok False
      | Decoded body \<Rightarrow>
          (case as_pointer (field_of PtzContinuousCommandBody ''command'' body) of
             None \<Rightarrow> Ok False
           | Some command \<Rightarrow>
               (case (as_pointer (field_of PtzContinuousWireCommand ''params'' command),
                      as_pointer (field_of PtzContinuousWireCommand ''method'' command)) of
                  (Some params, Some method) \<Rightarrow>
                    if as_float (field_of PtzContinuousParams ''speed'' params) \<noteq> 0 then Ok False
                    else
                      (case enum_value AnonymousSchema_199_Values method of
                         None \<Rightarrow> Ok False
                       | Some name \<Rightarrow>
                           if name \<noteq> RPCPanContinuous \<and> name \<noteq> RPCTiltContinuous then Ok False
                           else Ok (hasExplicitPTZStop (msg_body message) name))
                | _ \<Rightarrow> Ok False)))"

section \<open>The queue\<close>

definition SignalingWriteQueueCapacity :: nat where "SignalingWriteQueueCapacity = 128"

definition PriorityWriteBurstLimit :: nat where "PriorityWriteBurstLimit = 4"

record write_request =
  wr_id :: nat
  wr_message :: signaling_message

record signaling_writer =
  wq_priority :: "write_request list"
  wq_normal :: "write_request list"
  wq_streak :: nat
  wq_wake :: bool

definition NewSignalingWriter :: signaling_writer where
  "NewSignalingWriter = \<lparr>wq_priority = [], wq_normal = [], wq_streak = 0, wq_wake = False\<rparr>"

text \<open>
  \<open>queue\<close>: None when the queue is full; classifying the frame can panic. \<open>wake\<close> is a channel of one
  token, filled without blocking.
\<close>

definition writer_queue :: "write_request \<Rightarrow> signaling_writer \<Rightarrow> signaling_writer option outcome" where
  "writer_queue request w =
     (if length (wq_priority w) + length (wq_normal w) \<ge> SignalingWriteQueueCapacity then Ok None
      else obind (prioritySignalingMessage (wr_message request)) (\<lambda>priority.
        Ok (Some (if priority
          then w\<lparr>wq_priority := wq_priority w @ [request], wq_wake := True\<rparr>
          else w\<lparr>wq_normal := wq_normal w @ [request], wq_wake := True\<rparr>))))"

text \<open>\<open>remove\<close>: the first occurrence, in the priority queue before the normal one.\<close>

fun remove_first :: "nat \<Rightarrow> write_request list \<Rightarrow> write_request list" where
  "remove_first i [] = []"
| "remove_first i (r # rs) = (if wr_id r = i then rs else r # remove_first i rs)"

definition writer_remove :: "nat \<Rightarrow> signaling_writer \<Rightarrow> signaling_writer" where
  "writer_remove i w =
     (if i \<in> wr_id ` set (wq_priority w) then w\<lparr>wq_priority := remove_first i (wq_priority w)\<rparr>
      else w\<lparr>wq_normal := remove_first i (wq_normal w)\<rparr>)"

definition writer_next :: "signaling_writer \<Rightarrow> (write_request \<times> signaling_writer) option" where
  "writer_next w =
     (case (wq_priority w, wq_normal w) of
        ([], []) \<Rightarrow> None
      | ([], n # ns) \<Rightarrow> Some (n, w\<lparr>wq_normal := ns, wq_streak := 0\<rparr>)
      | (p # ps, []) \<Rightarrow> Some (p, w\<lparr>wq_priority := ps, wq_streak := wq_streak w + 1\<rparr>)
      | (p # ps, n # ns) \<Rightarrow>
          if wq_streak w \<ge> PriorityWriteBurstLimit then Some (n, w\<lparr>wq_normal := ns, wq_streak := 0\<rparr>)
          else Some (p, w\<lparr>wq_priority := ps, wq_streak := wq_streak w + 1\<rparr>))"

definition wrapSignalingContextError :: "goerr option \<Rightarrow> goerr option" where
  "wrapSignalingContextError cause =
     (case cause of None \<Rightarrow> None
      | Some c \<Rightarrow> Some (NewConnectionError ''signaling write canceled'' (Some c)))"

text \<open>\<open>ctx.Err()\<close> of a request that meets a closed writer.\<close>

definition closed_result :: "goerr option \<Rightarrow> goerr option" where
  "closed_result ctxErr =
     (case ctxErr of None \<Rightarrow> Some ErrClosed | Some c \<Rightarrow> wrapSignalingContextError (Some c))"

section \<open>The writer goroutine and its callers\<close>

text \<open>Where the goroutine stands: at the top of its loop, waiting for \<open>wake\<close> or \<open>done\<close>, with a request in hand,
  inside \<open>write\<close>, or finished.\<close>

datatype run_state = RunTop | RunIdle | RunHolding write_request | RunWriting write_request | RunFinished

record writer_world =
  ww_writer :: signaling_writer
  ww_done :: bool
  ww_ctx :: "nat \<Rightarrow> goerr option"
  ww_run :: run_state
  ww_results :: "(nat \<times> goerr option) list"
  ww_written :: "write_request list"
  ww_failures :: "goerr list"
  ww_next :: nat

definition writer_start :: writer_world where
  "writer_start =
     \<lparr>ww_writer = NewSignalingWriter, ww_done = False, ww_ctx = (\<lambda>_. None), ww_run = RunTop,
      ww_results = [], ww_written = [], ww_failures = [], ww_next = 0\<rparr>"

text \<open>\<open>drain\<close>: every queued request gets the result of a closed writer.\<close>

definition writer_drain :: "writer_world \<Rightarrow> writer_world" where
  "writer_drain s =
     (let w = ww_writer s; queued = wq_priority w @ wq_normal w in
      s\<lparr>ww_writer := w\<lparr>wq_priority := [], wq_normal := []\<rparr>,
        ww_results := ww_results s @ map (\<lambda>r. (wr_id r, closed_result (ww_ctx s (wr_id r)))) queued\<rparr>)"

text \<open>
  \<open>Send\<close> up to its wait: a context that has ended and a full queue give an error at once, otherwise the
  request is queued under a fresh number.
\<close>

datatype send_start = SendFailed goerr | SendWaiting nat

definition Send_begin ::
  "goerr option \<Rightarrow> signaling_message \<Rightarrow> writer_world \<Rightarrow> (send_start \<times> writer_world) outcome"
where
  "Send_begin ctxErr message s =
     (case wrapSignalingContextError ctxErr of
        Some e \<Rightarrow> Ok (SendFailed e, s)
      | None \<Rightarrow>
          obind (writer_queue \<lparr>wr_id = ww_next s, wr_message = message\<rparr> (ww_writer s)) (\<lambda>queued.
            case queued of
              None \<Rightarrow> Ok (SendFailed ErrBackpressure, s)
            | Some w \<Rightarrow> Ok (SendWaiting (ww_next s), s\<lparr>ww_writer := w, ww_next := ww_next s + 1\<rparr>)))"

text \<open>The end of the wait through the context or \<open>done\<close>: the request leaves the queue.\<close>

definition Send_abandon :: "nat \<Rightarrow> writer_world \<Rightarrow> writer_world" where
  "Send_abandon i s = s\<lparr>ww_writer := writer_remove i (ww_writer s)\<rparr>"

text \<open>\<open>Run\<close> at the top of its loop.\<close>

definition Run_top :: "writer_world \<Rightarrow> writer_world" where
  "Run_top s =
     (if ww_done s then (writer_drain s)\<lparr>ww_run := RunFinished\<rparr>
      else case writer_next (ww_writer s) of
        None \<Rightarrow> s\<lparr>ww_run := RunIdle\<rparr>
      | Some (r, w) \<Rightarrow> s\<lparr>ww_writer := w, ww_run := RunHolding r\<rparr>)"

text \<open>The two ways out of the idle wait.\<close>

definition Run_wake :: "writer_world \<Rightarrow> writer_world" where
  "Run_wake s = s\<lparr>ww_writer := (ww_writer s)\<lparr>wq_wake := False\<rparr>, ww_run := RunTop\<rparr>"

definition Run_idle_done :: "writer_world \<Rightarrow> writer_world" where
  "Run_idle_done s = (writer_drain s)\<lparr>ww_run := RunFinished\<rparr>"

text \<open>With a request in hand: a closed writer answers it and stops, an ended context answers it, otherwise the
  frame goes to \<open>write\<close>.\<close>

definition Run_holding :: "write_request \<Rightarrow> writer_world \<Rightarrow> writer_world" where
  "Run_holding r s =
     (if ww_done s then
        (writer_drain (s\<lparr>ww_results := ww_results s @ [(wr_id r, closed_result (ww_ctx s (wr_id r)))]\<rparr>))
          \<lparr>ww_run := RunFinished\<rparr>
      else case wrapSignalingContextError (ww_ctx s (wr_id r)) of
        Some e \<Rightarrow> s\<lparr>ww_results := ww_results s @ [(wr_id r, Some e)], ww_run := RunTop\<rparr>
      | None \<Rightarrow> s\<lparr>ww_written := ww_written s @ [r], ww_run := RunWriting r\<rparr>)"

text \<open>The return of \<open>write\<close> with its error: a failure under a live context is reported.\<close>

definition Run_written :: "write_request \<Rightarrow> goerr option \<Rightarrow> writer_world \<Rightarrow> writer_world" where
  "Run_written r err s =
     s\<lparr>ww_results := ww_results s @ [(wr_id r, err)],
       ww_failures := ww_failures s
         @ (case err of Some e \<Rightarrow> if ww_ctx s (wr_id r) = None then [e] else [] | None \<Rightarrow> []),
       ww_run := RunTop\<rparr>"

inductive writer_step :: "writer_world \<Rightarrow> writer_world \<Rightarrow> bool" where
  step_send: "Send_begin None message s = Ok (SendWaiting i, s') \<Longrightarrow> writer_step s s'"
| step_context: "ww_ctx s i = None \<Longrightarrow> writer_step s (s\<lparr>ww_ctx := (ww_ctx s)(i := Some e)\<rparr>)"
| step_done: "writer_step s (s\<lparr>ww_done := True\<rparr>)"
| step_abandon: "ww_ctx s i \<noteq> None \<or> ww_done s \<Longrightarrow> writer_step s (Send_abandon i s)"
| step_top: "ww_run s = RunTop \<Longrightarrow> writer_step s (Run_top s)"
| step_wake: "ww_run s = RunIdle \<Longrightarrow> wq_wake (ww_writer s) \<Longrightarrow> writer_step s (Run_wake s)"
| step_idle_done: "ww_run s = RunIdle \<Longrightarrow> ww_done s \<Longrightarrow> writer_step s (Run_idle_done s)"
| step_holding: "ww_run s = RunHolding r \<Longrightarrow> writer_step s (Run_holding r s)"
| step_written: "ww_run s = RunWriting r \<Longrightarrow> writer_step s (Run_written r err s)"

inductive writer_reachable :: "writer_world \<Rightarrow> bool" where
  reach_start: "writer_reachable writer_start"
| reach_step: "writer_reachable s \<Longrightarrow> writer_step s s' \<Longrightarrow> writer_reachable s'"

section \<open>The invariant of the writer\<close>

definition queued_requests :: "signaling_writer \<Rightarrow> write_request list" where
  "queued_requests w = wq_priority w @ wq_normal w"

fun held_requests :: "run_state \<Rightarrow> write_request list" where
  "held_requests (RunHolding r) = [r]"
| "held_requests (RunWriting r) = [r]"
| "held_requests _ = []"

text \<open>Every request that still has a place: queued, in the goroutine's hand, or answered.\<close>

definition placed_ids :: "writer_world \<Rightarrow> nat list" where
  "placed_ids s =
     map wr_id (queued_requests (ww_writer s)) @ map wr_id (held_requests (ww_run s)) @ map fst (ww_results s)"

definition writing_ids :: "writer_world \<Rightarrow> nat set" where
  "writing_ids s = (case ww_run s of RunWriting r \<Rightarrow> {wr_id r} | _ \<Rightarrow> {})"

definition placed_ok :: "writer_world \<Rightarrow> bool" where
  "placed_ok s \<longleftrightarrow>
     distinct (placed_ids s) \<and> set (placed_ids s) \<subseteq> {..<ww_next s} \<and>
     (\<forall>i<ww_next s. i \<in> set (placed_ids s) \<or> ww_ctx s i \<noteq> None \<or> ww_done s)"

definition written_ok :: "writer_world \<Rightarrow> bool" where
  "written_ok s \<longleftrightarrow>
     distinct (map wr_id (ww_written s)) \<and>
     wr_id ` set (ww_written s) \<subseteq> writing_ids s \<union> fst ` set (ww_results s)"

definition queue_ok :: "signaling_writer \<Rightarrow> bool" where
  "queue_ok w \<longleftrightarrow>
     length (queued_requests w) \<le> SignalingWriteQueueCapacity \<and>
     (\<forall>r\<in>set (wq_priority w). prioritySignalingMessage (wr_message r) = Ok True) \<and>
     (\<forall>r\<in>set (wq_normal w). prioritySignalingMessage (wr_message r) = Ok False)"

definition wake_ok :: "writer_world \<Rightarrow> bool" where
  "wake_ok s \<longleftrightarrow>
     (ww_run s = RunIdle \<longrightarrow> queued_requests (ww_writer s) \<noteq> [] \<longrightarrow> wq_wake (ww_writer s))"

definition writer_inv :: "writer_world \<Rightarrow> bool" where
  "writer_inv s \<longleftrightarrow> placed_ok s \<and> written_ok s \<and> queue_ok (ww_writer s) \<and> wake_ok s"

lemma writer_next_None: "writer_next w = None \<longleftrightarrow> queued_requests w = []"
  by (auto simp: writer_next_def queued_requests_def split: list.splits)

lemma writer_next_cases:
  assumes "writer_next w = Some (r, w')"
  obtains (priority) ps where "wq_priority w = r # ps" "w' = w\<lparr>wq_priority := ps, wq_streak := wq_streak w + 1\<rparr>"
      "wq_normal w = [] \<or> wq_streak w < PriorityWriteBurstLimit"
    | (normal) ns where "wq_normal w = r # ns" "w' = w\<lparr>wq_normal := ns, wq_streak := 0\<rparr>"
      "wq_priority w = [] \<or> PriorityWriteBurstLimit \<le> wq_streak w"
  using assms by (auto simp: writer_next_def split: list.splits if_splits)

lemma writer_queue_Some:
  assumes "writer_queue r w = Ok (Some w')"
  obtains p where "length (queued_requests w) < SignalingWriteQueueCapacity"
      "prioritySignalingMessage (wr_message r) = Ok p"
      "w' = (if p then w\<lparr>wq_priority := wq_priority w @ [r], wq_wake := True\<rparr>
             else w\<lparr>wq_normal := wq_normal w @ [r], wq_wake := True\<rparr>)"
  using assms by (auto simp: writer_queue_def obind_Ok_iff queued_requests_def split: if_splits)

text \<open>Placement depends on the multiset of placed requests only.\<close>

lemma placed_ok_same:
  assumes "placed_ok s" "mset (placed_ids s') = mset (placed_ids s)" "ww_next s' = ww_next s"
    "ww_ctx s' = ww_ctx s" "ww_done s' = ww_done s"
  shows "placed_ok s'"
  using assms mset_eq_setD [OF assms(2)] mset_eq_imp_distinct_iff [OF assms(2)] by (simp add: placed_ok_def)

lemma placed_ok_new:
  assumes "placed_ok s" "mset (placed_ids s') = add_mset (ww_next s) (mset (placed_ids s))"
    "ww_next s' = ww_next s + 1" "ww_ctx s' = ww_ctx s" "ww_done s' = ww_done s"
  shows "placed_ok s'"
proof -
  have m: "mset (placed_ids s') = mset (ww_next s # placed_ids s)" using assms(2) by simp
  show ?thesis
    using assms mset_eq_setD [OF m] mset_eq_imp_distinct_iff [OF m]
    by (auto simp: placed_ok_def less_Suc_eq)
qed

lemma placed_ok_remove:
  assumes "placed_ok s" "ww_ctx s i \<noteq> None \<or> ww_done s" "ww_next s' = ww_next s"
    "ww_ctx s' = ww_ctx s" "ww_done s' = ww_done s"
    "mset (placed_ids s') = mset (placed_ids s) \<or> add_mset i (mset (placed_ids s')) = mset (placed_ids s)"
  shows "placed_ok s'"
  using assms(6)
proof
  assume "mset (placed_ids s') = mset (placed_ids s)"
  then show ?thesis using placed_ok_same assms by blast
next
  assume "add_mset i (mset (placed_ids s')) = mset (placed_ids s)"
  then have m: "mset (i # placed_ids s') = mset (placed_ids s)" by simp
  show ?thesis
    using assms(1-5) mset_eq_setD [OF m] mset_eq_imp_distinct_iff [OF m]
    by (auto simp: placed_ok_def)
qed

lemma remove_first_mset:
  "i \<in> wr_id ` set q \<Longrightarrow> add_mset i (mset (map wr_id (remove_first i q))) = mset (map wr_id q)"
  by (induction q) auto

lemma remove_first_absent: "i \<notin> wr_id ` set q \<Longrightarrow> remove_first i q = q"
  by (induction q) auto

lemma remove_first_set: "set (remove_first i q) \<subseteq> set q"
  by (induction q) auto

lemma remove_first_length: "length (remove_first i q) \<le> length q"
  by (induction q) auto

lemmas placed_simps = placed_ids_def queued_requests_def

lemma inv_start: "writer_inv writer_start"
  by (simp add: writer_inv_def placed_ok_def written_ok_def queue_ok_def wake_ok_def placed_simps
      writer_start_def NewSignalingWriter_def SignalingWriteQueueCapacity_def)

lemma inv_send:
  assumes inv: "writer_inv s" and "Send_begin None m s = Ok (SendWaiting i, s')"
  shows "writer_inv s'"
proof -
  from assms(2) obtain w where q: "writer_queue \<lparr>wr_id = ww_next s, wr_message = m\<rparr> (ww_writer s) = Ok (Some w)"
      and s': "s' = s\<lparr>ww_writer := w, ww_next := ww_next s + 1\<rparr>"
    by (auto simp: Send_begin_def wrapSignalingContextError_def obind_Ok_iff split: option.splits)
  from q have w: "mset (map wr_id (queued_requests w)) = add_mset (ww_next s) (mset (map wr_id (queued_requests (ww_writer s))))"
      "queue_ok (ww_writer s) \<longrightarrow> queue_ok w" "wq_wake w"
    by (auto elim!: writer_queue_Some simp: queued_requests_def queue_ok_def split: if_splits)
  have "placed_ok s'"
    using placed_ok_new [of s s'] inv w(1) by (simp add: s' writer_inv_def placed_ids_def)
  moreover have "written_ok s'" using inv by (simp add: s' writer_inv_def written_ok_def writing_ids_def)
  ultimately show ?thesis using inv w(2,3) by (simp add: s' writer_inv_def wake_ok_def)
qed

lemma inv_context: "writer_inv s \<Longrightarrow> writer_inv (s\<lparr>ww_ctx := (ww_ctx s)(i := Some e)\<rparr>)"
  by (auto simp: writer_inv_def placed_ok_def placed_ids_def written_ok_def writing_ids_def wake_ok_def)

lemma inv_done: "writer_inv s \<Longrightarrow> writer_inv (s\<lparr>ww_done := True\<rparr>)"
  by (auto simp: writer_inv_def placed_ok_def placed_ids_def written_ok_def writing_ids_def wake_ok_def)

lemma writer_remove_facts:
  "mset (map wr_id (queued_requests (writer_remove i w))) = mset (map wr_id (queued_requests w)) \<or>
   add_mset i (mset (map wr_id (queued_requests (writer_remove i w)))) = mset (map wr_id (queued_requests w))"
  "queue_ok w \<Longrightarrow> queue_ok (writer_remove i w)"
  "wq_wake (writer_remove i w) = wq_wake w"
  "queued_requests (writer_remove i w) \<noteq> [] \<Longrightarrow> queued_requests w \<noteq> []"
proof -
  let ?p = "wq_priority w" and ?n = "wq_normal w"
  show "mset (map wr_id (queued_requests (writer_remove i w))) = mset (map wr_id (queued_requests w)) \<or>
   add_mset i (mset (map wr_id (queued_requests (writer_remove i w)))) = mset (map wr_id (queued_requests w))"
    using remove_first_mset [of i ?p] remove_first_mset [of i ?n] remove_first_absent [of i ?n]
    by (cases "i \<in> wr_id ` set ?n") (auto simp: writer_remove_def queued_requests_def)
  show "queue_ok w \<Longrightarrow> queue_ok (writer_remove i w)"
    using remove_first_set [of i ?p] remove_first_set [of i ?n] remove_first_length [of i ?p] remove_first_length [of i ?n]
    by (auto simp: queue_ok_def writer_remove_def queued_requests_def)
  show "wq_wake (writer_remove i w) = wq_wake w" by (simp add: writer_remove_def)
  show "queued_requests (writer_remove i w) \<noteq> [] \<Longrightarrow> queued_requests w \<noteq> []"
    by (auto simp: writer_remove_def queued_requests_def)
qed

lemma inv_abandon:
  assumes "writer_inv s" and "ww_ctx s i \<noteq> None \<or> ww_done s"
  shows "writer_inv (Send_abandon i s)"
proof -
  have "placed_ok (Send_abandon i s)"
    by (rule placed_ok_remove [of s i])
      (use assms writer_remove_facts(1) [of i "ww_writer s"] in \<open>auto simp: writer_inv_def Send_abandon_def placed_ids_def\<close>)
  then show ?thesis
    using assms writer_remove_facts(2) [of "ww_writer s" i] writer_remove_facts(3,4) [of i "ww_writer s"]
    by (auto simp: writer_inv_def Send_abandon_def written_ok_def writing_ids_def wake_ok_def)
qed

lemma drain_results:
  "map fst (ww_results (writer_drain s)) = map fst (ww_results s) @ map wr_id (queued_requests (ww_writer s))"
  by (simp add: writer_drain_def Let_def queued_requests_def comp_def)

lemma inv_drain:
  assumes "writer_inv s" and "held_requests (ww_run s) = []"
  shows "writer_inv ((writer_drain s)\<lparr>ww_run := RunFinished\<rparr>)"
proof -
  have w: "writing_ids s = {}" using assms(2) by (cases "ww_run s") (auto simp: writing_ids_def)
  have "placed_ok ((writer_drain s)\<lparr>ww_run := RunFinished\<rparr>)"
    by (rule placed_ok_same [of s])
      (use assms in \<open>auto simp: writer_inv_def placed_simps writer_drain_def Let_def comp_def\<close>)
  with assms w show ?thesis
    by (auto simp: writer_inv_def written_ok_def writing_ids_def wake_ok_def queue_ok_def queued_requests_def
        writer_drain_def Let_def)
qed

lemma writer_next_Some:
  assumes "writer_next w = Some (r, w')"
  shows "mset (map wr_id (queued_requests w)) = add_mset (wr_id r) (mset (map wr_id (queued_requests w')))"
    and "queue_ok w \<Longrightarrow> queue_ok w'"
  using assms by (auto elim!: writer_next_cases simp: queued_requests_def queue_ok_def)

lemma inv_top:
  assumes "writer_inv s" and "ww_run s = RunTop"
  shows "writer_inv (Run_top s)"
proof (cases "ww_done s")
  case True
  then show ?thesis using inv_drain [of s] assms by (simp add: Run_top_def)
next
  case False
  show ?thesis
  proof (cases "writer_next (ww_writer s)")
    case None
    have "placed_ok (Run_top s)"
      by (rule placed_ok_same [of s])
      (use False None assms in \<open>auto simp: writer_inv_def Run_top_def placed_simps\<close>)
    then show ?thesis using False None assms writer_next_None [of "ww_writer s"]
      by (auto simp: Run_top_def writer_inv_def written_ok_def writing_ids_def wake_ok_def)
  next
    case (Some rw)
    obtain r w where rw: "rw = (r, w)" by (cases rw)
    note facts = writer_next_Some [OF Some [unfolded rw]]
    have "placed_ok (Run_top s)"
      by (rule placed_ok_same [of s])
      (use False Some rw facts(1) assms in \<open>auto simp: writer_inv_def Run_top_def placed_ids_def\<close>)
    then show ?thesis using False Some rw facts(2) assms
      by (auto simp: Run_top_def writer_inv_def written_ok_def writing_ids_def wake_ok_def)
  qed
qed

lemma inv_wake:
  assumes "writer_inv s" and "ww_run s = RunIdle"
  shows "writer_inv (Run_wake s)"
proof -
  have "placed_ok (Run_wake s)"
    by (rule placed_ok_same [of s])
      (use assms in \<open>auto simp: writer_inv_def Run_wake_def placed_simps\<close>)
  with assms show ?thesis
    by (auto simp: Run_wake_def writer_inv_def written_ok_def writing_ids_def wake_ok_def queue_ok_def queued_requests_def)
qed

lemma inv_answer:
  assumes "writer_inv s" and "ww_run s = RunHolding r \<or> ww_run s = RunWriting r"
  shows "writer_inv (s\<lparr>ww_results := ww_results s @ [(wr_id r, e)], ww_failures := f, ww_run := RunTop\<rparr>)"
proof -
  have "placed_ok (s\<lparr>ww_results := ww_results s @ [(wr_id r, e)], ww_failures := f, ww_run := RunTop\<rparr>)"
    by (rule placed_ok_same [of s])
      (use assms in \<open>auto simp: writer_inv_def placed_simps\<close>)
  with assms show ?thesis
    by (auto simp: writer_inv_def written_ok_def writing_ids_def wake_ok_def)
qed

lemma inv_written: "writer_inv s \<Longrightarrow> ww_run s = RunWriting r \<Longrightarrow> writer_inv (Run_written r err s)"
  unfolding Run_written_def by (rule inv_answer) auto

lemma inv_holding:
  assumes "writer_inv s" and "ww_run s = RunHolding r"
  shows "writer_inv (Run_holding r s)"
proof -
  have answered: "writer_inv (s\<lparr>ww_results := ww_results s @ [(wr_id r, e)], ww_run := RunTop\<rparr>)" for e
    using inv_answer [of s r "ww_failures s" e] assms by simp
  have drained: "writer_inv ((writer_drain (s\<lparr>ww_results := ww_results s @ [(wr_id r, e)]\<rparr>))\<lparr>ww_run := RunFinished\<rparr>)" for e
  proof -
    have "(writer_drain (s\<lparr>ww_results := ww_results s @ [(wr_id r, e)]\<rparr>))\<lparr>ww_run := RunFinished\<rparr>
      = (writer_drain (s\<lparr>ww_results := ww_results s @ [(wr_id r, e)], ww_run := RunTop\<rparr>))\<lparr>ww_run := RunFinished\<rparr>"
      by (simp add: writer_drain_def Let_def)
    then show ?thesis using inv_drain [OF answered [of e]] by simp
  qed
  have "writing_ids s = {}" "wr_id r \<notin> fst ` set (ww_results s)"
    using assms by (simp_all add: writer_inv_def placed_ok_def writing_ids_def placed_ids_def)
  then have "wr_id r \<notin> wr_id ` set (ww_written s)"
    using assms(1) unfolding writer_inv_def written_ok_def by blast
  moreover have "placed_ok (s\<lparr>ww_written := ww_written s @ [r], ww_run := RunWriting r\<rparr>)"
    by (rule placed_ok_same [of s])
      (use assms in \<open>auto simp: writer_inv_def placed_simps\<close>)
  ultimately have "writer_inv (s\<lparr>ww_written := ww_written s @ [r], ww_run := RunWriting r\<rparr>)"
    using assms by (auto simp: writer_inv_def written_ok_def writing_ids_def wake_ok_def)
  then show ?thesis
    using answered drained
    by (cases "ww_done s"; cases "wrapSignalingContextError (ww_ctx s (wr_id r))") (simp_all add: Run_holding_def)
qed

lemma writer_step_inv: "writer_step s s' \<Longrightarrow> writer_inv s \<Longrightarrow> writer_inv s'"
proof (induction rule: writer_step.induct)
  case (step_idle_done s)
  then show ?case using inv_drain [of s] by (simp add: Run_idle_done_def)
qed (auto intro: inv_send inv_context inv_done inv_abandon inv_top inv_wake inv_holding inv_written)

lemma writer_reachable_inv: "writer_reachable s \<Longrightarrow> writer_inv s"
  by (induction rule: writer_reachable.induct) (auto intro: inv_start writer_step_inv)

text \<open>C4: at every moment of the writer, whatever its callers and the contexts do: the queue holds at most 128
  frames, filed by their class; no request is answered twice and no frame is written twice; a request whose
  context is live is never lost while the writer is open - it is queued, in the goroutine's hand, or
  answered; and the goroutine never sleeps on a non-empty queue without a pending wake-up.\<close>

theorem writer_requests_accounted:
  assumes "writer_reachable s"
  shows "length (wq_priority (ww_writer s)) + length (wq_normal (ww_writer s)) \<le> 128 \<and>
         (\<forall>r\<in>set (wq_priority (ww_writer s)). prioritySignalingMessage (wr_message r) = Ok True) \<and>
         (\<forall>r\<in>set (wq_normal (ww_writer s)). prioritySignalingMessage (wr_message r) = Ok False) \<and>
         distinct (map fst (ww_results s)) \<and> distinct (map wr_id (ww_written s)) \<and>
         (\<forall>i<ww_next s. ww_ctx s i = None \<longrightarrow> \<not> ww_done s \<longrightarrow>
            i \<in> wr_id ` set (queued_requests (ww_writer s)) \<or> i \<in> wr_id ` set (held_requests (ww_run s)) \<or>
            i \<in> fst ` set (ww_results s)) \<and>
         (ww_run s = RunIdle \<longrightarrow> queued_requests (ww_writer s) \<noteq> [] \<longrightarrow> wq_wake (ww_writer s))"
proof -
  have inv: "placed_ok s" "written_ok s" "queue_ok (ww_writer s)" "wake_ok s"
    using writer_reachable_inv [OF assms] by (simp_all add: writer_inv_def)
  have "\<forall>i<ww_next s. ww_ctx s i = None \<longrightarrow> \<not> ww_done s \<longrightarrow> i \<in> set (placed_ids s)"
    using inv(1) by (auto simp: placed_ok_def)
  with inv show ?thesis
    by (simp add: placed_ok_def written_ok_def queue_ok_def wake_ok_def queued_requests_def placed_ids_def
        image_Un SignalingWriteQueueCapacity_def)
qed

definition example_writer :: writer_world where
  "example_writer =
     writer_start\<lparr>ww_writer := NewSignalingWriter\<lparr>wq_priority := [\<lparr>wr_id = 0, wr_message = example_ping\<rparr>],
       wq_wake := True\<rparr>, ww_next := 1\<rparr>"

lemma example_writer_reachable: "writer_reachable example_writer"
proof -
  have "Send_begin None example_ping writer_start = Ok (SendWaiting 0, example_writer)"
    by (simp add: Send_begin_def wrapSignalingContextError_def writer_queue_def writer_start_def
        NewSignalingWriter_def SignalingWriteQueueCapacity_def prioritySignalingMessage_def example_ping_def
        example_writer_def)
  then show ?thesis using reach_step [OF reach_start] step_send by blast
qed

theorem writer_requests_accounted_witness:
  "0 \<in> wr_id ` set (queued_requests (ww_writer example_writer)) \<and>
   prioritySignalingMessage (wr_message \<lparr>wr_id = 0, wr_message = example_ping\<rparr>) = Ok True"
  using writer_requests_accounted [OF example_writer_reachable]
  by (simp add: example_writer_def queued_requests_def)

section \<open>Order and fairness of the queue\<close>

datatype writer_op = OpQueue write_request | OpRemove nat | OpNext

text \<open>A run of queue operations: the requests accepted and the requests handed out, in order.\<close>

fun writer_ops ::
  "writer_op list \<Rightarrow> signaling_writer \<Rightarrow> write_request list \<times> write_request list \<times> signaling_writer"
where
  "writer_ops [] w = ([], [], w)"
| "writer_ops (OpQueue r # ops) w =
     (case writer_queue r w of
        Ok (Some w') \<Rightarrow> (let (acc, out, w'') = writer_ops ops w' in (r # acc, out, w''))
      | _ \<Rightarrow> writer_ops ops w)"
| "writer_ops (OpRemove i # ops) w = writer_ops ops (writer_remove i w)"
| "writer_ops (OpNext # ops) w =
     (case writer_next w of
        None \<Rightarrow> writer_ops ops w
      | Some (r, w') \<Rightarrow> (let (acc, out, w'') = writer_ops ops w' in (acc, r # out, w'')))"

abbreviation handed_out :: "writer_op list \<Rightarrow> signaling_writer \<Rightarrow> write_request list" where
  "handed_out ops w \<equiv> fst (snd (writer_ops ops w))"

lemma remove_first_append:
  "remove_first i (xs @ ys) =
     (if i \<in> wr_id ` set xs then remove_first i xs @ ys else xs @ remove_first i ys)"
  by (induction xs) auto

text \<open>The turns that may pass before the normal request behind \<open>pre\<close> is served.\<close>

definition turns_left :: "write_request list \<Rightarrow> signaling_writer \<Rightarrow> nat" where
  "turns_left pre w = 5 * length pre + 5 - min 4 (wq_streak w)"

lemma normal_turn:
  assumes "wq_normal w = pre @ r # post" and "writer_next w = Some (q, w')"
  shows "(pre = [] \<and> q = r) \<or>
         (\<exists>pre'. wq_normal w' = pre' @ r # post \<and> turns_left pre' w' + 1 \<le> turns_left pre w)"
  using assms(2)
proof (cases rule: writer_next_cases)
  case (priority ps)
  then have "wq_streak w < 4" using assms(1) by (auto simp: PriorityWriteBurstLimit_def)
  then show ?thesis using priority assms(1)
    by (intro disjI2 exI [of _ pre]) (simp add: turns_left_def)
next
  case (normal ns)
  then show ?thesis using assms(1)
    by (cases pre) (auto simp: turns_left_def)
qed

lemma normal_removed:
  assumes "wq_normal w = pre @ r # post" and "wr_id r \<noteq> i"
  shows "\<exists>pre' post'. wq_normal (writer_remove i w) = pre' @ r # post' \<and>
           turns_left pre' (writer_remove i w) \<le> turns_left pre w"
proof -
  consider (priority) "i \<in> wr_id ` set (wq_priority w)"
    | (before) "i \<notin> wr_id ` set (wq_priority w)" "i \<in> wr_id ` set pre"
    | (other) "i \<notin> wr_id ` set (wq_priority w)" "i \<notin> wr_id ` set pre" by blast
  then show ?thesis
  proof cases
    case priority
    then show ?thesis using assms(1)
      by (intro exI [of _ pre] exI [of _ post]) (simp add: writer_remove_def turns_left_def)
  next
    case before
    then have "wq_normal (writer_remove i w) = remove_first i pre @ r # post"
      using assms(1) by (simp add: writer_remove_def remove_first_append)
    moreover have "turns_left (remove_first i pre) (writer_remove i w) \<le> turns_left pre w"
      using before remove_first_length [of i pre] by (simp add: writer_remove_def turns_left_def)
    ultimately show ?thesis by blast
  next
    case other
    then have "wq_normal (writer_remove i w) = pre @ r # remove_first i post"
      using assms by (simp add: writer_remove_def remove_first_append)
    then show ?thesis
      using other by (intro exI [of _ pre] exI [of _ "remove_first i post"]) (simp add: writer_remove_def turns_left_def)
  qed
qed

lemma normal_queued:
  assumes "wq_normal w = pre @ r # post" and "writer_queue q w = Ok (Some w')"
  shows "\<exists>post'. wq_normal w' = pre @ r # post' \<and> turns_left pre w' = turns_left pre w"
  using assms(2) by (elim writer_queue_Some) (use assms(1) in \<open>auto simp: turns_left_def\<close>)

text \<open>C8: no starvation. A normal frame with \<open>n\<close> normal frames before it is handed to the socket after at most
  \<open>5 (n + 1)\<close> turns of the goroutine, however many priority frames keep arriving, unless its sender takes
  it back; consecutive priority frames before it shorten the wait.\<close>

theorem writer_serves_normal:
  assumes "wq_normal w = pre @ r # post" and "OpRemove (wr_id r) \<notin> set ops"
    and "turns_left pre w \<le> length (filter ((=) OpNext) ops)"
  shows "r \<in> set (handed_out ops w)"
  using assms
proof (induction ops arbitrary: w pre post)
  case Nil
  then show ?case by (simp add: turns_left_def)
next
  case (Cons op ops)
  show ?case
  proof (cases op)
    case (OpQueue q)
    show ?thesis
    proof (cases "\<exists>w'. writer_queue q w = Ok (Some w')")
      case True
      then obtain w' where w': "writer_queue q w = Ok (Some w')" by blast
      from normal_queued [OF Cons.prems(1) w'] obtain post' where
        "wq_normal w' = pre @ r # post'" "turns_left pre w' = turns_left pre w" by blast
      with Cons.IH [of w' pre post'] Cons.prems OpQueue have "r \<in> set (handed_out ops w')" by simp
      then show ?thesis using OpQueue w' by (simp add: case_prod_beta)
    next
      case False
      then have "writer_ops (op # ops) w = writer_ops ops w"
        using OpQueue by (auto split: outcome.splits option.splits)
      then show ?thesis using Cons OpQueue by simp
    qed
  next
    case (OpRemove i)
    with Cons.prems(2) have "wr_id r \<noteq> i" by auto
    from normal_removed [OF Cons.prems(1) this] obtain pre' post' where
      "wq_normal (writer_remove i w) = pre' @ r # post'"
      "turns_left pre' (writer_remove i w) \<le> turns_left pre w" by blast
    with Cons.IH [of "writer_remove i w" pre' post'] Cons.prems OpRemove show ?thesis by simp
  next
    case OpNext
    obtain q w' where next': "writer_next w = Some (q, w')"
      using Cons.prems(1) writer_next_None [of w] by (cases "writer_next w") (auto simp: queued_requests_def)
    from normal_turn [OF Cons.prems(1) this] show ?thesis
    proof
      assume "pre = [] \<and> q = r"
      then show ?thesis using OpNext next' by (simp add: case_prod_beta)
    next
      assume "\<exists>pre'. wq_normal w' = pre' @ r # post \<and> turns_left pre' w' + 1 \<le> turns_left pre w"
      then obtain pre' where "wq_normal w' = pre' @ r # post" "turns_left pre' w' + 1 \<le> turns_left pre w" by blast
      with Cons.IH [of w' pre' post] Cons.prems OpNext have "r \<in> set (handed_out ops w')" by simp
      then show ?thesis using OpNext next' by (simp add: case_prod_beta)
    qed
  qed
qed

definition example_burst :: signaling_writer where
  "example_burst = \<lparr>wq_priority = map (\<lambda>i. \<lparr>wr_id = i, wr_message = example_ping\<rparr>) [0, 1, 2, 3, 4, 5],
     wq_normal = [\<lparr>wr_id = 6, wr_message = example_close_message\<rparr>], wq_streak = 0, wq_wake = True\<rparr>"

theorem writer_serves_normal_witness:
  "\<lparr>wr_id = 6, wr_message = example_close_message\<rparr> \<in> set (handed_out (replicate 5 OpNext) example_burst)"
  by (rule writer_serves_normal [of example_burst "[]" _ "[]"])
     (simp_all add: example_burst_def turns_left_def eval_nat_numeral)

definition is_priority :: "write_request \<Rightarrow> bool" where
  "is_priority r = (prioritySignalingMessage (wr_message r) = Ok True)"

lemma queue_ok_classes:
  assumes "queue_ok w"
  shows "filter is_priority (wq_priority w) = wq_priority w" "filter is_priority (wq_normal w) = []"
    "filter (\<lambda>r. \<not> is_priority r) (wq_normal w) = wq_normal w" "filter (\<lambda>r. \<not> is_priority r) (wq_priority w) = []"
  using assms by (auto simp: queue_ok_def is_priority_def filter_id_conv filter_empty_conv)

lemma queue_turn:
  assumes "queue_ok w" and "writer_queue r w = Ok (Some w')"
  shows "queue_ok w'"
    and "wq_priority w' = wq_priority w @ filter is_priority [r]"
    and "wq_normal w' = wq_normal w @ filter (\<lambda>r. \<not> is_priority r) [r]"
  using assms by (auto elim!: writer_queue_Some simp: queue_ok_def is_priority_def queued_requests_def split: if_splits)

lemma next_turn:
  assumes "queue_ok w" and "writer_next w = Some (r, w')"
  shows "queue_ok w'"
    and "wq_priority w = filter is_priority [r] @ wq_priority w'"
    and "wq_normal w = filter (\<lambda>r. \<not> is_priority r) [r] @ wq_normal w'"
  using assms by (auto elim!: writer_next_cases simp: queue_ok_def is_priority_def queued_requests_def)

text \<open>Within its class a frame never overtakes another. Over any run of arrivals and turns without
  withdrawals, the priority frames handed out followed by those still queued are the priority frames
  queued at the start followed by those accepted, in this order, and so for the normal frames.\<close>

theorem writer_fifo:
  assumes "queue_ok w" and "list_all (\<lambda>op. \<forall>i. op \<noteq> OpRemove i) ops" and "writer_ops ops w = (acc, out, w')"
  shows "filter is_priority out @ wq_priority w' = wq_priority w @ filter is_priority acc \<and>
         filter (\<lambda>r. \<not> is_priority r) out @ wq_normal w' = wq_normal w @ filter (\<lambda>r. \<not> is_priority r) acc"
  using assms
proof (induction ops arbitrary: w acc out)
  case Nil
  then show ?case by simp
next
  case (Cons op ops)
  consider (queued) r w1 where "op = OpQueue r" "writer_queue r w = Ok (Some w1)"
    | (taken) r w1 where "op = OpNext" "writer_next w = Some (r, w1)"
    | (idle) "writer_ops (op # ops) w = writer_ops ops w"
  proof (cases op)
    case (OpQueue r)
    then show ?thesis using that(1,3)
      by (cases "\<exists>w1. writer_queue r w = Ok (Some w1)") (auto split: outcome.splits option.splits)
  next
    case OpNext
    then show ?thesis using that(2,3) by (cases "writer_next w") auto
  next
    case (OpRemove i)
    then show ?thesis using Cons.prems by simp
  qed
  then show ?case
  proof cases
    case queued
    obtain acc1 out1 w2 where run: "writer_ops ops w1 = (acc1, out1, w2)" by (cases "writer_ops ops w1")
    with queued Cons.prems have eqs: "acc = r # acc1" "out = out1" "w' = w2" by auto
    note turn = queue_turn [OF Cons.prems(1) queued(2)]
    have "list_all (\<lambda>op. \<forall>i. op \<noteq> OpRemove i) ops" using Cons.prems by simp
    from Cons.IH [OF turn(1) this, of acc1 out1] run eqs turn(2,3) show ?thesis by simp
  next
    case taken
    obtain acc1 out1 w2 where run: "writer_ops ops w1 = (acc1, out1, w2)" by (cases "writer_ops ops w1")
    with taken Cons.prems have eqs: "acc = acc1" "out = r # out1" "w' = w2" by auto
    note turn = next_turn [OF Cons.prems(1) taken(2)]
    have "list_all (\<lambda>op. \<forall>i. op \<noteq> OpRemove i) ops" using Cons.prems by simp
    from Cons.IH [OF turn(1) this, of acc1 out1] run eqs turn(2,3) show ?thesis by simp
  next
    case idle
    then show ?thesis using Cons by simp
  qed
qed

definition example_normal :: signaling_message where
  "example_normal = \<lparr>msg_method = MethodLiveView, msg_dialog = ''d'', msg_riid = [], msg_body = RawNil\<rparr>"

theorem writer_fifo_witness:
  "\<exists>acc out w'. writer_ops [OpQueue \<lparr>wr_id = 0, wr_message = example_normal\<rparr>,
        OpQueue \<lparr>wr_id = 1, wr_message = example_ping\<rparr>, OpNext] NewSignalingWriter = (acc, out, w') \<and>
     filter is_priority out @ wq_priority w' = filter is_priority acc"
proof -
  let ?ops = "[OpQueue \<lparr>wr_id = 0, wr_message = example_normal\<rparr>,
        OpQueue \<lparr>wr_id = 1, wr_message = example_ping\<rparr>, OpNext]"
  obtain acc out w' where run: "writer_ops ?ops NewSignalingWriter = (acc, out, w')"
    by (cases "writer_ops ?ops NewSignalingWriter")
  have "queue_ok NewSignalingWriter"
    by (simp add: queue_ok_def queued_requests_def NewSignalingWriter_def)
  from writer_fifo [OF this _ run] run show ?thesis by (auto simp: NewSignalingWriter_def)
qed

section \<open>Closing\<close>

text \<open>What the goroutine does next once \<open>done\<close> is closed; \<open>err\<close> is what a pending \<open>write\<close> returns.\<close>

definition Run_finish :: "goerr option \<Rightarrow> writer_world \<Rightarrow> writer_world" where
  "Run_finish err s =
     (case ww_run s of
        RunTop \<Rightarrow> Run_top s
      | RunIdle \<Rightarrow> Run_idle_done s
      | RunHolding r \<Rightarrow> Run_holding r s
      | RunWriting r \<Rightarrow> Run_top (Run_written r err s)
      | RunFinished \<Rightarrow> s)"

lemma Run_finish_steps: "ww_done s \<Longrightarrow> writer_step\<^sup>*\<^sup>* s (Run_finish err s)"
proof (cases "ww_run s")
  case (RunWriting r)
  have "writer_step s (Run_written r err s)" using RunWriting by (rule step_written)
  moreover have "writer_step (Run_written r err s) (Run_top (Run_written r err s))"
    by (rule step_top) (simp add: Run_written_def)
  ultimately show ?thesis using RunWriting by (simp add: Run_finish_def)
qed (auto simp: Run_finish_def intro: writer_step.intros)

lemma drain_all:
  "queued_requests (ww_writer (writer_drain s)) = []"
  "fst ` set (ww_results (writer_drain s)) = wr_id ` set (queued_requests (ww_writer s)) \<union> fst ` set (ww_results s)"
proof -
  show "queued_requests (ww_writer (writer_drain s)) = []"
    by (simp add: writer_drain_def Let_def queued_requests_def)
  show "fst ` set (ww_results (writer_drain s)) = wr_id ` set (queued_requests (ww_writer s)) \<union> fst ` set (ww_results s)"
    using arg_cong [OF drain_results [of s], of set] by auto
qed

text \<open>C17: closing the connection stops the writer in at most two of its steps, once a pending write has
  returned, with an empty queue and an answer for every request that was queued or in hand.\<close>

theorem writer_closes:
  assumes "ww_done s" and "ww_run s \<noteq> RunFinished"
  shows "writer_step\<^sup>*\<^sup>* s (Run_finish err s) \<and> ww_run (Run_finish err s) = RunFinished \<and>
         queued_requests (ww_writer (Run_finish err s)) = [] \<and>
         fst ` set (ww_results (Run_finish err s)) = set (placed_ids s)"
  using assms Run_finish_steps [OF assms(1), of err]
  by (cases "ww_run s")
     (auto simp: Run_finish_def Run_top_def Run_idle_done_def Run_holding_def Run_written_def drain_all
        placed_ids_def)

theorem writer_closes_witness:
  "queued_requests (ww_writer (Run_finish None (example_writer\<lparr>ww_done := True\<rparr>))) = [] \<and>
   fst ` set (ww_results (Run_finish None (example_writer\<lparr>ww_done := True\<rparr>))) = {0}"
  using writer_closes [of "example_writer\<lparr>ww_done := True\<rparr>" None]
  by (simp add: example_writer_def writer_start_def placed_ids_def queued_requests_def NewSignalingWriter_def)

section \<open>Which RPC frames are urgent\<close>

text \<open>An RPC frame enters the priority class only as an explicit stop: its body is an object whose command names
  a continuous pan or tilt and whose parameters have a \<open>speed\<close> member that is zero or null.\<close>

theorem priority_rpc_is_stop:
  assumes "prioritySignalingMessage m = Ok True" and "msg_method m = MethodRPC"
  shows "\<exists>body command method params speed.
           msg_body m = RawJson (JObj body) \<and>
           map_of (gm_build body) FieldCommand = Some (JObj command) \<and>
           map_of (gm_build command) FieldMethod = Some (JStr method) \<and>
           method \<in> {RPCPanContinuous, RPCTiltContinuous} \<and>
           map_of (gm_build command) FieldParams = Some (JObj params) \<and>
           map_of (gm_build params) FieldSpeed = Some speed \<and>
           (speed = JNull \<or> (\<exists>n. speed = JNum n \<and> num_float n = Some 0))"
proof -
  obtain name where name: "name = RPCPanContinuous \<or> name = RPCTiltContinuous"
      and stop: "hasExplicitPTZStop (msg_body m) name"
    using assms by (auto simp: prioritySignalingMessage_def split: decoded.splits option.splits if_splits)
  have object: "json_object raw = Decoded v \<Longrightarrow>
      (v = None \<and> raw = RawJson JNull) \<or> (\<exists>kvs. v = Some (gm_build kvs) \<and> raw = RawJson (JObj kvs))" for raw v
    by (auto simp: json_object_def split: raw_message.splits json.splits)
  have member: "member_object vs k = Decoded fs \<Longrightarrow>
      (fs = [] \<or> (\<exists>kvs. fs = gm_build kvs \<and> map_of vs k = Some (JObj kvs)))" for vs k fs
    using object by (fastforce simp: member_object_def raw_member_def split: decoded.splits option.splits)
  from stop obtain env command params where
      env: "json_object (msg_body m) = Decoded env"
    and command: "member_object (case env of None \<Rightarrow> [] | Some e \<Rightarrow> e) FieldCommand = Decoded command"
    and meth: "json_string (raw_member command FieldMethod) = Decoded name"
    and params: "member_object command FieldParams = Decoded params"
    and speed: "json_decode TFloat (raw_member params FieldSpeed) = Decoded (VFloat 0)"
    by (auto simp: hasExplicitPTZStop_def split: decoded.splits)
  from speed obtain j where j: "map_of params FieldSpeed = Some j"
      "j = JNull \<or> (\<exists>n. j = JNum n \<and> num_float n = Some 0)"
    by (auto simp: raw_member_def json_decode_def json_unmarshal_def split: option.splits json.splits if_splits)
  from meth name have m': "map_of command FieldMethod = Some (JStr name)"
    by (auto simp: raw_member_def json_string_def split: option.splits json.splits)
  from member [OF params] j(1) obtain ps where ps: "params = gm_build ps" "map_of command FieldParams = Some (JObj ps)"
    by auto
  from member [OF command] m' obtain cs where cs: "command = gm_build cs"
      "map_of (case env of None \<Rightarrow> [] | Some e \<Rightarrow> e) FieldCommand = Some (JObj cs)" by auto
  from object [OF env] cs(2) obtain bs where "env = Some (gm_build bs)" "msg_body m = RawJson (JObj bs)" by auto
  with cs ps m' j name show ?thesis by auto
qed

definition example_stop :: signaling_message where
  "example_stop = \<lparr>msg_method = MethodRPC, msg_dialog = ''d'', msg_riid = [],
     msg_body = RawJson (JObj [(''command'', JObj
       [(''method'', JStr RPCPanContinuous), (''params'', JObj [(''speed'', JNull)])])])\<rparr>"

lemma example_stop_priority: "prioritySignalingMessage example_stop = Ok True"
  by code_simp

theorem priority_rpc_is_stop_witness:
  "\<exists>body. msg_body example_stop = RawJson (JObj body) \<and> map_of (gm_build body) FieldCommand \<noteq> None"
  using priority_rpc_is_stop [OF example_stop_priority] by (force simp: example_stop_def)

end
