(* ===== verification/Session.thy ===== *)
theory Session
  imports Wire "HOL-Library.Word"
begin

text \<open>
  An activated session, \<open>internal/signaling/session.go\<close> with the limits of \<open>policy.go\<close>. The record \<open>session\<close>
  holds what the struct holds under its mutex; the mailboxes are the reply channels of pending calls (one
  reply each), \<open>ss_events\<close> the buffered event channel. Times and durations are in nanoseconds. Functions that the
  code runs under one lock are one function here; \<open>session_step\<close> interleaves the reader (\<open>Handle\<close>), callers of
  \<open>Call\<close>, \<open>Send\<close> and \<open>Receive\<close>, the heartbeat and expiry goroutines and whoever closes the session. The
  transport is the parameter \<open>send\<close> of the code: a function that transmits returns the message it hands over.
\<close>

section \<open>Policy\<close>

definition second_ns :: int where "second_ns = 1000000000"
definition MaxSessionAge :: int where "MaxSessionAge = 3600 * second_ns"
definition MaxHeartbeatInterval :: int where "MaxHeartbeatInterval = 60 * second_ns"
definition DefaultHeartbeatInterval :: int where "DefaultHeartbeatInterval = 5 * second_ns"
definition MissedHeartbeatIntervals :: int where "MissedHeartbeatIntervals = 3"
definition EventQueueCapacity :: nat where "EventQueueCapacity = 32"
definition NegotiationQueueCapacity :: nat where "NegotiationQueueCapacity = 128"

section \<open>Messages as JSON\<close>

text \<open>\<open>Message.MarshalJSON\<close>: an absent body is printed as null.\<close>

definition Message_MarshalJSON :: "signaling_message \<Rightarrow> json outcome" where
  "Message_MarshalJSON message =
     (if msg_method message \<notin> set AnonymousSchema_1_Values
      then Err (NewBadRequestError ''unknown signaling method'' None)
      else
      obind (if msg_body message = RawNil then Ok (VMap None)
             else on_decode (json_decode TMap (msg_body message))
                    (\<lambda>e. NewBadRequestError ''invalid signaling message body'' (Some e)))
        (\<lambda>body. Ok (marshal SignalingInboundDiscriminator (struct_lit SignalingInboundDiscriminator
          [(''method'', VPtr (Some (VEnum (enum_index AnonymousSchema_1_Values (msg_method message))))),
           (''dialog_id'', VString (msg_dialog message)), (''riid'', VString (msg_riid message)),
           (''body'', body)]))))"

definition Message_UnmarshalJSON :: "raw_message \<Rightarrow> signaling_message outcome" where
  "Message_UnmarshalJSON encoded =
     obind (on_decode (json_decode SignalingInboundDiscriminator encoded)
              (\<lambda>e. NewConnectionError ''invalid signaling envelope'' (Some e))) (\<lambda>envelope.
     if as_pointer (field_of SignalingInboundDiscriminator ''method'' envelope) = None
     then Err (NewConnectionError ''signaling envelope has no method'' None)
     else
     obind (on_decode (json_object encoded)
              (\<lambda>e. NewConnectionError ''invalid signaling envelope fields'' (Some e))) (\<lambda>decoded.
     let members = (case decoded of None \<Rightarrow> [] | Some m \<Rightarrow> m) in
     obind (on_decode (json_string (raw_member members FieldMethod))
              (\<lambda>e. NewConnectionError ''invalid signaling method'' (Some e))) (\<lambda>method.
     case map_of members FieldBody of
       None \<Rightarrow> Err (NewConnectionError ''signaling envelope has no body'' None)
     | Some body \<Rightarrow>
         Ok \<lparr>msg_method = method,
             msg_dialog = as_string (field_of SignalingInboundDiscriminator ''dialog_id'' envelope),
             msg_riid = as_string (field_of SignalingInboundDiscriminator ''riid'' envelope),
             msg_body = RawJson body\<rparr>)))"

section \<open>The session\<close>

record rpc_reply =
  reply_result :: raw_message
  reply_err :: "goerr option"

record session =
  ss_deviceID :: int
  ss_dialogID :: string
  ss_signalID :: string
  ss_controlID :: string
  ss_heartbeat :: int
  ss_lastPong :: int
  ss_expiresAt :: int
  ss_terminal :: "goerr option"
  ss_closed :: bool
  ss_sequence :: "64 word"
  ss_pending :: "(string \<times> nat) list"
  ss_mailbox :: "(nat \<times> rpc_reply) list"
  ss_channels :: nat
    \<comment> \<open>reply channels made so far\<close>
  ss_events :: "signaling_message list"

record session_config =
  cfg_DeviceID :: int
  cfg_DialogID :: string
  cfg_SignalID :: string
  cfg_ControlID :: string
  cfg_Heartbeat :: int
  cfg_MaxAge :: int
  cfg_has_Send :: bool

definition NewSession :: "goerr option \<Rightarrow> int \<Rightarrow> session_config \<Rightarrow> session outcome" where
  "NewSession ctxErr now config =
     (if cfg_DeviceID config \<le> 0 \<or> cfg_DialogID config = [] \<or> cfg_SignalID config = [] \<or>
         cfg_ControlID config = [] \<or> cfg_SignalID config = cfg_ControlID config \<or> \<not> cfg_has_Send config
      then Err (NewBadRequestError ''invalid session configuration'' None)
      else if cfg_Heartbeat config \<le> 0 \<or> cfg_Heartbeat config > MaxHeartbeatInterval
      then Err (NewBadRequestError ''invalid heartbeat interval'' None)
      else
      let maxAge = (if cfg_MaxAge config = 0 then MaxSessionAge else cfg_MaxAge config) in
      if maxAge \<le> 0 \<or> maxAge > MaxSessionAge
      then Err (NewBadRequestError ''invalid maximum session age'' None)
      else case wrapSessionContextError ''create signaling session'' ctxErr of
        Some e \<Rightarrow> Err e
      | None \<Rightarrow>
          Ok \<lparr>ss_deviceID = cfg_DeviceID config, ss_dialogID = cfg_DialogID config,
              ss_signalID = cfg_SignalID config, ss_controlID = cfg_ControlID config,
              ss_heartbeat = cfg_Heartbeat config, ss_lastPong = now, ss_expiresAt = now + maxAge,
              ss_terminal = None, ss_closed = False, ss_sequence = 0, ss_pending = [], ss_mailbox = [],
              ss_channels = 0, ss_events = []\<rparr>)"

text \<open>
  \<open>finish\<close>: the first cause is kept, every pending call gets it (without blocking), and no call is pending
  any more. Closing \<open>done\<close> and cancelling the context follow at once.
\<close>

definition mail :: "nat \<Rightarrow> rpc_reply \<Rightarrow> (nat \<times> rpc_reply) list \<Rightarrow> (nat \<times> rpc_reply) list" where
  "mail ch reply box = (if ch \<in> fst ` set box then box else box @ [(ch, reply)])"

definition session_finish :: "goerr \<Rightarrow> session \<Rightarrow> session" where
  "session_finish err s =
     (if ss_closed s then s
      else s\<lparr>ss_closed := True, ss_terminal := Some err,
             ss_mailbox := fold (\<lambda>p. mail (snd p) \<lparr>reply_result = RawNil, reply_err = Some err\<rparr>)
                             (ss_pending s) (ss_mailbox s),
             ss_pending := []\<rparr>)"

definition session_Close :: "session \<Rightarrow> session" where
  "session_Close s = session_finish ErrClosed s"

definition session_Fail :: "goerr option \<Rightarrow> session \<Rightarrow> session" where
  "session_Fail err s = session_finish (case err of None \<Rightarrow> ErrClosed | Some e \<Rightarrow> e) s"

definition session_Pending :: "session \<Rightarrow> nat" where
  "session_Pending s = length (ss_pending s)"

text \<open>\<open>Send\<close> up to the transport: a result, or the message handed to the transport.\<close>

datatype send_result = SendReturns "goerr option" | SendTransmits signaling_message

definition session_Send ::
  "goerr option \<Rightarrow> int \<Rightarrow> string \<Rightarrow> raw_message \<Rightarrow> session \<Rightarrow> send_result \<times> session"
where
  "session_Send ctxErr now method body s =
     (case wrapSessionContextError ''send signaling message'' ctxErr of
        Some e \<Rightarrow> (SendReturns (Some e), s)
      | None \<Rightarrow>
          if ss_closed s then (SendReturns (ss_terminal s), s)
          else if now \<ge> ss_expiresAt s then (SendReturns (Some ErrExpired), session_finish ErrExpired s)
          else
            (SendTransmits \<lparr>msg_method = method, msg_dialog = ss_dialogID s, msg_riid = [],
               msg_body = (if body = RawNil
                 then RawJson (marshal SessionBody (struct_lit SessionBody
                   [(''doorbot_id'', VInt (ss_deviceID s)), (''session_id'', VString (ss_signalID s))]))
                 else body)\<rparr>, s))"

section \<open>Calls\<close>

text \<open>A Go float64 argument: a finite number, or an infinity or NaN, which \<open>encoding/json\<close> refuses.\<close>

datatype gofloat = Finite rat | NotFinite

definition enum_lookup :: "string list \<Rightarrow> string \<Rightarrow> nat option" where
  "enum_lookup names s = list_index (\<lambda>n. n = s) names"

definition validatePTZCommand ::
  "string \<Rightarrow> nat \<Rightarrow> gofloat option \<Rightarrow> (nat \<times> nat \<times> bool) outcome"
where
  "validatePTZCommand method direction speed =
     (case enum_lookup PtzCommandMethod_Values method of
        None \<Rightarrow> Err (NewBadRequestError ''invalid PTZ command method or direction'' None)
      | Some commandMethod \<Rightarrow>
          if enum_value PtzDirection_Values (VEnum direction) = None
          then Err (NewBadRequestError ''invalid PTZ command method or direction'' None)
          else
          let is_cont = (PtzCommandMethod_Values ! commandMethod \<in> {RPCPanContinuous, RPCTiltContinuous}) in
          if is_cont \<noteq> (speed \<noteq> None)
          then Err (NewBadRequestError ''PTZ speed must be supplied only for continuous commands'' None)
          else case enum_lookup AnonymousSchema_199_Values method of
            None \<Rightarrow>
              if is_cont then Err (NewBadRequestError ''invalid continuous PTZ command method'' None)
              else Ok (commandMethod, 0, is_cont)
          | Some continuousMethod \<Rightarrow> Ok (commandMethod, continuousMethod, is_cont))"

definition marshalPTZPayload ::
  "nat \<Rightarrow> nat \<Rightarrow> bool \<Rightarrow> nat \<Rightarrow> gofloat option \<Rightarrow> int \<Rightarrow> string \<Rightarrow> string \<Rightarrow> string \<Rightarrow> int \<Rightarrow> raw_message outcome"
where
  "marshalPTZPayload commandMethod continuousMethod is_cont direction speed deviceID signalID controlID callid timestamp =
     (if is_cont then
        (case speed of
           None \<Rightarrow> Panic
         | Some NotFinite \<Rightarrow> Err (NewInternalServerError ''invalid PTZ payload'' (Some JSONError))
         | Some (Finite q) \<Rightarrow>
             let params = struct_lit PtzContinuousParams
                   [(''sessionId'', VString controlID), (''timestamp'', VInt timestamp), (''version'', VInt 1),
                    (''direction'', VPtr (Some (VEnum direction))), (''speed'', VFloat q)];
                 command = struct_lit PtzContinuousWireCommand
                   [(''jsonrpc'', VString JSONRPCVersion), (''id'', VString callid),
                    (''method'', VPtr (Some (VEnum continuousMethod))), (''params'', VPtr (Some params))]
             in Ok (RawJson (marshal PtzContinuousCommandBody (struct_lit PtzContinuousCommandBody
                  [(''doorbot_id'', VInt deviceID), (''session_id'', VString signalID),
                   (''command'', VPtr (Some command))]))))
      else
        let params = struct_lit PtzWireParams
              [(''sessionId'', VString controlID), (''timestamp'', VInt timestamp), (''version'', VInt 1),
               (''direction'', VPtr (Some (VEnum direction)))];
            command = struct_lit PtzWireCommand
              [(''jsonrpc'', VString JSONRPCVersion), (''id'', VString callid),
               (''method'', VPtr (Some (VEnum commandMethod))), (''params'', VPtr (Some params))]
        in Ok (RawJson (marshal PtzCommandBody (struct_lit PtzCommandBody
             [(''doorbot_id'', VInt deviceID), (''session_id'', VString signalID),
              (''command'', VPtr (Some command))]))))"

text \<open>
  \<open>Call\<close>: the correlation is registered before the frame is sent and removed when the call returns, however it
  returns. \<open>Call_begin\<close> goes up to \<open>Send\<close>; its result names the correlation, the reply channel and the body to send.
\<close>

datatype call_start = CallReturns "goerr option" | CallStarted string nat raw_message

definition call_id :: "session \<Rightarrow> 64 word \<Rightarrow> string" where
  "call_id s n = ss_controlID s @ ''-'' @ dec_nat (unat n)"

definition Call_end :: "string \<Rightarrow> session \<Rightarrow> session" where
  "Call_end callid s = s\<lparr>ss_pending := gm_del callid (ss_pending s)\<rparr>"

definition Call_begin ::
  "goerr option \<Rightarrow> int \<Rightarrow> string \<Rightarrow> nat \<Rightarrow> gofloat option \<Rightarrow> session \<Rightarrow> (call_start \<times> session) outcome"
where
  "Call_begin ctxErr nowMilli method direction speed s =
     (case wrapSessionContextError ''start signaling RPC'' ctxErr of
        Some e \<Rightarrow> Ok (CallReturns (Some e), s)
      | None \<Rightarrow>
          (case validatePTZCommand method direction speed of
             Panic \<Rightarrow> Panic
           | Err e \<Rightarrow> Ok (CallReturns (Some e), s)
           | Ok (commandMethod, continuousMethod, is_cont) \<Rightarrow>
               if ss_closed s then Ok (CallReturns (ss_terminal s), s)
               else
               let n = ss_sequence s + 1; callid = call_id s n; ch = ss_channels s;
                   s' = s\<lparr>ss_sequence := n, ss_channels := ch + 1, ss_pending := gm_put callid ch (ss_pending s)\<rparr>
               in (case marshalPTZPayload commandMethod continuousMethod is_cont direction speed
                          (ss_deviceID s) (ss_signalID s) (ss_controlID s) callid nowMilli of
                     Panic \<Rightarrow> Panic
                   | Err e \<Rightarrow> Ok (CallReturns (Some e), Call_end callid s')
                   | Ok body \<Rightarrow> Ok (CallStarted callid ch body, s'))))"

section \<open>Inbound messages\<close>

text \<open>
  \<open>handleRPC\<close>: a command without a \<open>jsonrpc\<close> member is taken as a wrapper, whose \<open>message\<close> is decoded over the
  first reading. The result says whether the frame was a reply; None stands for a goroutine that blocks
  for ever on a full reply channel, with the session's lock held.
\<close>

definition unwrap_command :: "raw_message \<Rightarrow> goval \<Rightarrow> (raw_message \<times> goval) outcome" where
  "unwrap_command body command =
     (case json_decode RpcCommandWrapper body of
        DecodePanic \<Rightarrow> Panic
      | DecodeError \<Rightarrow> Err (NewConnectionError ''invalid RPC wrapper'' (Some JSONError))
      | Decoded wrapper \<Rightarrow>
          (case as_map (field_of RpcCommandWrapper ''message'' wrapper) of
             None \<Rightarrow> Err (NewConnectionError ''invalid RPC wrapper'' None)
           | Some message \<Rightarrow>
               obind (on_decode (json_unmarshal ServerRpcCommand command (RawJson (JObj message)))
                        (\<lambda>e. NewConnectionError ''invalid wrapped RPC envelope'' (Some e)))
                 (\<lambda>command'. Ok (RawJson (JObj message), command'))))"

definition raw_members :: "raw_message \<Rightarrow> string \<Rightarrow> (string \<times> json) list outcome" where
  "raw_members body text =
     obind (on_decode (json_object body) (\<lambda>e. NewConnectionError text (Some e)))
       (\<lambda>decoded. Ok (case decoded of None \<Rightarrow> [] | Some m \<Rightarrow> m))"

definition deliver_reply :: "string \<Rightarrow> rpc_reply \<Rightarrow> session \<Rightarrow> session option" where
  "deliver_reply callid reply s =
     (case map_of (ss_pending s) callid of
        None \<Rightarrow> Some s
      | Some ch \<Rightarrow>
          if ch \<in> fst ` set (ss_mailbox s) then None
          else Some (s\<lparr>ss_mailbox := ss_mailbox s @ [(ch, reply)], ss_pending := gm_del callid (ss_pending s)\<rparr>))"

definition handle_reply :: "raw_message \<Rightarrow> string \<Rightarrow> goval option \<Rightarrow> session \<Rightarrow> (bool \<times> session) option outcome" where
  "handle_reply body callid failure s =
     (case failure of
        Some f \<Rightarrow>
          Ok (map_option (Pair True) (deliver_reply callid
            \<lparr>reply_result = RawNil,
             reply_err = Some (RPCError (as_int (field_of RpcErrorValue ''code'' f))
                                        (as_string (field_of RpcErrorValue ''message'' f)))\<rparr> s))
      | None \<Rightarrow>
          obind (raw_members body ''invalid RPC result'') (\<lambda>resultFields.
          obind (on_decode (json_decode RpcResultValue (raw_member resultFields FieldResult))
                   (\<lambda>e. NewConnectionError ''invalid RPC result identity'' (Some e))) (\<lambda>value.
          let sessionId = as_string (field_of RpcResultValue ''sessionId'' value) in
          if sessionId = [] then Err (NewConnectionError ''invalid RPC result identity'' None)
          else if sessionId \<noteq> ss_controlID s then Ok (Some (True, s))
          else Ok (map_option (Pair True) (deliver_reply callid
                 \<lparr>reply_result = raw_member resultFields FieldResult, reply_err = None\<rparr> s)))))"

definition handleRPC :: "raw_message \<Rightarrow> session \<Rightarrow> (bool \<times> session) option outcome" where
  "handleRPC body s =
     obind (on_decode (json_decode ServerRpcCommand body)
              (\<lambda>e. NewConnectionError ''invalid RPC envelope (command cannot be decoded)'' (Some e))) (\<lambda>first.
     obind (if as_string (field_of ServerRpcCommand ''jsonrpc'' first) = []
            then unwrap_command body first else Ok (body, first)) (\<lambda>(body, command).
     if as_string (field_of ServerRpcCommand ''jsonrpc'' command) \<noteq> JSONRPCVersion
     then Err (NewConnectionError ''invalid RPC envelope (unsupported or missing jsonrpc version)'' None)
     else if as_string (field_of ServerRpcCommand ''method'' command) \<noteq> [] then Ok (Some (False, s))
     else
     let result = as_pointer (field_of ServerRpcCommand ''result'' command);
         failure = as_pointer (field_of ServerRpcCommand ''error'' command);
         callid = as_string (field_of ServerRpcCommand ''id'' command) in
     if (result = None) = (failure = None)
     then Err (NewConnectionError ''RPC reply must have exactly one result or error'' None)
     else
     handle_reply body callid failure s))"

definition handleRPCFrame :: "raw_message \<Rightarrow> session \<Rightarrow> (bool \<times> session) option outcome" where
  "handleRPCFrame body s =
     obind (on_decode (json_decode ServerRpcBody body)
              (\<lambda>e. NewConnectionError ''invalid RPC body'' (Some e))) (\<lambda>rpcBody.
     obind (raw_members body ''invalid RPC body'') (\<lambda>rpcFields.
     if as_pointer (field_of ServerRpcBody ''command'' rpcBody) = None \<or> raw_member rpcFields FieldCommand = RawNil
     then Err (NewConnectionError ''invalid RPC body'' None)
     else handleRPC (raw_member rpcFields FieldCommand) s))"

text \<open>The event channel: a send that does not block and a receive that does not wait.\<close>

definition events_offer :: "signaling_message \<Rightarrow> session \<Rightarrow> session option" where
  "events_offer message s =
     (if length (ss_events s) < EventQueueCapacity then Some (s\<lparr>ss_events := ss_events s @ [message]\<rparr>) else None)"

definition events_poll :: "session \<Rightarrow> (signaling_message \<times> session) option" where
  "events_poll s = (case ss_events s of [] \<Rightarrow> None | m # ms \<Rightarrow> Some (m, s\<lparr>ss_events := ms\<rparr>))"

text \<open>\<open>Handle\<close>: an error leaves the session as it was; the caller decides what to do with it.\<close>

definition session_matches :: "session \<Rightarrow> signaling_message \<Rightarrow> goval \<Rightarrow> bool" where
  "session_matches s message identity \<longleftrightarrow>
     as_int (field_of SessionBody ''doorbot_id'' identity) = ss_deviceID s \<and>
     as_string (field_of SessionBody ''session_id'' identity) = ss_signalID s"

definition queue_unhandled :: "signaling_message \<Rightarrow> (bool \<times> session) option \<Rightarrow> session option outcome" where
  "queue_unhandled message handled =
     (case handled of
        None \<Rightarrow> Ok None
      | Some (True, s') \<Rightarrow> Ok (Some s')
      | Some (False, s') \<Rightarrow>
          (case events_offer message s' of Some s'' \<Rightarrow> Ok (Some s'') | None \<Rightarrow> Err ErrBackpressure))"

definition session_Handle :: "int \<Rightarrow> signaling_message \<Rightarrow> session \<Rightarrow> session option outcome" where
  "session_Handle now message s =
     (if msg_dialog message \<noteq> ss_dialogID s then Ok (Some s)
      else
      obind (on_decode (json_decode SessionBody (msg_body message))
               (\<lambda>e. NewConnectionError ''invalid session body'' (Some e))) (\<lambda>identity.
      if \<not> session_matches s message identity then Ok (Some s)
      else if ss_closed s then (case ss_terminal s of None \<Rightarrow> Ok (Some s) | Some e \<Rightarrow> Err e)
      else if msg_method message = MethodPong then Ok (Some (s\<lparr>ss_lastPong := now\<rparr>))
      else
      obind (if msg_method message = MethodRPC then handleRPCFrame (msg_body message) s else Ok (Some (False, s)))
        (queue_unhandled message)))"

text \<open>\<open>Receive\<close>: the ready branches of its select; Go takes any of them.\<close>

datatype receive_result = Received signaling_message | ReceiveFailed "goerr option"

definition session_Receive :: "goerr option \<Rightarrow> session \<Rightarrow> (receive_result \<times> session) list" where
  "session_Receive ctxErr s =
     (case events_poll s of Some (m, s') \<Rightarrow> [(Received m, s')] | None \<Rightarrow> [])
     @ (if ss_closed s then [(ReceiveFailed (ss_terminal s), s)] else [])
     @ (case ctxErr of Some e \<Rightarrow> [(ReceiveFailed (wrapSessionContextError ''receive signaling event'' (Some e)), s)]
        | None \<Rightarrow> [])"

text \<open>A call takes its reply.\<close>

definition take_reply :: "nat \<Rightarrow> session \<Rightarrow> (rpc_reply \<times> session) option" where
  "take_reply ch s =
     (case map_of (ss_mailbox s) ch of
        None \<Rightarrow> None
      | Some r \<Rightarrow> Some (r, s\<lparr>ss_mailbox := filter (\<lambda>p. fst p \<noteq> ch) (ss_mailbox s)\<rparr>))"

text \<open>
  The two ways out of a call that was registered. \<open>Call_send_error\<close> is the error of a call whose frame was not
  sent: \<open>cause\<close> is the cause with which the call's context was cancelled, if it was. \<open>Call_wait\<close> lists the ready
  branches of the final select: the reply, the cancelled context, the ended session.
\<close>

definition Call_send_error :: "goerr option \<Rightarrow> goerr option \<Rightarrow> session \<Rightarrow> goerr option" where
  "Call_send_error cause e s =
     (case cause of
        Some c \<Rightarrow> wrapSessionContextError ''send signaling RPC'' cause
      | None \<Rightarrow> if ss_closed s then ss_terminal s else e)"

definition Call_wait :: "goerr option \<Rightarrow> nat \<Rightarrow> session \<Rightarrow> (rpc_reply \<times> session) list" where
  "Call_wait cause ch s =
     (case take_reply ch s of Some r \<Rightarrow> [r] | None \<Rightarrow> [])
     @ (case cause of
          Some c \<Rightarrow> [(\<lparr>reply_result = RawNil,
                     reply_err = wrapSessionContextError ''wait for signaling RPC reply'' cause\<rparr>, s)]
        | None \<Rightarrow> [])
     @ (if ss_closed s then [(\<lparr>reply_result = RawNil, reply_err = ss_terminal s\<rparr>, s)] else [])"

section \<open>The goroutines\<close>

text \<open>One turn of the heartbeat loop at its tick; \<open>sendErr\<close> is what the transport returns for the ping.\<close>

definition heartbeat_tick ::
  "int \<Rightarrow> goerr option \<Rightarrow> goerr option \<Rightarrow> session \<Rightarrow> signaling_message list \<times> session"
where
  "heartbeat_tick now ctxErr sendErr s =
     (if now - ss_lastPong s \<ge> MissedHeartbeatIntervals * ss_heartbeat s
      then ([], session_finish ErrHeartbeat s)
      else case session_Send ctxErr now MethodPing RawNil s of
        (SendReturns (Some e), s') \<Rightarrow> ([], session_finish e s')
      | (SendReturns None, s') \<Rightarrow> ([], s')
      | (SendTransmits m, s') \<Rightarrow>
          ([m], case sendErr of None \<Rightarrow> s' | Some e \<Rightarrow> session_finish e s'))"

text \<open>The other goroutine: the context ends, or the maximum age is reached.\<close>

definition session_expire :: "session \<Rightarrow> session" where
  "session_expire s = session_finish ErrExpired s"

definition session_cancelled :: "goerr \<Rightarrow> session \<Rightarrow> session" where
  "session_cancelled ctxErr s = session_finish ctxErr s"

inductive session_step :: "session \<Rightarrow> session \<Rightarrow> bool" where
  sess_call: "Call_begin ctxErr nowMilli method direction speed s = Ok (r, s') \<Longrightarrow> session_step s s'"
| sess_call_end: "session_step s (Call_end callid s)"
| sess_send: "session_step s (snd (session_Send ctxErr now method body s))"
| sess_handle: "session_Handle now message s = Ok (Some s') \<Longrightarrow> session_step s s'"
| sess_receive: "(r, s') \<in> set (session_Receive ctxErr s) \<Longrightarrow> session_step s s'"
| sess_take: "take_reply ch s = Some (r, s') \<Longrightarrow> session_step s s'"
| sess_tick: "session_step s (snd (heartbeat_tick now ctxErr sendErr s))"
| sess_expire: "session_step s (session_expire s)"
| sess_cancelled: "session_step s (session_cancelled e s)"
| sess_close: "session_step s (session_Close s)"
| sess_fail: "session_step s (session_Fail err s)"

inductive session_reachable :: "session \<Rightarrow> bool" where
  sess_reach_new: "NewSession None now config = Ok s \<Longrightarrow> session_reachable s"
| sess_reach_step: "session_reachable s \<Longrightarrow> session_step s s' \<Longrightarrow> session_reachable s'"

section \<open>The invariant of a session\<close>

definition mailbox_ok :: "session \<Rightarrow> bool" where
  "mailbox_ok s \<longleftrightarrow>
     distinct (map fst (ss_mailbox s)) \<and> fst ` set (ss_mailbox s) \<subseteq> {..<ss_channels s}"

definition call_keys :: "string \<Rightarrow> string set" where
  "call_keys control = range (\<lambda>n :: 64 word. control @ ''-'' @ dec_nat (unat n))"

definition pending_ok :: "session \<Rightarrow> bool" where
  "pending_ok s \<longleftrightarrow>
     gm_wf (ss_pending s) \<and> distinct (map snd (ss_pending s)) \<and>
     snd ` set (ss_pending s) \<subseteq> {..<ss_channels s} \<and>
     snd ` set (ss_pending s) \<inter> fst ` set (ss_mailbox s) = {} \<and>
     fst ` set (ss_pending s) \<subseteq> call_keys (ss_controlID s)"

definition terminal_ok :: "session \<Rightarrow> bool" where
  "terminal_ok s \<longleftrightarrow>
     (ss_closed s \<longleftrightarrow> ss_terminal s \<noteq> None) \<and> (ss_closed s \<longrightarrow> ss_pending s = []) \<and>
     length (ss_events s) \<le> EventQueueCapacity"

definition session_inv :: "session \<Rightarrow> bool" where
  "session_inv s \<longleftrightarrow> mailbox_ok s \<and> pending_ok s \<and> terminal_ok s"

lemmas session_inv_defs = session_inv_def mailbox_ok_def pending_ok_def terminal_ok_def

lemma mail_fst: "fst ` set (mail ch r box) = insert ch (fst ` set box)"
  by (auto simp: mail_def)

lemma mail_distinct: "distinct (map fst box) \<Longrightarrow> distinct (map fst (mail ch r box))"
  by (auto simp: mail_def)

lemma mail_all_fst:
  "fst ` set (fold (\<lambda>p. mail (snd p) (r p)) ps box) = snd ` set ps \<union> fst ` set box"
  by (induction ps arbitrary: box) (auto simp: mail_fst)

lemma mail_all_distinct:
  "distinct (map fst box) \<Longrightarrow> distinct (map fst (fold (\<lambda>p. mail (snd p) (r p)) ps box))"
  by (induction ps arbitrary: box) (auto simp: mail_distinct)

lemma session_finish_inv: "session_inv s \<Longrightarrow> session_inv (session_finish e s)"
  by (auto simp: session_inv_defs session_finish_def mail_all_fst mail_all_distinct)

lemma gm_put_set: "set (gm_put k v m) \<subseteq> insert (k, v) (set m)"
  by (induction k v m rule: gm_put.induct) auto

lemma gm_put_distinct_snd:
  "distinct (map snd m) \<Longrightarrow> v \<notin> snd ` set m \<Longrightarrow> distinct (map snd (gm_put k v m))"
proof (induction k v m rule: gm_put.induct)
  case (2 k v k' v' m)
  then show ?case using gm_put_set [of k v m] by (auto simp: image_iff)
qed simp

lemma gm_put_snd: "snd ` set (gm_put k v m) \<subseteq> insert v (snd ` set m)"
  using image_mono [OF gm_put_set [of k v m], of snd] by simp

lemma gm_del_images: "fst ` set (gm_del k m) \<subseteq> fst ` set m" "snd ` set (gm_del k m) \<subseteq> snd ` set m"
  by (auto simp: gm_del_def)

lemma gm_del_distinct_snd: "distinct (map snd m) \<Longrightarrow> distinct (map snd (gm_del k m))"
  by (simp add: gm_del_def distinct_map_filter)

lemma disjoint_less: "A \<subseteq> B \<Longrightarrow> B \<inter> M = {} \<Longrightarrow> A \<inter> M = {}"
  by blast

lemma disjoint_insert_less: "A \<subseteq> insert c B \<Longrightarrow> c \<notin> M \<Longrightarrow> B \<inter> M = {} \<Longrightarrow> A \<inter> M = {}"
  by blast

lemma pending_ok_less:
  assumes "pending_ok s" and "gm_wf p" and "distinct (map snd p)"
    and "fst ` set p \<subseteq> fst ` set (ss_pending s)" and "snd ` set p \<subseteq> snd ` set (ss_pending s)"
  shows "pending_ok (s\<lparr>ss_pending := p\<rparr>)"
proof -
  have q: "snd ` set (ss_pending s) \<subseteq> {..<ss_channels s}" "snd ` set (ss_pending s) \<inter> fst ` set (ss_mailbox s) = {}"
      "fst ` set (ss_pending s) \<subseteq> call_keys (ss_controlID s)"
    using assms(1) by (simp_all add: pending_ok_def)
  show ?thesis
    using assms(2,3) subset_trans [OF assms(5) q(1)] disjoint_less [OF assms(5) q(2)] subset_trans [OF assms(4) q(3)]
    by (simp add: pending_ok_def)
qed

lemma Call_end_inv:
  assumes "session_inv s"
  shows "session_inv (Call_end callid s)"
proof -
  have "pending_ok (Call_end callid s)"
    unfolding Call_end_def
  proof (rule pending_ok_less)
    show "pending_ok s" using assms by (simp add: session_inv_def)
    then show "gm_wf (gm_del callid (ss_pending s))" "distinct (map snd (gm_del callid (ss_pending s)))"
      by (simp_all add: pending_ok_def gm_del_distinct_snd)
  qed (rule gm_del_images)+
  moreover have "mailbox_ok (Call_end callid s)" "terminal_ok (Call_end callid s)"
    using assms by (auto simp: session_inv_def mailbox_ok_def terminal_ok_def Call_end_def gm_del_def)
  ultimately show ?thesis by (simp add: session_inv_def)
qed

lemma register_inv:
  assumes "session_inv s" and "\<not> ss_closed s"
  shows "session_inv (s\<lparr>ss_sequence := n, ss_channels := ss_channels s + 1,
           ss_pending := gm_put (call_id s n) (ss_channels s) (ss_pending s)\<rparr>)" (is "session_inv ?s'")
proof -
  let ?c = "ss_channels s" and ?p = "gm_put (call_id s n) (ss_channels s) (ss_pending s)"
  have p: "pending_ok s" and m: "mailbox_ok s" and t: "terminal_ok s" using assms(1) by (simp_all add: session_inv_def)
  have fresh: "?c \<notin> snd ` set (ss_pending s)" "?c \<notin> fst ` set (ss_mailbox s)"
    using p m unfolding pending_ok_def mailbox_ok_def by blast+
  have sub: "snd ` set ?p \<subseteq> insert ?c (snd ` set (ss_pending s))" by (rule gm_put_snd)
  have "pending_ok ?s'"
    unfolding pending_ok_def
  proof (intro conjI)
    show "gm_wf (ss_pending ?s')" using p by (simp add: pending_ok_def)
    show "distinct (map snd (ss_pending ?s'))" using p fresh(1) by (simp add: pending_ok_def gm_put_distinct_snd)
    have "insert ?c (snd ` set (ss_pending s)) \<subseteq> {..<?c + 1}" using p unfolding pending_ok_def by auto
    from subset_trans [OF sub this] show "snd ` set (ss_pending ?s') \<subseteq> {..<ss_channels ?s'}" by simp
    show "snd ` set (ss_pending ?s') \<inter> fst ` set (ss_mailbox ?s') = {}"
      using disjoint_insert_less [OF sub fresh(2)] p by (simp add: pending_ok_def)
    show "fst ` set (ss_pending ?s') \<subseteq> call_keys (ss_controlID ?s')"
      using p unfolding pending_ok_def by (auto simp: fst_gm_put call_keys_def call_id_def)
  qed
  moreover have "mailbox_ok ?s'" "terminal_ok ?s'" using assms(2) m t by (auto simp: mailbox_ok_def terminal_ok_def)
  ultimately show ?thesis by (simp add: session_inv_def)
qed

lemma Call_begin_inv:
  assumes "session_inv s" and "Call_begin ctxErr now method direction speed s = Ok (r, s')"
  shows "session_inv s'"
  using assms register_inv [OF assms(1)] Call_end_inv [OF register_inv [OF assms(1)]]
  by (auto simp: Call_begin_def Let_def split: option.splits outcome.splits if_splits)

lemma deliver_reply_inv:
  assumes "session_inv s" and "\<not> ss_closed s"
  obtains s' where "deliver_reply callid r s = Some s'" "session_inv s'"
proof (cases "map_of (ss_pending s) callid")
  case None
  then show ?thesis using that assms(1) by (simp add: deliver_reply_def)
next
  case (Some ch)
  have p: "pending_ok s" and m: "mailbox_ok s" and t: "terminal_ok s" using assms(1) by (simp_all add: session_inv_def)
  have mem: "(callid, ch) \<in> set (ss_pending s)" using Some by (rule map_of_SomeD)
  then have "ch \<in> snd ` set (ss_pending s)" by force
  then have ch: "ch < ss_channels s" "ch \<notin> fst ` set (ss_mailbox s)"
    using p unfolding pending_ok_def by blast+
  let ?p = "gm_del callid (ss_pending s)"
  let ?s' = "s\<lparr>ss_mailbox := ss_mailbox s @ [(ch, r)], ss_pending := ?p\<rparr>"
  have "ch \<notin> snd ` set ?p"
  proof
    assume "ch \<in> snd ` set ?p"
    then obtain k where k: "(k, ch) \<in> set (ss_pending s)" "k \<noteq> callid" by (auto simp: gm_del_def)
    have "inj_on snd (set (ss_pending s))" using p by (simp add: pending_ok_def distinct_map)
    from inj_onD [OF this, of "(callid, ch)" "(k, ch)"] mem k show False by simp
  qed
  moreover have "snd ` set ?p \<inter> fst ` set (ss_mailbox s) = {}"
    using disjoint_less [OF gm_del_images(2) [of callid "ss_pending s"]] p by (simp add: pending_ok_def)
  ultimately have "snd ` set ?p \<inter> fst ` set (ss_mailbox ?s') = {}" by simp
  then have "pending_ok ?s'"
    using p subset_trans [OF gm_del_images(1) [of callid "ss_pending s"]]
      subset_trans [OF gm_del_images(2) [of callid "ss_pending s"]]
    by (simp add: pending_ok_def gm_del_distinct_snd)
  moreover have "mailbox_ok ?s'" using m ch by (simp add: mailbox_ok_def)
  moreover have "terminal_ok ?s'" using t assms(2) by (simp add: terminal_ok_def)
  moreover have "deliver_reply callid r s = Some ?s'" using Some ch(2) by (simp add: deliver_reply_def)
  ultimately show ?thesis using that by (simp add: session_inv_def)
qed

text \<open>A reply is either an error, or a result that names this session's control channel.\<close>

definition own_reply :: "session \<Rightarrow> rpc_reply \<Rightarrow> bool" where
  "own_reply s rep \<longleftrightarrow>
     (case reply_err rep of
        Some e \<Rightarrow> (\<exists>code text. e = RPCError code text)
      | None \<Rightarrow> (\<exists>v. json_decode RpcResultValue (reply_result rep) = Decoded v \<and>
                  as_string (field_of RpcResultValue ''sessionId'' v) = ss_controlID s))"

text \<open>What a reply frame can do to the session.\<close>

abbreviation delivers :: "session \<Rightarrow> (bool \<times> session) option \<Rightarrow> bool" where
  "delivers s r \<equiv> (\<exists>b. r = Some (b, s)) \<or>
     (\<exists>callid rep. r = map_option (Pair True) (deliver_reply callid rep s) \<and> own_reply s rep)"

lemma handle_reply_delivers:
  assumes "handle_reply body callid failure s = Ok r"
  shows "delivers s r"
proof (cases failure)
  case (Some f)
  then show ?thesis using assms
    by (intro disjI2 exI [of _ callid] exI conjI) (auto simp: handle_reply_def own_reply_def)
next
  case None
  with assms obtain members v where v: "json_decode RpcResultValue (raw_member members FieldResult) = Decoded v"
      and r: "r = Some (True, s) \<or>
        as_string (field_of RpcResultValue ''sessionId'' v) = ss_controlID s \<and>
        r = map_option (Pair True) (deliver_reply callid
              \<lparr>reply_result = raw_member members FieldResult, reply_err = None\<rparr> s)"
    by (auto simp: handle_reply_def outcome_Ok Let_def split: if_splits)
  from r show ?thesis
  proof (elim disjE conjE)
    assume "r = Some (True, s)"
    then show ?thesis by blast
  next
    assume "as_string (field_of RpcResultValue ''sessionId'' v) = ss_controlID s"
      "r = map_option (Pair True) (deliver_reply callid
              \<lparr>reply_result = raw_member members FieldResult, reply_err = None\<rparr> s)"
    with v show ?thesis by (intro disjI2 exI conjI) (auto simp: own_reply_def)
  qed
qed

lemma handleRPC_delivers:
  assumes "handleRPC body s = Ok r"
  shows "delivers s r"
proof -
  from assms have "r = Some (False, s) \<or> (\<exists>body' callid failure. handle_reply body' callid failure s = Ok r)"
    by (auto simp: handleRPC_def obind_Ok_iff Let_def split: if_splits prod.splits)
  then show ?thesis using handle_reply_delivers by blast
qed

lemma handleRPCFrame_delivers:
  assumes "handleRPCFrame body s = Ok r"
  shows "delivers s r"
proof -
  from assms obtain body' where "handleRPC body' s = Ok r"
    by (auto simp: handleRPCFrame_def obind_Ok_iff split: if_splits)
  then show ?thesis by (rule handleRPC_delivers)
qed

lemma inv_updates:
  "mailbox_ok (s\<lparr>ss_events := q\<rparr>) = mailbox_ok s" "pending_ok (s\<lparr>ss_events := q\<rparr>) = pending_ok s"
  "mailbox_ok (s\<lparr>ss_lastPong := t\<rparr>) = mailbox_ok s" "pending_ok (s\<lparr>ss_lastPong := t\<rparr>) = pending_ok s"
  "terminal_ok (s\<lparr>ss_lastPong := t\<rparr>) = terminal_ok s" "terminal_ok (s\<lparr>ss_mailbox := box\<rparr>) = terminal_ok s"
  by (simp_all add: mailbox_ok_def pending_ok_def terminal_ok_def)

lemma events_offer_inv: "session_inv s \<Longrightarrow> events_offer m s = Some s' \<Longrightarrow> session_inv s'"
  by (auto simp: session_inv_def events_offer_def inv_updates split: if_splits) (simp add: terminal_ok_def)

lemma session_Handle_cases:
  assumes "session_Handle now m s = Ok r"
  obtains (unchanged) "r = Some s"
    | (pong) "r = Some (s\<lparr>ss_lastPong := now\<rparr>)" "msg_method m = MethodPong"
    | (queued) s' where "r = Some s'" "events_offer m s = Some s'" "\<not> ss_closed s"
    | (reply) callid rep where "r = deliver_reply callid rep s" "msg_method m = MethodRPC" "\<not> ss_closed s" "own_reply s rep"
proof -
  from assms consider (same) "r = Some s"
    | (ping) "r = Some (s\<lparr>ss_lastPong := now\<rparr>)" "msg_method m = MethodPong"
    | (other) "\<not> ss_closed s" "queue_unhandled m (Some (False, s)) = Ok r"
    | (rpc) handled where "\<not> ss_closed s" "msg_method m = MethodRPC"
        "handleRPCFrame (msg_body m) s = Ok handled" "queue_unhandled m handled = Ok r"
    by (auto simp: session_Handle_def obind_Ok_iff split: if_splits option.splits)
  then show thesis
  proof cases
    case same
    then show thesis by (rule unchanged)
  next
    case ping
    then show thesis by (rule pong)
  next
    case other
    then obtain s' where "events_offer m s = Some s'" "r = Some s'"
      by (auto simp: queue_unhandled_def split: option.splits)
    then show thesis using other(1) queued by blast
  next
    case (rpc handled)
    from handleRPCFrame_delivers [OF rpc(3)] show thesis
    proof
      assume "\<exists>b. handled = Some (b, s)"
      then obtain b where "handled = Some (b, s)" by blast
      then have "r = Some s \<or> (\<exists>s'. events_offer m s = Some s' \<and> r = Some s')"
        using rpc(4) by (cases b) (auto simp: queue_unhandled_def split: option.splits)
      then show thesis using rpc(1) unchanged queued by blast
    next
      assume "\<exists>callid rep. handled = map_option (Pair True) (deliver_reply callid rep s) \<and> own_reply s rep"
      then obtain callid rep where h: "handled = map_option (Pair True) (deliver_reply callid rep s)"
        and own: "own_reply s rep" by blast
      then have "r = deliver_reply callid rep s"
        using rpc(4) by (cases "deliver_reply callid rep s") (auto simp: queue_unhandled_def)
      then show thesis using rpc(2,1) own by (rule reply)
    qed
  qed
qed

lemma session_Handle_inv:
  assumes "session_inv s" and "session_Handle now m s = Ok r"
  shows "\<exists>s'. r = Some s' \<and> session_inv s'"
  using assms(2)
proof (cases rule: session_Handle_cases)
  case unchanged
  then show ?thesis using assms(1) by blast
next
  case pong
  then show ?thesis using assms(1) by (simp add: session_inv_def inv_updates)
next
  case (queued s')
  then show ?thesis using assms(1) events_offer_inv by blast
next
  case (reply callid rep)
  then show ?thesis using deliver_reply_inv [OF assms(1)] by metis
qed

lemma session_Receive_inv:
  assumes "session_inv s" and "(r, s') \<in> set (session_Receive ctxErr s)"
  shows "session_inv s'"
proof -
  from assms(2) have "s' = s \<or> (\<exists>m ms. ss_events s = m # ms \<and> s' = s\<lparr>ss_events := ms\<rparr>)"
    by (auto simp: session_Receive_def events_poll_def split: list.splits option.splits if_splits)
  then show ?thesis using assms(1) by (auto simp: session_inv_def inv_updates) (simp add: terminal_ok_def)
qed

lemma take_reply_inv:
  assumes "session_inv s" and "take_reply ch s = Some (r, s')"
  shows "session_inv s'"
proof -
  let ?box = "filter (\<lambda>p. fst p \<noteq> ch) (ss_mailbox s)"
  have s': "s' = s\<lparr>ss_mailbox := ?box\<rparr>" using assms(2) by (auto simp: take_reply_def split: option.splits)
  have sub: "fst ` set ?box \<subseteq> fst ` set (ss_mailbox s)" by auto
  have "mailbox_ok s'"
    using assms(1) subset_trans [OF sub] unfolding s' by (simp add: session_inv_def mailbox_ok_def distinct_map_filter)
  moreover have "pending_ok s'"
    using assms(1) disjoint_less [OF sub, of "snd ` set (ss_pending s)"] unfolding s'
    by (simp add: session_inv_def pending_ok_def Int_commute)
  ultimately show ?thesis using assms(1) unfolding s' by (simp add: session_inv_def inv_updates)
qed

lemma session_Send_inv: "session_inv s \<Longrightarrow> session_inv (snd (session_Send ctxErr now method body s))"
  by (auto simp: session_Send_def session_finish_inv split: option.splits)

lemma heartbeat_tick_inv:
  assumes "session_inv s"
  shows "session_inv (snd (heartbeat_tick now ctxErr sendErr s))"
  using session_Send_inv [OF assms, of ctxErr now MethodPing RawNil] assms
  by (auto simp: heartbeat_tick_def session_finish_inv split: prod.splits send_result.splits option.splits)

lemma session_step_inv: "session_step s s' \<Longrightarrow> session_inv s \<Longrightarrow> session_inv s'"
proof (induction rule: session_step.induct)
  case (sess_handle now message s s')
  then show ?case using session_Handle_inv by blast
qed (auto simp: session_expire_def session_cancelled_def session_Close_def session_Fail_def
    intro: Call_begin_inv Call_end_inv session_Send_inv session_Receive_inv take_reply_inv heartbeat_tick_inv
      session_finish_inv)

lemma NewSession_inv: "NewSession ctxErr now config = Ok s \<Longrightarrow> session_inv s"
  by (auto simp: NewSession_def Let_def session_inv_defs split: if_splits option.splits)

lemma session_reachable_inv: "session_reachable s \<Longrightarrow> session_inv s"
  by (induction rule: session_reachable.induct) (auto intro: NewSession_inv session_step_inv)

section \<open>Interfaces\<close>

interpretation session_once: close_once ss_closed ss_terminal session_finish Some
  by unfold_locales (simp_all add: session_finish_def)

interpretation session_events: bounded_channel ss_events EventQueueCapacity events_offer events_poll
  by unfold_locales (simp_all add: events_offer_def events_poll_def)

section \<open>Properties\<close>

text \<open>C1: in every session that can arise, at most 32 events wait, the session is closed exactly when it has a
  terminal cause, and a closed session has no pending call. No reply channel holds more than one reply, the
  channel of a pending call is empty, and so the reader never blocks on a reply: \<open>Handle\<close> returns for every
  message.\<close>

theorem session_invariant:
  assumes "session_reachable s"
  shows "length (ss_events s) \<le> 32 \<and> (ss_closed s \<longleftrightarrow> ss_terminal s \<noteq> None) \<and>
         (ss_closed s \<longrightarrow> session_Pending s = 0) \<and> distinct (map fst (ss_mailbox s)) \<and>
         (\<forall>callid ch. map_of (ss_pending s) callid = Some ch \<longrightarrow> map_of (ss_mailbox s) ch = None) \<and>
         session_Handle now m s \<noteq> Ok None"
proof -
  have inv: "session_inv s" using assms by (rule session_reachable_inv)
  have "session_Handle now m s \<noteq> Ok None" using session_Handle_inv [OF inv] by fastforce
  moreover have "map_of (ss_mailbox s) ch = None" if "map_of (ss_pending s) callid = Some ch" for callid ch
  proof -
    have "ch \<in> snd ` set (ss_pending s)" using that by (force dest: map_of_SomeD)
    then have "ch \<notin> fst ` set (ss_mailbox s)" using inv unfolding session_inv_def pending_ok_def by blast
    then show ?thesis by (simp add: map_of_eq_None_iff)
  qed
  ultimately show ?thesis using inv
    by (simp add: session_inv_def terminal_ok_def mailbox_ok_def session_Pending_def EventQueueCapacity_def)
qed

definition example_config :: session_config where
  "example_config = \<lparr>cfg_DeviceID = 7, cfg_DialogID = ''d'', cfg_SignalID = ''s'', cfg_ControlID = ''c'',
     cfg_Heartbeat = DefaultHeartbeatInterval, cfg_MaxAge = 0, cfg_has_Send = True\<rparr>"

definition example_session :: session where
  "example_session = \<lparr>ss_deviceID = 7, ss_dialogID = ''d'', ss_signalID = ''s'', ss_controlID = ''c'',
     ss_heartbeat = DefaultHeartbeatInterval, ss_lastPong = 100, ss_expiresAt = 100 + MaxSessionAge,
     ss_terminal = None, ss_closed = False, ss_sequence = 0, ss_pending = [], ss_mailbox = [],
     ss_channels = 0, ss_events = []\<rparr>"

lemma example_session_new: "NewSession None 100 example_config = Ok example_session"
  by (simp add: NewSession_def example_config_def example_session_def DefaultHeartbeatInterval_def
      MaxHeartbeatInterval_def MaxSessionAge_def second_ns_def wrapSessionContextError_def)

theorem session_invariant_witness:
  "session_Handle 200 example_ping example_session \<noteq> Ok None \<and> session_Pending example_session = 0"
  using session_invariant [OF sess_reach_new [OF example_session_new], of 200 example_ping]
  by (simp add: session_Pending_def example_session_def)

text \<open>The reply that a closing session leaves for every pending call.\<close>

lemma map_of_mail: "map_of (mail ch r box) k = (if k = ch \<and> map_of box ch = None then Some r else map_of box k)"
proof -
  have "ch \<in> fst ` set box \<longleftrightarrow> map_of box ch \<noteq> None" using map_of_eq_None_iff [of box ch] by auto
  then show ?thesis by (cases "map_of box k") (simp_all add: mail_def map_add_def split: if_splits)
qed

lemma map_of_mail_all:
  "map_of (fold (\<lambda>p. mail (snd p) r) ps box) k =
     (case map_of box k of Some x \<Rightarrow> Some x | None \<Rightarrow> if k \<in> snd ` set ps then Some r else None)"
  by (induction ps arbitrary: box) (auto simp: map_of_mail split: option.splits)

text \<open>A session ends with the cause that ended it first - expiry, missed heartbeats, a failed write, the
  caller's context, \<open>Close\<close> or \<open>Fail\<close> - whatever ends it again, and every call that was pending then finds
  exactly this cause as its reply.\<close>

theorem first_cause_reaches_calls:
  assumes "session_inv s" and "\<not> ss_closed s"
  shows "ss_terminal (fold session_finish (e # es) s) = Some e \<and>
         ss_pending (fold session_finish (e # es) s) = [] \<and>
         (\<forall>callid ch. map_of (ss_pending s) callid = Some ch \<longrightarrow>
            map_of (ss_mailbox (fold session_finish (e # es) s)) ch =
              Some \<lparr>reply_result = RawNil, reply_err = Some e\<rparr>)"
proof -
  have all: "fold session_finish (e # es) s = session_finish e s"
    using session_once.fold_stop_ended [OF session_once.stop_ends] by simp
  have "map_of (ss_mailbox (session_finish e s)) ch = Some \<lparr>reply_result = RawNil, reply_err = Some e\<rparr>"
    if "map_of (ss_pending s) callid = Some ch" for callid ch
  proof -
    have ch: "ch \<in> snd ` set (ss_pending s)" using that by (force dest: map_of_SomeD)
    then have "ch \<notin> fst ` set (ss_mailbox s)"
      using assms(1) unfolding session_inv_def pending_ok_def by blast
    then have "map_of (ss_mailbox s) ch = None" by (simp add: map_of_eq_None_iff)
    then show ?thesis using assms(2) ch by (simp add: session_finish_def map_of_mail_all)
  qed
  then show ?thesis
    using session_once.first_cause_wins [OF assms(2), of e es] assms(2) unfolding all
    by (simp add: session_finish_def)
qed

theorem first_cause_reaches_calls_witness:
  "ss_terminal (fold session_finish [ErrHeartbeat, ErrClosed] example_session) = Some ErrHeartbeat"
  using first_cause_reaches_calls [OF NewSession_inv [OF example_session_new], of ErrHeartbeat "[ErrClosed]"]
  by (simp add: example_session_def)

lemma json_object_Decoded:
  "json_object raw = Decoded v \<Longrightarrow>
     (v = None \<and> raw = RawJson JNull) \<or> (\<exists>kvs. v = Some (gm_build kvs) \<and> raw = RawJson (JObj kvs))"
  by (auto simp: json_object_def split: raw_message.splits json.splits)

lemma session_Handle_own:
  assumes "session_Handle now m s = Ok (Some s')" and "s' \<noteq> s"
  shows "msg_dialog m = ss_dialogID s \<and> \<not> ss_closed s \<and>
         (\<exists>identity. json_decode SessionBody (msg_body m) = Decoded identity \<and> session_matches s m identity)"
  using assms by (auto simp: session_Handle_def outcome_Ok split: if_splits option.splits)

text \<open>C6: a message changes an open session only if it names the session's dialog and its body decodes to the
  session's device and session identifiers. Then it does exactly one of three things: a pong renews the
  heartbeat; an RPC reply that is an error or names this session's control channel answers one pending
  call and removes it; anything else is appended to the events, which were not full.\<close>

theorem session_effects:
  assumes "session_Handle now m s = Ok (Some s')" and "s' \<noteq> s"
  shows "msg_dialog m = ss_dialogID s \<and> \<not> ss_closed s \<and>
         (\<exists>identity. json_decode SessionBody (msg_body m) = Decoded identity \<and> session_matches s m identity) \<and>
         (msg_method m = MethodPong \<and> s' = s\<lparr>ss_lastPong := now\<rparr> \<or>
          (\<exists>callid ch rep. msg_method m = MethodRPC \<and> map_of (ss_pending s) callid = Some ch \<and> own_reply s rep \<and>
             s' = s\<lparr>ss_mailbox := ss_mailbox s @ [(ch, rep)], ss_pending := gm_del callid (ss_pending s)\<rparr>) \<or>
          length (ss_events s) < EventQueueCapacity \<and> s' = s\<lparr>ss_events := ss_events s @ [m]\<rparr>)"
proof -
  from assms(1) have "msg_method m = MethodPong \<and> s' = s\<lparr>ss_lastPong := now\<rparr> \<or>
          (\<exists>callid ch rep. msg_method m = MethodRPC \<and> map_of (ss_pending s) callid = Some ch \<and> own_reply s rep \<and>
             s' = s\<lparr>ss_mailbox := ss_mailbox s @ [(ch, rep)], ss_pending := gm_del callid (ss_pending s)\<rparr>) \<or>
          length (ss_events s) < EventQueueCapacity \<and> s' = s\<lparr>ss_events := ss_events s @ [m]\<rparr>"
  proof (cases rule: session_Handle_cases)
    case unchanged
    then show ?thesis using assms(2) by simp
  next
    case pong
    then show ?thesis by simp
  next
    case (queued s'')
    then show ?thesis by (auto simp: events_offer_def split: if_splits)
  next
    case (reply callid rep)
    from reply(1) [symmetric] assms(2)
    have "\<exists>ch. map_of (ss_pending s) callid = Some ch \<and>
        s' = s\<lparr>ss_mailbox := ss_mailbox s @ [(ch, rep)], ss_pending := gm_del callid (ss_pending s)\<rparr>"
      by (auto simp: deliver_reply_def split: option.splits if_splits)
    with reply(2,4) show ?thesis by blast
  qed
  with session_Handle_own [OF assms] show ?thesis by blast
qed

definition example_pong :: signaling_message where
  "example_pong = \<lparr>msg_method = MethodPong, msg_dialog = ''d'', msg_riid = [],
     msg_body = RawJson (JObj [(''doorbot_id'', JNum (NLit ''7'')), (''session_id'', JStr ''s'')])\<rparr>"

lemma example_pong_decodes:
  "json_decode SessionBody (msg_body example_pong) = Decoded (VStruct [VInt 7, VString ''s'', VMap None])"
  by code_simp

lemma example_pong_identity:
  "as_int (field_of SessionBody ''doorbot_id'' (VStruct [VInt 7, VString ''s'', VMap None])) = 7"
  "as_string (field_of SessionBody ''session_id'' (VStruct [VInt 7, VString ''s'', VMap None])) = ''s''"
  by code_simp+

lemma example_pong_handled:
  "session_Handle 200 example_pong example_session = Ok (Some (example_session\<lparr>ss_lastPong := 200\<rparr>))"
proof -
  have "msg_dialog example_pong = ''d''" "msg_method example_pong = MethodPong" by (simp_all add: example_pong_def)
  then show ?thesis
    using example_pong_identity
    by (simp add: session_Handle_def example_pong_decodes on_decode_def session_matches_def example_session_def)
qed

theorem session_effects_witness:
  "msg_dialog example_pong = ss_dialogID example_session \<and> \<not> ss_closed example_session"
  using session_effects [OF example_pong_handled] by (simp add: example_session_def)

text \<open>A run of heartbeat ticks with no pong between them; the pings it sends and the session after it.\<close>

fun silent_ticks :: "int list \<Rightarrow> session \<Rightarrow> signaling_message list \<times> session" where
  "silent_ticks [] s = ([], s)"
| "silent_ticks (t # ts) s =
     (let (ping, s') = heartbeat_tick t None None s; (pings, s'') = silent_ticks ts s'
      in (ping @ pings, s''))"

lemma heartbeat_tick_alive:
  assumes "\<not> ss_closed s" "t - ss_lastPong s < 3 * ss_heartbeat s" "t < ss_expiresAt s"
  shows "\<exists>ping. heartbeat_tick t None None s = ([ping], s) \<and> msg_method ping = MethodPing \<and>
           msg_dialog ping = ss_dialogID s"
  using assms
  by (auto simp: heartbeat_tick_def session_Send_def wrapSessionContextError_def MissedHeartbeatIntervals_def)

lemma heartbeat_tick_silent:
  assumes "\<not> ss_closed s" "t - ss_lastPong s \<ge> 3 * ss_heartbeat s"
  shows "heartbeat_tick t None None s = ([], session_finish ErrHeartbeat s)"
  using assms by (simp add: heartbeat_tick_def MissedHeartbeatIntervals_def)

text \<open>A silent peer is found out at the third tick. A session that hears no pong sends a ping at each of its
  first two ticks, one heartbeat interval apart, stays open meanwhile, and ends with the heartbeat error at
  the third, provided it has not reached its maximum age before.\<close>

theorem silence_detected:
  assumes "\<not> ss_closed s" and "0 < ss_heartbeat s" and "ss_lastPong s + 2 * ss_heartbeat s < ss_expiresAt s"
  shows "let h = ss_heartbeat s; t = ss_lastPong s;
             (pings, alive) = silent_ticks [t + h, t + 2 * h] s;
             (more, dead) = silent_ticks [t + h, t + 2 * h, t + 3 * h] s
         in alive = s \<and> map msg_method pings = [MethodPing, MethodPing] \<and> more = pings \<and>
            ss_closed dead \<and> ss_terminal dead = Some ErrHeartbeat"
proof -
  let ?h = "ss_heartbeat s" and ?t = "ss_lastPong s"
  from heartbeat_tick_alive [of s "?t + ?h"] assms obtain p1 where
    p1: "heartbeat_tick (?t + ?h) None None s = ([p1], s)" "msg_method p1 = MethodPing" by auto
  from heartbeat_tick_alive [of s "?t + 2 * ?h"] assms obtain p2 where
    p2: "heartbeat_tick (?t + 2 * ?h) None None s = ([p2], s)" "msg_method p2 = MethodPing" by auto
  have d: "heartbeat_tick (?t + 3 * ?h) None None s = ([], session_finish ErrHeartbeat s)"
    using heartbeat_tick_silent [of s "?t + 3 * ?h"] assms(1) by simp
  show ?thesis
    using p1 p2 d session_once.stop_ends [of ErrHeartbeat s] session_once.stop_cause [OF assms(1), of ErrHeartbeat]
    by (simp add: Let_def)
qed

theorem silence_detected_witness:
  "ss_terminal (snd (silent_ticks [100 + 5 * second_ns, 100 + 10 * second_ns, 100 + 15 * second_ns] example_session))
     = Some ErrHeartbeat"
proof -
  have "\<not> ss_closed example_session" "ss_heartbeat example_session = 5000000000"
      "ss_lastPong example_session = 100" "ss_expiresAt example_session = 3600000000100"
    by (simp_all add: example_session_def DefaultHeartbeatInterval_def MaxSessionAge_def second_ns_def)
  then show ?thesis
    using silence_detected [of example_session]
    by (simp add: second_ns_def Let_def case_prod_beta del: silent_ticks.simps)
qed

text \<open>A heartbeat tick closes an open session with the heartbeat error exactly when at least three intervals have
  passed since the last pong; otherwise it sends one ping for this session, unless the session is past its
  maximum age, and then it expires.\<close>

theorem heartbeat_tick_outcome:
  assumes "\<not> ss_closed s"
  shows "heartbeat_tick now None None s =
         (if now - ss_lastPong s \<ge> 3 * ss_heartbeat s then ([], session_finish ErrHeartbeat s)
          else if now \<ge> ss_expiresAt s then ([], session_finish ErrExpired s)
          else ([\<lparr>msg_method = MethodPing, msg_dialog = ss_dialogID s, msg_riid = [],
                  msg_body = RawJson (JObj [(FieldDeviceID, JNum (NLit (dec_int (ss_deviceID s)))),
                                            (FieldSessionID, JStr (ss_signalID s))])\<rparr>], s))"
proof -
  have "session_finish ErrExpired (session_finish ErrExpired s) = session_finish ErrExpired s"
    by (rule session_once.stop_twice)
  then show ?thesis using assms
    by (simp add: heartbeat_tick_def session_Send_def wrapSessionContextError_def MissedHeartbeatIntervals_def
        SessionBody_def struct_lit_def)
qed

theorem heartbeat_tick_outcome_witness:
  "heartbeat_tick (100 + 20 * second_ns) None None example_session = ([], session_finish ErrHeartbeat example_session)"
  by (subst heartbeat_tick_outcome) (simp_all add: example_session_def DefaultHeartbeatInterval_def second_ns_def)

end
