(* ===== verification/Negotiation.thy ===== *)
theory Negotiation
  imports Session
begin

text \<open>
  The live-view negotiation, \<open>pkg/dependencies/websocket/live_negotiation.go\<close>: \<open>session_created\<close> names the
  signaling session, the SDP answer names it again together with the control session and the heartbeat.
  \<open>AwaitLiveAnswer\<close> reads a list of the messages that arrive; when the list is used up the wait ends with the
  error that the context or the connection gives.
\<close>

record LiveNegotiation =
  neg_SignalID :: string
  neg_RIID :: string
  neg_AnswerSDP :: string
  neg_ControlID :: string
  neg_Heartbeat :: int

definition acceptSessionCreated ::
  "LiveNegotiation \<Rightarrow> bool \<Rightarrow> signaling_message \<Rightarrow> int \<Rightarrow> (LiveNegotiation \<times> bool) outcome"
where
  "acceptSessionCreated state created message deviceID =
     obind (on_decode (json_decode SessionCreatedBody (msg_body message))
              (\<lambda>e. NewConnectionError ''invalid session_created response'' (Some e))) (\<lambda>body.
     let sessionId = as_string (field_of SessionCreatedBody ''session_id'' body) in
     if as_int (field_of SessionCreatedBody ''doorbot_id'' body) \<noteq> deviceID \<or> sessionId = []
     then Err (NewConnectionError ''invalid session_created response'' None)
     else if created \<and> (sessionId \<noteq> neg_SignalID state \<or>
            (msg_riid message \<noteq> [] \<and> neg_RIID state \<noteq> [] \<and> msg_riid message \<noteq> neg_RIID state))
     then Err (NewConnectionError ''conflicting session_created response'' None)
     else
     let state' = state\<lparr>neg_SignalID := sessionId\<rparr> in
     Ok (if msg_riid message \<noteq> [] then state'\<lparr>neg_RIID := msg_riid message\<rparr> else state', True))"

text \<open>The negotiated heartbeat: an optional number of seconds, at most the maximal interval.\<close>

definition negotiated_heartbeat :: "(string \<times> json) list \<Rightarrow> LiveNegotiation \<Rightarrow> LiveNegotiation outcome" where
  "negotiated_heartbeat info state =
     (case map_of info FieldPingInterval of
        None \<Rightarrow> Ok state
      | Some raw \<Rightarrow>
          obind (on_decode (json_decode TInt (RawJson raw))
                   (\<lambda>e. NewConnectionError ''invalid negotiated heartbeat interval'' (Some e))) (\<lambda>v.
          let seconds = as_int v in
          if seconds \<le> 0 \<or> seconds > MaxHeartbeatInterval div second_ns
          then Err (NewConnectionError ''invalid negotiated heartbeat interval'' None)
          else Ok (state\<lparr>neg_Heartbeat := seconds * second_ns\<rparr>)))"

definition acceptLiveAnswer :: "LiveNegotiation \<Rightarrow> signaling_message \<Rightarrow> int \<Rightarrow> LiveNegotiation outcome" where
  "acceptLiveAnswer state message deviceID =
     obind (raw_members (msg_body message) ''invalid SDP answer'') (\<lambda>envelope.
     obind (raw_members (raw_member envelope FieldSessionInfo) ''invalid SDP answer'') (\<lambda>info.
     obind (negotiated_heartbeat info state) (\<lambda>state.
     obind (on_decode (json_decode LiveAnswerBody (msg_body message))
              (\<lambda>e. NewConnectionError ''invalid SDP answer'' (Some e))) (\<lambda>body.
     let sessionId = as_string (field_of LiveAnswerBody ''session_id'' body);
         answer = as_string (field_of LiveAnswerBody ''sdp'' body) in
     case as_pointer (field_of LiveAnswerBody ''session_info'' body) of
       None \<Rightarrow> Err (NewConnectionError ''invalid SDP answer'' None)
     | Some sessionInfo \<Rightarrow>
         if as_int (field_of LiveAnswerBody ''doorbot_id'' body) \<noteq> deviceID \<or>
            as_string (field_of LiveAnswerBody ''type'' body) \<noteq> ''answer'' \<or> answer = []
         then Err (NewConnectionError ''invalid SDP answer'' None)
         else if neg_SignalID state \<noteq> [] \<and> sessionId \<noteq> neg_SignalID state
         then Err (NewConnectionError ''SDP signaling session mismatch'' None)
         else
         let state' = state\<lparr>neg_SignalID := sessionId, neg_AnswerSDP := answer,
                            neg_ControlID := as_string (field_of LiveAnswerInfo ''session_id'' sessionInfo)\<rparr> in
         Ok (if msg_riid message \<noteq> [] then state'\<lparr>neg_RIID := msg_riid message\<rparr> else state')))))"

definition acceptLiveNegotiationMessage ::
  "LiveNegotiation \<Rightarrow> bool \<Rightarrow> signaling_message \<Rightarrow> int \<Rightarrow> (LiveNegotiation \<times> bool) outcome"
where
  "acceptLiveNegotiationMessage state created message deviceID =
     (if msg_method message = MethodSessionCreated then acceptSessionCreated state created message deviceID
      else if msg_method message = MethodSDP then
        (if \<not> created then Err (NewConnectionError ''SDP answer before session_created'' None)
         else obind (acceptLiveAnswer state message deviceID) (\<lambda>state'. Ok (state', created)))
      else if msg_method message = MethodClose
      then Err (NewClosedError ''signaling peer closed during negotiation'' [])
      else Ok (state, created))"

definition negotiation_start :: LiveNegotiation where
  "negotiation_start =
     \<lparr>neg_SignalID = [], neg_RIID = [], neg_AnswerSDP = [], neg_ControlID = [],
      neg_Heartbeat = DefaultHeartbeatInterval\<rparr>"

definition negotiation_done :: "LiveNegotiation \<Rightarrow> bool" where
  "negotiation_done state \<longleftrightarrow> neg_AnswerSDP state \<noteq> [] \<and> neg_SignalID state \<noteq> []"

text \<open>
  The loop returns the state it reached with the error that ended it. A message that is refused leaves the
  identifiers of the state alone (it may have replaced the heartbeat, which nothing reads after an error).
\<close>

fun await_answer ::
  "LiveNegotiation \<Rightarrow> bool \<Rightarrow> signaling_message list \<Rightarrow> int \<Rightarrow> goerr \<Rightarrow> (LiveNegotiation \<times> goerr option) outcome"
where
  "await_answer state created [] deviceID interrupted =
     Ok (state, if negotiation_done state then None else Some interrupted)"
| "await_answer state created (message # messages) deviceID interrupted =
     (if negotiation_done state then Ok (state, None)
      else case acceptLiveNegotiationMessage state created message deviceID of
        Ok (state', created') \<Rightarrow> await_answer state' created' messages deviceID interrupted
      | Err e \<Rightarrow> Ok (state, Some e)
      | Panic \<Rightarrow> Panic)"

definition AwaitLiveAnswer ::
  "signaling_message list \<Rightarrow> int \<Rightarrow> goerr \<Rightarrow> (LiveNegotiation \<times> goerr option) outcome"
where
  "AwaitLiveAnswer messages deviceID interrupted =
     await_answer negotiation_start False messages deviceID interrupted"

section \<open>What a finished negotiation guarantees\<close>

text \<open>The two messages that decide a negotiation, as the peer sends them.\<close>

definition created_for :: "int \<Rightarrow> string \<Rightarrow> signaling_message \<Rightarrow> bool" where
  "created_for deviceID signalID m \<longleftrightarrow>
     msg_method m = MethodSessionCreated \<and>
     (\<exists>body. json_decode SessionCreatedBody (msg_body m) = Decoded body \<and>
        as_int (field_of SessionCreatedBody ''doorbot_id'' body) = deviceID \<and>
        as_string (field_of SessionCreatedBody ''session_id'' body) = signalID)"

definition answer_for :: "int \<Rightarrow> LiveNegotiation \<Rightarrow> signaling_message \<Rightarrow> bool" where
  "answer_for deviceID state m \<longleftrightarrow>
     msg_method m = MethodSDP \<and>
     (\<exists>body info. json_decode LiveAnswerBody (msg_body m) = Decoded body \<and>
        as_int (field_of LiveAnswerBody ''doorbot_id'' body) = deviceID \<and>
        as_string (field_of LiveAnswerBody ''type'' body) = ''answer'' \<and>
        as_string (field_of LiveAnswerBody ''session_id'' body) = neg_SignalID state \<and>
        as_string (field_of LiveAnswerBody ''sdp'' body) = neg_AnswerSDP state \<and>
        as_pointer (field_of LiveAnswerBody ''session_info'' body) = Some info \<and>
        as_string (field_of LiveAnswerInfo ''session_id'' info) = neg_ControlID state)"

text \<open>What holds after the messages \<open>seen\<close>.\<close>

definition negotiation_inv :: "int \<Rightarrow> signaling_message list \<Rightarrow> LiveNegotiation \<Rightarrow> bool \<Rightarrow> bool" where
  "negotiation_inv deviceID seen state created \<longleftrightarrow>
     0 < neg_Heartbeat state \<and> neg_Heartbeat state \<le> MaxHeartbeatInterval \<and>
     (neg_SignalID state \<noteq> [] \<longleftrightarrow> created) \<and>
     (created \<longrightarrow> (\<exists>m\<in>set seen. created_for deviceID (neg_SignalID state) m)) \<and>
     (neg_AnswerSDP state \<noteq> [] \<longrightarrow> created \<and> (\<exists>m\<in>set seen. answer_for deviceID state m))"

lemma negotiation_start_inv: "negotiation_inv d [] negotiation_start False"
  by (simp add: negotiation_inv_def negotiation_start_def DefaultHeartbeatInterval_def MaxHeartbeatInterval_def
      second_ns_def)

lemma acceptSessionCreated_inv:
  assumes "negotiation_inv d seen state created" and "neg_AnswerSDP state = []"
    and "acceptSessionCreated state created m d = Ok (state', created')" and "msg_method m = MethodSessionCreated"
  shows "negotiation_inv d (seen @ [m]) state' created'"
proof -
  from assms(3) obtain body where b: "json_decode SessionCreatedBody (msg_body m) = Decoded body"
      "as_int (field_of SessionCreatedBody ''doorbot_id'' body) = d"
      "as_string (field_of SessionCreatedBody ''session_id'' body) = neg_SignalID state'"
      "neg_SignalID state' \<noteq> []" "created'" "neg_Heartbeat state' = neg_Heartbeat state"
      "neg_AnswerSDP state' = neg_AnswerSDP state"
    by (auto simp: acceptSessionCreated_def outcome_Ok Let_def split: if_splits)
  then have "created_for d (neg_SignalID state') m" using assms(4) by (auto simp: created_for_def)
  with b assms(1,2) show ?thesis by (auto simp: negotiation_inv_def)
qed

lemma negotiated_heartbeat_Ok:
  assumes "negotiated_heartbeat info state = Ok state'"
  shows "\<exists>h. state' = state\<lparr>neg_Heartbeat := h\<rparr> \<and>
           (h = neg_Heartbeat state \<or> (0 < h \<and> h \<le> MaxHeartbeatInterval))"
proof (cases "map_of info FieldPingInterval")
  case None
  then show ?thesis using assms by (intro exI [of _ "neg_Heartbeat state"]) (simp add: negotiated_heartbeat_def)
next
  case (Some raw)
  have sixty: "MaxHeartbeatInterval div second_ns = 60" by (simp add: MaxHeartbeatInterval_def second_ns_def)
  from Some assms obtain v where "0 < as_int v" "as_int v \<le> 60" "state' = state\<lparr>neg_Heartbeat := as_int v * second_ns\<rparr>"
    unfolding negotiated_heartbeat_def Let_def sixty
    by (simp add: outcome_Ok not_le split: if_splits) (metis not_le)
  then show ?thesis
    by (intro exI [of _ "as_int v * second_ns"]) (simp add: MaxHeartbeatInterval_def second_ns_def)
qed

lemma acceptLiveAnswer_inv:
  assumes "negotiation_inv d seen state True" and "acceptLiveAnswer state m d = Ok state'"
    and "msg_method m = MethodSDP"
  shows "negotiation_inv d (seen @ [m]) state' True"
proof -
  from assms(2) obtain info state1 body sessionInfo where
      h: "negotiated_heartbeat info state = Ok state1"
    and b: "json_decode LiveAnswerBody (msg_body m) = Decoded body"
      "as_int (field_of LiveAnswerBody ''doorbot_id'' body) = d"
      "as_string (field_of LiveAnswerBody ''type'' body) = ''answer''"
      "as_pointer (field_of LiveAnswerBody ''session_info'' body) = Some sessionInfo"
    and mism: "neg_SignalID state1 \<noteq> [] \<longrightarrow>
        as_string (field_of LiveAnswerBody ''session_id'' body) = neg_SignalID state1"
    and st: "neg_SignalID state' = as_string (field_of LiveAnswerBody ''session_id'' body)"
      "neg_AnswerSDP state' = as_string (field_of LiveAnswerBody ''sdp'' body)"
      "neg_ControlID state' = as_string (field_of LiveAnswerInfo ''session_id'' sessionInfo)"
      "neg_Heartbeat state' = neg_Heartbeat state1" "neg_AnswerSDP state' \<noteq> []"
    by (auto simp: acceptLiveAnswer_def outcome_Ok Let_def split: if_splits option.splits)
  from negotiated_heartbeat_Ok [OF h] assms(1) have s1: "neg_SignalID state1 = neg_SignalID state"
      "0 < neg_Heartbeat state1" "neg_Heartbeat state1 \<le> MaxHeartbeatInterval"
    by (auto simp: negotiation_inv_def)
  have "neg_SignalID state \<noteq> []" using assms(1) by (simp add: negotiation_inv_def)
  then have "neg_SignalID state' = neg_SignalID state" using mism st(1) s1(1) by simp
  moreover have "answer_for d state' m" using b st assms(3) by (auto simp: answer_for_def)
  ultimately show ?thesis using assms(1) s1 st by (auto simp: negotiation_inv_def)
qed

lemma negotiation_step_inv:
  assumes "negotiation_inv d seen state created" and "\<not> negotiation_done state"
    and "acceptLiveNegotiationMessage state created m d = Ok (state', created')"
  shows "negotiation_inv d (seen @ [m]) state' created'"
proof -
  have empty: "neg_AnswerSDP state = []"
    using assms(1,2) by (auto simp: negotiation_inv_def negotiation_done_def)
  from assms(3) consider (created) "msg_method m = MethodSessionCreated"
        "acceptSessionCreated state created m d = Ok (state', created')"
    | (answer) "msg_method m = MethodSDP" "created" "created'" "acceptLiveAnswer state m d = Ok state'"
    | (other) "state' = state" "created' = created"
    by (auto simp: acceptLiveNegotiationMessage_def obind_Ok_iff split: if_splits)
  then show ?thesis
  proof cases
    case created
    then show ?thesis using acceptSessionCreated_inv assms(1) empty by blast
  next
    case answer
    then show ?thesis using acceptLiveAnswer_inv assms(1) by auto
  next
    case other
    then show ?thesis using assms(1) by (auto simp: negotiation_inv_def)
  qed
qed

lemma await_answer_inv:
  assumes "negotiation_inv d seen state created" and "await_answer state created ms d e = Ok (state', None)"
  shows "\<exists>n. negotiation_inv d (seen @ take n ms) state' True \<and> negotiation_done state'"
  using assms
proof (induction ms arbitrary: seen state created)
  case Nil
  then show ?case by (auto simp: negotiation_inv_def negotiation_done_def split: if_splits)
next
  case (Cons m ms)
  show ?case
  proof (cases "negotiation_done state")
    case True
    with Cons.prems show ?thesis
      by (intro exI [of _ 0]) (auto simp: negotiation_inv_def negotiation_done_def)
  next
    case False
    with Cons.prems obtain state1 created1 where
      s: "acceptLiveNegotiationMessage state created m d = Ok (state1, created1)"
        "await_answer state1 created1 ms d e = Ok (state', None)"
      by (auto split: outcome.splits)
    from Cons.IH [OF negotiation_step_inv [OF Cons.prems(1) False s(1)] s(2)] obtain n where
      "negotiation_inv d ((seen @ [m]) @ take n ms) state' True \<and> negotiation_done state'" by blast
    then show ?thesis by (intro exI [of _ "Suc n"]) simp
  qed
qed

text \<open>C16: a negotiation that succeeds has a session identifier and an answer, both taken from messages of the
  requested device: a \<open>session_created\<close> with that identifier, and an SDP answer that repeats it and
  names the control session. The heartbeat interval is positive and at most one minute.\<close>

theorem AwaitLiveAnswer_sound:
  assumes "AwaitLiveAnswer messages deviceID interrupted = Ok (state, None)"
  shows "neg_SignalID state \<noteq> [] \<and> neg_AnswerSDP state \<noteq> [] \<and>
         0 < neg_Heartbeat state \<and> neg_Heartbeat state \<le> MaxHeartbeatInterval \<and>
         (\<exists>m\<in>set messages. created_for deviceID (neg_SignalID state) m) \<and>
         (\<exists>m\<in>set messages. answer_for deviceID state m)"
proof -
  from await_answer_inv [OF negotiation_start_inv assms [unfolded AwaitLiveAnswer_def]] obtain n where
    inv: "negotiation_inv deviceID (take n messages) state True" and d: "negotiation_done state" by auto
  from inv d show ?thesis
    by (auto simp: negotiation_inv_def negotiation_done_def dest: in_set_takeD)
qed

definition example_created :: signaling_message where
  "example_created = \<lparr>msg_method = MethodSessionCreated, msg_dialog = ''d'', msg_riid = ''r'',
     msg_body = RawJson (JObj [(''doorbot_id'', JNum (NLit ''7'')), (''session_id'', JStr ''s'')])\<rparr>"

definition example_answer :: signaling_message where
  "example_answer = \<lparr>msg_method = MethodSDP, msg_dialog = ''d'', msg_riid = [],
     msg_body = RawJson (JObj [(''doorbot_id'', JNum (NLit ''7'')), (''session_id'', JStr ''s''),
       (''sdp'', JStr ''v=0''), (''type'', JStr ''answer''),
       (''session_info'', JObj [(''session_id'', JStr ''c''), (''ping_interval'', JNum (NLit ''5''))])])\<rparr>"

definition example_negotiated :: LiveNegotiation where
  "example_negotiated = \<lparr>neg_SignalID = ''s'', neg_RIID = ''r'', neg_AnswerSDP = ''v=0'', neg_ControlID = ''c'',
     neg_Heartbeat = 5000000000\<rparr>"

lemma example_negotiation:
  "AwaitLiveAnswer [example_created, example_pong, example_answer] 7 ErrClosed = Ok (example_negotiated, None)"
  by code_simp

theorem AwaitLiveAnswer_sound_witness:
  "\<exists>m\<in>{example_created, example_pong, example_answer}. answer_for 7 example_negotiated m"
  using AwaitLiveAnswer_sound [OF example_negotiation] by simp

text \<open>An SDP answer is never accepted before a \<open>session_created\<close> message, and a close by the peer ends the
  negotiation at once with a closed error, whatever else arrives.\<close>

theorem negotiation_order:
  assumes "list_all (\<lambda>m. msg_method m \<notin> {MethodSessionCreated, MethodSDP, MethodClose}) others"
    and "msg_method m \<in> {MethodSDP, MethodClose}"
  shows "AwaitLiveAnswer (others @ m # rest) deviceID e =
           Ok (negotiation_start,
               Some (if msg_method m = MethodSDP then NewConnectionError ''SDP answer before session_created'' None
                     else NewClosedError ''signaling peer closed during negotiation'' []))"
proof -
  have "await_answer negotiation_start False (others @ ms) deviceID e = await_answer negotiation_start False ms deviceID e"
    for ms
    using assms(1)
    by (induction others)
       (auto simp: acceptLiveNegotiationMessage_def negotiation_done_def negotiation_start_def)
  then show ?thesis using assms(2)
    by (auto simp: AwaitLiveAnswer_def acceptLiveNegotiationMessage_def negotiation_done_def negotiation_start_def)
qed

theorem negotiation_order_witness:
  "AwaitLiveAnswer [example_pong, example_answer, example_created] 7 ErrClosed =
     Ok (negotiation_start, Some (NewConnectionError ''SDP answer before session_created'' None))"
  using negotiation_order [of "[example_pong]" example_answer "[example_created]" 7 ErrClosed]
  by (simp add: example_pong_def example_answer_def)

end
