(* ===== verification/AccountEvents.thy ===== *)
theory AccountEvents
  imports Session
begin

text \<open>
  The account event stream, \<open>pkg/dependencies/websocket/events.go\<close>. The reader goroutine decodes frames into a
  channel of 100 records and leaves a read error in a second channel; consumers, serialised by a lock,
  take records before the error. \<open>event_step\<close> cuts both at every channel operation, so that the reader can
  run between any two looks of a consumer. \<open>es_wire\<close> and \<open>es_log\<close> record what was read and what consumers
  got; they decide nothing.
\<close>

section \<open>State\<close>

record account_event =
  ae_frame :: goval
  ae_raw :: raw_message

datatype consumer =
    Idle
  | Waiting
    \<comment> \<open>in the select over both channels and the context\<close>
  | Cancelled
    \<comment> \<open>the context was ready\<close>
  | CancelledNoError
    \<comment> \<open>the context was ready and no error was\<close>
  | Prioritizing goerr
    \<comment> \<open>\<open>prioritizePendingEvent\<close> with a read error in hand\<close>

datatype reader = Reading | Pushing account_event | Stopped

datatype event_result = Event account_event | Failure goerr

record event_stream =
  es_closed :: bool
  es_cancelled :: bool
  es_pendingErr :: "goerr option"
  es_messages :: "account_event list"
  es_errors :: "goerr list"
  es_channels_closed :: bool
  es_reader :: reader
  es_consumer :: consumer
  es_wire :: "account_event list"
  es_log :: "event_result list"

definition messageCapacity :: nat where "messageCapacity = 100"
definition errorCapacity :: nat where "errorCapacity = 10"

definition events_start :: event_stream where
  "events_start =
     \<lparr>es_closed = False, es_cancelled = False, es_pendingErr = None, es_messages = [], es_errors = [],
      es_channels_closed = False, es_reader = Reading, es_consumer = Idle, es_wire = [], es_log = []\<rparr>"

section \<open>The payload\<close>

definition decodeAccountEventPayload :: "raw_message \<Rightarrow> (string \<times> json) list outcome" where
  "decodeAccountEventPayload raw =
     obind (on_decode (json_decode TMap raw) (\<lambda>e. NewConnectionError ''invalid account event payload'' (Some e)))
       (\<lambda>v. case as_map v of
          None \<Rightarrow> Err (NewConnectionError ''account event payload must be an object'' None)
        | Some payload \<Rightarrow> Ok payload)"

section \<open>The reader\<close>

text \<open>A text frame from the socket: one that does not decode is skipped.\<close>

definition reader_frame :: "raw_message \<Rightarrow> event_stream \<Rightarrow> event_stream" where
  "reader_frame raw s =
     (case json_decode AccountEventFrame raw of
        Decoded frame \<Rightarrow> s\<lparr>es_reader := Pushing \<lparr>ae_frame = frame, ae_raw = raw\<rparr>\<rparr>
      | _ \<Rightarrow> s)"

definition reader_push :: "account_event \<Rightarrow> event_stream \<Rightarrow> event_stream" where
  "reader_push e s =
     s\<lparr>es_messages := es_messages s @ [e], es_wire := es_wire s @ [e], es_reader := Reading\<rparr>"

text \<open>A read error is left in the error channel and the context is cancelled.\<close>

definition reader_fail :: "goerr \<Rightarrow> event_stream \<Rightarrow> event_stream" where
  "reader_fail err s =
     s\<lparr>es_errors := (if length (es_errors s) < errorCapacity
                     then es_errors s @ [NewConnectionError ''failed to read message'' (Some err)] else es_errors s),
       es_reader := Stopped, es_cancelled := True\<rparr>"

definition reader_stop :: "event_stream \<Rightarrow> event_stream" where
  "reader_stop s = s\<lparr>es_reader := Stopped, es_cancelled := True\<rparr>"

section \<open>Consumers\<close>

definition give :: "event_result \<Rightarrow> event_stream \<Rightarrow> event_stream" where
  "give r s = s\<lparr>es_log := es_log s @ [r], es_consumer := Idle\<rparr>"

text \<open>\<open>case event, ok := <-ec.messageChan\<close> of a select with a default branch: None is the default.\<close>

definition try_message :: "event_stream \<Rightarrow> event_stream option" where
  "try_message s =
     (case es_messages s of
        m # ms \<Rightarrow> Some (give (Event m) (s\<lparr>es_messages := ms\<rparr>))
      | [] \<Rightarrow>
          if es_channels_closed s then Some (give (Failure (NewClosedError ''message channel closed'' [])) s)
          else None)"

text \<open>\<open>receiveRecord\<close> up to its first wait.\<close>

definition receive_start :: "event_stream \<Rightarrow> event_stream" where
  "receive_start s =
     (if es_closed s then give (Failure (NewClosedError ''connection is closed'' [])) s
      else case es_pendingErr s of
        Some e \<Rightarrow>
          (case try_message s of
             Some s' \<Rightarrow> s'
           | None \<Rightarrow> give (Failure e) (s\<lparr>es_pendingErr := None\<rparr>))
      | None \<Rightarrow>
          (case try_message s of Some s' \<Rightarrow> s' | None \<Rightarrow> s\<lparr>es_consumer := Waiting\<rparr>))"

text \<open>\<open>case err, ok := <-ec.errChan\<close>.\<close>

definition try_error :: "event_stream \<Rightarrow> event_stream option" where
  "try_error s =
     (case es_errors s of
        e # es \<Rightarrow> Some (s\<lparr>es_errors := es, es_consumer := Prioritizing e\<rparr>)
      | [] \<Rightarrow>
          if es_channels_closed s then Some (give (Failure (NewClosedError ''error channel closed'' [])) s)
          else None)"

definition prioritizePendingEvent :: "goerr \<Rightarrow> event_stream \<Rightarrow> event_stream" where
  "prioritizePendingEvent readErr s =
     (case es_messages s of
        m # ms \<Rightarrow> give (Event m) (s\<lparr>es_messages := ms, es_pendingErr := Some readErr\<rparr>)
      | [] \<Rightarrow>
          if es_channels_closed s then give (Failure (NewClosedError ''message channel closed'' [])) s
          else give (Failure readErr) s)"

definition receive_cancelled :: "event_stream \<Rightarrow> event_stream" where
  "receive_cancelled s =
     (case try_error s of Some s' \<Rightarrow> s' | None \<Rightarrow> s\<lparr>es_consumer := CancelledNoError\<rparr>)"

definition receive_last :: "event_stream \<Rightarrow> event_stream" where
  "receive_last s =
     (case try_message s of
        Some s' \<Rightarrow> s'
      | None \<Rightarrow> give (Failure (NewClosedError ''context cancelled'' [])) s)"

section \<open>Closing\<close>

text \<open>\<open>Close\<close>: the flag and the context first, the channels once the reader has stopped.\<close>

definition events_close :: "event_stream \<Rightarrow> event_stream" where
  "events_close s = s\<lparr>es_closed := True, es_cancelled := True\<rparr>"

definition events_close_channels :: "event_stream \<Rightarrow> event_stream" where
  "events_close_channels s = s\<lparr>es_channels_closed := True\<rparr>"

inductive event_step :: "event_stream \<Rightarrow> event_stream \<Rightarrow> bool" where
  ev_frame: "es_reader s = Reading \<Longrightarrow> event_step s (reader_frame raw s)"
| ev_push: "es_reader s = Pushing e \<Longrightarrow> length (es_messages s) < messageCapacity \<Longrightarrow> event_step s (reader_push e s)"
| ev_fail: "es_reader s = Reading \<Longrightarrow> event_step s (reader_fail err s)"
| ev_stop: "es_cancelled s \<Longrightarrow> es_reader s \<noteq> Stopped \<Longrightarrow> event_step s (reader_stop s)"
| ev_start: "es_consumer s = Idle \<Longrightarrow> event_step s (receive_start s)"
| ev_message: "es_consumer s = Waiting \<Longrightarrow> try_message s = Some s' \<Longrightarrow> event_step s s'"
| ev_error: "es_consumer s = Waiting \<Longrightarrow> try_error s = Some s' \<Longrightarrow> event_step s s'"
| ev_cancelled: "es_consumer s = Waiting \<Longrightarrow> es_cancelled s \<Longrightarrow> event_step s (s\<lparr>es_consumer := Cancelled\<rparr>)"
| ev_prioritize: "es_consumer s = Prioritizing e \<Longrightarrow> event_step s (prioritizePendingEvent e s)"
| ev_no_error: "es_consumer s = Cancelled \<Longrightarrow> event_step s (receive_cancelled s)"
| ev_last: "es_consumer s = CancelledNoError \<Longrightarrow> event_step s (receive_last s)"
| ev_context: "event_step s (s\<lparr>es_cancelled := True\<rparr>)"
| ev_close: "event_step s (events_close s)"
| ev_close_channels: "es_closed s \<Longrightarrow> es_reader s = Stopped \<Longrightarrow> event_step s (events_close_channels s)"

inductive event_reachable :: "event_stream \<Rightarrow> bool" where
  ev_init: "event_reachable events_start"
| ev_next: "event_reachable s \<Longrightarrow> event_step s s' \<Longrightarrow> event_reachable s'"

section \<open>Order\<close>

definition delivered :: "event_result list \<Rightarrow> account_event list" where
  "delivered rs = concat (map (\<lambda>r. case r of Event e \<Rightarrow> [e] | Failure _ \<Rightarrow> []) rs)"

lemma delivered_simps [simp]:
  "delivered [] = []" "delivered (l @ l') = delivered l @ delivered l'"
  "delivered [Event e] = [e]" "delivered [Failure f] = []"
  by (simp_all add: delivered_def)

text \<open>A read error is in one place at a time, and only after the reader has stopped.\<close>

fun held_error :: "consumer \<Rightarrow> goerr list" where
  "held_error (Prioritizing e) = [e]" | "held_error _ = []"

definition read_errors :: "event_stream \<Rightarrow> goerr list" where
  "read_errors s = es_errors s @ held_error (es_consumer s) @ (case es_pendingErr s of None \<Rightarrow> [] | Some e \<Rightarrow> [e])"

text \<open>What a log may look like: a read error comes only when nothing read before it is left.\<close>

definition is_read_error :: "goerr \<Rightarrow> bool" where
  "is_read_error e \<longleftrightarrow> (\<exists>c. e = NewConnectionError ''failed to read message'' (Some c))"

definition log_ok :: "event_stream \<Rightarrow> bool" where
  "log_ok s \<longleftrightarrow>
     (\<forall>pre e post. es_log s = pre @ Failure e # post \<longrightarrow> is_read_error e \<longrightarrow>
        delivered pre = es_wire s \<and> delivered post = [])"

definition event_inv :: "event_stream \<Rightarrow> bool" where
  "event_inv s \<longleftrightarrow>
     es_wire s = delivered (es_log s) @ es_messages s \<and>
     length (es_messages s) \<le> messageCapacity \<and>
     (read_errors s \<noteq> [] \<longrightarrow> es_reader s = Stopped) \<and>
     (\<forall>e\<in>set (read_errors s). is_read_error e) \<and>
     ((\<exists>e. is_read_error e \<and> Failure e \<in> set (es_log s)) \<longrightarrow> es_reader s = Stopped \<and> es_messages s = []) \<and>
     log_ok s"

lemma log_ok_cong: "es_log s' = es_log s \<Longrightarrow> es_wire s' = es_wire s \<Longrightarrow> log_ok s' = log_ok s"
  by (simp add: log_ok_def)

text \<open>A step that leaves log and wire alone.\<close>

lemma event_inv_same:
  assumes "event_inv s" and "es_log s' = es_log s" "es_wire s' = es_wire s" "es_messages s' = es_messages s"
    and "set (read_errors s') \<subseteq> set (read_errors s)" and "es_reader s = Stopped \<longrightarrow> es_reader s' = Stopped"
  shows "event_inv s'"
proof -
  have "read_errors s' \<noteq> [] \<longrightarrow> read_errors s \<noteq> []" using assms(5) by (cases "read_errors s'") auto
  moreover have "log_ok s'" using assms(1-3) log_ok_cong [of s' s] by (simp add: event_inv_def)
  moreover have "\<forall>e\<in>set (read_errors s'). is_read_error e" using assms(1,5) unfolding event_inv_def by blast
  ultimately show ?thesis using assms unfolding event_inv_def by simp
qed

lemma event_inv_start: "event_inv events_start"
  by (simp add: event_inv_def events_start_def messageCapacity_def read_errors_def log_ok_def)

lemma log_ok_event:
  assumes "log_ok s" and "es_wire s' = es_wire s"
    and "es_log s' = es_log s @ [Event m]" and "\<not> (\<exists>e. is_read_error e \<and> Failure e \<in> set (es_log s))"
  shows "log_ok s'"
  unfolding log_ok_def
proof (intro allI impI)
  fix pre e post
  assume l: "es_log s' = pre @ Failure e # post" and e: "is_read_error e"
  have "Failure e \<in> set (es_log s')" unfolding l by simp
  then have "Failure e \<in> set (es_log s)" using assms(3) by simp
  with assms(4) e show "delivered pre = es_wire s' \<and> delivered post = []" by blast
qed

lemma log_ok_failure:
  assumes "log_ok s" and "es_wire s' = es_wire s" and "es_log s' = es_log s @ [Failure f]"
    and "is_read_error f \<longrightarrow> delivered (es_log s) = es_wire s"
  shows "log_ok s'"
  unfolding log_ok_def
proof (intro allI impI)
  fix pre e post
  assume l: "es_log s' = pre @ Failure e # post" and e: "is_read_error e"
  show "delivered pre = es_wire s' \<and> delivered post = []"
  proof (cases post rule: rev_cases)
    case Nil
    then show ?thesis using l e assms by auto
  next
    case (snoc post' x)
    with l assms(3) have "es_log s = pre @ Failure e # post'" "x = Failure f" by simp_all
    with assms(1,2) e snoc show ?thesis unfolding log_ok_def by auto
  qed
qed

lemma not_read_error [simp]: "\<not> is_read_error (NewClosedError t cs)"
  by (simp add: is_read_error_def new_error_defs)

lemma no_failure_while_messages:
  "event_inv s \<Longrightarrow> es_messages s \<noteq> [] \<Longrightarrow> \<not> (\<exists>e. is_read_error e \<and> Failure e \<in> set (es_log s))"
  by (auto simp: event_inv_def)

text \<open>Delivering the oldest message, with the read error kept for later or not.\<close>

lemma inv_give_message:
  assumes "event_inv s" and "es_messages s = m # ms"
    and "set (read_errors (give (Event m) (s\<lparr>es_messages := ms, es_pendingErr := p\<rparr>))) \<subseteq> set (read_errors s)"
  shows "event_inv (give (Event m) (s\<lparr>es_messages := ms, es_pendingErr := p\<rparr>))" (is "event_inv ?s'")
proof -
  have none: "\<not> (\<exists>e. is_read_error e \<and> Failure e \<in> set (es_log s))"
    using no_failure_while_messages assms(1,2) by auto
  have "log_ok ?s'"
    using log_ok_event [of s ?s' m] assms(1) none by (simp add: event_inv_def give_def)
  moreover have "read_errors ?s' \<noteq> [] \<longrightarrow> read_errors s \<noteq> []"
    using assms(3) by (cases "read_errors ?s'") auto
  moreover have "\<forall>e\<in>set (read_errors ?s'). is_read_error e" using assms(1,3) unfolding event_inv_def by blast
  ultimately show ?thesis
    using assms(1,2) none by (auto simp: event_inv_def give_def)
qed

lemma inv_give_failure:
  assumes "event_inv s"
    and "set (read_errors (give (Failure f) (s\<lparr>es_pendingErr := p\<rparr>))) \<subseteq> set (read_errors s)"
    and "is_read_error f \<longrightarrow> es_messages s = [] \<and> es_reader s = Stopped"
  shows "event_inv (give (Failure f) (s\<lparr>es_pendingErr := p\<rparr>))" (is "event_inv ?s'")
proof -
  have "log_ok ?s'"
    using log_ok_failure [of s ?s' f] assms(1,3) by (simp add: event_inv_def give_def)
  moreover have "read_errors ?s' \<noteq> [] \<longrightarrow> read_errors s \<noteq> []"
    using assms(2) by (cases "read_errors ?s'") auto
  moreover have "\<forall>e\<in>set (read_errors ?s'). is_read_error e" using assms(1,2) unfolding event_inv_def by blast
  ultimately show ?thesis
    using assms(1,3) by (auto simp: event_inv_def give_def)
qed

lemma give_update_id: "give r s = give r (s\<lparr>es_pendingErr := es_pendingErr s\<rparr>)"
  by simp

lemma read_errors_give:
  "set (read_errors (give r (s\<lparr>es_pendingErr := es_pendingErr s\<rparr>))) \<subseteq> set (read_errors s)"
  "set (read_errors (give r (s\<lparr>es_messages := ms, es_pendingErr := es_pendingErr s\<rparr>))) \<subseteq> set (read_errors s)"
  "set (read_errors (give r (s\<lparr>es_pendingErr := None\<rparr>))) \<subseteq> set (read_errors s)"
  by (auto simp: read_errors_def give_def)

lemma inv_try_message:
  assumes "event_inv s" and "try_message s = Some s'"
  shows "event_inv s'"
proof (cases "es_messages s")
  case Nil
  then have "s' = give (Failure (NewClosedError ''message channel closed'' [])) s"
    using assms(2) by (auto simp: try_message_def split: if_splits)
  then show ?thesis
    using inv_give_failure [OF assms(1) read_errors_give(1)] by simp
next
  case (Cons m ms)
  then have "s' = give (Event m) (s\<lparr>es_messages := ms, es_pendingErr := es_pendingErr s\<rparr>)"
    using assms(2) by (simp add: try_message_def)
  then show ?thesis using inv_give_message [OF assms(1) Cons read_errors_give(2)] by simp
qed

lemma try_message_None: "try_message s = None \<Longrightarrow> es_messages s = []"
  by (auto simp: try_message_def split: list.splits)

lemma inv_consumer:
  assumes "event_inv s" and "held_error c = []" and "held_error (es_consumer s) = []"
  shows "event_inv (s\<lparr>es_consumer := c\<rparr>)"
  by (rule event_inv_same [OF assms(1)]) (use assms(2,3) in \<open>simp_all add: read_errors_def\<close>)

lemma inv_receive_start:
  assumes "event_inv s" and "es_consumer s = Idle"
  shows "event_inv (receive_start s)"
proof -
  have closed: "event_inv (give (Failure (NewClosedError t [])) s)" for t
    using inv_give_failure [OF assms(1) read_errors_give(1), of "NewClosedError t []"] by simp
  have pending: "event_inv (give (Failure e) (s\<lparr>es_pendingErr := None\<rparr>))"
    if "es_pendingErr s = Some e" "try_message s = None" for e
  proof -
    have "e \<in> set (read_errors s)" using that(1) by (simp add: read_errors_def)
    then have "is_read_error e" "es_reader s = Stopped" using assms(1) by (auto simp: event_inv_def)
    then show ?thesis
      using inv_give_failure [OF assms(1) read_errors_give(3), of e] try_message_None [OF that(2)] by simp
  qed
  have waiting: "event_inv (s\<lparr>es_consumer := Waiting\<rparr>)" using inv_consumer assms by simp
  show ?thesis
    using closed pending waiting inv_try_message [OF assms(1)]
    by (auto simp: receive_start_def split: option.splits)
qed

lemma inv_try_error:
  assumes "event_inv s" and "held_error (es_consumer s) = []" and "try_error s = Some s'"
  shows "event_inv s'"
proof (cases "es_errors s")
  case Nil
  then have "s' = give (Failure (NewClosedError ''error channel closed'' [])) s"
    using assms(3) by (auto simp: try_error_def split: if_splits)
  then show ?thesis using inv_give_failure [OF assms(1) read_errors_give(1)] by simp
next
  case (Cons e es)
  then have "s' = s\<lparr>es_errors := es, es_consumer := Prioritizing e\<rparr>"
    using assms(3) by (simp add: try_error_def)
  then show ?thesis
    by (intro event_inv_same [OF assms(1)]) (use assms(2) Cons in \<open>auto simp: read_errors_def\<close>)
qed

lemma inv_prioritize:
  assumes "event_inv s" and "es_consumer s = Prioritizing e"
  shows "event_inv (prioritizePendingEvent e s)"
proof -
  have e: "e \<in> set (read_errors s)" using assms(2) by (simp add: read_errors_def)
  then have err: "is_read_error e" "es_reader s = Stopped" using assms(1) by (auto simp: event_inv_def)
  show ?thesis
  proof (cases "es_messages s")
    case Nil
    have "event_inv (give (Failure (NewClosedError ''message channel closed'' [])) s)"
      using inv_give_failure [OF assms(1) read_errors_give(1)] by simp
    moreover have "event_inv (give (Failure e) s)"
      using inv_give_failure [OF assms(1) read_errors_give(1), of e] Nil err by simp
    ultimately show ?thesis using Nil by (simp add: prioritizePendingEvent_def)
  next
    case (Cons m ms)
    have "set (read_errors (give (Event m) (s\<lparr>es_messages := ms, es_pendingErr := Some e\<rparr>))) \<subseteq> set (read_errors s)"
      using e by (auto simp: read_errors_def give_def)
    from inv_give_message [OF assms(1) Cons this] show ?thesis using Cons by (simp add: prioritizePendingEvent_def)
  qed
qed

lemma inv_reader_push:
  assumes "event_inv s" and "es_reader s = Pushing e" and "length (es_messages s) < messageCapacity"
  shows "event_inv (reader_push e s)"
proof -
  have none: "\<not> (\<exists>f. is_read_error f \<and> Failure f \<in> set (es_log s))" and "read_errors s = []"
    using assms(1,2) by (auto simp: event_inv_def)
  moreover have "log_ok (reader_push e s)"
    unfolding log_ok_def
  proof (intro allI impI)
    fix pre f post
    assume l: "es_log (reader_push e s) = pre @ Failure f # post" and f: "is_read_error f"
    have "Failure f \<in> set (es_log s)" using l by (simp add: reader_push_def)
    then show "delivered pre = es_wire (reader_push e s) \<and> delivered post = []" using none f by blast
  qed
  ultimately show ?thesis using assms
    by (simp add: event_inv_def reader_push_def read_errors_def)
qed

lemma inv_reader_fail:
  assumes "event_inv s" and "es_reader s = Reading"
  shows "event_inv (reader_fail err s)"
proof -
  have "\<not> (\<exists>f. is_read_error f \<and> Failure f \<in> set (es_log s))" "read_errors s = []"
    using assms by (auto simp: event_inv_def)
  moreover have "log_ok (reader_fail err s)"
    using assms(1) log_ok_cong [of "reader_fail err s" s] by (simp add: event_inv_def reader_fail_def)
  moreover have "set (read_errors (reader_fail err s)) \<subseteq>
      insert (NewConnectionError ''failed to read message'' (Some err)) (set (read_errors s))"
    by (auto simp: read_errors_def reader_fail_def)
  moreover have "is_read_error (NewConnectionError ''failed to read message'' (Some err))"
    by (auto simp: is_read_error_def)
  ultimately show ?thesis using assms(1)
    by (auto simp: event_inv_def reader_fail_def)
qed

lemma event_step_inv: "event_step s s' \<Longrightarrow> event_inv s \<Longrightarrow> event_inv s'"
proof (induction rule: event_step.induct)
  case (ev_frame s raw)
  show ?case
    by (rule event_inv_same [OF ev_frame(2)])
       (use ev_frame(1) in \<open>auto simp: reader_frame_def read_errors_def split: decoded.splits\<close>)
next
  case (ev_stop s)
  show ?case by (rule event_inv_same [OF ev_stop(3)]) (simp_all add: reader_stop_def read_errors_def)
next
  case (ev_no_error s)
  then show ?case
    using inv_try_error [OF ev_no_error(2)] inv_consumer [OF ev_no_error(2), of CancelledNoError]
    by (auto simp: receive_cancelled_def split: option.splits)
next
  case (ev_last s)
  then show ?case
    using inv_try_message [OF ev_last(2)] inv_give_failure [OF ev_last(2) read_errors_give(1), of "NewClosedError ''context cancelled'' []"]
    by (auto simp: receive_last_def split: option.splits)
next
  case (ev_error s s')
  then show ?case using inv_try_error by simp
next
  case (ev_cancelled s)
  then show ?case using inv_consumer [of s Cancelled] by simp
next
  case (ev_context s)
  show ?case by (rule event_inv_same [OF ev_context]) (simp_all add: read_errors_def)
next
  case (ev_close s)
  show ?case by (rule event_inv_same [OF ev_close]) (simp_all add: events_close_def read_errors_def)
next
  case (ev_close_channels s)
  show ?case
    by (rule event_inv_same [OF ev_close_channels(3)]) (simp_all add: events_close_channels_def read_errors_def)
qed (auto intro: inv_reader_push inv_reader_fail inv_receive_start inv_try_message inv_prioritize)

lemma event_reachable_inv: "event_reachable s \<Longrightarrow> event_inv s"
  by (induction rule: event_reachable.induct) (auto intro: event_inv_start event_step_inv)

text \<open>C15: consumers see events in the order of the wire, each exactly once: at every moment the events read
  are those delivered followed by those still queued, at most 100. When a consumer gets the read error that
  ended the stream, every event read before it has been delivered, and none is delivered after it -
  however reader, consumers, cancellation and \<open>Close\<close> interleave.\<close>

theorem events_in_wire_order:
  assumes "event_reachable s"
  shows "es_wire s = delivered (es_log s) @ es_messages s \<and> length (es_messages s) \<le> 100 \<and>
         (\<forall>pre e post. es_log s = pre @ Failure e # post \<longrightarrow> is_read_error e \<longrightarrow>
            delivered pre = es_wire s \<and> delivered post = [])"
proof -
  have "log_ok s" "es_wire s = delivered (es_log s) @ es_messages s" "length (es_messages s) \<le> 100"
    using event_reachable_inv [OF assms] by (simp_all add: event_inv_def messageCapacity_def)
  then show ?thesis unfolding log_ok_def by blast
qed

definition example_failed_stream :: event_stream where
  "example_failed_stream =
     prioritizePendingEvent (NewConnectionError ''failed to read message'' (Some JSONError))
       (reader_fail JSONError (receive_start events_start)
          \<lparr>es_errors := [],
           es_consumer := Prioritizing (NewConnectionError ''failed to read message'' (Some JSONError))\<rparr>)"

lemma example_failed_stream_reachable: "event_reachable example_failed_stream"
proof -
  let ?e = "NewConnectionError ''failed to read message'' (Some JSONError)"
  let ?s1 = "receive_start events_start"
  let ?s2 = "reader_fail JSONError ?s1"
  let ?s3 = "?s2\<lparr>es_errors := [], es_consumer := Prioritizing ?e\<rparr>"
  have s1: "es_reader ?s1 = Reading" "es_consumer ?s1 = Waiting" "es_errors ?s1 = []"
    by (simp_all add: receive_start_def events_start_def try_message_def)
  have "event_reachable ?s1"
    by (rule ev_next [OF ev_init ev_start]) (simp add: events_start_def)
  from ev_next [OF this ev_fail [OF s1(1)]] have "event_reachable ?s2" .
  moreover have "try_error ?s2 = Some ?s3"
    using s1 by (simp add: try_error_def reader_fail_def errorCapacity_def)
  moreover have "es_consumer ?s2 = Waiting" using s1 by (simp add: reader_fail_def)
  ultimately have "event_reachable ?s3" using ev_next ev_error by metis
  from ev_next [OF this ev_prioritize, of ?e] show ?thesis by (simp add: example_failed_stream_def)
qed

theorem events_in_wire_order_witness:
  "es_log example_failed_stream = [] @ Failure (NewConnectionError ''failed to read message'' (Some JSONError)) # []
   \<and> delivered [] = es_wire example_failed_stream"
proof -
  have l: "es_log example_failed_stream =
      [] @ Failure (NewConnectionError ''failed to read message'' (Some JSONError)) # []"
    by (simp add: example_failed_stream_def prioritizePendingEvent_def reader_fail_def receive_start_def
        try_message_def events_start_def give_def)
  have "is_read_error (NewConnectionError ''failed to read message'' (Some JSONError))"
    by (auto simp: is_read_error_def)
  with events_in_wire_order [OF example_failed_stream_reachable] l show ?thesis by blast
qed

end
