(* ===== verification/DeviceSession.thy ===== *)
theory DeviceSession
  imports Negotiation Sdp "HOL-Library.Multiset"
begin

text \<open>
  The public device session, \<open>pkg/ring/device_session.go\<close> and \<open>device_session_start.go\<close>: the request checks, the
  negotiation and activation of a live session, its state and its commands. The record \<open>device_session\<close> wraps
  the session of theory \<open>Session\<close>, as the struct wraps \<open>core\<close>. What is sent through the signaling connection is
  returned as a list of frames, and the parameter \<open>transport\<close> says what sending each of them returns. A wait
  over a channel is a function of the messages that arrive before it ends.
\<close>

section \<open>Session descriptions\<close>

text \<open>\<open>sdp_type.go\<close>: the type of a description is a byte on the Go side and a word on the wire.\<close>

type_synonym sdp_type = "8 word"

definition SDPTypeUnknown :: sdp_type where "SDPTypeUnknown = 0"
definition SDPTypeOffer :: sdp_type where "SDPTypeOffer = 1"
definition SDPTypeAnswer :: sdp_type where "SDPTypeAnswer = 2"

lemmas sdp_type_defs = SDPTypeUnknown_def SDPTypeOffer_def SDPTypeAnswer_def

definition SDPType_String :: "sdp_type \<Rightarrow> string" where
  "SDPType_String t = (if t = SDPTypeOffer then ''offer'' else if t = SDPTypeAnswer then ''answer'' else [])"

definition SDPType_MarshalJSON :: "sdp_type \<Rightarrow> json outcome" where
  "SDPType_MarshalJSON t =
     (if SDPType_String t = []
      then Err (NewBadRequestError (''invalid SDP type '' @ dec_nat (unat t)) None)
      else Ok (JStr (SDPType_String t)))"

definition SDPType_UnmarshalJSON :: "raw_message \<Rightarrow> sdp_type outcome" where
  "SDPType_UnmarshalJSON encoded =
     obind (on_decode (json_string encoded) (\<lambda>e. NewBadRequestError ''invalid SDP type encoding'' (Some e)))
       (\<lambda>text. if text = ''offer'' then Ok SDPTypeOffer
               else if text = ''answer'' then Ok SDPTypeAnswer
               else Err (NewBadRequestError (''invalid SDP type '' @ go_quote text) None))"

section \<open>Requests\<close>

abbreviation ICETrickle :: string where "ICETrickle \<equiv> ''trickle''"
abbreviation ICENonTrickle :: string where "ICENonTrickle \<equiv> ''non_trickle''"

record start_request =
  req_DeviceID :: string
  req_OfferType :: sdp_type
  req_OfferSDP :: string
  req_AudioEnabled :: bool
  req_VideoEnabled :: bool
  req_MaxAge :: int
  req_ICEMode :: string

text \<open>\<open>strconv.ParseInt\<close> fails with an error of package \<open>strconv\<close>.\<close>

definition parse_int_error :: goerr where
  "parse_int_error = ExternalError ''strconv.ParseInt'' False"

definition positive_device :: "string \<Rightarrow> int outcome" where
  "positive_device text =
     (case parse_int64 text of
        None \<Rightarrow> Err (NewBadRequestError ''device ID must be a positive integer'' (Some parse_int_error))
      | Some i \<Rightarrow>
          if i \<le> 0 then Err (NewBadRequestError ''device ID must be a positive integer'' None) else Ok i)"

definition validateSessionRequest :: "('m, 's) sdp_lib \<Rightarrow> start_request \<Rightarrow> (int \<times> int) outcome" where
  "validateSessionRequest L req =
     obind (positive_device (req_DeviceID req)) (\<lambda>deviceID.
     if req_OfferType req \<noteq> SDPTypeOffer \<or> req_OfferSDP req = []
     then Err (NewBadRequestError ''offer must contain type offer and SDP'' None)
     else if req_ICEMode req \<notin> {[], ICETrickle, ICENonTrickle}
     then Err (NewBadRequestError (''unsupported ICE candidate mode '' @ go_quote (req_ICEMode req)) None)
     else case ParseSDP L (req_OfferSDP req) of
       Inl e \<Rightarrow> Err (NewBadRequestError ''invalid SDP offer'' (Some e))
     | Inr _ \<Rightarrow>
         let maxAge = (if req_MaxAge req = 0 then MaxSessionAge else req_MaxAge req) in
         if maxAge \<le> 0 \<or> maxAge > MaxSessionAge
         then Err (NewBadRequestError ''maximum session age must be between zero and sixty minutes'' None)
         else Ok (deviceID, maxAge))"

section \<open>The session and its end\<close>

record device_session =
  ds_core :: session
  ds_dialogID :: string
  ds_answerSDP :: string
  ds_offerSDP :: string
  ds_deviceID :: int
  ds_signalID :: string
  ds_riid :: string
  ds_iceMode :: string
  ds_closed :: bool
  ds_terminal :: "goerr option"
  ds_movement :: "(string \<times> string) list"
    \<comment> \<open>axis to direction\<close>
  ds_ready :: bool
  ds_done :: bool

datatype session_state = SessionActive | SessionClosed | SessionExpired | SessionFailed

definition device_State :: "device_session \<Rightarrow> session_state" where
  "device_State ds =
     (if \<not> ds_closed ds then SessionActive
      else case ds_terminal ds of
        None \<Rightarrow> SessionClosed
      | Some e \<Rightarrow>
          if errors_is e ErrExpired then SessionExpired
          else if \<not> errors_is e ErrClosed then SessionFailed
          else SessionClosed)"

definition terminate :: "goerr \<Rightarrow> device_session \<Rightarrow> device_session" where
  "terminate err ds =
     (if ds_closed ds then ds
      else ds\<lparr>ds_closed := True, ds_terminal := sessionError ''device session ended'' (Some err),
              ds_core := session_Fail (Some err) (ds_core ds)\<rparr>)"

definition session_matches_message :: "device_session \<Rightarrow> signaling_message \<Rightarrow> bool" where
  "session_matches_message ds m \<longleftrightarrow>
     msg_dialog m = ds_dialogID ds \<and>
     (case json_decode SessionBody (msg_body m) of
        Decoded body \<Rightarrow>
          as_int (field_of SessionBody ''doorbot_id'' body) = ds_deviceID ds \<and>
          as_string (field_of SessionBody ''session_id'' body) = ds_signalID ds
      | _ \<Rightarrow> False)"

text \<open>\<open>handle\<close>: what the reader does with a message of this session; None is a reader that blocks for ever.\<close>

definition device_handle :: "int \<Rightarrow> signaling_message \<Rightarrow> device_session \<Rightarrow> device_session option outcome" where
  "device_handle now m ds =
     (case session_Handle now m (ds_core ds) of
        Panic \<Rightarrow> Panic
      | Err e \<Rightarrow> Ok (Some (terminate e ds))
      | Ok None \<Rightarrow> Ok None
      | Ok (Some core) \<Rightarrow>
          let ds' = ds\<lparr>ds_core := core\<rparr> in
          Ok (Some (if msg_method m = MethodClose \<and> session_matches_message ds m
                    then terminate ErrClosed ds' else ds')))"

text \<open>A body that names the session, and the close frame built from it.\<close>

definition session_body :: "int \<Rightarrow> string \<Rightarrow> raw_message" where
  "session_body deviceID signalID =
     mustJSON SessionBody (struct_lit SessionBody
       [(''doorbot_id'', VInt deviceID), (''session_id'', VString signalID)])"

definition close_frame :: "string \<Rightarrow> string \<Rightarrow> int \<Rightarrow> string \<Rightarrow> signaling_message" where
  "close_frame dialog riid deviceID signalID =
     \<lparr>msg_method = MethodClose, msg_dialog = dialog, msg_riid = riid, msg_body = session_body deviceID signalID\<rparr>"

text \<open>
  \<open>watch\<close>, once its wait has returned \<open>err\<close>: an expired session and one that missed its heartbeats tell the peer;
  the wrapper is closed, leaves the connection's registry and is done.
\<close>

definition watch_end :: "goerr \<Rightarrow> device_session \<Rightarrow> signaling_message list \<times> device_session" where
  "watch_end err ds =
     ((if errors_is err ErrExpired \<or> errors_is err ErrHeartbeat
       then [close_frame (ds_dialogID ds) (ds_riid ds) (ds_deviceID ds) (ds_signalID ds)] else []),
      (if ds_closed ds then ds
       else ds\<lparr>ds_closed := True, ds_terminal := sessionError ''device session ended'' (Some err)\<rparr>)
        \<lparr>ds_done := True\<rparr>)"

text \<open>\<open>Receive\<close>.\<close>

definition device_Receive ::
  "goerr option \<Rightarrow> device_session \<Rightarrow> ((goerr option + signaling_message) \<times> device_session) list"
where
  "device_Receive ctxErr ds =
     map (\<lambda>(r, core).
            (case r of Received m \<Rightarrow> Inr m
             | ReceiveFailed e \<Rightarrow> Inl (sessionError ''device session receive failed'' e),
             ds\<lparr>ds_core := core\<rparr>))
       (session_Receive ctxErr (ds_core ds))"

text \<open>\<open>Wait\<close>, whose own wait for \<open>done\<close> is over: \<open>err\<close> is what the core's wait returned.\<close>

definition device_Wait_result :: "goerr option \<Rightarrow> goerr option \<Rightarrow> goerr option" where
  "device_Wait_result ctxErr err =
     (case ctxErr of
        Some e \<Rightarrow> sessionError ''device session wait canceled'' (Some e)
      | None \<Rightarrow> sessionError ''device session ended'' err)"

interpretation device_once: close_once ds_closed ds_terminal terminate
  "\<lambda>e. sessionError ''device session ended'' (Some e)"
  by unfold_locales (simp_all add: terminate_def)

section \<open>Pan, tilt and zoom\<close>

abbreviation PanAxis :: string where "PanAxis \<equiv> ''pan''"
abbreviation TiltAxis :: string where "TiltAxis \<equiv> ''tilt''"
abbreviation PanLeft :: string where "PanLeft \<equiv> ''LEFT''"
abbreviation PanRight :: string where "PanRight \<equiv> ''RIGHT''"
abbreviation TiltUp :: string where "TiltUp \<equiv> ''UP''"
abbreviation TiltDown :: string where "TiltDown \<equiv> ''DOWN''"

definition PTZMaxSpeed :: rat where "PTZMaxSpeed = 1"

definition PTZResult :: gotype where
  "PTZResult = TStruct
     [(''sessionId'', False, TString), (''timestamp'', False, TFloat), (''version'', False, TFloat)]"

record ptz_result =
  pr_fields :: goval
  pr_raw :: raw_message

text \<open>
  \<open>call\<close> up to its wait: the direction must be one of the wire's, the call is registered with the core, its frame
  is handed to the transport. The environment holds the error of the caller's context, the cause with which the
  call's own context was cancelled, the two clock readings and the transport.
\<close>

definition session_frame :: "string \<Rightarrow> signaling_message \<Rightarrow> signaling_message" where
  "session_frame riid m = (if msg_riid m = [] then m\<lparr>msg_riid := riid\<rparr> else m)"

datatype ptz_start = PTZReturned "ptz_result outcome" | PTZSent string nat signaling_message

definition finish_call :: "rpc_reply \<Rightarrow> ptz_result outcome" where
  "finish_call reply =
     (case sessionError ''PTZ command failed'' (reply_err reply) of
        Some e \<Rightarrow> Err e
      | None \<Rightarrow>
          obind (on_decode (json_decode PTZResult (reply_result reply))
                   (\<lambda>e. NewConnectionError ''invalid PTZ result'' (Some e)))
            (\<lambda>v. Ok \<lparr>pr_fields = v, pr_raw = reply_result reply\<rparr>))"

definition failed_call :: "goerr option \<Rightarrow> ptz_start" where
  "failed_call e = PTZReturned (finish_call \<lparr>reply_result = RawNil, reply_err = e\<rparr>)"

record call_env =
  ce_ctxErr :: "goerr option"
  ce_cause :: "goerr option"
  ce_now :: int
  ce_nowMilli :: int
  ce_transport :: "signaling_message \<Rightarrow> goerr option"

definition device_call_send ::
  "call_env \<Rightarrow> string \<Rightarrow> nat \<Rightarrow> raw_message \<Rightarrow> device_session \<Rightarrow> ptz_start \<times> device_session"
where
  "device_call_send env callid ch body ds =
     (case session_Send (ce_cause env) (ce_now env) MethodRPC body (ds_core ds) of
        (SendReturns e, core) \<Rightarrow>
          (failed_call (Call_send_error (ce_cause env) e core), ds\<lparr>ds_core := Call_end callid core\<rparr>)
      | (SendTransmits m, core) \<Rightarrow>
          (let m' = session_frame (ds_riid ds) m in
           case ce_transport env m' of
             Some e \<Rightarrow>
               (failed_call (Call_send_error (ce_cause env) (Some e) core), ds\<lparr>ds_core := Call_end callid core\<rparr>)
           | None \<Rightarrow> (PTZSent callid ch m', ds\<lparr>ds_core := core\<rparr>)))"

definition device_call_begin ::
  "call_env \<Rightarrow> string \<Rightarrow> string \<Rightarrow> gofloat option \<Rightarrow> device_session \<Rightarrow> (ptz_start \<times> device_session) outcome"
where
  "device_call_begin env method direction speed ds =
     (case enum_lookup PtzDirection_Values direction of
        None \<Rightarrow> Ok (PTZReturned (Err (NewBadRequestError ''invalid PTZ direction'' None)), ds)
      | Some wireDirection \<Rightarrow>
          obind (Call_begin (ce_ctxErr env) (ce_nowMilli env) method wireDirection speed (ds_core ds)) (\<lambda>(start, core).
          case start of
            CallReturns e \<Rightarrow> Ok (failed_call e, ds\<lparr>ds_core := core\<rparr>)
          | CallStarted callid ch body \<Rightarrow> Ok (device_call_send env callid ch body (ds\<lparr>ds_core := core\<rparr>))))"

text \<open>\<open>call\<close> from its wait on: one of the ready branches of the wait, then the end of the registration.\<close>

definition device_call_end ::
  "goerr option \<Rightarrow> string \<Rightarrow> nat \<Rightarrow> device_session \<Rightarrow> (ptz_result outcome \<times> device_session) list"
where
  "device_call_end cause callid ch ds =
     map (\<lambda>(reply, core). (finish_call reply, ds\<lparr>ds_core := Call_end callid core\<rparr>))
       (Call_wait cause ch (ds_core ds))"

section \<open>Continuous movement\<close>

definition axis_method :: "string \<Rightarrow> string" where
  "axis_method axis = (if axis = TiltAxis then RPCTiltContinuous else RPCPanContinuous)"

definition axis_directions :: "string \<Rightarrow> string set" where
  "axis_directions axis = (if axis = TiltAxis then {TiltUp, TiltDown} else {PanLeft, PanRight})"

definition valid_speed :: "gofloat \<Rightarrow> bool" where
  "valid_speed speed = (case speed of NotFinite \<Rightarrow> False | Finite q \<Rightarrow> \<not> (q < 0 \<or> q > PTZMaxSpeed))"

text \<open>
  \<open>PanContinuous\<close> and \<open>TiltContinuous\<close> with \<open>continuous\<close> up to the call: under the axis lock the movement is
  recorded and the one it replaces remembered.
\<close>

definition continuous_begin ::
  "string \<Rightarrow> string \<Rightarrow> gofloat \<Rightarrow> device_session \<Rightarrow> goerr + string option \<times> device_session"
where
  "continuous_begin axis direction speed ds =
     (if direction \<notin> axis_directions axis
      then Inl (NewBadRequestError (''invalid '' @ axis @ '' direction '' @ go_quote direction) None)
      else if \<not> valid_speed speed then Inl (NewBadRequestError (''invalid '' @ axis @ '' speed'') None)
      else if ds_closed ds then Inl (NewClosedError ''device session is closed'' [Some ErrClosed])
      else Inr (map_of (ds_movement ds) axis, ds\<lparr>ds_movement := gm_put axis direction (ds_movement ds)\<rparr>))"

text \<open>\<open>continuous\<close> from the call's result on: a failure puts the previous movement back.\<close>

definition continuous_end ::
  "string \<Rightarrow> string option \<Rightarrow> ptz_result outcome \<Rightarrow> device_session \<Rightarrow> device_session"
where
  "continuous_end axis previous result ds =
     (case result of
        Ok _ \<Rightarrow> ds
      | _ \<Rightarrow> ds\<lparr>ds_movement := (case previous of
                   Some d \<Rightarrow> gm_put axis d (ds_movement ds)
                 | None \<Rightarrow> gm_del axis (ds_movement ds))\<rparr>)"

text \<open>\<open>StopPTZ\<close> up to the call and from its result on.\<close>

definition StopPTZ_begin :: "string \<Rightarrow> device_session \<Rightarrow> goerr + string" where
  "StopPTZ_begin axis ds =
     (if axis \<notin> {PanAxis, TiltAxis} then Inl (NewBadRequestError ''invalid PTZ axis'' None)
      else if ds_closed ds then Inl (NewClosedError ''device session is closed'' [Some ErrClosed])
      else case map_of (ds_movement ds) axis of
        None \<Rightarrow> Inl (NewBadRequestError (''no tracked continuous movement for axis '' @ go_quote axis) None)
      | Some direction \<Rightarrow>
          if direction = []
          then Inl (NewBadRequestError (''no tracked continuous movement for axis '' @ go_quote axis) None)
          else Inr direction)"

definition StopPTZ_end :: "string \<Rightarrow> ptz_result outcome \<Rightarrow> device_session \<Rightarrow> device_session" where
  "StopPTZ_end axis result ds =
     (case result of Ok _ \<Rightarrow> ds\<lparr>ds_movement := gm_del axis (ds_movement ds)\<rparr> | _ \<Rightarrow> ds)"

text \<open>\<open>PanStep\<close> and \<open>TiltStep\<close> check their direction and call.\<close>

definition PanStep_begin ::
  "call_env \<Rightarrow> string \<Rightarrow> device_session \<Rightarrow> (ptz_start \<times> device_session) outcome"
where
  "PanStep_begin env direction ds =
     (if direction \<noteq> PanLeft \<and> direction \<noteq> PanRight
      then Err (NewBadRequestError (''invalid pan direction '' @ go_quote direction) None)
      else device_call_begin env RPCPanStep direction None ds)"

definition TiltStep_begin ::
  "call_env \<Rightarrow> string \<Rightarrow> device_session \<Rightarrow> (ptz_start \<times> device_session) outcome"
where
  "TiltStep_begin env direction ds =
     (if direction \<noteq> TiltUp \<and> direction \<noteq> TiltDown
      then Err (NewBadRequestError (''invalid tilt direction '' @ go_quote direction) None)
      else device_call_begin env RPCTiltStep direction None ds)"

section \<open>Closing\<close>

text \<open>
  \<open>closeWithContext\<close> under its three locks: the session is closed and its movements are taken out of the
  record. None when it was closed before.
\<close>

definition close_begin :: "device_session \<Rightarrow> ((string \<times> string) list \<times> device_session) option" where
  "close_begin ds =
     (if ds_closed ds then None
      else Some (ds_movement ds, ds\<lparr>ds_closed := True, ds_terminal := Some ErrClosed, ds_movement := []\<rparr>))"

text \<open>The close frame of the core, its end, and the end of the wrapper.\<close>

definition device_core_send ::
  "call_env \<Rightarrow> string \<Rightarrow> raw_message \<Rightarrow> device_session \<Rightarrow> signaling_message list \<times> goerr option \<times> device_session"
where
  "device_core_send env method body ds =
     (case session_Send (ce_ctxErr env) (ce_now env) method body (ds_core ds) of
        (SendReturns e, core) \<Rightarrow> ([], e, ds\<lparr>ds_core := core\<rparr>)
      | (SendTransmits m, core) \<Rightarrow>
          (let m' = session_frame (ds_riid ds) m in ([m'], ce_transport env m', ds\<lparr>ds_core := core\<rparr>)))"

definition close_end :: "call_env \<Rightarrow> bool \<Rightarrow> device_session \<Rightarrow> signaling_message list \<times> device_session" where
  "close_end env sendClose ds =
     (let (sent, _, ds') = (if sendClose then device_core_send env MethodClose RawNil ds else ([], None, ds))
      in (sent, ds'\<lparr>ds_core := session_Close (ds_core ds'), ds_done := True\<rparr>))"

section \<open>Other commands\<close>

definition SetMicrophone ::
  "call_env \<Rightarrow> bool \<Rightarrow> device_session \<Rightarrow> signaling_message list \<times> goerr option \<times> device_session"
where
  "SetMicrophone env enabled ds =
     (let (sent, e, ds') = device_core_send env MethodMicEnable
            (mustJSON SessionMicrophoneBody (struct_lit SessionMicrophoneBody
              [(''doorbot_id'', VInt (ds_deviceID ds)), (''session_id'', VString (ds_signalID ds)),
               (''enabled'', VBool enabled)])) ds
      in (sent, sessionError ''microphone command failed'' e, ds'))"

definition stream_options_body :: "device_session \<Rightarrow> bool option \<Rightarrow> bool option \<Rightarrow> raw_message option" where
  "stream_options_body ds audio video =
     (let ids = [(''doorbot_id'', VInt (ds_deviceID ds)), (''session_id'', VString (ds_signalID ds))] in
      case (audio, video) of
        (Some a, Some v) \<Rightarrow>
          Some (mustJSON SessionStreamAudioVideoOptionsBody (struct_lit SessionStreamAudioVideoOptionsBody
            (ids @ [(''audio_enabled'', VBool a), (''video_enabled'', VBool v)])))
      | (Some a, None) \<Rightarrow>
          Some (mustJSON SessionStreamAudioOptionsBody (struct_lit SessionStreamAudioOptionsBody
            (ids @ [(''audio_enabled'', VBool a)])))
      | (None, Some v) \<Rightarrow>
          Some (mustJSON SessionStreamVideoOptionsBody (struct_lit SessionStreamVideoOptionsBody
            (ids @ [(''video_enabled'', VBool v)])))
      | (None, None) \<Rightarrow> None)"

definition SetStreamOptions ::
  "call_env \<Rightarrow> bool option \<Rightarrow> bool option \<Rightarrow> device_session \<Rightarrow>
   signaling_message list \<times> goerr option \<times> device_session"
where
  "SetStreamOptions env audio video ds =
     (case stream_options_body ds audio video of
        None \<Rightarrow> ([], Some (NewBadRequestError ''at least one stream option is required'' None), ds)
      | Some body \<Rightarrow>
          (let (sent, e, ds') = device_core_send env MethodStreamOptions body ds
           in (sent, sessionError ''stream-options command failed'' e, ds')))"

definition device_SendICE ::
  "('m, 's) sdp_lib \<Rightarrow> string \<Rightarrow> string \<Rightarrow> int \<Rightarrow> device_session \<Rightarrow> goerr + signaling_message"
where
  "device_SendICE L candidate mid index ds =
     (if ds_iceMode ds \<noteq> ICETrickle then Inl (NewBadRequestError ''SendICE requires trickle ICE mode'' None)
      else case ParseSDP L (ds_offerSDP ds) of
        Inl e \<Rightarrow> Inl (NewInternalServerError ''stored offer SDP is invalid'' (Some e))
      | Inr desc \<Rightarrow>
          (case ValidateICE L (Some desc) mid index of
             Some e \<Rightarrow> Inl (NewBadRequestError ''invalid ICE candidate media identity'' (Some e))
           | None \<Rightarrow>
               if candidate = [] then Inl (NewBadRequestError ''ICE candidate must not be empty'' None)
               else Inr \<lparr>msg_method = MethodICE, msg_dialog = ds_dialogID ds, msg_riid = ds_riid ds,
                 msg_body = mustJSON LiveIceBody (struct_lit LiveIceBody
                   [(''doorbot_id'', VInt (ds_deviceID ds)), (''ice'', VString candidate), (''mid'', VString mid),
                    (''mlineindex'', VInt index)])\<rparr>))"

section \<open>Starting a session\<close>

text \<open>
  What a start meets: the contexts' errors, the dialog identifier drawn, the readings of the clock (at the
  start, at the check of the remaining age, and after it), the state
  of the connection when the start registers its queue and when it registers the session, what sending a
  frame returns, the successive pieces of the queue that its waits and the final drain read, and the errors
  with which the two waits end when their piece is used up.
\<close>

record start_env =
  se_ctxErr :: "goerr option"
  se_dialog :: string
  se_started :: int
  se_created :: int
  se_now :: int
  se_connErr :: "goerr option"
  se_registerErr :: "goerr option"
  se_newErr :: "goerr option"
  se_transport :: "signaling_message \<Rightarrow> goerr option"
  se_negotiation :: "signaling_message list"
  se_negotiationEnd :: goerr
  se_activation :: "(int \<times> signaling_message) list"
  se_activationEnd :: goerr
  se_queued :: "(int \<times> signaling_message) list"

definition NegotiationTimeout :: int where "NegotiationTimeout = 30 * second_ns"

definition negotiation_budget :: "int \<Rightarrow> int" where
  "negotiation_budget maxAge = min maxAge NegotiationTimeout"

definition live_view_frame :: "start_request \<Rightarrow> int \<Rightarrow> string \<Rightarrow> signaling_message" where
  "live_view_frame req deviceID dialog =
     \<lparr>msg_method = MethodLiveView, msg_dialog = dialog, msg_riid = [],
      msg_body = mustJSON LiveViewBody (struct_lit LiveViewBody
        [(''doorbot_id'', VInt deviceID),
         (''stream_options'', VPtr (Some (struct_lit LiveStreamOptions
            [(''audio_enabled'', VBool (req_AudioEnabled req)), (''video_enabled'', VBool (req_VideoEnabled req))]))),
         (''sdp'', VString (req_OfferSDP req)), (''type'', VString ''offer'')])\<rparr>"

definition prepareDeviceSession ::
  "('m, 's) sdp_lib \<Rightarrow> start_env \<Rightarrow> start_request \<Rightarrow> signaling_message list \<times> (int \<times> int) outcome"
where
  "prepareDeviceSession L env req =
     (case validateSessionRequest L req of
        Ok (deviceID, maxAge) \<Rightarrow>
          (case se_connErr env of
             Some e \<Rightarrow> ([], Err e)
           | None \<Rightarrow>
               (let m = live_view_frame req deviceID (se_dialog env) in
                case sessionError ''failed to send live-view offer'' (se_transport env m) of
                  Some e \<Rightarrow> ([m], Err e)
                | None \<Rightarrow> ([m], Ok (deviceID, maxAge))))
      | Err e \<Rightarrow> ([], Err e)
      | Panic \<Rightarrow> ([], Panic))"

definition createNegotiatedDeviceSession ::
  "('m, 's) sdp_lib \<Rightarrow> start_env \<Rightarrow> start_request \<Rightarrow> int \<Rightarrow> int \<Rightarrow> LiveNegotiation \<Rightarrow> goerr option \<Rightarrow>
   device_session outcome"
where
  "createNegotiatedDeviceSession L env req deviceID maxAge negotiated failed =
     (case sessionError ''live-view negotiation failed'' failed of
        Some e \<Rightarrow> Err e
      | None \<Rightarrow>
          if neg_ControlID negotiated = [] \<or> neg_ControlID negotiated = neg_SignalID negotiated
          then Err (NewConnectionError ''answer is missing an independent PTZ session identity'' None)
          else case NormalizeAnswer L (req_OfferSDP req) (neg_AnswerSDP negotiated) of
            Inl e \<Rightarrow> Err (NewConnectionError ''invalid SDP answer'' (Some e))
          | Inr answer \<Rightarrow>
              (case ParseSDP L answer of
                 Inl e \<Rightarrow> Err (NewConnectionError ''invalid SDP answer'' (Some e))
               | Inr _ \<Rightarrow>
                   let remaining = maxAge - (se_created env - se_started env) in
                   if remaining \<le> 0
                   then Err (NewConnectionError ''session expired during negotiation'' (Some ErrExpired))
                   else case NewSession (se_newErr env) (se_now env)
                       \<lparr>cfg_DeviceID = deviceID, cfg_DialogID = se_dialog env,
                        cfg_SignalID = neg_SignalID negotiated, cfg_ControlID = neg_ControlID negotiated,
                        cfg_Heartbeat = neg_Heartbeat negotiated, cfg_MaxAge = remaining, cfg_has_Send = True\<rparr> of
                     Panic \<Rightarrow> Panic
                   | Err e \<Rightarrow>
                       Err (case sessionError ''failed to create device session'' (Some e) of
                              Some e' \<Rightarrow> e' | None \<Rightarrow> e)
                   | Ok core \<Rightarrow>
                       Ok \<lparr>ds_core = core, ds_dialogID = se_dialog env, ds_answerSDP = answer,
                           ds_offerSDP = req_OfferSDP req, ds_deviceID = deviceID,
                           ds_signalID = neg_SignalID negotiated, ds_riid = neg_RIID negotiated,
                           ds_iceMode = (if req_ICEMode req = [] then ICETrickle else req_ICEMode req),
                           ds_closed = False, ds_terminal = None, ds_movement = [], ds_ready = False,
                           ds_done = False\<rparr>))"

definition start_call_env :: "start_env \<Rightarrow> call_env" where
  "start_call_env env =
     \<lparr>ce_ctxErr = None, ce_cause = None, ce_now = se_now env, ce_nowMilli = 0, ce_transport = se_transport env\<rparr>"

definition activate_frame :: "device_session \<Rightarrow> signaling_message" where
  "activate_frame ds =
     \<lparr>msg_method = MethodActivateSession, msg_dialog = ds_dialogID ds, msg_riid = ds_riid ds,
      msg_body = session_body (ds_deviceID ds) (ds_signalID ds)\<rparr>"

definition activateDeviceSession ::
  "call_env \<Rightarrow> bool \<Rightarrow> device_session \<Rightarrow> signaling_message list \<times> goerr option \<times> device_session"
where
  "activateDeviceSession env audio ds =
     (let m = activate_frame ds; ids = [(''doorbot_id'', VInt (ds_deviceID ds)), (''session_id'', VString (ds_signalID ds))] in
      case sessionError ''failed to activate device session'' (ce_transport env m) of
        Some e \<Rightarrow> ([m], Some e, ds)
      | None \<Rightarrow>
          (let (mic, e1, ds1) = device_core_send env MethodMicEnable
                 (mustJSON SessionMicrophoneBody (struct_lit SessionMicrophoneBody
                   (ids @ [(''enabled'', VBool audio)]))) ds in
           case sessionError ''failed to set microphone state'' e1 of
             Some e \<Rightarrow> ([m] @ mic, Some e, ds1)
           | None \<Rightarrow>
               (let (options, e2, ds2) = device_core_send env MethodStreamOptions
                      (mustJSON SessionStreamAudioOptionsBody (struct_lit SessionStreamAudioOptionsBody
                        (ids @ [(''audio_enabled'', VBool audio)]))) ds1 in
                ([m] @ mic @ options, sessionError ''failed to set stream options'' e2, ds2))))"

text \<open>
  \<open>waitForCameraStarted\<close>: the error that ended the wait, if any; None for a wait blocked in the core's handler.
\<close>

fun waitForCameraStarted ::
  "(int \<times> signaling_message) list \<Rightarrow> goerr \<Rightarrow> device_session \<Rightarrow> (goerr option \<times> device_session) option outcome"
where
  "waitForCameraStarted [] interrupted ds = Ok (Some (Some interrupted, ds))"
| "waitForCameraStarted ((now, m) # ms) interrupted ds =
     (if msg_method m = MethodSessionCreated \<or> msg_method m = MethodSDP
      then waitForCameraStarted ms interrupted ds
      else case session_Handle now m (ds_core ds) of
        Panic \<Rightarrow> Panic
      | Err e \<Rightarrow> Ok (Some (sessionError ''session activation message rejected'' (Some e), ds))
      | Ok None \<Rightarrow> Ok None
      | Ok (Some core) \<Rightarrow>
          (let ds' = ds\<lparr>ds_core := core\<rparr> in
           if msg_method m = MethodClose \<and> session_matches_message ds' m
           then Ok (Some (Some (NewClosedError ''device session closed before activation'' [Some ErrClosed]), ds'))
           else if msg_method m = MethodCameraStarted \<and> session_matches_message ds' m
           then Ok (Some (None, ds'\<lparr>ds_ready := True\<rparr>))
           else waitForCameraStarted ms interrupted ds'))"

text \<open>The drain of the queue after the session is registered.\<close>

fun device_handle_all :: "(int \<times> signaling_message) list \<Rightarrow> device_session \<Rightarrow> device_session option outcome" where
  "device_handle_all [] ds = Ok (Some ds)"
| "device_handle_all ((now, m) # ms) ds =
     (case device_handle now m ds of
        Ok (Some ds') \<Rightarrow> device_handle_all ms ds'
      | r \<Rightarrow> r)"

definition registered :: "start_env \<Rightarrow> device_session \<Rightarrow> (goerr option \<times> device_session) option outcome" where
  "registered env ds =
     (case se_registerErr env of
        Some e \<Rightarrow> Ok (Some (Some e, ds))
      | None \<Rightarrow> obind (device_handle_all (se_queued env) ds) (\<lambda>r. Ok (map_option (Pair None) r)))"

definition startAndRegisterDeviceSession ::
  "start_env \<Rightarrow> start_request \<Rightarrow> device_session \<Rightarrow>
   signaling_message list \<times> (goerr option \<times> device_session) option outcome"
where
  "startAndRegisterDeviceSession env req ds =
     (let (sent, failed, ds1) = activateDeviceSession (start_call_env env) (req_AudioEnabled req) ds in
      (sent,
       case failed of
         Some e \<Rightarrow> Ok (Some (Some e, ds1))
       | None \<Rightarrow>
           obind (waitForCameraStarted (se_activation env) (se_activationEnd env) ds1) (\<lambda>r.
           case r of
             None \<Rightarrow> Ok None
           | Some (Some e, ds2) \<Rightarrow> Ok (Some (sessionError ''device session did not become ready'' (Some e), ds2))
           | Some (None, ds2) \<Rightarrow> registered env ds2)))"

text \<open>
  \<open>finishDeviceSession\<close>: whatever fails once the signaling session is known, the peer is told to close it. The
  result is the session, or the error. A failed start also terminates the session it created, whose \<open>watch\<close>
  goroutine then ends with \<open>watch_end\<close>; the frames listed here are those of the start itself.
\<close>

definition negotiation_close :: "start_env \<Rightarrow> int \<Rightarrow> LiveNegotiation \<Rightarrow> signaling_message list" where
  "negotiation_close env deviceID negotiated =
     (if neg_SignalID negotiated = [] then []
      else [close_frame (se_dialog env) (neg_RIID negotiated) deviceID (neg_SignalID negotiated)])"

definition finishDeviceSession ::
  "('m, 's) sdp_lib \<Rightarrow> start_env \<Rightarrow> start_request \<Rightarrow> int \<Rightarrow> int \<Rightarrow>
   signaling_message list \<times> device_session option outcome"
where
  "finishDeviceSession L env req deviceID maxAge =
     (case AwaitLiveAnswer (se_negotiation env) deviceID (se_negotiationEnd env) of
        Panic \<Rightarrow> ([], Panic)
      | Err e \<Rightarrow> ([], Err e)
      | Ok (negotiated, failed) \<Rightarrow>
          (case createNegotiatedDeviceSession L env req deviceID maxAge negotiated failed of
             Panic \<Rightarrow> ([], Panic)
           | Err e \<Rightarrow> (negotiation_close env deviceID negotiated, Err e)
           | Ok created \<Rightarrow>
               (let (sent, r) = startAndRegisterDeviceSession env req created in
                case r of
                  Ok None \<Rightarrow> (sent, Ok None)
                | Ok (Some (None, ds)) \<Rightarrow> (sent, Ok (Some ds))
                | Ok (Some (Some e, ds)) \<Rightarrow> (sent @ negotiation_close env deviceID negotiated, Err e)
                | Err e \<Rightarrow> (sent, Err e)
                | Panic \<Rightarrow> (sent, Panic))))"

definition StartDeviceSession ::
  "('m, 's) sdp_lib \<Rightarrow> start_env \<Rightarrow> start_request \<Rightarrow> signaling_message list \<times> device_session option outcome"
where
  "StartDeviceSession L env req =
     (case se_ctxErr env of
        Some e \<Rightarrow> ([], Err (NewConnectionError ''session start canceled'' (Some e)))
      | None \<Rightarrow>
          (case prepareDeviceSession L env req of
             (sent, Ok (deviceID, maxAge)) \<Rightarrow>
               (let (sent', r) = finishDeviceSession L env req deviceID maxAge in (sent @ sent', r))
           | (sent, Err e) \<Rightarrow> (sent, Err e)
           | (sent, Panic) \<Rightarrow> (sent, Panic)))"

section \<open>Commands of an axis as steps\<close>

text \<open>
  The two axis locks serialise the commands of an axis: a phase says where its command is. \<open>AxisMoving\<close> and
  \<open>AxisStopping\<close> hold what the goroutine remembers, with the registered call once its frame is sent.
  \<open>pw_acks\<close> lists the acknowledged commands, newest first - a direction, or None for a stop - and
  \<open>pw_attempted\<close> the stops that closing has tried; both only record.
\<close>

datatype axis_phase =
    AxisFree
  | AxisMoving string "string option" gofloat "(string \<times> nat) option"
  | AxisStopping string "(string \<times> nat) option"

datatype closing = NotClosing | CloseStops "(string \<times> string) list" "(string \<times> nat) option" | CloseDone

record ptz_world =
  pw_session :: device_session
  pw_phase :: "string \<Rightarrow> axis_phase"
  pw_closing :: closing
  pw_sent :: "signaling_message list"
  pw_acks :: "(string \<times> string option) list"
  pw_attempted :: "(string \<times> string) list"

definition is_Ok :: "'a outcome \<Rightarrow> bool" where
  "is_Ok r = (case r of Ok _ \<Rightarrow> True | _ \<Rightarrow> False)"

definition finish_move ::
  "string \<Rightarrow> string \<Rightarrow> string option \<Rightarrow> ptz_result outcome \<Rightarrow> device_session \<Rightarrow> ptz_world \<Rightarrow> ptz_world"
where
  "finish_move axis direction previous r ds w =
     w\<lparr>pw_session := continuous_end axis previous r ds, pw_phase := (pw_phase w)(axis := AxisFree),
       pw_acks := (if is_Ok r then (axis, Some direction) # pw_acks w else pw_acks w)\<rparr>"

definition finish_stop :: "string \<Rightarrow> ptz_result outcome \<Rightarrow> device_session \<Rightarrow> ptz_world \<Rightarrow> ptz_world" where
  "finish_stop axis r ds w =
     w\<lparr>pw_session := StopPTZ_end axis r ds, pw_phase := (pw_phase w)(axis := AxisFree),
       pw_acks := (if is_Ok r then (axis, None) # pw_acks w else pw_acks w)\<rparr>"

inductive ptz_step :: "ptz_world \<Rightarrow> ptz_world \<Rightarrow> bool" where
  pz_move: "axis \<in> {PanAxis, TiltAxis} \<Longrightarrow> pw_phase w axis = AxisFree \<Longrightarrow>
    continuous_begin axis direction speed (pw_session w) = Inr (previous, ds) \<Longrightarrow>
    ptz_step w (w\<lparr>pw_session := ds, pw_phase := (pw_phase w)(axis := AxisMoving direction previous speed None)\<rparr>)"
| pz_move_sent: "pw_phase w axis = AxisMoving direction previous speed None \<Longrightarrow>
    device_call_begin env (axis_method axis) direction (Some speed) (pw_session w) = Ok (PTZSent callid ch m, ds) \<Longrightarrow>
    ptz_step w (w\<lparr>pw_session := ds, pw_sent := pw_sent w @ [m],
      pw_phase := (pw_phase w)(axis := AxisMoving direction previous speed (Some (callid, ch)))\<rparr>)"
| pz_move_failed: "pw_phase w axis = AxisMoving direction previous speed None \<Longrightarrow>
    device_call_begin env (axis_method axis) direction (Some speed) (pw_session w) = Ok (PTZReturned r, ds) \<Longrightarrow>
    ptz_step w (finish_move axis direction previous r ds w)"
| pz_move_end: "pw_phase w axis = AxisMoving direction previous speed (Some (callid, ch)) \<Longrightarrow>
    (r, ds) \<in> set (device_call_end cause callid ch (pw_session w)) \<Longrightarrow>
    ptz_step w (finish_move axis direction previous r ds w)"
| pz_stop: "pw_phase w axis = AxisFree \<Longrightarrow> StopPTZ_begin axis (pw_session w) = Inr direction \<Longrightarrow>
    ptz_step w (w\<lparr>pw_phase := (pw_phase w)(axis := AxisStopping direction None)\<rparr>)"
| pz_stop_sent: "pw_phase w axis = AxisStopping direction None \<Longrightarrow>
    device_call_begin env (axis_method axis) direction (Some (Finite 0)) (pw_session w) = Ok (PTZSent callid ch m, ds) \<Longrightarrow>
    ptz_step w (w\<lparr>pw_session := ds, pw_sent := pw_sent w @ [m],
      pw_phase := (pw_phase w)(axis := AxisStopping direction (Some (callid, ch)))\<rparr>)"
| pz_stop_failed: "pw_phase w axis = AxisStopping direction None \<Longrightarrow>
    device_call_begin env (axis_method axis) direction (Some (Finite 0)) (pw_session w) = Ok (PTZReturned r, ds) \<Longrightarrow>
    ptz_step w (finish_stop axis r ds w)"
| pz_stop_end: "pw_phase w axis = AxisStopping direction (Some (callid, ch)) \<Longrightarrow>
    (r, ds) \<in> set (device_call_end cause callid ch (pw_session w)) \<Longrightarrow>
    ptz_step w (finish_stop axis r ds w)"
| pz_core: "session_step (ds_core (pw_session w)) core \<Longrightarrow>
    ptz_step w (w\<lparr>pw_session := (pw_session w)\<lparr>ds_core := core\<rparr>\<rparr>)"
| pz_handle: "device_handle now m (pw_session w) = Ok (Some ds) \<Longrightarrow> ptz_step w (w\<lparr>pw_session := ds\<rparr>)"
| pz_terminate: "ptz_step w (w\<lparr>pw_session := terminate e (pw_session w)\<rparr>)"
| pz_watch: "ptz_step w (w\<lparr>pw_session := snd (watch_end e (pw_session w)),
      pw_sent := pw_sent w @ fst (watch_end e (pw_session w))\<rparr>)"
| pz_close: "pw_phase w PanAxis = AxisFree \<Longrightarrow> pw_phase w TiltAxis = AxisFree \<Longrightarrow>
    close_begin (pw_session w) = Some (moves, ds) \<Longrightarrow> mset order = mset moves \<Longrightarrow>
    ptz_step w (w\<lparr>pw_session := ds, pw_closing := CloseStops order None\<rparr>)"
| pz_close_sent: "pw_closing w = CloseStops ((axis, direction) # rest) None \<Longrightarrow>
    device_call_begin env (axis_method axis) direction (Some (Finite 0)) (pw_session w) = Ok (PTZSent callid ch m, ds) \<Longrightarrow>
    ptz_step w (w\<lparr>pw_session := ds, pw_sent := pw_sent w @ [m],
      pw_closing := CloseStops ((axis, direction) # rest) (Some (callid, ch))\<rparr>)"
| pz_close_failed: "pw_closing w = CloseStops ((axis, direction) # rest) None \<Longrightarrow>
    device_call_begin env (axis_method axis) direction (Some (Finite 0)) (pw_session w) = Ok (PTZReturned r, ds) \<Longrightarrow>
    ptz_step w (w\<lparr>pw_session := ds, pw_closing := CloseStops rest None,
      pw_attempted := pw_attempted w @ [(axis, direction)]\<rparr>)"
| pz_close_answered: "pw_closing w = CloseStops ((axis, direction) # rest) (Some (callid, ch)) \<Longrightarrow>
    (r, ds) \<in> set (device_call_end cause callid ch (pw_session w)) \<Longrightarrow>
    ptz_step w (w\<lparr>pw_session := ds, pw_closing := CloseStops rest None,
      pw_attempted := pw_attempted w @ [(axis, direction)]\<rparr>)"
| pz_close_end: "pw_closing w = CloseStops [] None \<Longrightarrow>
    ptz_step w (w\<lparr>pw_session := snd (close_end env True (pw_session w)),
      pw_sent := pw_sent w @ fst (close_end env True (pw_session w)), pw_closing := CloseDone\<rparr>)"

text \<open>A session as \<open>createNegotiatedDeviceSession\<close> makes it: open, with no movement.\<close>

definition fresh_session :: "device_session \<Rightarrow> bool" where
  "fresh_session ds \<longleftrightarrow> \<not> ds_closed ds \<and> ds_movement ds = []"

definition ptz_initial :: "device_session \<Rightarrow> ptz_world" where
  "ptz_initial ds =
     \<lparr>pw_session = ds, pw_phase = (\<lambda>_. AxisFree), pw_closing = NotClosing, pw_sent = [], pw_acks = [],
      pw_attempted = []\<rparr>"

inductive ptz_reachable :: "ptz_world \<Rightarrow> bool" where
  pz_new: "fresh_session ds \<Longrightarrow> ptz_reachable (ptz_initial ds)"
| pz_next: "ptz_reachable w \<Longrightarrow> ptz_step w w' \<Longrightarrow> ptz_reachable w'"

section \<open>What the movement record means\<close>

definition tracked :: "ptz_world \<Rightarrow> string \<Rightarrow> string option" where
  "tracked w axis = (case map_of (pw_acks w) axis of None \<Rightarrow> None | Some d \<Rightarrow> d)"

lemma tracked_updates [simp]:
  "tracked (w\<lparr>pw_session := ds\<rparr>) = tracked w" "tracked (w\<lparr>pw_phase := ph\<rparr>) = tracked w"
  "tracked (w\<lparr>pw_sent := sent\<rparr>) = tracked w" "tracked (w\<lparr>pw_closing := cl\<rparr>) = tracked w"
  "tracked (w\<lparr>pw_attempted := att\<rparr>) = tracked w"
  by (simp_all add: tracked_def fun_eq_iff)

text \<open>What each phase says about the record of its axis, in an open session.\<close>

definition axis_ok :: "ptz_world \<Rightarrow> string \<Rightarrow> bool" where
  "axis_ok w axis \<longleftrightarrow>
     (case pw_phase w axis of
        AxisFree \<Rightarrow> map_of (ds_movement (pw_session w)) axis = tracked w axis
      | AxisStopping d _ \<Rightarrow> map_of (ds_movement (pw_session w)) axis = Some d \<and> tracked w axis = Some d
      | AxisMoving d previous _ _ \<Rightarrow>
          map_of (ds_movement (pw_session w)) axis = Some d \<and> previous = tracked w axis)"

definition phase_known :: "string \<Rightarrow> axis_phase \<Rightarrow> bool" where
  "phase_known axis ph \<longleftrightarrow>
     (case ph of
        AxisFree \<Rightarrow> True
      | AxisMoving d _ _ _ \<Rightarrow> axis \<in> {PanAxis, TiltAxis} \<and> d \<in> axis_directions axis
      | AxisStopping _ _ \<Rightarrow> axis \<in> {PanAxis, TiltAxis})"

definition moves_ok :: "ptz_world \<Rightarrow> bool" where
  "moves_ok w \<longleftrightarrow>
     gm_wf (ds_movement (pw_session w)) \<and>
     (\<forall>axis. phase_known axis (pw_phase w axis)) \<and>
     (\<forall>axis d. tracked w axis = Some d \<longrightarrow> axis \<in> {PanAxis, TiltAxis} \<and> d \<in> axis_directions axis)"

text \<open>What closing still has to stop, and has tried to stop, is what was moving when it began.\<close>

definition closing_ok :: "ptz_world \<Rightarrow> bool" where
  "closing_ok w \<longleftrightarrow>
     (case pw_closing w of
        NotClosing \<Rightarrow> pw_attempted w = []
      | CloseStops rest _ \<Rightarrow>
          ds_closed (pw_session w) \<and> (\<forall>axis. pw_phase w axis = AxisFree) \<and>
          distinct (pw_attempted w @ rest) \<and>
          set (pw_attempted w @ rest) = {(axis, d). tracked w axis = Some d}
      | CloseDone \<Rightarrow>
          ds_closed (pw_session w) \<and> (\<forall>axis. pw_phase w axis = AxisFree) \<and> distinct (pw_attempted w) \<and>
          set (pw_attempted w) = {(axis, d). tracked w axis = Some d})"

definition ptz_inv :: "ptz_world \<Rightarrow> bool" where
  "ptz_inv w \<longleftrightarrow>
     moves_ok w \<and> closing_ok w \<and> (\<not> ds_closed (pw_session w) \<longrightarrow> (\<forall>axis. axis_ok w axis))"

subsection \<open>Operations that leave the record alone\<close>

definition same_moves :: "device_session \<Rightarrow> device_session \<Rightarrow> bool" where
  "same_moves ds ds' \<longleftrightarrow> ds_movement ds' = ds_movement ds \<and> (ds_closed ds \<longrightarrow> ds_closed ds')"

lemma device_call_send_core: "\<exists>core. snd (device_call_send env callid ch body ds) = ds\<lparr>ds_core := core\<rparr>"
  by (auto simp: device_call_send_def Let_def split: prod.splits send_result.splits option.splits)

lemma device_call_begin_core:
  assumes "device_call_begin env method direction speed ds = Ok (start, ds')"
  shows "\<exists>core. ds' = ds\<lparr>ds_core := core\<rparr>"
proof (cases "enum_lookup PtzDirection_Values direction")
  case None
  then have "ds' = ds\<lparr>ds_core := ds_core ds\<rparr>" using assms by (simp add: device_call_begin_def)
  then show ?thesis ..
next
  case (Some d)
  with assms obtain begun core where
    b: "(case begun of CallReturns e \<Rightarrow> Ok (failed_call e, ds\<lparr>ds_core := core\<rparr>)
         | CallStarted callid ch body \<Rightarrow> Ok (device_call_send env callid ch body (ds\<lparr>ds_core := core\<rparr>)))
        = Ok (start, ds')"
    by (auto simp: device_call_begin_def obind_Ok_iff)
  then show ?thesis
    using device_call_send_core [of env _ _ _ "ds\<lparr>ds_core := core\<rparr>"]
    by (cases begun) (auto, metis snd_conv)
qed

lemma device_call_end_core:
  "(r, ds') \<in> set (device_call_end cause callid ch ds) \<Longrightarrow> \<exists>core. ds' = ds\<lparr>ds_core := core\<rparr>"
  by (auto simp: device_call_end_def)

lemma same_moves_core [simp]: "same_moves ds (ds\<lparr>ds_core := core\<rparr>)"
  by (simp add: same_moves_def)

lemma same_moves_begin: "device_call_begin env method direction speed ds = Ok (start, ds') \<Longrightarrow> same_moves ds ds'"
  using device_call_begin_core by fastforce

lemma same_moves_end: "(r, ds') \<in> set (device_call_end cause callid ch ds) \<Longrightarrow> same_moves ds ds'"
  using device_call_end_core by fastforce

lemma same_moves_terminate: "same_moves ds (terminate e ds)"
  by (simp add: same_moves_def terminate_def)

lemma same_moves_handle: "device_handle now m ds = Ok (Some ds') \<Longrightarrow> same_moves ds ds'"
  by (auto simp: device_handle_def same_moves_def terminate_def Let_def split: outcome.splits option.splits if_splits)

lemma same_moves_watch: "same_moves ds (snd (watch_end e ds))"
  by (simp add: same_moves_def watch_end_def)

lemma same_moves_close_end: "same_moves ds (snd (close_end env sendClose ds))"
  by (auto simp: same_moves_def close_end_def device_core_send_def Let_def split: prod.splits send_result.splits)

lemmas same_moves_rules = same_moves_begin same_moves_end same_moves_terminate same_moves_handle
  same_moves_watch same_moves_close_end same_moves_core

lemma same_movesD:
  assumes "same_moves ds ds'"
  shows "ds_movement ds' = ds_movement ds" and "ds_closed ds \<Longrightarrow> ds_closed ds'"
  using assms by (simp_all add: same_moves_def)

lemma busy_axis:
  assumes "moves_ok w" and "pw_phase w axis \<noteq> AxisFree"
  shows "axis \<in> {PanAxis, TiltAxis}"
proof -
  have "phase_known axis (pw_phase w axis)" using assms(1) by (simp add: moves_ok_def)
  with assms(2) show ?thesis by (cases "pw_phase w axis") (simp_all add: phase_known_def)
qed

lemma axis_ok_cong:
  assumes "pw_phase w' axis = pw_phase w axis" and "tracked w' axis = tracked w axis"
    and "map_of (ds_movement (pw_session w')) axis = map_of (ds_movement (pw_session w)) axis"
  shows "axis_ok w' axis = axis_ok w axis"
  using assms by (simp add: axis_ok_def cong: axis_phase.case_cong)

text \<open>A step that changes neither the record nor what it is measured against.\<close>

lemma ptz_inv_same:
  assumes "ptz_inv w" and "same_moves (pw_session w) (pw_session w')" and "pw_phase w' = pw_phase w"
    and "pw_closing w' = pw_closing w" and "pw_acks w' = pw_acks w" and "pw_attempted w' = pw_attempted w"
  shows "ptz_inv w'"
proof -
  note m = same_movesD [OF assms(2)]
  have t: "tracked w' = tracked w" using assms(5) by (simp add: tracked_def fun_eq_iff)
  have "axis_ok w' axis = axis_ok w axis" for axis
    by (rule axis_ok_cong) (simp_all add: t m(1) assms(3))
  moreover have "moves_ok w'" using assms(1) by (simp add: ptz_inv_def moves_ok_def t m(1) assms(3))
  moreover have "closing_ok w'"
    using assms(1) m(2) by (auto simp: ptz_inv_def closing_ok_def t assms(3,4,6) split: closing.splits)
  ultimately show ?thesis using assms(1) m(2) by (auto simp: ptz_inv_def)
qed

text \<open>A command that goes from one phase of its axis to the next.\<close>

lemma ptz_inv_phase:
  assumes "ptz_inv w" and "same_moves (pw_session w) ds" and "pw_phase w axis \<noteq> AxisFree"
    and "w' = w\<lparr>pw_session := ds, pw_sent := sent, pw_phase := (pw_phase w)(axis := ph)\<rparr>"
    and "phase_known axis ph" and "axis_ok w axis \<Longrightarrow> axis_ok w' axis"
  shows "ptz_inv w'"
proof -
  note m = same_movesD [OF assms(2)]
  have t: "tracked w' = tracked w" using assms(4) by (simp add: tracked_def fun_eq_iff)
  have ax: "axis_ok w' a" if "axis_ok w a" for a
    using that assms(6) m(1) axis_ok_cong [of w' a w] t by (cases "a = axis") (simp_all add: assms(4))
  have "pw_closing w = NotClosing"
    using assms(1,3) by (cases "pw_closing w") (auto simp: ptz_inv_def closing_ok_def)
  then have "closing_ok w'" using assms(1,4) by (simp add: ptz_inv_def closing_ok_def)
  moreover have "moves_ok w'" using assms(1,5) m(1) unfolding ptz_inv_def moves_ok_def t by (simp add: assms(4))
  ultimately show ?thesis using assms(1,4) m(2) ax by (auto simp: ptz_inv_def)
qed

text \<open>A command that ends: the axis is free, and the record and the acknowledged commands agree again.\<close>

lemma ptz_inv_finish:
  assumes "ptz_inv w" and "pw_phase w axis \<noteq> AxisFree"
    and "pw_phase w' = (pw_phase w)(axis := AxisFree)" and "pw_closing w' = pw_closing w"
    and "pw_attempted w' = pw_attempted w"
    and "ds_closed (pw_session w) \<longrightarrow> ds_closed (pw_session w')"
    and "gm_wf (ds_movement (pw_session w'))"
    and "\<And>a. a \<noteq> axis \<Longrightarrow> map_of (ds_movement (pw_session w')) a = map_of (ds_movement (pw_session w)) a"
    and "\<And>a. a \<noteq> axis \<Longrightarrow> tracked w' a = tracked w a"
    and "axis_ok w axis \<Longrightarrow> map_of (ds_movement (pw_session w')) axis = tracked w' axis"
    and "\<And>d. tracked w' axis = Some d \<Longrightarrow> tracked w axis = Some d \<or> d \<in> axis_directions axis"
  shows "ptz_inv w'"
proof -
  have ax: "axis_ok w' a" if "axis_ok w a" for a
  proof (cases "a = axis")
    case True
    with that assms(3,10) show ?thesis by (simp add: axis_ok_def)
  next
    case False
    with that assms(3,8,9) axis_ok_cong [of w' a w] show ?thesis by simp
  qed
  have "pw_closing w = NotClosing"
    using assms(1,2) by (cases "pw_closing w") (auto simp: ptz_inv_def closing_ok_def)
  then have "closing_ok w'" using assms(1,4,5) by (simp add: ptz_inv_def closing_ok_def)
  moreover have known: "axis \<in> {PanAxis, TiltAxis}"
    using assms(1) busy_axis [OF _ assms(2)] by (simp add: ptz_inv_def)
  have "moves_ok w'"
    unfolding moves_ok_def
  proof (intro conjI allI impI)
    fix a d assume "tracked w' a = Some d"
    with known show "a \<in> {PanAxis, TiltAxis}" "d \<in> axis_directions a"
      using assms(1,9,11) unfolding ptz_inv_def moves_ok_def by metis+
  next
    fix a show "phase_known a (pw_phase w' a)"
      using assms(1,3) unfolding ptz_inv_def moves_ok_def by (simp add: phase_known_def)
  qed (fact assms(7))
  ultimately show ?thesis using assms(1,6) ax by (auto simp: ptz_inv_def)
qed

subsection \<open>Every step keeps the record right\<close>

lemma gm_wf_set: "gm_wf m \<Longrightarrow> set m = {(k, v). map_of m k = Some v} \<and> distinct m"
  by (auto simp: gm_wf_def strict_sorted_iff distinct_map intro: map_of_is_SomeI dest: map_of_SomeD)

lemma ptz_inv_wf: "ptz_inv w \<Longrightarrow> gm_wf (ds_movement (pw_session w))"
  by (simp add: ptz_inv_def moves_ok_def)

lemma finish_move_inv:
  assumes "ptz_inv w" and "pw_phase w axis = AxisMoving direction previous speed call"
    and "same_moves (pw_session w) ds"
  shows "ptz_inv (finish_move axis direction previous r ds w)" (is "ptz_inv ?w'")
proof (rule ptz_inv_finish [OF assms(1), of axis])
  note m = same_movesD [OF assms(3)] and wf = ptz_inv_wf [OF assms(1)]
  show "gm_wf (ds_movement (pw_session ?w'))"
    using wf by (simp add: finish_move_def continuous_end_def m(1) split: outcome.splits option.splits)
  show "ds_closed (pw_session w) \<longrightarrow> ds_closed (pw_session ?w')"
    using m(2) by (simp add: finish_move_def continuous_end_def split: outcome.splits)
  show "map_of (ds_movement (pw_session ?w')) a = map_of (ds_movement (pw_session w)) a" if "a \<noteq> axis" for a
    using that wf by (simp add: finish_move_def continuous_end_def m(1) split: outcome.splits option.splits)
  show "map_of (ds_movement (pw_session ?w')) axis = tracked ?w' axis" if "axis_ok w axis"
    using that wf assms(2)
    by (simp add: finish_move_def continuous_end_def m(1) axis_ok_def tracked_def is_Ok_def
        split: outcome.splits option.splits)
  have "phase_known axis (pw_phase w axis)" using assms(1) by (simp add: ptz_inv_def moves_ok_def)
  then have "direction \<in> axis_directions axis" by (simp add: phase_known_def assms(2))
  then show "tracked w axis = Some d \<or> d \<in> axis_directions axis" if "tracked ?w' axis = Some d" for d
    using that by (auto simp: finish_move_def tracked_def split: if_splits)
qed (simp_all add: finish_move_def tracked_def assms(2))

lemma finish_stop_inv:
  assumes "ptz_inv w" and "pw_phase w axis = AxisStopping direction call"
    and "same_moves (pw_session w) ds"
  shows "ptz_inv (finish_stop axis r ds w)" (is "ptz_inv ?w'")
proof (rule ptz_inv_finish [OF assms(1), of axis])
  note m = same_movesD [OF assms(3)] and wf = ptz_inv_wf [OF assms(1)]
  show "gm_wf (ds_movement (pw_session ?w'))"
    using wf by (simp add: finish_stop_def StopPTZ_end_def m(1) split: outcome.splits)
  show "ds_closed (pw_session w) \<longrightarrow> ds_closed (pw_session ?w')"
    using m(2) by (simp add: finish_stop_def StopPTZ_end_def split: outcome.splits)
  show "map_of (ds_movement (pw_session ?w')) axis = tracked ?w' axis" if "axis_ok w axis"
    using that wf assms(2)
    by (simp add: finish_stop_def StopPTZ_end_def m(1) axis_ok_def tracked_def is_Ok_def split: outcome.splits)
qed (use same_movesD [OF assms(3)] in
      \<open>auto simp: finish_stop_def StopPTZ_end_def tracked_def assms(2) split: outcome.splits if_splits\<close>)

lemma open_not_closing: "ptz_inv w \<Longrightarrow> \<not> ds_closed (pw_session w) \<Longrightarrow> pw_closing w = NotClosing"
  by (cases "pw_closing w") (auto simp: ptz_inv_def closing_ok_def)

lemma begin_move_inv:
  assumes "ptz_inv w" and "axis \<in> {PanAxis, TiltAxis}" and "pw_phase w axis = AxisFree"
    and "continuous_begin axis direction speed (pw_session w) = Inr (previous, ds)"
  shows "ptz_inv (w\<lparr>pw_session := ds, pw_phase := (pw_phase w)(axis := AxisMoving direction previous speed None)\<rparr>)"
    (is "ptz_inv ?w'")
proof -
  from assms(4) have b: "\<not> ds_closed (pw_session w)" "direction \<in> axis_directions axis"
      "previous = map_of (ds_movement (pw_session w)) axis"
      "ds = (pw_session w)\<lparr>ds_movement := gm_put axis direction (ds_movement (pw_session w))\<rparr>"
    by (auto simp: continuous_begin_def split: if_splits)
  have t: "tracked ?w' = tracked w" by simp
  note wf = ptz_inv_wf [OF assms(1)]
  have "axis_ok ?w' a" for a
  proof (cases "a = axis")
    case True
    have "axis_ok w axis" using assms(1) b(1) by (simp add: ptz_inv_def)
    with True show ?thesis using b assms(3) wf by (simp add: axis_ok_def t)
  next
    case False
    then have "axis_ok ?w' a = axis_ok w a" using b wf by (intro axis_ok_cong) (simp_all add: t)
    then show ?thesis using assms(1) b(1) by (simp add: ptz_inv_def)
  qed
  moreover have "moves_ok ?w'"
    using assms(1,2) b(2,4) wf unfolding ptz_inv_def moves_ok_def t by (simp add: phase_known_def)
  moreover have "closing_ok ?w'"
    using assms(1) open_not_closing [OF assms(1) b(1)] by (simp add: ptz_inv_def closing_ok_def)
  ultimately show ?thesis by (simp add: ptz_inv_def)
qed

lemma begin_stop_inv:
  assumes "ptz_inv w" and "pw_phase w axis = AxisFree" and "StopPTZ_begin axis (pw_session w) = Inr direction"
  shows "ptz_inv (w\<lparr>pw_phase := (pw_phase w)(axis := AxisStopping direction None)\<rparr>)" (is "ptz_inv ?w'")
proof -
  from assms(3) have b: "\<not> ds_closed (pw_session w)" "axis \<in> {PanAxis, TiltAxis}"
      "map_of (ds_movement (pw_session w)) axis = Some direction"
    by (auto simp: StopPTZ_begin_def split: if_splits option.splits)
  have t: "tracked ?w' = tracked w" by simp
  have "axis_ok ?w' a" for a
  proof (cases "a = axis")
    case True
    have "axis_ok w axis" using assms(1) b(1) by (simp add: ptz_inv_def)
    with True show ?thesis using b assms(2) by (simp add: axis_ok_def t)
  next
    case False
    then have "axis_ok ?w' a = axis_ok w a" by (intro axis_ok_cong) (simp_all add: t)
    then show ?thesis using assms(1) b(1) by (simp add: ptz_inv_def)
  qed
  moreover have "moves_ok ?w'"
    using assms(1) b(2) unfolding ptz_inv_def moves_ok_def t by (simp add: phase_known_def)
  moreover have "closing_ok ?w'"
    using assms(1) open_not_closing [OF assms(1) b(1)] by (simp add: ptz_inv_def closing_ok_def)
  ultimately show ?thesis by (simp add: ptz_inv_def)
qed

lemma begin_close_inv:
  assumes "ptz_inv w" and "pw_phase w PanAxis = AxisFree" and "pw_phase w TiltAxis = AxisFree"
    and "close_begin (pw_session w) = Some (moves, ds)" and "mset order = mset moves"
  shows "ptz_inv (w\<lparr>pw_session := ds, pw_closing := CloseStops order None\<rparr>)" (is "ptz_inv ?w'")
proof -
  from assms(4) have b: "\<not> ds_closed (pw_session w)" "moves = ds_movement (pw_session w)"
      "ds_closed ds" "ds_movement ds = []"
    by (auto simp: close_begin_def split: if_splits)
  have t: "tracked ?w' = tracked w" by simp
  have free: "pw_phase w a = AxisFree" for a
  proof (rule ccontr)
    assume n: "pw_phase w a \<noteq> AxisFree"
    then have "a \<in> {PanAxis, TiltAxis}" using assms(1) busy_axis [OF _ n] by (simp add: ptz_inv_def)
    with n assms(2,3) show False by auto
  qed
  have ok: "axis_ok w a" for a using assms(1) b(1) by (simp add: ptz_inv_def)
  have "map_of moves a = tracked w a" for a using free [of a] ok [of a] b(2) by (simp add: axis_ok_def)
  moreover have "set order = set moves" using mset_eq_setD assms(5) by blast
  moreover have "distinct order = distinct moves" using mset_eq_imp_distinct_iff assms(5) by blast
  ultimately have order: "set order = {(a, d). tracked w a = Some d}" "distinct order"
    using gm_wf_set [OF ptz_inv_wf [OF assms(1)]] b(2) by auto
  have "pw_attempted w = []"
    using assms(1) open_not_closing [OF assms(1) b(1)] by (simp add: ptz_inv_def closing_ok_def)
  then have "closing_ok ?w'" using order b(3) free by (simp add: closing_ok_def t)
  moreover have "moves_ok ?w'" using assms(1) b(4) unfolding ptz_inv_def moves_ok_def t by simp
  ultimately show ?thesis using b(3) by (simp add: ptz_inv_def)
qed

text \<open>A step of the closing goroutine.\<close>

lemma closing_inv:
  assumes "ptz_inv w" and "same_moves (pw_session w) ds" and "pw_closing w = CloseStops l call"
    and "cl = CloseDone \<and> att @ [] = pw_attempted w @ l \<or>
         (\<exists>rest call'. cl = CloseStops rest call' \<and> att @ rest = pw_attempted w @ l)"
  shows "ptz_inv (w\<lparr>pw_session := ds, pw_sent := sent, pw_closing := cl, pw_attempted := att\<rparr>)" (is "ptz_inv ?w'")
proof -
  note m = same_movesD [OF assms(2)]
  have t: "tracked ?w' = tracked w" by simp
  have c: "ds_closed (pw_session w)" using assms(1,3) by (simp add: ptz_inv_def closing_ok_def)
  have "closing_ok ?w'"
    using assms(1,3,4) m(2) by (auto simp: ptz_inv_def closing_ok_def t simp del: set_append distinct_append)
  moreover have "moves_ok ?w'" using assms(1) m(1) unfolding ptz_inv_def moves_ok_def t by simp
  ultimately show ?thesis using c m(2) by (simp add: ptz_inv_def)
qed

lemma ptz_step_inv: "ptz_step w w' \<Longrightarrow> ptz_inv w \<Longrightarrow> ptz_inv w'"
proof (induction rule: ptz_step.induct)
  case (pz_move_sent w axis direction previous speed env callid ch m ds)
  show ?case
    by (rule ptz_inv_phase [OF pz_move_sent(3) same_moves_begin [OF pz_move_sent(2)] _ refl])
       (use pz_move_sent same_movesD(1) [OF same_moves_begin [OF pz_move_sent(2)]] in
         \<open>auto simp: axis_ok_def phase_known_def ptz_inv_def moves_ok_def dest: spec [of _ axis]\<close>)
next
  case (pz_stop_sent w axis direction env callid ch m ds)
  show ?case
    by (rule ptz_inv_phase [OF pz_stop_sent(3) same_moves_begin [OF pz_stop_sent(2)] _ refl])
       (use pz_stop_sent same_movesD(1) [OF same_moves_begin [OF pz_stop_sent(2)]] in
         \<open>auto simp: axis_ok_def phase_known_def ptz_inv_def moves_ok_def dest: spec [of _ axis]\<close>)
next
  case (pz_close_sent w axis direction rest env callid ch m ds)
  from closing_inv [OF pz_close_sent(3) same_moves_begin [OF pz_close_sent(2)] pz_close_sent(1),
      of "CloseStops ((axis, direction) # rest) (Some (callid, ch))" "pw_attempted w"]
  show ?case by simp
next
  case (pz_close_failed w axis direction rest env r ds)
  from closing_inv [OF pz_close_failed(3) same_moves_begin [OF pz_close_failed(2)] pz_close_failed(1),
      of "CloseStops rest None" "pw_attempted w @ [(axis, direction)]" "pw_sent w"]
  show ?case by simp
next
  case (pz_close_answered w axis direction rest callid ch r ds cause)
  from closing_inv [OF pz_close_answered(3) same_moves_end [OF pz_close_answered(2)] pz_close_answered(1),
      of "CloseStops rest None" "pw_attempted w @ [(axis, direction)]" "pw_sent w"]
  show ?case by simp
next
  case (pz_close_end w env)
  from closing_inv [OF pz_close_end(2) same_moves_close_end pz_close_end(1), of CloseDone "pw_attempted w"]
  show ?case by simp
next
  case (pz_core w core)
  show ?case by (rule ptz_inv_same [OF pz_core(2)]) simp_all
next
  case (pz_handle now m w ds)
  show ?case by (rule ptz_inv_same [OF pz_handle(2)]) (simp_all add: same_moves_handle [OF pz_handle(1)])
next
  case (pz_terminate w e)
  show ?case by (rule ptz_inv_same [OF pz_terminate]) (simp_all add: same_moves_terminate)
next
  case (pz_watch w e)
  show ?case by (rule ptz_inv_same [OF pz_watch]) (simp_all add: same_moves_watch)
qed (auto intro: begin_move_inv begin_stop_inv begin_close_inv finish_move_inv finish_stop_inv
       same_moves_begin same_moves_end)

lemma ptz_initial_inv: "fresh_session ds \<Longrightarrow> ptz_inv (ptz_initial ds)"
  by (auto simp: ptz_inv_def moves_ok_def closing_ok_def axis_ok_def phase_known_def tracked_def ptz_initial_def
      fresh_session_def)

lemma ptz_reachable_inv: "ptz_reachable w \<Longrightarrow> ptz_inv w"
  by (induction rule: ptz_reachable.induct) (auto intro: ptz_initial_inv ptz_step_inv)

section \<open>What a started session is\<close>

text \<open>The identity of a session, which no operation changes.\<close>

definition core_ident :: "session \<Rightarrow> int \<times> string \<times> string \<times> string \<times> int \<times> int" where
  "core_ident s =
     (ss_deviceID s, ss_dialogID s, ss_signalID s, ss_controlID s, ss_heartbeat s, ss_expiresAt s)"

definition device_ident :: "device_session \<Rightarrow> (string \<times> int \<times> string \<times> string) \<times> (string \<times> string \<times> string) \<times> (int \<times> string \<times> string \<times> string \<times> int \<times> int)" where
  "device_ident ds =
     ((ds_dialogID ds, ds_deviceID ds, ds_signalID ds, ds_riid ds),
      (ds_answerSDP ds, ds_offerSDP ds, ds_iceMode ds), core_ident (ds_core ds))"

lemma core_ident_finish [simp]: "core_ident (session_finish e s) = core_ident s"
  by (simp add: core_ident_def session_finish_def)

lemma core_ident_Send: "session_Send c now method body s = (r, s') \<Longrightarrow> core_ident s' = core_ident s"
  by (auto simp: session_Send_def split: option.splits if_splits)

lemma core_ident_Handle:
  assumes "session_Handle now m s = Ok (Some s')"
  shows "core_ident s' = core_ident s"
  using assms
proof (cases rule: session_Handle_cases)
  case unchanged
  then show ?thesis by simp
next
  case pong
  then show ?thesis by (simp add: core_ident_def)
next
  case (queued s'')
  then show ?thesis by (auto simp: core_ident_def events_offer_def split: if_splits)
next
  case (reply callid rep)
  from reply(1) [symmetric] show ?thesis
    by (auto simp: core_ident_def deliver_reply_def split: option.splits if_splits)
qed

lemma device_ident_terminate [simp]: "device_ident (terminate e ds) = device_ident ds"
  by (simp add: device_ident_def terminate_def session_Fail_def)

lemma device_ident_core: "core_ident core = core_ident (ds_core ds) \<Longrightarrow> device_ident (ds\<lparr>ds_core := core\<rparr>) = device_ident ds"
  by (simp add: device_ident_def)

lemma device_ident_handle: "device_handle now m ds = Ok (Some ds') \<Longrightarrow> device_ident ds' = device_ident ds"
  by (auto simp: device_handle_def Let_def device_ident_core core_ident_Handle
      split: outcome.splits option.splits if_splits)

lemma device_ident_handle_all: "device_handle_all ms ds = Ok (Some ds') \<Longrightarrow> device_ident ds' = device_ident ds"
proof (induction ms arbitrary: ds)
  case (Cons p ms)
  obtain now m where p: "p = (now, m)" by (cases p)
  from Cons.prems obtain ds1 where "device_handle now m ds = Ok (Some ds1)" "device_handle_all ms ds1 = Ok (Some ds')"
    by (auto simp: p split: outcome.splits option.splits)
  with Cons.IH device_ident_handle show ?case by metis
qed simp

lemma device_core_send_facts:
  assumes "device_core_send env method body ds = (sent, e, ds')"
  shows "device_ident ds' = device_ident ds"
    and "session_inv (ds_core ds) \<Longrightarrow> session_inv (ds_core ds')"
    and "session_inv (ds_core ds) \<Longrightarrow> e = None \<Longrightarrow>
      \<exists>m. sent = [m] \<and> msg_method m = method \<and> msg_dialog m = ss_dialogID (ds_core ds) \<and> msg_riid m = ds_riid ds"
    and "\<forall>m\<in>set sent. msg_method m = method"
proof -
  obtain r core where s: "session_Send (ce_ctxErr env) (ce_now env) method body (ds_core ds) = (r, core)"
    by (cases "session_Send (ce_ctxErr env) (ce_now env) method body (ds_core ds)")
  have ds': "ds' = ds\<lparr>ds_core := core\<rparr>"
    using assms by (auto simp: device_core_send_def s Let_def split: send_result.splits)
  show "device_ident ds' = device_ident ds"
    unfolding ds' by (rule device_ident_core [OF core_ident_Send [OF s]])
  show "session_inv (ds_core ds')" if "session_inv (ds_core ds)"
    using session_Send_inv [OF that, of "ce_ctxErr env" "ce_now env" "method" body] s by (simp add: ds')
  show "\<exists>m. sent = [m] \<and> msg_method m = method \<and> msg_dialog m = ss_dialogID (ds_core ds) \<and> msg_riid m = ds_riid ds"
    if "session_inv (ds_core ds)" "e = None"
    using assms s that
    by (auto simp: device_core_send_def session_Send_def session_frame_def wrapSessionContextError_def Let_def
        session_inv_def terminal_ok_def split: option.splits if_splits)
  show "\<forall>m\<in>set sent. msg_method m = method"
    using assms s
    by (auto simp: device_core_send_def session_Send_def session_frame_def Let_def split: option.splits if_splits)
qed

text \<open>The frames of an activation, in order.\<close>

lemma activation_frames:
  assumes "activateDeviceSession env audio ds = (sent, None, ds')" and "session_inv (ds_core ds)"
  shows "device_ident ds' = device_ident ds \<and> session_inv (ds_core ds') \<and>
         (\<exists>m1 m2 m3. sent = [m1, m2, m3] \<and> m1 = activate_frame ds \<and> msg_method m2 = MethodMicEnable \<and>
            msg_method m3 = MethodStreamOptions \<and>
            msg_dialog m2 = ss_dialogID (ds_core ds) \<and> msg_dialog m3 = ss_dialogID (ds_core ds) \<and>
            msg_riid m2 = ds_riid ds \<and> msg_riid m3 = ds_riid ds)"
proof -
  from assms(1) obtain body1 body2 mic options ds1 where
      mic: "device_core_send env MethodMicEnable body1 ds = (mic, None, ds1)"
    and opt: "device_core_send env MethodStreamOptions body2 ds1 = (options, None, ds')"
    and sent: "sent = activate_frame ds # mic @ options"
    by (auto simp: activateDeviceSession_def Let_def split: option.splits prod.splits)
  note f1 = device_core_send_facts [OF mic] and f2 = device_core_send_facts [OF opt]
  have i1: "session_inv (ds_core ds1)" using f1(2) assms(2) .
  have "ss_dialogID (ds_core ds1) = ss_dialogID (ds_core ds)" "ds_riid ds1 = ds_riid ds"
    using f1(1) by (auto simp: device_ident_def core_ident_def)
  with f1(3) [OF assms(2) refl] f2(3) [OF i1 refl] f1(1) f2(1) f2(2) [OF i1] sent show ?thesis
    by auto
qed

lemma activation_methods:
  assumes "activateDeviceSession env audio ds = (sent, e, ds')"
  shows "\<forall>m\<in>set sent. msg_method m \<noteq> MethodClose"
proof -
  have "\<forall>m\<in>set (fst (device_core_send env mth body ds)). msg_method m = mth" for mth body ds
    using device_core_send_facts(4) by (metis prod.collapse)
  then have "\<forall>m\<in>set mic. msg_method m = mth" if "device_core_send env mth body ds = (mic, x)" for mic x mth body ds
    using that by (metis fst_conv)
  with assms show ?thesis
    by (auto simp: activateDeviceSession_def activate_frame_def Let_def split: option.splits prod.splits)
qed

lemma session_matches_ident:
  "device_ident ds' = device_ident ds \<Longrightarrow> session_matches_message ds' m = session_matches_message ds m"
  by (simp add: device_ident_def session_matches_message_def cong: decoded.case_cong)

lemma wait_camera_started:
  assumes "waitForCameraStarted ms e ds = Ok (Some (None, ds'))"
  shows "device_ident ds' = device_ident ds \<and> ds_closed ds' = ds_closed ds \<and>
         (\<exists>m\<in>snd ` set ms. msg_method m = MethodCameraStarted \<and> session_matches_message ds m)"
  using assms
proof (induction ms e ds rule: waitForCameraStarted.induct)
  case (2 now m ms e ds)
  show ?case
  proof (cases "msg_method m = MethodSessionCreated \<or> msg_method m = MethodSDP")
    case True
    with 2 show ?thesis by auto
  next
    case False
    with "2.prems" obtain core where h: "session_Handle now m (ds_core ds) = Ok (Some core)"
      by (auto split: outcome.splits option.splits)
    let ?ds = "ds\<lparr>ds_core := core\<rparr>"
    have i: "device_ident ?ds = device_ident ds" by (rule device_ident_core [OF core_ident_Handle [OF h]])
    note same = session_matches_ident [OF i]
    show ?thesis
    proof (cases "msg_method m = MethodCameraStarted \<and> session_matches_message ?ds m")
      case True
      with "2.prems" False h have "ds' = ?ds\<lparr>ds_ready := True\<rparr>" by (simp add: Let_def)
      moreover have "device_ident (?ds\<lparr>ds_ready := True\<rparr>) = device_ident ?ds" by (simp add: device_ident_def)
      ultimately show ?thesis using True i same by auto
    next
      case no: False
      with "2.prems" False h have r: "waitForCameraStarted ms e ?ds = Ok (Some (None, ds'))"
        by (auto simp: Let_def split: if_splits)
      from "2.IH"(2) [OF False h refl refl _ _ r] no "2.prems" False h i same show ?thesis
        by (auto simp: Let_def split: if_splits)
    qed
  qed
qed simp

lemma NewSession_ident:
  "NewSession ctxErr now config = Ok core \<Longrightarrow> cfg_MaxAge config \<noteq> 0 \<Longrightarrow>
     core_ident core = (cfg_DeviceID config, cfg_DialogID config, cfg_SignalID config, cfg_ControlID config,
       cfg_Heartbeat config, now + cfg_MaxAge config)"
  by (auto simp: NewSession_def core_ident_def Let_def split: if_splits option.splits)

lemma created_session:
  assumes "createNegotiatedDeviceSession L env req deviceID maxAge neg failed = Ok ds"
  shows "failed = None \<and> session_inv (ds_core ds) \<and> \<not> ds_closed ds \<and>
         NormalizeAnswer L (req_OfferSDP req) (neg_AnswerSDP neg) = Inr (ds_answerSDP ds) \<and>
         neg_ControlID neg \<noteq> neg_SignalID neg \<and>
         ds_dialogID ds = se_dialog env \<and> ds_deviceID ds = deviceID \<and> ds_signalID ds = neg_SignalID neg \<and>
         ds_riid ds = neg_RIID neg \<and>
         core_ident (ds_core ds) = (deviceID, se_dialog env, neg_SignalID neg, neg_ControlID neg, neg_Heartbeat neg,
           se_started env + maxAge + (se_now env - se_created env))"
proof -
  from assms obtain core where
      failed: "failed = None" and ids: "neg_ControlID neg \<noteq> neg_SignalID neg"
    and norm: "NormalizeAnswer L (req_OfferSDP req) (neg_AnswerSDP neg) = Inr (ds_answerSDP ds)"
    and rem: "maxAge - (se_created env - se_started env) > 0"
    and new: "NewSession (se_newErr env) (se_now env)
        \<lparr>cfg_DeviceID = deviceID, cfg_DialogID = se_dialog env,
         cfg_SignalID = neg_SignalID neg, cfg_ControlID = neg_ControlID neg,
         cfg_Heartbeat = neg_Heartbeat neg, cfg_MaxAge = maxAge - (se_created env - se_started env),
         cfg_has_Send = True\<rparr> = Ok core"
    and ds: "ds_core ds = core" "ds_dialogID ds = se_dialog env" "ds_deviceID ds = deviceID"
      "ds_signalID ds = neg_SignalID neg" "ds_riid ds = neg_RIID neg" "\<not> ds_closed ds"
    by (auto simp: createNegotiatedDeviceSession_def Let_def not_le split: option.splits if_splits sum.splits outcome.splits)
  from NewSession_ident [OF new] rem NewSession_inv [OF new] failed ids norm ds show ?thesis
    by simp
qed

lemma registered_ident:
  "registered env ds = Ok (Some (None, ds')) \<Longrightarrow> device_ident ds' = device_ident ds"
  by (auto simp: registered_def obind_Ok_iff device_ident_handle_all split: option.splits)

lemma started_session:
  assumes "startAndRegisterDeviceSession env req ds = (sent, Ok (Some (None, ds')))" and "session_inv (ds_core ds)"
  shows "device_ident ds' = device_ident ds \<and>
         (\<exists>m\<in>snd ` set (se_activation env). msg_method m = MethodCameraStarted \<and> session_matches_message ds' m) \<and>
         (\<exists>m2 m3. sent = [activate_frame ds, m2, m3] \<and> msg_method m2 = MethodMicEnable \<and>
            msg_method m3 = MethodStreamOptions \<and>
            msg_dialog m2 = ss_dialogID (ds_core ds) \<and> msg_dialog m3 = ss_dialogID (ds_core ds) \<and>
            msg_riid m2 = ds_riid ds \<and> msg_riid m3 = ds_riid ds)"
proof -
  from assms(1) obtain ds1 ds2 where
      act: "activateDeviceSession (start_call_env env) (req_AudioEnabled req) ds = (sent, None, ds1)"
    and wait: "waitForCameraStarted (se_activation env) (se_activationEnd env) ds1 = Ok (Some (None, ds2))"
    and reg: "registered env ds2 = Ok (Some (None, ds'))"
    by (auto simp: startAndRegisterDeviceSession_def obind_Ok_iff split: prod.splits option.splits)
  note a = activation_frames [OF act assms(2)] and w = wait_camera_started [OF wait] and r = registered_ident [OF reg]
  have "device_ident ds' = device_ident ds1" using w r by simp
  note same = session_matches_ident [OF this]
  from a show ?thesis using w r by (auto simp: same)
qed

lemma finishDeviceSession_Ok:
  assumes "finishDeviceSession L env req deviceID maxAge = (sent, Ok (Some ds))"
  shows "\<exists>neg failed created.
           AwaitLiveAnswer (se_negotiation env) deviceID (se_negotiationEnd env) = Ok (neg, failed) \<and>
           createNegotiatedDeviceSession L env req deviceID maxAge neg failed = Ok created \<and>
           startAndRegisterDeviceSession env req created = (sent, Ok (Some (None, ds)))"
proof -
  from assms obtain neg failed where
    a: "AwaitLiveAnswer (se_negotiation env) deviceID (se_negotiationEnd env) = Ok (neg, failed)"
    by (auto simp: finishDeviceSession_def split: outcome.splits)
  with assms obtain created where
    c: "createNegotiatedDeviceSession L env req deviceID maxAge neg failed = Ok created"
    by (auto simp: finishDeviceSession_def split: outcome.splits)
  obtain sent' r where s: "startAndRegisterDeviceSession env req created = (sent', r)"
    by (metis surj_pair)
  from assms a c s have "sent' = sent" "r = Ok (Some (None, ds))"
    by (auto simp: finishDeviceSession_def split: outcome.splits option.splits)
  with a c s show ?thesis by blast
qed

text \<open>C7: a start that returns a session has a valid request and a complete negotiation; it has sent exactly
  the offer, the activation, the microphone state and the stream options, in this order, for the dialog it
  drew; the peer has confirmed the camera for the session's own identifiers. The session has the device of
  the request, the negotiated identifiers - the control session differs from the signaling session - and
  the corrected answer; its deadline is the start plus the maximum age, late by no more than the time between
  the two readings of the clock.\<close>

theorem StartDeviceSession_sound:
  assumes "StartDeviceSession L env req = (frames, Ok (Some ds))"
  shows "\<exists>deviceID maxAge neg.
           validateSessionRequest L req = Ok (deviceID, maxAge) \<and>
           AwaitLiveAnswer (se_negotiation env) deviceID (se_negotiationEnd env) = Ok (neg, None) \<and>
           map msg_method frames = [MethodLiveView, MethodActivateSession, MethodMicEnable, MethodStreamOptions] \<and>
           map msg_dialog frames = replicate 4 (se_dialog env) \<and>
           map msg_riid (tl frames) = replicate 3 (neg_RIID neg) \<and>
           (\<exists>m\<in>snd ` set (se_activation env). msg_method m = MethodCameraStarted \<and> session_matches_message ds m) \<and>
           ds_deviceID ds = deviceID \<and> ds_signalID ds = neg_SignalID neg \<and>
           ss_controlID (ds_core ds) = neg_ControlID neg \<and> neg_ControlID neg \<noteq> neg_SignalID neg \<and>
           NormalizeAnswer L (req_OfferSDP req) (neg_AnswerSDP neg) = Inr (ds_answerSDP ds) \<and>
           ss_expiresAt (ds_core ds) = se_started env + maxAge + (se_now env - se_created env)"
proof -
  from assms obtain sent0 sent deviceID maxAge where
      prep: "prepareDeviceSession L env req = (sent0, Ok (deviceID, maxAge))"
    and fin: "finishDeviceSession L env req deviceID maxAge = (sent, Ok (Some ds))"
    and frames: "frames = sent0 @ sent"
    by (auto simp: StartDeviceSession_def split: option.splits outcome.splits prod.splits)
  from prep have valid: "validateSessionRequest L req = Ok (deviceID, maxAge)"
      and sent0: "sent0 = [live_view_frame req deviceID (se_dialog env)]"
    by (auto simp: prepareDeviceSession_def Let_def split: option.splits outcome.splits prod.splits)
  from finishDeviceSession_Ok [OF fin] obtain neg failed created where
      await: "AwaitLiveAnswer (se_negotiation env) deviceID (se_negotiationEnd env) = Ok (neg, failed)"
    and create: "createNegotiatedDeviceSession L env req deviceID maxAge neg failed = Ok created"
    and start: "startAndRegisterDeviceSession env req created = (sent, Ok (Some (None, ds)))" by blast
  note c = created_session [OF create]
  note s = started_session [OF start conjunct1 [OF conjunct2 [OF c]]]
  from c s have "ss_dialogID (ds_core created) = se_dialog env"
      "ss_controlID (ds_core ds) = neg_ControlID neg"
      "ss_expiresAt (ds_core ds) = se_started env + maxAge + (se_now env - se_created env)"
      "ds_deviceID ds = deviceID" "ds_signalID ds = neg_SignalID neg" "ds_answerSDP ds = ds_answerSDP created"
    by (auto simp: device_ident_def core_ident_def)
  with c s valid await frames sent0 show ?thesis
    by (auto simp: live_view_frame_def activate_frame_def numeral_eq_Suc)
qed

lemma waits_never_fail:
  "waitForCameraStarted ms e ds \<noteq> Err f" "device_handle now m ds \<noteq> Err f" "device_handle_all ms ds \<noteq> Err f"
proof -
  show "waitForCameraStarted ms e ds \<noteq> Err f"
    by (induction ms e ds rule: waitForCameraStarted.induct) (auto simp: Let_def split: outcome.splits option.splits)
  have h: "device_handle now m ds \<noteq> Err f" for now m ds
    by (auto simp: device_handle_def Let_def split: outcome.splits option.splits)
  then show "device_handle now m ds \<noteq> Err f" .
  show "device_handle_all ms ds \<noteq> Err f"
    by (induction ms ds rule: device_handle_all.induct) (use h in \<open>auto split: outcome.splits option.splits\<close>)
qed

lemma registered_never_fails: "registered env ds \<noteq> Err f"
  by (auto simp: registered_def obind_Err_iff waits_never_fail split: option.splits)

lemma startAndRegister_never_fails: "snd (startAndRegisterDeviceSession env req ds) \<noteq> Err f"
proof -
  obtain sent failed ds1 where
    a: "activateDeviceSession (start_call_env env) (req_AudioEnabled req) ds = (sent, failed, ds1)"
    by (metis surj_pair)
  show ?thesis
    by (auto simp: startAndRegisterDeviceSession_def a obind_Err_iff waits_never_fail registered_never_fails
        split: option.splits)
qed

lemma startAndRegister_methods:
  "\<forall>m\<in>set (fst (startAndRegisterDeviceSession env req ds)). msg_method m \<noteq> MethodClose"
  using activation_methods
  by (auto simp: startAndRegisterDeviceSession_def split: prod.splits)

text \<open>C5: once the peer has named a signaling session, a start that fails - in the negotiation, at the answer, in
  the activation, while waiting for the camera or at the registration - tells the peer to close exactly
  this session, as its last frame; a start that fails before sends no close frame.\<close>

theorem StartDeviceSession_failure_closes:
  assumes "StartDeviceSession L env req = (frames, Err e)" and "se_ctxErr env = None" and "se_connErr env = None"
    and "validateSessionRequest L req = Ok (deviceID, maxAge)"
    and "se_transport env (live_view_frame req deviceID (se_dialog env)) = None"
    and "AwaitLiveAnswer (se_negotiation env) deviceID (se_negotiationEnd env) = Ok (neg, failed)"
  shows "filter (\<lambda>m. msg_method m = MethodClose) frames =
           (if neg_SignalID neg = [] then []
            else [close_frame (se_dialog env) (neg_RIID neg) deviceID (neg_SignalID neg)]) \<and>
         (neg_SignalID neg \<noteq> [] \<longrightarrow>
            last frames = close_frame (se_dialog env) (neg_RIID neg) deviceID (neg_SignalID neg))"
proof -
  let ?close = "negotiation_close env deviceID neg"
  from assms(1-5) have fin: "\<exists>sent. finishDeviceSession L env req deviceID maxAge = (sent, Err e) \<and>
      frames = live_view_frame req deviceID (se_dialog env) # sent"
    by (auto simp: StartDeviceSession_def prepareDeviceSession_def Let_def split: prod.splits)
  then obtain sent where sent: "finishDeviceSession L env req deviceID maxAge = (sent, Err e)"
      "frames = live_view_frame req deviceID (se_dialog env) # sent" by blast
  have "\<exists>pre. sent = pre @ ?close \<and> (\<forall>m\<in>set pre. msg_method m \<noteq> MethodClose)"
  proof (cases "createNegotiatedDeviceSession L env req deviceID maxAge neg failed")
    case (Ok created)
    with sent(1) assms(6) startAndRegister_never_fails [of env req created] obtain pre where
      "fst (startAndRegisterDeviceSession env req created) = pre" "sent = pre @ ?close"
      by (auto simp: finishDeviceSession_def split: prod.splits outcome.splits option.splits)
    then show ?thesis using startAndRegister_methods by blast
  qed (use sent(1) assms(6) in \<open>auto simp: finishDeviceSession_def\<close>)
  moreover have "msg_method (live_view_frame req deviceID (se_dialog env)) \<noteq> MethodClose"
    by (simp add: live_view_frame_def)
  ultimately show ?thesis using sent(2)
    by (auto simp: negotiation_close_def close_frame_def split: if_splits)
qed

section \<open>Requests and states\<close>

text \<open>What a start request must satisfy, with the device and the maximum age it stands for.\<close>

definition start_ok :: "('m, 's) sdp_lib \<Rightarrow> start_request \<Rightarrow> int \<Rightarrow> int \<Rightarrow> bool" where
  "start_ok L req deviceID maxAge \<longleftrightarrow>
     parse_int64 (req_DeviceID req) = Some deviceID \<and> 0 < deviceID \<and>
     req_OfferType req = SDPTypeOffer \<and> req_OfferSDP req \<noteq> [] \<and>
     req_ICEMode req \<in> {[], ICETrickle, ICENonTrickle} \<and>
     (\<exists>d. ParseSDP L (req_OfferSDP req) = Inr d) \<and>
     maxAge = (if req_MaxAge req = 0 then MaxSessionAge else req_MaxAge req) \<and> 0 < maxAge \<and> maxAge \<le> MaxSessionAge"

lemma bad_request_error [simp]: "IsBadRequestError (Some (NewBadRequestError m c))"
  by (rule bad_request.member_top) (simp add: new_error_defs)

text \<open>A start request is accepted exactly when its device is a positive 64-bit decimal, its offer is typed as
  an offer and parses, its ICE mode is known, and its age lies between zero and sixty minutes, where zero
  stands for sixty minutes; every other request is refused with a bad-request error.\<close>

theorem validateSessionRequest_outcome:
  "case validateSessionRequest L req of
     Ok (deviceID, maxAge) \<Rightarrow> start_ok L req deviceID maxAge
   | Err e \<Rightarrow> IsBadRequestError (Some e) \<and> \<not> (\<exists>deviceID maxAge. start_ok L req deviceID maxAge)
   | Panic \<Rightarrow> False"
proof (cases "parse_int64 (req_DeviceID req)")
  case None
  then show ?thesis by (simp add: validateSessionRequest_def positive_device_def start_ok_def)
next
  case (Some d)
  have pos: "0 < MaxSessionAge" by (simp add: MaxSessionAge_def second_ns_def)
  show ?thesis
  proof (cases "ParseSDP L (req_OfferSDP req)")
    case (Inl e)
    with Some show ?thesis
      by (auto simp: validateSessionRequest_def positive_device_def start_ok_def)
  next
    case (Inr sd)
    with Some pos show ?thesis
      by (auto simp: validateSessionRequest_def positive_device_def start_ok_def Let_def)
  qed
qed

lemma sentinel_in_chain:
  assumes "sessionError m (Some e) = Some e'"
  shows "errors_is e' (TerminalError t) = errors_is e (TerminalError t)"
  by (rule sessionError_cases [of m e]) (use assms in \<open>auto simp: errors_is_def error_chain_Some\<close>)

text \<open>The state of a device session is decided by what ended it first - the peer's close, a failure of the
  connection, an expiry, missed heartbeats - whatever ends it again: expired if the cause is an expiry, closed
  if it is an ordinary close, failed otherwise. \<open>Wait\<close> and \<open>terminalError\<close> return that cause in a public family,
  and the core session ends with it.\<close>

theorem device_State_first_cause:
  assumes "\<not> ds_closed ds" and "\<not> ss_closed (ds_core ds)"
  shows "device_State (fold terminate (e # es) ds) =
           (if errors_is e ErrExpired then SessionExpired
            else if errors_is e ErrClosed then SessionClosed else SessionFailed) \<and>
         ds_terminal (fold terminate (e # es) ds) = sessionError ''device session ended'' (Some e) \<and>
         ss_terminal (ds_core (fold terminate (e # es) ds)) = Some e"
proof -
  have all: "fold terminate (e # es) ds = terminate e ds"
    using device_once.fold_stop_ended [OF device_once.stop_ends] by simp
  obtain e' where e': "sessionError ''device session ended'' (Some e) = Some e'"
    by (cases "sessionError ''device session ended'' (Some e)") auto
  have "errors_is e' ErrExpired = errors_is e ErrExpired" "errors_is e' ErrClosed = errors_is e ErrClosed"
    using sentinel_in_chain [OF e'] by (simp_all add: ErrExpired_def ErrClosed_def)
  then show ?thesis
    unfolding all using assms e'
    by (simp add: terminate_def device_State_def session_Fail_def session_finish_def)
qed

section \<open>Movement\<close>

text \<open>C3: in an open session the movement recorded for an axis is the direction of its last acknowledged
  continuous command, or nothing after an acknowledged stop - so \<open>StopPTZ\<close> finds exactly what the camera was
  last told to do - except while a command is in flight: then the record holds the new direction, and the
  command remembers the acknowledged one it falls back to. This holds for every interleaving of commands,
  replies, failures and the endings of the session.\<close>

theorem movement_is_last_acknowledged:
  assumes "ptz_reachable w" and "\<not> ds_closed (pw_session w)"
  shows "case pw_phase w axis of
           AxisFree \<Rightarrow>
             map_of (ds_movement (pw_session w)) axis = tracked w axis \<and>
             (\<forall>d. StopPTZ_begin axis (pw_session w) = Inr d \<longleftrightarrow> tracked w axis = Some d)
         | AxisStopping d _ \<Rightarrow>
             map_of (ds_movement (pw_session w)) axis = Some d \<and> tracked w axis = Some d
         | AxisMoving d previous _ _ \<Rightarrow>
             map_of (ds_movement (pw_session w)) axis = Some d \<and> previous = tracked w axis"
proof -
  have inv: "ptz_inv w" using assms(1) by (rule ptz_reachable_inv)
  then have ok: "axis_ok w axis" using assms(2) by (simp add: ptz_inv_def)
  show ?thesis
  proof (cases "pw_phase w axis")
    case AxisFree
    then have m: "map_of (ds_movement (pw_session w)) axis = tracked w axis" using ok by (simp add: axis_ok_def)
    have "axis \<in> {PanAxis, TiltAxis} \<and> d \<noteq> []" if "tracked w axis = Some d" for d
    proof -
      have "axis \<in> {PanAxis, TiltAxis}" "d \<in> axis_directions axis"
        using inv that unfolding ptz_inv_def moves_ok_def by blast+
      then show ?thesis by (auto simp: axis_directions_def split: if_splits)
    qed
    then show ?thesis using AxisFree m assms(2) by (cases "tracked w axis") (auto simp: StopPTZ_begin_def)
  qed (use ok in \<open>simp_all add: axis_ok_def\<close>)
qed

text \<open>C9: a session that has been closed by its user has tried to stop, once each and in a direction of that axis,
  exactly the axes that were moving by their last acknowledged command when it was closed.\<close>

theorem close_stops_moving_axes:
  assumes "ptz_reachable w" and "pw_closing w = CloseDone"
  shows "distinct (pw_attempted w) \<and> set (pw_attempted w) = {(axis, d). tracked w axis = Some d} \<and>
         set (pw_attempted w) \<subseteq> {PanAxis} \<times> {PanLeft, PanRight} \<union> {TiltAxis} \<times> {TiltUp, TiltDown} \<and>
         ds_closed (pw_session w)"
proof -
  have inv: "ptz_inv w" using assms(1) by (rule ptz_reachable_inv)
  then have att: "distinct (pw_attempted w)" "set (pw_attempted w) = {(axis, d). tracked w axis = Some d}"
      "ds_closed (pw_session w)"
    using assms(2) by (simp_all add: ptz_inv_def closing_ok_def)
  have "(axis, d) \<in> {PanAxis} \<times> {PanLeft, PanRight} \<union> {TiltAxis} \<times> {TiltUp, TiltDown}" if "tracked w axis = Some d" for axis d
  proof -
    have "axis \<in> {PanAxis, TiltAxis}" "d \<in> axis_directions axis"
      using inv that unfolding ptz_inv_def moves_ok_def by blast+
    then show ?thesis by (auto simp: axis_directions_def split: if_splits)
  qed
  with att show ?thesis by auto
qed

section \<open>Examples\<close>

definition example_device :: device_session where
  "example_device =
     \<lparr>ds_core = example_session, ds_dialogID = ''d'', ds_answerSDP = ''v=0'', ds_offerSDP = ''v=0'',
      ds_deviceID = 7, ds_signalID = ''s'', ds_riid = ''r'', ds_iceMode = ICETrickle, ds_closed = False,
      ds_terminal = None, ds_movement = [], ds_ready = True, ds_done = False\<rparr>"

theorem device_State_first_cause_witness:
  "device_State (fold terminate [ErrExpired, ErrClosed] example_device) = SessionExpired"
  using device_State_first_cause [of example_device ErrExpired "[ErrClosed]"]
  by (simp add: example_device_def example_session_def errors_is_def error_chain_None ErrExpired_def)

text \<open>A pan to the right: recorded, sent, answered, acknowledged; then the session is closed.\<close>

definition example_env :: call_env where
  "example_env = \<lparr>ce_ctxErr = None, ce_cause = None, ce_now = 200, ce_nowMilli = 1, ce_transport = (\<lambda>_. None)\<rparr>"

definition example_reply :: signaling_message where
  "example_reply = \<lparr>msg_method = MethodRPC, msg_dialog = ''d'', msg_riid = [],
     msg_body = RawJson (JObj [(''doorbot_id'', JNum (NLit ''7'')), (''session_id'', JStr ''s''),
       (''command'', JObj [(''jsonrpc'', JStr ''2.0''), (''id'', JStr ''c-1''),
          (''result'', JObj [(''sessionId'', JStr ''c'')])])])\<rparr>"

definition calling_core :: session where
  "calling_core = example_session\<lparr>ss_sequence := 1, ss_channels := 1, ss_pending := [(''c-1'', 0)]\<rparr>"

definition answered_core :: session where
  "answered_core = calling_core\<lparr>ss_pending := [],
     ss_mailbox := [(0, \<lparr>reply_result = RawJson (JObj [(''sessionId'', JStr ''c'')]), reply_err = None\<rparr>)]\<rparr>"

definition idle_core :: session where
  "idle_core = answered_core\<lparr>ss_mailbox := []\<rparr>"

definition moving_device :: "session \<Rightarrow> device_session" where
  "moving_device core = example_device\<lparr>ds_core := core, ds_movement := [(PanAxis, PanRight)]\<rparr>"

lemma example_moves:
  "continuous_begin PanAxis PanRight (Finite 1) example_device = Inr (None, moving_device example_session)"
  by (simp add: continuous_begin_def axis_directions_def valid_speed_def PTZMaxSpeed_def example_device_def
      moving_device_def)

lemma example_calls:
  "\<exists>m. device_call_begin example_env (axis_method PanAxis) PanRight (Some (Finite 1)) (moving_device example_session) =
     Ok (PTZSent ''c-1'' 0 m, moving_device calling_core)"
proof -
  have d: "enum_lookup PtzDirection_Values PanRight = Some 1" by code_simp
  have v: "validatePTZCommand (axis_method PanAxis) 1 (Some (Finite 1)) = Ok (1, 0, True)"
    by (simp add: validatePTZCommand_def axis_method_def enum_lookup_def list_index_def signaling_enum_defs
        enum_value_def Let_def)
  have n: "dec_nat 1 = ''1''" by code_simp
  have "example_session\<lparr>ss_sequence := 1, ss_channels := 1, ss_pending := [(''c-1'', 0)]\<rparr> = calling_core"
    by (simp add: calling_core_def)
  then show ?thesis
    by (simp add: device_call_begin_def d Call_begin_def v [unfolded One_nat_def] marshalPTZPayload_def wrapSessionContextError_def Let_def
        device_call_send_def session_Send_def session_frame_def call_id_def n [unfolded One_nat_def] example_env_def moving_device_def
        example_session_def calling_core_def MaxSessionAge_def second_ns_def)
qed

lemma example_answers: "session_Handle 300 example_reply calling_core = Ok (Some answered_core)"
proof -
  have "json_decode SessionBody (msg_body example_reply) = Decoded (VStruct [VInt 7, VString ''s'', VMap None])"
      "handleRPCFrame (msg_body example_reply) calling_core = Ok (Some (True, answered_core))"
    by code_simp+
  then show ?thesis
    using example_pong_identity
    by (simp add: session_Handle_def on_decode_def session_matches_def queue_unhandled_def
        calling_core_def example_session_def example_reply_def)
qed

lemma example_acknowledges:
  "\<exists>r. (Ok r, moving_device idle_core) \<in> set (device_call_end None ''c-1'' 0 (moving_device answered_core))"
proof -
  have "json_decode PTZResult (RawJson (JObj [(''sessionId'', JStr ''c'')])) =
      Decoded (VStruct [VString ''c'', VFloat 0, VFloat 0])" by code_simp
  then show ?thesis
    by (simp add: device_call_end_def Call_wait_def take_reply_def answered_core_def moving_device_def
        finish_call_def on_decode_def Call_end_def gm_del_def idle_core_def calling_core_def
        example_session_def)
qed
text \<open>The run: the axis is free again and the pan is acknowledged; a close then tries to stop it.\<close>

definition example_world :: ptz_world where
  "example_world =
     (ptz_initial (moving_device idle_core))\<lparr>pw_phase := (\<lambda>_. AxisFree)(PanAxis := AxisFree),
       pw_acks := [(PanAxis, Some PanRight)]\<rparr>"

lemma example_world_reachable: "\<exists>sent. ptz_reachable (example_world\<lparr>pw_sent := sent\<rparr>)"
proof -
  let ?w0 = "ptz_initial example_device"
  have "ptz_reachable ?w0" by (rule pz_new) (simp add: fresh_session_def example_device_def)
  let ?w1 = "?w0\<lparr>pw_session := moving_device example_session,
    pw_phase := (pw_phase ?w0)(PanAxis := AxisMoving PanRight None (Finite 1) None)\<rparr>"
  have "ptz_step ?w0 ?w1" by (rule pz_move) (simp_all add: ptz_initial_def example_moves)
  with \<open>ptz_reachable ?w0\<close> have r1: "ptz_reachable ?w1" by (rule pz_next)
  from example_calls obtain m where
    m: "device_call_begin example_env (axis_method PanAxis) PanRight (Some (Finite 1)) (moving_device example_session) =
      Ok (PTZSent ''c-1'' 0 m, moving_device calling_core)" by blast
  let ?w2 = "?w1\<lparr>pw_session := moving_device calling_core, pw_sent := pw_sent ?w1 @ [m],
    pw_phase := (pw_phase ?w1)(PanAxis := AxisMoving PanRight None (Finite 1) (Some (''c-1'', 0)))\<rparr>"
  have "ptz_step ?w1 ?w2" by (rule pz_move_sent) (use m in simp_all)
  with r1 have r2: "ptz_reachable ?w2" by (rule pz_next)
  let ?w3 = "?w2\<lparr>pw_session := moving_device answered_core\<rparr>"
  have "session_step (ds_core (moving_device calling_core)) answered_core"
    using sess_handle [OF example_answers] by (simp add: moving_device_def)
  moreover have "(moving_device calling_core)\<lparr>ds_core := answered_core\<rparr> = moving_device answered_core"
    by (simp add: moving_device_def)
  ultimately have "ptz_step ?w2 ?w3" using pz_core [of ?w2 answered_core] by simp
  with r2 have r3: "ptz_reachable ?w3" by (rule pz_next)
  from example_acknowledges obtain r where
    r: "(Ok r, moving_device idle_core) \<in> set (device_call_end None ''c-1'' 0 (moving_device answered_core))" by blast
  have "ptz_step ?w3 (finish_move PanAxis PanRight None (Ok r) (moving_device idle_core) ?w3)"
    by (rule pz_move_end) (use r in simp_all)
  with r3 have "ptz_reachable (finish_move PanAxis PanRight None (Ok r) (moving_device idle_core) ?w3)" by (rule pz_next)
  moreover have "finish_move PanAxis PanRight None (Ok r) (moving_device idle_core) ?w3 = example_world\<lparr>pw_sent := [m]\<rparr>"
    by (simp add: finish_move_def continuous_end_def is_Ok_def example_world_def ptz_initial_def)
  ultimately show ?thesis by auto
qed

theorem movement_is_last_acknowledged_witness:
  "\<exists>w. tracked w PanAxis = Some PanRight \<and> StopPTZ_begin PanAxis (pw_session w) = Inr PanRight"
proof -
  obtain sent where r: "ptz_reachable (example_world\<lparr>pw_sent := sent\<rparr>)" using example_world_reachable by blast
  have "\<not> ds_closed (pw_session (example_world\<lparr>pw_sent := sent\<rparr>))"
    by (simp add: example_world_def ptz_initial_def moving_device_def example_device_def)
  from movement_is_last_acknowledged [OF r this, of PanAxis] show ?thesis
    by (intro exI [of _ "example_world\<lparr>pw_sent := sent\<rparr>"]) (simp add: example_world_def tracked_def)
qed

theorem close_stops_moving_axes_witness:
  "\<exists>w::ptz_world. pw_closing w = CloseDone \<and> set (pw_attempted w) = {(PanAxis, PanRight)}"
proof -
  obtain sent where r: "ptz_reachable (example_world\<lparr>pw_sent := sent\<rparr>)" using example_world_reachable by blast
  let ?w = "example_world\<lparr>pw_sent := sent\<rparr>" and ?env = "example_env\<lparr>ce_ctxErr := Some ContextCanceled\<rparr>"
  let ?ds = "(moving_device idle_core)\<lparr>ds_closed := True, ds_terminal := Some ErrClosed, ds_movement := []\<rparr>"
  let ?w1 = "?w\<lparr>pw_session := ?ds, pw_closing := CloseStops [(PanAxis, PanRight)] None\<rparr>"
  have "ptz_step ?w ?w1"
    by (rule pz_close [of _ "[(PanAxis, PanRight)]"])
       (simp_all add: example_world_def ptz_initial_def close_begin_def moving_device_def example_device_def)
  with r have r1: "ptz_reachable ?w1" by (rule pz_next)
  have "\<exists>d. enum_lookup PtzDirection_Values PanRight = Some d" by (simp add: enum_lookup_def list_index_def PtzDirection_Values_def)
  then have "\<exists>res. device_call_begin ?env (axis_method PanAxis) PanRight (Some (Finite 0)) ?ds = Ok (PTZReturned res, ?ds)"
    by (auto simp: device_call_begin_def Call_begin_def wrapSessionContextError_def example_env_def failed_call_def)
  then obtain res where
    res: "device_call_begin ?env (axis_method PanAxis) PanRight (Some (Finite 0)) ?ds = Ok (PTZReturned res, ?ds)" ..
  let ?w2 = "?w1\<lparr>pw_session := ?ds, pw_closing := CloseStops [] None, pw_attempted := pw_attempted ?w1 @ [(PanAxis, PanRight)]\<rparr>"
  have "ptz_step ?w1 ?w2" by (rule pz_close_failed) (use res in simp_all)
  with r1 have "ptz_reachable ?w2" by (rule pz_next)
  moreover have "ptz_step ?w2 (?w2\<lparr>pw_session := snd (close_end ?env True (pw_session ?w2)),
      pw_sent := pw_sent ?w2 @ fst (close_end ?env True (pw_session ?w2)), pw_closing := CloseDone\<rparr>)" (is "ptz_step _ ?w3")
    by (rule pz_close_end [of ?w2 ?env]) simp
  ultimately have "ptz_reachable ?w3" by (rule pz_next)
  from close_stops_moving_axes [OF this] have "set (pw_attempted ?w3) = {(axis, d). tracked ?w3 axis = Some d}" by simp
  moreover have "{(axis, d). tracked ?w3 axis = Some d} = {(PanAxis, PanRight)}"
    by (auto simp: tracked_def example_world_def split: if_splits)
  ultimately have "pw_closing ?w3 = CloseDone \<and> set (pw_attempted ?w3) = {(PanAxis, PanRight)}" by simp
  then show ?thesis
    by (rule exI [where P = "\<lambda>w::ptz_world. pw_closing w = CloseDone \<and> set (pw_attempted w) = {(PanAxis, PanRight)}"])
qed

text \<open>A start, with a codec that reads every description as one video section.\<close>

definition live_sdp_lib :: "(unit, unit) sdp_lib" where
  "live_sdp_lib = example_sdp_lib\<lparr>sdp_unmarshal := (\<lambda>_. Inr (example_description ''sendrecv''))\<rparr>"

definition example_started :: signaling_message where
  "example_started = \<lparr>msg_method = MethodCameraStarted, msg_dialog = ''d'', msg_riid = [],
     msg_body = msg_body example_pong\<rparr>"

definition example_request :: start_request where
  "example_request = \<lparr>req_DeviceID = ''7'', req_OfferType = SDPTypeOffer, req_OfferSDP = ''v=0'',
     req_AudioEnabled = True, req_VideoEnabled = True, req_MaxAge = 0, req_ICEMode = []\<rparr>"

definition example_start :: start_env where
  "example_start = \<lparr>se_ctxErr = None, se_dialog = ''d'', se_started = 0, se_created = 10, se_now = 20,
     se_connErr = None, se_registerErr = None, se_newErr = None, se_transport = (\<lambda>_. None),
     se_negotiation = [example_created, example_pong, example_answer], se_negotiationEnd = ErrClosed,
     se_activation = [(30, example_started)], se_activationEnd = ErrExpired, se_queued = []\<rparr>"

lemma live_ParseSDP: "ParseSDP live_sdp_lib ''v=0'' = Inr (example_description ''sendrecv'')"
  by (simp add: ParseSDP_def live_sdp_lib_def example_sdp_lib_def example_description_def maxSDPBytes_def
      validateSessionDirection_def direction_count_def validateMediaSections_def validateMediaAttributes_def
      isDirection_def sdp_dirs)

lemma example_valid: "validateSessionRequest live_sdp_lib example_request = Ok (7, MaxSessionAge)"
proof -
  have "parse_int64 ''7'' = Some 7" by code_simp
  then show ?thesis
    by (simp add: validateSessionRequest_def positive_device_def example_request_def live_ParseSDP Let_def
        MaxSessionAge_def second_ns_def)
qed

definition opened_core :: session where
  "opened_core = \<lparr>ss_deviceID = 7, ss_dialogID = ''d'', ss_signalID = ''s'', ss_controlID = ''c'',
     ss_heartbeat = 5000000000, ss_lastPong = 20, ss_expiresAt = 20 + (MaxSessionAge - 10),
     ss_terminal = None, ss_closed = False, ss_sequence = 0, ss_pending = [], ss_mailbox = [],
     ss_channels = 0, ss_events = []\<rparr>"

definition opened_device :: "session \<Rightarrow> bool \<Rightarrow> device_session" where
  "opened_device core ready =
     \<lparr>ds_core = core, ds_dialogID = ''d'', ds_answerSDP = ''v=0'', ds_offerSDP = ''v=0'',
      ds_deviceID = 7, ds_signalID = ''s'', ds_riid = ''r'', ds_iceMode = ICETrickle, ds_closed = False,
      ds_terminal = None, ds_movement = [], ds_ready = ready, ds_done = False\<rparr>"

lemma live_normalize: "NormalizeAnswer live_sdp_lib ''v=0'' ''v=0'' = Inr ''v=0''"
proof -
  have "normalizeAnswerMediaSections live_sdp_lib (example_description ''sendrecv'') (example_description ''sendrecv'') =
      Inr (False, example_description ''sendrecv'')"
    by (simp add: normalizeAnswerMediaSections_def example_description_def sameMediaIdentity_def media_mid_def
        live_sdp_lib_def example_sdp_lib_def normalizeRecvOnlyAnswer_def media_direction_def first_direction_def
        isDirection_def sdp_dirs answerDirectionAllowed_def)
  then show ?thesis by (simp add: NormalizeAnswer_def live_ParseSDP)
qed

lemma example_creates:
  "createNegotiatedDeviceSession live_sdp_lib example_start example_request 7 MaxSessionAge example_negotiated None =
     Ok (opened_device opened_core False)"
  by (simp add: createNegotiatedDeviceSession_def example_start_def example_request_def example_negotiated_def
      live_normalize live_ParseSDP NewSession_def opened_device_def opened_core_def MaxSessionAge_def
      second_ns_def MaxHeartbeatInterval_def wrapSessionContextError_def Let_def)

lemma example_activates:
  "\<exists>mic options. activateDeviceSession (start_call_env example_start) True (opened_device opened_core False) =
     ([activate_frame (opened_device opened_core False), mic, options], None, opened_device opened_core False)"
  by (simp add: activateDeviceSession_def start_call_env_def example_start_def device_core_send_def session_Send_def
      opened_device_def opened_core_def MaxSessionAge_def second_ns_def wrapSessionContextError_def Let_def)

lemma example_camera:
  "\<exists>core. session_Handle 30 example_started opened_core = Ok (Some core) \<and> ss_expiresAt core = ss_expiresAt opened_core"
proof -
  have "json_decode SessionBody (msg_body example_started) = Decoded (VStruct [VInt 7, VString ''s'', VMap None])"
    by code_simp
  then show ?thesis
    using example_pong_identity
    by (simp add: session_Handle_def on_decode_def session_matches_def queue_unhandled_def events_offer_def
        EventQueueCapacity_def opened_core_def example_started_def)
qed

lemma example_camera_matches: "session_matches_message (opened_device core False) example_started"
proof -
  have "json_decode SessionBody (msg_body example_started) = Decoded (VStruct [VInt 7, VString ''s'', VMap None])"
    by code_simp
  then show ?thesis
    using example_pong_identity
    by (simp add: session_matches_message_def opened_device_def) (simp add: example_started_def)
qed

lemma example_waits:
  obtains core where "waitForCameraStarted [(30, example_started)] ErrExpired (opened_device opened_core False) =
      Ok (Some (None, opened_device core True))" "ss_expiresAt core = ss_expiresAt opened_core"
proof -
  from example_camera obtain core where
    c: "session_Handle 30 example_started opened_core = Ok (Some core)" "ss_expiresAt core = ss_expiresAt opened_core"
    by blast
  have d: "(opened_device opened_core False)\<lparr>ds_core := core\<rparr> = opened_device core False"
    by (simp add: opened_device_def)
  have m: "msg_method example_started = MethodCameraStarted" by (simp add: example_started_def)
  have o: "ds_core (opened_device opened_core False) = opened_core"
      "(opened_device core False)\<lparr>ds_ready := True\<rparr> = opened_device core True"
    by (simp_all add: opened_device_def)
  show ?thesis
    by (rule that [of core]) (simp_all add: c d o m example_camera_matches Let_def)
qed

lemma example_starts:
  obtains frames core where
    "StartDeviceSession live_sdp_lib example_start example_request = (frames, Ok (Some (opened_device core True)))"
    "ss_expiresAt core = ss_expiresAt opened_core"
proof -
  from example_activates obtain sent where
    a: "activateDeviceSession (start_call_env example_start) True (opened_device opened_core False) =
      (sent, None, opened_device opened_core False)" by blast
  from example_waits obtain core where
    w: "waitForCameraStarted [(30, example_started)] ErrExpired (opened_device opened_core False) =
      Ok (Some (None, opened_device core True))" "ss_expiresAt core = ss_expiresAt opened_core" by blast
  have e: "se_ctxErr example_start = None" "se_connErr example_start = None" "se_registerErr example_start = None"
      "se_transport example_start = (\<lambda>_. None)" "se_queued example_start = []"
      "se_activation example_start = [(30, example_started)]" "se_activationEnd example_start = ErrExpired"
      "se_negotiation example_start = [example_created, example_pong, example_answer]"
      "se_negotiationEnd example_start = ErrClosed" "req_AudioEnabled example_request = True"
    by (simp_all add: example_start_def example_request_def)
  have s: "startAndRegisterDeviceSession example_start example_request (opened_device opened_core False) =
      (sent, Ok (Some (None, opened_device core True)))"
    by (simp add: startAndRegisterDeviceSession_def a w e registered_def del: waitForCameraStarted.simps)
  have "\<exists>frames. StartDeviceSession live_sdp_lib example_start example_request = (frames, Ok (Some (opened_device core True)))"
    by (simp add: StartDeviceSession_def prepareDeviceSession_def finishDeviceSession_def e example_valid
        example_negotiation example_creates s Let_def)
  then show ?thesis using that w(2) by blast
qed

theorem StartDeviceSession_sound_witness:
  "\<exists>frames ds. StartDeviceSession live_sdp_lib example_start example_request = (frames, Ok (Some ds)) \<and>
     map msg_method frames = [MethodLiveView, MethodActivateSession, MethodMicEnable, MethodStreamOptions]"
proof -
  from example_starts obtain frames core where
    s: "StartDeviceSession live_sdp_lib example_start example_request = (frames, Ok (Some (opened_device core True)))" .
  from StartDeviceSession_sound [OF s]
  have "map msg_method frames = [MethodLiveView, MethodActivateSession, MethodMicEnable, MethodStreamOptions]"
    by (elim exE conjE)
  with s show ?thesis by (intro exI conjI)
qed

text \<open>The same start when the camera never confirms.\<close>

definition silent_start :: start_env where
  "silent_start = example_start\<lparr>se_activation := []\<rparr>"

lemma silent_start_fails:
  "\<exists>frames e. StartDeviceSession live_sdp_lib silent_start example_request = (frames, Err e)"
proof -
  from example_activates obtain sent where
    a: "activateDeviceSession (start_call_env example_start) True (opened_device opened_core False) =
      (sent, None, opened_device opened_core False)" by blast
  have same: "se_dialog silent_start = se_dialog example_start" "se_created silent_start = se_created example_start"
      "se_started silent_start = se_started example_start" "se_newErr silent_start = se_newErr example_start"
      "se_now silent_start = se_now example_start" "se_transport silent_start = se_transport example_start"
    by (simp_all add: silent_start_def)
  have c: "createNegotiatedDeviceSession live_sdp_lib silent_start example_request 7 MaxSessionAge example_negotiated None =
      Ok (opened_device opened_core False)"
    using example_creates unfolding createNegotiatedDeviceSession_def same .
  have act: "start_call_env silent_start = start_call_env example_start"
    unfolding start_call_env_def same ..
  have e: "se_ctxErr silent_start = None" "se_connErr silent_start = None"
      "se_transport silent_start = (\<lambda>_. None)"
      "se_activation silent_start = []" "se_activationEnd silent_start = ErrExpired"
      "se_negotiation silent_start = [example_created, example_pong, example_answer]"
      "se_negotiationEnd silent_start = ErrClosed" "req_AudioEnabled example_request = True"
    by (simp_all add: silent_start_def example_start_def example_request_def)
  have "sessionError ''device session did not become ready'' (Some ErrExpired) \<noteq> None" by simp
  then obtain e' where e': "sessionError ''device session did not become ready'' (Some ErrExpired) = Some e'" by blast
  have s: "startAndRegisterDeviceSession silent_start example_request (opened_device opened_core False) =
      (sent, Ok (Some (Some e', opened_device opened_core False)))"
    by (simp add: startAndRegisterDeviceSession_def a act e e')
  show ?thesis
    by (simp add: StartDeviceSession_def prepareDeviceSession_def finishDeviceSession_def e example_valid
        example_negotiation c s Let_def)
qed

theorem StartDeviceSession_failure_closes_witness:
  "\<exists>frames e. StartDeviceSession live_sdp_lib silent_start example_request = (frames, Err e) \<and>
     last frames = close_frame ''d'' ''r'' 7 ''s''"
proof -
  from silent_start_fails obtain frames e where
    s: "StartDeviceSession live_sdp_lib silent_start example_request = (frames, Err e)" by blast
  have e: "se_ctxErr silent_start = None" "se_connErr silent_start = None" "se_dialog silent_start = ''d''"
      "\<And>m. se_transport silent_start m = None"
      "AwaitLiveAnswer (se_negotiation silent_start) 7 (se_negotiationEnd silent_start) = Ok (example_negotiated, None)"
    by (simp_all add: silent_start_def example_start_def example_negotiation)
  from StartDeviceSession_failure_closes [OF s e(1,2) example_valid e(4,5)] s show ?thesis
    by (auto simp: e(3) example_negotiated_def)
qed

end
