(* ===== verification/Ptz.thy ===== *)
theory Ptz
  imports SignalingWriter DeviceSession
begin

text \<open>
  The continuous commands of a device session on their way through the signaling layers: the call of theory
  \<open>DeviceSession\<close> encodes its parameters with the core, the writer of theory \<open>SignalingWriter\<close> classifies the
  frame, and theory \<open>Wire\<close> encodes it. \<open>ptz_value\<close> and \<open>ptz_body\<close> are the body as a Go value and as JSON.
\<close>

section \<open>The body of a continuous command\<close>

definition ptz_body :: "int \<Rightarrow> string \<Rightarrow> string \<Rightarrow> string \<Rightarrow> string \<Rightarrow> int \<Rightarrow> string \<Rightarrow> rat \<Rightarrow> json" where
  "ptz_body deviceID signalID controlID callid method timestamp direction speed =
     JObj [(''doorbot_id'', JNum (NLit (dec_int deviceID))), (''session_id'', JStr signalID),
       (''command'', JObj [(''jsonrpc'', JStr JSONRPCVersion), (''id'', JStr callid), (''method'', JStr method),
         (''params'', JObj [(''sessionId'', JStr controlID), (''timestamp'', JNum (NLit (dec_int timestamp))),
            (''version'', JNum (NLit ''1'')), (''direction'', JStr direction), (''speed'', JNum (NFloat speed))])])]"

lemmas ptz_models = PtzContinuousCommandBody_def PtzContinuousWireCommand_def PtzContinuousParams_def
  PtzDirection_def AnonymousSchema_199_def PtzDirection_Values_def AnonymousSchema_199_Values_def
  PtzCommandMethod_Values_def

definition ptz_value :: "int \<Rightarrow> string \<Rightarrow> string \<Rightarrow> string \<Rightarrow> nat \<Rightarrow> int \<Rightarrow> nat \<Rightarrow> rat \<Rightarrow> goval" where
  "ptz_value deviceID signalID controlID callid method timestamp direction speed =
     VStruct [VInt deviceID, VString signalID,
       VPtr (Some (VStruct [VString JSONRPCVersion, VString callid, VPtr (Some (VEnum method)),
         VPtr (Some (VStruct [VString controlID, VInt timestamp, VInt 1, VPtr (Some (VEnum direction)), VFloat speed,
           VString [], VMap None])), VMap None])), VMap None]"

lemma ptz_value_encodes:
  assumes "method < 2" and "direction < 4"
  shows "marshal PtzContinuousCommandBody (ptz_value dev sid ctl callid method ts direction q) =
           ptz_body dev sid ctl callid (AnonymousSchema_199_Values ! method) ts (PtzDirection_Values ! direction) q"
proof -
  have "dec_int 1 = ''1''" by code_simp
  with assms show ?thesis
    by (simp add: ptz_value_def ptz_body_def ptz_models enum_value_def)
qed

lemma ptz_value_typed:
  assumes "method < 2" and "direction < 4" and "fits_int64 dev" and "fits_int64 ts"
  shows "has_type PtzContinuousCommandBody (ptz_value dev sid ctl callid method ts direction 0)"
proof -
  have "num_float (NFloat 0) = Some 0" by (simp add: num_float_def num_value_def)
  moreover have "fits_int64 1" by code_simp
  ultimately show ?thesis using assms
    by (simp add: ptz_value_def ptz_models enum_value_def)
qed

text \<open>The wire index of an axis's continuous method.\<close>

definition axis_index :: "string \<Rightarrow> nat" where
  "axis_index axis = (if axis = TiltAxis then 1 else 0)"

lemma axis_index: "axis_index axis < 2" "AnonymousSchema_199_Values ! axis_index axis = axis_method axis"
  by (simp_all add: axis_index_def axis_method_def AnonymousSchema_199_Values_def)

lemma validatePTZCommand_axis:
  assumes "direction < 4"
  shows "validatePTZCommand (axis_method axis) direction (Some speed) =
           Ok (2 * axis_index axis + 1, axis_index axis, True)"
  using assms
  by (simp add: validatePTZCommand_def axis_method_def axis_index_def enum_lookup_def list_index_def
      ptz_models enum_value_def Let_def)

lemma direction_lookup:
  assumes "direction \<in> axis_directions axis"
  shows "\<exists>d<4. enum_lookup PtzDirection_Values direction = Some d \<and> PtzDirection_Values ! d = direction"
  using assms
  by (auto simp: axis_directions_def enum_lookup_def list_index_def PtzDirection_Values_def split: if_splits)

lemma marshalPTZPayload_value:
  "marshalPTZPayload cm method True direction (Some (Finite q)) dev sid ctl callid ts =
     Ok (RawJson (marshal PtzContinuousCommandBody (ptz_value dev sid ctl callid method ts direction q)))"
  by (simp add: marshalPTZPayload_def ptz_models struct_lit_def ptz_value_def Let_def)

definition ptz_message :: "string \<Rightarrow> string \<Rightarrow> raw_message \<Rightarrow> signaling_message" where
  "ptz_message dialog riid body = \<lparr>msg_method = MethodRPC, msg_dialog = dialog, msg_riid = riid, msg_body = body\<rparr>"

lemma call_sends:
  assumes "d < 4" and "enum_lookup PtzDirection_Values direction = Some d" and "\<not> ss_closed (ds_core ds)"
    and "ce_ctxErr env = None" and "ce_cause env = None" and "ce_now env < ss_expiresAt (ds_core ds)"
    and "\<And>m. ce_transport env m = None"
    and "callid = call_id (ds_core ds) (ss_sequence (ds_core ds) + 1)"
  shows "\<exists>ds'. device_call_begin env (axis_method axis) direction (Some (Finite q)) ds =
           Ok (PTZSent callid (ss_channels (ds_core ds))
             (ptz_message (ss_dialogID (ds_core ds)) (ds_riid ds) (RawJson (marshal PtzContinuousCommandBody
                  (ptz_value (ss_deviceID (ds_core ds)) (ss_signalID (ds_core ds)) (ss_controlID (ds_core ds))
                     callid (axis_index axis) (ce_nowMilli env) d q)))), ds')"
  using assms
  by (simp add: device_call_begin_def Call_begin_def validatePTZCommand_axis marshalPTZPayload_value
        wrapSessionContextError_def Let_def device_call_send_def session_Send_def session_frame_def call_id_def
        ptz_message_def)

lemma ptz_value_fields:
  "as_pointer (field_of PtzContinuousCommandBody ''command'' (ptz_value dev sid ctl callid method ts direction q)) =
     Some (VStruct [VString JSONRPCVersion, VString callid, VPtr (Some (VEnum method)),
         VPtr (Some (VStruct [VString ctl, VInt ts, VInt 1, VPtr (Some (VEnum direction)), VFloat q,
           VString [], VMap None])), VMap None])"
  by (simp add: ptz_value_def ptz_models field_of_def list_index_def)

lemma ptz_value_stop:
  assumes "method < 2"
  shows "hasExplicitPTZStop (RawJson (ptz_body dev sid ctl callid m ts direction 0)) m"
  apply (simp add: hasExplicitPTZStop_def ptz_body_def json_object_def member_object_def raw_member_def gm_build_def json_string_def json_decode_def json_unmarshal_def num_float_def num_value_def)
  done

lemma stop_urgent:
  assumes "method < 2" and "direction < 4" and "fits_int64 dev" and "fits_int64 ts"
  shows "prioritySignalingMessage (ptz_message dialog riid (RawJson (marshal PtzContinuousCommandBody
           (ptz_value dev sid ctl callid method ts direction 0)))) = Ok True"
proof -
  have 1: "as_pointer (field_of PtzContinuousWireCommand ''params'' (VStruct [VString a, VString b, VPtr x, VPtr y, z])) = y" for a b x y z
    by (simp add: ptz_models field_of_def list_index_def)
  have 2: "as_pointer (field_of PtzContinuousWireCommand ''method'' (VStruct [VString a, VString b, VPtr x, VPtr y, z])) = x" for a b x y z
    by (simp add: ptz_models field_of_def list_index_def)
  have 3: "as_float (field_of PtzContinuousParams ''speed'' (VStruct [a, b, c, d, VFloat q, e, f])) = q" for a b c d q e f
    by (simp add: ptz_models field_of_def list_index_def)
  have 4: "enum_value AnonymousSchema_199_Values (VEnum method) = Some (AnonymousSchema_199_Values ! method)"
     "AnonymousSchema_199_Values ! method = RPCPanContinuous \<or> AnonymousSchema_199_Values ! method = RPCTiltContinuous"
    using assms(1) by (auto simp: enum_value_def AnonymousSchema_199_Values_def less_Suc_eq numeral_2_eq_2)
  show ?thesis
    using marshal_roundtrip [OF ptz_value_typed [OF assms]] assms(1,2) ptz_value_stop 4
    by (simp add: prioritySignalingMessage_def ptz_message_def ptz_value_fields ptz_value_encodes 1 2 3)
qed

lemma rpc_body:
  "decodeBodyFields (RawJson (JObj kvs)) = Ok (gm_build kvs)"
  by (simp add: decodeBodyFields_def json_object_def on_decode_def)

lemma stop_accepted:
  assumes "dialog \<noteq> []" and "method < 2" and "direction < 4" and "fits_int64 dev" and "fits_int64 ts"
  shows "\<exists>frame. marshalSignalingFrame (ptz_message dialog riid (RawJson (marshal PtzContinuousCommandBody
           (ptz_value dev sid ctl callid method ts direction 0)))) = Ok frame"
proof -
  let ?b = "ptz_body dev sid ctl callid (AnonymousSchema_199_Values ! method) ts (PtzDirection_Values ! direction) 0"
  have b: "marshal PtzContinuousCommandBody (ptz_value dev sid ctl callid method ts direction 0) = ?b"
    using assms by (simp add: ptz_value_encodes)
  have 4: "AnonymousSchema_199_Values ! method = RPCPanContinuous \<or> AnonymousSchema_199_Values ! method = RPCTiltContinuous"
    using assms(2) by (auto simp: AnonymousSchema_199_Values_def less_Suc_eq numeral_2_eq_2)
  have r: "rpcCommandMethod (RawJson ?b) = Ok (AnonymousSchema_199_Values ! method)"
    by (simp add: rpcCommandMethod_def ptz_body_def rpc_body gm_build_def json_string_def on_decode_def)
  have v: "validateRPCFields (RawJson ?b) [FieldJSONRPC, FieldRPCID, FieldMethod, FieldParams]
                [FieldSessionIDRPC, FieldTimestamp, FieldVersion, FieldDirection, FieldSpeed] = Ok ()"
    by (simp add: validateRPCFields_def ptz_body_def rpc_body gm_build_def decodeBodyProperty_def requireJSONFields_def wrap_outcome_def)
  have d: "json_decode PtzContinuousCommandBody (RawJson ?b) = Decoded (ptz_value dev sid ctl callid method ts direction 0)"
    unfolding b [symmetric] by (rule marshal_roundtrip [OF ptz_value_typed [OF assms(2-)]])
  have not_null: "?b \<noteq> JNull" by (simp add: ptz_body_def)
  obtain ms where ms: "json_object (RawJson ?b) = Decoded (Some ms)"
      "find (\<lambda>name. map_of ms name = None) [FieldDeviceID, FieldSessionID, FieldCommand] = None"
    by (simp add: ptz_body_def json_object_def gm_build_def)
  have "marshalRPCFrame (ptz_message dialog riid (RawJson ?b)) =
      marshalGeneratedFrame PtzContinuousCommandBody (ptz_message dialog riid (RawJson ?b)) MethodRPC
        [FieldDeviceID, FieldSessionID, FieldCommand]
        (frame_json PtzContinuousCommandFrame MethodRPC (ptz_message dialog riid (RawJson ?b)))"
    using 4 by (auto simp: marshalRPCFrame_def ptz_message_def r v)
  moreover have "\<exists>frame. marshalGeneratedFrame PtzContinuousCommandBody (ptz_message dialog riid (RawJson ?b)) MethodRPC
        [FieldDeviceID, FieldSessionID, FieldCommand] build = Ok frame" for build
    using assms(1) ms not_null
    by (simp add: marshalGeneratedFrame_def ptz_message_def d on_decode_def del: find.simps)
  ultimately show ?thesis unfolding b
    by (simp add: marshalSignalingFrame_def ptz_message_def Let_def)
qed

section \<open>Stops\<close>

text \<open>A zero-speed command on an axis in a direction of that axis - what \<open>StopPTZ\<close> and the closing of a
  session send - leaves an open session as a frame that the encoder accepts and that the writer puts ahead
  of ordinary traffic; it names the session's device, its signaling and control sessions, and the fresh
  call identifier.\<close>

theorem safety_stop_is_urgent:
  assumes "direction \<in> axis_directions axis" and "\<not> ss_closed (ds_core ds)"
    and "ce_ctxErr env = None" and "ce_cause env = None" and "ce_now env < ss_expiresAt (ds_core ds)"
    and "\<And>m. ce_transport env m = None"
    and "fits_int64 (ss_deviceID (ds_core ds))" and "fits_int64 (ce_nowMilli env)"
    and "ss_dialogID (ds_core ds) \<noteq> []"
  shows "\<exists>callid ch m ds' frame.
           device_call_begin env (axis_method axis) direction (Some (Finite 0)) ds = Ok (PTZSent callid ch m, ds') \<and>
           callid = call_id (ds_core ds) (ss_sequence (ds_core ds) + 1) \<and>
           msg_dialog m = ss_dialogID (ds_core ds) \<and>
           msg_body m = RawJson (ptz_body (ss_deviceID (ds_core ds)) (ss_signalID (ds_core ds))
             (ss_controlID (ds_core ds)) callid (axis_method axis) (ce_nowMilli env) direction 0) \<and>
           prioritySignalingMessage m = Ok True \<and> marshalSignalingFrame m = Ok frame"
proof -
  let ?c = "ds_core ds"
  let ?id = "call_id ?c (ss_sequence ?c + 1)"
  from direction_lookup [OF assms(1)] obtain d where
    d: "d < 4" "enum_lookup PtzDirection_Values direction = Some d" "PtzDirection_Values ! d = direction" by blast
  let ?v = "ptz_value (ss_deviceID ?c) (ss_signalID ?c) (ss_controlID ?c) ?id (axis_index axis) (ce_nowMilli env) d 0"
  let ?m = "ptz_message (ss_dialogID ?c) (ds_riid ds) (RawJson (marshal PtzContinuousCommandBody ?v))"
  from call_sends [OF d(1,2) assms(2-6) refl] obtain ds' where
    b: "device_call_begin env (axis_method axis) direction (Some (Finite 0)) ds = Ok (PTZSent ?id (ss_channels ?c) ?m, ds')"
    by blast
  have "msg_body ?m = RawJson (ptz_body (ss_deviceID ?c) (ss_signalID ?c) (ss_controlID ?c) ?id (axis_method axis)
          (ce_nowMilli env) direction 0)"
    using ptz_value_encodes [OF axis_index(1) d(1)] by (simp add: ptz_message_def axis_index(2) d(3))
  moreover have "prioritySignalingMessage ?m = Ok True"
    by (rule stop_urgent [OF axis_index(1) d(1) assms(7,8)])
  moreover from stop_accepted [OF assms(9) axis_index(1) d(1) assms(7,8)] obtain frame where
    "marshalSignalingFrame ?m = Ok frame" by blast
  moreover have "msg_dialog ?m = ss_dialogID ?c" by (simp add: ptz_message_def)
  ultimately show ?thesis using b by blast
qed

theorem safety_stop_is_urgent_witness:
  "\<exists>callid ch m ds'. device_call_begin example_env (axis_method PanAxis) PanRight (Some (Finite 0)) example_device =
       Ok (PTZSent callid ch m, ds') \<and> prioritySignalingMessage m = Ok True"
proof -
  have "PanRight \<in> axis_directions PanAxis" "\<not> ss_closed (ds_core example_device)"
      "ce_ctxErr example_env = None" "ce_cause example_env = None"
      "ce_now example_env < ss_expiresAt (ds_core example_device)" "\<And>m. ce_transport example_env m = None"
      "fits_int64 (ss_deviceID (ds_core example_device))" "fits_int64 (ce_nowMilli example_env)"
      "ss_dialogID (ds_core example_device) \<noteq> []"
    by (simp_all add: axis_directions_def example_device_def example_session_def example_env_def MaxSessionAge_def
        second_ns_def fits_int64_def min_int64_def max_int64_def)
  from safety_stop_is_urgent [OF this] show ?thesis by blast
qed

end
