(* ===== verification/Connection.thy ===== *)
theory Connection
  imports SignalingWriter DeviceSession
begin

text \<open>
  The signaling connection, \<open>pkg/ring/signaling_connection.go\<close> and \<open>signaling_extras.go\<close>: the registry of
  dialogs, the routing of inbound messages, failing and closing, and the two kinds of child that are not device
  sessions: push subscriptions and cloud playbacks.

  The registry shares objects: a channel belongs to \<open>channels\<close> and to the subscription or playback that
  reads it, a session to \<open>sessions\<close> and to the caller. So channels and objects live in stores (lists
  indexed by the order of creation) and the maps hold indices. A branch of a \<open>select\<close> that Go may take is an
  element of a list of results.
\<close>

section \<open>Channels\<close>

definition chan_offer :: "'a \<Rightarrow> 'a list \<Rightarrow> 'a list option" where
  "chan_offer x q = (if length q < NegotiationQueueCapacity then Some (q @ [x]) else None)"

fun chan_poll :: "'a list \<Rightarrow> ('a \<times> 'a list) option" where
  "chan_poll [] = None"
| "chan_poll (x # q) = Some (x, q)"

interpretation dialog_channel: bounded_channel "\<lambda>q. q" NegotiationQueueCapacity chan_offer chan_poll
  by unfold_locales (simp_all add: chan_offer_def)

section \<open>State\<close>

record playback_session =
  pb_dialog :: string
  pb_riid :: string
  pb_id :: string
  pb_deviceID :: int
  pb_answerSDP :: string
  pb_events :: nat
  pb_ended :: bool
    \<comment> \<open>\<open>once\<close> has run, \<open>done\<close> is closed\<close>
  pb_terminal :: "goerr option"
  pb_lastPong :: int

record push_subscription =
  pu_dialog :: string
  pu_id :: string
  pu_events :: nat
  pu_ended :: bool
  pu_terminal :: "goerr option"

record connection =
  cn_closed :: bool
  cn_terminal :: "goerr option"
  cn_done :: bool
  cn_cancelled :: bool
  cn_socketClosed :: bool
  cn_pending :: "(string \<times> nat) list"
  cn_sessions :: "(string \<times> nat) list"
  cn_channels :: "(string \<times> nat) list"
  cn_playbacks :: "(string \<times> nat) list"
  cn_pushes :: "(string \<times> nat) list"
  cn_queues :: "signaling_message list list"
  cn_devices :: "device_session list"
  cn_playback_store :: "playback_session list"
  cn_push_store :: "push_subscription list"

text \<open>The connection that \<open>OpenSignaling\<close> makes once the socket is open.\<close>

definition new_connection :: connection where
  "new_connection =
     \<lparr>cn_closed = False, cn_terminal = None, cn_done = False, cn_cancelled = False, cn_socketClosed = False,
      cn_pending = [], cn_sessions = [], cn_channels = [], cn_playbacks = [], cn_pushes = [],
      cn_queues = [], cn_devices = [], cn_playback_store = [], cn_push_store = []\<rparr>"

definition conn_Err :: "connection \<Rightarrow> goerr option" where
  "conn_Err c =
     (case cn_terminal c of
        Some e \<Rightarrow> sessionError ''signaling connection ended'' (Some e)
      | None \<Rightarrow> Some (NewClosedError ''signaling connection is closed'' [Some ErrClosed]))"

section \<open>Sending\<close>

text \<open>
  The caller's context, the identifier a typed send draws, and the result of the writer, theory
  \<open>SignalingWriter\<close>, for a frame that it is given. Sends return the frames given to the writer and an error.
\<close>

record conn_env =
  cv_ctxErr :: "goerr option"
  cv_riid :: string
  cv_writer :: "signaling_message \<Rightarrow> goerr option"

definition conn_send :: "conn_env \<Rightarrow> signaling_message \<Rightarrow> connection \<Rightarrow> signaling_message list \<times> goerr option" where
  "conn_send env m c =
     (case cv_ctxErr env of
        Some e \<Rightarrow> ([], sessionError ''signaling send canceled'' (Some e))
      | None \<Rightarrow>
          if cn_done c then ([], conn_Err c)
          else ([m], sessionError ''signaling send failed'' (cv_writer env m)))"

text \<open>\<open>sendTyped\<close>; the bodies it is given always encode.\<close>

definition sendTyped ::
  "conn_env \<Rightarrow> string \<Rightarrow> string \<Rightarrow> string \<Rightarrow> raw_message \<Rightarrow> connection \<Rightarrow> signaling_message list \<times> goerr option"
where
  "sendTyped env method dialog riid body c =
     conn_send env \<lparr>msg_method = method, msg_dialog = dialog,
       msg_riid = (if riid = [] then cv_riid env else riid), msg_body = body\<rparr> c"

section \<open>The registry\<close>

text \<open>\<open>registerChannel\<close>: the dialog drawn, the new channel, and the error. On a closed connection the channel is
  nil, and the error is the terminal cause, which is nil while \<open>Close\<close> is still closing its sessions.\<close>

definition registerChannel ::
  "string \<Rightarrow> connection \<Rightarrow> (string \<times> nat option \<times> goerr option) \<times> connection"
where
  "registerChannel name c =
     (if cn_closed c then (([], None, cn_terminal c), c)
      else ((name, Some (length (cn_queues c)), None),
            c\<lparr>cn_queues := cn_queues c @ [[]],
              cn_channels := gm_put name (length (cn_queues c)) (cn_channels c)\<rparr>))"

definition removeChannel :: "string \<Rightarrow> connection \<Rightarrow> connection" where
  "removeChannel name c = c\<lparr>cn_channels := gm_del name (cn_channels c), cn_pushes := gm_del name (cn_pushes c)\<rparr>"

definition removeSession :: "string \<Rightarrow> connection \<Rightarrow> connection" where
  "removeSession dialog c =
     c\<lparr>cn_sessions := gm_del dialog (cn_sessions c), cn_pending := gm_del dialog (cn_pending c)\<rparr>"

text \<open>A live negotiation enters the registry, \<open>prepareDeviceSession\<close>, and becomes a session or leaves it,
  \<open>startAndRegisterDeviceSession\<close> and \<open>cleanup\<close>.\<close>

definition registerPending :: "string \<Rightarrow> connection \<Rightarrow> (goerr option + nat) \<times> connection" where
  "registerPending dialog c =
     (if cn_closed c then (Inl (conn_Err c), c)
      else (Inr (length (cn_queues c)),
            c\<lparr>cn_queues := cn_queues c @ [[]],
              cn_pending := gm_put dialog (length (cn_queues c)) (cn_pending c)\<rparr>))"

definition removePending :: "string \<Rightarrow> connection \<Rightarrow> connection" where
  "removePending dialog c = c\<lparr>cn_pending := gm_del dialog (cn_pending c)\<rparr>"

definition registerSession :: "string \<Rightarrow> nat \<Rightarrow> connection \<Rightarrow> goerr option \<times> connection" where
  "registerSession dialog i c =
     (let c' = removePending dialog c in
      if cn_closed c then (conn_Err c', c')
      else (None, c'\<lparr>cn_sessions := gm_put dialog i (cn_sessions c')\<rparr>))"

section \<open>Ending the children\<close>

datatype child = DeviceChild nat | PlaybackChild nat | PushChild nat

definition device_terminate :: "goerr \<Rightarrow> nat \<Rightarrow> connection \<Rightarrow> connection" where
  "device_terminate e i c = c\<lparr>cn_devices := (cn_devices c)[i := terminate e (cn_devices c ! i)]\<rparr>"

definition playback_terminate :: "goerr \<Rightarrow> nat \<Rightarrow> connection \<Rightarrow> connection" where
  "playback_terminate e i c =
     (let s = cn_playback_store c ! i in
      if pb_ended s then c
      else c\<lparr>cn_playback_store := (cn_playback_store c)[i := s\<lparr>pb_ended := True, pb_terminal := Some e\<rparr>],
             cn_playbacks := gm_del (pb_dialog s) (cn_playbacks c),
             cn_channels := gm_del (pb_dialog s) (cn_channels c)\<rparr>)"

definition push_terminate :: "goerr \<Rightarrow> nat \<Rightarrow> connection \<Rightarrow> connection" where
  "push_terminate e i c =
     (let s = cn_push_store c ! i in
      if pu_ended s then c
      else removeChannel (pu_dialog s)
             (c\<lparr>cn_push_store := (cn_push_store c)[i := s\<lparr>pu_ended := True, pu_terminal := Some e\<rparr>]\<rparr>))"

fun terminate_child :: "goerr \<Rightarrow> child \<Rightarrow> connection \<Rightarrow> connection" where
  "terminate_child e (DeviceChild i) c = device_terminate e i c"
| "terminate_child e (PlaybackChild i) c = playback_terminate e i c"
| "terminate_child e (PushChild i) c = push_terminate e i c"

text \<open>
  \<open>fail\<close> under the lock: the connection is closed, its children are listed, in some order of the maps; the
  caller then terminates them one after the other and closes the socket.
\<close>

definition registered_children :: "connection \<Rightarrow> child list" where
  "registered_children c =
     map (DeviceChild \<circ> snd) (cn_sessions c) @ map (PlaybackChild \<circ> snd) (cn_playbacks c) @
     map (PushChild \<circ> snd) (cn_pushes c)"

definition fail_begin :: "goerr \<Rightarrow> connection \<Rightarrow> connection" where
  "fail_begin e c = c\<lparr>cn_closed := True, cn_terminal := Some e, cn_done := True, cn_cancelled := True\<rparr>"

definition ending_end :: "connection \<Rightarrow> connection" where
  "ending_end c = c\<lparr>cn_cancelled := True, cn_socketClosed := True\<rparr>"

definition fail_in_order :: "child list \<Rightarrow> goerr \<Rightarrow> connection \<Rightarrow> connection" where
  "fail_in_order order e c =
     (if cn_closed c then c else ending_end (fold (terminate_child e) order (fail_begin e c)))"

definition conn_fail :: "goerr \<Rightarrow> connection \<Rightarrow> connection" where
  "conn_fail e c = fail_in_order (registered_children c) e c"

text \<open>
  \<open>Close\<close>: under the lock the connection is closed and its children are listed; then its device sessions are
  closed one after the other, with \<open>closeWithContext\<close>; then the cause is recorded and \<open>done\<close> closed; then the
  playbacks and subscriptions are terminated and the socket is closed.
\<close>

definition close_lists :: "connection \<Rightarrow> nat list \<times> child list" where
  "close_lists c =
     (map snd (cn_sessions c),
      map (PlaybackChild \<circ> snd) (cn_playbacks c) @ map (PushChild \<circ> snd) (cn_pushes c))"

definition conn_close_begin :: "connection \<Rightarrow> connection" where
  "conn_close_begin c = c\<lparr>cn_closed := True\<rparr>"

definition conn_close_done :: "connection \<Rightarrow> connection" where
  "conn_close_done c = c\<lparr>cn_terminal := Some ErrClosed, cn_done := True\<rparr>"

text \<open>The two ends of a device session: its own close, and \<open>watch\<close>; each leaves the registry.\<close>

definition device_close_begin :: "nat \<Rightarrow> connection \<Rightarrow> ((string \<times> string) list \<times> connection) option" where
  "device_close_begin i c =
     map_option (\<lambda>(moves, ds). (moves, c\<lparr>cn_devices := (cn_devices c)[i := ds]\<rparr>)) (close_begin (cn_devices c ! i))"

definition device_close_end ::
  "call_env \<Rightarrow> bool \<Rightarrow> nat \<Rightarrow> connection \<Rightarrow> signaling_message list \<times> connection"
where
  "device_close_end env sendClose i c =
     (let (sent, ds) = close_end env sendClose (cn_devices c ! i)
      in (sent, removeSession (ds_dialogID ds) (c\<lparr>cn_devices := (cn_devices c)[i := ds]\<rparr>)))"

definition device_watch_end :: "goerr \<Rightarrow> nat \<Rightarrow> connection \<Rightarrow> signaling_message list \<times> connection" where
  "device_watch_end e i c =
     (let (sent, ds) = watch_end e (cn_devices c ! i)
      in (sent, removeSession (ds_dialogID ds) (c\<lparr>cn_devices := (cn_devices c)[i := ds]\<rparr>)))"

section \<open>Routing\<close>

text \<open>
  \<open>route\<close> reads the five maps under the lock, and delivers after it: to a negotiation, a session, a playback,
  or the channel of a subscription, in this order.
\<close>

datatype target = Nowhere | ToPending nat | ToSession nat | ToPlayback nat | ToChannel nat "nat option"

definition route_lookup :: "string \<Rightarrow> connection \<Rightarrow> target" where
  "route_lookup dialog c =
     (case map_of (cn_pending c) dialog of Some q \<Rightarrow> ToPending q
      | None \<Rightarrow> (case map_of (cn_sessions c) dialog of Some i \<Rightarrow> ToSession i
      | None \<Rightarrow> (case map_of (cn_playbacks c) dialog of Some i \<Rightarrow> ToPlayback i
      | None \<Rightarrow> (case map_of (cn_channels c) dialog of
                    Some q \<Rightarrow> ToChannel q (map_of (cn_pushes c) dialog)
                  | None \<Rightarrow> Nowhere))))"

text \<open>\<open>PlaybackSession.handle\<close>.\<close>

definition playback_pong_matches :: "playback_session \<Rightarrow> raw_message \<Rightarrow> bool" where
  "playback_pong_matches s raw =
     (case json_decode SessionBody raw of
        Decoded body \<Rightarrow>
          as_int (field_of SessionBody ''doorbot_id'' body) = pb_deviceID s \<and>
          as_string (field_of SessionBody ''session_id'' body) = pb_id s
      | _ \<Rightarrow> False)"

definition playback_handle :: "int \<Rightarrow> signaling_message \<Rightarrow> nat \<Rightarrow> connection \<Rightarrow> connection" where
  "playback_handle now m i c =
     (let s = cn_playback_store c ! i in
      if msg_method m = MethodPong
      then (if playback_pong_matches s (msg_body m)
            then c\<lparr>cn_playback_store := (cn_playback_store c)[i := s\<lparr>pb_lastPong := now\<rparr>]\<rparr> else c)
      else if msg_method m = MethodClose then playback_terminate ErrClosed i c
      else case chan_offer m (cn_queues c ! pb_events s) of
        Some q \<Rightarrow> c\<lparr>cn_queues := (cn_queues c)[pb_events s := q]\<rparr>
      | None \<Rightarrow> playback_terminate ErrBackpressure i c)"

text \<open>
  The delivery: the connection after it and the error with which the reader calls \<open>fail\<close>, if it does. None is a
  reader blocked in a session's handler.
\<close>

definition negotiation_full :: "goerr option \<Rightarrow> goerr" where
  "negotiation_full e = NewConnectionError ''signaling negotiation queue full'' e"

definition deliver :: "int \<Rightarrow> signaling_message \<Rightarrow> target \<Rightarrow> connection \<Rightarrow> (connection \<times> goerr option) option outcome" where
  "deliver now m tgt c =
     (case tgt of
        Nowhere \<Rightarrow> Ok (Some (c, None))
      | ToPending q \<Rightarrow>
          (case chan_offer m (cn_queues c ! q) of
             Some q' \<Rightarrow> Ok (Some (c\<lparr>cn_queues := (cn_queues c)[q := q']\<rparr>, None))
           | None \<Rightarrow> Ok (Some (c, Some (negotiation_full None))))
      | ToSession i \<Rightarrow>
          obind (device_handle now m (cn_devices c ! i))
            (\<lambda>r. Ok (map_option (\<lambda>ds. (c\<lparr>cn_devices := (cn_devices c)[i := ds]\<rparr>, None)) r))
      | ToPlayback i \<Rightarrow> Ok (Some (playback_handle now m i c, None))
      | ToChannel q push \<Rightarrow>
          (case chan_offer m (cn_queues c ! q) of
             Some q' \<Rightarrow> Ok (Some (c\<lparr>cn_queues := (cn_queues c)[q := q']\<rparr>, None))
           | None \<Rightarrow>
               (case push of
                  Some i \<Rightarrow> Ok (Some (push_terminate (NewConnectionError ''push event queue full'' (Some ErrBackpressure)) i c, None))
                | None \<Rightarrow> Ok (Some (c, Some (negotiation_full (Some ErrBackpressure)))))))"

definition route :: "int \<Rightarrow> signaling_message \<Rightarrow> connection \<Rightarrow> connection option outcome" where
  "route now m c =
     obind (deliver now m (route_lookup (msg_dialog m) c) c)
       (\<lambda>r. Ok (map_option (\<lambda>(c', e). case e of None \<Rightarrow> c' | Some e \<Rightarrow> conn_fail e c') r))"

text \<open>The end of the reader, of the writer, and of the context that the connection was opened with.\<close>

definition readLoop_end :: "goerr option \<Rightarrow> connection \<Rightarrow> goerr option" where
  "readLoop_end e c =
     (case e of None \<Rightarrow> None
      | Some _ \<Rightarrow> if cn_closed c then None else sessionError ''signaling read failed'' e)"

definition writer_failure :: "goerr \<Rightarrow> goerr" where
  "writer_failure e =
     (if IsConnectionError (Some e) then e else NewConnectionError ''signaling write failed'' (Some e))"

end
