(* ===== verification/Dialogs.thy ===== *)
theory Dialogs
  imports Connection
begin

text \<open>
  Push subscriptions and cloud playbacks, \<open>pkg/ring/signaling_extras.go\<close>: how a dialog is opened, one round
  of the waits and of the periodic loops, and how it is closed. A round returns the branches of its \<open>select\<close>
  that are ready, each with its result and the connection after it; a loop repeats the round while it says
  so. \<open>conn_env\<close> holds the context of the caller.
\<close>

section \<open>Negotiations\<close>

datatype dialog_start = DialogFails "goerr option" | DialogWaits string "nat option"

text \<open>The common beginning: register a channel under a fresh dialog and send the first frame for it.\<close>

definition open_dialog ::
  "conn_env \<Rightarrow> string \<Rightarrow> string \<Rightarrow> raw_message \<Rightarrow> connection \<Rightarrow> signaling_message list \<times> dialog_start \<times> connection"
where
  "open_dialog env name method body c =
     (case registerChannel name c of
        ((_, _, Some e), c') \<Rightarrow> ([], DialogFails (Some e), c')
      | ((dialog, channel, None), c') \<Rightarrow>
          (case sendTyped env method dialog [] body c' of
             (sent, Some e) \<Rightarrow> (sent, DialogFails (Some e), removeChannel dialog c')
           | (sent, None) \<Rightarrow> (sent, DialogWaits dialog channel, c')))"

datatype 'a round = Again | Failed "goerr option" | Succeeded 'a

text \<open>The first message of a channel, if any, with the connection after taking it.\<close>

definition take_message :: "nat option \<Rightarrow> connection \<Rightarrow> (signaling_message \<times> connection) list" where
  "take_message channel c =
     (case channel of
        None \<Rightarrow> []
      | Some q \<Rightarrow>
          (case chan_poll (cn_queues c ! q) of
             None \<Rightarrow> []
           | Some (m, rest) \<Rightarrow> [(m, c\<lparr>cn_queues := (cn_queues c)[q := rest]\<rparr>)]))"

definition interrupted ::
  "string \<Rightarrow> goerr option \<Rightarrow> string \<Rightarrow> connection \<Rightarrow> ('a round \<times> connection) list"
where
  "interrupted message ctxErr dialog c =
     (case ctxErr of
        Some e \<Rightarrow> [(Failed (Some (NewConnectionError message (Some e))), removeChannel dialog c)]
      | None \<Rightarrow> []) @
     (if cn_done c then [(Failed (conn_Err (removeChannel dialog c)), removeChannel dialog c)] else [])"

section \<open>Push subscriptions\<close>

record push_filter =
  pf_identifier :: string
  pf_doorbotIDs :: "int list"
  pf_scope :: string
  pf_type :: string

definition wire_filter :: "push_filter \<Rightarrow> goval" where
  "wire_filter f =
     struct_lit PushFilter
       [(''filter_identifier'', VString (pf_identifier f)),
        (''filters'', VPtr (Some (struct_lit PushFilters
           [(''doorbot_ids'', VSlice (Some (map VInt (pf_doorbotIDs f))))]))),
        (''notification_scope'', VString (pf_scope f)),
        (''notification_type'', VString (pf_type f))]"

definition subscribe_body :: "push_filter list \<Rightarrow> raw_message" where
  "subscribe_body filters =
     mustJSON PushSubscribeBody (struct_lit PushSubscribeBody
       [(''requested_notifications'', VSlice (Some (map wire_filter filters)))])"

definition SubscribePush_begin ::
  "conn_env \<Rightarrow> string \<Rightarrow> push_filter list \<Rightarrow> connection \<Rightarrow> signaling_message list \<times> dialog_start \<times> connection"
where
  "SubscribePush_begin env name filters c =
     (if filters = []
      then ([], DialogFails (Some (NewBadRequestError ''at least one push filter is required'' None)), c)
      else open_dialog env name MethodPushSubscribe (subscribe_body filters) c)"

definition subscription_ack :: "raw_message \<Rightarrow> string option" where
  "subscription_ack raw =
     (case json_decode PushSubscriptionAckBody raw of
        Decoded ack \<Rightarrow>
          (let sid = as_string (field_of PushSubscriptionAckBody ''subscription_id'' ack) in
           if as_string (field_of PushSubscriptionAckBody ''status'' ack) \<noteq> ''ok'' \<or> sid = [] then None else Some sid)
      | _ \<Rightarrow> None)"

definition accept_subscription ::
  "string \<Rightarrow> nat option \<Rightarrow> signaling_message \<Rightarrow> connection \<Rightarrow> nat round \<times> connection"
where
  "accept_subscription dialog channel m c =
     (if msg_method m \<noteq> MethodPushSubscriptionAck then (Again, c)
      else case subscription_ack (msg_body m) of
        None \<Rightarrow> (Failed (Some (NewConnectionError ''push subscription rejected'' None)), removeChannel dialog c)
      | Some sid \<Rightarrow>
          if cn_closed c then (Failed (conn_Err c), c)
          else (Succeeded (length (cn_push_store c)),
                c\<lparr>cn_push_store := cn_push_store c @
                     [\<lparr>pu_dialog = dialog, pu_id = sid, pu_events = the channel, pu_ended = False, pu_terminal = None\<rparr>],
                  cn_pushes := gm_put dialog (length (cn_push_store c)) (cn_pushes c)\<rparr>))"

definition SubscribePush_round ::
  "goerr option \<Rightarrow> string \<Rightarrow> nat option \<Rightarrow> connection \<Rightarrow> (nat round \<times> connection) list"
where
  "SubscribePush_round ctxErr dialog channel c =
     interrupted ''push subscription canceled'' ctxErr dialog c @
     map (\<lambda>(m, c'). accept_subscription dialog channel m c') (take_message channel c)"

text \<open>A tick of \<open>heartbeatAt\<close>: nothing once the context, the subscription or the connection has ended.\<close>

definition subscription_body :: "push_subscription \<Rightarrow> raw_message" where
  "subscription_body s = mustJSON PushSubscriptionBody (struct_lit PushSubscriptionBody [(''subscription_id'', VString (pu_id s))])"

definition push_heartbeat :: "conn_env \<Rightarrow> nat \<Rightarrow> connection \<Rightarrow> signaling_message list" where
  "push_heartbeat env i c =
     (let s = cn_push_store c ! i in
      if cn_cancelled c \<or> pu_ended s \<or> cn_done c then []
      else fst (sendTyped env MethodPushHeartbeat (pu_dialog s) [] (subscription_body s) c))"

text \<open>\<open>Receive\<close>: an ended subscription says so first; events of another kind are skipped.\<close>

definition PushEvent :: gotype where
  "PushEvent = TStruct
     [(''filter_identifiers'', False, TSlice TString), (''ingestion_time_ms'', False, TInt),
      (''notification_scope'', False, TString), (''notification_type'', False, TString),
      (''payload'', False, TAny), (''subscription_id'', False, TString)]"

definition push_event :: "string \<Rightarrow> signaling_message \<Rightarrow> goval round" where
  "push_event sid m =
     (if msg_method m \<noteq> MethodPushEvent then Again
      else case json_decode PushEvent (msg_body m) of
        Decoded event \<Rightarrow>
          if as_string (field_of PushEvent ''subscription_id'' event) \<noteq> sid
          then Failed (Some (NewConnectionError ''push subscription ID mismatch'' None)) else Succeeded event
      | _ \<Rightarrow> Failed (Some (NewConnectionError ''invalid push event'' (Some JSONError))))"

definition push_Receive_round :: "goerr option \<Rightarrow> nat \<Rightarrow> connection \<Rightarrow> (goval round \<times> connection) list" where
  "push_Receive_round ctxErr i c =
     (let s = cn_push_store c ! i in
      if pu_ended s then [(Failed (sessionError ''push subscription ended'' (pu_terminal s)), c)]
      else (case ctxErr of
              Some e \<Rightarrow> [(Failed (Some (NewConnectionError ''push receive canceled'' (Some e))), c)]
            | None \<Rightarrow> []) @
           (if cn_done c then [(Failed (conn_Err c), c)] else []) @
           map (\<lambda>(m, c'). (push_event (pu_id s) m, c')) (take_message (Some (pu_events s)) c))"

text \<open>\<open>Close\<close>, whose frame and error come from its first call alone.\<close>

definition push_Close :: "conn_env \<Rightarrow> nat \<Rightarrow> connection \<Rightarrow> signaling_message list \<times> goerr option \<times> connection" where
  "push_Close env i c =
     (let s = cn_push_store c ! i in
      if pu_ended s then ([], None, c)
      else (let c' = push_terminate ErrClosed i c;
                (sent, e) = sendTyped env MethodPushUnsubscribe (pu_dialog s) [] (subscription_body s) c'
            in (sent, e, c')))"

section \<open>Cloud playback\<close>

record playback_request =
  pr_DeviceID :: string
  pr_OfferType :: sdp_type
  pr_OfferSDP :: string
  pr_EntryPoint :: string

definition playback_bad_device :: "goerr option \<Rightarrow> goerr" where
  "playback_bad_device e = NewBadRequestError ''device ID must be a positive integer'' e"

definition validatePlayback :: "('m, 's) sdp_lib \<Rightarrow> playback_request \<Rightarrow> int outcome" where
  "validatePlayback L req =
     obind (positive_device (pr_DeviceID req)) (\<lambda>deviceID.
     if pr_OfferType req \<noteq> SDPTypeOffer \<or> pr_OfferSDP req = []
     then Err (NewBadRequestError ''playback requires an SDP offer'' None)
     else case ParseSDP L (pr_OfferSDP req) of
       Inl e \<Rightarrow> Err (NewBadRequestError ''invalid SDP offer'' (Some e))
     | Inr _ \<Rightarrow> Ok deviceID)"

definition playback_offer :: "int \<Rightarrow> playback_request \<Rightarrow> raw_message" where
  "playback_offer deviceID req =
     mustJSON PlaybackOfferBody (struct_lit PlaybackOfferBody
       [(''doorbot_id'', VInt deviceID),
        (''entry_point'', VString (if pr_EntryPoint req = [] then ''timeline'' else pr_EntryPoint req)),
        (''sdp'', VString (pr_OfferSDP req)), (''type'', VString ''cloud'')])"

definition StartPlayback_begin ::
  "('m, 's) sdp_lib \<Rightarrow> conn_env \<Rightarrow> string \<Rightarrow> playback_request \<Rightarrow> connection \<Rightarrow>
   (int \<times> signaling_message list \<times> dialog_start \<times> connection) outcome"
where
  "StartPlayback_begin L env name req c =
     obind (validatePlayback L req)
       (\<lambda>deviceID. Ok (deviceID, open_dialog env name MethodPlayback (playback_offer deviceID req) c))"

text \<open>\<open>time.Duration(n) * time.Second\<close> wraps at 64 bits.\<close>

definition seconds :: "int \<Rightarrow> int" where
  "seconds n = sint (word_of_int (n * second_ns) :: 64 word)"

text \<open>The answer that is accepted, with the heartbeat interval it asks for.\<close>

definition playback_answer :: "int \<Rightarrow> raw_message \<Rightarrow> (string \<times> string \<times> int) option" where
  "playback_answer deviceID raw =
     (case json_decode PlaybackAnswerBody raw of
        Decoded body \<Rightarrow>
          (let sid = as_string (field_of PlaybackAnswerBody ''session_id'' body);
               sdp = as_string (field_of PlaybackAnswerBody ''sdp'' body);
               interval = (case field_of PlaybackAnswerBody ''session_info'' body of
                             VPtr (Some info) \<Rightarrow> seconds (as_int (field_of PlaybackSessionInfo ''ping_interval'' info))
                           | _ \<Rightarrow> DefaultHeartbeatInterval)
           in if as_int (field_of PlaybackAnswerBody ''doorbot_id'' body) \<noteq> deviceID \<or> sid = [] \<or>
                 as_string (field_of PlaybackAnswerBody ''type'' body) \<noteq> ''answer'' \<or> sdp = []
              then None
              else Some (sid, sdp, if interval \<le> 0 \<or> interval > MaxHeartbeatInterval
                                  then DefaultHeartbeatInterval else interval))
      | _ \<Rightarrow> None)"

text \<open>The result of a successful negotiation: the session and its heartbeat interval.\<close>

definition accept_playback ::
  "int \<Rightarrow> string \<Rightarrow> nat option \<Rightarrow> int \<Rightarrow> signaling_message \<Rightarrow> connection \<Rightarrow> (nat \<times> int) round \<times> connection"
where
  "accept_playback deviceID dialog channel now m c =
     (if msg_method m \<noteq> MethodSDP then (Again, c)
      else case playback_answer deviceID (msg_body m) of
        None \<Rightarrow> (Failed (Some (NewConnectionError ''invalid playback SDP answer'' None)), removeChannel dialog c)
      | Some (sid, sdp, interval) \<Rightarrow>
          if cn_closed c then (Failed (conn_Err c), c)
          else (Succeeded (length (cn_playback_store c), interval),
                c\<lparr>cn_playback_store := cn_playback_store c @
                     [\<lparr>pb_dialog = dialog, pb_riid = msg_riid m, pb_id = sid, pb_deviceID = deviceID,
                       pb_answerSDP = sdp, pb_events = the channel, pb_ended = False, pb_terminal = None,
                       pb_lastPong = now\<rparr>],
                  cn_playbacks := gm_put dialog (length (cn_playback_store c)) (cn_playbacks c)\<rparr>))"

definition StartPlayback_round ::
  "goerr option \<Rightarrow> int \<Rightarrow> string \<Rightarrow> nat option \<Rightarrow> int \<Rightarrow> connection \<Rightarrow> ((nat \<times> int) round \<times> connection) list"
where
  "StartPlayback_round ctxErr deviceID dialog channel now c =
     interrupted ''playback negotiation timed out or was canceled'' ctxErr dialog c @
     map (\<lambda>(m, c'). accept_playback deviceID dialog channel now m c') (take_message channel c)"

text \<open>A tick of \<open>keepaliveFor\<close> at \<open>now\<close>, and its expiry, which closes the session.\<close>

definition playback_frame :: "conn_env \<Rightarrow> string \<Rightarrow> raw_message \<Rightarrow> playback_session \<Rightarrow> connection \<Rightarrow> signaling_message list \<times> goerr option" where
  "playback_frame env method body s c = sendTyped env method (pb_dialog s) (pb_riid s) body c"

definition playback_tick :: "conn_env \<Rightarrow> int \<Rightarrow> int \<Rightarrow> nat \<Rightarrow> connection \<Rightarrow> signaling_message list \<times> connection" where
  "playback_tick env interval now i c =
     (let s = cn_playback_store c ! i in
      if cn_cancelled c \<or> pb_ended s \<or> cn_done c then ([], c)
      else if now - pb_lastPong s > 3 * interval then ([], playback_terminate ErrHeartbeat i c)
      else (fst (playback_frame env MethodPing (session_body (pb_deviceID s) (pb_id s)) s c), c))"

definition playback_close_body :: "playback_session \<Rightarrow> raw_message" where
  "playback_close_body s =
     mustJSON PlaybackCloseBody (struct_lit PlaybackCloseBody
       [(''doorbot_id'', VInt (pb_deviceID s)), (''session_id'', VString (pb_id s)),
        (''reason'', VPtr (Some (struct_lit PlaybackCloseReason [(''code'', VInt 0), (''text'', VString ''client_closed'')])))])"

definition playback_Close ::
  "conn_env \<Rightarrow> nat \<Rightarrow> connection \<Rightarrow> signaling_message list \<times> goerr option \<times> connection"
where
  "playback_Close env i c =
     (let s = cn_playback_store c ! i in
      if pb_ended s then ([], None, c)
      else (let c' = playback_terminate ErrClosed i c;
                (sent, e) = playback_frame env MethodClose (playback_close_body s) s c'
            in (sent, e, c')))"

definition playback_expiry :: "conn_env \<Rightarrow> nat \<Rightarrow> connection \<Rightarrow> signaling_message list \<times> connection" where
  "playback_expiry env i c =
     (if cn_cancelled c \<or> pb_ended (cn_playback_store c ! i) \<or> cn_done c then ([], c)
      else (let (sent, _, c') = playback_Close env i c in (sent, c')))"

definition playback_SendICE ::
  "conn_env \<Rightarrow> string \<Rightarrow> int \<Rightarrow> nat \<Rightarrow> connection \<Rightarrow> signaling_message list \<times> goerr option"
where
  "playback_SendICE env candidate index i c =
     (let s = cn_playback_store c ! i in
      if candidate = [] \<or> index < 0 then ([], Some (NewBadRequestError ''invalid playback ICE candidate'' None))
      else playback_frame env MethodICE
             (mustJSON IceCandidateBody (struct_lit IceCandidateBody
                [(''doorbot_id'', VInt (pb_deviceID s)), (''session_id'', VString (pb_id s)),
                 (''ice'', VString candidate), (''mlineindex'', VInt index)])) s c)"

definition playback_Receive ::
  "goerr option \<Rightarrow> nat \<Rightarrow> connection \<Rightarrow> (signaling_message round \<times> connection) list"
where
  "playback_Receive ctxErr i c =
     (let s = cn_playback_store c ! i in
      (case ctxErr of
         Some e \<Rightarrow> [(Failed (Some (NewConnectionError ''playback receive canceled'' (Some e))), c)]
       | None \<Rightarrow> []) @
      (if pb_ended s then [(Failed (sessionError ''playback session ended'' (pb_terminal s)), c)] else []) @
      (if cn_done c then [(Failed (conn_Err c), c)] else []) @
      map (\<lambda>(m, c'). (Succeeded m, c')) (take_message (Some (pb_events s)) c))"

section \<open>What a playback starts with\<close>

text \<open>A playback that starts belongs to the dialog and the device it was asked for, has the peer's session
  identifier and a non-empty answer, and its heartbeat interval is positive and at most one minute - the
  timer it is given to rejects nothing - whatever number of seconds the peer names, even one whose product
  wraps around.\<close>

theorem playback_starts_sound:
  assumes "(Succeeded (i, interval), c') \<in> set (StartPlayback_round ctxErr deviceID dialog channel now c)"
  shows "0 < interval \<and> interval \<le> 60 * second_ns \<and> \<not> cn_closed c' \<and>
         i = length (cn_playback_store c) \<and>
         (\<exists>s. cn_playback_store c' = cn_playback_store c @ [s] \<and> pb_dialog s = dialog \<and> pb_deviceID s = deviceID \<and>
            pb_id s \<noteq> [] \<and> pb_answerSDP s \<noteq> [] \<and> \<not> pb_ended s \<and> pb_lastPong s = now)"
proof -
  from assms obtain m c1 where t: "(m, c1) \<in> set (take_message channel c)"
      and a: "accept_playback deviceID dialog channel now m c1 = (Succeeded (i, interval), c')"
    by (auto simp: StartPlayback_round_def interrupted_def split: option.splits if_splits)
  have store: "cn_playback_store c1 = cn_playback_store c" using t by (auto simp: take_message_def split: option.splits)
  from a obtain sid sdp where ans: "playback_answer deviceID (msg_body m) = Some (sid, sdp, interval)"
      and open_: "\<not> cn_closed c1" and i: "i = length (cn_playback_store c1)"
    by (auto simp: accept_playback_def split: if_splits option.splits)
  from ans have "sid \<noteq> [] \<and> sdp \<noteq> [] \<and> 0 < interval \<and> interval \<le> MaxHeartbeatInterval"
    by (auto simp: playback_answer_def Let_def DefaultHeartbeatInterval_def MaxHeartbeatInterval_def second_ns_def
        split: decoded.splits if_splits goval.splits option.splits)
  then show ?thesis
    using a ans open_ i store by (auto simp: accept_playback_def MaxHeartbeatInterval_def split: if_splits)
qed

definition example_playback_answer :: signaling_message where
  "example_playback_answer = \<lparr>msg_method = MethodSDP, msg_dialog = ''d'', msg_riid = [],
     msg_body = RawJson (JObj [(''doorbot_id'', JNum (NLit ''7'')), (''session_id'', JStr ''s''), (''sdp'', JStr ''v=0''),
       (''type'', JStr ''answer''), (''session_info'', JObj [(''ping_interval'', JNum (NLit ''5''))])])\<rparr>"

lemma example_playback_answer_accepted: "playback_answer 7 (msg_body example_playback_answer) = Some (''s'', ''v=0'', 5000000000)"
proof -
  have "json_decode PlaybackAnswerBody (msg_body example_playback_answer) =
      Decoded (VStruct [VInt 7, VString ''s'', VString ''answer'', VString ''v=0'',
        VPtr (Some (VStruct [VInt 5, VString [], VMap None])), VMap None])"
    by code_simp
  moreover have "seconds 5 = 5000000000" by (simp add: seconds_def second_ns_def)
  ultimately show ?thesis
    by (simp add: playback_answer_def field_of_def field_index_def list_index_def PlaybackAnswerBody_def
        PlaybackSessionInfo_def MaxHeartbeatInterval_def second_ns_def Let_def)
qed

text \<open>The product can wrap around to a short interval.\<close>

lemma seconds_wraps: "seconds 18446744074 = 290448384"
  by (simp add: seconds_def second_ns_def)

theorem playback_starts_sound_witness:
  "\<exists>s. cn_playback_store (snd (accept_playback 7 ''d'' (Some 0) 5 example_playback_answer (new_connection\<lparr>cn_queues := [[]]\<rparr>))) = [s] \<and>
     pb_deviceID s = 7 \<and> (0::int) < 5000000000"
proof -
  let ?c = "new_connection\<lparr>cn_queues := [[example_playback_answer]]\<rparr>" and ?c1 = "new_connection\<lparr>cn_queues := [[]]\<rparr>"
  have a: "accept_playback 7 ''d'' (Some 0) 5 example_playback_answer ?c1 =
      (Succeeded (0, 5000000000), snd (accept_playback 7 ''d'' (Some 0) 5 example_playback_answer ?c1))"
    using example_playback_answer_accepted by (simp add: accept_playback_def example_playback_answer_def new_connection_def)
  have "(Succeeded (0, 5000000000), snd (accept_playback 7 ''d'' (Some 0) 5 example_playback_answer ?c1))
      \<in> set (StartPlayback_round None 7 ''d'' (Some 0) 5 ?c)"
    using a by (simp add: StartPlayback_round_def take_message_def new_connection_def)
  from playback_starts_sound [OF this] show ?thesis by (auto simp: new_connection_def)
qed

end
