(* ===== verification/ConnectionSteps.thy ===== *)
theory ConnectionSteps
  imports Dialogs
begin

text \<open>
  The signaling connection with its goroutines, as a step relation: the reader with the message it is
  delivering, the goroutine that fails or closes the connection, the negotiations under way, the sessions,
  playbacks and subscriptions with their users. Its invariant says what the registry means, and that nothing
  outlives the connection.
\<close>

section \<open>The world\<close>

text \<open>
  What one operation on a device session does to it: the steps of its core, theory \<open>Session\<close>, and those of
  the wrapper, theory \<open>DeviceSession\<close>.
\<close>

inductive device_step :: "device_session \<Rightarrow> device_session \<Rightarrow> bool" where
  dv_core: "session_step (ds_core ds) core \<Longrightarrow> device_step ds (ds\<lparr>ds_core := core\<rparr>)"
| dv_handle: "device_handle now m ds = Ok (Some ds') \<Longrightarrow> device_step ds ds'"
| dv_terminate: "device_step ds (terminate e ds)"
| dv_move: "continuous_begin axis direction speed ds = Inr (previous, ds') \<Longrightarrow> device_step ds ds'"
| dv_move_end: "device_step ds (continuous_end axis previous r ds)"
| dv_stop_end: "device_step ds (StopPTZ_end axis r ds)"
| dv_ready: "device_step ds (ds\<lparr>ds_ready := True\<rparr>)"

text \<open>
  Where the goroutine that ends the connection is: closing device sessions, inside the close of one of them, or
  terminating children with the cause of the end. Then the negotiations: a push subscription or a playback that
  waits for its answer, a live session before and after the device session is created, and a registered one
  that still drains its queue. \<open>cw_owner\<close> records for which dialog each channel was made, \<open>cw_started\<close> the
  sessions that \<open>StartDeviceSession\<close> has registered.
\<close>

datatype ending =
    Running
  | ClosingDevices "nat list" "child list"
  | ClosingDevice nat "nat list" "child list"
  | Terminating goerr "child list"
  | Ended

datatype negotiation = OpeningPush | OpeningPlayback int | OpeningLive "nat option" | Draining nat

record conn_world =
  cw_conn :: connection
  cw_reader :: "(signaling_message \<times> target) option"
  cw_ending :: ending
  cw_open :: "string \<Rightarrow> (nat \<times> negotiation) option"
  cw_owner :: "string list"
  cw_started :: "nat list"

definition fresh_name :: "string \<Rightarrow> conn_world \<Rightarrow> bool" where
  "fresh_name name w \<longleftrightarrow> name \<noteq> [] \<and> name \<notin> set (cw_owner w)"

text \<open>A goroutine calls \<open>fail\<close>: it lists the children in some order, unless the connection is closed.\<close>

definition start_fail :: "goerr \<Rightarrow> child list \<Rightarrow> conn_world \<Rightarrow> conn_world" where
  "start_fail e order w =
     (if cn_closed (cw_conn w) then w
      else w\<lparr>cw_conn := fail_begin e (cw_conn w), cw_ending := Terminating e order\<rparr>)"

definition opened :: "string \<Rightarrow> dialog_start \<Rightarrow> negotiation \<Rightarrow> connection \<Rightarrow> conn_world \<Rightarrow> conn_world" where
  "opened name start kind c w =
     w\<lparr>cw_conn := c, cw_owner := take (length (cn_queues c)) (cw_owner w @ [name]),
       cw_open := (case start of DialogWaits dialog (Some q) \<Rightarrow> (cw_open w)(dialog \<mapsto> (q, kind)) | _ \<Rightarrow> cw_open w)\<rparr>"

definition settled :: "string \<Rightarrow> 'a round \<Rightarrow> connection \<Rightarrow> conn_world \<Rightarrow> conn_world" where
  "settled dialog r c w =
     w\<lparr>cw_conn := c, cw_open := (case r of Again \<Rightarrow> cw_open w | _ \<Rightarrow> (cw_open w)(dialog := None))\<rparr>"

inductive conn_step :: "conn_world \<Rightarrow> conn_world \<Rightarrow> bool" where
  cs_read: "cw_reader w = None \<Longrightarrow>
    conn_step w (w\<lparr>cw_reader := Some (m, route_lookup (msg_dialog m) (cw_conn w))\<rparr>)"
| cs_deliver: "cw_reader w = Some (m, tgt) \<Longrightarrow> deliver now m tgt (cw_conn w) = Ok (Some (c, None)) \<Longrightarrow>
    conn_step w (w\<lparr>cw_conn := c, cw_reader := None\<rparr>)"
| cs_deliver_fails: "cw_reader w = Some (m, tgt) \<Longrightarrow> deliver now m tgt (cw_conn w) = Ok (Some (c, Some e)) \<Longrightarrow>
    mset order = mset (registered_children c) \<Longrightarrow>
    conn_step w (start_fail e order (w\<lparr>cw_conn := c, cw_reader := None\<rparr>))"
| cs_fail: "mset order = mset (registered_children (cw_conn w)) \<Longrightarrow> conn_step w (start_fail e order w)"
| cs_terminate: "cw_ending w = Terminating e (ch # rest) \<Longrightarrow>
    conn_step w (w\<lparr>cw_conn := terminate_child e ch (cw_conn w), cw_ending := Terminating e rest\<rparr>)"
| cs_ended: "cw_ending w = Terminating e [] \<Longrightarrow>
    conn_step w (w\<lparr>cw_conn := ending_end (cw_conn w), cw_ending := Ended\<rparr>)"
| cs_close: "\<not> cn_closed (cw_conn w) \<Longrightarrow> mset ids = mset (fst (close_lists (cw_conn w))) \<Longrightarrow>
    mset rest = mset (snd (close_lists (cw_conn w))) \<Longrightarrow>
    conn_step w (w\<lparr>cw_conn := conn_close_begin (cw_conn w), cw_ending := ClosingDevices ids rest\<rparr>)"
| cs_close_closed: "cw_ending w = ClosingDevices (i # ids) rest \<Longrightarrow> device_close_begin i (cw_conn w) = None \<Longrightarrow>
    conn_step w (w\<lparr>cw_ending := ClosingDevices ids rest\<rparr>)"
| cs_close_device: "cw_ending w = ClosingDevices (i # ids) rest \<Longrightarrow>
    device_close_begin i (cw_conn w) = Some (moves, c) \<Longrightarrow>
    conn_step w (w\<lparr>cw_conn := c, cw_ending := ClosingDevice i ids rest\<rparr>)"
| cs_close_device_end: "cw_ending w = ClosingDevice i ids rest \<Longrightarrow>
    device_close_end env True i (cw_conn w) = (sent, c) \<Longrightarrow>
    conn_step w (w\<lparr>cw_conn := c, cw_ending := ClosingDevices ids rest\<rparr>)"
| cs_close_done: "cw_ending w = ClosingDevices [] rest \<Longrightarrow>
    conn_step w (w\<lparr>cw_conn := conn_close_done (cw_conn w), cw_ending := Terminating ErrClosed rest\<rparr>)"
| cs_device: "i < length (cn_devices (cw_conn w)) \<Longrightarrow> device_step (cn_devices (cw_conn w) ! i) ds \<Longrightarrow>
    conn_step w (w\<lparr>cw_conn := (cw_conn w)\<lparr>cn_devices := (cn_devices (cw_conn w))[i := ds]\<rparr>\<rparr>)"
| cs_device_close: "i < length (cn_devices (cw_conn w)) \<Longrightarrow> device_close_begin i (cw_conn w) = Some (moves, c) \<Longrightarrow>
    conn_step w (w\<lparr>cw_conn := c\<rparr>)"
| cs_device_close_end: "i < length (cn_devices (cw_conn w)) \<Longrightarrow> ds_closed (cn_devices (cw_conn w) ! i) \<Longrightarrow>
    device_close_end env sendClose i (cw_conn w) = (sent, c) \<Longrightarrow> conn_step w (w\<lparr>cw_conn := c\<rparr>)"
| cs_watch: "i < length (cn_devices (cw_conn w)) \<Longrightarrow> ss_closed (ds_core (cn_devices (cw_conn w) ! i)) \<Longrightarrow>
    device_watch_end e i (cw_conn w) = (sent, c) \<Longrightarrow> conn_step w (w\<lparr>cw_conn := c\<rparr>)"
| cs_open_push: "fresh_name name w \<Longrightarrow> SubscribePush_begin env name filters (cw_conn w) = (sent, start, c) \<Longrightarrow>
    conn_step w (opened name start OpeningPush c w)"
| cs_push_round: "cw_open w dialog = Some (q, OpeningPush) \<Longrightarrow>
    (r, c) \<in> set (SubscribePush_round ctxErr dialog (Some q) (cw_conn w)) \<Longrightarrow> conn_step w (settled dialog r c w)"
| cs_nil_round: "(r, c) \<in> set (SubscribePush_round ctxErr [] None (cw_conn w)) \<Longrightarrow>
    conn_step w (w\<lparr>cw_conn := c\<rparr>)"
| cs_open_playback: "fresh_name name w \<Longrightarrow>
    open_dialog env name MethodPlayback (playback_offer deviceID req) (cw_conn w) = (sent, start, c) \<Longrightarrow>
    conn_step w (opened name start (OpeningPlayback deviceID) c w)"
| cs_playback_round: "cw_open w dialog = Some (q, OpeningPlayback deviceID) \<Longrightarrow>
    (r, c) \<in> set (StartPlayback_round ctxErr deviceID dialog (Some q) now (cw_conn w)) \<Longrightarrow>
    conn_step w (settled dialog r c w)"
| cs_open_live: "fresh_name name w \<Longrightarrow> registerPending name (cw_conn w) = (Inr q, c) \<Longrightarrow>
    conn_step w (w\<lparr>cw_conn := c, cw_owner := cw_owner w @ [name],
      cw_open := (cw_open w)(name \<mapsto> (q, OpeningLive None))\<rparr>)"
| cs_live_message: "cw_open w dialog = Some (q, OpeningLive created) \<Longrightarrow>
    (m, c) \<in> set (take_message (Some q) (cw_conn w)) \<Longrightarrow> conn_step w (w\<lparr>cw_conn := c\<rparr>)"
| cs_live_created: "cw_open w dialog = Some (q, OpeningLive None) \<Longrightarrow> ds_dialogID ds = dialog \<Longrightarrow> fresh_session ds \<Longrightarrow>
    conn_step w (w\<lparr>cw_conn := (cw_conn w)\<lparr>cn_devices := cn_devices (cw_conn w) @ [ds]\<rparr>,
      cw_open := (cw_open w)(dialog \<mapsto> (q, OpeningLive (Some (length (cn_devices (cw_conn w))))))\<rparr>)"
| cs_live_failed: "cw_open w dialog = Some (q, OpeningLive created) \<Longrightarrow>
    conn_step w (w\<lparr>cw_conn := removePending dialog
        (case created of None \<Rightarrow> cw_conn w | Some i \<Rightarrow> device_terminate e i (cw_conn w)),
      cw_open := (cw_open w)(dialog := None)\<rparr>)"
| cs_live_refused: "cw_open w dialog = Some (q, OpeningLive (Some i)) \<Longrightarrow>
    registerSession dialog i (cw_conn w) = (Some e, c) \<Longrightarrow>
    conn_step w (w\<lparr>cw_conn := device_terminate e i c, cw_open := (cw_open w)(dialog := None)\<rparr>)"
| cs_live_registered: "cw_open w dialog = Some (q, OpeningLive (Some i)) \<Longrightarrow>
    registerSession dialog i (cw_conn w) = (None, c) \<Longrightarrow>
    conn_step w (w\<lparr>cw_conn := c, cw_open := (cw_open w)(dialog \<mapsto> (q, Draining i)), cw_started := i # cw_started w\<rparr>)"
| cs_drain: "cw_open w dialog = Some (q, Draining i) \<Longrightarrow> (m, c) \<in> set (take_message (Some q) (cw_conn w)) \<Longrightarrow>
    device_handle now m (cn_devices c ! i) = Ok (Some ds) \<Longrightarrow>
    conn_step w (w\<lparr>cw_conn := c\<lparr>cn_devices := (cn_devices c)[i := ds]\<rparr>\<rparr>)"
| cs_drained: "cw_open w dialog = Some (q, Draining i) \<Longrightarrow> cn_queues (cw_conn w) ! q = [] \<Longrightarrow>
    conn_step w (w\<lparr>cw_open := (cw_open w)(dialog := None)\<rparr>)"
| cs_push_receive: "i < length (cn_push_store (cw_conn w)) \<Longrightarrow> (r, c) \<in> set (push_Receive_round ctxErr i (cw_conn w)) \<Longrightarrow>
    conn_step w (w\<lparr>cw_conn := c\<rparr>)"
| cs_push_close: "i < length (cn_push_store (cw_conn w)) \<Longrightarrow> push_Close env i (cw_conn w) = (sent, r, c) \<Longrightarrow>
    conn_step w (w\<lparr>cw_conn := c\<rparr>)"
| cs_playback_receive: "i < length (cn_playback_store (cw_conn w)) \<Longrightarrow>
    (r, c) \<in> set (playback_Receive ctxErr i (cw_conn w)) \<Longrightarrow> conn_step w (w\<lparr>cw_conn := c\<rparr>)"
| cs_playback_tick: "i < length (cn_playback_store (cw_conn w)) \<Longrightarrow>
    playback_tick env interval now i (cw_conn w) = (sent, c) \<Longrightarrow> conn_step w (w\<lparr>cw_conn := c\<rparr>)"
| cs_playback_close: "i < length (cn_playback_store (cw_conn w)) \<Longrightarrow> playback_Close env i (cw_conn w) = (sent, r, c) \<Longrightarrow>
    conn_step w (w\<lparr>cw_conn := c\<rparr>)"

definition new_world :: conn_world where
  "new_world =
     \<lparr>cw_conn = new_connection, cw_reader = None, cw_ending = Running, cw_open = (\<lambda>_. None), cw_owner = [],
      cw_started = []\<rparr>"

inductive conn_reachable :: "conn_world \<Rightarrow> bool" where
  cs_new: "conn_reachable new_world"
| cs_next: "conn_reachable w \<Longrightarrow> conn_step w w' \<Longrightarrow> conn_reachable w'"

section \<open>The invariant\<close>

text \<open>The parts of the stores that no operation changes.\<close>

definition device_dialogs :: "connection \<Rightarrow> string list" where
  "device_dialogs c = map ds_dialogID (cn_devices c)"

definition playback_keys :: "connection \<Rightarrow> (string \<times> nat) list" where
  "playback_keys c = map (\<lambda>s. (pb_dialog s, pb_events s)) (cn_playback_store c)"

definition push_keys :: "connection \<Rightarrow> (string \<times> nat) list" where
  "push_keys c = map (\<lambda>s. (pu_dialog s, pu_events s)) (cn_push_store c)"

definition same_objects :: "connection \<Rightarrow> connection \<Rightarrow> bool" where
  "same_objects c c' \<longleftrightarrow>
     device_dialogs c' = device_dialogs c \<and> playback_keys c' = playback_keys c \<and> push_keys c' = push_keys c"

definition owned :: "string list \<Rightarrow> nat \<Rightarrow> string \<Rightarrow> bool" where
  "owned owner q dialog \<longleftrightarrow> q < length owner \<and> owner ! q = dialog"

text \<open>Each channel holds at most 128 messages, all of the dialog it was made for.\<close>

definition queues_ok :: "string list \<Rightarrow> connection \<Rightarrow> bool" where
  "queues_ok owner c \<longleftrightarrow>
     length (cn_queues c) = length owner \<and> distinct owner \<and> [] \<notin> set owner \<and>
     (\<forall>q < length owner. length (cn_queues c ! q) \<le> NegotiationQueueCapacity \<and>
        (\<forall>m\<in>set (cn_queues c ! q). msg_dialog m = owner ! q))"

text \<open>The objects have dialogs of their own, and read the channel of their dialog.\<close>

definition objects_ok :: "string list \<Rightarrow> connection \<Rightarrow> bool" where
  "objects_ok owner c \<longleftrightarrow>
     distinct (device_dialogs c) \<and> set (device_dialogs c) \<subseteq> set owner \<and>
     distinct (map fst (playback_keys c)) \<and> (\<forall>(d, q)\<in>set (playback_keys c). owned owner q d) \<and>
     distinct (map fst (push_keys c)) \<and> (\<forall>(d, q)\<in>set (push_keys c). owned owner q d)"

text \<open>A map leads a dialog to its own channel or object.\<close>

definition key_at :: "'a list \<Rightarrow> nat \<Rightarrow> 'a \<Rightarrow> bool" where
  "key_at keys i k \<longleftrightarrow> i < length keys \<and> keys ! i = k"

definition maps_ok :: "string list \<Rightarrow> connection \<Rightarrow> bool" where
  "maps_ok owner c \<longleftrightarrow>
     gm_wf (cn_pending c) \<and> gm_wf (cn_sessions c) \<and> gm_wf (cn_channels c) \<and> gm_wf (cn_playbacks c) \<and>
     gm_wf (cn_pushes c) \<and>
     (\<forall>d q. map_of (cn_pending c) d = Some q \<longrightarrow> owned owner q d) \<and>
     (\<forall>d q. map_of (cn_channels c) d = Some q \<longrightarrow> owned owner q d) \<and>
     (\<forall>d i. map_of (cn_sessions c) d = Some i \<longrightarrow> key_at (device_dialogs c) i d) \<and>
     (\<forall>d i. map_of (cn_playbacks c) d = Some i \<longrightarrow> key_at (map fst (playback_keys c)) i d) \<and>
     (\<forall>d i. map_of (cn_pushes c) d = Some i \<longrightarrow> key_at (map fst (push_keys c)) i d)"

text \<open>What the reader is about to deliver to belongs to the dialog of its message.\<close>

definition target_ok :: "string list \<Rightarrow> connection \<Rightarrow> string \<Rightarrow> target \<Rightarrow> bool" where
  "target_ok owner c dialog tgt =
     (case tgt of
        Nowhere \<Rightarrow> True
      | ToPending q \<Rightarrow> owned owner q dialog
      | ToSession i \<Rightarrow> key_at (device_dialogs c) i dialog
      | ToPlayback i \<Rightarrow> key_at (map fst (playback_keys c)) i dialog
      | ToChannel q push \<Rightarrow> owned owner q dialog \<and>
          (case push of None \<Rightarrow> True | Some i \<Rightarrow> key_at (map fst (push_keys c)) i dialog))"

definition reader_ok :: "string list \<Rightarrow> connection \<Rightarrow> (signaling_message \<times> target) option \<Rightarrow> bool" where
  "reader_ok owner c r = (case r of None \<Rightarrow> True | Some (m, tgt) \<Rightarrow> target_ok owner c (msg_dialog m) tgt)"

text \<open>A negotiation waits on the channel of its dialog, for which there is no object yet.\<close>

definition opening_ok :: "connection \<Rightarrow> string \<Rightarrow> negotiation \<Rightarrow> bool" where
  "opening_ok c dialog kind =
     (case kind of
        OpeningPush \<Rightarrow> dialog \<notin> fst ` set (push_keys c)
      | OpeningPlayback _ \<Rightarrow> dialog \<notin> fst ` set (playback_keys c) \<and> dialog \<notin> fst ` set (push_keys c)
      | OpeningLive None \<Rightarrow> dialog \<notin> set (device_dialogs c)
      | OpeningLive (Some i) \<Rightarrow> key_at (device_dialogs c) i dialog
      | Draining i \<Rightarrow> key_at (device_dialogs c) i dialog)"

definition open_ok :: "string list \<Rightarrow> connection \<Rightarrow> (string \<Rightarrow> (nat \<times> negotiation) option) \<Rightarrow> bool" where
  "open_ok owner c op \<longleftrightarrow>
     (\<forall>dialog q kind. op dialog = Some (q, kind) \<longrightarrow> owned owner q dialog \<and> opening_ok c dialog kind)"

text \<open>How far the end of the connection has come shows in its flags.\<close>

definition flags_ok :: "ending \<Rightarrow> connection \<Rightarrow> bool" where
  "flags_ok e c =
     (case e of
        Running \<Rightarrow> \<not> cn_closed c \<and> \<not> cn_done c \<and> cn_terminal c = None \<and> \<not> cn_socketClosed c
      | ClosingDevices _ _ \<Rightarrow> cn_closed c \<and> \<not> cn_done c \<and> cn_terminal c = None \<and> \<not> cn_socketClosed c
      | ClosingDevice _ _ _ \<Rightarrow> cn_closed c \<and> \<not> cn_done c \<and> cn_terminal c = None \<and> \<not> cn_socketClosed c
      | Terminating cause _ \<Rightarrow> cn_closed c \<and> cn_done c \<and> cn_terminal c = Some cause \<and> \<not> cn_socketClosed c
      | Ended \<Rightarrow> cn_closed c \<and> cn_done c \<and> cn_terminal c \<noteq> None \<and> cn_socketClosed c)"

text \<open>Every child has ended, or is registered while the connection runs, or will be ended.\<close>

fun to_end :: "ending \<Rightarrow> child list" where
  "to_end Running = []"
| "to_end (ClosingDevices ids rest) = map DeviceChild ids @ rest"
| "to_end (ClosingDevice i ids rest) = map DeviceChild ids @ rest"
| "to_end (Terminating e rest) = rest"
| "to_end Ended = []"

definition will_end :: "ending \<Rightarrow> child \<Rightarrow> nat option \<Rightarrow> nat \<Rightarrow> bool" where
  "will_end e ch entry i \<longleftrightarrow> ch \<in> set (to_end e) \<or> e = Running \<and> entry = Some i"

definition devices_end :: "ending \<Rightarrow> nat list \<Rightarrow> connection \<Rightarrow> bool" where
  "devices_end e started c \<longleftrightarrow>
     (\<forall>i\<in>set started. i < length (cn_devices c) \<and>
        (ds_closed (cn_devices c ! i) \<or>
         will_end e (DeviceChild i) (map_of (cn_sessions c) (ds_dialogID (cn_devices c ! i))) i))"

definition playbacks_end :: "ending \<Rightarrow> connection \<Rightarrow> bool" where
  "playbacks_end e c \<longleftrightarrow>
     (\<forall>i < length (cn_playback_store c).
        (let s = cn_playback_store c ! i in
         if pb_ended s then pb_terminal s \<noteq> None
         else will_end e (PlaybackChild i) (map_of (cn_playbacks c) (pb_dialog s)) i))"

definition pushes_end :: "ending \<Rightarrow> connection \<Rightarrow> bool" where
  "pushes_end e c \<longleftrightarrow>
     (\<forall>i < length (cn_push_store c).
        (let s = cn_push_store c ! i in
         if pu_ended s then pu_terminal s \<noteq> None
         else will_end e (PushChild i) (map_of (cn_pushes c) (pu_dialog s)) i))"

fun in_store :: "connection \<Rightarrow> child \<Rightarrow> bool" where
  "in_store c (DeviceChild i) \<longleftrightarrow> i < length (cn_devices c)"
| "in_store c (PlaybackChild i) \<longleftrightarrow> i < length (cn_playback_store c)"
| "in_store c (PushChild i) \<longleftrightarrow> i < length (cn_push_store c)"

definition ending_ok :: "ending \<Rightarrow> connection \<Rightarrow> bool" where
  "ending_ok e c \<longleftrightarrow>
     (\<forall>ch\<in>set (to_end e). in_store c ch) \<and>
     (case e of ClosingDevice i _ _ \<Rightarrow> i < length (cn_devices c) \<and> ds_closed (cn_devices c ! i) | _ \<Rightarrow> True)"

definition children_ok :: "ending \<Rightarrow> nat list \<Rightarrow> connection \<Rightarrow> bool" where
  "children_ok e started c \<longleftrightarrow>
     devices_end e started c \<and> playbacks_end e c \<and> pushes_end e c \<and> ending_ok e c"

definition registry_ok :: "string list \<Rightarrow> ending \<Rightarrow> nat list \<Rightarrow> connection \<Rightarrow> bool" where
  "registry_ok owner e started c \<longleftrightarrow>
     queues_ok owner c \<and> objects_ok owner c \<and> maps_ok owner c \<and> flags_ok e c \<and> children_ok e started c"

definition conn_inv :: "conn_world \<Rightarrow> bool" where
  "conn_inv w \<longleftrightarrow>
     registry_ok (cw_owner w) (cw_ending w) (cw_started w) (cw_conn w) \<and>
     reader_ok (cw_owner w) (cw_conn w) (cw_reader w) \<and> open_ok (cw_owner w) (cw_conn w) (cw_open w)"

lemmas key_defs = device_dialogs_def playback_keys_def push_keys_def same_objects_def

subsection \<open>Elementary changes\<close>

lemma same_objects_refl [simp]: "same_objects c c"
  by (simp add: same_objects_def)

lemma same_objects_trans: "same_objects a b \<Longrightarrow> same_objects b c \<Longrightarrow> same_objects a c"
  by (simp add: same_objects_def)

lemma reader_ok_same: "same_objects c c' \<Longrightarrow> reader_ok owner c r \<Longrightarrow> reader_ok owner c' r"
  by (auto simp: reader_ok_def target_ok_def same_objects_def split: option.splits target.splits)

lemma opening_ok_same: "same_objects c c' \<Longrightarrow> opening_ok c' = opening_ok c"
  by (auto simp: opening_ok_def same_objects_def fun_eq_iff split: negotiation.splits option.splits)

lemma open_ok_same: "same_objects c c' \<Longrightarrow> open_ok owner c op \<Longrightarrow> open_ok owner c' op"
  by (simp add: open_ok_def opening_ok_same)

lemma objects_ok_same: "same_objects c c' \<Longrightarrow> objects_ok owner c \<Longrightarrow> objects_ok owner c'"
  by (simp add: objects_ok_def same_objects_def)

lemma maps_ok_same:
  assumes "same_objects c c'" and "maps_ok owner c" and "cn_pending c' = cn_pending c" and "cn_sessions c' = cn_sessions c"
    and "cn_channels c' = cn_channels c" and "cn_playbacks c' = cn_playbacks c" and "cn_pushes c' = cn_pushes c"
  shows "maps_ok owner c'"
  using assms by (simp add: maps_ok_def same_objects_def)

lemma flags_ok_same:
  assumes "flags_ok e c" and "cn_closed c' = cn_closed c" and "cn_done c' = cn_done c"
    and "cn_terminal c' = cn_terminal c" and "cn_socketClosed c' = cn_socketClosed c"
  shows "flags_ok e c'"
  using assms by (cases e) (simp_all add: flags_ok_def)

lemma ends_same:
  "cn_devices c' = cn_devices c \<Longrightarrow> cn_sessions c' = cn_sessions c \<Longrightarrow> devices_end e started c' = devices_end e started c"
  "cn_playback_store c' = cn_playback_store c \<Longrightarrow> cn_playbacks c' = cn_playbacks c \<Longrightarrow> playbacks_end e c' = playbacks_end e c"
  "cn_push_store c' = cn_push_store c \<Longrightarrow> cn_pushes c' = cn_pushes c \<Longrightarrow> pushes_end e c' = pushes_end e c"
  by (simp_all only: devices_end_def playbacks_end_def pushes_end_def)

text \<open>Lists only grow, and closed sessions stay closed.\<close>

lemma ending_ok_mono:
  assumes "ending_ok e c" and "length (cn_devices c) \<le> length (cn_devices c')"
    and "length (cn_playback_store c) \<le> length (cn_playback_store c')"
    and "length (cn_push_store c) \<le> length (cn_push_store c')"
    and "\<And>i. i < length (cn_devices c) \<Longrightarrow> ds_closed (cn_devices c ! i) \<Longrightarrow> ds_closed (cn_devices c' ! i)"
  shows "ending_ok e c'"
proof -
  have "in_store c ch \<Longrightarrow> in_store c' ch" for ch using assms(2-4) by (cases ch) simp_all
  then show ?thesis using assms(1,2,5) by (cases e) (auto simp: ending_ok_def)
qed

lemma nth_update: "xs[i := y] ! j = (if j = i \<and> i < length xs then y else xs ! j)"
  by (cases "i < length xs") (simp_all add: nth_list_update list_update_beyond)

lemma map_update_same: "f y = f (xs ! i) \<Longrightarrow> map f (xs[i := y]) = map f xs"
  by (metis list_update_id map_update)

lemma queue_update:
  assumes r: "registry_ok owner e started c" and "length xs \<le> NegotiationQueueCapacity"
    and "\<forall>m\<in>set xs. msg_dialog m = owner ! q"
  shows "registry_ok owner e started (c\<lparr>cn_queues := (cn_queues c)[q := xs]\<rparr>) \<and>
         same_objects c (c\<lparr>cn_queues := (cn_queues c)[q := xs]\<rparr>)"
proof -
  let ?c = "c\<lparr>cn_queues := (cn_queues c)[q := xs]\<rparr>"
  have same: "same_objects c ?c" by (simp add: key_defs)
  have "queues_ok owner ?c" using assms by (simp add: registry_ok_def queues_ok_def nth_update)
  moreover have "children_ok e started ?c"
    using r ends_same [of ?c c] ending_ok_mono [of e c ?c] by (simp add: registry_ok_def children_ok_def)
  moreover have "objects_ok owner ?c" "maps_ok owner ?c" "flags_ok e ?c"
    using r objects_ok_same [OF same] maps_ok_same [OF same] flags_ok_same [of e c ?c] by (simp_all add: registry_ok_def)
  ultimately show ?thesis using same by (simp add: registry_ok_def)
qed

lemma device_update:
  assumes r: "registry_ok owner e started c"
    and "ds_dialogID ds = ds_dialogID (cn_devices c ! i)" and "ds_closed (cn_devices c ! i) \<Longrightarrow> ds_closed ds"
  shows "registry_ok owner e started (c\<lparr>cn_devices := (cn_devices c)[i := ds]\<rparr>) \<and>
         same_objects c (c\<lparr>cn_devices := (cn_devices c)[i := ds]\<rparr>)"
proof -
  let ?c = "c\<lparr>cn_devices := (cn_devices c)[i := ds]\<rparr>"
  have same: "same_objects c ?c" using assms(2) by (simp add: key_defs map_update_same)
  have "devices_end e started ?c"
    using assms by (auto simp: registry_ok_def children_ok_def devices_end_def nth_update)
  moreover have "ending_ok e ?c"
    by (rule ending_ok_mono [of e c]) (use assms in \<open>auto simp: registry_ok_def children_ok_def nth_update\<close>)
  ultimately have "children_ok e started ?c"
    using r ends_same(2,3) [of ?c c] by (simp add: registry_ok_def children_ok_def)
  moreover have "queues_ok owner ?c" "objects_ok owner ?c" "maps_ok owner ?c" "flags_ok e ?c"
    using r objects_ok_same [OF same] maps_ok_same [OF same] flags_ok_same [of e c ?c]
    by (simp_all add: registry_ok_def queues_ok_def)
  ultimately show ?thesis using same by (simp add: registry_ok_def)
qed

text \<open>Removing entries of the maps: of a dialog whose child is closed, or whose negotiation is over.\<close>

lemma remove_pending:
  assumes r: "registry_ok owner e started c"
  shows "registry_ok owner e started (removePending d c) \<and> same_objects c (removePending d c)"
proof -
  let ?c = "removePending d c"
  have same: "same_objects c ?c" by (simp add: key_defs removePending_def)
  have "maps_ok owner ?c"
    using r unfolding registry_ok_def maps_ok_def key_defs removePending_def by auto
  moreover have "children_ok e started ?c"
    using r ends_same [of ?c c] ending_ok_mono [of e c ?c] by (simp add: removePending_def registry_ok_def children_ok_def)
  moreover have "queues_ok owner ?c" "objects_ok owner ?c" "flags_ok e ?c"
    using r objects_ok_same [OF same] flags_ok_same [of e c ?c]
    by (simp_all add: registry_ok_def queues_ok_def removePending_def)
  ultimately show ?thesis using same by (simp add: registry_ok_def)
qed

lemma remove_session:
  assumes r: "registry_ok owner e started c"
    and closed: "\<And>i. i \<in> set started \<Longrightarrow> ds_dialogID (cn_devices c ! i) = d \<Longrightarrow> ds_closed (cn_devices c ! i)"
  shows "registry_ok owner e started (removeSession d c) \<and> same_objects c (removeSession d c)"
proof -
  let ?c = "removeSession d c"
  have same: "same_objects c ?c" by (simp add: key_defs removeSession_def)
  have "maps_ok owner ?c"
    using r unfolding registry_ok_def maps_ok_def key_defs removeSession_def by auto
  moreover have "devices_end e started ?c"
    using r closed by (auto simp: removeSession_def registry_ok_def children_ok_def devices_end_def will_end_def)
  moreover have "playbacks_end e ?c" "pushes_end e ?c" "ending_ok e ?c"
    using r ends_same(2,3) [of ?c c] ending_ok_mono [of e c ?c] by (simp_all add: removeSession_def registry_ok_def children_ok_def)
  moreover have "queues_ok owner ?c" "objects_ok owner ?c" "flags_ok e ?c"
    using r objects_ok_same [OF same] flags_ok_same [of e c ?c]
    by (simp_all add: registry_ok_def queues_ok_def removeSession_def)
  ultimately show ?thesis using same by (simp add: registry_ok_def children_ok_def)
qed

lemma remove_channel:
  assumes r: "registry_ok owner e started c"
    and ended: "\<And>i. i < length (cn_push_store c) \<Longrightarrow> pu_dialog (cn_push_store c ! i) = d \<Longrightarrow> pu_ended (cn_push_store c ! i)"
  shows "registry_ok owner e started (removeChannel d c) \<and> same_objects c (removeChannel d c)"
proof -
  let ?c = "removeChannel d c"
  have same: "same_objects c ?c" by (simp add: key_defs removeChannel_def)
  have "maps_ok owner ?c"
    using r unfolding registry_ok_def maps_ok_def key_defs removeChannel_def by auto
  moreover have "pushes_end e ?c"
    using r ended by (auto simp: removeChannel_def registry_ok_def children_ok_def pushes_end_def will_end_def Let_def)
  moreover have "devices_end e started ?c" "playbacks_end e ?c" "ending_ok e ?c"
    using r ends_same(1,2) [of ?c c] ending_ok_mono [of e c ?c] by (simp_all add: removeChannel_def registry_ok_def children_ok_def)
  moreover have "queues_ok owner ?c" "objects_ok owner ?c" "flags_ok e ?c"
    using r objects_ok_same [OF same] flags_ok_same [of e c ?c]
    by (simp_all add: registry_ok_def queues_ok_def removeChannel_def)
  ultimately show ?thesis using same by (simp add: registry_ok_def children_ok_def)
qed

text \<open>A dialog has one object of each kind.\<close>

lemma one_device:
  assumes "registry_ok owner e started c" and "i < length (cn_devices c)" and "j < length (cn_devices c)"
    and "ds_dialogID (cn_devices c ! i) = ds_dialogID (cn_devices c ! j)"
  shows "i = j"
proof -
  have "distinct (device_dialogs c)" using assms(1) by (simp add: registry_ok_def objects_ok_def)
  then show ?thesis using assms(2-4) by (simp add: device_dialogs_def distinct_conv_nth) (metis nth_map)
qed

lemma one_playback:
  assumes "registry_ok owner e started c" and "i < length (cn_playback_store c)" and "j < length (cn_playback_store c)"
    and "pb_dialog (cn_playback_store c ! i) = pb_dialog (cn_playback_store c ! j)"
  shows "i = j"
proof -
  have "distinct (map fst (playback_keys c))" using assms(1) by (simp add: registry_ok_def objects_ok_def)
  then have "distinct (map pb_dialog (cn_playback_store c))" by (simp add: playback_keys_def comp_def)
  then show ?thesis using assms(2-4) by (simp add: distinct_conv_nth) (metis nth_map)
qed

lemma one_push:
  assumes "registry_ok owner e started c" and "i < length (cn_push_store c)" and "j < length (cn_push_store c)"
    and "pu_dialog (cn_push_store c ! i) = pu_dialog (cn_push_store c ! j)"
  shows "i = j"
proof -
  have "distinct (map fst (push_keys c))" using assms(1) by (simp add: registry_ok_def objects_ok_def)
  then have "distinct (map pu_dialog (cn_push_store c))" by (simp add: push_keys_def comp_def)
  then show ?thesis using assms(2-4) by (simp add: distinct_conv_nth) (metis nth_map)
qed

text \<open>Updates of one playback or subscription: neither its dialog nor its channel changes.\<close>

lemma playback_update:
  assumes r: "registry_ok owner e started c"
    and key: "pb_dialog s = pb_dialog (cn_playback_store c ! i)" "pb_events s = pb_events (cn_playback_store c ! i)"
    and ended: "pb_ended s \<and> pb_terminal s \<noteq> None \<or>
      pb_ended s = pb_ended (cn_playback_store c ! i) \<and> pb_terminal s = pb_terminal (cn_playback_store c ! i)"
  shows "registry_ok owner e started (c\<lparr>cn_playback_store := (cn_playback_store c)[i := s]\<rparr>) \<and>
         same_objects c (c\<lparr>cn_playback_store := (cn_playback_store c)[i := s]\<rparr>)"
proof -
  let ?c = "c\<lparr>cn_playback_store := (cn_playback_store c)[i := s]\<rparr>"
  have same: "same_objects c ?c" using key by (simp add: key_defs map_update_same)
  have "playbacks_end e ?c"
    using r key(1) ended by (auto simp: registry_ok_def children_ok_def playbacks_end_def nth_update Let_def)
  moreover have "devices_end e started ?c" "pushes_end e ?c" "ending_ok e ?c"
    using r ends_same(1,3) [of ?c c] ending_ok_mono [of e c ?c] by (simp_all add: registry_ok_def children_ok_def)
  moreover have "queues_ok owner ?c" "objects_ok owner ?c" "maps_ok owner ?c" "flags_ok e ?c"
    using r objects_ok_same [OF same] maps_ok_same [OF same] flags_ok_same [of e c ?c]
    by (simp_all add: registry_ok_def queues_ok_def)
  ultimately show ?thesis using same by (simp add: registry_ok_def children_ok_def)
qed

lemma push_update:
  assumes r: "registry_ok owner e started c"
    and key: "pu_dialog s = pu_dialog (cn_push_store c ! i)" "pu_events s = pu_events (cn_push_store c ! i)"
    and ended: "pu_ended s \<and> pu_terminal s \<noteq> None"
  shows "registry_ok owner e started (c\<lparr>cn_push_store := (cn_push_store c)[i := s]\<rparr>) \<and>
         same_objects c (c\<lparr>cn_push_store := (cn_push_store c)[i := s]\<rparr>)"
proof -
  let ?c = "c\<lparr>cn_push_store := (cn_push_store c)[i := s]\<rparr>"
  have same: "same_objects c ?c" using key by (simp add: key_defs map_update_same)
  have "pushes_end e ?c"
    using r key(1) ended by (auto simp: registry_ok_def children_ok_def pushes_end_def nth_update Let_def)
  moreover have "devices_end e started ?c" "playbacks_end e ?c" "ending_ok e ?c"
    using r ends_same(1,2) [of ?c c] ending_ok_mono [of e c ?c] by (simp_all add: registry_ok_def children_ok_def)
  moreover have "queues_ok owner ?c" "objects_ok owner ?c" "maps_ok owner ?c" "flags_ok e ?c"
    using r objects_ok_same [OF same] maps_ok_same [OF same] flags_ok_same [of e c ?c]
    by (simp_all add: registry_ok_def queues_ok_def)
  ultimately show ?thesis using same by (simp add: registry_ok_def children_ok_def)
qed

lemma remove_playback:
  assumes r: "registry_ok owner e started c"
    and ended: "\<And>i. i < length (cn_playback_store c) \<Longrightarrow> pb_dialog (cn_playback_store c ! i) = d \<Longrightarrow>
      pb_ended (cn_playback_store c ! i)"
  shows "registry_ok owner e started
           (c\<lparr>cn_playbacks := gm_del d (cn_playbacks c), cn_channels := gm_del d (cn_channels c)\<rparr>) \<and>
         same_objects c (c\<lparr>cn_playbacks := gm_del d (cn_playbacks c), cn_channels := gm_del d (cn_channels c)\<rparr>)"
proof -
  let ?c = "c\<lparr>cn_playbacks := gm_del d (cn_playbacks c), cn_channels := gm_del d (cn_channels c)\<rparr>"
  have same: "same_objects c ?c" by (simp add: key_defs)
  have "maps_ok owner ?c" using r unfolding registry_ok_def maps_ok_def key_defs by auto
  moreover have "playbacks_end e ?c"
    using r ended by (auto simp: registry_ok_def children_ok_def playbacks_end_def will_end_def Let_def)
  moreover have "devices_end e started ?c" "pushes_end e ?c" "ending_ok e ?c"
    using r ends_same(1,3) [of ?c c] ending_ok_mono [of e c ?c] by (simp_all add: registry_ok_def children_ok_def)
  moreover have "queues_ok owner ?c" "objects_ok owner ?c" "flags_ok e ?c"
    using r objects_ok_same [OF same] flags_ok_same [of e c ?c] by (simp_all add: registry_ok_def queues_ok_def)
  ultimately show ?thesis using same by (simp add: registry_ok_def children_ok_def)
qed

subsection \<open>Ending one child\<close>

lemma device_terminate_ok:
  assumes "registry_ok owner e started c"
  shows "registry_ok owner e started (device_terminate err i c) \<and> same_objects c (device_terminate err i c)"
  unfolding device_terminate_def by (rule device_update [OF assms]) (simp_all add: terminate_def)

lemma playback_terminate_ok:
  assumes r: "registry_ok owner e started c" and i: "i < length (cn_playback_store c)"
  shows "registry_ok owner e started (playback_terminate err i c) \<and> same_objects c (playback_terminate err i c)"
proof (cases "pb_ended (cn_playback_store c ! i)")
  case True
  then show ?thesis using r by (simp add: playback_terminate_def)
next
  case False
  let ?s = "cn_playback_store c ! i"
  let ?c = "c\<lparr>cn_playback_store := (cn_playback_store c)[i := ?s\<lparr>pb_ended := True, pb_terminal := Some err\<rparr>]\<rparr>"
  have u: "registry_ok owner e started ?c" "same_objects c ?c"
    using playback_update [OF r, of "?s\<lparr>pb_ended := True, pb_terminal := Some err\<rparr>" i] by simp_all
  have "pb_ended (cn_playback_store ?c ! j)" if "j < length (cn_playback_store ?c)" "pb_dialog (cn_playback_store ?c ! j) = pb_dialog ?s" for j
    using that one_playback [OF r, of j i] i by (auto simp: nth_update split: if_splits)
  from remove_playback [OF u(1), of "pb_dialog ?s", OF this] show ?thesis
    using False same_objects_trans [OF u(2)] by (simp add: playback_terminate_def Let_def)
qed

lemma push_terminate_ok:
  assumes r: "registry_ok owner e started c" and i: "i < length (cn_push_store c)"
  shows "registry_ok owner e started (push_terminate err i c) \<and> same_objects c (push_terminate err i c)"
proof (cases "pu_ended (cn_push_store c ! i)")
  case True
  then show ?thesis using r by (simp add: push_terminate_def)
next
  case False
  let ?s = "cn_push_store c ! i"
  let ?c = "c\<lparr>cn_push_store := (cn_push_store c)[i := ?s\<lparr>pu_ended := True, pu_terminal := Some err\<rparr>]\<rparr>"
  have u: "registry_ok owner e started ?c" "same_objects c ?c"
    using push_update [OF r, of "?s\<lparr>pu_ended := True, pu_terminal := Some err\<rparr>" i] by simp_all
  have "pu_ended (cn_push_store ?c ! j)" if "j < length (cn_push_store ?c)" "pu_dialog (cn_push_store ?c ! j) = pu_dialog ?s" for j
    using that one_push [OF r, of j i] i by (auto simp: nth_update split: if_splits)
  from remove_channel [OF u(1) this] show ?thesis
    using False same_objects_trans [OF u(2)] by (simp add: push_terminate_def Let_def)
qed

lemma terminate_child_ok:
  assumes "registry_ok owner e started c" and "in_store c ch"
  shows "registry_ok owner e started (terminate_child err ch c) \<and> same_objects c (terminate_child err ch c)"
  using assms device_terminate_ok playback_terminate_ok push_terminate_ok by (cases ch) simp_all

text \<open>A child that has just been terminated has ended.\<close>

fun has_ended :: "connection \<Rightarrow> child \<Rightarrow> bool" where
  "has_ended c (DeviceChild i) \<longleftrightarrow> ds_closed (cn_devices c ! i)"
| "has_ended c (PlaybackChild i) \<longleftrightarrow> pb_ended (cn_playback_store c ! i)"
| "has_ended c (PushChild i) \<longleftrightarrow> pu_ended (cn_push_store c ! i)"

lemma terminate_child_ends: "in_store c ch \<Longrightarrow> has_ended (terminate_child e ch c) ch"
  by (cases ch) (auto simp: device_terminate_def terminate_def playback_terminate_def push_terminate_def
      removeChannel_def Let_def)

subsection \<open>The end of the connection\<close>

lemma gm_entry: "gm_wf m \<Longrightarrow> (k, v) \<in> set m \<longleftrightarrow> map_of m k = Some v"
proof -
  assume "gm_wf m"
  then have "distinct (map fst m)" unfolding gm_wf_def by (rule strict_sorted_iff [THEN iffD1, THEN conjunct2])
  then show ?thesis by simp
qed

text \<open>The goroutine that ends the connection goes on: every child it still had to end is ended or still to end.\<close>

definition same_stores :: "connection \<Rightarrow> connection \<Rightarrow> bool" where
  "same_stores c c' \<longleftrightarrow>
     cn_pending c' = cn_pending c \<and> cn_sessions c' = cn_sessions c \<and> cn_channels c' = cn_channels c \<and>
     cn_playbacks c' = cn_playbacks c \<and> cn_pushes c' = cn_pushes c \<and> cn_queues c' = cn_queues c \<and>
     cn_devices c' = cn_devices c \<and> cn_playback_store c' = cn_playback_store c \<and> cn_push_store c' = cn_push_store c"

lemma registered_entry:
  assumes "registry_ok owner e started c"
  shows "map_of (cn_sessions c) d = Some i \<Longrightarrow> DeviceChild i \<in> set (registered_children c)"
    and "map_of (cn_playbacks c) d = Some i \<Longrightarrow> PlaybackChild i \<in> set (registered_children c)"
    and "map_of (cn_pushes c) d = Some i \<Longrightarrow> PushChild i \<in> set (registered_children c)"
  by (force simp: registered_children_def dest: map_of_SomeD)+

lemma ending_advances:
  assumes r: "registry_ok owner e1 started c" and same: "same_stores c c'" and flags: "flags_ok e2 c'"
    and ok: "ending_ok e2 c'"
    and todo: "\<And>ch. ch \<in> set (to_end e1) \<or> e1 = Running \<and> ch \<in> set (registered_children c) \<Longrightarrow>
      ch \<in> set (to_end e2) \<or> has_ended c ch"
  shows "registry_ok owner e2 started c' \<and> same_objects c c'"
proof -
  note eqs = same [unfolded same_stores_def]
  have objs: "same_objects c c'" using eqs by (simp add: key_defs)
  have step: "ch \<in> set (to_end e2) \<or> has_ended c ch"
    if "will_end e1 ch entry i" "entry = Some i \<Longrightarrow> ch \<in> set (registered_children c)" for ch entry i
    using that todo [of ch] by (auto simp: will_end_def)
  have "devices_end e2 started c'"
    unfolding devices_end_def
  proof (intro ballI conjI)
    fix i assume i: "i \<in> set started"
    then have d: "i < length (cn_devices c) \<and> (ds_closed (cn_devices c ! i) \<or>
        will_end e1 (DeviceChild i) (map_of (cn_sessions c) (ds_dialogID (cn_devices c ! i))) i)"
      using r by (simp add: registry_ok_def children_ok_def devices_end_def)
    then show "i < length (cn_devices c')" using eqs by simp
    show "ds_closed (cn_devices c' ! i) \<or>
        will_end e2 (DeviceChild i) (map_of (cn_sessions c') (ds_dialogID (cn_devices c' ! i))) i"
      using d step [of "DeviceChild i" "map_of (cn_sessions c) (ds_dialogID (cn_devices c ! i))" i]
        registered_entry(1) [OF r] eqs by (auto simp: will_end_def)
  qed
  moreover have "playbacks_end e2 c'"
    unfolding playbacks_end_def Let_def
  proof (intro allI impI)
    fix i assume i: "i < length (cn_playback_store c')"
    then have d: "let s = cn_playback_store c ! i in if pb_ended s then pb_terminal s \<noteq> None
        else will_end e1 (PlaybackChild i) (map_of (cn_playbacks c) (pb_dialog s)) i"
      using r eqs by (simp add: registry_ok_def children_ok_def playbacks_end_def)
    show "if pb_ended (cn_playback_store c' ! i) then pb_terminal (cn_playback_store c' ! i) \<noteq> None
        else will_end e2 (PlaybackChild i) (map_of (cn_playbacks c') (pb_dialog (cn_playback_store c' ! i))) i"
      using d step [of "PlaybackChild i" "map_of (cn_playbacks c) (pb_dialog (cn_playback_store c ! i))" i]
        registered_entry(2) [OF r] eqs by (auto simp: will_end_def Let_def)
  qed
  moreover have "pushes_end e2 c'"
    unfolding pushes_end_def Let_def
  proof (intro allI impI)
    fix i assume i: "i < length (cn_push_store c')"
    then have d: "let s = cn_push_store c ! i in if pu_ended s then pu_terminal s \<noteq> None
        else will_end e1 (PushChild i) (map_of (cn_pushes c) (pu_dialog s)) i"
      using r eqs by (simp add: registry_ok_def children_ok_def pushes_end_def)
    show "if pu_ended (cn_push_store c' ! i) then pu_terminal (cn_push_store c' ! i) \<noteq> None
        else will_end e2 (PushChild i) (map_of (cn_pushes c') (pu_dialog (cn_push_store c' ! i))) i"
      using d step [of "PushChild i" "map_of (cn_pushes c) (pu_dialog (cn_push_store c ! i))" i]
        registered_entry(3) [OF r] eqs by (auto simp: will_end_def Let_def)
  qed
  moreover have "queues_ok owner c'" using r eqs by (simp add: registry_ok_def queues_ok_def)
  moreover have "objects_ok owner c'" using r objects_ok_same [OF objs] by (simp add: registry_ok_def)
  moreover have "maps_ok owner c'" using r maps_ok_same [OF objs] eqs by (simp add: registry_ok_def)
  ultimately show ?thesis using objs flags ok by (simp add: registry_ok_def children_ok_def)
qed

lemma registered_in_store:
  assumes r: "registry_ok owner e started c" and "ch \<in> set (registered_children c)"
  shows "in_store c ch"
proof -
  have wf: "gm_wf (cn_sessions c)" "gm_wf (cn_playbacks c)" "gm_wf (cn_pushes c)"
    and m: "\<And>d i. map_of (cn_sessions c) d = Some i \<Longrightarrow> i < length (cn_devices c)"
      "\<And>d i. map_of (cn_playbacks c) d = Some i \<Longrightarrow> i < length (cn_playback_store c)"
      "\<And>d i. map_of (cn_pushes c) d = Some i \<Longrightarrow> i < length (cn_push_store c)"
    using r by (simp_all add: registry_ok_def maps_ok_def key_at_def device_dialogs_def playback_keys_def push_keys_def)
  from assms(2) consider
      d i where "(d, i) \<in> set (cn_sessions c)" "ch = DeviceChild i"
    | d i where "(d, i) \<in> set (cn_playbacks c)" "ch = PlaybackChild i"
    | d i where "(d, i) \<in> set (cn_pushes c)" "ch = PushChild i"
    by (auto simp: registered_children_def)
  then show ?thesis by cases (auto simp: gm_entry wf dest: m)
qed

lemma running_iff: "flags_ok e c \<Longrightarrow> \<not> cn_closed c \<longleftrightarrow> e = Running"
  by (cases e) (simp_all add: flags_ok_def)

lemma conn_inv_change:
  assumes "conn_inv w" and "registry_ok (cw_owner w) e (cw_started w) c \<and> same_objects (cw_conn w) c"
  shows "conn_inv (w\<lparr>cw_conn := c, cw_ending := e\<rparr>)"
  using assms reader_ok_same [of "cw_conn w" c "cw_owner w" "cw_reader w"]
    open_ok_same [of "cw_conn w" c "cw_owner w" "cw_open w"]
  by (simp add: conn_inv_def)

lemma conn_inv_update:
  assumes "conn_inv w"
    and "registry_ok (cw_owner w) (cw_ending w) (cw_started w) c \<and> same_objects (cw_conn w) c"
  shows "conn_inv (w\<lparr>cw_conn := c\<rparr>)"
  using conn_inv_change [OF assms] by simp

lemma start_fail_inv:
  assumes inv: "conn_inv w" and order: "mset order = mset (registered_children (cw_conn w))"
  shows "conn_inv (start_fail err order w)"
proof (cases "cn_closed (cw_conn w)")
  case True
  then show ?thesis using inv by (simp add: start_fail_def)
next
  case False
  let ?c = "cw_conn w"
  have r: "registry_ok (cw_owner w) (cw_ending w) (cw_started w) ?c" using inv by (simp add: conn_inv_def)
  then have run: "cw_ending w = Running" and fl: "flags_ok Running ?c"
    using False running_iff [of "cw_ending w" ?c] by (auto simp: registry_ok_def)
  have set: "set order = set (registered_children ?c)" using order by (rule mset_eq_setD)
  have "registry_ok (cw_owner w) (Terminating err order) (cw_started w) (fail_begin err ?c) \<and>
      same_objects ?c (fail_begin err ?c)"
  proof (rule ending_advances [OF r])
    show "same_stores ?c (fail_begin err ?c)" by (simp add: same_stores_def fail_begin_def)
    show "flags_ok (Terminating err order) (fail_begin err ?c)" using fl by (simp add: flags_ok_def fail_begin_def)
    have "in_store (fail_begin err ?c) ch = in_store ?c ch" for ch by (cases ch) (simp_all add: fail_begin_def)
    then show "ending_ok (Terminating err order) (fail_begin err ?c)"
      using registered_in_store [OF r] set by (simp add: ending_ok_def)
  qed (use run set in auto)
  from conn_inv_change [OF inv this] False show ?thesis by (simp add: start_fail_def)
qed

lemma ending_step_inv:
  assumes inv: "conn_inv w" and same: "same_stores (cw_conn w) c" and "flags_ok e c" and "ending_ok e c"
    and "\<And>ch. ch \<in> set (to_end (cw_ending w)) \<or> cw_ending w = Running \<and> ch \<in> set (registered_children (cw_conn w)) \<Longrightarrow>
      ch \<in> set (to_end e) \<or> has_ended (cw_conn w) ch"
  shows "conn_inv (w\<lparr>cw_conn := c, cw_ending := e\<rparr>)"
proof (rule conn_inv_change [OF inv])
  have "registry_ok (cw_owner w) (cw_ending w) (cw_started w) (cw_conn w)" using inv by (simp add: conn_inv_def)
  from ending_advances [OF this assms(2-5)]
  show "registry_ok (cw_owner w) e (cw_started w) c \<and> same_objects (cw_conn w) c" .
qed

lemma same_stores_refl [simp]: "same_stores c c"
  by (simp add: same_stores_def)

lemma conn_inv_parts:
  assumes "conn_inv w"
  shows "registry_ok (cw_owner w) (cw_ending w) (cw_started w) (cw_conn w)"
    and "flags_ok (cw_ending w) (cw_conn w)" and "ending_ok (cw_ending w) (cw_conn w)"
  using assms by (simp_all add: conn_inv_def registry_ok_def children_ok_def)

lemma close_inv:
  assumes inv: "conn_inv w" and open_: "\<not> cn_closed (cw_conn w)"
    and ids: "mset ids = mset (fst (close_lists (cw_conn w)))" and rest: "mset rest = mset (snd (close_lists (cw_conn w)))"
  shows "conn_inv (w\<lparr>cw_conn := conn_close_begin (cw_conn w), cw_ending := ClosingDevices ids rest\<rparr>)"
proof (rule ending_step_inv [OF inv])
  let ?c = "cw_conn w"
  note r = conn_inv_parts [OF inv]
  have run: "cw_ending w = Running" using running_iff [OF r(2)] open_ by simp
  have fl: "flags_ok Running ?c" using r(2) run by simp
  have "set ids = snd ` set (cn_sessions ?c)" using mset_eq_setD [OF ids] by (simp add: close_lists_def)
  moreover have "set rest = (\<lambda>p. PlaybackChild (snd p)) ` set (cn_playbacks ?c) \<union> (\<lambda>p. PushChild (snd p)) ` set (cn_pushes ?c)"
    using mset_eq_setD [OF rest] by (simp add: close_lists_def)
  ultimately have all: "DeviceChild ` set ids \<union> set rest = set (registered_children ?c)"
    by (auto simp: registered_children_def image_image)
  have "in_store (conn_close_begin ?c) ch = in_store ?c ch" for ch by (cases ch) (simp_all add: conn_close_begin_def)
  then show "ending_ok (ClosingDevices ids rest) (conn_close_begin ?c)"
    using registered_in_store [OF r(1)] all by (simp add: ending_ok_def)
  show "flags_ok (ClosingDevices ids rest) (conn_close_begin ?c)" using fl by (simp add: flags_ok_def conn_close_begin_def)
  show "same_stores ?c (conn_close_begin ?c)" by (simp add: same_stores_def conn_close_begin_def)
  show "ch \<in> set (to_end (ClosingDevices ids rest)) \<or> has_ended ?c ch"
    if "ch \<in> set (to_end (cw_ending w)) \<or> cw_ending w = Running \<and> ch \<in> set (registered_children ?c)" for ch
    using that run all by auto
qed

lemma terminate_inv:
  assumes inv: "conn_inv w" and e: "cw_ending w = Terminating err (ch # rest)"
  shows "conn_inv (w\<lparr>cw_conn := terminate_child err ch (cw_conn w), cw_ending := Terminating err rest\<rparr>)"
proof -
  let ?c = "terminate_child err ch (cw_conn w)"
  note r = conn_inv_parts [OF inv, unfolded e]
  have ch: "in_store (cw_conn w) ch" using r(3) by (simp add: ending_ok_def)
  from terminate_child_ok [OF r(1) ch, of err] have inv': "conn_inv (w\<lparr>cw_conn := ?c\<rparr>)"
    by (intro conn_inv_update [OF inv]) (simp add: e)
  note r' = conn_inv_parts [OF inv']
  have "conn_inv ((w\<lparr>cw_conn := ?c\<rparr>)\<lparr>cw_conn := ?c, cw_ending := Terminating err rest\<rparr>)"
  proof (rule ending_step_inv [OF inv'])
    show "flags_ok (Terminating err rest) ?c" using r'(2) e by (simp add: flags_ok_def)
    show "ending_ok (Terminating err rest) ?c" using r'(3) e by (simp add: ending_ok_def)
  qed (use e terminate_child_ends [OF ch, of err] in auto)
  then show ?thesis by simp
qed

lemma ended_inv:
  assumes inv: "conn_inv w" and e: "cw_ending w = Terminating err []"
  shows "conn_inv (w\<lparr>cw_conn := ending_end (cw_conn w), cw_ending := Ended\<rparr>)"
proof (rule ending_step_inv [OF inv])
  show "flags_ok Ended (ending_end (cw_conn w))"
    using conn_inv_parts(2) [OF inv] e by (simp add: flags_ok_def ending_end_def)
qed (use e in \<open>simp_all add: same_stores_def ending_end_def ending_ok_def\<close>)

lemma close_begin_closes: "close_begin ds = Some (moves, ds') \<Longrightarrow> ds_dialogID ds' = ds_dialogID ds \<and> ds_closed ds'"
  by (auto simp: close_begin_def split: if_splits)

lemma close_end_keeps:
  "ds_dialogID (snd (close_end env sendClose ds)) = ds_dialogID ds"
  "ds_closed (snd (close_end env sendClose ds)) = ds_closed ds"
  by (auto simp: close_end_def device_core_send_def Let_def split: prod.splits send_result.splits)

lemma device_close_begin_ok:
  assumes "registry_ok owner e started c" and "device_close_begin i c = Some (moves, c')"
  shows "registry_ok owner e started c' \<and> same_objects c c' \<and> (i < length (cn_devices c) \<longrightarrow> ds_closed (cn_devices c' ! i))"
proof -
  from assms(2) obtain ds where ds: "close_begin (cn_devices c ! i) = Some (moves, ds)"
      "c' = c\<lparr>cn_devices := (cn_devices c)[i := ds]\<rparr>"
    by (auto simp: device_close_begin_def)
  with device_update [OF assms(1), of ds i] close_begin_closes [OF ds(1)] show ?thesis by simp
qed

lemma device_close_end_ok:
  assumes r: "registry_ok owner e started c" and "device_close_end env sendClose i c = (sent, c')"
    and i: "i < length (cn_devices c)" and closed: "ds_closed (cn_devices c ! i)"
  shows "registry_ok owner e started c' \<and> same_objects c c'"
proof -
  let ?ds = "snd (close_end env sendClose (cn_devices c ! i))"
  let ?c = "c\<lparr>cn_devices := (cn_devices c)[i := ?ds]\<rparr>"
  from device_update [OF r, of ?ds i] closed
  have u: "registry_ok owner e started ?c" "same_objects c ?c" by (simp_all add: close_end_keeps)
  have st: "set started \<subseteq> {..<length (cn_devices c)}" using r by (auto simp: registry_ok_def children_ok_def devices_end_def)
  have "ds_closed (cn_devices ?c ! j)" if "j \<in> set started" "ds_dialogID (cn_devices ?c ! j) = ds_dialogID ?ds" for j
    using that st one_device [OF r, of j i] i closed by (auto simp: nth_update close_end_keeps split: if_splits)
  from remove_session [OF u(1), of "ds_dialogID ?ds", OF this] show ?thesis
    using assms(2) same_objects_trans [OF u(2)] by (auto simp: device_close_end_def Let_def split: prod.splits)
qed

lemma device_watch_end_ok:
  assumes r: "registry_ok owner e started c" and "device_watch_end err i c = (sent, c')" and i: "i < length (cn_devices c)"
  shows "registry_ok owner e started c' \<and> same_objects c c'"
proof -
  let ?ds = "snd (watch_end err (cn_devices c ! i))"
  let ?c = "c\<lparr>cn_devices := (cn_devices c)[i := ?ds]\<rparr>"
  have k: "ds_dialogID ?ds = ds_dialogID (cn_devices c ! i)" "ds_closed ?ds" by (simp_all add: watch_end_def)
  from device_update [OF r, of ?ds i] k have u: "registry_ok owner e started ?c" "same_objects c ?c" by simp_all
  have st: "set started \<subseteq> {..<length (cn_devices c)}" using r by (auto simp: registry_ok_def children_ok_def devices_end_def)
  have "ds_closed (cn_devices ?c ! j)" if "j \<in> set started" "ds_dialogID (cn_devices ?c ! j) = ds_dialogID ?ds" for j
    using that st one_device [OF r, of j i] i k by (auto simp: nth_update split: if_splits)
  from remove_session [OF u(1), of "ds_dialogID ?ds", OF this] show ?thesis
    using assms(2) same_objects_trans [OF u(2)] by (auto simp: device_watch_end_def Let_def split: prod.splits)
qed

lemma conn_closing_inv:
  assumes inv: "conn_inv w"
  shows "cw_ending w = ClosingDevices (i # ids) rest \<Longrightarrow> device_close_begin i (cw_conn w) = None \<Longrightarrow>
           conn_inv (w\<lparr>cw_ending := ClosingDevices ids rest\<rparr>)"
    and "cw_ending w = ClosingDevices (i # ids) rest \<Longrightarrow> device_close_begin i (cw_conn w) = Some (moves, c) \<Longrightarrow>
           conn_inv (w\<lparr>cw_conn := c, cw_ending := ClosingDevice i ids rest\<rparr>)"
    and "cw_ending w = ClosingDevice i ids rest \<Longrightarrow> device_close_end env True i (cw_conn w) = (sent, c) \<Longrightarrow>
           conn_inv (w\<lparr>cw_conn := c, cw_ending := ClosingDevices ids rest\<rparr>)"
    and "cw_ending w = ClosingDevices [] rest \<Longrightarrow>
           conn_inv (w\<lparr>cw_conn := conn_close_done (cw_conn w), cw_ending := Terminating ErrClosed rest\<rparr>)"
proof -
  note r = conn_inv_parts [OF inv]
  show "conn_inv (w\<lparr>cw_ending := ClosingDevices ids rest\<rparr>)"
    if e: "cw_ending w = ClosingDevices (i # ids) rest" and n: "device_close_begin i (cw_conn w) = None"
  proof -
    have "ds_closed (cn_devices (cw_conn w) ! i)"
      using n by (simp add: device_close_begin_def close_begin_def split: if_splits)
    then have "conn_inv (w\<lparr>cw_conn := cw_conn w, cw_ending := ClosingDevices ids rest\<rparr>)"
      using r(2,3) e by (intro ending_step_inv [OF inv]) (auto simp: flags_ok_def ending_ok_def)
    then show ?thesis by simp
  qed
  show "conn_inv (w\<lparr>cw_conn := c, cw_ending := ClosingDevice i ids rest\<rparr>)"
    if e: "cw_ending w = ClosingDevices (i # ids) rest" and b: "device_close_begin i (cw_conn w) = Some (moves, c)"
  proof -
    note ok = device_close_begin_ok [OF r(1) b]
    then have inv': "conn_inv (w\<lparr>cw_conn := c\<rparr>)" by (intro conn_inv_update [OF inv]) simp
    note r' = conn_inv_parts [OF inv']
    have i: "i < length (cn_devices (cw_conn w))" using r(3) e by (simp add: ending_ok_def)
    moreover have "length (cn_devices c) = length (cn_devices (cw_conn w))" using ok by (simp add: key_defs) (metis length_map)
    ultimately have "i < length (cn_devices c)" "ds_closed (cn_devices c ! i)" using ok by simp_all
    then have "conn_inv ((w\<lparr>cw_conn := c\<rparr>)\<lparr>cw_conn := c, cw_ending := ClosingDevice i ids rest\<rparr>)"
      using r'(2,3) e by (intro ending_step_inv [OF inv']) (auto simp: flags_ok_def ending_ok_def)
    then show ?thesis by simp
  qed
  show "conn_inv (w\<lparr>cw_conn := c, cw_ending := ClosingDevices ids rest\<rparr>)"
    if e: "cw_ending w = ClosingDevice i ids rest" and b: "device_close_end env True i (cw_conn w) = (sent, c)"
  proof -
    have "i < length (cn_devices (cw_conn w))" "ds_closed (cn_devices (cw_conn w) ! i)"
      using r(3) e by (simp_all add: ending_ok_def)
    from device_close_end_ok [OF r(1) b this] have inv': "conn_inv (w\<lparr>cw_conn := c\<rparr>)"
      by (intro conn_inv_update [OF inv])
    note r' = conn_inv_parts [OF inv']
    have "conn_inv ((w\<lparr>cw_conn := c\<rparr>)\<lparr>cw_conn := c, cw_ending := ClosingDevices ids rest\<rparr>)"
      using r'(2,3) e by (intro ending_step_inv [OF inv']) (auto simp: flags_ok_def ending_ok_def)
    then show ?thesis by simp
  qed
  show "conn_inv (w\<lparr>cw_conn := conn_close_done (cw_conn w), cw_ending := Terminating ErrClosed rest\<rparr>)"
    if e: "cw_ending w = ClosingDevices [] rest"
  proof (rule ending_step_inv [OF inv])
    have "in_store (conn_close_done (cw_conn w)) ch = in_store (cw_conn w) ch" for ch
      by (cases ch) (simp_all add: conn_close_done_def)
    then show "ending_ok (Terminating ErrClosed rest) (conn_close_done (cw_conn w))"
      using r(3) e by (simp add: ending_ok_def)
  qed (use r(2) e in \<open>auto simp: flags_ok_def same_stores_def conn_close_done_def\<close>)
qed

subsection \<open>Messages\<close>

lemma take_message_ok:
  assumes r: "registry_ok owner e started c" and "(m, c') \<in> set (take_message (Some q) c)" and q: "owned owner q d"
  shows "registry_ok owner e started c' \<and> same_objects c c' \<and> msg_dialog m = d"
proof -
  from assms(2) obtain xs where t: "cn_queues c ! q = m # xs" "c' = c\<lparr>cn_queues := (cn_queues c)[q := xs]\<rparr>"
    by (cases "cn_queues c ! q") (auto simp: take_message_def)
  have "length (m # xs) \<le> NegotiationQueueCapacity" "\<forall>x\<in>set (m # xs). msg_dialog x = owner ! q"
    using r q t(1) unfolding registry_ok_def queues_ok_def owned_def by metis+
  then show ?thesis using queue_update [OF r, of xs q] q t(2) by (simp add: owned_def)
qed

lemma route_lookup_ok: "registry_ok owner e started c \<Longrightarrow> target_ok owner c d (route_lookup d c)"
  by (auto simp: registry_ok_def maps_ok_def route_lookup_def target_ok_def split: option.splits)

lemma offer_ok:
  assumes r: "registry_ok owner e started c" and "chan_offer m (cn_queues c ! q) = Some xs" and "owned owner q (msg_dialog m)"
  shows "registry_ok owner e started (c\<lparr>cn_queues := (cn_queues c)[q := xs]\<rparr>) \<and>
         same_objects c (c\<lparr>cn_queues := (cn_queues c)[q := xs]\<rparr>)"
proof (rule queue_update [OF r])
  show "length xs \<le> NegotiationQueueCapacity" using dialog_channel.offer_bounded [OF assms(2)] .
  show "\<forall>x\<in>set xs. msg_dialog x = owner ! q"
    using assms dialog_channel.offer_Some [OF assms(2)] by (auto simp: registry_ok_def queues_ok_def owned_def)
qed

lemma device_handle_keeps:
  assumes "device_handle now m ds = Ok (Some ds')"
  shows "ds_dialogID ds' = ds_dialogID ds" and "ds_closed ds \<Longrightarrow> ds_closed ds'"
  using device_ident_handle [OF assms] same_moves_handle [OF assms] by (simp_all add: device_ident_def same_moves_def)

lemma device_step_keeps:
  assumes "device_step ds ds'"
  shows "ds_dialogID ds' = ds_dialogID ds" and "ds_closed ds \<Longrightarrow> ds_closed ds'"
  using assms
  by (cases; auto simp: device_handle_keeps terminate_def continuous_begin_def continuous_end_def StopPTZ_end_def
      split: if_splits outcome.splits)+

lemma playback_owned:
  assumes "registry_ok owner e started c" and "i < length (cn_playback_store c)"
  shows "owned owner (pb_events (cn_playback_store c ! i)) (pb_dialog (cn_playback_store c ! i))"
proof -
  have "(pb_dialog (cn_playback_store c ! i), pb_events (cn_playback_store c ! i)) \<in> set (playback_keys c)"
    using assms(2) by (auto simp: playback_keys_def)
  then show ?thesis using assms(1) by (auto simp: registry_ok_def objects_ok_def)
qed

lemma push_owned:
  assumes "registry_ok owner e started c" and "i < length (cn_push_store c)"
  shows "owned owner (pu_events (cn_push_store c ! i)) (pu_dialog (cn_push_store c ! i))"
proof -
  have "(pu_dialog (cn_push_store c ! i), pu_events (cn_push_store c ! i)) \<in> set (push_keys c)"
    using assms(2) by (auto simp: push_keys_def)
  then show ?thesis using assms(1) by (auto simp: registry_ok_def objects_ok_def)
qed

lemma playback_handle_ok:
  assumes r: "registry_ok owner e started c" and i: "i < length (cn_playback_store c)"
    and d: "pb_dialog (cn_playback_store c ! i) = msg_dialog m"
  shows "registry_ok owner e started (playback_handle now m i c) \<and> same_objects c (playback_handle now m i c)"
proof -
  let ?s = "cn_playback_store c ! i"
  have "registry_ok owner e started (c\<lparr>cn_playback_store := (cn_playback_store c)[i := ?s\<lparr>pb_lastPong := now\<rparr>]\<rparr>) \<and>
      same_objects c (c\<lparr>cn_playback_store := (cn_playback_store c)[i := ?s\<lparr>pb_lastPong := now\<rparr>]\<rparr>)"
    by (rule playback_update [OF r]) simp_all
  moreover have "owned owner (pb_events ?s) (msg_dialog m)" using playback_owned [OF r i] d by simp
  ultimately show ?thesis
    using offer_ok [OF r] playback_terminate_ok [OF r i] r
    by (simp add: playback_handle_def Let_def split: option.split)
qed

lemma deliver_ok:
  assumes r: "registry_ok owner e started c" and t: "target_ok owner c (msg_dialog m) tgt"
    and d: "deliver now m tgt c = Ok (Some (c', err))"
  shows "registry_ok owner e started c' \<and> same_objects c c'"
proof (cases tgt)
  case Nowhere
  then show ?thesis using r d by (simp add: deliver_def)
next
  case (ToPending q)
  then show ?thesis using r d t offer_ok [OF r, of m q] by (auto simp: deliver_def target_ok_def split: option.splits)
next
  case (ToSession i)
  with d obtain ds where "device_handle now m (cn_devices c ! i) = Ok (Some ds)"
      "c' = c\<lparr>cn_devices := (cn_devices c)[i := ds]\<rparr>"
    by (auto simp: deliver_def obind_Ok_iff)
  then show ?thesis using device_update [OF r, of ds i] device_handle_keeps by simp
next
  case (ToPlayback i)
  then have "i < length (cn_playback_store c)" "pb_dialog (cn_playback_store c ! i) = msg_dialog m"
    using t by (auto simp: target_ok_def key_at_def playback_keys_def)
  from playback_handle_ok [OF r this, of now] ToPlayback d show ?thesis by (auto simp: deliver_def)
next
  case (ToChannel q push)
  then have "owned owner q (msg_dialog m)" "push = Some i \<Longrightarrow> i < length (cn_push_store c)" for i
    using t by (auto simp: target_ok_def key_at_def push_keys_def)
  with ToChannel d r offer_ok [OF r, of m q] push_terminate_ok [OF r] show ?thesis
    by (auto simp: deliver_def split: option.splits)
qed

lemma reader_inv:
  assumes inv: "conn_inv w"
  shows "conn_inv (w\<lparr>cw_reader := Some (m, route_lookup (msg_dialog m) (cw_conn w))\<rparr>)"
    and "cw_reader w = Some (m, tgt) \<Longrightarrow> deliver now m tgt (cw_conn w) = Ok (Some (c, err)) \<Longrightarrow>
      conn_inv (w\<lparr>cw_conn := c, cw_reader := None\<rparr>)"
proof -
  note r = conn_inv_parts [OF inv]
  show "conn_inv (w\<lparr>cw_reader := Some (m, route_lookup (msg_dialog m) (cw_conn w))\<rparr>)"
    using inv route_lookup_ok [OF r(1)] by (simp add: conn_inv_def reader_ok_def)
  show "conn_inv (w\<lparr>cw_conn := c, cw_reader := None\<rparr>)"
    if rd: "cw_reader w = Some (m, tgt)" and d: "deliver now m tgt (cw_conn w) = Ok (Some (c, err))"
  proof -
    have "target_ok (cw_owner w) (cw_conn w) (msg_dialog m) tgt" using inv rd by (simp add: conn_inv_def reader_ok_def)
    from deliver_ok [OF r(1) this d] inv show ?thesis
      using open_ok_same by (auto simp: conn_inv_def reader_ok_def)
  qed
qed

subsection \<open>Negotiations\<close>

lemma push_key: "i < length (cn_push_store c) \<Longrightarrow> pu_dialog (cn_push_store c ! i) \<in> fst ` set (push_keys c)"
  by (simp add: push_keys_def image_image)

text \<open>Rounds that change no object.\<close>

lemma interrupted_ok:
  assumes r: "registry_ok owner e started c" and "(x, c') \<in> set (interrupted message ctxErr d c)"
    and d: "d \<notin> fst ` set (push_keys c)"
  shows "registry_ok owner e started c' \<and> same_objects c c'"
proof -
  have "c' = removeChannel d c" using assms(2) by (auto simp: interrupted_def split: option.splits if_splits)
  moreover have "False" if "i < length (cn_push_store c)" "pu_dialog (cn_push_store c ! i) = d" for i
    using push_key [OF that(1)] that(2) d by simp
  ultimately show ?thesis using remove_channel [OF r, of d] by blast
qed

text \<open>The registry grows by a channel for a fresh dialog.\<close>

lemma owned_grows: "owned owner q d \<Longrightarrow> owned (owner @ names) q d"
  by (simp add: owned_def nth_append)

lemma grow_owner:
  assumes r: "registry_ok owner e started c" and name: "name \<noteq> []" "name \<notin> set owner"
  shows "registry_ok (owner @ [name]) e started (c\<lparr>cn_queues := cn_queues c @ [[]]\<rparr>)"
    and "same_objects c (c\<lparr>cn_queues := cn_queues c @ [[]]\<rparr>)"
proof -
  let ?c = "c\<lparr>cn_queues := cn_queues c @ [[]]\<rparr>"
  show same: "same_objects c ?c" by (simp add: key_defs)
  have "queues_ok (owner @ [name]) ?c"
    using r name by (simp add: registry_ok_def queues_ok_def nth_append less_Suc_eq)
  moreover have "objects_ok owner ?c" using r objects_ok_same [OF same] by (simp add: registry_ok_def)
  then have "objects_ok (owner @ [name]) ?c" unfolding objects_ok_def using owned_grows [of owner _ _ "[name]"] by auto
  moreover have "maps_ok owner ?c" using r maps_ok_same [OF same] by (simp add: registry_ok_def)
  then have "maps_ok (owner @ [name]) ?c" unfolding maps_ok_def using owned_grows [of owner _ _ "[name]"] by blast
  moreover have "children_ok e started ?c"
    using r ends_same [of ?c c] ending_ok_mono [of e c ?c] by (simp add: registry_ok_def children_ok_def)
  moreover have "flags_ok e ?c" using r flags_ok_same [of e c ?c] by (simp add: registry_ok_def)
  ultimately show "registry_ok (owner @ [name]) e started ?c" by (simp add: registry_ok_def)
qed

lemma put_entry:
  assumes r: "registry_ok owner e started c" and q: "owned owner q d"
  shows "registry_ok owner e started (c\<lparr>cn_channels := gm_put d q (cn_channels c)\<rparr>)"
    and "registry_ok owner e started (c\<lparr>cn_pending := gm_put d q (cn_pending c)\<rparr>)"
proof -
  let ?a = "c\<lparr>cn_channels := gm_put d q (cn_channels c)\<rparr>" and ?b = "c\<lparr>cn_pending := gm_put d q (cn_pending c)\<rparr>"
  have same: "same_objects c ?a" "same_objects c ?b" by (simp_all add: key_defs)
  have "maps_ok owner ?a" "maps_ok owner ?b"
    using r q unfolding registry_ok_def maps_ok_def key_defs by auto
  moreover have "children_ok e started ?a" "children_ok e started ?b"
    using r ends_same [of ?a c] ends_same [of ?b c] ending_ok_mono [of e c ?a] ending_ok_mono [of e c ?b]
    by (simp_all add: registry_ok_def children_ok_def)
  moreover have "objects_ok owner ?a" "objects_ok owner ?b" "flags_ok e ?a" "flags_ok e ?b" "queues_ok owner ?a" "queues_ok owner ?b"
    using r objects_ok_same [OF same(1)] objects_ok_same [OF same(2)] flags_ok_same [of e c ?a] flags_ok_same [of e c ?b]
    by (simp_all add: registry_ok_def queues_ok_def)
  ultimately show "registry_ok owner e started ?a" "registry_ok owner e started ?b" by (simp_all add: registry_ok_def)
qed

lemma target_ok_grows: "target_ok owner c d t \<Longrightarrow> target_ok (owner @ names) c d t"
  using owned_grows by (auto simp: target_ok_def split: target.splits)

lemma fresh_dialogs:
  assumes "registry_ok owner e started c" and "name \<notin> set owner"
  shows "name \<notin> fst ` set (push_keys c)" and "name \<notin> fst ` set (playback_keys c)" and "name \<notin> set (device_dialogs c)"
proof -
  have owned: "owned owner q d \<Longrightarrow> d \<in> set owner" for q d by (auto simp: owned_def)
  with assms show "name \<notin> fst ` set (push_keys c)" "name \<notin> fst ` set (playback_keys c)" "name \<notin> set (device_dialogs c)"
    by (fastforce simp: registry_ok_def objects_ok_def)+
qed

lemma grown_inv:
  assumes inv: "conn_inv w" and r: "registry_ok (cw_owner w @ names) (cw_ending w) (cw_started w) c"
    and same: "same_objects (cw_conn w) c"
    and op: "op = None \<or> (\<exists>q kind. op = Some (q, kind) \<and> owned (cw_owner w @ names) q d \<and> opening_ok c d kind)"
  shows "conn_inv (w\<lparr>cw_conn := c, cw_owner := cw_owner w @ names,
    cw_open := (if op = None then cw_open w else (cw_open w)(d := op))\<rparr>)"
proof -
  have "reader_ok (cw_owner w @ names) c (cw_reader w)"
  proof (cases "cw_reader w")
    case (Some p)
    obtain m tgt where p: "p = (m, tgt)" by (cases p)
    have "reader_ok (cw_owner w) c (cw_reader w)" using inv reader_ok_same [OF same] by (simp add: conn_inv_def)
    then show ?thesis using Some p target_ok_grows by (simp add: reader_ok_def)
  qed (simp add: reader_ok_def)
  moreover have "open_ok (cw_owner w @ names) c (cw_open w)"
    using inv open_ok_same [OF same] owned_grows by (auto simp: conn_inv_def open_ok_def)
  then have "open_ok (cw_owner w @ names) c (if op = None then cw_open w else (cw_open w)(d := op))"
    using op by (auto simp: open_ok_def)
  ultimately show ?thesis using r by (simp add: conn_inv_def)
qed

lemma register_channel_ok:
  assumes r: "registry_ok owner e started c" and name: "name \<noteq> []" "name \<notin> set owner"
    and open_: "\<not> cn_closed c"
  shows "registerChannel name c = ((name, Some (length owner), None), snd (registerChannel name c))"
    and "registry_ok (owner @ [name]) e started (snd (registerChannel name c))"
    and "same_objects c (snd (registerChannel name c))"
    and "length (cn_queues (snd (registerChannel name c))) = Suc (length owner)"
proof -
  have len: "length (cn_queues c) = length owner" using r by (simp add: registry_ok_def queues_ok_def)
  let ?c = "c\<lparr>cn_queues := cn_queues c @ [[]]\<rparr>"
  have "owned (owner @ [name]) (length owner) name" by (simp add: owned_def)
  from put_entry(1) [OF grow_owner(1) [OF r name] this] grow_owner(2) [OF r name]
  show "registerChannel name c = ((name, Some (length owner), None), snd (registerChannel name c))"
      "registry_ok (owner @ [name]) e started (snd (registerChannel name c))"
      "same_objects c (snd (registerChannel name c))"
      "length (cn_queues (snd (registerChannel name c))) = Suc (length owner)"
    using open_ len by (simp_all add: registerChannel_def key_defs)
qed

lemma open_dialog_inv:
  assumes inv: "conn_inv w" and fresh: "fresh_name name w"
    and o: "open_dialog env name method body (cw_conn w) = (sent, start, c)"
    and kind: "kind = OpeningPush \<or> (\<exists>deviceID. kind = OpeningPlayback deviceID)"
  shows "conn_inv (opened name start kind c w)"
proof -
  note r = conn_inv_parts [OF inv]
  have len: "length (cn_queues (cw_conn w)) = length (cw_owner w)" using r(1) by (simp add: registry_ok_def queues_ok_def)
  have name: "name \<noteq> []" "name \<notin> set (cw_owner w)" using fresh by (simp_all add: fresh_name_def)
  show ?thesis
  proof (cases "cn_closed (cw_conn w)")
    case True
    then have "c = cw_conn w \<or> c = removeChannel [] (cw_conn w)" and start: "\<forall>d q. start \<noteq> DialogWaits d (Some q)"
      using o by (auto simp: open_dialog_def registerChannel_def split: option.splits prod.splits)
    moreover have "False" if "i < length (cn_push_store (cw_conn w))" "pu_dialog (cn_push_store (cw_conn w) ! i) = []" for i
      using push_owned [OF r(1) that(1)] that(2) r(1) by (auto simp: owned_def registry_ok_def queues_ok_def) (metis nth_mem)
    then have "registry_ok (cw_owner w) (cw_ending w) (cw_started w) (removeChannel [] (cw_conn w)) \<and>
        same_objects (cw_conn w) (removeChannel [] (cw_conn w))"
      using remove_channel [OF r(1), of "[]"] by blast
    ultimately have ok: "registry_ok (cw_owner w) (cw_ending w) (cw_started w) c \<and> same_objects (cw_conn w) c"
        "length (cn_queues c) = length (cw_owner w)"
      using r(1) len by (auto simp: removeChannel_def)
    have "opened name start kind c w = w\<lparr>cw_conn := c\<rparr>"
      using start ok(2) by (cases start; cases w) (auto simp: opened_def split: option.splits)
    then show ?thesis using conn_inv_update [OF inv ok(1)] by simp
  next
    case False
    let ?c = "snd (registerChannel name (cw_conn w))"
    note reg = register_channel_ok [OF r(1) name False]
    have "False" if "i < length (cn_push_store ?c)" "pu_dialog (cn_push_store ?c ! i) = name" for i
    proof -
      have "name \<in> fst ` set (push_keys ?c)" using push_key [OF that(1)] that(2) by simp
      then show False using fresh_dialogs(1) [OF r(1) name(2)] reg(3) by (simp add: same_objects_def)
    qed
    then have rem: "registry_ok (cw_owner w @ [name]) (cw_ending w) (cw_started w) (removeChannel name ?c) \<and>
        same_objects ?c (removeChannel name ?c)"
      using remove_channel [OF reg(2), of name] by blast
    obtain frames err where st: "sendTyped env method name [] body ?c = (frames, err)"
      by (cases "sendTyped env method name [] body ?c")
    show ?thesis
    proof (cases err)
      case None
      with o st reg(1) have e: "start = DialogWaits name (Some (length (cw_owner w)))" "c = ?c"
        by (simp_all add: open_dialog_def split: prod.splits)
      have "opening_ok c name kind"
        using kind fresh_dialogs [OF r(1) name(2)] reg(3) e(2) by (auto simp: opening_ok_def same_objects_def)
      with grown_inv [OF inv reg(2) reg(3), of "Some (length (cw_owner w), kind)" name] e reg(4)
      show ?thesis by (simp add: opened_def owned_def)
    next
      case (Some x)
      with o st reg(1) have e: "start = DialogFails (Some x)" "c = removeChannel name ?c"
        by (simp_all add: open_dialog_def split: prod.splits)
      from grown_inv [OF inv conjunct1 [OF rem] same_objects_trans [OF reg(3) conjunct2 [OF rem]], of None]
      show ?thesis using e reg(4) by (simp add: opened_def removeChannel_def)
    qed
  qed
qed

text \<open>A negotiation ends with a new object for its dialog, or with none.\<close>

definition grows :: "string \<Rightarrow> connection \<Rightarrow> connection \<Rightarrow> bool" where
  "grows d c c' \<longleftrightarrow>
     (\<exists>xs ys zs. device_dialogs c' = device_dialogs c @ xs \<and> playback_keys c' = playback_keys c @ ys \<and>
        push_keys c' = push_keys c @ zs \<and> set xs \<subseteq> {d} \<and> fst ` set ys \<subseteq> {d} \<and> fst ` set zs \<subseteq> {d})"

lemma grows_same: "same_objects c c' \<Longrightarrow> grows d c c'"
  by (simp add: grows_def same_objects_def)

lemma key_at_append: "key_at xs i k \<Longrightarrow> key_at (xs @ ys) i k"
  by (simp add: key_at_def nth_append)

lemma target_ok_grown:
  assumes "grows d c c'" and "target_ok owner c dialog t"
  shows "target_ok owner c' dialog t"
proof -
  from assms(1) obtain xs ys zs where g: "device_dialogs c' = device_dialogs c @ xs"
      "playback_keys c' = playback_keys c @ ys" "push_keys c' = push_keys c @ zs"
    by (auto simp: grows_def)
  show ?thesis using assms(2) by (cases t) (simp_all add: target_ok_def g key_at_append split: option.splits)
qed

lemma opening_ok_grown:
  assumes "grows d c c'" and "dialog \<noteq> d" and "opening_ok c dialog kind"
  shows "opening_ok c' dialog kind"
proof -
  from assms(1) obtain xs ys zs where g: "device_dialogs c' = device_dialogs c @ xs"
      "playback_keys c' = playback_keys c @ ys" "push_keys c' = push_keys c @ zs"
      and d: "set xs \<subseteq> {d}" "fst ` set ys \<subseteq> {d}" "fst ` set zs \<subseteq> {d}"
    by (auto simp: grows_def)
  have "dialog \<notin> set xs" "dialog \<notin> fst ` set ys" "dialog \<notin> fst ` set zs" using d assms(2) by blast+
  then show ?thesis
    using assms(3) by (cases kind) (auto simp: opening_ok_def g key_at_append image_Un split: option.splits)
qed

lemma settle_inv:
  assumes inv: "conn_inv w" and r: "registry_ok (cw_owner w) (cw_ending w) started c" and g: "grows d (cw_conn w) c"
    and op: "op = None \<or> (\<exists>q kind. op = Some (q, kind) \<and> owned (cw_owner w) q d \<and> opening_ok c d kind)"
  shows "conn_inv (w\<lparr>cw_conn := c, cw_open := (cw_open w)(d := op), cw_started := started\<rparr>)"
proof -
  have "reader_ok (cw_owner w) c (cw_reader w)"
    using inv target_ok_grown [OF g] by (auto simp: conn_inv_def reader_ok_def split: option.splits)
  moreover have "open_ok (cw_owner w) c ((cw_open w)(d := op))"
    using inv op opening_ok_grown [OF g] by (auto simp: conn_inv_def open_ok_def)
  ultimately show ?thesis using r by (simp add: conn_inv_def)
qed

lemma new_push:
  assumes r: "registry_ok owner e started c" and open_: "\<not> cn_closed c" and q: "owned owner q d"
    and new: "d \<notin> fst ` set (push_keys c)"
    and s: "pu_dialog s = d" "pu_events s = q" "\<not> pu_ended s"
  shows "registry_ok owner e started
           (c\<lparr>cn_push_store := cn_push_store c @ [s], cn_pushes := gm_put d (length (cn_push_store c)) (cn_pushes c)\<rparr>)"
    (is "registry_ok owner e started ?c")
proof -
  have run: "e = Running" using r open_ running_iff [of e c] by (simp add: registry_ok_def)
  have wf: "gm_wf (cn_pushes c)" using r by (simp add: registry_ok_def maps_ok_def)
  have keys: "device_dialogs ?c = device_dialogs c" "playback_keys ?c = playback_keys c" "push_keys ?c = push_keys c @ [(d, q)]"
    using s by (simp_all add: key_defs)
  have len: "length (push_keys c) = length (cn_push_store c)" by (simp add: push_keys_def)
  have "objects_ok owner ?c" using r new q keys by (auto simp: registry_ok_def objects_ok_def)
  moreover have "key_at (map fst (push_keys ?c)) i dd" if "map_of (cn_pushes ?c) dd = Some i" for dd i
  proof (cases "dd = d")
    case True
    then show ?thesis using that wf keys len by (simp add: key_at_def nth_append)
  next
    case False
    then have "key_at (map fst (push_keys c)) i dd" using that wf r by (simp add: registry_ok_def maps_ok_def)
    then show ?thesis using keys key_at_append by simp
  qed
  then have "maps_ok owner ?c" using r wf keys by (simp add: registry_ok_def maps_ok_def)
  moreover have "pushes_end e ?c"
    unfolding pushes_end_def
  proof (intro allI impI)
    fix i assume i: "i < length (cn_push_store ?c)"
    show "let s = cn_push_store ?c ! i in if pu_ended s then pu_terminal s \<noteq> None
        else will_end e (PushChild i) (map_of (cn_pushes ?c) (pu_dialog s)) i"
    proof (cases "i = length (cn_push_store c)")
      case True
      then show ?thesis using s run wf by (simp add: nth_append will_end_def)
    next
      case False
      with i have i: "i < length (cn_push_store c)" by simp
      then have "pu_dialog (cn_push_store c ! i) \<noteq> d" using new push_key [OF i] by auto
      then show ?thesis using i r wf by (simp add: nth_append registry_ok_def children_ok_def pushes_end_def Let_def)
    qed
  qed
  moreover have "devices_end e started ?c" "playbacks_end e ?c" "ending_ok e ?c" "queues_ok owner ?c" "flags_ok e ?c"
    using r ends_same(1,2) [of ?c c] ending_ok_mono [of e c ?c] flags_ok_same [of e c ?c]
    by (simp_all add: registry_ok_def children_ok_def queues_ok_def)
  ultimately show ?thesis by (simp add: registry_ok_def children_ok_def)
qed

lemma playback_key: "i < length (cn_playback_store c) \<Longrightarrow> pb_dialog (cn_playback_store c ! i) \<in> fst ` set (playback_keys c)"
  by (simp add: playback_keys_def image_image)

lemma new_playback:
  assumes r: "registry_ok owner e started c" and open_: "\<not> cn_closed c" and q: "owned owner q d"
    and new: "d \<notin> fst ` set (playback_keys c)"
    and s: "pb_dialog s = d" "pb_events s = q" "\<not> pb_ended s"
  shows "registry_ok owner e started
           (c\<lparr>cn_playback_store := cn_playback_store c @ [s],
              cn_playbacks := gm_put d (length (cn_playback_store c)) (cn_playbacks c)\<rparr>)"
    (is "registry_ok owner e started ?c")
proof -
  have run: "e = Running" using r open_ running_iff [of e c] by (simp add: registry_ok_def)
  have wf: "gm_wf (cn_playbacks c)" using r by (simp add: registry_ok_def maps_ok_def)
  have keys: "device_dialogs ?c = device_dialogs c" "playback_keys ?c = playback_keys c @ [(d, q)]" "push_keys ?c = push_keys c"
    using s by (simp_all add: key_defs)
  have len: "length (playback_keys c) = length (cn_playback_store c)" by (simp add: playback_keys_def)
  have "objects_ok owner ?c" using r new q keys by (auto simp: registry_ok_def objects_ok_def)
  moreover have "key_at (map fst (playback_keys ?c)) i dd" if "map_of (cn_playbacks ?c) dd = Some i" for dd i
  proof (cases "dd = d")
    case True
    then show ?thesis using that wf keys len by (simp add: key_at_def nth_append)
  next
    case False
    then have "key_at (map fst (playback_keys c)) i dd" using that wf r by (simp add: registry_ok_def maps_ok_def)
    then show ?thesis using keys key_at_append by simp
  qed
  then have "maps_ok owner ?c" using r wf keys by (simp add: registry_ok_def maps_ok_def)
  moreover have "playbacks_end e ?c"
    unfolding playbacks_end_def
  proof (intro allI impI)
    fix i assume i: "i < length (cn_playback_store ?c)"
    show "let s = cn_playback_store ?c ! i in if pb_ended s then pb_terminal s \<noteq> None
        else will_end e (PlaybackChild i) (map_of (cn_playbacks ?c) (pb_dialog s)) i"
    proof (cases "i = length (cn_playback_store c)")
      case True
      then show ?thesis using s run wf by (simp add: nth_append will_end_def)
    next
      case False
      with i have i: "i < length (cn_playback_store c)" by simp
      then have "pb_dialog (cn_playback_store c ! i) \<noteq> d" using new playback_key [OF i] by auto
      then show ?thesis using i r wf by (simp add: nth_append registry_ok_def children_ok_def playbacks_end_def Let_def)
    qed
  qed
  moreover have "devices_end e started ?c" "pushes_end e ?c" "ending_ok e ?c" "queues_ok owner ?c" "flags_ok e ?c"
    using r ends_same(1,3) [of ?c c] ending_ok_mono [of e c ?c] flags_ok_same [of e c ?c]
    by (simp_all add: registry_ok_def children_ok_def queues_ok_def)
  ultimately show ?thesis by (simp add: registry_ok_def children_ok_def)
qed

lemma settled_inv:
  assumes inv: "conn_inv w" and op: "cw_open w d = Some (q, kind)"
    and r: "registry_ok (cw_owner w) (cw_ending w) (cw_started w) c" and g: "grows d (cw_conn w) c"
    and again: "x = Again \<Longrightarrow> same_objects (cw_conn w) c"
  shows "conn_inv (settled d x c w)"
proof (cases "x = Again")
  case True
  then show ?thesis using conn_inv_update [OF inv] r again by (simp add: settled_def)
next
  case False
  then have "settled d x c w = w\<lparr>cw_conn := c, cw_open := (cw_open w)(d := None), cw_started := cw_started w\<rparr>"
    by (cases x; cases w) (simp_all add: settled_def)
  then show ?thesis using settle_inv [OF inv r g, of None] by simp
qed

lemma take_message_inv:
  assumes "conn_inv w" and "owned (cw_owner w) q d" and "(m, c) \<in> set (take_message (Some q) (cw_conn w))"
  shows "conn_inv (w\<lparr>cw_conn := c\<rparr>)" and "same_objects (cw_conn w) c"
    and "registry_ok (cw_owner w) (cw_ending w) (cw_started w) c"
  using take_message_ok [OF conn_inv_parts(1) [OF assms(1)] assms(3,2)] conn_inv_update [OF assms(1)] by auto

lemma take_message_flags: "(m, c') \<in> set (take_message q c) \<Longrightarrow> cn_closed c' = cn_closed c"
  by (auto simp: take_message_def split: option.splits)

lemma open_owned: "conn_inv w \<Longrightarrow> cw_open w d = Some (q, kind) \<Longrightarrow> owned (cw_owner w) q d \<and> opening_ok (cw_conn w) d kind"
  by (simp add: conn_inv_def open_ok_def)

lemma push_round_inv:
  assumes inv: "conn_inv w" and op: "cw_open w d = Some (q, OpeningPush)"
    and rd: "(x, c) \<in> set (SubscribePush_round ctxErr d (Some q) (cw_conn w))"
  shows "conn_inv (settled d x c w)"
proof -
  note r = conn_inv_parts(1) [OF inv]
  have ok: "owned (cw_owner w) q d" "d \<notin> fst ` set (push_keys (cw_conn w))"
    using open_owned [OF inv op] by (simp_all add: opening_ok_def)
  from rd consider
      "(x, c) \<in> set (interrupted ''push subscription canceled'' ctxErr d (cw_conn w))"
    | m c1 where "(m, c1) \<in> set (take_message (Some q) (cw_conn w))" "(x, c) = accept_subscription d (Some q) m c1"
    by (auto simp: SubscribePush_round_def)
  then show ?thesis
  proof cases
    case 1
    from interrupted_ok [OF r 1 ok(2)] show ?thesis
      using settled_inv [OF inv op] grows_same by blast
  next
    case (2 m c1)
    note t = take_message_ok [OF r 2(1) ok(1)]
    have d: "d \<notin> fst ` set (push_keys c1)" using ok(2) t by (simp add: same_objects_def)
    have rem: "registry_ok (cw_owner w) (cw_ending w) (cw_started w) (removeChannel d c1) \<and> same_objects c1 (removeChannel d c1)"
      using remove_channel [of "cw_owner w" "cw_ending w" "cw_started w" c1 d] t push_key d by blast
    have keep: "registry_ok (cw_owner w) (cw_ending w) (cw_started w) c \<Longrightarrow> same_objects c1 c \<Longrightarrow> ?thesis"
      using settled_inv [OF inv op] grows_same same_objects_trans t by blast
    show ?thesis
    proof (cases "msg_method m \<noteq> MethodPushSubscriptionAck \<or> subscription_ack (msg_body m) = None \<or> cn_closed c1")
      case True
      then have "c = c1 \<or> c = removeChannel d c1"
        using 2(2) by (auto simp: accept_subscription_def split: if_splits option.splits)
      then show ?thesis using keep t rem by auto
    next
      case False
      then obtain sid where sid: "subscription_ack (msg_body m) = Some sid" by auto
      let ?s = "\<lparr>pu_dialog = d, pu_id = sid, pu_events = q, pu_ended = False, pu_terminal = None\<rparr>"
      have x: "x = Succeeded (length (cn_push_store c1))" and c: "c = c1\<lparr>cn_push_store := cn_push_store c1 @ [?s],
          cn_pushes := gm_put d (length (cn_push_store c1)) (cn_pushes c1)\<rparr>"
        using 2(2) False sid by (simp_all add: accept_subscription_def)
      have "registry_ok (cw_owner w) (cw_ending w) (cw_started w) c"
        unfolding c using new_push [of _ _ _ c1 q d ?s] t d ok(1) False by simp
      moreover have "grows d (cw_conn w) c"
        using t unfolding grows_def c by (simp add: key_defs)
      ultimately show ?thesis using settled_inv [OF inv op, of c x] x by simp
    qed
  qed
qed

lemma playback_round_inv:
  assumes inv: "conn_inv w" and op: "cw_open w d = Some (q, OpeningPlayback deviceID)"
    and rd: "(x, c) \<in> set (StartPlayback_round ctxErr deviceID d (Some q) now (cw_conn w))"
  shows "conn_inv (settled d x c w)"
proof -
  note r = conn_inv_parts(1) [OF inv]
  have ok: "owned (cw_owner w) q d" "d \<notin> fst ` set (playback_keys (cw_conn w))"
    and push: "d \<notin> fst ` set (push_keys (cw_conn w))"
    using open_owned [OF inv op] by (simp_all add: opening_ok_def)
  from rd consider
      "(x, c) \<in> set (interrupted ''playback negotiation timed out or was canceled'' ctxErr d (cw_conn w))"
    | m c1 where "(m, c1) \<in> set (take_message (Some q) (cw_conn w))"
        "(x, c) = accept_playback deviceID d (Some q) now m c1"
    by (auto simp: StartPlayback_round_def)
  then show ?thesis
  proof cases
    case 1
    from interrupted_ok [OF r 1 push] show ?thesis
      using settled_inv [OF inv op] grows_same by blast
  next
    case (2 m c1)
    note t = take_message_ok [OF r 2(1) ok(1)]
    have d: "d \<notin> fst ` set (playback_keys c1)" "d \<notin> fst ` set (push_keys c1)"
      using ok(2) push t by (simp_all add: same_objects_def)
    have rem: "registry_ok (cw_owner w) (cw_ending w) (cw_started w) (removeChannel d c1) \<and> same_objects c1 (removeChannel d c1)"
      using remove_channel [of "cw_owner w" "cw_ending w" "cw_started w" c1 d] t push_key d by blast
    have keep: "registry_ok (cw_owner w) (cw_ending w) (cw_started w) c \<Longrightarrow> same_objects c1 c \<Longrightarrow> ?thesis"
      using settled_inv [OF inv op] grows_same same_objects_trans t by blast
    show ?thesis
    proof (cases "msg_method m \<noteq> MethodSDP \<or> playback_answer deviceID (msg_body m) = None \<or> cn_closed c1")
      case True
      then have "c = c1 \<or> c = removeChannel d c1"
        using 2(2) by (auto simp: accept_playback_def split: if_splits option.splits)
      then show ?thesis using keep t rem by auto
    next
      case False
      then obtain sid sdp interval where a: "playback_answer deviceID (msg_body m) = Some (sid, sdp, interval)" by auto
      let ?s = "\<lparr>pb_dialog = d, pb_riid = msg_riid m, pb_id = sid, pb_deviceID = deviceID, pb_answerSDP = sdp,
          pb_events = q, pb_ended = False, pb_terminal = None, pb_lastPong = now\<rparr>"
      have x: "x = Succeeded (length (cn_playback_store c1), interval)"
        and c: "c = c1\<lparr>cn_playback_store := cn_playback_store c1 @ [?s],
          cn_playbacks := gm_put d (length (cn_playback_store c1)) (cn_playbacks c1)\<rparr>"
        using 2(2) False a by (simp_all add: accept_playback_def)
      have "registry_ok (cw_owner w) (cw_ending w) (cw_started w) c"
        unfolding c using new_playback [of _ _ _ c1 q d ?s] t d ok(1) False by simp
      moreover have "grows d (cw_conn w) c"
        using t unfolding grows_def c by (simp add: key_defs)
      ultimately show ?thesis using settled_inv [OF inv op, of c x] x by simp
    qed
  qed
qed

lemma nil_round_inv:
  assumes inv: "conn_inv w" and "(x, c) \<in> set (SubscribePush_round ctxErr [] None (cw_conn w))"
  shows "conn_inv (w\<lparr>cw_conn := c\<rparr>)"
proof -
  note r = conn_inv_parts(1) [OF inv]
  then have "[] \<notin> set (cw_owner w)" by (simp add: registry_ok_def queues_ok_def)
  note fresh = fresh_dialogs(1) [OF r this]
  have "(x, c) \<in> set (interrupted ''push subscription canceled'' ctxErr [] (cw_conn w))"
    using assms(2) by (simp add: SubscribePush_round_def take_message_def)
  from interrupted_ok [OF r this fresh] show ?thesis by (rule conn_inv_update [OF inv])
qed

lemma open_live_inv:
  assumes inv: "conn_inv w" and fresh: "fresh_name name w" and p: "registerPending name (cw_conn w) = (Inr q, c)"
  shows "conn_inv (w\<lparr>cw_conn := c, cw_owner := cw_owner w @ [name], cw_open := (cw_open w)(name \<mapsto> (q, OpeningLive None))\<rparr>)"
proof -
  note r = conn_inv_parts(1) [OF inv]
  let ?c = "(cw_conn w)\<lparr>cn_queues := cn_queues (cw_conn w) @ [[]]\<rparr>"
  have name: "name \<noteq> []" "name \<notin> set (cw_owner w)" using fresh by (simp_all add: fresh_name_def)
  have q: "q = length (cw_owner w)" and c: "c = ?c\<lparr>cn_pending := gm_put name q (cn_pending ?c)\<rparr>"
    using p r by (auto simp: registerPending_def registry_ok_def queues_ok_def split: if_splits)
  have own: "owned (cw_owner w @ [name]) q name" by (simp add: q owned_def)
  have r': "registry_ok (cw_owner w @ [name]) (cw_ending w) (cw_started w) c"
    unfolding c by (rule put_entry(2) [OF grow_owner(1) [OF r name] own])
  have same: "same_objects (cw_conn w) c" by (simp add: c key_defs)
  have "opening_ok c name (OpeningLive None)"
    using fresh_dialogs(3) [OF r name(2)] same by (simp add: opening_ok_def same_objects_def)
  with grown_inv [OF inv r' same, of "Some (q, OpeningLive None)" name] own show ?thesis by simp
qed

lemma new_device:
  assumes r: "registry_ok owner e started c" and "owned owner q d" and "d \<notin> set (device_dialogs c)" and "ds_dialogID ds = d"
  shows "registry_ok owner e started (c\<lparr>cn_devices := cn_devices c @ [ds]\<rparr>)" (is "registry_ok owner e started ?c")
    and "grows d c (c\<lparr>cn_devices := cn_devices c @ [ds]\<rparr>)"
    and "key_at (device_dialogs (c\<lparr>cn_devices := cn_devices c @ [ds]\<rparr>)) (length (cn_devices c)) d"
proof -
  have keys: "device_dialogs ?c = device_dialogs c @ [d]" "playback_keys ?c = playback_keys c" "push_keys ?c = push_keys c"
    using assms(4) by (simp_all add: key_defs)
  show "grows d c ?c" "key_at (device_dialogs ?c) (length (cn_devices c)) d"
    using keys by (simp_all add: grows_def key_at_def nth_append) (simp_all add: device_dialogs_def)
  have "d \<in> set owner" using assms(2) by (auto simp: owned_def)
  then have "objects_ok owner ?c" using r assms(3) keys by (simp add: registry_ok_def objects_ok_def)
  moreover have "maps_ok owner ?c" using r by (auto simp: registry_ok_def maps_ok_def keys key_at_append)
  moreover have "devices_end e started ?c"
    using r by (auto simp: registry_ok_def children_ok_def devices_end_def nth_append)
  moreover have "playbacks_end e ?c" "pushes_end e ?c" "ending_ok e ?c" "queues_ok owner ?c" "flags_ok e ?c"
    using r ends_same(2,3) [of ?c c] ending_ok_mono [of e c ?c] flags_ok_same [of e c ?c]
    by (simp_all add: registry_ok_def children_ok_def queues_ok_def nth_append)
  ultimately show "registry_ok owner e started ?c" by (simp add: registry_ok_def children_ok_def)
qed

lemma live_created_inv:
  assumes inv: "conn_inv w" and op: "cw_open w d = Some (q, OpeningLive None)" and "ds_dialogID ds = d"
  shows "conn_inv (w\<lparr>cw_conn := (cw_conn w)\<lparr>cn_devices := cn_devices (cw_conn w) @ [ds]\<rparr>,
      cw_open := (cw_open w)(d \<mapsto> (q, OpeningLive (Some (length (cn_devices (cw_conn w))))))\<rparr>)"
proof -
  have ok: "owned (cw_owner w) q d" "d \<notin> set (device_dialogs (cw_conn w))"
    using open_owned [OF inv op] by (simp_all add: opening_ok_def)
  note n = new_device [OF conn_inv_parts(1) [OF inv] ok assms(3)]
  from settle_inv [OF inv n(1,2), of "Some (q, OpeningLive (Some (length (cn_devices (cw_conn w)))))"] n(3) ok(1)
  show ?thesis by (simp add: opening_ok_def)
qed

lemma live_over_inv:
  assumes inv: "conn_inv w" and c: "c = cw_conn w \<or> c = removePending d (cw_conn w) \<or>
      (\<exists>i e. c = removePending d (device_terminate e i (cw_conn w))) \<or>
      (\<exists>i e. c = device_terminate e i (removePending d (cw_conn w)))"
  shows "conn_inv (w\<lparr>cw_conn := c, cw_open := (cw_open w)(d := None)\<rparr>)"
proof -
  note r = conn_inv_parts(1) [OF inv]
  have "registry_ok (cw_owner w) (cw_ending w) (cw_started w) c \<and> same_objects (cw_conn w) c"
    using c
  proof (elim disjE exE)
    fix i e assume "c = removePending d (device_terminate e i (cw_conn w))"
    then show ?thesis using remove_pending [of _ _ _ "device_terminate e i (cw_conn w)" d]
        device_terminate_ok [OF r, of e i] same_objects_trans by blast
  next
    fix i e assume "c = device_terminate e i (removePending d (cw_conn w))"
    then show ?thesis using device_terminate_ok [of _ _ _ "removePending d (cw_conn w)" e i]
        remove_pending [OF r, of d] same_objects_trans by blast
  qed (use r remove_pending [OF r, of d] in simp_all)
  then show ?thesis using settle_inv [OF inv, of "cw_started w" c d None] grows_same by simp
qed

lemma conn_Err_nil [simp]: "conn_Err c = None \<longleftrightarrow> False"
  by (cases "cn_terminal c") (simp_all add: conn_Err_def)

lemma live_registered_inv:
  assumes inv: "conn_inv w" and op: "cw_open w d = Some (q, OpeningLive (Some i))"
    and rs: "registerSession d i (cw_conn w) = (None, c)"
  shows "conn_inv (w\<lparr>cw_conn := c, cw_open := (cw_open w)(d \<mapsto> (q, Draining i)), cw_started := i # cw_started w\<rparr>)"
proof -
  let ?c = "removePending d (cw_conn w)"
  have ok: "owned (cw_owner w) q d" "key_at (device_dialogs (cw_conn w)) i d"
    using open_owned [OF inv op] by (simp_all add: opening_ok_def)
  from remove_pending [OF conn_inv_parts(1) [OF inv], of d]
  have r: "registry_ok (cw_owner w) (cw_ending w) (cw_started w) ?c" "same_objects (cw_conn w) ?c" by simp_all
  have open_: "\<not> cn_closed ?c" and c: "c = ?c\<lparr>cn_sessions := gm_put d i (cn_sessions ?c)\<rparr>"
    using rs by (auto simp: registerSession_def removePending_def Let_def split: if_splits)
  have run: "cw_ending w = Running" using running_iff r(1) open_ by (auto simp: registry_ok_def)
  have same: "same_objects ?c c" by (simp add: c key_defs)
  have key: "key_at (device_dialogs ?c) i d" using ok(2) r(2) by (simp add: same_objects_def)
  have wf: "gm_wf (cn_sessions ?c)" using r(1) by (simp add: registry_ok_def maps_ok_def)
  have "maps_ok (cw_owner w) c"
    using r(1) key wf same unfolding registry_ok_def maps_ok_def same_objects_def c by auto
  moreover have "devices_end (cw_ending w) (i # cw_started w) c"
    unfolding devices_end_def
  proof (intro ballI conjI)
    fix j assume j: "j \<in> set (i # cw_started w)"
    have i: "i < length (cn_devices ?c)" "ds_dialogID (cn_devices ?c ! i) = d"
      using key by (auto simp: key_at_def device_dialogs_def)
    have old: "j \<noteq> i \<Longrightarrow> j < length (cn_devices ?c) \<and> (ds_closed (cn_devices ?c ! j) \<or>
        will_end (cw_ending w) (DeviceChild j) (map_of (cn_sessions ?c) (ds_dialogID (cn_devices ?c ! j))) j)"
      using r(1) j by (simp add: registry_ok_def children_ok_def devices_end_def)
    then show "j < length (cn_devices c)" using i by (cases "j = i") (simp_all add: c)
    show "ds_closed (cn_devices c ! j) \<or>
        will_end (cw_ending w) (DeviceChild j) (map_of (cn_sessions c) (ds_dialogID (cn_devices c ! j))) j"
    proof (cases "j = i")
      case True
      then show ?thesis using i run wf by (simp add: c will_end_def)
    next
      case False
      with old have "ds_dialogID (cn_devices ?c ! j) \<noteq> d" using one_device [OF r(1), of j i] i by auto
      then show ?thesis using old False wf by (simp add: c)
    qed
  qed
  moreover have "playbacks_end (cw_ending w) c" "pushes_end (cw_ending w) c" "ending_ok (cw_ending w) c"
      "queues_ok (cw_owner w) c" "flags_ok (cw_ending w) c" "objects_ok (cw_owner w) c"
    using r(1) ends_same(2,3) [of c ?c] ending_ok_mono [of "cw_ending w" ?c c] flags_ok_same [of "cw_ending w" ?c c]
      objects_ok_same [OF same]
    by (simp_all add: registry_ok_def children_ok_def queues_ok_def c)
  ultimately have "registry_ok (cw_owner w) (cw_ending w) (i # cw_started w) c" by (simp add: registry_ok_def children_ok_def)
  moreover have "opening_ok c d (Draining i)" using key same by (simp add: opening_ok_def same_objects_def)
  ultimately show ?thesis
    using settle_inv [OF inv, of "i # cw_started w" c d "Some (q, Draining i)"]
      grows_same [OF same_objects_trans [OF r(2) same]] ok(1) by simp
qed

lemma drain_inv:
  assumes inv: "conn_inv w" and op: "cw_open w d = Some (q, Draining i)"
    and t: "(m, c) \<in> set (take_message (Some q) (cw_conn w))"
    and h: "device_handle now m (cn_devices c ! i) = Ok (Some ds)"
  shows "conn_inv (w\<lparr>cw_conn := c\<lparr>cn_devices := (cn_devices c)[i := ds]\<rparr>\<rparr>)"
proof -
  have own: "owned (cw_owner w) q d" using open_owned [OF inv op] by simp
  note tm = take_message_inv [OF inv own t]
  from device_update [OF tm(3), of ds i] device_handle_keeps [OF h] same_objects_trans [OF tm(2)]
  show ?thesis by (intro conn_inv_update [OF inv]) simp
qed

lemma receive_inv:
  assumes inv: "conn_inv w"
  shows "i < length (cn_push_store (cw_conn w)) \<Longrightarrow> (x, c) \<in> set (push_Receive_round ctxErr i (cw_conn w)) \<Longrightarrow>
           conn_inv (w\<lparr>cw_conn := c\<rparr>)"
    and "i < length (cn_playback_store (cw_conn w)) \<Longrightarrow> (y, c) \<in> set (playback_Receive ctxErr i (cw_conn w)) \<Longrightarrow>
           conn_inv (w\<lparr>cw_conn := c\<rparr>)"
proof -
  note r = conn_inv_parts(1) [OF inv]
  show "conn_inv (w\<lparr>cw_conn := c\<rparr>)"
    if "i < length (cn_push_store (cw_conn w))" "(x, c) \<in> set (push_Receive_round ctxErr i (cw_conn w))"
    using that(2) take_message_inv(1) [OF inv push_owned [OF r that(1)]] inv
    by (auto simp: push_Receive_round_def Let_def split: option.splits if_splits)
  show "conn_inv (w\<lparr>cw_conn := c\<rparr>)"
    if "i < length (cn_playback_store (cw_conn w))" "(y, c) \<in> set (playback_Receive ctxErr i (cw_conn w))"
    using that(2) take_message_inv(1) [OF inv playback_owned [OF r that(1)]] inv
    by (auto simp: playback_Receive_def Let_def split: option.splits if_splits)
qed

lemma child_close_inv:
  assumes inv: "conn_inv w"
  shows "i < length (cn_push_store (cw_conn w)) \<Longrightarrow> push_Close env i (cw_conn w) = (sent, r, c) \<Longrightarrow>
           conn_inv (w\<lparr>cw_conn := c\<rparr>)"
    and "i < length (cn_playback_store (cw_conn w)) \<Longrightarrow> playback_Close env i (cw_conn w) = (sent, r, c) \<Longrightarrow>
           conn_inv (w\<lparr>cw_conn := c\<rparr>)"
    and "i < length (cn_playback_store (cw_conn w)) \<Longrightarrow> playback_tick env interval now i (cw_conn w) = (sent, c) \<Longrightarrow>
           conn_inv (w\<lparr>cw_conn := c\<rparr>)"
proof -
  note r = conn_inv_parts(1) [OF inv]
  show "conn_inv (w\<lparr>cw_conn := c\<rparr>)"
    if "i < length (cn_push_store (cw_conn w))" "push_Close env i (cw_conn w) = (sent, r, c)"
    using that push_terminate_ok [OF r that(1)] conn_inv_update [OF inv] inv
    by (auto simp: push_Close_def Let_def split: if_splits prod.splits)
  show "conn_inv (w\<lparr>cw_conn := c\<rparr>)"
    if "i < length (cn_playback_store (cw_conn w))" "playback_Close env i (cw_conn w) = (sent, r, c)"
    using that playback_terminate_ok [OF r that(1)] conn_inv_update [OF inv] inv
    by (auto simp: playback_Close_def Let_def split: if_splits prod.splits)
  show "conn_inv (w\<lparr>cw_conn := c\<rparr>)"
    if "i < length (cn_playback_store (cw_conn w))" "playback_tick env interval now i (cw_conn w) = (sent, c)"
    using that playback_terminate_ok [OF r that(1)] conn_inv_update [OF inv] inv
    by (auto simp: playback_tick_def Let_def split: if_splits prod.splits)
qed

lemma device_inv:
  assumes inv: "conn_inv w" and i: "i < length (cn_devices (cw_conn w))"
  shows "device_step (cn_devices (cw_conn w) ! i) ds \<Longrightarrow>
           conn_inv (w\<lparr>cw_conn := (cw_conn w)\<lparr>cn_devices := (cn_devices (cw_conn w))[i := ds]\<rparr>\<rparr>)"
    and "device_close_begin i (cw_conn w) = Some (moves, c) \<Longrightarrow> conn_inv (w\<lparr>cw_conn := c\<rparr>)"
    and "ds_closed (cn_devices (cw_conn w) ! i) \<Longrightarrow> device_close_end env sendClose i (cw_conn w) = (sent, c) \<Longrightarrow>
           conn_inv (w\<lparr>cw_conn := c\<rparr>)"
    and "device_watch_end e i (cw_conn w) = (sent, c) \<Longrightarrow> conn_inv (w\<lparr>cw_conn := c\<rparr>)"
proof -
  note r = conn_inv_parts(1) [OF inv]
  show "conn_inv (w\<lparr>cw_conn := (cw_conn w)\<lparr>cn_devices := (cn_devices (cw_conn w))[i := ds]\<rparr>\<rparr>)"
    if "device_step (cn_devices (cw_conn w) ! i) ds"
    using device_update [OF r, of ds i] device_step_keeps [OF that] conn_inv_update [OF inv] by simp
  show "conn_inv (w\<lparr>cw_conn := c\<rparr>)" if "device_close_begin i (cw_conn w) = Some (moves, c)"
    using device_close_begin_ok [OF r that] conn_inv_update [OF inv] by simp
  show "conn_inv (w\<lparr>cw_conn := c\<rparr>)"
    if "ds_closed (cn_devices (cw_conn w) ! i)" "device_close_end env sendClose i (cw_conn w) = (sent, c)"
    using device_close_end_ok [OF r that(2) i that(1)] conn_inv_update [OF inv] by simp
  show "conn_inv (w\<lparr>cw_conn := c\<rparr>)" if "device_watch_end e i (cw_conn w) = (sent, c)"
    using device_watch_end_ok [OF r that i] conn_inv_update [OF inv] by simp
qed

subsection \<open>Every step\<close>

lemma conn_step_inv: "conn_step w w' \<Longrightarrow> conn_inv w \<Longrightarrow> conn_inv w'"
proof (induction rule: conn_step.induct)
  case (cs_deliver_fails w m tgt now c e order)
  then show ?case using start_fail_inv [OF reader_inv(2) [OF cs_deliver_fails.prems cs_deliver_fails.hyps(1,2)]] by simp
next
  case (cs_live_failed w dialog q created e)
  show ?case
  proof (cases created)
    case None
    then show ?thesis using live_over_inv [OF cs_live_failed.prems, of "removePending dialog (cw_conn w)" dialog] by simp
  next
    case (Some i)
    then show ?thesis
      using live_over_inv [OF cs_live_failed.prems, of "removePending dialog (device_terminate e i (cw_conn w))" dialog]
      by fastforce
  qed
next
  case (cs_live_refused w dialog q i e c)
  then have "c = removePending dialog (cw_conn w)" by (auto simp: registerSession_def Let_def split: if_splits)
  with live_over_inv [OF cs_live_refused.prems, of "device_terminate e i c" dialog] show ?case by fastforce
next
  case (cs_drained w dialog q i)
  then show ?case using live_over_inv [OF cs_drained.prems, of "cw_conn w" dialog] by simp
next
  case (cs_live_message w dialog q created m c)
  then show ?case using take_message_inv(1) open_owned by blast
next
  case (cs_open_push name w env filters sent start c)
  then show ?case
  proof (cases "filters = []")
    case True
    have "length (cn_queues (cw_conn w)) = length (cw_owner w)"
      using conn_inv_parts(1) [OF cs_open_push.prems] by (simp add: registry_ok_def queues_ok_def)
    then show ?thesis using cs_open_push True by (auto simp: SubscribePush_begin_def opened_def)
  next
    case False
    then show ?thesis using cs_open_push open_dialog_inv by (auto simp: SubscribePush_begin_def)
  qed
qed (auto intro: reader_inv start_fail_inv terminate_inv ended_inv close_inv conn_closing_inv device_inv push_round_inv
      nil_round_inv open_dialog_inv playback_round_inv open_live_inv live_created_inv live_registered_inv drain_inv
      receive_inv child_close_inv)

lemma new_world_inv: "conn_inv new_world"
  by (simp add: new_world_def new_connection_def conn_inv_def registry_ok_def queues_ok_def objects_ok_def maps_ok_def
      flags_ok_def children_ok_def devices_end_def playbacks_end_def pushes_end_def ending_ok_def reader_ok_def open_ok_def
      device_dialogs_def playback_keys_def push_keys_def)

lemma conn_reachable_inv: "conn_reachable w \<Longrightarrow> conn_inv w"
  by (induction rule: conn_reachable.induct) (auto intro: new_world_inv conn_step_inv)

section \<open>Ending the connection\<close>

text \<open>C2: when a failing or closing connection has ended, nothing it gave out is left running: every device session
  that a start registered is closed, every playback and every push subscription has ended with a cause -
  whatever negotiations, deliveries and closes happened in between - the socket is closed, no frame is sent
  any more, and no dialog can be opened.\<close>

theorem children_end_with_connection:
  assumes "conn_reachable w" and "cw_ending w = Ended"
  shows "(\<forall>i\<in>set (cw_started w). i < length (cn_devices (cw_conn w)) \<and> ds_closed (cn_devices (cw_conn w) ! i)) \<and>
         (\<forall>s\<in>set (cn_playback_store (cw_conn w)). pb_ended s \<and> pb_terminal s \<noteq> None) \<and>
         (\<forall>s\<in>set (cn_push_store (cw_conn w)). pu_ended s \<and> pu_terminal s \<noteq> None) \<and>
         cn_socketClosed (cw_conn w) \<and> fst (conn_send env m (cw_conn w)) = [] \<and>
         snd (snd (fst (registerChannel name (cw_conn w)))) \<noteq> None"
proof -
  have r: "registry_ok (cw_owner w) Ended (cw_started w) (cw_conn w)"
    using conn_inv_parts(1) [OF conn_reachable_inv [OF assms(1)]] assms(2) by simp
  then have d: "devices_end Ended (cw_started w) (cw_conn w)" and p: "playbacks_end Ended (cw_conn w)"
    and s: "pushes_end Ended (cw_conn w)" and f: "flags_ok Ended (cw_conn w)"
    by (simp_all add: registry_ok_def children_ok_def)
  have "\<forall>s\<in>set (cn_playback_store (cw_conn w)). pb_ended s \<and> pb_terminal s \<noteq> None"
    using p by (auto simp: playbacks_end_def will_end_def Let_def all_set_conv_all_nth simp del: not_None_eq split: if_splits)
  moreover have "\<forall>s\<in>set (cn_push_store (cw_conn w)). pu_ended s \<and> pu_terminal s \<noteq> None"
    using s by (auto simp: pushes_end_def will_end_def Let_def all_set_conv_all_nth simp del: not_None_eq split: if_splits)
  ultimately show ?thesis
    using d f by (simp add: devices_end_def will_end_def flags_ok_def conn_send_def registerChannel_def
        del: not_None_eq split: option.split)
qed

text \<open>Terminating two children commutes.\<close>

lemma gm_del_commute: "gm_del k (gm_del k' m) = gm_del k' (gm_del k m)"
  by (simp add: gm_del_def conj_commute)

lemma terminate_child_commute:
  "terminate_child e ch (terminate_child e ch' c) = terminate_child e ch' (terminate_child e ch c)"
proof (cases "ch = ch'")
  case False
  then show ?thesis
    by (cases ch; cases ch')
       (auto simp: device_terminate_def playback_terminate_def push_terminate_def removeChannel_def Let_def
         nth_update list_update_swap gm_del_commute)
qed simp

text \<open>\<open>fail\<close> walks Go maps, whose order is not determined; the connection it leaves does not depend on it. The
  first failure or close decides: it is the cause that \<open>Err\<close> reports, wrapped, and later failures change
  nothing.\<close>

theorem fail_order_irrelevant:
  assumes "mset order = mset (registered_children c)"
  shows "fail_in_order order e c = conn_fail e c \<and>
         cn_closed (conn_fail e c) \<and> conn_fail e' (conn_fail e c) = conn_fail e c \<and>
         (\<not> cn_closed c \<longrightarrow> conn_Err (conn_fail e c) = sessionError ''signaling connection ended'' (Some e))"
proof -
  have "fold (terminate_child e) order = fold (terminate_child e) (registered_children c)"
    using terminate_child_commute assms by (intro fold_multiset_equiv) (auto simp: fun_eq_iff)
  then have "fail_in_order order e c = conn_fail e c" by (simp add: conn_fail_def fail_in_order_def)
  moreover have flags: "cn_closed (fold (terminate_child e) chs b) = cn_closed b \<and>
      cn_terminal (fold (terminate_child e) chs b) = cn_terminal b" for chs b
  proof (induction chs arbitrary: b)
    case (Cons ch chs)
    have "cn_closed (terminate_child e ch b) = cn_closed b \<and> cn_terminal (terminate_child e ch b) = cn_terminal b"
      by (cases ch) (simp_all add: device_terminate_def playback_terminate_def push_terminate_def removeChannel_def Let_def)
    with Cons.IH show ?case by simp
  qed simp
  ultimately show ?thesis
    by (simp add: conn_fail_def fail_in_order_def fail_begin_def ending_end_def conn_Err_def)
qed

section \<open>Dialogs\<close>


section \<open>Registering a session while the reader delivers\<close>

text \<open>A run: a live negotiation creates its session; the reader has looked up the negotiation for a message when
  the start takes it out of \<open>pending\<close>, registers the session and drains the queue.\<close>

definition live_message :: signaling_message where
  "live_message = \<lparr>msg_method = ''notification'', msg_dialog = ''d'', msg_riid = [], msg_body = RawNil\<rparr>"

definition live_connection :: "signaling_message list \<Rightarrow> device_session list \<Rightarrow> bool \<Rightarrow> connection" where
  "live_connection queue devices started =
     new_connection\<lparr>cn_queues := [queue], cn_devices := devices,
       cn_pending := (if started then [] else [(''d'', 0)]), cn_sessions := (if started then [(''d'', 0)] else [])\<rparr>"

definition live_world :: conn_world where
  "live_world =
     \<lparr>cw_conn = live_connection [] [opened_device opened_core True] True, cw_reader = Some (live_message, ToPending 0),
      cw_ending = Running, cw_open = Map.empty, cw_owner = [''d''], cw_started = [0]\<rparr>"

lemma live_world_reachable: "conn_reachable live_world"
proof -
  let ?ds = "opened_device opened_core True"
  have ds: "ds_dialogID ?ds = ''d''" "fresh_session ?ds" by (simp_all add: opened_device_def fresh_session_def)
  let ?w1 = "new_world\<lparr>cw_conn := live_connection [] [] False, cw_owner := [''d''],
    cw_open := Map.empty(''d'' \<mapsto> (0, OpeningLive None))\<rparr>"
  let ?w2 = "?w1\<lparr>cw_conn := live_connection [] [?ds] False, cw_open := Map.empty(''d'' \<mapsto> (0, OpeningLive (Some 0)))\<rparr>"
  let ?w3 = "?w2\<lparr>cw_reader := Some (live_message, ToPending 0)\<rparr>"
  let ?w4 = "?w3\<lparr>cw_conn := live_connection [] [?ds] True, cw_open := Map.empty(''d'' \<mapsto> (0, Draining 0)), cw_started := [0]\<rparr>"
  have "conn_step new_world ?w1"
    using cs_open_live [of "''d''" new_world 0 "live_connection [] [] False"]
    by (simp add: fresh_name_def new_world_def registerPending_def new_connection_def live_connection_def)
  moreover have "conn_step ?w1 ?w2"
    using cs_live_created [of ?w1 "''d''" 0 ?ds] ds by (simp add: live_connection_def new_connection_def new_world_def)
  moreover have "conn_step ?w2 ?w3"
    using cs_read [of ?w2 live_message]
    by (simp add: new_world_def live_connection_def new_connection_def route_lookup_def live_message_def)
  moreover have "conn_step ?w3 ?w4"
    using cs_live_registered [of ?w3 "''d''" 0 0 "live_connection [] [?ds] True"]
    by (simp add: new_world_def live_connection_def new_connection_def registerSession_def removePending_def gm_del_def Let_def)
  moreover have "conn_step ?w4 live_world"
    using cs_drained [of ?w4 "''d''" 0 0]
    by (simp add: new_world_def live_connection_def new_connection_def live_world_def fun_upd_idem)
  ultimately show ?thesis using cs_new cs_next by meson
qed

text \<open>C27: registering a live session can lose a message. In a connection that is open, with a registered and open
  session and no negotiation left, the reader may still hold a message of that session for the queue of its
  negotiation; its delivery changes no session, and puts the message into a channel that no map, no playback
  and no subscription refers to.\<close>

theorem reader_can_lose_a_message:
  "\<exists>w m q i c. conn_reachable w \<and> cw_open w = Map.empty \<and> cw_reader w = Some (m, ToPending q) \<and>
     map_of (cn_sessions (cw_conn w)) (msg_dialog m) = Some i \<and> \<not> ds_closed (cn_devices (cw_conn w) ! i) \<and>
     deliver now m (ToPending q) (cw_conn w) = Ok (Some (c, None)) \<and>
     cn_devices c = cn_devices (cw_conn w) \<and> m \<in> set (cn_queues c ! q) \<and>
     q \<notin> snd ` set (cn_pending c) \<and> q \<notin> snd ` set (cn_channels c) \<and>
     q \<notin> pb_events ` set (cn_playback_store c) \<and> q \<notin> pu_events ` set (cn_push_store c)"
proof -
  let ?c = "live_connection [live_message] [opened_device opened_core True] True"
  have "deliver now live_message (ToPending 0) (cw_conn live_world) = Ok (Some (?c, None))"
    by (simp add: deliver_def chan_offer_def NegotiationQueueCapacity_def live_world_def live_connection_def)
  then show ?thesis
    by (intro exI [of _ live_world] exI [of _ live_message] exI [of _ 0] exI [of _ ?c] conjI)
       (simp_all add: live_world_reachable, simp_all add: live_world_def live_connection_def new_connection_def
          live_message_def opened_device_def)
qed

section \<open>Examples\<close>

definition failed_world :: conn_world where
  "failed_world =
     live_world\<lparr>cw_conn := ending_end (device_terminate ErrHeartbeat 0 (fail_begin ErrHeartbeat (cw_conn live_world))),
       cw_ending := Ended\<rparr>"

lemma failed_world_reachable: "conn_reachable failed_world"
proof -
  let ?w1 = "start_fail ErrHeartbeat [DeviceChild 0] live_world"
  let ?w2 = "?w1\<lparr>cw_conn := terminate_child ErrHeartbeat (DeviceChild 0) (cw_conn ?w1), cw_ending := Terminating ErrHeartbeat []\<rparr>"
  have reg: "registered_children (cw_conn live_world) = [DeviceChild 0]"
    by (simp add: registered_children_def live_world_def live_connection_def new_connection_def)
  have w1: "?w1 = live_world\<lparr>cw_conn := fail_begin ErrHeartbeat (cw_conn live_world), cw_ending := Terminating ErrHeartbeat [DeviceChild 0]\<rparr>"
    by (simp add: start_fail_def live_world_def live_connection_def new_connection_def)
  have "conn_step live_world ?w1" by (rule cs_fail) (simp add: reg)
  moreover have "conn_step ?w1 ?w2" by (rule cs_terminate) (simp add: w1)
  moreover have "conn_step ?w2 failed_world"
    using cs_ended [of ?w2 ErrHeartbeat] by (simp add: failed_world_def w1)
  ultimately show ?thesis using live_world_reachable cs_next by meson
qed

theorem children_end_with_connection_witness:
  "\<exists>w. conn_reachable w \<and> cw_started w = [0] \<and> ds_closed (cn_devices (cw_conn w) ! 0)"
proof -
  have e: "cw_ending failed_world = Ended" "cw_started failed_world = [0]"
    by (simp_all add: failed_world_def live_world_def)
  from children_end_with_connection [OF failed_world_reachable e(1)] e(2) failed_world_reachable show ?thesis by auto
qed

theorem fail_order_irrelevant_witness:
  "fail_in_order [DeviceChild 0] ErrHeartbeat (cw_conn live_world) = conn_fail ErrHeartbeat (cw_conn live_world)"
  using fail_order_irrelevant [of "[DeviceChild 0]" "cw_conn live_world" ErrHeartbeat]
  by (simp add: registered_children_def live_world_def live_connection_def new_connection_def)


end
