(* ===== verification/GoUrl.thy ===== *)
theory GoUrl
  imports Prelude
begin

text \<open>
  \<open>net/url\<close> as the program uses it, on byte strings, after Go 1.24 (the toolchain of \<open>src/go.mod\<close>):
  percent encoding in the package's modes, \<open>Parse\<close>, \<open>EscapedPath\<close>, \<open>String\<close>, \<open>ResolveReference\<close>,
  \<open>Hostname\<close>, \<open>Port\<close>, \<open>ParseQuery\<close>, \<open>Values.Encode\<close> and \<open>QueryEscape\<close>. A failing operation returns the
  text of its error. Query values are lists of pairs: \<open>Values\<close> maps a key to its values in order.

  The lemmas show what the components rely on: \<open>unescape\<close> inverts \<open>escape\<close>, \<open>ParseQuery\<close> inverts
  \<open>Encode\<close>, and a URL that is put together from a literal origin and path and an encoded query parses to
  these parts.
\<close>

section \<open>Cutting strings\<close>

text \<open>\<open>strings.Cut\<close> at a one-byte separator: before, after, found.\<close>

definition cut :: "char \<Rightarrow> string \<Rightarrow> string \<times> string \<times> bool" where
  "cut c s = (takeWhile (\<lambda>x. x \<noteq> c) s, drop 1 (dropWhile (\<lambda>x. x \<noteq> c) s), c \<in> set s)"

text \<open>The parts around the last occurrence of a byte (\<open>strings.LastIndex\<close>).\<close>

definition cut_last :: "char \<Rightarrow> string \<Rightarrow> (string \<times> string) option" where
  "cut_last c s =
     (if c \<in> set s
      then Some (rev (drop 1 (dropWhile (\<lambda>x. x \<noteq> c) (rev s))), rev (takeWhile (\<lambda>x. x \<noteq> c) (rev s)))
      else None)"

text \<open>\<open>strings.Index\<close> of a substring, as the parts before and from it on.\<close>

fun cut_at :: "string \<Rightarrow> string \<Rightarrow> (string \<times> string) option" where
  "cut_at sub [] = (if sub = [] then Some ([], []) else None)"
| "cut_at sub (c # s) =
     (if has_prefix (c # s) sub then Some ([], c # s)
      else map_option (\<lambda>(a, b). (c # a, b)) (cut_at sub s))"

definition str_contains :: "string \<Rightarrow> string \<Rightarrow> bool" where
  "str_contains s sub \<longleftrightarrow> cut_at sub s \<noteq> None"

text \<open>\<open>strings.Replace\<close> with a count of one.\<close>

definition replace_first :: "string \<Rightarrow> string \<Rightarrow> string \<Rightarrow> string" where
  "replace_first s old new =
     (case cut_at old s of None \<Rightarrow> s | Some (a, b) \<Rightarrow> a @ new @ drop (length old) b)"

definition trim_suffix :: "string \<Rightarrow> string \<Rightarrow> string" where
  "trim_suffix s p = (if has_suffix s p then take (length s - length p) s else s)"

definition trim_right :: "string \<Rightarrow> char \<Rightarrow> string" where
  "trim_right s c = rev (dropWhile (\<lambda>x. x = c) (rev s))"

definition lower_char :: "char \<Rightarrow> char" where
  "lower_char c = (let n = (of_char c :: nat) in if 65 \<le> n \<and> n \<le> 90 then char_of (n + 32) else c)"

section \<open>Percent encoding\<close>

datatype url_mode =
  encodePath | encodeHost | encodeZone | encodeUserPassword | encodeQueryComponent | encodeFragment

definition is_alnum :: "char \<Rightarrow> bool" where
  "is_alnum c \<longleftrightarrow> (let n = (of_char c :: nat) in
      (97 \<le> n \<and> n \<le> 122) \<or> (65 \<le> n \<and> n \<le> 90) \<or> (48 \<le> n \<and> n \<le> 57))"

definition shouldEscape :: "char \<Rightarrow> url_mode \<Rightarrow> bool" where
  "shouldEscape c m =
     (if is_alnum c then False
      else if (m = encodeHost \<or> m = encodeZone) \<and> (c \<in> set ''!$&()*+,;=:[]<>'' \<or> c = CHR 0x27 \<or> c = CHR 0x22)
      then False
      else if c \<in> set ''-_.~'' then False
      else if c \<in> set ''$&+,/:;=?@'' \<and> m \<noteq> encodeHost \<and> m \<noteq> encodeZone
      then (case m of
              encodePath \<Rightarrow> c = CHR ''?''
            | encodeUserPassword \<Rightarrow> c \<in> set ''@/?:''
            | encodeQueryComponent \<Rightarrow> True
            | _ \<Rightarrow> False)
      else if m = encodeFragment \<and> c \<in> set ''!()*'' then False
      else True)"

definition upper_hex :: "nat \<Rightarrow> char" where
  "upper_hex n = (if n < 10 then char_of (48 + n) else char_of (55 + n))"

definition ishex :: "char \<Rightarrow> bool" where
  "ishex c \<longleftrightarrow> (let n = (of_char c :: nat) in
      (48 \<le> n \<and> n \<le> 57) \<or> (97 \<le> n \<and> n \<le> 102) \<or> (65 \<le> n \<and> n \<le> 70))"

definition unhex :: "char \<Rightarrow> nat" where
  "unhex c = (let n = (of_char c :: nat) in
      if 48 \<le> n \<and> n \<le> 57 then n - 48
      else if 97 \<le> n \<and> n \<le> 102 then n - 87
      else if 65 \<le> n \<and> n \<le> 70 then n - 55 else 0)"

definition escape_char :: "url_mode \<Rightarrow> char \<Rightarrow> string" where
  "escape_char m c =
     (if shouldEscape c m then
        if c = CHR '' '' \<and> m = encodeQueryComponent then ''+''
        else [CHR ''%'', upper_hex ((of_char c :: nat) div 16), upper_hex ((of_char c :: nat) mod 16)]
      else [c])"

definition url_escape :: "url_mode \<Rightarrow> string \<Rightarrow> string" where
  "url_escape m s = concat (map (escape_char m) s)"

definition escapeError :: "string \<Rightarrow> string" where
  "escapeError s = ''invalid URL escape '' @ go_quote (take 3 s)"

text \<open>The bytes of \<open>%XY\<close>, checked as \<open>unescape\<close> does in the host modes.\<close>

definition escape_ok :: "url_mode \<Rightarrow> char \<Rightarrow> char \<Rightarrow> bool" where
  "escape_ok m x y \<longleftrightarrow>
     \<not> (m = encodeHost \<and> unhex x < 8 \<and> [x, y] \<noteq> ''25'')
     \<and> \<not> (m = encodeZone \<and> [x, y] \<noteq> ''25''
          \<and> unhex x * 16 + unhex y \<noteq> 32 \<and> shouldEscape (char_of (unhex x * 16 + unhex y)) encodeHost)"

fun unescape :: "url_mode \<Rightarrow> string \<Rightarrow> string + string" where
  "unescape m [] = Inr []"
| "unescape m (c # s) =
     (if c = CHR ''%'' then
        (case s of
           x # y # rest \<Rightarrow>
             if \<not> ishex x \<or> \<not> ishex y then Inl (escapeError (c # s))
             else if \<not> escape_ok m x y then Inl (escapeError (c # s))
             else map_sum id (\<lambda>t. char_of (unhex x * 16 + unhex y) # t) (unescape m rest)
         | _ \<Rightarrow> Inl (escapeError (c # s)))
      else if (m = encodeHost \<or> m = encodeZone) \<and> (of_char c :: nat) < 128 \<and> shouldEscape c m
      then Inl (''invalid character '' @ go_quote [c] @ '' in host name'')
      else map_sum id (\<lambda>t. (if c = CHR ''+'' \<and> m = encodeQueryComponent then CHR '' '' else c) # t) (unescape m s))"

definition QueryEscape :: "string \<Rightarrow> string" where
  "QueryEscape s = url_escape encodeQueryComponent s"

text \<open>\<open>validEncoded\<close>: the bytes that may stand in an already encoded path or fragment.\<close>

definition validEncoded :: "string \<Rightarrow> url_mode \<Rightarrow> bool" where
  "validEncoded s m \<longleftrightarrow>
     list_all (\<lambda>c. c \<in> set ''!$&()*+,;=:@[]%'' \<or> c = CHR 0x27 \<or> \<not> shouldEscape c m) s"

section \<open>URLs\<close>

text \<open>
  \<open>u_RawPath\<close> and \<open>u_RawFragment\<close> are the original encodings where they differ from the default ones.
  \<open>u_User\<close> is the user name and, when one was given, the password.
\<close>

record url =
  u_Scheme :: string
  u_Opaque :: string
  u_User :: "(string \<times> string option) option"
  u_Host :: string
  u_Path :: string
  u_RawPath :: string
  u_OmitHost :: bool
  u_ForceQuery :: bool
  u_RawQuery :: string
  u_Fragment :: string
  u_RawFragment :: string

definition empty_url :: url where
  "empty_url =
     \<lparr>u_Scheme = [], u_Opaque = [], u_User = None, u_Host = [], u_Path = [], u_RawPath = [],
      u_OmitHost = False, u_ForceQuery = False, u_RawQuery = [], u_Fragment = [], u_RawFragment = []\<rparr>"

definition is_letter :: "char \<Rightarrow> bool" where
  "is_letter c \<longleftrightarrow> is_alnum c \<and> \<not> is_digit c"

text \<open>\<open>getScheme\<close>: an error only for a leading colon.\<close>

fun scheme_at :: "bool \<Rightarrow> string \<Rightarrow> string option" where
  "scheme_at first [] = None"
| "scheme_at first (c # s) =
     (if is_letter c then map_option (\<lambda>t. c # t) (scheme_at False s)
      else if is_digit c \<or> c \<in> set ''+-.'' then
        if first then None else map_option (\<lambda>t. c # t) (scheme_at False s)
      else if c = CHR '':'' then Some []
      else None)"

definition getScheme :: "string \<Rightarrow> string + (string \<times> string)" where
  "getScheme raw =
     (case scheme_at True raw of
        None \<Rightarrow> Inr ([], raw)
      | Some s \<Rightarrow> if s = [] then Inl ''missing protocol scheme'' else Inr (s, drop (length s + 1) raw))"

definition setPath :: "string \<Rightarrow> url \<Rightarrow> string + url" where
  "setPath p u =
     (case unescape encodePath p of
        Inl e \<Rightarrow> Inl e
      | Inr path \<Rightarrow> Inr (u\<lparr>u_Path := path, u_RawPath := if p = url_escape encodePath path then [] else p\<rparr>))"

definition setFragment :: "string \<Rightarrow> url \<Rightarrow> string + url" where
  "setFragment f u =
     (case unescape encodeFragment f of
        Inl e \<Rightarrow> Inl e
      | Inr frag \<Rightarrow>
          Inr (u\<lparr>u_Fragment := frag, u_RawFragment := if f = url_escape encodeFragment frag then [] else f\<rparr>))"

definition validOptionalPort :: "string \<Rightarrow> bool" where
  "validOptionalPort port \<longleftrightarrow> port = [] \<or> (hd port = CHR '':'' \<and> list_all is_digit (tl port))"

definition portError :: "string \<Rightarrow> string" where
  "portError p = ''invalid port '' @ go_quote p @ '' after host''"

definition parseHost :: "string \<Rightarrow> string + string" where
  "parseHost host =
     (if take 1 host = ''['' then
        (case cut_last (CHR '']'') host of
           None \<Rightarrow> Inl (''missing '' @ [CHR 0x27] @ '']'' @ [CHR 0x27] @ '' in host'')
         | Some (before, colonPort) \<Rightarrow>
             if \<not> validOptionalPort colonPort then Inl (portError colonPort)
             else
               (case cut_at ''%25'' before of
                  None \<Rightarrow> unescape encodeHost host
                | Some (h1, zone) \<Rightarrow>
                    (case unescape encodeHost h1 of Inl e \<Rightarrow> Inl e | Inr a \<Rightarrow>
                     (case unescape encodeZone zone of Inl e \<Rightarrow> Inl e | Inr b \<Rightarrow>
                      (case unescape encodeHost ('']'' @ colonPort) of Inl e \<Rightarrow> Inl e | Inr c \<Rightarrow>
                         Inr (a @ b @ c))))))
      else
        (case cut_last (CHR '':'') host of
           None \<Rightarrow> unescape encodeHost host
         | Some (_, port) \<Rightarrow>
             if \<not> validOptionalPort ('':'' @ port) then Inl (portError ('':'' @ port))
             else unescape encodeHost host))"

definition validUserinfo :: "string \<Rightarrow> bool" where
  "validUserinfo s \<longleftrightarrow> list_all (\<lambda>c. is_alnum c \<or> c \<in> set ''-._:~!$&()*+,;=%@'' \<or> c = CHR 0x27) s"

definition parseAuthority :: "string \<Rightarrow> string + ((string \<times> string option) option \<times> string)" where
  "parseAuthority authority =
     (case cut_last (CHR ''@'') authority of
        None \<Rightarrow> map_sum id (\<lambda>h. (None, h)) (parseHost authority)
      | Some (userinfo, h) \<Rightarrow>
          (case parseHost h of
             Inl e \<Rightarrow> Inl e
           | Inr host \<Rightarrow>
               if \<not> validUserinfo userinfo then Inl ''net/url: invalid userinfo''
               else
                 (let (name, password, found) = cut (CHR '':'') userinfo in
                  case unescape encodeUserPassword name of
                    Inl e \<Rightarrow> Inl e
                  | Inr n \<Rightarrow>
                      if \<not> found then Inr (Some (n, None), host)
                      else map_sum id (\<lambda>p. (Some (n, Some p), host)) (unescape encodeUserPassword password))))"

definition isControl :: "char \<Rightarrow> bool" where
  "isControl c \<longleftrightarrow> (of_char c :: nat) < 32 \<or> (of_char c :: nat) = 127"

text \<open>The query is what follows the first question mark; a lone trailing one only sets \<open>ForceQuery\<close>.\<close>

definition split_query :: "string \<Rightarrow> string \<times> string \<times> bool" where
  "split_query rest =
     (if has_suffix rest ''?'' \<and> count_list rest (CHR ''?'') = 1 then (butlast rest, [], True)
      else (let (path, query, _) = cut (CHR ''?'') rest in (path, query, False)))"

text \<open>The part of \<open>parse\<close> after the query is cut off.\<close>

definition parse_hier :: "url \<Rightarrow> string \<Rightarrow> string + url" where
  "parse_hier u rest =
     (if take 1 rest \<noteq> ''/'' \<and> u_Scheme u \<noteq> [] then Inr (u\<lparr>u_Opaque := rest\<rparr>)
      else if take 1 rest \<noteq> ''/'' \<and> CHR '':'' \<in> set (fst (cut (CHR ''/'') rest))
      then Inl ''first path segment in URL cannot contain colon''
      else if (u_Scheme u \<noteq> [] \<or> take 3 rest \<noteq> ''///'') \<and> take 2 rest = ''//'' then
        (let authority = takeWhile (\<lambda>c. c \<noteq> CHR ''/'') (drop 2 rest);
             path = dropWhile (\<lambda>c. c \<noteq> CHR ''/'') (drop 2 rest) in
         case parseAuthority authority of
           Inl e \<Rightarrow> Inl e
         | Inr (user, host) \<Rightarrow> setPath path (u\<lparr>u_User := user, u_Host := host\<rparr>))
      else setPath rest (u\<lparr>u_OmitHost := u_Scheme u \<noteq> [] \<and> take 1 rest = ''/''\<rparr>))"

definition parse_url0 :: "string \<Rightarrow> string + url" where
  "parse_url0 raw =
     (if list_ex isControl raw then Inl ''net/url: invalid control character in URL''
      else if raw = ''*'' then Inr (empty_url\<lparr>u_Path := ''*''\<rparr>)
      else
        (case getScheme raw of
           Inl e \<Rightarrow> Inl e
         | Inr (scheme, rest) \<Rightarrow>
             (let (path, query, force) = split_query rest in
              parse_hier (empty_url\<lparr>u_Scheme := map lower_char scheme, u_RawQuery := query,
                                     u_ForceQuery := force\<rparr>) path)))"

definition urlError :: "string \<Rightarrow> string \<Rightarrow> string" where
  "urlError raw e = ''parse '' @ go_quote raw @ '': '' @ e"

text \<open>\<open>url.Parse\<close>\<close>

definition url_parse :: "string \<Rightarrow> string + url" where
  "url_parse raw =
     (let (u, frag, _) = cut (CHR ''#'') raw in
      case parse_url0 u of
        Inl e \<Rightarrow> Inl (urlError u e)
      | Inr parsed \<Rightarrow>
          if frag = [] then Inr parsed
          else (case setFragment frag parsed of Inl e \<Rightarrow> Inl (urlError raw e) | Inr p \<Rightarrow> Inr p))"

section \<open>Printing and resolving\<close>

definition EscapedPath :: "url \<Rightarrow> string" where
  "EscapedPath u =
     (if u_RawPath u \<noteq> [] \<and> validEncoded (u_RawPath u) encodePath
         \<and> unescape encodePath (u_RawPath u) = Inr (u_Path u)
      then u_RawPath u
      else if u_Path u = ''*'' then ''*'' else url_escape encodePath (u_Path u))"

definition EscapedFragment :: "url \<Rightarrow> string" where
  "EscapedFragment u =
     (if u_RawFragment u \<noteq> [] \<and> validEncoded (u_RawFragment u) encodeFragment
         \<and> unescape encodeFragment (u_RawFragment u) = Inr (u_Fragment u)
      then u_RawFragment u else url_escape encodeFragment (u_Fragment u))"

definition userinfo_String :: "string \<times> string option \<Rightarrow> string" where
  "userinfo_String ui =
     url_escape encodeUserPassword (fst ui)
     @ (case snd ui of None \<Rightarrow> [] | Some p \<Rightarrow> '':'' @ url_escape encodeUserPassword p)"

definition origin_String :: "url \<Rightarrow> string" where
  "origin_String u =
     (if u_Scheme u = [] \<and> u_Host u = [] \<and> u_User u = None then []
      else if u_OmitHost u \<and> u_Host u = [] \<and> u_User u = None then []
      else (if u_Host u \<noteq> [] \<or> u_Path u \<noteq> [] \<or> u_User u \<noteq> None then ''//'' else [])
           @ (case u_User u of None \<Rightarrow> [] | Some ui \<Rightarrow> userinfo_String ui @ ''@'')
           @ url_escape encodeHost (u_Host u))"

definition url_String :: "url \<Rightarrow> string" where
  "url_String u =
     (let prefix = (if u_Scheme u \<noteq> [] then u_Scheme u @ '':'' else []);
          path = EscapedPath u;
          origin = prefix @ origin_String u;
          slash = (if path \<noteq> [] \<and> hd path \<noteq> CHR ''/'' \<and> u_Host u \<noteq> [] then ''/'' else []);
          dot = (if origin @ slash = [] \<and> CHR '':'' \<in> set (fst (cut (CHR ''/'') path)) then ''./'' else []) in
      (if u_Opaque u \<noteq> [] then prefix @ u_Opaque u else origin @ slash @ dot @ path)
      @ (if u_ForceQuery u \<or> u_RawQuery u \<noteq> [] then ''?'' @ u_RawQuery u else [])
      @ (if u_Fragment u \<noteq> [] then ''#'' @ EscapedFragment u else []))"

text \<open>The loop of \<open>resolvePath\<close>: \<open>dst\<close> is what is written, \<open>first\<close> whether no slash is due before the next element.\<close>

definition path_elements :: "string \<Rightarrow> string list" where
  "path_elements s = (let f = \<lambda>c (cur, es). if c = CHR ''/'' then ([], cur # es) else (c # cur, es);
                          (cur, es) = foldr f s ([], []) in cur # es)"

fun resolve_elements :: "string \<Rightarrow> bool \<Rightarrow> string list \<Rightarrow> string" where
  "resolve_elements dst first [] = dst"
| "resolve_elements dst first (e # es) =
     (if e = ''.'' then resolve_elements dst False es
      else if e = ''..'' then
        (case cut_last (CHR ''/'') (tl dst) of
           None \<Rightarrow> resolve_elements ''/'' True es
         | Some (a, _) \<Rightarrow> resolve_elements (''/'' @ a) first es)
      else resolve_elements (dst @ (if first then [] else ''/'') @ e) False es)"

definition resolvePath :: "string \<Rightarrow> string \<Rightarrow> string" where
  "resolvePath base ref =
     (let full = (if ref = [] then base
                  else if hd ref \<noteq> CHR ''/''
                  then (case cut_last (CHR ''/'') base of None \<Rightarrow> [] | Some (a, _) \<Rightarrow> a @ ''/'') @ ref
                  else ref) in
      if full = [] then []
      else
        (let es = path_elements full;
             r = resolve_elements ''/'' True es @ (if last es = ''.'' \<or> last es = ''..'' then ''/'' else []) in
         if take 2 r = ''//'' then drop 1 r else r))"

text \<open>\<open>setPath\<close> on an encoded path; its error is ignored there, and leaves the URL alone.\<close>

definition setPath_ignore :: "string \<Rightarrow> url \<Rightarrow> url" where
  "setPath_ignore p u = (case setPath p u of Inl _ \<Rightarrow> u | Inr u' \<Rightarrow> u')"

definition ResolveReference :: "url \<Rightarrow> url \<Rightarrow> url" where
  "ResolveReference u ref =
     (let r = (if u_Scheme ref = [] then ref\<lparr>u_Scheme := u_Scheme u\<rparr> else ref) in
      if u_Scheme ref \<noteq> [] \<or> u_Host ref \<noteq> [] \<or> u_User ref \<noteq> None
      then setPath_ignore (resolvePath (EscapedPath ref) []) r
      else if u_Opaque ref \<noteq> [] then r\<lparr>u_User := None, u_Host := [], u_Path := []\<rparr>
      else
        (let bare = (u_Path ref = [] \<and> \<not> u_ForceQuery ref \<and> u_RawQuery ref = []);
             r = (if bare then r\<lparr>u_RawQuery := u_RawQuery u\<rparr> else r);
             r = (if bare \<and> u_Fragment ref = []
                  then r\<lparr>u_Fragment := u_Fragment u, u_RawFragment := u_RawFragment u\<rparr> else r) in
         if u_Path ref = [] \<and> u_Opaque u \<noteq> []
         then r\<lparr>u_Opaque := u_Opaque u, u_User := None, u_Host := [], u_Path := []\<rparr>
         else setPath_ignore (resolvePath (EscapedPath u) (EscapedPath ref))
                (r\<lparr>u_Host := u_Host u, u_User := u_User u\<rparr>)))"

text \<open>\<open>Hostname\<close> and \<open>Port\<close>.\<close>

definition splitHostPort :: "string \<Rightarrow> string \<times> string" where
  "splitHostPort hostPort =
     (let (host, port) = (case cut_last (CHR '':'') hostPort of
            Some (h, p) \<Rightarrow> if validOptionalPort ('':'' @ p) then (h, p) else (hostPort, [])
          | None \<Rightarrow> (hostPort, []))
      in (if take 1 host = ''['' \<and> has_suffix host '']'' then butlast (tl host) else host, port))"

definition Hostname :: "url \<Rightarrow> string" where
  "Hostname u = fst (splitHostPort (u_Host u))"

definition Port :: "url \<Rightarrow> string" where
  "Port u = snd (splitHostPort (u_Host u))"

section \<open>Queries\<close>

text \<open>\<open>ParseQuery\<close>, whose callers drop the error: bad pairs are skipped.\<close>

fun split_on_acc :: "char \<Rightarrow> string \<Rightarrow> string \<Rightarrow> string list" where
  "split_on_acc c cur [] = [rev cur]"
| "split_on_acc c cur (x # s) = (if x = c then rev cur # split_on_acc c [] s else split_on_acc c (x # cur) s)"

definition query_pair :: "string \<Rightarrow> (string \<times> string) option" where
  "query_pair p =
     (if CHR '';'' \<in> set p \<or> p = [] then None
      else
        (let (k, v, _) = cut (CHR ''='') p in
         case unescape encodeQueryComponent k of
           Inl _ \<Rightarrow> None
         | Inr key \<Rightarrow> (case unescape encodeQueryComponent v of Inl _ \<Rightarrow> None | Inr val \<Rightarrow> Some (key, val))))"

definition parse_query :: "string \<Rightarrow> (string \<times> string) list" where
  "parse_query q = List.map_filter query_pair (split_on_acc (CHR ''&'') [] q)"

definition Query :: "url \<Rightarrow> (string \<times> string) list" where
  "Query u = parse_query (u_RawQuery u)"

definition query_values :: "(string \<times> string) list \<Rightarrow> string \<Rightarrow> string list" where
  "query_values q k = map snd (filter (\<lambda>p. fst p = k) q)"

definition query_get :: "(string \<times> string) list \<Rightarrow> string \<Rightarrow> string" where
  "query_get q k = (case query_values q k of [] \<Rightarrow> [] | v # _ \<Rightarrow> v)"

text \<open>\<open>Values.Encode\<close>: sorted by key, the values of a key in order.\<close>

definition encode_pair :: "string \<times> string \<Rightarrow> string" where
  "encode_pair p = QueryEscape (fst p) @ ''='' @ QueryEscape (snd p)"

fun join_with :: "char \<Rightarrow> string list \<Rightarrow> string" where
  "join_with c [] = []"
| "join_with c [s] = s"
| "join_with c (s # t # ss) = s @ [c] @ join_with c (t # ss)"

definition Encode :: "(string \<times> string) list \<Rightarrow> string" where
  "Encode kvs = join_with (CHR ''&'') (map encode_pair (sort_key fst kvs))"

section \<open>Round trips\<close>

lemma of_char_upper_hex:
  "n < 16 \<Longrightarrow> (of_char (upper_hex n) :: nat) = (if n < 10 then 48 + n else 55 + n)"
  by (simp add: upper_hex_def)

lemma upper_hex [simp]: "n < 16 \<Longrightarrow> ishex (upper_hex n)" "n < 16 \<Longrightarrow> unhex (upper_hex n) = n"
  by (auto simp: ishex_def unhex_def of_char_upper_hex Let_def)

lemma of_char_less: "(of_char c :: nat) < 256"
  using of_char_of [of "of_char c :: nat"] by (metis char_of_char mod_less_divisor zero_less_numeral of_char_of)

lemma hex_pair: "char_of ((of_char c :: nat) div 16 * 16 + of_char c mod 16) = c"
  by (simp only: div_mult_mod_eq char_of_char)

lemma shouldEscape_percent [simp]: "shouldEscape (CHR ''%'') m"
  by (simp add: shouldEscape_def is_alnum_def)

lemma shouldEscape_query:
  "shouldEscape c encodeQueryComponent \<longleftrightarrow> \<not> is_alnum c \<and> c \<notin> set ''-_.~''"
  by (auto simp: shouldEscape_def)

lemma unescape_escape_char:
  assumes "m \<notin> {encodeHost, encodeZone}"
  shows "unescape m (escape_char m c @ s) = map_sum id ((#) c) (unescape m s)"
proof (cases "shouldEscape c m")
  case True
  have n: "(of_char c :: nat) div 16 < 16"
    using of_char_less [of c] by (intro less_mult_imp_div_less) simp
  have m: "(of_char c :: nat) mod 16 < 16" by simp
  have ok: "escape_ok m x y" for x y using assms by (auto simp: escape_ok_def)
  have sp: "shouldEscape (CHR '' '') m" by (simp add: shouldEscape_def is_alnum_def)
  from True assms n m ok sp show ?thesis
    by (auto simp: escape_char_def hex_pair)
next
  case False
  then have "c \<noteq> CHR ''%''" by auto
  moreover have "\<not> (c = CHR ''+'' \<and> m = encodeQueryComponent)"
    using False by (auto simp: shouldEscape_query is_alnum_def)
  ultimately show ?thesis using False assms by (auto simp: escape_char_def)
qed

lemma unescape_escape:
  "m \<notin> {encodeHost, encodeZone} \<Longrightarrow> unescape m (url_escape m s) = Inr s"
  by (induction s) (auto simp: url_escape_def unescape_escape_char simp del: unescape.simps(2))

lemma unescape_QueryEscape [simp]: "unescape encodeQueryComponent (QueryEscape s) = Inr s"
  by (simp add: QueryEscape_def unescape_escape)

text \<open>The bytes an encoded query component is made of.\<close>

definition query_char :: "char \<Rightarrow> bool" where
  "query_char c \<longleftrightarrow> is_alnum c \<or> c \<in> set ''-_.~+%''"

lemma is_alnum_upper_hex: "n < 16 \<Longrightarrow> is_alnum (upper_hex n)"
  by (auto simp: is_alnum_def of_char_upper_hex Let_def)

lemma QueryEscape_chars: "list_all query_char (QueryEscape s)"
proof -
  have "list_all query_char (escape_char encodeQueryComponent c)" for c
  proof -
    have n: "(of_char c :: nat) div 16 < 16"
    using of_char_less [of c] by (intro less_mult_imp_div_less) simp
    have m: "(of_char c :: nat) mod 16 < 16" by simp
    have sp: "shouldEscape (CHR '' '') encodeQueryComponent"
      by (simp add: shouldEscape_def is_alnum_def)
    show ?thesis
      using is_alnum_upper_hex [OF n] is_alnum_upper_hex [OF m] sp
      by (auto simp: escape_char_def query_char_def shouldEscape_query)
  qed
  then show ?thesis by (induction s) (auto simp: QueryEscape_def url_escape_def)
qed

lemma query_char_not [simp]:
  "\<not> query_char (CHR ''&'')" "\<not> query_char (CHR ''='')" "\<not> query_char (CHR '';'')"
  "\<not> query_char (CHR ''#'')" "\<not> query_char (CHR ''?'')"
  by (simp_all add: query_char_def is_alnum_def)

lemma QueryEscape_not:
  "\<not> query_char c \<Longrightarrow> c \<notin> set (QueryEscape s)"
  using QueryEscape_chars [of s] by (auto simp: list_all_iff)

lemma cut_append: "c \<notin> set a \<Longrightarrow> cut c (a @ c # b) = (a, b, True)"
  by (simp add: cut_def takeWhile_tail dropWhile_append3 takeWhile_append dropWhile_append)

lemma cut_absent: "c \<notin> set s \<Longrightarrow> cut c s = (s, [], False)"
proof -
  assume "c \<notin> set s"
  then have "\<forall>x\<in>set s. x \<noteq> c" by auto
  then show ?thesis using \<open>c \<notin> set s\<close> by (simp add: cut_def takeWhile_eq_all_conv [THEN iffD2] dropWhile_eq_Nil_conv [THEN iffD2])
qed

lemma query_pair_encode [simp]: "query_pair (encode_pair p) = Some p"
  by (simp add: query_pair_def encode_pair_def cut_append QueryEscape_not)

lemma split_on_acc_absent:
  "c \<notin> set s \<Longrightarrow> split_on_acc c cur (s @ t) = split_on_acc c (rev s @ cur) t"
  by (induction s arbitrary: cur) auto

lemma split_on_join:
  "\<forall>s\<in>set ss. c \<notin> set s \<Longrightarrow> ss \<noteq> [] \<Longrightarrow> split_on_acc c [] (join_with c ss) = ss"
proof (induction ss rule: join_with.induct)
  case (2 c s)
  then show ?case using split_on_acc_absent [of c s "[]" "[]"] by simp
next
  case (3 c s t ss)
  then show ?case by (simp add: split_on_acc_absent)
qed simp

lemma encode_pair_not_amp: "CHR ''&'' \<notin> set (encode_pair p)"
  by (simp add: encode_pair_def QueryEscape_not)

lemma map_filter_encode [simp]: "List.map_filter query_pair (map encode_pair kvs) = kvs"
  by (induction kvs) (simp_all add: List.map_filter_def)

text \<open>What a query is encoded from is what parsing it gives: the pairs, sorted by key.\<close>

lemma parse_query_Encode: "parse_query (Encode kvs) = sort_key fst kvs"
proof (cases "kvs = []")
  case True
  then show ?thesis by (simp add: Encode_def parse_query_def List.map_filter_def query_pair_def)
next
  case False
  have "split_on_acc (CHR ''&'') [] (Encode kvs) = map encode_pair (sort_key fst kvs)"
    unfolding Encode_def using False
    by (intro split_on_join) (auto simp: encode_pair_not_amp dest: arg_cong [of _ _ set])
  then show ?thesis by (simp add: parse_query_def)
qed

lemma query_values_sort: "query_values (sort_key fst kvs) k = query_values kvs k"
  by (simp add: query_values_def sort_key_stable)

lemma query_values_Encode: "query_values (parse_query (Encode kvs)) k = query_values kvs k"
  by (simp add: parse_query_Encode query_values_sort)

lemma Encode_chars:
  "list_all (\<lambda>c. query_char c \<or> c = CHR ''='' \<or> c = CHR ''&'') (Encode kvs)"
proof -
  have "list_all (\<lambda>c. query_char c \<or> c = CHR ''='' \<or> c = CHR ''&'') (join_with (CHR ''&'') (map encode_pair ps))"
    for ps
  proof (induction ps)
    case (Cons p ps)
    have "list_all (\<lambda>c. query_char c \<or> c = CHR ''='' \<or> c = CHR ''&'') (encode_pair p)"
      using QueryEscape_chars [of "fst p"] QueryEscape_chars [of "snd p"]
      by (auto simp: encode_pair_def list_all_iff)
    with Cons show ?case by (cases ps) auto
  qed simp
  then show ?thesis by (simp add: Encode_def)
qed

lemma query_char_plain: "query_char c \<Longrightarrow> \<not> isControl c"
  by (auto simp: query_char_def isControl_def is_alnum_def Let_def)

section \<open>A URL with a query\<close>

lemma scheme_at_append: "scheme_at b s = Some x \<Longrightarrow> scheme_at b (s @ t) = Some x"
  by (induction b s arbitrary: x rule: scheme_at.induct) (auto split: if_splits)

lemma scheme_at_length: "scheme_at b s = Some x \<Longrightarrow> length x < length s"
  by (induction b s arbitrary: x rule: scheme_at.induct) (auto split: if_splits)

lemma setPath_RawQuery:
  "setPath p (u\<lparr>u_RawQuery := q\<rparr>) = map_sum id (\<lambda>v. v\<lparr>u_RawQuery := q\<rparr>) (setPath p u)"
  by (simp add: setPath_def split: sum.split)

lemma parse_hier_RawQuery:
  "parse_hier (u\<lparr>u_RawQuery := q\<rparr>) p = map_sum id (\<lambda>v. v\<lparr>u_RawQuery := q\<rparr>) (parse_hier u p)"
proof -
  have a: "setPath p (u\<lparr>u_RawQuery := q, u_User := usr, u_Host := h\<rparr>)
      = map_sum id (\<lambda>v. v\<lparr>u_RawQuery := q\<rparr>) (setPath p (u\<lparr>u_User := usr, u_Host := h\<rparr>))" for p usr h
    using setPath_RawQuery [of p q "u\<lparr>u_User := usr, u_Host := h\<rparr>"] by (cases u) simp
  have b: "setPath p (u\<lparr>u_RawQuery := q, u_OmitHost := o'\<rparr>)
      = map_sum id (\<lambda>v. v\<lparr>u_RawQuery := q\<rparr>) (setPath p (u\<lparr>u_OmitHost := o'\<rparr>))" for p o'
    using setPath_RawQuery [of p q "u\<lparr>u_OmitHost := o'\<rparr>"] by (cases u) simp
  show ?thesis by (simp add: parse_hier_def Let_def a b split: sum.split prod.split)
qed

lemma split_query_none: "CHR ''?'' \<notin> set s \<Longrightarrow> split_query s = (s, [], False)"
proof -
  assume no: "CHR ''?'' \<notin> set s"
  then have "count_list s (CHR ''?'') = 0" by (simp add: count_list_0_iff)
  then show ?thesis using cut_absent [OF no] by (simp add: split_query_def)
qed

lemma split_query_append:
  assumes "CHR ''?'' \<notin> set s" and "CHR ''?'' \<notin> set q" and "q \<noteq> []"
  shows "split_query (s @ ''?'' @ q) = (s, q, False)"
proof -
  have "last q \<noteq> CHR ''?''" using assms(2,3) last_in_set by metis
  then have "\<not> has_suffix (s @ ''?'' @ q) ''?''"
    using assms(3) by (cases q rule: rev_cases) (auto simp: has_suffix_def)
  then show ?thesis using cut_append [OF assms(1), of q] by (simp add: split_query_def)
qed

text \<open>Adding an encoded query to a URL without one only sets the query.\<close>

lemma url_parse_query:
  assumes base: "url_parse base = Inr u" "scheme_at True base = Some sch" "sch \<noteq> []"
    and no: "CHR ''?'' \<notin> set base" "CHR ''#'' \<notin> set base"
    and q: "q \<noteq> []" "CHR ''?'' \<notin> set q" "CHR ''#'' \<notin> set q" "\<not> list_ex isControl q"
  shows "url_parse (base @ ''?'' @ q) = Inr (u\<lparr>u_RawQuery := q\<rparr>)"
proof -
  have sch: "scheme_at True (base @ ''?'' @ q) = Some sch" "length sch + 1 \<le> length base"
    using scheme_at_append [OF base(2)] scheme_at_length [OF base(2)] by auto
  have scheme: "getScheme base = Inr (sch, drop (length sch + 1) base)"
    "getScheme (base @ ''?'' @ q) = Inr (sch, drop (length sch + 1) base @ ''?'' @ q)"
    unfolding getScheme_def using base(2,3) sch by simp_all
  have drop: "CHR ''?'' \<notin> set (drop (length sch + 1) base)" using no(1) in_set_dropD by metis
  have star: "base @ ''?'' @ q \<noteq> ''*''" "base \<noteq> ''*''"
    using base(2,3) by (auto simp: Cons_eq_append_conv append_eq_Cons_conv is_letter_def is_alnum_def is_digit_def)
  have "parse_url0 base = Inr u"
    using base(1) cut_absent [OF no(2)] by (simp add: url_parse_def split: sum.splits)
  then have ctl: "\<not> list_ex isControl base"
    and hier: "parse_hier (empty_url\<lparr>u_Scheme := map lower_char sch, u_RawQuery := [], u_ForceQuery := False\<rparr>)
        (drop (length sch + 1) base) = Inr u"
    using scheme(1) split_query_none [OF drop] star(2)
    by (auto simp: parse_url0_def Let_def split: if_splits)
  have "parse_hier (empty_url\<lparr>u_Scheme := map lower_char sch, u_RawQuery := q, u_ForceQuery := False\<rparr>)
      (drop (length sch + 1) base) = Inr (u\<lparr>u_RawQuery := q\<rparr>)"
    using parse_hier_RawQuery [of q "empty_url\<lparr>u_Scheme := map lower_char sch, u_RawQuery := [], u_ForceQuery := False\<rparr>"
        "drop (length sch + 1) base"] hier by (simp add: empty_url_def)
  then have "parse_url0 (base @ ''?'' @ q) = Inr (u\<lparr>u_RawQuery := q\<rparr>)"
    using scheme(2) split_query_append [OF drop q(2,1)] star(1) ctl q(4)
    by (simp add: parse_url0_def isControl_def)
  moreover have "CHR ''#'' \<notin> set (base @ ''?'' @ q)" using no(2) q(3) by simp
  ultimately show ?thesis by (simp add: url_parse_def cut_absent)
qed

lemma Encode_query:
  "kvs \<noteq> [] \<Longrightarrow> Encode kvs \<noteq> []" "CHR ''?'' \<notin> set (Encode kvs)" "CHR ''#'' \<notin> set (Encode kvs)"
  "\<not> list_ex isControl (Encode kvs)"
proof -
  assume "kvs \<noteq> []"
  show "Encode kvs \<noteq> []"
  proof
    assume "Encode kvs = []"
    then have "sort_key fst kvs = []"
      using parse_query_Encode [of kvs] by (simp add: parse_query_def query_pair_def List.map_filter_def)
    with \<open>kvs \<noteq> []\<close> show False by (metis length_0_conv length_sort)
  qed
next
  show "CHR ''?'' \<notin> set (Encode kvs)" "CHR ''#'' \<notin> set (Encode kvs)"
    using Encode_chars [of kvs] by (auto simp: list_all_iff)
  show "\<not> list_ex isControl (Encode kvs)"
    using Encode_chars [of kvs] query_char_plain by (auto simp: list_all_iff list_ex_iff isControl_def)
qed

lemma unescape_plain:
  "list_all (\<lambda>c. c \<noteq> CHR ''%'' \<and> c \<noteq> CHR ''+'') s \<Longrightarrow> unescape encodeQueryComponent s = Inr s"
  by (induction s) auto

lemma cut_at_absent_append:
  "c \<notin> set a \<Longrightarrow> cut_at (c # sub) (a @ b) = map_option (\<lambda>(x, y). (a @ x, y)) (cut_at (c # sub) b)"
proof (induction a)
  case Nil
  then show ?case by (cases "cut_at (c # sub) b") auto
next
  case (Cons x a)
  then show ?case by (cases "cut_at (c # sub) b") (auto simp: has_prefix_def)
qed

lemma parse_hier_keeps: "parse_hier u p = Inr v \<Longrightarrow> u_RawQuery v = u_RawQuery u"
  by (auto simp: parse_hier_def setPath_def Let_def split: if_splits sum.splits prod.splits)

lemma scheme_at_before: "scheme_at b (a @ CHR ''?'' # t) = Some s \<Longrightarrow> length s < length a"
proof (induction a arbitrary: b s)
  case Nil
  then show ?case by (simp add: is_letter_def is_alnum_def is_digit_def)
qed (auto split: if_splits)

text \<open>The query of a URL is what follows its first question mark.\<close>

lemma url_parse_RawQuery:
  assumes "url_parse (a @ ''?'' @ q) = Inr u"
    and no: "CHR ''?'' \<notin> set a" "CHR ''#'' \<notin> set a"
    and q: "q \<noteq> []" "CHR ''?'' \<notin> set q" "CHR ''#'' \<notin> set q"
  shows "u_RawQuery u = q"
proof -
  have frag: "CHR ''#'' \<notin> set (a @ ''?'' @ q)" using no(2) q(3) by simp
  have parse: "parse_url0 (a @ ''?'' @ q) = Inr u"
    using assms(1) cut_absent [OF frag] by (simp add: url_parse_def split: sum.splits)
  then obtain sch rest where g: "getScheme (a @ ''?'' @ q) = Inr (sch, rest)"
    by (auto simp: parse_url0_def Let_def append_eq_Cons_conv split: if_splits sum.splits)
  obtain k where k: "k \<le> length a" "rest = drop k (a @ ''?'' @ q)"
    using g scheme_at_before [of True a q]
    by (auto simp: getScheme_def split: option.splits if_splits) (metis Suc_leI drop0 le0 append_Cons append_Nil)+
  then have rest: "rest = drop k a @ ''?'' @ q" by simp
  have "CHR ''?'' \<notin> set (drop k a)" using no(1) in_set_dropD by metis
  from split_query_append [OF this q(2,1)]
  have "parse_hier (empty_url\<lparr>u_Scheme := map lower_char sch, u_RawQuery := q, u_ForceQuery := False\<rparr>) (drop k a) = Inr u"
    using parse g by (auto simp: parse_url0_def rest append_eq_Cons_conv split: if_splits)
  from parse_hier_keeps [OF this] show ?thesis by simp
qed

end
