(* ===== verification/RestModels.thy ===== *)
theory RestModels
  imports GoJson
begin

text \<open>
  The JSON methods of the generated REST models (\<open>pkg/dependencymodels/rest\<close>). A model is a Go struct whose
  last field collects the members that the schema does not name. Its \<open>UnmarshalJSON\<close> reads the document into a
  map, decodes the named members one after the other, stops at the first that fails, and decodes what is
  left into the additional properties; its \<open>MarshalJSON\<close> writes the named fields, without the optional ones
  that are nil, and then the additional properties over them. All models are instances of one scheme, so a
  model is described by its fields (\<open>rest_type\<close>) and the two methods are \<open>rest_unmarshal\<close> and
  \<open>rest_marshal\<close> at that description; types without methods of their own are decoded as in theory GoJson.

  The round-trip lemma covers every description with distinct field names.
\<close>

section \<open>Time stamps\<close>

text \<open>
  \<open>time.Time\<close>'s JSON methods accept RFC 3339 strings only. A time is modelled by the text it is printed as:
  \<open>rfc3339\<close> parses a text and returns that canonical one, with at most nine fraction digits, no trailing
  zeros, and \<open>Z\<close> for a zero offset. A JSON string is taken without escapes.
\<close>

definition two_digits :: "string \<Rightarrow> nat \<Rightarrow> nat \<Rightarrow> bool" where
  "two_digits s lo hi \<longleftrightarrow>
     s \<noteq> [] \<and> list_all is_digit s \<and> lo \<le> the (digits_val 0 s) \<and> the (digits_val 0 s) \<le> hi"

definition days_in :: "nat \<Rightarrow> nat \<Rightarrow> nat" where
  "days_in month year =
     (if month = 2 then (if year mod 4 = 0 \<and> (year mod 100 \<noteq> 0 \<or> year mod 400 = 0) then 29 else 28)
      else if month \<in> {4, 6, 9, 11} then 30 else 31)"

definition rfc3339_zone :: "string \<Rightarrow> string option" where
  "rfc3339_zone s =
     (if s = ''Z'' then Some s
      else if length s = 6 \<and> two_digits (take 2 (drop 1 s)) 0 23 \<and> two_digits (drop 4 s) 0 59
              \<and> (hd s = CHR ''-'' \<or> hd s = CHR ''+'') \<and> s ! 3 = CHR '':''
      then Some (if drop 1 s = ''00:00'' then ''Z'' else s) else None)"

definition rfc3339 :: "string \<Rightarrow> string option" where
  "rfc3339 s =
     (if length s < 19 then None
      else if two_digits (take 4 s) 0 9999 \<and> two_digits (take 2 (drop 5 s)) 1 12
              \<and> two_digits (take 2 (drop 8 s)) 1
                   (days_in (the (digits_val 0 (take 2 (drop 5 s)))) (the (digits_val 0 (take 4 s))))
              \<and> two_digits (take 2 (drop 11 s)) 0 23 \<and> two_digits (take 2 (drop 14 s)) 0 59
              \<and> two_digits (take 2 (drop 17 s)) 0 59
              \<and> s ! 4 = CHR ''-'' \<and> s ! 7 = CHR ''-'' \<and> s ! 10 = CHR ''T'' \<and> s ! 13 = CHR '':'' \<and> s ! 16 = CHR '':''
      then
        (let rest = drop 19 s;
             fraction = (take 1 rest = ''.'' \<and> takeWhile is_digit (drop 1 rest) \<noteq> []);
             digits = (if fraction then takeWhile is_digit (drop 1 rest) else []);
             zone = (if fraction then dropWhile is_digit (drop 1 rest) else rest);
             kept = rev (dropWhile (\<lambda>c. c = CHR ''0'') (rev (take 9 digits))) in
         map_option (\<lambda>z. take 19 s @ (if kept = [] then [] else ''.'' @ kept) @ z) (rfc3339_zone zone))
      else None)"

section \<open>Types and values\<close>

datatype rest_type =
    RPlain gotype
  | RFloat32
  | RTime
  | RUnion
    \<comment> \<open>a union that keeps its raw JSON\<close>
  | RMap rest_type
  | RPtr rest_type
  | RSlice rest_type
  | RStruct "(string \<times> bool \<times> rest_type) list"
    \<comment> \<open>JSON name, whether a nil value is left out, type\<close>

datatype rest_value =
    RV goval
  | RVPtr "rest_value option"
  | RVSlice "rest_value list option"
  | RVRaw "json option"
  | RVMap "(string \<times> rest_value) list option"
  | RVStruct "rest_value list" "(string \<times> json) list option"
    \<comment> \<open>the fields and \<open>AdditionalProperties\<close>\<close>

fun rest_zero :: "rest_type \<Rightarrow> rest_value" where
  "rest_zero (RPlain T) = RV (zero_value T)"
| "rest_zero RFloat32 = RV (VFloat 0)"
| "rest_zero RTime = RV (VString ''0001-01-01T00:00:00Z'')"
| "rest_zero RUnion = RVRaw None"
| "rest_zero (RMap _) = RVMap None"
| "rest_zero (RPtr _) = RVPtr None"
| "rest_zero (RSlice _) = RVSlice None"
| "rest_zero (RStruct fs) = RVStruct (map (\<lambda>f. rest_zero (snd (snd f))) fs) None"

text \<open>\<open>strconv.ParseFloat(s, 32)\<close>, with the bounds of float32.\<close>

definition num_float32 :: "jnum \<Rightarrow> rat option" where
  "num_float32 n =
     (let q = num_value n in
      if \<bar>q\<bar> \<ge> 2 ^ 128 - 2 ^ 103 then None
      else if \<bar>q\<bar> * 2 ^ 150 \<le> 1 then Some 0 else Some q)"

fun rest_custom :: "rest_type \<Rightarrow> bool" where
  "rest_custom (RStruct _) = True"
| "rest_custom RTime = True"
| "rest_custom (RPtr T) = rest_custom T"
| "rest_custom _ = False"

definition rest_names :: "(string \<times> bool \<times> rest_type) list \<Rightarrow> string list" where
  "rest_names fs = map fst fs"

section \<open>Decoding\<close>

text \<open>
  The result is the target's new value and whether an error is returned. The members that no field names go to
  \<open>AdditionalProperties\<close>, which is replaced when there are any; Go visits them in no fixed order, and where
  one of them fails to decode (a number out of range) the value left behind is one of the possible ones.
\<close>

definition rest_additional ::
  "(string \<times> bool \<times> rest_type) list \<Rightarrow> (string \<times> json) list \<Rightarrow> (string \<times> json) list option
   \<Rightarrow> (string \<times> json) list option \<times> bool" where
  "rest_additional fs object old =
     (let others = filter (\<lambda>kv. fst kv \<notin> set (rest_names fs)) object;
          good = takeWhile (\<lambda>kv. any_ok (snd kv)) others in
      if others = [] then (old, False)
      else (Some (map (\<lambda>kv. (fst kv, any_norm (snd kv))) good), good \<noteq> others))"

function (sequential) rest_unmarshal :: "rest_type \<Rightarrow> rest_value \<Rightarrow> json \<Rightarrow> rest_value \<times> bool"
  and rest_fields ::
    "(string \<times> bool \<times> rest_type) list \<Rightarrow> rest_value list \<Rightarrow> (string \<times> json) list \<Rightarrow> rest_value list \<times> bool"
  and rest_elements :: "rest_type \<Rightarrow> rest_value list \<Rightarrow> json list \<Rightarrow> rest_value list \<times> bool"
  and rest_entries ::
    "rest_type \<Rightarrow> (string \<times> rest_value) list \<Rightarrow> (string \<times> json) list \<Rightarrow> (string \<times> rest_value) list \<times> bool"
where
  "rest_unmarshal (RPlain T) old j =
     (case unmarshal T (case old of RV v \<Rightarrow> v | _ \<Rightarrow> zero_value T) j of
        Some (v, e) \<Rightarrow> (RV v, e)
      | None \<Rightarrow> (old, True))"
| "rest_unmarshal RFloat32 old j =
     (case j of
        JNull \<Rightarrow> (old, False)
      | JNum n \<Rightarrow> (case num_float32 n of Some q \<Rightarrow> (RV (VFloat q), False) | None \<Rightarrow> (old, True))
      | _ \<Rightarrow> (old, True))"
| "rest_unmarshal RTime old j =
     (case j of
        JNull \<Rightarrow> (old, False)
      | JStr s \<Rightarrow> (case rfc3339 s of Some t \<Rightarrow> (RV (VString t), False) | None \<Rightarrow> (rest_zero RTime, True))
      | _ \<Rightarrow> (old, True))"
| "rest_unmarshal RUnion old j = (RVRaw (Some j), False)"
| "rest_unmarshal (RMap T) old j =
     (case j of
        JNull \<Rightarrow> (RVMap None, False)
      | JObj kvs \<Rightarrow>
          (let (m, e) = rest_entries T (case old of RVMap (Some m) \<Rightarrow> m | _ \<Rightarrow> []) kvs
           in (RVMap (Some m), e))
      | _ \<Rightarrow> (old, True))"
| "rest_unmarshal (RPtr T) old j =
     (if j = JNull then (RVPtr None, False)
      else (let (v, e) = rest_unmarshal T (case old of RVPtr (Some v) \<Rightarrow> v | _ \<Rightarrow> rest_zero T) j
            in (RVPtr (Some v), e)))"
| "rest_unmarshal (RSlice T) old j =
     (case j of
        JNull \<Rightarrow> (RVSlice None, False)
      | JArr js \<Rightarrow>
          (let (vs, e) = rest_elements T (case old of RVSlice (Some vs) \<Rightarrow> vs | _ \<Rightarrow> []) js
           in (RVSlice (Some vs), e))
      | _ \<Rightarrow> (old, True))"
| "rest_unmarshal (RStruct fs) old j =
     (case j of
        JNull \<Rightarrow> (old, False)
      | JObj kvs \<Rightarrow>
          (let object = gm_build kvs;
               olds = (case old of RVStruct vs _ \<Rightarrow> vs | _ \<Rightarrow> map (\<lambda>f. rest_zero (snd (snd f))) fs);
               extra = (case old of RVStruct _ a \<Rightarrow> a | _ \<Rightarrow> None);
               (vs, e) = rest_fields fs olds object in
           if e then (RVStruct vs extra, True)
           else (let (extra', e') = rest_additional fs object extra in (RVStruct vs extra', e')))
      | _ \<Rightarrow> (old, True))"
| "rest_fields [] vs object = (vs, False)"
| "rest_fields ((k, _, T) # fs) vs object =
     (case vs of
        [] \<Rightarrow> ([], False)
      | v # vs' \<Rightarrow>
          (case map_of object k of
             None \<Rightarrow> (let (ws, e) = rest_fields fs vs' object in (v # ws, e))
           | Some j \<Rightarrow>
               (let (w, e) = rest_unmarshal T v j in
                if e then (w # vs', True)
                else (let (ws, e') = rest_fields fs vs' object in (w # ws, e')))))"
| "rest_elements T olds [] = ([], False)"
| "rest_elements T olds (j # js) =
     (let (v, e) = rest_unmarshal T (case olds of [] \<Rightarrow> rest_zero T | v # _ \<Rightarrow> v) j in
      if e \<and> rest_custom T then (v # drop 1 olds, True)
      else (let (vs, e') = rest_elements T (drop 1 olds) js in (v # vs, e \<or> e')))"
| "rest_entries T m [] = (m, False)"
| "rest_entries T m ((k, j) # kvs) =
     (let (v, e) = rest_unmarshal T (rest_zero T) j in
      if e \<and> rest_custom T then (m, True)
      else (let (m', e') = rest_entries T (gm_put k v m) kvs in (m', e \<or> e')))"
  by pat_completeness auto
termination
  by (relation "inv_image (less_than <*lex*> less_than) (\<lambda>x. case x of
        Inl (Inl (T, old, j)) \<Rightarrow> (size T, 0)
      | Inl (Inr (fs, vs, object)) \<Rightarrow> (size_list (size_prod (\<lambda>x. 0) (size_prod (\<lambda>x. 0) size)) fs, 0)
      | Inr (Inl (T, olds, js)) \<Rightarrow> (size T, Suc (length js))
      | Inr (Inr (T, m, kvs)) \<Rightarrow> (size T, Suc (length kvs)))") auto

text \<open>\<open>json.Unmarshal\<close> into a zero model, and the value it leaves whether or not it fails.\<close>

definition rest_decode :: "rest_type \<Rightarrow> raw_message \<Rightarrow> rest_value \<times> bool" where
  "rest_decode T raw =
     (case raw of RawJson j \<Rightarrow> rest_unmarshal T (rest_zero T) j | _ \<Rightarrow> (rest_zero T, True))"

section \<open>Encoding\<close>

definition rest_nil :: "rest_value \<Rightarrow> bool" where
  "rest_nil v \<longleftrightarrow> v \<in> {RVPtr None, RVSlice None, RVMap None, RV (VMap None), RV (VAny JNull), RV (VSlice None)}"

function (sequential) rest_marshal :: "rest_type \<Rightarrow> rest_value \<Rightarrow> json"
  and rest_marshal_fields ::
    "(string \<times> bool \<times> rest_type) list \<Rightarrow> rest_value list \<Rightarrow> (string \<times> json) list"
where
  "rest_marshal (RPlain T) v = marshal T (case v of RV w \<Rightarrow> w | _ \<Rightarrow> zero_value T)"
| "rest_marshal RFloat32 v = JNum (NFloat (case v of RV w \<Rightarrow> as_float w | _ \<Rightarrow> 0))"
| "rest_marshal RTime v = JStr (case v of RV w \<Rightarrow> as_string w | _ \<Rightarrow> [])"
| "rest_marshal RUnion v = (case v of RVRaw (Some j) \<Rightarrow> j | _ \<Rightarrow> JNull)"
| "rest_marshal (RMap T) v =
     (case v of RVMap (Some m) \<Rightarrow> JObj (map (\<lambda>kv. (fst kv, rest_marshal T (snd kv))) m) | _ \<Rightarrow> JNull)"
| "rest_marshal (RPtr T) v = (case v of RVPtr (Some w) \<Rightarrow> rest_marshal T w | _ \<Rightarrow> JNull)"
| "rest_marshal (RSlice T) v = (case v of RVSlice (Some vs) \<Rightarrow> JArr (map (rest_marshal T) vs) | _ \<Rightarrow> JNull)"
| "rest_marshal (RStruct fs) v =
     (case v of
        RVStruct vs extra \<Rightarrow>
          JObj (fold (\<lambda>(k, j) m. gm_put k j m) (case extra of None \<Rightarrow> [] | Some kvs \<Rightarrow> kvs)
                  (gm_build (rest_marshal_fields fs vs)))
      | _ \<Rightarrow> JObj [])"
| "rest_marshal_fields [] vs = []"
| "rest_marshal_fields ((k, omit, T) # fs) vs =
     (case vs of
        [] \<Rightarrow> []
      | v # vs' \<Rightarrow>
          if omit \<and> rest_nil v then rest_marshal_fields fs vs'
          else (k, rest_marshal T v) # rest_marshal_fields fs vs')"
  by pat_completeness auto
termination
  by (relation "measure (\<lambda>x. case x of Inl (T, v) \<Rightarrow> size T
        | Inr (fs, vs) \<Rightarrow> size_list (size_prod (\<lambda>x. 0) (size_prod (\<lambda>x. 0) size)) fs)") auto

section \<open>Round trip\<close>

text \<open>
  The descriptions the generator produces: every struct has distinct field names, also in its parts.
\<close>

fun rest_wf :: "rest_type \<Rightarrow> bool" where
  "rest_wf (RPtr T) = rest_wf T"
| "rest_wf (RSlice T) = rest_wf T"
| "rest_wf (RMap T) = rest_wf T"
| "rest_wf (RStruct fs) \<longleftrightarrow> distinct (rest_names fs) \<and> list_all (\<lambda>f. rest_wf (snd (snd f))) fs"
| "rest_wf _ = True"

text \<open>
  The values of a model that survive encoding: plain values as in theory GoJson, no pointer to something that
  is printed as null, and additional properties that do not carry the name of a field.
\<close>

definition extra_ok :: "string set \<Rightarrow> (string \<times> json) list option \<Rightarrow> bool" where
  "extra_ok names extra =
     (case extra of
        None \<Rightarrow> True
      | Some kvs \<Rightarrow> kvs \<noteq> [] \<and> gm_wf kvs \<and> list_all (\<lambda>kv. fst kv \<notin> names) kvs
                    \<and> list_all (\<lambda>kv. any_ok (snd kv) \<and> any_norm (snd kv) = snd kv) kvs)"

function (sequential) rest_ok :: "rest_type \<Rightarrow> rest_value \<Rightarrow> bool"
  and rest_ok_fields :: "(string \<times> bool \<times> rest_type) list \<Rightarrow> rest_value list \<Rightarrow> bool"
where
  "rest_ok (RPlain T) v = (case v of RV w \<Rightarrow> has_type T w | _ \<Rightarrow> False)"
| "rest_ok RFloat32 v = (case v of RV (VFloat q) \<Rightarrow> num_float32 (NFloat q) = Some q | _ \<Rightarrow> False)"
| "rest_ok RTime v = (case v of RV (VString t) \<Rightarrow> rfc3339 t = Some t | _ \<Rightarrow> False)"
| "rest_ok RUnion v = (case v of RVRaw (Some _) \<Rightarrow> True | _ \<Rightarrow> False)"
| "rest_ok (RMap T) v =
     (case v of
        RVMap None \<Rightarrow> True
      | RVMap (Some m) \<Rightarrow> gm_wf m \<and> list_all (\<lambda>kv. rest_ok T (snd kv)) m
      | _ \<Rightarrow> False)"
| "rest_ok (RPtr T) v =
     (case v of RVPtr None \<Rightarrow> True | RVPtr (Some w) \<Rightarrow> rest_ok T w \<and> rest_marshal T w \<noteq> JNull | _ \<Rightarrow> False)"
| "rest_ok (RSlice T) v =
     (case v of RVSlice None \<Rightarrow> True | RVSlice (Some vs) \<Rightarrow> list_all (rest_ok T) vs | _ \<Rightarrow> False)"
| "rest_ok (RStruct fs) v =
     (case v of
        RVStruct vs extra \<Rightarrow> extra_ok (set (rest_names fs)) extra \<and> rest_ok_fields fs vs
      | _ \<Rightarrow> False)"
| "rest_ok_fields [] vs = (vs = [])"
| "rest_ok_fields ((k, omit, T) # fs) vs =
     (case vs of
        [] \<Rightarrow> False
      | v # vs' \<Rightarrow> rest_ok T v \<and> (omit \<and> rest_nil v \<longrightarrow> v = rest_zero T) \<and> rest_ok_fields fs vs')"
  by pat_completeness auto
termination
  by (relation "measure (\<lambda>x. case x of Inl (T, v) \<Rightarrow> size T
        | Inr (fs, vs) \<Rightarrow> size_list (size_prod (\<lambda>x. 0) (size_prod (\<lambda>x. 0) size)) fs)") auto

lemma gm_wf_distinct: "gm_wf m \<Longrightarrow> distinct (map fst m)"
  by (simp add: gm_wf_def strict_sorted_iff)

lemma map_of_keys: "distinct (map fst m) \<Longrightarrow> map (\<lambda>k. (k, the (map_of m k))) (map fst m) = m"
  by (auto simp: comp_def intro!: map_idI)

lemma gm_wf_unique: "gm_wf a \<Longrightarrow> gm_wf b \<Longrightarrow> map_of a = map_of b \<Longrightarrow> a = b"
proof -
  assume wf: "gm_wf a" "gm_wf b" and eq: "map_of a = map_of b"
  from wf have d: "distinct (map fst a)" "distinct (map fst b)" by (simp_all add: gm_wf_distinct)
  have "set (map fst a) = set (map fst b)"
    using eq by (metis dom_map_of_conv_image_fst list.set_map)
  then have "map fst a = map fst b"
    using wf by (intro strict_sorted_equal) (auto simp: gm_wf_def)
  then show "a = b" using d eq by (metis map_of_keys)
qed

lemma map_of_filter_key: "map_of (filter (\<lambda>kv. P (fst kv)) m) k = (if P k then map_of m k else None)"
  by (induction m) auto

lemma map_of_rev_distinct: "distinct (map fst m) \<Longrightarrow> map_of (rev m) = map_of m"
  by (rule map_of_inject_set [THEN iffD2]) (simp_all add: rev_map [symmetric])

lemma gm_wf_filter: "gm_wf m \<Longrightarrow> gm_wf (filter P m)"
  by (simp add: gm_wf_def sorted_wrt_map sorted_wrt_filter)

lemma map_of_gm_build_wf: "gm_wf m \<Longrightarrow> map_of (gm_build m) = map_of m"
  by (simp add: map_of_gm_build map_of_rev_distinct gm_wf_distinct)

lemma rest_marshal_fields_keys: "fst ` set (rest_marshal_fields fs vs) \<subseteq> set (rest_names fs)"
proof (induction fs arbitrary: vs)
  case (Cons f fs)
  obtain k om T where f: "f = (k, om, T)" by (cases f)
  have "fst ` set (rest_marshal_fields fs (tl vs)) \<subseteq> set (rest_names fs)" by (rule Cons.IH)
  then show ?case by (cases vs) (auto simp: f rest_names_def)
qed simp

lemma rest_marshal_fields_distinct:
  "distinct (rest_names fs) \<Longrightarrow> distinct (map fst (rest_marshal_fields fs vs))"
proof (induction fs arbitrary: vs)
  case (Cons f fs)
  obtain k om T where f: "f = (k, om, T)" by (cases f)
  have "k \<notin> fst ` set (rest_marshal_fields fs ws)" for ws
    using Cons.prems rest_marshal_fields_keys [of fs ws] by (auto simp: f rest_names_def)
  with Cons show ?case by (auto simp: f rest_names_def split: list.splits)
qed simp

text \<open>What decoding an encoded model finds: the encoded fields under their names, the rest elsewhere.\<close>

lemma encoded_object:
  assumes "distinct (rest_names fs)" and "extra_ok (set (rest_names fs)) extra"
    and m: "m = gm_build (fold (\<lambda>(k, j) m. gm_put k j m) (case extra of None \<Rightarrow> [] | Some kvs \<Rightarrow> kvs)
                 (gm_build (rest_marshal_fields fs vs)))"
  shows "\<forall>k\<in>set (rest_names fs). map_of m k = map_of (rest_marshal_fields fs vs) k"
    and "rest_additional fs m None = (extra, False)"
proof -
  let ?enc = "rest_marshal_fields fs vs"
  let ?add = "case extra of None \<Rightarrow> [] | Some kvs \<Rightarrow> kvs"
  have add: "gm_wf ?add" "fst ` set ?add \<inter> set (rest_names fs) = {}"
    "list_all (\<lambda>kv. any_ok (snd kv) \<and> any_norm (snd kv) = snd kv) ?add" "?add = [] \<longleftrightarrow> extra = None"
    using assms(2) by (auto simp: extra_ok_def list_all_iff split: option.splits)
  have m0: "map_of (gm_build ?enc) = map_of ?enc"
    using rest_marshal_fields_distinct [OF assms(1)] by (simp add: map_of_gm_build map_of_rev_distinct)
  have map: "map_of m = map_of ?enc ++ map_of ?add"
    unfolding m using add(1)
    by (simp add: map_of_gm_build_wf gm_fold_wf map_of_fold_gm_put m0 map_of_rev_distinct gm_wf_distinct)
  have no: "map_of ?add k = None" if "k \<in> set (rest_names fs)" for k
    using add(2) that by (metis disjoint_iff map_of_eq_None_iff)
  then show "\<forall>k\<in>set (rest_names fs). map_of m k = map_of ?enc k"
    by (simp add: map map_add_def)
  have no2: "map_of ?enc k = None" if "k \<notin> set (rest_names fs)" for k
    using rest_marshal_fields_keys [of fs vs] that by (metis map_of_eq_None_iff subset_iff)
  have "gm_wf m" unfolding m by simp
  then have others: "filter (\<lambda>kv. fst kv \<notin> set (rest_names fs)) m = ?add"
    using add(1) no no2
      map_of_filter_key [of "\<lambda>k. k \<notin> set (rest_names fs)" m]
    by (intro gm_wf_unique gm_wf_filter ext) (simp_all add: map map_add_def split: option.split)
  have good: "takeWhile (\<lambda>kv. any_ok (snd kv)) ?add = ?add"
    using add(3) by (auto simp: takeWhile_eq_all_conv list_all_iff)
  have id: "map (\<lambda>kv. (fst kv, any_norm (snd kv))) ?add = ?add"
    using add(3) by (intro map_idI) (auto simp: list_all_iff)
  show "rest_additional fs m None = (extra, False)"
    unfolding rest_additional_def Let_def others good id using add(4) by (cases extra) auto
qed

lemma rest_elements_marshal:
  "\<forall>v\<in>set vs. rest_unmarshal T (rest_zero T) (rest_marshal T v) = (v, False) \<Longrightarrow>
   rest_elements T [] (map (rest_marshal T) vs) = (vs, False)"
  by (induction vs) auto

lemma rest_entries_marshal:
  "\<forall>kv\<in>set m. rest_unmarshal T (rest_zero T) (rest_marshal T (snd kv)) = (snd kv, False) \<Longrightarrow>
   sorted_wrt (<) (map fst (acc @ m)) \<Longrightarrow>
   rest_entries T acc (map (\<lambda>kv. (fst kv, rest_marshal T (snd kv))) m) = (acc @ m, False)"
proof (induction m arbitrary: acc)
  case (Cons kv m)
  have "gm_put (fst kv) (snd kv) acc = acc @ [kv]"
    using Cons.prems gm_put_last [of acc "fst kv" "snd kv"] by (auto simp: sorted_wrt_append)
  with Cons show ?case by simp
qed simp

lemma rest_roundtrip_mutual:
  "rest_wf T \<longrightarrow> rest_ok T v \<longrightarrow> rest_unmarshal T (rest_zero T) (rest_marshal T v) = (v, False)"
  "list_all (\<lambda>f. rest_wf (snd (snd f))) fs \<longrightarrow> rest_ok_fields fs vs \<longrightarrow> distinct (rest_names fs) \<longrightarrow>
     (\<forall>object. (\<forall>k\<in>set (rest_names fs). map_of object k = map_of (rest_marshal_fields fs vs) k) \<longrightarrow>
        rest_fields fs (map (\<lambda>f. rest_zero (snd (snd f))) fs) object = (vs, False))"
proof (induction T v and fs vs rule: rest_ok_rest_ok_fields.induct)
  case (1 T v)
  then show ?case by (auto simp: marshal_roundtrip_mutual(1) split: rest_value.splits)
next
  case (2 v)
  then show ?case by (auto split: rest_value.splits goval.splits)
next
  case (3 v)
  then show ?case by (auto split: rest_value.splits goval.splits)
next
  case (5 T v)
  then show ?case
    using rest_entries_marshal [of _ T "[]"]
    by (auto simp: gm_wf_def list_all_iff split: rest_value.splits option.splits)
next
  case (7 T v)
  then show ?case by (auto simp: rest_elements_marshal list_all_iff split: rest_value.splits option.splits)
next
  case (8 fs v)
  show ?case
  proof (intro impI)
    assume wf: "rest_wf (RStruct fs)" and ok: "rest_ok (RStruct fs) v"
    then obtain vs extra where v: "v = RVStruct vs extra" "extra_ok (set (rest_names fs)) extra" "rest_ok_fields fs vs"
      by (auto split: rest_value.splits)
    define m where "m = gm_build (fold (\<lambda>(k, j) m. gm_put k j m) (case extra of None \<Rightarrow> [] | Some kvs \<Rightarrow> kvs)
                 (gm_build (rest_marshal_fields fs vs)))"
    note obj = encoded_object [OF _ v(2) m_def]
    have "rest_fields fs (map (\<lambda>f. rest_zero (snd (snd f))) fs) m = (vs, False)"
      using 8 [OF v(1)] wf v(3) obj(1) by simp
    with obj(2) wf show "rest_unmarshal (RStruct fs) (rest_zero (RStruct fs)) (rest_marshal (RStruct fs) v) = (v, False)"
      by (simp add: v(1) m_def [symmetric])
  qed
next
  case (10 k omit T fs vs)
  show ?case
  proof (intro impI allI)
    fix object
    assume h: "list_all (\<lambda>f. rest_wf (snd (snd f))) ((k, omit, T) # fs)" "rest_ok_fields ((k, omit, T) # fs) vs"
      "distinct (rest_names ((k, omit, T) # fs))"
      "\<forall>k'\<in>set (rest_names ((k, omit, T) # fs)). map_of object k' = map_of (rest_marshal_fields ((k, omit, T) # fs) vs) k'"
    then obtain v vs' where vs: "vs = v # vs'" and v: "rest_ok T v" "rest_ok_fields fs vs'"
        and om: "omit \<and> rest_nil v \<longrightarrow> v = rest_zero T"
      by (auto split: list.splits)
    have u: "rest_unmarshal T (rest_zero T) (rest_marshal T v) = (v, False)" using 10 vs v(1) h(1) by simp
    have k: "k \<notin> set (rest_names fs)" "distinct (rest_names fs)" using h(3) by (auto simp: rest_names_def)
    have "map_of object k' = map_of (rest_marshal_fields fs vs') k'" if "k' \<in> set (rest_names fs)" for k'
      using h(4) that k(1) by (auto simp: vs rest_names_def split: if_splits)
    then have rest: "rest_fields fs (map (\<lambda>f. rest_zero (snd (snd f))) fs) object = (vs', False)"
      using 10 vs v(2) h(1) k(2) by simp
    have "map_of (rest_marshal_fields fs vs') k = None"
      using rest_marshal_fields_keys [of fs vs'] k(1) by (metis map_of_eq_None_iff subset_iff)
    then have "map_of object k = (if omit \<and> rest_nil v then None else Some (rest_marshal T v))"
      using h(4) by (auto simp: vs rest_names_def)
    with u rest om show "rest_fields ((k, omit, T) # fs) (map (\<lambda>f. rest_zero (snd (snd f))) ((k, omit, T) # fs)) object = (vs, False)"
      by (auto simp: vs)
  qed
qed (auto split: rest_value.splits option.splits)

lemma rest_roundtrip:
  "rest_wf T \<Longrightarrow> rest_ok T v \<Longrightarrow> rest_decode T (RawJson (rest_marshal T v)) = (v, False)"
  by (simp add: rest_decode_def rest_roundtrip_mutual(1))

section \<open>Reading decoded models\<close>

text \<open>\<open>json.Unmarshal\<close> of a document into a fresh model with the given \<open>UnmarshalJSON\<close>.\<close>

definition unmarshal_model ::
  "rest_type \<Rightarrow> (rest_value \<Rightarrow> json \<Rightarrow> rest_value \<times> bool) \<Rightarrow> raw_message \<Rightarrow> rest_value \<times> bool" where
  "unmarshal_model T dec doc =
     (case doc of RawJson j \<Rightarrow> dec (rest_zero T) j | _ \<Rightarrow> (rest_zero T, True))"

definition rest_field :: "rest_type \<Rightarrow> string \<Rightarrow> rest_value \<Rightarrow> rest_value option" where
  "rest_field T name v =
     (case (T, v) of
        (RStruct fs, RVStruct vs _) \<Rightarrow>
          (case list_index (\<lambda>k. k = name) (rest_names fs) of
             Some i \<Rightarrow> if i < length vs then Some (vs ! i) else None
           | None \<Rightarrow> None)
      | _ \<Rightarrow> None)"

text \<open>A string field, and optional string and integer fields.\<close>

definition rest_string :: "rest_type \<Rightarrow> string \<Rightarrow> rest_value \<Rightarrow> string" where
  "rest_string T name v = (case rest_field T name v of Some (RV (VString s)) \<Rightarrow> s | _ \<Rightarrow> [])"

definition rest_string_ptr :: "rest_type \<Rightarrow> string \<Rightarrow> rest_value \<Rightarrow> string option" where
  "rest_string_ptr T name v = (case rest_field T name v of Some (RVPtr (Some (RV (VString s)))) \<Rightarrow> Some s | _ \<Rightarrow> None)"

definition rest_int_ptr :: "rest_type \<Rightarrow> string \<Rightarrow> rest_value \<Rightarrow> int option" where
  "rest_int_ptr T name v = (case rest_field T name v of Some (RVPtr (Some (RV (VInt i)))) \<Rightarrow> Some i | _ \<Rightarrow> None)"

definition rest_bool_ptr :: "rest_type \<Rightarrow> string \<Rightarrow> rest_value \<Rightarrow> bool option" where
  "rest_bool_ptr T name v = (case rest_field T name v of Some (RVPtr (Some (RV (VBool b)))) \<Rightarrow> Some b | _ \<Rightarrow> None)"

definition rest_int :: "rest_type \<Rightarrow> string \<Rightarrow> rest_value \<Rightarrow> int" where
  "rest_int T name v = (case rest_field T name v of Some (RV (VInt i)) \<Rightarrow> i | _ \<Rightarrow> 0)"

definition rest_bool :: "rest_type \<Rightarrow> string \<Rightarrow> rest_value \<Rightarrow> bool" where
  "rest_bool T name v = (case rest_field T name v of Some (RV (VBool b)) \<Rightarrow> b | _ \<Rightarrow> False)"

definition rest_slice :: "rest_type \<Rightarrow> string \<Rightarrow> rest_value \<Rightarrow> rest_value list" where
  "rest_slice T name v = (case rest_field T name v of Some (RVSlice (Some vs)) \<Rightarrow> vs | _ \<Rightarrow> [])"

section \<open>Tables of models\<close>

text \<open>A model with its methods: the name of the Go type, its description, \<open>MarshalJSON\<close> and \<open>UnmarshalJSON\<close>.\<close>

type_synonym rest_codec =
  "string \<times> rest_type \<times> (rest_value \<Rightarrow> json) \<times> (rest_value \<Rightarrow> json \<Rightarrow> rest_value \<times> bool)"

definition rest_codec_ok :: "rest_codec \<Rightarrow> bool" where
  "rest_codec_ok codec \<longleftrightarrow>
     (case codec of (name, T, enc, dec) \<Rightarrow> rest_wf T \<and> enc = rest_marshal T \<and> dec = rest_unmarshal T)"

lemma rest_codec_roundtrip:
  "rest_codec_ok (name, T, enc, dec) \<Longrightarrow> rest_ok T v \<Longrightarrow> dec (rest_zero T) (enc v) = (v, False)"
  by (simp add: rest_codec_ok_def rest_roundtrip_mutual(1))

named_theorems rest_wf_models \<open>every description of a generated model is well formed\<close>

section \<open>Additional properties\<close>

text \<open>The generated \<open>Get\<close> and \<open>Set\<close> methods, the same for every model.\<close>

definition rest_Get :: "rest_value \<Rightarrow> string \<Rightarrow> json option" where
  "rest_Get v fieldName = (case v of RVStruct _ (Some extra) \<Rightarrow> map_of extra fieldName | _ \<Rightarrow> None)"

definition rest_Set :: "string \<Rightarrow> json \<Rightarrow> rest_value \<Rightarrow> rest_value" where
  "rest_Set fieldName j v =
     (case v of
        RVStruct vs extra \<Rightarrow> RVStruct vs (Some (gm_put fieldName j (case extra of None \<Rightarrow> [] | Some m \<Rightarrow> m)))
      | _ \<Rightarrow> v)"

end
