(* ===== verification/RestAccount.thy ===== *)
theory RestAccount
  imports RestModels
begin

text \<open>
  The generated models of sign-in, sessions, signaling, recordings, device history and device controls.
  \<open>X_model\<close> describes the Go type X, \<open>X_MarshalJSON\<close> and \<open>X_UnmarshalJSON\<close> are its JSON methods; the fields
  are in the order in which the methods treat them. Every model has a lemma that its description is well
  formed, and the table at the end lists the models of this theory.
\<close>

definition OAuthToken_model :: rest_type where
  "OAuthToken_model = RStruct
     [(''access_token'', False, RPlain TString),
      (''expires_in'', True, RPtr (RPlain TInt)),
      (''refresh_token'', True, RPtr (RPlain TString)),
      (''scope'', True, RPtr (RPlain TString)),
      (''token_type'', False, RPlain TString)]"

definition OAuthToken_MarshalJSON :: "rest_value \<Rightarrow> json" where
  "OAuthToken_MarshalJSON = rest_marshal OAuthToken_model"

definition OAuthToken_UnmarshalJSON :: "rest_value \<Rightarrow> json \<Rightarrow> rest_value \<times> bool" where
  "OAuthToken_UnmarshalJSON = rest_unmarshal OAuthToken_model"

lemma OAuthToken_wf [rest_wf_models]: "rest_wf OAuthToken_model"
  by (simp add: OAuthToken_model_def rest_names_def rest_wf_models)

definition OAuthTokenGrant_model :: rest_type where
  "OAuthTokenGrant_model = RUnion"

definition OAuthTokenGrant_MarshalJSON :: "rest_value \<Rightarrow> json" where
  "OAuthTokenGrant_MarshalJSON = rest_marshal OAuthTokenGrant_model"

definition OAuthTokenGrant_UnmarshalJSON :: "rest_value \<Rightarrow> json \<Rightarrow> rest_value \<times> bool" where
  "OAuthTokenGrant_UnmarshalJSON = rest_unmarshal OAuthTokenGrant_model"

lemma OAuthTokenGrant_wf [rest_wf_models]: "rest_wf OAuthTokenGrant_model"
  by (simp add: OAuthTokenGrant_model_def rest_names_def rest_wf_models)

definition SignInState_model :: rest_type where
  "SignInState_model = RStruct
     [(''next_time_in_secs'', True, RPtr (RPlain TInt)),
      (''tsv_state'', True, RPtr (RPlain TString))]"

definition SignInState_MarshalJSON :: "rest_value \<Rightarrow> json" where
  "SignInState_MarshalJSON = rest_marshal SignInState_model"

definition SignInState_UnmarshalJSON :: "rest_value \<Rightarrow> json \<Rightarrow> rest_value \<times> bool" where
  "SignInState_UnmarshalJSON = rest_unmarshal SignInState_model"

lemma SignInState_wf [rest_wf_models]: "rest_wf SignInState_model"
  by (simp add: SignInState_model_def rest_names_def rest_wf_models)

definition SirenStatus_model :: rest_type where
  "SirenStatus_model = RStruct
     [(''duration'', False, RPlain TInt),
      (''ends_at'', False, RTime),
      (''seconds_remaining'', False, RPlain TInt),
      (''started_at'', False, RTime)]"

definition SirenStatus_MarshalJSON :: "rest_value \<Rightarrow> json" where
  "SirenStatus_MarshalJSON = rest_marshal SirenStatus_model"

definition SirenStatus_UnmarshalJSON :: "rest_value \<Rightarrow> json \<Rightarrow> rest_value \<times> bool" where
  "SirenStatus_UnmarshalJSON = rest_unmarshal SirenStatus_model"

lemma SirenStatus_wf [rest_wf_models]: "rest_wf SirenStatus_model"
  by (simp add: SirenStatus_model_def rest_names_def rest_wf_models)

definition HistoryFeedItem_model :: rest_type where
  "HistoryFeedItem_model = RStruct
     [(''id'', True, RPtr (RPlain TString)),
      (''type'', True, RPtr (RPlain TString))]"

definition HistoryFeedItem_MarshalJSON :: "rest_value \<Rightarrow> json" where
  "HistoryFeedItem_MarshalJSON = rest_marshal HistoryFeedItem_model"

definition HistoryFeedItem_UnmarshalJSON :: "rest_value \<Rightarrow> json \<Rightarrow> rest_value \<times> bool" where
  "HistoryFeedItem_UnmarshalJSON = rest_unmarshal HistoryFeedItem_model"

lemma HistoryFeedItem_wf [rest_wf_models]: "rest_wf HistoryFeedItem_model"
  by (simp add: HistoryFeedItem_model_def rest_names_def rest_wf_models)

definition TimelineDevice_model :: rest_type where
  "TimelineDevice_model = RStruct
     [(''description'', True, RPtr (RPlain TString)),
      (''id'', True, RPtr (RPlain TInt)),
      (''type'', True, RPtr (RPlain TString))]"

definition TimelineDevice_MarshalJSON :: "rest_value \<Rightarrow> json" where
  "TimelineDevice_MarshalJSON = rest_marshal TimelineDevice_model"

definition TimelineDevice_UnmarshalJSON :: "rest_value \<Rightarrow> json \<Rightarrow> rest_value \<times> bool" where
  "TimelineDevice_UnmarshalJSON = rest_unmarshal TimelineDevice_model"

lemma TimelineDevice_wf [rest_wf_models]: "rest_wf TimelineDevice_model"
  by (simp add: TimelineDevice_model_def rest_names_def rest_wf_models)

definition TimelineEvent_model :: rest_type where
  "TimelineEvent_model = RStruct
     [(''device'', True, RPtr TimelineDevice_model),
      (''duration_ms'', True, RPtr (RPlain TInt)),
      (''end_time'', True, RPtr RTime),
      (''event_id'', False, RPlain TString),
      (''event_type'', False, RPlain TString),
      (''is_favorite'', True, RPtr (RPlain TBool)),
      (''recording_status'', True, RPtr (RPlain TString)),
      (''schema'', True, RPtr (RPlain TString)),
      (''source_id'', True, RPtr (RPlain TString)),
      (''start_time'', False, RTime),
      (''state'', True, RPtr (RPlain TString))]"

definition TimelineEvent_MarshalJSON :: "rest_value \<Rightarrow> json" where
  "TimelineEvent_MarshalJSON = rest_marshal TimelineEvent_model"

definition TimelineEvent_UnmarshalJSON :: "rest_value \<Rightarrow> json \<Rightarrow> rest_value \<times> bool" where
  "TimelineEvent_UnmarshalJSON = rest_unmarshal TimelineEvent_model"

lemma TimelineEvent_wf [rest_wf_models]: "rest_wf TimelineEvent_model"
  by (simp add: TimelineEvent_model_def rest_names_def rest_wf_models)

definition Recording_Doorbot_model :: rest_type where
  "Recording_Doorbot_model = RStruct
     [(''description'', True, RPtr (RPlain TString)),
      (''id'', False, RPlain TInt),
      (''type'', True, RPtr (RPlain TString))]"

definition Recording_Doorbot_MarshalJSON :: "rest_value \<Rightarrow> json" where
  "Recording_Doorbot_MarshalJSON = rest_marshal Recording_Doorbot_model"

definition Recording_Doorbot_UnmarshalJSON :: "rest_value \<Rightarrow> json \<Rightarrow> rest_value \<times> bool" where
  "Recording_Doorbot_UnmarshalJSON = rest_unmarshal Recording_Doorbot_model"

lemma Recording_Doorbot_wf [rest_wf_models]: "rest_wf Recording_Doorbot_model"
  by (simp add: Recording_Doorbot_model_def rest_names_def rest_wf_models)

definition ClientSessionRegistration_Device_Metadata_model :: rest_type where
  "ClientSessionRegistration_Device_Metadata_model = RStruct
     [(''api_version'', False, RPlain TInt),
      (''device_model'', False, RPlain TString)]"

definition ClientSessionRegistration_Device_Metadata_MarshalJSON :: "rest_value \<Rightarrow> json" where
  "ClientSessionRegistration_Device_Metadata_MarshalJSON = rest_marshal ClientSessionRegistration_Device_Metadata_model"

definition ClientSessionRegistration_Device_Metadata_UnmarshalJSON :: "rest_value \<Rightarrow> json \<Rightarrow> rest_value \<times> bool" where
  "ClientSessionRegistration_Device_Metadata_UnmarshalJSON = rest_unmarshal ClientSessionRegistration_Device_Metadata_model"

lemma ClientSessionRegistration_Device_Metadata_wf [rest_wf_models]: "rest_wf ClientSessionRegistration_Device_Metadata_model"
  by (simp add: ClientSessionRegistration_Device_Metadata_model_def rest_names_def rest_wf_models)

definition ClientSessionRegistration_Device_model :: rest_type where
  "ClientSessionRegistration_Device_model = RStruct
     [(''hardware_id'', False, RPlain TString),
      (''metadata'', False, ClientSessionRegistration_Device_Metadata_model),
      (''os'', False, RPlain TString)]"

definition ClientSessionRegistration_Device_MarshalJSON :: "rest_value \<Rightarrow> json" where
  "ClientSessionRegistration_Device_MarshalJSON = rest_marshal ClientSessionRegistration_Device_model"

definition ClientSessionRegistration_Device_UnmarshalJSON :: "rest_value \<Rightarrow> json \<Rightarrow> rest_value \<times> bool" where
  "ClientSessionRegistration_Device_UnmarshalJSON = rest_unmarshal ClientSessionRegistration_Device_model"

lemma ClientSessionRegistration_Device_wf [rest_wf_models]: "rest_wf ClientSessionRegistration_Device_model"
  by (simp add: ClientSessionRegistration_Device_model_def rest_names_def rest_wf_models)

definition CapturedTickets_model :: rest_type where
  "CapturedTickets_model = RStruct
     [(''assets'', True, RPtr (RPlain (TSlice TAny))),
      (''host'', False, RPlain TString),
      (''subscriptionTopics'', True, RPtr (RPlain (TSlice TString))),
      (''ticket'', False, RPlain TString)]"

definition CapturedTickets_MarshalJSON :: "rest_value \<Rightarrow> json" where
  "CapturedTickets_MarshalJSON = rest_marshal CapturedTickets_model"

definition CapturedTickets_UnmarshalJSON :: "rest_value \<Rightarrow> json \<Rightarrow> rest_value \<times> bool" where
  "CapturedTickets_UnmarshalJSON = rest_unmarshal CapturedTickets_model"

lemma CapturedTickets_wf [rest_wf_models]: "rest_wf CapturedTickets_model"
  by (simp add: CapturedTickets_model_def rest_names_def rest_wf_models)

definition LegacySignalingTicket_model :: rest_type where
  "LegacySignalingTicket_model = RStruct
     [(''ticket'', False, RPlain TString)]"

definition LegacySignalingTicket_MarshalJSON :: "rest_value \<Rightarrow> json" where
  "LegacySignalingTicket_MarshalJSON = rest_marshal LegacySignalingTicket_model"

definition LegacySignalingTicket_UnmarshalJSON :: "rest_value \<Rightarrow> json \<Rightarrow> rest_value \<times> bool" where
  "LegacySignalingTicket_UnmarshalJSON = rest_unmarshal LegacySignalingTicket_model"

lemma LegacySignalingTicket_wf [rest_wf_models]: "rest_wf LegacySignalingTicket_model"
  by (simp add: LegacySignalingTicket_model_def rest_names_def rest_wf_models)

definition DeviceTimeline_model :: rest_type where
  "DeviceTimeline_model = RStruct
     [(''items'', True, RSlice TimelineEvent_model),
      (''pagination_key'', True, RPtr (RPlain TString))]"

definition DeviceTimeline_MarshalJSON :: "rest_value \<Rightarrow> json" where
  "DeviceTimeline_MarshalJSON = rest_marshal DeviceTimeline_model"

definition DeviceTimeline_UnmarshalJSON :: "rest_value \<Rightarrow> json \<Rightarrow> rest_value \<times> bool" where
  "DeviceTimeline_UnmarshalJSON = rest_unmarshal DeviceTimeline_model"

lemma DeviceTimeline_wf [rest_wf_models]: "rest_wf DeviceTimeline_model"
  by (simp add: DeviceTimeline_model_def rest_names_def rest_wf_models)

definition HistoryDevices_model :: rest_type where
  "HistoryDevices_model = RStruct
     [(''events'', True, RSlice TimelineEvent_model),
      (''feed'', True, RPtr (RSlice HistoryFeedItem_model)),
      (''pagination_key'', True, RPtr (RPlain TString)),
      (''schema'', True, RPtr (RPlain TString))]"

definition HistoryDevices_MarshalJSON :: "rest_value \<Rightarrow> json" where
  "HistoryDevices_MarshalJSON = rest_marshal HistoryDevices_model"

definition HistoryDevices_UnmarshalJSON :: "rest_value \<Rightarrow> json \<Rightarrow> rest_value \<times> bool" where
  "HistoryDevices_UnmarshalJSON = rest_unmarshal HistoryDevices_model"

lemma HistoryDevices_wf [rest_wf_models]: "rest_wf HistoryDevices_model"
  by (simp add: HistoryDevices_model_def rest_names_def rest_wf_models)

definition Recording_model :: rest_type where
  "Recording_model = RStruct
     [(''answered'', False, RPlain TBool),
      (''created_at'', False, RPlain TString),
      (''doorbot'', False, Recording_Doorbot_model),
      (''id'', False, RPlain TInt),
      (''kind'', False, RPlain TString)]"

definition Recording_MarshalJSON :: "rest_value \<Rightarrow> json" where
  "Recording_MarshalJSON = rest_marshal Recording_model"

definition Recording_UnmarshalJSON :: "rest_value \<Rightarrow> json \<Rightarrow> rest_value \<times> bool" where
  "Recording_UnmarshalJSON = rest_unmarshal Recording_model"

lemma Recording_wf [rest_wf_models]: "rest_wf Recording_model"
  by (simp add: Recording_model_def rest_names_def rest_wf_models)

definition ClientSessionRegistration_model :: rest_type where
  "ClientSessionRegistration_model = RStruct
     [(''device'', False, ClientSessionRegistration_Device_model)]"

definition ClientSessionRegistration_MarshalJSON :: "rest_value \<Rightarrow> json" where
  "ClientSessionRegistration_MarshalJSON = rest_marshal ClientSessionRegistration_model"

definition ClientSessionRegistration_UnmarshalJSON :: "rest_value \<Rightarrow> json \<Rightarrow> rest_value \<times> bool" where
  "ClientSessionRegistration_UnmarshalJSON = rest_unmarshal ClientSessionRegistration_model"

lemma ClientSessionRegistration_wf [rest_wf_models]: "rest_wf ClientSessionRegistration_model"
  by (simp add: ClientSessionRegistration_model_def rest_names_def rest_wf_models)

definition RestAccount_codecs :: "rest_codec list" where
  "RestAccount_codecs =
     [(''OAuthToken'', OAuthToken_model, OAuthToken_MarshalJSON, OAuthToken_UnmarshalJSON),
      (''OAuthTokenGrant'', OAuthTokenGrant_model, OAuthTokenGrant_MarshalJSON, OAuthTokenGrant_UnmarshalJSON),
      (''SignInState'', SignInState_model, SignInState_MarshalJSON, SignInState_UnmarshalJSON),
      (''SirenStatus'', SirenStatus_model, SirenStatus_MarshalJSON, SirenStatus_UnmarshalJSON),
      (''HistoryFeedItem'', HistoryFeedItem_model, HistoryFeedItem_MarshalJSON, HistoryFeedItem_UnmarshalJSON),
      (''TimelineDevice'', TimelineDevice_model, TimelineDevice_MarshalJSON, TimelineDevice_UnmarshalJSON),
      (''TimelineEvent'', TimelineEvent_model, TimelineEvent_MarshalJSON, TimelineEvent_UnmarshalJSON),
      (''Recording_Doorbot'', Recording_Doorbot_model, Recording_Doorbot_MarshalJSON, Recording_Doorbot_UnmarshalJSON),
      (''ClientSessionRegistration_Device_Metadata'', ClientSessionRegistration_Device_Metadata_model, ClientSessionRegistration_Device_Metadata_MarshalJSON, ClientSessionRegistration_Device_Metadata_UnmarshalJSON),
      (''ClientSessionRegistration_Device'', ClientSessionRegistration_Device_model, ClientSessionRegistration_Device_MarshalJSON, ClientSessionRegistration_Device_UnmarshalJSON),
      (''CapturedTickets'', CapturedTickets_model, CapturedTickets_MarshalJSON, CapturedTickets_UnmarshalJSON),
      (''LegacySignalingTicket'', LegacySignalingTicket_model, LegacySignalingTicket_MarshalJSON, LegacySignalingTicket_UnmarshalJSON),
      (''DeviceTimeline'', DeviceTimeline_model, DeviceTimeline_MarshalJSON, DeviceTimeline_UnmarshalJSON),
      (''HistoryDevices'', HistoryDevices_model, HistoryDevices_MarshalJSON, HistoryDevices_UnmarshalJSON),
      (''Recording'', Recording_model, Recording_MarshalJSON, Recording_UnmarshalJSON),
      (''ClientSessionRegistration'', ClientSessionRegistration_model, ClientSessionRegistration_MarshalJSON, ClientSessionRegistration_UnmarshalJSON)]"

lemmas RestAccount_codec_defs =
  OAuthToken_MarshalJSON_def OAuthToken_UnmarshalJSON_def
  OAuthTokenGrant_MarshalJSON_def OAuthTokenGrant_UnmarshalJSON_def
  SignInState_MarshalJSON_def SignInState_UnmarshalJSON_def
  SirenStatus_MarshalJSON_def SirenStatus_UnmarshalJSON_def
  HistoryFeedItem_MarshalJSON_def HistoryFeedItem_UnmarshalJSON_def
  TimelineDevice_MarshalJSON_def TimelineDevice_UnmarshalJSON_def
  TimelineEvent_MarshalJSON_def TimelineEvent_UnmarshalJSON_def
  Recording_Doorbot_MarshalJSON_def Recording_Doorbot_UnmarshalJSON_def
  ClientSessionRegistration_Device_Metadata_MarshalJSON_def ClientSessionRegistration_Device_Metadata_UnmarshalJSON_def
  ClientSessionRegistration_Device_MarshalJSON_def ClientSessionRegistration_Device_UnmarshalJSON_def
  CapturedTickets_MarshalJSON_def CapturedTickets_UnmarshalJSON_def
  LegacySignalingTicket_MarshalJSON_def LegacySignalingTicket_UnmarshalJSON_def
  DeviceTimeline_MarshalJSON_def DeviceTimeline_UnmarshalJSON_def
  HistoryDevices_MarshalJSON_def HistoryDevices_UnmarshalJSON_def
  Recording_MarshalJSON_def Recording_UnmarshalJSON_def
  ClientSessionRegistration_MarshalJSON_def ClientSessionRegistration_UnmarshalJSON_def

lemma RestAccount_sound: "list_all rest_codec_ok RestAccount_codecs"
  by (simp add: RestAccount_codecs_def RestAccount_codec_defs rest_codec_ok_def rest_wf_models)

end
