(* ===== verification/RestCameras.thy ===== *)
theory RestCameras
  imports RestModels
begin

text \<open>
  The generated models of camera settings (\<open>cameras.gen.go\<close>).
  \<open>X_model\<close> describes the Go type X, \<open>X_MarshalJSON\<close> and \<open>X_UnmarshalJSON\<close> are its JSON methods; the fields
  are in the order in which the methods treat them. Every model has a lemma that its description is well
  formed, and the table at the end lists the models of this theory.
\<close>

definition DeviceLegacySettings_AdvancedMotionZones_Zone1_Vertex1_model :: rest_type where
  "DeviceLegacySettings_AdvancedMotionZones_Zone1_Vertex1_model = RStruct
     [(''x'', True, RPtr (RPlain TInt)),
      (''y'', True, RPtr (RPlain TInt))]"

definition DeviceLegacySettings_AdvancedMotionZones_Zone1_Vertex1_MarshalJSON :: "rest_value \<Rightarrow> json" where
  "DeviceLegacySettings_AdvancedMotionZones_Zone1_Vertex1_MarshalJSON = rest_marshal DeviceLegacySettings_AdvancedMotionZones_Zone1_Vertex1_model"

definition DeviceLegacySettings_AdvancedMotionZones_Zone1_Vertex1_UnmarshalJSON :: "rest_value \<Rightarrow> json \<Rightarrow> rest_value \<times> bool" where
  "DeviceLegacySettings_AdvancedMotionZones_Zone1_Vertex1_UnmarshalJSON = rest_unmarshal DeviceLegacySettings_AdvancedMotionZones_Zone1_Vertex1_model"

lemma DeviceLegacySettings_AdvancedMotionZones_Zone1_Vertex1_wf [rest_wf_models]: "rest_wf DeviceLegacySettings_AdvancedMotionZones_Zone1_Vertex1_model"
  by (simp add: DeviceLegacySettings_AdvancedMotionZones_Zone1_Vertex1_model_def rest_names_def rest_wf_models)

definition DeviceLegacySettings_AdvancedMotionZones_Zone1_Vertex2_model :: rest_type where
  "DeviceLegacySettings_AdvancedMotionZones_Zone1_Vertex2_model = RStruct
     [(''x'', True, RPtr RFloat32),
      (''y'', True, RPtr (RPlain TInt))]"

definition DeviceLegacySettings_AdvancedMotionZones_Zone1_Vertex2_MarshalJSON :: "rest_value \<Rightarrow> json" where
  "DeviceLegacySettings_AdvancedMotionZones_Zone1_Vertex2_MarshalJSON = rest_marshal DeviceLegacySettings_AdvancedMotionZones_Zone1_Vertex2_model"

definition DeviceLegacySettings_AdvancedMotionZones_Zone1_Vertex2_UnmarshalJSON :: "rest_value \<Rightarrow> json \<Rightarrow> rest_value \<times> bool" where
  "DeviceLegacySettings_AdvancedMotionZones_Zone1_Vertex2_UnmarshalJSON = rest_unmarshal DeviceLegacySettings_AdvancedMotionZones_Zone1_Vertex2_model"

lemma DeviceLegacySettings_AdvancedMotionZones_Zone1_Vertex2_wf [rest_wf_models]: "rest_wf DeviceLegacySettings_AdvancedMotionZones_Zone1_Vertex2_model"
  by (simp add: DeviceLegacySettings_AdvancedMotionZones_Zone1_Vertex2_model_def rest_names_def rest_wf_models)

definition DeviceLegacySettings_AdvancedMotionZones_Zone1_Vertex3_model :: rest_type where
  "DeviceLegacySettings_AdvancedMotionZones_Zone1_Vertex3_model = RStruct
     [(''x'', True, RPtr (RPlain TInt)),
      (''y'', True, RPtr (RPlain TInt))]"

definition DeviceLegacySettings_AdvancedMotionZones_Zone1_Vertex3_MarshalJSON :: "rest_value \<Rightarrow> json" where
  "DeviceLegacySettings_AdvancedMotionZones_Zone1_Vertex3_MarshalJSON = rest_marshal DeviceLegacySettings_AdvancedMotionZones_Zone1_Vertex3_model"

definition DeviceLegacySettings_AdvancedMotionZones_Zone1_Vertex3_UnmarshalJSON :: "rest_value \<Rightarrow> json \<Rightarrow> rest_value \<times> bool" where
  "DeviceLegacySettings_AdvancedMotionZones_Zone1_Vertex3_UnmarshalJSON = rest_unmarshal DeviceLegacySettings_AdvancedMotionZones_Zone1_Vertex3_model"

lemma DeviceLegacySettings_AdvancedMotionZones_Zone1_Vertex3_wf [rest_wf_models]: "rest_wf DeviceLegacySettings_AdvancedMotionZones_Zone1_Vertex3_model"
  by (simp add: DeviceLegacySettings_AdvancedMotionZones_Zone1_Vertex3_model_def rest_names_def rest_wf_models)

definition DeviceLegacySettings_AdvancedMotionZones_Zone1_Vertex4_model :: rest_type where
  "DeviceLegacySettings_AdvancedMotionZones_Zone1_Vertex4_model = RStruct
     [(''x'', True, RPtr (RPlain TInt)),
      (''y'', True, RPtr RFloat32)]"

definition DeviceLegacySettings_AdvancedMotionZones_Zone1_Vertex4_MarshalJSON :: "rest_value \<Rightarrow> json" where
  "DeviceLegacySettings_AdvancedMotionZones_Zone1_Vertex4_MarshalJSON = rest_marshal DeviceLegacySettings_AdvancedMotionZones_Zone1_Vertex4_model"

definition DeviceLegacySettings_AdvancedMotionZones_Zone1_Vertex4_UnmarshalJSON :: "rest_value \<Rightarrow> json \<Rightarrow> rest_value \<times> bool" where
  "DeviceLegacySettings_AdvancedMotionZones_Zone1_Vertex4_UnmarshalJSON = rest_unmarshal DeviceLegacySettings_AdvancedMotionZones_Zone1_Vertex4_model"

lemma DeviceLegacySettings_AdvancedMotionZones_Zone1_Vertex4_wf [rest_wf_models]: "rest_wf DeviceLegacySettings_AdvancedMotionZones_Zone1_Vertex4_model"
  by (simp add: DeviceLegacySettings_AdvancedMotionZones_Zone1_Vertex4_model_def rest_names_def rest_wf_models)

definition DeviceLegacySettings_AdvancedMotionZones_Zone1_Vertex5_model :: rest_type where
  "DeviceLegacySettings_AdvancedMotionZones_Zone1_Vertex5_model = RStruct
     [(''x'', True, RPtr (RPlain TInt)),
      (''y'', True, RPtr (RPlain TInt))]"

definition DeviceLegacySettings_AdvancedMotionZones_Zone1_Vertex5_MarshalJSON :: "rest_value \<Rightarrow> json" where
  "DeviceLegacySettings_AdvancedMotionZones_Zone1_Vertex5_MarshalJSON = rest_marshal DeviceLegacySettings_AdvancedMotionZones_Zone1_Vertex5_model"

definition DeviceLegacySettings_AdvancedMotionZones_Zone1_Vertex5_UnmarshalJSON :: "rest_value \<Rightarrow> json \<Rightarrow> rest_value \<times> bool" where
  "DeviceLegacySettings_AdvancedMotionZones_Zone1_Vertex5_UnmarshalJSON = rest_unmarshal DeviceLegacySettings_AdvancedMotionZones_Zone1_Vertex5_model"

lemma DeviceLegacySettings_AdvancedMotionZones_Zone1_Vertex5_wf [rest_wf_models]: "rest_wf DeviceLegacySettings_AdvancedMotionZones_Zone1_Vertex5_model"
  by (simp add: DeviceLegacySettings_AdvancedMotionZones_Zone1_Vertex5_model_def rest_names_def rest_wf_models)

definition DeviceLegacySettings_AdvancedMotionZones_Zone1_Vertex6_model :: rest_type where
  "DeviceLegacySettings_AdvancedMotionZones_Zone1_Vertex6_model = RStruct
     [(''x'', True, RPtr RFloat32),
      (''y'', True, RPtr (RPlain TInt))]"

definition DeviceLegacySettings_AdvancedMotionZones_Zone1_Vertex6_MarshalJSON :: "rest_value \<Rightarrow> json" where
  "DeviceLegacySettings_AdvancedMotionZones_Zone1_Vertex6_MarshalJSON = rest_marshal DeviceLegacySettings_AdvancedMotionZones_Zone1_Vertex6_model"

definition DeviceLegacySettings_AdvancedMotionZones_Zone1_Vertex6_UnmarshalJSON :: "rest_value \<Rightarrow> json \<Rightarrow> rest_value \<times> bool" where
  "DeviceLegacySettings_AdvancedMotionZones_Zone1_Vertex6_UnmarshalJSON = rest_unmarshal DeviceLegacySettings_AdvancedMotionZones_Zone1_Vertex6_model"

lemma DeviceLegacySettings_AdvancedMotionZones_Zone1_Vertex6_wf [rest_wf_models]: "rest_wf DeviceLegacySettings_AdvancedMotionZones_Zone1_Vertex6_model"
  by (simp add: DeviceLegacySettings_AdvancedMotionZones_Zone1_Vertex6_model_def rest_names_def rest_wf_models)

definition DeviceLegacySettings_AdvancedMotionZones_Zone1_Vertex7_model :: rest_type where
  "DeviceLegacySettings_AdvancedMotionZones_Zone1_Vertex7_model = RStruct
     [(''x'', True, RPtr (RPlain TInt)),
      (''y'', True, RPtr (RPlain TInt))]"

definition DeviceLegacySettings_AdvancedMotionZones_Zone1_Vertex7_MarshalJSON :: "rest_value \<Rightarrow> json" where
  "DeviceLegacySettings_AdvancedMotionZones_Zone1_Vertex7_MarshalJSON = rest_marshal DeviceLegacySettings_AdvancedMotionZones_Zone1_Vertex7_model"

definition DeviceLegacySettings_AdvancedMotionZones_Zone1_Vertex7_UnmarshalJSON :: "rest_value \<Rightarrow> json \<Rightarrow> rest_value \<times> bool" where
  "DeviceLegacySettings_AdvancedMotionZones_Zone1_Vertex7_UnmarshalJSON = rest_unmarshal DeviceLegacySettings_AdvancedMotionZones_Zone1_Vertex7_model"

lemma DeviceLegacySettings_AdvancedMotionZones_Zone1_Vertex7_wf [rest_wf_models]: "rest_wf DeviceLegacySettings_AdvancedMotionZones_Zone1_Vertex7_model"
  by (simp add: DeviceLegacySettings_AdvancedMotionZones_Zone1_Vertex7_model_def rest_names_def rest_wf_models)

definition DeviceLegacySettings_AdvancedMotionZones_Zone1_Vertex8_model :: rest_type where
  "DeviceLegacySettings_AdvancedMotionZones_Zone1_Vertex8_model = RStruct
     [(''x'', True, RPtr (RPlain TInt)),
      (''y'', True, RPtr RFloat32)]"

definition DeviceLegacySettings_AdvancedMotionZones_Zone1_Vertex8_MarshalJSON :: "rest_value \<Rightarrow> json" where
  "DeviceLegacySettings_AdvancedMotionZones_Zone1_Vertex8_MarshalJSON = rest_marshal DeviceLegacySettings_AdvancedMotionZones_Zone1_Vertex8_model"

definition DeviceLegacySettings_AdvancedMotionZones_Zone1_Vertex8_UnmarshalJSON :: "rest_value \<Rightarrow> json \<Rightarrow> rest_value \<times> bool" where
  "DeviceLegacySettings_AdvancedMotionZones_Zone1_Vertex8_UnmarshalJSON = rest_unmarshal DeviceLegacySettings_AdvancedMotionZones_Zone1_Vertex8_model"

lemma DeviceLegacySettings_AdvancedMotionZones_Zone1_Vertex8_wf [rest_wf_models]: "rest_wf DeviceLegacySettings_AdvancedMotionZones_Zone1_Vertex8_model"
  by (simp add: DeviceLegacySettings_AdvancedMotionZones_Zone1_Vertex8_model_def rest_names_def rest_wf_models)

definition DeviceLegacySettings_AdvancedMotionZones_Zone1_model :: rest_type where
  "DeviceLegacySettings_AdvancedMotionZones_Zone1_model = RStruct
     [(''name'', True, RPtr (RPlain TString)),
      (''state'', True, RPtr (RPlain TInt)),
      (''vertex1'', True, RPtr DeviceLegacySettings_AdvancedMotionZones_Zone1_Vertex1_model),
      (''vertex2'', True, RPtr DeviceLegacySettings_AdvancedMotionZones_Zone1_Vertex2_model),
      (''vertex3'', True, RPtr DeviceLegacySettings_AdvancedMotionZones_Zone1_Vertex3_model),
      (''vertex4'', True, RPtr DeviceLegacySettings_AdvancedMotionZones_Zone1_Vertex4_model),
      (''vertex5'', True, RPtr DeviceLegacySettings_AdvancedMotionZones_Zone1_Vertex5_model),
      (''vertex6'', True, RPtr DeviceLegacySettings_AdvancedMotionZones_Zone1_Vertex6_model),
      (''vertex7'', True, RPtr DeviceLegacySettings_AdvancedMotionZones_Zone1_Vertex7_model),
      (''vertex8'', True, RPtr DeviceLegacySettings_AdvancedMotionZones_Zone1_Vertex8_model)]"

definition DeviceLegacySettings_AdvancedMotionZones_Zone1_MarshalJSON :: "rest_value \<Rightarrow> json" where
  "DeviceLegacySettings_AdvancedMotionZones_Zone1_MarshalJSON = rest_marshal DeviceLegacySettings_AdvancedMotionZones_Zone1_model"

definition DeviceLegacySettings_AdvancedMotionZones_Zone1_UnmarshalJSON :: "rest_value \<Rightarrow> json \<Rightarrow> rest_value \<times> bool" where
  "DeviceLegacySettings_AdvancedMotionZones_Zone1_UnmarshalJSON = rest_unmarshal DeviceLegacySettings_AdvancedMotionZones_Zone1_model"

lemma DeviceLegacySettings_AdvancedMotionZones_Zone1_wf [rest_wf_models]: "rest_wf DeviceLegacySettings_AdvancedMotionZones_Zone1_model"
  by (simp add: DeviceLegacySettings_AdvancedMotionZones_Zone1_model_def rest_names_def rest_wf_models)

definition DeviceLegacySettings_AdvancedMotionZones_Zone2_Vertex1_model :: rest_type where
  "DeviceLegacySettings_AdvancedMotionZones_Zone2_Vertex1_model = RStruct
     [(''x'', True, RPtr (RPlain TInt)),
      (''y'', True, RPtr (RPlain TInt))]"

definition DeviceLegacySettings_AdvancedMotionZones_Zone2_Vertex1_MarshalJSON :: "rest_value \<Rightarrow> json" where
  "DeviceLegacySettings_AdvancedMotionZones_Zone2_Vertex1_MarshalJSON = rest_marshal DeviceLegacySettings_AdvancedMotionZones_Zone2_Vertex1_model"

definition DeviceLegacySettings_AdvancedMotionZones_Zone2_Vertex1_UnmarshalJSON :: "rest_value \<Rightarrow> json \<Rightarrow> rest_value \<times> bool" where
  "DeviceLegacySettings_AdvancedMotionZones_Zone2_Vertex1_UnmarshalJSON = rest_unmarshal DeviceLegacySettings_AdvancedMotionZones_Zone2_Vertex1_model"

lemma DeviceLegacySettings_AdvancedMotionZones_Zone2_Vertex1_wf [rest_wf_models]: "rest_wf DeviceLegacySettings_AdvancedMotionZones_Zone2_Vertex1_model"
  by (simp add: DeviceLegacySettings_AdvancedMotionZones_Zone2_Vertex1_model_def rest_names_def rest_wf_models)

definition DeviceLegacySettings_AdvancedMotionZones_Zone2_Vertex2_model :: rest_type where
  "DeviceLegacySettings_AdvancedMotionZones_Zone2_Vertex2_model = RStruct
     [(''x'', True, RPtr (RPlain TInt)),
      (''y'', True, RPtr (RPlain TInt))]"

definition DeviceLegacySettings_AdvancedMotionZones_Zone2_Vertex2_MarshalJSON :: "rest_value \<Rightarrow> json" where
  "DeviceLegacySettings_AdvancedMotionZones_Zone2_Vertex2_MarshalJSON = rest_marshal DeviceLegacySettings_AdvancedMotionZones_Zone2_Vertex2_model"

definition DeviceLegacySettings_AdvancedMotionZones_Zone2_Vertex2_UnmarshalJSON :: "rest_value \<Rightarrow> json \<Rightarrow> rest_value \<times> bool" where
  "DeviceLegacySettings_AdvancedMotionZones_Zone2_Vertex2_UnmarshalJSON = rest_unmarshal DeviceLegacySettings_AdvancedMotionZones_Zone2_Vertex2_model"

lemma DeviceLegacySettings_AdvancedMotionZones_Zone2_Vertex2_wf [rest_wf_models]: "rest_wf DeviceLegacySettings_AdvancedMotionZones_Zone2_Vertex2_model"
  by (simp add: DeviceLegacySettings_AdvancedMotionZones_Zone2_Vertex2_model_def rest_names_def rest_wf_models)

definition DeviceLegacySettings_AdvancedMotionZones_Zone2_Vertex3_model :: rest_type where
  "DeviceLegacySettings_AdvancedMotionZones_Zone2_Vertex3_model = RStruct
     [(''x'', True, RPtr (RPlain TInt)),
      (''y'', True, RPtr (RPlain TInt))]"

definition DeviceLegacySettings_AdvancedMotionZones_Zone2_Vertex3_MarshalJSON :: "rest_value \<Rightarrow> json" where
  "DeviceLegacySettings_AdvancedMotionZones_Zone2_Vertex3_MarshalJSON = rest_marshal DeviceLegacySettings_AdvancedMotionZones_Zone2_Vertex3_model"

definition DeviceLegacySettings_AdvancedMotionZones_Zone2_Vertex3_UnmarshalJSON :: "rest_value \<Rightarrow> json \<Rightarrow> rest_value \<times> bool" where
  "DeviceLegacySettings_AdvancedMotionZones_Zone2_Vertex3_UnmarshalJSON = rest_unmarshal DeviceLegacySettings_AdvancedMotionZones_Zone2_Vertex3_model"

lemma DeviceLegacySettings_AdvancedMotionZones_Zone2_Vertex3_wf [rest_wf_models]: "rest_wf DeviceLegacySettings_AdvancedMotionZones_Zone2_Vertex3_model"
  by (simp add: DeviceLegacySettings_AdvancedMotionZones_Zone2_Vertex3_model_def rest_names_def rest_wf_models)

definition DeviceLegacySettings_AdvancedMotionZones_Zone2_Vertex4_model :: rest_type where
  "DeviceLegacySettings_AdvancedMotionZones_Zone2_Vertex4_model = RStruct
     [(''x'', True, RPtr (RPlain TInt)),
      (''y'', True, RPtr (RPlain TInt))]"

definition DeviceLegacySettings_AdvancedMotionZones_Zone2_Vertex4_MarshalJSON :: "rest_value \<Rightarrow> json" where
  "DeviceLegacySettings_AdvancedMotionZones_Zone2_Vertex4_MarshalJSON = rest_marshal DeviceLegacySettings_AdvancedMotionZones_Zone2_Vertex4_model"

definition DeviceLegacySettings_AdvancedMotionZones_Zone2_Vertex4_UnmarshalJSON :: "rest_value \<Rightarrow> json \<Rightarrow> rest_value \<times> bool" where
  "DeviceLegacySettings_AdvancedMotionZones_Zone2_Vertex4_UnmarshalJSON = rest_unmarshal DeviceLegacySettings_AdvancedMotionZones_Zone2_Vertex4_model"

lemma DeviceLegacySettings_AdvancedMotionZones_Zone2_Vertex4_wf [rest_wf_models]: "rest_wf DeviceLegacySettings_AdvancedMotionZones_Zone2_Vertex4_model"
  by (simp add: DeviceLegacySettings_AdvancedMotionZones_Zone2_Vertex4_model_def rest_names_def rest_wf_models)

definition DeviceLegacySettings_AdvancedMotionZones_Zone2_Vertex5_model :: rest_type where
  "DeviceLegacySettings_AdvancedMotionZones_Zone2_Vertex5_model = RStruct
     [(''x'', True, RPtr (RPlain TInt)),
      (''y'', True, RPtr (RPlain TInt))]"

definition DeviceLegacySettings_AdvancedMotionZones_Zone2_Vertex5_MarshalJSON :: "rest_value \<Rightarrow> json" where
  "DeviceLegacySettings_AdvancedMotionZones_Zone2_Vertex5_MarshalJSON = rest_marshal DeviceLegacySettings_AdvancedMotionZones_Zone2_Vertex5_model"

definition DeviceLegacySettings_AdvancedMotionZones_Zone2_Vertex5_UnmarshalJSON :: "rest_value \<Rightarrow> json \<Rightarrow> rest_value \<times> bool" where
  "DeviceLegacySettings_AdvancedMotionZones_Zone2_Vertex5_UnmarshalJSON = rest_unmarshal DeviceLegacySettings_AdvancedMotionZones_Zone2_Vertex5_model"

lemma DeviceLegacySettings_AdvancedMotionZones_Zone2_Vertex5_wf [rest_wf_models]: "rest_wf DeviceLegacySettings_AdvancedMotionZones_Zone2_Vertex5_model"
  by (simp add: DeviceLegacySettings_AdvancedMotionZones_Zone2_Vertex5_model_def rest_names_def rest_wf_models)

definition DeviceLegacySettings_AdvancedMotionZones_Zone2_Vertex6_model :: rest_type where
  "DeviceLegacySettings_AdvancedMotionZones_Zone2_Vertex6_model = RStruct
     [(''x'', True, RPtr (RPlain TInt)),
      (''y'', True, RPtr (RPlain TInt))]"

definition DeviceLegacySettings_AdvancedMotionZones_Zone2_Vertex6_MarshalJSON :: "rest_value \<Rightarrow> json" where
  "DeviceLegacySettings_AdvancedMotionZones_Zone2_Vertex6_MarshalJSON = rest_marshal DeviceLegacySettings_AdvancedMotionZones_Zone2_Vertex6_model"

definition DeviceLegacySettings_AdvancedMotionZones_Zone2_Vertex6_UnmarshalJSON :: "rest_value \<Rightarrow> json \<Rightarrow> rest_value \<times> bool" where
  "DeviceLegacySettings_AdvancedMotionZones_Zone2_Vertex6_UnmarshalJSON = rest_unmarshal DeviceLegacySettings_AdvancedMotionZones_Zone2_Vertex6_model"

lemma DeviceLegacySettings_AdvancedMotionZones_Zone2_Vertex6_wf [rest_wf_models]: "rest_wf DeviceLegacySettings_AdvancedMotionZones_Zone2_Vertex6_model"
  by (simp add: DeviceLegacySettings_AdvancedMotionZones_Zone2_Vertex6_model_def rest_names_def rest_wf_models)

definition DeviceLegacySettings_AdvancedMotionZones_Zone2_Vertex7_model :: rest_type where
  "DeviceLegacySettings_AdvancedMotionZones_Zone2_Vertex7_model = RStruct
     [(''x'', True, RPtr (RPlain TInt)),
      (''y'', True, RPtr (RPlain TInt))]"

definition DeviceLegacySettings_AdvancedMotionZones_Zone2_Vertex7_MarshalJSON :: "rest_value \<Rightarrow> json" where
  "DeviceLegacySettings_AdvancedMotionZones_Zone2_Vertex7_MarshalJSON = rest_marshal DeviceLegacySettings_AdvancedMotionZones_Zone2_Vertex7_model"

definition DeviceLegacySettings_AdvancedMotionZones_Zone2_Vertex7_UnmarshalJSON :: "rest_value \<Rightarrow> json \<Rightarrow> rest_value \<times> bool" where
  "DeviceLegacySettings_AdvancedMotionZones_Zone2_Vertex7_UnmarshalJSON = rest_unmarshal DeviceLegacySettings_AdvancedMotionZones_Zone2_Vertex7_model"

lemma DeviceLegacySettings_AdvancedMotionZones_Zone2_Vertex7_wf [rest_wf_models]: "rest_wf DeviceLegacySettings_AdvancedMotionZones_Zone2_Vertex7_model"
  by (simp add: DeviceLegacySettings_AdvancedMotionZones_Zone2_Vertex7_model_def rest_names_def rest_wf_models)

definition DeviceLegacySettings_AdvancedMotionZones_Zone2_Vertex8_model :: rest_type where
  "DeviceLegacySettings_AdvancedMotionZones_Zone2_Vertex8_model = RStruct
     [(''x'', True, RPtr (RPlain TInt)),
      (''y'', True, RPtr (RPlain TInt))]"

definition DeviceLegacySettings_AdvancedMotionZones_Zone2_Vertex8_MarshalJSON :: "rest_value \<Rightarrow> json" where
  "DeviceLegacySettings_AdvancedMotionZones_Zone2_Vertex8_MarshalJSON = rest_marshal DeviceLegacySettings_AdvancedMotionZones_Zone2_Vertex8_model"

definition DeviceLegacySettings_AdvancedMotionZones_Zone2_Vertex8_UnmarshalJSON :: "rest_value \<Rightarrow> json \<Rightarrow> rest_value \<times> bool" where
  "DeviceLegacySettings_AdvancedMotionZones_Zone2_Vertex8_UnmarshalJSON = rest_unmarshal DeviceLegacySettings_AdvancedMotionZones_Zone2_Vertex8_model"

lemma DeviceLegacySettings_AdvancedMotionZones_Zone2_Vertex8_wf [rest_wf_models]: "rest_wf DeviceLegacySettings_AdvancedMotionZones_Zone2_Vertex8_model"
  by (simp add: DeviceLegacySettings_AdvancedMotionZones_Zone2_Vertex8_model_def rest_names_def rest_wf_models)

definition DeviceLegacySettings_AdvancedMotionZones_Zone2_model :: rest_type where
  "DeviceLegacySettings_AdvancedMotionZones_Zone2_model = RStruct
     [(''name'', True, RPtr (RPlain TString)),
      (''state'', True, RPtr (RPlain TInt)),
      (''vertex1'', True, RPtr DeviceLegacySettings_AdvancedMotionZones_Zone2_Vertex1_model),
      (''vertex2'', True, RPtr DeviceLegacySettings_AdvancedMotionZones_Zone2_Vertex2_model),
      (''vertex3'', True, RPtr DeviceLegacySettings_AdvancedMotionZones_Zone2_Vertex3_model),
      (''vertex4'', True, RPtr DeviceLegacySettings_AdvancedMotionZones_Zone2_Vertex4_model),
      (''vertex5'', True, RPtr DeviceLegacySettings_AdvancedMotionZones_Zone2_Vertex5_model),
      (''vertex6'', True, RPtr DeviceLegacySettings_AdvancedMotionZones_Zone2_Vertex6_model),
      (''vertex7'', True, RPtr DeviceLegacySettings_AdvancedMotionZones_Zone2_Vertex7_model),
      (''vertex8'', True, RPtr DeviceLegacySettings_AdvancedMotionZones_Zone2_Vertex8_model)]"

definition DeviceLegacySettings_AdvancedMotionZones_Zone2_MarshalJSON :: "rest_value \<Rightarrow> json" where
  "DeviceLegacySettings_AdvancedMotionZones_Zone2_MarshalJSON = rest_marshal DeviceLegacySettings_AdvancedMotionZones_Zone2_model"

definition DeviceLegacySettings_AdvancedMotionZones_Zone2_UnmarshalJSON :: "rest_value \<Rightarrow> json \<Rightarrow> rest_value \<times> bool" where
  "DeviceLegacySettings_AdvancedMotionZones_Zone2_UnmarshalJSON = rest_unmarshal DeviceLegacySettings_AdvancedMotionZones_Zone2_model"

lemma DeviceLegacySettings_AdvancedMotionZones_Zone2_wf [rest_wf_models]: "rest_wf DeviceLegacySettings_AdvancedMotionZones_Zone2_model"
  by (simp add: DeviceLegacySettings_AdvancedMotionZones_Zone2_model_def rest_names_def rest_wf_models)

definition DeviceLegacySettings_AdvancedMotionZones_Zone3_Vertex1_model :: rest_type where
  "DeviceLegacySettings_AdvancedMotionZones_Zone3_Vertex1_model = RStruct
     [(''x'', True, RPtr (RPlain TInt)),
      (''y'', True, RPtr (RPlain TInt))]"

definition DeviceLegacySettings_AdvancedMotionZones_Zone3_Vertex1_MarshalJSON :: "rest_value \<Rightarrow> json" where
  "DeviceLegacySettings_AdvancedMotionZones_Zone3_Vertex1_MarshalJSON = rest_marshal DeviceLegacySettings_AdvancedMotionZones_Zone3_Vertex1_model"

definition DeviceLegacySettings_AdvancedMotionZones_Zone3_Vertex1_UnmarshalJSON :: "rest_value \<Rightarrow> json \<Rightarrow> rest_value \<times> bool" where
  "DeviceLegacySettings_AdvancedMotionZones_Zone3_Vertex1_UnmarshalJSON = rest_unmarshal DeviceLegacySettings_AdvancedMotionZones_Zone3_Vertex1_model"

lemma DeviceLegacySettings_AdvancedMotionZones_Zone3_Vertex1_wf [rest_wf_models]: "rest_wf DeviceLegacySettings_AdvancedMotionZones_Zone3_Vertex1_model"
  by (simp add: DeviceLegacySettings_AdvancedMotionZones_Zone3_Vertex1_model_def rest_names_def rest_wf_models)

definition DeviceLegacySettings_AdvancedMotionZones_Zone3_Vertex2_model :: rest_type where
  "DeviceLegacySettings_AdvancedMotionZones_Zone3_Vertex2_model = RStruct
     [(''x'', True, RPtr (RPlain TInt)),
      (''y'', True, RPtr (RPlain TInt))]"

definition DeviceLegacySettings_AdvancedMotionZones_Zone3_Vertex2_MarshalJSON :: "rest_value \<Rightarrow> json" where
  "DeviceLegacySettings_AdvancedMotionZones_Zone3_Vertex2_MarshalJSON = rest_marshal DeviceLegacySettings_AdvancedMotionZones_Zone3_Vertex2_model"

definition DeviceLegacySettings_AdvancedMotionZones_Zone3_Vertex2_UnmarshalJSON :: "rest_value \<Rightarrow> json \<Rightarrow> rest_value \<times> bool" where
  "DeviceLegacySettings_AdvancedMotionZones_Zone3_Vertex2_UnmarshalJSON = rest_unmarshal DeviceLegacySettings_AdvancedMotionZones_Zone3_Vertex2_model"

lemma DeviceLegacySettings_AdvancedMotionZones_Zone3_Vertex2_wf [rest_wf_models]: "rest_wf DeviceLegacySettings_AdvancedMotionZones_Zone3_Vertex2_model"
  by (simp add: DeviceLegacySettings_AdvancedMotionZones_Zone3_Vertex2_model_def rest_names_def rest_wf_models)

definition DeviceLegacySettings_AdvancedMotionZones_Zone3_Vertex3_model :: rest_type where
  "DeviceLegacySettings_AdvancedMotionZones_Zone3_Vertex3_model = RStruct
     [(''x'', True, RPtr (RPlain TInt)),
      (''y'', True, RPtr (RPlain TInt))]"

definition DeviceLegacySettings_AdvancedMotionZones_Zone3_Vertex3_MarshalJSON :: "rest_value \<Rightarrow> json" where
  "DeviceLegacySettings_AdvancedMotionZones_Zone3_Vertex3_MarshalJSON = rest_marshal DeviceLegacySettings_AdvancedMotionZones_Zone3_Vertex3_model"

definition DeviceLegacySettings_AdvancedMotionZones_Zone3_Vertex3_UnmarshalJSON :: "rest_value \<Rightarrow> json \<Rightarrow> rest_value \<times> bool" where
  "DeviceLegacySettings_AdvancedMotionZones_Zone3_Vertex3_UnmarshalJSON = rest_unmarshal DeviceLegacySettings_AdvancedMotionZones_Zone3_Vertex3_model"

lemma DeviceLegacySettings_AdvancedMotionZones_Zone3_Vertex3_wf [rest_wf_models]: "rest_wf DeviceLegacySettings_AdvancedMotionZones_Zone3_Vertex3_model"
  by (simp add: DeviceLegacySettings_AdvancedMotionZones_Zone3_Vertex3_model_def rest_names_def rest_wf_models)

definition DeviceLegacySettings_AdvancedMotionZones_Zone3_Vertex4_model :: rest_type where
  "DeviceLegacySettings_AdvancedMotionZones_Zone3_Vertex4_model = RStruct
     [(''x'', True, RPtr (RPlain TInt)),
      (''y'', True, RPtr (RPlain TInt))]"

definition DeviceLegacySettings_AdvancedMotionZones_Zone3_Vertex4_MarshalJSON :: "rest_value \<Rightarrow> json" where
  "DeviceLegacySettings_AdvancedMotionZones_Zone3_Vertex4_MarshalJSON = rest_marshal DeviceLegacySettings_AdvancedMotionZones_Zone3_Vertex4_model"

definition DeviceLegacySettings_AdvancedMotionZones_Zone3_Vertex4_UnmarshalJSON :: "rest_value \<Rightarrow> json \<Rightarrow> rest_value \<times> bool" where
  "DeviceLegacySettings_AdvancedMotionZones_Zone3_Vertex4_UnmarshalJSON = rest_unmarshal DeviceLegacySettings_AdvancedMotionZones_Zone3_Vertex4_model"

lemma DeviceLegacySettings_AdvancedMotionZones_Zone3_Vertex4_wf [rest_wf_models]: "rest_wf DeviceLegacySettings_AdvancedMotionZones_Zone3_Vertex4_model"
  by (simp add: DeviceLegacySettings_AdvancedMotionZones_Zone3_Vertex4_model_def rest_names_def rest_wf_models)

definition DeviceLegacySettings_AdvancedMotionZones_Zone3_Vertex5_model :: rest_type where
  "DeviceLegacySettings_AdvancedMotionZones_Zone3_Vertex5_model = RStruct
     [(''x'', True, RPtr (RPlain TInt)),
      (''y'', True, RPtr (RPlain TInt))]"

definition DeviceLegacySettings_AdvancedMotionZones_Zone3_Vertex5_MarshalJSON :: "rest_value \<Rightarrow> json" where
  "DeviceLegacySettings_AdvancedMotionZones_Zone3_Vertex5_MarshalJSON = rest_marshal DeviceLegacySettings_AdvancedMotionZones_Zone3_Vertex5_model"

definition DeviceLegacySettings_AdvancedMotionZones_Zone3_Vertex5_UnmarshalJSON :: "rest_value \<Rightarrow> json \<Rightarrow> rest_value \<times> bool" where
  "DeviceLegacySettings_AdvancedMotionZones_Zone3_Vertex5_UnmarshalJSON = rest_unmarshal DeviceLegacySettings_AdvancedMotionZones_Zone3_Vertex5_model"

lemma DeviceLegacySettings_AdvancedMotionZones_Zone3_Vertex5_wf [rest_wf_models]: "rest_wf DeviceLegacySettings_AdvancedMotionZones_Zone3_Vertex5_model"
  by (simp add: DeviceLegacySettings_AdvancedMotionZones_Zone3_Vertex5_model_def rest_names_def rest_wf_models)

definition DeviceLegacySettings_AdvancedMotionZones_Zone3_Vertex6_model :: rest_type where
  "DeviceLegacySettings_AdvancedMotionZones_Zone3_Vertex6_model = RStruct
     [(''x'', True, RPtr (RPlain TInt)),
      (''y'', True, RPtr (RPlain TInt))]"

definition DeviceLegacySettings_AdvancedMotionZones_Zone3_Vertex6_MarshalJSON :: "rest_value \<Rightarrow> json" where
  "DeviceLegacySettings_AdvancedMotionZones_Zone3_Vertex6_MarshalJSON = rest_marshal DeviceLegacySettings_AdvancedMotionZones_Zone3_Vertex6_model"

definition DeviceLegacySettings_AdvancedMotionZones_Zone3_Vertex6_UnmarshalJSON :: "rest_value \<Rightarrow> json \<Rightarrow> rest_value \<times> bool" where
  "DeviceLegacySettings_AdvancedMotionZones_Zone3_Vertex6_UnmarshalJSON = rest_unmarshal DeviceLegacySettings_AdvancedMotionZones_Zone3_Vertex6_model"

lemma DeviceLegacySettings_AdvancedMotionZones_Zone3_Vertex6_wf [rest_wf_models]: "rest_wf DeviceLegacySettings_AdvancedMotionZones_Zone3_Vertex6_model"
  by (simp add: DeviceLegacySettings_AdvancedMotionZones_Zone3_Vertex6_model_def rest_names_def rest_wf_models)

definition DeviceLegacySettings_AdvancedMotionZones_Zone3_Vertex7_model :: rest_type where
  "DeviceLegacySettings_AdvancedMotionZones_Zone3_Vertex7_model = RStruct
     [(''x'', True, RPtr (RPlain TInt)),
      (''y'', True, RPtr (RPlain TInt))]"

definition DeviceLegacySettings_AdvancedMotionZones_Zone3_Vertex7_MarshalJSON :: "rest_value \<Rightarrow> json" where
  "DeviceLegacySettings_AdvancedMotionZones_Zone3_Vertex7_MarshalJSON = rest_marshal DeviceLegacySettings_AdvancedMotionZones_Zone3_Vertex7_model"

definition DeviceLegacySettings_AdvancedMotionZones_Zone3_Vertex7_UnmarshalJSON :: "rest_value \<Rightarrow> json \<Rightarrow> rest_value \<times> bool" where
  "DeviceLegacySettings_AdvancedMotionZones_Zone3_Vertex7_UnmarshalJSON = rest_unmarshal DeviceLegacySettings_AdvancedMotionZones_Zone3_Vertex7_model"

lemma DeviceLegacySettings_AdvancedMotionZones_Zone3_Vertex7_wf [rest_wf_models]: "rest_wf DeviceLegacySettings_AdvancedMotionZones_Zone3_Vertex7_model"
  by (simp add: DeviceLegacySettings_AdvancedMotionZones_Zone3_Vertex7_model_def rest_names_def rest_wf_models)

definition DeviceLegacySettings_AdvancedMotionZones_Zone3_Vertex8_model :: rest_type where
  "DeviceLegacySettings_AdvancedMotionZones_Zone3_Vertex8_model = RStruct
     [(''x'', True, RPtr (RPlain TInt)),
      (''y'', True, RPtr (RPlain TInt))]"

definition DeviceLegacySettings_AdvancedMotionZones_Zone3_Vertex8_MarshalJSON :: "rest_value \<Rightarrow> json" where
  "DeviceLegacySettings_AdvancedMotionZones_Zone3_Vertex8_MarshalJSON = rest_marshal DeviceLegacySettings_AdvancedMotionZones_Zone3_Vertex8_model"

definition DeviceLegacySettings_AdvancedMotionZones_Zone3_Vertex8_UnmarshalJSON :: "rest_value \<Rightarrow> json \<Rightarrow> rest_value \<times> bool" where
  "DeviceLegacySettings_AdvancedMotionZones_Zone3_Vertex8_UnmarshalJSON = rest_unmarshal DeviceLegacySettings_AdvancedMotionZones_Zone3_Vertex8_model"

lemma DeviceLegacySettings_AdvancedMotionZones_Zone3_Vertex8_wf [rest_wf_models]: "rest_wf DeviceLegacySettings_AdvancedMotionZones_Zone3_Vertex8_model"
  by (simp add: DeviceLegacySettings_AdvancedMotionZones_Zone3_Vertex8_model_def rest_names_def rest_wf_models)

definition DeviceLegacySettings_AdvancedMotionZones_Zone3_model :: rest_type where
  "DeviceLegacySettings_AdvancedMotionZones_Zone3_model = RStruct
     [(''name'', True, RPtr (RPlain TString)),
      (''state'', True, RPtr (RPlain TInt)),
      (''vertex1'', True, RPtr DeviceLegacySettings_AdvancedMotionZones_Zone3_Vertex1_model),
      (''vertex2'', True, RPtr DeviceLegacySettings_AdvancedMotionZones_Zone3_Vertex2_model),
      (''vertex3'', True, RPtr DeviceLegacySettings_AdvancedMotionZones_Zone3_Vertex3_model),
      (''vertex4'', True, RPtr DeviceLegacySettings_AdvancedMotionZones_Zone3_Vertex4_model),
      (''vertex5'', True, RPtr DeviceLegacySettings_AdvancedMotionZones_Zone3_Vertex5_model),
      (''vertex6'', True, RPtr DeviceLegacySettings_AdvancedMotionZones_Zone3_Vertex6_model),
      (''vertex7'', True, RPtr DeviceLegacySettings_AdvancedMotionZones_Zone3_Vertex7_model),
      (''vertex8'', True, RPtr DeviceLegacySettings_AdvancedMotionZones_Zone3_Vertex8_model)]"

definition DeviceLegacySettings_AdvancedMotionZones_Zone3_MarshalJSON :: "rest_value \<Rightarrow> json" where
  "DeviceLegacySettings_AdvancedMotionZones_Zone3_MarshalJSON = rest_marshal DeviceLegacySettings_AdvancedMotionZones_Zone3_model"

definition DeviceLegacySettings_AdvancedMotionZones_Zone3_UnmarshalJSON :: "rest_value \<Rightarrow> json \<Rightarrow> rest_value \<times> bool" where
  "DeviceLegacySettings_AdvancedMotionZones_Zone3_UnmarshalJSON = rest_unmarshal DeviceLegacySettings_AdvancedMotionZones_Zone3_model"

lemma DeviceLegacySettings_AdvancedMotionZones_Zone3_wf [rest_wf_models]: "rest_wf DeviceLegacySettings_AdvancedMotionZones_Zone3_model"
  by (simp add: DeviceLegacySettings_AdvancedMotionZones_Zone3_model_def rest_names_def rest_wf_models)

definition DeviceLegacySettings_AdvancedMotionZones_model :: rest_type where
  "DeviceLegacySettings_AdvancedMotionZones_model = RStruct
     [(''zone1'', True, RPtr DeviceLegacySettings_AdvancedMotionZones_Zone1_model),
      (''zone2'', True, RPtr DeviceLegacySettings_AdvancedMotionZones_Zone2_model),
      (''zone3'', True, RPtr DeviceLegacySettings_AdvancedMotionZones_Zone3_model)]"

definition DeviceLegacySettings_AdvancedMotionZones_MarshalJSON :: "rest_value \<Rightarrow> json" where
  "DeviceLegacySettings_AdvancedMotionZones_MarshalJSON = rest_marshal DeviceLegacySettings_AdvancedMotionZones_model"

definition DeviceLegacySettings_AdvancedMotionZones_UnmarshalJSON :: "rest_value \<Rightarrow> json \<Rightarrow> rest_value \<times> bool" where
  "DeviceLegacySettings_AdvancedMotionZones_UnmarshalJSON = rest_unmarshal DeviceLegacySettings_AdvancedMotionZones_model"

lemma DeviceLegacySettings_AdvancedMotionZones_wf [rest_wf_models]: "rest_wf DeviceLegacySettings_AdvancedMotionZones_model"
  by (simp add: DeviceLegacySettings_AdvancedMotionZones_model_def rest_names_def rest_wf_models)

definition DeviceLegacySettings_AdvancedPirMotionZones_model :: rest_type where
  "DeviceLegacySettings_AdvancedPirMotionZones_model = RStruct
     [(''zone1_sensitivity'', True, RPtr (RPlain TInt)),
      (''zone2_sensitivity'', True, RPtr (RPlain TInt)),
      (''zone3_sensitivity'', True, RPtr (RPlain TInt)),
      (''zone4_sensitivity'', True, RPtr (RPlain TInt)),
      (''zone5_sensitivity'', True, RPtr (RPlain TInt)),
      (''zone6_sensitivity'', True, RPtr (RPlain TInt))]"

definition DeviceLegacySettings_AdvancedPirMotionZones_MarshalJSON :: "rest_value \<Rightarrow> json" where
  "DeviceLegacySettings_AdvancedPirMotionZones_MarshalJSON = rest_marshal DeviceLegacySettings_AdvancedPirMotionZones_model"

definition DeviceLegacySettings_AdvancedPirMotionZones_UnmarshalJSON :: "rest_value \<Rightarrow> json \<Rightarrow> rest_value \<times> bool" where
  "DeviceLegacySettings_AdvancedPirMotionZones_UnmarshalJSON = rest_unmarshal DeviceLegacySettings_AdvancedPirMotionZones_model"

lemma DeviceLegacySettings_AdvancedPirMotionZones_wf [rest_wf_models]: "rest_wf DeviceLegacySettings_AdvancedPirMotionZones_model"
  by (simp add: DeviceLegacySettings_AdvancedPirMotionZones_model_def rest_names_def rest_wf_models)

definition DeviceLegacySettings_AudioSettings_model :: rest_type where
  "DeviceLegacySettings_AudioSettings_model = RStruct
     [(''enable_live_view_audio_override'', True, RPtr (RPlain TBool))]"

definition DeviceLegacySettings_AudioSettings_MarshalJSON :: "rest_value \<Rightarrow> json" where
  "DeviceLegacySettings_AudioSettings_MarshalJSON = rest_marshal DeviceLegacySettings_AudioSettings_model"

definition DeviceLegacySettings_AudioSettings_UnmarshalJSON :: "rest_value \<Rightarrow> json \<Rightarrow> rest_value \<times> bool" where
  "DeviceLegacySettings_AudioSettings_UnmarshalJSON = rest_unmarshal DeviceLegacySettings_AudioSettings_model"

lemma DeviceLegacySettings_AudioSettings_wf [rest_wf_models]: "rest_wf DeviceLegacySettings_AudioSettings_model"
  by (simp add: DeviceLegacySettings_AudioSettings_model_def rest_names_def rest_wf_models)

definition DeviceLegacySettings_CvPaidFeatures_model :: rest_type where
  "DeviceLegacySettings_CvPaidFeatures_model = RStruct
     [(''animal'', True, RPtr (RPlain TBool)),
      (''baby_cry'', True, RPtr (RPlain TBool)),
      (''car_alarm'', True, RPtr (RPlain TBool)),
      (''co2_smoke_alarm'', True, RPtr (RPlain TBool)),
      (''cv_triggers'', True, RPtr (RPlain TBool)),
      (''dog_bark'', True, RPtr (RPlain TBool)),
      (''general_sound'', True, RPtr (RPlain TBool)),
      (''glass_break'', True, RPtr (RPlain TBool)),
      (''human'', True, RPtr (RPlain TBool)),
      (''loitering'', True, RPtr (RPlain TBool)),
      (''motion'', True, RPtr (RPlain TBool)),
      (''other_motion'', True, RPtr (RPlain TBool)),
      (''package_delivery'', True, RPtr (RPlain TBool)),
      (''package_pickup'', True, RPtr (RPlain TBool)),
      (''vehicle'', True, RPtr (RPlain TBool))]"

definition DeviceLegacySettings_CvPaidFeatures_MarshalJSON :: "rest_value \<Rightarrow> json" where
  "DeviceLegacySettings_CvPaidFeatures_MarshalJSON = rest_marshal DeviceLegacySettings_CvPaidFeatures_model"

definition DeviceLegacySettings_CvPaidFeatures_UnmarshalJSON :: "rest_value \<Rightarrow> json \<Rightarrow> rest_value \<times> bool" where
  "DeviceLegacySettings_CvPaidFeatures_UnmarshalJSON = rest_unmarshal DeviceLegacySettings_CvPaidFeatures_model"

lemma DeviceLegacySettings_CvPaidFeatures_wf [rest_wf_models]: "rest_wf DeviceLegacySettings_CvPaidFeatures_model"
  by (simp add: DeviceLegacySettings_CvPaidFeatures_model_def rest_names_def rest_wf_models)

definition DeviceLegacySettings_CvSettings_DetectionTypes_Animal_model :: rest_type where
  "DeviceLegacySettings_CvSettings_DetectionTypes_Animal_model = RStruct
     [(''enabled'', True, RPtr (RPlain TBool)),
      (''mode'', True, RPtr (RPlain TString)),
      (''notification'', True, RPtr (RPlain TBool)),
      (''record'', True, RPtr (RPlain TBool))]"

definition DeviceLegacySettings_CvSettings_DetectionTypes_Animal_MarshalJSON :: "rest_value \<Rightarrow> json" where
  "DeviceLegacySettings_CvSettings_DetectionTypes_Animal_MarshalJSON = rest_marshal DeviceLegacySettings_CvSettings_DetectionTypes_Animal_model"

definition DeviceLegacySettings_CvSettings_DetectionTypes_Animal_UnmarshalJSON :: "rest_value \<Rightarrow> json \<Rightarrow> rest_value \<times> bool" where
  "DeviceLegacySettings_CvSettings_DetectionTypes_Animal_UnmarshalJSON = rest_unmarshal DeviceLegacySettings_CvSettings_DetectionTypes_Animal_model"

lemma DeviceLegacySettings_CvSettings_DetectionTypes_Animal_wf [rest_wf_models]: "rest_wf DeviceLegacySettings_CvSettings_DetectionTypes_Animal_model"
  by (simp add: DeviceLegacySettings_CvSettings_DetectionTypes_Animal_model_def rest_names_def rest_wf_models)

definition DeviceLegacySettings_CvSettings_DetectionTypes_BabyCry_model :: rest_type where
  "DeviceLegacySettings_CvSettings_DetectionTypes_BabyCry_model = RStruct
     [(''enabled'', True, RPtr (RPlain TBool)),
      (''mode'', True, RPtr (RPlain TString)),
      (''notification'', True, RPtr (RPlain TBool)),
      (''record'', True, RPtr (RPlain TBool))]"

definition DeviceLegacySettings_CvSettings_DetectionTypes_BabyCry_MarshalJSON :: "rest_value \<Rightarrow> json" where
  "DeviceLegacySettings_CvSettings_DetectionTypes_BabyCry_MarshalJSON = rest_marshal DeviceLegacySettings_CvSettings_DetectionTypes_BabyCry_model"

definition DeviceLegacySettings_CvSettings_DetectionTypes_BabyCry_UnmarshalJSON :: "rest_value \<Rightarrow> json \<Rightarrow> rest_value \<times> bool" where
  "DeviceLegacySettings_CvSettings_DetectionTypes_BabyCry_UnmarshalJSON = rest_unmarshal DeviceLegacySettings_CvSettings_DetectionTypes_BabyCry_model"

lemma DeviceLegacySettings_CvSettings_DetectionTypes_BabyCry_wf [rest_wf_models]: "rest_wf DeviceLegacySettings_CvSettings_DetectionTypes_BabyCry_model"
  by (simp add: DeviceLegacySettings_CvSettings_DetectionTypes_BabyCry_model_def rest_names_def rest_wf_models)

definition DeviceLegacySettings_CvSettings_DetectionTypes_CarAlarm_model :: rest_type where
  "DeviceLegacySettings_CvSettings_DetectionTypes_CarAlarm_model = RStruct
     [(''enabled'', True, RPtr (RPlain TBool)),
      (''mode'', True, RPtr (RPlain TString)),
      (''notification'', True, RPtr (RPlain TBool)),
      (''record'', True, RPtr (RPlain TBool))]"

definition DeviceLegacySettings_CvSettings_DetectionTypes_CarAlarm_MarshalJSON :: "rest_value \<Rightarrow> json" where
  "DeviceLegacySettings_CvSettings_DetectionTypes_CarAlarm_MarshalJSON = rest_marshal DeviceLegacySettings_CvSettings_DetectionTypes_CarAlarm_model"

definition DeviceLegacySettings_CvSettings_DetectionTypes_CarAlarm_UnmarshalJSON :: "rest_value \<Rightarrow> json \<Rightarrow> rest_value \<times> bool" where
  "DeviceLegacySettings_CvSettings_DetectionTypes_CarAlarm_UnmarshalJSON = rest_unmarshal DeviceLegacySettings_CvSettings_DetectionTypes_CarAlarm_model"

lemma DeviceLegacySettings_CvSettings_DetectionTypes_CarAlarm_wf [rest_wf_models]: "rest_wf DeviceLegacySettings_CvSettings_DetectionTypes_CarAlarm_model"
  by (simp add: DeviceLegacySettings_CvSettings_DetectionTypes_CarAlarm_model_def rest_names_def rest_wf_models)

definition DeviceLegacySettings_CvSettings_DetectionTypes_Co2SmokeAlarm_model :: rest_type where
  "DeviceLegacySettings_CvSettings_DetectionTypes_Co2SmokeAlarm_model = RStruct
     [(''enabled'', True, RPtr (RPlain TBool)),
      (''mode'', True, RPtr (RPlain TString)),
      (''notification'', True, RPtr (RPlain TBool)),
      (''record'', True, RPtr (RPlain TBool))]"

definition DeviceLegacySettings_CvSettings_DetectionTypes_Co2SmokeAlarm_MarshalJSON :: "rest_value \<Rightarrow> json" where
  "DeviceLegacySettings_CvSettings_DetectionTypes_Co2SmokeAlarm_MarshalJSON = rest_marshal DeviceLegacySettings_CvSettings_DetectionTypes_Co2SmokeAlarm_model"

definition DeviceLegacySettings_CvSettings_DetectionTypes_Co2SmokeAlarm_UnmarshalJSON :: "rest_value \<Rightarrow> json \<Rightarrow> rest_value \<times> bool" where
  "DeviceLegacySettings_CvSettings_DetectionTypes_Co2SmokeAlarm_UnmarshalJSON = rest_unmarshal DeviceLegacySettings_CvSettings_DetectionTypes_Co2SmokeAlarm_model"

lemma DeviceLegacySettings_CvSettings_DetectionTypes_Co2SmokeAlarm_wf [rest_wf_models]: "rest_wf DeviceLegacySettings_CvSettings_DetectionTypes_Co2SmokeAlarm_model"
  by (simp add: DeviceLegacySettings_CvSettings_DetectionTypes_Co2SmokeAlarm_model_def rest_names_def rest_wf_models)

definition DeviceLegacySettings_CvSettings_DetectionTypes_DogBark_model :: rest_type where
  "DeviceLegacySettings_CvSettings_DetectionTypes_DogBark_model = RStruct
     [(''enabled'', True, RPtr (RPlain TBool)),
      (''mode'', True, RPtr (RPlain TString)),
      (''notification'', True, RPtr (RPlain TBool)),
      (''record'', True, RPtr (RPlain TBool))]"

definition DeviceLegacySettings_CvSettings_DetectionTypes_DogBark_MarshalJSON :: "rest_value \<Rightarrow> json" where
  "DeviceLegacySettings_CvSettings_DetectionTypes_DogBark_MarshalJSON = rest_marshal DeviceLegacySettings_CvSettings_DetectionTypes_DogBark_model"

definition DeviceLegacySettings_CvSettings_DetectionTypes_DogBark_UnmarshalJSON :: "rest_value \<Rightarrow> json \<Rightarrow> rest_value \<times> bool" where
  "DeviceLegacySettings_CvSettings_DetectionTypes_DogBark_UnmarshalJSON = rest_unmarshal DeviceLegacySettings_CvSettings_DetectionTypes_DogBark_model"

lemma DeviceLegacySettings_CvSettings_DetectionTypes_DogBark_wf [rest_wf_models]: "rest_wf DeviceLegacySettings_CvSettings_DetectionTypes_DogBark_model"
  by (simp add: DeviceLegacySettings_CvSettings_DetectionTypes_DogBark_model_def rest_names_def rest_wf_models)

definition DeviceLegacySettings_CvSettings_DetectionTypes_GeneralSound_model :: rest_type where
  "DeviceLegacySettings_CvSettings_DetectionTypes_GeneralSound_model = RStruct
     [(''enabled'', True, RPtr (RPlain TBool)),
      (''mode'', True, RPtr (RPlain TString)),
      (''notification'', True, RPtr (RPlain TBool)),
      (''record'', True, RPtr (RPlain TBool))]"

definition DeviceLegacySettings_CvSettings_DetectionTypes_GeneralSound_MarshalJSON :: "rest_value \<Rightarrow> json" where
  "DeviceLegacySettings_CvSettings_DetectionTypes_GeneralSound_MarshalJSON = rest_marshal DeviceLegacySettings_CvSettings_DetectionTypes_GeneralSound_model"

definition DeviceLegacySettings_CvSettings_DetectionTypes_GeneralSound_UnmarshalJSON :: "rest_value \<Rightarrow> json \<Rightarrow> rest_value \<times> bool" where
  "DeviceLegacySettings_CvSettings_DetectionTypes_GeneralSound_UnmarshalJSON = rest_unmarshal DeviceLegacySettings_CvSettings_DetectionTypes_GeneralSound_model"

lemma DeviceLegacySettings_CvSettings_DetectionTypes_GeneralSound_wf [rest_wf_models]: "rest_wf DeviceLegacySettings_CvSettings_DetectionTypes_GeneralSound_model"
  by (simp add: DeviceLegacySettings_CvSettings_DetectionTypes_GeneralSound_model_def rest_names_def rest_wf_models)

definition DeviceLegacySettings_CvSettings_DetectionTypes_GlassBreak_model :: rest_type where
  "DeviceLegacySettings_CvSettings_DetectionTypes_GlassBreak_model = RStruct
     [(''enabled'', True, RPtr (RPlain TBool)),
      (''mode'', True, RPtr (RPlain TString)),
      (''notification'', True, RPtr (RPlain TBool)),
      (''record'', True, RPtr (RPlain TBool))]"

definition DeviceLegacySettings_CvSettings_DetectionTypes_GlassBreak_MarshalJSON :: "rest_value \<Rightarrow> json" where
  "DeviceLegacySettings_CvSettings_DetectionTypes_GlassBreak_MarshalJSON = rest_marshal DeviceLegacySettings_CvSettings_DetectionTypes_GlassBreak_model"

definition DeviceLegacySettings_CvSettings_DetectionTypes_GlassBreak_UnmarshalJSON :: "rest_value \<Rightarrow> json \<Rightarrow> rest_value \<times> bool" where
  "DeviceLegacySettings_CvSettings_DetectionTypes_GlassBreak_UnmarshalJSON = rest_unmarshal DeviceLegacySettings_CvSettings_DetectionTypes_GlassBreak_model"

lemma DeviceLegacySettings_CvSettings_DetectionTypes_GlassBreak_wf [rest_wf_models]: "rest_wf DeviceLegacySettings_CvSettings_DetectionTypes_GlassBreak_model"
  by (simp add: DeviceLegacySettings_CvSettings_DetectionTypes_GlassBreak_model_def rest_names_def rest_wf_models)

definition DeviceLegacySettings_CvSettings_DetectionTypes_Human_model :: rest_type where
  "DeviceLegacySettings_CvSettings_DetectionTypes_Human_model = RStruct
     [(''enabled'', True, RPtr (RPlain TBool)),
      (''mode'', True, RPtr (RPlain TString)),
      (''notification'', True, RPtr (RPlain TBool)),
      (''record'', True, RPtr (RPlain TBool))]"

definition DeviceLegacySettings_CvSettings_DetectionTypes_Human_MarshalJSON :: "rest_value \<Rightarrow> json" where
  "DeviceLegacySettings_CvSettings_DetectionTypes_Human_MarshalJSON = rest_marshal DeviceLegacySettings_CvSettings_DetectionTypes_Human_model"

definition DeviceLegacySettings_CvSettings_DetectionTypes_Human_UnmarshalJSON :: "rest_value \<Rightarrow> json \<Rightarrow> rest_value \<times> bool" where
  "DeviceLegacySettings_CvSettings_DetectionTypes_Human_UnmarshalJSON = rest_unmarshal DeviceLegacySettings_CvSettings_DetectionTypes_Human_model"

lemma DeviceLegacySettings_CvSettings_DetectionTypes_Human_wf [rest_wf_models]: "rest_wf DeviceLegacySettings_CvSettings_DetectionTypes_Human_model"
  by (simp add: DeviceLegacySettings_CvSettings_DetectionTypes_Human_model_def rest_names_def rest_wf_models)

definition DeviceLegacySettings_CvSettings_DetectionTypes_Loitering_model :: rest_type where
  "DeviceLegacySettings_CvSettings_DetectionTypes_Loitering_model = RStruct
     [(''enabled'', True, RPtr (RPlain TBool)),
      (''mode'', True, RPtr (RPlain TString)),
      (''notification'', True, RPtr (RPlain TBool)),
      (''record'', True, RPtr (RPlain TBool))]"

definition DeviceLegacySettings_CvSettings_DetectionTypes_Loitering_MarshalJSON :: "rest_value \<Rightarrow> json" where
  "DeviceLegacySettings_CvSettings_DetectionTypes_Loitering_MarshalJSON = rest_marshal DeviceLegacySettings_CvSettings_DetectionTypes_Loitering_model"

definition DeviceLegacySettings_CvSettings_DetectionTypes_Loitering_UnmarshalJSON :: "rest_value \<Rightarrow> json \<Rightarrow> rest_value \<times> bool" where
  "DeviceLegacySettings_CvSettings_DetectionTypes_Loitering_UnmarshalJSON = rest_unmarshal DeviceLegacySettings_CvSettings_DetectionTypes_Loitering_model"

lemma DeviceLegacySettings_CvSettings_DetectionTypes_Loitering_wf [rest_wf_models]: "rest_wf DeviceLegacySettings_CvSettings_DetectionTypes_Loitering_model"
  by (simp add: DeviceLegacySettings_CvSettings_DetectionTypes_Loitering_model_def rest_names_def rest_wf_models)

definition DeviceLegacySettings_CvSettings_DetectionTypes_Motion_model :: rest_type where
  "DeviceLegacySettings_CvSettings_DetectionTypes_Motion_model = RStruct
     [(''enabled'', True, RPtr (RPlain TBool)),
      (''mode'', True, RPtr (RPlain TString)),
      (''notification'', True, RPtr (RPlain TBool)),
      (''record'', True, RPtr (RPlain TBool))]"

definition DeviceLegacySettings_CvSettings_DetectionTypes_Motion_MarshalJSON :: "rest_value \<Rightarrow> json" where
  "DeviceLegacySettings_CvSettings_DetectionTypes_Motion_MarshalJSON = rest_marshal DeviceLegacySettings_CvSettings_DetectionTypes_Motion_model"

definition DeviceLegacySettings_CvSettings_DetectionTypes_Motion_UnmarshalJSON :: "rest_value \<Rightarrow> json \<Rightarrow> rest_value \<times> bool" where
  "DeviceLegacySettings_CvSettings_DetectionTypes_Motion_UnmarshalJSON = rest_unmarshal DeviceLegacySettings_CvSettings_DetectionTypes_Motion_model"

lemma DeviceLegacySettings_CvSettings_DetectionTypes_Motion_wf [rest_wf_models]: "rest_wf DeviceLegacySettings_CvSettings_DetectionTypes_Motion_model"
  by (simp add: DeviceLegacySettings_CvSettings_DetectionTypes_Motion_model_def rest_names_def rest_wf_models)

definition DeviceLegacySettings_CvSettings_DetectionTypes_MotionStop_model :: rest_type where
  "DeviceLegacySettings_CvSettings_DetectionTypes_MotionStop_model = RStruct
     [(''enabled'', True, RPtr (RPlain TBool)),
      (''mode'', True, RPtr (RPlain TString)),
      (''notification'', True, RPtr (RPlain TBool)),
      (''record'', True, RPtr (RPlain TBool))]"

definition DeviceLegacySettings_CvSettings_DetectionTypes_MotionStop_MarshalJSON :: "rest_value \<Rightarrow> json" where
  "DeviceLegacySettings_CvSettings_DetectionTypes_MotionStop_MarshalJSON = rest_marshal DeviceLegacySettings_CvSettings_DetectionTypes_MotionStop_model"

definition DeviceLegacySettings_CvSettings_DetectionTypes_MotionStop_UnmarshalJSON :: "rest_value \<Rightarrow> json \<Rightarrow> rest_value \<times> bool" where
  "DeviceLegacySettings_CvSettings_DetectionTypes_MotionStop_UnmarshalJSON = rest_unmarshal DeviceLegacySettings_CvSettings_DetectionTypes_MotionStop_model"

lemma DeviceLegacySettings_CvSettings_DetectionTypes_MotionStop_wf [rest_wf_models]: "rest_wf DeviceLegacySettings_CvSettings_DetectionTypes_MotionStop_model"
  by (simp add: DeviceLegacySettings_CvSettings_DetectionTypes_MotionStop_model_def rest_names_def rest_wf_models)

definition DeviceLegacySettings_CvSettings_DetectionTypes_MovingVehicle_model :: rest_type where
  "DeviceLegacySettings_CvSettings_DetectionTypes_MovingVehicle_model = RStruct
     [(''enabled'', True, RPtr (RPlain TBool)),
      (''mode'', True, RPtr (RPlain TString)),
      (''notification'', True, RPtr (RPlain TBool)),
      (''record'', True, RPtr (RPlain TBool))]"

definition DeviceLegacySettings_CvSettings_DetectionTypes_MovingVehicle_MarshalJSON :: "rest_value \<Rightarrow> json" where
  "DeviceLegacySettings_CvSettings_DetectionTypes_MovingVehicle_MarshalJSON = rest_marshal DeviceLegacySettings_CvSettings_DetectionTypes_MovingVehicle_model"

definition DeviceLegacySettings_CvSettings_DetectionTypes_MovingVehicle_UnmarshalJSON :: "rest_value \<Rightarrow> json \<Rightarrow> rest_value \<times> bool" where
  "DeviceLegacySettings_CvSettings_DetectionTypes_MovingVehicle_UnmarshalJSON = rest_unmarshal DeviceLegacySettings_CvSettings_DetectionTypes_MovingVehicle_model"

lemma DeviceLegacySettings_CvSettings_DetectionTypes_MovingVehicle_wf [rest_wf_models]: "rest_wf DeviceLegacySettings_CvSettings_DetectionTypes_MovingVehicle_model"
  by (simp add: DeviceLegacySettings_CvSettings_DetectionTypes_MovingVehicle_model_def rest_names_def rest_wf_models)

definition DeviceLegacySettings_CvSettings_DetectionTypes_OtherMotion_model :: rest_type where
  "DeviceLegacySettings_CvSettings_DetectionTypes_OtherMotion_model = RStruct
     [(''enabled'', True, RPtr (RPlain TBool)),
      (''mode'', True, RPtr (RPlain TString)),
      (''notification'', True, RPtr (RPlain TBool)),
      (''record'', True, RPtr (RPlain TBool))]"

definition DeviceLegacySettings_CvSettings_DetectionTypes_OtherMotion_MarshalJSON :: "rest_value \<Rightarrow> json" where
  "DeviceLegacySettings_CvSettings_DetectionTypes_OtherMotion_MarshalJSON = rest_marshal DeviceLegacySettings_CvSettings_DetectionTypes_OtherMotion_model"

definition DeviceLegacySettings_CvSettings_DetectionTypes_OtherMotion_UnmarshalJSON :: "rest_value \<Rightarrow> json \<Rightarrow> rest_value \<times> bool" where
  "DeviceLegacySettings_CvSettings_DetectionTypes_OtherMotion_UnmarshalJSON = rest_unmarshal DeviceLegacySettings_CvSettings_DetectionTypes_OtherMotion_model"

lemma DeviceLegacySettings_CvSettings_DetectionTypes_OtherMotion_wf [rest_wf_models]: "rest_wf DeviceLegacySettings_CvSettings_DetectionTypes_OtherMotion_model"
  by (simp add: DeviceLegacySettings_CvSettings_DetectionTypes_OtherMotion_model_def rest_names_def rest_wf_models)

definition DeviceLegacySettings_CvSettings_DetectionTypes_PackageDelivery_model :: rest_type where
  "DeviceLegacySettings_CvSettings_DetectionTypes_PackageDelivery_model = RStruct
     [(''enabled'', True, RPtr (RPlain TBool)),
      (''mode'', True, RPtr (RPlain TString)),
      (''notification'', True, RPtr (RPlain TBool)),
      (''record'', True, RPtr (RPlain TBool))]"

definition DeviceLegacySettings_CvSettings_DetectionTypes_PackageDelivery_MarshalJSON :: "rest_value \<Rightarrow> json" where
  "DeviceLegacySettings_CvSettings_DetectionTypes_PackageDelivery_MarshalJSON = rest_marshal DeviceLegacySettings_CvSettings_DetectionTypes_PackageDelivery_model"

definition DeviceLegacySettings_CvSettings_DetectionTypes_PackageDelivery_UnmarshalJSON :: "rest_value \<Rightarrow> json \<Rightarrow> rest_value \<times> bool" where
  "DeviceLegacySettings_CvSettings_DetectionTypes_PackageDelivery_UnmarshalJSON = rest_unmarshal DeviceLegacySettings_CvSettings_DetectionTypes_PackageDelivery_model"

lemma DeviceLegacySettings_CvSettings_DetectionTypes_PackageDelivery_wf [rest_wf_models]: "rest_wf DeviceLegacySettings_CvSettings_DetectionTypes_PackageDelivery_model"
  by (simp add: DeviceLegacySettings_CvSettings_DetectionTypes_PackageDelivery_model_def rest_names_def rest_wf_models)

definition DeviceLegacySettings_CvSettings_DetectionTypes_PackagePickup_model :: rest_type where
  "DeviceLegacySettings_CvSettings_DetectionTypes_PackagePickup_model = RStruct
     [(''enabled'', True, RPtr (RPlain TBool)),
      (''mode'', True, RPtr (RPlain TString)),
      (''notification'', True, RPtr (RPlain TBool)),
      (''record'', True, RPtr (RPlain TBool))]"

definition DeviceLegacySettings_CvSettings_DetectionTypes_PackagePickup_MarshalJSON :: "rest_value \<Rightarrow> json" where
  "DeviceLegacySettings_CvSettings_DetectionTypes_PackagePickup_MarshalJSON = rest_marshal DeviceLegacySettings_CvSettings_DetectionTypes_PackagePickup_model"

definition DeviceLegacySettings_CvSettings_DetectionTypes_PackagePickup_UnmarshalJSON :: "rest_value \<Rightarrow> json \<Rightarrow> rest_value \<times> bool" where
  "DeviceLegacySettings_CvSettings_DetectionTypes_PackagePickup_UnmarshalJSON = rest_unmarshal DeviceLegacySettings_CvSettings_DetectionTypes_PackagePickup_model"

lemma DeviceLegacySettings_CvSettings_DetectionTypes_PackagePickup_wf [rest_wf_models]: "rest_wf DeviceLegacySettings_CvSettings_DetectionTypes_PackagePickup_model"
  by (simp add: DeviceLegacySettings_CvSettings_DetectionTypes_PackagePickup_model_def rest_names_def rest_wf_models)

definition DeviceLegacySettings_CvSettings_DetectionTypes_UnverifiedMotion_model :: rest_type where
  "DeviceLegacySettings_CvSettings_DetectionTypes_UnverifiedMotion_model = RStruct
     [(''enabled'', True, RPtr (RPlain TBool)),
      (''mode'', True, RPtr (RPlain TString)),
      (''notification'', True, RPtr (RPlain TBool)),
      (''record'', True, RPtr (RPlain TBool))]"

definition DeviceLegacySettings_CvSettings_DetectionTypes_UnverifiedMotion_MarshalJSON :: "rest_value \<Rightarrow> json" where
  "DeviceLegacySettings_CvSettings_DetectionTypes_UnverifiedMotion_MarshalJSON = rest_marshal DeviceLegacySettings_CvSettings_DetectionTypes_UnverifiedMotion_model"

definition DeviceLegacySettings_CvSettings_DetectionTypes_UnverifiedMotion_UnmarshalJSON :: "rest_value \<Rightarrow> json \<Rightarrow> rest_value \<times> bool" where
  "DeviceLegacySettings_CvSettings_DetectionTypes_UnverifiedMotion_UnmarshalJSON = rest_unmarshal DeviceLegacySettings_CvSettings_DetectionTypes_UnverifiedMotion_model"

lemma DeviceLegacySettings_CvSettings_DetectionTypes_UnverifiedMotion_wf [rest_wf_models]: "rest_wf DeviceLegacySettings_CvSettings_DetectionTypes_UnverifiedMotion_model"
  by (simp add: DeviceLegacySettings_CvSettings_DetectionTypes_UnverifiedMotion_model_def rest_names_def rest_wf_models)

definition DeviceLegacySettings_CvSettings_DetectionTypes_Vehicle_model :: rest_type where
  "DeviceLegacySettings_CvSettings_DetectionTypes_Vehicle_model = RStruct
     [(''enabled'', True, RPtr (RPlain TBool)),
      (''mode'', True, RPtr (RPlain TString)),
      (''notification'', True, RPtr (RPlain TBool)),
      (''record'', True, RPtr (RPlain TBool))]"

definition DeviceLegacySettings_CvSettings_DetectionTypes_Vehicle_MarshalJSON :: "rest_value \<Rightarrow> json" where
  "DeviceLegacySettings_CvSettings_DetectionTypes_Vehicle_MarshalJSON = rest_marshal DeviceLegacySettings_CvSettings_DetectionTypes_Vehicle_model"

definition DeviceLegacySettings_CvSettings_DetectionTypes_Vehicle_UnmarshalJSON :: "rest_value \<Rightarrow> json \<Rightarrow> rest_value \<times> bool" where
  "DeviceLegacySettings_CvSettings_DetectionTypes_Vehicle_UnmarshalJSON = rest_unmarshal DeviceLegacySettings_CvSettings_DetectionTypes_Vehicle_model"

lemma DeviceLegacySettings_CvSettings_DetectionTypes_Vehicle_wf [rest_wf_models]: "rest_wf DeviceLegacySettings_CvSettings_DetectionTypes_Vehicle_model"
  by (simp add: DeviceLegacySettings_CvSettings_DetectionTypes_Vehicle_model_def rest_names_def rest_wf_models)

definition DeviceLegacySettings_CvSettings_DetectionTypes_model :: rest_type where
  "DeviceLegacySettings_CvSettings_DetectionTypes_model = RStruct
     [(''animal'', True, RPtr DeviceLegacySettings_CvSettings_DetectionTypes_Animal_model),
      (''baby_cry'', True, RPtr DeviceLegacySettings_CvSettings_DetectionTypes_BabyCry_model),
      (''car_alarm'', True, RPtr DeviceLegacySettings_CvSettings_DetectionTypes_CarAlarm_model),
      (''co2_smoke_alarm'', True, RPtr DeviceLegacySettings_CvSettings_DetectionTypes_Co2SmokeAlarm_model),
      (''dog_bark'', True, RPtr DeviceLegacySettings_CvSettings_DetectionTypes_DogBark_model),
      (''general_sound'', True, RPtr DeviceLegacySettings_CvSettings_DetectionTypes_GeneralSound_model),
      (''glass_break'', True, RPtr DeviceLegacySettings_CvSettings_DetectionTypes_GlassBreak_model),
      (''human'', True, RPtr DeviceLegacySettings_CvSettings_DetectionTypes_Human_model),
      (''loitering'', True, RPtr DeviceLegacySettings_CvSettings_DetectionTypes_Loitering_model),
      (''motion'', True, RPtr DeviceLegacySettings_CvSettings_DetectionTypes_Motion_model),
      (''motion_stop'', True, RPtr DeviceLegacySettings_CvSettings_DetectionTypes_MotionStop_model),
      (''moving_vehicle'', True, RPtr DeviceLegacySettings_CvSettings_DetectionTypes_MovingVehicle_model),
      (''other_motion'', True, RPtr DeviceLegacySettings_CvSettings_DetectionTypes_OtherMotion_model),
      (''package_delivery'', True, RPtr DeviceLegacySettings_CvSettings_DetectionTypes_PackageDelivery_model),
      (''package_pickup'', True, RPtr DeviceLegacySettings_CvSettings_DetectionTypes_PackagePickup_model),
      (''unverified_motion'', True, RPtr DeviceLegacySettings_CvSettings_DetectionTypes_UnverifiedMotion_model),
      (''vehicle'', True, RPtr DeviceLegacySettings_CvSettings_DetectionTypes_Vehicle_model)]"

definition DeviceLegacySettings_CvSettings_DetectionTypes_MarshalJSON :: "rest_value \<Rightarrow> json" where
  "DeviceLegacySettings_CvSettings_DetectionTypes_MarshalJSON = rest_marshal DeviceLegacySettings_CvSettings_DetectionTypes_model"

definition DeviceLegacySettings_CvSettings_DetectionTypes_UnmarshalJSON :: "rest_value \<Rightarrow> json \<Rightarrow> rest_value \<times> bool" where
  "DeviceLegacySettings_CvSettings_DetectionTypes_UnmarshalJSON = rest_unmarshal DeviceLegacySettings_CvSettings_DetectionTypes_model"

lemma DeviceLegacySettings_CvSettings_DetectionTypes_wf [rest_wf_models]: "rest_wf DeviceLegacySettings_CvSettings_DetectionTypes_model"
  by (simp add: DeviceLegacySettings_CvSettings_DetectionTypes_model_def rest_names_def rest_wf_models)

definition DeviceLegacySettings_CvSettings_SearchTypes_NaturalLanguageSearch_model :: rest_type where
  "DeviceLegacySettings_CvSettings_SearchTypes_NaturalLanguageSearch_model = RStruct
     [(''enabled'', True, RPtr (RPlain TBool)),
      (''mode'', True, RPtr (RPlain TString))]"

definition DeviceLegacySettings_CvSettings_SearchTypes_NaturalLanguageSearch_MarshalJSON :: "rest_value \<Rightarrow> json" where
  "DeviceLegacySettings_CvSettings_SearchTypes_NaturalLanguageSearch_MarshalJSON = rest_marshal DeviceLegacySettings_CvSettings_SearchTypes_NaturalLanguageSearch_model"

definition DeviceLegacySettings_CvSettings_SearchTypes_NaturalLanguageSearch_UnmarshalJSON :: "rest_value \<Rightarrow> json \<Rightarrow> rest_value \<times> bool" where
  "DeviceLegacySettings_CvSettings_SearchTypes_NaturalLanguageSearch_UnmarshalJSON = rest_unmarshal DeviceLegacySettings_CvSettings_SearchTypes_NaturalLanguageSearch_model"

lemma DeviceLegacySettings_CvSettings_SearchTypes_NaturalLanguageSearch_wf [rest_wf_models]: "rest_wf DeviceLegacySettings_CvSettings_SearchTypes_NaturalLanguageSearch_model"
  by (simp add: DeviceLegacySettings_CvSettings_SearchTypes_NaturalLanguageSearch_model_def rest_names_def rest_wf_models)

definition DeviceLegacySettings_CvSettings_SearchTypes_model :: rest_type where
  "DeviceLegacySettings_CvSettings_SearchTypes_model = RStruct
     [(''natural_language_search'', True, RPtr DeviceLegacySettings_CvSettings_SearchTypes_NaturalLanguageSearch_model)]"

definition DeviceLegacySettings_CvSettings_SearchTypes_MarshalJSON :: "rest_value \<Rightarrow> json" where
  "DeviceLegacySettings_CvSettings_SearchTypes_MarshalJSON = rest_marshal DeviceLegacySettings_CvSettings_SearchTypes_model"

definition DeviceLegacySettings_CvSettings_SearchTypes_UnmarshalJSON :: "rest_value \<Rightarrow> json \<Rightarrow> rest_value \<times> bool" where
  "DeviceLegacySettings_CvSettings_SearchTypes_UnmarshalJSON = rest_unmarshal DeviceLegacySettings_CvSettings_SearchTypes_model"

lemma DeviceLegacySettings_CvSettings_SearchTypes_wf [rest_wf_models]: "rest_wf DeviceLegacySettings_CvSettings_SearchTypes_model"
  by (simp add: DeviceLegacySettings_CvSettings_SearchTypes_model_def rest_names_def rest_wf_models)

definition DeviceLegacySettings_CvSettings_Threshold_model :: rest_type where
  "DeviceLegacySettings_CvSettings_Threshold_model = RStruct
     [(''baby_cry'', True, RPtr RFloat32),
      (''car_alarm'', True, RPtr RFloat32),
      (''co2_smoke_alarm'', True, RPtr RFloat32),
      (''dog_bark'', True, RPtr RFloat32),
      (''general_sound'', True, RPtr RFloat32),
      (''glass_break'', True, RPtr RFloat32),
      (''loitering'', True, RPtr RFloat32),
      (''package_delivery'', True, RPtr RFloat32),
      (''unverified_motion'', True, RPtr RFloat32)]"

definition DeviceLegacySettings_CvSettings_Threshold_MarshalJSON :: "rest_value \<Rightarrow> json" where
  "DeviceLegacySettings_CvSettings_Threshold_MarshalJSON = rest_marshal DeviceLegacySettings_CvSettings_Threshold_model"

definition DeviceLegacySettings_CvSettings_Threshold_UnmarshalJSON :: "rest_value \<Rightarrow> json \<Rightarrow> rest_value \<times> bool" where
  "DeviceLegacySettings_CvSettings_Threshold_UnmarshalJSON = rest_unmarshal DeviceLegacySettings_CvSettings_Threshold_model"

lemma DeviceLegacySettings_CvSettings_Threshold_wf [rest_wf_models]: "rest_wf DeviceLegacySettings_CvSettings_Threshold_model"
  by (simp add: DeviceLegacySettings_CvSettings_Threshold_model_def rest_names_def rest_wf_models)

definition DeviceLegacySettings_CvSettings_model :: rest_type where
  "DeviceLegacySettings_CvSettings_model = RStruct
     [(''detection_types'', True, RPtr DeviceLegacySettings_CvSettings_DetectionTypes_model),
      (''search_types'', True, RPtr DeviceLegacySettings_CvSettings_SearchTypes_model),
      (''threshold'', True, RPtr DeviceLegacySettings_CvSettings_Threshold_model),
      (''triggers'', True, RPtr (RPlain (TSlice TAny)))]"

definition DeviceLegacySettings_CvSettings_MarshalJSON :: "rest_value \<Rightarrow> json" where
  "DeviceLegacySettings_CvSettings_MarshalJSON = rest_marshal DeviceLegacySettings_CvSettings_model"

definition DeviceLegacySettings_CvSettings_UnmarshalJSON :: "rest_value \<Rightarrow> json \<Rightarrow> rest_value \<times> bool" where
  "DeviceLegacySettings_CvSettings_UnmarshalJSON = rest_unmarshal DeviceLegacySettings_CvSettings_model"

lemma DeviceLegacySettings_CvSettings_wf [rest_wf_models]: "rest_wf DeviceLegacySettings_CvSettings_model"
  by (simp add: DeviceLegacySettings_CvSettings_model_def rest_names_def rest_wf_models)

definition DeviceLegacySettings_EnableVod_model :: rest_type where
  "DeviceLegacySettings_EnableVod_model = RUnion"

definition DeviceLegacySettings_EnableVod_MarshalJSON :: "rest_value \<Rightarrow> json" where
  "DeviceLegacySettings_EnableVod_MarshalJSON = rest_marshal DeviceLegacySettings_EnableVod_model"

definition DeviceLegacySettings_EnableVod_UnmarshalJSON :: "rest_value \<Rightarrow> json \<Rightarrow> rest_value \<times> bool" where
  "DeviceLegacySettings_EnableVod_UnmarshalJSON = rest_unmarshal DeviceLegacySettings_EnableVod_model"

lemma DeviceLegacySettings_EnableVod_wf [rest_wf_models]: "rest_wf DeviceLegacySettings_EnableVod_model"
  by (simp add: DeviceLegacySettings_EnableVod_model_def rest_names_def rest_wf_models)

definition DeviceLegacySettings_HybridMotionZones_AdvancedObjectSettings_HumanDetectionConfidence_model :: rest_type where
  "DeviceLegacySettings_HybridMotionZones_AdvancedObjectSettings_HumanDetectionConfidence_model = RStruct
     [(''day'', True, RPtr RFloat32),
      (''night'', True, RPtr RFloat32)]"

definition DeviceLegacySettings_HybridMotionZones_AdvancedObjectSettings_HumanDetectionConfidence_MarshalJSON :: "rest_value \<Rightarrow> json" where
  "DeviceLegacySettings_HybridMotionZones_AdvancedObjectSettings_HumanDetectionConfidence_MarshalJSON = rest_marshal DeviceLegacySettings_HybridMotionZones_AdvancedObjectSettings_HumanDetectionConfidence_model"

definition DeviceLegacySettings_HybridMotionZones_AdvancedObjectSettings_HumanDetectionConfidence_UnmarshalJSON :: "rest_value \<Rightarrow> json \<Rightarrow> rest_value \<times> bool" where
  "DeviceLegacySettings_HybridMotionZones_AdvancedObjectSettings_HumanDetectionConfidence_UnmarshalJSON = rest_unmarshal DeviceLegacySettings_HybridMotionZones_AdvancedObjectSettings_HumanDetectionConfidence_model"

lemma DeviceLegacySettings_HybridMotionZones_AdvancedObjectSettings_HumanDetectionConfidence_wf [rest_wf_models]: "rest_wf DeviceLegacySettings_HybridMotionZones_AdvancedObjectSettings_HumanDetectionConfidence_model"
  by (simp add: DeviceLegacySettings_HybridMotionZones_AdvancedObjectSettings_HumanDetectionConfidence_model_def rest_names_def rest_wf_models)

definition DeviceLegacySettings_HybridMotionZones_AdvancedObjectSettings_MotionZoneOverlap_model :: rest_type where
  "DeviceLegacySettings_HybridMotionZones_AdvancedObjectSettings_MotionZoneOverlap_model = RStruct
     [(''day'', True, RPtr RFloat32),
      (''night'', True, RPtr RFloat32)]"

definition DeviceLegacySettings_HybridMotionZones_AdvancedObjectSettings_MotionZoneOverlap_MarshalJSON :: "rest_value \<Rightarrow> json" where
  "DeviceLegacySettings_HybridMotionZones_AdvancedObjectSettings_MotionZoneOverlap_MarshalJSON = rest_marshal DeviceLegacySettings_HybridMotionZones_AdvancedObjectSettings_MotionZoneOverlap_model"

definition DeviceLegacySettings_HybridMotionZones_AdvancedObjectSettings_MotionZoneOverlap_UnmarshalJSON :: "rest_value \<Rightarrow> json \<Rightarrow> rest_value \<times> bool" where
  "DeviceLegacySettings_HybridMotionZones_AdvancedObjectSettings_MotionZoneOverlap_UnmarshalJSON = rest_unmarshal DeviceLegacySettings_HybridMotionZones_AdvancedObjectSettings_MotionZoneOverlap_model"

lemma DeviceLegacySettings_HybridMotionZones_AdvancedObjectSettings_MotionZoneOverlap_wf [rest_wf_models]: "rest_wf DeviceLegacySettings_HybridMotionZones_AdvancedObjectSettings_MotionZoneOverlap_model"
  by (simp add: DeviceLegacySettings_HybridMotionZones_AdvancedObjectSettings_MotionZoneOverlap_model_def rest_names_def rest_wf_models)

definition DeviceLegacySettings_HybridMotionZones_AdvancedObjectSettings_ObjectSizeMaximum_model :: rest_type where
  "DeviceLegacySettings_HybridMotionZones_AdvancedObjectSettings_ObjectSizeMaximum_model = RStruct
     [(''day'', True, RPtr RFloat32),
      (''night'', True, RPtr RFloat32)]"

definition DeviceLegacySettings_HybridMotionZones_AdvancedObjectSettings_ObjectSizeMaximum_MarshalJSON :: "rest_value \<Rightarrow> json" where
  "DeviceLegacySettings_HybridMotionZones_AdvancedObjectSettings_ObjectSizeMaximum_MarshalJSON = rest_marshal DeviceLegacySettings_HybridMotionZones_AdvancedObjectSettings_ObjectSizeMaximum_model"

definition DeviceLegacySettings_HybridMotionZones_AdvancedObjectSettings_ObjectSizeMaximum_UnmarshalJSON :: "rest_value \<Rightarrow> json \<Rightarrow> rest_value \<times> bool" where
  "DeviceLegacySettings_HybridMotionZones_AdvancedObjectSettings_ObjectSizeMaximum_UnmarshalJSON = rest_unmarshal DeviceLegacySettings_HybridMotionZones_AdvancedObjectSettings_ObjectSizeMaximum_model"

lemma DeviceLegacySettings_HybridMotionZones_AdvancedObjectSettings_ObjectSizeMaximum_wf [rest_wf_models]: "rest_wf DeviceLegacySettings_HybridMotionZones_AdvancedObjectSettings_ObjectSizeMaximum_model"
  by (simp add: DeviceLegacySettings_HybridMotionZones_AdvancedObjectSettings_ObjectSizeMaximum_model_def rest_names_def rest_wf_models)

definition DeviceLegacySettings_HybridMotionZones_AdvancedObjectSettings_ObjectSizeMinimum_model :: rest_type where
  "DeviceLegacySettings_HybridMotionZones_AdvancedObjectSettings_ObjectSizeMinimum_model = RStruct
     [(''day'', True, RPtr RFloat32),
      (''night'', True, RPtr RFloat32)]"

definition DeviceLegacySettings_HybridMotionZones_AdvancedObjectSettings_ObjectSizeMinimum_MarshalJSON :: "rest_value \<Rightarrow> json" where
  "DeviceLegacySettings_HybridMotionZones_AdvancedObjectSettings_ObjectSizeMinimum_MarshalJSON = rest_marshal DeviceLegacySettings_HybridMotionZones_AdvancedObjectSettings_ObjectSizeMinimum_model"

definition DeviceLegacySettings_HybridMotionZones_AdvancedObjectSettings_ObjectSizeMinimum_UnmarshalJSON :: "rest_value \<Rightarrow> json \<Rightarrow> rest_value \<times> bool" where
  "DeviceLegacySettings_HybridMotionZones_AdvancedObjectSettings_ObjectSizeMinimum_UnmarshalJSON = rest_unmarshal DeviceLegacySettings_HybridMotionZones_AdvancedObjectSettings_ObjectSizeMinimum_model"

lemma DeviceLegacySettings_HybridMotionZones_AdvancedObjectSettings_ObjectSizeMinimum_wf [rest_wf_models]: "rest_wf DeviceLegacySettings_HybridMotionZones_AdvancedObjectSettings_ObjectSizeMinimum_model"
  by (simp add: DeviceLegacySettings_HybridMotionZones_AdvancedObjectSettings_ObjectSizeMinimum_model_def rest_names_def rest_wf_models)

definition DeviceLegacySettings_HybridMotionZones_AdvancedObjectSettings_ObjectTimeOverlap_model :: rest_type where
  "DeviceLegacySettings_HybridMotionZones_AdvancedObjectSettings_ObjectTimeOverlap_model = RStruct
     [(''day'', True, RPtr RFloat32),
      (''night'', True, RPtr RFloat32)]"

definition DeviceLegacySettings_HybridMotionZones_AdvancedObjectSettings_ObjectTimeOverlap_MarshalJSON :: "rest_value \<Rightarrow> json" where
  "DeviceLegacySettings_HybridMotionZones_AdvancedObjectSettings_ObjectTimeOverlap_MarshalJSON = rest_marshal DeviceLegacySettings_HybridMotionZones_AdvancedObjectSettings_ObjectTimeOverlap_model"

definition DeviceLegacySettings_HybridMotionZones_AdvancedObjectSettings_ObjectTimeOverlap_UnmarshalJSON :: "rest_value \<Rightarrow> json \<Rightarrow> rest_value \<times> bool" where
  "DeviceLegacySettings_HybridMotionZones_AdvancedObjectSettings_ObjectTimeOverlap_UnmarshalJSON = rest_unmarshal DeviceLegacySettings_HybridMotionZones_AdvancedObjectSettings_ObjectTimeOverlap_model"

lemma DeviceLegacySettings_HybridMotionZones_AdvancedObjectSettings_ObjectTimeOverlap_wf [rest_wf_models]: "rest_wf DeviceLegacySettings_HybridMotionZones_AdvancedObjectSettings_ObjectTimeOverlap_model"
  by (simp add: DeviceLegacySettings_HybridMotionZones_AdvancedObjectSettings_ObjectTimeOverlap_model_def rest_names_def rest_wf_models)

definition DeviceLegacySettings_HybridMotionZones_AdvancedObjectSettings_model :: rest_type where
  "DeviceLegacySettings_HybridMotionZones_AdvancedObjectSettings_model = RStruct
     [(''human_detection_confidence'', True, RPtr DeviceLegacySettings_HybridMotionZones_AdvancedObjectSettings_HumanDetectionConfidence_model),
      (''motion_zone_overlap'', True, RPtr DeviceLegacySettings_HybridMotionZones_AdvancedObjectSettings_MotionZoneOverlap_model),
      (''object_size_maximum'', True, RPtr DeviceLegacySettings_HybridMotionZones_AdvancedObjectSettings_ObjectSizeMaximum_model),
      (''object_size_minimum'', True, RPtr DeviceLegacySettings_HybridMotionZones_AdvancedObjectSettings_ObjectSizeMinimum_model),
      (''object_time_overlap'', True, RPtr DeviceLegacySettings_HybridMotionZones_AdvancedObjectSettings_ObjectTimeOverlap_model)]"

definition DeviceLegacySettings_HybridMotionZones_AdvancedObjectSettings_MarshalJSON :: "rest_value \<Rightarrow> json" where
  "DeviceLegacySettings_HybridMotionZones_AdvancedObjectSettings_MarshalJSON = rest_marshal DeviceLegacySettings_HybridMotionZones_AdvancedObjectSettings_model"

definition DeviceLegacySettings_HybridMotionZones_AdvancedObjectSettings_UnmarshalJSON :: "rest_value \<Rightarrow> json \<Rightarrow> rest_value \<times> bool" where
  "DeviceLegacySettings_HybridMotionZones_AdvancedObjectSettings_UnmarshalJSON = rest_unmarshal DeviceLegacySettings_HybridMotionZones_AdvancedObjectSettings_model"

lemma DeviceLegacySettings_HybridMotionZones_AdvancedObjectSettings_wf [rest_wf_models]: "rest_wf DeviceLegacySettings_HybridMotionZones_AdvancedObjectSettings_model"
  by (simp add: DeviceLegacySettings_HybridMotionZones_AdvancedObjectSettings_model_def rest_names_def rest_wf_models)

definition DeviceLegacySettings_HybridMotionZones_AdvancedPirMotionZones_model :: rest_type where
  "DeviceLegacySettings_HybridMotionZones_AdvancedPirMotionZones_model = RStruct
     [(''zone1_sensitivity'', True, RPtr (RPlain TInt)),
      (''zone2_sensitivity'', True, RPtr (RPlain TInt)),
      (''zone3_sensitivity'', True, RPtr (RPlain TInt)),
      (''zone4_sensitivity'', True, RPtr (RPlain TInt)),
      (''zone5_sensitivity'', True, RPtr (RPlain TInt)),
      (''zone6_sensitivity'', True, RPtr (RPlain TInt))]"

definition DeviceLegacySettings_HybridMotionZones_AdvancedPirMotionZones_MarshalJSON :: "rest_value \<Rightarrow> json" where
  "DeviceLegacySettings_HybridMotionZones_AdvancedPirMotionZones_MarshalJSON = rest_marshal DeviceLegacySettings_HybridMotionZones_AdvancedPirMotionZones_model"

definition DeviceLegacySettings_HybridMotionZones_AdvancedPirMotionZones_UnmarshalJSON :: "rest_value \<Rightarrow> json \<Rightarrow> rest_value \<times> bool" where
  "DeviceLegacySettings_HybridMotionZones_AdvancedPirMotionZones_UnmarshalJSON = rest_unmarshal DeviceLegacySettings_HybridMotionZones_AdvancedPirMotionZones_model"

lemma DeviceLegacySettings_HybridMotionZones_AdvancedPirMotionZones_wf [rest_wf_models]: "rest_wf DeviceLegacySettings_HybridMotionZones_AdvancedPirMotionZones_model"
  by (simp add: DeviceLegacySettings_HybridMotionZones_AdvancedPirMotionZones_model_def rest_names_def rest_wf_models)

definition DeviceLegacySettings_HybridMotionZones_Zone1_Vertex1_model :: rest_type where
  "DeviceLegacySettings_HybridMotionZones_Zone1_Vertex1_model = RStruct
     [(''x'', True, RPtr (RPlain TInt)),
      (''y'', True, RPtr (RPlain TInt))]"

definition DeviceLegacySettings_HybridMotionZones_Zone1_Vertex1_MarshalJSON :: "rest_value \<Rightarrow> json" where
  "DeviceLegacySettings_HybridMotionZones_Zone1_Vertex1_MarshalJSON = rest_marshal DeviceLegacySettings_HybridMotionZones_Zone1_Vertex1_model"

definition DeviceLegacySettings_HybridMotionZones_Zone1_Vertex1_UnmarshalJSON :: "rest_value \<Rightarrow> json \<Rightarrow> rest_value \<times> bool" where
  "DeviceLegacySettings_HybridMotionZones_Zone1_Vertex1_UnmarshalJSON = rest_unmarshal DeviceLegacySettings_HybridMotionZones_Zone1_Vertex1_model"

lemma DeviceLegacySettings_HybridMotionZones_Zone1_Vertex1_wf [rest_wf_models]: "rest_wf DeviceLegacySettings_HybridMotionZones_Zone1_Vertex1_model"
  by (simp add: DeviceLegacySettings_HybridMotionZones_Zone1_Vertex1_model_def rest_names_def rest_wf_models)

definition DeviceLegacySettings_HybridMotionZones_Zone1_Vertex2_model :: rest_type where
  "DeviceLegacySettings_HybridMotionZones_Zone1_Vertex2_model = RStruct
     [(''x'', True, RPtr RFloat32),
      (''y'', True, RPtr (RPlain TInt))]"

definition DeviceLegacySettings_HybridMotionZones_Zone1_Vertex2_MarshalJSON :: "rest_value \<Rightarrow> json" where
  "DeviceLegacySettings_HybridMotionZones_Zone1_Vertex2_MarshalJSON = rest_marshal DeviceLegacySettings_HybridMotionZones_Zone1_Vertex2_model"

definition DeviceLegacySettings_HybridMotionZones_Zone1_Vertex2_UnmarshalJSON :: "rest_value \<Rightarrow> json \<Rightarrow> rest_value \<times> bool" where
  "DeviceLegacySettings_HybridMotionZones_Zone1_Vertex2_UnmarshalJSON = rest_unmarshal DeviceLegacySettings_HybridMotionZones_Zone1_Vertex2_model"

lemma DeviceLegacySettings_HybridMotionZones_Zone1_Vertex2_wf [rest_wf_models]: "rest_wf DeviceLegacySettings_HybridMotionZones_Zone1_Vertex2_model"
  by (simp add: DeviceLegacySettings_HybridMotionZones_Zone1_Vertex2_model_def rest_names_def rest_wf_models)

definition DeviceLegacySettings_HybridMotionZones_Zone1_Vertex3_model :: rest_type where
  "DeviceLegacySettings_HybridMotionZones_Zone1_Vertex3_model = RStruct
     [(''x'', True, RPtr (RPlain TInt)),
      (''y'', True, RPtr (RPlain TInt))]"

definition DeviceLegacySettings_HybridMotionZones_Zone1_Vertex3_MarshalJSON :: "rest_value \<Rightarrow> json" where
  "DeviceLegacySettings_HybridMotionZones_Zone1_Vertex3_MarshalJSON = rest_marshal DeviceLegacySettings_HybridMotionZones_Zone1_Vertex3_model"

definition DeviceLegacySettings_HybridMotionZones_Zone1_Vertex3_UnmarshalJSON :: "rest_value \<Rightarrow> json \<Rightarrow> rest_value \<times> bool" where
  "DeviceLegacySettings_HybridMotionZones_Zone1_Vertex3_UnmarshalJSON = rest_unmarshal DeviceLegacySettings_HybridMotionZones_Zone1_Vertex3_model"

lemma DeviceLegacySettings_HybridMotionZones_Zone1_Vertex3_wf [rest_wf_models]: "rest_wf DeviceLegacySettings_HybridMotionZones_Zone1_Vertex3_model"
  by (simp add: DeviceLegacySettings_HybridMotionZones_Zone1_Vertex3_model_def rest_names_def rest_wf_models)

definition DeviceLegacySettings_HybridMotionZones_Zone1_Vertex4_model :: rest_type where
  "DeviceLegacySettings_HybridMotionZones_Zone1_Vertex4_model = RStruct
     [(''x'', True, RPtr (RPlain TInt)),
      (''y'', True, RPtr RFloat32)]"

definition DeviceLegacySettings_HybridMotionZones_Zone1_Vertex4_MarshalJSON :: "rest_value \<Rightarrow> json" where
  "DeviceLegacySettings_HybridMotionZones_Zone1_Vertex4_MarshalJSON = rest_marshal DeviceLegacySettings_HybridMotionZones_Zone1_Vertex4_model"

definition DeviceLegacySettings_HybridMotionZones_Zone1_Vertex4_UnmarshalJSON :: "rest_value \<Rightarrow> json \<Rightarrow> rest_value \<times> bool" where
  "DeviceLegacySettings_HybridMotionZones_Zone1_Vertex4_UnmarshalJSON = rest_unmarshal DeviceLegacySettings_HybridMotionZones_Zone1_Vertex4_model"

lemma DeviceLegacySettings_HybridMotionZones_Zone1_Vertex4_wf [rest_wf_models]: "rest_wf DeviceLegacySettings_HybridMotionZones_Zone1_Vertex4_model"
  by (simp add: DeviceLegacySettings_HybridMotionZones_Zone1_Vertex4_model_def rest_names_def rest_wf_models)

definition DeviceLegacySettings_HybridMotionZones_Zone1_Vertex5_model :: rest_type where
  "DeviceLegacySettings_HybridMotionZones_Zone1_Vertex5_model = RStruct
     [(''x'', True, RPtr (RPlain TInt)),
      (''y'', True, RPtr (RPlain TInt))]"

definition DeviceLegacySettings_HybridMotionZones_Zone1_Vertex5_MarshalJSON :: "rest_value \<Rightarrow> json" where
  "DeviceLegacySettings_HybridMotionZones_Zone1_Vertex5_MarshalJSON = rest_marshal DeviceLegacySettings_HybridMotionZones_Zone1_Vertex5_model"

definition DeviceLegacySettings_HybridMotionZones_Zone1_Vertex5_UnmarshalJSON :: "rest_value \<Rightarrow> json \<Rightarrow> rest_value \<times> bool" where
  "DeviceLegacySettings_HybridMotionZones_Zone1_Vertex5_UnmarshalJSON = rest_unmarshal DeviceLegacySettings_HybridMotionZones_Zone1_Vertex5_model"

lemma DeviceLegacySettings_HybridMotionZones_Zone1_Vertex5_wf [rest_wf_models]: "rest_wf DeviceLegacySettings_HybridMotionZones_Zone1_Vertex5_model"
  by (simp add: DeviceLegacySettings_HybridMotionZones_Zone1_Vertex5_model_def rest_names_def rest_wf_models)

definition DeviceLegacySettings_HybridMotionZones_Zone1_Vertex6_model :: rest_type where
  "DeviceLegacySettings_HybridMotionZones_Zone1_Vertex6_model = RStruct
     [(''x'', True, RPtr RFloat32),
      (''y'', True, RPtr (RPlain TInt))]"

definition DeviceLegacySettings_HybridMotionZones_Zone1_Vertex6_MarshalJSON :: "rest_value \<Rightarrow> json" where
  "DeviceLegacySettings_HybridMotionZones_Zone1_Vertex6_MarshalJSON = rest_marshal DeviceLegacySettings_HybridMotionZones_Zone1_Vertex6_model"

definition DeviceLegacySettings_HybridMotionZones_Zone1_Vertex6_UnmarshalJSON :: "rest_value \<Rightarrow> json \<Rightarrow> rest_value \<times> bool" where
  "DeviceLegacySettings_HybridMotionZones_Zone1_Vertex6_UnmarshalJSON = rest_unmarshal DeviceLegacySettings_HybridMotionZones_Zone1_Vertex6_model"

lemma DeviceLegacySettings_HybridMotionZones_Zone1_Vertex6_wf [rest_wf_models]: "rest_wf DeviceLegacySettings_HybridMotionZones_Zone1_Vertex6_model"
  by (simp add: DeviceLegacySettings_HybridMotionZones_Zone1_Vertex6_model_def rest_names_def rest_wf_models)

definition DeviceLegacySettings_HybridMotionZones_Zone1_Vertex7_model :: rest_type where
  "DeviceLegacySettings_HybridMotionZones_Zone1_Vertex7_model = RStruct
     [(''x'', True, RPtr (RPlain TInt)),
      (''y'', True, RPtr (RPlain TInt))]"

definition DeviceLegacySettings_HybridMotionZones_Zone1_Vertex7_MarshalJSON :: "rest_value \<Rightarrow> json" where
  "DeviceLegacySettings_HybridMotionZones_Zone1_Vertex7_MarshalJSON = rest_marshal DeviceLegacySettings_HybridMotionZones_Zone1_Vertex7_model"

definition DeviceLegacySettings_HybridMotionZones_Zone1_Vertex7_UnmarshalJSON :: "rest_value \<Rightarrow> json \<Rightarrow> rest_value \<times> bool" where
  "DeviceLegacySettings_HybridMotionZones_Zone1_Vertex7_UnmarshalJSON = rest_unmarshal DeviceLegacySettings_HybridMotionZones_Zone1_Vertex7_model"

lemma DeviceLegacySettings_HybridMotionZones_Zone1_Vertex7_wf [rest_wf_models]: "rest_wf DeviceLegacySettings_HybridMotionZones_Zone1_Vertex7_model"
  by (simp add: DeviceLegacySettings_HybridMotionZones_Zone1_Vertex7_model_def rest_names_def rest_wf_models)

definition DeviceLegacySettings_HybridMotionZones_Zone1_Vertex8_model :: rest_type where
  "DeviceLegacySettings_HybridMotionZones_Zone1_Vertex8_model = RStruct
     [(''x'', True, RPtr (RPlain TInt)),
      (''y'', True, RPtr RFloat32)]"

definition DeviceLegacySettings_HybridMotionZones_Zone1_Vertex8_MarshalJSON :: "rest_value \<Rightarrow> json" where
  "DeviceLegacySettings_HybridMotionZones_Zone1_Vertex8_MarshalJSON = rest_marshal DeviceLegacySettings_HybridMotionZones_Zone1_Vertex8_model"

definition DeviceLegacySettings_HybridMotionZones_Zone1_Vertex8_UnmarshalJSON :: "rest_value \<Rightarrow> json \<Rightarrow> rest_value \<times> bool" where
  "DeviceLegacySettings_HybridMotionZones_Zone1_Vertex8_UnmarshalJSON = rest_unmarshal DeviceLegacySettings_HybridMotionZones_Zone1_Vertex8_model"

lemma DeviceLegacySettings_HybridMotionZones_Zone1_Vertex8_wf [rest_wf_models]: "rest_wf DeviceLegacySettings_HybridMotionZones_Zone1_Vertex8_model"
  by (simp add: DeviceLegacySettings_HybridMotionZones_Zone1_Vertex8_model_def rest_names_def rest_wf_models)

definition DeviceLegacySettings_HybridMotionZones_Zone1_model :: rest_type where
  "DeviceLegacySettings_HybridMotionZones_Zone1_model = RStruct
     [(''name'', True, RPtr (RPlain TString)),
      (''state'', True, RPtr (RPlain TInt)),
      (''vertex1'', True, RPtr DeviceLegacySettings_HybridMotionZones_Zone1_Vertex1_model),
      (''vertex2'', True, RPtr DeviceLegacySettings_HybridMotionZones_Zone1_Vertex2_model),
      (''vertex3'', True, RPtr DeviceLegacySettings_HybridMotionZones_Zone1_Vertex3_model),
      (''vertex4'', True, RPtr DeviceLegacySettings_HybridMotionZones_Zone1_Vertex4_model),
      (''vertex5'', True, RPtr DeviceLegacySettings_HybridMotionZones_Zone1_Vertex5_model),
      (''vertex6'', True, RPtr DeviceLegacySettings_HybridMotionZones_Zone1_Vertex6_model),
      (''vertex7'', True, RPtr DeviceLegacySettings_HybridMotionZones_Zone1_Vertex7_model),
      (''vertex8'', True, RPtr DeviceLegacySettings_HybridMotionZones_Zone1_Vertex8_model)]"

definition DeviceLegacySettings_HybridMotionZones_Zone1_MarshalJSON :: "rest_value \<Rightarrow> json" where
  "DeviceLegacySettings_HybridMotionZones_Zone1_MarshalJSON = rest_marshal DeviceLegacySettings_HybridMotionZones_Zone1_model"

definition DeviceLegacySettings_HybridMotionZones_Zone1_UnmarshalJSON :: "rest_value \<Rightarrow> json \<Rightarrow> rest_value \<times> bool" where
  "DeviceLegacySettings_HybridMotionZones_Zone1_UnmarshalJSON = rest_unmarshal DeviceLegacySettings_HybridMotionZones_Zone1_model"

lemma DeviceLegacySettings_HybridMotionZones_Zone1_wf [rest_wf_models]: "rest_wf DeviceLegacySettings_HybridMotionZones_Zone1_model"
  by (simp add: DeviceLegacySettings_HybridMotionZones_Zone1_model_def rest_names_def rest_wf_models)

definition DeviceLegacySettings_HybridMotionZones_Zone2_Vertex1_model :: rest_type where
  "DeviceLegacySettings_HybridMotionZones_Zone2_Vertex1_model = RStruct
     [(''x'', True, RPtr (RPlain TInt)),
      (''y'', True, RPtr (RPlain TInt))]"

definition DeviceLegacySettings_HybridMotionZones_Zone2_Vertex1_MarshalJSON :: "rest_value \<Rightarrow> json" where
  "DeviceLegacySettings_HybridMotionZones_Zone2_Vertex1_MarshalJSON = rest_marshal DeviceLegacySettings_HybridMotionZones_Zone2_Vertex1_model"

definition DeviceLegacySettings_HybridMotionZones_Zone2_Vertex1_UnmarshalJSON :: "rest_value \<Rightarrow> json \<Rightarrow> rest_value \<times> bool" where
  "DeviceLegacySettings_HybridMotionZones_Zone2_Vertex1_UnmarshalJSON = rest_unmarshal DeviceLegacySettings_HybridMotionZones_Zone2_Vertex1_model"

lemma DeviceLegacySettings_HybridMotionZones_Zone2_Vertex1_wf [rest_wf_models]: "rest_wf DeviceLegacySettings_HybridMotionZones_Zone2_Vertex1_model"
  by (simp add: DeviceLegacySettings_HybridMotionZones_Zone2_Vertex1_model_def rest_names_def rest_wf_models)

definition DeviceLegacySettings_HybridMotionZones_Zone2_Vertex2_model :: rest_type where
  "DeviceLegacySettings_HybridMotionZones_Zone2_Vertex2_model = RStruct
     [(''x'', True, RPtr (RPlain TInt)),
      (''y'', True, RPtr (RPlain TInt))]"

definition DeviceLegacySettings_HybridMotionZones_Zone2_Vertex2_MarshalJSON :: "rest_value \<Rightarrow> json" where
  "DeviceLegacySettings_HybridMotionZones_Zone2_Vertex2_MarshalJSON = rest_marshal DeviceLegacySettings_HybridMotionZones_Zone2_Vertex2_model"

definition DeviceLegacySettings_HybridMotionZones_Zone2_Vertex2_UnmarshalJSON :: "rest_value \<Rightarrow> json \<Rightarrow> rest_value \<times> bool" where
  "DeviceLegacySettings_HybridMotionZones_Zone2_Vertex2_UnmarshalJSON = rest_unmarshal DeviceLegacySettings_HybridMotionZones_Zone2_Vertex2_model"

lemma DeviceLegacySettings_HybridMotionZones_Zone2_Vertex2_wf [rest_wf_models]: "rest_wf DeviceLegacySettings_HybridMotionZones_Zone2_Vertex2_model"
  by (simp add: DeviceLegacySettings_HybridMotionZones_Zone2_Vertex2_model_def rest_names_def rest_wf_models)

definition DeviceLegacySettings_HybridMotionZones_Zone2_Vertex3_model :: rest_type where
  "DeviceLegacySettings_HybridMotionZones_Zone2_Vertex3_model = RStruct
     [(''x'', True, RPtr (RPlain TInt)),
      (''y'', True, RPtr (RPlain TInt))]"

definition DeviceLegacySettings_HybridMotionZones_Zone2_Vertex3_MarshalJSON :: "rest_value \<Rightarrow> json" where
  "DeviceLegacySettings_HybridMotionZones_Zone2_Vertex3_MarshalJSON = rest_marshal DeviceLegacySettings_HybridMotionZones_Zone2_Vertex3_model"

definition DeviceLegacySettings_HybridMotionZones_Zone2_Vertex3_UnmarshalJSON :: "rest_value \<Rightarrow> json \<Rightarrow> rest_value \<times> bool" where
  "DeviceLegacySettings_HybridMotionZones_Zone2_Vertex3_UnmarshalJSON = rest_unmarshal DeviceLegacySettings_HybridMotionZones_Zone2_Vertex3_model"

lemma DeviceLegacySettings_HybridMotionZones_Zone2_Vertex3_wf [rest_wf_models]: "rest_wf DeviceLegacySettings_HybridMotionZones_Zone2_Vertex3_model"
  by (simp add: DeviceLegacySettings_HybridMotionZones_Zone2_Vertex3_model_def rest_names_def rest_wf_models)

definition DeviceLegacySettings_HybridMotionZones_Zone2_Vertex4_model :: rest_type where
  "DeviceLegacySettings_HybridMotionZones_Zone2_Vertex4_model = RStruct
     [(''x'', True, RPtr (RPlain TInt)),
      (''y'', True, RPtr (RPlain TInt))]"

definition DeviceLegacySettings_HybridMotionZones_Zone2_Vertex4_MarshalJSON :: "rest_value \<Rightarrow> json" where
  "DeviceLegacySettings_HybridMotionZones_Zone2_Vertex4_MarshalJSON = rest_marshal DeviceLegacySettings_HybridMotionZones_Zone2_Vertex4_model"

definition DeviceLegacySettings_HybridMotionZones_Zone2_Vertex4_UnmarshalJSON :: "rest_value \<Rightarrow> json \<Rightarrow> rest_value \<times> bool" where
  "DeviceLegacySettings_HybridMotionZones_Zone2_Vertex4_UnmarshalJSON = rest_unmarshal DeviceLegacySettings_HybridMotionZones_Zone2_Vertex4_model"

lemma DeviceLegacySettings_HybridMotionZones_Zone2_Vertex4_wf [rest_wf_models]: "rest_wf DeviceLegacySettings_HybridMotionZones_Zone2_Vertex4_model"
  by (simp add: DeviceLegacySettings_HybridMotionZones_Zone2_Vertex4_model_def rest_names_def rest_wf_models)

definition DeviceLegacySettings_HybridMotionZones_Zone2_Vertex5_model :: rest_type where
  "DeviceLegacySettings_HybridMotionZones_Zone2_Vertex5_model = RStruct
     [(''x'', True, RPtr (RPlain TInt)),
      (''y'', True, RPtr (RPlain TInt))]"

definition DeviceLegacySettings_HybridMotionZones_Zone2_Vertex5_MarshalJSON :: "rest_value \<Rightarrow> json" where
  "DeviceLegacySettings_HybridMotionZones_Zone2_Vertex5_MarshalJSON = rest_marshal DeviceLegacySettings_HybridMotionZones_Zone2_Vertex5_model"

definition DeviceLegacySettings_HybridMotionZones_Zone2_Vertex5_UnmarshalJSON :: "rest_value \<Rightarrow> json \<Rightarrow> rest_value \<times> bool" where
  "DeviceLegacySettings_HybridMotionZones_Zone2_Vertex5_UnmarshalJSON = rest_unmarshal DeviceLegacySettings_HybridMotionZones_Zone2_Vertex5_model"

lemma DeviceLegacySettings_HybridMotionZones_Zone2_Vertex5_wf [rest_wf_models]: "rest_wf DeviceLegacySettings_HybridMotionZones_Zone2_Vertex5_model"
  by (simp add: DeviceLegacySettings_HybridMotionZones_Zone2_Vertex5_model_def rest_names_def rest_wf_models)

definition DeviceLegacySettings_HybridMotionZones_Zone2_Vertex6_model :: rest_type where
  "DeviceLegacySettings_HybridMotionZones_Zone2_Vertex6_model = RStruct
     [(''x'', True, RPtr (RPlain TInt)),
      (''y'', True, RPtr (RPlain TInt))]"

definition DeviceLegacySettings_HybridMotionZones_Zone2_Vertex6_MarshalJSON :: "rest_value \<Rightarrow> json" where
  "DeviceLegacySettings_HybridMotionZones_Zone2_Vertex6_MarshalJSON = rest_marshal DeviceLegacySettings_HybridMotionZones_Zone2_Vertex6_model"

definition DeviceLegacySettings_HybridMotionZones_Zone2_Vertex6_UnmarshalJSON :: "rest_value \<Rightarrow> json \<Rightarrow> rest_value \<times> bool" where
  "DeviceLegacySettings_HybridMotionZones_Zone2_Vertex6_UnmarshalJSON = rest_unmarshal DeviceLegacySettings_HybridMotionZones_Zone2_Vertex6_model"

lemma DeviceLegacySettings_HybridMotionZones_Zone2_Vertex6_wf [rest_wf_models]: "rest_wf DeviceLegacySettings_HybridMotionZones_Zone2_Vertex6_model"
  by (simp add: DeviceLegacySettings_HybridMotionZones_Zone2_Vertex6_model_def rest_names_def rest_wf_models)

definition DeviceLegacySettings_HybridMotionZones_Zone2_Vertex7_model :: rest_type where
  "DeviceLegacySettings_HybridMotionZones_Zone2_Vertex7_model = RStruct
     [(''x'', True, RPtr (RPlain TInt)),
      (''y'', True, RPtr (RPlain TInt))]"

definition DeviceLegacySettings_HybridMotionZones_Zone2_Vertex7_MarshalJSON :: "rest_value \<Rightarrow> json" where
  "DeviceLegacySettings_HybridMotionZones_Zone2_Vertex7_MarshalJSON = rest_marshal DeviceLegacySettings_HybridMotionZones_Zone2_Vertex7_model"

definition DeviceLegacySettings_HybridMotionZones_Zone2_Vertex7_UnmarshalJSON :: "rest_value \<Rightarrow> json \<Rightarrow> rest_value \<times> bool" where
  "DeviceLegacySettings_HybridMotionZones_Zone2_Vertex7_UnmarshalJSON = rest_unmarshal DeviceLegacySettings_HybridMotionZones_Zone2_Vertex7_model"

lemma DeviceLegacySettings_HybridMotionZones_Zone2_Vertex7_wf [rest_wf_models]: "rest_wf DeviceLegacySettings_HybridMotionZones_Zone2_Vertex7_model"
  by (simp add: DeviceLegacySettings_HybridMotionZones_Zone2_Vertex7_model_def rest_names_def rest_wf_models)

definition DeviceLegacySettings_HybridMotionZones_Zone2_Vertex8_model :: rest_type where
  "DeviceLegacySettings_HybridMotionZones_Zone2_Vertex8_model = RStruct
     [(''x'', True, RPtr (RPlain TInt)),
      (''y'', True, RPtr (RPlain TInt))]"

definition DeviceLegacySettings_HybridMotionZones_Zone2_Vertex8_MarshalJSON :: "rest_value \<Rightarrow> json" where
  "DeviceLegacySettings_HybridMotionZones_Zone2_Vertex8_MarshalJSON = rest_marshal DeviceLegacySettings_HybridMotionZones_Zone2_Vertex8_model"

definition DeviceLegacySettings_HybridMotionZones_Zone2_Vertex8_UnmarshalJSON :: "rest_value \<Rightarrow> json \<Rightarrow> rest_value \<times> bool" where
  "DeviceLegacySettings_HybridMotionZones_Zone2_Vertex8_UnmarshalJSON = rest_unmarshal DeviceLegacySettings_HybridMotionZones_Zone2_Vertex8_model"

lemma DeviceLegacySettings_HybridMotionZones_Zone2_Vertex8_wf [rest_wf_models]: "rest_wf DeviceLegacySettings_HybridMotionZones_Zone2_Vertex8_model"
  by (simp add: DeviceLegacySettings_HybridMotionZones_Zone2_Vertex8_model_def rest_names_def rest_wf_models)

definition DeviceLegacySettings_HybridMotionZones_Zone2_model :: rest_type where
  "DeviceLegacySettings_HybridMotionZones_Zone2_model = RStruct
     [(''name'', True, RPtr (RPlain TString)),
      (''state'', True, RPtr (RPlain TInt)),
      (''vertex1'', True, RPtr DeviceLegacySettings_HybridMotionZones_Zone2_Vertex1_model),
      (''vertex2'', True, RPtr DeviceLegacySettings_HybridMotionZones_Zone2_Vertex2_model),
      (''vertex3'', True, RPtr DeviceLegacySettings_HybridMotionZones_Zone2_Vertex3_model),
      (''vertex4'', True, RPtr DeviceLegacySettings_HybridMotionZones_Zone2_Vertex4_model),
      (''vertex5'', True, RPtr DeviceLegacySettings_HybridMotionZones_Zone2_Vertex5_model),
      (''vertex6'', True, RPtr DeviceLegacySettings_HybridMotionZones_Zone2_Vertex6_model),
      (''vertex7'', True, RPtr DeviceLegacySettings_HybridMotionZones_Zone2_Vertex7_model),
      (''vertex8'', True, RPtr DeviceLegacySettings_HybridMotionZones_Zone2_Vertex8_model)]"

definition DeviceLegacySettings_HybridMotionZones_Zone2_MarshalJSON :: "rest_value \<Rightarrow> json" where
  "DeviceLegacySettings_HybridMotionZones_Zone2_MarshalJSON = rest_marshal DeviceLegacySettings_HybridMotionZones_Zone2_model"

definition DeviceLegacySettings_HybridMotionZones_Zone2_UnmarshalJSON :: "rest_value \<Rightarrow> json \<Rightarrow> rest_value \<times> bool" where
  "DeviceLegacySettings_HybridMotionZones_Zone2_UnmarshalJSON = rest_unmarshal DeviceLegacySettings_HybridMotionZones_Zone2_model"

lemma DeviceLegacySettings_HybridMotionZones_Zone2_wf [rest_wf_models]: "rest_wf DeviceLegacySettings_HybridMotionZones_Zone2_model"
  by (simp add: DeviceLegacySettings_HybridMotionZones_Zone2_model_def rest_names_def rest_wf_models)

definition DeviceLegacySettings_HybridMotionZones_Zone3_Vertex1_model :: rest_type where
  "DeviceLegacySettings_HybridMotionZones_Zone3_Vertex1_model = RStruct
     [(''x'', True, RPtr (RPlain TInt)),
      (''y'', True, RPtr (RPlain TInt))]"

definition DeviceLegacySettings_HybridMotionZones_Zone3_Vertex1_MarshalJSON :: "rest_value \<Rightarrow> json" where
  "DeviceLegacySettings_HybridMotionZones_Zone3_Vertex1_MarshalJSON = rest_marshal DeviceLegacySettings_HybridMotionZones_Zone3_Vertex1_model"

definition DeviceLegacySettings_HybridMotionZones_Zone3_Vertex1_UnmarshalJSON :: "rest_value \<Rightarrow> json \<Rightarrow> rest_value \<times> bool" where
  "DeviceLegacySettings_HybridMotionZones_Zone3_Vertex1_UnmarshalJSON = rest_unmarshal DeviceLegacySettings_HybridMotionZones_Zone3_Vertex1_model"

lemma DeviceLegacySettings_HybridMotionZones_Zone3_Vertex1_wf [rest_wf_models]: "rest_wf DeviceLegacySettings_HybridMotionZones_Zone3_Vertex1_model"
  by (simp add: DeviceLegacySettings_HybridMotionZones_Zone3_Vertex1_model_def rest_names_def rest_wf_models)

definition DeviceLegacySettings_HybridMotionZones_Zone3_Vertex2_model :: rest_type where
  "DeviceLegacySettings_HybridMotionZones_Zone3_Vertex2_model = RStruct
     [(''x'', True, RPtr (RPlain TInt)),
      (''y'', True, RPtr (RPlain TInt))]"

definition DeviceLegacySettings_HybridMotionZones_Zone3_Vertex2_MarshalJSON :: "rest_value \<Rightarrow> json" where
  "DeviceLegacySettings_HybridMotionZones_Zone3_Vertex2_MarshalJSON = rest_marshal DeviceLegacySettings_HybridMotionZones_Zone3_Vertex2_model"

definition DeviceLegacySettings_HybridMotionZones_Zone3_Vertex2_UnmarshalJSON :: "rest_value \<Rightarrow> json \<Rightarrow> rest_value \<times> bool" where
  "DeviceLegacySettings_HybridMotionZones_Zone3_Vertex2_UnmarshalJSON = rest_unmarshal DeviceLegacySettings_HybridMotionZones_Zone3_Vertex2_model"

lemma DeviceLegacySettings_HybridMotionZones_Zone3_Vertex2_wf [rest_wf_models]: "rest_wf DeviceLegacySettings_HybridMotionZones_Zone3_Vertex2_model"
  by (simp add: DeviceLegacySettings_HybridMotionZones_Zone3_Vertex2_model_def rest_names_def rest_wf_models)

definition DeviceLegacySettings_HybridMotionZones_Zone3_Vertex3_model :: rest_type where
  "DeviceLegacySettings_HybridMotionZones_Zone3_Vertex3_model = RStruct
     [(''x'', True, RPtr (RPlain TInt)),
      (''y'', True, RPtr (RPlain TInt))]"

definition DeviceLegacySettings_HybridMotionZones_Zone3_Vertex3_MarshalJSON :: "rest_value \<Rightarrow> json" where
  "DeviceLegacySettings_HybridMotionZones_Zone3_Vertex3_MarshalJSON = rest_marshal DeviceLegacySettings_HybridMotionZones_Zone3_Vertex3_model"

definition DeviceLegacySettings_HybridMotionZones_Zone3_Vertex3_UnmarshalJSON :: "rest_value \<Rightarrow> json \<Rightarrow> rest_value \<times> bool" where
  "DeviceLegacySettings_HybridMotionZones_Zone3_Vertex3_UnmarshalJSON = rest_unmarshal DeviceLegacySettings_HybridMotionZones_Zone3_Vertex3_model"

lemma DeviceLegacySettings_HybridMotionZones_Zone3_Vertex3_wf [rest_wf_models]: "rest_wf DeviceLegacySettings_HybridMotionZones_Zone3_Vertex3_model"
  by (simp add: DeviceLegacySettings_HybridMotionZones_Zone3_Vertex3_model_def rest_names_def rest_wf_models)

definition DeviceLegacySettings_HybridMotionZones_Zone3_Vertex4_model :: rest_type where
  "DeviceLegacySettings_HybridMotionZones_Zone3_Vertex4_model = RStruct
     [(''x'', True, RPtr (RPlain TInt)),
      (''y'', True, RPtr (RPlain TInt))]"

definition DeviceLegacySettings_HybridMotionZones_Zone3_Vertex4_MarshalJSON :: "rest_value \<Rightarrow> json" where
  "DeviceLegacySettings_HybridMotionZones_Zone3_Vertex4_MarshalJSON = rest_marshal DeviceLegacySettings_HybridMotionZones_Zone3_Vertex4_model"

definition DeviceLegacySettings_HybridMotionZones_Zone3_Vertex4_UnmarshalJSON :: "rest_value \<Rightarrow> json \<Rightarrow> rest_value \<times> bool" where
  "DeviceLegacySettings_HybridMotionZones_Zone3_Vertex4_UnmarshalJSON = rest_unmarshal DeviceLegacySettings_HybridMotionZones_Zone3_Vertex4_model"

lemma DeviceLegacySettings_HybridMotionZones_Zone3_Vertex4_wf [rest_wf_models]: "rest_wf DeviceLegacySettings_HybridMotionZones_Zone3_Vertex4_model"
  by (simp add: DeviceLegacySettings_HybridMotionZones_Zone3_Vertex4_model_def rest_names_def rest_wf_models)

definition DeviceLegacySettings_HybridMotionZones_Zone3_Vertex5_model :: rest_type where
  "DeviceLegacySettings_HybridMotionZones_Zone3_Vertex5_model = RStruct
     [(''x'', True, RPtr (RPlain TInt)),
      (''y'', True, RPtr (RPlain TInt))]"

definition DeviceLegacySettings_HybridMotionZones_Zone3_Vertex5_MarshalJSON :: "rest_value \<Rightarrow> json" where
  "DeviceLegacySettings_HybridMotionZones_Zone3_Vertex5_MarshalJSON = rest_marshal DeviceLegacySettings_HybridMotionZones_Zone3_Vertex5_model"

definition DeviceLegacySettings_HybridMotionZones_Zone3_Vertex5_UnmarshalJSON :: "rest_value \<Rightarrow> json \<Rightarrow> rest_value \<times> bool" where
  "DeviceLegacySettings_HybridMotionZones_Zone3_Vertex5_UnmarshalJSON = rest_unmarshal DeviceLegacySettings_HybridMotionZones_Zone3_Vertex5_model"

lemma DeviceLegacySettings_HybridMotionZones_Zone3_Vertex5_wf [rest_wf_models]: "rest_wf DeviceLegacySettings_HybridMotionZones_Zone3_Vertex5_model"
  by (simp add: DeviceLegacySettings_HybridMotionZones_Zone3_Vertex5_model_def rest_names_def rest_wf_models)

definition DeviceLegacySettings_HybridMotionZones_Zone3_Vertex6_model :: rest_type where
  "DeviceLegacySettings_HybridMotionZones_Zone3_Vertex6_model = RStruct
     [(''x'', True, RPtr (RPlain TInt)),
      (''y'', True, RPtr (RPlain TInt))]"

definition DeviceLegacySettings_HybridMotionZones_Zone3_Vertex6_MarshalJSON :: "rest_value \<Rightarrow> json" where
  "DeviceLegacySettings_HybridMotionZones_Zone3_Vertex6_MarshalJSON = rest_marshal DeviceLegacySettings_HybridMotionZones_Zone3_Vertex6_model"

definition DeviceLegacySettings_HybridMotionZones_Zone3_Vertex6_UnmarshalJSON :: "rest_value \<Rightarrow> json \<Rightarrow> rest_value \<times> bool" where
  "DeviceLegacySettings_HybridMotionZones_Zone3_Vertex6_UnmarshalJSON = rest_unmarshal DeviceLegacySettings_HybridMotionZones_Zone3_Vertex6_model"

lemma DeviceLegacySettings_HybridMotionZones_Zone3_Vertex6_wf [rest_wf_models]: "rest_wf DeviceLegacySettings_HybridMotionZones_Zone3_Vertex6_model"
  by (simp add: DeviceLegacySettings_HybridMotionZones_Zone3_Vertex6_model_def rest_names_def rest_wf_models)

definition DeviceLegacySettings_HybridMotionZones_Zone3_Vertex7_model :: rest_type where
  "DeviceLegacySettings_HybridMotionZones_Zone3_Vertex7_model = RStruct
     [(''x'', True, RPtr (RPlain TInt)),
      (''y'', True, RPtr (RPlain TInt))]"

definition DeviceLegacySettings_HybridMotionZones_Zone3_Vertex7_MarshalJSON :: "rest_value \<Rightarrow> json" where
  "DeviceLegacySettings_HybridMotionZones_Zone3_Vertex7_MarshalJSON = rest_marshal DeviceLegacySettings_HybridMotionZones_Zone3_Vertex7_model"

definition DeviceLegacySettings_HybridMotionZones_Zone3_Vertex7_UnmarshalJSON :: "rest_value \<Rightarrow> json \<Rightarrow> rest_value \<times> bool" where
  "DeviceLegacySettings_HybridMotionZones_Zone3_Vertex7_UnmarshalJSON = rest_unmarshal DeviceLegacySettings_HybridMotionZones_Zone3_Vertex7_model"

lemma DeviceLegacySettings_HybridMotionZones_Zone3_Vertex7_wf [rest_wf_models]: "rest_wf DeviceLegacySettings_HybridMotionZones_Zone3_Vertex7_model"
  by (simp add: DeviceLegacySettings_HybridMotionZones_Zone3_Vertex7_model_def rest_names_def rest_wf_models)

definition DeviceLegacySettings_HybridMotionZones_Zone3_Vertex8_model :: rest_type where
  "DeviceLegacySettings_HybridMotionZones_Zone3_Vertex8_model = RStruct
     [(''x'', True, RPtr (RPlain TInt)),
      (''y'', True, RPtr (RPlain TInt))]"

definition DeviceLegacySettings_HybridMotionZones_Zone3_Vertex8_MarshalJSON :: "rest_value \<Rightarrow> json" where
  "DeviceLegacySettings_HybridMotionZones_Zone3_Vertex8_MarshalJSON = rest_marshal DeviceLegacySettings_HybridMotionZones_Zone3_Vertex8_model"

definition DeviceLegacySettings_HybridMotionZones_Zone3_Vertex8_UnmarshalJSON :: "rest_value \<Rightarrow> json \<Rightarrow> rest_value \<times> bool" where
  "DeviceLegacySettings_HybridMotionZones_Zone3_Vertex8_UnmarshalJSON = rest_unmarshal DeviceLegacySettings_HybridMotionZones_Zone3_Vertex8_model"

lemma DeviceLegacySettings_HybridMotionZones_Zone3_Vertex8_wf [rest_wf_models]: "rest_wf DeviceLegacySettings_HybridMotionZones_Zone3_Vertex8_model"
  by (simp add: DeviceLegacySettings_HybridMotionZones_Zone3_Vertex8_model_def rest_names_def rest_wf_models)

definition DeviceLegacySettings_HybridMotionZones_Zone3_model :: rest_type where
  "DeviceLegacySettings_HybridMotionZones_Zone3_model = RStruct
     [(''name'', True, RPtr (RPlain TString)),
      (''state'', True, RPtr (RPlain TInt)),
      (''vertex1'', True, RPtr DeviceLegacySettings_HybridMotionZones_Zone3_Vertex1_model),
      (''vertex2'', True, RPtr DeviceLegacySettings_HybridMotionZones_Zone3_Vertex2_model),
      (''vertex3'', True, RPtr DeviceLegacySettings_HybridMotionZones_Zone3_Vertex3_model),
      (''vertex4'', True, RPtr DeviceLegacySettings_HybridMotionZones_Zone3_Vertex4_model),
      (''vertex5'', True, RPtr DeviceLegacySettings_HybridMotionZones_Zone3_Vertex5_model),
      (''vertex6'', True, RPtr DeviceLegacySettings_HybridMotionZones_Zone3_Vertex6_model),
      (''vertex7'', True, RPtr DeviceLegacySettings_HybridMotionZones_Zone3_Vertex7_model),
      (''vertex8'', True, RPtr DeviceLegacySettings_HybridMotionZones_Zone3_Vertex8_model)]"

definition DeviceLegacySettings_HybridMotionZones_Zone3_MarshalJSON :: "rest_value \<Rightarrow> json" where
  "DeviceLegacySettings_HybridMotionZones_Zone3_MarshalJSON = rest_marshal DeviceLegacySettings_HybridMotionZones_Zone3_model"

definition DeviceLegacySettings_HybridMotionZones_Zone3_UnmarshalJSON :: "rest_value \<Rightarrow> json \<Rightarrow> rest_value \<times> bool" where
  "DeviceLegacySettings_HybridMotionZones_Zone3_UnmarshalJSON = rest_unmarshal DeviceLegacySettings_HybridMotionZones_Zone3_model"

lemma DeviceLegacySettings_HybridMotionZones_Zone3_wf [rest_wf_models]: "rest_wf DeviceLegacySettings_HybridMotionZones_Zone3_model"
  by (simp add: DeviceLegacySettings_HybridMotionZones_Zone3_model_def rest_names_def rest_wf_models)

definition DeviceLegacySettings_HybridMotionZones_model :: rest_type where
  "DeviceLegacySettings_HybridMotionZones_model = RStruct
     [(''active_motion_filter'', True, RPtr (RPlain TInt)),
      (''advanced_motion_zones_enabled'', True, RPtr (RPlain TBool)),
      (''advanced_motion_zones_type'', True, RPtr (RPlain TString)),
      (''advanced_object_settings'', True, RPtr DeviceLegacySettings_HybridMotionZones_AdvancedObjectSettings_model),
      (''advanced_pir_motion_zones'', True, RPtr DeviceLegacySettings_HybridMotionZones_AdvancedPirMotionZones_model),
      (''enable_audio'', True, RPtr (RPlain TBool)),
      (''enable_ir'', False, RPlain TAny),
      (''enable_pir_validation'', True, RPtr (RPlain TBool)),
      (''enable_rlmd'', True, RPtr (RPlain TBool)),
      (''motion_snooze_privacy_timeout'', True, RPtr (RPlain TInt)),
      (''sensitivity'', True, RPtr (RPlain TInt)),
      (''zone1'', True, RPtr DeviceLegacySettings_HybridMotionZones_Zone1_model),
      (''zone2'', True, RPtr DeviceLegacySettings_HybridMotionZones_Zone2_model),
      (''zone3'', True, RPtr DeviceLegacySettings_HybridMotionZones_Zone3_model)]"

definition DeviceLegacySettings_HybridMotionZones_MarshalJSON :: "rest_value \<Rightarrow> json" where
  "DeviceLegacySettings_HybridMotionZones_MarshalJSON = rest_marshal DeviceLegacySettings_HybridMotionZones_model"

definition DeviceLegacySettings_HybridMotionZones_UnmarshalJSON :: "rest_value \<Rightarrow> json \<Rightarrow> rest_value \<times> bool" where
  "DeviceLegacySettings_HybridMotionZones_UnmarshalJSON = rest_unmarshal DeviceLegacySettings_HybridMotionZones_model"

lemma DeviceLegacySettings_HybridMotionZones_wf [rest_wf_models]: "rest_wf DeviceLegacySettings_HybridMotionZones_model"
  by (simp add: DeviceLegacySettings_HybridMotionZones_model_def rest_names_def rest_wf_models)

definition DeviceLegacySettings_IgnoreZones_Zone1_Vertex1_model :: rest_type where
  "DeviceLegacySettings_IgnoreZones_Zone1_Vertex1_model = RStruct
     [(''x'', True, RPtr (RPlain TInt)),
      (''y'', True, RPtr (RPlain TInt))]"

definition DeviceLegacySettings_IgnoreZones_Zone1_Vertex1_MarshalJSON :: "rest_value \<Rightarrow> json" where
  "DeviceLegacySettings_IgnoreZones_Zone1_Vertex1_MarshalJSON = rest_marshal DeviceLegacySettings_IgnoreZones_Zone1_Vertex1_model"

definition DeviceLegacySettings_IgnoreZones_Zone1_Vertex1_UnmarshalJSON :: "rest_value \<Rightarrow> json \<Rightarrow> rest_value \<times> bool" where
  "DeviceLegacySettings_IgnoreZones_Zone1_Vertex1_UnmarshalJSON = rest_unmarshal DeviceLegacySettings_IgnoreZones_Zone1_Vertex1_model"

lemma DeviceLegacySettings_IgnoreZones_Zone1_Vertex1_wf [rest_wf_models]: "rest_wf DeviceLegacySettings_IgnoreZones_Zone1_Vertex1_model"
  by (simp add: DeviceLegacySettings_IgnoreZones_Zone1_Vertex1_model_def rest_names_def rest_wf_models)

definition DeviceLegacySettings_IgnoreZones_Zone1_Vertex2_model :: rest_type where
  "DeviceLegacySettings_IgnoreZones_Zone1_Vertex2_model = RStruct
     [(''x'', True, RPtr (RPlain TInt)),
      (''y'', True, RPtr (RPlain TInt))]"

definition DeviceLegacySettings_IgnoreZones_Zone1_Vertex2_MarshalJSON :: "rest_value \<Rightarrow> json" where
  "DeviceLegacySettings_IgnoreZones_Zone1_Vertex2_MarshalJSON = rest_marshal DeviceLegacySettings_IgnoreZones_Zone1_Vertex2_model"

definition DeviceLegacySettings_IgnoreZones_Zone1_Vertex2_UnmarshalJSON :: "rest_value \<Rightarrow> json \<Rightarrow> rest_value \<times> bool" where
  "DeviceLegacySettings_IgnoreZones_Zone1_Vertex2_UnmarshalJSON = rest_unmarshal DeviceLegacySettings_IgnoreZones_Zone1_Vertex2_model"

lemma DeviceLegacySettings_IgnoreZones_Zone1_Vertex2_wf [rest_wf_models]: "rest_wf DeviceLegacySettings_IgnoreZones_Zone1_Vertex2_model"
  by (simp add: DeviceLegacySettings_IgnoreZones_Zone1_Vertex2_model_def rest_names_def rest_wf_models)

definition DeviceLegacySettings_IgnoreZones_Zone1_model :: rest_type where
  "DeviceLegacySettings_IgnoreZones_Zone1_model = RStruct
     [(''name'', True, RPtr (RPlain TString)),
      (''state'', True, RPtr (RPlain TInt)),
      (''vertex1'', True, RPtr DeviceLegacySettings_IgnoreZones_Zone1_Vertex1_model),
      (''vertex2'', True, RPtr DeviceLegacySettings_IgnoreZones_Zone1_Vertex2_model)]"

definition DeviceLegacySettings_IgnoreZones_Zone1_MarshalJSON :: "rest_value \<Rightarrow> json" where
  "DeviceLegacySettings_IgnoreZones_Zone1_MarshalJSON = rest_marshal DeviceLegacySettings_IgnoreZones_Zone1_model"

definition DeviceLegacySettings_IgnoreZones_Zone1_UnmarshalJSON :: "rest_value \<Rightarrow> json \<Rightarrow> rest_value \<times> bool" where
  "DeviceLegacySettings_IgnoreZones_Zone1_UnmarshalJSON = rest_unmarshal DeviceLegacySettings_IgnoreZones_Zone1_model"

lemma DeviceLegacySettings_IgnoreZones_Zone1_wf [rest_wf_models]: "rest_wf DeviceLegacySettings_IgnoreZones_Zone1_model"
  by (simp add: DeviceLegacySettings_IgnoreZones_Zone1_model_def rest_names_def rest_wf_models)

definition DeviceLegacySettings_IgnoreZones_Zone2_Vertex1_model :: rest_type where
  "DeviceLegacySettings_IgnoreZones_Zone2_Vertex1_model = RStruct
     [(''x'', True, RPtr (RPlain TInt)),
      (''y'', True, RPtr (RPlain TInt))]"

definition DeviceLegacySettings_IgnoreZones_Zone2_Vertex1_MarshalJSON :: "rest_value \<Rightarrow> json" where
  "DeviceLegacySettings_IgnoreZones_Zone2_Vertex1_MarshalJSON = rest_marshal DeviceLegacySettings_IgnoreZones_Zone2_Vertex1_model"

definition DeviceLegacySettings_IgnoreZones_Zone2_Vertex1_UnmarshalJSON :: "rest_value \<Rightarrow> json \<Rightarrow> rest_value \<times> bool" where
  "DeviceLegacySettings_IgnoreZones_Zone2_Vertex1_UnmarshalJSON = rest_unmarshal DeviceLegacySettings_IgnoreZones_Zone2_Vertex1_model"

lemma DeviceLegacySettings_IgnoreZones_Zone2_Vertex1_wf [rest_wf_models]: "rest_wf DeviceLegacySettings_IgnoreZones_Zone2_Vertex1_model"
  by (simp add: DeviceLegacySettings_IgnoreZones_Zone2_Vertex1_model_def rest_names_def rest_wf_models)

definition DeviceLegacySettings_IgnoreZones_Zone2_Vertex2_model :: rest_type where
  "DeviceLegacySettings_IgnoreZones_Zone2_Vertex2_model = RStruct
     [(''x'', True, RPtr (RPlain TInt)),
      (''y'', True, RPtr (RPlain TInt))]"

definition DeviceLegacySettings_IgnoreZones_Zone2_Vertex2_MarshalJSON :: "rest_value \<Rightarrow> json" where
  "DeviceLegacySettings_IgnoreZones_Zone2_Vertex2_MarshalJSON = rest_marshal DeviceLegacySettings_IgnoreZones_Zone2_Vertex2_model"

definition DeviceLegacySettings_IgnoreZones_Zone2_Vertex2_UnmarshalJSON :: "rest_value \<Rightarrow> json \<Rightarrow> rest_value \<times> bool" where
  "DeviceLegacySettings_IgnoreZones_Zone2_Vertex2_UnmarshalJSON = rest_unmarshal DeviceLegacySettings_IgnoreZones_Zone2_Vertex2_model"

lemma DeviceLegacySettings_IgnoreZones_Zone2_Vertex2_wf [rest_wf_models]: "rest_wf DeviceLegacySettings_IgnoreZones_Zone2_Vertex2_model"
  by (simp add: DeviceLegacySettings_IgnoreZones_Zone2_Vertex2_model_def rest_names_def rest_wf_models)

definition DeviceLegacySettings_IgnoreZones_Zone2_model :: rest_type where
  "DeviceLegacySettings_IgnoreZones_Zone2_model = RStruct
     [(''name'', True, RPtr (RPlain TString)),
      (''state'', True, RPtr (RPlain TInt)),
      (''vertex1'', True, RPtr DeviceLegacySettings_IgnoreZones_Zone2_Vertex1_model),
      (''vertex2'', True, RPtr DeviceLegacySettings_IgnoreZones_Zone2_Vertex2_model)]"

definition DeviceLegacySettings_IgnoreZones_Zone2_MarshalJSON :: "rest_value \<Rightarrow> json" where
  "DeviceLegacySettings_IgnoreZones_Zone2_MarshalJSON = rest_marshal DeviceLegacySettings_IgnoreZones_Zone2_model"

definition DeviceLegacySettings_IgnoreZones_Zone2_UnmarshalJSON :: "rest_value \<Rightarrow> json \<Rightarrow> rest_value \<times> bool" where
  "DeviceLegacySettings_IgnoreZones_Zone2_UnmarshalJSON = rest_unmarshal DeviceLegacySettings_IgnoreZones_Zone2_model"

lemma DeviceLegacySettings_IgnoreZones_Zone2_wf [rest_wf_models]: "rest_wf DeviceLegacySettings_IgnoreZones_Zone2_model"
  by (simp add: DeviceLegacySettings_IgnoreZones_Zone2_model_def rest_names_def rest_wf_models)

definition DeviceLegacySettings_IgnoreZones_Zone3_Vertex1_model :: rest_type where
  "DeviceLegacySettings_IgnoreZones_Zone3_Vertex1_model = RStruct
     [(''x'', True, RPtr (RPlain TInt)),
      (''y'', True, RPtr (RPlain TInt))]"

definition DeviceLegacySettings_IgnoreZones_Zone3_Vertex1_MarshalJSON :: "rest_value \<Rightarrow> json" where
  "DeviceLegacySettings_IgnoreZones_Zone3_Vertex1_MarshalJSON = rest_marshal DeviceLegacySettings_IgnoreZones_Zone3_Vertex1_model"

definition DeviceLegacySettings_IgnoreZones_Zone3_Vertex1_UnmarshalJSON :: "rest_value \<Rightarrow> json \<Rightarrow> rest_value \<times> bool" where
  "DeviceLegacySettings_IgnoreZones_Zone3_Vertex1_UnmarshalJSON = rest_unmarshal DeviceLegacySettings_IgnoreZones_Zone3_Vertex1_model"

lemma DeviceLegacySettings_IgnoreZones_Zone3_Vertex1_wf [rest_wf_models]: "rest_wf DeviceLegacySettings_IgnoreZones_Zone3_Vertex1_model"
  by (simp add: DeviceLegacySettings_IgnoreZones_Zone3_Vertex1_model_def rest_names_def rest_wf_models)

definition DeviceLegacySettings_IgnoreZones_Zone3_Vertex2_model :: rest_type where
  "DeviceLegacySettings_IgnoreZones_Zone3_Vertex2_model = RStruct
     [(''x'', True, RPtr (RPlain TInt)),
      (''y'', True, RPtr (RPlain TInt))]"

definition DeviceLegacySettings_IgnoreZones_Zone3_Vertex2_MarshalJSON :: "rest_value \<Rightarrow> json" where
  "DeviceLegacySettings_IgnoreZones_Zone3_Vertex2_MarshalJSON = rest_marshal DeviceLegacySettings_IgnoreZones_Zone3_Vertex2_model"

definition DeviceLegacySettings_IgnoreZones_Zone3_Vertex2_UnmarshalJSON :: "rest_value \<Rightarrow> json \<Rightarrow> rest_value \<times> bool" where
  "DeviceLegacySettings_IgnoreZones_Zone3_Vertex2_UnmarshalJSON = rest_unmarshal DeviceLegacySettings_IgnoreZones_Zone3_Vertex2_model"

lemma DeviceLegacySettings_IgnoreZones_Zone3_Vertex2_wf [rest_wf_models]: "rest_wf DeviceLegacySettings_IgnoreZones_Zone3_Vertex2_model"
  by (simp add: DeviceLegacySettings_IgnoreZones_Zone3_Vertex2_model_def rest_names_def rest_wf_models)

definition DeviceLegacySettings_IgnoreZones_Zone3_model :: rest_type where
  "DeviceLegacySettings_IgnoreZones_Zone3_model = RStruct
     [(''name'', True, RPtr (RPlain TString)),
      (''state'', True, RPtr (RPlain TInt)),
      (''vertex1'', True, RPtr DeviceLegacySettings_IgnoreZones_Zone3_Vertex1_model),
      (''vertex2'', True, RPtr DeviceLegacySettings_IgnoreZones_Zone3_Vertex2_model)]"

definition DeviceLegacySettings_IgnoreZones_Zone3_MarshalJSON :: "rest_value \<Rightarrow> json" where
  "DeviceLegacySettings_IgnoreZones_Zone3_MarshalJSON = rest_marshal DeviceLegacySettings_IgnoreZones_Zone3_model"

definition DeviceLegacySettings_IgnoreZones_Zone3_UnmarshalJSON :: "rest_value \<Rightarrow> json \<Rightarrow> rest_value \<times> bool" where
  "DeviceLegacySettings_IgnoreZones_Zone3_UnmarshalJSON = rest_unmarshal DeviceLegacySettings_IgnoreZones_Zone3_model"

lemma DeviceLegacySettings_IgnoreZones_Zone3_wf [rest_wf_models]: "rest_wf DeviceLegacySettings_IgnoreZones_Zone3_model"
  by (simp add: DeviceLegacySettings_IgnoreZones_Zone3_model_def rest_names_def rest_wf_models)

definition DeviceLegacySettings_IgnoreZones_Zone4_Vertex1_model :: rest_type where
  "DeviceLegacySettings_IgnoreZones_Zone4_Vertex1_model = RStruct
     [(''x'', True, RPtr (RPlain TInt)),
      (''y'', True, RPtr (RPlain TInt))]"

definition DeviceLegacySettings_IgnoreZones_Zone4_Vertex1_MarshalJSON :: "rest_value \<Rightarrow> json" where
  "DeviceLegacySettings_IgnoreZones_Zone4_Vertex1_MarshalJSON = rest_marshal DeviceLegacySettings_IgnoreZones_Zone4_Vertex1_model"

definition DeviceLegacySettings_IgnoreZones_Zone4_Vertex1_UnmarshalJSON :: "rest_value \<Rightarrow> json \<Rightarrow> rest_value \<times> bool" where
  "DeviceLegacySettings_IgnoreZones_Zone4_Vertex1_UnmarshalJSON = rest_unmarshal DeviceLegacySettings_IgnoreZones_Zone4_Vertex1_model"

lemma DeviceLegacySettings_IgnoreZones_Zone4_Vertex1_wf [rest_wf_models]: "rest_wf DeviceLegacySettings_IgnoreZones_Zone4_Vertex1_model"
  by (simp add: DeviceLegacySettings_IgnoreZones_Zone4_Vertex1_model_def rest_names_def rest_wf_models)

definition DeviceLegacySettings_IgnoreZones_Zone4_Vertex2_model :: rest_type where
  "DeviceLegacySettings_IgnoreZones_Zone4_Vertex2_model = RStruct
     [(''x'', True, RPtr (RPlain TInt)),
      (''y'', True, RPtr (RPlain TInt))]"

definition DeviceLegacySettings_IgnoreZones_Zone4_Vertex2_MarshalJSON :: "rest_value \<Rightarrow> json" where
  "DeviceLegacySettings_IgnoreZones_Zone4_Vertex2_MarshalJSON = rest_marshal DeviceLegacySettings_IgnoreZones_Zone4_Vertex2_model"

definition DeviceLegacySettings_IgnoreZones_Zone4_Vertex2_UnmarshalJSON :: "rest_value \<Rightarrow> json \<Rightarrow> rest_value \<times> bool" where
  "DeviceLegacySettings_IgnoreZones_Zone4_Vertex2_UnmarshalJSON = rest_unmarshal DeviceLegacySettings_IgnoreZones_Zone4_Vertex2_model"

lemma DeviceLegacySettings_IgnoreZones_Zone4_Vertex2_wf [rest_wf_models]: "rest_wf DeviceLegacySettings_IgnoreZones_Zone4_Vertex2_model"
  by (simp add: DeviceLegacySettings_IgnoreZones_Zone4_Vertex2_model_def rest_names_def rest_wf_models)

definition DeviceLegacySettings_IgnoreZones_Zone4_model :: rest_type where
  "DeviceLegacySettings_IgnoreZones_Zone4_model = RStruct
     [(''name'', True, RPtr (RPlain TString)),
      (''state'', True, RPtr (RPlain TInt)),
      (''vertex1'', True, RPtr DeviceLegacySettings_IgnoreZones_Zone4_Vertex1_model),
      (''vertex2'', True, RPtr DeviceLegacySettings_IgnoreZones_Zone4_Vertex2_model)]"

definition DeviceLegacySettings_IgnoreZones_Zone4_MarshalJSON :: "rest_value \<Rightarrow> json" where
  "DeviceLegacySettings_IgnoreZones_Zone4_MarshalJSON = rest_marshal DeviceLegacySettings_IgnoreZones_Zone4_model"

definition DeviceLegacySettings_IgnoreZones_Zone4_UnmarshalJSON :: "rest_value \<Rightarrow> json \<Rightarrow> rest_value \<times> bool" where
  "DeviceLegacySettings_IgnoreZones_Zone4_UnmarshalJSON = rest_unmarshal DeviceLegacySettings_IgnoreZones_Zone4_model"

lemma DeviceLegacySettings_IgnoreZones_Zone4_wf [rest_wf_models]: "rest_wf DeviceLegacySettings_IgnoreZones_Zone4_model"
  by (simp add: DeviceLegacySettings_IgnoreZones_Zone4_model_def rest_names_def rest_wf_models)

definition DeviceLegacySettings_IgnoreZones_model :: rest_type where
  "DeviceLegacySettings_IgnoreZones_model = RStruct
     [(''zone1'', True, RPtr DeviceLegacySettings_IgnoreZones_Zone1_model),
      (''zone2'', True, RPtr DeviceLegacySettings_IgnoreZones_Zone2_model),
      (''zone3'', True, RPtr DeviceLegacySettings_IgnoreZones_Zone3_model),
      (''zone4'', True, RPtr DeviceLegacySettings_IgnoreZones_Zone4_model)]"

definition DeviceLegacySettings_IgnoreZones_MarshalJSON :: "rest_value \<Rightarrow> json" where
  "DeviceLegacySettings_IgnoreZones_MarshalJSON = rest_marshal DeviceLegacySettings_IgnoreZones_model"

definition DeviceLegacySettings_IgnoreZones_UnmarshalJSON :: "rest_value \<Rightarrow> json \<Rightarrow> rest_value \<times> bool" where
  "DeviceLegacySettings_IgnoreZones_UnmarshalJSON = rest_unmarshal DeviceLegacySettings_IgnoreZones_model"

lemma DeviceLegacySettings_IgnoreZones_wf [rest_wf_models]: "rest_wf DeviceLegacySettings_IgnoreZones_model"
  by (simp add: DeviceLegacySettings_IgnoreZones_model_def rest_names_def rest_wf_models)

definition DeviceLegacySettings_LightSnoozeSettings_model :: rest_type where
  "DeviceLegacySettings_LightSnoozeSettings_model = RStruct
     [(''always_on'', False, RPlain TAny),
      (''duration'', True, RPtr (RPlain TInt))]"

definition DeviceLegacySettings_LightSnoozeSettings_MarshalJSON :: "rest_value \<Rightarrow> json" where
  "DeviceLegacySettings_LightSnoozeSettings_MarshalJSON = rest_marshal DeviceLegacySettings_LightSnoozeSettings_model"

definition DeviceLegacySettings_LightSnoozeSettings_UnmarshalJSON :: "rest_value \<Rightarrow> json \<Rightarrow> rest_value \<times> bool" where
  "DeviceLegacySettings_LightSnoozeSettings_UnmarshalJSON = rest_unmarshal DeviceLegacySettings_LightSnoozeSettings_model"

lemma DeviceLegacySettings_LightSnoozeSettings_wf [rest_wf_models]: "rest_wf DeviceLegacySettings_LightSnoozeSettings_model"
  by (simp add: DeviceLegacySettings_LightSnoozeSettings_model_def rest_names_def rest_wf_models)

definition DeviceLegacySettings_Lite24x7_model :: rest_type where
  "DeviceLegacySettings_Lite24x7_model = RStruct
     [(''enabled'', True, RPtr (RPlain TBool)),
      (''frequency_secs'', True, RPtr (RPlain TInt)),
      (''resolution_p'', True, RPtr (RPlain TInt)),
      (''subscribed'', True, RPtr (RPlain TBool))]"

definition DeviceLegacySettings_Lite24x7_MarshalJSON :: "rest_value \<Rightarrow> json" where
  "DeviceLegacySettings_Lite24x7_MarshalJSON = rest_marshal DeviceLegacySettings_Lite24x7_model"

definition DeviceLegacySettings_Lite24x7_UnmarshalJSON :: "rest_value \<Rightarrow> json \<Rightarrow> rest_value \<times> bool" where
  "DeviceLegacySettings_Lite24x7_UnmarshalJSON = rest_unmarshal DeviceLegacySettings_Lite24x7_model"

lemma DeviceLegacySettings_Lite24x7_wf [rest_wf_models]: "rest_wf DeviceLegacySettings_Lite24x7_model"
  by (simp add: DeviceLegacySettings_Lite24x7_model_def rest_names_def rest_wf_models)

definition DeviceLegacySettings_MotionSettings_model :: rest_type where
  "DeviceLegacySettings_MotionSettings_model = RStruct
     [(''motion_snooze_preset_profile'', True, RPtr (RPlain TString))]"

definition DeviceLegacySettings_MotionSettings_MarshalJSON :: "rest_value \<Rightarrow> json" where
  "DeviceLegacySettings_MotionSettings_MarshalJSON = rest_marshal DeviceLegacySettings_MotionSettings_model"

definition DeviceLegacySettings_MotionSettings_UnmarshalJSON :: "rest_value \<Rightarrow> json \<Rightarrow> rest_value \<times> bool" where
  "DeviceLegacySettings_MotionSettings_UnmarshalJSON = rest_unmarshal DeviceLegacySettings_MotionSettings_model"

lemma DeviceLegacySettings_MotionSettings_wf [rest_wf_models]: "rest_wf DeviceLegacySettings_MotionSettings_model"
  by (simp add: DeviceLegacySettings_MotionSettings_model_def rest_names_def rest_wf_models)

definition DeviceLegacySettings_MotionZones_model :: rest_type where
  "DeviceLegacySettings_MotionZones_model = RUnion"

definition DeviceLegacySettings_MotionZones_MarshalJSON :: "rest_value \<Rightarrow> json" where
  "DeviceLegacySettings_MotionZones_MarshalJSON = rest_marshal DeviceLegacySettings_MotionZones_model"

definition DeviceLegacySettings_MotionZones_UnmarshalJSON :: "rest_value \<Rightarrow> json \<Rightarrow> rest_value \<times> bool" where
  "DeviceLegacySettings_MotionZones_UnmarshalJSON = rest_unmarshal DeviceLegacySettings_MotionZones_model"

lemma DeviceLegacySettings_MotionZones_wf [rest_wf_models]: "rest_wf DeviceLegacySettings_MotionZones_model"
  by (simp add: DeviceLegacySettings_MotionZones_model_def rest_names_def rest_wf_models)

definition DeviceLegacySettings_NetworkSettings_NetworkDiagnosis_model :: rest_type where
  "DeviceLegacySettings_NetworkSettings_NetworkDiagnosis_model = RStruct
     [(''channel_analysis'', False, RPlain TAny),
      (''lan_performance'', False, RPlain TAny),
      (''periodic_diagnosis'', False, RPlain TAny),
      (''tcp_host'', False, RPlain TAny),
      (''tcp_iperf'', False, RPlain TAny),
      (''tcp_port'', False, RPlain TAny),
      (''udp_bandwidth'', False, RPlain TAny),
      (''udp_host'', False, RPlain TAny),
      (''udp_iperf'', False, RPlain TAny),
      (''udp_port'', False, RPlain TAny)]"

definition DeviceLegacySettings_NetworkSettings_NetworkDiagnosis_MarshalJSON :: "rest_value \<Rightarrow> json" where
  "DeviceLegacySettings_NetworkSettings_NetworkDiagnosis_MarshalJSON = rest_marshal DeviceLegacySettings_NetworkSettings_NetworkDiagnosis_model"

definition DeviceLegacySettings_NetworkSettings_NetworkDiagnosis_UnmarshalJSON :: "rest_value \<Rightarrow> json \<Rightarrow> rest_value \<times> bool" where
  "DeviceLegacySettings_NetworkSettings_NetworkDiagnosis_UnmarshalJSON = rest_unmarshal DeviceLegacySettings_NetworkSettings_NetworkDiagnosis_model"

lemma DeviceLegacySettings_NetworkSettings_NetworkDiagnosis_wf [rest_wf_models]: "rest_wf DeviceLegacySettings_NetworkSettings_NetworkDiagnosis_model"
  by (simp add: DeviceLegacySettings_NetworkSettings_NetworkDiagnosis_model_def rest_names_def rest_wf_models)

definition DeviceLegacySettings_NetworkSettings_model :: rest_type where
  "DeviceLegacySettings_NetworkSettings_model = RStruct
     [(''data_restriction_enabled'', False, RPlain TAny),
      (''mac_address_ble'', False, RPlain TAny),
      (''mac_address_wifi_24'', False, RPlain TAny),
      (''mac_address_wifi_5'', False, RPlain TAny),
      (''max_dynamic_listen_interval'', False, RPlain TAny),
      (''multi_net_pref'', True, RPtr (RPlain TInt)),
      (''network_diagnosis'', True, RPtr DeviceLegacySettings_NetworkSettings_NetworkDiagnosis_model)]"

definition DeviceLegacySettings_NetworkSettings_MarshalJSON :: "rest_value \<Rightarrow> json" where
  "DeviceLegacySettings_NetworkSettings_MarshalJSON = rest_marshal DeviceLegacySettings_NetworkSettings_model"

definition DeviceLegacySettings_NetworkSettings_UnmarshalJSON :: "rest_value \<Rightarrow> json \<Rightarrow> rest_value \<times> bool" where
  "DeviceLegacySettings_NetworkSettings_UnmarshalJSON = rest_unmarshal DeviceLegacySettings_NetworkSettings_model"

lemma DeviceLegacySettings_NetworkSettings_wf [rest_wf_models]: "rest_wf DeviceLegacySettings_NetworkSettings_model"
  by (simp add: DeviceLegacySettings_NetworkSettings_model_def rest_names_def rest_wf_models)

definition DeviceLegacySettings_OfflineMotionEventSettings_model :: rest_type where
  "DeviceLegacySettings_OfflineMotionEventSettings_model = RStruct
     [(''enabled'', True, RPtr (RPlain TBool)),
      (''frequency_after_secs'', True, RPtr (RPlain TInt)),
      (''max_upload_kb'', True, RPtr (RPlain TInt)),
      (''period_after_secs'', True, RPtr (RPlain TInt)),
      (''resolution_p'', True, RPtr (RPlain TInt)),
      (''subscribed'', True, RPtr (RPlain TBool))]"

definition DeviceLegacySettings_OfflineMotionEventSettings_MarshalJSON :: "rest_value \<Rightarrow> json" where
  "DeviceLegacySettings_OfflineMotionEventSettings_MarshalJSON = rest_marshal DeviceLegacySettings_OfflineMotionEventSettings_model"

definition DeviceLegacySettings_OfflineMotionEventSettings_UnmarshalJSON :: "rest_value \<Rightarrow> json \<Rightarrow> rest_value \<times> bool" where
  "DeviceLegacySettings_OfflineMotionEventSettings_UnmarshalJSON = rest_unmarshal DeviceLegacySettings_OfflineMotionEventSettings_model"

lemma DeviceLegacySettings_OfflineMotionEventSettings_wf [rest_wf_models]: "rest_wf DeviceLegacySettings_OfflineMotionEventSettings_model"
  by (simp add: DeviceLegacySettings_OfflineMotionEventSettings_model_def rest_names_def rest_wf_models)

definition DeviceLegacySettings_OtherPaidFeatures_model :: rest_type where
  "DeviceLegacySettings_OtherPaidFeatures_model = RStruct
     [(''alarm_triggered_recording'', True, RPtr (RPlain TBool)),
      (''alexa_concierge'', True, RPtr (RPlain TBool)),
      (''closed_caption'', True, RPtr (RPlain TBool)),
      (''critical_alerts'', True, RPtr (RPlain TBool)),
      (''daily_digest'', True, RPtr (RPlain TBool)),
      (''ding_call'', True, RPtr (RPlain TBool)),
      (''extended_live_view'', True, RPtr (RPlain TBool)),
      (''live_speak'', True, RPtr (RPlain TBool)),
      (''multicam_live_view'', True, RPtr (RPlain TBool)),
      (''natural_language_search'', True, RPtr (RPlain TBool)),
      (''package_protection'', True, RPtr (RPlain TBool)),
      (''recording_24x7'', True, RPtr (RPlain TBool)),
      (''sheila_cv'', True, RPtr (RPlain TBool)),
      (''sheila_recording'', True, RPtr (RPlain TBool)),
      (''snapshot_capture_plus'', True, RPtr (RPlain TBool)),
      (''system_level_pip'', True, RPtr (RPlain TBool))]"

definition DeviceLegacySettings_OtherPaidFeatures_MarshalJSON :: "rest_value \<Rightarrow> json" where
  "DeviceLegacySettings_OtherPaidFeatures_MarshalJSON = rest_marshal DeviceLegacySettings_OtherPaidFeatures_model"

definition DeviceLegacySettings_OtherPaidFeatures_UnmarshalJSON :: "rest_value \<Rightarrow> json \<Rightarrow> rest_value \<times> bool" where
  "DeviceLegacySettings_OtherPaidFeatures_UnmarshalJSON = rest_unmarshal DeviceLegacySettings_OtherPaidFeatures_model"

lemma DeviceLegacySettings_OtherPaidFeatures_wf [rest_wf_models]: "rest_wf DeviceLegacySettings_OtherPaidFeatures_model"
  by (simp add: DeviceLegacySettings_OtherPaidFeatures_model_def rest_names_def rest_wf_models)

definition DeviceLegacySettings_PtzSettings_AutoScan_model :: rest_type where
  "DeviceLegacySettings_PtzSettings_AutoScan_model = RStruct
     [(''pause_ms'', True, RPtr (RPlain TInt)),
      (''step_size'', True, RPtr RFloat32)]"

definition DeviceLegacySettings_PtzSettings_AutoScan_MarshalJSON :: "rest_value \<Rightarrow> json" where
  "DeviceLegacySettings_PtzSettings_AutoScan_MarshalJSON = rest_marshal DeviceLegacySettings_PtzSettings_AutoScan_model"

definition DeviceLegacySettings_PtzSettings_AutoScan_UnmarshalJSON :: "rest_value \<Rightarrow> json \<Rightarrow> rest_value \<times> bool" where
  "DeviceLegacySettings_PtzSettings_AutoScan_UnmarshalJSON = rest_unmarshal DeviceLegacySettings_PtzSettings_AutoScan_model"

lemma DeviceLegacySettings_PtzSettings_AutoScan_wf [rest_wf_models]: "rest_wf DeviceLegacySettings_PtzSettings_AutoScan_model"
  by (simp add: DeviceLegacySettings_PtzSettings_AutoScan_model_def rest_names_def rest_wf_models)

definition DeviceLegacySettings_PtzSettings_PanSettings_Movement_model :: rest_type where
  "DeviceLegacySettings_PtzSettings_PanSettings_Movement_model = RStruct
     [(''max_acceleration'', True, RPtr RFloat32),
      (''max_speed'', True, RPtr RFloat32),
      (''step_size'', True, RPtr RFloat32)]"

definition DeviceLegacySettings_PtzSettings_PanSettings_Movement_MarshalJSON :: "rest_value \<Rightarrow> json" where
  "DeviceLegacySettings_PtzSettings_PanSettings_Movement_MarshalJSON = rest_marshal DeviceLegacySettings_PtzSettings_PanSettings_Movement_model"

definition DeviceLegacySettings_PtzSettings_PanSettings_Movement_UnmarshalJSON :: "rest_value \<Rightarrow> json \<Rightarrow> rest_value \<times> bool" where
  "DeviceLegacySettings_PtzSettings_PanSettings_Movement_UnmarshalJSON = rest_unmarshal DeviceLegacySettings_PtzSettings_PanSettings_Movement_model"

lemma DeviceLegacySettings_PtzSettings_PanSettings_Movement_wf [rest_wf_models]: "rest_wf DeviceLegacySettings_PtzSettings_PanSettings_Movement_model"
  by (simp add: DeviceLegacySettings_PtzSettings_PanSettings_Movement_model_def rest_names_def rest_wf_models)

definition DeviceLegacySettings_PtzSettings_PanSettings_Positions_model :: rest_type where
  "DeviceLegacySettings_PtzSettings_PanSettings_Positions_model = RStruct
     [(''default'', True, RPtr RFloat32),
      (''max'', True, RPtr RFloat32),
      (''min'', True, RPtr RFloat32)]"

definition DeviceLegacySettings_PtzSettings_PanSettings_Positions_MarshalJSON :: "rest_value \<Rightarrow> json" where
  "DeviceLegacySettings_PtzSettings_PanSettings_Positions_MarshalJSON = rest_marshal DeviceLegacySettings_PtzSettings_PanSettings_Positions_model"

definition DeviceLegacySettings_PtzSettings_PanSettings_Positions_UnmarshalJSON :: "rest_value \<Rightarrow> json \<Rightarrow> rest_value \<times> bool" where
  "DeviceLegacySettings_PtzSettings_PanSettings_Positions_UnmarshalJSON = rest_unmarshal DeviceLegacySettings_PtzSettings_PanSettings_Positions_model"

lemma DeviceLegacySettings_PtzSettings_PanSettings_Positions_wf [rest_wf_models]: "rest_wf DeviceLegacySettings_PtzSettings_PanSettings_Positions_model"
  by (simp add: DeviceLegacySettings_PtzSettings_PanSettings_Positions_model_def rest_names_def rest_wf_models)

definition DeviceLegacySettings_PtzSettings_PanSettings_model :: rest_type where
  "DeviceLegacySettings_PtzSettings_PanSettings_model = RStruct
     [(''movement'', True, RPtr DeviceLegacySettings_PtzSettings_PanSettings_Movement_model),
      (''positions'', True, RPtr DeviceLegacySettings_PtzSettings_PanSettings_Positions_model)]"

definition DeviceLegacySettings_PtzSettings_PanSettings_MarshalJSON :: "rest_value \<Rightarrow> json" where
  "DeviceLegacySettings_PtzSettings_PanSettings_MarshalJSON = rest_marshal DeviceLegacySettings_PtzSettings_PanSettings_model"

definition DeviceLegacySettings_PtzSettings_PanSettings_UnmarshalJSON :: "rest_value \<Rightarrow> json \<Rightarrow> rest_value \<times> bool" where
  "DeviceLegacySettings_PtzSettings_PanSettings_UnmarshalJSON = rest_unmarshal DeviceLegacySettings_PtzSettings_PanSettings_model"

lemma DeviceLegacySettings_PtzSettings_PanSettings_wf [rest_wf_models]: "rest_wf DeviceLegacySettings_PtzSettings_PanSettings_model"
  by (simp add: DeviceLegacySettings_PtzSettings_PanSettings_model_def rest_names_def rest_wf_models)

definition DeviceLegacySettings_PtzSettings_TiltSettings_Movement_model :: rest_type where
  "DeviceLegacySettings_PtzSettings_TiltSettings_Movement_model = RStruct
     [(''max_acceleration'', True, RPtr RFloat32),
      (''max_speed'', True, RPtr RFloat32),
      (''step_size'', True, RPtr RFloat32)]"

definition DeviceLegacySettings_PtzSettings_TiltSettings_Movement_MarshalJSON :: "rest_value \<Rightarrow> json" where
  "DeviceLegacySettings_PtzSettings_TiltSettings_Movement_MarshalJSON = rest_marshal DeviceLegacySettings_PtzSettings_TiltSettings_Movement_model"

definition DeviceLegacySettings_PtzSettings_TiltSettings_Movement_UnmarshalJSON :: "rest_value \<Rightarrow> json \<Rightarrow> rest_value \<times> bool" where
  "DeviceLegacySettings_PtzSettings_TiltSettings_Movement_UnmarshalJSON = rest_unmarshal DeviceLegacySettings_PtzSettings_TiltSettings_Movement_model"

lemma DeviceLegacySettings_PtzSettings_TiltSettings_Movement_wf [rest_wf_models]: "rest_wf DeviceLegacySettings_PtzSettings_TiltSettings_Movement_model"
  by (simp add: DeviceLegacySettings_PtzSettings_TiltSettings_Movement_model_def rest_names_def rest_wf_models)

definition DeviceLegacySettings_PtzSettings_TiltSettings_Positions_model :: rest_type where
  "DeviceLegacySettings_PtzSettings_TiltSettings_Positions_model = RStruct
     [(''default'', True, RPtr RFloat32),
      (''max'', True, RPtr RFloat32),
      (''min'', True, RPtr RFloat32)]"

definition DeviceLegacySettings_PtzSettings_TiltSettings_Positions_MarshalJSON :: "rest_value \<Rightarrow> json" where
  "DeviceLegacySettings_PtzSettings_TiltSettings_Positions_MarshalJSON = rest_marshal DeviceLegacySettings_PtzSettings_TiltSettings_Positions_model"

definition DeviceLegacySettings_PtzSettings_TiltSettings_Positions_UnmarshalJSON :: "rest_value \<Rightarrow> json \<Rightarrow> rest_value \<times> bool" where
  "DeviceLegacySettings_PtzSettings_TiltSettings_Positions_UnmarshalJSON = rest_unmarshal DeviceLegacySettings_PtzSettings_TiltSettings_Positions_model"

lemma DeviceLegacySettings_PtzSettings_TiltSettings_Positions_wf [rest_wf_models]: "rest_wf DeviceLegacySettings_PtzSettings_TiltSettings_Positions_model"
  by (simp add: DeviceLegacySettings_PtzSettings_TiltSettings_Positions_model_def rest_names_def rest_wf_models)

definition DeviceLegacySettings_PtzSettings_TiltSettings_model :: rest_type where
  "DeviceLegacySettings_PtzSettings_TiltSettings_model = RStruct
     [(''movement'', True, RPtr DeviceLegacySettings_PtzSettings_TiltSettings_Movement_model),
      (''positions'', True, RPtr DeviceLegacySettings_PtzSettings_TiltSettings_Positions_model)]"

definition DeviceLegacySettings_PtzSettings_TiltSettings_MarshalJSON :: "rest_value \<Rightarrow> json" where
  "DeviceLegacySettings_PtzSettings_TiltSettings_MarshalJSON = rest_marshal DeviceLegacySettings_PtzSettings_TiltSettings_model"

definition DeviceLegacySettings_PtzSettings_TiltSettings_UnmarshalJSON :: "rest_value \<Rightarrow> json \<Rightarrow> rest_value \<times> bool" where
  "DeviceLegacySettings_PtzSettings_TiltSettings_UnmarshalJSON = rest_unmarshal DeviceLegacySettings_PtzSettings_TiltSettings_model"

lemma DeviceLegacySettings_PtzSettings_TiltSettings_wf [rest_wf_models]: "rest_wf DeviceLegacySettings_PtzSettings_TiltSettings_model"
  by (simp add: DeviceLegacySettings_PtzSettings_TiltSettings_model_def rest_names_def rest_wf_models)

definition DeviceLegacySettings_PtzSettings_model :: rest_type where
  "DeviceLegacySettings_PtzSettings_model = RStruct
     [(''auto_scan'', True, RPtr DeviceLegacySettings_PtzSettings_AutoScan_model),
      (''mode'', True, RPtr (RPlain TString)),
      (''pan_settings'', True, RPtr DeviceLegacySettings_PtzSettings_PanSettings_model),
      (''tilt_settings'', True, RPtr DeviceLegacySettings_PtzSettings_TiltSettings_model)]"

definition DeviceLegacySettings_PtzSettings_MarshalJSON :: "rest_value \<Rightarrow> json" where
  "DeviceLegacySettings_PtzSettings_MarshalJSON = rest_marshal DeviceLegacySettings_PtzSettings_model"

definition DeviceLegacySettings_PtzSettings_UnmarshalJSON :: "rest_value \<Rightarrow> json \<Rightarrow> rest_value \<times> bool" where
  "DeviceLegacySettings_PtzSettings_UnmarshalJSON = rest_unmarshal DeviceLegacySettings_PtzSettings_model"

lemma DeviceLegacySettings_PtzSettings_wf [rest_wf_models]: "rest_wf DeviceLegacySettings_PtzSettings_model"
  by (simp add: DeviceLegacySettings_PtzSettings_model_def rest_names_def rest_wf_models)

definition DeviceLegacySettings_ServerSettings_model :: rest_type where
  "DeviceLegacySettings_ServerSettings_model = RStruct
     [(''ring_media_server_enabled'', True, RPtr (RPlain TBool)),
      (''ring_media_server_host'', True, RPtr (RPlain TString))]"

definition DeviceLegacySettings_ServerSettings_MarshalJSON :: "rest_value \<Rightarrow> json" where
  "DeviceLegacySettings_ServerSettings_MarshalJSON = rest_marshal DeviceLegacySettings_ServerSettings_model"

definition DeviceLegacySettings_ServerSettings_UnmarshalJSON :: "rest_value \<Rightarrow> json \<Rightarrow> rest_value \<times> bool" where
  "DeviceLegacySettings_ServerSettings_UnmarshalJSON = rest_unmarshal DeviceLegacySettings_ServerSettings_model"

lemma DeviceLegacySettings_ServerSettings_wf [rest_wf_models]: "rest_wf DeviceLegacySettings_ServerSettings_model"
  by (simp add: DeviceLegacySettings_ServerSettings_model_def rest_names_def rest_wf_models)

definition DeviceLegacySettings_SheilaSettings_model :: rest_type where
  "DeviceLegacySettings_SheilaSettings_model = RStruct
     [(''cv_processing_enabled'', True, RPtr (RPlain TBool)),
      (''local_storage_enabled'', True, RPtr (RPlain TBool))]"

definition DeviceLegacySettings_SheilaSettings_MarshalJSON :: "rest_value \<Rightarrow> json" where
  "DeviceLegacySettings_SheilaSettings_MarshalJSON = rest_marshal DeviceLegacySettings_SheilaSettings_model"

definition DeviceLegacySettings_SheilaSettings_UnmarshalJSON :: "rest_value \<Rightarrow> json \<Rightarrow> rest_value \<times> bool" where
  "DeviceLegacySettings_SheilaSettings_UnmarshalJSON = rest_unmarshal DeviceLegacySettings_SheilaSettings_model"

lemma DeviceLegacySettings_SheilaSettings_wf [rest_wf_models]: "rest_wf DeviceLegacySettings_SheilaSettings_model"
  by (simp add: DeviceLegacySettings_SheilaSettings_model_def rest_names_def rest_wf_models)

definition DeviceLegacySettings_VideoSettings_model :: rest_type where
  "DeviceLegacySettings_VideoSettings_model = RStruct
     [(''encryption_eligibility_mode'', False, RPlain TAny),
      (''encryption_enabled'', True, RPtr (RPlain TBool)),
      (''encryption_method'', True, RPtr (RPlain TInt)),
      (''hevc_enabled'', True, RPtr (RPlain TBool)),
      (''recording_24x7_mode'', True, RPtr (RPlain TInt))]"

definition DeviceLegacySettings_VideoSettings_MarshalJSON :: "rest_value \<Rightarrow> json" where
  "DeviceLegacySettings_VideoSettings_MarshalJSON = rest_marshal DeviceLegacySettings_VideoSettings_model"

definition DeviceLegacySettings_VideoSettings_UnmarshalJSON :: "rest_value \<Rightarrow> json \<Rightarrow> rest_value \<times> bool" where
  "DeviceLegacySettings_VideoSettings_UnmarshalJSON = rest_unmarshal DeviceLegacySettings_VideoSettings_model"

lemma DeviceLegacySettings_VideoSettings_wf [rest_wf_models]: "rest_wf DeviceLegacySettings_VideoSettings_model"
  by (simp add: DeviceLegacySettings_VideoSettings_model_def rest_names_def rest_wf_models)

definition DeviceLegacySettings_ZoneSettings_Motion_Properties_model :: rest_type where
  "DeviceLegacySettings_ZoneSettings_Motion_Properties_model = RStruct
     [(''detection_types'', True, RPtr (RPlain (TSlice TString))),
      (''zone_types'', True, RPtr (RPlain (TSlice TAny)))]"

definition DeviceLegacySettings_ZoneSettings_Motion_Properties_MarshalJSON :: "rest_value \<Rightarrow> json" where
  "DeviceLegacySettings_ZoneSettings_Motion_Properties_MarshalJSON = rest_marshal DeviceLegacySettings_ZoneSettings_Motion_Properties_model"

definition DeviceLegacySettings_ZoneSettings_Motion_Properties_UnmarshalJSON :: "rest_value \<Rightarrow> json \<Rightarrow> rest_value \<times> bool" where
  "DeviceLegacySettings_ZoneSettings_Motion_Properties_UnmarshalJSON = rest_unmarshal DeviceLegacySettings_ZoneSettings_Motion_Properties_model"

lemma DeviceLegacySettings_ZoneSettings_Motion_Properties_wf [rest_wf_models]: "rest_wf DeviceLegacySettings_ZoneSettings_Motion_Properties_model"
  by (simp add: DeviceLegacySettings_ZoneSettings_Motion_Properties_model_def rest_names_def rest_wf_models)

definition DeviceLegacySettings_ZoneSettings_Motion_Vertices_model :: rest_type where
  "DeviceLegacySettings_ZoneSettings_Motion_Vertices_model = RStruct
     [(''x'', True, RPtr RFloat32),
      (''y'', True, RPtr RFloat32)]"

definition DeviceLegacySettings_ZoneSettings_Motion_Vertices_MarshalJSON :: "rest_value \<Rightarrow> json" where
  "DeviceLegacySettings_ZoneSettings_Motion_Vertices_MarshalJSON = rest_marshal DeviceLegacySettings_ZoneSettings_Motion_Vertices_model"

definition DeviceLegacySettings_ZoneSettings_Motion_Vertices_UnmarshalJSON :: "rest_value \<Rightarrow> json \<Rightarrow> rest_value \<times> bool" where
  "DeviceLegacySettings_ZoneSettings_Motion_Vertices_UnmarshalJSON = rest_unmarshal DeviceLegacySettings_ZoneSettings_Motion_Vertices_model"

lemma DeviceLegacySettings_ZoneSettings_Motion_Vertices_wf [rest_wf_models]: "rest_wf DeviceLegacySettings_ZoneSettings_Motion_Vertices_model"
  by (simp add: DeviceLegacySettings_ZoneSettings_Motion_Vertices_model_def rest_names_def rest_wf_models)

definition DeviceLegacySettings_ZoneSettings_Motion_model :: rest_type where
  "DeviceLegacySettings_ZoneSettings_Motion_model = RStruct
     [(''id'', True, RPtr (RPlain TString)),
      (''name'', True, RPtr (RPlain TString)),
      (''properties'', True, RPtr DeviceLegacySettings_ZoneSettings_Motion_Properties_model),
      (''state'', True, RPtr (RPlain TString)),
      (''vertices'', True, RPtr (RSlice DeviceLegacySettings_ZoneSettings_Motion_Vertices_model))]"

definition DeviceLegacySettings_ZoneSettings_Motion_MarshalJSON :: "rest_value \<Rightarrow> json" where
  "DeviceLegacySettings_ZoneSettings_Motion_MarshalJSON = rest_marshal DeviceLegacySettings_ZoneSettings_Motion_model"

definition DeviceLegacySettings_ZoneSettings_Motion_UnmarshalJSON :: "rest_value \<Rightarrow> json \<Rightarrow> rest_value \<times> bool" where
  "DeviceLegacySettings_ZoneSettings_Motion_UnmarshalJSON = rest_unmarshal DeviceLegacySettings_ZoneSettings_Motion_model"

lemma DeviceLegacySettings_ZoneSettings_Motion_wf [rest_wf_models]: "rest_wf DeviceLegacySettings_ZoneSettings_Motion_model"
  by (simp add: DeviceLegacySettings_ZoneSettings_Motion_model_def rest_names_def rest_wf_models)

definition DeviceLegacySettings_ZoneSettings_model :: rest_type where
  "DeviceLegacySettings_ZoneSettings_model = RStruct
     [(''monitoring'', True, RPtr (RPlain (TSlice TAny))),
      (''motion'', True, RPtr (RSlice DeviceLegacySettings_ZoneSettings_Motion_model))]"

definition DeviceLegacySettings_ZoneSettings_MarshalJSON :: "rest_value \<Rightarrow> json" where
  "DeviceLegacySettings_ZoneSettings_MarshalJSON = rest_marshal DeviceLegacySettings_ZoneSettings_model"

definition DeviceLegacySettings_ZoneSettings_UnmarshalJSON :: "rest_value \<Rightarrow> json \<Rightarrow> rest_value \<times> bool" where
  "DeviceLegacySettings_ZoneSettings_UnmarshalJSON = rest_unmarshal DeviceLegacySettings_ZoneSettings_model"

lemma DeviceLegacySettings_ZoneSettings_wf [rest_wf_models]: "rest_wf DeviceLegacySettings_ZoneSettings_model"
  by (simp add: DeviceLegacySettings_ZoneSettings_model_def rest_names_def rest_wf_models)

definition PTZAutoScan_model :: rest_type where
  "PTZAutoScan_model = RStruct
     [(''pause_ms'', True, RPtr (RPlain TInt)),
      (''step_size'', True, RPtr RFloat32)]"

definition PTZAutoScan_MarshalJSON :: "rest_value \<Rightarrow> json" where
  "PTZAutoScan_MarshalJSON = rest_marshal PTZAutoScan_model"

definition PTZAutoScan_UnmarshalJSON :: "rest_value \<Rightarrow> json \<Rightarrow> rest_value \<times> bool" where
  "PTZAutoScan_UnmarshalJSON = rest_unmarshal PTZAutoScan_model"

lemma PTZAutoScan_wf [rest_wf_models]: "rest_wf PTZAutoScan_model"
  by (simp add: PTZAutoScan_model_def rest_names_def rest_wf_models)

definition PTZMovement_model :: rest_type where
  "PTZMovement_model = RStruct
     [(''max_acceleration'', True, RPtr RFloat32),
      (''max_speed'', True, RPtr RFloat32),
      (''step_size'', True, RPtr RFloat32)]"

definition PTZMovement_MarshalJSON :: "rest_value \<Rightarrow> json" where
  "PTZMovement_MarshalJSON = rest_marshal PTZMovement_model"

definition PTZMovement_UnmarshalJSON :: "rest_value \<Rightarrow> json \<Rightarrow> rest_value \<times> bool" where
  "PTZMovement_UnmarshalJSON = rest_unmarshal PTZMovement_model"

lemma PTZMovement_wf [rest_wf_models]: "rest_wf PTZMovement_model"
  by (simp add: PTZMovement_model_def rest_names_def rest_wf_models)

definition PTZPositions_model :: rest_type where
  "PTZPositions_model = RStruct
     [(''default'', True, RPtr RFloat32),
      (''max'', True, RPtr RFloat32),
      (''min'', True, RPtr RFloat32)]"

definition PTZPositions_MarshalJSON :: "rest_value \<Rightarrow> json" where
  "PTZPositions_MarshalJSON = rest_marshal PTZPositions_model"

definition PTZPositions_UnmarshalJSON :: "rest_value \<Rightarrow> json \<Rightarrow> rest_value \<times> bool" where
  "PTZPositions_UnmarshalJSON = rest_unmarshal PTZPositions_model"

lemma PTZPositions_wf [rest_wf_models]: "rest_wf PTZPositions_model"
  by (simp add: PTZPositions_model_def rest_names_def rest_wf_models)

definition VideoRenderingFeature_model :: rest_type where
  "VideoRenderingFeature_model = RStruct
     [(''max_digital_zoom_level'', True, RPtr RFloat32)]"

definition VideoRenderingFeature_MarshalJSON :: "rest_value \<Rightarrow> json" where
  "VideoRenderingFeature_MarshalJSON = rest_marshal VideoRenderingFeature_model"

definition VideoRenderingFeature_UnmarshalJSON :: "rest_value \<Rightarrow> json \<Rightarrow> rest_value \<times> bool" where
  "VideoRenderingFeature_UnmarshalJSON = rest_unmarshal VideoRenderingFeature_model"

lemma VideoRenderingFeature_wf [rest_wf_models]: "rest_wf VideoRenderingFeature_model"
  by (simp add: VideoRenderingFeature_model_def rest_names_def rest_wf_models)

definition VideoSettings_model :: rest_type where
  "VideoSettings_model = RStruct
     [(''brightness'', True, RPtr (RPlain TInt)),
      (''clip_length_max'', True, RPtr (RPlain TInt)),
      (''clip_length_min'', True, RPtr (RPlain TInt)),
      (''hdr_enable'', True, RPtr (RPlain TBool)),
      (''hevc_enabled'', True, RPtr (RPlain TBool))]"

definition VideoSettings_MarshalJSON :: "rest_value \<Rightarrow> json" where
  "VideoSettings_MarshalJSON = rest_marshal VideoSettings_model"

definition VideoSettings_UnmarshalJSON :: "rest_value \<Rightarrow> json \<Rightarrow> rest_value \<times> bool" where
  "VideoSettings_UnmarshalJSON = rest_unmarshal VideoSettings_model"

lemma VideoSettings_wf [rest_wf_models]: "rest_wf VideoSettings_model"
  by (simp add: VideoSettings_model_def rest_names_def rest_wf_models)

definition DeviceLegacySettings_model :: rest_type where
  "DeviceLegacySettings_model = RStruct
     [(''active_streaming_event_led_enabled'', False, RPlain TAny),
      (''advanced_motion_detection_enabled'', True, RPtr (RPlain TBool)),
      (''advanced_motion_detection_human_only_mode'', True, RPtr (RPlain TBool)),
      (''advanced_motion_detection_types'', True, RPtr (RPlain (TSlice TString))),
      (''advanced_motion_zones'', True, RPtr DeviceLegacySettings_AdvancedMotionZones_model),
      (''advanced_motion_zones_enabled'', True, RPtr (RPlain TBool)),
      (''advanced_motion_zones_type'', True, RPtr (RPlain TString)),
      (''advanced_pir_motion_zones'', True, RPtr DeviceLegacySettings_AdvancedPirMotionZones_model),
      (''audio_settings'', True, RPtr DeviceLegacySettings_AudioSettings_model),
      (''cv_paid_features'', True, RPtr DeviceLegacySettings_CvPaidFeatures_model),
      (''cv_settings'', True, RPtr DeviceLegacySettings_CvSettings_model),
      (''doorbell_volume'', True, RPtr (RPlain TInt)),
      (''enable_audio_recording'', True, RPtr (RPlain TBool)),
      (''enable_ir_led'', True, RPtr (RPlain TBool)),
      (''enable_rich_notifications'', True, RPtr (RPlain TBool)),
      (''enable_vod'', True, RPtr DeviceLegacySettings_EnableVod_model),
      (''exposure_control'', True, RPtr (RPlain TInt)),
      (''extended_live_view'', True, RPtr (RPlain TInt)),
      (''flick_elim_recommended_mode'', True, RPtr (RPlain TInt)),
      (''hybrid_motion_zones'', True, RPtr DeviceLegacySettings_HybridMotionZones_model),
      (''ignore_zones'', True, RPtr DeviceLegacySettings_IgnoreZones_model),
      (''light_snooze_settings'', True, RPtr DeviceLegacySettings_LightSnoozeSettings_model),
      (''lite_24x7'', True, RPtr DeviceLegacySettings_Lite24x7_model),
      (''lite_24x7_footage_ttl'', True, RPtr (RPlain TInt)),
      (''live_view_disabled'', True, RPtr (RPlain TBool)),
      (''live_view_preset_profile'', True, RPtr (RPlain TString)),
      (''live_view_presets'', True, RPtr (RPlain (TSlice TString))),
      (''loitering_threshold'', True, RPtr (RPlain TInt)),
      (''motion_announcement'', True, RPtr (RPlain TBool)),
      (''motion_detection_enabled'', True, RPtr (RPlain TBool)),
      (''motion_settings'', True, RPtr DeviceLegacySettings_MotionSettings_model),
      (''motion_snooze_preset_profile'', True, RPtr (RPlain TString)),
      (''motion_snooze_presets'', True, RPtr (RPlain (TSlice TString))),
      (''motion_zones'', True, RPtr DeviceLegacySettings_MotionZones_model),
      (''network_settings'', True, RPtr DeviceLegacySettings_NetworkSettings_model),
      (''offline_motion_event_settings'', True, RPtr DeviceLegacySettings_OfflineMotionEventSettings_model),
      (''other_paid_features'', True, RPtr DeviceLegacySettings_OtherPaidFeatures_model),
      (''people_detection_eligible'', True, RPtr (RPlain TBool)),
      (''pir_sensitivity_1'', True, RPtr (RPlain TInt)),
      (''power_mode'', True, RPtr (RPlain TString)),
      (''ptz_settings'', True, RPtr DeviceLegacySettings_PtzSettings_model),
      (''rich_notifications_billing_eligible'', True, RPtr (RPlain TBool)),
      (''rich_notifications_face_crop_enabled'', True, RPtr (RPlain TBool)),
      (''rich_notifications_scene_source'', True, RPtr (RPlain TString)),
      (''server_settings'', True, RPtr DeviceLegacySettings_ServerSettings_model),
      (''sheila_settings'', True, RPtr DeviceLegacySettings_SheilaSettings_model),
      (''stark_enabled'', False, RPlain TAny),
      (''stark_enrolled'', True, RPtr (RPlain TBool)),
      (''terms_of_service_accepted'', False, RPlain TAny),
      (''user_specified_recording_ttl'', True, RPtr (RPlain TInt)),
      (''video_settings'', True, RPtr DeviceLegacySettings_VideoSettings_model),
      (''vod_status'', True, RPtr (RPlain TString)),
      (''vod_suspended'', True, RPtr (RPlain TInt)),
      (''voice_volume'', True, RPtr (RPlain TInt)),
      (''zone_settings'', True, RPtr DeviceLegacySettings_ZoneSettings_model)]"

definition DeviceLegacySettings_MarshalJSON :: "rest_value \<Rightarrow> json" where
  "DeviceLegacySettings_MarshalJSON = rest_marshal DeviceLegacySettings_model"

definition DeviceLegacySettings_UnmarshalJSON :: "rest_value \<Rightarrow> json \<Rightarrow> rest_value \<times> bool" where
  "DeviceLegacySettings_UnmarshalJSON = rest_unmarshal DeviceLegacySettings_model"

lemma DeviceLegacySettings_wf [rest_wf_models]: "rest_wf DeviceLegacySettings_model"
  by (simp add: DeviceLegacySettings_model_def rest_names_def rest_wf_models)

definition PTZAxisSettings_model :: rest_type where
  "PTZAxisSettings_model = RStruct
     [(''movement'', True, RPtr PTZMovement_model),
      (''positions'', True, RPtr PTZPositions_model)]"

definition PTZAxisSettings_MarshalJSON :: "rest_value \<Rightarrow> json" where
  "PTZAxisSettings_MarshalJSON = rest_marshal PTZAxisSettings_model"

definition PTZAxisSettings_UnmarshalJSON :: "rest_value \<Rightarrow> json \<Rightarrow> rest_value \<times> bool" where
  "PTZAxisSettings_UnmarshalJSON = rest_unmarshal PTZAxisSettings_model"

lemma PTZAxisSettings_wf [rest_wf_models]: "rest_wf PTZAxisSettings_model"
  by (simp add: PTZAxisSettings_model_def rest_names_def rest_wf_models)

definition PTZSettings_model :: rest_type where
  "PTZSettings_model = RStruct
     [(''auto_scan'', True, RPtr PTZAutoScan_model),
      (''mode'', True, RPtr (RPlain TString)),
      (''pan_settings'', True, RPtr PTZAxisSettings_model),
      (''tilt_settings'', True, RPtr PTZAxisSettings_model)]"

definition PTZSettings_MarshalJSON :: "rest_value \<Rightarrow> json" where
  "PTZSettings_MarshalJSON = rest_marshal PTZSettings_model"

definition PTZSettings_UnmarshalJSON :: "rest_value \<Rightarrow> json \<Rightarrow> rest_value \<times> bool" where
  "PTZSettings_UnmarshalJSON = rest_unmarshal PTZSettings_model"

lemma PTZSettings_wf [rest_wf_models]: "rest_wf PTZSettings_model"
  by (simp add: PTZSettings_model_def rest_names_def rest_wf_models)

definition RestCameras_codecs :: "rest_codec list" where
  "RestCameras_codecs =
     [(''DeviceLegacySettings_AdvancedMotionZones_Zone1_Vertex1'', DeviceLegacySettings_AdvancedMotionZones_Zone1_Vertex1_model, DeviceLegacySettings_AdvancedMotionZones_Zone1_Vertex1_MarshalJSON, DeviceLegacySettings_AdvancedMotionZones_Zone1_Vertex1_UnmarshalJSON),
      (''DeviceLegacySettings_AdvancedMotionZones_Zone1_Vertex2'', DeviceLegacySettings_AdvancedMotionZones_Zone1_Vertex2_model, DeviceLegacySettings_AdvancedMotionZones_Zone1_Vertex2_MarshalJSON, DeviceLegacySettings_AdvancedMotionZones_Zone1_Vertex2_UnmarshalJSON),
      (''DeviceLegacySettings_AdvancedMotionZones_Zone1_Vertex3'', DeviceLegacySettings_AdvancedMotionZones_Zone1_Vertex3_model, DeviceLegacySettings_AdvancedMotionZones_Zone1_Vertex3_MarshalJSON, DeviceLegacySettings_AdvancedMotionZones_Zone1_Vertex3_UnmarshalJSON),
      (''DeviceLegacySettings_AdvancedMotionZones_Zone1_Vertex4'', DeviceLegacySettings_AdvancedMotionZones_Zone1_Vertex4_model, DeviceLegacySettings_AdvancedMotionZones_Zone1_Vertex4_MarshalJSON, DeviceLegacySettings_AdvancedMotionZones_Zone1_Vertex4_UnmarshalJSON),
      (''DeviceLegacySettings_AdvancedMotionZones_Zone1_Vertex5'', DeviceLegacySettings_AdvancedMotionZones_Zone1_Vertex5_model, DeviceLegacySettings_AdvancedMotionZones_Zone1_Vertex5_MarshalJSON, DeviceLegacySettings_AdvancedMotionZones_Zone1_Vertex5_UnmarshalJSON),
      (''DeviceLegacySettings_AdvancedMotionZones_Zone1_Vertex6'', DeviceLegacySettings_AdvancedMotionZones_Zone1_Vertex6_model, DeviceLegacySettings_AdvancedMotionZones_Zone1_Vertex6_MarshalJSON, DeviceLegacySettings_AdvancedMotionZones_Zone1_Vertex6_UnmarshalJSON),
      (''DeviceLegacySettings_AdvancedMotionZones_Zone1_Vertex7'', DeviceLegacySettings_AdvancedMotionZones_Zone1_Vertex7_model, DeviceLegacySettings_AdvancedMotionZones_Zone1_Vertex7_MarshalJSON, DeviceLegacySettings_AdvancedMotionZones_Zone1_Vertex7_UnmarshalJSON),
      (''DeviceLegacySettings_AdvancedMotionZones_Zone1_Vertex8'', DeviceLegacySettings_AdvancedMotionZones_Zone1_Vertex8_model, DeviceLegacySettings_AdvancedMotionZones_Zone1_Vertex8_MarshalJSON, DeviceLegacySettings_AdvancedMotionZones_Zone1_Vertex8_UnmarshalJSON),
      (''DeviceLegacySettings_AdvancedMotionZones_Zone1'', DeviceLegacySettings_AdvancedMotionZones_Zone1_model, DeviceLegacySettings_AdvancedMotionZones_Zone1_MarshalJSON, DeviceLegacySettings_AdvancedMotionZones_Zone1_UnmarshalJSON),
      (''DeviceLegacySettings_AdvancedMotionZones_Zone2_Vertex1'', DeviceLegacySettings_AdvancedMotionZones_Zone2_Vertex1_model, DeviceLegacySettings_AdvancedMotionZones_Zone2_Vertex1_MarshalJSON, DeviceLegacySettings_AdvancedMotionZones_Zone2_Vertex1_UnmarshalJSON),
      (''DeviceLegacySettings_AdvancedMotionZones_Zone2_Vertex2'', DeviceLegacySettings_AdvancedMotionZones_Zone2_Vertex2_model, DeviceLegacySettings_AdvancedMotionZones_Zone2_Vertex2_MarshalJSON, DeviceLegacySettings_AdvancedMotionZones_Zone2_Vertex2_UnmarshalJSON),
      (''DeviceLegacySettings_AdvancedMotionZones_Zone2_Vertex3'', DeviceLegacySettings_AdvancedMotionZones_Zone2_Vertex3_model, DeviceLegacySettings_AdvancedMotionZones_Zone2_Vertex3_MarshalJSON, DeviceLegacySettings_AdvancedMotionZones_Zone2_Vertex3_UnmarshalJSON),
      (''DeviceLegacySettings_AdvancedMotionZones_Zone2_Vertex4'', DeviceLegacySettings_AdvancedMotionZones_Zone2_Vertex4_model, DeviceLegacySettings_AdvancedMotionZones_Zone2_Vertex4_MarshalJSON, DeviceLegacySettings_AdvancedMotionZones_Zone2_Vertex4_UnmarshalJSON),
      (''DeviceLegacySettings_AdvancedMotionZones_Zone2_Vertex5'', DeviceLegacySettings_AdvancedMotionZones_Zone2_Vertex5_model, DeviceLegacySettings_AdvancedMotionZones_Zone2_Vertex5_MarshalJSON, DeviceLegacySettings_AdvancedMotionZones_Zone2_Vertex5_UnmarshalJSON),
      (''DeviceLegacySettings_AdvancedMotionZones_Zone2_Vertex6'', DeviceLegacySettings_AdvancedMotionZones_Zone2_Vertex6_model, DeviceLegacySettings_AdvancedMotionZones_Zone2_Vertex6_MarshalJSON, DeviceLegacySettings_AdvancedMotionZones_Zone2_Vertex6_UnmarshalJSON),
      (''DeviceLegacySettings_AdvancedMotionZones_Zone2_Vertex7'', DeviceLegacySettings_AdvancedMotionZones_Zone2_Vertex7_model, DeviceLegacySettings_AdvancedMotionZones_Zone2_Vertex7_MarshalJSON, DeviceLegacySettings_AdvancedMotionZones_Zone2_Vertex7_UnmarshalJSON),
      (''DeviceLegacySettings_AdvancedMotionZones_Zone2_Vertex8'', DeviceLegacySettings_AdvancedMotionZones_Zone2_Vertex8_model, DeviceLegacySettings_AdvancedMotionZones_Zone2_Vertex8_MarshalJSON, DeviceLegacySettings_AdvancedMotionZones_Zone2_Vertex8_UnmarshalJSON),
      (''DeviceLegacySettings_AdvancedMotionZones_Zone2'', DeviceLegacySettings_AdvancedMotionZones_Zone2_model, DeviceLegacySettings_AdvancedMotionZones_Zone2_MarshalJSON, DeviceLegacySettings_AdvancedMotionZones_Zone2_UnmarshalJSON),
      (''DeviceLegacySettings_AdvancedMotionZones_Zone3_Vertex1'', DeviceLegacySettings_AdvancedMotionZones_Zone3_Vertex1_model, DeviceLegacySettings_AdvancedMotionZones_Zone3_Vertex1_MarshalJSON, DeviceLegacySettings_AdvancedMotionZones_Zone3_Vertex1_UnmarshalJSON),
      (''DeviceLegacySettings_AdvancedMotionZones_Zone3_Vertex2'', DeviceLegacySettings_AdvancedMotionZones_Zone3_Vertex2_model, DeviceLegacySettings_AdvancedMotionZones_Zone3_Vertex2_MarshalJSON, DeviceLegacySettings_AdvancedMotionZones_Zone3_Vertex2_UnmarshalJSON),
      (''DeviceLegacySettings_AdvancedMotionZones_Zone3_Vertex3'', DeviceLegacySettings_AdvancedMotionZones_Zone3_Vertex3_model, DeviceLegacySettings_AdvancedMotionZones_Zone3_Vertex3_MarshalJSON, DeviceLegacySettings_AdvancedMotionZones_Zone3_Vertex3_UnmarshalJSON),
      (''DeviceLegacySettings_AdvancedMotionZones_Zone3_Vertex4'', DeviceLegacySettings_AdvancedMotionZones_Zone3_Vertex4_model, DeviceLegacySettings_AdvancedMotionZones_Zone3_Vertex4_MarshalJSON, DeviceLegacySettings_AdvancedMotionZones_Zone3_Vertex4_UnmarshalJSON),
      (''DeviceLegacySettings_AdvancedMotionZones_Zone3_Vertex5'', DeviceLegacySettings_AdvancedMotionZones_Zone3_Vertex5_model, DeviceLegacySettings_AdvancedMotionZones_Zone3_Vertex5_MarshalJSON, DeviceLegacySettings_AdvancedMotionZones_Zone3_Vertex5_UnmarshalJSON),
      (''DeviceLegacySettings_AdvancedMotionZones_Zone3_Vertex6'', DeviceLegacySettings_AdvancedMotionZones_Zone3_Vertex6_model, DeviceLegacySettings_AdvancedMotionZones_Zone3_Vertex6_MarshalJSON, DeviceLegacySettings_AdvancedMotionZones_Zone3_Vertex6_UnmarshalJSON),
      (''DeviceLegacySettings_AdvancedMotionZones_Zone3_Vertex7'', DeviceLegacySettings_AdvancedMotionZones_Zone3_Vertex7_model, DeviceLegacySettings_AdvancedMotionZones_Zone3_Vertex7_MarshalJSON, DeviceLegacySettings_AdvancedMotionZones_Zone3_Vertex7_UnmarshalJSON),
      (''DeviceLegacySettings_AdvancedMotionZones_Zone3_Vertex8'', DeviceLegacySettings_AdvancedMotionZones_Zone3_Vertex8_model, DeviceLegacySettings_AdvancedMotionZones_Zone3_Vertex8_MarshalJSON, DeviceLegacySettings_AdvancedMotionZones_Zone3_Vertex8_UnmarshalJSON),
      (''DeviceLegacySettings_AdvancedMotionZones_Zone3'', DeviceLegacySettings_AdvancedMotionZones_Zone3_model, DeviceLegacySettings_AdvancedMotionZones_Zone3_MarshalJSON, DeviceLegacySettings_AdvancedMotionZones_Zone3_UnmarshalJSON),
      (''DeviceLegacySettings_AdvancedMotionZones'', DeviceLegacySettings_AdvancedMotionZones_model, DeviceLegacySettings_AdvancedMotionZones_MarshalJSON, DeviceLegacySettings_AdvancedMotionZones_UnmarshalJSON),
      (''DeviceLegacySettings_AdvancedPirMotionZones'', DeviceLegacySettings_AdvancedPirMotionZones_model, DeviceLegacySettings_AdvancedPirMotionZones_MarshalJSON, DeviceLegacySettings_AdvancedPirMotionZones_UnmarshalJSON),
      (''DeviceLegacySettings_AudioSettings'', DeviceLegacySettings_AudioSettings_model, DeviceLegacySettings_AudioSettings_MarshalJSON, DeviceLegacySettings_AudioSettings_UnmarshalJSON),
      (''DeviceLegacySettings_CvPaidFeatures'', DeviceLegacySettings_CvPaidFeatures_model, DeviceLegacySettings_CvPaidFeatures_MarshalJSON, DeviceLegacySettings_CvPaidFeatures_UnmarshalJSON),
      (''DeviceLegacySettings_CvSettings_DetectionTypes_Animal'', DeviceLegacySettings_CvSettings_DetectionTypes_Animal_model, DeviceLegacySettings_CvSettings_DetectionTypes_Animal_MarshalJSON, DeviceLegacySettings_CvSettings_DetectionTypes_Animal_UnmarshalJSON),
      (''DeviceLegacySettings_CvSettings_DetectionTypes_BabyCry'', DeviceLegacySettings_CvSettings_DetectionTypes_BabyCry_model, DeviceLegacySettings_CvSettings_DetectionTypes_BabyCry_MarshalJSON, DeviceLegacySettings_CvSettings_DetectionTypes_BabyCry_UnmarshalJSON),
      (''DeviceLegacySettings_CvSettings_DetectionTypes_CarAlarm'', DeviceLegacySettings_CvSettings_DetectionTypes_CarAlarm_model, DeviceLegacySettings_CvSettings_DetectionTypes_CarAlarm_MarshalJSON, DeviceLegacySettings_CvSettings_DetectionTypes_CarAlarm_UnmarshalJSON),
      (''DeviceLegacySettings_CvSettings_DetectionTypes_Co2SmokeAlarm'', DeviceLegacySettings_CvSettings_DetectionTypes_Co2SmokeAlarm_model, DeviceLegacySettings_CvSettings_DetectionTypes_Co2SmokeAlarm_MarshalJSON, DeviceLegacySettings_CvSettings_DetectionTypes_Co2SmokeAlarm_UnmarshalJSON),
      (''DeviceLegacySettings_CvSettings_DetectionTypes_DogBark'', DeviceLegacySettings_CvSettings_DetectionTypes_DogBark_model, DeviceLegacySettings_CvSettings_DetectionTypes_DogBark_MarshalJSON, DeviceLegacySettings_CvSettings_DetectionTypes_DogBark_UnmarshalJSON),
      (''DeviceLegacySettings_CvSettings_DetectionTypes_GeneralSound'', DeviceLegacySettings_CvSettings_DetectionTypes_GeneralSound_model, DeviceLegacySettings_CvSettings_DetectionTypes_GeneralSound_MarshalJSON, DeviceLegacySettings_CvSettings_DetectionTypes_GeneralSound_UnmarshalJSON),
      (''DeviceLegacySettings_CvSettings_DetectionTypes_GlassBreak'', DeviceLegacySettings_CvSettings_DetectionTypes_GlassBreak_model, DeviceLegacySettings_CvSettings_DetectionTypes_GlassBreak_MarshalJSON, DeviceLegacySettings_CvSettings_DetectionTypes_GlassBreak_UnmarshalJSON),
      (''DeviceLegacySettings_CvSettings_DetectionTypes_Human'', DeviceLegacySettings_CvSettings_DetectionTypes_Human_model, DeviceLegacySettings_CvSettings_DetectionTypes_Human_MarshalJSON, DeviceLegacySettings_CvSettings_DetectionTypes_Human_UnmarshalJSON),
      (''DeviceLegacySettings_CvSettings_DetectionTypes_Loitering'', DeviceLegacySettings_CvSettings_DetectionTypes_Loitering_model, DeviceLegacySettings_CvSettings_DetectionTypes_Loitering_MarshalJSON, DeviceLegacySettings_CvSettings_DetectionTypes_Loitering_UnmarshalJSON),
      (''DeviceLegacySettings_CvSettings_DetectionTypes_Motion'', DeviceLegacySettings_CvSettings_DetectionTypes_Motion_model, DeviceLegacySettings_CvSettings_DetectionTypes_Motion_MarshalJSON, DeviceLegacySettings_CvSettings_DetectionTypes_Motion_UnmarshalJSON),
      (''DeviceLegacySettings_CvSettings_DetectionTypes_MotionStop'', DeviceLegacySettings_CvSettings_DetectionTypes_MotionStop_model, DeviceLegacySettings_CvSettings_DetectionTypes_MotionStop_MarshalJSON, DeviceLegacySettings_CvSettings_DetectionTypes_MotionStop_UnmarshalJSON),
      (''DeviceLegacySettings_CvSettings_DetectionTypes_MovingVehicle'', DeviceLegacySettings_CvSettings_DetectionTypes_MovingVehicle_model, DeviceLegacySettings_CvSettings_DetectionTypes_MovingVehicle_MarshalJSON, DeviceLegacySettings_CvSettings_DetectionTypes_MovingVehicle_UnmarshalJSON),
      (''DeviceLegacySettings_CvSettings_DetectionTypes_OtherMotion'', DeviceLegacySettings_CvSettings_DetectionTypes_OtherMotion_model, DeviceLegacySettings_CvSettings_DetectionTypes_OtherMotion_MarshalJSON, DeviceLegacySettings_CvSettings_DetectionTypes_OtherMotion_UnmarshalJSON),
      (''DeviceLegacySettings_CvSettings_DetectionTypes_PackageDelivery'', DeviceLegacySettings_CvSettings_DetectionTypes_PackageDelivery_model, DeviceLegacySettings_CvSettings_DetectionTypes_PackageDelivery_MarshalJSON, DeviceLegacySettings_CvSettings_DetectionTypes_PackageDelivery_UnmarshalJSON),
      (''DeviceLegacySettings_CvSettings_DetectionTypes_PackagePickup'', DeviceLegacySettings_CvSettings_DetectionTypes_PackagePickup_model, DeviceLegacySettings_CvSettings_DetectionTypes_PackagePickup_MarshalJSON, DeviceLegacySettings_CvSettings_DetectionTypes_PackagePickup_UnmarshalJSON),
      (''DeviceLegacySettings_CvSettings_DetectionTypes_UnverifiedMotion'', DeviceLegacySettings_CvSettings_DetectionTypes_UnverifiedMotion_model, DeviceLegacySettings_CvSettings_DetectionTypes_UnverifiedMotion_MarshalJSON, DeviceLegacySettings_CvSettings_DetectionTypes_UnverifiedMotion_UnmarshalJSON),
      (''DeviceLegacySettings_CvSettings_DetectionTypes_Vehicle'', DeviceLegacySettings_CvSettings_DetectionTypes_Vehicle_model, DeviceLegacySettings_CvSettings_DetectionTypes_Vehicle_MarshalJSON, DeviceLegacySettings_CvSettings_DetectionTypes_Vehicle_UnmarshalJSON),
      (''DeviceLegacySettings_CvSettings_DetectionTypes'', DeviceLegacySettings_CvSettings_DetectionTypes_model, DeviceLegacySettings_CvSettings_DetectionTypes_MarshalJSON, DeviceLegacySettings_CvSettings_DetectionTypes_UnmarshalJSON),
      (''DeviceLegacySettings_CvSettings_SearchTypes_NaturalLanguageSearch'', DeviceLegacySettings_CvSettings_SearchTypes_NaturalLanguageSearch_model, DeviceLegacySettings_CvSettings_SearchTypes_NaturalLanguageSearch_MarshalJSON, DeviceLegacySettings_CvSettings_SearchTypes_NaturalLanguageSearch_UnmarshalJSON),
      (''DeviceLegacySettings_CvSettings_SearchTypes'', DeviceLegacySettings_CvSettings_SearchTypes_model, DeviceLegacySettings_CvSettings_SearchTypes_MarshalJSON, DeviceLegacySettings_CvSettings_SearchTypes_UnmarshalJSON),
      (''DeviceLegacySettings_CvSettings_Threshold'', DeviceLegacySettings_CvSettings_Threshold_model, DeviceLegacySettings_CvSettings_Threshold_MarshalJSON, DeviceLegacySettings_CvSettings_Threshold_UnmarshalJSON),
      (''DeviceLegacySettings_CvSettings'', DeviceLegacySettings_CvSettings_model, DeviceLegacySettings_CvSettings_MarshalJSON, DeviceLegacySettings_CvSettings_UnmarshalJSON),
      (''DeviceLegacySettings_EnableVod'', DeviceLegacySettings_EnableVod_model, DeviceLegacySettings_EnableVod_MarshalJSON, DeviceLegacySettings_EnableVod_UnmarshalJSON),
      (''DeviceLegacySettings_HybridMotionZones_AdvancedObjectSettings_HumanDetectionConfidence'', DeviceLegacySettings_HybridMotionZones_AdvancedObjectSettings_HumanDetectionConfidence_model, DeviceLegacySettings_HybridMotionZones_AdvancedObjectSettings_HumanDetectionConfidence_MarshalJSON, DeviceLegacySettings_HybridMotionZones_AdvancedObjectSettings_HumanDetectionConfidence_UnmarshalJSON),
      (''DeviceLegacySettings_HybridMotionZones_AdvancedObjectSettings_MotionZoneOverlap'', DeviceLegacySettings_HybridMotionZones_AdvancedObjectSettings_MotionZoneOverlap_model, DeviceLegacySettings_HybridMotionZones_AdvancedObjectSettings_MotionZoneOverlap_MarshalJSON, DeviceLegacySettings_HybridMotionZones_AdvancedObjectSettings_MotionZoneOverlap_UnmarshalJSON),
      (''DeviceLegacySettings_HybridMotionZones_AdvancedObjectSettings_ObjectSizeMaximum'', DeviceLegacySettings_HybridMotionZones_AdvancedObjectSettings_ObjectSizeMaximum_model, DeviceLegacySettings_HybridMotionZones_AdvancedObjectSettings_ObjectSizeMaximum_MarshalJSON, DeviceLegacySettings_HybridMotionZones_AdvancedObjectSettings_ObjectSizeMaximum_UnmarshalJSON),
      (''DeviceLegacySettings_HybridMotionZones_AdvancedObjectSettings_ObjectSizeMinimum'', DeviceLegacySettings_HybridMotionZones_AdvancedObjectSettings_ObjectSizeMinimum_model, DeviceLegacySettings_HybridMotionZones_AdvancedObjectSettings_ObjectSizeMinimum_MarshalJSON, DeviceLegacySettings_HybridMotionZones_AdvancedObjectSettings_ObjectSizeMinimum_UnmarshalJSON),
      (''DeviceLegacySettings_HybridMotionZones_AdvancedObjectSettings_ObjectTimeOverlap'', DeviceLegacySettings_HybridMotionZones_AdvancedObjectSettings_ObjectTimeOverlap_model, DeviceLegacySettings_HybridMotionZones_AdvancedObjectSettings_ObjectTimeOverlap_MarshalJSON, DeviceLegacySettings_HybridMotionZones_AdvancedObjectSettings_ObjectTimeOverlap_UnmarshalJSON),
      (''DeviceLegacySettings_HybridMotionZones_AdvancedObjectSettings'', DeviceLegacySettings_HybridMotionZones_AdvancedObjectSettings_model, DeviceLegacySettings_HybridMotionZones_AdvancedObjectSettings_MarshalJSON, DeviceLegacySettings_HybridMotionZones_AdvancedObjectSettings_UnmarshalJSON),
      (''DeviceLegacySettings_HybridMotionZones_AdvancedPirMotionZones'', DeviceLegacySettings_HybridMotionZones_AdvancedPirMotionZones_model, DeviceLegacySettings_HybridMotionZones_AdvancedPirMotionZones_MarshalJSON, DeviceLegacySettings_HybridMotionZones_AdvancedPirMotionZones_UnmarshalJSON),
      (''DeviceLegacySettings_HybridMotionZones_Zone1_Vertex1'', DeviceLegacySettings_HybridMotionZones_Zone1_Vertex1_model, DeviceLegacySettings_HybridMotionZones_Zone1_Vertex1_MarshalJSON, DeviceLegacySettings_HybridMotionZones_Zone1_Vertex1_UnmarshalJSON),
      (''DeviceLegacySettings_HybridMotionZones_Zone1_Vertex2'', DeviceLegacySettings_HybridMotionZones_Zone1_Vertex2_model, DeviceLegacySettings_HybridMotionZones_Zone1_Vertex2_MarshalJSON, DeviceLegacySettings_HybridMotionZones_Zone1_Vertex2_UnmarshalJSON),
      (''DeviceLegacySettings_HybridMotionZones_Zone1_Vertex3'', DeviceLegacySettings_HybridMotionZones_Zone1_Vertex3_model, DeviceLegacySettings_HybridMotionZones_Zone1_Vertex3_MarshalJSON, DeviceLegacySettings_HybridMotionZones_Zone1_Vertex3_UnmarshalJSON),
      (''DeviceLegacySettings_HybridMotionZones_Zone1_Vertex4'', DeviceLegacySettings_HybridMotionZones_Zone1_Vertex4_model, DeviceLegacySettings_HybridMotionZones_Zone1_Vertex4_MarshalJSON, DeviceLegacySettings_HybridMotionZones_Zone1_Vertex4_UnmarshalJSON),
      (''DeviceLegacySettings_HybridMotionZones_Zone1_Vertex5'', DeviceLegacySettings_HybridMotionZones_Zone1_Vertex5_model, DeviceLegacySettings_HybridMotionZones_Zone1_Vertex5_MarshalJSON, DeviceLegacySettings_HybridMotionZones_Zone1_Vertex5_UnmarshalJSON),
      (''DeviceLegacySettings_HybridMotionZones_Zone1_Vertex6'', DeviceLegacySettings_HybridMotionZones_Zone1_Vertex6_model, DeviceLegacySettings_HybridMotionZones_Zone1_Vertex6_MarshalJSON, DeviceLegacySettings_HybridMotionZones_Zone1_Vertex6_UnmarshalJSON),
      (''DeviceLegacySettings_HybridMotionZones_Zone1_Vertex7'', DeviceLegacySettings_HybridMotionZones_Zone1_Vertex7_model, DeviceLegacySettings_HybridMotionZones_Zone1_Vertex7_MarshalJSON, DeviceLegacySettings_HybridMotionZones_Zone1_Vertex7_UnmarshalJSON),
      (''DeviceLegacySettings_HybridMotionZones_Zone1_Vertex8'', DeviceLegacySettings_HybridMotionZones_Zone1_Vertex8_model, DeviceLegacySettings_HybridMotionZones_Zone1_Vertex8_MarshalJSON, DeviceLegacySettings_HybridMotionZones_Zone1_Vertex8_UnmarshalJSON),
      (''DeviceLegacySettings_HybridMotionZones_Zone1'', DeviceLegacySettings_HybridMotionZones_Zone1_model, DeviceLegacySettings_HybridMotionZones_Zone1_MarshalJSON, DeviceLegacySettings_HybridMotionZones_Zone1_UnmarshalJSON),
      (''DeviceLegacySettings_HybridMotionZones_Zone2_Vertex1'', DeviceLegacySettings_HybridMotionZones_Zone2_Vertex1_model, DeviceLegacySettings_HybridMotionZones_Zone2_Vertex1_MarshalJSON, DeviceLegacySettings_HybridMotionZones_Zone2_Vertex1_UnmarshalJSON),
      (''DeviceLegacySettings_HybridMotionZones_Zone2_Vertex2'', DeviceLegacySettings_HybridMotionZones_Zone2_Vertex2_model, DeviceLegacySettings_HybridMotionZones_Zone2_Vertex2_MarshalJSON, DeviceLegacySettings_HybridMotionZones_Zone2_Vertex2_UnmarshalJSON),
      (''DeviceLegacySettings_HybridMotionZones_Zone2_Vertex3'', DeviceLegacySettings_HybridMotionZones_Zone2_Vertex3_model, DeviceLegacySettings_HybridMotionZones_Zone2_Vertex3_MarshalJSON, DeviceLegacySettings_HybridMotionZones_Zone2_Vertex3_UnmarshalJSON),
      (''DeviceLegacySettings_HybridMotionZones_Zone2_Vertex4'', DeviceLegacySettings_HybridMotionZones_Zone2_Vertex4_model, DeviceLegacySettings_HybridMotionZones_Zone2_Vertex4_MarshalJSON, DeviceLegacySettings_HybridMotionZones_Zone2_Vertex4_UnmarshalJSON),
      (''DeviceLegacySettings_HybridMotionZones_Zone2_Vertex5'', DeviceLegacySettings_HybridMotionZones_Zone2_Vertex5_model, DeviceLegacySettings_HybridMotionZones_Zone2_Vertex5_MarshalJSON, DeviceLegacySettings_HybridMotionZones_Zone2_Vertex5_UnmarshalJSON),
      (''DeviceLegacySettings_HybridMotionZones_Zone2_Vertex6'', DeviceLegacySettings_HybridMotionZones_Zone2_Vertex6_model, DeviceLegacySettings_HybridMotionZones_Zone2_Vertex6_MarshalJSON, DeviceLegacySettings_HybridMotionZones_Zone2_Vertex6_UnmarshalJSON),
      (''DeviceLegacySettings_HybridMotionZones_Zone2_Vertex7'', DeviceLegacySettings_HybridMotionZones_Zone2_Vertex7_model, DeviceLegacySettings_HybridMotionZones_Zone2_Vertex7_MarshalJSON, DeviceLegacySettings_HybridMotionZones_Zone2_Vertex7_UnmarshalJSON),
      (''DeviceLegacySettings_HybridMotionZones_Zone2_Vertex8'', DeviceLegacySettings_HybridMotionZones_Zone2_Vertex8_model, DeviceLegacySettings_HybridMotionZones_Zone2_Vertex8_MarshalJSON, DeviceLegacySettings_HybridMotionZones_Zone2_Vertex8_UnmarshalJSON),
      (''DeviceLegacySettings_HybridMotionZones_Zone2'', DeviceLegacySettings_HybridMotionZones_Zone2_model, DeviceLegacySettings_HybridMotionZones_Zone2_MarshalJSON, DeviceLegacySettings_HybridMotionZones_Zone2_UnmarshalJSON),
      (''DeviceLegacySettings_HybridMotionZones_Zone3_Vertex1'', DeviceLegacySettings_HybridMotionZones_Zone3_Vertex1_model, DeviceLegacySettings_HybridMotionZones_Zone3_Vertex1_MarshalJSON, DeviceLegacySettings_HybridMotionZones_Zone3_Vertex1_UnmarshalJSON),
      (''DeviceLegacySettings_HybridMotionZones_Zone3_Vertex2'', DeviceLegacySettings_HybridMotionZones_Zone3_Vertex2_model, DeviceLegacySettings_HybridMotionZones_Zone3_Vertex2_MarshalJSON, DeviceLegacySettings_HybridMotionZones_Zone3_Vertex2_UnmarshalJSON),
      (''DeviceLegacySettings_HybridMotionZones_Zone3_Vertex3'', DeviceLegacySettings_HybridMotionZones_Zone3_Vertex3_model, DeviceLegacySettings_HybridMotionZones_Zone3_Vertex3_MarshalJSON, DeviceLegacySettings_HybridMotionZones_Zone3_Vertex3_UnmarshalJSON),
      (''DeviceLegacySettings_HybridMotionZones_Zone3_Vertex4'', DeviceLegacySettings_HybridMotionZones_Zone3_Vertex4_model, DeviceLegacySettings_HybridMotionZones_Zone3_Vertex4_MarshalJSON, DeviceLegacySettings_HybridMotionZones_Zone3_Vertex4_UnmarshalJSON),
      (''DeviceLegacySettings_HybridMotionZones_Zone3_Vertex5'', DeviceLegacySettings_HybridMotionZones_Zone3_Vertex5_model, DeviceLegacySettings_HybridMotionZones_Zone3_Vertex5_MarshalJSON, DeviceLegacySettings_HybridMotionZones_Zone3_Vertex5_UnmarshalJSON),
      (''DeviceLegacySettings_HybridMotionZones_Zone3_Vertex6'', DeviceLegacySettings_HybridMotionZones_Zone3_Vertex6_model, DeviceLegacySettings_HybridMotionZones_Zone3_Vertex6_MarshalJSON, DeviceLegacySettings_HybridMotionZones_Zone3_Vertex6_UnmarshalJSON),
      (''DeviceLegacySettings_HybridMotionZones_Zone3_Vertex7'', DeviceLegacySettings_HybridMotionZones_Zone3_Vertex7_model, DeviceLegacySettings_HybridMotionZones_Zone3_Vertex7_MarshalJSON, DeviceLegacySettings_HybridMotionZones_Zone3_Vertex7_UnmarshalJSON),
      (''DeviceLegacySettings_HybridMotionZones_Zone3_Vertex8'', DeviceLegacySettings_HybridMotionZones_Zone3_Vertex8_model, DeviceLegacySettings_HybridMotionZones_Zone3_Vertex8_MarshalJSON, DeviceLegacySettings_HybridMotionZones_Zone3_Vertex8_UnmarshalJSON),
      (''DeviceLegacySettings_HybridMotionZones_Zone3'', DeviceLegacySettings_HybridMotionZones_Zone3_model, DeviceLegacySettings_HybridMotionZones_Zone3_MarshalJSON, DeviceLegacySettings_HybridMotionZones_Zone3_UnmarshalJSON),
      (''DeviceLegacySettings_HybridMotionZones'', DeviceLegacySettings_HybridMotionZones_model, DeviceLegacySettings_HybridMotionZones_MarshalJSON, DeviceLegacySettings_HybridMotionZones_UnmarshalJSON),
      (''DeviceLegacySettings_IgnoreZones_Zone1_Vertex1'', DeviceLegacySettings_IgnoreZones_Zone1_Vertex1_model, DeviceLegacySettings_IgnoreZones_Zone1_Vertex1_MarshalJSON, DeviceLegacySettings_IgnoreZones_Zone1_Vertex1_UnmarshalJSON),
      (''DeviceLegacySettings_IgnoreZones_Zone1_Vertex2'', DeviceLegacySettings_IgnoreZones_Zone1_Vertex2_model, DeviceLegacySettings_IgnoreZones_Zone1_Vertex2_MarshalJSON, DeviceLegacySettings_IgnoreZones_Zone1_Vertex2_UnmarshalJSON),
      (''DeviceLegacySettings_IgnoreZones_Zone1'', DeviceLegacySettings_IgnoreZones_Zone1_model, DeviceLegacySettings_IgnoreZones_Zone1_MarshalJSON, DeviceLegacySettings_IgnoreZones_Zone1_UnmarshalJSON),
      (''DeviceLegacySettings_IgnoreZones_Zone2_Vertex1'', DeviceLegacySettings_IgnoreZones_Zone2_Vertex1_model, DeviceLegacySettings_IgnoreZones_Zone2_Vertex1_MarshalJSON, DeviceLegacySettings_IgnoreZones_Zone2_Vertex1_UnmarshalJSON),
      (''DeviceLegacySettings_IgnoreZones_Zone2_Vertex2'', DeviceLegacySettings_IgnoreZones_Zone2_Vertex2_model, DeviceLegacySettings_IgnoreZones_Zone2_Vertex2_MarshalJSON, DeviceLegacySettings_IgnoreZones_Zone2_Vertex2_UnmarshalJSON),
      (''DeviceLegacySettings_IgnoreZones_Zone2'', DeviceLegacySettings_IgnoreZones_Zone2_model, DeviceLegacySettings_IgnoreZones_Zone2_MarshalJSON, DeviceLegacySettings_IgnoreZones_Zone2_UnmarshalJSON),
      (''DeviceLegacySettings_IgnoreZones_Zone3_Vertex1'', DeviceLegacySettings_IgnoreZones_Zone3_Vertex1_model, DeviceLegacySettings_IgnoreZones_Zone3_Vertex1_MarshalJSON, DeviceLegacySettings_IgnoreZones_Zone3_Vertex1_UnmarshalJSON),
      (''DeviceLegacySettings_IgnoreZones_Zone3_Vertex2'', DeviceLegacySettings_IgnoreZones_Zone3_Vertex2_model, DeviceLegacySettings_IgnoreZones_Zone3_Vertex2_MarshalJSON, DeviceLegacySettings_IgnoreZones_Zone3_Vertex2_UnmarshalJSON),
      (''DeviceLegacySettings_IgnoreZones_Zone3'', DeviceLegacySettings_IgnoreZones_Zone3_model, DeviceLegacySettings_IgnoreZones_Zone3_MarshalJSON, DeviceLegacySettings_IgnoreZones_Zone3_UnmarshalJSON),
      (''DeviceLegacySettings_IgnoreZones_Zone4_Vertex1'', DeviceLegacySettings_IgnoreZones_Zone4_Vertex1_model, DeviceLegacySettings_IgnoreZones_Zone4_Vertex1_MarshalJSON, DeviceLegacySettings_IgnoreZones_Zone4_Vertex1_UnmarshalJSON),
      (''DeviceLegacySettings_IgnoreZones_Zone4_Vertex2'', DeviceLegacySettings_IgnoreZones_Zone4_Vertex2_model, DeviceLegacySettings_IgnoreZones_Zone4_Vertex2_MarshalJSON, DeviceLegacySettings_IgnoreZones_Zone4_Vertex2_UnmarshalJSON),
      (''DeviceLegacySettings_IgnoreZones_Zone4'', DeviceLegacySettings_IgnoreZones_Zone4_model, DeviceLegacySettings_IgnoreZones_Zone4_MarshalJSON, DeviceLegacySettings_IgnoreZones_Zone4_UnmarshalJSON),
      (''DeviceLegacySettings_IgnoreZones'', DeviceLegacySettings_IgnoreZones_model, DeviceLegacySettings_IgnoreZones_MarshalJSON, DeviceLegacySettings_IgnoreZones_UnmarshalJSON),
      (''DeviceLegacySettings_LightSnoozeSettings'', DeviceLegacySettings_LightSnoozeSettings_model, DeviceLegacySettings_LightSnoozeSettings_MarshalJSON, DeviceLegacySettings_LightSnoozeSettings_UnmarshalJSON),
      (''DeviceLegacySettings_Lite24x7'', DeviceLegacySettings_Lite24x7_model, DeviceLegacySettings_Lite24x7_MarshalJSON, DeviceLegacySettings_Lite24x7_UnmarshalJSON),
      (''DeviceLegacySettings_MotionSettings'', DeviceLegacySettings_MotionSettings_model, DeviceLegacySettings_MotionSettings_MarshalJSON, DeviceLegacySettings_MotionSettings_UnmarshalJSON),
      (''DeviceLegacySettings_MotionZones'', DeviceLegacySettings_MotionZones_model, DeviceLegacySettings_MotionZones_MarshalJSON, DeviceLegacySettings_MotionZones_UnmarshalJSON),
      (''DeviceLegacySettings_NetworkSettings_NetworkDiagnosis'', DeviceLegacySettings_NetworkSettings_NetworkDiagnosis_model, DeviceLegacySettings_NetworkSettings_NetworkDiagnosis_MarshalJSON, DeviceLegacySettings_NetworkSettings_NetworkDiagnosis_UnmarshalJSON),
      (''DeviceLegacySettings_NetworkSettings'', DeviceLegacySettings_NetworkSettings_model, DeviceLegacySettings_NetworkSettings_MarshalJSON, DeviceLegacySettings_NetworkSettings_UnmarshalJSON),
      (''DeviceLegacySettings_OfflineMotionEventSettings'', DeviceLegacySettings_OfflineMotionEventSettings_model, DeviceLegacySettings_OfflineMotionEventSettings_MarshalJSON, DeviceLegacySettings_OfflineMotionEventSettings_UnmarshalJSON),
      (''DeviceLegacySettings_OtherPaidFeatures'', DeviceLegacySettings_OtherPaidFeatures_model, DeviceLegacySettings_OtherPaidFeatures_MarshalJSON, DeviceLegacySettings_OtherPaidFeatures_UnmarshalJSON),
      (''DeviceLegacySettings_PtzSettings_AutoScan'', DeviceLegacySettings_PtzSettings_AutoScan_model, DeviceLegacySettings_PtzSettings_AutoScan_MarshalJSON, DeviceLegacySettings_PtzSettings_AutoScan_UnmarshalJSON),
      (''DeviceLegacySettings_PtzSettings_PanSettings_Movement'', DeviceLegacySettings_PtzSettings_PanSettings_Movement_model, DeviceLegacySettings_PtzSettings_PanSettings_Movement_MarshalJSON, DeviceLegacySettings_PtzSettings_PanSettings_Movement_UnmarshalJSON),
      (''DeviceLegacySettings_PtzSettings_PanSettings_Positions'', DeviceLegacySettings_PtzSettings_PanSettings_Positions_model, DeviceLegacySettings_PtzSettings_PanSettings_Positions_MarshalJSON, DeviceLegacySettings_PtzSettings_PanSettings_Positions_UnmarshalJSON),
      (''DeviceLegacySettings_PtzSettings_PanSettings'', DeviceLegacySettings_PtzSettings_PanSettings_model, DeviceLegacySettings_PtzSettings_PanSettings_MarshalJSON, DeviceLegacySettings_PtzSettings_PanSettings_UnmarshalJSON),
      (''DeviceLegacySettings_PtzSettings_TiltSettings_Movement'', DeviceLegacySettings_PtzSettings_TiltSettings_Movement_model, DeviceLegacySettings_PtzSettings_TiltSettings_Movement_MarshalJSON, DeviceLegacySettings_PtzSettings_TiltSettings_Movement_UnmarshalJSON),
      (''DeviceLegacySettings_PtzSettings_TiltSettings_Positions'', DeviceLegacySettings_PtzSettings_TiltSettings_Positions_model, DeviceLegacySettings_PtzSettings_TiltSettings_Positions_MarshalJSON, DeviceLegacySettings_PtzSettings_TiltSettings_Positions_UnmarshalJSON),
      (''DeviceLegacySettings_PtzSettings_TiltSettings'', DeviceLegacySettings_PtzSettings_TiltSettings_model, DeviceLegacySettings_PtzSettings_TiltSettings_MarshalJSON, DeviceLegacySettings_PtzSettings_TiltSettings_UnmarshalJSON),
      (''DeviceLegacySettings_PtzSettings'', DeviceLegacySettings_PtzSettings_model, DeviceLegacySettings_PtzSettings_MarshalJSON, DeviceLegacySettings_PtzSettings_UnmarshalJSON),
      (''DeviceLegacySettings_ServerSettings'', DeviceLegacySettings_ServerSettings_model, DeviceLegacySettings_ServerSettings_MarshalJSON, DeviceLegacySettings_ServerSettings_UnmarshalJSON),
      (''DeviceLegacySettings_SheilaSettings'', DeviceLegacySettings_SheilaSettings_model, DeviceLegacySettings_SheilaSettings_MarshalJSON, DeviceLegacySettings_SheilaSettings_UnmarshalJSON),
      (''DeviceLegacySettings_VideoSettings'', DeviceLegacySettings_VideoSettings_model, DeviceLegacySettings_VideoSettings_MarshalJSON, DeviceLegacySettings_VideoSettings_UnmarshalJSON),
      (''DeviceLegacySettings_ZoneSettings_Motion_Properties'', DeviceLegacySettings_ZoneSettings_Motion_Properties_model, DeviceLegacySettings_ZoneSettings_Motion_Properties_MarshalJSON, DeviceLegacySettings_ZoneSettings_Motion_Properties_UnmarshalJSON),
      (''DeviceLegacySettings_ZoneSettings_Motion_Vertices'', DeviceLegacySettings_ZoneSettings_Motion_Vertices_model, DeviceLegacySettings_ZoneSettings_Motion_Vertices_MarshalJSON, DeviceLegacySettings_ZoneSettings_Motion_Vertices_UnmarshalJSON),
      (''DeviceLegacySettings_ZoneSettings_Motion'', DeviceLegacySettings_ZoneSettings_Motion_model, DeviceLegacySettings_ZoneSettings_Motion_MarshalJSON, DeviceLegacySettings_ZoneSettings_Motion_UnmarshalJSON),
      (''DeviceLegacySettings_ZoneSettings'', DeviceLegacySettings_ZoneSettings_model, DeviceLegacySettings_ZoneSettings_MarshalJSON, DeviceLegacySettings_ZoneSettings_UnmarshalJSON),
      (''PTZAutoScan'', PTZAutoScan_model, PTZAutoScan_MarshalJSON, PTZAutoScan_UnmarshalJSON),
      (''PTZMovement'', PTZMovement_model, PTZMovement_MarshalJSON, PTZMovement_UnmarshalJSON),
      (''PTZPositions'', PTZPositions_model, PTZPositions_MarshalJSON, PTZPositions_UnmarshalJSON),
      (''VideoRenderingFeature'', VideoRenderingFeature_model, VideoRenderingFeature_MarshalJSON, VideoRenderingFeature_UnmarshalJSON),
      (''VideoSettings'', VideoSettings_model, VideoSettings_MarshalJSON, VideoSettings_UnmarshalJSON),
      (''DeviceLegacySettings'', DeviceLegacySettings_model, DeviceLegacySettings_MarshalJSON, DeviceLegacySettings_UnmarshalJSON),
      (''PTZAxisSettings'', PTZAxisSettings_model, PTZAxisSettings_MarshalJSON, PTZAxisSettings_UnmarshalJSON),
      (''PTZSettings'', PTZSettings_model, PTZSettings_MarshalJSON, PTZSettings_UnmarshalJSON)]"

lemmas RestCameras_codec_defs =
  DeviceLegacySettings_AdvancedMotionZones_Zone1_Vertex1_MarshalJSON_def DeviceLegacySettings_AdvancedMotionZones_Zone1_Vertex1_UnmarshalJSON_def
  DeviceLegacySettings_AdvancedMotionZones_Zone1_Vertex2_MarshalJSON_def DeviceLegacySettings_AdvancedMotionZones_Zone1_Vertex2_UnmarshalJSON_def
  DeviceLegacySettings_AdvancedMotionZones_Zone1_Vertex3_MarshalJSON_def DeviceLegacySettings_AdvancedMotionZones_Zone1_Vertex3_UnmarshalJSON_def
  DeviceLegacySettings_AdvancedMotionZones_Zone1_Vertex4_MarshalJSON_def DeviceLegacySettings_AdvancedMotionZones_Zone1_Vertex4_UnmarshalJSON_def
  DeviceLegacySettings_AdvancedMotionZones_Zone1_Vertex5_MarshalJSON_def DeviceLegacySettings_AdvancedMotionZones_Zone1_Vertex5_UnmarshalJSON_def
  DeviceLegacySettings_AdvancedMotionZones_Zone1_Vertex6_MarshalJSON_def DeviceLegacySettings_AdvancedMotionZones_Zone1_Vertex6_UnmarshalJSON_def
  DeviceLegacySettings_AdvancedMotionZones_Zone1_Vertex7_MarshalJSON_def DeviceLegacySettings_AdvancedMotionZones_Zone1_Vertex7_UnmarshalJSON_def
  DeviceLegacySettings_AdvancedMotionZones_Zone1_Vertex8_MarshalJSON_def DeviceLegacySettings_AdvancedMotionZones_Zone1_Vertex8_UnmarshalJSON_def
  DeviceLegacySettings_AdvancedMotionZones_Zone1_MarshalJSON_def DeviceLegacySettings_AdvancedMotionZones_Zone1_UnmarshalJSON_def
  DeviceLegacySettings_AdvancedMotionZones_Zone2_Vertex1_MarshalJSON_def DeviceLegacySettings_AdvancedMotionZones_Zone2_Vertex1_UnmarshalJSON_def
  DeviceLegacySettings_AdvancedMotionZones_Zone2_Vertex2_MarshalJSON_def DeviceLegacySettings_AdvancedMotionZones_Zone2_Vertex2_UnmarshalJSON_def
  DeviceLegacySettings_AdvancedMotionZones_Zone2_Vertex3_MarshalJSON_def DeviceLegacySettings_AdvancedMotionZones_Zone2_Vertex3_UnmarshalJSON_def
  DeviceLegacySettings_AdvancedMotionZones_Zone2_Vertex4_MarshalJSON_def DeviceLegacySettings_AdvancedMotionZones_Zone2_Vertex4_UnmarshalJSON_def
  DeviceLegacySettings_AdvancedMotionZones_Zone2_Vertex5_MarshalJSON_def DeviceLegacySettings_AdvancedMotionZones_Zone2_Vertex5_UnmarshalJSON_def
  DeviceLegacySettings_AdvancedMotionZones_Zone2_Vertex6_MarshalJSON_def DeviceLegacySettings_AdvancedMotionZones_Zone2_Vertex6_UnmarshalJSON_def
  DeviceLegacySettings_AdvancedMotionZones_Zone2_Vertex7_MarshalJSON_def DeviceLegacySettings_AdvancedMotionZones_Zone2_Vertex7_UnmarshalJSON_def
  DeviceLegacySettings_AdvancedMotionZones_Zone2_Vertex8_MarshalJSON_def DeviceLegacySettings_AdvancedMotionZones_Zone2_Vertex8_UnmarshalJSON_def
  DeviceLegacySettings_AdvancedMotionZones_Zone2_MarshalJSON_def DeviceLegacySettings_AdvancedMotionZones_Zone2_UnmarshalJSON_def
  DeviceLegacySettings_AdvancedMotionZones_Zone3_Vertex1_MarshalJSON_def DeviceLegacySettings_AdvancedMotionZones_Zone3_Vertex1_UnmarshalJSON_def
  DeviceLegacySettings_AdvancedMotionZones_Zone3_Vertex2_MarshalJSON_def DeviceLegacySettings_AdvancedMotionZones_Zone3_Vertex2_UnmarshalJSON_def
  DeviceLegacySettings_AdvancedMotionZones_Zone3_Vertex3_MarshalJSON_def DeviceLegacySettings_AdvancedMotionZones_Zone3_Vertex3_UnmarshalJSON_def
  DeviceLegacySettings_AdvancedMotionZones_Zone3_Vertex4_MarshalJSON_def DeviceLegacySettings_AdvancedMotionZones_Zone3_Vertex4_UnmarshalJSON_def
  DeviceLegacySettings_AdvancedMotionZones_Zone3_Vertex5_MarshalJSON_def DeviceLegacySettings_AdvancedMotionZones_Zone3_Vertex5_UnmarshalJSON_def
  DeviceLegacySettings_AdvancedMotionZones_Zone3_Vertex6_MarshalJSON_def DeviceLegacySettings_AdvancedMotionZones_Zone3_Vertex6_UnmarshalJSON_def
  DeviceLegacySettings_AdvancedMotionZones_Zone3_Vertex7_MarshalJSON_def DeviceLegacySettings_AdvancedMotionZones_Zone3_Vertex7_UnmarshalJSON_def
  DeviceLegacySettings_AdvancedMotionZones_Zone3_Vertex8_MarshalJSON_def DeviceLegacySettings_AdvancedMotionZones_Zone3_Vertex8_UnmarshalJSON_def
  DeviceLegacySettings_AdvancedMotionZones_Zone3_MarshalJSON_def DeviceLegacySettings_AdvancedMotionZones_Zone3_UnmarshalJSON_def
  DeviceLegacySettings_AdvancedMotionZones_MarshalJSON_def DeviceLegacySettings_AdvancedMotionZones_UnmarshalJSON_def
  DeviceLegacySettings_AdvancedPirMotionZones_MarshalJSON_def DeviceLegacySettings_AdvancedPirMotionZones_UnmarshalJSON_def
  DeviceLegacySettings_AudioSettings_MarshalJSON_def DeviceLegacySettings_AudioSettings_UnmarshalJSON_def
  DeviceLegacySettings_CvPaidFeatures_MarshalJSON_def DeviceLegacySettings_CvPaidFeatures_UnmarshalJSON_def
  DeviceLegacySettings_CvSettings_DetectionTypes_Animal_MarshalJSON_def DeviceLegacySettings_CvSettings_DetectionTypes_Animal_UnmarshalJSON_def
  DeviceLegacySettings_CvSettings_DetectionTypes_BabyCry_MarshalJSON_def DeviceLegacySettings_CvSettings_DetectionTypes_BabyCry_UnmarshalJSON_def
  DeviceLegacySettings_CvSettings_DetectionTypes_CarAlarm_MarshalJSON_def DeviceLegacySettings_CvSettings_DetectionTypes_CarAlarm_UnmarshalJSON_def
  DeviceLegacySettings_CvSettings_DetectionTypes_Co2SmokeAlarm_MarshalJSON_def DeviceLegacySettings_CvSettings_DetectionTypes_Co2SmokeAlarm_UnmarshalJSON_def
  DeviceLegacySettings_CvSettings_DetectionTypes_DogBark_MarshalJSON_def DeviceLegacySettings_CvSettings_DetectionTypes_DogBark_UnmarshalJSON_def
  DeviceLegacySettings_CvSettings_DetectionTypes_GeneralSound_MarshalJSON_def DeviceLegacySettings_CvSettings_DetectionTypes_GeneralSound_UnmarshalJSON_def
  DeviceLegacySettings_CvSettings_DetectionTypes_GlassBreak_MarshalJSON_def DeviceLegacySettings_CvSettings_DetectionTypes_GlassBreak_UnmarshalJSON_def
  DeviceLegacySettings_CvSettings_DetectionTypes_Human_MarshalJSON_def DeviceLegacySettings_CvSettings_DetectionTypes_Human_UnmarshalJSON_def
  DeviceLegacySettings_CvSettings_DetectionTypes_Loitering_MarshalJSON_def DeviceLegacySettings_CvSettings_DetectionTypes_Loitering_UnmarshalJSON_def
  DeviceLegacySettings_CvSettings_DetectionTypes_Motion_MarshalJSON_def DeviceLegacySettings_CvSettings_DetectionTypes_Motion_UnmarshalJSON_def
  DeviceLegacySettings_CvSettings_DetectionTypes_MotionStop_MarshalJSON_def DeviceLegacySettings_CvSettings_DetectionTypes_MotionStop_UnmarshalJSON_def
  DeviceLegacySettings_CvSettings_DetectionTypes_MovingVehicle_MarshalJSON_def DeviceLegacySettings_CvSettings_DetectionTypes_MovingVehicle_UnmarshalJSON_def
  DeviceLegacySettings_CvSettings_DetectionTypes_OtherMotion_MarshalJSON_def DeviceLegacySettings_CvSettings_DetectionTypes_OtherMotion_UnmarshalJSON_def
  DeviceLegacySettings_CvSettings_DetectionTypes_PackageDelivery_MarshalJSON_def DeviceLegacySettings_CvSettings_DetectionTypes_PackageDelivery_UnmarshalJSON_def
  DeviceLegacySettings_CvSettings_DetectionTypes_PackagePickup_MarshalJSON_def DeviceLegacySettings_CvSettings_DetectionTypes_PackagePickup_UnmarshalJSON_def
  DeviceLegacySettings_CvSettings_DetectionTypes_UnverifiedMotion_MarshalJSON_def DeviceLegacySettings_CvSettings_DetectionTypes_UnverifiedMotion_UnmarshalJSON_def
  DeviceLegacySettings_CvSettings_DetectionTypes_Vehicle_MarshalJSON_def DeviceLegacySettings_CvSettings_DetectionTypes_Vehicle_UnmarshalJSON_def
  DeviceLegacySettings_CvSettings_DetectionTypes_MarshalJSON_def DeviceLegacySettings_CvSettings_DetectionTypes_UnmarshalJSON_def
  DeviceLegacySettings_CvSettings_SearchTypes_NaturalLanguageSearch_MarshalJSON_def DeviceLegacySettings_CvSettings_SearchTypes_NaturalLanguageSearch_UnmarshalJSON_def
  DeviceLegacySettings_CvSettings_SearchTypes_MarshalJSON_def DeviceLegacySettings_CvSettings_SearchTypes_UnmarshalJSON_def
  DeviceLegacySettings_CvSettings_Threshold_MarshalJSON_def DeviceLegacySettings_CvSettings_Threshold_UnmarshalJSON_def
  DeviceLegacySettings_CvSettings_MarshalJSON_def DeviceLegacySettings_CvSettings_UnmarshalJSON_def
  DeviceLegacySettings_EnableVod_MarshalJSON_def DeviceLegacySettings_EnableVod_UnmarshalJSON_def
  DeviceLegacySettings_HybridMotionZones_AdvancedObjectSettings_HumanDetectionConfidence_MarshalJSON_def DeviceLegacySettings_HybridMotionZones_AdvancedObjectSettings_HumanDetectionConfidence_UnmarshalJSON_def
  DeviceLegacySettings_HybridMotionZones_AdvancedObjectSettings_MotionZoneOverlap_MarshalJSON_def DeviceLegacySettings_HybridMotionZones_AdvancedObjectSettings_MotionZoneOverlap_UnmarshalJSON_def
  DeviceLegacySettings_HybridMotionZones_AdvancedObjectSettings_ObjectSizeMaximum_MarshalJSON_def DeviceLegacySettings_HybridMotionZones_AdvancedObjectSettings_ObjectSizeMaximum_UnmarshalJSON_def
  DeviceLegacySettings_HybridMotionZones_AdvancedObjectSettings_ObjectSizeMinimum_MarshalJSON_def DeviceLegacySettings_HybridMotionZones_AdvancedObjectSettings_ObjectSizeMinimum_UnmarshalJSON_def
  DeviceLegacySettings_HybridMotionZones_AdvancedObjectSettings_ObjectTimeOverlap_MarshalJSON_def DeviceLegacySettings_HybridMotionZones_AdvancedObjectSettings_ObjectTimeOverlap_UnmarshalJSON_def
  DeviceLegacySettings_HybridMotionZones_AdvancedObjectSettings_MarshalJSON_def DeviceLegacySettings_HybridMotionZones_AdvancedObjectSettings_UnmarshalJSON_def
  DeviceLegacySettings_HybridMotionZones_AdvancedPirMotionZones_MarshalJSON_def DeviceLegacySettings_HybridMotionZones_AdvancedPirMotionZones_UnmarshalJSON_def
  DeviceLegacySettings_HybridMotionZones_Zone1_Vertex1_MarshalJSON_def DeviceLegacySettings_HybridMotionZones_Zone1_Vertex1_UnmarshalJSON_def
  DeviceLegacySettings_HybridMotionZones_Zone1_Vertex2_MarshalJSON_def DeviceLegacySettings_HybridMotionZones_Zone1_Vertex2_UnmarshalJSON_def
  DeviceLegacySettings_HybridMotionZones_Zone1_Vertex3_MarshalJSON_def DeviceLegacySettings_HybridMotionZones_Zone1_Vertex3_UnmarshalJSON_def
  DeviceLegacySettings_HybridMotionZones_Zone1_Vertex4_MarshalJSON_def DeviceLegacySettings_HybridMotionZones_Zone1_Vertex4_UnmarshalJSON_def
  DeviceLegacySettings_HybridMotionZones_Zone1_Vertex5_MarshalJSON_def DeviceLegacySettings_HybridMotionZones_Zone1_Vertex5_UnmarshalJSON_def
  DeviceLegacySettings_HybridMotionZones_Zone1_Vertex6_MarshalJSON_def DeviceLegacySettings_HybridMotionZones_Zone1_Vertex6_UnmarshalJSON_def
  DeviceLegacySettings_HybridMotionZones_Zone1_Vertex7_MarshalJSON_def DeviceLegacySettings_HybridMotionZones_Zone1_Vertex7_UnmarshalJSON_def
  DeviceLegacySettings_HybridMotionZones_Zone1_Vertex8_MarshalJSON_def DeviceLegacySettings_HybridMotionZones_Zone1_Vertex8_UnmarshalJSON_def
  DeviceLegacySettings_HybridMotionZones_Zone1_MarshalJSON_def DeviceLegacySettings_HybridMotionZones_Zone1_UnmarshalJSON_def
  DeviceLegacySettings_HybridMotionZones_Zone2_Vertex1_MarshalJSON_def DeviceLegacySettings_HybridMotionZones_Zone2_Vertex1_UnmarshalJSON_def
  DeviceLegacySettings_HybridMotionZones_Zone2_Vertex2_MarshalJSON_def DeviceLegacySettings_HybridMotionZones_Zone2_Vertex2_UnmarshalJSON_def
  DeviceLegacySettings_HybridMotionZones_Zone2_Vertex3_MarshalJSON_def DeviceLegacySettings_HybridMotionZones_Zone2_Vertex3_UnmarshalJSON_def
  DeviceLegacySettings_HybridMotionZones_Zone2_Vertex4_MarshalJSON_def DeviceLegacySettings_HybridMotionZones_Zone2_Vertex4_UnmarshalJSON_def
  DeviceLegacySettings_HybridMotionZones_Zone2_Vertex5_MarshalJSON_def DeviceLegacySettings_HybridMotionZones_Zone2_Vertex5_UnmarshalJSON_def
  DeviceLegacySettings_HybridMotionZones_Zone2_Vertex6_MarshalJSON_def DeviceLegacySettings_HybridMotionZones_Zone2_Vertex6_UnmarshalJSON_def
  DeviceLegacySettings_HybridMotionZones_Zone2_Vertex7_MarshalJSON_def DeviceLegacySettings_HybridMotionZones_Zone2_Vertex7_UnmarshalJSON_def
  DeviceLegacySettings_HybridMotionZones_Zone2_Vertex8_MarshalJSON_def DeviceLegacySettings_HybridMotionZones_Zone2_Vertex8_UnmarshalJSON_def
  DeviceLegacySettings_HybridMotionZones_Zone2_MarshalJSON_def DeviceLegacySettings_HybridMotionZones_Zone2_UnmarshalJSON_def
  DeviceLegacySettings_HybridMotionZones_Zone3_Vertex1_MarshalJSON_def DeviceLegacySettings_HybridMotionZones_Zone3_Vertex1_UnmarshalJSON_def
  DeviceLegacySettings_HybridMotionZones_Zone3_Vertex2_MarshalJSON_def DeviceLegacySettings_HybridMotionZones_Zone3_Vertex2_UnmarshalJSON_def
  DeviceLegacySettings_HybridMotionZones_Zone3_Vertex3_MarshalJSON_def DeviceLegacySettings_HybridMotionZones_Zone3_Vertex3_UnmarshalJSON_def
  DeviceLegacySettings_HybridMotionZones_Zone3_Vertex4_MarshalJSON_def DeviceLegacySettings_HybridMotionZones_Zone3_Vertex4_UnmarshalJSON_def
  DeviceLegacySettings_HybridMotionZones_Zone3_Vertex5_MarshalJSON_def DeviceLegacySettings_HybridMotionZones_Zone3_Vertex5_UnmarshalJSON_def
  DeviceLegacySettings_HybridMotionZones_Zone3_Vertex6_MarshalJSON_def DeviceLegacySettings_HybridMotionZones_Zone3_Vertex6_UnmarshalJSON_def
  DeviceLegacySettings_HybridMotionZones_Zone3_Vertex7_MarshalJSON_def DeviceLegacySettings_HybridMotionZones_Zone3_Vertex7_UnmarshalJSON_def
  DeviceLegacySettings_HybridMotionZones_Zone3_Vertex8_MarshalJSON_def DeviceLegacySettings_HybridMotionZones_Zone3_Vertex8_UnmarshalJSON_def
  DeviceLegacySettings_HybridMotionZones_Zone3_MarshalJSON_def DeviceLegacySettings_HybridMotionZones_Zone3_UnmarshalJSON_def
  DeviceLegacySettings_HybridMotionZones_MarshalJSON_def DeviceLegacySettings_HybridMotionZones_UnmarshalJSON_def
  DeviceLegacySettings_IgnoreZones_Zone1_Vertex1_MarshalJSON_def DeviceLegacySettings_IgnoreZones_Zone1_Vertex1_UnmarshalJSON_def
  DeviceLegacySettings_IgnoreZones_Zone1_Vertex2_MarshalJSON_def DeviceLegacySettings_IgnoreZones_Zone1_Vertex2_UnmarshalJSON_def
  DeviceLegacySettings_IgnoreZones_Zone1_MarshalJSON_def DeviceLegacySettings_IgnoreZones_Zone1_UnmarshalJSON_def
  DeviceLegacySettings_IgnoreZones_Zone2_Vertex1_MarshalJSON_def DeviceLegacySettings_IgnoreZones_Zone2_Vertex1_UnmarshalJSON_def
  DeviceLegacySettings_IgnoreZones_Zone2_Vertex2_MarshalJSON_def DeviceLegacySettings_IgnoreZones_Zone2_Vertex2_UnmarshalJSON_def
  DeviceLegacySettings_IgnoreZones_Zone2_MarshalJSON_def DeviceLegacySettings_IgnoreZones_Zone2_UnmarshalJSON_def
  DeviceLegacySettings_IgnoreZones_Zone3_Vertex1_MarshalJSON_def DeviceLegacySettings_IgnoreZones_Zone3_Vertex1_UnmarshalJSON_def
  DeviceLegacySettings_IgnoreZones_Zone3_Vertex2_MarshalJSON_def DeviceLegacySettings_IgnoreZones_Zone3_Vertex2_UnmarshalJSON_def
  DeviceLegacySettings_IgnoreZones_Zone3_MarshalJSON_def DeviceLegacySettings_IgnoreZones_Zone3_UnmarshalJSON_def
  DeviceLegacySettings_IgnoreZones_Zone4_Vertex1_MarshalJSON_def DeviceLegacySettings_IgnoreZones_Zone4_Vertex1_UnmarshalJSON_def
  DeviceLegacySettings_IgnoreZones_Zone4_Vertex2_MarshalJSON_def DeviceLegacySettings_IgnoreZones_Zone4_Vertex2_UnmarshalJSON_def
  DeviceLegacySettings_IgnoreZones_Zone4_MarshalJSON_def DeviceLegacySettings_IgnoreZones_Zone4_UnmarshalJSON_def
  DeviceLegacySettings_IgnoreZones_MarshalJSON_def DeviceLegacySettings_IgnoreZones_UnmarshalJSON_def
  DeviceLegacySettings_LightSnoozeSettings_MarshalJSON_def DeviceLegacySettings_LightSnoozeSettings_UnmarshalJSON_def
  DeviceLegacySettings_Lite24x7_MarshalJSON_def DeviceLegacySettings_Lite24x7_UnmarshalJSON_def
  DeviceLegacySettings_MotionSettings_MarshalJSON_def DeviceLegacySettings_MotionSettings_UnmarshalJSON_def
  DeviceLegacySettings_MotionZones_MarshalJSON_def DeviceLegacySettings_MotionZones_UnmarshalJSON_def
  DeviceLegacySettings_NetworkSettings_NetworkDiagnosis_MarshalJSON_def DeviceLegacySettings_NetworkSettings_NetworkDiagnosis_UnmarshalJSON_def
  DeviceLegacySettings_NetworkSettings_MarshalJSON_def DeviceLegacySettings_NetworkSettings_UnmarshalJSON_def
  DeviceLegacySettings_OfflineMotionEventSettings_MarshalJSON_def DeviceLegacySettings_OfflineMotionEventSettings_UnmarshalJSON_def
  DeviceLegacySettings_OtherPaidFeatures_MarshalJSON_def DeviceLegacySettings_OtherPaidFeatures_UnmarshalJSON_def
  DeviceLegacySettings_PtzSettings_AutoScan_MarshalJSON_def DeviceLegacySettings_PtzSettings_AutoScan_UnmarshalJSON_def
  DeviceLegacySettings_PtzSettings_PanSettings_Movement_MarshalJSON_def DeviceLegacySettings_PtzSettings_PanSettings_Movement_UnmarshalJSON_def
  DeviceLegacySettings_PtzSettings_PanSettings_Positions_MarshalJSON_def DeviceLegacySettings_PtzSettings_PanSettings_Positions_UnmarshalJSON_def
  DeviceLegacySettings_PtzSettings_PanSettings_MarshalJSON_def DeviceLegacySettings_PtzSettings_PanSettings_UnmarshalJSON_def
  DeviceLegacySettings_PtzSettings_TiltSettings_Movement_MarshalJSON_def DeviceLegacySettings_PtzSettings_TiltSettings_Movement_UnmarshalJSON_def
  DeviceLegacySettings_PtzSettings_TiltSettings_Positions_MarshalJSON_def DeviceLegacySettings_PtzSettings_TiltSettings_Positions_UnmarshalJSON_def
  DeviceLegacySettings_PtzSettings_TiltSettings_MarshalJSON_def DeviceLegacySettings_PtzSettings_TiltSettings_UnmarshalJSON_def
  DeviceLegacySettings_PtzSettings_MarshalJSON_def DeviceLegacySettings_PtzSettings_UnmarshalJSON_def
  DeviceLegacySettings_ServerSettings_MarshalJSON_def DeviceLegacySettings_ServerSettings_UnmarshalJSON_def
  DeviceLegacySettings_SheilaSettings_MarshalJSON_def DeviceLegacySettings_SheilaSettings_UnmarshalJSON_def
  DeviceLegacySettings_VideoSettings_MarshalJSON_def DeviceLegacySettings_VideoSettings_UnmarshalJSON_def
  DeviceLegacySettings_ZoneSettings_Motion_Properties_MarshalJSON_def DeviceLegacySettings_ZoneSettings_Motion_Properties_UnmarshalJSON_def
  DeviceLegacySettings_ZoneSettings_Motion_Vertices_MarshalJSON_def DeviceLegacySettings_ZoneSettings_Motion_Vertices_UnmarshalJSON_def
  DeviceLegacySettings_ZoneSettings_Motion_MarshalJSON_def DeviceLegacySettings_ZoneSettings_Motion_UnmarshalJSON_def
  DeviceLegacySettings_ZoneSettings_MarshalJSON_def DeviceLegacySettings_ZoneSettings_UnmarshalJSON_def
  PTZAutoScan_MarshalJSON_def PTZAutoScan_UnmarshalJSON_def
  PTZMovement_MarshalJSON_def PTZMovement_UnmarshalJSON_def
  PTZPositions_MarshalJSON_def PTZPositions_UnmarshalJSON_def
  VideoRenderingFeature_MarshalJSON_def VideoRenderingFeature_UnmarshalJSON_def
  VideoSettings_MarshalJSON_def VideoSettings_UnmarshalJSON_def
  DeviceLegacySettings_MarshalJSON_def DeviceLegacySettings_UnmarshalJSON_def
  PTZAxisSettings_MarshalJSON_def PTZAxisSettings_UnmarshalJSON_def
  PTZSettings_MarshalJSON_def PTZSettings_UnmarshalJSON_def

lemma RestCameras_sound: "list_all rest_codec_ok RestCameras_codecs"
  by (simp add: RestCameras_codecs_def RestCameras_codec_defs rest_codec_ok_def rest_wf_models)

end
