(* ===== verification/RestDevices.thy ===== *)
theory RestDevices
  imports RestCameras
begin

text \<open>
  The generated models of devices, locations and device settings.
  \<open>X_model\<close> describes the Go type X, \<open>X_MarshalJSON\<close> and \<open>X_UnmarshalJSON\<close> are its JSON methods; the fields
  are in the order in which the methods treat them. Every model has a lemma that its description is well
  formed, and the table at the end lists the models of this theory.
\<close>

definition ChimeSettings_model :: rest_type where
  "ChimeSettings_model = RStruct
     [(''duration'', True, RPtr (RPlain TInt)),
      (''enable'', True, RPtr (RPlain TBool)),
      (''type'', True, RPtr (RPlain TInt))]"

definition ChimeSettings_MarshalJSON :: "rest_value \<Rightarrow> json" where
  "ChimeSettings_MarshalJSON = rest_marshal ChimeSettings_model"

definition ChimeSettings_UnmarshalJSON :: "rest_value \<Rightarrow> json \<Rightarrow> rest_value \<times> bool" where
  "ChimeSettings_UnmarshalJSON = rest_unmarshal ChimeSettings_model"

lemma ChimeSettings_wf [rest_wf_models]: "rest_wf ChimeSettings_model"
  by (simp add: ChimeSettings_model_def rest_names_def rest_wf_models)

definition MotionSettings_model :: rest_type where
  "MotionSettings_model = RStruct
     [(''motion_detection_enabled'', True, RPtr (RPlain TBool))]"

definition MotionSettings_MarshalJSON :: "rest_value \<Rightarrow> json" where
  "MotionSettings_MarshalJSON = rest_marshal MotionSettings_model"

definition MotionSettings_UnmarshalJSON :: "rest_value \<Rightarrow> json \<Rightarrow> rest_value \<times> bool" where
  "MotionSettings_UnmarshalJSON = rest_unmarshal MotionSettings_model"

lemma MotionSettings_wf [rest_wf_models]: "rest_wf MotionSettings_model"
  by (simp add: MotionSettings_model_def rest_names_def rest_wf_models)

definition MotionSettingsPatch_model :: rest_type where
  "MotionSettingsPatch_model = RStruct
     [(''motion_detection_enabled'', True, RPtr (RPlain TBool))]"

definition MotionSettingsPatch_MarshalJSON :: "rest_value \<Rightarrow> json" where
  "MotionSettingsPatch_MarshalJSON = rest_marshal MotionSettingsPatch_model"

definition MotionSettingsPatch_UnmarshalJSON :: "rest_value \<Rightarrow> json \<Rightarrow> rest_value \<times> bool" where
  "MotionSettingsPatch_UnmarshalJSON = rest_unmarshal MotionSettingsPatch_model"

lemma MotionSettingsPatch_wf [rest_wf_models]: "rest_wf MotionSettingsPatch_model"
  by (simp add: MotionSettingsPatch_model_def rest_names_def rest_wf_models)

definition VolumeSettings_model :: rest_type where
  "VolumeSettings_model = RStruct
     [(''doorbell_volume'', True, RPtr (RPlain TInt)),
      (''mic_volume'', True, RPtr (RPlain TInt)),
      (''voice_volume'', True, RPtr (RPlain TInt))]"

definition VolumeSettings_MarshalJSON :: "rest_value \<Rightarrow> json" where
  "VolumeSettings_MarshalJSON = rest_marshal VolumeSettings_model"

definition VolumeSettings_UnmarshalJSON :: "rest_value \<Rightarrow> json \<Rightarrow> rest_value \<times> bool" where
  "VolumeSettings_UnmarshalJSON = rest_unmarshal VolumeSettings_model"

lemma VolumeSettings_wf [rest_wf_models]: "rest_wf VolumeSettings_model"
  by (simp add: VolumeSettings_model_def rest_names_def rest_wf_models)

definition Device_Alerts_model :: rest_type where
  "Device_Alerts_model = RStruct
     [(''connection'', True, RPtr (RPlain TString)),
      (''ota_status'', True, RPtr (RPlain TString)),
      (''privacy_cover_enabled'', True, RPtr (RPlain TBool)),
      (''sidewalk_connection'', True, RPtr (RPlain TBool))]"

definition Device_Alerts_MarshalJSON :: "rest_value \<Rightarrow> json" where
  "Device_Alerts_MarshalJSON = rest_marshal Device_Alerts_model"

definition Device_Alerts_UnmarshalJSON :: "rest_value \<Rightarrow> json \<Rightarrow> rest_value \<times> bool" where
  "Device_Alerts_UnmarshalJSON = rest_unmarshal Device_Alerts_model"

lemma Device_Alerts_wf [rest_wf_models]: "rest_wf Device_Alerts_model"
  by (simp add: Device_Alerts_model_def rest_names_def rest_wf_models)

definition Device_BatteryLife_model :: rest_type where
  "Device_BatteryLife_model = RUnion"

definition Device_BatteryLife_MarshalJSON :: "rest_value \<Rightarrow> json" where
  "Device_BatteryLife_MarshalJSON = rest_marshal Device_BatteryLife_model"

definition Device_BatteryLife_UnmarshalJSON :: "rest_value \<Rightarrow> json \<Rightarrow> rest_value \<times> bool" where
  "Device_BatteryLife_UnmarshalJSON = rest_unmarshal Device_BatteryLife_model"

lemma Device_BatteryLife_wf [rest_wf_models]: "rest_wf Device_BatteryLife_model"
  by (simp add: Device_BatteryLife_model_def rest_names_def rest_wf_models)

definition Device_BatteryLife2_model :: rest_type where
  "Device_BatteryLife2_model = RUnion"

definition Device_BatteryLife2_MarshalJSON :: "rest_value \<Rightarrow> json" where
  "Device_BatteryLife2_MarshalJSON = rest_marshal Device_BatteryLife2_model"

definition Device_BatteryLife2_UnmarshalJSON :: "rest_value \<Rightarrow> json \<Rightarrow> rest_value \<times> bool" where
  "Device_BatteryLife2_UnmarshalJSON = rest_unmarshal Device_BatteryLife2_model"

lemma Device_BatteryLife2_wf [rest_wf_models]: "rest_wf Device_BatteryLife2_model"
  by (simp add: Device_BatteryLife2_model_def rest_names_def rest_wf_models)

definition Device_EncryptionGroup_model :: rest_type where
  "Device_EncryptionGroup_model = RStruct
     [(''account_group_revision_id'', False, RPlain TAny),
      (''id'', False, RPlain TAny)]"

definition Device_EncryptionGroup_MarshalJSON :: "rest_value \<Rightarrow> json" where
  "Device_EncryptionGroup_MarshalJSON = rest_marshal Device_EncryptionGroup_model"

definition Device_EncryptionGroup_UnmarshalJSON :: "rest_value \<Rightarrow> json \<Rightarrow> rest_value \<times> bool" where
  "Device_EncryptionGroup_UnmarshalJSON = rest_unmarshal Device_EncryptionGroup_model"

lemma Device_EncryptionGroup_wf [rest_wf_models]: "rest_wf Device_EncryptionGroup_model"
  by (simp add: Device_EncryptionGroup_model_def rest_names_def rest_wf_models)

definition Device_MotionSnooze_model :: rest_type where
  "Device_MotionSnooze_model = RStruct
     [(''scheduled'', True, RPtr (RPlain TBool))]"

definition Device_MotionSnooze_MarshalJSON :: "rest_value \<Rightarrow> json" where
  "Device_MotionSnooze_MarshalJSON = rest_marshal Device_MotionSnooze_model"

definition Device_MotionSnooze_UnmarshalJSON :: "rest_value \<Rightarrow> json \<Rightarrow> rest_value \<times> bool" where
  "Device_MotionSnooze_UnmarshalJSON = rest_unmarshal Device_MotionSnooze_model"

lemma Device_MotionSnooze_wf [rest_wf_models]: "rest_wf Device_MotionSnooze_model"
  by (simp add: Device_MotionSnooze_model_def rest_names_def rest_wf_models)

definition Device_SirenStatus_model :: rest_type where
  "Device_SirenStatus_model = RStruct
     [(''duration'', True, RPtr (RPlain TString)),
      (''ends_at'', True, RPtr (RPlain TString)),
      (''seconds_remaining'', True, RPtr (RPlain TInt)),
      (''started_at'', True, RPtr (RPlain TString))]"

definition Device_SirenStatus_MarshalJSON :: "rest_value \<Rightarrow> json" where
  "Device_SirenStatus_MarshalJSON = rest_marshal Device_SirenStatus_model"

definition Device_SirenStatus_UnmarshalJSON :: "rest_value \<Rightarrow> json \<Rightarrow> rest_value \<times> bool" where
  "Device_SirenStatus_UnmarshalJSON = rest_unmarshal Device_SirenStatus_model"

lemma Device_SirenStatus_wf [rest_wf_models]: "rest_wf Device_SirenStatus_model"
  by (simp add: Device_SirenStatus_model_def rest_names_def rest_wf_models)

definition DeviceFeatures_AiAutomatedWarnings_Eligibility_model :: rest_type where
  "DeviceFeatures_AiAutomatedWarnings_Eligibility_model = RStruct
     [(''eligible'', True, RPtr (RPlain TBool)),
      (''ineligibility_reasons'', True, RPtr (RPlain (TSlice TAny)))]"

definition DeviceFeatures_AiAutomatedWarnings_Eligibility_MarshalJSON :: "rest_value \<Rightarrow> json" where
  "DeviceFeatures_AiAutomatedWarnings_Eligibility_MarshalJSON = rest_marshal DeviceFeatures_AiAutomatedWarnings_Eligibility_model"

definition DeviceFeatures_AiAutomatedWarnings_Eligibility_UnmarshalJSON :: "rest_value \<Rightarrow> json \<Rightarrow> rest_value \<times> bool" where
  "DeviceFeatures_AiAutomatedWarnings_Eligibility_UnmarshalJSON = rest_unmarshal DeviceFeatures_AiAutomatedWarnings_Eligibility_model"

lemma DeviceFeatures_AiAutomatedWarnings_Eligibility_wf [rest_wf_models]: "rest_wf DeviceFeatures_AiAutomatedWarnings_Eligibility_model"
  by (simp add: DeviceFeatures_AiAutomatedWarnings_Eligibility_model_def rest_names_def rest_wf_models)

definition DeviceFeatures_AiAutomatedWarnings_Enablement_model :: rest_type where
  "DeviceFeatures_AiAutomatedWarnings_Enablement_model = RStruct
     [(''allowed'', True, RPtr (RPlain TBool)),
      (''disallow_reasons'', True, RPtr (RPlain (TSlice TString))),
      (''enabled'', True, RPtr (RPlain TBool))]"

definition DeviceFeatures_AiAutomatedWarnings_Enablement_MarshalJSON :: "rest_value \<Rightarrow> json" where
  "DeviceFeatures_AiAutomatedWarnings_Enablement_MarshalJSON = rest_marshal DeviceFeatures_AiAutomatedWarnings_Enablement_model"

definition DeviceFeatures_AiAutomatedWarnings_Enablement_UnmarshalJSON :: "rest_value \<Rightarrow> json \<Rightarrow> rest_value \<times> bool" where
  "DeviceFeatures_AiAutomatedWarnings_Enablement_UnmarshalJSON = rest_unmarshal DeviceFeatures_AiAutomatedWarnings_Enablement_model"

lemma DeviceFeatures_AiAutomatedWarnings_Enablement_wf [rest_wf_models]: "rest_wf DeviceFeatures_AiAutomatedWarnings_Enablement_model"
  by (simp add: DeviceFeatures_AiAutomatedWarnings_Enablement_model_def rest_names_def rest_wf_models)

definition DeviceFeatures_AiAutomatedWarnings_model :: rest_type where
  "DeviceFeatures_AiAutomatedWarnings_model = RStruct
     [(''eligibility'', True, RPtr DeviceFeatures_AiAutomatedWarnings_Eligibility_model),
      (''enablement'', True, RPtr DeviceFeatures_AiAutomatedWarnings_Enablement_model)]"

definition DeviceFeatures_AiAutomatedWarnings_MarshalJSON :: "rest_value \<Rightarrow> json" where
  "DeviceFeatures_AiAutomatedWarnings_MarshalJSON = rest_marshal DeviceFeatures_AiAutomatedWarnings_model"

definition DeviceFeatures_AiAutomatedWarnings_UnmarshalJSON :: "rest_value \<Rightarrow> json \<Rightarrow> rest_value \<times> bool" where
  "DeviceFeatures_AiAutomatedWarnings_UnmarshalJSON = rest_unmarshal DeviceFeatures_AiAutomatedWarnings_model"

lemma DeviceFeatures_AiAutomatedWarnings_wf [rest_wf_models]: "rest_wf DeviceFeatures_AiAutomatedWarnings_model"
  by (simp add: DeviceFeatures_AiAutomatedWarnings_model_def rest_names_def rest_wf_models)

definition DeviceFeatures_AiLabsDailyClip_Eligibility_model :: rest_type where
  "DeviceFeatures_AiLabsDailyClip_Eligibility_model = RStruct
     [(''eligible'', True, RPtr (RPlain TBool)),
      (''ineligibility_reasons'', True, RPtr (RPlain (TSlice TString)))]"

definition DeviceFeatures_AiLabsDailyClip_Eligibility_MarshalJSON :: "rest_value \<Rightarrow> json" where
  "DeviceFeatures_AiLabsDailyClip_Eligibility_MarshalJSON = rest_marshal DeviceFeatures_AiLabsDailyClip_Eligibility_model"

definition DeviceFeatures_AiLabsDailyClip_Eligibility_UnmarshalJSON :: "rest_value \<Rightarrow> json \<Rightarrow> rest_value \<times> bool" where
  "DeviceFeatures_AiLabsDailyClip_Eligibility_UnmarshalJSON = rest_unmarshal DeviceFeatures_AiLabsDailyClip_Eligibility_model"

lemma DeviceFeatures_AiLabsDailyClip_Eligibility_wf [rest_wf_models]: "rest_wf DeviceFeatures_AiLabsDailyClip_Eligibility_model"
  by (simp add: DeviceFeatures_AiLabsDailyClip_Eligibility_model_def rest_names_def rest_wf_models)

definition DeviceFeatures_AiLabsDailyClip_Enablement_model :: rest_type where
  "DeviceFeatures_AiLabsDailyClip_Enablement_model = RStruct
     [(''enabled'', True, RPtr (RPlain TBool))]"

definition DeviceFeatures_AiLabsDailyClip_Enablement_MarshalJSON :: "rest_value \<Rightarrow> json" where
  "DeviceFeatures_AiLabsDailyClip_Enablement_MarshalJSON = rest_marshal DeviceFeatures_AiLabsDailyClip_Enablement_model"

definition DeviceFeatures_AiLabsDailyClip_Enablement_UnmarshalJSON :: "rest_value \<Rightarrow> json \<Rightarrow> rest_value \<times> bool" where
  "DeviceFeatures_AiLabsDailyClip_Enablement_UnmarshalJSON = rest_unmarshal DeviceFeatures_AiLabsDailyClip_Enablement_model"

lemma DeviceFeatures_AiLabsDailyClip_Enablement_wf [rest_wf_models]: "rest_wf DeviceFeatures_AiLabsDailyClip_Enablement_model"
  by (simp add: DeviceFeatures_AiLabsDailyClip_Enablement_model_def rest_names_def rest_wf_models)

definition DeviceFeatures_AiLabsDailyClip_model :: rest_type where
  "DeviceFeatures_AiLabsDailyClip_model = RStruct
     [(''allows_no_location'', True, RPtr (RPlain TBool)),
      (''eligibility'', True, RPtr DeviceFeatures_AiLabsDailyClip_Eligibility_model),
      (''enablement'', True, RPtr DeviceFeatures_AiLabsDailyClip_Enablement_model)]"

definition DeviceFeatures_AiLabsDailyClip_MarshalJSON :: "rest_value \<Rightarrow> json" where
  "DeviceFeatures_AiLabsDailyClip_MarshalJSON = rest_marshal DeviceFeatures_AiLabsDailyClip_model"

definition DeviceFeatures_AiLabsDailyClip_UnmarshalJSON :: "rest_value \<Rightarrow> json \<Rightarrow> rest_value \<times> bool" where
  "DeviceFeatures_AiLabsDailyClip_UnmarshalJSON = rest_unmarshal DeviceFeatures_AiLabsDailyClip_model"

lemma DeviceFeatures_AiLabsDailyClip_wf [rest_wf_models]: "rest_wf DeviceFeatures_AiLabsDailyClip_model"
  by (simp add: DeviceFeatures_AiLabsDailyClip_model_def rest_names_def rest_wf_models)

definition DeviceFeatures_AiLabsMemorableMoments_Eligibility_model :: rest_type where
  "DeviceFeatures_AiLabsMemorableMoments_Eligibility_model = RStruct
     [(''eligible'', True, RPtr (RPlain TBool)),
      (''ineligibility_reasons'', True, RPtr (RPlain (TSlice TString)))]"

definition DeviceFeatures_AiLabsMemorableMoments_Eligibility_MarshalJSON :: "rest_value \<Rightarrow> json" where
  "DeviceFeatures_AiLabsMemorableMoments_Eligibility_MarshalJSON = rest_marshal DeviceFeatures_AiLabsMemorableMoments_Eligibility_model"

definition DeviceFeatures_AiLabsMemorableMoments_Eligibility_UnmarshalJSON :: "rest_value \<Rightarrow> json \<Rightarrow> rest_value \<times> bool" where
  "DeviceFeatures_AiLabsMemorableMoments_Eligibility_UnmarshalJSON = rest_unmarshal DeviceFeatures_AiLabsMemorableMoments_Eligibility_model"

lemma DeviceFeatures_AiLabsMemorableMoments_Eligibility_wf [rest_wf_models]: "rest_wf DeviceFeatures_AiLabsMemorableMoments_Eligibility_model"
  by (simp add: DeviceFeatures_AiLabsMemorableMoments_Eligibility_model_def rest_names_def rest_wf_models)

definition DeviceFeatures_AiLabsMemorableMoments_Enablement_model :: rest_type where
  "DeviceFeatures_AiLabsMemorableMoments_Enablement_model = RStruct
     [(''enabled'', True, RPtr (RPlain TBool))]"

definition DeviceFeatures_AiLabsMemorableMoments_Enablement_MarshalJSON :: "rest_value \<Rightarrow> json" where
  "DeviceFeatures_AiLabsMemorableMoments_Enablement_MarshalJSON = rest_marshal DeviceFeatures_AiLabsMemorableMoments_Enablement_model"

definition DeviceFeatures_AiLabsMemorableMoments_Enablement_UnmarshalJSON :: "rest_value \<Rightarrow> json \<Rightarrow> rest_value \<times> bool" where
  "DeviceFeatures_AiLabsMemorableMoments_Enablement_UnmarshalJSON = rest_unmarshal DeviceFeatures_AiLabsMemorableMoments_Enablement_model"

lemma DeviceFeatures_AiLabsMemorableMoments_Enablement_wf [rest_wf_models]: "rest_wf DeviceFeatures_AiLabsMemorableMoments_Enablement_model"
  by (simp add: DeviceFeatures_AiLabsMemorableMoments_Enablement_model_def rest_names_def rest_wf_models)

definition DeviceFeatures_AiLabsMemorableMoments_model :: rest_type where
  "DeviceFeatures_AiLabsMemorableMoments_model = RStruct
     [(''allows_no_location'', True, RPtr (RPlain TBool)),
      (''eligibility'', True, RPtr DeviceFeatures_AiLabsMemorableMoments_Eligibility_model),
      (''enablement'', True, RPtr DeviceFeatures_AiLabsMemorableMoments_Enablement_model)]"

definition DeviceFeatures_AiLabsMemorableMoments_MarshalJSON :: "rest_value \<Rightarrow> json" where
  "DeviceFeatures_AiLabsMemorableMoments_MarshalJSON = rest_marshal DeviceFeatures_AiLabsMemorableMoments_model"

definition DeviceFeatures_AiLabsMemorableMoments_UnmarshalJSON :: "rest_value \<Rightarrow> json \<Rightarrow> rest_value \<times> bool" where
  "DeviceFeatures_AiLabsMemorableMoments_UnmarshalJSON = rest_unmarshal DeviceFeatures_AiLabsMemorableMoments_model"

lemma DeviceFeatures_AiLabsMemorableMoments_wf [rest_wf_models]: "rest_wf DeviceFeatures_AiLabsMemorableMoments_model"
  by (simp add: DeviceFeatures_AiLabsMemorableMoments_model_def rest_names_def rest_wf_models)

definition DeviceFeatures_ChimeSettings_model :: rest_type where
  "DeviceFeatures_ChimeSettings_model = RStruct
     [(''is_eligible'', True, RPtr (RPlain TBool))]"

definition DeviceFeatures_ChimeSettings_MarshalJSON :: "rest_value \<Rightarrow> json" where
  "DeviceFeatures_ChimeSettings_MarshalJSON = rest_marshal DeviceFeatures_ChimeSettings_model"

definition DeviceFeatures_ChimeSettings_UnmarshalJSON :: "rest_value \<Rightarrow> json \<Rightarrow> rest_value \<times> bool" where
  "DeviceFeatures_ChimeSettings_UnmarshalJSON = rest_unmarshal DeviceFeatures_ChimeSettings_model"

lemma DeviceFeatures_ChimeSettings_wf [rest_wf_models]: "rest_wf DeviceFeatures_ChimeSettings_model"
  by (simp add: DeviceFeatures_ChimeSettings_model_def rest_names_def rest_wf_models)

definition DeviceFeatures_LiveViewAudioPrivacyControls_Eligibility_model :: rest_type where
  "DeviceFeatures_LiveViewAudioPrivacyControls_Eligibility_model = RStruct
     [(''eligible'', True, RPtr (RPlain TBool)),
      (''ineligibility_reasons'', True, RPtr (RPlain (TSlice TString)))]"

definition DeviceFeatures_LiveViewAudioPrivacyControls_Eligibility_MarshalJSON :: "rest_value \<Rightarrow> json" where
  "DeviceFeatures_LiveViewAudioPrivacyControls_Eligibility_MarshalJSON = rest_marshal DeviceFeatures_LiveViewAudioPrivacyControls_Eligibility_model"

definition DeviceFeatures_LiveViewAudioPrivacyControls_Eligibility_UnmarshalJSON :: "rest_value \<Rightarrow> json \<Rightarrow> rest_value \<times> bool" where
  "DeviceFeatures_LiveViewAudioPrivacyControls_Eligibility_UnmarshalJSON = rest_unmarshal DeviceFeatures_LiveViewAudioPrivacyControls_Eligibility_model"

lemma DeviceFeatures_LiveViewAudioPrivacyControls_Eligibility_wf [rest_wf_models]: "rest_wf DeviceFeatures_LiveViewAudioPrivacyControls_Eligibility_model"
  by (simp add: DeviceFeatures_LiveViewAudioPrivacyControls_Eligibility_model_def rest_names_def rest_wf_models)

definition DeviceFeatures_LiveViewAudioPrivacyControls_model :: rest_type where
  "DeviceFeatures_LiveViewAudioPrivacyControls_model = RStruct
     [(''eligibility'', True, RPtr DeviceFeatures_LiveViewAudioPrivacyControls_Eligibility_model)]"

definition DeviceFeatures_LiveViewAudioPrivacyControls_MarshalJSON :: "rest_value \<Rightarrow> json" where
  "DeviceFeatures_LiveViewAudioPrivacyControls_MarshalJSON = rest_marshal DeviceFeatures_LiveViewAudioPrivacyControls_model"

definition DeviceFeatures_LiveViewAudioPrivacyControls_UnmarshalJSON :: "rest_value \<Rightarrow> json \<Rightarrow> rest_value \<times> bool" where
  "DeviceFeatures_LiveViewAudioPrivacyControls_UnmarshalJSON = rest_unmarshal DeviceFeatures_LiveViewAudioPrivacyControls_model"

lemma DeviceFeatures_LiveViewAudioPrivacyControls_wf [rest_wf_models]: "rest_wf DeviceFeatures_LiveViewAudioPrivacyControls_model"
  by (simp add: DeviceFeatures_LiveViewAudioPrivacyControls_model_def rest_names_def rest_wf_models)

definition DeviceFeatures_NetworkBackup_Eligibility_model :: rest_type where
  "DeviceFeatures_NetworkBackup_Eligibility_model = RStruct
     [(''eligible'', True, RPtr (RPlain TBool)),
      (''ineligibility_reasons'', True, RPtr (RPlain (TSlice TString)))]"

definition DeviceFeatures_NetworkBackup_Eligibility_MarshalJSON :: "rest_value \<Rightarrow> json" where
  "DeviceFeatures_NetworkBackup_Eligibility_MarshalJSON = rest_marshal DeviceFeatures_NetworkBackup_Eligibility_model"

definition DeviceFeatures_NetworkBackup_Eligibility_UnmarshalJSON :: "rest_value \<Rightarrow> json \<Rightarrow> rest_value \<times> bool" where
  "DeviceFeatures_NetworkBackup_Eligibility_UnmarshalJSON = rest_unmarshal DeviceFeatures_NetworkBackup_Eligibility_model"

lemma DeviceFeatures_NetworkBackup_Eligibility_wf [rest_wf_models]: "rest_wf DeviceFeatures_NetworkBackup_Eligibility_model"
  by (simp add: DeviceFeatures_NetworkBackup_Eligibility_model_def rest_names_def rest_wf_models)

definition DeviceFeatures_NetworkBackup_Enablement_model :: rest_type where
  "DeviceFeatures_NetworkBackup_Enablement_model = RStruct
     [(''allowed'', True, RPtr (RPlain TBool)),
      (''disallow_reasons'', True, RPtr (RPlain (TSlice TString))),
      (''enabled'', True, RPtr (RPlain TBool))]"

definition DeviceFeatures_NetworkBackup_Enablement_MarshalJSON :: "rest_value \<Rightarrow> json" where
  "DeviceFeatures_NetworkBackup_Enablement_MarshalJSON = rest_marshal DeviceFeatures_NetworkBackup_Enablement_model"

definition DeviceFeatures_NetworkBackup_Enablement_UnmarshalJSON :: "rest_value \<Rightarrow> json \<Rightarrow> rest_value \<times> bool" where
  "DeviceFeatures_NetworkBackup_Enablement_UnmarshalJSON = rest_unmarshal DeviceFeatures_NetworkBackup_Enablement_model"

lemma DeviceFeatures_NetworkBackup_Enablement_wf [rest_wf_models]: "rest_wf DeviceFeatures_NetworkBackup_Enablement_model"
  by (simp add: DeviceFeatures_NetworkBackup_Enablement_model_def rest_names_def rest_wf_models)

definition DeviceFeatures_NetworkBackup_model :: rest_type where
  "DeviceFeatures_NetworkBackup_model = RStruct
     [(''eligibility'', True, RPtr DeviceFeatures_NetworkBackup_Eligibility_model),
      (''enablement'', True, RPtr DeviceFeatures_NetworkBackup_Enablement_model)]"

definition DeviceFeatures_NetworkBackup_MarshalJSON :: "rest_value \<Rightarrow> json" where
  "DeviceFeatures_NetworkBackup_MarshalJSON = rest_marshal DeviceFeatures_NetworkBackup_model"

definition DeviceFeatures_NetworkBackup_UnmarshalJSON :: "rest_value \<Rightarrow> json \<Rightarrow> rest_value \<times> bool" where
  "DeviceFeatures_NetworkBackup_UnmarshalJSON = rest_unmarshal DeviceFeatures_NetworkBackup_model"

lemma DeviceFeatures_NetworkBackup_wf [rest_wf_models]: "rest_wf DeviceFeatures_NetworkBackup_model"
  by (simp add: DeviceFeatures_NetworkBackup_model_def rest_names_def rest_wf_models)

definition DeviceFeatures_NetworkBackupHost_Eligibility_model :: rest_type where
  "DeviceFeatures_NetworkBackupHost_Eligibility_model = RStruct
     [(''eligible'', True, RPtr (RPlain TBool)),
      (''ineligibility_reasons'', True, RPtr (RPlain (TSlice TString)))]"

definition DeviceFeatures_NetworkBackupHost_Eligibility_MarshalJSON :: "rest_value \<Rightarrow> json" where
  "DeviceFeatures_NetworkBackupHost_Eligibility_MarshalJSON = rest_marshal DeviceFeatures_NetworkBackupHost_Eligibility_model"

definition DeviceFeatures_NetworkBackupHost_Eligibility_UnmarshalJSON :: "rest_value \<Rightarrow> json \<Rightarrow> rest_value \<times> bool" where
  "DeviceFeatures_NetworkBackupHost_Eligibility_UnmarshalJSON = rest_unmarshal DeviceFeatures_NetworkBackupHost_Eligibility_model"

lemma DeviceFeatures_NetworkBackupHost_Eligibility_wf [rest_wf_models]: "rest_wf DeviceFeatures_NetworkBackupHost_Eligibility_model"
  by (simp add: DeviceFeatures_NetworkBackupHost_Eligibility_model_def rest_names_def rest_wf_models)

definition DeviceFeatures_NetworkBackupHost_model :: rest_type where
  "DeviceFeatures_NetworkBackupHost_model = RStruct
     [(''eligibility'', True, RPtr DeviceFeatures_NetworkBackupHost_Eligibility_model)]"

definition DeviceFeatures_NetworkBackupHost_MarshalJSON :: "rest_value \<Rightarrow> json" where
  "DeviceFeatures_NetworkBackupHost_MarshalJSON = rest_marshal DeviceFeatures_NetworkBackupHost_model"

definition DeviceFeatures_NetworkBackupHost_UnmarshalJSON :: "rest_value \<Rightarrow> json \<Rightarrow> rest_value \<times> bool" where
  "DeviceFeatures_NetworkBackupHost_UnmarshalJSON = rest_unmarshal DeviceFeatures_NetworkBackupHost_model"

lemma DeviceFeatures_NetworkBackupHost_wf [rest_wf_models]: "rest_wf DeviceFeatures_NetworkBackupHost_model"
  by (simp add: DeviceFeatures_NetworkBackupHost_model_def rest_names_def rest_wf_models)

definition DeviceFeatures_OriginalVideoQualityDownloadOffer_model :: rest_type where
  "DeviceFeatures_OriginalVideoQualityDownloadOffer_model = RStruct
     [(''is_enabled'', True, RPtr (RPlain TBool))]"

definition DeviceFeatures_OriginalVideoQualityDownloadOffer_MarshalJSON :: "rest_value \<Rightarrow> json" where
  "DeviceFeatures_OriginalVideoQualityDownloadOffer_MarshalJSON = rest_marshal DeviceFeatures_OriginalVideoQualityDownloadOffer_model"

definition DeviceFeatures_OriginalVideoQualityDownloadOffer_UnmarshalJSON :: "rest_value \<Rightarrow> json \<Rightarrow> rest_value \<times> bool" where
  "DeviceFeatures_OriginalVideoQualityDownloadOffer_UnmarshalJSON = rest_unmarshal DeviceFeatures_OriginalVideoQualityDownloadOffer_model"

lemma DeviceFeatures_OriginalVideoQualityDownloadOffer_wf [rest_wf_models]: "rest_wf DeviceFeatures_OriginalVideoQualityDownloadOffer_model"
  by (simp add: DeviceFeatures_OriginalVideoQualityDownloadOffer_model_def rest_names_def rest_wf_models)

definition DeviceFeatures_PersonIdentification_Eligibility_model :: rest_type where
  "DeviceFeatures_PersonIdentification_Eligibility_model = RStruct
     [(''eligible'', True, RPtr (RPlain TBool)),
      (''ineligibility_reasons'', True, RPtr (RPlain (TSlice TAny)))]"

definition DeviceFeatures_PersonIdentification_Eligibility_MarshalJSON :: "rest_value \<Rightarrow> json" where
  "DeviceFeatures_PersonIdentification_Eligibility_MarshalJSON = rest_marshal DeviceFeatures_PersonIdentification_Eligibility_model"

definition DeviceFeatures_PersonIdentification_Eligibility_UnmarshalJSON :: "rest_value \<Rightarrow> json \<Rightarrow> rest_value \<times> bool" where
  "DeviceFeatures_PersonIdentification_Eligibility_UnmarshalJSON = rest_unmarshal DeviceFeatures_PersonIdentification_Eligibility_model"

lemma DeviceFeatures_PersonIdentification_Eligibility_wf [rest_wf_models]: "rest_wf DeviceFeatures_PersonIdentification_Eligibility_model"
  by (simp add: DeviceFeatures_PersonIdentification_Eligibility_model_def rest_names_def rest_wf_models)

definition DeviceFeatures_PersonIdentification_Enablement_model :: rest_type where
  "DeviceFeatures_PersonIdentification_Enablement_model = RStruct
     [(''allowed'', True, RPtr (RPlain TBool)),
      (''disallow_reasons'', True, RPtr (RPlain (TSlice TString))),
      (''enabled'', True, RPtr (RPlain TBool))]"

definition DeviceFeatures_PersonIdentification_Enablement_MarshalJSON :: "rest_value \<Rightarrow> json" where
  "DeviceFeatures_PersonIdentification_Enablement_MarshalJSON = rest_marshal DeviceFeatures_PersonIdentification_Enablement_model"

definition DeviceFeatures_PersonIdentification_Enablement_UnmarshalJSON :: "rest_value \<Rightarrow> json \<Rightarrow> rest_value \<times> bool" where
  "DeviceFeatures_PersonIdentification_Enablement_UnmarshalJSON = rest_unmarshal DeviceFeatures_PersonIdentification_Enablement_model"

lemma DeviceFeatures_PersonIdentification_Enablement_wf [rest_wf_models]: "rest_wf DeviceFeatures_PersonIdentification_Enablement_model"
  by (simp add: DeviceFeatures_PersonIdentification_Enablement_model_def rest_names_def rest_wf_models)

definition DeviceFeatures_PersonIdentification_model :: rest_type where
  "DeviceFeatures_PersonIdentification_model = RStruct
     [(''eligibility'', True, RPtr DeviceFeatures_PersonIdentification_Eligibility_model),
      (''enablement'', True, RPtr DeviceFeatures_PersonIdentification_Enablement_model)]"

definition DeviceFeatures_PersonIdentification_MarshalJSON :: "rest_value \<Rightarrow> json" where
  "DeviceFeatures_PersonIdentification_MarshalJSON = rest_marshal DeviceFeatures_PersonIdentification_model"

definition DeviceFeatures_PersonIdentification_UnmarshalJSON :: "rest_value \<Rightarrow> json \<Rightarrow> rest_value \<times> bool" where
  "DeviceFeatures_PersonIdentification_UnmarshalJSON = rest_unmarshal DeviceFeatures_PersonIdentification_model"

lemma DeviceFeatures_PersonIdentification_wf [rest_wf_models]: "rest_wf DeviceFeatures_PersonIdentification_model"
  by (simp add: DeviceFeatures_PersonIdentification_model_def rest_names_def rest_wf_models)

definition DeviceFeatures_PropertyView_Enablement_model :: rest_type where
  "DeviceFeatures_PropertyView_Enablement_model = RStruct
     [(''enabled'', True, RPtr (RPlain TBool))]"

definition DeviceFeatures_PropertyView_Enablement_MarshalJSON :: "rest_value \<Rightarrow> json" where
  "DeviceFeatures_PropertyView_Enablement_MarshalJSON = rest_marshal DeviceFeatures_PropertyView_Enablement_model"

definition DeviceFeatures_PropertyView_Enablement_UnmarshalJSON :: "rest_value \<Rightarrow> json \<Rightarrow> rest_value \<times> bool" where
  "DeviceFeatures_PropertyView_Enablement_UnmarshalJSON = rest_unmarshal DeviceFeatures_PropertyView_Enablement_model"

lemma DeviceFeatures_PropertyView_Enablement_wf [rest_wf_models]: "rest_wf DeviceFeatures_PropertyView_Enablement_model"
  by (simp add: DeviceFeatures_PropertyView_Enablement_model_def rest_names_def rest_wf_models)

definition DeviceFeatures_PropertyView_model :: rest_type where
  "DeviceFeatures_PropertyView_model = RStruct
     [(''enablement'', True, RPtr DeviceFeatures_PropertyView_Enablement_model)]"

definition DeviceFeatures_PropertyView_MarshalJSON :: "rest_value \<Rightarrow> json" where
  "DeviceFeatures_PropertyView_MarshalJSON = rest_marshal DeviceFeatures_PropertyView_model"

definition DeviceFeatures_PropertyView_UnmarshalJSON :: "rest_value \<Rightarrow> json \<Rightarrow> rest_value \<times> bool" where
  "DeviceFeatures_PropertyView_UnmarshalJSON = rest_unmarshal DeviceFeatures_PropertyView_model"

lemma DeviceFeatures_PropertyView_wf [rest_wf_models]: "rest_wf DeviceFeatures_PropertyView_model"
  by (simp add: DeviceFeatures_PropertyView_model_def rest_names_def rest_wf_models)

definition DeviceFeatures_RetinalTuning_Eligibility_model :: rest_type where
  "DeviceFeatures_RetinalTuning_Eligibility_model = RStruct
     [(''eligible'', True, RPtr (RPlain TBool)),
      (''ineligibility_reasons'', True, RPtr (RPlain (TSlice TAny)))]"

definition DeviceFeatures_RetinalTuning_Eligibility_MarshalJSON :: "rest_value \<Rightarrow> json" where
  "DeviceFeatures_RetinalTuning_Eligibility_MarshalJSON = rest_marshal DeviceFeatures_RetinalTuning_Eligibility_model"

definition DeviceFeatures_RetinalTuning_Eligibility_UnmarshalJSON :: "rest_value \<Rightarrow> json \<Rightarrow> rest_value \<times> bool" where
  "DeviceFeatures_RetinalTuning_Eligibility_UnmarshalJSON = rest_unmarshal DeviceFeatures_RetinalTuning_Eligibility_model"

lemma DeviceFeatures_RetinalTuning_Eligibility_wf [rest_wf_models]: "rest_wf DeviceFeatures_RetinalTuning_Eligibility_model"
  by (simp add: DeviceFeatures_RetinalTuning_Eligibility_model_def rest_names_def rest_wf_models)

definition DeviceFeatures_RetinalTuning_Enablement_model :: rest_type where
  "DeviceFeatures_RetinalTuning_Enablement_model = RStruct
     [(''allowed'', True, RPtr (RPlain TBool)),
      (''disallow_reasons'', True, RPtr (RPlain (TSlice TAny))),
      (''enabled'', True, RPtr (RPlain TBool))]"

definition DeviceFeatures_RetinalTuning_Enablement_MarshalJSON :: "rest_value \<Rightarrow> json" where
  "DeviceFeatures_RetinalTuning_Enablement_MarshalJSON = rest_marshal DeviceFeatures_RetinalTuning_Enablement_model"

definition DeviceFeatures_RetinalTuning_Enablement_UnmarshalJSON :: "rest_value \<Rightarrow> json \<Rightarrow> rest_value \<times> bool" where
  "DeviceFeatures_RetinalTuning_Enablement_UnmarshalJSON = rest_unmarshal DeviceFeatures_RetinalTuning_Enablement_model"

lemma DeviceFeatures_RetinalTuning_Enablement_wf [rest_wf_models]: "rest_wf DeviceFeatures_RetinalTuning_Enablement_model"
  by (simp add: DeviceFeatures_RetinalTuning_Enablement_model_def rest_names_def rest_wf_models)

definition DeviceFeatures_RetinalTuning_model :: rest_type where
  "DeviceFeatures_RetinalTuning_model = RStruct
     [(''eligibility'', True, RPtr DeviceFeatures_RetinalTuning_Eligibility_model),
      (''enablement'', True, RPtr DeviceFeatures_RetinalTuning_Enablement_model),
      (''rt_max_digital_zoom_level'', True, RPtr RFloat32)]"

definition DeviceFeatures_RetinalTuning_MarshalJSON :: "rest_value \<Rightarrow> json" where
  "DeviceFeatures_RetinalTuning_MarshalJSON = rest_marshal DeviceFeatures_RetinalTuning_model"

definition DeviceFeatures_RetinalTuning_UnmarshalJSON :: "rest_value \<Rightarrow> json \<Rightarrow> rest_value \<times> bool" where
  "DeviceFeatures_RetinalTuning_UnmarshalJSON = rest_unmarshal DeviceFeatures_RetinalTuning_model"

lemma DeviceFeatures_RetinalTuning_wf [rest_wf_models]: "rest_wf DeviceFeatures_RetinalTuning_model"
  by (simp add: DeviceFeatures_RetinalTuning_model_def rest_names_def rest_wf_models)

definition DeviceFeatures_SingleAlert_Eligibility_model :: rest_type where
  "DeviceFeatures_SingleAlert_Eligibility_model = RStruct
     [(''eligible'', True, RPtr (RPlain TBool)),
      (''ineligibility_reasons'', True, RPtr (RPlain (TSlice TAny)))]"

definition DeviceFeatures_SingleAlert_Eligibility_MarshalJSON :: "rest_value \<Rightarrow> json" where
  "DeviceFeatures_SingleAlert_Eligibility_MarshalJSON = rest_marshal DeviceFeatures_SingleAlert_Eligibility_model"

definition DeviceFeatures_SingleAlert_Eligibility_UnmarshalJSON :: "rest_value \<Rightarrow> json \<Rightarrow> rest_value \<times> bool" where
  "DeviceFeatures_SingleAlert_Eligibility_UnmarshalJSON = rest_unmarshal DeviceFeatures_SingleAlert_Eligibility_model"

lemma DeviceFeatures_SingleAlert_Eligibility_wf [rest_wf_models]: "rest_wf DeviceFeatures_SingleAlert_Eligibility_model"
  by (simp add: DeviceFeatures_SingleAlert_Eligibility_model_def rest_names_def rest_wf_models)

definition DeviceFeatures_SingleAlert_Enablement_model :: rest_type where
  "DeviceFeatures_SingleAlert_Enablement_model = RStruct
     [(''allowed'', True, RPtr (RPlain TBool)),
      (''disallow_reasons'', True, RPtr (RPlain (TSlice TString))),
      (''enabled'', True, RPtr (RPlain TBool))]"

definition DeviceFeatures_SingleAlert_Enablement_MarshalJSON :: "rest_value \<Rightarrow> json" where
  "DeviceFeatures_SingleAlert_Enablement_MarshalJSON = rest_marshal DeviceFeatures_SingleAlert_Enablement_model"

definition DeviceFeatures_SingleAlert_Enablement_UnmarshalJSON :: "rest_value \<Rightarrow> json \<Rightarrow> rest_value \<times> bool" where
  "DeviceFeatures_SingleAlert_Enablement_UnmarshalJSON = rest_unmarshal DeviceFeatures_SingleAlert_Enablement_model"

lemma DeviceFeatures_SingleAlert_Enablement_wf [rest_wf_models]: "rest_wf DeviceFeatures_SingleAlert_Enablement_model"
  by (simp add: DeviceFeatures_SingleAlert_Enablement_model_def rest_names_def rest_wf_models)

definition DeviceFeatures_SingleAlert_model :: rest_type where
  "DeviceFeatures_SingleAlert_model = RStruct
     [(''eligibility'', True, RPtr DeviceFeatures_SingleAlert_Eligibility_model),
      (''enablement'', True, RPtr DeviceFeatures_SingleAlert_Enablement_model)]"

definition DeviceFeatures_SingleAlert_MarshalJSON :: "rest_value \<Rightarrow> json" where
  "DeviceFeatures_SingleAlert_MarshalJSON = rest_marshal DeviceFeatures_SingleAlert_model"

definition DeviceFeatures_SingleAlert_UnmarshalJSON :: "rest_value \<Rightarrow> json \<Rightarrow> rest_value \<times> bool" where
  "DeviceFeatures_SingleAlert_UnmarshalJSON = rest_unmarshal DeviceFeatures_SingleAlert_model"

lemma DeviceFeatures_SingleAlert_wf [rest_wf_models]: "rest_wf DeviceFeatures_SingleAlert_model"
  by (simp add: DeviceFeatures_SingleAlert_model_def rest_names_def rest_wf_models)

definition DeviceFeatures_SmartVideoDescription_Eligibility_model :: rest_type where
  "DeviceFeatures_SmartVideoDescription_Eligibility_model = RStruct
     [(''eligible'', True, RPtr (RPlain TBool)),
      (''ineligibility_reasons'', True, RPtr (RPlain (TSlice TAny)))]"

definition DeviceFeatures_SmartVideoDescription_Eligibility_MarshalJSON :: "rest_value \<Rightarrow> json" where
  "DeviceFeatures_SmartVideoDescription_Eligibility_MarshalJSON = rest_marshal DeviceFeatures_SmartVideoDescription_Eligibility_model"

definition DeviceFeatures_SmartVideoDescription_Eligibility_UnmarshalJSON :: "rest_value \<Rightarrow> json \<Rightarrow> rest_value \<times> bool" where
  "DeviceFeatures_SmartVideoDescription_Eligibility_UnmarshalJSON = rest_unmarshal DeviceFeatures_SmartVideoDescription_Eligibility_model"

lemma DeviceFeatures_SmartVideoDescription_Eligibility_wf [rest_wf_models]: "rest_wf DeviceFeatures_SmartVideoDescription_Eligibility_model"
  by (simp add: DeviceFeatures_SmartVideoDescription_Eligibility_model_def rest_names_def rest_wf_models)

definition DeviceFeatures_SmartVideoDescription_Enablement_model :: rest_type where
  "DeviceFeatures_SmartVideoDescription_Enablement_model = RStruct
     [(''allowed'', True, RPtr (RPlain TBool)),
      (''disallow_reasons'', True, RPtr (RPlain (TSlice TString))),
      (''enabled'', True, RPtr (RPlain TBool))]"

definition DeviceFeatures_SmartVideoDescription_Enablement_MarshalJSON :: "rest_value \<Rightarrow> json" where
  "DeviceFeatures_SmartVideoDescription_Enablement_MarshalJSON = rest_marshal DeviceFeatures_SmartVideoDescription_Enablement_model"

definition DeviceFeatures_SmartVideoDescription_Enablement_UnmarshalJSON :: "rest_value \<Rightarrow> json \<Rightarrow> rest_value \<times> bool" where
  "DeviceFeatures_SmartVideoDescription_Enablement_UnmarshalJSON = rest_unmarshal DeviceFeatures_SmartVideoDescription_Enablement_model"

lemma DeviceFeatures_SmartVideoDescription_Enablement_wf [rest_wf_models]: "rest_wf DeviceFeatures_SmartVideoDescription_Enablement_model"
  by (simp add: DeviceFeatures_SmartVideoDescription_Enablement_model_def rest_names_def rest_wf_models)

definition DeviceFeatures_SmartVideoDescription_model :: rest_type where
  "DeviceFeatures_SmartVideoDescription_model = RStruct
     [(''eligibility'', True, RPtr DeviceFeatures_SmartVideoDescription_Eligibility_model),
      (''enablement'', True, RPtr DeviceFeatures_SmartVideoDescription_Enablement_model)]"

definition DeviceFeatures_SmartVideoDescription_MarshalJSON :: "rest_value \<Rightarrow> json" where
  "DeviceFeatures_SmartVideoDescription_MarshalJSON = rest_marshal DeviceFeatures_SmartVideoDescription_model"

definition DeviceFeatures_SmartVideoDescription_UnmarshalJSON :: "rest_value \<Rightarrow> json \<Rightarrow> rest_value \<times> bool" where
  "DeviceFeatures_SmartVideoDescription_UnmarshalJSON = rest_unmarshal DeviceFeatures_SmartVideoDescription_model"

lemma DeviceFeatures_SmartVideoDescription_wf [rest_wf_models]: "rest_wf DeviceFeatures_SmartVideoDescription_model"
  by (simp add: DeviceFeatures_SmartVideoDescription_model_def rest_names_def rest_wf_models)

definition DeviceFeatures_SmartVideoSearch_Eligibility_model :: rest_type where
  "DeviceFeatures_SmartVideoSearch_Eligibility_model = RStruct
     [(''eligible'', True, RPtr (RPlain TBool)),
      (''ineligibility_reasons'', True, RPtr (RPlain (TSlice TAny)))]"

definition DeviceFeatures_SmartVideoSearch_Eligibility_MarshalJSON :: "rest_value \<Rightarrow> json" where
  "DeviceFeatures_SmartVideoSearch_Eligibility_MarshalJSON = rest_marshal DeviceFeatures_SmartVideoSearch_Eligibility_model"

definition DeviceFeatures_SmartVideoSearch_Eligibility_UnmarshalJSON :: "rest_value \<Rightarrow> json \<Rightarrow> rest_value \<times> bool" where
  "DeviceFeatures_SmartVideoSearch_Eligibility_UnmarshalJSON = rest_unmarshal DeviceFeatures_SmartVideoSearch_Eligibility_model"

lemma DeviceFeatures_SmartVideoSearch_Eligibility_wf [rest_wf_models]: "rest_wf DeviceFeatures_SmartVideoSearch_Eligibility_model"
  by (simp add: DeviceFeatures_SmartVideoSearch_Eligibility_model_def rest_names_def rest_wf_models)

definition DeviceFeatures_SmartVideoSearch_Enablement_model :: rest_type where
  "DeviceFeatures_SmartVideoSearch_Enablement_model = RStruct
     [(''allowed'', True, RPtr (RPlain TBool)),
      (''disallow_reasons'', True, RPtr (RPlain (TSlice TString))),
      (''enabled'', True, RPtr (RPlain TBool))]"

definition DeviceFeatures_SmartVideoSearch_Enablement_MarshalJSON :: "rest_value \<Rightarrow> json" where
  "DeviceFeatures_SmartVideoSearch_Enablement_MarshalJSON = rest_marshal DeviceFeatures_SmartVideoSearch_Enablement_model"

definition DeviceFeatures_SmartVideoSearch_Enablement_UnmarshalJSON :: "rest_value \<Rightarrow> json \<Rightarrow> rest_value \<times> bool" where
  "DeviceFeatures_SmartVideoSearch_Enablement_UnmarshalJSON = rest_unmarshal DeviceFeatures_SmartVideoSearch_Enablement_model"

lemma DeviceFeatures_SmartVideoSearch_Enablement_wf [rest_wf_models]: "rest_wf DeviceFeatures_SmartVideoSearch_Enablement_model"
  by (simp add: DeviceFeatures_SmartVideoSearch_Enablement_model_def rest_names_def rest_wf_models)

definition DeviceFeatures_SmartVideoSearch_model :: rest_type where
  "DeviceFeatures_SmartVideoSearch_model = RStruct
     [(''eligibility'', True, RPtr DeviceFeatures_SmartVideoSearch_Eligibility_model),
      (''enablement'', True, RPtr DeviceFeatures_SmartVideoSearch_Enablement_model)]"

definition DeviceFeatures_SmartVideoSearch_MarshalJSON :: "rest_value \<Rightarrow> json" where
  "DeviceFeatures_SmartVideoSearch_MarshalJSON = rest_marshal DeviceFeatures_SmartVideoSearch_model"

definition DeviceFeatures_SmartVideoSearch_UnmarshalJSON :: "rest_value \<Rightarrow> json \<Rightarrow> rest_value \<times> bool" where
  "DeviceFeatures_SmartVideoSearch_UnmarshalJSON = rest_unmarshal DeviceFeatures_SmartVideoSearch_model"

lemma DeviceFeatures_SmartVideoSearch_wf [rest_wf_models]: "rest_wf DeviceFeatures_SmartVideoSearch_model"
  by (simp add: DeviceFeatures_SmartVideoSearch_model_def rest_names_def rest_wf_models)

definition DeviceFeatures_UnusualAlert_Eligibility_model :: rest_type where
  "DeviceFeatures_UnusualAlert_Eligibility_model = RStruct
     [(''eligible'', True, RPtr (RPlain TBool)),
      (''ineligibility_reasons'', True, RPtr (RPlain (TSlice TAny)))]"

definition DeviceFeatures_UnusualAlert_Eligibility_MarshalJSON :: "rest_value \<Rightarrow> json" where
  "DeviceFeatures_UnusualAlert_Eligibility_MarshalJSON = rest_marshal DeviceFeatures_UnusualAlert_Eligibility_model"

definition DeviceFeatures_UnusualAlert_Eligibility_UnmarshalJSON :: "rest_value \<Rightarrow> json \<Rightarrow> rest_value \<times> bool" where
  "DeviceFeatures_UnusualAlert_Eligibility_UnmarshalJSON = rest_unmarshal DeviceFeatures_UnusualAlert_Eligibility_model"

lemma DeviceFeatures_UnusualAlert_Eligibility_wf [rest_wf_models]: "rest_wf DeviceFeatures_UnusualAlert_Eligibility_model"
  by (simp add: DeviceFeatures_UnusualAlert_Eligibility_model_def rest_names_def rest_wf_models)

definition DeviceFeatures_UnusualAlert_Enablement_model :: rest_type where
  "DeviceFeatures_UnusualAlert_Enablement_model = RStruct
     [(''allowed'', True, RPtr (RPlain TBool)),
      (''disallow_reasons'', True, RPtr (RPlain (TSlice TString))),
      (''enabled'', True, RPtr (RPlain TBool))]"

definition DeviceFeatures_UnusualAlert_Enablement_MarshalJSON :: "rest_value \<Rightarrow> json" where
  "DeviceFeatures_UnusualAlert_Enablement_MarshalJSON = rest_marshal DeviceFeatures_UnusualAlert_Enablement_model"

definition DeviceFeatures_UnusualAlert_Enablement_UnmarshalJSON :: "rest_value \<Rightarrow> json \<Rightarrow> rest_value \<times> bool" where
  "DeviceFeatures_UnusualAlert_Enablement_UnmarshalJSON = rest_unmarshal DeviceFeatures_UnusualAlert_Enablement_model"

lemma DeviceFeatures_UnusualAlert_Enablement_wf [rest_wf_models]: "rest_wf DeviceFeatures_UnusualAlert_Enablement_model"
  by (simp add: DeviceFeatures_UnusualAlert_Enablement_model_def rest_names_def rest_wf_models)

definition DeviceFeatures_UnusualAlert_Learning_model :: rest_type where
  "DeviceFeatures_UnusualAlert_Learning_model = RStruct
     [(''state'', True, RPtr (RPlain TString))]"

definition DeviceFeatures_UnusualAlert_Learning_MarshalJSON :: "rest_value \<Rightarrow> json" where
  "DeviceFeatures_UnusualAlert_Learning_MarshalJSON = rest_marshal DeviceFeatures_UnusualAlert_Learning_model"

definition DeviceFeatures_UnusualAlert_Learning_UnmarshalJSON :: "rest_value \<Rightarrow> json \<Rightarrow> rest_value \<times> bool" where
  "DeviceFeatures_UnusualAlert_Learning_UnmarshalJSON = rest_unmarshal DeviceFeatures_UnusualAlert_Learning_model"

lemma DeviceFeatures_UnusualAlert_Learning_wf [rest_wf_models]: "rest_wf DeviceFeatures_UnusualAlert_Learning_model"
  by (simp add: DeviceFeatures_UnusualAlert_Learning_model_def rest_names_def rest_wf_models)

definition DeviceFeatures_UnusualAlert_model :: rest_type where
  "DeviceFeatures_UnusualAlert_model = RStruct
     [(''eligibility'', True, RPtr DeviceFeatures_UnusualAlert_Eligibility_model),
      (''enablement'', True, RPtr DeviceFeatures_UnusualAlert_Enablement_model),
      (''learning'', True, RPtr DeviceFeatures_UnusualAlert_Learning_model)]"

definition DeviceFeatures_UnusualAlert_MarshalJSON :: "rest_value \<Rightarrow> json" where
  "DeviceFeatures_UnusualAlert_MarshalJSON = rest_marshal DeviceFeatures_UnusualAlert_model"

definition DeviceFeatures_UnusualAlert_UnmarshalJSON :: "rest_value \<Rightarrow> json \<Rightarrow> rest_value \<times> bool" where
  "DeviceFeatures_UnusualAlert_UnmarshalJSON = rest_unmarshal DeviceFeatures_UnusualAlert_model"

lemma DeviceFeatures_UnusualAlert_wf [rest_wf_models]: "rest_wf DeviceFeatures_UnusualAlert_model"
  by (simp add: DeviceFeatures_UnusualAlert_model_def rest_names_def rest_wf_models)

definition DeviceFeatures_VideoDonation_Eligibility_model :: rest_type where
  "DeviceFeatures_VideoDonation_Eligibility_model = RStruct
     [(''eligible'', True, RPtr (RPlain TBool)),
      (''ineligibility_reasons'', True, RPtr (RPlain (TSlice TAny)))]"

definition DeviceFeatures_VideoDonation_Eligibility_MarshalJSON :: "rest_value \<Rightarrow> json" where
  "DeviceFeatures_VideoDonation_Eligibility_MarshalJSON = rest_marshal DeviceFeatures_VideoDonation_Eligibility_model"

definition DeviceFeatures_VideoDonation_Eligibility_UnmarshalJSON :: "rest_value \<Rightarrow> json \<Rightarrow> rest_value \<times> bool" where
  "DeviceFeatures_VideoDonation_Eligibility_UnmarshalJSON = rest_unmarshal DeviceFeatures_VideoDonation_Eligibility_model"

lemma DeviceFeatures_VideoDonation_Eligibility_wf [rest_wf_models]: "rest_wf DeviceFeatures_VideoDonation_Eligibility_model"
  by (simp add: DeviceFeatures_VideoDonation_Eligibility_model_def rest_names_def rest_wf_models)

definition DeviceFeatures_VideoDonation_model :: rest_type where
  "DeviceFeatures_VideoDonation_model = RStruct
     [(''eligibility'', True, RPtr DeviceFeatures_VideoDonation_Eligibility_model)]"

definition DeviceFeatures_VideoDonation_MarshalJSON :: "rest_value \<Rightarrow> json" where
  "DeviceFeatures_VideoDonation_MarshalJSON = rest_marshal DeviceFeatures_VideoDonation_model"

definition DeviceFeatures_VideoDonation_UnmarshalJSON :: "rest_value \<Rightarrow> json \<Rightarrow> rest_value \<times> bool" where
  "DeviceFeatures_VideoDonation_UnmarshalJSON = rest_unmarshal DeviceFeatures_VideoDonation_model"

lemma DeviceFeatures_VideoDonation_wf [rest_wf_models]: "rest_wf DeviceFeatures_VideoDonation_model"
  by (simp add: DeviceFeatures_VideoDonation_model_def rest_names_def rest_wf_models)

definition DeviceFeatures_VideoRecording_RecordingModeAvailability_Continuous_model :: rest_type where
  "DeviceFeatures_VideoRecording_RecordingModeAvailability_Continuous_model = RStruct
     [(''available'', True, RPtr (RPlain TBool)),
      (''supported'', True, RPtr (RPlain TBool)),
      (''unavailability_reason'', True, RPtr (RPlain TString))]"

definition DeviceFeatures_VideoRecording_RecordingModeAvailability_Continuous_MarshalJSON :: "rest_value \<Rightarrow> json" where
  "DeviceFeatures_VideoRecording_RecordingModeAvailability_Continuous_MarshalJSON = rest_marshal DeviceFeatures_VideoRecording_RecordingModeAvailability_Continuous_model"

definition DeviceFeatures_VideoRecording_RecordingModeAvailability_Continuous_UnmarshalJSON :: "rest_value \<Rightarrow> json \<Rightarrow> rest_value \<times> bool" where
  "DeviceFeatures_VideoRecording_RecordingModeAvailability_Continuous_UnmarshalJSON = rest_unmarshal DeviceFeatures_VideoRecording_RecordingModeAvailability_Continuous_model"

lemma DeviceFeatures_VideoRecording_RecordingModeAvailability_Continuous_wf [rest_wf_models]: "rest_wf DeviceFeatures_VideoRecording_RecordingModeAvailability_Continuous_model"
  by (simp add: DeviceFeatures_VideoRecording_RecordingModeAvailability_Continuous_model_def rest_names_def rest_wf_models)

definition DeviceFeatures_VideoRecording_RecordingModeAvailability_model :: rest_type where
  "DeviceFeatures_VideoRecording_RecordingModeAvailability_model = RStruct
     [(''continuous'', True, RPtr DeviceFeatures_VideoRecording_RecordingModeAvailability_Continuous_model)]"

definition DeviceFeatures_VideoRecording_RecordingModeAvailability_MarshalJSON :: "rest_value \<Rightarrow> json" where
  "DeviceFeatures_VideoRecording_RecordingModeAvailability_MarshalJSON = rest_marshal DeviceFeatures_VideoRecording_RecordingModeAvailability_model"

definition DeviceFeatures_VideoRecording_RecordingModeAvailability_UnmarshalJSON :: "rest_value \<Rightarrow> json \<Rightarrow> rest_value \<times> bool" where
  "DeviceFeatures_VideoRecording_RecordingModeAvailability_UnmarshalJSON = rest_unmarshal DeviceFeatures_VideoRecording_RecordingModeAvailability_model"

lemma DeviceFeatures_VideoRecording_RecordingModeAvailability_wf [rest_wf_models]: "rest_wf DeviceFeatures_VideoRecording_RecordingModeAvailability_model"
  by (simp add: DeviceFeatures_VideoRecording_RecordingModeAvailability_model_def rest_names_def rest_wf_models)

definition DeviceFeatures_VideoRecording_model :: rest_type where
  "DeviceFeatures_VideoRecording_model = RStruct
     [(''recording_enabled'', True, RPtr (RPlain TBool)),
      (''recording_mode'', True, RPtr (RPlain TString)),
      (''recording_mode_availability'', True, RPtr DeviceFeatures_VideoRecording_RecordingModeAvailability_model),
      (''recording_state'', True, RPtr (RPlain TString))]"

definition DeviceFeatures_VideoRecording_MarshalJSON :: "rest_value \<Rightarrow> json" where
  "DeviceFeatures_VideoRecording_MarshalJSON = rest_marshal DeviceFeatures_VideoRecording_model"

definition DeviceFeatures_VideoRecording_UnmarshalJSON :: "rest_value \<Rightarrow> json \<Rightarrow> rest_value \<times> bool" where
  "DeviceFeatures_VideoRecording_UnmarshalJSON = rest_unmarshal DeviceFeatures_VideoRecording_model"

lemma DeviceFeatures_VideoRecording_wf [rest_wf_models]: "rest_wf DeviceFeatures_VideoRecording_model"
  by (simp add: DeviceFeatures_VideoRecording_model_def rest_names_def rest_wf_models)

definition DeviceHealth_model :: rest_type where
  "DeviceHealth_model = RStruct
     [(''ac_power'', True, RPtr (RPlain TInt)),
      (''bandwidth'', True, RPtr (RPlain TInt)),
      (''bandwidth_last_time'', True, RPtr (RPlain TInt)),
      (''battery_error'', True, RPtr (RPlain TBool)),
      (''battery_level'', True, RPtr (RPlain TInt)),
      (''battery_percentage'', True, RPtr RFloat32),
      (''battery_percentage_category'', True, RPtr (RPlain TString)),
      (''battery_present'', True, RPtr (RPlain TBool)),
      (''battery_status'', True, RPtr (RPlain TString)),
      (''battery_voltage_category'', True, RPtr (RPlain TString)),
      (''channel'', True, RPtr (RPlain TString)),
      (''connected'', True, RPtr (RPlain TBool)),
      (''current_bandwidth'', True, RPtr (RPlain TInt)),
      (''current_bandwidth_category'', True, RPtr (RPlain TString)),
      (''current_bandwidth_mb'', True, RPtr RFloat32),
      (''device_type'', True, RPtr (RPlain TString)),
      (''egress_tx_rate'', True, RPtr (RPlain TString)),
      (''egress_tx_rate_category'', True, RPtr (RPlain TString)),
      (''encryption_group_error'', True, RPtr (RPlain TInt)),
      (''external_connection'', True, RPtr (RPlain TBool)),
      (''fast_ping_hop1_score'', True, RPtr (RPlain TString)),
      (''firmware_avg_bitrate'', True, RPtr (RPlain TString)),
      (''firmware_version'', True, RPtr (RPlain TString)),
      (''firmware_version_status'', True, RPtr (RPlain TString)),
      (''floodlight_on'', True, RPtr (RPlain TBool)),
      (''hatch_open'', True, RPtr (RPlain TBool)),
      (''last_update'', True, RPtr (RPlain TString)),
      (''last_update_time'', True, RPtr (RPlain TInt)),
      (''network_connection_value'', True, RPtr (RPlain TString)),
      (''night_mode_on'', True, RPtr (RPlain TBool)),
      (''ota_status'', True, RPtr (RPlain TString)),
      (''packet_loss'', True, RPtr RFloat32),
      (''packet_loss_category'', True, RPtr (RPlain TString)),
      (''pref_run_mode'', True, RPtr (RPlain TString)),
      (''privacy_cover_enabled'', True, RPtr (RPlain TBool)),
      (''ptz_connected'', True, RPtr (RPlain TString)),
      (''rss_connected'', True, RPtr (RPlain TBool)),
      (''rssi'', True, RPtr RFloat32),
      (''rssi_category'', True, RPtr (RPlain TString)),
      (''run_mode'', True, RPtr (RPlain TString)),
      (''second_battery_percentage_category'', True, RPtr (RPlain TString)),
      (''second_battery_voltage_category'', True, RPtr (RPlain TString)),
      (''sidewalk_connection'', True, RPtr (RPlain TBool)),
      (''signal_strength'', True, RPtr (RPlain TInt)),
      (''siren_on'', True, RPtr (RPlain TBool)),
      (''status_time'', True, RPtr (RPlain TInt)),
      (''supported_rpc_commands'', True, RPtr (RPlain (TSlice TString))),
      (''tx_rate'', True, RPtr (RPlain TInt)),
      (''video_packets_total'', True, RPtr (RPlain TString)),
      (''vod_enabled'', True, RPtr (RPlain TBool)),
      (''white_led_on'', True, RPtr (RPlain TBool)),
      (''wifi_is_ring_network'', True, RPtr (RPlain TBool)),
      (''wifi_name'', True, RPtr (RPlain TString))]"

definition DeviceHealth_MarshalJSON :: "rest_value \<Rightarrow> json" where
  "DeviceHealth_MarshalJSON = rest_marshal DeviceHealth_model"

definition DeviceHealth_UnmarshalJSON :: "rest_value \<Rightarrow> json \<Rightarrow> rest_value \<times> bool" where
  "DeviceHealth_UnmarshalJSON = rest_unmarshal DeviceHealth_model"

lemma DeviceHealth_wf [rest_wf_models]: "rest_wf DeviceHealth_model"
  by (simp add: DeviceHealth_model_def rest_names_def rest_wf_models)

definition DeviceOwner_Id_model :: rest_type where
  "DeviceOwner_Id_model = RUnion"

definition DeviceOwner_Id_MarshalJSON :: "rest_value \<Rightarrow> json" where
  "DeviceOwner_Id_MarshalJSON = rest_marshal DeviceOwner_Id_model"

definition DeviceOwner_Id_UnmarshalJSON :: "rest_value \<Rightarrow> json \<Rightarrow> rest_value \<times> bool" where
  "DeviceOwner_Id_UnmarshalJSON = rest_unmarshal DeviceOwner_Id_model"

lemma DeviceOwner_Id_wf [rest_wf_models]: "rest_wf DeviceOwner_Id_model"
  by (simp add: DeviceOwner_Id_model_def rest_names_def rest_wf_models)

definition FeatureEligibility_model :: rest_type where
  "FeatureEligibility_model = RStruct
     [(''eligible'', True, RPtr (RPlain TBool)),
      (''ineligibility_reasons'', True, RPtr (RPlain (TSlice TString)))]"

definition FeatureEligibility_MarshalJSON :: "rest_value \<Rightarrow> json" where
  "FeatureEligibility_MarshalJSON = rest_marshal FeatureEligibility_model"

definition FeatureEligibility_UnmarshalJSON :: "rest_value \<Rightarrow> json \<Rightarrow> rest_value \<times> bool" where
  "FeatureEligibility_UnmarshalJSON = rest_unmarshal FeatureEligibility_model"

lemma FeatureEligibility_wf [rest_wf_models]: "rest_wf FeatureEligibility_model"
  by (simp add: FeatureEligibility_model_def rest_names_def rest_wf_models)

definition FeatureEnablement_model :: rest_type where
  "FeatureEnablement_model = RStruct
     [(''allowed'', True, RPtr (RPlain TBool)),
      (''disallow_reasons'', True, RPtr (RPlain (TSlice TString))),
      (''enabled'', True, RPtr (RPlain TBool))]"

definition FeatureEnablement_MarshalJSON :: "rest_value \<Rightarrow> json" where
  "FeatureEnablement_MarshalJSON = rest_marshal FeatureEnablement_model"

definition FeatureEnablement_UnmarshalJSON :: "rest_value \<Rightarrow> json \<Rightarrow> rest_value \<times> bool" where
  "FeatureEnablement_UnmarshalJSON = rest_unmarshal FeatureEnablement_model"

lemma FeatureEnablement_wf [rest_wf_models]: "rest_wf FeatureEnablement_model"
  by (simp add: FeatureEnablement_model_def rest_names_def rest_wf_models)

definition LegacyDeviceHealth_model :: rest_type where
  "LegacyDeviceHealth_model = RStruct
     [(''battery_level'', True, RPtr (RPlain TInt)),
      (''battery_status'', True, RPtr (RPlain TString)),
      (''firmware_version'', True, RPtr (RPlain TString)),
      (''last_update'', True, RPtr (RPlain TString)),
      (''signal_strength'', True, RPtr (RPlain TInt))]"

definition LegacyDeviceHealth_MarshalJSON :: "rest_value \<Rightarrow> json" where
  "LegacyDeviceHealth_MarshalJSON = rest_marshal LegacyDeviceHealth_model"

definition LegacyDeviceHealth_UnmarshalJSON :: "rest_value \<Rightarrow> json \<Rightarrow> rest_value \<times> bool" where
  "LegacyDeviceHealth_UnmarshalJSON = rest_unmarshal LegacyDeviceHealth_model"

lemma LegacyDeviceHealth_wf [rest_wf_models]: "rest_wf LegacyDeviceHealth_model"
  by (simp add: LegacyDeviceHealth_model_def rest_names_def rest_wf_models)

definition GeoCoordinates_model :: rest_type where
  "GeoCoordinates_model = RStruct
     [(''latitude'', True, RPtr RFloat32),
      (''longitude'', True, RPtr RFloat32)]"

definition GeoCoordinates_MarshalJSON :: "rest_value \<Rightarrow> json" where
  "GeoCoordinates_MarshalJSON = rest_marshal GeoCoordinates_model"

definition GeoCoordinates_UnmarshalJSON :: "rest_value \<Rightarrow> json \<Rightarrow> rest_value \<times> bool" where
  "GeoCoordinates_UnmarshalJSON = rest_unmarshal GeoCoordinates_model"

lemma GeoCoordinates_wf [rest_wf_models]: "rest_wf GeoCoordinates_model"
  by (simp add: GeoCoordinates_model_def rest_names_def rest_wf_models)

definition LocationAddress_model :: rest_type where
  "LocationAddress_model = RStruct
     [(''address1'', True, RPtr (RPlain TString)),
      (''address2'', True, RPtr (RPlain TString)),
      (''city'', True, RPtr (RPlain TString)),
      (''country'', True, RPtr (RPlain TString)),
      (''state'', True, RPtr (RPlain TString)),
      (''timezone'', True, RPtr (RPlain TString)),
      (''zip_code'', True, RPtr (RPlain TString))]"

definition LocationAddress_MarshalJSON :: "rest_value \<Rightarrow> json" where
  "LocationAddress_MarshalJSON = rest_marshal LocationAddress_model"

definition LocationAddress_UnmarshalJSON :: "rest_value \<Rightarrow> json \<Rightarrow> rest_value \<times> bool" where
  "LocationAddress_UnmarshalJSON = rest_unmarshal LocationAddress_model"

lemma LocationAddress_wf [rest_wf_models]: "rest_wf LocationAddress_model"
  by (simp add: LocationAddress_model_def rest_names_def rest_wf_models)

definition LocationAttributes_model :: rest_type where
  "LocationAttributes_model = RStruct
     [(''city'', True, RPtr (RPlain TString)),
      (''country'', True, RPtr (RPlain TString)),
      (''latitude'', True, RPtr RFloat32),
      (''longitude'', True, RPtr RFloat32),
      (''name'', True, RPtr (RPlain TString)),
      (''state'', True, RPtr (RPlain TString)),
      (''time_zone'', True, RPtr (RPlain TString))]"

definition LocationAttributes_MarshalJSON :: "rest_value \<Rightarrow> json" where
  "LocationAttributes_MarshalJSON = rest_marshal LocationAttributes_model"

definition LocationAttributes_UnmarshalJSON :: "rest_value \<Rightarrow> json \<Rightarrow> rest_value \<times> bool" where
  "LocationAttributes_UnmarshalJSON = rest_unmarshal LocationAttributes_model"

lemma LocationAttributes_wf [rest_wf_models]: "rest_wf LocationAttributes_model"
  by (simp add: LocationAttributes_model_def rest_names_def rest_wf_models)

definition LocationGroup_model :: rest_type where
  "LocationGroup_model = RStruct
     [(''id'', True, RPtr (RPlain TString)),
      (''name'', True, RPtr (RPlain TString))]"

definition LocationGroup_MarshalJSON :: "rest_value \<Rightarrow> json" where
  "LocationGroup_MarshalJSON = rest_marshal LocationGroup_model"

definition LocationGroup_UnmarshalJSON :: "rest_value \<Rightarrow> json \<Rightarrow> rest_value \<times> bool" where
  "LocationGroup_UnmarshalJSON = rest_unmarshal LocationGroup_model"

lemma LocationGroup_wf [rest_wf_models]: "rest_wf LocationGroup_model"
  by (simp add: LocationGroup_model_def rest_names_def rest_wf_models)

definition LocationGroupDevices_model :: rest_type where
  "LocationGroupDevices_model = RStruct
     [(''groups'', True, RSlice LocationGroup_model)]"

definition LocationGroupDevices_MarshalJSON :: "rest_value \<Rightarrow> json" where
  "LocationGroupDevices_MarshalJSON = rest_marshal LocationGroupDevices_model"

definition LocationGroupDevices_UnmarshalJSON :: "rest_value \<Rightarrow> json \<Rightarrow> rest_value \<times> bool" where
  "LocationGroupDevices_UnmarshalJSON = rest_unmarshal LocationGroupDevices_model"

lemma LocationGroupDevices_wf [rest_wf_models]: "rest_wf LocationGroupDevices_model"
  by (simp add: LocationGroupDevices_model_def rest_names_def rest_wf_models)

definition LocationGroups_model :: rest_type where
  "LocationGroups_model = RStruct
     [(''device_groups'', True, RPtr (RSlice LocationGroup_model)),
      (''is_owner'', True, RPtr (RPlain TBool))]"

definition LocationGroups_MarshalJSON :: "rest_value \<Rightarrow> json" where
  "LocationGroups_MarshalJSON = rest_marshal LocationGroups_model"

definition LocationGroups_UnmarshalJSON :: "rest_value \<Rightarrow> json \<Rightarrow> rest_value \<times> bool" where
  "LocationGroups_UnmarshalJSON = rest_unmarshal LocationGroups_model"

lemma LocationGroups_wf [rest_wf_models]: "rest_wf LocationGroups_model"
  by (simp add: LocationGroups_model_def rest_names_def rest_wf_models)

definition LocationMeta_model :: rest_type where
  "LocationMeta_model = RStruct
     [(''time'', True, RPtr RTime)]"

definition LocationMeta_MarshalJSON :: "rest_value \<Rightarrow> json" where
  "LocationMeta_MarshalJSON = rest_marshal LocationMeta_model"

definition LocationMeta_UnmarshalJSON :: "rest_value \<Rightarrow> json \<Rightarrow> rest_value \<times> bool" where
  "LocationMeta_UnmarshalJSON = rest_unmarshal LocationMeta_model"

lemma LocationMeta_wf [rest_wf_models]: "rest_wf LocationMeta_model"
  by (simp add: LocationMeta_model_def rest_names_def rest_wf_models)

definition LocationResource_model :: rest_type where
  "LocationResource_model = RStruct
     [(''attributes'', True, RPtr LocationAttributes_model),
      (''id'', False, RPlain TString),
      (''type'', False, RPlain TString)]"

definition LocationResource_MarshalJSON :: "rest_value \<Rightarrow> json" where
  "LocationResource_MarshalJSON = rest_marshal LocationResource_model"

definition LocationResource_UnmarshalJSON :: "rest_value \<Rightarrow> json \<Rightarrow> rest_value \<times> bool" where
  "LocationResource_UnmarshalJSON = rest_unmarshal LocationResource_model"

lemma LocationResource_wf [rest_wf_models]: "rest_wf LocationResource_model"
  by (simp add: LocationResource_model_def rest_names_def rest_wf_models)

definition LocationSummary_model :: rest_type where
  "LocationSummary_model = RStruct
     [(''address'', True, RPtr LocationAddress_model),
      (''geo_coordinates'', True, RPtr GeoCoordinates_model),
      (''is_owner'', True, RPtr (RPlain TBool)),
      (''location_id'', False, RPlain TString),
      (''location_type'', True, RPtr (RPlain TString)),
      (''name'', False, RPlain TString),
      (''owner_id'', True, RPtr (RPlain TInt))]"

definition LocationSummary_MarshalJSON :: "rest_value \<Rightarrow> json" where
  "LocationSummary_MarshalJSON = rest_marshal LocationSummary_model"

definition LocationSummary_UnmarshalJSON :: "rest_value \<Rightarrow> json \<Rightarrow> rest_value \<times> bool" where
  "LocationSummary_UnmarshalJSON = rest_unmarshal LocationSummary_model"

lemma LocationSummary_wf [rest_wf_models]: "rest_wf LocationSummary_model"
  by (simp add: LocationSummary_model_def rest_names_def rest_wf_models)

definition DeviceSettings_model :: rest_type where
  "DeviceSettings_model = RStruct
     [(''chime_settings'', True, RPtr ChimeSettings_model),
      (''motion_settings'', True, RPtr MotionSettings_model),
      (''ptz_settings'', True, RPtr PTZSettings_model),
      (''video_settings'', True, RPtr VideoSettings_model),
      (''volume_settings'', True, RPtr VolumeSettings_model)]"

definition DeviceSettings_MarshalJSON :: "rest_value \<Rightarrow> json" where
  "DeviceSettings_MarshalJSON = rest_marshal DeviceSettings_model"

definition DeviceSettings_UnmarshalJSON :: "rest_value \<Rightarrow> json \<Rightarrow> rest_value \<times> bool" where
  "DeviceSettings_UnmarshalJSON = rest_unmarshal DeviceSettings_model"

lemma DeviceSettings_wf [rest_wf_models]: "rest_wf DeviceSettings_model"
  by (simp add: DeviceSettings_model_def rest_names_def rest_wf_models)

definition DeviceOwner_model :: rest_type where
  "DeviceOwner_model = RStruct
     [(''email'', True, RPtr (RPlain TString)),
      (''first_name'', True, RPtr (RPlain TString)),
      (''id'', True, RPtr DeviceOwner_Id_model),
      (''last_name'', True, RPtr (RPlain TString))]"

definition DeviceOwner_MarshalJSON :: "rest_value \<Rightarrow> json" where
  "DeviceOwner_MarshalJSON = rest_marshal DeviceOwner_model"

definition DeviceOwner_UnmarshalJSON :: "rest_value \<Rightarrow> json \<Rightarrow> rest_value \<times> bool" where
  "DeviceOwner_UnmarshalJSON = rest_unmarshal DeviceOwner_model"

lemma DeviceOwner_wf [rest_wf_models]: "rest_wf DeviceOwner_model"
  by (simp add: DeviceOwner_model_def rest_names_def rest_wf_models)

definition FeatureAvailability_model :: rest_type where
  "FeatureAvailability_model = RStruct
     [(''eligibility'', True, RPtr FeatureEligibility_model),
      (''enablement'', True, RPtr FeatureEnablement_model)]"

definition FeatureAvailability_MarshalJSON :: "rest_value \<Rightarrow> json" where
  "FeatureAvailability_MarshalJSON = rest_marshal FeatureAvailability_model"

definition FeatureAvailability_UnmarshalJSON :: "rest_value \<Rightarrow> json \<Rightarrow> rest_value \<times> bool" where
  "FeatureAvailability_UnmarshalJSON = rest_unmarshal FeatureAvailability_model"

lemma FeatureAvailability_wf [rest_wf_models]: "rest_wf FeatureAvailability_model"
  by (simp add: FeatureAvailability_model_def rest_names_def rest_wf_models)

definition LocationDetail_model :: rest_type where
  "LocationDetail_model = RStruct
     [(''data'', False, LocationResource_model),
      (''included'', True, RPtr (RSlice LocationResource_model)),
      (''meta'', True, RPtr LocationMeta_model)]"

definition LocationDetail_MarshalJSON :: "rest_value \<Rightarrow> json" where
  "LocationDetail_MarshalJSON = rest_marshal LocationDetail_model"

definition LocationDetail_UnmarshalJSON :: "rest_value \<Rightarrow> json \<Rightarrow> rest_value \<times> bool" where
  "LocationDetail_UnmarshalJSON = rest_unmarshal LocationDetail_model"

lemma LocationDetail_wf [rest_wf_models]: "rest_wf LocationDetail_model"
  by (simp add: LocationDetail_model_def rest_names_def rest_wf_models)

definition LocationList_model :: rest_type where
  "LocationList_model = RStruct
     [(''location_operation_sets'', True, RPtr (RMap (RMap (RPlain TMap)))),
      (''user_locations'', True, RSlice LocationSummary_model)]"

definition LocationList_MarshalJSON :: "rest_value \<Rightarrow> json" where
  "LocationList_MarshalJSON = rest_marshal LocationList_model"

definition LocationList_UnmarshalJSON :: "rest_value \<Rightarrow> json \<Rightarrow> rest_value \<times> bool" where
  "LocationList_UnmarshalJSON = rest_unmarshal LocationList_model"

lemma LocationList_wf [rest_wf_models]: "rest_wf LocationList_model"
  by (simp add: LocationList_model_def rest_names_def rest_wf_models)

definition DeviceFeatures_model :: rest_type where
  "DeviceFeatures_model = RStruct
     [(''ai_automated_warnings'', True, RPtr DeviceFeatures_AiAutomatedWarnings_model),
      (''ai_labs_daily_clip'', True, RPtr DeviceFeatures_AiLabsDailyClip_model),
      (''ai_labs_memorable_moments'', True, RPtr DeviceFeatures_AiLabsMemorableMoments_model),
      (''alexa_plus_greetings'', False, RPlain TAny),
      (''animal_detection_eligible'', True, RPtr (RPlain TBool)),
      (''auto_shutoff_device'', False, RPlain TAny),
      (''auto_track'', True, RPtr FeatureAvailability_model),
      (''auto_zoom_track'', True, RPtr FeatureAvailability_model),
      (''automated_siren'', False, RPlain TAny),
      (''cfes_eligible'', True, RPtr (RPlain TBool)),
      (''chime_settings'', True, RPtr DeviceFeatures_ChimeSettings_model),
      (''dynamic_network_switching_eligible'', True, RPtr (RPlain TBool)),
      (''live_view_audio_privacy_controls'', True, RPtr DeviceFeatures_LiveViewAudioPrivacyControls_model),
      (''motion_message_enabled'', True, RPtr (RPlain TBool)),
      (''motion_stop_edge_eligible'', True, RPtr (RPlain TBool)),
      (''motion_zone_recommendation'', True, RPtr (RPlain TBool)),
      (''motions_enabled'', True, RPtr (RPlain TBool)),
      (''network_backup'', True, RPtr DeviceFeatures_NetworkBackup_model),
      (''network_backup_host'', True, RPtr DeviceFeatures_NetworkBackupHost_model),
      (''original_video_quality_download_offer'', True, RPtr DeviceFeatures_OriginalVideoQualityDownloadOffer_model),
      (''package_warning'', False, RPlain TAny),
      (''person_identification'', True, RPtr DeviceFeatures_PersonIdentification_model),
      (''property_view'', True, RPtr DeviceFeatures_PropertyView_model),
      (''ptz_setup_complete'', True, RPtr (RPlain TBool)),
      (''recording_24x7_eligible'', True, RPtr (RPlain TBool)),
      (''remote_access_control'', False, RPlain TAny),
      (''retinal_tuning'', True, RPtr DeviceFeatures_RetinalTuning_model),
      (''rich_notifications_eligible'', True, RPtr (RPlain TBool)),
      (''sheila_camera_eligible'', True, RPtr (RPlain TBool)),
      (''sheila_camera_processing_eligible'', True, RPtr (RPlain TBool)),
      (''show_24x7_lite'', True, RPtr (RPlain TBool)),
      (''show_offline_motion_events'', True, RPtr (RPlain TBool)),
      (''show_recordings'', True, RPtr (RPlain TBool)),
      (''show_vod_settings'', True, RPtr (RPlain TBool)),
      (''single_alert'', True, RPtr DeviceFeatures_SingleAlert_model),
      (''smart_video_description'', True, RPtr DeviceFeatures_SmartVideoDescription_model),
      (''smart_video_search'', True, RPtr DeviceFeatures_SmartVideoSearch_model),
      (''tracklight'', False, RPlain TAny),
      (''transformer_score'', False, RPlain TAny),
      (''unusual_alert'', True, RPtr DeviceFeatures_UnusualAlert_model),
      (''vehicle_detection_eligible'', True, RPtr (RPlain TBool)),
      (''video_donation'', True, RPtr DeviceFeatures_VideoDonation_model),
      (''video_recording'', True, RPtr DeviceFeatures_VideoRecording_model),
      (''video_rendering'', True, RPtr VideoRenderingFeature_model)]"

definition DeviceFeatures_MarshalJSON :: "rest_value \<Rightarrow> json" where
  "DeviceFeatures_MarshalJSON = rest_marshal DeviceFeatures_model"

definition DeviceFeatures_UnmarshalJSON :: "rest_value \<Rightarrow> json \<Rightarrow> rest_value \<times> bool" where
  "DeviceFeatures_UnmarshalJSON = rest_unmarshal DeviceFeatures_model"

lemma DeviceFeatures_wf [rest_wf_models]: "rest_wf DeviceFeatures_model"
  by (simp add: DeviceFeatures_model_def rest_names_def rest_wf_models)

definition Device_model :: rest_type where
  "Device_model = RStruct
     [(''active_schedule_uuid'', False, RPlain TAny),
      (''address'', True, RPtr (RPlain TString)),
      (''alerts'', True, RPtr Device_Alerts_model),
      (''battery_life'', True, RPtr Device_BatteryLife_model),
      (''battery_life_2'', True, RPtr Device_BatteryLife2_model),
      (''camera_location_indoor'', True, RPtr (RPlain TBool)),
      (''created_at'', True, RPtr RTime),
      (''deactivated_at'', True, RPtr RTime),
      (''description'', False, RPlain TString),
      (''device_id'', True, RPtr (RPlain TString)),
      (''device_resource_id'', True, RPtr (RPlain TString)),
      (''encryption_group'', True, RPtr Device_EncryptionGroup_model),
      (''ext_power_state'', False, RPlain TAny),
      (''external_connection'', True, RPtr (RPlain TBool)),
      (''facing_window'', True, RPtr (RPlain TBool)),
      (''family'', True, RPtr (RPlain TString)),
      (''features'', True, RPtr DeviceFeatures_model),
      (''firmware_version'', True, RPtr (RPlain TString)),
      (''has_light'', True, RPtr (RPlain TBool)),
      (''health'', True, RPtr DeviceHealth_model),
      (''id'', False, RPlain TInt),
      (''is_sidewalk_gateway'', True, RPtr (RPlain TBool)),
      (''kind'', False, RPlain TString),
      (''latitude'', True, RPtr RFloat32),
      (''light_brightness'', True, RPtr (RPlain TInt)),
      (''location_id'', True, RPtr (RPlain TString)),
      (''longitude'', True, RPtr RFloat32),
      (''motion_detection_enabled'', True, RPtr (RPlain TBool)),
      (''motion_snooze'', True, RPtr Device_MotionSnooze_model),
      (''name'', True, RPtr (RPlain TString)),
      (''operation_set'', True, RPtr (RPlain TString)),
      (''owned'', True, RPtr (RPlain TBool)),
      (''owner'', True, RPtr DeviceOwner_model),
      (''ring_id'', False, RPlain TAny),
      (''ring_net_id'', True, RPtr (RPlain TString)),
      (''schema_id'', True, RPtr (RPlain TString)),
      (''settings'', True, RPtr DeviceLegacySettings_model),
      (''shared_at'', False, RPlain TAny),
      (''siren_status'', True, RPtr Device_SirenStatus_model),
      (''snooze_settings'', False, RPlain TAny),
      (''stolen'', True, RPtr (RPlain TBool)),
      (''subscribed'', True, RPtr (RPlain TBool)),
      (''subscribed_motions'', True, RPtr (RPlain TBool)),
      (''time_zone'', True, RPtr (RPlain TString)),
      (''timezone'', True, RPtr (RPlain TString)),
      (''volume'', True, RPtr (RPlain TInt)),
      (''wifi_name'', True, RPtr (RPlain TString)),
      (''wifi_signal_strength'', True, RPtr (RPlain TInt))]"

definition Device_MarshalJSON :: "rest_value \<Rightarrow> json" where
  "Device_MarshalJSON = rest_marshal Device_model"

definition Device_UnmarshalJSON :: "rest_value \<Rightarrow> json \<Rightarrow> rest_value \<times> bool" where
  "Device_UnmarshalJSON = rest_unmarshal Device_model"

lemma Device_wf [rest_wf_models]: "rest_wf Device_model"
  by (simp add: Device_model_def rest_names_def rest_wf_models)

definition DeviceDetail_model :: rest_type where
  "DeviceDetail_model = RStruct
     [(''device'', False, Device_model),
      (''device_operation_set'', True, RPtr (RMap (RMap (RPlain TMap))))]"

definition DeviceDetail_MarshalJSON :: "rest_value \<Rightarrow> json" where
  "DeviceDetail_MarshalJSON = rest_marshal DeviceDetail_model"

definition DeviceDetail_UnmarshalJSON :: "rest_value \<Rightarrow> json \<Rightarrow> rest_value \<times> bool" where
  "DeviceDetail_UnmarshalJSON = rest_unmarshal DeviceDetail_model"

lemma DeviceDetail_wf [rest_wf_models]: "rest_wf DeviceDetail_model"
  by (simp add: DeviceDetail_model_def rest_names_def rest_wf_models)

definition DeviceList_model :: rest_type where
  "DeviceList_model = RStruct
     [(''device_operation_sets'', True, RPtr (RMap (RMap (RPlain TMap)))),
      (''devices'', True, RSlice Device_model)]"

definition DeviceList_MarshalJSON :: "rest_value \<Rightarrow> json" where
  "DeviceList_MarshalJSON = rest_marshal DeviceList_model"

definition DeviceList_UnmarshalJSON :: "rest_value \<Rightarrow> json \<Rightarrow> rest_value \<times> bool" where
  "DeviceList_UnmarshalJSON = rest_unmarshal DeviceList_model"

lemma DeviceList_wf [rest_wf_models]: "rest_wf DeviceList_model"
  by (simp add: DeviceList_model_def rest_names_def rest_wf_models)

definition RestDevices_codecs :: "rest_codec list" where
  "RestDevices_codecs =
     [(''ChimeSettings'', ChimeSettings_model, ChimeSettings_MarshalJSON, ChimeSettings_UnmarshalJSON),
      (''MotionSettings'', MotionSettings_model, MotionSettings_MarshalJSON, MotionSettings_UnmarshalJSON),
      (''MotionSettingsPatch'', MotionSettingsPatch_model, MotionSettingsPatch_MarshalJSON, MotionSettingsPatch_UnmarshalJSON),
      (''VolumeSettings'', VolumeSettings_model, VolumeSettings_MarshalJSON, VolumeSettings_UnmarshalJSON),
      (''Device_Alerts'', Device_Alerts_model, Device_Alerts_MarshalJSON, Device_Alerts_UnmarshalJSON),
      (''Device_BatteryLife'', Device_BatteryLife_model, Device_BatteryLife_MarshalJSON, Device_BatteryLife_UnmarshalJSON),
      (''Device_BatteryLife2'', Device_BatteryLife2_model, Device_BatteryLife2_MarshalJSON, Device_BatteryLife2_UnmarshalJSON),
      (''Device_EncryptionGroup'', Device_EncryptionGroup_model, Device_EncryptionGroup_MarshalJSON, Device_EncryptionGroup_UnmarshalJSON),
      (''Device_MotionSnooze'', Device_MotionSnooze_model, Device_MotionSnooze_MarshalJSON, Device_MotionSnooze_UnmarshalJSON),
      (''Device_SirenStatus'', Device_SirenStatus_model, Device_SirenStatus_MarshalJSON, Device_SirenStatus_UnmarshalJSON),
      (''DeviceFeatures_AiAutomatedWarnings_Eligibility'', DeviceFeatures_AiAutomatedWarnings_Eligibility_model, DeviceFeatures_AiAutomatedWarnings_Eligibility_MarshalJSON, DeviceFeatures_AiAutomatedWarnings_Eligibility_UnmarshalJSON),
      (''DeviceFeatures_AiAutomatedWarnings_Enablement'', DeviceFeatures_AiAutomatedWarnings_Enablement_model, DeviceFeatures_AiAutomatedWarnings_Enablement_MarshalJSON, DeviceFeatures_AiAutomatedWarnings_Enablement_UnmarshalJSON),
      (''DeviceFeatures_AiAutomatedWarnings'', DeviceFeatures_AiAutomatedWarnings_model, DeviceFeatures_AiAutomatedWarnings_MarshalJSON, DeviceFeatures_AiAutomatedWarnings_UnmarshalJSON),
      (''DeviceFeatures_AiLabsDailyClip_Eligibility'', DeviceFeatures_AiLabsDailyClip_Eligibility_model, DeviceFeatures_AiLabsDailyClip_Eligibility_MarshalJSON, DeviceFeatures_AiLabsDailyClip_Eligibility_UnmarshalJSON),
      (''DeviceFeatures_AiLabsDailyClip_Enablement'', DeviceFeatures_AiLabsDailyClip_Enablement_model, DeviceFeatures_AiLabsDailyClip_Enablement_MarshalJSON, DeviceFeatures_AiLabsDailyClip_Enablement_UnmarshalJSON),
      (''DeviceFeatures_AiLabsDailyClip'', DeviceFeatures_AiLabsDailyClip_model, DeviceFeatures_AiLabsDailyClip_MarshalJSON, DeviceFeatures_AiLabsDailyClip_UnmarshalJSON),
      (''DeviceFeatures_AiLabsMemorableMoments_Eligibility'', DeviceFeatures_AiLabsMemorableMoments_Eligibility_model, DeviceFeatures_AiLabsMemorableMoments_Eligibility_MarshalJSON, DeviceFeatures_AiLabsMemorableMoments_Eligibility_UnmarshalJSON),
      (''DeviceFeatures_AiLabsMemorableMoments_Enablement'', DeviceFeatures_AiLabsMemorableMoments_Enablement_model, DeviceFeatures_AiLabsMemorableMoments_Enablement_MarshalJSON, DeviceFeatures_AiLabsMemorableMoments_Enablement_UnmarshalJSON),
      (''DeviceFeatures_AiLabsMemorableMoments'', DeviceFeatures_AiLabsMemorableMoments_model, DeviceFeatures_AiLabsMemorableMoments_MarshalJSON, DeviceFeatures_AiLabsMemorableMoments_UnmarshalJSON),
      (''DeviceFeatures_ChimeSettings'', DeviceFeatures_ChimeSettings_model, DeviceFeatures_ChimeSettings_MarshalJSON, DeviceFeatures_ChimeSettings_UnmarshalJSON),
      (''DeviceFeatures_LiveViewAudioPrivacyControls_Eligibility'', DeviceFeatures_LiveViewAudioPrivacyControls_Eligibility_model, DeviceFeatures_LiveViewAudioPrivacyControls_Eligibility_MarshalJSON, DeviceFeatures_LiveViewAudioPrivacyControls_Eligibility_UnmarshalJSON),
      (''DeviceFeatures_LiveViewAudioPrivacyControls'', DeviceFeatures_LiveViewAudioPrivacyControls_model, DeviceFeatures_LiveViewAudioPrivacyControls_MarshalJSON, DeviceFeatures_LiveViewAudioPrivacyControls_UnmarshalJSON),
      (''DeviceFeatures_NetworkBackup_Eligibility'', DeviceFeatures_NetworkBackup_Eligibility_model, DeviceFeatures_NetworkBackup_Eligibility_MarshalJSON, DeviceFeatures_NetworkBackup_Eligibility_UnmarshalJSON),
      (''DeviceFeatures_NetworkBackup_Enablement'', DeviceFeatures_NetworkBackup_Enablement_model, DeviceFeatures_NetworkBackup_Enablement_MarshalJSON, DeviceFeatures_NetworkBackup_Enablement_UnmarshalJSON),
      (''DeviceFeatures_NetworkBackup'', DeviceFeatures_NetworkBackup_model, DeviceFeatures_NetworkBackup_MarshalJSON, DeviceFeatures_NetworkBackup_UnmarshalJSON),
      (''DeviceFeatures_NetworkBackupHost_Eligibility'', DeviceFeatures_NetworkBackupHost_Eligibility_model, DeviceFeatures_NetworkBackupHost_Eligibility_MarshalJSON, DeviceFeatures_NetworkBackupHost_Eligibility_UnmarshalJSON),
      (''DeviceFeatures_NetworkBackupHost'', DeviceFeatures_NetworkBackupHost_model, DeviceFeatures_NetworkBackupHost_MarshalJSON, DeviceFeatures_NetworkBackupHost_UnmarshalJSON),
      (''DeviceFeatures_OriginalVideoQualityDownloadOffer'', DeviceFeatures_OriginalVideoQualityDownloadOffer_model, DeviceFeatures_OriginalVideoQualityDownloadOffer_MarshalJSON, DeviceFeatures_OriginalVideoQualityDownloadOffer_UnmarshalJSON),
      (''DeviceFeatures_PersonIdentification_Eligibility'', DeviceFeatures_PersonIdentification_Eligibility_model, DeviceFeatures_PersonIdentification_Eligibility_MarshalJSON, DeviceFeatures_PersonIdentification_Eligibility_UnmarshalJSON),
      (''DeviceFeatures_PersonIdentification_Enablement'', DeviceFeatures_PersonIdentification_Enablement_model, DeviceFeatures_PersonIdentification_Enablement_MarshalJSON, DeviceFeatures_PersonIdentification_Enablement_UnmarshalJSON),
      (''DeviceFeatures_PersonIdentification'', DeviceFeatures_PersonIdentification_model, DeviceFeatures_PersonIdentification_MarshalJSON, DeviceFeatures_PersonIdentification_UnmarshalJSON),
      (''DeviceFeatures_PropertyView_Enablement'', DeviceFeatures_PropertyView_Enablement_model, DeviceFeatures_PropertyView_Enablement_MarshalJSON, DeviceFeatures_PropertyView_Enablement_UnmarshalJSON),
      (''DeviceFeatures_PropertyView'', DeviceFeatures_PropertyView_model, DeviceFeatures_PropertyView_MarshalJSON, DeviceFeatures_PropertyView_UnmarshalJSON),
      (''DeviceFeatures_RetinalTuning_Eligibility'', DeviceFeatures_RetinalTuning_Eligibility_model, DeviceFeatures_RetinalTuning_Eligibility_MarshalJSON, DeviceFeatures_RetinalTuning_Eligibility_UnmarshalJSON),
      (''DeviceFeatures_RetinalTuning_Enablement'', DeviceFeatures_RetinalTuning_Enablement_model, DeviceFeatures_RetinalTuning_Enablement_MarshalJSON, DeviceFeatures_RetinalTuning_Enablement_UnmarshalJSON),
      (''DeviceFeatures_RetinalTuning'', DeviceFeatures_RetinalTuning_model, DeviceFeatures_RetinalTuning_MarshalJSON, DeviceFeatures_RetinalTuning_UnmarshalJSON),
      (''DeviceFeatures_SingleAlert_Eligibility'', DeviceFeatures_SingleAlert_Eligibility_model, DeviceFeatures_SingleAlert_Eligibility_MarshalJSON, DeviceFeatures_SingleAlert_Eligibility_UnmarshalJSON),
      (''DeviceFeatures_SingleAlert_Enablement'', DeviceFeatures_SingleAlert_Enablement_model, DeviceFeatures_SingleAlert_Enablement_MarshalJSON, DeviceFeatures_SingleAlert_Enablement_UnmarshalJSON),
      (''DeviceFeatures_SingleAlert'', DeviceFeatures_SingleAlert_model, DeviceFeatures_SingleAlert_MarshalJSON, DeviceFeatures_SingleAlert_UnmarshalJSON),
      (''DeviceFeatures_SmartVideoDescription_Eligibility'', DeviceFeatures_SmartVideoDescription_Eligibility_model, DeviceFeatures_SmartVideoDescription_Eligibility_MarshalJSON, DeviceFeatures_SmartVideoDescription_Eligibility_UnmarshalJSON),
      (''DeviceFeatures_SmartVideoDescription_Enablement'', DeviceFeatures_SmartVideoDescription_Enablement_model, DeviceFeatures_SmartVideoDescription_Enablement_MarshalJSON, DeviceFeatures_SmartVideoDescription_Enablement_UnmarshalJSON),
      (''DeviceFeatures_SmartVideoDescription'', DeviceFeatures_SmartVideoDescription_model, DeviceFeatures_SmartVideoDescription_MarshalJSON, DeviceFeatures_SmartVideoDescription_UnmarshalJSON),
      (''DeviceFeatures_SmartVideoSearch_Eligibility'', DeviceFeatures_SmartVideoSearch_Eligibility_model, DeviceFeatures_SmartVideoSearch_Eligibility_MarshalJSON, DeviceFeatures_SmartVideoSearch_Eligibility_UnmarshalJSON),
      (''DeviceFeatures_SmartVideoSearch_Enablement'', DeviceFeatures_SmartVideoSearch_Enablement_model, DeviceFeatures_SmartVideoSearch_Enablement_MarshalJSON, DeviceFeatures_SmartVideoSearch_Enablement_UnmarshalJSON),
      (''DeviceFeatures_SmartVideoSearch'', DeviceFeatures_SmartVideoSearch_model, DeviceFeatures_SmartVideoSearch_MarshalJSON, DeviceFeatures_SmartVideoSearch_UnmarshalJSON),
      (''DeviceFeatures_UnusualAlert_Eligibility'', DeviceFeatures_UnusualAlert_Eligibility_model, DeviceFeatures_UnusualAlert_Eligibility_MarshalJSON, DeviceFeatures_UnusualAlert_Eligibility_UnmarshalJSON),
      (''DeviceFeatures_UnusualAlert_Enablement'', DeviceFeatures_UnusualAlert_Enablement_model, DeviceFeatures_UnusualAlert_Enablement_MarshalJSON, DeviceFeatures_UnusualAlert_Enablement_UnmarshalJSON),
      (''DeviceFeatures_UnusualAlert_Learning'', DeviceFeatures_UnusualAlert_Learning_model, DeviceFeatures_UnusualAlert_Learning_MarshalJSON, DeviceFeatures_UnusualAlert_Learning_UnmarshalJSON),
      (''DeviceFeatures_UnusualAlert'', DeviceFeatures_UnusualAlert_model, DeviceFeatures_UnusualAlert_MarshalJSON, DeviceFeatures_UnusualAlert_UnmarshalJSON),
      (''DeviceFeatures_VideoDonation_Eligibility'', DeviceFeatures_VideoDonation_Eligibility_model, DeviceFeatures_VideoDonation_Eligibility_MarshalJSON, DeviceFeatures_VideoDonation_Eligibility_UnmarshalJSON),
      (''DeviceFeatures_VideoDonation'', DeviceFeatures_VideoDonation_model, DeviceFeatures_VideoDonation_MarshalJSON, DeviceFeatures_VideoDonation_UnmarshalJSON),
      (''DeviceFeatures_VideoRecording_RecordingModeAvailability_Continuous'', DeviceFeatures_VideoRecording_RecordingModeAvailability_Continuous_model, DeviceFeatures_VideoRecording_RecordingModeAvailability_Continuous_MarshalJSON, DeviceFeatures_VideoRecording_RecordingModeAvailability_Continuous_UnmarshalJSON),
      (''DeviceFeatures_VideoRecording_RecordingModeAvailability'', DeviceFeatures_VideoRecording_RecordingModeAvailability_model, DeviceFeatures_VideoRecording_RecordingModeAvailability_MarshalJSON, DeviceFeatures_VideoRecording_RecordingModeAvailability_UnmarshalJSON),
      (''DeviceFeatures_VideoRecording'', DeviceFeatures_VideoRecording_model, DeviceFeatures_VideoRecording_MarshalJSON, DeviceFeatures_VideoRecording_UnmarshalJSON),
      (''DeviceHealth'', DeviceHealth_model, DeviceHealth_MarshalJSON, DeviceHealth_UnmarshalJSON),
      (''DeviceOwner_Id'', DeviceOwner_Id_model, DeviceOwner_Id_MarshalJSON, DeviceOwner_Id_UnmarshalJSON),
      (''FeatureEligibility'', FeatureEligibility_model, FeatureEligibility_MarshalJSON, FeatureEligibility_UnmarshalJSON),
      (''FeatureEnablement'', FeatureEnablement_model, FeatureEnablement_MarshalJSON, FeatureEnablement_UnmarshalJSON),
      (''LegacyDeviceHealth'', LegacyDeviceHealth_model, LegacyDeviceHealth_MarshalJSON, LegacyDeviceHealth_UnmarshalJSON),
      (''GeoCoordinates'', GeoCoordinates_model, GeoCoordinates_MarshalJSON, GeoCoordinates_UnmarshalJSON),
      (''LocationAddress'', LocationAddress_model, LocationAddress_MarshalJSON, LocationAddress_UnmarshalJSON),
      (''LocationAttributes'', LocationAttributes_model, LocationAttributes_MarshalJSON, LocationAttributes_UnmarshalJSON),
      (''LocationGroup'', LocationGroup_model, LocationGroup_MarshalJSON, LocationGroup_UnmarshalJSON),
      (''LocationGroupDevices'', LocationGroupDevices_model, LocationGroupDevices_MarshalJSON, LocationGroupDevices_UnmarshalJSON),
      (''LocationGroups'', LocationGroups_model, LocationGroups_MarshalJSON, LocationGroups_UnmarshalJSON),
      (''LocationMeta'', LocationMeta_model, LocationMeta_MarshalJSON, LocationMeta_UnmarshalJSON),
      (''LocationResource'', LocationResource_model, LocationResource_MarshalJSON, LocationResource_UnmarshalJSON),
      (''LocationSummary'', LocationSummary_model, LocationSummary_MarshalJSON, LocationSummary_UnmarshalJSON),
      (''DeviceSettings'', DeviceSettings_model, DeviceSettings_MarshalJSON, DeviceSettings_UnmarshalJSON),
      (''DeviceOwner'', DeviceOwner_model, DeviceOwner_MarshalJSON, DeviceOwner_UnmarshalJSON),
      (''FeatureAvailability'', FeatureAvailability_model, FeatureAvailability_MarshalJSON, FeatureAvailability_UnmarshalJSON),
      (''LocationDetail'', LocationDetail_model, LocationDetail_MarshalJSON, LocationDetail_UnmarshalJSON),
      (''LocationList'', LocationList_model, LocationList_MarshalJSON, LocationList_UnmarshalJSON),
      (''DeviceFeatures'', DeviceFeatures_model, DeviceFeatures_MarshalJSON, DeviceFeatures_UnmarshalJSON),
      (''Device'', Device_model, Device_MarshalJSON, Device_UnmarshalJSON),
      (''DeviceDetail'', DeviceDetail_model, DeviceDetail_MarshalJSON, DeviceDetail_UnmarshalJSON),
      (''DeviceList'', DeviceList_model, DeviceList_MarshalJSON, DeviceList_UnmarshalJSON)]"

lemmas RestDevices_codec_defs =
  ChimeSettings_MarshalJSON_def ChimeSettings_UnmarshalJSON_def
  MotionSettings_MarshalJSON_def MotionSettings_UnmarshalJSON_def
  MotionSettingsPatch_MarshalJSON_def MotionSettingsPatch_UnmarshalJSON_def
  VolumeSettings_MarshalJSON_def VolumeSettings_UnmarshalJSON_def
  Device_Alerts_MarshalJSON_def Device_Alerts_UnmarshalJSON_def
  Device_BatteryLife_MarshalJSON_def Device_BatteryLife_UnmarshalJSON_def
  Device_BatteryLife2_MarshalJSON_def Device_BatteryLife2_UnmarshalJSON_def
  Device_EncryptionGroup_MarshalJSON_def Device_EncryptionGroup_UnmarshalJSON_def
  Device_MotionSnooze_MarshalJSON_def Device_MotionSnooze_UnmarshalJSON_def
  Device_SirenStatus_MarshalJSON_def Device_SirenStatus_UnmarshalJSON_def
  DeviceFeatures_AiAutomatedWarnings_Eligibility_MarshalJSON_def DeviceFeatures_AiAutomatedWarnings_Eligibility_UnmarshalJSON_def
  DeviceFeatures_AiAutomatedWarnings_Enablement_MarshalJSON_def DeviceFeatures_AiAutomatedWarnings_Enablement_UnmarshalJSON_def
  DeviceFeatures_AiAutomatedWarnings_MarshalJSON_def DeviceFeatures_AiAutomatedWarnings_UnmarshalJSON_def
  DeviceFeatures_AiLabsDailyClip_Eligibility_MarshalJSON_def DeviceFeatures_AiLabsDailyClip_Eligibility_UnmarshalJSON_def
  DeviceFeatures_AiLabsDailyClip_Enablement_MarshalJSON_def DeviceFeatures_AiLabsDailyClip_Enablement_UnmarshalJSON_def
  DeviceFeatures_AiLabsDailyClip_MarshalJSON_def DeviceFeatures_AiLabsDailyClip_UnmarshalJSON_def
  DeviceFeatures_AiLabsMemorableMoments_Eligibility_MarshalJSON_def DeviceFeatures_AiLabsMemorableMoments_Eligibility_UnmarshalJSON_def
  DeviceFeatures_AiLabsMemorableMoments_Enablement_MarshalJSON_def DeviceFeatures_AiLabsMemorableMoments_Enablement_UnmarshalJSON_def
  DeviceFeatures_AiLabsMemorableMoments_MarshalJSON_def DeviceFeatures_AiLabsMemorableMoments_UnmarshalJSON_def
  DeviceFeatures_ChimeSettings_MarshalJSON_def DeviceFeatures_ChimeSettings_UnmarshalJSON_def
  DeviceFeatures_LiveViewAudioPrivacyControls_Eligibility_MarshalJSON_def DeviceFeatures_LiveViewAudioPrivacyControls_Eligibility_UnmarshalJSON_def
  DeviceFeatures_LiveViewAudioPrivacyControls_MarshalJSON_def DeviceFeatures_LiveViewAudioPrivacyControls_UnmarshalJSON_def
  DeviceFeatures_NetworkBackup_Eligibility_MarshalJSON_def DeviceFeatures_NetworkBackup_Eligibility_UnmarshalJSON_def
  DeviceFeatures_NetworkBackup_Enablement_MarshalJSON_def DeviceFeatures_NetworkBackup_Enablement_UnmarshalJSON_def
  DeviceFeatures_NetworkBackup_MarshalJSON_def DeviceFeatures_NetworkBackup_UnmarshalJSON_def
  DeviceFeatures_NetworkBackupHost_Eligibility_MarshalJSON_def DeviceFeatures_NetworkBackupHost_Eligibility_UnmarshalJSON_def
  DeviceFeatures_NetworkBackupHost_MarshalJSON_def DeviceFeatures_NetworkBackupHost_UnmarshalJSON_def
  DeviceFeatures_OriginalVideoQualityDownloadOffer_MarshalJSON_def DeviceFeatures_OriginalVideoQualityDownloadOffer_UnmarshalJSON_def
  DeviceFeatures_PersonIdentification_Eligibility_MarshalJSON_def DeviceFeatures_PersonIdentification_Eligibility_UnmarshalJSON_def
  DeviceFeatures_PersonIdentification_Enablement_MarshalJSON_def DeviceFeatures_PersonIdentification_Enablement_UnmarshalJSON_def
  DeviceFeatures_PersonIdentification_MarshalJSON_def DeviceFeatures_PersonIdentification_UnmarshalJSON_def
  DeviceFeatures_PropertyView_Enablement_MarshalJSON_def DeviceFeatures_PropertyView_Enablement_UnmarshalJSON_def
  DeviceFeatures_PropertyView_MarshalJSON_def DeviceFeatures_PropertyView_UnmarshalJSON_def
  DeviceFeatures_RetinalTuning_Eligibility_MarshalJSON_def DeviceFeatures_RetinalTuning_Eligibility_UnmarshalJSON_def
  DeviceFeatures_RetinalTuning_Enablement_MarshalJSON_def DeviceFeatures_RetinalTuning_Enablement_UnmarshalJSON_def
  DeviceFeatures_RetinalTuning_MarshalJSON_def DeviceFeatures_RetinalTuning_UnmarshalJSON_def
  DeviceFeatures_SingleAlert_Eligibility_MarshalJSON_def DeviceFeatures_SingleAlert_Eligibility_UnmarshalJSON_def
  DeviceFeatures_SingleAlert_Enablement_MarshalJSON_def DeviceFeatures_SingleAlert_Enablement_UnmarshalJSON_def
  DeviceFeatures_SingleAlert_MarshalJSON_def DeviceFeatures_SingleAlert_UnmarshalJSON_def
  DeviceFeatures_SmartVideoDescription_Eligibility_MarshalJSON_def DeviceFeatures_SmartVideoDescription_Eligibility_UnmarshalJSON_def
  DeviceFeatures_SmartVideoDescription_Enablement_MarshalJSON_def DeviceFeatures_SmartVideoDescription_Enablement_UnmarshalJSON_def
  DeviceFeatures_SmartVideoDescription_MarshalJSON_def DeviceFeatures_SmartVideoDescription_UnmarshalJSON_def
  DeviceFeatures_SmartVideoSearch_Eligibility_MarshalJSON_def DeviceFeatures_SmartVideoSearch_Eligibility_UnmarshalJSON_def
  DeviceFeatures_SmartVideoSearch_Enablement_MarshalJSON_def DeviceFeatures_SmartVideoSearch_Enablement_UnmarshalJSON_def
  DeviceFeatures_SmartVideoSearch_MarshalJSON_def DeviceFeatures_SmartVideoSearch_UnmarshalJSON_def
  DeviceFeatures_UnusualAlert_Eligibility_MarshalJSON_def DeviceFeatures_UnusualAlert_Eligibility_UnmarshalJSON_def
  DeviceFeatures_UnusualAlert_Enablement_MarshalJSON_def DeviceFeatures_UnusualAlert_Enablement_UnmarshalJSON_def
  DeviceFeatures_UnusualAlert_Learning_MarshalJSON_def DeviceFeatures_UnusualAlert_Learning_UnmarshalJSON_def
  DeviceFeatures_UnusualAlert_MarshalJSON_def DeviceFeatures_UnusualAlert_UnmarshalJSON_def
  DeviceFeatures_VideoDonation_Eligibility_MarshalJSON_def DeviceFeatures_VideoDonation_Eligibility_UnmarshalJSON_def
  DeviceFeatures_VideoDonation_MarshalJSON_def DeviceFeatures_VideoDonation_UnmarshalJSON_def
  DeviceFeatures_VideoRecording_RecordingModeAvailability_Continuous_MarshalJSON_def DeviceFeatures_VideoRecording_RecordingModeAvailability_Continuous_UnmarshalJSON_def
  DeviceFeatures_VideoRecording_RecordingModeAvailability_MarshalJSON_def DeviceFeatures_VideoRecording_RecordingModeAvailability_UnmarshalJSON_def
  DeviceFeatures_VideoRecording_MarshalJSON_def DeviceFeatures_VideoRecording_UnmarshalJSON_def
  DeviceHealth_MarshalJSON_def DeviceHealth_UnmarshalJSON_def
  DeviceOwner_Id_MarshalJSON_def DeviceOwner_Id_UnmarshalJSON_def
  FeatureEligibility_MarshalJSON_def FeatureEligibility_UnmarshalJSON_def
  FeatureEnablement_MarshalJSON_def FeatureEnablement_UnmarshalJSON_def
  LegacyDeviceHealth_MarshalJSON_def LegacyDeviceHealth_UnmarshalJSON_def
  GeoCoordinates_MarshalJSON_def GeoCoordinates_UnmarshalJSON_def
  LocationAddress_MarshalJSON_def LocationAddress_UnmarshalJSON_def
  LocationAttributes_MarshalJSON_def LocationAttributes_UnmarshalJSON_def
  LocationGroup_MarshalJSON_def LocationGroup_UnmarshalJSON_def
  LocationGroupDevices_MarshalJSON_def LocationGroupDevices_UnmarshalJSON_def
  LocationGroups_MarshalJSON_def LocationGroups_UnmarshalJSON_def
  LocationMeta_MarshalJSON_def LocationMeta_UnmarshalJSON_def
  LocationResource_MarshalJSON_def LocationResource_UnmarshalJSON_def
  LocationSummary_MarshalJSON_def LocationSummary_UnmarshalJSON_def
  DeviceSettings_MarshalJSON_def DeviceSettings_UnmarshalJSON_def
  DeviceOwner_MarshalJSON_def DeviceOwner_UnmarshalJSON_def
  FeatureAvailability_MarshalJSON_def FeatureAvailability_UnmarshalJSON_def
  LocationDetail_MarshalJSON_def LocationDetail_UnmarshalJSON_def
  LocationList_MarshalJSON_def LocationList_UnmarshalJSON_def
  DeviceFeatures_MarshalJSON_def DeviceFeatures_UnmarshalJSON_def
  Device_MarshalJSON_def Device_UnmarshalJSON_def
  DeviceDetail_MarshalJSON_def DeviceDetail_UnmarshalJSON_def
  DeviceList_MarshalJSON_def DeviceList_UnmarshalJSON_def

lemma RestDevices_sound: "list_all rest_codec_ok RestDevices_codecs"
  by (simp add: RestDevices_codecs_def RestDevices_codec_defs rest_codec_ok_def rest_wf_models)

end
