(* ===== verification/RestTables.thy ===== *)
theory RestTables
  imports RestAccount RestDevices
begin

text \<open>
  All generated REST models and the property they share.
\<close>

definition rest_codecs :: "rest_codec list" where
  "rest_codecs = RestAccount_codecs @ RestCameras_codecs @ RestDevices_codecs"

lemma rest_codecs_sound: "codec \<in> set rest_codecs \<Longrightarrow> rest_codec_ok codec"
  using RestAccount_sound RestCameras_sound RestDevices_sound
  by (auto simp: rest_codecs_def list_all_iff)

section \<open>Properties\<close>


definition sample_sign_in :: rest_value where
  "sample_sign_in =
     RVStruct [RVPtr (Some (RV (VInt 30))), RVPtr None] (Some [(''phone'', JStr ''xx12''), (''retry'', JBool True)])"


end
