(* ===== verification/Endpoints.thy ===== *)
theory Endpoints
  imports GoErrors GoUrl Protocol RestAccount
begin

text \<open>
  Where the client connects to: the regional profiles of \<open>internal/protocol/profiles.go\<close>, the options of
  \<open>pkg/ring/client_options.go\<close> and \<open>pkg/dependencies/rest/client.go\<close> and how \<open>applyEndpointConfiguration\<close>
  combines them (\<open>pkg/ring/endpoints.go\<close>), the checks of WebSocket URLs (\<open>internal/protocol/websocket.go\<close>,
  \<open>pkg/dependencies/websocket\<close>), and the URL and the ticket of a signaling connection
  (\<open>pkg/ring/client_session.go\<close>).

  An option is a constructor of \<open>client_option\<close>; \<open>apply_option\<close> is its \<open>apply\<close> method. A transport and a
  dialer of the caller are numbers: the code only stores them. The outcome of dialing is an argument.
\<close>

section \<open>Constants\<close>

abbreviation APIBaseURL :: string where "APIBaseURL \<equiv> ''https://api.ring.com''"
abbreviation OAuthBaseURL :: string where "OAuthBaseURL \<equiv> ''https://oauth.ring.com''"
abbreviation USSolutionsBaseURL :: string where
  "USSolutionsBaseURL \<equiv> ''https://prd-api-us.prd.rings.solutions''"
abbreviation SignalingURL :: string where
  "SignalingURL \<equiv> ''wss://api.prod.signalling.ring.devices.a2z.com:443/ws?api_version=4.0&auth_type=ring_solutions&client_id=ring_site-{client_id}&token={token}''"
abbreviation ExperimentalEventWebSocketURL :: string where
  "ExperimentalEventWebSocketURL \<equiv> ''wss://api.ring.com/clients_api/ws''"
abbreviation DefaultUserAgent :: string where "DefaultUserAgent \<equiv> ''android:com.ringapp''"
abbreviation SignalingChannel :: string where "SignalingChannel \<equiv> ''serverEnvelope''"
abbreviation AccountEventsChannel :: string where "AccountEventsChannel \<equiv> ''accountEvent''"

definition reasonSignalingEndpoint :: string where
  "reasonSignalingEndpoint = ''signaling URL differs from the AsyncAPI server and channel''"
definition reasonEventEndpoint :: string where
  "reasonEventEndpoint = ''account event URL differs from the AsyncAPI server and channel''"
definition reasonUnknownChannel :: string where
  "reasonUnknownChannel = ''unknown AsyncAPI WebSocket channel''"
definition reasonInvalidURL :: string where
  "reasonInvalidURL = ''WebSocket URL must have a ws or wss origin without userinfo or fragment''"
definition reasonUnexpectedQuery :: string where
  "reasonUnexpectedQuery = ''signaling URL has unexpected query parameters''"
definition reasonMissingQueryValue :: string where
  "reasonMissingQueryValue = ''signaling URL requires one value per query key''"
definition reasonSignalingQuery :: string where
  "reasonSignalingQuery = ''signaling URL query differs from the AsyncAPI binding''"

section \<open>WebSocket URLs\<close>

definition parse_error :: "string \<Rightarrow> goerr" where
  "parse_error text = ExternalError text False"

definition parseWebSocketURL :: "string \<Rightarrow> goerr + url" where
  "parseWebSocketURL raw =
     (case url_parse raw of
        Inl e \<Rightarrow> Inl (WebSocketURLError reasonInvalidURL (Some (parse_error e)))
      | Inr u \<Rightarrow>
          if u_Host u = [] \<or> u_User u \<noteq> None \<or> u_Fragment u \<noteq> [] \<or> u_Opaque u \<noteq> []
             \<or> (u_Scheme u \<noteq> ''ws'' \<and> u_Scheme u \<noteq> ''wss'')
          then Inl (WebSocketURLError reasonInvalidURL None)
          else Inr u)"

definition webSocketPortMatches :: "string \<Rightarrow> string \<Rightarrow> bool" where
  "webSocketPortMatches actual expected \<longleftrightarrow> actual = [] \<or> actual = expected"

definition signalingQueryKeys :: "string list" where
  "signalingQueryKeys = [''api_version'', ''auth_type'', ''client_id'', ''token'']"

definition validateSignalingQuery :: "(string \<times> string) list \<Rightarrow> goerr option" where
  "validateSignalingQuery values =
     (let clientID = query_get values ''client_id'' in
      if length (remdups (map fst values)) \<noteq> length signalingQueryKeys
      then Some (WebSocketURLError reasonUnexpectedQuery None)
      else if \<not> list_all (\<lambda>name. length (query_values values name) = 1) signalingQueryKeys
      then Some (WebSocketURLError reasonMissingQueryValue None)
      else if query_get values ''api_version'' \<noteq> ''4.0'' \<or> query_get values ''auth_type'' \<noteq> ''ring_solutions''
              \<or> \<not> has_prefix clientID ''ring_site-'' \<or> length clientID \<le> length ''ring_site-''
              \<or> query_get values ''token'' = []
      then Some (WebSocketURLError reasonSignalingQuery None)
      else None)"

definition ValidateWebSocketURL :: "string \<Rightarrow> string \<Rightarrow> goerr option" where
  "ValidateWebSocketURL channel raw =
     (case parseWebSocketURL raw of
        Inl e \<Rightarrow> Some e
      | Inr parsed \<Rightarrow>
          if channel = SignalingChannel then
            (if u_Scheme parsed \<noteq> ''wss'' \<or> Hostname parsed \<noteq> ''api.prod.signalling.ring.devices.a2z.com''
                \<or> \<not> webSocketPortMatches (Port parsed) ''443'' \<or> EscapedPath parsed \<noteq> ''/ws''
             then Some (WebSocketURLError reasonSignalingEndpoint None)
             else validateSignalingQuery (Query parsed))
          else if channel = AccountEventsChannel then
            (if u_Scheme parsed \<noteq> ''wss'' \<or> Hostname parsed \<noteq> ''api.ring.com''
                \<or> \<not> webSocketPortMatches (Port parsed) ''443'' \<or> EscapedPath parsed \<noteq> ''/clients_api/ws''
                \<or> u_RawQuery parsed \<noteq> []
             then Some (WebSocketURLError reasonEventEndpoint None) else None)
          else Some (WebSocketURLError reasonUnknownChannel None))"

definition ValidateWebSocketOverride :: "string \<Rightarrow> goerr option" where
  "ValidateWebSocketOverride raw = (case parseWebSocketURL raw of Inl e \<Rightarrow> Some e | Inr _ \<Rightarrow> None)"

definition equal_fold :: "string \<Rightarrow> string \<Rightarrow> bool" where
  "equal_fold a b \<longleftrightarrow> fold_name a = fold_name b"

lemma equal_fold_refl [simp]: "equal_fold a a"
  by (simp add: equal_fold_def)

definition validateSignalingDialURL :: "string \<Rightarrow> goerr option" where
  "validateSignalingDialURL wsURL =
     (case url_parse wsURL of
        Inl e \<Rightarrow> Some (NewBadRequestError ''parse signaling WebSocket URL'' (Some (parse_error e)))
      | Inr parsed \<Rightarrow>
          if equal_fold (u_Scheme parsed) ''wss''
             \<and> equal_fold (Hostname parsed) ''api.prod.signalling.ring.devices.a2z.com''
             \<and> (Port parsed = [] \<or> Port parsed = ''443'') \<and> EscapedPath parsed = ''/ws''
          then map_option (\<lambda>e. NewBadRequestError ''validate modeled signaling WebSocket URL'' (Some e))
                 (ValidateWebSocketURL SignalingChannel wsURL)
          else map_option (\<lambda>e. NewBadRequestError ''validate signaling WebSocket override'' (Some e))
                 (ValidateWebSocketOverride wsURL))"

text \<open>
  \<open>DialSignaling\<close> and \<open>OpenEventsWithDialer\<close> up to the connection: the dialer answers a URL with an error or
  a connection; a custom dialer may also return no connection and no error.
\<close>

definition DialSignaling :: "(string \<Rightarrow> goerr + 'c option) \<Rightarrow> string \<Rightarrow> goerr + 'c" where
  "DialSignaling dial wsURL =
     (case validateSignalingDialURL wsURL of
        Some e \<Rightarrow> Inl (NewBadRequestError ''invalid signaling WebSocket URL'' (Some e))
      | None \<Rightarrow>
          (case dial wsURL of
             Inl e \<Rightarrow> Inl (NewNetworkError ''signaling websocket dial failed'' (Some e))
           | Inr None \<Rightarrow> Inl (NewConnectionError ''signaling dialer returned an empty connection'' None)
           | Inr (Some conn) \<Rightarrow> Inr conn))"

definition OpenEventsWithDialer :: "(string \<Rightarrow> goerr + 'c) \<Rightarrow> string \<Rightarrow> goerr + 'c" where
  "OpenEventsWithDialer dial wsURL =
     (let validationErr =
        (case url_parse wsURL of
           Inr parsed \<Rightarrow> if Hostname parsed = ''api.ring.com''
                        then ValidateWebSocketURL AccountEventsChannel wsURL
                        else ValidateWebSocketOverride wsURL
         | Inl _ \<Rightarrow> ValidateWebSocketOverride wsURL)
      in case validationErr of
           Some e \<Rightarrow> Inl (NewBadRequestError ''invalid account event WebSocket URL'' (Some e))
         | None \<Rightarrow>
             (case dial wsURL of
                Inl e \<Rightarrow> Inl (NewNetworkError ''event websocket dial failed'' (Some e))
              | Inr conn \<Rightarrow> Inr conn))"

section \<open>Profiles and endpoint checks\<close>

record endpoint_set =
  ep_OAuthBaseURL :: string
  ep_APIBaseURL :: string
  ep_SolutionsBaseURL :: string
  ep_SignalingURL :: string

definition Profile :: "string \<Rightarrow> endpoint_set" where
  "Profile region =
     \<lparr>ep_OAuthBaseURL = OAuthBaseURL, ep_APIBaseURL = APIBaseURL,
      ep_SolutionsBaseURL = (if region = ''US'' then USSolutionsBaseURL else []),
      ep_SignalingURL = SignalingURL\<rparr>"

definition validateEndpointURL :: "string \<Rightarrow> string \<Rightarrow> string list \<Rightarrow> bool \<Rightarrow> goerr option" where
  "validateEndpointURL name raw schemes queryOK =
     (let bad = (\<lambda>e. Some (NewBadRequestError (''invalid '' @ name @ '' URL '' @ go_quote raw) e)) in
      case url_parse raw of
        Inl e \<Rightarrow> bad (Some (parse_error e))
      | Inr u \<Rightarrow>
          if u_Host u = [] \<or> u_User u \<noteq> None \<or> (\<not> queryOK \<and> u_RawQuery u \<noteq> []) \<or> u_Fragment u \<noteq> []
             \<or> u_Opaque u \<noteq> [] \<or> u_Scheme u \<notin> set schemes
          then bad None else None)"

text \<open>\<open>validateEndpoints\<close>: empty endpoints are skipped, the first error is returned.\<close>

definition endpoint_checks :: "endpoint_set \<Rightarrow> (string \<times> string \<times> string list \<times> bool) list" where
  "endpoint_checks e =
     [(''OAuthBaseURL'', ep_OAuthBaseURL e, [''http'', ''https''], False),
      (''APIBaseURL'', ep_APIBaseURL e, [''http'', ''https''], False),
      (''SolutionsBaseURL'', ep_SolutionsBaseURL e, [''http'', ''https''], False),
      (''SignalingURL'', ep_SignalingURL e, [''ws'', ''wss''], True)]"

fun first_error :: "goerr option list \<Rightarrow> goerr option" where
  "first_error [] = None"
| "first_error (None # es) = first_error es"
| "first_error (Some e # es) = Some e"

definition validateEndpoints :: "endpoint_set \<Rightarrow> goerr option" where
  "validateEndpoints e =
     first_error (map (\<lambda>(name, raw, schemes, queryOK).
       if raw = [] then None else validateEndpointURL name raw schemes queryOK) (endpoint_checks e))"

definition validateEventWebSocketURL :: "string \<Rightarrow> goerr option" where
  "validateEventWebSocketURL raw = validateEndpointURL ''EventWebSocketURL'' raw [''ws'', ''wss''] True"

section \<open>The REST client's configuration\<close>

datatype transport = CallerTransport nat | DefaultTransport | ConfigurationErrorTransport string

record http_client =
  hc_Transport :: transport
  hc_Jar :: bool

text \<open>The configuration of \<open>rest.Client\<close>; its login state is in theory Login.\<close>

record rest_config =
  rc_httpClient :: http_client
  rc_configurationErr :: "string option"
  rc_baseURI :: string
  rc_oauthBaseURI :: string
  rc_userAgent :: string
  rc_hardwareID :: string

definition rest_NewClient :: rest_config where
  "rest_NewClient =
     \<lparr>rc_httpClient = \<lparr>hc_Transport = DefaultTransport, hc_Jar = False\<rparr>, rc_configurationErr = None,
      rc_baseURI = APIBaseURL, rc_oauthBaseURI = OAuthBaseURL, rc_userAgent = DefaultUserAgent,
      rc_hardwareID = []\<rparr>"

definition rest_WithHTTPClient :: "http_client option \<Rightarrow> rest_config \<Rightarrow> rest_config" where
  "rest_WithHTTPClient hc c =
     (case hc of
        None \<Rightarrow> let reason = ''HTTP client must not be nil'' in
          c\<lparr>rc_httpClient := \<lparr>hc_Transport = ConfigurationErrorTransport reason, hc_Jar = False\<rparr>,
            rc_configurationErr := Some reason\<rparr>
      | Some h \<Rightarrow>
          if hc_Jar h then
            let reason = ''a reusable REST client cannot share an HTTP cookie jar across account requests'' in
            c\<lparr>rc_httpClient := h\<lparr>hc_Transport := ConfigurationErrorTransport reason\<rparr>,
              rc_configurationErr := Some reason\<rparr>
          else c\<lparr>rc_httpClient := h, rc_configurationErr := None\<rparr>)"

definition WithEndpointBases :: "string \<Rightarrow> string \<Rightarrow> rest_config \<Rightarrow> rest_config" where
  "WithEndpointBases apiBase oauthBase c = c\<lparr>rc_baseURI := apiBase, rc_oauthBaseURI := oauthBase\<rparr>"

definition rest_WithUserAgent :: "string \<Rightarrow> rest_config \<Rightarrow> rest_config" where
  "rest_WithUserAgent ua c = c\<lparr>rc_userAgent := ua\<rparr>"

definition WithHardwareID :: "string \<Rightarrow> rest_config \<Rightarrow> rest_config" where
  "WithHardwareID hid c = c\<lparr>rc_hardwareID := hid\<rparr>"

text \<open>
  \<open>generatedServerBase\<close>, and the request builders of the generated client, which resolve the operation's path
  relative to the server URL and build a request for the result, or return the text of the error.
\<close>

definition generatedServerBase :: "string \<Rightarrow> string" where
  "generatedServerBase base =
     (case url_parse base of
        Inl _ \<Rightarrow> base
      | Inr u \<Rightarrow>
          url_String (if u_Path u \<noteq> [] \<and> u_Path u \<noteq> ''/'' \<and> last (u_Path u) \<noteq> CHR ''/''
                      then u\<lparr>u_Path := u_Path u @ ''/'', u_RawPath := []\<rparr> else u))"

definition operation_url :: "string \<Rightarrow> string \<Rightarrow> string + string" where
  "operation_url server operationPath =
     (case url_parse server of
        Inl e \<Rightarrow> Inl e
      | Inr serverURL \<Rightarrow>
          (case url_parse (''.'' @ operationPath) of
             Inl e \<Rightarrow> Inl e
           | Inr ref \<Rightarrow>
               let target = url_String (ResolveReference serverURL ref) in
               case url_parse target of Inl e \<Rightarrow> Inl e | Inr _ \<Rightarrow> Inr target))"

section \<open>The client and its options\<close>

record client =
  cl_restClient :: rest_config
  cl_userAgent :: string
  cl_region :: string
  cl_endpointOverrides :: endpoint_set
  cl_endpoints :: endpoint_set
  cl_signalingWebSocketOverride :: string
  cl_websocketDialer :: "nat option"
  cl_signalingWebSocketURL :: string
  cl_eventWebSocketURL :: string

definition override_base :: "string \<Rightarrow> string \<Rightarrow> string" where
  "override_base override profile = (if override \<noteq> [] then trim_right override (CHR ''/'') else profile)"

definition applyEndpointConfiguration :: "client \<Rightarrow> client" where
  "applyEndpointConfiguration c =
     (let p = Profile (cl_region c);
          overrides = cl_endpointOverrides c;
          endpoints =
            \<lparr>ep_OAuthBaseURL = override_base (ep_OAuthBaseURL overrides) (ep_OAuthBaseURL p),
             ep_APIBaseURL = override_base (ep_APIBaseURL overrides) (ep_APIBaseURL p),
             ep_SolutionsBaseURL = override_base (ep_SolutionsBaseURL overrides) (ep_SolutionsBaseURL p),
             ep_SignalingURL =
               (if cl_signalingWebSocketOverride c \<noteq> [] then cl_signalingWebSocketOverride c
                else if ep_SignalingURL overrides \<noteq> [] then ep_SignalingURL overrides else ep_SignalingURL p)\<rparr>
      in c\<lparr>cl_endpoints := endpoints,
           cl_signalingWebSocketURL := ep_SignalingURL endpoints,
           cl_restClient := WithEndpointBases (ep_APIBaseURL endpoints) (ep_OAuthBaseURL endpoints) (cl_restClient c)\<rparr>)"

datatype client_option =
    WithRegion string
  | WithEndpoints endpoint_set
  | WithHTTPClient "http_client option"
  | WithUserAgent string
  | WithWebSocketDialer "nat option"
  | WithSignalingWebSocketURL string
  | WithEventWebSocketURL string

definition no_endpoints :: endpoint_set where
  "no_endpoints = \<lparr>ep_OAuthBaseURL = [], ep_APIBaseURL = [], ep_SolutionsBaseURL = [], ep_SignalingURL = []\<rparr>"

fun apply_option :: "client_option \<Rightarrow> client \<Rightarrow> goerr + client" where
  "apply_option (WithRegion region) c =
     (if region \<notin> {''US'', ''EU'', ''FE''}
      then Inl (NewBadRequestError (''unsupported region '' @ go_quote region) None)
      else Inr (applyEndpointConfiguration (c\<lparr>cl_region := region\<rparr>)))"
| "apply_option (WithEndpoints endpoints) c =
     (case validateEndpoints endpoints of
        Some e \<Rightarrow> Inl e
      | None \<Rightarrow> Inr (applyEndpointConfiguration (c\<lparr>cl_endpointOverrides := endpoints\<rparr>)))"
| "apply_option (WithHTTPClient hc) c =
     (case hc of
        None \<Rightarrow> Inl (NewBadRequestError ''HTTP client must not be nil'' None)
      | Some h \<Rightarrow>
          if hc_Jar h then Inl (NewBadRequestError ''shared HTTP client must not have a cookie jar'' None)
          else Inr (c\<lparr>cl_restClient := rest_WithHTTPClient (Some h) (cl_restClient c)\<rparr>))"
| "apply_option (WithUserAgent ua) c =
     Inr (c\<lparr>cl_userAgent := ua, cl_restClient := rest_WithUserAgent ua (cl_restClient c)\<rparr>)"
| "apply_option (WithWebSocketDialer d) c =
     (case d of
        None \<Rightarrow> Inl (NewBadRequestError ''WebSocket dialer must not be nil'' None)
      | Some _ \<Rightarrow> Inr (c\<lparr>cl_websocketDialer := d\<rparr>))"
| "apply_option (WithSignalingWebSocketURL w) c =
     (case validateEndpoints (no_endpoints\<lparr>ep_SignalingURL := w\<rparr>) of
        Some e \<Rightarrow> Inl e
      | None \<Rightarrow> Inr (c\<lparr>cl_signalingWebSocketURL := w, cl_signalingWebSocketOverride := w\<rparr>))"
| "apply_option (WithEventWebSocketURL w) c =
     (case validateEventWebSocketURL w of
        Some e \<Rightarrow> Inl e
      | None \<Rightarrow> Inr (c\<lparr>cl_eventWebSocketURL := w\<rparr>))"

definition default_client :: client where
  "default_client =
     applyEndpointConfiguration
       \<lparr>cl_restClient = rest_NewClient, cl_userAgent = DefaultUserAgent, cl_region = ''US'',
        cl_endpointOverrides = no_endpoints, cl_endpoints = no_endpoints,
        cl_signalingWebSocketOverride = [], cl_websocketDialer = None,
        cl_signalingWebSocketURL = [], cl_eventWebSocketURL = ExperimentalEventWebSocketURL\<rparr>"

fun apply_options :: "client_option list \<Rightarrow> client \<Rightarrow> goerr + client" where
  "apply_options [] c = Inr c"
| "apply_options (opt # opts) c =
     (case apply_option opt c of Inl e \<Rightarrow> Inl e | Inr c' \<Rightarrow> apply_options opts c')"

definition NewClient :: "client_option list \<Rightarrow> goerr + client" where
  "NewClient opts = apply_options opts default_client"

section \<open>Signaling tickets and URLs\<close>

abbreviation MaxTicketResponseBytes :: nat where "MaxTicketResponseBytes \<equiv> 1048576"

text \<open>
  The response of the ticket endpoint, from line 146 of \<open>requestSignalingTicket\<close> on: \<open>body\<close> is None when reading
  failed, \<open>doc\<close> is what the JSON decoder reads in the body.
\<close>

definition ticket_response :: "http_response \<Rightarrow> goerr + string \<Rightarrow> raw_message \<Rightarrow> goerr + string" where
  "ticket_response resp body doc =
     (case body of
        Inl e \<Rightarrow> Inl (NewNetworkError ''failed to read signaling ticket response'' (Some e))
      | Inr bytes \<Rightarrow>
          if length bytes > MaxTicketResponseBytes
          then Inl (NewInternalServerError ''signaling ticket response exceeds size limit'' None)
          else if resp_code resp < 200 \<or> resp_code resp \<ge> 300 then Inl (ClassifyHTTPError resp bytes)
          else
            (case unmarshal_model LegacySignalingTicket_model LegacySignalingTicket_UnmarshalJSON doc of
               (_, True) \<Rightarrow> Inl (NewInternalServerError ''invalid signaling ticket response'' (Some JSONError))
             | (v, False) \<Rightarrow>
                 (let ticket = rest_string LegacySignalingTicket_model ''ticket'' v in
                  if ticket = [] then Inl (NewConnectionError ''empty signaling ticket'' None) else Inr ticket)))"

text \<open>Lines 34-47 and 56-60 of \<open>OpenSignaling\<close>.\<close>

definition signaling_url :: "string \<Rightarrow> string \<Rightarrow> string \<Rightarrow> string" where
  "signaling_url template clientID ticket =
     replace_first (replace_first template ''{client_id}'' clientID) ''{token}'' (QueryEscape ticket)"

definition checked_signaling_url :: "string \<Rightarrow> string \<Rightarrow> string \<Rightarrow> goerr + string" where
  "checked_signaling_url template clientID ticket =
     (let wsURL = signaling_url template clientID ticket;
          err = (if template = SignalingURL then ValidateWebSocketURL SignalingChannel wsURL
                 else ValidateWebSocketOverride wsURL) in
      case err of
        Some e \<Rightarrow> Inl (NewBadRequestError ''invalid signaling WebSocket URL'' (Some e))
      | None \<Rightarrow> Inr wsURL)"

definition dial_signaling_socket :: "client \<Rightarrow> string \<Rightarrow> string \<Rightarrow> (string \<Rightarrow> goerr + 'c option) \<Rightarrow> goerr + 'c" where
  "dial_signaling_socket c clientID ticket dial =
     (case checked_signaling_url (cl_signalingWebSocketURL c) clientID ticket of
        Inl e \<Rightarrow> Inl e
      | Inr wsURL \<Rightarrow>
          (case DialSignaling dial wsURL of
             Inl _ \<Rightarrow> Inl (NewConnectionError ''failed to connect to signaling websocket'' None)
           | Inr conn \<Rightarrow> Inr conn))"

text \<open>Lines 22-41 of \<open>ConnectEvents\<close>.\<close>

definition connect_events_socket :: "client \<Rightarrow> (string \<Rightarrow> goerr + 'c) \<Rightarrow> goerr + 'c" where
  "connect_events_socket c dial =
     (let err = (if cl_eventWebSocketURL c = ExperimentalEventWebSocketURL
                 then ValidateWebSocketURL AccountEventsChannel (cl_eventWebSocketURL c)
                 else ValidateWebSocketOverride (cl_eventWebSocketURL c)) in
      case err of
        Some e \<Rightarrow> Inl (NewBadRequestError ''invalid account event WebSocket URL'' (Some e))
      | None \<Rightarrow>
          (case OpenEventsWithDialer dial (cl_eventWebSocketURL c) of
             Inl e \<Rightarrow> Inl (NewConnectionError ''failed to connect to event stream'' (Some e))
           | Inr conn \<Rightarrow> Inr conn))"

section \<open>The default signaling URL\<close>

text \<open>The characters of a UUID in its canonical text.\<close>

definition uuid_text :: "string \<Rightarrow> bool" where
  "uuid_text s \<longleftrightarrow> s \<noteq> [] \<and> list_all (\<lambda>c. is_alnum c \<or> c = CHR ''-'') s"

abbreviation signaling_base :: string where
  "signaling_base \<equiv> ''wss://api.prod.signalling.ring.devices.a2z.com:443/ws''"

definition signaling_query :: "string \<Rightarrow> string \<Rightarrow> string" where
  "signaling_query clientID ticket =
     ''api_version=4.0&auth_type=ring_solutions&client_id=ring_site-'' @ clientID @ ''&token='' @ QueryEscape ticket"

lemma uuid_text_not: "uuid_text s \<Longrightarrow> \<not> is_alnum c \<Longrightarrow> c \<noteq> CHR ''-'' \<Longrightarrow> c \<notin> set s"
  by (auto simp: uuid_text_def list_all_iff)

lemma not_alnum [simp]:
  "\<not> is_alnum (CHR ''{'')" "\<not> is_alnum (CHR ''&'')" "\<not> is_alnum (CHR ''='')" "\<not> is_alnum (CHR '';'')"
  "\<not> is_alnum (CHR ''#'')" "\<not> is_alnum (CHR ''?'')" "\<not> is_alnum (CHR ''%'')" "\<not> is_alnum (CHR ''+'')"
  by (simp_all add: is_alnum_def)

lemma signaling_url_default:
  assumes "uuid_text clientID"
  shows "signaling_url SignalingURL clientID ticket = signaling_base @ ''?'' @ signaling_query clientID ticket"
proof -
  have no: "CHR ''{'' \<notin> set clientID" using uuid_text_not [OF assms] by simp
  let ?p = "''wss://api.prod.signalling.ring.devices.a2z.com:443/ws?api_version=4.0&auth_type=ring_solutions&client_id=ring_site-''"
  have at: "cut_at ''{client_id}'' SignalingURL = Some (?p, ''{client_id}&token={token}'')" by code_simp
  have first: "replace_first SignalingURL ''{client_id}'' clientID = ?p @ clientID @ ''&token='' @ ''{token}''"
    unfolding replace_first_def at by simp
  have "CHR ''{'' \<notin> set (?p @ clientID @ ''&token='')" using no by simp
  note absent = cut_at_absent_append [OF this, of "''token}''" "''{token}''"]
  have at0: "cut_at ''{token}'' ''{token}'' = Some ([], ''{token}'')" by code_simp
  have token: "cut_at ''{token}'' (?p @ clientID @ ''&token='' @ ''{token}'') = Some (?p @ clientID @ ''&token='', ''{token}'')"
    using absent unfolding at0 by (simp del: cut_at.simps)
  have "replace_first (?p @ clientID @ ''&token='' @ ''{token}'') ''{token}'' (QueryEscape ticket)
      = (?p @ clientID @ ''&token='') @ QueryEscape ticket @ drop (length ''{token}'') ''{token}''"
    unfolding replace_first_def token by simp
  then show ?thesis unfolding signaling_url_def first by (simp add: signaling_query_def)
qed

definition signaling_parsed :: url where
  "signaling_parsed =
     empty_url\<lparr>u_Scheme := ''wss'', u_Host := ''api.prod.signalling.ring.devices.a2z.com:443'', u_Path := ''/ws''\<rparr>"

lemma signaling_base_parse: "url_parse signaling_base = Inr signaling_parsed"
  by code_simp

lemma signaling_query_plain:
  assumes "uuid_text clientID"
  shows "signaling_query clientID ticket \<noteq> []" "CHR ''?'' \<notin> set (signaling_query clientID ticket)"
    "CHR ''#'' \<notin> set (signaling_query clientID ticket)" "\<not> list_ex isControl (signaling_query clientID ticket)"
proof -
  have id: "\<not> list_ex isControl clientID"
    using assms query_char_plain by (auto simp: uuid_text_def list_all_iff list_ex_iff query_char_def)
  have tk: "\<not> list_ex isControl (QueryEscape ticket)"
    using QueryEscape_chars [of ticket] query_char_plain by (auto simp: list_all_iff list_ex_iff)
  show "signaling_query clientID ticket \<noteq> []" by (simp add: signaling_query_def)
  show "CHR ''?'' \<notin> set (signaling_query clientID ticket)" "CHR ''#'' \<notin> set (signaling_query clientID ticket)"
    using uuid_text_not [OF assms] by (simp_all add: signaling_query_def QueryEscape_not)
  show "\<not> list_ex isControl (signaling_query clientID ticket)"
    using id tk by (simp add: signaling_query_def isControl_def)
qed

lemma signaling_url_parse:
  assumes "uuid_text clientID"
  shows "url_parse (signaling_base @ ''?'' @ signaling_query clientID ticket)
     = Inr (signaling_parsed\<lparr>u_RawQuery := signaling_query clientID ticket\<rparr>)"
  by (rule url_parse_query [OF signaling_base_parse, of "''wss''"])
     (use signaling_query_plain [OF assms] in \<open>simp_all add: is_letter_def is_alnum_def is_digit_def\<close>)

lemma signaling_query_parse:
  assumes "uuid_text clientID"
  shows "parse_query (signaling_query clientID ticket)
     = [(''api_version'', ''4.0''), (''auth_type'', ''ring_solutions''), (''client_id'', ''ring_site-'' @ clientID),
        (''token'', ticket)]"
proof -
  let ?id = "''client_id=ring_site-'' @ clientID" and ?tk = "''token='' @ QueryEscape ticket"
  have no: "CHR ''&'' \<notin> set ?id" "CHR ''&'' \<notin> set ?tk"
    using uuid_text_not [OF assms] by (simp_all add: QueryEscape_not)
  have join: "signaling_query clientID ticket
      = join_with (CHR ''&'') [''api_version=4.0'', ''auth_type=ring_solutions'', ?id, ?tk]"
    by (simp add: signaling_query_def)
  have split: "split_on_acc (CHR ''&'') [] (signaling_query clientID ticket)
      = [''api_version=4.0'', ''auth_type=ring_solutions'', ?id, ?tk]"
    unfolding join by (rule split_on_join) (use no in auto)
  have plain: "unescape encodeQueryComponent (''ring_site-'' @ clientID) = Inr (''ring_site-'' @ clientID)"
    by (rule unescape_plain) (use assms in \<open>auto simp: uuid_text_def list_all_iff\<close>)
  have "CHR '';'' \<notin> set clientID" using uuid_text_not [OF assms] by simp
  then have id: "query_pair ?id = Some (''client_id'', ''ring_site-'' @ clientID)"
    using plain cut_append [of "CHR ''=''" "''client_id''" "''ring_site-'' @ clientID"]
    by (simp add: query_pair_def)
  have tk: "query_pair ?tk = Some (''token'', ticket)"
    using cut_append [of "CHR ''=''" "''token''" "QueryEscape ticket"] by (simp add: query_pair_def QueryEscape_not)
  have "query_pair ''api_version=4.0'' = Some (''api_version'', ''4.0'')"
    "query_pair ''auth_type=ring_solutions'' = Some (''auth_type'', ''ring_solutions'')" by code_simp+
  with id tk split show ?thesis by (simp add: parse_query_def List.map_filter_def)
qed

lemma signaling_parsed_parts:
  "u_Scheme signaling_parsed = ''wss''" "Hostname signaling_parsed = ''api.prod.signalling.ring.devices.a2z.com''"
  "Port signaling_parsed = ''443''" "EscapedPath signaling_parsed = ''/ws''" "u_User signaling_parsed = None"
  "u_Host signaling_parsed \<noteq> []" "u_Fragment signaling_parsed = []" "u_Opaque signaling_parsed = []"
  by code_simp+

lemma parts_RawQuery [simp]:
  "Hostname (u\<lparr>u_RawQuery := q\<rparr>) = Hostname u" "Port (u\<lparr>u_RawQuery := q\<rparr>) = Port u"
  "EscapedPath (u\<lparr>u_RawQuery := q\<rparr>) = EscapedPath u" "Query (u\<lparr>u_RawQuery := q\<rparr>) = parse_query q"
  by (simp_all add: Hostname_def Port_def EscapedPath_def Query_def)

lemma signaling_query_valid:
  assumes "clientID \<noteq> []" and "ticket \<noteq> []"
  shows "validateSignalingQuery
     [(''api_version'', ''4.0''), (''auth_type'', ''ring_solutions''), (''client_id'', ''ring_site-'' @ clientID),
      (''token'', ticket)] = None"
  using assms
  by (simp add: validateSignalingQuery_def query_get_def query_values_def signalingQueryKeys_def has_prefix_def)

lemma signaling_url_valid:
  assumes "uuid_text clientID" and "ticket \<noteq> []"
  shows "ValidateWebSocketURL SignalingChannel (signaling_base @ ''?'' @ signaling_query clientID ticket) = None"
proof -
  have "clientID \<noteq> []" using assms(1) by (simp add: uuid_text_def)
  then have query: "validateSignalingQuery (Query (signaling_parsed\<lparr>u_RawQuery := signaling_query clientID ticket\<rparr>)) = None"
    unfolding parts_RawQuery signaling_query_parse [OF assms(1)] by (rule signaling_query_valid [OF _ assms(2)])
  show ?thesis
    unfolding ValidateWebSocketURL_def parseWebSocketURL_def signaling_url_parse [OF assms(1)] sum.case
    by (simp add: signaling_parsed_parts webSocketPortMatches_def query del: parts_RawQuery(4))
qed

section \<open>Properties\<close>

text \<open>With the default endpoint, whatever bytes a non-empty signaling ticket holds and for every UUID as
  client id, the URL built for the connection passes the check of \<open>OpenSignaling\<close> and the one of
  \<open>DialSignaling\<close>, it parses, and its query carries exactly the ticket and the client id.\<close>

theorem default_signaling_url_accepted:
  assumes "uuid_text clientID" and "ticket \<noteq> []"
  shows "\<exists>wsURL parsed. checked_signaling_url SignalingURL clientID ticket = Inr wsURL
     \<and> validateSignalingDialURL wsURL = None \<and> url_parse wsURL = Inr parsed
     \<and> query_values (Query parsed) ''token'' = [ticket]
     \<and> query_values (Query parsed) ''client_id'' = [''ring_site-'' @ clientID]
     \<and> Hostname parsed = ''api.prod.signalling.ring.devices.a2z.com''"
proof -
  let ?u = "signaling_base @ ''?'' @ signaling_query clientID ticket"
  note parse = signaling_url_parse [OF assms(1)] and query = signaling_query_parse [OF assms(1)]
    and valid = signaling_url_valid [OF assms] and url = signaling_url_default [OF assms(1)]
  have "checked_signaling_url SignalingURL clientID ticket = Inr ?u"
    unfolding checked_signaling_url_def url Let_def valid by simp
  moreover have "validateSignalingDialURL ?u = None"
    unfolding validateSignalingDialURL_def parse sum.case
    by (simp only: parts_RawQuery signaling_parsed_parts valid) (simp add: signaling_parsed_parts)
  moreover have "query_values (parse_query (signaling_query clientID ticket)) ''token'' = [ticket]"
    "query_values (parse_query (signaling_query clientID ticket)) ''client_id'' = [''ring_site-'' @ clientID]"
    by (simp_all add: query query_values_def)
  ultimately show ?thesis using parse signaling_parsed_parts by auto
qed

theorem default_signaling_url_accepted_witness:
  "\<exists>wsURL parsed. checked_signaling_url SignalingURL ''0a1b-2c3d'' ''t&token=#?'' = Inr wsURL
     \<and> validateSignalingDialURL wsURL = None \<and> url_parse wsURL = Inr parsed
     \<and> query_values (Query parsed) ''token'' = [''t&token=#?'']
     \<and> query_values (Query parsed) ''client_id'' = [''ring_site-'' @ ''0a1b-2c3d'']
     \<and> Hostname parsed = ''api.prod.signalling.ring.devices.a2z.com''"
proof -
  have "uuid_text ''0a1b-2c3d''" by code_simp
  then show ?thesis by (rule default_signaling_url_accepted) simp
qed

section \<open>What the options amount to\<close>

text \<open>The endpoint a kind of override gives, and the overrides that a list of options ends with.\<close>

fun last_region :: "client_option list \<Rightarrow> string \<Rightarrow> string" where
  "last_region [] r = r"
| "last_region (WithRegion r' # opts) r = last_region opts r'"
| "last_region (_ # opts) r = last_region opts r"

fun last_endpoints :: "client_option list \<Rightarrow> endpoint_set \<Rightarrow> endpoint_set" where
  "last_endpoints [] e = e"
| "last_endpoints (WithEndpoints e' # opts) e = last_endpoints opts e'"
| "last_endpoints (_ # opts) e = last_endpoints opts e"

fun last_signaling :: "client_option list \<Rightarrow> string \<Rightarrow> string" where
  "last_signaling [] w = w"
| "last_signaling (WithSignalingWebSocketURL w' # opts) w = last_signaling opts w'"
| "last_signaling (_ # opts) w = last_signaling opts w"

fun last_event :: "client_option list \<Rightarrow> string \<Rightarrow> string" where
  "last_event [] w = w"
| "last_event (WithEventWebSocketURL w' # opts) w = last_event opts w'"
| "last_event (_ # opts) w = last_event opts w"

definition effective_signaling :: "string \<Rightarrow> endpoint_set \<Rightarrow> string" where
  "effective_signaling override e =
     (if override \<noteq> [] then override else if ep_SignalingURL e \<noteq> [] then ep_SignalingURL e else SignalingURL)"

text \<open>The endpoints of a client are those its region and overrides give.\<close>

definition configured :: "client \<Rightarrow> bool" where
  "configured c \<longleftrightarrow>
     (let e = cl_endpointOverrides c; p = Profile (cl_region c) in
      cl_signalingWebSocketURL c = effective_signaling (cl_signalingWebSocketOverride c) e
      \<and> rc_baseURI (cl_restClient c) = override_base (ep_APIBaseURL e) APIBaseURL
      \<and> rc_oauthBaseURI (cl_restClient c) = override_base (ep_OAuthBaseURL e) OAuthBaseURL
      \<and> ep_SolutionsBaseURL (cl_endpoints c) = override_base (ep_SolutionsBaseURL e) (ep_SolutionsBaseURL p))"

lemma configured_apply: "configured (applyEndpointConfiguration c)"
  by (simp add: configured_def applyEndpointConfiguration_def effective_signaling_def Let_def Profile_def
      WithEndpointBases_def)

lemma configured_updates:
  "configured c \<Longrightarrow> rc_baseURI r = rc_baseURI (cl_restClient c) \<Longrightarrow>
   rc_oauthBaseURI r = rc_oauthBaseURI (cl_restClient c) \<Longrightarrow> configured (c\<lparr>cl_restClient := r\<rparr>)"
  "configured (c\<lparr>cl_userAgent := ua\<rparr>) = configured c"
  "configured (c\<lparr>cl_websocketDialer := d\<rparr>) = configured c"
  "configured (c\<lparr>cl_eventWebSocketURL := w\<rparr>) = configured c"
  "configured c \<Longrightarrow> w \<noteq> [] \<Longrightarrow>
   configured (c\<lparr>cl_signalingWebSocketURL := w, cl_signalingWebSocketOverride := w\<rparr>)"
  by (simp_all add: configured_def effective_signaling_def Let_def)

lemma configured_option:
  assumes "configured c" and "apply_option opt c = Inr c'" and "opt \<noteq> WithSignalingWebSocketURL []"
  shows "configured c'"
proof (cases opt)
  case (WithHTTPClient hc)
  then show ?thesis
    using assms(1,2) configured_updates(1) [OF assms(1)]
    by (auto simp: rest_WithHTTPClient_def split: option.splits if_splits)
next
  case (WithUserAgent ua)
  have "configured (c\<lparr>cl_userAgent := ua\<rparr>)" using assms(1) by (simp add: configured_updates(2))
  from configured_updates(1) [OF this, of "rest_WithUserAgent ua (cl_restClient c)"] WithUserAgent assms(2)
  show ?thesis by (auto simp: rest_WithUserAgent_def)
qed (use assms configured_updates in \<open>auto simp: configured_apply split: option.splits if_splits\<close>)

lemma configured_options:
  "configured c \<Longrightarrow> apply_options opts c = Inr c' \<Longrightarrow> WithSignalingWebSocketURL [] \<notin> set opts \<Longrightarrow> configured c'"
  by (induction opts arbitrary: c) (auto split: sum.splits dest: configured_option)

lemma applyEndpointConfiguration_fields [simp]:
  "cl_region (applyEndpointConfiguration c) = cl_region c"
  "cl_endpointOverrides (applyEndpointConfiguration c) = cl_endpointOverrides c"
  "cl_signalingWebSocketOverride (applyEndpointConfiguration c) = cl_signalingWebSocketOverride c"
  "cl_eventWebSocketURL (applyEndpointConfiguration c) = cl_eventWebSocketURL c"
  by (simp_all add: applyEndpointConfiguration_def Let_def)

lemma apply_options_last:
  "apply_options opts c = Inr c' \<Longrightarrow>
     cl_region c' = last_region opts (cl_region c)
     \<and> cl_endpointOverrides c' = last_endpoints opts (cl_endpointOverrides c)
     \<and> cl_signalingWebSocketOverride c' = last_signaling opts (cl_signalingWebSocketOverride c)
     \<and> cl_eventWebSocketURL c' = last_event opts (cl_eventWebSocketURL c)"
proof (induction opts arbitrary: c)
  case (Cons opt opts)
  then show ?case by (cases opt) (fastforce split: if_splits option.splits sum.splits)+
qed simp

lemma default_client_fields:
  "configured default_client" "cl_region default_client = ''US''"
  "cl_endpointOverrides default_client = no_endpoints" "cl_signalingWebSocketOverride default_client = []"
  "cl_eventWebSocketURL default_client = ExperimentalEventWebSocketURL"
  by (simp_all add: default_client_def configured_apply)

text \<open>C26: the addresses of a client that \<open>NewClient\<close> returns depend only on the last option of each kind, in
  whatever order the kinds come: an explicit signaling URL wins over the endpoint overrides and these over
  the region's profile, the API and OAuth origins of the REST client are the overridden or default ones, and
  the Solutions origin that of the region unless overridden. The one exception, excluded here, is an empty
  signaling URL.\<close>

theorem NewClient_resolves_options:
  assumes "NewClient opts = Inr c" and "WithSignalingWebSocketURL [] \<notin> set opts"
  defines "e \<equiv> last_endpoints opts no_endpoints"
  shows "cl_signalingWebSocketURL c = effective_signaling (last_signaling opts []) e
     \<and> rc_baseURI (cl_restClient c) = override_base (ep_APIBaseURL e) APIBaseURL
     \<and> rc_oauthBaseURI (cl_restClient c) = override_base (ep_OAuthBaseURL e) OAuthBaseURL
     \<and> ep_SolutionsBaseURL (cl_endpoints c)
         = override_base (ep_SolutionsBaseURL e) (ep_SolutionsBaseURL (Profile (last_region opts ''US'')))
     \<and> cl_eventWebSocketURL c = last_event opts ExperimentalEventWebSocketURL"
  using configured_options [OF default_client_fields(1) assms(1) [unfolded NewClient_def] assms(2)]
    apply_options_last [OF assms(1) [unfolded NewClient_def]]
  unfolding default_client_fields configured_def Let_def e_def by simp

theorem NewClient_resolves_options_witness:
  "\<exists>c. NewClient [WithSignalingWebSocketURL ''wss://signal.test/ws'', WithRegion ''EU'',
           WithEndpoints (no_endpoints\<lparr>ep_OAuthBaseURL := ''https://login.test/'', ep_SignalingURL := ''ws://other.test''\<rparr>)] = Inr c
     \<and> cl_signalingWebSocketURL c = ''wss://signal.test/ws''
     \<and> rc_oauthBaseURI (cl_restClient c) = ''https://login.test''
     \<and> ep_SolutionsBaseURL (cl_endpoints c) = []"
proof -
  let ?opts = "[WithSignalingWebSocketURL ''wss://signal.test/ws'', WithRegion ''EU'',
           WithEndpoints (no_endpoints\<lparr>ep_OAuthBaseURL := ''https://login.test/'', ep_SignalingURL := ''ws://other.test''\<rparr>)]"
  have "isl (NewClient ?opts) = False" by code_simp
  then obtain c where c: "NewClient ?opts = Inr c" by (cases "NewClient ?opts") auto
  have n: "WithSignalingWebSocketURL [] \<notin> set ?opts" by simp
  from NewClient_resolves_options [OF c n] c show ?thesis
    by (simp add: effective_signaling_def override_base_def trim_right_def no_endpoints_def Profile_def)
qed

text \<open>Contrary to the documentation of \<open>WithSignalingWebSocketURL\<close>, which promises that it takes precedence
  regardless of option order, an empty URL is accepted and its effect depends on the order: before a region
  it leaves the default signaling URL, after it the client has no signaling URL at all, and every attempt
  to open a signaling connection is then rejected.\<close>

theorem empty_signaling_url_depends_on_order:
  "\<exists>c c'. NewClient [WithSignalingWebSocketURL [], WithRegion ''US''] = Inr c
      \<and> NewClient [WithRegion ''US'', WithSignalingWebSocketURL []] = Inr c'
      \<and> cl_signalingWebSocketURL c = SignalingURL \<and> cl_signalingWebSocketURL c' = []
      \<and> isl (checked_signaling_url (cl_signalingWebSocketURL c') clientID ticket)"
proof -
  have empty: "validateEndpoints (no_endpoints\<lparr>ep_SignalingURL := []\<rparr>) = None"
    by (simp add: validateEndpoints_def endpoint_checks_def no_endpoints_def)
  let ?c = "applyEndpointConfiguration (default_client\<lparr>cl_signalingWebSocketURL := [], cl_signalingWebSocketOverride := [], cl_region := ''US''\<rparr>)"
  let ?d = "(applyEndpointConfiguration (default_client\<lparr>cl_region := ''US''\<rparr>))
      \<lparr>cl_signalingWebSocketURL := [], cl_signalingWebSocketOverride := []\<rparr>"
  have "NewClient [WithSignalingWebSocketURL [], WithRegion ''US''] = Inr ?c"
    "NewClient [WithRegion ''US'', WithSignalingWebSocketURL []] = Inr ?d"
    by (simp_all add: NewClient_def empty)
  moreover have "cl_signalingWebSocketURL ?c = SignalingURL"
    by (simp add: applyEndpointConfiguration_def Let_def default_client_fields no_endpoints_def Profile_def)
  moreover have "cl_signalingWebSocketURL ?d = []" by simp
  moreover have "ValidateWebSocketOverride [] \<noteq> None" by code_simp
  then have "isl (checked_signaling_url [] clientID ticket)"
    by (auto simp: checked_signaling_url_def signaling_url_def replace_first_def Let_def)
  ultimately show ?thesis by metis
qed

end
