(* ===== verification/Login.thy ===== *)
theory Login
  imports Endpoints Steps RestAccount
begin

text \<open>
  Signing in: the OAuth authorization-code flow with PKCE of \<open>pkg/dependencies/rest/auth.go\<close> and
  \<open>auth_authorize.go\<close>, and the login sessions of \<open>pkg/ring/login_session.go\<close> and \<open>client_auth.go\<close>.

  The operations are state-passing functions. The state \<open>login_state\<close> holds the client's configuration, its
  pending challenge and the requests sent so far; the mutexes make an operation atomic. The other side is the
  record \<open>login_env\<close>: the server answers the list of all requests so far, with a transport error or a
  reply, so it may be any server, also a hostile one; the cookies a login's jar holds and the markup of the
  sign-in page are arguments too, and so are random bytes and SHA-256. A reply carries its body as text and
  as the JSON document the decoder reads in it. A request goes to its target with its form or query
  parameters; the percent encoding of the query by the generated client's runtime is not modelled.
\<close>

section \<open>Encodings\<close>

text \<open>\<open>base64.RawURLEncoding\<close> and \<open>hex.EncodeToString\<close>.\<close>

definition b64_char :: "nat \<Rightarrow> char" where
  "b64_char n = ''ABCDEFGHIJKLMNOPQRSTUVWXYZabcdefghijklmnopqrstuvwxyz0123456789-_'' ! (n mod 64)"

fun base64url :: "string \<Rightarrow> string" where
  "base64url [] = []"
| "base64url [a] = (let n = of_char a * 16 in [b64_char (n div 64), b64_char n])"
| "base64url [a, b] =
     (let n = (of_char a * 256 + of_char b) * 4 in [b64_char (n div 4096), b64_char (n div 64), b64_char n])"
| "base64url (a # b # c # s) =
     (let n = of_char a * 65536 + of_char b * 256 + of_char c in
      [b64_char (n div 262144), b64_char (n div 4096), b64_char (n div 64), b64_char n] @ base64url s)"

definition hex_string :: "string \<Rightarrow> string" where
  "hex_string s = concat (map (\<lambda>c. [hex_digit (of_char c div 16), hex_digit (of_char c mod 16)]) s)"

section \<open>Requests, replies and state\<close>

abbreviation RingClientID :: string where "RingClientID \<equiv> ''ring_official_android''"
abbreviation RingScope :: string where "RingScope \<equiv> ''client''"
abbreviation OAuthCallbackURL :: string where "OAuthCallbackURL \<equiv> ''https://ring.com/signin/callback''"
abbreviation OAuthTokenPath :: string where "OAuthTokenPath \<equiv> ''/oauth/token''"
abbreviation OAuthAuthorizePath :: string where "OAuthAuthorizePath \<equiv> ''/oauth/v2/authorize''"
abbreviation OAuthSigninPath :: string where "OAuthSigninPath \<equiv> ''/oauth/v2/signin''"
abbreviation OAuthVerifyPath :: string where "OAuthVerifyPath \<equiv> ''/oauth/v2/2fa/verify''"
abbreviation deviceModel :: string where "deviceModel \<equiv> ''go-ring''"
abbreviation maxCSRFSearchDepth :: nat where "maxCSRFSearchDepth \<equiv> 8"

text \<open>An authorization request with its query parameters, or a form posted with headers, by the login's own
  HTTP client (which keeps cookies and follows no redirects) or by the shared one.\<close>

datatype oauth_request =
    AuthorizeRequest string "(string \<times> string) list"
  | FormRequest bool string "(string \<times> string) list" "(string \<times> string) list"
    \<comment> \<open>by the login's client, target, form, headers\<close>

fun request_target :: "oauth_request \<Rightarrow> string" where
  "request_target (AuthorizeRequest t _) = t"
| "request_target (FormRequest _ t _ _) = t"

record oauth_reply =
  or_resp :: http_response
  or_location :: string
  or_body :: "goerr + string"
  or_json :: raw_message

record pkce_state =
  pk_verifier :: string
  pk_state :: string
  pk_csrfToken :: string
  pk_redirectURI :: string

record login_env =
  le_server :: "oauth_request list \<Rightarrow> goerr + oauth_reply"
  le_cookies :: "oauth_request list \<Rightarrow> string \<Rightarrow> (string \<times> string) list"
  le_pattern :: "nat \<Rightarrow> string \<Rightarrow> string option"
  le_script :: "string \<Rightarrow> string \<Rightarrow> raw_message option"
  le_order :: "(string \<times> json) list \<Rightarrow> (string \<times> json) list"
  le_random :: "oauth_request list \<Rightarrow> nat \<Rightarrow> goerr + string"
  le_sha256 :: "string \<Rightarrow> string"

record login_state =
  lg_config :: rest_config
  lg_pending :: "pkce_state option"
  lg_sent :: "oauth_request list"

type_synonym 'a login_step = "(login_state, 'a) step"

text \<open>One round trip; \<open>wrap\<close> is what the caller makes of a transport error.\<close>

definition exchange :: "login_env \<Rightarrow> (goerr \<Rightarrow> goerr) \<Rightarrow> oauth_request \<Rightarrow> oauth_reply login_step" where
  "exchange env wrap req w =
     (let w' = w\<lparr>lg_sent := lg_sent w @ [req]\<rparr> in
      case le_server env (lg_sent w') of Inl e \<Rightarrow> (Err (wrap e), w') | Inr r \<Rightarrow> (Ok r, w'))"

abbreviation status :: "oauth_reply \<Rightarrow> int" where
  "status r \<equiv> resp_code (or_resp r)"

section \<open>The authorization endpoint\<close>

definition oauthAuthorizeParameters :: "string list" where
  "oauthAuthorizeParameters =
     [''redirect_uri'', ''client_id'', ''response_type'', ''prompt'', ''state'', ''scope'', ''code_challenge'',
      ''code_challenge_method'', ''device_model'', ''app_version'', ''dark_mode'', ''device_brand'',
      ''device_os_version'', ''app_brand'', ''hardware_id'']"

definition oauthAuthorizeParameter :: "string \<Rightarrow> bool" where
  "oauthAuthorizeParameter name \<longleftrightarrow> name \<in> set oauthAuthorizeParameters"

definition parse_bool :: "string \<Rightarrow> bool option" where
  "parse_bool s =
     (if s \<in> {''1'', ''t'', ''T'', ''TRUE'', ''true'', ''True''} then Some True
      else if s \<in> {''0'', ''f'', ''F'', ''FALSE'', ''false'', ''False''} then Some False else None)"

text \<open>The parameter struct, as the values of its non-nil fields: \<open>dark_mode\<close> is read as a boolean.\<close>

definition authorize_param :: "(string \<times> string) list \<Rightarrow> string \<Rightarrow> (string \<times> string) option" where
  "authorize_param query name =
     (case query_values query name of
        [] \<Rightarrow> None
      | v # _ \<Rightarrow> Some (name, if name = ''dark_mode'' then (if parse_bool v = Some True then ''true'' else ''false'') else v))"

definition authorize_params :: "(string \<times> string) list \<Rightarrow> (string \<times> string) list" where
  "authorize_params query = List.map_filter (authorize_param query) oauthAuthorizeParameters"

text \<open>The request \<open>sendOAuthAuthorize\<close> builds for a URL, or its error.\<close>

definition bad_request :: "string \<Rightarrow> goerr + 'a" where
  "bad_request m = Inl (NewBadRequestError m None)"

definition authorize_request :: "string \<Rightarrow> string \<Rightarrow> goerr + oauth_request" where
  "authorize_request oauthBase currentURL =
     (case url_parse currentURL of
        Inl e \<Rightarrow> Inl (NewBadRequestError ''invalid OAuth authorization URL'' (Some (parse_error e)))
      | Inr candidate \<Rightarrow>
     (case url_parse oauthBase of
        Inl e \<Rightarrow> Inl (NewBadRequestError ''invalid OAuth origin'' (Some (parse_error e)))
      | Inr base \<Rightarrow>
          let expectedPath = trim_suffix (EscapedPath base) ''/'' @ OAuthAuthorizePath;
              query = Query candidate in
          if u_Scheme candidate \<noteq> u_Scheme base \<or> \<not> equal_fold (u_Host candidate) (u_Host base)
             \<or> EscapedPath candidate \<noteq> expectedPath \<or> u_Fragment candidate \<noteq> []
          then bad_request ''OAuth redirect is outside the authorization operation''
          else if list_ex (\<lambda>(k, v). length (query_values query k) \<noteq> 1 \<or> \<not> oauthAuthorizeParameter k) query
          then bad_request ''OAuth redirect has an unsupported query parameter''
          else if query_values query ''response_type'' \<notin> {[], [''code'']}
          then bad_request ''unsupported OAuth response type''
          else if query_values query ''code_challenge_method'' \<notin> {[], [''S256'']}
          then bad_request ''unsupported OAuth challenge method''
          else if list_ex (\<lambda>v. parse_bool v = None) (query_values query ''dark_mode'')
          then Inl (NewBadRequestError ''invalid OAuth dark mode''
                      (Some (parse_error (''strconv.ParseBool: parsing '' @ go_quote (query_get query ''dark_mode'') @ '': invalid syntax''))))
          else if query_values query ''device_model'' \<notin> {[], [deviceModel]}
          then bad_request ''unsupported OAuth device model''
          else
            (case operation_url (generatedServerBase oauthBase) OAuthAuthorizePath of
               Inl e \<Rightarrow> Inl (NewNetworkError ''failed to build OAuth authorization request'' (Some (parse_error e)))
             | Inr target \<Rightarrow> Inr (AuthorizeRequest target (authorize_params query)))))"

definition sendOAuthAuthorize :: "login_env \<Rightarrow> string \<Rightarrow> oauth_reply login_step" where
  "sendOAuthAuthorize env currentURL w =
     lbind (lift (or_fail (authorize_request (rc_oauthBaseURI (lg_config w)) currentURL)))
       (exchange env (\<lambda>e. NewNetworkError ''OAuth authorization request failed'' (Some e))) w"

definition resolveOAuthURL :: "string \<Rightarrow> string \<Rightarrow> goerr + string" where
  "resolveOAuthURL base location =
     (case url_parse base of
        Inl e \<Rightarrow> Inl (NewInternalServerError ''invalid OAuth base URL'' (Some (parse_error e)))
      | Inr baseURL \<Rightarrow>
          (case url_parse location of
             Inl e \<Rightarrow> Inl (NewBadRequestError ''invalid OAuth redirect URL'' (Some (parse_error e)))
           | Inr next_url \<Rightarrow> Inr (url_String (ResolveReference baseURL next_url))))"

section \<open>The CSRF token\<close>

definition csrf_name :: "string \<Rightarrow> string" where
  "csrf_name key = filter (\<lambda>c. c \<noteq> CHR ''-'' \<and> c \<noteq> CHR ''_'') (map lower_char key)"

text \<open>\<open>findCSRF\<close> goes through a decoded document; \<open>order\<close> is the order in which the members of a map are visited.\<close>

fun first_token :: "('a \<Rightarrow> string option) \<Rightarrow> 'a list \<Rightarrow> string" where
  "first_token f [] = []"
| "first_token f (x # xs) = (case f x of Some t \<Rightarrow> t | None \<Rightarrow> first_token f xs)"

definition nonempty :: "string \<Rightarrow> string option" where
  "nonempty s = (if s = [] then None else Some s)"

fun findCSRF :: "((string \<times> json) list \<Rightarrow> (string \<times> json) list) \<Rightarrow> nat \<Rightarrow> json \<Rightarrow> string" where
  "findCSRF order 0 value = []"
| "findCSRF order (Suc n) value =
     (case value of
        JObj kvs \<Rightarrow>
          first_token (\<lambda>(key, child).
            (case child of
               JStr token \<Rightarrow> if csrf_name key \<in> {''csrftoken'', ''csrf''} then Some token else None
             | _ \<Rightarrow> nonempty (findCSRF order n child))) (order kvs)
      | JArr js \<Rightarrow> first_token (\<lambda>child. nonempty (findCSRF order n child)) js
      | _ \<Rightarrow> [])"

definition csrf_cookie_names :: "string list" where
  "csrf_cookie_names = [''csrf-token'', ''csrftoken'', ''csrf_token'', ''_csrf'', ''xsrf-token'']"

definition cookie_token :: "(string \<times> string) list \<Rightarrow> string" where
  "cookie_token cookies =
     first_token (\<lambda>(name, value). if map lower_char name \<in> set csrf_cookie_names then nonempty value else None) cookies"

text \<open>Cookies of the origin and of the sign-in page, then the patterns in the page, then its script elements;
  an unparsable URL would be dereferenced.\<close>

definition extractCSRF :: "login_env \<Rightarrow> string \<Rightarrow> oauth_request list \<Rightarrow> string \<Rightarrow> string outcome" where
  "extractCSRF env html since oauthBase =
     (let cookies = (\<lambda>raw. cookie_token (le_cookies env since raw)) in
      if isl (url_parse oauthBase) then Panic
      else if cookies oauthBase \<noteq> [] then Ok (cookies oauthBase)
      else if isl (url_parse (oauthBase @ OAuthSigninPath)) then Panic
      else if cookies (oauthBase @ OAuthSigninPath) \<noteq> [] then Ok (cookies (oauthBase @ OAuthSigninPath))
      else
        (case List.map_filter (\<lambda>n. le_pattern env n html) [0, 1, 2, 3, 4] of
           token # _ \<Rightarrow> Ok token
         | [] \<Rightarrow>
             Ok (first_token (\<lambda>scriptID.
                  (case le_script env scriptID html of
                     Some (RawJson j) \<Rightarrow> if any_ok j then nonempty (findCSRF (le_order env) (Suc maxCSRFSearchDepth) (any_norm j)) else None
                   | _ \<Rightarrow> None)) [''oauth-args'', ''__NEXT_DATA__''])))"

section \<open>Starting a login\<close>

definition oauthAuthorizationValues :: "string \<Rightarrow> string \<Rightarrow> string \<Rightarrow> string \<Rightarrow> (string \<times> string) list" where
  "oauthAuthorizationValues redirectURI state hardwareID challenge =
     [(''redirect_uri'', redirectURI), (''client_id'', RingClientID), (''response_type'', ''code''),
      (''prompt'', ''login''), (''state'', state), (''scope'', RingScope),
      (''code_challenge'', base64url challenge), (''code_challenge_method'', ''S256''),
      (''device_model'', deviceModel), (''app_version'', ''3.102.0''), (''dark_mode'', ''false''),
      (''device_brand'', ''golang''), (''device_os_version'', ''go''), (''app_brand'', ''ring''),
      (''hardware_id'', hardwareID)]"

text \<open>The loop of \<open>initiatePKCE\<close>: at most five pages; it gives the text of the first that is no redirect, or
  nothing after five redirects.\<close>

fun sign_in_page :: "login_env \<Rightarrow> nat \<Rightarrow> string \<Rightarrow> string login_step" where
  "sign_in_page env 0 currentURL = lreturn []"
| "sign_in_page env (Suc n) currentURL =
     lbind (sendOAuthAuthorize env currentURL) (\<lambda>resp.
       if 300 \<le> status resp \<and> status resp < 400 then
         if or_location resp = [] then lfail (NewAuthenticationError ''OAuth redirect missing location'' (status resp))
         else
           (case resolveOAuthURL currentURL (or_location resp) of
              Inl _ \<Rightarrow> lfail (NewAuthenticationError ''invalid OAuth redirect'' (status resp))
            | Inr next_url \<Rightarrow> sign_in_page env n next_url)
       else
         (case or_body resp of
            Inl e \<Rightarrow> lfail (NewNetworkError ''failed to read OAuth sign-in page'' (Some e))
          | Inr body \<Rightarrow>
              if status resp < 200 \<or> 300 \<le> status resp
              then lfail (NewAuthenticationError ''failed to load OAuth sign-in page'' (status resp))
              else lreturn body))"

definition initiatePKCE :: "login_env \<Rightarrow> string \<Rightarrow> unit login_step" where
  "initiatePKCE env hardwareID w =
     (let base = rc_oauthBaseURI (lg_config w) in
      case le_random env (lg_sent w) 32 of
        Inl e \<Rightarrow> (Err (NewInternalServerError ''failed to generate PKCE verifier'' (Some e)), w)
      | Inr verifierBytes \<Rightarrow>
     (case le_random env (lg_sent w) 16 of
        Inl e \<Rightarrow> (Err (NewInternalServerError ''failed to generate OAuth state'' (Some e)), w)
      | Inr stateBytes \<Rightarrow>
          let verifier = base64url verifierBytes;
              state = hex_string stateBytes;
              params = oauthAuthorizationValues OAuthCallbackURL state hardwareID (le_sha256 env verifier);
              currentURL = trim_suffix base ''/'' @ OAuthAuthorizePath @ ''?'' @ Encode params in
          lbind (sign_in_page env 5 currentURL) (\<lambda>html w'.
            lbind (lift (extractCSRF env html (drop (length (lg_sent w)) (lg_sent w')) base)) (\<lambda>csrfToken w'.
              if csrfToken = []
              then (Err (NewAuthenticationError ''unable to extract CSRF token from Ring OAuth page'' 401), w')
              else (Ok (), w'\<lparr>lg_pending :=
                      Some \<lparr>pk_verifier = verifier, pk_state = state, pk_csrfToken = csrfToken,
                            pk_redirectURI = OAuthCallbackURL\<rparr>\<rparr>)) w') w))"

section \<open>Forms\<close>

text \<open>\<open>authFormRequest\<close>: the reply with its body read.\<close>

definition authFormRequest :: "login_env \<Rightarrow> string \<Rightarrow> (string \<times> string) list \<Rightarrow> oauth_reply login_step" where
  "authFormRequest env path form w =
     (if path \<noteq> OAuthSigninPath \<and> path \<noteq> OAuthVerifyPath
      then (Err (NewBadRequestError ''unsupported OAuth form route'' None), w)
      else
        (case operation_url (generatedServerBase (rc_oauthBaseURI (lg_config w))) path of
           Inl e \<Rightarrow> (Err (NewNetworkError ''failed to create OAuth request'' (Some (parse_error e))), w)
         | Inr target \<Rightarrow>
             lbind (exchange env (\<lambda>e. NewNetworkError ''OAuth request failed'' (Some e))
                      (FormRequest True target form
                         [(''Content-Type'', ''application/x-www-form-urlencoded''),
                          (''User-Agent'', rc_userAgent (lg_config w))]))
               (\<lambda>resp. (case or_body resp of
                          Inl e \<Rightarrow> lfail (NewNetworkError ''failed to read OAuth response'' (Some e))
                        | Inr _ \<Rightarrow> lreturn resp)) w))"

text \<open>\<open>json.Unmarshal\<close> into a \<open>SignInState\<close>; its error is dropped, what it has filled in counts.\<close>

definition sign_in_challenge :: "raw_message \<Rightarrow> bool" where
  "sign_in_challenge doc =
     (let v = fst (unmarshal_model SignInState_model SignInState_UnmarshalJSON doc) in
      (case rest_string_ptr SignInState_model ''tsv_state'' v of Some s \<Rightarrow> s \<noteq> [] | None \<Rightarrow> False)
      \<or> rest_int_ptr SignInState_model ''next_time_in_secs'' v \<noteq> None)"

definition submitCredentials :: "login_env \<Rightarrow> string \<Rightarrow> string \<Rightarrow> bool login_step" where
  "submitCredentials env username password w =
     (case lg_pending w of
        None \<Rightarrow> (Panic, w)
      | Some pending \<Rightarrow>
          lbind (authFormRequest env OAuthSigninPath
                   [(''username'', username), (''password'', password), (''csrf-token'', pk_csrfToken pending)])
            (\<lambda>resp.
               if status resp = 412 \<or> sign_in_challenge (or_json resp) \<or> str_contains (or_location resp) ''/2fa''
               then lreturn True
               else if status resp < 200 \<or> 400 \<le> status resp
               then lfail (NewAuthenticationError ''Ring sign-in rejected credentials'' (status resp))
               else lreturn False) w)"

definition verify2FA :: "login_env \<Rightarrow> string \<Rightarrow> unit login_step" where
  "verify2FA env code w =
     (case lg_pending w of
        None \<Rightarrow> (Panic, w)
      | Some pending \<Rightarrow>
          lbind (authFormRequest env OAuthVerifyPath
                   [(''2fa_code'', code), (''csrf-token'', pk_csrfToken pending), (''remember_me'', ''false'')])
            (\<lambda>resp.
               if status resp = 400 \<or> status resp = 401
               then lfail (NewAuthenticationError ''verification code is invalid or expired'' (status resp))
               else if status resp \<noteq> 200 \<and> status resp \<noteq> 201
               then lfail (NewAuthenticationError ''2FA verification failed'' (status resp))
               else lreturn ()) w)"

section \<open>Tokens\<close>

record token_response =
  tk_AccessToken :: string
  tk_ExpiresIn :: "int option"
  tk_RefreshToken :: "string option"
  tk_TokenType :: string

definition token_of :: "rest_value \<Rightarrow> token_response" where
  "token_of v =
     \<lparr>tk_AccessToken = rest_string OAuthToken_model ''access_token'' v,
      tk_ExpiresIn = rest_int_ptr OAuthToken_model ''expires_in'' v,
      tk_RefreshToken = rest_string_ptr OAuthToken_model ''refresh_token'' v,
      tk_TokenType = rest_string OAuthToken_model ''token_type'' v\<rparr>"

definition decodeTokenResponse :: "oauth_reply \<Rightarrow> goerr + token_response" where
  "decodeTokenResponse resp =
     (case or_body resp of
        Inl e \<Rightarrow> Inl (NewNetworkError ''failed to read token response'' (Some e))
      | Inr body \<Rightarrow>
          if status resp = 412 then Inl (NewRequires2FAError ''2FA code required'')
          else if status resp = 429 then Inl (NewRateLimitError ''rate limit exceeded'')
          else if status resp = 401 then Inl (NewAuthenticationError ''token request rejected'' (status resp))
          else if status resp < 200 \<or> 300 \<le> status resp then Inl (ClassifyHTTPError (or_resp resp) body)
          else
            (case unmarshal_model OAuthToken_model OAuthToken_UnmarshalJSON (or_json resp) of
               (_, True) \<Rightarrow> Inl (NewInternalServerError ''failed to parse token response'' (Some JSONError))
             | (v, False) \<Rightarrow>
                 if tk_AccessToken (token_of v) = []
                 then Inl (NewInternalServerError ''token response missing access token'' None)
                 else Inr (token_of v)))"

definition token_request ::
  "login_env \<Rightarrow> bool \<Rightarrow> string \<Rightarrow> string \<Rightarrow> (string \<times> string) list \<Rightarrow> (string \<times> string) list
   \<Rightarrow> token_response login_step" where
  "token_request env own buildError sendError form headers w =
     (case operation_url (generatedServerBase (rc_oauthBaseURI (lg_config w))) OAuthTokenPath of
        Inl e \<Rightarrow> (Err (NewNetworkError buildError (Some (parse_error e))), w)
      | Inr target \<Rightarrow>
          lbind (exchange env (\<lambda>e. NewNetworkError sendError (Some e)) (FormRequest own target form headers))
            (\<lambda>resp. lift (or_fail (decodeTokenResponse resp))) w)"

definition authenticateLegacy ::
  "login_env \<Rightarrow> string \<Rightarrow> string \<Rightarrow> string \<Rightarrow> string \<Rightarrow> token_response login_step" where
  "authenticateLegacy env username password hardwareID otpCode w =
     token_request env False ''failed to create legacy auth request'' ''legacy auth request failed''
       [(''grant_type'', ''password''), (''username'', username), (''password'', password),
        (''client_id'', RingClientID), (''scope'', RingScope)]
       ([(''Content-Type'', ''application/x-www-form-urlencoded''), (''User-Agent'', rc_userAgent (lg_config w))]
        @ (if hardwareID \<noteq> [] then [(''Hardware_id'', hardwareID)] else [])
        @ (if otpCode \<noteq> [] then [(''2fa-Support'', ''true''), (''2fa-Code'', otpCode)] else [])) w"

definition exchangeAuthorizationCode :: "login_env \<Rightarrow> string \<Rightarrow> string \<Rightarrow> token_response login_step" where
  "exchangeAuthorizationCode env code hardwareID w =
     (case lg_pending w of
        None \<Rightarrow> (Panic, w)
      | Some pending \<Rightarrow>
          token_request env True ''failed to create OAuth token request'' ''failed to exchange OAuth authorization code''
            [(''code'', code), (''grant_type'', ''authorization_code''), (''redirect_uri'', pk_redirectURI pending),
             (''code_verifier'', pk_verifier pending), (''client_id'', RingClientID)]
            [(''Content-Type'', ''application/x-www-form-urlencoded''), (''Accept'', ''application/json''),
             (''User-Agent'', rc_userAgent (lg_config w)), (''Hardware_id'', hardwareID)] w)"

definition refreshAccessToken :: "login_env \<Rightarrow> string \<Rightarrow> string \<Rightarrow> token_response login_step" where
  "refreshAccessToken env refreshToken hardwareID w =
     token_request env False ''failed to create refresh request'' ''failed to refresh access token''
       [(''grant_type'', ''refresh_token''), (''refresh_token'', refreshToken),
        (''client_id'', RingClientID), (''scope'', RingScope)]
       ([(''Content-Type'', ''application/x-www-form-urlencoded''), (''Accept'', ''application/json''),
         (''User-Agent'', rc_userAgent (lg_config w))]
        @ (if hardwareID \<noteq> [] then [(''Hardware_id'', hardwareID)] else [])) w"

definition RefreshAccessToken :: "login_env \<Rightarrow> string \<Rightarrow> token_response login_step" where
  "RefreshAccessToken env refreshToken w = refreshAccessToken env refreshToken (rc_hardwareID (lg_config w)) w"

section \<open>The authorization code\<close>

fun authorization_redirects :: "login_env \<Rightarrow> pkce_state \<Rightarrow> nat \<Rightarrow> string \<Rightarrow> string login_step" where
  "authorization_redirects env pending 0 currentURL =
     lfail (NewAuthenticationError ''OAuth authorization code redirect limit exceeded'' 401)"
| "authorization_redirects env pending (Suc n) currentURL =
     lbind (sendOAuthAuthorize env currentURL) (\<lambda>resp.
       if status resp < 300 \<or> 400 \<le> status resp \<or> or_location resp = []
       then lfail (NewAuthenticationError ''OAuth authorize endpoint did not redirect'' (status resp))
       else
         (case resolveOAuthURL currentURL (or_location resp) of
            Inl _ \<Rightarrow> lfail (NewAuthenticationError ''invalid OAuth authorization redirect'' (status resp))
          | Inr next_url \<Rightarrow>
              (case url_parse next_url of
                 Inr redirect \<Rightarrow>
                   if query_get (Query redirect) ''code'' \<noteq> [] then
                     if query_get (Query redirect) ''state'' \<noteq> pk_state pending
                     then lfail (NewAuthenticationError ''OAuth state mismatch'' 401)
                     else lreturn (query_get (Query redirect) ''code'')
                   else authorization_redirects env pending n next_url
               | Inl _ \<Rightarrow> authorization_redirects env pending n next_url)))"

definition authorizationCode :: "login_env \<Rightarrow> string login_step" where
  "authorizationCode env w =
     (case lg_pending w of
        None \<Rightarrow> (Panic, w)
      | Some pending \<Rightarrow>
          authorization_redirects env pending 5 (trim_suffix (rc_oauthBaseURI (lg_config w)) ''/'' @ OAuthAuthorizePath) w)"

section \<open>Authentication\<close>

definition startPKCE :: "login_env \<Rightarrow> string \<Rightarrow> string \<Rightarrow> string \<Rightarrow> string \<Rightarrow> unit login_step" where
  "startPKCE env username password hardwareID otpCode =
     lbind (initiatePKCE env hardwareID) (\<lambda>_.
     lbind (submitCredentials env username password) (\<lambda>requires2FA.
       if requires2FA \<and> otpCode = [] then lfail (NewRequires2FAError ''2FA code required'')
       else if requires2FA then verify2FA env otpCode
       else lreturn ()))"

text \<open>\<open>errors.As\<close> with an authentication error as target, and its status.\<close>

definition authentication_status :: "goerr \<Rightarrow> int option" where
  "authentication_status e =
     (case errors_as (\<lambda>x. case x of AuthenticationError _ _ \<Rightarrow> True | _ \<Rightarrow> False) e of
        Some (AuthenticationError _ s) \<Rightarrow> Some s
      | _ \<Rightarrow> None)"

text \<open>True asks for the legacy flow.\<close>

definition prepareAuthentication ::
  "login_env \<Rightarrow> string \<Rightarrow> string \<Rightarrow> string \<Rightarrow> string \<Rightarrow> bool login_step" where
  "prepareAuthentication env username password hardwareID otpCode w =
     (if lg_pending w \<noteq> None then
        if otpCode = [] then (Err (NewRequires2FAError ''2FA code required''), w)
        else lbind (verify2FA env otpCode) (\<lambda>_. lreturn False) w
      else
        (case startPKCE env username password hardwareID otpCode w of
           (Ok _, w') \<Rightarrow> (Ok False, w')
         | (Err e, w') \<Rightarrow> if authentication_status e = Some 404 then (Ok True, w') else (Err e, w')
         | (Panic, w') \<Rightarrow> (Panic, w')))"

definition rest_Authenticate ::
  "login_env \<Rightarrow> string \<Rightarrow> string \<Rightarrow> string \<Rightarrow> string \<Rightarrow> token_response login_step" where
  "rest_Authenticate env username password hardwareID otpCode =
     lbind (prepareAuthentication env username password hardwareID otpCode) (\<lambda>fallback.
       if fallback then authenticateLegacy env username password hardwareID otpCode
       else
         lbind (authorizationCode env) (\<lambda>code.
         lbind (exchangeAuthorizationCode env code hardwareID) (\<lambda>response w.
           (let w = w\<lparr>lg_pending := None\<rparr> in
            case tk_RefreshToken response of
              Some refreshToken \<Rightarrow>
                if refreshToken \<noteq> [] then refreshAccessToken env refreshToken hardwareID w else (Ok response, w)
            | None \<Rightarrow> (Ok response, w)))))"

definition rest_Request2FACode :: "login_env \<Rightarrow> string \<Rightarrow> string \<Rightarrow> string \<Rightarrow> unit login_step" where
  "rest_Request2FACode env username password hardwareID w =
     (case rest_Authenticate env username password hardwareID [] w of
        (Ok _, w') \<Rightarrow> (Ok (), w')
      | (Err e, w') \<Rightarrow> if IsRequires2FAError (Some e) then (Ok (), w') else (Err e, w')
      | (Panic, w') \<Rightarrow> (Panic, w'))"

section \<open>Login sessions\<close>

text \<open>
  \<open>ls_client\<close> is None after \<open>Close\<close>; an operation on it then would dereference nil. The HTTP client of a
  session is a copy of the shared one without a cookie jar.
\<close>

record login_session =
  ls_client :: "login_state option"
  ls_username :: string
  ls_password :: string
  ls_hardwareID :: string
  ls_done :: bool

record login_request =
  lq_Username :: string
  lq_Password :: string
  lq_HardwareID :: string

record auth_response =
  au_AccessToken :: string
  au_RefreshToken :: string
  au_ExpiresIn :: int
  au_TokenType :: string

definition tokenString :: "string option \<Rightarrow> string" where
  "tokenString value = (case value of Some s \<Rightarrow> s | None \<Rightarrow> [])"

definition tokenInt :: "int option \<Rightarrow> int" where
  "tokenInt value = (case value of Some i \<Rightarrow> i | None \<Rightarrow> 0)"

definition auth_response_of :: "token_response \<Rightarrow> auth_response" where
  "auth_response_of tokens =
     \<lparr>au_AccessToken = tk_AccessToken tokens, au_RefreshToken = tokenString (tk_RefreshToken tokens),
      au_ExpiresIn = tokenInt (tk_ExpiresIn tokens), au_TokenType = tk_TokenType tokens\<rparr>"

definition NewLoginSession :: "client \<Rightarrow> string \<Rightarrow> login_request \<Rightarrow> goerr + login_session" where
  "NewLoginSession c uuid req =
     (if lq_Username req = [] \<or> lq_Password req = []
      then Inl (NewBadRequestError ''username and password are required'' None)
      else
        (let hardwareID = (if lq_HardwareID req = [] then uuid else lq_HardwareID req);
             httpClient = (rc_httpClient (cl_restClient c))\<lparr>hc_Jar := False\<rparr>;
             config = WithHardwareID hardwareID (rest_WithUserAgent (cl_userAgent c)
               (WithEndpointBases (ep_APIBaseURL (cl_endpoints c)) (ep_OAuthBaseURL (cl_endpoints c))
                 (rest_WithHTTPClient (Some httpClient) rest_NewClient))) in
         Inr \<lparr>ls_client = Some \<lparr>lg_config = config, lg_pending = None, lg_sent = []\<rparr>,
              ls_username = lq_Username req, ls_password = lq_Password req, ls_hardwareID = hardwareID,
              ls_done = False\<rparr>))"

definition login_closed :: goerr where
  "login_closed = NewClosedError ''login session is closed'' []"

definition LoginSession_Request2FACode :: "login_env \<Rightarrow> login_session \<Rightarrow> unit outcome \<times> login_session" where
  "LoginSession_Request2FACode env s =
     (if ls_done s then (Err login_closed, s)
      else
        (case ls_client s of
           None \<Rightarrow> (Panic, s)
         | Some w \<Rightarrow>
             (let (r, w') = rest_Request2FACode env (ls_username s) (ls_password s) (ls_hardwareID s) w
              in (r, s\<lparr>ls_client := Some w'\<rparr>))))"

definition LoginSession_Authenticate ::
  "login_env \<Rightarrow> string \<Rightarrow> login_session \<Rightarrow> auth_response outcome \<times> login_session" where
  "LoginSession_Authenticate env otpCode s =
     (if ls_done s then (Err login_closed, s)
      else
        (case ls_client s of
           None \<Rightarrow> (Panic, s)
         | Some w \<Rightarrow>
             (case rest_Authenticate env (ls_username s) (ls_password s) (ls_hardwareID s) otpCode w of
                (Ok tokens, w') \<Rightarrow>
                  (Ok (auth_response_of tokens), s\<lparr>ls_client := Some w', ls_done := True, ls_password := []\<rparr>)
              | (Err e, w') \<Rightarrow> (Err e, s\<lparr>ls_client := Some w'\<rparr>)
              | (Panic, w') \<Rightarrow> (Panic, s\<lparr>ls_client := Some w'\<rparr>))))"

definition LoginSession_Close :: "login_session \<Rightarrow> login_session" where
  "LoginSession_Close s = s\<lparr>ls_done := True, ls_password := [], ls_client := None\<rparr>"

text \<open>The isolated operations of the client: a session of their own, closed at the end.\<close>

definition Client_Authenticate ::
  "login_env \<Rightarrow> client \<Rightarrow> string \<Rightarrow> login_request \<Rightarrow> string \<Rightarrow> auth_response outcome" where
  "Client_Authenticate env c uuid req otpCode =
     (case NewLoginSession c uuid req of
        Inl e \<Rightarrow> Err e
      | Inr s \<Rightarrow> fst (LoginSession_Authenticate env otpCode s))"

definition Client_Request2FACode :: "login_env \<Rightarrow> client \<Rightarrow> string \<Rightarrow> login_request \<Rightarrow> unit outcome" where
  "Client_Request2FACode env c uuid req =
     (case NewLoginSession c uuid req of
        Inl e \<Rightarrow> Err e
      | Inr s \<Rightarrow> fst (LoginSession_Request2FACode env s))"

definition Client_RefreshToken ::
  "login_env \<Rightarrow> client \<Rightarrow> string \<Rightarrow> string \<Rightarrow> auth_response outcome" where
  "Client_RefreshToken env c refreshToken hardwareID =
     (if refreshToken = [] then Err (NewBadRequestError ''refresh token is required'' None)
      else
        (case fst (refreshAccessToken env refreshToken hardwareID
                     \<lparr>lg_config = cl_restClient c, lg_pending = None, lg_sent = []\<rparr>) of
           Ok tokens \<Rightarrow> Ok (auth_response_of tokens)
         | Err e \<Rightarrow> Err e
         | Panic \<Rightarrow> Panic))"

text \<open>The operations of a session in some order.\<close>

datatype login_op = LRequest2FACode | LAuthenticate string | LClose

fun login_op_step :: "login_env \<Rightarrow> login_op \<Rightarrow> login_session \<Rightarrow> login_session" where
  "login_op_step env LRequest2FACode s = snd (LoginSession_Request2FACode env s)"
| "login_op_step env (LAuthenticate otp) s = snd (LoginSession_Authenticate env otp s)"
| "login_op_step env LClose s = LoginSession_Close s"

definition login_run :: "login_env \<Rightarrow> login_op list \<Rightarrow> login_session \<Rightarrow> login_session" where
  "login_run env ops s = fold (login_op_step env) ops s"

end
