(* ===== verification/LoginFlow.thy ===== *)
theory LoginFlow
  imports Login
begin

text \<open>
  A login as it is meant to go, with the default endpoint: what each step of theory Login sends and returns when
  the server cooperates, the two calls of a login with a code, and what a refused sign-in leaves behind.
\<close>

section \<open>A login that completes\<close>

lemma default_authorize_url: "trim_suffix OAuthBaseURL ''/'' @ OAuthAuthorizePath = ''https://oauth.ring.com/oauth/v2/authorize''"
  by code_simp

lemma default_targets:
  "operation_url (generatedServerBase OAuthBaseURL) OAuthAuthorizePath = Inr ''https://oauth.ring.com/oauth/v2/authorize''"
  "operation_url (generatedServerBase OAuthBaseURL) OAuthSigninPath = Inr ''https://oauth.ring.com/oauth/v2/signin''"
  "operation_url (generatedServerBase OAuthBaseURL) OAuthVerifyPath = Inr ''https://oauth.ring.com/oauth/v2/2fa/verify''"
  "operation_url (generatedServerBase OAuthBaseURL) OAuthTokenPath = Inr ''https://oauth.ring.com/oauth/token''"
  by code_simp+

definition oauth_parsed :: url where
  "oauth_parsed = empty_url\<lparr>u_Scheme := ''https'', u_Host := ''oauth.ring.com''\<rparr>"

definition authorize_parsed :: url where
  "authorize_parsed = oauth_parsed\<lparr>u_Path := ''/oauth/v2/authorize''\<rparr>"

lemma oauth_parse:
  "url_parse OAuthBaseURL = Inr oauth_parsed"
  "url_parse ''https://oauth.ring.com/oauth/v2/authorize'' = Inr authorize_parsed"
  by code_simp+

lemma oauth_parsed_parts:
  "u_Scheme authorize_parsed = u_Scheme oauth_parsed" "u_Host authorize_parsed = u_Host oauth_parsed"
  "EscapedPath authorize_parsed = trim_suffix (EscapedPath oauth_parsed) ''/'' @ OAuthAuthorizePath"
  "u_Fragment authorize_parsed = []"
  by code_simp+

lemma authorize_param_values:
  "query_values q = query_values q' \<Longrightarrow> authorize_params q = authorize_params q'"
  by (simp add: authorize_params_def authorize_param_def [abs_def])

lemma authorization_values_params:
  "authorize_params (oauthAuthorizationValues redirect state hardwareID challenge)
     = oauthAuthorizationValues redirect state hardwareID challenge"
  by (simp add: authorize_params_def oauthAuthorizeParameters_def oauthAuthorizationValues_def authorize_param_def
        query_values_def parse_bool_def List.map_filter_def)

lemma authorization_values_single:
  "list_all (\<lambda>(k, v). query_values (oauthAuthorizationValues redirect state hardwareID challenge) k = [v]
      \<and> oauthAuthorizeParameter k) (oauthAuthorizationValues redirect state hardwareID challenge)"
  by (simp add: oauthAuthorizationValues_def query_values_def oauthAuthorizeParameter_def oauthAuthorizeParameters_def)

lemma authorization_values_fixed:
  fixes redirect state hardwareID challenge
  defines "q \<equiv> query_values (oauthAuthorizationValues redirect state hardwareID challenge)"
  shows "q ''response_type'' = [''code'']" "q ''code_challenge_method'' = [''S256'']" "q ''dark_mode'' = [''false'']"
    "q ''device_model'' = [deviceModel]"
  by (simp_all add: q_def oauthAuthorizationValues_def query_values_def)

text \<open>The URL a login starts from passes the client's own filter, with its parameters in order.\<close>

lemma authorize_request_default:
  "authorize_request OAuthBaseURL (''https://oauth.ring.com/oauth/v2/authorize'' @ ''?'' @
      Encode (oauthAuthorizationValues redirect state hardwareID challenge))
   = Inr (AuthorizeRequest ''https://oauth.ring.com/oauth/v2/authorize''
            (oauthAuthorizationValues redirect state hardwareID challenge))"
proof -
  let ?kvs = "oauthAuthorizationValues redirect state hardwareID challenge"
  have ne: "?kvs \<noteq> []" by (simp add: oauthAuthorizationValues_def)
  have parse: "url_parse (''https://oauth.ring.com/oauth/v2/authorize'' @ ''?'' @ Encode ?kvs)
      = Inr (authorize_parsed\<lparr>u_RawQuery := Encode ?kvs\<rparr>)"
    by (rule url_parse_query [OF oauth_parse(2), of "''https''"])
       (use Encode_query [of ?kvs] ne in \<open>simp_all add: is_letter_def is_alnum_def is_digit_def\<close>)
  have vals: "query_values (parse_query (Encode ?kvs)) = query_values ?kvs"
    by (rule ext) (rule query_values_Encode)
  have members: "set (parse_query (Encode ?kvs)) = set ?kvs" by (simp add: parse_query_Encode)
  have single: "\<not> list_ex (\<lambda>(k, v). length (query_values ?kvs k) \<noteq> 1 \<or> \<not> oauthAuthorizeParameter k)
      (parse_query (Encode ?kvs))"
    using authorization_values_single [of redirect state hardwareID challenge]
    unfolding list_ex_iff list_all_iff members by fastforce
  have parts: "u_Scheme (authorize_parsed\<lparr>u_RawQuery := q\<rparr>) = u_Scheme oauth_parsed"
    "u_Host (authorize_parsed\<lparr>u_RawQuery := q\<rparr>) = u_Host oauth_parsed"
    "EscapedPath (authorize_parsed\<lparr>u_RawQuery := q\<rparr>) = trim_suffix (EscapedPath oauth_parsed) ''/'' @ OAuthAuthorizePath"
    "u_Fragment (authorize_parsed\<lparr>u_RawQuery := q\<rparr>) = []" for q
    unfolding parts_RawQuery using oauth_parsed_parts by simp_all
  have dark: "\<not> list_ex (\<lambda>v. parse_bool v = None) [''false'']" by code_simp
  show ?thesis
    unfolding authorize_request_def parse oauth_parse(1) sum.case Let_def parts parts_RawQuery(4) vals
      authorization_values_fixed default_targets authorize_param_values [OF vals] authorization_values_params
    using single dark by simp
qed


text \<open>The steps, when the server answers as hoped.\<close>

abbreviation sent_also :: "login_state \<Rightarrow> oauth_request \<Rightarrow> login_state" where
  "sent_also w req \<equiv> w\<lparr>lg_sent := lg_sent w @ [req]\<rparr>"

lemma exchange_ok:
  "le_server env (lg_sent w @ [req]) = Inr r \<Longrightarrow> exchange env wrap req w = (Ok r, sent_also w req)"
  by (simp add: exchange_def)

lemma sendOAuthAuthorize_ok:
  "authorize_request (rc_oauthBaseURI (lg_config w)) current = Inr req \<Longrightarrow>
   le_server env (lg_sent w @ [req]) = Inr r \<Longrightarrow> sendOAuthAuthorize env current w = (Ok r, sent_also w req)"
  by (simp add: sendOAuthAuthorize_def lbind_def lift_def or_fail_def exchange_ok)

lemma sign_in_page_ok:
  assumes "authorize_request (rc_oauthBaseURI (lg_config w)) current = Inr req"
    and "le_server env (lg_sent w @ [req]) = Inr r" and "status r = 200" and "or_body r = Inr html"
  shows "sign_in_page env (Suc n) current w = (Ok html, sent_also w req)"
  unfolding sign_in_page.simps lbind_def sendOAuthAuthorize_ok [OF assms(1,2)] prod.case outcome.case
  using assms(3,4) by (simp add: lreturn_def)

definition challenge_request :: "login_env \<Rightarrow> string \<Rightarrow> string \<Rightarrow> string \<Rightarrow> oauth_request" where
  "challenge_request env hardwareID vb sb =
     AuthorizeRequest ''https://oauth.ring.com/oauth/v2/authorize''
       (oauthAuthorizationValues OAuthCallbackURL (hex_string sb) hardwareID (le_sha256 env (base64url vb)))"

lemma initiatePKCE_ok:
  assumes "rc_oauthBaseURI (lg_config w) = OAuthBaseURL"
    and "le_random env (lg_sent w) 32 = Inr vb" and "le_random env (lg_sent w) 16 = Inr sb"
    and "le_server env (lg_sent w @ [challenge_request env hardwareID vb sb]) = Inr r" and "status r = 200"
    and "or_body r = Inr html"
    and "extractCSRF env html [challenge_request env hardwareID vb sb] OAuthBaseURL = Ok csrf" and "csrf \<noteq> []"
  shows "initiatePKCE env hardwareID w =
     (Ok (), (sent_also w (challenge_request env hardwareID vb sb))\<lparr>lg_pending :=
        Some \<lparr>pk_verifier = base64url vb, pk_state = hex_string sb, pk_csrfToken = csrf,
              pk_redirectURI = OAuthCallbackURL\<rparr>\<rparr>)"
proof -
  let ?url = "''https://oauth.ring.com/oauth/v2/authorize'' @ ''?'' @
      Encode (oauthAuthorizationValues OAuthCallbackURL (hex_string sb) hardwareID (le_sha256 env (base64url vb)))"
  let ?w = "sent_also w (challenge_request env hardwareID vb sb)"
  have five: "(5::nat) = Suc 4" by simp
  have url: "trim_suffix OAuthBaseURL ''/'' @ OAuthAuthorizePath @ ''?'' @
      Encode (oauthAuthorizationValues OAuthCallbackURL (hex_string sb) hardwareID (le_sha256 env (base64url vb))) = ?url"
    using default_authorize_url by (metis append.assoc)
  have req: "authorize_request (rc_oauthBaseURI (lg_config w)) ?url = Inr (challenge_request env hardwareID vb sb)"
    unfolding assms(1) challenge_request_def by (rule authorize_request_default)
  have page: "sign_in_page env 5 ?url w = (Ok html, ?w)"
    unfolding five by (rule sign_in_page_ok [OF req assms(4-6)])
  have since: "drop (length (lg_sent w)) (lg_sent ?w) = [challenge_request env hardwareID vb sb]" by simp
  show ?thesis
    unfolding initiatePKCE_def Let_def assms(1-3) sum.case url lbind_ok [where m = "sign_in_page env 5 ?url", OF page]
      since assms(7)
    using assms(8) by (simp add: lbind_def lift_def)
qed

definition form_request :: "login_state \<Rightarrow> string \<Rightarrow> (string \<times> string) list \<Rightarrow> oauth_request" where
  "form_request w path form =
     FormRequest True (OAuthBaseURL @ path) form
       [(''Content-Type'', ''application/x-www-form-urlencoded''), (''User-Agent'', rc_userAgent (lg_config w))]"

lemma authFormRequest_ok:
  assumes "rc_oauthBaseURI (lg_config w) = OAuthBaseURL" and "path = OAuthSigninPath \<or> path = OAuthVerifyPath"
    and "le_server env (lg_sent w @ [form_request w path form]) = Inr r" and "or_body r = Inr body"
  shows "authFormRequest env path form w = (Ok r, sent_also w (form_request w path form))"
proof -
  have target: "operation_url (generatedServerBase OAuthBaseURL) path = Inr (OAuthBaseURL @ path)"
    using assms(2) default_targets(2,3) by auto
  have path: "\<not> (path \<noteq> OAuthSigninPath \<and> path \<noteq> OAuthVerifyPath)" using assms(2) by blast
  note ex = exchange_ok [OF assms(3), of "\<lambda>e. NewNetworkError ''OAuth request failed'' (Some e)"]
  show ?thesis
    unfolding authFormRequest_def if_not_P [OF path] assms(1) target sum.case lbind_def
      ex [unfolded form_request_def] prod.case outcome.case
    using assms(4) by (simp add: form_request_def lreturn_def)
qed

lemma submitCredentials_asks:
  assumes "rc_oauthBaseURI (lg_config w) = OAuthBaseURL" and "lg_pending w = Some pk"
    and "le_server env (lg_sent w @ [form_request w OAuthSigninPath
           [(''username'', username), (''password'', password), (''csrf-token'', pk_csrfToken pk)]]) = Inr r"
    and "or_body r = Inr body" and "status r = 412"
  shows "submitCredentials env username password w = (Ok True, sent_also w (form_request w OAuthSigninPath
           [(''username'', username), (''password'', password), (''csrf-token'', pk_csrfToken pk)]))"
  unfolding submitCredentials_def assms(2) option.case lbind_def
    authFormRequest_ok [OF assms(1) disjI1 [OF refl] assms(3,4)] prod.case outcome.case
  using assms(5) by (simp add: lreturn_def)

lemma verify2FA_accepted:
  assumes "rc_oauthBaseURI (lg_config w) = OAuthBaseURL" and "lg_pending w = Some pk"
    and "le_server env (lg_sent w @ [form_request w OAuthVerifyPath
           [(''2fa_code'', code), (''csrf-token'', pk_csrfToken pk), (''remember_me'', ''false'')]]) = Inr r"
    and "or_body r = Inr body" and "status r = 200"
  shows "verify2FA env code w = (Ok (), sent_also w (form_request w OAuthVerifyPath
           [(''2fa_code'', code), (''csrf-token'', pk_csrfToken pk), (''remember_me'', ''false'')]))"
  unfolding verify2FA_def assms(2) option.case lbind_def
    authFormRequest_ok [OF assms(1) disjI2 [OF refl] assms(3,4)] prod.case outcome.case
  using assms(5) by (simp add: lreturn_def)

lemma authorize_request_again:
  "authorize_request OAuthBaseURL ''https://oauth.ring.com/oauth/v2/authorize''
     = Inr (AuthorizeRequest ''https://oauth.ring.com/oauth/v2/authorize'' [])"
  by code_simp

lemma authorizationCode_ok:
  assumes "rc_oauthBaseURI (lg_config w) = OAuthBaseURL" and "lg_pending w = Some pk"
    and "le_server env (lg_sent w @ [AuthorizeRequest ''https://oauth.ring.com/oauth/v2/authorize'' []]) = Inr r"
    and "300 \<le> status r" and "status r < 400" and "or_location r \<noteq> []"
    and "resolveOAuthURL ''https://oauth.ring.com/oauth/v2/authorize'' (or_location r) = Inr next_url"
    and "url_parse next_url = Inr u" and "query_get (Query u) ''code'' = code" and "code \<noteq> []"
    and "query_get (Query u) ''state'' = pk_state pk"
  shows "authorizationCode env w =
     (Ok code, sent_also w (AuthorizeRequest ''https://oauth.ring.com/oauth/v2/authorize'' []))"
proof -
  have five: "(5::nat) = Suc 4" by simp
  have req: "authorize_request (rc_oauthBaseURI (lg_config w)) ''https://oauth.ring.com/oauth/v2/authorize''
      = Inr (AuthorizeRequest ''https://oauth.ring.com/oauth/v2/authorize'' [])"
    unfolding assms(1) by (rule authorize_request_again)
  note send = sendOAuthAuthorize_ok [OF req assms(3)]
  have "\<not> (status r < 300 \<or> 400 \<le> status r \<or> or_location r = [])" using assms(4-6) by simp
  then show ?thesis
    unfolding authorizationCode_def assms(1,2) option.case default_authorize_url five authorization_redirects.simps
      lbind_def send prod.case outcome.case
    using assms(7-) by (simp add: lreturn_def)
qed

lemma exchangeAuthorizationCode_ok:
  assumes "rc_oauthBaseURI (lg_config w) = OAuthBaseURL" and "lg_pending w = Some pk"
    and "req = FormRequest True ''https://oauth.ring.com/oauth/token''
            [(''code'', code), (''grant_type'', ''authorization_code''), (''redirect_uri'', pk_redirectURI pk),
             (''code_verifier'', pk_verifier pk), (''client_id'', RingClientID)]
            [(''Content-Type'', ''application/x-www-form-urlencoded''), (''Accept'', ''application/json''),
             (''User-Agent'', rc_userAgent (lg_config w)), (''Hardware_id'', hardwareID)]"
    and "le_server env (lg_sent w @ [req]) = Inr r" and "decodeTokenResponse r = Inr tokens"
  shows "exchangeAuthorizationCode env code hardwareID w = (Ok tokens, sent_also w req)"
proof -
  note ex = exchange_ok [OF assms(4), of "\<lambda>e. NewNetworkError ''failed to exchange OAuth authorization code'' (Some e)"]
  show ?thesis
    unfolding exchangeAuthorizationCode_def assms(2) option.case token_request_def assms(1) default_targets(4) sum.case
      lbind_def ex [unfolded assms(3)] prod.case outcome.case
    using assms(5) by (simp add: lift_def or_fail_def assms(3))
qed


lemma Requires2FA_classified:
  "authentication_status (NewRequires2FAError m) = None" "IsRequires2FAError (Some (NewRequires2FAError m))"
  by (simp_all add: authentication_status_def NewRequires2FAError_def IsRequires2FAError_def errors_as_def
        errors_as_option_def error_chain_None)

text \<open>What the pending login is, and the requests of the two calls.\<close>

definition started_login :: "string \<Rightarrow> string \<Rightarrow> string \<Rightarrow> pkce_state" where
  "started_login vb sb csrf =
     \<lparr>pk_verifier = base64url vb, pk_state = hex_string sb, pk_csrfToken = csrf, pk_redirectURI = OAuthCallbackURL\<rparr>"

definition code_requests :: "login_env \<Rightarrow> login_state \<Rightarrow> string \<Rightarrow> string \<Rightarrow> string \<Rightarrow> string \<Rightarrow> string \<Rightarrow> string \<Rightarrow> oauth_request list" where
  "code_requests env w username password hardwareID vb sb csrf =
     [challenge_request env hardwareID vb sb,
      form_request w OAuthSigninPath [(''username'', username), (''password'', password), (''csrf-token'', csrf)]]"

definition completion_requests :: "login_state \<Rightarrow> pkce_state \<Rightarrow> string \<Rightarrow> string \<Rightarrow> string \<Rightarrow> oauth_request list" where
  "completion_requests w pk otp code hardwareID =
     [form_request w OAuthVerifyPath
        [(''2fa_code'', otp), (''csrf-token'', pk_csrfToken pk), (''remember_me'', ''false'')],
      AuthorizeRequest ''https://oauth.ring.com/oauth/v2/authorize'' [],
      FormRequest True ''https://oauth.ring.com/oauth/token''
        [(''code'', code), (''grant_type'', ''authorization_code''), (''redirect_uri'', pk_redirectURI pk),
         (''code_verifier'', pk_verifier pk), (''client_id'', RingClientID)]
        [(''Content-Type'', ''application/x-www-form-urlencoded''), (''Accept'', ''application/json''),
         (''User-Agent'', rc_userAgent (lg_config w)), (''Hardware_id'', hardwareID)]]"

lemma form_request_config [simp]:
  "form_request (w\<lparr>lg_sent := sent\<rparr>) = form_request w" "form_request (w\<lparr>lg_pending := pd\<rparr>) = form_request w"
  by (intro ext, simp add: form_request_def)+

lemma Request2FACode_ok:
  assumes base: "rc_oauthBaseURI (lg_config w) = OAuthBaseURL" and idle: "lg_pending w = None"
    and random: "le_random env (lg_sent w) 32 = Inr vb" "le_random env (lg_sent w) 16 = Inr sb"
    and page: "le_server env (lg_sent w @ take 1 (code_requests env w username password hardwareID vb sb csrf)) = Inr r1"
      "status r1 = 200" "or_body r1 = Inr html"
    and csrf: "extractCSRF env html (take 1 (code_requests env w username password hardwareID vb sb csrf)) OAuthBaseURL = Ok csrf"
      "csrf \<noteq> []"
    and asks: "le_server env (lg_sent w @ code_requests env w username password hardwareID vb sb csrf) = Inr r2"
      "status r2 = 412" "or_body r2 = Inr body"
  shows "rest_Request2FACode env username password hardwareID w =
     (Ok (), w\<lparr>lg_sent := lg_sent w @ code_requests env w username password hardwareID vb sb csrf,
               lg_pending := Some (started_login vb sb csrf)\<rparr>)"
proof -
  let ?R = "code_requests env w username password hardwareID vb sb csrf"
  let ?R1 = "challenge_request env hardwareID vb sb" and ?pk = "started_login vb sb csrf"
  let ?w1 = "(sent_also w ?R1)\<lparr>lg_pending := Some ?pk\<rparr>"
  let ?w2 = "w\<lparr>lg_sent := lg_sent w @ ?R, lg_pending := Some ?pk\<rparr>"
  have R: "take 1 ?R = [?R1]" by (simp add: code_requests_def)
  have init: "initiatePKCE env hardwareID w = (Ok (), ?w1)"
    unfolding started_login_def
    by (rule initiatePKCE_ok [OF base random page(1) [unfolded R] page(2,3) csrf(1) [unfolded R] csrf(2)])
  have "submitCredentials env username password ?w1 = (Ok True, sent_also ?w1 (form_request ?w1 OAuthSigninPath
      [(''username'', username), (''password'', password), (''csrf-token'', pk_csrfToken ?pk)]))"
    by (rule submitCredentials_asks [OF _ _ _ asks(3,2)])
       (use base asks(1) in \<open>simp_all add: code_requests_def started_login_def\<close>)
  then have submit: "submitCredentials env username password ?w1 = (Ok True, ?w2)"
    by (simp add: code_requests_def started_login_def)
  have start: "startPKCE env username password hardwareID [] w = (Err (NewRequires2FAError ''2FA code required''), ?w2)"
    unfolding startPKCE_def lbind_def init prod.case outcome.case submit by (simp add: lfail_def)
  show ?thesis
    unfolding rest_Request2FACode_def rest_Authenticate_def lbind_def prepareAuthentication_def idle start
    by (simp add: Requires2FA_classified)
qed

lemma Authenticate_pending_ok:
  fixes w pk otp code hardwareID
  defines "R \<equiv> completion_requests w pk otp code hardwareID"
  assumes base: "rc_oauthBaseURI (lg_config w) = OAuthBaseURL" and pending: "lg_pending w = Some pk" and otp: "otp \<noteq> []"
    and verified: "le_server env (lg_sent w @ take 1 R) = Inr r3" "status r3 = 200" "or_body r3 = Inr body"
    and redirect: "le_server env (lg_sent w @ take 2 R) = Inr r4" "300 \<le> status r4" "status r4 < 400" "or_location r4 \<noteq> []"
      "resolveOAuthURL ''https://oauth.ring.com/oauth/v2/authorize'' (or_location r4) = Inr next_url"
      "url_parse next_url = Inr u" "query_get (Query u) ''code'' = code" "code \<noteq> []"
      "query_get (Query u) ''state'' = pk_state pk"
    and token: "le_server env (lg_sent w @ R) = Inr r5" "decodeTokenResponse r5 = Inr tokens"
      "tk_RefreshToken tokens \<in> {None, Some []}"
  shows "rest_Authenticate env username password hardwareID otp w =
     (Ok tokens, w\<lparr>lg_sent := lg_sent w @ R, lg_pending := None\<rparr>)"
proof -
  let ?w1 = "w\<lparr>lg_sent := lg_sent w @ take 1 R\<rparr>" and ?w2 = "w\<lparr>lg_sent := lg_sent w @ take 2 R\<rparr>"
    and ?w3 = "w\<lparr>lg_sent := lg_sent w @ R\<rparr>"
  have R: "take 1 R = [R ! 0]" "take 2 R = [R ! 0, R ! 1]" "R = [R ! 0, R ! 1, R ! 2]"
    by (simp_all add: R_def completion_requests_def)
  have v: "verify2FA env otp w = (Ok (), sent_also w (form_request w OAuthVerifyPath
           [(''2fa_code'', otp), (''csrf-token'', pk_csrfToken pk), (''remember_me'', ''false'')]))"
    by (rule verify2FA_accepted [OF base pending _ verified(3,2)])
       (use verified(1) in \<open>simp add: R_def completion_requests_def\<close>)
  have v: "verify2FA env otp w = (Ok (), ?w1)"
    unfolding v by (simp add: R_def completion_requests_def)
  have c: "authorizationCode env ?w1 = (Ok code, sent_also ?w1 (AuthorizeRequest ''https://oauth.ring.com/oauth/v2/authorize'' []))"
    by (rule authorizationCode_ok [OF _ _ _ redirect(2-)])
       (use base pending redirect(1) in \<open>simp_all add: R_def completion_requests_def numeral_2_eq_2\<close>)
  have c: "authorizationCode env ?w1 = (Ok code, ?w2)"
    unfolding c by (simp add: R_def completion_requests_def numeral_2_eq_2)
  have e: "exchangeAuthorizationCode env code hardwareID ?w2 = (Ok tokens, sent_also ?w2 (R ! 2))"
    by (rule exchangeAuthorizationCode_ok [where pk = pk, OF _ _ _ _ token(2)])
       (use base pending token(1) in \<open>simp_all add: R_def completion_requests_def numeral_2_eq_2\<close>)
  have e: "exchangeAuthorizationCode env code hardwareID ?w2 = (Ok tokens, ?w3)"
    unfolding e by (simp add: R_def completion_requests_def numeral_2_eq_2)
  have p: "prepareAuthentication env username password hardwareID otp w = (Ok False, ?w1)"
    using otp by (simp add: prepareAuthentication_def pending lbind_def v lreturn_def)
  show ?thesis
    unfolding rest_Authenticate_def lbind_def p prod.case outcome.case if_False c e Let_def
    using token(3) by auto
qed

text \<open>What a session has sent; nothing is known of a closed one.\<close>

definition login_requests :: "login_session \<Rightarrow> oauth_request list" where
  "login_requests s = (case ls_client s of None \<Rightarrow> [] | Some w \<Rightarrow> lg_sent w)"

section \<open>A server for examples\<close>

text \<open>A server whose replies are listed, a jar with a token; one random byte and no digest keep the evaluation short.\<close>

definition demo_reply :: "int \<Rightarrow> string \<Rightarrow> json \<Rightarrow> oauth_reply" where
  "demo_reply code location doc =
     \<lparr>or_resp = \<lparr>resp_code = code, resp_status = []\<rparr>, or_location = location, or_body = Inr [], or_json = RawJson doc\<rparr>"

definition demo_env :: "oauth_reply list \<Rightarrow> login_env" where
  "demo_env replies =
     \<lparr>le_server = (\<lambda>sent. if length sent \<le> length replies then Inr (replies ! (length sent - 1)) else Inl (ExternalError ''eof'' False)),
      le_cookies = (\<lambda>_ _. [(''csrf-token'', ''tok'')]), le_pattern = (\<lambda>_ _. None), le_script = (\<lambda>_ _. None),
      le_order = (\<lambda>kvs. kvs), le_random = (\<lambda>_ n. Inr (if n = 16 then ''a'' else [])), le_sha256 = (\<lambda>_. [])\<rparr>"

definition demo_session :: login_session where
  "demo_session =
     (case NewLoginSession default_client ''uuid'' \<lparr>lq_Username = ''ada'', lq_Password = ''pw'', lq_HardwareID = []\<rparr> of
        Inr s \<Rightarrow> s)"

text \<open>A page, a demand for a code, its acceptance, the redirect with the code, a token.\<close>

definition demo_replies :: "oauth_reply list" where
  "demo_replies =
     [demo_reply 200 [] JNull, demo_reply 412 [] JNull, demo_reply 200 [] JNull,
      demo_reply 302 ''https://ring.com/signin/callback?code=c0de&state=61'' JNull,
      demo_reply 200 [] (JObj [(''access_token'', JStr ''at''), (''token_type'', JStr ''Bearer'')])]"

lemma demo_session_new:
  "NewLoginSession default_client ''uuid'' \<lparr>lq_Username = ''ada'', lq_Password = ''pw'', lq_HardwareID = []\<rparr> = Inr demo_session"
  by (simp add: demo_session_def NewLoginSession_def Let_def)


lemma demo_session_state:
  "ls_client demo_session = Some \<lparr>lg_config = cl_restClient default_client\<lparr>rc_hardwareID := ''uuid''\<rparr>, lg_pending = None, lg_sent = []\<rparr>"
  "ls_username demo_session = ''ada''" "ls_password demo_session = ''pw''" "ls_hardwareID demo_session = ''uuid''"
  "\<not> ls_done demo_session" "rc_oauthBaseURI (cl_restClient default_client) = OAuthBaseURL"
  by code_simp+

lemma demo_server:
  "replies = demo_env rs \<Longrightarrow> length sent \<le> length rs \<Longrightarrow> le_server replies sent = Inr (rs ! (length sent - 1))"
  by (simp add: demo_env_def)

lemma demo_csrf: "extractCSRF (demo_env rs) html since OAuthBaseURL = Ok ''tok''"
proof -
  have parse: "\<not> isl (url_parse OAuthBaseURL)" by (simp add: oauth_parse)
  have "cookie_token [(''csrf-token'', ''tok'')] = ''tok''" by code_simp
  with parse show ?thesis unfolding extractCSRF_def Let_def demo_env_def by simp
qed

section \<open>Properties\<close>

text \<open>C24: A login with a code completes: with the default endpoint, if the server serves the sign-in page, asks
  for a code, accepts it, redirects with the state of the login and grants a token without a refresh token, then
  \<open>Request2FACode\<close> succeeds, \<open>Authenticate\<close> with the code returns the token and ends the session, and the
  session has sent exactly the five requests of the flow, for any random bytes, hardware id and credentials.\<close>

theorem login_with_code_completes:
  fixes env w username password hardwareID vb sb csrf otp code
  defines "R \<equiv> code_requests env w username password hardwareID vb sb csrf"
    and "R' \<equiv> completion_requests w (started_login vb sb csrf) otp code hardwareID"
  assumes s: "s = \<lparr>ls_client = Some w, ls_username = username, ls_password = password, ls_hardwareID = hardwareID,
      ls_done = False\<rparr>"
    and w: "rc_oauthBaseURI (lg_config w) = OAuthBaseURL" "lg_pending w = None" "lg_sent w = []" and otp: "otp \<noteq> []"
    and random: "le_random env [] 32 = Inr vb" "le_random env [] 16 = Inr sb"
    and page: "le_server env (take 1 R) = Inr r1" "status r1 = 200" "or_body r1 = Inr html"
    and csrf: "extractCSRF env html (take 1 R) OAuthBaseURL = Ok csrf" "csrf \<noteq> []"
    and asks: "le_server env R = Inr r2" "status r2 = 412" "or_body r2 = Inr body"
    and verified: "le_server env (R @ take 1 R') = Inr r3" "status r3 = 200" "or_body r3 = Inr body3"
    and redirect: "le_server env (R @ take 2 R') = Inr r4" "300 \<le> status r4" "status r4 < 400" "or_location r4 \<noteq> []"
      "resolveOAuthURL ''https://oauth.ring.com/oauth/v2/authorize'' (or_location r4) = Inr next_url"
      "url_parse next_url = Inr u" "query_get (Query u) ''code'' = code" "code \<noteq> []"
      "query_get (Query u) ''state'' = hex_string sb"
    and token: "le_server env (R @ R') = Inr r5" "decodeTokenResponse r5 = Inr tokens"
      "tk_RefreshToken tokens \<in> {None, Some []}"
  shows "\<exists>s1 s2. LoginSession_Request2FACode env s = (Ok (), s1)
     \<and> LoginSession_Authenticate env otp s1 = (Ok (auth_response_of tokens), s2)
     \<and> login_requests s1 = R \<and> login_requests s2 = R @ R' \<and> ls_done s2"
proof -
  let ?w1 = "w\<lparr>lg_sent := R, lg_pending := Some (started_login vb sb csrf)\<rparr>"
  have first: "rest_Request2FACode env username password hardwareID w = (Ok (), ?w1)"
    using Request2FACode_ok [of w env vb sb username password hardwareID csrf, OF w(1,2)] w(3) random page csrf asks
    by (simp add: R_def)
  have R': "completion_requests ?w1 (started_login vb sb csrf) otp code hardwareID = R'"
    by (simp add: R'_def completion_requests_def)
  have second: "rest_Authenticate env username password hardwareID otp ?w1
      = (Ok tokens, ?w1\<lparr>lg_sent := lg_sent ?w1 @ R', lg_pending := None\<rparr>)"
    unfolding R' [symmetric]
  proof (rule Authenticate_pending_ok [OF _ _ otp])
    show "rc_oauthBaseURI (lg_config ?w1) = OAuthBaseURL" "lg_pending ?w1 = Some (started_login vb sb csrf)"
      using w by simp_all
    show "le_server env (lg_sent ?w1 @ take 1 (completion_requests ?w1 (started_login vb sb csrf) otp code hardwareID)) = Inr r3"
      "le_server env (lg_sent ?w1 @ take 2 (completion_requests ?w1 (started_login vb sb csrf) otp code hardwareID)) = Inr r4"
      "le_server env (lg_sent ?w1 @ completion_requests ?w1 (started_login vb sb csrf) otp code hardwareID) = Inr r5"
      unfolding R' using verified(1) redirect(1) token(1) by simp_all
    show "query_get (Query u) ''state'' = pk_state (started_login vb sb csrf)"
      using redirect(9) by (simp add: started_login_def)
  qed (fact verified redirect token)+
  show ?thesis
    by (simp add: s LoginSession_Request2FACode_def first LoginSession_Authenticate_def second login_requests_def)
qed


lemma demo_tokens:
  "decodeTokenResponse (demo_replies ! 4) =
     Inr \<lparr>tk_AccessToken = ''at'', tk_ExpiresIn = None, tk_RefreshToken = None, tk_TokenType = ''Bearer''\<rparr>"
  by code_simp

lemma demo_redirect:
  "resolveOAuthURL ''https://oauth.ring.com/oauth/v2/authorize'' (or_location (demo_replies ! 3))
     = Inr ''https://ring.com/signin/callback?code=c0de&state=61''"
  "url_parse ''https://ring.com/signin/callback?code=c0de&state=61''
     = Inr (empty_url\<lparr>u_Scheme := ''https'', u_Host := ''ring.com'', u_Path := ''/signin/callback'',
              u_RawQuery := ''code=c0de&state=61''\<rparr>)"
  "parse_query ''code=c0de&state=61'' = [(''code'', ''c0de''), (''state'', ''61'')]"
  "hex_string ''a'' = ''61''"
  by code_simp+

abbreviation demo_first :: "oauth_request list" where
  "demo_first \<equiv> code_requests (demo_env demo_replies) (the (ls_client demo_session)) ''ada'' ''pw'' ''uuid'' [] ''a'' ''tok''"

abbreviation demo_second :: "oauth_request list" where
  "demo_second \<equiv> completion_requests (the (ls_client demo_session)) (started_login [] ''a'' ''tok'') ''123456'' ''c0de'' ''uuid''"

lemma demo_lengths: "length demo_first = 2" "length demo_second = 3"
  by (simp_all add: code_requests_def completion_requests_def)

lemma demo_random:
  "le_random (demo_env rs) sent 32 = Inr []" "le_random (demo_env rs) sent 16 = Inr ''a''"
  by (simp_all add: demo_env_def)

lemma demo_served:
  "le_server (demo_env demo_replies) (take 1 demo_first) = Inr (demo_replies ! 0)"
  "le_server (demo_env demo_replies) demo_first = Inr (demo_replies ! 1)"
  "le_server (demo_env demo_replies) (demo_first @ take 1 demo_second) = Inr (demo_replies ! 2)"
  "le_server (demo_env demo_replies) (demo_first @ take 2 demo_second) = Inr (demo_replies ! 3)"
  "le_server (demo_env demo_replies) (demo_first @ demo_second) = Inr (demo_replies ! 4)"
  by (subst demo_server [OF refl]; simp add: demo_lengths; simp add: demo_replies_def)+

lemma demo_statuses:
  "status (demo_replies ! 0) = 200" "status (demo_replies ! 1) = 412" "status (demo_replies ! 2) = 200"
  "300 \<le> status (demo_replies ! 3)" "status (demo_replies ! 3) < 400"
  "or_body (demo_replies ! 0) = Inr []" "or_body (demo_replies ! 1) = Inr []"
  "or_body (demo_replies ! 2) = Inr []" "or_location (demo_replies ! 3) \<noteq> []"
  by (simp_all add: demo_replies_def demo_reply_def)

abbreviation demo_callback :: url where
  "demo_callback \<equiv> empty_url\<lparr>u_Scheme := ''https'', u_Host := ''ring.com'', u_Path := ''/signin/callback'',
     u_RawQuery := ''code=c0de&state=61''\<rparr>"

lemma demo_callback_query:
  "query_get (Query demo_callback) ''code'' = ''c0de''" "query_get (Query demo_callback) ''state'' = hex_string ''a''"
  unfolding parts_RawQuery(4) demo_redirect(3,4) by (simp_all add: query_get_def query_values_def)

lemma demo_session_fields:
  "demo_session = \<lparr>ls_client = Some (the (ls_client demo_session)), ls_username = ''ada'', ls_password = ''pw'',
     ls_hardwareID = ''uuid'', ls_done = False\<rparr>"
  "rc_oauthBaseURI (lg_config (the (ls_client demo_session))) = OAuthBaseURL"
  "lg_pending (the (ls_client demo_session)) = None" "lg_sent (the (ls_client demo_session)) = []"
  using demo_session_state by (cases demo_session, simp)+

abbreviation demo_token :: token_response where
  "demo_token \<equiv> \<lparr>tk_AccessToken = ''at'', tk_ExpiresIn = None, tk_RefreshToken = None, tk_TokenType = ''Bearer''\<rparr>"

theorem login_with_code_completes_witness:
  "\<exists>s1 s2. LoginSession_Request2FACode (demo_env demo_replies) demo_session = (Ok (), s1)
     \<and> LoginSession_Authenticate (demo_env demo_replies) ''123456'' s1 = (Ok (auth_response_of demo_token), s2)
     \<and> login_requests s1 = demo_first \<and> login_requests s2 = demo_first @ demo_second \<and> ls_done s2"
  by (rule login_with_code_completes [OF demo_session_fields _ demo_random demo_served(1) demo_statuses(1,6) demo_csrf _
        demo_served(2) demo_statuses(2,7) demo_served(3) demo_statuses(3,8) demo_served(4) demo_statuses(4,5,9)
        demo_redirect(1,2) demo_callback_query(1) _ demo_callback_query(2) demo_served(5) demo_tokens]) simp_all

text \<open>The same exchange as an example for other theories.\<close>

lemma demo_calls:
  "\<exists>s1 s2. LoginSession_Request2FACode (demo_env demo_replies) demo_session = (Ok (), s1)
     \<and> LoginSession_Authenticate (demo_env demo_replies) ''123456'' s1 = (Ok (auth_response_of demo_token), s2)
     \<and> login_requests s2 = demo_first @ demo_second \<and> ls_done s2"
proof -
  let ?w = "the (ls_client demo_session)" and ?pk = "started_login [] ''a'' ''tok''" and ?env = "demo_env demo_replies"
  let ?w1 = "?w\<lparr>lg_sent := demo_first, lg_pending := Some ?pk\<rparr>"
  have sent: "lg_sent ?w @ rs = rs" for rs by (simp add: demo_session_fields(4))
  have "rest_Request2FACode ?env ''ada'' ''pw'' ''uuid'' ?w
      = (Ok (), ?w\<lparr>lg_sent := lg_sent ?w @ demo_first, lg_pending := Some ?pk\<rparr>)"
    by (rule Request2FACode_ok [OF demo_session_fields(2,3) demo_random _ demo_statuses(1,6) demo_csrf _ _ demo_statuses(2,7)],
        unfold sent) (simp_all add: demo_served demo_served [unfolded One_nat_def])
  then have first: "rest_Request2FACode ?env ''ada'' ''pw'' ''uuid'' ?w = (Ok (), ?w1)" unfolding sent .
  have second_requests: "completion_requests ?w1 ?pk ''123456'' ''c0de'' ''uuid'' = demo_second"
    by (simp add: completion_requests_def)
  have sent1: "lg_sent ?w1 = demo_first" by simp
  have "rest_Authenticate ?env ''ada'' ''pw'' ''uuid'' ''123456'' ?w1
      = (Ok demo_token, ?w1\<lparr>lg_sent := lg_sent ?w1 @ completion_requests ?w1 ?pk ''123456'' ''c0de'' ''uuid'', lg_pending := None\<rparr>)"
  proof (rule Authenticate_pending_ok [OF _ _ _ _ demo_statuses(3,8) _ demo_statuses(4,5,9) demo_redirect(1,2)
        demo_callback_query(1) _ _ _ demo_tokens], unfold second_requests sent1)
    show "query_get (Query demo_callback) ''state'' = pk_state ?pk"
      unfolding demo_callback_query(2) by (simp add: started_login_def)
  qed (simp_all add: demo_session_fields(2) demo_served demo_served [unfolded One_nat_def])
  then have second: "rest_Authenticate ?env ''ada'' ''pw'' ''uuid'' ''123456'' ?w1
      = (Ok demo_token, ?w1\<lparr>lg_sent := demo_first @ demo_second, lg_pending := None\<rparr>)"
    unfolding second_requests by simp
  show ?thesis
    by (subst (1) demo_session_fields(1))
       (simp add: LoginSession_Request2FACode_def first LoginSession_Authenticate_def second login_requests_def)
qed

text \<open>The steps before the sign-in leave a login pending, the sign-in leaves it as it is.\<close>

lemma initiatePKCE_pending:
  "initiatePKCE env hardwareID w = (Ok (), w') \<Longrightarrow> lg_pending w' \<noteq> None"
  by (auto simp: initiatePKCE_def Let_def lbind_def lift_def split: sum.splits prod.splits outcome.splits if_splits)

lemma exchange_pending: "lg_pending (snd (exchange env wrap req w)) = lg_pending w"
  by (simp add: exchange_def Let_def split: sum.split)

lemma lbind_pending:
  "lg_pending (snd (m w)) = lg_pending w \<Longrightarrow> (\<And>r w'. lg_pending (snd (f r w')) = lg_pending w') \<Longrightarrow>
   lg_pending (snd (lbind m f w)) = lg_pending w"
  by (cases "m w"; cases "fst (m w)") (simp_all add: lbind_def)

lemma submitCredentials_pending:
  "lg_pending (snd (submitCredentials env username password w)) = lg_pending w"
proof -
  have form: "lg_pending (snd (authFormRequest env path form w)) = lg_pending w" for path form
    by (auto simp: authFormRequest_def lfail_def lreturn_def lbind_pending exchange_pending split: sum.split)
  show ?thesis
    by (cases "lg_pending w") (simp_all add: submitCredentials_def lreturn_def lfail_def lbind_pending form)
qed

lemma Request2FACode_pending:
  "lg_pending w \<noteq> None \<Longrightarrow> rest_Request2FACode env username password hardwareID w = (Ok (), w)"
  by (auto simp: rest_Request2FACode_def rest_Authenticate_def lbind_def prepareAuthentication_def Requires2FA_classified)

text \<open>C25: After a sign-in that failed, \<open>Request2FACode\<close> of the same session reports that a code was sent, for
  ever, and sends nothing: the challenge that \<open>initiatePKCE\<close> stored is kept when the credentials are rejected
  or the sign-in request is lost, and a pending challenge is taken for a requested code.\<close>

theorem failed_sign_in_reports_code_sent:
  assumes "ls_client s = Some w" and "\<not> ls_done s" and "lg_pending w = None"
    and "initiatePKCE env (ls_hardwareID s) w = (Ok (), w1)"
    and "submitCredentials env (ls_username s) (ls_password s) w1 = (Err e, w2)"
    and "authentication_status e \<noteq> Some 404" and "\<not> IsRequires2FAError (Some e)"
  shows "LoginSession_Request2FACode env s = (Err e, s\<lparr>ls_client := Some w2\<rparr>)
     \<and> LoginSession_Request2FACode env (s\<lparr>ls_client := Some w2\<rparr>) = (Ok (), s\<lparr>ls_client := Some w2\<rparr>)
     \<and> fst (LoginSession_Authenticate env [] (s\<lparr>ls_client := Some w2\<rparr>)) = Err (NewRequires2FAError ''2FA code required'')"
proof -
  have "lg_pending w2 \<noteq> None"
    using submitCredentials_pending [of env "ls_username s" "ls_password s" w1] initiatePKCE_pending [OF assms(4)] assms(5)
    by simp
  then have again: "rest_Request2FACode env u p h w2 = (Ok (), w2)"
    "rest_Authenticate env u p h [] w2 = (Err (NewRequires2FAError ''2FA code required''), w2)" for u p h
    using Request2FACode_pending [of w2] by (simp_all add: rest_Authenticate_def lbind_def prepareAuthentication_def)
  have "startPKCE env (ls_username s) (ls_password s) (ls_hardwareID s) [] w = (Err e, w2)"
    by (simp add: startPKCE_def lbind_def assms(4,5))
  then have "rest_Request2FACode env (ls_username s) (ls_password s) (ls_hardwareID s) w = (Err e, w2)"
    using assms(3,6,7) by (simp add: rest_Request2FACode_def rest_Authenticate_def lbind_def prepareAuthentication_def)
  then show ?thesis
    using assms(1,2) again by (simp add: LoginSession_Request2FACode_def LoginSession_Authenticate_def)
qed


definition demo_refusal :: "oauth_reply list" where
  "demo_refusal = [demo_reply 200 [] JNull, demo_reply 401 [] JNull]"

theorem failed_sign_in_reports_code_sent_witness:
  "\<exists>s'. LoginSession_Request2FACode (demo_env demo_refusal) demo_session
       = (Err (AuthenticationError ''Ring sign-in rejected credentials'' 401), s')
     \<and> LoginSession_Request2FACode (demo_env demo_refusal) s' = (Ok (), s')"
proof -
  let ?w = "the (ls_client demo_session)" and ?env = "demo_env demo_refusal"
  let ?w1 = "(sent_also ?w (challenge_request ?env ''uuid'' [] ''a''))\<lparr>lg_pending := Some (started_login [] ''a'' ''tok'')\<rparr>"
  let ?form = "[(''username'', ''ada''), (''password'', ''pw''), (''csrf-token'', ''tok'')]"
  have state: "ls_client demo_session = Some ?w" "rc_oauthBaseURI (lg_config ?w) = OAuthBaseURL" "lg_pending ?w = None"
    "lg_sent ?w = []"
    by (simp_all add: demo_session_state)
  have server: "le_server ?env sent = Inr (demo_refusal ! (length sent - 1))" if "length sent \<le> 2" for sent
    using that by (intro demo_server) (simp_all add: demo_refusal_def)
  have init: "initiatePKCE ?env ''uuid'' ?w = (Ok (), ?w1)"
    unfolding started_login_def
  proof (rule initiatePKCE_ok [OF state(2)])
    show "le_server ?env (lg_sent ?w @ [challenge_request ?env ''uuid'' [] ''a'']) = Inr (demo_refusal ! 0)"
      by (subst server) (simp_all add: state(4))
    show "extractCSRF ?env [] [challenge_request ?env ''uuid'' [] ''a''] OAuthBaseURL = Ok ''tok''" by (rule demo_csrf)
    show "le_random ?env (lg_sent ?w) 32 = Inr []" "le_random ?env (lg_sent ?w) 16 = Inr ''a''"
      by (simp_all add: demo_env_def)
  qed (simp_all add: demo_refusal_def demo_reply_def)
  have form: "authFormRequest ?env OAuthSigninPath ?form ?w1
      = (Ok (demo_refusal ! 1), sent_also ?w1 (form_request ?w1 OAuthSigninPath ?form))"
    by (rule authFormRequest_ok [where body = "[]"])
       (simp_all add: state(2,4) server demo_env_def demo_refusal_def demo_reply_def)
  have doc: "\<not> sign_in_challenge (or_json (demo_refusal ! 1))" by code_simp
  have "submitCredentials ?env ''ada'' ''pw'' ?w1
      = (Err (AuthenticationError ''Ring sign-in rejected credentials'' 401), sent_also ?w1 (form_request ?w1 OAuthSigninPath ?form))"
  proof -
    have pd: "lg_pending ?w1 = Some (started_login [] ''a'' ''tok'')" by simp
    have tok: "pk_csrfToken (started_login [] ''a'' ''tok'') = ''tok''" by (simp add: started_login_def)
    show ?thesis
      unfolding submitCredentials_def pd option.case tok lbind_def form prod.case outcome.case
      using doc by (simp add: demo_refusal_def demo_reply_def str_contains_def lfail_def NewAuthenticationError_def)
  qed
  then show ?thesis
    using failed_sign_in_reports_code_sent [OF state(1) demo_session_state(5) state(3), of ?env ?w1
        "AuthenticationError ''Ring sign-in rejected credentials'' 401"] init
    by (auto simp: demo_session_state authentication_status_def errors_as_def error_chain_None
          IsRequires2FAError_def errors_as_option_def)
qed

end
