(* ===== verification/LoginSafety.thy ===== *)
theory LoginSafety
  imports LoginFlow
begin

text \<open>
  What a login does, whatever the server answers: the invariant of a login's requests, and the properties of
  login sessions.
\<close>

section \<open>Requests\<close>

lemma lt_exchange:
  assumes "\<And>w. P w \<Longrightarrow> E (w\<lparr>lg_sent := lg_sent w @ [req]\<rparr>)"
    and "\<And>w r. P w \<Longrightarrow> le_server env (lg_sent w @ [req]) = Inr r \<Longrightarrow> Q r (w\<lparr>lg_sent := lg_sent w @ [req]\<rparr>)"
  shows "ltriple P (exchange env wrap req) Q E"
  using assms by (auto simp: ltriple_def exchange_def Let_def split: sum.splits)

section \<open>The invariant\<close>

text \<open>
  The requests a login may send for the configured OAuth origin: to one of the four operations under that
  origin, an authorization request with the known parameters only, each at most once.
\<close>

definition operation_target :: "string \<Rightarrow> string \<Rightarrow> string \<Rightarrow> bool" where
  "operation_target base path t \<longleftrightarrow> operation_url (generatedServerBase base) path = Inr t"

fun request_confined :: "string \<Rightarrow> oauth_request \<Rightarrow> bool" where
  "request_confined base (AuthorizeRequest t ps) \<longleftrightarrow>
     operation_target base OAuthAuthorizePath t \<and> distinct (map fst ps)
     \<and> list_all (\<lambda>p. oauthAuthorizeParameter (fst p)) ps
     \<and> list_all (\<lambda>p. (fst p = ''response_type'' \<longrightarrow> snd p = ''code'')
          \<and> (fst p = ''code_challenge_method'' \<longrightarrow> snd p = ''S256'')
          \<and> (fst p = ''device_model'' \<longrightarrow> snd p = deviceModel)) ps"
| "request_confined base (FormRequest own t form headers) \<longleftrightarrow>
     operation_target base OAuthSigninPath t \<or> operation_target base OAuthVerifyPath t
     \<or> operation_target base OAuthTokenPath t"

text \<open>An authorization request that carried the challenge of a pending login.\<close>

definition challenge_sent :: "login_env \<Rightarrow> oauth_request list \<Rightarrow> pkce_state \<Rightarrow> bool" where
  "challenge_sent env sent pk \<longleftrightarrow>
     (\<exists>t ps. AuthorizeRequest t ps \<in> set sent
        \<and> (''code_challenge'', base64url (le_sha256 env (pk_verifier pk))) \<in> set ps
        \<and> (''code_challenge_method'', ''S256'') \<in> set ps
        \<and> (''state'', pk_state pk) \<in> set ps \<and> (''redirect_uri'', pk_redirectURI pk) \<in> set ps)"

text \<open>A reply of the server whose redirect carried the code together with the login's state.\<close>

definition code_received :: "login_env \<Rightarrow> oauth_request list \<Rightarrow> pkce_state \<Rightarrow> string \<Rightarrow> bool" where
  "code_received env sent pk code \<longleftrightarrow>
     (\<exists>n reply current next_url u. n \<le> length sent \<and> le_server env (take n sent) = Inr reply
        \<and> resolveOAuthURL current (or_location reply) = Inr next_url \<and> url_parse next_url = Inr u
        \<and> query_get (Query u) ''code'' = code \<and> query_get (Query u) ''state'' = pk_state pk)"

definition code_request_ok :: "login_env \<Rightarrow> oauth_request list \<Rightarrow> oauth_request \<Rightarrow> bool" where
  "code_request_ok env sent req \<longleftrightarrow>
     (case req of
        FormRequest own t form headers \<Rightarrow>
          (''grant_type'', ''authorization_code'') \<in> set form \<longrightarrow>
          (\<exists>pk code. challenge_sent env sent pk \<and> code_received env sent pk code
             \<and> map_of form ''code_verifier'' = Some (pk_verifier pk) \<and> map_of form ''code'' = Some code
             \<and> map_of form ''redirect_uri'' = Some (pk_redirectURI pk))
      | _ \<Rightarrow> True)"

text \<open>Every request with what was sent before it.\<close>

definition codes_ok :: "login_env \<Rightarrow> oauth_request list \<Rightarrow> bool" where
  "codes_ok env sent \<longleftrightarrow> list_all (\<lambda>i. code_request_ok env (take i sent) (sent ! i)) [0..<length sent]"

definition login_inv :: "login_env \<Rightarrow> string \<Rightarrow> login_state \<Rightarrow> bool" where
  "login_inv env base w \<longleftrightarrow>
     rc_oauthBaseURI (lg_config w) = base
     \<and> list_all (request_confined base) (lg_sent w)
     \<and> (case lg_pending w of None \<Rightarrow> True | Some pk \<Rightarrow> challenge_sent env (lg_sent w) pk)
     \<and> codes_ok env (lg_sent w)"

section \<open>Requests that may be sent\<close>

lemma authorize_params_keys:
  "map fst (authorize_params query) = filter (\<lambda>n. query_values query n \<noteq> []) oauthAuthorizeParameters"
proof -
  have "map fst (List.map_filter (authorize_param query) ns) = filter (\<lambda>n. query_values query n \<noteq> []) ns" for ns
    by (induction ns) (auto simp: authorize_param_def List.map_filter_def split: list.splits)
  then show ?thesis by (simp add: authorize_params_def)
qed

lemma authorize_params_member:
  "name \<in> set oauthAuthorizeParameters \<Longrightarrow> name \<noteq> ''dark_mode'' \<Longrightarrow>
   (name, v) \<in> set (authorize_params query) \<longleftrightarrow> (\<exists>vs. query_values query name = v # vs)"
  by (auto simp: authorize_params_def List.map_filter_def authorize_param_def split: list.splits)
     (force simp: image_iff split: list.splits)+

lemma oauthAuthorizeParameters_distinct: "distinct oauthAuthorizeParameters"
  by code_simp

lemma authorize_request_cases:
  assumes "authorize_request base current = Inr req"
  obtains u t where "url_parse current = Inr u" and "req = AuthorizeRequest t (authorize_params (Query u))"
    and "request_confined base req"
proof -
  obtain u t where u: "url_parse current = Inr u" and req: "req = AuthorizeRequest t (authorize_params (Query u))"
    and t: "operation_url (generatedServerBase base) OAuthAuthorizePath = Inr t"
    and single: "query_values (Query u) ''response_type'' \<in> {[], [''code'']}"
      "query_values (Query u) ''code_challenge_method'' \<in> {[], [''S256'']}"
      "query_values (Query u) ''device_model'' \<in> {[], [deviceModel]}"
    using assms by (auto simp: authorize_request_def Let_def bad_request_def split: sum.splits if_splits)
  let ?ps = "authorize_params (Query u)"
  have one: "v = x" if "(name, v) \<in> set ?ps" "name \<in> set oauthAuthorizeParameters" "name \<noteq> ''dark_mode''"
    "query_values (Query u) name \<in> {[], [x]}" for name v x
    using authorize_params_member [OF that(2,3)] that(1,4) by auto
  have names: "''response_type'' \<in> set oauthAuthorizeParameters" "''code_challenge_method'' \<in> set oauthAuthorizeParameters"
    "''device_model'' \<in> set oauthAuthorizeParameters"
    by (simp_all add: oauthAuthorizeParameters_def)
  have "distinct (map fst ?ps)"
    by (simp add: authorize_params_keys oauthAuthorizeParameters_distinct)
  moreover have "fst p \<in> set oauthAuthorizeParameters" if "p \<in> set ?ps" for p
  proof -
    have "fst p \<in> set (map fst ?ps)" using that by simp
    then show ?thesis unfolding authorize_params_keys by simp
  qed
  moreover have "(fst p = ''response_type'' \<longrightarrow> snd p = ''code'')
          \<and> (fst p = ''code_challenge_method'' \<longrightarrow> snd p = ''S256'')
          \<and> (fst p = ''device_model'' \<longrightarrow> snd p = deviceModel)" if "p \<in> set ?ps" for p
    using one [OF _ names(1) _ single(1)] one [OF _ names(2) _ single(2)] one [OF _ names(3) _ single(3)] that
    by (cases p) auto
  ultimately have "request_confined base req"
    using t by (simp add: req operation_target_def oauthAuthorizeParameter_def list_all_iff)
  with u req show ?thesis by (rule that)
qed

lemma challenge_sent_mono: "challenge_sent env sent pk \<Longrightarrow> challenge_sent env (sent @ later) pk"
  by (auto simp: challenge_sent_def)

lemma code_received_mono:
  assumes "code_received env sent pk code" shows "code_received env (sent @ later) pk code"
proof -
  from assms obtain n reply current next_url u where h: "n \<le> length sent" "le_server env (take n sent) = Inr reply"
      "resolveOAuthURL current (or_location reply) = Inr next_url" "url_parse next_url = Inr u"
      "query_get (Query u) ''code'' = code" "query_get (Query u) ''state'' = pk_state pk"
    unfolding code_received_def by blast
  moreover have "n \<le> length (sent @ later)" "take n (sent @ later) = take n sent" using h(1) by simp_all
  ultimately show ?thesis unfolding code_received_def by metis
qed

lemma codes_ok_append: "codes_ok env (sent @ [req]) \<longleftrightarrow> codes_ok env sent \<and> code_request_ok env sent req"
  by (auto simp: codes_ok_def list_all_iff nth_append)

lemma codes_ok_split: "codes_ok env (before @ req # later) \<Longrightarrow> code_request_ok env before req"
  unfolding codes_ok_def list_all_iff by (drule bspec [where x = "length before"]) simp_all

lemma login_inv_send:
  "login_inv env base w \<Longrightarrow> request_confined base req \<Longrightarrow> code_request_ok env (lg_sent w) req
   \<Longrightarrow> login_inv env base (w\<lparr>lg_sent := lg_sent w @ [req]\<rparr>)"
  by (auto simp: login_inv_def codes_ok_append challenge_sent_mono split: option.splits)

text \<open>The invariant with a fixed pending login, which most operations leave alone.\<close>

definition pending_inv :: "login_env \<Rightarrow> string \<Rightarrow> pkce_state option \<Rightarrow> login_state \<Rightarrow> bool" where
  "pending_inv env base pd w \<longleftrightarrow> login_inv env base w \<and> lg_pending w = pd"

lemma pending_inv_base: "pending_inv env base pd w \<Longrightarrow> rc_oauthBaseURI (lg_config w) = base"
  by (simp add: pending_inv_def login_inv_def)

lemma pending_inv_challenge: "pending_inv env base (Some pk) w \<Longrightarrow> challenge_sent env (lg_sent w) pk"
  by (auto simp: pending_inv_def login_inv_def)

lemma pending_inv_send:
  "pending_inv env base pd w \<Longrightarrow> request_confined base req \<Longrightarrow> code_request_ok env (lg_sent w) req
   \<Longrightarrow> pending_inv env base pd (w\<lparr>lg_sent := lg_sent w @ [req]\<rparr>)"
  by (simp add: pending_inv_def login_inv_send)

lemma code_request_ok_authorize [simp]: "code_request_ok env sent (AuthorizeRequest t ps)"
  by (simp add: code_request_ok_def)

lemma code_request_ok_other:
  "(''grant_type'', ''authorization_code'') \<notin> set form \<Longrightarrow> code_request_ok env sent (FormRequest own t form hs)"
  by (simp add: code_request_ok_def)

section \<open>The invariant through the operations\<close>

text \<open>Sending an authorization request: the reply is the server's to all that was sent.\<close>

definition first_sent :: "string \<Rightarrow> string \<Rightarrow> login_state \<Rightarrow> bool" where
  "first_sent base current w \<longleftrightarrow> (\<exists>req\<in>set (lg_sent w). authorize_request base current = Inr req)"

lemma lt_sendOAuthAuthorize:
  assumes stable: "\<And>w req. P w \<Longrightarrow> pending_inv env base pd w \<Longrightarrow> P (w\<lparr>lg_sent := lg_sent w @ [req]\<rparr>)"
  shows "ltriple (\<lambda>w. pending_inv env base pd w \<and> P w) (sendOAuthAuthorize env current)
     (\<lambda>r w. pending_inv env base pd w \<and> P w \<and> first_sent base current w \<and> le_server env (lg_sent w) = Inr r)
     (\<lambda>w. pending_inv env base pd w \<and> P w)"
proof -
  have "ltriple (\<lambda>w. w = w0) (lbind (lift (or_fail (authorize_request (rc_oauthBaseURI (lg_config w0)) current)))
          (exchange env (\<lambda>e. NewNetworkError ''OAuth authorization request failed'' (Some e))))
     (\<lambda>r w. pending_inv env base pd w \<and> P w \<and> first_sent base current w \<and> le_server env (lg_sent w) = Inr r)
     (\<lambda>w. pending_inv env base pd w \<and> P w)" if w0: "pending_inv env base pd w0 \<and> P w0" for w0
  proof (rule lt_bind [where R = "\<lambda>req w. w = w0 \<and> authorize_request base current = Inr req"])
    show "ltriple (\<lambda>w. w = w0) (lift (or_fail (authorize_request (rc_oauthBaseURI (lg_config w0)) current)))
        (\<lambda>req w. w = w0 \<and> authorize_request base current = Inr req) (\<lambda>w. pending_inv env base pd w \<and> P w)"
      using w0 pending_inv_base by (intro lt_lift) (auto simp: or_fail_def split: sum.splits)
    show "ltriple (\<lambda>w. w = w0 \<and> authorize_request base current = Inr req)
        (exchange env (\<lambda>e. NewNetworkError ''OAuth authorization request failed'' (Some e)) req)
        (\<lambda>r w. pending_inv env base pd w \<and> P w \<and> first_sent base current w \<and> le_server env (lg_sent w) = Inr r)
        (\<lambda>w. pending_inv env base pd w \<and> P w)" for req
    proof (rule lt_exchange)
      fix w
      assume w: "w = w0 \<and> authorize_request base current = Inr req"
      then obtain u t where req: "req = AuthorizeRequest t (authorize_params (Query u))" "request_confined base req"
        using authorize_request_cases [of base current req] by metis
      have inv: "pending_inv env base pd (w\<lparr>lg_sent := lg_sent w @ [req]\<rparr>)"
        using w w0 req by (intro pending_inv_send) simp_all
      moreover have P: "P (w\<lparr>lg_sent := lg_sent w @ [req]\<rparr>)" using w w0 stable by blast
      ultimately show "pending_inv env base pd (w\<lparr>lg_sent := lg_sent w @ [req]\<rparr>) \<and> P (w\<lparr>lg_sent := lg_sent w @ [req]\<rparr>)"
        by (rule conjI)
      fix r
      assume "le_server env (lg_sent w @ [req]) = Inr r"
      with inv P w show "pending_inv env base pd (w\<lparr>lg_sent := lg_sent w @ [req]\<rparr>) \<and> P (w\<lparr>lg_sent := lg_sent w @ [req]\<rparr>)
          \<and> first_sent base current (w\<lparr>lg_sent := lg_sent w @ [req]\<rparr>)
          \<and> le_server env (lg_sent (w\<lparr>lg_sent := lg_sent w @ [req]\<rparr>)) = Inr r"
        by (simp add: first_sent_def)
    qed
  qed
  then show ?thesis unfolding ltriple_def sendOAuthAuthorize_def by simp
qed

definition send_stable :: "(login_state \<Rightarrow> bool) \<Rightarrow> bool" where
  "send_stable P \<longleftrightarrow> (\<forall>w req. P w \<longrightarrow> P (w\<lparr>lg_sent := lg_sent w @ [req]\<rparr>))"

lemma send_stable_first: "send_stable (first_sent base current)" "send_stable (\<lambda>w. True)"
  by (auto simp: send_stable_def first_sent_def)

lemma lt_authorize:
  "send_stable P \<Longrightarrow>
   ltriple (\<lambda>w. pending_inv env base pd w \<and> P w) (sendOAuthAuthorize env current)
     (\<lambda>r w. pending_inv env base pd w \<and> P w \<and> first_sent base current w \<and> le_server env (lg_sent w) = Inr r)
     (\<lambda>w. pending_inv env base pd w \<and> P w)"
  by (rule lt_sendOAuthAuthorize) (simp add: send_stable_def)

lemma lt_sign_in_page:
  assumes "send_stable P"
  shows "ltriple (\<lambda>w. pending_inv env base pd w \<and> P w) (sign_in_page env n current)
     (\<lambda>_ w. pending_inv env base pd w \<and> P w) (\<lambda>w. pending_inv env base pd w \<and> P w)"
proof (induction n arbitrary: current)
  case 0
  show ?case by (simp add: lt_return)
next
  case (Suc n)
  show ?case
    unfolding sign_in_page.simps
    by (rule lt_bind [OF lt_authorize [OF assms]])
       (auto intro!: lt_fail lt_return lt_weaken [OF Suc] split: sum.split)
qed

lemma lt_sign_in_first:
  "ltriple (pending_inv env base pd) (sign_in_page env (Suc n) current)
     (\<lambda>_ w. pending_inv env base pd w \<and> first_sent base current w) (pending_inv env base pd)"
proof -
  have pre: "ltriple (pending_inv env base pd) (sendOAuthAuthorize env current)
      (\<lambda>r w. pending_inv env base pd w \<and> first_sent base current w) (pending_inv env base pd)"
    by (rule lt_weaken [OF lt_authorize [OF send_stable_first(2)]]) auto
  show ?thesis
    unfolding sign_in_page.simps
    by (rule lt_bind [OF pre])
       (auto intro!: lt_fail lt_return lt_weaken [OF lt_sign_in_page [OF send_stable_first(1)]] split: sum.split)
qed

text \<open>The URL a login starts from carries its challenge.\<close>

lemma first_challenge_sent:
  assumes base: "CHR ''?'' \<notin> set base" "CHR ''#'' \<notin> set base"
    and first: "first_sent base (trim_suffix base ''/'' @ OAuthAuthorizePath @ ''?'' @
        Encode (oauthAuthorizationValues redirect state hardwareID (le_sha256 env verifier))) w"
  shows "challenge_sent env (lg_sent w)
     \<lparr>pk_verifier = verifier, pk_state = state, pk_csrfToken = csrf, pk_redirectURI = redirect\<rparr>"
proof -
  let ?kvs = "oauthAuthorizationValues redirect state hardwareID (le_sha256 env verifier)"
  let ?a = "trim_suffix base ''/'' @ OAuthAuthorizePath"
  have "set (trim_suffix base ''/'') \<subseteq> set base" by (auto simp: trim_suffix_def dest: in_set_takeD)
  then have no: "CHR ''?'' \<notin> set ?a" "CHR ''#'' \<notin> set ?a" using base by auto
  have ne: "?kvs \<noteq> []" by (simp add: oauthAuthorizationValues_def)
  from first obtain req where req: "req \<in> set (lg_sent w)" "authorize_request base (?a @ ''?'' @ Encode ?kvs) = Inr req"
    by (auto simp: first_sent_def)
  from req(2) obtain u t where u: "url_parse (?a @ ''?'' @ Encode ?kvs) = Inr u"
      "req = AuthorizeRequest t (authorize_params (Query u))"
    by (rule authorize_request_cases)
  have "u_RawQuery u = Encode ?kvs"
    by (rule url_parse_RawQuery [OF u(1) no]) (use Encode_query ne in auto)
  then have vals: "query_values (Query u) k = query_values ?kvs k" for k
    by (simp add: Query_def query_values_Encode)
  have "(k, v) \<in> set (authorize_params (Query u))"
    if "k \<in> set oauthAuthorizeParameters" "k \<noteq> ''dark_mode''" "query_values ?kvs k = [v]" for k v
    using that by (simp add: authorize_params_member vals)
  from this [of "''code_challenge''"] this [of "''code_challenge_method''"] this [of "''state''"] this [of "''redirect_uri''"]
  show ?thesis
    using req(1) u(2) unfolding challenge_sent_def
    by (intro exI [of _ t] exI [of _ "authorize_params (Query u)"])
       (simp add: oauthAuthorizeParameters_def oauthAuthorizationValues_def query_values_def)
qed

lemma login_inv_pending:
  "login_inv env base w \<Longrightarrow> challenge_sent env (lg_sent w) pk \<Longrightarrow> login_inv env base (w\<lparr>lg_pending := Some pk\<rparr>)"
  by (simp add: login_inv_def)

lemma challenge_sent_csrf:
  "challenge_sent env sent (pk\<lparr>pk_csrfToken := csrf\<rparr>) = challenge_sent env sent pk"
  by (simp add: challenge_sent_def)

lemma lt_initiatePKCE:
  assumes base: "CHR ''?'' \<notin> set base" "CHR ''#'' \<notin> set base"
  shows "ltriple (pending_inv env base pd) (initiatePKCE env hardwareID)
     (\<lambda>_ w. login_inv env base w \<and> lg_pending w \<noteq> None) (login_inv env base)"
proof (rule lt_via)
  fix w
  assume w: "pending_inv env base pd w"
  have b: "rc_oauthBaseURI (lg_config w) = base" using w by (rule pending_inv_base)
  have weak: "pending_inv env base pd w' \<Longrightarrow> login_inv env base w'" for w'
    by (simp add: pending_inv_def)
  let ?Q = "\<lambda>_ w. login_inv env base w \<and> lg_pending w \<noteq> None" and ?E = "login_inv env base"
  show "\<exists>m'. initiatePKCE env hardwareID w = m' w \<and> ltriple (pending_inv env base pd) m' ?Q ?E"
  proof (cases "le_random env (lg_sent w) 32")
    case (Inl e)
    then show ?thesis
      by (intro exI [where x = "\<lambda>w. (Err (NewInternalServerError ''failed to generate PKCE verifier'' (Some e)), w)"]
            conjI lt_const(1) weak)
         (simp_all add: initiatePKCE_def Let_def)
  next
    case v: (Inr vb)
    show ?thesis
    proof (cases "le_random env (lg_sent w) 16")
      case (Inl e)
      then show ?thesis
        by (intro exI [where x = "\<lambda>w. (Err (NewInternalServerError ''failed to generate OAuth state'' (Some e)), w)"]
              conjI lt_const(1) weak)
           (simp_all add: initiatePKCE_def Let_def v)
    next
      case s: (Inr sb)
      let ?url = "trim_suffix base ''/'' @ OAuthAuthorizePath @ ''?'' @ Encode
          (oauthAuthorizationValues OAuthCallbackURL (hex_string sb) hardwareID (le_sha256 env (base64url vb)))"
      let ?m = "lbind (sign_in_page env 5 ?url) (\<lambda>html w'.
            lbind (lift (extractCSRF env html (drop (length (lg_sent w)) (lg_sent w')) base)) (\<lambda>csrfToken w'.
              if csrfToken = []
              then (Err (NewAuthenticationError ''unable to extract CSRF token from Ring OAuth page'' 401), w')
              else (Ok (), w'\<lparr>lg_pending :=
                      Some \<lparr>pk_verifier = base64url vb, pk_state = hex_string sb, pk_csrfToken = csrfToken,
                            pk_redirectURI = OAuthCallbackURL\<rparr>\<rparr>)) w')"
      let ?R = "\<lambda>w. pending_inv env base pd w \<and> first_sent base ?url w"
      have eq: "initiatePKCE env hardwareID w = ?m w"
        unfolding initiatePKCE_def Let_def b v s sum.case ..
      have last: "login_inv env base (w'\<lparr>lg_pending := Some \<lparr>pk_verifier = base64url vb,
          pk_state = hex_string sb, pk_csrfToken = csrf, pk_redirectURI = OAuthCallbackURL\<rparr>\<rparr>)" if "?R w'" for w' csrf
        using that by (intro login_inv_pending first_challenge_sent [OF base, where hardwareID = hardwareID])
             (simp_all add: weak)
      have sp: "ltriple (pending_inv env base pd) (sign_in_page env 5 ?url) (\<lambda>_. ?R) ?E"
      proof -
        have five: "(5::nat) = Suc 4" by simp
        show ?thesis unfolding five by (rule lt_weaken [OF lt_sign_in_first]) (assumption | erule weak)+
      qed
      have "ltriple (pending_inv env base pd) ?m ?Q ?E"
      proof (rule lt_bind [OF sp], rule lt_via)
        fix html and w' :: login_state
        let ?c = "extractCSRF env html (drop (length (lg_sent w)) (lg_sent w')) base"
        assume "?R w'"
        have "ltriple ?R (lbind (lift ?c) (\<lambda>csrfToken w'.
              if csrfToken = []
              then (Err (NewAuthenticationError ''unable to extract CSRF token from Ring OAuth page'' 401), w')
              else (Ok (), w'\<lparr>lg_pending :=
                      Some \<lparr>pk_verifier = base64url vb, pk_state = hex_string sb, pk_csrfToken = csrfToken,
                            pk_redirectURI = OAuthCallbackURL\<rparr>\<rparr>))) ?Q ?E"
          by (rule lt_bind [where R = "\<lambda>_. ?R"], rule lt_lift) (auto simp: ltriple_def weak intro: last)
        then show "\<exists>m'. lbind (lift ?c) (\<lambda>csrfToken w'.
              if csrfToken = []
              then (Err (NewAuthenticationError ''unable to extract CSRF token from Ring OAuth page'' 401), w')
              else (Ok (), w'\<lparr>lg_pending :=
                      Some \<lparr>pk_verifier = base64url vb, pk_state = hex_string sb, pk_csrfToken = csrfToken,
                            pk_redirectURI = OAuthCallbackURL\<rparr>\<rparr>)) w' = m' w' \<and> ltriple ?R m' ?Q ?E"
          by blast
      qed
      with eq show ?thesis by blast
    qed
  qed
qed


lemma lt_authFormRequest:
  assumes "(''grant_type'', ''authorization_code'') \<notin> set form"
  shows "ltriple (pending_inv env base pd) (authFormRequest env path form)
     (\<lambda>_. pending_inv env base pd) (pending_inv env base pd)"
proof (rule lt_via)
  fix w
  let ?P = "pending_inv env base pd"
  assume w: "?P w"
  have b: "rc_oauthBaseURI (lg_config w) = base" using w by (rule pending_inv_base)
  show "\<exists>m'. authFormRequest env path form w = m' w \<and> ltriple ?P m' (\<lambda>_. ?P) ?P"
  proof (cases "path = OAuthSigninPath \<or> path = OAuthVerifyPath")
    case False
    then show ?thesis
      by (intro exI [where x = "\<lambda>w. (Err (NewBadRequestError ''unsupported OAuth form route'' None), w)"]
            conjI lt_const(1)) (simp_all add: authFormRequest_def)
  next
    case path: True
    show ?thesis
    proof (cases "operation_url (generatedServerBase base) path")
      case (Inl e)
      with path b show ?thesis
        by (intro exI [where x = "\<lambda>w. (Err (NewNetworkError ''failed to create OAuth request'' (Some (parse_error e))), w)"]
              conjI lt_const(1)) (auto simp: authFormRequest_def)
    next
      case t: (Inr t)
      let ?req = "FormRequest True t form
        [(''Content-Type'', ''application/x-www-form-urlencoded''), (''User-Agent'', rc_userAgent (lg_config w))]"
      let ?k = "\<lambda>resp. (case or_body resp of
                          Inl e \<Rightarrow> lfail (NewNetworkError ''failed to read OAuth response'' (Some e))
                        | Inr _ \<Rightarrow> lreturn resp)"
      let ?m = "lbind (exchange env (\<lambda>e. NewNetworkError ''OAuth request failed'' (Some e)) ?req) ?k"
      have eq: "authFormRequest env path form w = ?m w"
        using path by (auto simp: authFormRequest_def b t)
      have "request_confined base ?req" using path t by (auto simp: operation_target_def)
      then have send: "?P (w'\<lparr>lg_sent := lg_sent w' @ [?req]\<rparr>)" if "?P w'" for w'
        using that assms by (intro pending_inv_send code_request_ok_other)
      have "ltriple ?P ?m (\<lambda>_. ?P) ?P"
      proof (rule lt_bind)
        show "ltriple ?P (exchange env (\<lambda>e. NewNetworkError ''OAuth request failed'' (Some e)) ?req) (\<lambda>_. ?P) ?P"
          by (intro lt_exchange send)
        show "ltriple ?P (?k resp) (\<lambda>_. ?P) ?P" for resp
          by (cases "or_body resp") (simp_all add: lt_fail lt_return)
      qed
      with eq show ?thesis by blast
    qed
  qed
qed

lemma lt_submitCredentials:
  "ltriple (pending_inv env base pd) (submitCredentials env username password)
     (\<lambda>_. pending_inv env base pd) (pending_inv env base pd)"
proof (rule lt_via)
  fix w
  let ?P = "pending_inv env base pd"
  assume w: "?P w"
  then have pd: "lg_pending w = pd" by (simp add: pending_inv_def)
  show "\<exists>m'. submitCredentials env username password w = m' w \<and> ltriple ?P m' (\<lambda>_. ?P) ?P"
  proof (cases pd)
    case None
    then show ?thesis
      by (intro exI [where x = "\<lambda>w. (Panic, w)"] conjI lt_const(2)) (simp_all add: submitCredentials_def pd)
  next
    case (Some pk)
    show ?thesis
      unfolding submitCredentials_def pd Some option.case
      by (rule exI, rule conjI, rule refl, rule lt_bind [OF lt_authFormRequest])
         (auto simp: lt_fail lt_return)
  qed
qed

lemma lt_verify2FA:
  "ltriple (pending_inv env base pd) (verify2FA env code) (\<lambda>_. pending_inv env base pd) (pending_inv env base pd)"
proof (rule lt_via)
  fix w
  let ?P = "pending_inv env base pd"
  assume w: "?P w"
  then have pd: "lg_pending w = pd" by (simp add: pending_inv_def)
  show "\<exists>m'. verify2FA env code w = m' w \<and> ltriple ?P m' (\<lambda>_. ?P) ?P"
  proof (cases pd)
    case None
    then show ?thesis
      by (intro exI [where x = "\<lambda>w. (Panic, w)"] conjI lt_const(2)) (simp_all add: verify2FA_def pd)
  next
    case (Some pk)
    show ?thesis
      unfolding verify2FA_def pd Some option.case
      by (rule exI, rule conjI, rule refl, rule lt_bind [OF lt_authFormRequest])
         (auto simp: lt_fail lt_return)
  qed
qed


text \<open>The redirects of the authorization: a code comes with the state the login sent.\<close>

lemma lt_authorization_redirects:
  "ltriple (pending_inv env base (Some pk)) (authorization_redirects env pk n current)
     (\<lambda>code w. pending_inv env base (Some pk) w \<and> code_received env (lg_sent w) pk code)
     (pending_inv env base (Some pk))"
proof (induction n arbitrary: current)
  case 0
  show ?case by (simp add: lt_fail)
next
  case (Suc n)
  let ?P = "pending_inv env base (Some pk)"
  let ?Q = "\<lambda>code w. ?P w \<and> code_received env (lg_sent w) pk code"
  have pre: "ltriple ?P (sendOAuthAuthorize env current) (\<lambda>r w. ?P w \<and> le_server env (lg_sent w) = Inr r) ?P"
    by (rule lt_weaken [OF lt_authorize [OF send_stable_first(2)]]) auto
  have code: "code_received env (lg_sent w) pk (query_get (Query u) ''code'')"
    if "le_server env (lg_sent w) = Inr r" "resolveOAuthURL current (or_location r) = Inr next_url"
      "url_parse next_url = Inr u" "query_get (Query u) ''state'' = pk_state pk" for w r next_url u
    using that unfolding code_received_def
    by (intro exI [where x = "length (lg_sent w)"] exI [where x = r] exI [where x = current]
          exI [where x = next_url] exI [where x = u]) simp_all
  show ?case
    unfolding authorization_redirects.simps
  proof (rule lt_bind [OF pre])
    fix r
    show "ltriple (\<lambda>w. ?P w \<and> le_server env (lg_sent w) = Inr r)
       (if status r < 300 \<or> 400 \<le> status r \<or> or_location r = []
        then lfail (NewAuthenticationError ''OAuth authorize endpoint did not redirect'' (status r))
        else
          (case resolveOAuthURL current (or_location r) of
             Inl _ \<Rightarrow> lfail (NewAuthenticationError ''invalid OAuth authorization redirect'' (status r))
           | Inr next_url \<Rightarrow>
               (case url_parse next_url of
                  Inl _ \<Rightarrow> authorization_redirects env pk n next_url
                | Inr redirect \<Rightarrow>
                    if query_get (Query redirect) ''code'' \<noteq> [] then
                      if query_get (Query redirect) ''state'' \<noteq> pk_state pk
                      then lfail (NewAuthenticationError ''OAuth state mismatch'' 401)
                      else lreturn (query_get (Query redirect) ''code'')
                    else authorization_redirects env pk n next_url))) ?Q ?P"
      by (auto split: sum.split intro!: lt_fail lt_return code lt_weaken [OF Suc])
  qed
qed

lemma lt_authorizationCode:
  "ltriple (pending_inv env base (Some pk)) (authorizationCode env)
     (\<lambda>code w. pending_inv env base (Some pk) w \<and> code_received env (lg_sent w) pk code)
     (pending_inv env base (Some pk))"
proof (rule lt_via)
  fix w
  assume w: "pending_inv env base (Some pk) w"
  then have "lg_pending w = Some pk" by (simp add: pending_inv_def)
  then show "\<exists>m'. authorizationCode env w = m' w \<and> ltriple (pending_inv env base (Some pk)) m'
     (\<lambda>code w. pending_inv env base (Some pk) w \<and> code_received env (lg_sent w) pk code)
     (pending_inv env base (Some pk))"
    by (intro exI [where x = "authorization_redirects env pk 5 (trim_suffix base ''/'' @ OAuthAuthorizePath)"]
          conjI lt_authorization_redirects) (simp add: authorizationCode_def pending_inv_base [OF w])
qed

text \<open>Token requests: the form has to be allowed in every state from which it is sent.\<close>

lemma lt_token_request:
  assumes "\<And>w t headers. P w \<Longrightarrow> pending_inv env base pd w
      \<Longrightarrow> code_request_ok env (lg_sent w) (FormRequest own t form headers)"
  shows "ltriple (\<lambda>w. pending_inv env base pd w \<and> P w) (token_request env own be se form headers)
     (\<lambda>_. pending_inv env base pd) (pending_inv env base pd)"
proof (rule lt_via)
  fix w
  let ?P = "\<lambda>w. pending_inv env base pd w \<and> P w" and ?Q = "pending_inv env base pd"
  assume w: "?P w"
  then have b: "rc_oauthBaseURI (lg_config w) = base" using pending_inv_base by blast
  show "\<exists>m'. token_request env own be se form headers w = m' w \<and> ltriple ?P m' (\<lambda>_. ?Q) ?Q"
  proof (cases "operation_url (generatedServerBase base) OAuthTokenPath")
    case (Inl e)
    with b show ?thesis
      by (intro exI [where x = "\<lambda>w. (Err (NewNetworkError be (Some (parse_error e))), w)"] conjI lt_const(1))
         (simp_all add: token_request_def)
  next
    case t: (Inr t)
    let ?req = "FormRequest own t form headers"
    have "request_confined base ?req" using t by (simp add: operation_target_def)
    then have "?Q (w'\<lparr>lg_sent := lg_sent w' @ [?req]\<rparr>)" if "?P w'" for w'
      using that assms [of w' t headers] by (intro pending_inv_send) simp_all
    then have "ltriple ?P (exchange env (\<lambda>e. NewNetworkError se (Some e)) ?req) (\<lambda>_. ?Q) ?Q"
      by (intro lt_exchange) simp_all
    moreover have "ltriple ?Q (lift (or_fail (decodeTokenResponse resp))) (\<lambda>_. ?Q) ?Q" for resp
      by (rule lt_lift)
    ultimately have "ltriple ?P (lbind (exchange env (\<lambda>e. NewNetworkError se (Some e)) ?req)
        (\<lambda>resp. lift (or_fail (decodeTokenResponse resp)))) (\<lambda>_. ?Q) ?Q"
      by (rule lt_bind)
    moreover have "token_request env own be se form headers w =
        lbind (exchange env (\<lambda>e. NewNetworkError se (Some e)) ?req)
        (\<lambda>resp. lift (or_fail (decodeTokenResponse resp))) w"
      by (simp add: token_request_def b t)
    ultimately show ?thesis by blast
  qed
qed

text \<open>The refresh and password grants carry no authorization code.\<close>

lemma lt_other_token_request:
  assumes "(''grant_type'', ''authorization_code'') \<notin> set form"
  shows "ltriple (pending_inv env base pd) (token_request env own be se form headers)
     (\<lambda>_. pending_inv env base pd) (pending_inv env base pd)"
  by (rule lt_weaken [OF lt_token_request [where P = "\<lambda>_. True"]]) (simp_all add: assms code_request_ok_other)

lemma lt_refreshAccessToken:
  "ltriple (pending_inv env base pd) (refreshAccessToken env refreshToken hardwareID)
     (\<lambda>_. pending_inv env base pd) (pending_inv env base pd)"
  by (rule lt_via) (unfold refreshAccessToken_def, rule exI, rule conjI [OF refl], rule lt_other_token_request, simp)

lemma lt_authenticateLegacy:
  "ltriple (pending_inv env base pd) (authenticateLegacy env username password hardwareID otpCode)
     (\<lambda>_. pending_inv env base pd) (pending_inv env base pd)"
  by (rule lt_via) (unfold authenticateLegacy_def, rule exI, rule conjI [OF refl], rule lt_other_token_request, simp)

lemma lt_exchangeAuthorizationCode:
  "ltriple (\<lambda>w. pending_inv env base (Some pk) w \<and> code_received env (lg_sent w) pk code)
     (exchangeAuthorizationCode env code hardwareID)
     (\<lambda>_. pending_inv env base (Some pk)) (pending_inv env base (Some pk))"
proof (rule lt_via)
  fix w
  let ?P = "\<lambda>w. pending_inv env base (Some pk) w \<and> code_received env (lg_sent w) pk code"
  let ?form = "[(''code'', code), (''grant_type'', ''authorization_code''), (''redirect_uri'', pk_redirectURI pk),
             (''code_verifier'', pk_verifier pk), (''client_id'', RingClientID)]"
  assume w: "?P w"
  then have pk: "lg_pending w = Some pk" by (simp add: pending_inv_def)
  have ok: "code_request_ok env (lg_sent w') (FormRequest own t ?form headers)"
    if "code_received env (lg_sent w') pk code" "pending_inv env base (Some pk) w'" for w' own t headers
  proof -
    have "challenge_sent env (lg_sent w') pk" using that(2) by (rule pending_inv_challenge)
    with that(1) show ?thesis
      unfolding code_request_ok_def oauth_request.case
      by (intro impI exI [where x = pk] exI [where x = code]) simp
  qed
  show "\<exists>m'. exchangeAuthorizationCode env code hardwareID w = m' w \<and>
      ltriple ?P m' (\<lambda>_. pending_inv env base (Some pk)) (pending_inv env base (Some pk))"
    unfolding exchangeAuthorizationCode_def pk option.case
    by (rule exI, rule conjI [OF refl], rule lt_token_request) (erule (1) ok)
qed


text \<open>A login with an open challenge.\<close>

definition opened :: "login_env \<Rightarrow> string \<Rightarrow> login_state \<Rightarrow> bool" where
  "opened env base w \<longleftrightarrow> login_inv env base w \<and> lg_pending w \<noteq> None"

lemma lt_opened:
  assumes "\<And>pd. ltriple (pending_inv env base pd) m (\<lambda>_. pending_inv env base pd) (pending_inv env base pd)"
  shows "ltriple (opened env base) m (\<lambda>_. opened env base) (opened env base)"
    "ltriple (login_inv env base) m (\<lambda>_. login_inv env base) (login_inv env base)"
proof -
  have *: "case fst (m w) of Ok x \<Rightarrow> pending_inv env base (lg_pending w) (snd (m w))
      | _ \<Rightarrow> pending_inv env base (lg_pending w) (snd (m w))" if "login_inv env base w" for w
    by (rule ltripleD [OF assms]) (simp add: that pending_inv_def)
  show "ltriple (opened env base) m (\<lambda>_. opened env base) (opened env base)"
    using * unfolding ltriple_def opened_def pending_inv_def by (fastforce split: outcome.splits)
  show "ltriple (login_inv env base) m (\<lambda>_. login_inv env base) (login_inv env base)"
    using * unfolding ltriple_def pending_inv_def by (fastforce split: outcome.splits)
qed

lemma opened_inv: "opened env base w \<Longrightarrow> login_inv env base w"
  by (simp add: opened_def)

lemma lt_startPKCE:
  assumes base: "CHR ''?'' \<notin> set base" "CHR ''#'' \<notin> set base"
  shows "ltriple (login_inv env base) (startPKCE env username password hardwareID otpCode)
     (\<lambda>_. opened env base) (login_inv env base)"
  unfolding startPKCE_def
proof (rule lt_bind)
  have "ltriple (\<lambda>w'. w' = w) (initiatePKCE env hardwareID) (\<lambda>_. opened env base) (login_inv env base)"
    if "login_inv env base w" for w
    using that
    by (intro lt_weaken [OF lt_initiatePKCE [OF base, of env "lg_pending w" hardwareID]])
       (simp_all add: pending_inv_def opened_def)
  then show "ltriple (login_inv env base) (initiatePKCE env hardwareID) (\<lambda>_. opened env base) (login_inv env base)"
    by (simp add: ltriple_def)
next
  let ?k = "\<lambda>requires2FA.
       if requires2FA \<and> otpCode = [] then lfail (NewRequires2FAError ''2FA code required'')
       else if requires2FA then verify2FA env otpCode
       else lreturn ()"
  have "ltriple (opened env base) (?k requires2FA) (\<lambda>_. opened env base) (opened env base)" for requires2FA
    by (simp add: lt_fail lt_return lt_opened(1) [OF lt_verify2FA])
  then have "ltriple (opened env base) (lbind (submitCredentials env username password) ?k)
      (\<lambda>_. opened env base) (opened env base)"
    by (rule lt_bind [OF lt_opened(1) [OF lt_submitCredentials]])
  then show "ltriple (opened env base) (lbind (submitCredentials env username password) ?k)
      (\<lambda>_. opened env base) (login_inv env base)"
    by (rule lt_weaken) (auto intro: opened_inv)
qed

lemma lt_prepareAuthentication:
  assumes base: "CHR ''?'' \<notin> set base" "CHR ''#'' \<notin> set base"
  shows "ltriple (login_inv env base) (prepareAuthentication env username password hardwareID otpCode)
     (\<lambda>fallback w. if fallback then login_inv env base w else opened env base w) (login_inv env base)"
  unfolding ltriple_def
proof (intro allI impI)
  fix w
  assume w: "login_inv env base w"
  let ?m = "prepareAuthentication env username password hardwareID otpCode"
  show "case fst (?m w) of Ok x \<Rightarrow> if x then login_inv env base (snd (?m w)) else opened env base (snd (?m w))
      | _ \<Rightarrow> login_inv env base (snd (?m w))"
  proof (cases "lg_pending w")
    case None
    from ltripleD [OF lt_startPKCE [OF base] w, of username password hardwareID otpCode] show ?thesis
      by (cases "startPKCE env username password hardwareID otpCode w";
          cases "fst (startPKCE env username password hardwareID otpCode w)")
         (auto simp: prepareAuthentication_def None opened_inv)
  next
    case (Some pk)
    have "ltriple (opened env base) (lbind (verify2FA env otpCode) (\<lambda>_. lreturn False))
        (\<lambda>fallback w. \<not> fallback \<and> opened env base w) (opened env base)"
      by (rule lt_bind [OF lt_opened(1) [OF lt_verify2FA]]) (simp add: lt_return)
    from ltripleD [OF this, of w] show ?thesis
      using w by (auto simp: prepareAuthentication_def Some opened_def split: outcome.splits)
  qed
qed

lemma lt_rest_Authenticate:
  assumes base: "CHR ''?'' \<notin> set base" "CHR ''#'' \<notin> set base"
  shows "ltriple (login_inv env base) (rest_Authenticate env username password hardwareID otpCode)
     (\<lambda>_. login_inv env base) (login_inv env base)"
  unfolding rest_Authenticate_def
proof (rule lt_bind [OF lt_prepareAuthentication [OF base]])
  fix fallback
  let ?finish = "\<lambda>response w. let w = w\<lparr>lg_pending := None\<rparr> in
            case tk_RefreshToken response of
              None \<Rightarrow> (Ok response, w)
            | Some refreshToken \<Rightarrow>
                if refreshToken \<noteq> [] then refreshAccessToken env refreshToken hardwareID w else (Ok response, w)"
  let ?code = "lbind (authorizationCode env) (\<lambda>code. lbind (exchangeAuthorizationCode env code hardwareID) ?finish)"
  have drop_pending: "login_inv env base (w\<lparr>lg_pending := None\<rparr>)" if "login_inv env base w" for w
    using that by (simp add: login_inv_def)
  have finish: "ltriple (pending_inv env base pd) (?finish response) (\<lambda>_. login_inv env base) (login_inv env base)" for pd response
    unfolding ltriple_const
  proof (intro allI impI)
    fix w
    assume "pending_inv env base pd w"
    then have w: "login_inv env base (w\<lparr>lg_pending := None\<rparr>)" by (auto simp: pending_inv_def intro: drop_pending)
    moreover have "login_inv env base (snd (refreshAccessToken env refreshToken hardwareID (w\<lparr>lg_pending := None\<rparr>)))"
      for refreshToken
      using lt_opened(2) [OF lt_refreshAccessToken] w unfolding ltriple_const by blast
    ultimately show "login_inv env base (snd (?finish response w))"
      by (auto simp: Let_def split: option.splits)
  qed
  have "ltriple (pending_inv env base (Some pk)) ?code (\<lambda>_. login_inv env base) (login_inv env base)" for pk
  proof -
    have weak: "pending_inv env base pd w \<Longrightarrow> login_inv env base w" for w pd by (simp add: pending_inv_def)
    have fin: "ltriple (\<lambda>w. pending_inv env base (Some pk) w \<and> code_received env (lg_sent w) pk code)
        (lbind (exchangeAuthorizationCode env code hardwareID) ?finish) (\<lambda>_. login_inv env base) (login_inv env base)" for code
      by (rule lt_bind [OF lt_weaken [OF lt_exchangeAuthorizationCode] finish]) (assumption | erule weak)+
    show ?thesis
      by (rule lt_bind [OF lt_weaken [OF lt_authorizationCode] fin]) (assumption | erule weak)+
  qed
  then have code: "ltriple (opened env base) ?code (\<lambda>_. login_inv env base) (login_inv env base)"
    unfolding ltriple_def opened_def pending_inv_def by auto
  show "ltriple (\<lambda>w. if fallback then login_inv env base w else opened env base w)
      (if fallback then authenticateLegacy env username password hardwareID otpCode else ?code)
      (\<lambda>_. login_inv env base) (login_inv env base)"
    using code by (cases fallback) (simp_all add: lt_opened(2) [OF lt_authenticateLegacy])
qed

lemma rest_Authenticate_inv:
  assumes base: "CHR ''?'' \<notin> set base" "CHR ''#'' \<notin> set base" and w: "login_inv env base w"
  shows "login_inv env base (snd (rest_Authenticate env username password hardwareID otpCode w))"
  using lt_rest_Authenticate [OF base] w unfolding ltriple_const by blast

lemma rest_Request2FACode_inv:
  assumes base: "CHR ''?'' \<notin> set base" "CHR ''#'' \<notin> set base" and w: "login_inv env base w"
  shows "login_inv env base (snd (rest_Request2FACode env username password hardwareID w))"
  using rest_Authenticate_inv [OF assms, of username password hardwareID "[]"]
  by (auto simp: rest_Request2FACode_def split: prod.splits outcome.splits)


section \<open>Sessions\<close>

definition session_inv :: "login_env \<Rightarrow> string \<Rightarrow> login_session \<Rightarrow> bool" where
  "session_inv env base s \<longleftrightarrow> (case ls_client s of None \<Rightarrow> True | Some w \<Rightarrow> login_inv env base w)"

lemma login_op_step_inv:
  assumes base: "CHR ''?'' \<notin> set base" "CHR ''#'' \<notin> set base" and s: "session_inv env base s"
  shows "session_inv env base (login_op_step env op s)"
proof (cases "ls_client s")
  case None
  then show ?thesis
    by (cases op)
       (simp_all add: session_inv_def LoginSession_Request2FACode_def LoginSession_Authenticate_def LoginSession_Close_def)
next
  case (Some w)
  with s have w: "login_inv env base w" by (simp add: session_inv_def)
  show ?thesis
  proof (cases op)
    case LRequest2FACode
    then show ?thesis
      using Some w rest_Request2FACode_inv [OF base w, of "ls_username s" "ls_password s" "ls_hardwareID s"]
      by (auto simp: session_inv_def LoginSession_Request2FACode_def split: prod.splits)
  next
    case (LAuthenticate otp)
    then show ?thesis
      using Some w rest_Authenticate_inv [OF base w, of "ls_username s" "ls_password s" "ls_hardwareID s" otp]
      by (auto simp: session_inv_def LoginSession_Authenticate_def split: prod.splits outcome.splits)
  next
    case LClose
    then show ?thesis by (simp add: session_inv_def LoginSession_Close_def)
  qed
qed

lemma login_run_inv:
  assumes base: "CHR ''?'' \<notin> set base" "CHR ''#'' \<notin> set base" and s: "session_inv env base s"
  shows "session_inv env base (login_run env ops s)"
  using s by (induction ops arbitrary: s) (simp_all add: login_run_def login_op_step_inv [OF base])

lemma NewLoginSession_inv:
  assumes "NewLoginSession c uuid req = Inr s"
  shows "session_inv env (ep_OAuthBaseURL (cl_endpoints c)) s"
  using assms
  by (auto simp: NewLoginSession_def session_inv_def login_inv_def codes_ok_def Let_def WithHardwareID_def
        rest_WithUserAgent_def WithEndpointBases_def split: if_splits)

section \<open>The example session\<close>

lemma demo_run:
  "login_requests (login_run (demo_env demo_replies) [LRequest2FACode, LAuthenticate ''123456''] demo_session)
     = demo_first @ demo_second"
  using demo_calls by (auto simp: login_run_def)

lemma demo_base: "ep_OAuthBaseURL (cl_endpoints default_client) = OAuthBaseURL"
  by code_simp

lemma demo_base_plain:
  "CHR ''?'' \<notin> set (ep_OAuthBaseURL (cl_endpoints default_client))"
  "CHR ''#'' \<notin> set (ep_OAuthBaseURL (cl_endpoints default_client))"
  unfolding demo_base by simp_all

section \<open>Properties\<close>



text \<open>C23: An authorization code is only redeemed by the login it was issued to: before a session sends a
  token request with a code, it has sent an authorization request with the S256 challenge of exactly the
  verifier, and the redirect URI, of the token request, and some reply redirected to a URL carrying that code
  and the state that was sent with the challenge.\<close>

theorem login_codes_bound:
  assumes "NewLoginSession c uuid req = Inr s"
    and "CHR ''?'' \<notin> set (ep_OAuthBaseURL (cl_endpoints c))" and "CHR ''#'' \<notin> set (ep_OAuthBaseURL (cl_endpoints c))"
    and "login_requests (login_run env ops s) = before @ FormRequest own t form headers # later"
    and "(''grant_type'', ''authorization_code'') \<in> set form"
  shows "\<exists>pk code. challenge_sent env before pk \<and> code_received env before pk code
     \<and> map_of form ''code_verifier'' = Some (pk_verifier pk) \<and> map_of form ''code'' = Some code
     \<and> map_of form ''redirect_uri'' = Some (pk_redirectURI pk)"
proof -
  have "codes_ok env (login_requests (login_run env ops s))"
    using login_run_inv [OF assms(2,3) NewLoginSession_inv [OF assms(1)], of env ops]
    by (auto simp: session_inv_def login_inv_def login_requests_def codes_ok_def split: option.splits)
  then have "code_request_ok env before (FormRequest own t form headers)"
    unfolding assms(4) by (rule codes_ok_split)
  with assms(5) show ?thesis unfolding code_request_ok_def oauth_request.case by blast
qed

lemma demo_code_request:
  "demo_first @ demo_second = (demo_first @ take 2 demo_second) @
     FormRequest True ''https://oauth.ring.com/oauth/token''
        [(''code'', ''c0de''), (''grant_type'', ''authorization_code''), (''redirect_uri'', OAuthCallbackURL),
         (''code_verifier'', []), (''client_id'', RingClientID)]
        [(''Content-Type'', ''application/x-www-form-urlencoded''), (''Accept'', ''application/json''),
         (''User-Agent'', DefaultUserAgent), (''Hardware_id'', ''uuid'')] # []"
proof -
  have "rc_userAgent (lg_config (the (ls_client demo_session))) = DefaultUserAgent" by code_simp
  then show ?thesis by (simp add: completion_requests_def started_login_def numeral_2_eq_2)
qed

theorem login_codes_bound_witness:
  "\<exists>pk. challenge_sent (demo_env demo_replies) (demo_first @ take 2 demo_second) pk
     \<and> code_received (demo_env demo_replies) (demo_first @ take 2 demo_second) pk ''c0de''"
  using login_codes_bound [OF demo_session_new demo_base_plain trans [OF demo_run demo_code_request]] by auto

definition session_ended :: "login_env \<Rightarrow> login_session \<Rightarrow> bool" where
  "session_ended env s \<longleftrightarrow> ls_password s = []
     \<and> fst (LoginSession_Request2FACode env s) = Err login_closed
     \<and> (\<forall>otp. fst (LoginSession_Authenticate env otp s) = Err login_closed)"

lemma done_step: "ls_done s \<Longrightarrow> ls_password s = [] \<Longrightarrow>
  ls_done (login_op_step env op s) \<and> ls_password (login_op_step env op s) = []
  \<and> (login_op_step env op s = s \<or> ls_client (login_op_step env op s) = None)"
  by (cases op) (simp_all add: LoginSession_Request2FACode_def LoginSession_Authenticate_def LoginSession_Close_def)

lemma done_run: "ls_done s \<Longrightarrow> ls_password s = [] \<Longrightarrow>
  session_ended env (login_run env ops s)
  \<and> login_requests (login_run env ops s) \<in> {login_requests s, []}"
proof (induction ops arbitrary: s)
  case Nil
  then show ?case
    by (simp add: login_run_def session_ended_def LoginSession_Request2FACode_def LoginSession_Authenticate_def)
next
  case (Cons op ops)
  have "session_ended env (login_run env ops (login_op_step env op s))
      \<and> login_requests (login_run env ops (login_op_step env op s)) \<in> {login_requests (login_op_step env op s), []}"
    using done_step [OF Cons.prems, of env op] by (intro Cons.IH) simp_all
  moreover have "login_requests (login_op_step env op s) \<in> {login_requests s, []}"
    using done_step [OF Cons.prems, of env op] by (auto simp: login_requests_def)
  ultimately show ?case by (auto simp: login_run_def)
qed

text \<open>A login session is used once: after a successful \<open>Authenticate\<close>, and after \<open>Close\<close>, its password is
  erased, and whatever operations follow, \<open>Request2FACode\<close> and \<open>Authenticate\<close> fail as closed and nothing more
  is sent.\<close>

theorem login_session_used_once:
  assumes "LoginSession_Authenticate env otp s = (Ok tokens, s') \<or> s' = LoginSession_Close s"
  shows "session_ended env (login_run env ops s') \<and> login_requests (login_run env ops s') \<in> {login_requests s', []}"
  using assms
  by (intro done_run)
     (auto simp: LoginSession_Authenticate_def LoginSession_Close_def split: if_splits option.splits prod.splits outcome.splits)

theorem login_session_used_once_witness:
  "\<exists>s'. login_requests s' = demo_first @ demo_second
     \<and> session_ended (demo_env demo_replies) (login_run (demo_env demo_replies) [LRequest2FACode, LAuthenticate ''1''] s')"
proof -
  from demo_calls obtain s1 s2 where
    s2: "LoginSession_Authenticate (demo_env demo_replies) ''123456'' s1 = (Ok (auth_response_of demo_token), s2)"
      "login_requests s2 = demo_first @ demo_second" by blast
  from login_session_used_once [OF disjI1 [OF s2(1)]] s2(2) show ?thesis by blast
qed

end
