(* ===== verification/RestRequests.thy ===== *)
theory RestRequests
  imports Endpoints Steps
begin

text \<open>
  The generated HTTP client, \<open>internal/generatedhttp/client.gen.go\<close>: the request builders of all operations, and
  the exchange of requests and replies that both it and the hand-written REST client use.

  A builder resolves the path of its operation relative to the server URL and appends its query parameters. The
  printing of parameters is the library \<open>oapi-codegen/runtime\<close>, outside the repository: \<open>runtime\<close> holds its
  \<open>StyleParamWithOptions\<close> for path and for query parameters, \<open>runtime_documented\<close> what its documentation says of
  them. All builders are instances of \<open>build_request\<close>.

  The peer is the record \<open>http_env\<close>: the server answers the list of all requests so far with a transport error
  or a reply, and the context of the operation may have ended. A reply holds its body as text and as the
  JSON document in it.
\<close>

section \<open>Requests and replies\<close>

datatype request_body = NoBody | JSONBody json | TextBody string

record http_request =
  hr_method :: string
  hr_url :: string
  hr_headers :: "(string \<times> string) list"
  hr_body :: request_body

record http_reply =
  hp_resp :: http_response
  hp_contentType :: string
  hp_contentLength :: int
  hp_body :: "goerr + string"
  hp_json :: raw_message

text \<open>The requests handed to the HTTP client, and the durations of the waits between them, in nanoseconds.\<close>

record http_state =
  hs_sent :: "http_request list"
  hs_waits :: "int list"

type_synonym 'a http_step = "(http_state, 'a) step"

record http_env =
  he_server :: "http_request list \<Rightarrow> goerr + http_reply"
  he_cancelled :: "http_state \<Rightarrow> goerr option"
    \<comment> \<open>\<open>ctx.Err()\<close> at this point; during a wait, which already counts, the error that ends it\<close>
  he_clock :: "http_state \<Rightarrow> int"
    \<comment> \<open>milliseconds\<close>

definition http_do :: "http_env \<Rightarrow> http_request \<Rightarrow> http_reply http_step" where
  "http_do env req w =
     (let w' = w\<lparr>hs_sent := hs_sent w @ [req]\<rparr> in
      case he_server env (hs_sent w') of Inl e \<Rightarrow> (Err e, w') | Inr r \<Rightarrow> (Ok r, w'))"

section \<open>Parameters\<close>

datatype param =
    IntegerParam int
  | StringParam string
  | BooleanParam bool
  | TimeParam string

record runtime =
  rt_path :: "string \<Rightarrow> param \<Rightarrow> goerr + string"
  rt_query :: "string \<Rightarrow> param \<Rightarrow> goerr + string"

text \<open>\<open>url.PathEscape\<close>\<close>

definition path_char :: "char \<Rightarrow> bool" where
  "path_char c \<longleftrightarrow> is_alnum c \<or> c \<in> set ''-_.~$&+=:@''"

definition PathEscape :: "string \<Rightarrow> string" where
  "PathEscape s =
     concat (map (\<lambda>c. if path_char c then [c]
                     else [CHR ''%'', upper_hex ((of_char c :: nat) div 16), upper_hex ((of_char c :: nat) mod 16)]) s)"

definition param_text :: "param \<Rightarrow> string" where
  "param_text v =
     (case v of
        IntegerParam i \<Rightarrow> dec_int i
      | StringParam s \<Rightarrow> s
      | BooleanParam b \<Rightarrow> (if b then ''true'' else ''false'')
      | TimeParam t \<Rightarrow> t)"

text \<open>Simple style in a path escapes the value; form style in a query gives \<open>name=value\<close>, both escaped.\<close>

definition runtime_documented :: "runtime \<Rightarrow> bool" where
  "runtime_documented rt \<longleftrightarrow>
     (\<forall>name v. rt_path rt name v = Inr (PathEscape (param_text v)))
     \<and> (\<forall>name v. rt_query rt name v = Inr (QueryEscape name @ ''='' @ QueryEscape (param_text v)))"

definition documented_runtime :: runtime where
  "documented_runtime =
     \<lparr>rt_path = \<lambda>name v. Inr (PathEscape (param_text v)),
      rt_query = \<lambda>name v. Inr (QueryEscape name @ ''='' @ QueryEscape (param_text v))\<rparr>"

lemma runtime_documented_possible: "runtime_documented documented_runtime"
  by (simp add: runtime_documented_def documented_runtime_def)

section \<open>The builders\<close>

text \<open>A path is a literal prefix and, optionally, a parameter with the literal after it.\<close>

definition style_path :: "runtime \<Rightarrow> string \<times> (string \<times> param \<times> string) option \<Rightarrow> goerr + string" where
  "style_path rt path =
     (case path of
        (prefix, None) \<Rightarrow> Inr prefix
      | (prefix, Some (name, v, suffix)) \<Rightarrow>
          (case rt_path rt name v of Inl e \<Rightarrow> Inl e | Inr pathParam0 \<Rightarrow> Inr (prefix @ pathParam0 @ suffix)))"

fun query_fragments :: "runtime \<Rightarrow> (string \<times> param option) list \<Rightarrow> goerr + string list" where
  "query_fragments rt [] = Inr []"
| "query_fragments rt ((name, None) # ps) = query_fragments rt ps"
| "query_fragments rt ((name, Some v) # ps) =
     (case rt_query rt name v of
        Inl e \<Rightarrow> Inl e
      | Inr queryFrag \<Rightarrow>
          (case query_fragments rt ps of
             Inl e \<Rightarrow> Inl e
           | Inr frags \<Rightarrow> Inr (split_on_acc (CHR ''&'') [] queryFrag @ frags)))"

text \<open>\<open>http.NewRequest\<close>\<close>

definition new_request :: "string \<Rightarrow> string \<Rightarrow> request_body \<Rightarrow> goerr + http_request" where
  "new_request verb target body =
     (case url_parse target of
        Inl e \<Rightarrow> Inl (parse_error e)
      | Inr _ \<Rightarrow> Inr \<lparr>hr_method = verb, hr_url = target, hr_headers = [], hr_body = body\<rparr>)"

definition operation_ref :: "string \<Rightarrow> string" where
  "operation_ref operationPath = (if take 1 operationPath = ''/'' then ''.'' @ operationPath else operationPath)"

definition build_request ::
  "runtime \<Rightarrow> string \<Rightarrow> string \<Rightarrow> string \<times> (string \<times> param \<times> string) option
   \<Rightarrow> (string \<times> param option) list option \<Rightarrow> request_body \<Rightarrow> goerr + http_request" where
  "build_request rt verb server path params body =
     (case style_path rt path of
        Inl e \<Rightarrow> Inl e
      | Inr operationPath \<Rightarrow>
     (case url_parse server of
        Inl e \<Rightarrow> Inl (parse_error e)
      | Inr serverURL \<Rightarrow>
     (case url_parse (operation_ref operationPath) of
        Inl e \<Rightarrow> Inl (parse_error e)
      | Inr ref \<Rightarrow>
          let queryURL = ResolveReference serverURL ref in
          (case params of
             None \<Rightarrow> new_request verb (url_String queryURL) body
           | Some ps \<Rightarrow>
               (case query_fragments rt ps of
                  Inl e \<Rightarrow> Inl e
                | Inr rawQueryFragments \<Rightarrow>
                    let encoded = Encode (Query queryURL);
                        fragments = rawQueryFragments @ (if encoded \<noteq> [] then [encoded] else []) in
                    new_request verb (url_String (queryURL\<lparr>u_RawQuery := join_with (CHR ''&'') fragments\<rparr>)) body)))))"

definition with_content_type ::
  "string \<Rightarrow> (request_body \<Rightarrow> goerr + http_request) \<Rightarrow> request_body \<Rightarrow> goerr + http_request" where
  "with_content_type contentType builder body =
     (case builder body of
        Inl e \<Rightarrow> Inl e
      | Inr req \<Rightarrow> Inr (req\<lparr>hr_headers := gm_put ''Content-Type'' contentType (hr_headers req)\<rparr>))"

text \<open>The parameter structs and the builders, in the order of the file.\<close>

record GetCapturedLocationTicketsParams =
  GetCapturedLocationTicketsParams_AllowUserOnly :: "bool option"
  GetCapturedLocationTicketsParams_LocationID :: "string option"
  GetCapturedLocationTicketsParams_LocationSubscription :: "string option"
  GetCapturedLocationTicketsParams_EnableExtendedEmergencyCellUsage :: "bool option"
  GetCapturedLocationTicketsParams_RequestedTransport :: "string option"

record SetChimeVolumeParams =
  SetChimeVolumeParams_ChimeDescription :: string
  SetChimeVolumeParams_ChimeSettingsVolume :: int

record TestChimeSoundParams =
  TestChimeSoundParams_Kind :: string

record DeleteRecordingParams =
  DeleteRecordingParams_ConfirmDeleteFavorite :: "bool option"

record UpdateLegacyDoorbotControlsParams =
  UpdateLegacyDoorbotControlsParams_DoorbotDescription :: string
  UpdateLegacyDoorbotControlsParams_DoorbotSettingsDoorbellVolume :: "int option"
  UpdateLegacyDoorbotControlsParams_DoorbotSettingsChimeSettingsType :: "int option"
  UpdateLegacyDoorbotControlsParams_DoorbotSettingsChimeSettingsEnable :: "int option"
  UpdateLegacyDoorbotControlsParams_DoorbotSettingsChimeSettingsDuration :: "int option"

record GetLegacyDeviceHistoryParams =
  GetLegacyDeviceHistoryParams_Limit :: "int option"
  GetLegacyDeviceHistoryParams_Kind :: "string option"
  GetLegacyDeviceHistoryParams_OlderThan :: "int option"

record GetDeviceTimelineParams =
  GetDeviceTimelineParams_StartTime :: "string option"
  GetDeviceTimelineParams_EndTime :: "string option"
  GetDeviceTimelineParams_Order :: "string option"
  GetDeviceTimelineParams_Limit :: "int option"
  GetDeviceTimelineParams_Capabilities :: "string option"

record GetHistoryDevicesParams =
  GetHistoryDevicesParams_SourceIds :: "string option"
  GetHistoryDevicesParams_Capabilities :: "string option"

record GetLocationParams =
  GetLocationParams_Include :: "string option"

record BeginOrContinueOAuthAuthorizationParams =
  BeginOrContinueOAuthAuthorizationParams_RedirectUri :: "string option"
  BeginOrContinueOAuthAuthorizationParams_ClientId :: "string option"
  BeginOrContinueOAuthAuthorizationParams_ResponseType :: "string option"
  BeginOrContinueOAuthAuthorizationParams_Prompt :: "string option"
  BeginOrContinueOAuthAuthorizationParams_State :: "string option"
  BeginOrContinueOAuthAuthorizationParams_Scope :: "string option"
  BeginOrContinueOAuthAuthorizationParams_CodeChallenge :: "string option"
  BeginOrContinueOAuthAuthorizationParams_CodeChallengeMethod :: "string option"
  BeginOrContinueOAuthAuthorizationParams_DeviceModel :: "string option"
  BeginOrContinueOAuthAuthorizationParams_AppVersion :: "string option"
  BeginOrContinueOAuthAuthorizationParams_DarkMode :: "bool option"
  BeginOrContinueOAuthAuthorizationParams_DeviceBrand :: "string option"
  BeginOrContinueOAuthAuthorizationParams_DeviceOsVersion :: "string option"
  BeginOrContinueOAuthAuthorizationParams_AppBrand :: "string option"
  BeginOrContinueOAuthAuthorizationParams_HardwareId :: "string option"

definition NewRequestLegacySignalingTicketRequest :: "runtime \<Rightarrow> string \<Rightarrow> goerr + http_request" where
  "NewRequestLegacySignalingTicketRequest rt server =
     build_request rt ''POST'' server
       (''/api/v1/clap/ticket/request/signalsocket'', None) None NoBody"

definition NewGetCapturedLocationTicketsRequest :: "runtime \<Rightarrow> string \<Rightarrow> GetCapturedLocationTicketsParams option \<Rightarrow> goerr + http_request" where
  "NewGetCapturedLocationTicketsRequest rt server params =
     build_request rt ''GET'' server
       (''/api/v1/clap/tickets'', None) (map_option (\<lambda>p.
        [(''allowUserOnly'', map_option BooleanParam (GetCapturedLocationTicketsParams_AllowUserOnly p)),
         (''locationID'', map_option StringParam (GetCapturedLocationTicketsParams_LocationID p)),
         (''locationSubscription'', map_option StringParam (GetCapturedLocationTicketsParams_LocationSubscription p)),
         (''enableExtendedEmergencyCellUsage'', map_option BooleanParam (GetCapturedLocationTicketsParams_EnableExtendedEmergencyCellUsage p)),
         (''requestedTransport'', map_option StringParam (GetCapturedLocationTicketsParams_RequestedTransport p))]) params) NoBody"

definition NewSetChimeVolumeRequest :: "runtime \<Rightarrow> string \<Rightarrow> int \<Rightarrow> SetChimeVolumeParams option \<Rightarrow> goerr + http_request" where
  "NewSetChimeVolumeRequest rt server deviceId params =
     build_request rt ''PUT'' server
       (''/clients_api/chimes/'', Some (''device_id'', IntegerParam deviceId, [])) (map_option (\<lambda>p.
        [(''chime[description]'', Some (StringParam (SetChimeVolumeParams_ChimeDescription p))),
         (''chime[settings][volume]'', Some (IntegerParam (SetChimeVolumeParams_ChimeSettingsVolume p)))]) params) NoBody"

definition NewTestChimeSoundRequest :: "runtime \<Rightarrow> string \<Rightarrow> int \<Rightarrow> TestChimeSoundParams option \<Rightarrow> goerr + http_request" where
  "NewTestChimeSoundRequest rt server deviceId params =
     build_request rt ''POST'' server
       (''/clients_api/chimes/'', Some (''device_id'', IntegerParam deviceId, ''/play_sound'')) (map_option (\<lambda>p.
        [(''kind'', Some (StringParam (TestChimeSoundParams_Kind p)))]) params) NoBody"

definition NewRegisterPushDeviceRequestWithBody :: "runtime \<Rightarrow> string \<Rightarrow> string \<Rightarrow> request_body \<Rightarrow> goerr + http_request" where
  "NewRegisterPushDeviceRequestWithBody rt server contentType body =
     with_content_type contentType (build_request rt ''PATCH'' server
       (''/clients_api/device'', None) None) body"

definition NewRegisterPushDeviceRequest :: "runtime \<Rightarrow> string \<Rightarrow> json \<Rightarrow> goerr + http_request" where
  "NewRegisterPushDeviceRequest rt server body =
     NewRegisterPushDeviceRequestWithBody rt server ''application/json'' (JSONBody body)"

definition NewGetActiveDingsRequest :: "runtime \<Rightarrow> string \<Rightarrow> goerr + http_request" where
  "NewGetActiveDingsRequest rt server =
     build_request rt ''GET'' server
       (''/clients_api/dings/active'', None) None NoBody"

definition NewDeleteRecordingRequest :: "runtime \<Rightarrow> string \<Rightarrow> int \<Rightarrow> DeleteRecordingParams option \<Rightarrow> goerr + http_request" where
  "NewDeleteRecordingRequest rt server recordingId params =
     build_request rt ''DELETE'' server
       (''/clients_api/dings/'', Some (''recording_id'', IntegerParam recordingId, [])) (map_option (\<lambda>p.
        [(''confirm_delete_favorite'', map_option BooleanParam (DeleteRecordingParams_ConfirmDeleteFavorite p))]) params) NoBody"

definition NewFavoriteRecordingRequest :: "runtime \<Rightarrow> string \<Rightarrow> int \<Rightarrow> goerr + http_request" where
  "NewFavoriteRecordingRequest rt server recordingId =
     build_request rt ''PUT'' server
       (''/clients_api/dings/'', Some (''recording_id'', IntegerParam recordingId, ''/favorite'')) None NoBody"

definition NewStreamRecordingRequest :: "runtime \<Rightarrow> string \<Rightarrow> int \<Rightarrow> goerr + http_request" where
  "NewStreamRecordingRequest rt server recordingId =
     build_request rt ''GET'' server
       (''/clients_api/dings/'', Some (''recording_id'', IntegerParam recordingId, ''/recording'')) None NoBody"

definition NewGetLegacyRecordingShareURLRequest :: "runtime \<Rightarrow> string \<Rightarrow> int \<Rightarrow> goerr + http_request" where
  "NewGetLegacyRecordingShareURLRequest rt server recordingId =
     build_request rt ''GET'' server
       (''/clients_api/dings/'', Some (''recording_id'', IntegerParam recordingId, ''/share/play'')) None NoBody"

definition NewUpdateLegacyDoorbotControlsRequest :: "runtime \<Rightarrow> string \<Rightarrow> int \<Rightarrow> UpdateLegacyDoorbotControlsParams option \<Rightarrow> goerr + http_request" where
  "NewUpdateLegacyDoorbotControlsRequest rt server deviceId params =
     build_request rt ''PUT'' server
       (''/clients_api/doorbots/'', Some (''device_id'', IntegerParam deviceId, [])) (map_option (\<lambda>p.
        [(''doorbot[description]'', Some (StringParam (UpdateLegacyDoorbotControlsParams_DoorbotDescription p))),
         (''doorbot[settings][doorbell_volume]'', map_option IntegerParam (UpdateLegacyDoorbotControlsParams_DoorbotSettingsDoorbellVolume p)),
         (''doorbot[settings][chime_settings][type]'', map_option IntegerParam (UpdateLegacyDoorbotControlsParams_DoorbotSettingsChimeSettingsType p)),
         (''doorbot[settings][chime_settings][enable]'', map_option IntegerParam (UpdateLegacyDoorbotControlsParams_DoorbotSettingsChimeSettingsEnable p)),
         (''doorbot[settings][chime_settings][duration]'', map_option IntegerParam (UpdateLegacyDoorbotControlsParams_DoorbotSettingsChimeSettingsDuration p))]) params) NoBody"

definition NewTurnFloodlightOffRequest :: "runtime \<Rightarrow> string \<Rightarrow> int \<Rightarrow> goerr + http_request" where
  "NewTurnFloodlightOffRequest rt server deviceId =
     build_request rt ''PUT'' server
       (''/clients_api/doorbots/'', Some (''device_id'', IntegerParam deviceId, ''/floodlight_light_off'')) None NoBody"

definition NewTurnFloodlightOnRequest :: "runtime \<Rightarrow> string \<Rightarrow> int \<Rightarrow> goerr + http_request" where
  "NewTurnFloodlightOnRequest rt server deviceId =
     build_request rt ''PUT'' server
       (''/clients_api/doorbots/'', Some (''device_id'', IntegerParam deviceId, ''/floodlight_light_on'')) None NoBody"

definition NewGetLegacyDeviceHistoryRequest :: "runtime \<Rightarrow> string \<Rightarrow> int \<Rightarrow> GetLegacyDeviceHistoryParams option \<Rightarrow> goerr + http_request" where
  "NewGetLegacyDeviceHistoryRequest rt server deviceId params =
     build_request rt ''GET'' server
       (''/clients_api/doorbots/'', Some (''device_id'', IntegerParam deviceId, ''/history'')) (map_option (\<lambda>p.
        [(''limit'', map_option IntegerParam (GetLegacyDeviceHistoryParams_Limit p)),
         (''kind'', map_option StringParam (GetLegacyDeviceHistoryParams_Kind p)),
         (''older_than'', map_option IntegerParam (GetLegacyDeviceHistoryParams_OlderThan p))]) params) NoBody"

definition NewSubscribeDeviceMotionRequest :: "runtime \<Rightarrow> string \<Rightarrow> int \<Rightarrow> goerr + http_request" where
  "NewSubscribeDeviceMotionRequest rt server deviceId =
     build_request rt ''POST'' server
       (''/clients_api/doorbots/'', Some (''device_id'', IntegerParam deviceId, ''/motions_subscribe'')) None NoBody"

definition NewTurnSirenOffRequest :: "runtime \<Rightarrow> string \<Rightarrow> int \<Rightarrow> goerr + http_request" where
  "NewTurnSirenOffRequest rt server deviceId =
     build_request rt ''PUT'' server
       (''/clients_api/doorbots/'', Some (''device_id'', IntegerParam deviceId, ''/siren_off'')) None NoBody"

definition NewTurnSirenOnRequest :: "runtime \<Rightarrow> string \<Rightarrow> int \<Rightarrow> goerr + http_request" where
  "NewTurnSirenOnRequest rt server deviceId =
     build_request rt ''PUT'' server
       (''/clients_api/doorbots/'', Some (''device_id'', IntegerParam deviceId, ''/siren_on'')) None NoBody"

definition NewSubscribeDeviceDingRequest :: "runtime \<Rightarrow> string \<Rightarrow> int \<Rightarrow> goerr + http_request" where
  "NewSubscribeDeviceDingRequest rt server deviceId =
     build_request rt ''POST'' server
       (''/clients_api/doorbots/'', Some (''device_id'', IntegerParam deviceId, ''/subscribe'')) None NoBody"

definition NewGetLegacyDeviceHealthRequest :: "runtime \<Rightarrow> string \<Rightarrow> int \<Rightarrow> goerr + http_request" where
  "NewGetLegacyDeviceHealthRequest rt server deviceId =
     build_request rt ''GET'' server
       (''/clients_api/ring_devices/'', Some (''device_id'', IntegerParam deviceId, ''/health'')) None NoBody"

definition NewRegisterClientSessionRequestWithBody :: "runtime \<Rightarrow> string \<Rightarrow> string \<Rightarrow> request_body \<Rightarrow> goerr + http_request" where
  "NewRegisterClientSessionRequestWithBody rt server contentType body =
     with_content_type contentType (build_request rt ''POST'' server
       (''/clients_api/session'', None) None) body"

definition NewRegisterClientSessionRequest :: "runtime \<Rightarrow> string \<Rightarrow> json \<Rightarrow> goerr + http_request" where
  "NewRegisterClientSessionRequest rt server body =
     NewRegisterClientSessionRequestWithBody rt server ''application/json'' (JSONBody body)"

definition NewGetLegacySnapshotImageRequest :: "runtime \<Rightarrow> string \<Rightarrow> int \<Rightarrow> goerr + http_request" where
  "NewGetLegacySnapshotImageRequest rt server deviceId =
     build_request rt ''GET'' server
       (''/clients_api/snapshots/image/'', Some (''device_id'', IntegerParam deviceId, [])) None NoBody"

definition NewRefreshLegacySnapshotTimestampRequestWithBody :: "runtime \<Rightarrow> string \<Rightarrow> string \<Rightarrow> request_body \<Rightarrow> goerr + http_request" where
  "NewRefreshLegacySnapshotTimestampRequestWithBody rt server contentType body =
     with_content_type contentType (build_request rt ''POST'' server
       (''/clients_api/snapshots/timestamps'', None) None) body"

definition NewRefreshLegacySnapshotTimestampRequest :: "runtime \<Rightarrow> string \<Rightarrow> json \<Rightarrow> goerr + http_request" where
  "NewRefreshLegacySnapshotTimestampRequest rt server body =
     NewRefreshLegacySnapshotTimestampRequestWithBody rt server ''application/json'' (JSONBody body)"

definition NewSendDeviceCommandRequestWithBody :: "runtime \<Rightarrow> string \<Rightarrow> int \<Rightarrow> string \<Rightarrow> request_body \<Rightarrow> goerr + http_request" where
  "NewSendDeviceCommandRequestWithBody rt server deviceId contentType body =
     with_content_type contentType (build_request rt ''PATCH'' server
       (''/commands/v1/devices/'', Some (''device_id'', IntegerParam deviceId, [])) None) body"

definition NewSendDeviceCommandRequest :: "runtime \<Rightarrow> string \<Rightarrow> int \<Rightarrow> json \<Rightarrow> goerr + http_request" where
  "NewSendDeviceCommandRequest rt server deviceId body =
     NewSendDeviceCommandRequestWithBody rt server deviceId ''application/json'' (JSONBody body)"

definition NewUnlockIntercomRequestWithBody :: "runtime \<Rightarrow> string \<Rightarrow> int \<Rightarrow> string \<Rightarrow> request_body \<Rightarrow> goerr + http_request" where
  "NewUnlockIntercomRequestWithBody rt server deviceId contentType body =
     with_content_type contentType (build_request rt ''PUT'' server
       (''/commands/v1/devices/'', Some (''device_id'', IntegerParam deviceId, ''/device_rpc'')) None) body"

definition NewUnlockIntercomRequest :: "runtime \<Rightarrow> string \<Rightarrow> int \<Rightarrow> json \<Rightarrow> goerr + http_request" where
  "NewUnlockIntercomRequest rt server deviceId body =
     NewUnlockIntercomRequestWithBody rt server deviceId ''application/json'' (JSONBody body)"

definition NewListDevicesRequest :: "runtime \<Rightarrow> string \<Rightarrow> goerr + http_request" where
  "NewListDevicesRequest rt server =
     build_request rt ''GET'' server
       (''/device_info/v3/devices'', None) None NoBody"

definition NewGetDeviceRequest :: "runtime \<Rightarrow> string \<Rightarrow> int \<Rightarrow> goerr + http_request" where
  "NewGetDeviceRequest rt server deviceId =
     build_request rt ''GET'' server
       (''/device_info/v3/devices/'', Some (''device_id'', IntegerParam deviceId, [])) None NoBody"

definition NewGetDeviceSettingsRequest :: "runtime \<Rightarrow> string \<Rightarrow> int \<Rightarrow> goerr + http_request" where
  "NewGetDeviceSettingsRequest rt server deviceId =
     build_request rt ''GET'' server
       (''/devices/v1/devices/'', Some (''device_id'', IntegerParam deviceId, ''/settings'')) None NoBody"

definition NewPatchDeviceSettingsRequestWithBody :: "runtime \<Rightarrow> string \<Rightarrow> int \<Rightarrow> string \<Rightarrow> request_body \<Rightarrow> goerr + http_request" where
  "NewPatchDeviceSettingsRequestWithBody rt server deviceId contentType body =
     with_content_type contentType (build_request rt ''PATCH'' server
       (''/devices/v1/devices/'', Some (''device_id'', IntegerParam deviceId, ''/settings'')) None) body"

definition NewPatchDeviceSettingsRequest :: "runtime \<Rightarrow> string \<Rightarrow> int \<Rightarrow> json \<Rightarrow> goerr + http_request" where
  "NewPatchDeviceSettingsRequest rt server deviceId body =
     NewPatchDeviceSettingsRequestWithBody rt server deviceId ''application/json'' (JSONBody body)"

definition NewSetLiveViewEnabledRequestWithBody :: "runtime \<Rightarrow> string \<Rightarrow> int \<Rightarrow> string \<Rightarrow> request_body \<Rightarrow> goerr + http_request" where
  "NewSetLiveViewEnabledRequestWithBody rt server deviceId contentType body =
     with_content_type contentType (build_request rt ''PUT'' server
       (''/duos/v1/devices/'', Some (''device_id'', IntegerParam deviceId, ''/update'')) None) body"

definition NewSetLiveViewEnabledRequest :: "runtime \<Rightarrow> string \<Rightarrow> int \<Rightarrow> json \<Rightarrow> goerr + http_request" where
  "NewSetLiveViewEnabledRequest rt server deviceId body =
     NewSetLiveViewEnabledRequestWithBody rt server deviceId ''application/json'' (JSONBody body)"

definition NewGetDeviceTimelineRequest :: "runtime \<Rightarrow> string \<Rightarrow> int \<Rightarrow> GetDeviceTimelineParams option \<Rightarrow> goerr + http_request" where
  "NewGetDeviceTimelineRequest rt server deviceId params =
     build_request rt ''GET'' server
       (''/evm/v2/timeline/devices/'', Some (''device_id'', IntegerParam deviceId, [])) (map_option (\<lambda>p.
        [(''start_time'', map_option TimeParam (GetDeviceTimelineParams_StartTime p)),
         (''end_time'', map_option TimeParam (GetDeviceTimelineParams_EndTime p)),
         (''order'', map_option StringParam (GetDeviceTimelineParams_Order p)),
         (''limit'', map_option IntegerParam (GetDeviceTimelineParams_Limit p)),
         (''capabilities'', map_option StringParam (GetDeviceTimelineParams_Capabilities p))]) params) NoBody"

definition NewGetHistoryDevicesRequest :: "runtime \<Rightarrow> string \<Rightarrow> GetHistoryDevicesParams option \<Rightarrow> goerr + http_request" where
  "NewGetHistoryDevicesRequest rt server params =
     build_request rt ''GET'' server
       (''/evm/v3/history/devices'', None) (map_option (\<lambda>p.
        [(''source_ids'', map_option StringParam (GetHistoryDevicesParams_SourceIds p)),
         (''capabilities'', map_option StringParam (GetHistoryDevicesParams_Capabilities p))]) params) NoBody"

definition NewListLocationDevicesRequest :: "runtime \<Rightarrow> string \<Rightarrow> string \<Rightarrow> goerr + http_request" where
  "NewListLocationDevicesRequest rt server locationId =
     build_request rt ''GET'' server
       (''/groups/v1/locations/'', Some (''location_id'', StringParam locationId, ''/devices'')) None NoBody"

definition NewListLocationGroupsRequest :: "runtime \<Rightarrow> string \<Rightarrow> string \<Rightarrow> goerr + http_request" where
  "NewListLocationGroupsRequest rt server locationId =
     build_request rt ''GET'' server
       (''/groups/v1/locations/'', Some (''location_id'', StringParam locationId, ''/groups'')) None NoBody"

definition NewListLocationsRequest :: "runtime \<Rightarrow> string \<Rightarrow> goerr + http_request" where
  "NewListLocationsRequest rt server =
     build_request rt ''GET'' server
       (''/location_info/v3/locations'', None) None NoBody"

definition NewGetLocationRequest :: "runtime \<Rightarrow> string \<Rightarrow> string \<Rightarrow> GetLocationParams option \<Rightarrow> goerr + http_request" where
  "NewGetLocationRequest rt server locationId params =
     build_request rt ''GET'' server
       (''/location_info/v4/locations/'', Some (''location_id'', StringParam locationId, [])) (map_option (\<lambda>p.
        [(''include'', map_option StringParam (GetLocationParams_Include p))]) params) NoBody"

definition NewExchangeOrRefreshOAuthTokenRequestWithBody :: "runtime \<Rightarrow> string \<Rightarrow> string \<Rightarrow> request_body \<Rightarrow> goerr + http_request" where
  "NewExchangeOrRefreshOAuthTokenRequestWithBody rt server contentType body =
     with_content_type contentType (build_request rt ''POST'' server
       (''/oauth/token'', None) None) body"

definition NewVerifyOAuthTwoFactorCodeRequestWithBody :: "runtime \<Rightarrow> string \<Rightarrow> string \<Rightarrow> request_body \<Rightarrow> goerr + http_request" where
  "NewVerifyOAuthTwoFactorCodeRequestWithBody rt server contentType body =
     with_content_type contentType (build_request rt ''POST'' server
       (''/oauth/v2/2fa/verify'', None) None) body"

definition NewBeginOrContinueOAuthAuthorizationRequest :: "runtime \<Rightarrow> string \<Rightarrow> BeginOrContinueOAuthAuthorizationParams option \<Rightarrow> goerr + http_request" where
  "NewBeginOrContinueOAuthAuthorizationRequest rt server params =
     build_request rt ''GET'' server
       (''/oauth/v2/authorize'', None) (map_option (\<lambda>p.
        [(''redirect_uri'', map_option StringParam (BeginOrContinueOAuthAuthorizationParams_RedirectUri p)),
         (''client_id'', map_option StringParam (BeginOrContinueOAuthAuthorizationParams_ClientId p)),
         (''response_type'', map_option StringParam (BeginOrContinueOAuthAuthorizationParams_ResponseType p)),
         (''prompt'', map_option StringParam (BeginOrContinueOAuthAuthorizationParams_Prompt p)),
         (''state'', map_option StringParam (BeginOrContinueOAuthAuthorizationParams_State p)),
         (''scope'', map_option StringParam (BeginOrContinueOAuthAuthorizationParams_Scope p)),
         (''code_challenge'', map_option StringParam (BeginOrContinueOAuthAuthorizationParams_CodeChallenge p)),
         (''code_challenge_method'', map_option StringParam (BeginOrContinueOAuthAuthorizationParams_CodeChallengeMethod p)),
         (''device_model'', map_option StringParam (BeginOrContinueOAuthAuthorizationParams_DeviceModel p)),
         (''app_version'', map_option StringParam (BeginOrContinueOAuthAuthorizationParams_AppVersion p)),
         (''dark_mode'', map_option BooleanParam (BeginOrContinueOAuthAuthorizationParams_DarkMode p)),
         (''device_brand'', map_option StringParam (BeginOrContinueOAuthAuthorizationParams_DeviceBrand p)),
         (''device_os_version'', map_option StringParam (BeginOrContinueOAuthAuthorizationParams_DeviceOsVersion p)),
         (''app_brand'', map_option StringParam (BeginOrContinueOAuthAuthorizationParams_AppBrand p)),
         (''hardware_id'', map_option StringParam (BeginOrContinueOAuthAuthorizationParams_HardwareId p))]) params) NoBody"

definition NewSubmitOAuthCredentialsRequestWithBody :: "runtime \<Rightarrow> string \<Rightarrow> string \<Rightarrow> request_body \<Rightarrow> goerr + http_request" where
  "NewSubmitOAuthCredentialsRequestWithBody rt server contentType body =
     with_content_type contentType (build_request rt ''POST'' server
       (''/oauth/v2/signin'', None) None) body"

section \<open>Where requests go\<close>

text \<open>
  The text of a URL up to its path, and the requests that go to the origin of a server URL, whatever the
  parameters in the path and the query are.
\<close>

definition origin_text :: "url \<Rightarrow> string" where
  "origin_text s =
     u_Scheme s @ ''://'' @ (case u_User s of None \<Rightarrow> [] | Some ui \<Rightarrow> userinfo_String ui @ ''@'')
     @ url_escape encodeHost (u_Host s)"

definition at_origin :: "string \<Rightarrow> http_request \<Rightarrow> bool" where
  "at_origin server req \<longleftrightarrow>
     (\<exists>s. url_parse server = Inr s
          \<and> (u_Scheme s \<noteq> [] \<and> u_Host s \<noteq> [] \<longrightarrow> has_prefix (hr_url req) (origin_text s @ ''/'')))"

definition same_origin :: "url \<Rightarrow> url \<Rightarrow> bool" where
  "same_origin s u \<longleftrightarrow>
     u_Scheme u = u_Scheme s \<and> u_User u = u_User s \<and> u_Host u = u_Host s \<and> u_Opaque u = [] \<and> u_Path u \<noteq> []"

lemma setPath_fields:
  "setPath p u = Inr v \<Longrightarrow> u_Scheme v = u_Scheme u \<and> u_Host v = u_Host u \<and> u_User v = u_User u
     \<and> u_Opaque v = u_Opaque u"
  by (auto simp: setPath_def split: sum.splits)

lemma unescape_nonempty: "unescape m (c # s) = Inr t \<Longrightarrow> t \<noteq> []"
  by (auto split: if_splits list.splits sum.splits simp: map_sum_def)

lemma setFragment_fields:
  "setFragment f u = Inr v \<Longrightarrow> u_Scheme v = u_Scheme u \<and> u_Host v = u_Host u \<and> u_User v = u_User u
     \<and> u_Opaque v = u_Opaque u \<and> u_Path v = u_Path u"
  by (cases "unescape encodeFragment f") (auto simp: setFragment_def)

lemma setPath_nonempty: "setPath (c # p) u = Inr v \<Longrightarrow> u_Path v \<noteq> []"
  using unescape_nonempty by (auto simp: setPath_def split: sum.splits)

lemma split_query_relative:
  assumes "split_query (CHR ''.'' # CHR ''/'' # s) = (path, q, force)"
  shows "\<exists>t. path = CHR ''.'' # CHR ''/'' # t"
proof (cases "has_suffix (CHR ''.'' # CHR ''/'' # s) ''?''")
  case True
  then have "s \<noteq> []" by (auto simp: has_suffix_def)
  with assms show ?thesis by (auto simp: split_query_def cut_def split: if_splits)
qed (use assms in \<open>auto simp: split_query_def cut_def split: if_splits\<close>)

lemma relative_reference:
  assumes "url_parse (CHR ''.'' # CHR ''/'' # s) = Inr ref"
  shows "u_Scheme ref = [] \<and> u_Host ref = [] \<and> u_User ref = None \<and> u_Opaque ref = [] \<and> u_Path ref \<noteq> []"
proof -
  define t where "t = takeWhile (\<lambda>c. c \<noteq> CHR ''#'') s"
  have scheme: "getScheme (CHR ''.'' # CHR ''/'' # t) = Inr ([], CHR ''.'' # CHR ''/'' # t)"
    by (simp add: getScheme_def is_letter_def is_alnum_def is_digit_def)
  have parsed: "u_Scheme p = [] \<and> u_Host p = [] \<and> u_User p = None \<and> u_Opaque p = [] \<and> u_Path p \<noteq> []"
    if p: "parse_url0 (CHR ''.'' # CHR ''/'' # t) = Inr p" for p
  proof -
    obtain path q force where split: "split_query (CHR ''.'' # CHR ''/'' # t) = (path, q, force)"
      by (metis prod_cases3)
    from split_query_relative [OF this] obtain r where path: "path = CHR ''.'' # CHR ''/'' # r" by blast
    from p scheme split path have
      "setPath (CHR ''.'' # CHR ''/'' # r) (empty_url\<lparr>u_RawQuery := q, u_ForceQuery := force\<rparr>) = Inr p"
      by (auto simp: parse_url0_def parse_hier_def empty_url_def split: if_splits)
    from setPath_fields [OF this] setPath_nonempty [OF this] show ?thesis by (simp add: empty_url_def)
  qed
  from assms obtain p where p: "parse_url0 (CHR ''.'' # CHR ''/'' # t) = Inr p" and "ref = p \<or> (\<exists>f. setFragment f p = Inr ref)"
    by (auto simp: url_parse_def cut_def t_def [symmetric] split: sum.splits if_splits)
  then show ?thesis using parsed [OF p] by (auto dest: setFragment_fields)
qed

lemma resolve_elements_absolute: "\<exists>t. resolve_elements (CHR ''/'' # d) first es = CHR ''/'' # t"
proof (induction es arbitrary: d first)
  case (Cons e es)
  then show ?case
    by (cases "cut_last (CHR ''/'') d") (auto split: prod.split)
qed simp

lemma resolvePath_nonempty:
  assumes "ref \<noteq> []"
  shows "resolvePath base ref \<noteq> []"
proof -
  define full where
    "full = (if hd ref \<noteq> CHR ''/'' then (case cut_last (CHR ''/'') base of None \<Rightarrow> [] | Some (a, _) \<Rightarrow> a @ ''/'') @ ref
             else ref)"
  define r where
    "r = resolve_elements ''/'' True (path_elements full)
       @ (if last (path_elements full) = ''.'' \<or> last (path_elements full) = ''..'' then ''/'' else [])"
  have "full \<noteq> []" using assms by (simp add: full_def)
  then have eq: "resolvePath base ref = (if take 2 r = ''//'' then drop 1 r else r)"
    using assms unfolding resolvePath_def Let_def full_def [symmetric] r_def [symmetric]
    by (simp add: r_def full_def [symmetric])
  obtain t where t: "r = CHR ''/'' # t"
    using resolve_elements_absolute [of "[]" True "path_elements full"] unfolding r_def by auto
  show ?thesis unfolding eq t by (cases t) simp_all
qed

lemma EscapedPath_nonempty:
  assumes "u_Path u \<noteq> []"
  shows "EscapedPath u \<noteq> []"
proof -
  have "escape_char encodePath c \<noteq> []" for c by (simp add: escape_char_def)
  moreover from assms obtain c s where "u_Path u = c # s" by (cases "u_Path u") auto
  ultimately have "url_escape encodePath (u_Path u) \<noteq> []" by (simp add: url_escape_def)
  then show ?thesis unfolding EscapedPath_def by simp
qed

lemma ResolveReference_origin:
  assumes "u_Scheme ref = [] \<and> u_Host ref = [] \<and> u_User ref = None \<and> u_Opaque ref = [] \<and> u_Path ref \<noteq> []"
  shows "same_origin s (ResolveReference s ref)"
proof -
  let ?r = "ref\<lparr>u_Scheme := u_Scheme s, u_Host := u_Host s, u_User := u_User s\<rparr>"
  have eq: "ResolveReference s ref = setPath_ignore (resolvePath (EscapedPath s) (EscapedPath ref)) ?r"
    using assms by (simp add: ResolveReference_def Let_def)
  have "EscapedPath ref \<noteq> []" using assms EscapedPath_nonempty by blast
  show ?thesis
  proof (cases "setPath (resolvePath (EscapedPath s) (EscapedPath ref)) ?r")
    case (Inl e)
    with eq assms show ?thesis by (simp add: setPath_ignore_def same_origin_def)
  next
    case (Inr v)
    from \<open>EscapedPath ref \<noteq> []\<close> have "resolvePath (EscapedPath s) (EscapedPath ref) \<noteq> []" by (rule resolvePath_nonempty)
    then obtain c p where "resolvePath (EscapedPath s) (EscapedPath ref) = c # p" by (cases "resolvePath (EscapedPath s) (EscapedPath ref)") auto
    with Inr setPath_nonempty have "u_Path v \<noteq> []" by metis
    with Inr eq assms setPath_fields [OF Inr] show ?thesis by (simp add: setPath_ignore_def same_origin_def)
  qed
qed

lemma has_prefix_append: "has_prefix (p @ t) p"
  by (simp add: has_prefix_def)

lemma same_origin_text:
  assumes "same_origin s u" "u_Scheme s \<noteq> []" "u_Host s \<noteq> []"
  shows "has_prefix (url_String u) (origin_text s @ ''/'')"
proof -
  have path: "EscapedPath u \<noteq> []"
    using assms(1) EscapedPath_nonempty by (auto simp: same_origin_def)
  define slash where "slash = (if EscapedPath u \<noteq> [] \<and> hd (EscapedPath u) \<noteq> CHR ''/'' \<and> u_Host u \<noteq> [] then ''/'' else [])"
  have "u_Host u \<noteq> []" using assms by (simp add: same_origin_def)
  with path have "\<exists>t. slash @ EscapedPath u = ''/'' @ t"
    by (cases "EscapedPath u") (auto simp: slash_def)
  then obtain t where t: "slash @ EscapedPath u = ''/'' @ t" by blast
  define more where "more = (if u_ForceQuery u \<or> u_RawQuery u \<noteq> [] then ''?'' @ u_RawQuery u else [])
      @ (if u_Fragment u \<noteq> [] then ''#'' @ EscapedFragment u else [])"
  have "origin_String u = ''//'' @ (case u_User s of None \<Rightarrow> [] | Some ui \<Rightarrow> userinfo_String ui @ ''@'')
      @ url_escape encodeHost (u_Host s)"
    using assms by (simp add: origin_String_def same_origin_def)
  then have "url_String u = origin_text s @ (slash @ EscapedPath u) @ more"
    using assms unfolding url_String_def Let_def slash_def [symmetric] more_def [symmetric]
    by (simp add: same_origin_def origin_text_def)
  then have "url_String u = (origin_text s @ ''/'') @ t @ more" unfolding t by simp
  then show ?thesis by (simp only: has_prefix_append)
qed

lemma new_request_Inr:
  "new_request verb target body = Inr req \<Longrightarrow> req = \<lparr>hr_method = verb, hr_url = target, hr_headers = [], hr_body = body\<rparr>"
  by (simp add: new_request_def split: sum.splits)

lemma build_request_sound:
  assumes "build_request rt verb server (CHR ''/'' # prefix, p) params body = Inr req"
  shows "at_origin server req \<and> hr_method req = verb \<and> hr_headers req = [] \<and> hr_body req = body"
proof -
  obtain path where path: "style_path rt (CHR ''/'' # prefix, p) = Inr path" "take 1 path = ''/''"
    using assms by (cases p) (auto simp: build_request_def style_path_def split: sum.splits)
  then obtain rest where ref: "operation_ref path = CHR ''.'' # CHR ''/'' # rest"
    by (cases path) (auto simp: operation_ref_def)
  obtain s r where parsed: "url_parse server = Inr s" "url_parse (CHR ''.'' # CHR ''/'' # rest) = Inr r"
    using assms path ref by (auto simp: build_request_def split: sum.splits)
  note origin = ResolveReference_origin [OF relative_reference [OF parsed(2)], of s]
  obtain q where q: "req = \<lparr>hr_method = verb, hr_url = url_String q, hr_headers = [], hr_body = body\<rparr>"
    and same: "same_origin s q"
  proof (cases params)
    case None
    with assms path ref parsed have
      "new_request verb (url_String (ResolveReference s r)) body = Inr req" by (simp add: build_request_def)
    from new_request_Inr [OF this] origin show ?thesis by (intro that)
  next
    case (Some ps)
    with assms path ref parsed obtain q where
      "new_request verb (url_String ((ResolveReference s r)\<lparr>u_RawQuery := q\<rparr>)) body = Inr req"
      by (auto simp: build_request_def Let_def split: sum.splits)
    moreover have "same_origin s ((ResolveReference s r)\<lparr>u_RawQuery := q\<rparr>)"
      using origin by (simp add: same_origin_def)
    ultimately show ?thesis using new_request_Inr by (intro that) blast+
  qed
  then show ?thesis using parsed(1) same_origin_text [OF same] by (auto simp: at_origin_def)
qed

end
