(* ===== verification/RestClient.thy ===== *)
theory RestClient
  imports RestRequests RestAccount RestDevices
begin

text \<open>
  The REST client of accounts (\<open>pkg/dependencies/rest\<close>: \<open>client.go\<close>, \<open>control.go\<close>, \<open>devices.go\<close>, \<open>push.go\<close>,
  \<open>recordings.go\<close>, \<open>snapshot.go\<close>, \<open>captured.go\<close>). An operation builds one request, \<open>sendAuthorizedRequest\<close>
  adds the credentials of the account in the context, \<open>sendWithRetry\<close> repeats reads, and \<open>decodeJSONResponse\<close>
  classifies the reply or decodes it.

  \<open>rest_call\<close> holds what an operation is called with: the peer, the parameter library, the client's
  configuration, and the account that \<open>requestauth\<close> keeps in the context. Models are \<open>rest_value\<close>s, described in
  theory RestModels; types without JSON methods are \<open>gotype\<close>s of theory GoJson.
\<close>

section \<open>The account of a call\<close>

record account =
  acc_AccessToken :: string
  acc_HardwareID :: string

record rest_call =
  rl_env :: http_env
  rl_runtime :: runtime
  rl_config :: rest_config
  rl_account :: "account option"

definition WithAccount :: "rest_call \<Rightarrow> account \<Rightarrow> rest_call" where
  "WithAccount call acc = call\<lparr>rl_account := Some acc\<rparr>"

definition rest_getToken :: "rest_call \<Rightarrow> goerr + string" where
  "rest_getToken call =
     (case rl_account call of
        Some auth \<Rightarrow>
          if acc_AccessToken auth = [] then Inl (NewTokenError ''no token in request'' None)
          else Inr (acc_AccessToken auth)
      | None \<Rightarrow> Inl (NewTokenError ''no token in request'' None))"

definition rest_hardwareIDFor :: "rest_call \<Rightarrow> string" where
  "rest_hardwareIDFor call =
     (case rl_account call of Some auth \<Rightarrow> acc_HardwareID auth | None \<Rightarrow> rc_hardwareID (rl_config call))"

definition rest_base :: "rest_call \<Rightarrow> string" where
  "rest_base call = generatedServerBase (rc_baseURI (rl_config call))"

section \<open>Sending\<close>

definition header :: "string \<Rightarrow> string \<Rightarrow> http_request \<Rightarrow> http_request" where
  "header name v req = req\<lparr>hr_headers := gm_put name v (hr_headers req)\<rparr>"

definition header_get :: "string \<Rightarrow> http_request \<Rightarrow> string" where
  "header_get name req = (case map_of (hr_headers req) name of Some v \<Rightarrow> v | None \<Rightarrow> [])"

definition default_header :: "string \<Rightarrow> string \<Rightarrow> http_request \<Rightarrow> http_request" where
  "default_header name v req = (if header_get name req = [] then header name v req else req)"

definition hardware_header :: "rest_call \<Rightarrow> http_request \<Rightarrow> http_request" where
  "hardware_header call req =
     (if rest_hardwareIDFor call \<noteq> [] then header ''Hardware_id'' (rest_hardwareIDFor call) req else req)"

text \<open>
  The loop of \<open>sendWithRetry\<close> from attempt \<open>retryIndex\<close> on: the outcome of the last attempt, or the failure that
  a context which ends during a wait gives. A retry has no body to recreate, since only GET and HEAD retry.
\<close>

function send_attempts ::
  "http_env \<Rightarrow> http_request \<Rightarrow> nat \<Rightarrow> nat \<Rightarrow> (goerr + http_reply) http_step" where
  "send_attempts env req maxRetries retryIndex w =
     (let w' = w\<lparr>hs_sent := hs_sent w @ [req]\<rparr>;
          result = he_server env (hs_sent w') in
      if (case result of Inr resp \<Rightarrow> resp_code (hp_resp resp) < 500 | Inl _ \<Rightarrow> False) \<or> maxRetries \<le> retryIndex + 1
      then (Ok result, w')
      else
        (let w'' = w'\<lparr>hs_waits := hs_waits w' @ [int (retryIndex + 1) * 1000000000]\<rparr> in
         case he_cancelled env w'' of
           Some e \<Rightarrow> (Err (NewNetworkError ''request canceled during retry'' (Some e)), w'')
         | None \<Rightarrow> send_attempts env req maxRetries (retryIndex + 1) w''))"
  by pat_completeness auto
termination by (relation "measure (\<lambda>(env, req, maxRetries, retryIndex, w). maxRetries - retryIndex)") auto

declare send_attempts.simps [simp del]

definition max_attempts :: "http_request \<Rightarrow> nat" where
  "max_attempts req = (if hr_method req = ''GET'' \<or> hr_method req = ''HEAD'' then 3 else 1)"

definition sendWithRetry :: "http_env \<Rightarrow> http_request \<Rightarrow> http_reply http_step" where
  "sendWithRetry env req =
     lbind (send_attempts env req (max_attempts req) 0)
       (\<lambda>result. case result of
          Inl e \<Rightarrow> lfail (NewNetworkError ''request failed after retries'' (Some e))
        | Inr resp \<Rightarrow> lreturn resp)"

definition authorize :: "rest_call \<Rightarrow> string \<Rightarrow> http_request \<Rightarrow> http_request" where
  "authorize call token req =
     hardware_header call
       (header ''User-Agent'' (rc_userAgent (rl_config call))
         (default_header ''Accept'' ''application/json''
           (default_header ''Content-Type'' ''application/json''
             (header ''Authorization'' (''Bearer '' @ token) req))))"

definition sendAuthorizedRequest :: "rest_call \<Rightarrow> http_request \<Rightarrow> http_reply http_step" where
  "sendAuthorizedRequest call req w =
     (case he_cancelled (rl_env call) w of
        Some e \<Rightarrow> (Err (NewNetworkError ''request canceled'' (Some e)), w)
      | None \<Rightarrow>
          (case rest_getToken call of
             Inl e \<Rightarrow> (Err (NewTokenError ''failed to retrieve access token'' (Some e)), w)
           | Inr token \<Rightarrow> sendWithRetry (rl_env call) (authorize call token req) w))"

text \<open>\<open>decodeJSONResponse\<close>: \<open>T\<close> is the type of the result, if there is one.\<close>

definition decodeJSONResponse :: "rest_type option \<Rightarrow> http_reply \<Rightarrow> goerr + rest_value option" where
  "decodeJSONResponse T resp =
     (case hp_body resp of
        Inl e \<Rightarrow> Inl (NewNetworkError ''failed to read response body'' (Some e))
      | Inr bodyBytes \<Rightarrow>
          if resp_code (hp_resp resp) < 200 \<or> 300 \<le> resp_code (hp_resp resp)
          then Inl (ClassifyHTTPError (hp_resp resp) bodyBytes)
          else
            (case T of
               None \<Rightarrow> Inr None
             | Some t \<Rightarrow>
                 (case rest_decode t (hp_json resp) of
                    (_, True) \<Rightarrow> Inl (NewInternalServerError ''failed to decode response'' (Some JSONError))
                  | (v, False) \<Rightarrow> Inr (Some v))))"

definition doGeneratedJSON :: "rest_call \<Rightarrow> rest_type option \<Rightarrow> http_request \<Rightarrow> rest_value option http_step" where
  "doGeneratedJSON call T req =
     lbind (sendAuthorizedRequest call req) (\<lambda>resp. lift (or_fail (decodeJSONResponse T resp)))"

text \<open>The two forms of every operation below: one request, and the decoded reply or no result.\<close>

definition built :: "string \<Rightarrow> goerr + http_request \<Rightarrow> http_request http_step" where
  "built msg r = lift (case r of Inl e \<Rightarrow> Err (NewNetworkError msg (Some e)) | Inr req \<Rightarrow> Ok req)"

definition json_operation :: "rest_call \<Rightarrow> string \<Rightarrow> goerr + http_request \<Rightarrow> rest_type \<Rightarrow> rest_value http_step" where
  "json_operation call msg r T =
     lbind (built msg r) (\<lambda>req. lbind (doGeneratedJSON call (Some T) req)
       (\<lambda>v. lreturn (case v of Some x \<Rightarrow> x | None \<Rightarrow> rest_zero T)))"

definition plain_operation :: "rest_call \<Rightarrow> string \<Rightarrow> goerr + http_request \<Rightarrow> unit http_step" where
  "plain_operation call msg r =
     lbind (built msg r) (\<lambda>req. lbind (doGeneratedJSON call None req) (\<lambda>_. lreturn ()))"

section \<open>Bodies\<close>

text \<open>Types without JSON methods; the enums of the bodies are strings and integers in Go.\<close>

definition DeviceCommand_type :: gotype where
  "DeviceCommand_type = TStruct [(''command_name'', False, TString)]"

definition IntercomUnlockParams_type :: gotype where
  "IntercomUnlockParams_type = TStruct [(''door_id'', False, TInt), (''user_id'', False, TInt)]"

definition IntercomUnlockRPC_type :: gotype where
  "IntercomUnlockRPC_type =
     TStruct [(''jsonrpc'', False, TString), (''method'', False, TString), (''params'', False, IntercomUnlockParams_type)]"

definition IntercomUnlockCommand_type :: gotype where
  "IntercomUnlockCommand_type =
     TStruct [(''command_name'', False, TString), (''request'', False, IntercomUnlockRPC_type)]"

definition LiveViewSetting_type :: gotype where
  "LiveViewSetting_type = TStruct [(''live_view_enabled'', False, TBool)]"

definition LiveViewSettingRequest_type :: gotype where
  "LiveViewSettingRequest_type = TStruct [(''entity'', False, LiveViewSetting_type)]"

definition PushDeviceMetadata_type :: gotype where
  "PushDeviceMetadata_type =
     TStruct [(''api_version'', True, TPtr TInt), (''device_model'', True, TPtr TString),
              (''pn_dict_version'', False, TString), (''pn_service'', False, TString)]"

definition PushDeviceRegistrationDevice_type :: gotype where
  "PushDeviceRegistrationDevice_type =
     TStruct [(''metadata'', False, PushDeviceMetadata_type), (''os'', False, TString),
              (''push_notification_token'', False, TString)]"

definition PushDeviceRegistration_type :: gotype where
  "PushDeviceRegistration_type = TStruct [(''device'', False, PushDeviceRegistrationDevice_type)]"

definition SnapshotTimestampRequest_type :: gotype where
  "SnapshotTimestampRequest_type = TStruct [(''doorbot_ids'', False, TSlice TInt)]"

definition SnapshotTimestamp_type :: gotype where
  "SnapshotTimestamp_type = TStruct [(''timestamp'', False, TInt)]"

definition SnapshotTimestampResponse_type :: gotype where
  "SnapshotTimestampResponse_type = TStruct [(''timestamps'', True, TPtr (TSlice SnapshotTimestamp_type))]"

definition RecordingShare_type :: gotype where
  "RecordingShare_type = TStruct [(''url'', False, TString)]"

text \<open>\<open>DeviceSettingsPatch\<close>, of which the program only uses \<open>MarshalJSON\<close>.\<close>

definition DeviceSettingsPatch_model :: rest_type where
  "DeviceSettingsPatch_model = RStruct
     [(''general_settings'', True, RPtr (RPlain TMap)),
      (''motion_settings'', True, RPtr MotionSettingsPatch_model),
      (''video_settings'', True, RPtr (RPlain TMap)),
      (''volume_settings'', True, RPtr (RPlain TMap))]"

definition DeviceSettingsPatch_MarshalJSON :: "rest_value \<Rightarrow> json" where
  "DeviceSettingsPatch_MarshalJSON = rest_marshal DeviceSettingsPatch_model"

section \<open>Controls\<close>

definition GetMotionDetectionEnabled :: "rest_call \<Rightarrow> int \<Rightarrow> bool option http_step" where
  "GetMotionDetectionEnabled call deviceID =
     lbind (json_operation call ''failed to build device settings request''
             (NewGetDeviceSettingsRequest (rl_runtime call) (rest_base call) deviceID) DeviceSettings_model)
       (\<lambda>response. lreturn
          (case rest_field DeviceSettings_model ''motion_settings'' response of
             Some (RVPtr (Some motionSettings)) \<Rightarrow>
               rest_bool_ptr MotionSettings_model ''motion_detection_enabled'' motionSettings
           | _ \<Rightarrow> None))"

definition motion_patch :: "bool \<Rightarrow> rest_value" where
  "motion_patch enabled =
     RVStruct [RVPtr None, RVPtr (Some (RVStruct [RVPtr (Some (RV (VBool enabled)))] None)), RVPtr None, RVPtr None] None"

definition PatchMotionDetectionEnabled :: "rest_call \<Rightarrow> int \<Rightarrow> bool \<Rightarrow> unit http_step" where
  "PatchMotionDetectionEnabled call deviceID enabled =
     lbind (json_operation call ''failed to build device settings update request''
             (NewPatchDeviceSettingsRequest (rl_runtime call) (rest_base call) deviceID
                (DeviceSettingsPatch_MarshalJSON (motion_patch enabled))) RUnion)
       (\<lambda>_. lreturn ())"

definition rest_SetSiren :: "rest_call \<Rightarrow> int \<Rightarrow> bool \<Rightarrow> unit http_step" where
  "rest_SetSiren call deviceID enabled =
     plain_operation call ''failed to build siren request''
       (if enabled then NewTurnSirenOnRequest (rl_runtime call) (rest_base call) deviceID
        else NewTurnSirenOffRequest (rl_runtime call) (rest_base call) deviceID)"

definition rest_SetChimeVolume :: "rest_call \<Rightarrow> int \<Rightarrow> string \<Rightarrow> int \<Rightarrow> unit http_step" where
  "rest_SetChimeVolume call deviceID description volume =
     plain_operation call ''failed to build chime volume request''
       (NewSetChimeVolumeRequest (rl_runtime call) (rest_base call) deviceID (Some
          \<lparr>SetChimeVolumeParams_ChimeDescription = description, SetChimeVolumeParams_ChimeSettingsVolume = volume\<rparr>))"

definition updateLegacyDoorbotControls :: "rest_call \<Rightarrow> int \<Rightarrow> UpdateLegacyDoorbotControlsParams \<Rightarrow> unit http_step" where
  "updateLegacyDoorbotControls call deviceID params =
     plain_operation call ''failed to build legacy doorbot controls request''
       (NewUpdateLegacyDoorbotControlsRequest (rl_runtime call) (rest_base call) deviceID (Some params))"

definition legacy_controls :: "string \<Rightarrow> UpdateLegacyDoorbotControlsParams" where
  "legacy_controls description =
     \<lparr>UpdateLegacyDoorbotControlsParams_DoorbotDescription = description,
      UpdateLegacyDoorbotControlsParams_DoorbotSettingsDoorbellVolume = None,
      UpdateLegacyDoorbotControlsParams_DoorbotSettingsChimeSettingsType = None,
      UpdateLegacyDoorbotControlsParams_DoorbotSettingsChimeSettingsEnable = None,
      UpdateLegacyDoorbotControlsParams_DoorbotSettingsChimeSettingsDuration = None\<rparr>"

definition SetDoorbellVolume :: "rest_call \<Rightarrow> int \<Rightarrow> string \<Rightarrow> int \<Rightarrow> unit http_step" where
  "SetDoorbellVolume call deviceID description volume =
     updateLegacyDoorbotControls call deviceID ((legacy_controls description)
       \<lparr>UpdateLegacyDoorbotControlsParams_DoorbotSettingsDoorbellVolume := Some volume\<rparr>)"

definition SetInHomeChimeType :: "rest_call \<Rightarrow> int \<Rightarrow> string \<Rightarrow> int \<Rightarrow> unit http_step" where
  "SetInHomeChimeType call deviceID description wanted =
     updateLegacyDoorbotControls call deviceID ((legacy_controls description)
       \<lparr>UpdateLegacyDoorbotControlsParams_DoorbotSettingsChimeSettingsType := Some wanted\<rparr>)"

definition SetInHomeChimeDuration :: "rest_call \<Rightarrow> int \<Rightarrow> string \<Rightarrow> int \<Rightarrow> unit http_step" where
  "SetInHomeChimeDuration call deviceID description wanted =
     updateLegacyDoorbotControls call deviceID ((legacy_controls description)
       \<lparr>UpdateLegacyDoorbotControlsParams_DoorbotSettingsChimeSettingsDuration := Some wanted\<rparr>)"

definition SetInHomeChimeEnabled :: "rest_call \<Rightarrow> int \<Rightarrow> string \<Rightarrow> bool \<Rightarrow> unit http_step" where
  "SetInHomeChimeEnabled call deviceID description enabled =
     updateLegacyDoorbotControls call deviceID ((legacy_controls description)
       \<lparr>UpdateLegacyDoorbotControlsParams_DoorbotSettingsChimeSettingsEnable := Some (if enabled then 1 else 0)\<rparr>)"

definition rest_SetLights :: "rest_call \<Rightarrow> int \<Rightarrow> bool \<Rightarrow> unit http_step" where
  "rest_SetLights call deviceID enabled =
     plain_operation call ''failed to build light request''
       (if enabled then NewTurnFloodlightOnRequest (rl_runtime call) (rest_base call) deviceID
        else NewTurnFloodlightOffRequest (rl_runtime call) (rest_base call) deviceID)"

definition rest_SetMotionDetection :: "rest_call \<Rightarrow> int \<Rightarrow> bool \<Rightarrow> unit http_step" where
  "rest_SetMotionDetection call deviceID enabled = PatchMotionDetectionEnabled call deviceID enabled"

definition rest_TestSound :: "rest_call \<Rightarrow> int \<Rightarrow> string \<Rightarrow> unit http_step" where
  "rest_TestSound call deviceID kind =
     plain_operation call ''failed to build chime sound request''
       (NewTestChimeSoundRequest (rl_runtime call) (rest_base call) deviceID (Some \<lparr>TestChimeSoundParams_Kind = kind\<rparr>))"

section \<open>Devices and sessions\<close>

definition rest_GetDevices :: "rest_call \<Rightarrow> rest_value http_step" where
  "rest_GetDevices call =
     json_operation call ''failed to build list devices request''
       (NewListDevicesRequest (rl_runtime call) (rest_base call)) DeviceList_model"

definition session_registration :: "string \<Rightarrow> rest_value" where
  "session_registration hardwareID =
     RVStruct
       [RVStruct
         [RV (VString hardwareID),
          RVStruct [RV (VInt 11), RV (VString ''go-ring'')] None,
          RV (VString ''android'')] None] None"

definition RegisterSession :: "rest_call \<Rightarrow> unit http_step" where
  "RegisterSession call =
     plain_operation call ''failed to build client session request''
       (NewRegisterClientSessionRequest (rl_runtime call) (rest_base call)
          (ClientSessionRegistration_MarshalJSON (session_registration (rest_hardwareIDFor call))))"

definition rest_GetDeviceHealth :: "rest_call \<Rightarrow> int \<Rightarrow> rest_value http_step" where
  "rest_GetDeviceHealth call deviceID =
     json_operation call ''failed to build device health request''
       (NewGetLegacyDeviceHealthRequest (rl_runtime call) (rest_base call) deviceID) LegacyDeviceHealth_model"

section \<open>Push registration\<close>

definition push_registration :: "string \<Rightarrow> json" where
  "push_registration token =
     marshal PushDeviceRegistration_type
       (VStruct [VStruct
          [VStruct [VPtr (Some (VInt 11)), VPtr (Some (VString ''go-ring'')), VString ''2.0.0'', VString ''fcm''],
           VString ''android'', VString token]])"

definition RegisterPushDevice :: "rest_call \<Rightarrow> string \<Rightarrow> unit http_step" where
  "RegisterPushDevice call token =
     plain_operation call ''failed to build push registration request''
       (NewRegisterPushDeviceRequest (rl_runtime call) (rest_base call) (push_registration token))"

definition SubscribeDeviceDing :: "rest_call \<Rightarrow> int \<Rightarrow> unit http_step" where
  "SubscribeDeviceDing call deviceID =
     plain_operation call ''failed to build ding subscription request''
       (NewSubscribeDeviceDingRequest (rl_runtime call) (rest_base call) deviceID)"

definition SubscribeDeviceMotion :: "rest_call \<Rightarrow> int \<Rightarrow> unit http_step" where
  "SubscribeDeviceMotion call deviceID =
     plain_operation call ''failed to build motion subscription request''
       (NewSubscribeDeviceMotionRequest (rl_runtime call) (rest_base call) deviceID)"

section \<open>Recordings\<close>

definition rest_GetRecordingShareURL :: "rest_call \<Rightarrow> int \<Rightarrow> string http_step" where
  "rest_GetRecordingShareURL call recordingID =
     lbind (json_operation call ''failed to build recording share request''
             (NewGetLegacyRecordingShareURLRequest (rl_runtime call) (rest_base call) recordingID)
             (RPlain RecordingShare_type))
       (\<lambda>response.
          let url = (case response of RV v \<Rightarrow> as_string (field_of RecordingShare_type ''url'' v) | _ \<Rightarrow> []) in
          if url = [] then lfail (NewInternalServerError ''recording share response lacks URL'' None)
          else lreturn url)"

definition history_params :: "int \<Rightarrow> string \<Rightarrow> int option \<Rightarrow> GetLegacyDeviceHistoryParams" where
  "history_params limit kind olderThan =
     \<lparr>GetLegacyDeviceHistoryParams_Limit = (if limit > 0 then Some limit else None),
      GetLegacyDeviceHistoryParams_Kind = (if kind \<noteq> [] then Some kind else None),
      GetLegacyDeviceHistoryParams_OlderThan = olderThan\<rparr>"

definition rest_GetDeviceHistory :: "rest_call \<Rightarrow> int \<Rightarrow> int \<Rightarrow> string \<Rightarrow> int option \<Rightarrow> rest_value http_step" where
  "rest_GetDeviceHistory call deviceID limit kind olderThan =
     json_operation call ''failed to build device history request''
       (NewGetLegacyDeviceHistoryRequest (rl_runtime call) (rest_base call) deviceID
          (Some (history_params limit kind olderThan))) (RSlice Recording_model)"

definition rest_GetActiveDings :: "rest_call \<Rightarrow> rest_value http_step" where
  "rest_GetActiveDings call =
     json_operation call ''failed to build active dings request''
       (NewGetActiveDingsRequest (rl_runtime call) (rest_base call)) (RSlice Recording_model)"

text \<open>
  \<open>GetRecording\<close> and \<open>GetSnapshotImage\<close> send one request of their own, without the JSON headers and retries. The
  stream of a recording is the reply's body, read later by the caller.
\<close>

definition send_once :: "rest_call \<Rightarrow> string \<Rightarrow> string \<Rightarrow> string \<Rightarrow> http_request \<Rightarrow> http_reply http_step" where
  "send_once call accept tokenMsg sendMsg req =
     (case rest_getToken call of
        Inl e \<Rightarrow> lfail (NewTokenError tokenMsg (Some e))
      | Inr token \<Rightarrow>
          (\<lambda>w. case http_do (rl_env call)
                  (hardware_header call
                    (header ''User-Agent'' (rc_userAgent (rl_config call))
                      (header ''Accept'' accept
                        (header ''Authorization'' (''Bearer '' @ token) req)))) w of
              (Err e, w') \<Rightarrow> (Err (NewNetworkError sendMsg (Some e)), w')
            | r \<Rightarrow> r))"

definition checked_status :: "http_reply \<Rightarrow> http_reply http_step" where
  "checked_status resp =
     (if resp_code (hp_resp resp) < 200 \<or> 300 \<le> resp_code (hp_resp resp)
      then lfail (ClassifyHTTPError (hp_resp resp) []) else lreturn resp)"

record video_stream =
  vs_Body :: "goerr + string"
  vs_ContentType :: string
  vs_ContentLen :: int

definition rest_GetRecording :: "rest_call \<Rightarrow> int \<Rightarrow> video_stream http_step" where
  "rest_GetRecording call recordingID =
     lbind (built ''failed to create request'' (NewStreamRecordingRequest (rl_runtime call) (rest_base call) recordingID))
       (\<lambda>req. lbind (send_once call ''video/mp4,*/*'' ''failed to get recording token'' ''failed to get recording'' req)
          (\<lambda>resp. lbind (checked_status resp)
             (\<lambda>resp. lreturn
                \<lparr>vs_Body = hp_body resp, vs_ContentType = hp_contentType resp,
                 vs_ContentLen = (if hp_contentLength resp > 0 then hp_contentLength resp else - 1)\<rparr>)))"

section \<open>Snapshots\<close>

abbreviation maxSnapshotBytes :: nat where "maxSnapshotBytes \<equiv> 16777216"

definition first_timestamp :: "rest_value \<Rightarrow> int" where
  "first_timestamp response =
     (case response of
        RV v \<Rightarrow>
          (case field_of SnapshotTimestampResponse_type ''timestamps'' v of
             VPtr (Some (VSlice (Some (t # _)))) \<Rightarrow> as_int (field_of SnapshotTimestamp_type ''timestamp'' t)
           | _ \<Rightarrow> 0)
      | _ \<Rightarrow> 0)"

definition RefreshSnapshotTimestamp :: "rest_call \<Rightarrow> int \<Rightarrow> int http_step" where
  "RefreshSnapshotTimestamp call deviceID =
     lbind (json_operation call ''failed to build snapshot refresh request''
             (NewRefreshLegacySnapshotTimestampRequest (rl_runtime call) (rest_base call)
                (marshal SnapshotTimestampRequest_type (VStruct [VSlice (Some [VInt deviceID])])))
             (RPlain SnapshotTimestampResponse_type))
       (\<lambda>response. lreturn (first_timestamp response))"

text \<open>The body is read up to one byte over the limit; \<open>hp_body\<close> is an error where that read fails.\<close>

definition GetSnapshotImage :: "rest_call \<Rightarrow> int \<Rightarrow> (string \<times> string) http_step" where
  "GetSnapshotImage call deviceID =
     lbind (built ''failed to create snapshot request''
             (NewGetLegacySnapshotImageRequest (rl_runtime call) (rest_base call) deviceID))
       (\<lambda>req. lbind (send_once call ''image/jpeg'' ''failed to get snapshot token'' ''failed to get snapshot image'' req)
          (\<lambda>resp. lbind (checked_status resp)
             (\<lambda>resp.
                case hp_body resp of
                  Inl e \<Rightarrow> lfail (NewNetworkError ''failed to read snapshot image'' (Some e))
                | Inr body \<Rightarrow>
                    if length (take (maxSnapshotBytes + 1) body) > maxSnapshotBytes
                    then lfail (NewInternalServerError (''snapshot exceeds '' @ dec_nat maxSnapshotBytes @ '' bytes'') None)
                    else lreturn (take (maxSnapshotBytes + 1) body, hp_contentType resp))))"

section \<open>Captured resources\<close>

definition rest_GetDeviceDetail :: "rest_call \<Rightarrow> int \<Rightarrow> rest_value http_step" where
  "rest_GetDeviceDetail call deviceID =
     json_operation call ''failed to build device detail request''
       (NewGetDeviceRequest (rl_runtime call) (rest_base call) deviceID) DeviceDetail_model"

definition rest_ListLocations :: "rest_call \<Rightarrow> rest_value http_step" where
  "rest_ListLocations call =
     json_operation call ''failed to build locations request''
       (NewListLocationsRequest (rl_runtime call) (rest_base call)) LocationList_model"

definition rest_GetLocation :: "rest_call \<Rightarrow> string \<Rightarrow> GetLocationParams \<Rightarrow> rest_value http_step" where
  "rest_GetLocation call location params =
     json_operation call ''failed to build location request''
       (NewGetLocationRequest (rl_runtime call) (rest_base call) location (Some params)) LocationDetail_model"

definition rest_ListLocationGroups :: "rest_call \<Rightarrow> string \<Rightarrow> rest_value http_step" where
  "rest_ListLocationGroups call location =
     json_operation call ''failed to build location groups request''
       (NewListLocationGroupsRequest (rl_runtime call) (rest_base call) location) LocationGroups_model"

definition rest_ListLocationDevices :: "rest_call \<Rightarrow> string \<Rightarrow> rest_value http_step" where
  "rest_ListLocationDevices call location =
     json_operation call ''failed to build location devices request''
       (NewListLocationDevicesRequest (rl_runtime call) (rest_base call) location) LocationGroupDevices_model"

definition rest_GetDeviceTimeline :: "rest_call \<Rightarrow> int \<Rightarrow> GetDeviceTimelineParams \<Rightarrow> rest_value http_step" where
  "rest_GetDeviceTimeline call deviceID params =
     json_operation call ''failed to build device timeline request''
       (NewGetDeviceTimelineRequest (rl_runtime call) (rest_base call) deviceID (Some params)) DeviceTimeline_model"

definition rest_GetHistoryDevices :: "rest_call \<Rightarrow> GetHistoryDevicesParams \<Rightarrow> rest_value http_step" where
  "rest_GetHistoryDevices call params =
     json_operation call ''failed to build history devices request''
       (NewGetHistoryDevicesRequest (rl_runtime call) (rest_base call) (Some params)) HistoryDevices_model"

definition rest_RebootDevice :: "rest_call \<Rightarrow> int \<Rightarrow> unit http_step" where
  "rest_RebootDevice call deviceID =
     plain_operation call ''failed to build reboot request''
       (NewSendDeviceCommandRequest (rl_runtime call) (rest_base call) deviceID
          (marshal DeviceCommand_type (VStruct [VString ''reboot''])))"

definition unlock_command :: "json" where
  "unlock_command =
     marshal IntercomUnlockCommand_type
       (VStruct [VString ''device_rpc'', VStruct [VString ''2.0'', VString ''unlock_door'', VStruct [VInt 0, VInt 0]]])"

definition rest_UnlockIntercom :: "rest_call \<Rightarrow> int \<Rightarrow> unit http_step" where
  "rest_UnlockIntercom call deviceID =
     plain_operation call ''failed to build intercom unlock request''
       (NewUnlockIntercomRequest (rl_runtime call) (rest_base call) deviceID unlock_command)"

definition rest_SetPersistentLiveViewEnabled :: "rest_call \<Rightarrow> int \<Rightarrow> bool \<Rightarrow> unit http_step" where
  "rest_SetPersistentLiveViewEnabled call deviceID enabled =
     plain_operation call ''failed to build live view settings request''
       (NewSetLiveViewEnabledRequest (rl_runtime call) (rest_base call) deviceID
          (marshal LiveViewSettingRequest_type (VStruct [VStruct [VBool enabled]])))"

definition rest_FavoriteRecording :: "rest_call \<Rightarrow> int \<Rightarrow> unit http_step" where
  "rest_FavoriteRecording call recording =
     plain_operation call ''failed to build favorite recording request''
       (NewFavoriteRecordingRequest (rl_runtime call) (rest_base call) recording)"

definition rest_DeleteRecording :: "rest_call \<Rightarrow> int \<Rightarrow> bool option \<Rightarrow> unit http_step" where
  "rest_DeleteRecording call recording confirmFavorite =
     plain_operation call ''failed to build delete recording request''
       (NewDeleteRecordingRequest (rl_runtime call) (rest_base call) recording
          (Some \<lparr>DeleteRecordingParams_ConfirmDeleteFavorite = confirmFavorite\<rparr>))"

end
