(* ===== verification/RetryPolicy.thy ===== *)
theory RetryPolicy
  imports RestClient
begin

text \<open>
  The retries of the REST client: what \<open>sendWithRetry\<close> sends, how long it waits, and what it returns.
\<close>

text \<open>The answer to attempt \<open>j\<close> of a request that is first sent after \<open>before\<close>.\<close>

definition answer :: "http_env \<Rightarrow> http_request list \<Rightarrow> http_request \<Rightarrow> nat \<Rightarrow> goerr + http_reply" where
  "answer env before req j = he_server env (before @ replicate (Suc j) req)"

definition attempt_ok :: "goerr + http_reply \<Rightarrow> bool" where
  "attempt_ok r = (case r of Inr resp \<Rightarrow> resp_code (hp_resp resp) < 500 | Inl _ \<Rightarrow> False)"

text \<open>The waits before the attempts \<open>i + 1\<close> to \<open>k - 1\<close>: as many seconds as attempts were made before.\<close>

definition backoffs :: "nat \<Rightarrow> nat \<Rightarrow> int list" where
  "backoffs i k = map (\<lambda>j. int j * 1000000000) [i + 1..<k]"

definition attempts_result ::
  "http_env \<Rightarrow> http_request \<Rightarrow> nat \<Rightarrow> nat \<Rightarrow> http_state \<Rightarrow> (goerr + http_reply) outcome \<Rightarrow> http_state \<Rightarrow> nat \<Rightarrow> bool" where
  "attempts_result env req n i w r w' k \<longleftrightarrow>
     0 < k \<and> k \<le> n - i \<and> hs_sent w' = hs_sent w @ replicate k req
     \<and> list_all (\<lambda>j. \<not> attempt_ok (answer env (hs_sent w) req j)) [0..<k - 1]
     \<and> (case r of
          Ok result \<Rightarrow>
            result = answer env (hs_sent w) req (k - 1) \<and> (attempt_ok result \<or> k = n - i)
            \<and> hs_waits w' = hs_waits w @ backoffs i (i + k)
        | Err e \<Rightarrow>
            \<not> attempt_ok (answer env (hs_sent w) req (k - 1)) \<and> k < n - i
            \<and> (\<exists>c. he_cancelled env w' = Some c
                   \<and> e = NewNetworkError ''request canceled during retry'' (Some c))
            \<and> hs_waits w' = hs_waits w @ backoffs i (i + k + 1)
        | Panic \<Rightarrow> False)"

lemma answer_next: "answer env (before @ [req]) req j = answer env before req (Suc j)"
  by (simp add: answer_def)

lemma backoffs_step: "i + 1 < k \<Longrightarrow> backoffs i k = int (i + 1) * 1000000000 # backoffs (i + 1) k"
  by (simp add: backoffs_def upt_conv_Cons)

lemma all_upt_Suc: "list_all P [0..<Suc k] \<longleftrightarrow> P 0 \<and> list_all (\<lambda>j. P (Suc j)) [0..<k]"
  by (simp add: upt_conv_Cons map_Suc_upt [symmetric] list.pred_map comp_def del: upt_Suc)

lemma send_attempts_result:
  "i < n \<Longrightarrow> send_attempts env req n i w = (r, w') \<Longrightarrow> \<exists>k. attempts_result env req n i w r w' k"
proof (induction "n - i" arbitrary: i w)
  case (Suc d)
  let ?w1 = "w\<lparr>hs_sent := hs_sent w @ [req]\<rparr>"
  let ?w2 = "?w1\<lparr>hs_waits := hs_waits ?w1 @ [int (i + 1) * 1000000000]\<rparr>"
  let ?a = "answer env (hs_sent w) req 0"
  have a: "he_server env (hs_sent ?w1) = ?a" by (simp add: answer_def)
  consider (stop) "attempt_ok ?a \<or> n \<le> i + 1"
    | (cancelled) c where "\<not> attempt_ok ?a" "i + 1 < n" "he_cancelled env ?w2 = Some c"
    | (again) "\<not> attempt_ok ?a" "i + 1 < n" "he_cancelled env ?w2 = None"
    by (cases "he_cancelled env ?w2") force+
  then show ?case
  proof cases
    case stop
    with Suc.prems(2) a have "r = Ok ?a" "w' = ?w1"
      by (subst (asm) send_attempts.simps, auto simp: Let_def attempt_ok_def)+
    with stop Suc.prems(1) have "attempts_result env req n i w r w' 1"
      by (auto simp: attempts_result_def backoffs_def)
    then show ?thesis by blast
  next
    case cancelled
    with Suc.prems(2) a have
      "r = Err (NewNetworkError ''request canceled during retry'' (Some c))" "w' = ?w2"
      by (subst (asm) send_attempts.simps, auto simp: Let_def attempt_ok_def)+
    with cancelled have "attempts_result env req n i w r w' 1"
      by (auto simp: attempts_result_def backoffs_def)
    then show ?thesis by blast
  next
    case again
    with Suc.prems(2) a have "send_attempts env req n (i + 1) ?w2 = (r, w')"
      by (subst (asm) send_attempts.simps) (auto simp: Let_def attempt_ok_def)
    with Suc.hyps again obtain k where k: "attempts_result env req n (i + 1) ?w2 r w' k" by fastforce
    then obtain k' where k': "k = Suc k'" by (cases k) (auto simp: attempts_result_def)
    have sent: "hs_sent ?w2 = hs_sent w @ [req]" by simp
    have head: "0 < Suc k \<and> Suc k \<le> n - i \<and> hs_sent w' = hs_sent w @ replicate (Suc k) req"
      using k again(2) unfolding attempts_result_def by auto
    have failed: "list_all (\<lambda>j. \<not> attempt_ok (answer env (hs_sent w) req j)) [0..<Suc k - 1]"
      using k again(1) unfolding attempts_result_def sent answer_next k' by (simp add: all_upt_Suc del: upt_Suc)
    have last: "answer env (hs_sent ?w2) req (k - 1) = answer env (hs_sent w) req (Suc k - 1)"
      unfolding sent answer_next k' by simp
    have left: "k = n - (i + 1) \<longleftrightarrow> Suc k = n - i" "k < n - (i + 1) \<longleftrightarrow> Suc k < n - i" using again(2) by auto
    have index: "i + 1 + k = i + Suc k" "i + 1 + k + 1 = i + Suc k + 1" by simp_all
    have waits: "hs_waits ?w2 @ backoffs (i + 1) m = hs_waits w @ backoffs i m" if "i + 1 < m" for m
      using backoffs_step [OF that] by simp
    have "i + 1 < i + Suc k" "i + 1 < i + Suc k + 1" using k' by simp_all
    note waits = waits [OF this(1)] waits [OF this(2)]
    have "attempts_result env req n i w r w' (Suc k)"
      using k head failed unfolding attempts_result_def last left index waits by simp
    then show ?thesis by blast
  qed
qed simp

section \<open>Properties\<close>

text \<open>C34: the retry policy. A request is sent at least once and, unless it is a GET or a HEAD, only once; those are
  sent up to three times. All attempts are the same request, every attempt but the last was answered by a
  transport error or a status of 500 or more, and the client waits one second before the second attempt and
  two before the third. A reply that is returned is the answer to the last attempt, and below 500 unless
  the attempts are used up; a failure wraps the transport error of the last possible attempt, or the error of a
  context that ended during a wait, and then nothing more was sent.\<close>

theorem sendWithRetry_policy:
  "\<exists>k. 0 < k \<and> k \<le> (if hr_method req \<in> {''GET'', ''HEAD''} then 3 else 1)
     \<and> hs_sent (snd (sendWithRetry env req w)) = hs_sent w @ replicate k req
     \<and> list_all (\<lambda>j. \<not> attempt_ok (answer env (hs_sent w) req j)) [0..<k - 1]
     \<and> (case fst (sendWithRetry env req w) of
          Ok resp \<Rightarrow>
            answer env (hs_sent w) req (k - 1) = Inr resp
            \<and> (resp_code (hp_resp resp) < 500 \<or> k = max_attempts req)
            \<and> hs_waits (snd (sendWithRetry env req w)) = hs_waits w @ backoffs 0 k
        | Err e \<Rightarrow>
            (\<exists>c. k = max_attempts req \<and> answer env (hs_sent w) req (k - 1) = Inl c
                 \<and> e = NewNetworkError ''request failed after retries'' (Some c)
                 \<and> hs_waits (snd (sendWithRetry env req w)) = hs_waits w @ backoffs 0 k)
            \<or> (\<exists>c. k < max_attempts req \<and> he_cancelled env (snd (sendWithRetry env req w)) = Some c
                 \<and> e = NewNetworkError ''request canceled during retry'' (Some c)
                 \<and> hs_waits (snd (sendWithRetry env req w)) = hs_waits w @ backoffs 0 (k + 1))
        | Panic \<Rightarrow> False)"
proof -
  obtain r w' where r: "send_attempts env req (max_attempts req) 0 w = (r, w')" by fastforce
  have "0 < max_attempts req" by (simp add: max_attempts_def)
  from send_attempts_result [OF this r] obtain k where k: "attempts_result env req (max_attempts req) 0 w r w' k" ..
  have max: "max_attempts req = (if hr_method req \<in> {''GET'', ''HEAD''} then 3 else 1)"
    by (simp add: max_attempts_def)
  have eq: "sendWithRetry env req w =
      (case r of
         Ok (Inl e) \<Rightarrow> (Err (NewNetworkError ''request failed after retries'' (Some e)), w')
       | Ok (Inr resp) \<Rightarrow> (Ok resp, w')
       | Err e \<Rightarrow> (Err e, w')
       | Panic \<Rightarrow> (Panic, w'))"
    unfolding sendWithRetry_def lbind_def r
    by (auto simp: lfail_def lreturn_def split: outcome.split sum.split)
  show ?thesis
    using k unfolding max [symmetric] eq attempts_result_def
    by (intro exI [of _ k]) (auto simp: attempt_ok_def split: outcome.splits sum.splits)
qed

end
