(* ===== verification/AccessToken.thy ===== *)
theory AccessToken
  imports GoJson Login
begin

text \<open>
  The hardware identifier that an access token carries (\<open>hardwareIDFromAccessToken\<close> in \<open>pkg/ring/client.go\<close>), with
  what it uses of the standard library: the decoder of \<open>base64.RawURLEncoding\<close> and the reader of JSON texts.
  \<open>json_text\<close> gives the documents of theory GoJson: literals keep their text, objects their order and duplicates,
  string escapes are resolved, invalid UTF-8 and lone surrogates become U+FFFD, and nesting is limited to 10000.
\<close>

section \<open>Base64\<close>

definition b64_value :: "char \<Rightarrow> nat option" where
  "b64_value c =
     list_index (\<lambda>x. x = c) ''ABCDEFGHIJKLMNOPQRSTUVWXYZabcdefghijklmnopqrstuvwxyz0123456789-_''"

fun b64_bytes :: "nat list \<Rightarrow> string option" where
  "b64_bytes [] = Some []"
| "b64_bytes [a] = None"
| "b64_bytes [a, b] = Some [char_of (a * 4 + b div 16)]"
| "b64_bytes [a, b, c] = Some [char_of (a * 4 + b div 16), char_of ((b mod 16) * 16 + c div 4)]"
| "b64_bytes (a # b # c # d # r) =
     map_option (\<lambda>s. char_of (a * 4 + b div 16) # char_of ((b mod 16) * 16 + c div 4)
                     # char_of ((c mod 4) * 64 + d) # s) (b64_bytes r)"

text \<open>Line breaks are skipped; other characters outside the alphabet are errors.\<close>

definition base64url_decode :: "string \<Rightarrow> string option" where
  "base64url_decode s =
     (let vs = map b64_value (filter (\<lambda>c. c \<noteq> CHR 0x0D \<and> c \<noteq> CHR 0x0A) s) in
      if None \<in> set vs then None else b64_bytes (map the vs))"

section \<open>JSON texts\<close>

abbreviation code :: "char \<Rightarrow> nat" where "code c \<equiv> of_char c"

definition json_space :: "char \<Rightarrow> bool" where
  "json_space c \<longleftrightarrow> c = CHR '' '' \<or> c = CHR 0x09 \<or> c = CHR 0x0A \<or> c = CHR 0x0D"

definition skip_space :: "string \<Rightarrow> string" where
  "skip_space s = dropWhile json_space s"

definition between :: "nat \<Rightarrow> nat \<Rightarrow> char \<Rightarrow> bool" where
  "between lo hi c \<longleftrightarrow> lo \<le> code c \<and> code c \<le> hi"

text \<open>The length of the valid UTF-8 sequence that starts a text, or zero.\<close>

definition utf8_width :: "string \<Rightarrow> nat" where
  "utf8_width s =
     (case s of
        [] \<Rightarrow> 0
      | a # r \<Rightarrow>
          if code a < 128 then 1
          else
            (let cont = takeWhile (between 128 191) (take 3 r);
                 second = (\<lambda>lo hi. r \<noteq> [] \<and> between lo hi (hd r)) in
             if between 194 223 a \<and> length cont \<ge> 1 then 2
             else if between 224 239 a \<and> length cont \<ge> 2
                  \<and> (code a = 224 \<longrightarrow> second 160 191) \<and> (code a = 237 \<longrightarrow> second 128 159) then 3
             else if between 240 244 a \<and> length cont \<ge> 3
                  \<and> (code a = 240 \<longrightarrow> second 144 191) \<and> (code a = 244 \<longrightarrow> second 128 143) then 4
             else 0))"

definition utf8_encode :: "nat \<Rightarrow> string" where
  "utf8_encode r =
     (if r < 128 then [char_of r]
      else if r < 2048 then [char_of (192 + r div 64), char_of (128 + r mod 64)]
      else if r < 65536 then
        [char_of (224 + r div 4096), char_of (128 + r div 64 mod 64), char_of (128 + r mod 64)]
      else
        [char_of (240 + r div 262144), char_of (128 + r div 4096 mod 64), char_of (128 + r div 64 mod 64),
         char_of (128 + r mod 64)])"

definition replacement :: string where
  "replacement = [CHR 0xEF, CHR 0xBF, CHR 0xBD]"

definition hex_value :: "char \<Rightarrow> nat option" where
  "hex_value c =
     (if between 48 57 c then Some (code c - 48)
      else if between 65 70 c then Some (code c - 55)
      else if between 97 102 c then Some (code c - 87) else None)"

text \<open>Four hexadecimal digits.\<close>

definition hex4 :: "string \<Rightarrow> nat option" where
  "hex4 s =
     (let ds = map hex_value (take 4 s) in
      if length ds < 4 \<or> None \<in> set ds then None
      else Some (foldl (\<lambda>n d. 16 * n + the d) 0 ds))"

text \<open>The escape after a backslash: its text and the number of characters it takes.\<close>

definition simple_escape :: "char \<Rightarrow> string option" where
  "simple_escape c =
     map_of [(CHR 0x22, [CHR 0x22]), (CHR 0x5C, [CHR 0x5C]), (CHR ''/'', ''/''), (CHR ''b'', [CHR 0x08]),
             (CHR ''f'', [CHR 0x0C]), (CHR ''n'', [CHR 0x0A]), (CHR ''r'', [CHR 0x0D]), (CHR ''t'', [CHR 0x09])] c"

definition json_escape :: "string \<Rightarrow> (string \<times> nat) option" where
  "json_escape s =
     (case s of
        [] \<Rightarrow> None
      | c # r \<Rightarrow>
          if c \<noteq> CHR ''u'' then map_option (\<lambda>t. (t, 1)) (simple_escape c)
          else
            (case hex4 r of
               None \<Rightarrow> None
             | Some hi \<Rightarrow>
                 if hi < 55296 \<or> 57343 < hi then Some (utf8_encode hi, 5)
                 else
                   (let low = (if take 2 (drop 4 r) = [CHR 0x5C, CHR ''u''] then hex4 (drop 6 r) else None) in
                    if hi < 56320 \<and> (case low of Some lo \<Rightarrow> 56320 \<le> lo \<and> lo \<le> 57343 | None \<Rightarrow> False)
                    then Some (utf8_encode ((hi - 55296) * 1024 + (the low - 56320) + 65536), 11)
                    else Some (replacement, 5))))"

text \<open>The rest of a string after its opening quote, and what follows the closing one.\<close>

fun json_chars :: "nat \<Rightarrow> string \<Rightarrow> (string \<times> string) option" where
  "json_chars 0 s = None"
| "json_chars (Suc n) s =
     (case s of
        [] \<Rightarrow> None
      | c # r \<Rightarrow>
          if c = CHR 0x22 then Some ([], r)
          else if c = CHR 0x5C then
            (case json_escape r of
               None \<Rightarrow> None
             | Some (t, k) \<Rightarrow> map_option (\<lambda>(u, rest). (t @ u, rest)) (json_chars n (drop k r)))
          else if code c < 32 then None
          else if utf8_width s = 0 then map_option (\<lambda>(u, rest). (replacement @ u, rest)) (json_chars n r)
          else map_option (\<lambda>(u, rest). (take (utf8_width s) s @ u, rest)) (json_chars n (drop (utf8_width s) s)))"

text \<open>The longest number literal a text starts with.\<close>

definition json_number :: "string \<Rightarrow> (string \<times> string) option" where
  "json_number s =
     (let sign = (if take 1 s = ''-'' then ''-'' else []);
          s1 = drop (length sign) s;
          whole = (if take 1 s1 = ''0'' then ''0'' else takeWhile is_digit s1);
          s2 = drop (length whole) s1;
          fraction = (if take 1 s2 = ''.'' then ''.'' @ takeWhile is_digit (drop 1 s2) else []);
          s3 = drop (length fraction) s2;
          marked = (take 1 s3 = ''e'' \<or> take 1 s3 = ''E'');
          exsign = (if marked \<and> (take 1 (drop 1 s3) = ''+'' \<or> take 1 (drop 1 s3) = ''-'') then take 1 (drop 1 s3) else []);
          exdigits = (if marked then takeWhile is_digit (drop (1 + length exsign) s3) else []);
          exponent = (if marked then take 1 s3 @ exsign @ exdigits else []) in
      if whole = [] \<or> fraction = ''.'' \<or> (marked \<and> exdigits = []) then None
      else Some (sign @ whole @ fraction @ exponent, drop (length exponent) s3))"

text \<open>
  Values, the elements of an array after the first bracket or a comma, and the members of an object likewise.
  The first argument bounds the calls, the second the nesting.
\<close>

fun json_value :: "nat \<Rightarrow> nat \<Rightarrow> string \<Rightarrow> (json \<times> string) option"
  and json_elements :: "nat \<Rightarrow> nat \<Rightarrow> string \<Rightarrow> (json list \<times> string) option"
  and json_members :: "nat \<Rightarrow> nat \<Rightarrow> string \<Rightarrow> ((string \<times> json) list \<times> string) option"
where
  "json_value 0 d s = None"
| "json_value (Suc n) d s =
     (let t = skip_space s; r = drop 1 t in
      if take 4 t = ''null'' then Some (JNull, drop 4 t)
      else if take 4 t = ''true'' then Some (JBool True, drop 4 t)
      else if take 5 t = ''false'' then Some (JBool False, drop 5 t)
      else if take 1 t = [CHR 0x22] then
        map_option (\<lambda>(u, rest). (JStr u, rest)) (json_chars (Suc (length r)) r)
      else if take 1 t = ''['' then
        (if d = 0 then None
         else if take 1 (skip_space r) = '']'' then Some (JArr [], drop 1 (skip_space r))
         else map_option (\<lambda>(js, rest). (JArr js, rest)) (json_elements n (d - 1) r))
      else if take 1 t = ''{'' then
        (if d = 0 then None
         else if take 1 (skip_space r) = ''}'' then Some (JObj [], drop 1 (skip_space r))
         else map_option (\<lambda>(ms, rest). (JObj ms, rest)) (json_members n (d - 1) r))
      else map_option (\<lambda>(lit, rest). (JNum (NLit lit), rest)) (json_number t))"
| "json_elements 0 d s = None"
| "json_elements (Suc n) d s =
     (case json_value n d s of
        None \<Rightarrow> None
      | Some (j, rest) \<Rightarrow>
          (let t = skip_space rest in
           if take 1 t = '']'' then Some ([j], drop 1 t)
           else if take 1 t = '','' then map_option (\<lambda>(js, u). (j # js, u)) (json_elements n d (drop 1 t))
           else None))"
| "json_members 0 d s = None"
| "json_members (Suc n) d s =
     (let t = skip_space s in
      if take 1 t \<noteq> [CHR 0x22] then None
      else
        (case json_chars (length t) (drop 1 t) of
           None \<Rightarrow> None
         | Some (k, rest) \<Rightarrow>
             (let c = skip_space rest in
              if take 1 c \<noteq> '':'' then None
              else
                (case json_value n d (drop 1 c) of
                   None \<Rightarrow> None
                 | Some (j, rest') \<Rightarrow>
                     (let e = skip_space rest' in
                      if take 1 e = ''}'' then Some ([(k, j)], drop 1 e)
                      else if take 1 e = '','' then
                        map_option (\<lambda>(ms, u). ((k, j) # ms, u)) (json_members n d (drop 1 e))
                      else None)))))"

definition json_text :: "string \<Rightarrow> raw_message" where
  "json_text s =
     (if skip_space s = [] then RawBlank
      else
        (case json_value (2 * length s + 2) 10000 s of
           Some (j, rest) \<Rightarrow> if skip_space rest = [] then RawJson j else RawBad
         | None \<Rightarrow> RawBad))"

section \<open>The identifier in a token\<close>

definition accessTokenClaims :: gotype where
  "accessTokenClaims = TStruct [(''hardware_id'', False, TString)]"

definition hardwareIDFromAccessToken :: "string \<Rightarrow> string" where
  "hardwareIDFromAccessToken accessToken =
     (let parts = split_on_acc (CHR ''.'') [] accessToken in
      if length parts \<noteq> 3 then []
      else
        (case base64url_decode (parts ! 1) of
           None \<Rightarrow> []
         | Some payload \<Rightarrow>
             (case json_decode accessTokenClaims (json_text payload) of
                Decoded claims \<Rightarrow> as_string (field_of accessTokenClaims ''hardware_id'' claims)
              | _ \<Rightarrow> [])))"

section \<open>Reading back what was encoded\<close>

lemma b64_value_char: "n < 64 \<Longrightarrow> b64_value (b64_char n) = Some n"
proof -
  have "list_all (\<lambda>n. b64_value (b64_char n) = Some n) [0..<64]" by code_simp
  then show "n < 64 \<Longrightarrow> b64_value (b64_char n) = Some n" by (simp add: list_all_iff)
qed

lemma b64_char_mod: "b64_char n = b64_char (n mod 64)"
  by (simp add: b64_char_def)

lemma b64_value_mod [simp]: "b64_value (b64_char n) = Some (n mod 64)"
  by (subst b64_char_mod) (simp add: b64_value_char)

lemma b64_char_kept [simp]: "b64_char n \<noteq> CHR 0x0D \<and> b64_char n \<noteq> CHR 0x0A \<and> b64_char n \<noteq> CHR ''.''"
proof -
  have "list_all (\<lambda>n. b64_char n \<noteq> CHR 0x0D \<and> b64_char n \<noteq> CHR 0x0A \<and> b64_char n \<noteq> CHR ''.'') [0..<64]"
    by code_simp
  then have "b64_char (n mod 64) \<noteq> CHR 0x0D \<and> b64_char (n mod 64) \<noteq> CHR 0x0A \<and> b64_char (n mod 64) \<noteq> CHR ''.''"
    by (simp add: list_all_iff)
  then show ?thesis by (simp flip: b64_char_mod)
qed

lemma char_code_bound: "(of_char c :: nat) < 256"
  by simp

lemma base64_digits:
  fixes d0 d1 d2 d3 :: nat
  assumes "d0 < 64" "d1 < 64" "d2 < 64" "d3 < 64" and n: "n = ((d3 * 64 + d2) * 64 + d1) * 64 + d0"
  shows "n div 262144 mod 64 = d3" "n div 4096 mod 64 = d2" "n div 64 mod 64 = d1" "n mod 64 = d0"
proof -
  have step: "(q * 64 + d) mod 64 = d" "(q * 64 + d) div 64 = q" if "d < 64" for q d :: nat
    using that by simp_all
  note 0 = step [OF assms(1), of "(d3 * 64 + d2) * 64 + d1", folded n]
  note 1 = step [OF assms(2), of "d3 * 64 + d2", folded 0(2)]
  note 2 = step [OF assms(3), of d3, folded 1(2)]
  have "4096 = (64 * 64 :: nat)" "262144 = (64 * 64 * 64 :: nat)" by simp_all
  then show "n div 262144 mod 64 = d3" "n div 4096 mod 64 = d2" "n div 64 mod 64 = d1" "n mod 64 = d0"
    using 0(1) 1(1) 2 assms(4) by (simp_all only: div_mult2_eq mod_less)
qed

lemma base64_one: "x div 4 * 4 + x * 16 mod 64 div 16 = (x :: nat)"
proof -
  have "x * 16 mod (4 * 16) = x mod 4 * 16" by (rule mod_mult_mult2)
  then show ?thesis by simp
qed

lemma base64_two: 
  assumes "x < (256::nat)" "y < 256"
  shows "(x * 256 + y) * 4 div 4096 mod 64 * 4 + (x * 256 + y) * 4 div 64 mod 64 div 16 = x"
    "(x * 256 + y) * 4 div 64 mod 64 mod 16 * 16 + (x * 256 + y) * 4 mod 64 div 4 = y"
proof -
  define p q r s where "p = x div 4" and "q = x mod 4" and "r = y div 16" and "s = y mod 16"
  then have x: "x = 4 * p + q" "q < 4" "p < 64" "y = 16 * r + s" "s < 16" "r < 16" using assms by auto
  have "(x * 256 + y) * 4 div 4096 mod 64 = p" "(x * 256 + y) * 4 div 64 mod 64 = 16 * q + r" "(x * 256 + y) * 4 mod 64 = 4 * s"
    by (rule base64_digits [of "4 * s" "16 * q + r" p 0]; use x in simp)+
  then show "(x * 256 + y) * 4 div 4096 mod 64 * 4 + (x * 256 + y) * 4 div 64 mod 64 div 16 = x"
    "(x * 256 + y) * 4 div 64 mod 64 mod 16 * 16 + (x * 256 + y) * 4 mod 64 div 4 = y" using x by simp_all
qed

lemma base64_three: 
  assumes "x < (256::nat)" "y < 256" "z < 256"
  shows "(x * 65536 + y * 256 + z) div 262144 mod 64 * 4 + (x * 65536 + y * 256 + z) div 4096 mod 64 div 16 = x"
    "(x * 65536 + y * 256 + z) div 4096 mod 64 mod 16 * 16 + (x * 65536 + y * 256 + z) div 64 mod 64 div 4 = y"
    "(x * 65536 + y * 256 + z) div 64 mod 64 mod 4 * 64 + (x * 65536 + y * 256 + z) mod 64 = z"
proof -
  define p q r s t u where "p = x div 4" and "q = x mod 4" and "r = y div 16" and "s = y mod 16" and "t = z div 64" and "u = z mod 64"
  then have x: "x = 4 * p + q" "q < 4" "p < 64" "y = 16 * r + s" "s < 16" "r < 16" "z = 64 * t + u" "u < 64" "t < 4" using assms by auto
  have d: "(x * 65536 + y * 256 + z) div 262144 mod 64 = p" "(x * 65536 + y * 256 + z) div 4096 mod 64 = 16 * q + r"
    "(x * 65536 + y * 256 + z) div 64 mod 64 = 4 * s + t" "(x * 65536 + y * 256 + z) mod 64 = u"
    by (rule base64_digits [of u "4 * s + t" "16 * q + r" p]; use x in simp)+
  show "(x * 65536 + y * 256 + z) div 262144 mod 64 * 4 + (x * 65536 + y * 256 + z) div 4096 mod 64 div 16 = x"
    "(x * 65536 + y * 256 + z) div 4096 mod 64 mod 16 * 16 + (x * 65536 + y * 256 + z) div 64 mod 64 div 4 = y"
    "(x * 65536 + y * 256 + z) div 64 mod 64 mod 4 * 64 + (x * 65536 + y * 256 + z) mod 64 = z"
    unfolding d using x by simp_all
qed

lemma b64_bytes_encode: "b64_bytes (map (\<lambda>c. the (b64_value c)) (base64url s)) = Some s"
proof (induction s rule: base64url.induct)
  case (2 a)
  have "code a div 4 mod 64 = code a div 4" using char_code_bound [of a] by (intro mod_less) linarith
  then show ?case using base64_one [of "code a"] by (simp add: Let_def)
next
  case (3 a b)
  show ?case using base64_two [of "code a" "code b"] by (simp add: Let_def)
next
  case (4 a b c s)
  then show ?case using base64_three [of "code a" "code b" "code c"] by (simp add: Let_def)
qed simp

lemma base64url_alphabet: "c \<in> set (base64url s) \<Longrightarrow> \<exists>n. c = b64_char n"
  by (induction s rule: base64url.induct) (auto simp: Let_def)

lemma base64url_decode_encode: "base64url_decode (base64url s) = Some s"
proof -
  have ok: "c \<noteq> CHR 0x0D \<and> c \<noteq> CHR 0x0A \<and> b64_value c \<noteq> None" if "c \<in> set (base64url s)" for c
    using base64url_alphabet [OF that] by auto
  then have "filter (\<lambda>c. c \<noteq> CHR 0x0D \<and> c \<noteq> CHR 0x0A) (base64url s) = base64url s"
    by (simp add: filter_id_conv)
  moreover have "None \<notin> set (map b64_value (base64url s))" using ok by force
  ultimately show ?thesis
    using b64_bytes_encode [of s] by (simp add: base64url_decode_def comp_def)
qed

text \<open>Characters that a JSON string holds as they are.\<close>

definition plain_char :: "char \<Rightarrow> bool" where
  "plain_char c \<longleftrightarrow> 32 \<le> code c \<and> code c < 128 \<and> c \<noteq> CHR 0x22 \<and> c \<noteq> CHR 0x5C"

lemma json_chars_plain:
  "list_all plain_char h \<Longrightarrow> length h < n \<Longrightarrow> json_chars n (h @ CHR 0x22 # rest) = Some (h, rest)"
proof (induction h arbitrary: n)
  case Nil
  then show ?case by (cases n) simp_all
next
  case (Cons c h)
  then obtain m where "n = Suc m" by (cases n) simp_all
  with Cons show ?case by (simp add: plain_char_def utf8_width_def)
qed

lemma split_dots:
  "CHR ''.'' \<notin> set a \<Longrightarrow> split_on_acc (CHR ''.'') cur (a @ CHR ''.'' # s) = (rev cur @ a) # split_on_acc (CHR ''.'') [] s"
  "CHR ''.'' \<notin> set a \<Longrightarrow> split_on_acc (CHR ''.'') cur a = [rev cur @ a]"
  by (induction a arbitrary: cur) auto

text \<open>A token whose payload is a JSON object with this identifier, and only it.\<close>

definition claims_text :: "string \<Rightarrow> string" where
  "claims_text h = ''{\"hardware_id\":\"'' @ h @ ''\"}''"

definition token_with_hardware_id :: "string \<Rightarrow> string \<Rightarrow> string \<Rightarrow> string" where
  "token_with_hardware_id prefix h signature =
     prefix @ ''.'' @ base64url (claims_text h) @ ''.'' @ signature"

lemma json_text_claims:
  assumes "list_all plain_char h"
  shows "json_text (claims_text h) = RawJson (JObj [(''hardware_id'', JStr h)])"
proof -
  have key: "10 < n - 1 \<Longrightarrow> json_chars n (''hardware_id'' @ CHR 0x22 # rest) = Some (''hardware_id'', rest)" for n rest
    by (intro json_chars_plain) (simp_all add: plain_char_def)
  have val: "length h < n \<Longrightarrow> json_chars n (h @ CHR 0x22 # rest) = Some (h, rest)" for n rest
    using assms by (intro json_chars_plain) simp_all
  have 1: "json_value (Suc n) d (CHR 0x22 # h @ CHR 0x22 # ''}'') = Some (JStr h, ''}'')" for n d
    by (simp add: val skip_space_def json_space_def del: json_chars.simps)
  have 2: "json_members (Suc (Suc n)) d (CHR 0x22 # ''hardware_id'' @ CHR 0x22 # CHR '':'' # CHR 0x22 # h @ CHR 0x22 # ''}'')
    = Some ([(''hardware_id'', JStr h)], [])" for n d
    by (simp add: 1 key [simplified] skip_space_def json_space_def del: json_chars.simps json_value.simps)
  have 3: "json_value (Suc (Suc (Suc n))) 10000 (claims_text h) = Some (JObj [(''hardware_id'', JStr h)], [])" for n
    using 2 [of n 9999]
    by (simp add: claims_text_def skip_space_def json_space_def del: json_chars.simps json_members.simps)
  show ?thesis
    using 3 [of "2 * length (claims_text h) - 1"]
    by (simp add: json_text_def claims_text_def skip_space_def json_space_def numeral_eq_Suc
        del: json_chars.simps json_value.simps)
qed

lemma hardware_id_of_token:
  assumes "CHR ''.'' \<notin> set prefix" "CHR ''.'' \<notin> set signature" "list_all plain_char h"
  shows "hardwareIDFromAccessToken (token_with_hardware_id prefix h signature) = h"
proof -
  have "CHR ''.'' \<notin> set (base64url s)" for s
    using base64url_alphabet b64_char_kept by metis
  with assms show ?thesis
    by (simp add: hardwareIDFromAccessToken_def token_with_hardware_id_def split_dots Let_def
        base64url_decode_encode json_text_claims json_decode_def json_unmarshal_def accessTokenClaims_def
        field_index_def list_index_def field_of_def del: base64url.simps)
qed

end
