(* ===== verification/AccountOperations.thy ===== *)
theory AccountOperations
  imports RestClient AccessToken DeviceSession
begin

text \<open>
  The account-level operations of \<open>ring.Client\<close> (\<open>pkg/ring\<close>): device and doorbell controls, settings, snapshots,
  the device inventory, recordings, and registration for push. Every operation binds its credentials to the call
  (\<open>accountContext\<close>), checks its arguments, registers the session where the code does, and calls the REST client.
\<close>

section \<open>The call\<close>

record auth_context =
  auth_AccessToken :: string
  auth_HardwareID :: string

record ring_call =
  rg_env :: http_env
  rg_runtime :: runtime
  rg_client :: client

definition accountContext :: "ring_call \<Rightarrow> auth_context \<Rightarrow> rest_call" where
  "accountContext g auth =
     (let hardwareID = (if auth_HardwareID auth = [] then hardwareIDFromAccessToken (auth_AccessToken auth)
                        else auth_HardwareID auth) in
      WithAccount
        \<lparr>rl_env = rg_env g, rl_runtime = rg_runtime g, rl_config = cl_restClient (rg_client g), rl_account = None\<rparr>
        \<lparr>acc_AccessToken = auth_AccessToken auth, acc_HardwareID = hardwareID\<rparr>)"

definition ensureSession :: "rest_call \<Rightarrow> unit http_step" where
  "ensureSession call =
     (case rl_account call of
        None \<Rightarrow> lreturn ()
      | Some auth \<Rightarrow> if acc_HardwareID auth = [] then lreturn () else RegisterSession call)"

definition ring_getToken :: "rest_call \<Rightarrow> goerr + string" where
  "ring_getToken call =
     (case rl_account call of
        Some auth \<Rightarrow>
          if acc_AccessToken auth = [] then Inl (NewTokenError ''no token in request'' None)
          else Inr (acc_AccessToken auth)
      | None \<Rightarrow> Inl (NewTokenError ''no token in request'' None))"

definition ring_hardwareIDFor :: "rest_call \<Rightarrow> string" where
  "ring_hardwareIDFor call = (case rl_account call of Some auth \<Rightarrow> acc_HardwareID auth | None \<Rightarrow> [])"

definition bad_argument :: "string \<Rightarrow> 'a http_step" where
  "bad_argument msg = lfail (NewBadRequestError msg None)"

section \<open>Identifiers\<close>

definition settingsDeviceID :: "string \<Rightarrow> goerr + int" where
  "settingsDeviceID text =
     (case parse_int64 text of
        None \<Rightarrow> Inl (NewBadRequestError ''invalid device ID'' (Some parse_int_error))
      | Some i \<Rightarrow> if i \<le> 0 then Inl (NewBadRequestError ''invalid device ID'' None) else Inr i)"

definition with_device :: "string \<Rightarrow> (int \<Rightarrow> 'a http_step) \<Rightarrow> 'a http_step" where
  "with_device text f = lbind (lift (or_fail (settingsDeviceID text))) f"

text \<open>\<open>strings.TrimSpace(s) == ""\<close>: the width of the white space rune a text starts with, or zero.\<close>

definition space_width :: "string \<Rightarrow> nat" where
  "space_width s =
     (if s = [] then 0
      else if between 9 13 (hd s) \<or> hd s = CHR '' '' then 1
      else if take 2 s \<in> {[CHR 0xC2, CHR 0x85], [CHR 0xC2, CHR 0xA0]} then 2
      else if take 3 s \<in> {[CHR 0xE1, CHR 0x9A, CHR 0x80], [CHR 0xE2, CHR 0x81, CHR 0x9F], [CHR 0xE3, CHR 0x80, CHR 0x80],
                          [CHR 0xE2, CHR 0x80, CHR 0xA8], [CHR 0xE2, CHR 0x80, CHR 0xA9], [CHR 0xE2, CHR 0x80, CHR 0xAF]}
           \<or> (take 2 s = [CHR 0xE2, CHR 0x80] \<and> 2 < length s \<and> between 128 138 (s ! 2)) then 3
      else 0)"

function only_space :: "string \<Rightarrow> bool" where
  "only_space s =
     (if s = [] then True
      else if space_width s = 0 then False else only_space (drop (space_width s) s))"
  by pat_completeness auto
termination by (relation "measure length") (auto simp: space_width_def)

declare only_space.simps [simp del]

definition locationID :: "string \<Rightarrow> goerr + string" where
  "locationID text =
     (if only_space text then Inl (NewBadRequestError ''location ID is required'' None) else Inr text)"

definition recordingID :: "int \<Rightarrow> goerr + int" where
  "recordingID i = (if i \<le> 0 then Inl (NewBadRequestError ''recording ID must be positive'' None) else Inr i)"

section \<open>Controls\<close>

definition VolumeKind_Valid :: "string \<Rightarrow> bool" where
  "VolumeKind_Valid kind \<longleftrightarrow> kind \<in> {''chime'', ''doorbell''}"

definition ring_SetVolume :: "ring_call \<Rightarrow> auth_context \<Rightarrow> string \<Rightarrow> string \<Rightarrow> string \<Rightarrow> int \<Rightarrow> unit http_step" where
  "ring_SetVolume g auth device kind description volume =
     (let call = accountContext g auth in
      if volume < 0 \<or> 11 < volume then bad_argument ''volume must be between 0 and 11''
      else if \<not> VolumeKind_Valid kind then bad_argument ''volume kind must be chime or doorbell''
      else if description = [] then bad_argument ''device description is required for legacy volume update''
      else with_device device (\<lambda>i.
        if kind = ''chime'' then rest_SetChimeVolume call i description volume
        else SetDoorbellVolume call i description volume))"

definition ring_SetLights :: "ring_call \<Rightarrow> auth_context \<Rightarrow> string \<Rightarrow> bool \<Rightarrow> unit http_step" where
  "ring_SetLights g auth device enabled =
     with_device device (\<lambda>i. rest_SetLights (accountContext g auth) i enabled)"

definition ring_SetMotionDetection :: "ring_call \<Rightarrow> auth_context \<Rightarrow> string \<Rightarrow> bool \<Rightarrow> unit http_step" where
  "ring_SetMotionDetection g auth device enabled =
     with_device device (\<lambda>i. rest_SetMotionDetection (accountContext g auth) i enabled)"

definition SoundKind_Valid :: "string \<Rightarrow> bool" where
  "SoundKind_Valid sound \<longleftrightarrow> sound \<in> {''ding'', ''motion''}"

definition TestChimeSoundParamsKind_Valid :: "string \<Rightarrow> bool" where
  "TestChimeSoundParamsKind_Valid kind \<longleftrightarrow> kind \<in> {''ding'', ''motion''}"

definition ring_TestSound :: "ring_call \<Rightarrow> auth_context \<Rightarrow> string \<Rightarrow> string \<Rightarrow> unit http_step" where
  "ring_TestSound g auth device sound =
     (if \<not> SoundKind_Valid sound \<or> \<not> TestChimeSoundParamsKind_Valid sound
      then bad_argument (''sound must be '' @ [CHR 0x27] @ ''ding'' @ [CHR 0x27] @ '' or '' @ [CHR 0x27] @ ''motion'' @ [CHR 0x27])
      else with_device device (\<lambda>i. rest_TestSound (accountContext g auth) i sound))"

record chime_settings =
  ch_Duration :: "int option"
  ch_Enabled :: "bool option"
  ch_Type :: "int option"

definition supplied :: "chime_settings \<Rightarrow> nat" where
  "supplied s = (if ch_Type s \<noteq> None then 1 else 0) + (if ch_Enabled s \<noteq> None then 1 else 0)
                + (if ch_Duration s \<noteq> None then 1 else 0)"

definition negative :: "int option \<Rightarrow> bool" where
  "negative v = (case v of Some i \<Rightarrow> i < 0 | None \<Rightarrow> False)"

definition ring_SetInHomeChime ::
  "ring_call \<Rightarrow> auth_context \<Rightarrow> string \<Rightarrow> string \<Rightarrow> chime_settings \<Rightarrow> unit http_step" where
  "ring_SetInHomeChime g auth device description settings =
     (let call = accountContext g auth in
      with_device device (\<lambda>i.
        if supplied settings \<noteq> 1 then bad_argument ''exactly one in-home chime setting is required''
        else if description = [] then bad_argument ''device description is required for legacy in-home chime update''
        else if negative (ch_Type settings) \<or> negative (ch_Duration settings)
        then bad_argument ''negative in-home chime setting''
        else
          (case (ch_Type settings, ch_Duration settings, ch_Enabled settings) of
             (Some v, _, _) \<Rightarrow> SetInHomeChimeType call i description v
           | (None, Some v, _) \<Rightarrow> SetInHomeChimeDuration call i description v
           | (None, None, Some b) \<Rightarrow> SetInHomeChimeEnabled call i description b
           | (None, None, None) \<Rightarrow> lift Panic)))"

section \<open>Settings\<close>

definition ring_GetDeviceSettings :: "ring_call \<Rightarrow> auth_context \<Rightarrow> string \<Rightarrow> bool option http_step" where
  "ring_GetDeviceSettings g auth device =
     with_device device (\<lambda>i. GetMotionDetectionEnabled (accountContext g auth) i)"

definition ring_PatchDeviceSettings :: "ring_call \<Rightarrow> auth_context \<Rightarrow> string \<Rightarrow> bool option \<Rightarrow> unit http_step" where
  "ring_PatchDeviceSettings g auth device motion =
     with_device device (\<lambda>i.
       case motion of
         None \<Rightarrow> bad_argument ''no supported settings fields were supplied''
       | Some enabled \<Rightarrow> PatchMotionDetectionEnabled (accountContext g auth) i enabled)"

definition ring_SetSiren :: "ring_call \<Rightarrow> auth_context \<Rightarrow> string \<Rightarrow> bool \<Rightarrow> unit http_step" where
  "ring_SetSiren g auth device enabled =
     with_device device (\<lambda>i. rest_SetSiren (accountContext g auth) i enabled)"

section \<open>Snapshots\<close>

record snapshot =
  sn_Bytes :: string
  sn_Timestamp :: int
    \<comment> \<open>milliseconds\<close>
  sn_ContentType :: string

definition ErrSnapshotNotReady :: goerr where
  "ErrSnapshotNotReady = NewNotFoundError ''fresh snapshot not available'' None"

definition poll_wait :: "rest_call \<Rightarrow> int \<Rightarrow> unit http_step" where
  "poll_wait call interval w =
     (if interval > 0 then
        (let w' = w\<lparr>hs_waits := hs_waits w @ [interval]\<rparr> in
         case he_cancelled (rl_env call) w' of
           Some e \<Rightarrow> (Err (NewNetworkError ''snapshot polling canceled'' (Some e)), w')
         | None \<Rightarrow> (Ok (), w'))
      else (Ok (), w))"

fun snapshot_poll :: "rest_call \<Rightarrow> int \<Rightarrow> int \<Rightarrow> int \<Rightarrow> nat \<Rightarrow> snapshot http_step" where
  "snapshot_poll call i interval requestedAt 0 = lfail ErrSnapshotNotReady"
| "snapshot_poll call i interval requestedAt (Suc n) =
     lbind (poll_wait call interval) (\<lambda>_.
     lbind (RefreshSnapshotTimestamp call i) (\<lambda>timestamp.
       if timestamp \<le> requestedAt then snapshot_poll call i interval requestedAt n
       else
         lbind (GetSnapshotImage call i) (\<lambda>(data, contentType).
           if data = [] then lfail (NewInternalServerError ''snapshot image was empty'' None)
           else lreturn \<lparr>sn_Bytes = data, sn_Timestamp = timestamp, sn_ContentType = contentType\<rparr>)))"

definition snapshot_attempts :: "int \<Rightarrow> nat" where
  "snapshot_attempts maxAttempts = (if maxAttempts = 0 then 3 else nat maxAttempts)"

definition ring_GetSnapshot :: "ring_call \<Rightarrow> auth_context \<Rightarrow> string \<Rightarrow> int \<Rightarrow> int \<Rightarrow> snapshot http_step" where
  "ring_GetSnapshot g auth device maxAttempts interval =
     (let call = accountContext g auth in
      with_device device (\<lambda>i.
        if maxAttempts < 0 \<or> 100 < maxAttempts \<or> interval < 0
        then bad_argument ''invalid snapshot polling bounds''
        else
          lbind (RefreshSnapshotTimestamp call i) (\<lambda>_ w.
            snapshot_poll call i interval (he_clock (rg_env g) w) (snapshot_attempts maxAttempts) w)))"

section \<open>Inventory\<close>

record device_health =
  dh_BatteryLevel :: "int option"
  dh_BatteryStatus :: "string option"
  dh_SignalStrength :: "int option"
  dh_FirmwareVersion :: "string option"
  dh_LastUpdate :: "string option"

record ring_device =
  dv_ID :: string
  dv_Name :: string
  dv_Kind :: string
  dv_Type :: string
  dv_Family :: string
  dv_Address :: string
  dv_Timezone :: string
  dv_WifiName :: "string option"
  dv_WifiSignalStrength :: "int option"
  dv_Volume :: "int option"
  dv_LightBrightness :: "int option"
  dv_MotionDetectionEnabled :: "bool option"
  dv_Capabilities :: "string list"
  dv_Health :: "device_health option"

definition wireString :: "string option \<Rightarrow> string" where
  "wireString v = (case v of Some s \<Rightarrow> s | None \<Rightarrow> [])"

definition getDeviceName :: "rest_value \<Rightarrow> string" where
  "getDeviceName raw =
     (case rest_string_ptr Device_model ''name'' raw of
        Some name \<Rightarrow> if name \<noteq> [] then name else rest_string Device_model ''description'' raw
      | None \<Rightarrow> rest_string Device_model ''description'' raw)"

definition getDeviceTimezone :: "rest_value \<Rightarrow> string" where
  "getDeviceTimezone raw =
     (case rest_string_ptr Device_model ''timezone'' raw of
        Some zone \<Rightarrow> if zone \<noteq> [] then zone else wireString (rest_string_ptr Device_model ''time_zone'' raw)
      | None \<Rightarrow> wireString (rest_string_ptr Device_model ''time_zone'' raw))"

definition CameraDeviceKind_Valid :: "string \<Rightarrow> bool" where
  "CameraDeviceKind_Valid kind \<longleftrightarrow> kind \<in>
     {''cocoa_camera'', ''cocoa_floodlight'', ''cocoa_spotlight'', ''floodlight_pro'', ''floodlight_v2'', ''hp_cam_v1'',
      ''hp_cam_v2'', ''spotlightw_v2'', ''stickup_cam'', ''stickup_cam_elite'', ''stickup_cam_longfin'',
      ''stickup_cam_lunar'', ''stickup_cam_mini'', ''stickup_cam_mini_ptz_v1'', ''stickup_cam_mini_v2'',
      ''stickup_cam_v3'', ''stickup_cam_v4'', ''stickup_cam_wired''}"

definition DoorbellDeviceKind_Valid :: "string \<Rightarrow> bool" where
  "DoorbellDeviceKind_Valid kind \<longleftrightarrow> kind \<in>
     {''cocoa_doorbell'', ''cocoa_doorbell_v2'', ''df_doorbell_clownfish'', ''doorbell'', ''doorbell_graham_cracker'',
      ''doorbell_oyster'', ''doorbell_portal'', ''doorbell_scallop'', ''doorbell_scallop_lite'', ''doorbell_v3'',
      ''doorbell_v4'', ''doorbell_v5'', ''doorbot'', ''jbox_v1'', ''lpd_v1'', ''lpd_v2'', ''lpd_v3'', ''lpd_v4''}"

definition ChimeDeviceKind_Valid :: "string \<Rightarrow> bool" where
  "ChimeDeviceKind_Valid kind \<longleftrightarrow> kind \<in> {''chime'', ''chime_pro'', ''chime_pro_v2'', ''chime_v2''}"

definition deviceType :: "rest_value \<Rightarrow> string" where
  "deviceType raw =
     (let family = wireString (rest_string_ptr Device_model ''family'' raw);
          kind = rest_string Device_model ''kind'' raw in
      if family = ''doorbots'' then ''DOORBELL''
      else if family = ''chimes'' then ''CHIME''
      else if family = ''stickup_cams'' then ''CAMERA''
      else if family \<noteq> [] \<and> family \<noteq> ''other'' then ''OTHER''
      else if CameraDeviceKind_Valid kind then ''CAMERA''
      else if DoorbellDeviceKind_Valid kind then ''DOORBELL''
      else if ChimeDeviceKind_Valid kind then ''CHIME''
      else ''OTHER'')"

definition rpc_capability :: "string \<Rightarrow> string list" where
  "rpc_capability command =
     (if command = RPCPanStep then [''ptz_pan_step'']
      else if command = RPCTiltStep then [''ptz_tilt_step'']
      else if command = RPCPanContinuous then [''ptz_pan_continuous'']
      else if command = RPCTiltContinuous then [''ptz_tilt_continuous'']
      else [])"

definition supported_commands :: "rest_value \<Rightarrow> string list" where
  "supported_commands health =
     (case rest_field DeviceHealth_model ''supported_rpc_commands'' health of
        Some (RVPtr (Some (RV (VSlice (Some vs))))) \<Rightarrow> map as_string vs
      | _ \<Rightarrow> [])"

definition deviceCapabilities :: "rest_value \<Rightarrow> string list" where
  "deviceCapabilities raw =
     (if rest_bool_ptr Device_model ''has_light'' raw = Some True then [''light''] else [])
     @ (if rest_bool_ptr Device_model ''motion_detection_enabled'' raw \<noteq> None then [''motion_detection''] else [])
     @ (case rest_field Device_model ''health'' raw of
          Some (RVPtr (Some health)) \<Rightarrow>
            (if rest_bool_ptr DeviceHealth_model ''siren_on'' health \<noteq> None then [''siren''] else [])
            @ (if rest_bool_ptr DeviceHealth_model ''vod_enabled'' health = Some True then [''live_view''] else [])
            @ concat (map rpc_capability (supported_commands health))
        | _ \<Rightarrow> [])"

definition health_of :: "rest_type \<Rightarrow> rest_value \<Rightarrow> device_health" where
  "health_of T raw =
     \<lparr>dh_BatteryLevel = rest_int_ptr T ''battery_level'' raw,
      dh_BatteryStatus = rest_string_ptr T ''battery_status'' raw,
      dh_SignalStrength = rest_int_ptr T ''signal_strength'' raw,
      dh_FirmwareVersion = rest_string_ptr T ''firmware_version'' raw,
      dh_LastUpdate = rest_string_ptr T ''last_update'' raw\<rparr>"

definition convertInventoryHealth :: "rest_value \<Rightarrow> device_health" where
  "convertInventoryHealth raw = health_of DeviceHealth_model raw"

definition convertToDeviceHealth :: "rest_value \<Rightarrow> device_health" where
  "convertToDeviceHealth raw = health_of LegacyDeviceHealth_model raw"

definition convertDevice :: "rest_value \<Rightarrow> ring_device" where
  "convertDevice raw =
     \<lparr>dv_ID = dec_int (rest_int Device_model ''id'' raw),
      dv_Name = getDeviceName raw,
      dv_Kind = rest_string Device_model ''kind'' raw,
      dv_Type = deviceType raw,
      dv_Family = wireString (rest_string_ptr Device_model ''family'' raw),
      dv_Address = wireString (rest_string_ptr Device_model ''address'' raw),
      dv_Timezone = getDeviceTimezone raw,
      dv_WifiName = rest_string_ptr Device_model ''wifi_name'' raw,
      dv_WifiSignalStrength = rest_int_ptr Device_model ''wifi_signal_strength'' raw,
      dv_Volume = rest_int_ptr Device_model ''volume'' raw,
      dv_LightBrightness = rest_int_ptr Device_model ''light_brightness'' raw,
      dv_MotionDetectionEnabled = rest_bool_ptr Device_model ''motion_detection_enabled'' raw,
      dv_Capabilities = deviceCapabilities raw,
      dv_Health =
        (case rest_field Device_model ''health'' raw of
           Some (RVPtr (Some health)) \<Rightarrow> Some (convertInventoryHealth health)
         | _ \<Rightarrow> None)\<rparr>"

definition Supports :: "string \<Rightarrow> ring_device \<Rightarrow> bool" where
  "Supports capability d \<longleftrightarrow> list_ex (\<lambda>supported. supported = capability) (dv_Capabilities d)"

definition ring_ListDevices :: "ring_call \<Rightarrow> auth_context \<Rightarrow> ring_device list http_step" where
  "ring_ListDevices g auth =
     (let call = accountContext g auth in
      lbind (ensureSession call) (\<lambda>_.
      lbind (rest_GetDevices call) (\<lambda>rawResponse.
        lreturn (map convertDevice (rest_slice DeviceList_model ''devices'' rawResponse)))))"

definition ring_GetDevice :: "ring_call \<Rightarrow> auth_context \<Rightarrow> string \<Rightarrow> ring_device http_step" where
  "ring_GetDevice g auth device =
     lbind (ring_ListDevices g auth) (\<lambda>devices.
       case find (\<lambda>d. dv_ID d = device) devices of
         Some d \<Rightarrow> lreturn d
       | None \<Rightarrow> lfail (NewNotFoundError ''device not found'' None))"

definition ring_UpdateDeviceHealth :: "ring_call \<Rightarrow> auth_context \<Rightarrow> string \<Rightarrow> device_health http_step" where
  "ring_UpdateDeviceHealth g auth device =
     with_device device (\<lambda>i.
       lbind (rest_GetDeviceHealth (accountContext g auth) i) (\<lambda>health. lreturn (convertToDeviceHealth health)))"

section \<open>Recordings\<close>

record recording =
  rd_ID :: int
  rd_Kind :: string
  rd_Answered :: bool
  rd_CreatedAt :: string
  rd_DeviceID :: int

definition convert_recording :: "rest_value \<Rightarrow> recording" where
  "convert_recording raw =
     \<lparr>rd_ID = rest_int Recording_model ''id'' raw,
      rd_Kind = rest_string Recording_model ''kind'' raw,
      rd_Answered = rest_bool Recording_model ''answered'' raw,
      rd_CreatedAt = rest_string Recording_model ''created_at'' raw,
      rd_DeviceID =
        (case rest_field Recording_model ''doorbot'' raw of
           Some doorbot \<Rightarrow> rest_int Recording_Doorbot_model ''id'' doorbot
         | None \<Rightarrow> 0)\<rparr>"

definition recordings_of :: "rest_value \<Rightarrow> recording list" where
  "recordings_of v = (case v of RVSlice (Some vs) \<Rightarrow> map convert_recording vs | _ \<Rightarrow> [])"

definition ring_GetDeviceHistory ::
  "ring_call \<Rightarrow> auth_context \<Rightarrow> string \<Rightarrow> int \<Rightarrow> string \<Rightarrow> int option \<Rightarrow> recording list http_step" where
  "ring_GetDeviceHistory g auth device limit kind olderThan =
     (case parse_int64 device of
        None \<Rightarrow> lfail (NewBadRequestError ''invalid device ID format'' (Some parse_int_error))
      | Some i \<Rightarrow>
          if negative olderThan then bad_argument ''older-than cursor must be nonnegative''
          else lbind (rest_GetDeviceHistory (accountContext g auth) i limit kind olderThan)
                 (\<lambda>rawResponse. lreturn (recordings_of rawResponse)))"

definition ring_GetActiveDings :: "ring_call \<Rightarrow> auth_context \<Rightarrow> recording list http_step" where
  "ring_GetActiveDings g auth =
     lbind (rest_GetActiveDings (accountContext g auth)) (\<lambda>rawResponse. lreturn (recordings_of rawResponse))"

definition ring_GetRecording :: "ring_call \<Rightarrow> auth_context \<Rightarrow> int \<Rightarrow> video_stream http_step" where
  "ring_GetRecording g auth recording = rest_GetRecording (accountContext g auth) recording"

definition ring_GetRecordingShareURL :: "ring_call \<Rightarrow> auth_context \<Rightarrow> int \<Rightarrow> string http_step" where
  "ring_GetRecordingShareURL g auth recording =
     (if recording \<le> 0 then bad_argument ''invalid recording ID''
      else rest_GetRecordingShareURL (accountContext g auth) recording)"

definition ring_GetLastRecordingID :: "ring_call \<Rightarrow> auth_context \<Rightarrow> string \<Rightarrow> int http_step" where
  "ring_GetLastRecordingID g auth device =
     lbind (ring_GetDeviceHistory g auth device 1 [] None) (\<lambda>history.
       case history of
         [] \<Rightarrow> lfail (NewNotFoundError ''no recordings found'' None)
       | r # _ \<Rightarrow> lreturn (rd_ID r))"

section \<open>Commands that register the session first\<close>

definition in_session :: "rest_call \<Rightarrow> goerr + 'b \<Rightarrow> ('b \<Rightarrow> 'a http_step) \<Rightarrow> 'a http_step" where
  "in_session call argument f =
     lbind (lift (or_fail argument)) (\<lambda>x. lbind (ensureSession call) (\<lambda>_. f x))"

definition ring_RebootDevice :: "ring_call \<Rightarrow> auth_context \<Rightarrow> string \<Rightarrow> unit http_step" where
  "ring_RebootDevice g auth device =
     (let call = accountContext g auth in in_session call (settingsDeviceID device) (\<lambda>i. rest_RebootDevice call i))"

definition ring_UnlockIntercom :: "ring_call \<Rightarrow> auth_context \<Rightarrow> string \<Rightarrow> unit http_step" where
  "ring_UnlockIntercom g auth device =
     (let call = accountContext g auth in in_session call (settingsDeviceID device) (\<lambda>i. rest_UnlockIntercom call i))"

definition ring_SetPersistentLiveViewEnabled :: "ring_call \<Rightarrow> auth_context \<Rightarrow> string \<Rightarrow> bool \<Rightarrow> unit http_step" where
  "ring_SetPersistentLiveViewEnabled g auth device enabled =
     (let call = accountContext g auth in in_session call (settingsDeviceID device) (\<lambda>i. rest_SetPersistentLiveViewEnabled call i enabled))"

definition ring_FavoriteRecording :: "ring_call \<Rightarrow> auth_context \<Rightarrow> int \<Rightarrow> unit http_step" where
  "ring_FavoriteRecording g auth recording =
     (let call = accountContext g auth in in_session call (recordingID recording) (\<lambda>i. rest_FavoriteRecording call i))"

definition ring_DeleteRecording :: "ring_call \<Rightarrow> auth_context \<Rightarrow> int \<Rightarrow> bool option \<Rightarrow> unit http_step" where
  "ring_DeleteRecording g auth recording confirm =
     (let call = accountContext g auth in in_session call (recordingID recording) (\<lambda>i. rest_DeleteRecording call i confirm))"

definition ring_RegisterPushDevice :: "ring_call \<Rightarrow> auth_context \<Rightarrow> string \<Rightarrow> unit http_step" where
  "ring_RegisterPushDevice g auth token =
     (if token = [] then bad_argument ''FCM token is required''
      else
        (let call = accountContext g auth in
         lbind (ensureSession call) (\<lambda>_. RegisterPushDevice call token)))"

definition ring_SubscribeDeviceDing :: "ring_call \<Rightarrow> auth_context \<Rightarrow> string \<Rightarrow> unit http_step" where
  "ring_SubscribeDeviceDing g auth device =
     (let call = accountContext g auth in in_session call (settingsDeviceID device) (\<lambda>i. SubscribeDeviceDing call i))"

definition ring_SubscribeDeviceMotion :: "ring_call \<Rightarrow> auth_context \<Rightarrow> string \<Rightarrow> unit http_step" where
  "ring_SubscribeDeviceMotion g auth device =
     (let call = accountContext g auth in in_session call (settingsDeviceID device) (\<lambda>i. SubscribeDeviceMotion call i))"

end
