(* ===== verification/ReadModels.thy ===== *)
theory ReadModels
  imports AccountOperations
begin

text \<open>
  The captured reads of \<open>ring.Client\<close> (\<open>client_captured_http.go\<close>) and their projections. A read decodes the reply
  into a generated model, prints that again, and decodes the text into the smaller types of the public API
  (\<open>projectCaptured\<close>; \<open>pkg/ringapimodels\<close>, \<open>pkg/ringtypes\<close>). \<open>ptype\<close> describes those types: plain structs, and
  the scalars of \<open>ringtypes\<close> with methods of their own. \<open>project\<close> is \<open>json.Unmarshal\<close> into them; where it fails
  the result is discarded, so None is an error. \<open>device_status\<close> is the state that the client derives from a detail.
\<close>

section \<open>Floating point texts\<close>

text \<open>\<open>strconv.ParseFloat(s, 64)\<close>: the value as a rational, before rounding, with the range check.\<close>

datatype gofloat = Finite rat | NaN | Infinite bool

definition hex_digit_char :: "char \<Rightarrow> bool" where
  "hex_digit_char c \<longleftrightarrow> hex_value c \<noteq> None"

definition split_sign :: "string \<Rightarrow> bool \<times> string" where
  "split_sign s =
     (if take 1 s = ''-'' then (True, drop 1 s) else if take 1 s = ''+'' then (False, drop 1 s) else (False, s))"

text \<open>\<open>underscoreOK\<close> after the sign and the prefix: the state is a digit, an underscore or something else.\<close>

fun underscores_ok :: "bool \<Rightarrow> char \<Rightarrow> string \<Rightarrow> bool" where
  "underscores_ok hex i [] \<longleftrightarrow> i \<noteq> CHR ''_''"
| "underscores_ok hex i (c # s) \<longleftrightarrow>
     (if is_digit c \<or> (hex \<and> hex_digit_char c) then underscores_ok hex (CHR ''0'') s
      else if c = CHR ''_'' then i = CHR ''0'' \<and> underscores_ok hex (CHR ''_'') s
      else i \<noteq> CHR ''_'' \<and> underscores_ok hex (CHR ''!'') s)"

definition hex_prefix :: "string \<Rightarrow> bool" where
  "hex_prefix s \<longleftrightarrow> take 1 s = ''0'' \<and> map lower_char (take 1 (drop 1 s)) = ''x''"

definition base_prefix :: "string \<Rightarrow> bool" where
  "base_prefix s \<longleftrightarrow> take 1 s = ''0'' \<and> map lower_char (take 1 (drop 1 s)) \<in> {''b'', ''o'', ''x''}"

definition underscoreOK :: "string \<Rightarrow> bool" where
  "underscoreOK s =
     (let t = snd (split_sign s) in
      if base_prefix t then underscores_ok (hex_prefix t) (CHR ''0'') (drop 2 t) else underscores_ok False (CHR ''^'') t)"

text \<open>Mantissa and exponent of a text without sign and underscores; \<open>d\<close> tells its digits, \<open>e\<close> its exponent letter.\<close>

definition float_parts :: "(char \<Rightarrow> bool) \<Rightarrow> char \<Rightarrow> string \<Rightarrow> (string \<times> string \<times> string option) option" where
  "float_parts d e s =
     (let whole = takeWhile d s;
          s1 = drop (length whole) s;
          fraction = (if take 1 s1 = ''.'' then takeWhile d (drop 1 s1) else []);
          s2 = (if take 1 s1 = ''.'' then drop (length fraction + 1) s1 else s1) in
      if whole = [] \<and> fraction = [] then None
      else if s2 = [] then Some (whole, fraction, None)
      else if map lower_char (take 1 s2) = [e] then
        (let digits = snd (split_sign (drop 1 s2)) in
         if digits \<noteq> [] \<and> list_all is_digit digits then Some (whole, fraction, Some (drop 1 s2)) else None)
      else None)"

definition hex_number :: "string \<Rightarrow> nat" where
  "hex_number s = foldl (\<lambda>n c. 16 * n + the (hex_value c)) 0 s"

definition finite_float :: "bool \<Rightarrow> rat \<Rightarrow> gofloat option" where
  "finite_float neg q = map_option Finite (num_float (NFloat (if neg then - q else q)))"

definition parse_float :: "string \<Rightarrow> gofloat option" where
  "parse_float s =
     (let (neg, t) = split_sign s; low = map lower_char t in
      if low = ''inf'' \<or> low = ''infinity'' then Some (Infinite neg)
      else if map lower_char s = ''nan'' then Some NaN
      else if CHR ''_'' \<in> set s \<and> \<not> underscoreOK s then None
      else
        (let u = filter (\<lambda>c. c \<noteq> CHR ''_'') t in
         if hex_prefix t then
           (case float_parts hex_digit_char (CHR ''p'') (drop 2 u) of
              Some (whole, fraction, Some e) \<Rightarrow>
                (let n = lit_signed e - 4 * int (length fraction); m = of_nat (hex_number (whole @ fraction)) in
                 finite_float neg (if n \<ge> 0 then m * 2 ^ nat n else m / 2 ^ nat (- n)))
            | _ \<Rightarrow> None)
         else
           (case float_parts is_digit (CHR ''e'') u of
              Some (whole, fraction, e) \<Rightarrow>
                (let n = (case e of Some x \<Rightarrow> lit_signed x | None \<Rightarrow> 0) - int (length fraction);
                     m = of_int (lit_digits (whole @ fraction)) in
                 finite_float neg (if n \<ge> 0 then m * 10 ^ nat n else m / 10 ^ nat (- n)))
            | None \<Rightarrow> None)))"

section \<open>Public types\<close>

datatype ptype =
    PString | PInt | PBool | PFloat32 | PFloat64 | PTime
  | PBattery
    \<comment> \<open>\<open>ringtypes.BatteryReading\<close>\<close>
  | POwner
    \<comment> \<open>\<open>ringtypes.OwnerID\<close>\<close>
  | PPtr ptype
  | PSlice ptype
  | PStruct "(string \<times> ptype) list"

datatype pvalue =
    VText string | VInteger int | VFlag bool | VNumber gofloat
  | VPointer "pvalue option"
  | VList "pvalue list option"
  | VRecord "pvalue list"

fun p_zero :: "ptype \<Rightarrow> pvalue" where
  "p_zero PString = VText []"
| "p_zero PInt = VInteger 0"
| "p_zero PBool = VFlag False"
| "p_zero PFloat32 = VNumber (Finite 0)"
| "p_zero PFloat64 = VNumber (Finite 0)"
| "p_zero PTime = VText ''0001-01-01T00:00:00Z''"
| "p_zero PBattery = VNumber (Finite 0)"
| "p_zero POwner = VText []"
| "p_zero (PPtr _) = VPointer None"
| "p_zero (PSlice _) = VList None"
| "p_zero (PStruct fs) = VRecord (map (\<lambda>f. p_zero (snd f)) fs)"

definition BatteryReading_UnmarshalJSON :: "pvalue \<Rightarrow> json \<Rightarrow> pvalue option" where
  "BatteryReading_UnmarshalJSON old j =
     (case j of
        JNull \<Rightarrow> Some old
      | JNum n \<Rightarrow> map_option (\<lambda>q. VNumber (Finite q)) (num_float n)
      | JStr s \<Rightarrow> map_option VNumber (parse_float s)
      | _ \<Rightarrow> None)"

definition OwnerID_UnmarshalJSON :: "json \<Rightarrow> pvalue option" where
  "OwnerID_UnmarshalJSON j =
     (case j of
        JStr s \<Rightarrow> Some (VText s)
      | JNull \<Rightarrow> Some (VText ''0'')
      | JNum n \<Rightarrow> map_option (\<lambda>i. VText (dec_int i)) (num_int n)
      | _ \<Rightarrow> None)"

definition member_index :: "string list \<Rightarrow> string \<Rightarrow> nat option" where
  "member_index names k =
     (case list_index (\<lambda>n. n = k) names of
        Some i \<Rightarrow> Some i
      | None \<Rightarrow> list_index (\<lambda>n. fold_name n = fold_name k) names)"

function (sequential) project :: "ptype \<Rightarrow> pvalue \<Rightarrow> json \<Rightarrow> pvalue option"
  and project_members :: "(string \<times> ptype) list \<Rightarrow> pvalue list \<Rightarrow> (string \<times> json) list \<Rightarrow> pvalue list option"
  and project_elements :: "ptype \<Rightarrow> pvalue list \<Rightarrow> json list \<Rightarrow> pvalue list option"
where
  "project PString old j = (case j of JNull \<Rightarrow> Some old | JStr s \<Rightarrow> Some (VText s) | _ \<Rightarrow> None)"
| "project PInt old j =
     (case j of JNull \<Rightarrow> Some old | JNum n \<Rightarrow> map_option VInteger (num_int n) | _ \<Rightarrow> None)"
| "project PBool old j = (case j of JNull \<Rightarrow> Some old | JBool b \<Rightarrow> Some (VFlag b) | _ \<Rightarrow> None)"
| "project PFloat32 old j =
     (case j of JNull \<Rightarrow> Some old | JNum n \<Rightarrow> map_option (\<lambda>q. VNumber (Finite q)) (num_float32 n) | _ \<Rightarrow> None)"
| "project PFloat64 old j =
     (case j of JNull \<Rightarrow> Some old | JNum n \<Rightarrow> map_option (\<lambda>q. VNumber (Finite q)) (num_float n) | _ \<Rightarrow> None)"
| "project PTime old j =
     (case j of JNull \<Rightarrow> Some old | JStr s \<Rightarrow> map_option VText (rfc3339 s) | _ \<Rightarrow> None)"
| "project PBattery old j = BatteryReading_UnmarshalJSON old j"
| "project POwner old j = OwnerID_UnmarshalJSON j"
| "project (PPtr T) old j =
     (if j = JNull then Some (VPointer None)
      else map_option (\<lambda>v. VPointer (Some v))
             (project T (case old of VPointer (Some v) \<Rightarrow> v | _ \<Rightarrow> p_zero T) j))"
| "project (PSlice T) old j =
     (case j of
        JNull \<Rightarrow> Some (VList None)
      | JArr js \<Rightarrow>
          map_option (\<lambda>vs. VList (Some vs)) (project_elements T (case old of VList (Some vs) \<Rightarrow> vs | _ \<Rightarrow> []) js)
      | _ \<Rightarrow> None)"
| "project (PStruct fs) old j =
     (case j of
        JNull \<Rightarrow> Some old
      | JObj kvs \<Rightarrow>
          map_option VRecord
            (project_members fs (case old of VRecord vs \<Rightarrow> vs | _ \<Rightarrow> map (\<lambda>f. p_zero (snd f)) fs) kvs)
      | _ \<Rightarrow> None)"
| "project_members fs vs [] = Some vs"
| "project_members fs vs ((k, j) # kvs) =
     (case member_index (map fst fs) k of
        None \<Rightarrow> project_members fs vs kvs
      | Some i \<Rightarrow>
          (case project (snd (fs ! i)) (vs ! i) j of
             None \<Rightarrow> None
           | Some v \<Rightarrow> project_members fs (vs[i := v]) kvs))"
| "project_elements T olds [] = Some []"
| "project_elements T olds (j # js) =
     (case project T (case olds of [] \<Rightarrow> p_zero T | v # _ \<Rightarrow> v) j of
        None \<Rightarrow> None
      | Some v \<Rightarrow> map_option (\<lambda>vs. v # vs) (project_elements T (drop 1 olds) js))"
  by pat_completeness auto
termination
  by (relation "inv_image (less_than <*lex*> less_than) (\<lambda>x. case x of
        Inl (T, old, j) \<Rightarrow> (size j, size T)
      | Inr (Inl (fs, vs, kvs)) \<Rightarrow> (size_list (size_prod (\<lambda>x. 0) size) kvs, 0)
      | Inr (Inr (T, olds, js)) \<Rightarrow> (size_list size js, 0))")
     auto

definition projectCaptured :: "ptype \<Rightarrow> rest_type \<Rightarrow> rest_value \<Rightarrow> goerr + pvalue" where
  "projectCaptured P T wire =
     (case project P (p_zero P) (rest_marshal T wire) of
        None \<Rightarrow> Inl (NewInternalServerError ''failed to project captured response'' (Some JSONError))
      | Some v \<Rightarrow> Inr v)"

definition p_field :: "ptype \<Rightarrow> string \<Rightarrow> pvalue \<Rightarrow> pvalue option" where
  "p_field P name v =
     (case (P, v) of
        (PStruct fs, VRecord vs) \<Rightarrow>
          (case list_index (\<lambda>k. k = name) (map fst fs) of
             Some i \<Rightarrow> if i < length vs then Some (vs ! i) else None
           | None \<Rightarrow> None)
      | _ \<Rightarrow> None)"

text \<open>The value of a pointer field.\<close>

definition p_pointer :: "ptype \<Rightarrow> string \<Rightarrow> pvalue \<Rightarrow> pvalue option" where
  "p_pointer P name v = (case p_field P name v of Some (VPointer p) \<Rightarrow> p | _ \<Rightarrow> None)"

text \<open>The public structs.\<close>

definition DeviceAlerts_projection :: ptype where
  "DeviceAlerts_projection = PStruct
     [(''connection'', PPtr PString)]"

definition FeatureEligibility_projection :: ptype where
  "FeatureEligibility_projection = PStruct
     [(''eligible'', PPtr PBool),
      (''ineligibility_reasons'', PSlice PString)]"

definition FeatureEnablement_projection :: ptype where
  "FeatureEnablement_projection = PStruct
     [(''allowed'', PPtr PBool),
      (''disallow_reasons'', PSlice PString),
      (''enabled'', PPtr PBool)]"

definition FeatureAvailability_projection :: ptype where
  "FeatureAvailability_projection = PStruct
     [(''eligibility'', PPtr FeatureEligibility_projection),
      (''enablement'', PPtr FeatureEnablement_projection)]"

definition VideoRenderingFeature_projection :: ptype where
  "VideoRenderingFeature_projection = PStruct
     [(''max_digital_zoom_level'', PPtr PFloat32)]"

definition DeviceFeatures_projection :: ptype where
  "DeviceFeatures_projection = PStruct
     [(''auto_track'', PPtr FeatureAvailability_projection),
      (''auto_zoom_track'', PPtr FeatureAvailability_projection),
      (''motions_enabled'', PPtr PBool),
      (''video_rendering'', PPtr VideoRenderingFeature_projection)]"

definition DeviceDetailHealth_projection :: ptype where
  "DeviceDetailHealth_projection = PStruct
     [(''battery_level'', PPtr PInt),
      (''battery_percentage'', PPtr PFloat64),
      (''battery_percentage_category'', PPtr PString),
      (''battery_present'', PPtr PBool),
      (''battery_status'', PPtr PString),
      (''connected'', PPtr PBool),
      (''firmware_version'', PPtr PString),
      (''last_update'', PPtr PString),
      (''ptz_connected'', PPtr PString),
      (''rssi'', PPtr PFloat32),
      (''signal_strength'', PPtr PInt),
      (''supported_rpc_commands'', PSlice PString)]"

definition DeviceOwner_projection :: ptype where
  "DeviceOwner_projection = PStruct
     [(''email'', PPtr PString),
      (''first_name'', PPtr PString),
      (''id'', PPtr POwner),
      (''last_name'', PPtr PString)]"

definition DeviceLegacySettings_projection :: ptype where
  "DeviceLegacySettings_projection = PStruct
     [(''doorbell_volume'', PPtr PInt),
      (''live_view_disabled'', PPtr PBool),
      (''motion_detection_enabled'', PPtr PBool),
      (''power_mode'', PPtr PString)]"

definition DeviceDetailDevice_projection :: ptype where
  "DeviceDetailDevice_projection = PStruct
     [(''address'', PPtr PString),
      (''alerts'', PPtr DeviceAlerts_projection),
      (''battery_life'', PPtr PBattery),
      (''battery_life_2'', PPtr PBattery),
      (''created_at'', PPtr PTime),
      (''deactivated_at'', PPtr PTime),
      (''description'', PString),
      (''device_id'', PPtr PString),
      (''external_connection'', PPtr PBool),
      (''family'', PPtr PString),
      (''features'', PPtr DeviceFeatures_projection),
      (''has_light'', PPtr PBool),
      (''health'', PPtr DeviceDetailHealth_projection),
      (''id'', PInt),
      (''kind'', PString),
      (''light_brightness'', PPtr PInt),
      (''location_id'', PPtr PString),
      (''motion_detection_enabled'', PPtr PBool),
      (''name'', PPtr PString),
      (''operation_set'', PPtr PString),
      (''owned'', PPtr PBool),
      (''owner'', PPtr DeviceOwner_projection),
      (''settings'', PPtr DeviceLegacySettings_projection),
      (''time_zone'', PPtr PString),
      (''timezone'', PPtr PString),
      (''volume'', PPtr PInt),
      (''wifi_name'', PPtr PString),
      (''wifi_signal_strength'', PPtr PInt)]"

definition DeviceDetail_projection :: ptype where
  "DeviceDetail_projection = PStruct
     [(''device'', DeviceDetailDevice_projection)]"

definition LocationAddress_projection :: ptype where
  "LocationAddress_projection = PStruct
     [(''address1'', PPtr PString),
      (''address2'', PPtr PString),
      (''city'', PPtr PString),
      (''country'', PPtr PString),
      (''state'', PPtr PString),
      (''timezone'', PPtr PString),
      (''zip_code'', PPtr PString)]"

definition GeoCoordinates_projection :: ptype where
  "GeoCoordinates_projection = PStruct
     [(''latitude'', PPtr PFloat32),
      (''longitude'', PPtr PFloat32)]"

definition LocationSummary_projection :: ptype where
  "LocationSummary_projection = PStruct
     [(''address'', PPtr LocationAddress_projection),
      (''geo_coordinates'', PPtr GeoCoordinates_projection),
      (''is_owner'', PPtr PBool),
      (''location_id'', PString),
      (''location_type'', PPtr PString),
      (''name'', PString),
      (''owner_id'', PPtr PInt)]"

definition LocationList_projection :: ptype where
  "LocationList_projection = PStruct
     [(''user_locations'', PSlice LocationSummary_projection)]"

definition LocationAttributes_projection :: ptype where
  "LocationAttributes_projection = PStruct
     [(''city'', PPtr PString),
      (''country'', PPtr PString),
      (''latitude'', PPtr PFloat32),
      (''longitude'', PPtr PFloat32),
      (''name'', PPtr PString),
      (''state'', PPtr PString),
      (''time_zone'', PPtr PString)]"

definition LocationResource_projection :: ptype where
  "LocationResource_projection = PStruct
     [(''attributes'', PPtr LocationAttributes_projection),
      (''id'', PString),
      (''type'', PString)]"

definition LocationMeta_projection :: ptype where
  "LocationMeta_projection = PStruct
     [(''time'', PPtr PTime)]"

definition LocationDetail_projection :: ptype where
  "LocationDetail_projection = PStruct
     [(''data'', LocationResource_projection),
      (''included'', PSlice LocationResource_projection),
      (''meta'', PPtr LocationMeta_projection)]"

definition LocationGroup_projection :: ptype where
  "LocationGroup_projection = PStruct
     [(''id'', PPtr PString),
      (''name'', PPtr PString)]"

definition LocationGroups_projection :: ptype where
  "LocationGroups_projection = PStruct
     [(''device_groups'', PSlice LocationGroup_projection),
      (''is_owner'', PPtr PBool)]"

definition LocationGroupDevices_projection :: ptype where
  "LocationGroupDevices_projection = PStruct
     [(''groups'', PSlice LocationGroup_projection)]"

definition TimelineDevice_projection :: ptype where
  "TimelineDevice_projection = PStruct
     [(''description'', PPtr PString),
      (''id'', PPtr PInt),
      (''type'', PPtr PString)]"

definition TimelineEvent_projection :: ptype where
  "TimelineEvent_projection = PStruct
     [(''device'', PPtr TimelineDevice_projection),
      (''duration_ms'', PPtr PInt),
      (''end_time'', PPtr PTime),
      (''event_id'', PString),
      (''event_type'', PString),
      (''is_favorite'', PPtr PBool),
      (''recording_status'', PPtr PString),
      (''schema'', PPtr PString),
      (''source_id'', PPtr PString),
      (''start_time'', PTime),
      (''state'', PPtr PString)]"

definition DeviceTimeline_projection :: ptype where
  "DeviceTimeline_projection = PStruct
     [(''items'', PSlice TimelineEvent_projection),
      (''pagination_key'', PPtr PString)]"

definition HistoryFeedItem_projection :: ptype where
  "HistoryFeedItem_projection = PStruct
     [(''id'', PPtr PString),
      (''type'', PPtr PString)]"

definition HistoryDevices_projection :: ptype where
  "HistoryDevices_projection = PStruct
     [(''events'', PSlice TimelineEvent_projection),
      (''feed'', PSlice HistoryFeedItem_projection),
      (''pagination_key'', PPtr PString),
      (''schema'', PPtr PString)]"

definition CapturedTickets_projection :: ptype where
  "CapturedTickets_projection = PStruct
     [(''host'', PString),
      (''subscriptionTopics'', PSlice PString),
      (''ticket'', PString)]"

section \<open>The status of a device\<close>

record device_status =
  st_BatteryPercent :: "gofloat option"
  st_Connection :: "string option"
  st_IsOffline :: bool
  st_PowerMode :: "string option"

definition p_text :: "ptype \<Rightarrow> string \<Rightarrow> pvalue \<Rightarrow> string option" where
  "p_text P name v = (case p_pointer P name v of Some (VText s) \<Rightarrow> Some s | _ \<Rightarrow> None)"

definition p_flag :: "ptype \<Rightarrow> string \<Rightarrow> pvalue \<Rightarrow> bool option" where
  "p_flag P name v = (case p_pointer P name v of Some (VFlag b) \<Rightarrow> Some b | _ \<Rightarrow> None)"

definition p_number :: "ptype \<Rightarrow> string \<Rightarrow> pvalue \<Rightarrow> gofloat option" where
  "p_number P name v =
     (case p_pointer P name v of
        Some (VNumber q) \<Rightarrow> Some q
      | Some (VInteger i) \<Rightarrow> Some (Finite (of_int i))
      | _ \<Rightarrow> None)"

definition validBattery :: "gofloat \<Rightarrow> gofloat option" where
  "validBattery reading =
     (case reading of Finite q \<Rightarrow> if q < 0 \<or> 100 < q then None else Some reading | _ \<Rightarrow> None)"

definition Status :: "pvalue \<Rightarrow> device_status" where
  "Status device =
     (let settings = p_pointer DeviceDetailDevice_projection ''settings'' device;
          alerts = p_pointer DeviceDetailDevice_projection ''alerts'' device;
          health = p_pointer DeviceDetailDevice_projection ''health'' device;
          powerMode = Option.bind settings (p_text DeviceLegacySettings_projection ''power_mode'');
          alerted = Option.bind alerts (p_text DeviceAlerts_projection ''connection'');
          connected = Option.bind health (p_flag DeviceDetailHealth_projection ''connected'');
          reported = map_option (\<lambda>c. if c then ''online'' else ''offline'') connected;
          connection = (case alerted of Some c \<Rightarrow> Some c | None \<Rightarrow> reported);
          status = \<lparr>st_BatteryPercent = None, st_Connection = connection,
                    st_IsOffline = (connection = Some ''offline''), st_PowerMode = powerMode\<rparr>;
          present = Option.bind health (p_flag DeviceDetailHealth_projection ''battery_present'') in
      if present = Some False then status
      else if powerMode = Some ''wired'' \<and> present \<noteq> Some True then status
      else
        (let percent =
               (case Option.bind health (p_number DeviceDetailHealth_projection ''battery_percentage'') of
                  Some q \<Rightarrow> validBattery q
                | None \<Rightarrow>
                    (case Option.bind health (p_number DeviceDetailHealth_projection ''battery_level'') of
                       Some q \<Rightarrow> validBattery q
                     | None \<Rightarrow> None)) in
         if percent = None \<and> powerMode \<noteq> Some ''wired''
         then status\<lparr>st_BatteryPercent :=
                Option.bind (p_number DeviceDetailDevice_projection ''battery_life'' device) validBattery\<rparr>
         else status\<lparr>st_BatteryPercent := percent\<rparr>))"

section \<open>Parameters\<close>

definition joined :: "string list \<Rightarrow> string option" where
  "joined parts = (if parts = [] then None else Some (join_with (CHR '','') parts))"

definition joinCapabilities :: "string list \<Rightarrow> string option" where
  "joinCapabilities values = joined values"

definition LocationParams_wire :: "string list \<Rightarrow> GetLocationParams" where
  "LocationParams_wire include = \<lparr>GetLocationParams_Include = joined include\<rparr>"

record timeline_params =
  tp_StartTime :: "string option"
  tp_EndTime :: "string option"
  tp_Order :: "string option"
  tp_Limit :: "int option"
  tp_Capabilities :: "string list"

definition TimelineParams_wire :: "timeline_params \<Rightarrow> GetDeviceTimelineParams" where
  "TimelineParams_wire p =
     \<lparr>GetDeviceTimelineParams_StartTime = tp_StartTime p, GetDeviceTimelineParams_EndTime = tp_EndTime p,
      GetDeviceTimelineParams_Order = tp_Order p, GetDeviceTimelineParams_Limit = tp_Limit p,
      GetDeviceTimelineParams_Capabilities = joinCapabilities (tp_Capabilities p)\<rparr>"

definition HistoryDevicesParams_wire :: "string list \<Rightarrow> string list \<Rightarrow> GetHistoryDevicesParams" where
  "HistoryDevicesParams_wire sourceIDs capabilities =
     \<lparr>GetHistoryDevicesParams_SourceIds = joined sourceIDs,
      GetHistoryDevicesParams_Capabilities = joinCapabilities capabilities\<rparr>"

record tickets_params =
  ct_AllowUserOnly :: "bool option"
  ct_LocationID :: "string option"
  ct_LocationSubscription :: "string option"
  ct_EnableExtendedEmergencyCellUsage :: "bool option"
  ct_RequestedTransport :: "string option"

definition CapturedTicketsParams_wire :: "tickets_params \<Rightarrow> GetCapturedLocationTicketsParams" where
  "CapturedTicketsParams_wire p =
     \<lparr>GetCapturedLocationTicketsParams_AllowUserOnly = ct_AllowUserOnly p,
      GetCapturedLocationTicketsParams_LocationID = ct_LocationID p,
      GetCapturedLocationTicketsParams_LocationSubscription = ct_LocationSubscription p,
      GetCapturedLocationTicketsParams_EnableExtendedEmergencyCellUsage = ct_EnableExtendedEmergencyCellUsage p,
      GetCapturedLocationTicketsParams_RequestedTransport = ct_RequestedTransport p\<rparr>"

section \<open>Reads\<close>

text \<open>The names of the operations of each set; a set without operations has no entry.\<close>

definition operation_keys :: "rest_value \<Rightarrow> string list" where
  "operation_keys operations = (case operations of RVMap (Some m) \<Rightarrow> sort (map fst m) | _ \<Rightarrow> [])"

definition operationNames :: "rest_value option \<Rightarrow> (string \<times> string list) list option" where
  "operationNames sets =
     (case sets of
        Some (RVPtr (Some (RVMap (Some m)))) \<Rightarrow>
          Some (filter (\<lambda>kv. snd kv \<noteq> []) (map (\<lambda>kv. (fst kv, operation_keys (snd kv))) m))
      | Some (RVPtr (Some _)) \<Rightarrow> Some []
      | _ \<Rightarrow> None)"

definition projected :: "ptype \<Rightarrow> rest_type \<Rightarrow> rest_value \<Rightarrow> pvalue http_step" where
  "projected P T wire = lift (or_fail (projectCaptured P T wire))"

definition ring_GetDeviceDetail ::
  "ring_call \<Rightarrow> auth_context \<Rightarrow> string \<Rightarrow> (pvalue \<times> (string \<times> string list) list option) http_step" where
  "ring_GetDeviceDetail g auth device =
     (let call = accountContext g auth in
      in_session call (settingsDeviceID device) (\<lambda>i.
        lbind (rest_GetDeviceDetail call i) (\<lambda>wire.
        lbind (projected DeviceDetail_projection DeviceDetail_model wire) (\<lambda>detail.
          lreturn (detail, operationNames (rest_field DeviceDetail_model ''device_operation_set'' wire))))))"

definition detail_device :: "pvalue \<Rightarrow> pvalue" where
  "detail_device detail =
     (case p_field DeviceDetail_projection ''device'' detail of
        Some d \<Rightarrow> d | None \<Rightarrow> p_zero DeviceDetailDevice_projection)"

definition ring_GetDeviceStatus :: "ring_call \<Rightarrow> auth_context \<Rightarrow> string \<Rightarrow> device_status http_step" where
  "ring_GetDeviceStatus g auth device =
     lbind (ring_GetDeviceDetail g auth device) (\<lambda>(detail, _). lreturn (Status (detail_device detail)))"

definition ring_ListLocations ::
  "ring_call \<Rightarrow> auth_context \<Rightarrow> (pvalue \<times> (string \<times> string list) list option) http_step" where
  "ring_ListLocations g auth =
     (let call = accountContext g auth in
      lbind (ensureSession call) (\<lambda>_.
      lbind (rest_ListLocations call) (\<lambda>wire.
      lbind (projected LocationList_projection LocationList_model wire) (\<lambda>locations.
        lreturn (locations, operationNames (rest_field LocationList_model ''location_operation_sets'' wire))))))"

definition ring_GetLocation :: "ring_call \<Rightarrow> auth_context \<Rightarrow> string \<Rightarrow> string list \<Rightarrow> pvalue http_step" where
  "ring_GetLocation g auth location include =
     (let call = accountContext g auth in
      in_session call (locationID location) (\<lambda>i.
        lbind (rest_GetLocation call i (LocationParams_wire include))
          (projected LocationDetail_projection LocationDetail_model)))"

definition ring_ListLocationGroups :: "ring_call \<Rightarrow> auth_context \<Rightarrow> string \<Rightarrow> pvalue http_step" where
  "ring_ListLocationGroups g auth location =
     (let call = accountContext g auth in
      in_session call (locationID location) (\<lambda>i.
        lbind (rest_ListLocationGroups call i) (projected LocationGroups_projection LocationGroups_model)))"

definition ring_ListLocationDevices :: "ring_call \<Rightarrow> auth_context \<Rightarrow> string \<Rightarrow> pvalue http_step" where
  "ring_ListLocationDevices g auth location =
     (let call = accountContext g auth in
      in_session call (locationID location) (\<lambda>i.
        lbind (rest_ListLocationDevices call i) (projected LocationGroupDevices_projection LocationGroupDevices_model)))"

definition ring_GetDeviceTimeline ::
  "ring_call \<Rightarrow> auth_context \<Rightarrow> string \<Rightarrow> timeline_params \<Rightarrow> pvalue http_step" where
  "ring_GetDeviceTimeline g auth device params =
     (let call = accountContext g auth in
      with_device device (\<lambda>i.
        if (case tp_Limit params of Some limit \<Rightarrow> limit \<le> 0 | None \<Rightarrow> False)
        then bad_argument ''timeline limit must be positive''
        else
          lbind (ensureSession call) (\<lambda>_.
          lbind (rest_GetDeviceTimeline call i (TimelineParams_wire params))
            (projected DeviceTimeline_projection DeviceTimeline_model))))"

definition ring_GetHistoryDevices ::
  "ring_call \<Rightarrow> auth_context \<Rightarrow> string list \<Rightarrow> string list \<Rightarrow> pvalue http_step" where
  "ring_GetHistoryDevices g auth sourceIDs capabilities =
     (let call = accountContext g auth in
      lbind (ensureSession call) (\<lambda>_.
      lbind (rest_GetHistoryDevices call (HistoryDevicesParams_wire sourceIDs capabilities))
        (projected HistoryDevices_projection HistoryDevices_model)))"

end
