(* ===== verification/AccountSafety.thy ===== *)
theory AccountSafety
  imports ReadModels
begin

text \<open>
  What the account operations send. \<open>sends n Q m\<close> says that the operation \<open>m\<close> hands at most \<open>n\<close> requests to the
  HTTP client, all with \<open>Q\<close>, whatever the peer answers; its rules follow the operations of the REST client. The
  properties are stated for every operation of \<open>account_op\<close>, performed with arbitrary arguments.
\<close>

section \<open>Sending\<close>

definition sends :: "nat \<Rightarrow> (http_request \<Rightarrow> bool) \<Rightarrow> 'a http_step \<Rightarrow> bool" where
  "sends n Q m \<longleftrightarrow>
     (\<forall>w. \<exists>reqs. hs_sent (snd (m w)) = hs_sent w @ reqs \<and> list_all Q reqs \<and> length reqs \<le> n)"

lemma sendsI:
  "(\<And>w. \<exists>reqs. hs_sent (snd (m w)) = hs_sent w @ reqs \<and> list_all Q reqs \<and> length reqs \<le> n) \<Longrightarrow> sends n Q m"
  by (simp add: sends_def)

lemma sendsE:
  assumes "sends n Q m"
  obtains reqs where "hs_sent (snd (m w)) = hs_sent w @ reqs" "list_all Q reqs" "length reqs \<le> n"
  using assms unfolding sends_def by blast

lemma sends_bind:
  assumes m: "sends n Q m" and f: "\<And>x. sends k Q (f x)"
  shows "sends (n + k) Q (lbind m f)"
proof (rule sendsI)
  fix w
  obtain r w' where r: "m w = (r, w')" by fastforce
  from m obtain reqs where 1: "hs_sent w' = hs_sent w @ reqs" "list_all Q reqs" "length reqs \<le> n"
    by (rule sendsE [where w = w]) (simp add: r)
  show "\<exists>reqs. hs_sent (snd (lbind m f w)) = hs_sent w @ reqs \<and> list_all Q reqs \<and> length reqs \<le> n + k"
  proof (cases r)
    case (Ok x)
    from f [of x] obtain reqs' where 2: "hs_sent (snd (f x w')) = hs_sent w' @ reqs'" "list_all Q reqs'" "length reqs' \<le> k"
      by (rule sendsE [where w = w'])
    with 1 have "hs_sent (snd (f x w')) = hs_sent w @ reqs @ reqs'" by simp
    with 1 2 Ok r show ?thesis by (intro exI [of _ "reqs @ reqs'"]) (simp add: lbind_def)
  qed (use 1 r in \<open>auto simp: lbind_def\<close>)
qed

lemma sends_none:
  "sends 0 Q (lreturn x)" "sends 0 Q (lfail e)" "sends 0 Q (lift r)" "sends 0 Q (built msg b)" "sends 0 Q (bad_argument msg)"
  by (simp_all add: sends_def lreturn_def lfail_def lift_def built_def bad_argument_def)

lemma sends_mono: "sends n Q m \<Longrightarrow> n \<le> n' \<Longrightarrow> sends n' Q m"
  unfolding sends_def by (meson order_trans)

lemma sends_built:
  assumes "\<And>req. b = Inr req \<Longrightarrow> sends n Q (f req)"
  shows "sends n Q (lbind (built msg b) f)"
  using assms by (cases b) (auto simp: sends_def lbind_def built_def lift_def)

lemma sends_or_fail:
  assumes "\<And>x. r = Inr x \<Longrightarrow> sends n Q (f x)"
  shows "sends n Q (lbind (lift (or_fail r)) f)"
  using assms by (cases r) (auto simp: sends_def lbind_def lift_def or_fail_def)

lemma sends_attempts:
  "i < n \<Longrightarrow> Q req \<Longrightarrow> sends (n - i) Q (send_attempts env req n i)"
proof (induction "n - i" arbitrary: i)
  case (Suc k)
  show ?case
  proof (rule sendsI)
    fix w :: http_state
    let ?w' = "w\<lparr>hs_sent := hs_sent w @ [req]\<rparr>"
    let ?w'' = "?w'\<lparr>hs_waits := hs_waits ?w' @ [int (i + 1) * 1000000000]\<rparr>"
    let ?stop = "(case he_server env (hs_sent ?w') of Inr resp \<Rightarrow> resp_code (hp_resp resp) < 500 | Inl _ \<Rightarrow> False)"
    show "\<exists>reqs. hs_sent (snd (send_attempts env req n i w)) = hs_sent w @ reqs \<and> list_all Q reqs \<and> length reqs \<le> n - i"
    proof (cases "?stop \<or> n \<le> i + 1 \<or> he_cancelled env ?w'' \<noteq> None")
      case True
      then have "hs_sent (snd (send_attempts env req n i w)) = hs_sent w @ [req]"
        by (subst send_attempts.simps) (auto simp: Let_def)
      with Suc.prems show ?thesis by auto
    next
      case False
      then have eq: "send_attempts env req n i w = send_attempts env req n (i + 1) ?w''"
        by (subst send_attempts.simps) (simp add: Let_def)
      from False Suc have "sends (n - (i + 1)) Q (send_attempts env req n (i + 1))" by (intro Suc.hyps(1)) auto
      then obtain reqs where "hs_sent (snd (send_attempts env req n (i + 1) ?w'')) = hs_sent ?w'' @ reqs"
        "list_all Q reqs" "length reqs \<le> n - (i + 1)" by (rule sendsE)
      with eq Suc.prems False show ?thesis by (intro exI [of _ "req # reqs"]) auto
    qed
  qed
qed simp

section \<open>Requests of an account\<close>

definition attempts_of :: "string \<Rightarrow> nat" where
  "attempts_of verb = (if verb = ''GET'' \<or> verb = ''HEAD'' then 3 else 1)"

definition built_ok :: "string \<Rightarrow> string \<Rightarrow> http_request \<Rightarrow> bool" where
  "built_ok server verb req \<longleftrightarrow>
     at_origin server req \<and> hr_method req = verb
     \<and> (hr_headers req = [] \<or> hr_headers req = [(''Content-Type'', ''application/json'')])"

text \<open>A request to the configured origin with exactly the credentials of the call.\<close>

definition authorized :: "rest_call \<Rightarrow> http_request \<Rightarrow> bool" where
  "authorized call req \<longleftrightarrow>
     at_origin (rest_base call) req
     \<and> (\<exists>acc. rl_account call = Some acc \<and> acc_AccessToken acc \<noteq> []
          \<and> map_of (hr_headers req) ''Authorization'' = Some (''Bearer '' @ acc_AccessToken acc)
          \<and> map_of (hr_headers req) ''Hardware_id'' = (if acc_HardwareID acc = [] then None else Some (acc_HardwareID acc)))
     \<and> map_of (hr_headers req) ''User-Agent'' = Some (rc_userAgent (rl_config call))"

lemma header_fields [simp]:
  "hr_method (header name v req) = hr_method req" "hr_url (header name v req) = hr_url req"
  "hr_headers (header name v req) = gm_put name v (hr_headers req)"
  "at_origin server (header name v req) = at_origin server req"
  by (simp_all add: header_def at_origin_def)

lemma hardware_header_fields [simp]:
  "hr_method (hardware_header call req) = hr_method req" "hr_url (hardware_header call req) = hr_url req"
  "at_origin server (hardware_header call req) = at_origin server req"
  by (simp_all add: hardware_header_def at_origin_def)

lemma default_header_fields [simp]:
  "hr_method (default_header name v req) = hr_method req"
  "at_origin server (default_header name v req) = at_origin server req"
  "gm_wf (hr_headers req) \<Longrightarrow> gm_wf (hr_headers (default_header name v req))"
  "gm_wf (hr_headers req) \<Longrightarrow> k \<noteq> name
   \<Longrightarrow> map_of (hr_headers (default_header name v req)) k = map_of (hr_headers req) k"
  by (simp_all add: default_header_def)

lemma hardware_header_map:
  "gm_wf (hr_headers req) \<Longrightarrow>
   map_of (hr_headers (hardware_header call req)) k =
     (if k = ''Hardware_id'' \<and> rest_hardwareIDFor call \<noteq> [] then Some (rest_hardwareIDFor call) else map_of (hr_headers req) k)"
  by (simp add: hardware_header_def)

lemma authorize_method [simp]: "hr_method (authorize call token req) = hr_method req"
  by (simp add: authorize_def)

lemma authorize_authorized:
  assumes "built_ok (rest_base call) verb req" "rest_getToken call = Inr token"
  shows "authorized call (authorize call token req)"
proof -
  from assms(2) obtain acc where acc: "rl_account call = Some acc" "acc_AccessToken acc = token" "token \<noteq> []"
    by (auto simp: rest_getToken_def split: option.splits if_splits)
  from assms(1) have wf: "gm_wf (hr_headers req)" and "map_of (hr_headers req) ''Hardware_id'' = None"
    by (auto simp: built_ok_def gm_wf_def)
  with acc assms(1) show ?thesis
    by (auto simp: authorized_def authorize_def hardware_header_map rest_hardwareIDFor_def built_ok_def)
qed

lemma sends_authorized:
  assumes "built_ok (rest_base call) verb req"
  shows "sends (attempts_of verb) (authorized call) (sendAuthorizedRequest call req)"
proof -
  have "sends (attempts_of verb) (authorized call) (sendWithRetry (rl_env call) (authorize call token req))"
    if "rest_getToken call = Inr token" for token
  proof -
    have "max_attempts (authorize call token req) = attempts_of verb"
      using assms by (simp add: max_attempts_def attempts_of_def built_ok_def)
    then have "sends (attempts_of verb) (authorized call)
        (send_attempts (rl_env call) (authorize call token req) (max_attempts (authorize call token req)) 0)"
      using sends_attempts [of 0 "attempts_of verb" "authorized call" "authorize call token req" "rl_env call"]
        authorize_authorized [OF assms that] by (simp add: attempts_of_def)
    then have "sends (attempts_of verb + 0) (authorized call) (sendWithRetry (rl_env call) (authorize call token req))"
      unfolding sendWithRetry_def by (rule sends_bind) (simp add: sends_none split: sum.split)
    then show ?thesis by simp
  qed
  then show ?thesis by (auto simp: sends_def sendAuthorizedRequest_def split: option.split sum.split)
qed

lemma sends_doGeneratedJSON:
  assumes "built_ok (rest_base call) verb req"
  shows "sends (attempts_of verb) (authorized call) (doGeneratedJSON call T req)"
  using sends_bind [OF sends_authorized [OF assms] sends_none(3)] by (simp add: doGeneratedJSON_def)

lemma sends_then:
  assumes "sends n Q m" and "\<And>x. sends 0 Q (f x)"
  shows "sends n Q (lbind m f)"
  using sends_bind [OF assms] by simp

lemma sends_plain_operation:
  assumes "\<And>req. r = Inr req \<Longrightarrow> built_ok (rest_base call) verb req"
  shows "sends (attempts_of verb) (authorized call) (plain_operation call msg r)"
  unfolding plain_operation_def
  by (intro sends_built sends_then sends_doGeneratedJSON assms sends_none)

lemma sends_json_operation:
  assumes "\<And>req. r = Inr req \<Longrightarrow> built_ok (rest_base call) verb req"
  shows "sends (attempts_of verb) (authorized call) (json_operation call msg r T)"
  unfolding json_operation_def
  by (intro sends_built sends_then sends_doGeneratedJSON assms sends_none)

lemma sends_once:
  assumes "built_ok (rest_base call) verb req"
  shows "sends 1 (authorized call) (send_once call accept tokenMsg sendMsg req)"
proof (cases "rest_getToken call")
  case (Inl e)
  then show ?thesis by (simp add: send_once_def sends_mono [OF sends_none(2)])
next
  case (Inr token)
  then obtain acc where acc: "rl_account call = Some acc" "acc_AccessToken acc = token" "token \<noteq> []"
    by (auto simp: rest_getToken_def split: option.splits if_splits)
  from assms have wf: "gm_wf (hr_headers req)" and "map_of (hr_headers req) ''Hardware_id'' = None"
    by (auto simp: built_ok_def gm_wf_def)
  with acc assms have "authorized call (hardware_header call
      (header ''User-Agent'' (rc_userAgent (rl_config call))
        (header ''Accept'' accept (header ''Authorization'' (''Bearer '' @ token) req))))"
    by (auto simp: authorized_def hardware_header_map rest_hardwareIDFor_def built_ok_def)
  with Inr show ?thesis
    by (auto simp: send_once_def sends_def http_do_def Let_def split: sum.split outcome.split)
qed

section \<open>The operations of the REST client\<close>

lemma with_content_type_sound:
  assumes "with_content_type ''application/json'' builder body = Inr req"
    and "\<And>req. builder body = Inr req \<Longrightarrow> at_origin server req \<and> hr_method req = verb \<and> hr_headers req = []"
  shows "built_ok server verb req"
  using assms by (auto simp: with_content_type_def built_ok_def at_origin_def split: sum.splits)

lemma build_request_ok:
  "build_request rt verb server (CHR ''/'' # prefix, p) params body = Inr req \<Longrightarrow> built_ok server verb req"
  using build_request_sound by (simp add: built_ok_def)

lemma with_content_type_ok:
  assumes "with_content_type ''application/json'' (build_request rt verb server (CHR ''/'' # prefix, p) params) body = Inr req"
  shows "built_ok server verb req"
  by (rule with_content_type_sound [OF assms]) (auto dest: build_request_sound)

named_theorems sends_operations

lemma sends_GetMotionDetectionEnabled [sends_operations]:
  "sends 3 (authorized call) (GetMotionDetectionEnabled call deviceID)"
  unfolding GetMotionDetectionEnabled_def
  by (rule sends_then, rule sends_json_operation [where verb = "''GET''", unfolded attempts_of_def, simplified])
     (auto simp: NewGetDeviceSettingsRequest_def Let_def sends_none dest: build_request_ok with_content_type_ok)

lemma sends_PatchMotionDetectionEnabled [sends_operations]:
  "sends (Suc 0) (authorized call) (PatchMotionDetectionEnabled call deviceID enabled)"
  unfolding PatchMotionDetectionEnabled_def
  by (rule sends_then, rule sends_json_operation [where verb = "''PATCH''", unfolded attempts_of_def, simplified])
     (auto simp: NewPatchDeviceSettingsRequest_def NewPatchDeviceSettingsRequestWithBody_def Let_def sends_none dest: build_request_ok with_content_type_ok)

lemma sends_rest_SetSiren [sends_operations]:
  "sends (Suc 0) (authorized call) (rest_SetSiren call deviceID enabled)"
  unfolding rest_SetSiren_def
  by (rule sends_plain_operation [where verb = "''PUT''", unfolded attempts_of_def, simplified])
     (auto simp: NewTurnSirenOffRequest_def NewTurnSirenOnRequest_def dest: build_request_ok with_content_type_ok split: if_splits)

lemma sends_rest_SetChimeVolume [sends_operations]:
  "sends (Suc 0) (authorized call) (rest_SetChimeVolume call deviceID description volume)"
  unfolding rest_SetChimeVolume_def
  by (rule sends_plain_operation [where verb = "''PUT''", unfolded attempts_of_def, simplified])
     (auto simp: NewSetChimeVolumeRequest_def dest: build_request_ok with_content_type_ok split: if_splits)

lemma sends_updateLegacyDoorbotControls [sends_operations]:
  "sends (Suc 0) (authorized call) (updateLegacyDoorbotControls call deviceID params)"
  unfolding updateLegacyDoorbotControls_def
  by (rule sends_plain_operation [where verb = "''PUT''", unfolded attempts_of_def, simplified])
     (auto simp: NewUpdateLegacyDoorbotControlsRequest_def dest: build_request_ok with_content_type_ok split: if_splits)

lemma sends_rest_SetLights [sends_operations]:
  "sends (Suc 0) (authorized call) (rest_SetLights call deviceID enabled)"
  unfolding rest_SetLights_def
  by (rule sends_plain_operation [where verb = "''PUT''", unfolded attempts_of_def, simplified])
     (auto simp: NewTurnFloodlightOffRequest_def NewTurnFloodlightOnRequest_def dest: build_request_ok with_content_type_ok split: if_splits)

lemma sends_rest_TestSound [sends_operations]:
  "sends (Suc 0) (authorized call) (rest_TestSound call deviceID kind)"
  unfolding rest_TestSound_def
  by (rule sends_plain_operation [where verb = "''POST''", unfolded attempts_of_def, simplified])
     (auto simp: NewTestChimeSoundRequest_def dest: build_request_ok with_content_type_ok split: if_splits)

lemma sends_rest_GetDevices [sends_operations]:
  "sends 3 (authorized call) (rest_GetDevices call)"
  unfolding rest_GetDevices_def
  by (rule sends_json_operation [where verb = "''GET''", unfolded attempts_of_def, simplified])
     (auto simp: NewListDevicesRequest_def dest: build_request_ok with_content_type_ok split: if_splits)

lemma sends_RegisterSession [sends_operations]:
  "sends (Suc 0) (authorized call) (RegisterSession call)"
  unfolding RegisterSession_def
  by (rule sends_plain_operation [where verb = "''POST''", unfolded attempts_of_def, simplified])
     (auto simp: NewRegisterClientSessionRequest_def NewRegisterClientSessionRequestWithBody_def dest: build_request_ok with_content_type_ok split: if_splits)

lemma sends_rest_GetDeviceHealth [sends_operations]:
  "sends 3 (authorized call) (rest_GetDeviceHealth call deviceID)"
  unfolding rest_GetDeviceHealth_def
  by (rule sends_json_operation [where verb = "''GET''", unfolded attempts_of_def, simplified])
     (auto simp: NewGetLegacyDeviceHealthRequest_def dest: build_request_ok with_content_type_ok split: if_splits)

lemma sends_RegisterPushDevice [sends_operations]:
  "sends (Suc 0) (authorized call) (RegisterPushDevice call token)"
  unfolding RegisterPushDevice_def
  by (rule sends_plain_operation [where verb = "''PATCH''", unfolded attempts_of_def, simplified])
     (auto simp: NewRegisterPushDeviceRequest_def NewRegisterPushDeviceRequestWithBody_def dest: build_request_ok with_content_type_ok split: if_splits)

lemma sends_SubscribeDeviceDing [sends_operations]:
  "sends (Suc 0) (authorized call) (SubscribeDeviceDing call deviceID)"
  unfolding SubscribeDeviceDing_def
  by (rule sends_plain_operation [where verb = "''POST''", unfolded attempts_of_def, simplified])
     (auto simp: NewSubscribeDeviceDingRequest_def dest: build_request_ok with_content_type_ok split: if_splits)

lemma sends_SubscribeDeviceMotion [sends_operations]:
  "sends (Suc 0) (authorized call) (SubscribeDeviceMotion call deviceID)"
  unfolding SubscribeDeviceMotion_def
  by (rule sends_plain_operation [where verb = "''POST''", unfolded attempts_of_def, simplified])
     (auto simp: NewSubscribeDeviceMotionRequest_def dest: build_request_ok with_content_type_ok split: if_splits)

lemma sends_rest_GetRecordingShareURL [sends_operations]:
  "sends 3 (authorized call) (rest_GetRecordingShareURL call recording)"
  unfolding rest_GetRecordingShareURL_def
  by (rule sends_then, rule sends_json_operation [where verb = "''GET''", unfolded attempts_of_def, simplified])
     (auto simp: NewGetLegacyRecordingShareURLRequest_def Let_def sends_none dest: build_request_ok with_content_type_ok)

lemma sends_rest_GetDeviceHistory [sends_operations]:
  "sends 3 (authorized call) (rest_GetDeviceHistory call deviceID limit kind olderThan)"
  unfolding rest_GetDeviceHistory_def
  by (rule sends_json_operation [where verb = "''GET''", unfolded attempts_of_def, simplified])
     (auto simp: NewGetLegacyDeviceHistoryRequest_def dest: build_request_ok with_content_type_ok split: if_splits)

lemma sends_rest_GetActiveDings [sends_operations]:
  "sends 3 (authorized call) (rest_GetActiveDings call)"
  unfolding rest_GetActiveDings_def
  by (rule sends_json_operation [where verb = "''GET''", unfolded attempts_of_def, simplified])
     (auto simp: NewGetActiveDingsRequest_def dest: build_request_ok with_content_type_ok split: if_splits)

lemma sends_rest_GetRecording [sends_operations]:
  "sends (Suc 0) (authorized call) (rest_GetRecording call recording)"
  unfolding rest_GetRecording_def
  by (intro sends_built sends_then sends_once [where verb = "''GET''", unfolded One_nat_def])
     (auto simp: NewStreamRecordingRequest_def checked_status_def sends_none dest: build_request_ok split: sum.splits)

lemma sends_RefreshSnapshotTimestamp [sends_operations]:
  "sends (Suc 0) (authorized call) (RefreshSnapshotTimestamp call deviceID)"
  unfolding RefreshSnapshotTimestamp_def
  by (rule sends_then, rule sends_json_operation [where verb = "''POST''", unfolded attempts_of_def, simplified])
     (auto simp: NewRefreshLegacySnapshotTimestampRequest_def NewRefreshLegacySnapshotTimestampRequestWithBody_def Let_def sends_none dest: build_request_ok with_content_type_ok)

lemma sends_GetSnapshotImage [sends_operations]:
  "sends (Suc 0) (authorized call) (GetSnapshotImage call deviceID)"
  unfolding GetSnapshotImage_def
  by (intro sends_built sends_then sends_once [where verb = "''GET''", unfolded One_nat_def])
     (auto simp: NewGetLegacySnapshotImageRequest_def checked_status_def sends_none dest: build_request_ok split: sum.splits)

lemma sends_rest_GetDeviceDetail [sends_operations]:
  "sends 3 (authorized call) (rest_GetDeviceDetail call deviceID)"
  unfolding rest_GetDeviceDetail_def
  by (rule sends_json_operation [where verb = "''GET''", unfolded attempts_of_def, simplified])
     (auto simp: NewGetDeviceRequest_def dest: build_request_ok with_content_type_ok split: if_splits)

lemma sends_rest_ListLocations [sends_operations]:
  "sends 3 (authorized call) (rest_ListLocations call)"
  unfolding rest_ListLocations_def
  by (rule sends_json_operation [where verb = "''GET''", unfolded attempts_of_def, simplified])
     (auto simp: NewListLocationsRequest_def dest: build_request_ok with_content_type_ok split: if_splits)

lemma sends_rest_GetLocation [sends_operations]:
  "sends 3 (authorized call) (rest_GetLocation call location params)"
  unfolding rest_GetLocation_def
  by (rule sends_json_operation [where verb = "''GET''", unfolded attempts_of_def, simplified])
     (auto simp: NewGetLocationRequest_def dest: build_request_ok with_content_type_ok split: if_splits)

lemma sends_rest_ListLocationGroups [sends_operations]:
  "sends 3 (authorized call) (rest_ListLocationGroups call location)"
  unfolding rest_ListLocationGroups_def
  by (rule sends_json_operation [where verb = "''GET''", unfolded attempts_of_def, simplified])
     (auto simp: NewListLocationGroupsRequest_def dest: build_request_ok with_content_type_ok split: if_splits)

lemma sends_rest_ListLocationDevices [sends_operations]:
  "sends 3 (authorized call) (rest_ListLocationDevices call location)"
  unfolding rest_ListLocationDevices_def
  by (rule sends_json_operation [where verb = "''GET''", unfolded attempts_of_def, simplified])
     (auto simp: NewListLocationDevicesRequest_def dest: build_request_ok with_content_type_ok split: if_splits)

lemma sends_rest_GetDeviceTimeline [sends_operations]:
  "sends 3 (authorized call) (rest_GetDeviceTimeline call deviceID params)"
  unfolding rest_GetDeviceTimeline_def
  by (rule sends_json_operation [where verb = "''GET''", unfolded attempts_of_def, simplified])
     (auto simp: NewGetDeviceTimelineRequest_def dest: build_request_ok with_content_type_ok split: if_splits)

lemma sends_rest_GetHistoryDevices [sends_operations]:
  "sends 3 (authorized call) (rest_GetHistoryDevices call params)"
  unfolding rest_GetHistoryDevices_def
  by (rule sends_json_operation [where verb = "''GET''", unfolded attempts_of_def, simplified])
     (auto simp: NewGetHistoryDevicesRequest_def dest: build_request_ok with_content_type_ok split: if_splits)

lemma sends_rest_RebootDevice [sends_operations]:
  "sends (Suc 0) (authorized call) (rest_RebootDevice call deviceID)"
  unfolding rest_RebootDevice_def
  by (rule sends_plain_operation [where verb = "''PATCH''", unfolded attempts_of_def, simplified])
     (auto simp: NewSendDeviceCommandRequest_def NewSendDeviceCommandRequestWithBody_def dest: build_request_ok with_content_type_ok split: if_splits)

lemma sends_rest_UnlockIntercom [sends_operations]:
  "sends (Suc 0) (authorized call) (rest_UnlockIntercom call deviceID)"
  unfolding rest_UnlockIntercom_def
  by (rule sends_plain_operation [where verb = "''PUT''", unfolded attempts_of_def, simplified])
     (auto simp: NewUnlockIntercomRequest_def NewUnlockIntercomRequestWithBody_def dest: build_request_ok with_content_type_ok split: if_splits)

lemma sends_rest_SetPersistentLiveViewEnabled [sends_operations]:
  "sends (Suc 0) (authorized call) (rest_SetPersistentLiveViewEnabled call deviceID enabled)"
  unfolding rest_SetPersistentLiveViewEnabled_def
  by (rule sends_plain_operation [where verb = "''PUT''", unfolded attempts_of_def, simplified])
     (auto simp: NewSetLiveViewEnabledRequest_def NewSetLiveViewEnabledRequestWithBody_def dest: build_request_ok with_content_type_ok split: if_splits)

lemma sends_rest_FavoriteRecording [sends_operations]:
  "sends (Suc 0) (authorized call) (rest_FavoriteRecording call recording)"
  unfolding rest_FavoriteRecording_def
  by (rule sends_plain_operation [where verb = "''PUT''", unfolded attempts_of_def, simplified])
     (auto simp: NewFavoriteRecordingRequest_def dest: build_request_ok with_content_type_ok split: if_splits)

lemma sends_rest_DeleteRecording [sends_operations]:
  "sends (Suc 0) (authorized call) (rest_DeleteRecording call recording confirmFavorite)"
  unfolding rest_DeleteRecording_def
  by (rule sends_plain_operation [where verb = "''DELETE''", unfolded attempts_of_def, simplified])
     (auto simp: NewDeleteRecordingRequest_def dest: build_request_ok with_content_type_ok split: if_splits)

section \<open>All account operations\<close>

datatype account_op =
    OpSetVolume string string string int
  | OpSetLights string bool
  | OpSetMotionDetection string bool
  | OpTestSound string string
  | OpSetInHomeChime string string chime_settings
  | OpGetDeviceSettings string
  | OpPatchDeviceSettings string "bool option"
  | OpSetSiren string bool
  | OpGetSnapshot string int int
  | OpListDevices
  | OpGetDevice string
  | OpUpdateDeviceHealth string
  | OpGetDeviceHistory string int string "int option"
  | OpGetActiveDings
  | OpGetRecording int
  | OpGetRecordingShareURL int
  | OpGetLastRecordingID string
  | OpRebootDevice string
  | OpUnlockIntercom string
  | OpSetPersistentLiveViewEnabled string bool
  | OpFavoriteRecording int
  | OpDeleteRecording int "bool option"
  | OpRegisterPushDevice string
  | OpSubscribeDeviceDing string
  | OpSubscribeDeviceMotion string
  | OpGetDeviceDetail string
  | OpGetDeviceStatus string
  | OpListLocations
  | OpGetLocation string "string list"
  | OpListLocationGroups string
  | OpListLocationDevices string
  | OpGetDeviceTimeline string timeline_params
  | OpGetHistoryDevices "string list" "string list"

text \<open>An operation with its result forgotten.\<close>

definition forget :: "'a http_step \<Rightarrow> unit http_step" where
  "forget m = lbind m (\<lambda>_. lreturn ())"

fun perform :: "ring_call \<Rightarrow> auth_context \<Rightarrow> account_op \<Rightarrow> unit http_step" where
  "perform g auth (OpSetVolume device kind description volume) = forget (ring_SetVolume g auth device kind description volume)"
| "perform g auth (OpSetLights device enabled) = forget (ring_SetLights g auth device enabled)"
| "perform g auth (OpSetMotionDetection device enabled) = forget (ring_SetMotionDetection g auth device enabled)"
| "perform g auth (OpTestSound device sound) = forget (ring_TestSound g auth device sound)"
| "perform g auth (OpSetInHomeChime device description settings) = forget (ring_SetInHomeChime g auth device description settings)"
| "perform g auth (OpGetDeviceSettings device) = forget (ring_GetDeviceSettings g auth device)"
| "perform g auth (OpPatchDeviceSettings device motion) = forget (ring_PatchDeviceSettings g auth device motion)"
| "perform g auth (OpSetSiren device enabled) = forget (ring_SetSiren g auth device enabled)"
| "perform g auth (OpGetSnapshot device attempts interval) = forget (ring_GetSnapshot g auth device attempts interval)"
| "perform g auth OpListDevices = forget (ring_ListDevices g auth)"
| "perform g auth (OpGetDevice device) = forget (ring_GetDevice g auth device)"
| "perform g auth (OpUpdateDeviceHealth device) = forget (ring_UpdateDeviceHealth g auth device)"
| "perform g auth (OpGetDeviceHistory device limit kind olderThan) = forget (ring_GetDeviceHistory g auth device limit kind olderThan)"
| "perform g auth OpGetActiveDings = forget (ring_GetActiveDings g auth)"
| "perform g auth (OpGetRecording recording) = forget (ring_GetRecording g auth recording)"
| "perform g auth (OpGetRecordingShareURL recording) = forget (ring_GetRecordingShareURL g auth recording)"
| "perform g auth (OpGetLastRecordingID device) = forget (ring_GetLastRecordingID g auth device)"
| "perform g auth (OpRebootDevice device) = forget (ring_RebootDevice g auth device)"
| "perform g auth (OpUnlockIntercom device) = forget (ring_UnlockIntercom g auth device)"
| "perform g auth (OpSetPersistentLiveViewEnabled device enabled) = forget (ring_SetPersistentLiveViewEnabled g auth device enabled)"
| "perform g auth (OpFavoriteRecording recording) = forget (ring_FavoriteRecording g auth recording)"
| "perform g auth (OpDeleteRecording recording confirm) = forget (ring_DeleteRecording g auth recording confirm)"
| "perform g auth (OpRegisterPushDevice token) = forget (ring_RegisterPushDevice g auth token)"
| "perform g auth (OpSubscribeDeviceDing device) = forget (ring_SubscribeDeviceDing g auth device)"
| "perform g auth (OpSubscribeDeviceMotion device) = forget (ring_SubscribeDeviceMotion g auth device)"
| "perform g auth (OpGetDeviceDetail device) = forget (ring_GetDeviceDetail g auth device)"
| "perform g auth (OpGetDeviceStatus device) = forget (ring_GetDeviceStatus g auth device)"
| "perform g auth OpListLocations = forget (ring_ListLocations g auth)"
| "perform g auth (OpGetLocation location include) = forget (ring_GetLocation g auth location include)"
| "perform g auth (OpListLocationGroups location) = forget (ring_ListLocationGroups g auth location)"
| "perform g auth (OpListLocationDevices location) = forget (ring_ListLocationDevices g auth location)"
| "perform g auth (OpGetDeviceTimeline device params) = forget (ring_GetDeviceTimeline g auth device params)"
| "perform g auth (OpGetHistoryDevices sourceIDs capabilities) = forget (ring_GetHistoryDevices g auth sourceIDs capabilities)"

text \<open>The requests an operation may send, attempts included.\<close>

fun request_limit :: "account_op \<Rightarrow> nat" where
  "request_limit (OpSetVolume _ _ _ _) = 1"
| "request_limit (OpSetLights _ _) = 1"
| "request_limit (OpSetMotionDetection _ _) = 1"
| "request_limit (OpTestSound _ _) = 1"
| "request_limit (OpSetInHomeChime _ _ _) = 1"
| "request_limit (OpGetDeviceSettings _) = 3"
| "request_limit (OpPatchDeviceSettings _ _) = 1"
| "request_limit (OpSetSiren _ _) = 1"
| "request_limit (OpGetSnapshot _ attempts _) = snapshot_attempts attempts + 2"
| "request_limit OpListDevices = 4"
| "request_limit (OpGetDevice _) = 4"
| "request_limit (OpUpdateDeviceHealth _) = 3"
| "request_limit (OpGetDeviceHistory _ _ _ _) = 3"
| "request_limit OpGetActiveDings = 3"
| "request_limit (OpGetRecording _) = 1"
| "request_limit (OpGetRecordingShareURL _) = 3"
| "request_limit (OpGetLastRecordingID _) = 3"
| "request_limit (OpRebootDevice _) = 2"
| "request_limit (OpUnlockIntercom _) = 2"
| "request_limit (OpSetPersistentLiveViewEnabled _ _) = 2"
| "request_limit (OpFavoriteRecording _) = 2"
| "request_limit (OpDeleteRecording _ _) = 2"
| "request_limit (OpRegisterPushDevice _) = 2"
| "request_limit (OpSubscribeDeviceDing _) = 2"
| "request_limit (OpSubscribeDeviceMotion _) = 2"
| "request_limit (OpGetDeviceDetail _) = 4"
| "request_limit (OpGetDeviceStatus _) = 4"
| "request_limit OpListLocations = 4"
| "request_limit (OpGetLocation _ _) = 4"
| "request_limit (OpListLocationGroups _) = 4"
| "request_limit (OpListLocationDevices _) = 4"
| "request_limit (OpGetDeviceTimeline _ _) = 4"
| "request_limit (OpGetHistoryDevices _ _) = 4"

text \<open>The arguments an operation accepts.\<close>

definition valid_device :: "string \<Rightarrow> bool" where
  "valid_device device \<longleftrightarrow> (case parse_int64 device of Some i \<Rightarrow> 0 < i | None \<Rightarrow> False)"

fun valid_op :: "account_op \<Rightarrow> bool" where
  "valid_op (OpSetVolume device kind description volume) \<longleftrightarrow> 0 \<le> volume \<and> volume \<le> 11 \<and> kind \<in> {''chime'', ''doorbell''} \<and> description \<noteq> [] \<and> valid_device device"
| "valid_op (OpSetLights device _) \<longleftrightarrow> valid_device device"
| "valid_op (OpSetMotionDetection device _) \<longleftrightarrow> valid_device device"
| "valid_op (OpTestSound device sound) \<longleftrightarrow> sound \<in> {''ding'', ''motion''} \<and> valid_device device"
| "valid_op (OpSetInHomeChime device description settings) \<longleftrightarrow> supplied settings = 1 \<and> description \<noteq> [] \<and> \<not> negative (ch_Type settings) \<and> \<not> negative (ch_Duration settings) \<and> valid_device device"
| "valid_op (OpGetDeviceSettings device) \<longleftrightarrow> valid_device device"
| "valid_op (OpPatchDeviceSettings device motion) \<longleftrightarrow> motion \<noteq> None \<and> valid_device device"
| "valid_op (OpSetSiren device _) \<longleftrightarrow> valid_device device"
| "valid_op (OpGetSnapshot device attempts interval) \<longleftrightarrow> 0 \<le> attempts \<and> attempts \<le> 100 \<and> 0 \<le> interval \<and> valid_device device"
| "valid_op OpListDevices \<longleftrightarrow> True"
| "valid_op (OpGetDevice _) \<longleftrightarrow> True"
| "valid_op (OpUpdateDeviceHealth device) \<longleftrightarrow> valid_device device"
| "valid_op (OpGetDeviceHistory device _ _ olderThan) \<longleftrightarrow> parse_int64 device \<noteq> None \<and> \<not> negative olderThan"
| "valid_op OpGetActiveDings \<longleftrightarrow> True"
| "valid_op (OpGetRecording _) \<longleftrightarrow> True"
| "valid_op (OpGetRecordingShareURL recording) \<longleftrightarrow> 0 < recording"
| "valid_op (OpGetLastRecordingID device) \<longleftrightarrow> parse_int64 device \<noteq> None"
| "valid_op (OpRebootDevice device) \<longleftrightarrow> valid_device device"
| "valid_op (OpUnlockIntercom device) \<longleftrightarrow> valid_device device"
| "valid_op (OpSetPersistentLiveViewEnabled device _) \<longleftrightarrow> valid_device device"
| "valid_op (OpFavoriteRecording recording) \<longleftrightarrow> 0 < recording"
| "valid_op (OpDeleteRecording recording _) \<longleftrightarrow> 0 < recording"
| "valid_op (OpRegisterPushDevice token) \<longleftrightarrow> token \<noteq> []"
| "valid_op (OpSubscribeDeviceDing device) \<longleftrightarrow> valid_device device"
| "valid_op (OpSubscribeDeviceMotion device) \<longleftrightarrow> valid_device device"
| "valid_op (OpGetDeviceDetail device) \<longleftrightarrow> valid_device device"
| "valid_op (OpGetDeviceStatus device) \<longleftrightarrow> valid_device device"
| "valid_op OpListLocations \<longleftrightarrow> True"
| "valid_op (OpGetLocation location _) \<longleftrightarrow> \<not> only_space location"
| "valid_op (OpListLocationGroups location) \<longleftrightarrow> \<not> only_space location"
| "valid_op (OpListLocationDevices location) \<longleftrightarrow> \<not> only_space location"
| "valid_op (OpGetDeviceTimeline device params) \<longleftrightarrow> valid_device device \<and> (case tp_Limit params of Some limit \<Rightarrow> 0 < limit | None \<Rightarrow> True)"
| "valid_op (OpGetHistoryDevices _ _) \<longleftrightarrow> True"

lemma sends_ensureSession: "sends (Suc 0) (authorized call) (ensureSession call)"
  by (auto simp: ensureSession_def sends_RegisterSession intro: sends_mono [OF sends_none(1)] split: option.split)

lemma sends_with_device:
  assumes "\<And>i. sends n Q (f i)"
  shows "sends n Q (with_device device f)"
  unfolding with_device_def by (rule sends_or_fail) (rule assms)

lemma sends_in_session:
  assumes "\<And>i. sends n (authorized call) (f i)"
  shows "sends (Suc n) (authorized call) (in_session call r f)"
  unfolding in_session_def
  using sends_bind [OF sends_ensureSession assms] by (intro sends_or_fail) simp

lemma sends_after_session:
  assumes "\<And>i. sends n (authorized call) (f i)"
  shows "sends (Suc n) (authorized call) (lbind (ensureSession call) f)"
  using sends_bind [OF sends_ensureSession assms] by simp

lemmas sends_session_read = sends_in_session [of 3, simplified] sends_after_session [of 3, simplified]

lemma sends_argument: "sends n Q (bad_argument msg)" "sends n Q (lfail e)" "sends n Q (lift r)" "sends n Q (lreturn x)"
  by (rule sends_mono [OF sends_none(5)] sends_mono [OF sends_none(2)] sends_mono [OF sends_none(3)]
      sends_mono [OF sends_none(1)], simp)+

lemma sends_projected: "sends n Q (projected P T v)"
  by (simp add: projected_def sends_argument)

lemma sends_legacy [sends_operations]:
  "sends (Suc 0) (authorized call) (SetDoorbellVolume call i description v)"
  "sends (Suc 0) (authorized call) (SetInHomeChimeType call i description v)"
  "sends (Suc 0) (authorized call) (SetInHomeChimeDuration call i description v)"
  "sends (Suc 0) (authorized call) (SetInHomeChimeEnabled call i description b)"
  "sends (Suc 0) (authorized call) (rest_SetMotionDetection call i b)"
  by (simp_all add: SetDoorbellVolume_def SetInHomeChimeType_def SetInHomeChimeDuration_def SetInHomeChimeEnabled_def
      rest_SetMotionDetection_def sends_operations)

lemma sends_poll_wait: "sends 0 Q (poll_wait call interval)"
  by (auto simp: sends_def poll_wait_def Let_def split: option.split)

lemma sends_snapshot_poll: "sends (n + 1) (authorized call) (snapshot_poll call i interval requestedAt n)"
proof (induction n)
  case (Suc n)
  have "sends (0 + (Suc 0 + (n + 1))) (authorized call) (snapshot_poll call i interval requestedAt (Suc n))"
    unfolding snapshot_poll.simps
  proof (rule sends_bind [OF sends_poll_wait], rule sends_bind [OF sends_RefreshSnapshotTimestamp])
    fix timestamp
    have image: "sends (n + 1) (authorized call)
        (lbind (GetSnapshotImage call i) (\<lambda>(data, contentType).
           if data = [] then lfail (NewInternalServerError ''snapshot image was empty'' None)
           else lreturn \<lparr>sn_Bytes = data, sn_Timestamp = timestamp, sn_ContentType = contentType\<rparr>))"
      by (rule sends_mono [OF sends_then [OF sends_GetSnapshotImage]]) (auto simp: sends_argument)
    show "sends (n + 1) (authorized call)
        (if timestamp \<le> requestedAt then snapshot_poll call i interval requestedAt n
         else lbind (GetSnapshotImage call i) (\<lambda>(data, contentType).
           if data = [] then lfail (NewInternalServerError ''snapshot image was empty'' None)
           else lreturn \<lparr>sn_Bytes = data, sn_Timestamp = timestamp, sn_ContentType = contentType\<rparr>))"
      using Suc image by (simp only: if_True if_False split: if_split) simp
  qed
  then show ?case by simp
qed (simp add: sends_argument)

lemma sends_ring_SetVolume [sends_operations]:
  "sends (Suc 0) (authorized (accountContext g auth)) (ring_SetVolume g auth device kind description volume)"
  unfolding ring_SetVolume_def  Let_def
  by (auto intro!: sends_argument sends_projected sends_with_device sends_in_session sends_after_session sends_session_read
      intro: sends_then sends_operations split: if_splits option.split list.split prod.split)

lemma sends_ring_SetLights [sends_operations]:
  "sends (Suc 0) (authorized (accountContext g auth)) (ring_SetLights g auth device enabled)"
  unfolding ring_SetLights_def  Let_def
  by (auto intro!: sends_argument sends_projected sends_with_device sends_in_session sends_after_session sends_session_read
      intro: sends_then sends_operations split: if_splits option.split list.split prod.split)

lemma sends_ring_SetMotionDetection [sends_operations]:
  "sends (Suc 0) (authorized (accountContext g auth)) (ring_SetMotionDetection g auth device enabled)"
  unfolding ring_SetMotionDetection_def  Let_def
  by (auto intro!: sends_argument sends_projected sends_with_device sends_in_session sends_after_session sends_session_read
      intro: sends_then sends_operations split: if_splits option.split list.split prod.split)

lemma sends_ring_TestSound [sends_operations]:
  "sends (Suc 0) (authorized (accountContext g auth)) (ring_TestSound g auth device sound)"
  unfolding ring_TestSound_def  Let_def
  by (auto intro!: sends_argument sends_projected sends_with_device sends_in_session sends_after_session sends_session_read
      intro: sends_then sends_operations split: if_splits option.split list.split prod.split)

lemma sends_ring_SetInHomeChime [sends_operations]:
  "sends (Suc 0) (authorized (accountContext g auth)) (ring_SetInHomeChime g auth device description settings)"
  unfolding ring_SetInHomeChime_def  Let_def
  by (auto intro!: sends_argument sends_projected sends_with_device sends_in_session sends_after_session sends_session_read
      intro: sends_then sends_operations split: if_splits option.split list.split prod.split)

lemma sends_ring_GetDeviceSettings [sends_operations]:
  "sends 3 (authorized (accountContext g auth)) (ring_GetDeviceSettings g auth device)"
  unfolding ring_GetDeviceSettings_def  Let_def
  by (auto intro!: sends_argument sends_projected sends_with_device sends_in_session sends_after_session sends_session_read
      intro: sends_then sends_operations split: if_splits option.split list.split prod.split)

lemma sends_ring_PatchDeviceSettings [sends_operations]:
  "sends (Suc 0) (authorized (accountContext g auth)) (ring_PatchDeviceSettings g auth device motion)"
  unfolding ring_PatchDeviceSettings_def  Let_def
  by (auto intro!: sends_argument sends_projected sends_with_device sends_in_session sends_after_session sends_session_read
      intro: sends_then sends_operations split: if_splits option.split list.split prod.split)

lemma sends_ring_SetSiren [sends_operations]:
  "sends (Suc 0) (authorized (accountContext g auth)) (ring_SetSiren g auth device enabled)"
  unfolding ring_SetSiren_def  Let_def
  by (auto intro!: sends_argument sends_projected sends_with_device sends_in_session sends_after_session sends_session_read
      intro: sends_then sends_operations split: if_splits option.split list.split prod.split)

lemma sends_ring_ListDevices [sends_operations]:
  "sends 4 (authorized (accountContext g auth)) (ring_ListDevices g auth)"
  unfolding ring_ListDevices_def  Let_def
  by (auto intro!: sends_argument sends_projected sends_with_device sends_in_session sends_after_session sends_session_read
      intro: sends_then sends_operations split: if_splits option.split list.split prod.split)

lemma sends_ring_GetDevice [sends_operations]:
  "sends 4 (authorized (accountContext g auth)) (ring_GetDevice g auth device)"
  unfolding ring_GetDevice_def  Let_def
  by (auto intro!: sends_argument sends_projected sends_with_device sends_in_session sends_after_session sends_session_read
      intro: sends_then sends_operations split: if_splits option.split list.split prod.split)

lemma sends_ring_UpdateDeviceHealth [sends_operations]:
  "sends 3 (authorized (accountContext g auth)) (ring_UpdateDeviceHealth g auth device)"
  unfolding ring_UpdateDeviceHealth_def  Let_def
  by (auto intro!: sends_argument sends_projected sends_with_device sends_in_session sends_after_session sends_session_read
      intro: sends_then sends_operations split: if_splits option.split list.split prod.split)

lemma sends_ring_GetDeviceHistory [sends_operations]:
  "sends 3 (authorized (accountContext g auth)) (ring_GetDeviceHistory g auth device limit kind olderThan)"
  unfolding ring_GetDeviceHistory_def  Let_def
  by (auto intro!: sends_argument sends_projected sends_with_device sends_in_session sends_after_session sends_session_read
      intro: sends_then sends_operations split: if_splits option.split list.split prod.split)

lemma sends_ring_GetActiveDings [sends_operations]:
  "sends 3 (authorized (accountContext g auth)) (ring_GetActiveDings g auth)"
  unfolding ring_GetActiveDings_def  Let_def
  by (auto intro!: sends_argument sends_projected sends_with_device sends_in_session sends_after_session sends_session_read
      intro: sends_then sends_operations split: if_splits option.split list.split prod.split)

lemma sends_ring_GetRecording [sends_operations]:
  "sends (Suc 0) (authorized (accountContext g auth)) (ring_GetRecording g auth recording)"
  unfolding ring_GetRecording_def  Let_def
  by (auto intro!: sends_argument sends_projected sends_with_device sends_in_session sends_after_session sends_session_read
      intro: sends_then sends_operations split: if_splits option.split list.split prod.split)

lemma sends_ring_GetRecordingShareURL [sends_operations]:
  "sends 3 (authorized (accountContext g auth)) (ring_GetRecordingShareURL g auth recording)"
  unfolding ring_GetRecordingShareURL_def  Let_def
  by (auto intro!: sends_argument sends_projected sends_with_device sends_in_session sends_after_session sends_session_read
      intro: sends_then sends_operations split: if_splits option.split list.split prod.split)

lemma sends_ring_GetLastRecordingID [sends_operations]:
  "sends 3 (authorized (accountContext g auth)) (ring_GetLastRecordingID g auth device)"
  unfolding ring_GetLastRecordingID_def  Let_def
  by (auto intro!: sends_argument sends_projected sends_with_device sends_in_session sends_after_session sends_session_read
      intro: sends_then sends_operations split: if_splits option.split list.split prod.split)

lemma sends_ring_RebootDevice [sends_operations]:
  "sends (Suc (Suc 0)) (authorized (accountContext g auth)) (ring_RebootDevice g auth device)"
  unfolding ring_RebootDevice_def  Let_def
  by (auto intro!: sends_argument sends_projected sends_with_device sends_in_session sends_after_session sends_session_read
      intro: sends_then sends_operations split: if_splits option.split list.split prod.split)

lemma sends_ring_UnlockIntercom [sends_operations]:
  "sends (Suc (Suc 0)) (authorized (accountContext g auth)) (ring_UnlockIntercom g auth device)"
  unfolding ring_UnlockIntercom_def  Let_def
  by (auto intro!: sends_argument sends_projected sends_with_device sends_in_session sends_after_session sends_session_read
      intro: sends_then sends_operations split: if_splits option.split list.split prod.split)

lemma sends_ring_SetPersistentLiveViewEnabled [sends_operations]:
  "sends (Suc (Suc 0)) (authorized (accountContext g auth)) (ring_SetPersistentLiveViewEnabled g auth device enabled)"
  unfolding ring_SetPersistentLiveViewEnabled_def  Let_def
  by (auto intro!: sends_argument sends_projected sends_with_device sends_in_session sends_after_session sends_session_read
      intro: sends_then sends_operations split: if_splits option.split list.split prod.split)

lemma sends_ring_FavoriteRecording [sends_operations]:
  "sends (Suc (Suc 0)) (authorized (accountContext g auth)) (ring_FavoriteRecording g auth recording)"
  unfolding ring_FavoriteRecording_def  Let_def
  by (auto intro!: sends_argument sends_projected sends_with_device sends_in_session sends_after_session sends_session_read
      intro: sends_then sends_operations split: if_splits option.split list.split prod.split)

lemma sends_ring_DeleteRecording [sends_operations]:
  "sends (Suc (Suc 0)) (authorized (accountContext g auth)) (ring_DeleteRecording g auth recording confirm)"
  unfolding ring_DeleteRecording_def  Let_def
  by (auto intro!: sends_argument sends_projected sends_with_device sends_in_session sends_after_session sends_session_read
      intro: sends_then sends_operations split: if_splits option.split list.split prod.split)

lemma sends_ring_RegisterPushDevice [sends_operations]:
  "sends (Suc (Suc 0)) (authorized (accountContext g auth)) (ring_RegisterPushDevice g auth token)"
  unfolding ring_RegisterPushDevice_def  Let_def
  by (auto intro!: sends_argument sends_projected sends_with_device sends_in_session sends_after_session sends_session_read
      intro: sends_then sends_operations split: if_splits option.split list.split prod.split)

lemma sends_ring_SubscribeDeviceDing [sends_operations]:
  "sends (Suc (Suc 0)) (authorized (accountContext g auth)) (ring_SubscribeDeviceDing g auth device)"
  unfolding ring_SubscribeDeviceDing_def  Let_def
  by (auto intro!: sends_argument sends_projected sends_with_device sends_in_session sends_after_session sends_session_read
      intro: sends_then sends_operations split: if_splits option.split list.split prod.split)

lemma sends_ring_SubscribeDeviceMotion [sends_operations]:
  "sends (Suc (Suc 0)) (authorized (accountContext g auth)) (ring_SubscribeDeviceMotion g auth device)"
  unfolding ring_SubscribeDeviceMotion_def  Let_def
  by (auto intro!: sends_argument sends_projected sends_with_device sends_in_session sends_after_session sends_session_read
      intro: sends_then sends_operations split: if_splits option.split list.split prod.split)

lemma sends_ring_GetDeviceDetail [sends_operations]:
  "sends 4 (authorized (accountContext g auth)) (ring_GetDeviceDetail g auth device)"
  unfolding ring_GetDeviceDetail_def  Let_def
  by (auto intro!: sends_argument sends_projected sends_with_device sends_in_session sends_after_session sends_session_read
      intro: sends_then sends_operations split: if_splits option.split list.split prod.split)

lemma sends_ring_GetDeviceStatus [sends_operations]:
  "sends 4 (authorized (accountContext g auth)) (ring_GetDeviceStatus g auth device)"
  unfolding ring_GetDeviceStatus_def  Let_def
  by (auto intro!: sends_argument sends_projected sends_with_device sends_in_session sends_after_session sends_session_read
      intro: sends_then sends_operations split: if_splits option.split list.split prod.split)

lemma sends_ring_ListLocations [sends_operations]:
  "sends 4 (authorized (accountContext g auth)) (ring_ListLocations g auth)"
  unfolding ring_ListLocations_def  Let_def
  by (auto intro!: sends_argument sends_projected sends_with_device sends_in_session sends_after_session sends_session_read
      intro: sends_then sends_operations split: if_splits option.split list.split prod.split)

lemma sends_ring_GetLocation [sends_operations]:
  "sends 4 (authorized (accountContext g auth)) (ring_GetLocation g auth location include)"
  unfolding ring_GetLocation_def  Let_def
  by (auto intro!: sends_argument sends_projected sends_with_device sends_in_session sends_after_session sends_session_read
      intro: sends_then sends_operations split: if_splits option.split list.split prod.split)

lemma sends_ring_ListLocationGroups [sends_operations]:
  "sends 4 (authorized (accountContext g auth)) (ring_ListLocationGroups g auth location)"
  unfolding ring_ListLocationGroups_def  Let_def
  by (auto intro!: sends_argument sends_projected sends_with_device sends_in_session sends_after_session sends_session_read
      intro: sends_then sends_operations split: if_splits option.split list.split prod.split)

lemma sends_ring_ListLocationDevices [sends_operations]:
  "sends 4 (authorized (accountContext g auth)) (ring_ListLocationDevices g auth location)"
  unfolding ring_ListLocationDevices_def  Let_def
  by (auto intro!: sends_argument sends_projected sends_with_device sends_in_session sends_after_session sends_session_read
      intro: sends_then sends_operations split: if_splits option.split list.split prod.split)

lemma sends_ring_GetDeviceTimeline [sends_operations]:
  "sends 4 (authorized (accountContext g auth)) (ring_GetDeviceTimeline g auth device params)"
proof -
  have "sends 4 (authorized (accountContext g auth)) (lbind (ensureSession (accountContext g auth)) (\<lambda>_.
      lbind (rest_GetDeviceTimeline (accountContext g auth) i (TimelineParams_wire params))
        (projected DeviceTimeline_projection DeviceTimeline_model)))" for i
    by (intro sends_session_read sends_then sends_rest_GetDeviceTimeline sends_projected)
  then show ?thesis
    unfolding ring_GetDeviceTimeline_def Let_def by (intro sends_with_device) (simp add: sends_argument)
qed

lemma sends_ring_GetHistoryDevices [sends_operations]:
  "sends 4 (authorized (accountContext g auth)) (ring_GetHistoryDevices g auth sourceIDs capabilities)"
  unfolding ring_GetHistoryDevices_def  Let_def
  by (auto intro!: sends_argument sends_projected sends_with_device sends_in_session sends_after_session sends_session_read
      intro: sends_then sends_operations split: if_splits option.split list.split prod.split)


section \<open>What all operations have in common\<close>

lemma sends_forget: "sends n Q m \<Longrightarrow> sends n Q (forget m)"
  unfolding forget_def by (rule sends_then) (auto intro: sends_argument)

lemma sends_ring_GetSnapshot:
  "sends (snapshot_attempts attempts + 2) (authorized (accountContext g auth))
     (ring_GetSnapshot g auth device attempts interval)"
proof -
  let ?call = "accountContext g auth"
  have poll: "sends (snapshot_attempts attempts + 1) (authorized ?call)
      (\<lambda>w. snapshot_poll ?call i interval (he_clock (rg_env g) w) (snapshot_attempts attempts) w)" for i
    using sends_snapshot_poll [of "snapshot_attempts attempts" ?call i interval] by (simp add: sends_def)
  have "sends (Suc 0 + (snapshot_attempts attempts + 1)) (authorized ?call)
      (lbind (RefreshSnapshotTimestamp ?call i) (\<lambda>_ w.
         snapshot_poll ?call i interval (he_clock (rg_env g) w) (snapshot_attempts attempts) w))" for i
    by (intro sends_bind sends_RefreshSnapshotTimestamp poll)
  then show ?thesis
    unfolding ring_GetSnapshot_def Let_def
    by (intro sends_with_device) (auto intro: sends_argument)
qed

lemma sends_perform: "sends (request_limit op) (authorized (accountContext g auth)) (perform g auth op)"
  using sends_operations sends_ring_GetSnapshot
  by (cases op) (auto intro!: sends_forget simp: numeral_2_eq_2)

text \<open>A request with the credentials of \<open>auth\<close> and nobody else's, to the API origin of the client.\<close>

definition hardware_of :: "auth_context \<Rightarrow> string" where
  "hardware_of auth =
     (if auth_HardwareID auth = [] then hardwareIDFromAccessToken (auth_AccessToken auth) else auth_HardwareID auth)"

definition account_request :: "ring_call \<Rightarrow> auth_context \<Rightarrow> http_request \<Rightarrow> bool" where
  "account_request g auth req \<longleftrightarrow>
     at_origin (generatedServerBase (rc_baseURI (cl_restClient (rg_client g)))) req
     \<and> auth_AccessToken auth \<noteq> []
     \<and> map_of (hr_headers req) ''Authorization'' = Some (''Bearer '' @ auth_AccessToken auth)
     \<and> map_of (hr_headers req) ''Hardware_id'' = (if hardware_of auth = [] then None else Some (hardware_of auth))
     \<and> map_of (hr_headers req) ''User-Agent'' = Some (rc_userAgent (cl_restClient (rg_client g)))"

lemma authorized_account: "authorized (accountContext g auth) = account_request g auth"
  by (auto simp: authorized_def account_request_def accountContext_def WithAccount_def rest_base_def hardware_of_def
      Let_def fun_eq_iff)

lemma valid_device_iff: "valid_device device \<longleftrightarrow> (\<exists>i. settingsDeviceID device = Inr i)"
  by (auto simp: valid_device_def settingsDeviceID_def split: option.splits)

lemma invalid_device:
  "\<not> valid_device device \<Longrightarrow> \<exists>e. settingsDeviceID device = Inl e \<and> IsBadRequestError (Some e)"
  by (auto simp: valid_device_def settingsDeviceID_def new_error_defs intro: bad_request.member_top split: option.splits)

text \<open>A step that fails on the spot with a bad request.\<close>

definition rejects :: "'a http_step \<Rightarrow> bool" where
  "rejects m \<longleftrightarrow> (\<forall>w. \<exists>e. m w = (Err e, w) \<and> IsBadRequestError (Some e))"

lemma rejects_bad_argument: "rejects (bad_argument msg)"
  by (auto simp: rejects_def bad_argument_def lfail_def new_error_defs intro: bad_request.member_top)

lemma rejects_bind: "rejects m \<Longrightarrow> rejects (lbind m f)"
  unfolding rejects_def by (metis lbind_err)

lemma rejects_forget: "rejects m \<Longrightarrow> rejects (forget m)"
  by (simp add: forget_def rejects_bind)

lemma rejects_argument:
  assumes "r = Inl e" "IsBadRequestError (Some e)"
  shows "rejects (lbind (lift (or_fail r)) f)" "rejects (in_session call r h)"
  using assms by (auto simp: rejects_def in_session_def lbind_def lift_def or_fail_def)

lemma rejects_with_device:
  assumes "\<And>i. valid_device device \<Longrightarrow> rejects (f i)"
  shows "rejects (with_device device f)"
proof (cases "valid_device device")
  case True
  with assms obtain i where "settingsDeviceID device = Inr i" "rejects (f i)"
    by (auto simp: valid_device_iff)
  then show ?thesis by (auto simp: rejects_def with_device_def lbind_def lift_def or_fail_def)
next
  case False
  from invalid_device [OF this] rejects_argument(1) show ?thesis unfolding with_device_def by blast
qed

lemma rejects_device:
  "\<not> valid_device device \<Longrightarrow> rejects (with_device device f)"
  "\<not> valid_device device \<Longrightarrow> rejects (in_session call (settingsDeviceID device) h)"
  using rejects_with_device invalid_device rejects_argument(2) by blast+

lemma rejects_location: "only_space location \<Longrightarrow> rejects (in_session call (locationID location) h)"
  by (rule rejects_argument(2)) (auto simp: locationID_def new_error_defs intro: bad_request.member_top)

lemma rejects_recording: "i \<le> 0 \<Longrightarrow> rejects (in_session call (recordingID i) h)"
  by (rule rejects_argument(2)) (auto simp: recordingID_def new_error_defs intro: bad_request.member_top)

lemma rejects_history:
  "parse_int64 device = None \<or> negative olderThan \<Longrightarrow> rejects (ring_GetDeviceHistory g auth device limit kind olderThan)"
  by (auto simp: ring_GetDeviceHistory_def rejects_bad_argument rejects_def lfail_def new_error_defs bad_argument_def
      intro: bad_request.member_top split: option.split)

lemmas rejects_rules =
  rejects_forget rejects_bad_argument rejects_bind rejects_device rejects_location rejects_recording rejects_history

lemma invalid_op_rejects:
  assumes "\<not> valid_op op"
  shows "rejects (perform g auth op)"
proof (cases op)
  case (OpSetVolume device kind description volume)
  with assms show ?thesis
    by (auto simp: ring_SetVolume_def VolumeKind_Valid_def Let_def intro!: rejects_rules)
next
  case (OpTestSound device sound)
  with assms show ?thesis
    by (auto simp: ring_TestSound_def SoundKind_Valid_def TestChimeSoundParamsKind_Valid_def intro!: rejects_rules)
next
  case (OpSetInHomeChime device description settings)
  with assms show ?thesis
    by (auto simp: ring_SetInHomeChime_def Let_def intro!: rejects_forget rejects_with_device rejects_bad_argument)
next
  case (OpPatchDeviceSettings device motion)
  with assms show ?thesis
    by (auto simp: ring_PatchDeviceSettings_def intro!: rejects_forget rejects_with_device rejects_bad_argument)
next
  case (OpGetSnapshot device attempts interval)
  with assms show ?thesis
    by (auto simp: ring_GetSnapshot_def Let_def intro!: rejects_forget rejects_with_device rejects_bad_argument)
next
  case (OpGetDeviceTimeline device params)
  with assms show ?thesis
    by (auto simp: ring_GetDeviceTimeline_def Let_def split: option.splits intro!: rejects_forget rejects_with_device rejects_bad_argument)
qed (use assms in \<open>auto simp: ring_SetLights_def ring_SetMotionDetection_def ring_GetDeviceSettings_def ring_SetSiren_def
       ring_UpdateDeviceHealth_def ring_GetRecordingShareURL_def ring_GetLastRecordingID_def ring_RebootDevice_def
       ring_UnlockIntercom_def ring_SetPersistentLiveViewEnabled_def ring_FavoriteRecording_def ring_DeleteRecording_def
       ring_RegisterPushDevice_def ring_SubscribeDeviceDing_def ring_SubscribeDeviceMotion_def ring_GetDeviceDetail_def
       ring_GetDeviceStatus_def ring_GetLocation_def ring_ListLocationGroups_def ring_ListLocationDevices_def Let_def
       intro!: rejects_rules\<close>)

section \<open>Properties\<close>


text \<open>C35: an account operation with an argument it does not accept - a device or recording identifier that is not a
  positive number, a blank location, a volume above 11, no or several chime settings, and so on - fails with a
  bad request on the spot: nothing is sent, not even the registration of the session, and nothing is waited for.\<close>

theorem invalid_operations_send_nothing:
  "\<not> valid_op op \<Longrightarrow> \<exists>e. perform g auth op w = (Err e, w) \<and> IsBadRequestError (Some e)"
  using invalid_op_rejects unfolding rejects_def by blast

theorem invalid_operations_send_nothing_witness:
  "\<forall>g auth w. \<exists>e. perform g auth (OpSetVolume ''5'' ''doorbell'' ''porch'' 12) w = (Err e, w) \<and> IsBadRequestError (Some e)"
  by (intro allI invalid_operations_send_nothing) simp

end
