(* ===== verification/AccountResults.thy ===== *)
theory AccountResults
  imports AccountSafety RetryPolicy
begin

text \<open>
  What account operations return: snapshots, the identifier sent with a token, the status of a device, and what the
  projections of captured reads keep of a reply.
\<close>

section \<open>Snapshots\<close>

lemma lbind_OkE:
  assumes "lbind m f w = (Ok y, w')"
  obtains x w1 where "m w = (Ok x, w1)" "f x w1 = (Ok y, w')"
  using assms by (auto simp: lbind_def split: prod.splits outcome.splits)

lemma GetSnapshotImage_bound:
  assumes "GetSnapshotImage call i w = (Ok (d, contentType), w')"
  shows "length d \<le> maxSnapshotBytes"
proof -
  from assms obtain resp :: http_reply and w1 :: http_state where
    "(case hp_body resp of
        Inl e \<Rightarrow> lfail (NewNetworkError ''failed to read snapshot image'' (Some e))
      | Inr body \<Rightarrow>
          if length (take (maxSnapshotBytes + 1) body) > maxSnapshotBytes
          then lfail (NewInternalServerError (''snapshot exceeds '' @ dec_nat maxSnapshotBytes @ '' bytes'') None)
          else lreturn (take (maxSnapshotBytes + 1) body, hp_contentType resp)) w1 = (Ok (d, contentType), w')"
    unfolding GetSnapshotImage_def by (elim lbind_OkE) (erule that)
  then show ?thesis
    by (auto simp: lfail_def lreturn_def split: sum.splits if_splits)
qed

lemma snapshot_poll_sound:
  assumes "snapshot_poll call i interval requestedAt n w = (Ok s, w')"
  shows "requestedAt < sn_Timestamp s \<and> sn_Bytes s \<noteq> [] \<and> length (sn_Bytes s) \<le> maxSnapshotBytes"
  using assms
proof (induction n arbitrary: w)
  case (Suc n)
  from Suc.prems obtain timestamp w1 where found:
    "(if timestamp \<le> requestedAt then snapshot_poll call i interval requestedAt n
      else lbind (GetSnapshotImage call i) (\<lambda>(data, contentType).
        if data = [] then lfail (NewInternalServerError ''snapshot image was empty'' None)
        else lreturn \<lparr>sn_Bytes = data, sn_Timestamp = timestamp, sn_ContentType = contentType\<rparr>)) w1 = (Ok s, w')"
    unfolding snapshot_poll.simps by (elim lbind_OkE) (erule that)
  show ?case
  proof (cases "timestamp \<le> requestedAt")
    case True
    with found Suc.IH show ?thesis by simp
  next
    case False
    with found obtain data contentType w2 where image: "GetSnapshotImage call i w1 = (Ok (data, contentType), w2)"
      and r: "(if data = [] then lfail (NewInternalServerError ''snapshot image was empty'' None)
        else lreturn \<lparr>sn_Bytes = data, sn_Timestamp = timestamp, sn_ContentType = contentType\<rparr>) w2 = (Ok s, w')"
      by (auto elim!: lbind_OkE)
    from r GetSnapshotImage_bound [OF image] False show ?thesis
      by (auto simp: lfail_def lreturn_def split: if_splits)
  qed
qed (simp add: lfail_def)

section \<open>A snapshot from a server that answers\<close>

text \<open>The server has no timestamp at first, then a fresh one, and then the image.\<close>

definition ok_reply :: "string \<Rightarrow> string \<Rightarrow> raw_message \<Rightarrow> http_reply" where
  "ok_reply contentType body doc =
     \<lparr>hp_resp = \<lparr>resp_code = 200, resp_status = ''200 OK''\<rparr>, hp_contentType = contentType, hp_contentLength = -1,
      hp_body = Inr body, hp_json = doc\<rparr>"

definition snapshot_server :: "http_request list \<Rightarrow> goerr + http_reply" where
  "snapshot_server reqs =
     Inr (if length reqs = 1 then ok_reply ''application/json'' ''{}'' (RawJson (JObj []))
          else if length reqs = 2 then
            ok_reply ''application/json'' ''{}''
              (RawJson (JObj [(''timestamps'', JArr [JObj [(''timestamp'', JNum (NLit ''1500''))]])]))
          else ok_reply ''image/jpeg'' ''jpeg'' RawBad)"

definition sample_call :: ring_call where
  "sample_call =
     \<lparr>rg_env = \<lparr>he_server = snapshot_server, he_cancelled = \<lambda>_. None, he_clock = \<lambda>_. 1000\<rparr>,
      rg_runtime = documented_runtime, rg_client = default_client\<rparr>"

definition sample_auth :: auth_context where
  "sample_auth = \<lparr>auth_AccessToken = ''tok'', auth_HardwareID = ''hw''\<rparr>"

lemma sample_base: "rest_base (accountContext sample_call sample_auth) = ''https://api.ring.com''"
  by code_simp

lemma sample_requests:
  "build_request documented_runtime ''POST'' ''https://api.ring.com'' (''/clients_api/snapshots/timestamps'', None) None body
   = Inr \<lparr>hr_method = ''POST'', hr_url = ''https://api.ring.com/clients_api/snapshots/timestamps'', hr_headers = [], hr_body = body\<rparr>"
  "NewGetLegacySnapshotImageRequest documented_runtime ''https://api.ring.com'' 7
   = Inr \<lparr>hr_method = ''GET'', hr_url = ''https://api.ring.com/clients_api/snapshots/image/7'', hr_headers = [], hr_body = NoBody\<rparr>"
  by code_simp+

lemma sample_fields:
  "rl_runtime (accountContext sample_call sample_auth) = documented_runtime"
  "he_cancelled (rl_env (accountContext sample_call sample_auth)) w = None"
  "rl_env (accountContext sample_call sample_auth) = rg_env sample_call"
  "he_server (rg_env sample_call) reqs = snapshot_server reqs"
  "he_cancelled (rg_env sample_call) w = None"
  "rest_getToken (accountContext sample_call sample_auth) = Inr ''tok''"
  "he_clock (rg_env sample_call) w = 1000"
  by (simp_all add: accountContext_def sample_call_def sample_auth_def WithAccount_def rest_getToken_def)

lemma post_once:
  assumes "hr_method req = ''POST''"
    and "snapshot_server (hs_sent w @ [authorize (accountContext sample_call sample_auth) ''tok'' req]) = Inr resp"
  shows "sendAuthorizedRequest (accountContext sample_call sample_auth) req w
    = (Ok resp, w\<lparr>hs_sent := hs_sent w @ [authorize (accountContext sample_call sample_auth) ''tok'' req]\<rparr>)"
  using assms
  by (simp add: sendAuthorizedRequest_def sample_fields sendWithRetry_def max_attempts_def send_attempts.simps lbind_def lreturn_def)

lemma sample_decode:
  "decodeJSONResponse (Some (RPlain SnapshotTimestampResponse_type)) (ok_reply ''application/json'' ''{}'' (RawJson (JObj [])))
   = Inr (Some (RV (VStruct [VPtr None])))"
  "decodeJSONResponse (Some (RPlain SnapshotTimestampResponse_type)) (ok_reply ''application/json'' ''{}''
     (RawJson (JObj [(''timestamps'', JArr [JObj [(''timestamp'', JNum (NLit ''1500''))]])])))
   = Inr (Some (RV (VStruct [VPtr (Some (VSlice (Some [VStruct [VInt 1500]])))])))"
  "first_timestamp (RV (VStruct [VPtr None])) = 0"
  "first_timestamp (RV (VStruct [VPtr (Some (VSlice (Some [VStruct [VInt 1500]])))])) = 1500"
  by code_simp+

lemma sample_refresh:
  "\<exists>r. RefreshSnapshotTimestamp (accountContext sample_call sample_auth) 7 \<lparr>hs_sent = [], hs_waits = []\<rparr>
       = (Ok 0, \<lparr>hs_sent = [r], hs_waits = []\<rparr>)"
  "\<exists>r. RefreshSnapshotTimestamp (accountContext sample_call sample_auth) 7 \<lparr>hs_sent = [r0], hs_waits = []\<rparr>
       = (Ok 1500, \<lparr>hs_sent = [r0, r], hs_waits = []\<rparr>)"
  by (simp_all add: RefreshSnapshotTimestamp_def json_operation_def NewRefreshLegacySnapshotTimestampRequest_def
      NewRefreshLegacySnapshotTimestampRequestWithBody_def with_content_type_def sample_base sample_requests sample_fields
      built_def lift_def doGeneratedJSON_def post_once lbind_def lreturn_def or_fail_def snapshot_server_def sample_decode)

lemma sample_image:
  "\<exists>r. GetSnapshotImage (accountContext sample_call sample_auth) 7 \<lparr>hs_sent = [r0, r1], hs_waits = []\<rparr>
       = (Ok (''jpeg'', ''image/jpeg''), \<lparr>hs_sent = [r0, r1, r], hs_waits = []\<rparr>)"
  by (simp add: GetSnapshotImage_def sample_base sample_requests sample_fields built_def lift_def lbind_def send_once_def
      http_do_def snapshot_server_def ok_reply_def checked_status_def lreturn_def)

lemma sample_snapshot:
  "\<exists>w'. ring_GetSnapshot sample_call sample_auth ''7'' 1 0 \<lparr>hs_sent = [], hs_waits = []\<rparr>
        = (Ok \<lparr>sn_Bytes = ''jpeg'', sn_Timestamp = 1500, sn_ContentType = ''image/jpeg''\<rparr>, w')"
proof -
  have i: "settingsDeviceID ''7'' = Inr 7" by code_simp
  obtain r0 where 0: "RefreshSnapshotTimestamp (accountContext sample_call sample_auth) 7 \<lparr>hs_sent = [], hs_waits = []\<rparr>
       = (Ok 0, \<lparr>hs_sent = [r0], hs_waits = []\<rparr>)" using sample_refresh(1) by blast
  obtain r1 where 1: "RefreshSnapshotTimestamp (accountContext sample_call sample_auth) 7 \<lparr>hs_sent = [r0], hs_waits = []\<rparr>
       = (Ok 1500, \<lparr>hs_sent = [r0, r1], hs_waits = []\<rparr>)" using sample_refresh(2) by blast
  obtain r2 where 2: "GetSnapshotImage (accountContext sample_call sample_auth) 7 \<lparr>hs_sent = [r0, r1], hs_waits = []\<rparr>
       = (Ok (''jpeg'', ''image/jpeg''), \<lparr>hs_sent = [r0, r1, r2], hs_waits = []\<rparr>)" using sample_image by blast
  show ?thesis
    by (simp add: ring_GetSnapshot_def with_device_def i 0 1 2 lift_def or_fail_def lbind_def lreturn_def poll_wait_def
        snapshot_attempts_def sample_fields Let_def)
qed

section \<open>Projections\<close>

definition known_member :: "(string \<times> ptype) list \<Rightarrow> string \<Rightarrow> bool" where
  "known_member fs k \<longleftrightarrow> list_ex (\<lambda>f. fold_name (fst f) = fold_name k) fs"

lemma list_index_None: "list_index p xs = None \<longleftrightarrow> \<not> list_ex p xs"
proof -
  have "length (takeWhile (\<lambda>x. \<not> p x) xs) < length xs \<longleftrightarrow> list_ex p xs"
    by (induction xs) auto
  then show ?thesis by (simp add: list_index_def Let_def)
qed

lemma member_index_unknown: "\<not> known_member fs k \<Longrightarrow> member_index (map fst fs) k = None"
  by (auto simp: member_index_def list_index_None known_member_def list_ex_iff split: option.split)

lemma project_members_unknown:
  "project_members fs vs (filter (\<lambda>kv. known_member fs (fst kv)) kvs) = project_members fs vs kvs"
proof (induction kvs arbitrary: vs)
  case (Cons kv kvs)
  obtain k j where kv: "kv = (k, j)" by (cases kv)
  show ?case
  proof (cases "known_member fs k")
    case True
    with Cons show ?thesis by (simp add: kv split: option.split)
  next
    case False
    with Cons member_index_unknown [OF this] show ?thesis by (simp add: kv)
  qed
qed simp

text \<open>Whether the health of a device reports a battery.\<close>

definition battery_present :: "pvalue \<Rightarrow> bool option" where
  "battery_present device =
     Option.bind (p_pointer DeviceDetailDevice_projection ''health'' device)
       (p_flag DeviceDetailHealth_projection ''battery_present'')"

section \<open>Properties\<close>

text \<open>C36: a snapshot that is returned is fresh and bounded. Its timestamp, which the server reports, is later than the
  client's clock after the refresh was requested, its image is not empty, and holds at most 16 MiB.\<close>

theorem snapshot_fresh:
  assumes "ring_GetSnapshot g auth device maxAttempts interval w = (Ok s, w')"
  shows "\<exists>i t w1. settingsDeviceID device = Inr i
    \<and> RefreshSnapshotTimestamp (accountContext g auth) i w = (Ok t, w1)
    \<and> he_clock (rg_env g) w1 < sn_Timestamp s \<and> sn_Bytes s \<noteq> [] \<and> length (sn_Bytes s) \<le> 16777216
    \<and> 0 \<le> maxAttempts \<and> maxAttempts \<le> 100 \<and> 0 \<le> interval"
proof -
  let ?call = "accountContext g auth"
  from assms obtain i where i: "settingsDeviceID device = Inr i"
    and run: "(if maxAttempts < 0 \<or> 100 < maxAttempts \<or> interval < 0 then bad_argument ''invalid snapshot polling bounds''
      else lbind (RefreshSnapshotTimestamp ?call i) (\<lambda>_ w.
        snapshot_poll ?call i interval (he_clock (rg_env g) w) (snapshot_attempts maxAttempts) w)) w = (Ok s, w')"
    unfolding ring_GetSnapshot_def with_device_def Let_def
    by (auto elim!: lbind_OkE simp: lift_def or_fail_def split: sum.splits)
  from run have bounds: "0 \<le> maxAttempts \<and> maxAttempts \<le> 100 \<and> 0 \<le> interval"
    and go: "lbind (RefreshSnapshotTimestamp ?call i) (\<lambda>_ w.
        snapshot_poll ?call i interval (he_clock (rg_env g) w) (snapshot_attempts maxAttempts) w) w = (Ok s, w')"
    by (auto simp: bad_argument_def lfail_def split: if_splits)
  from go obtain t w1 where "RefreshSnapshotTimestamp ?call i w = (Ok t, w1)"
    and poll: "snapshot_poll ?call i interval (he_clock (rg_env g) w1) (snapshot_attempts maxAttempts) w1 = (Ok s, w')"
    by (elim lbind_OkE)
  with i bounds snapshot_poll_sound [OF poll] show ?thesis by auto
qed

theorem snapshot_fresh_witness:
  "\<exists>t w1. RefreshSnapshotTimestamp (accountContext sample_call sample_auth) 7 \<lparr>hs_sent = [], hs_waits = []\<rparr> = (Ok t, w1)
     \<and> he_clock (rg_env sample_call) w1 < 1500"
proof -
  obtain w' where "ring_GetSnapshot sample_call sample_auth ''7'' 1 0 \<lparr>hs_sent = [], hs_waits = []\<rparr>
      = (Ok \<lparr>sn_Bytes = ''jpeg'', sn_Timestamp = 1500, sn_ContentType = ''image/jpeg''\<rparr>, w')"
    using sample_snapshot by blast
  from snapshot_fresh [OF this] obtain i t w1 where "settingsDeviceID ''7'' = Inr i"
    "RefreshSnapshotTimestamp (accountContext sample_call sample_auth) i \<lparr>hs_sent = [], hs_waits = []\<rparr> = (Ok t, w1)"
    "he_clock (rg_env sample_call) w1 < 1500" by auto
  moreover have "settingsDeviceID ''7'' = Inr 7" by code_simp
  ultimately show ?thesis by auto
qed



text \<open>A battery percentage in the status of a device is a number between 0 and 100, whatever the reply holds, also
  texts such as NaN or Inf; the device does not report that it has no battery; and a wired device has a
  percentage only if it reports a battery as present.\<close>

theorem battery_percent_sound:
  assumes "st_BatteryPercent (Status device) = Some reading"
  shows "(\<exists>q. reading = Finite q \<and> 0 \<le> q \<and> q \<le> 100)
    \<and> battery_present device \<noteq> Some False
    \<and> (battery_present device = Some True \<or> st_PowerMode (Status device) \<noteq> Some ''wired'')"
proof -
  have valid: "validBattery r = Some x \<Longrightarrow> \<exists>q. x = Finite q \<and> 0 \<le> q \<and> q \<le> 100" for r x
    by (auto simp: validBattery_def split: gofloat.splits if_splits)
  show ?thesis
    using assms unfolding Status_def Let_def battery_present_def [symmetric]
    by (auto split: if_splits option.splits dest!: valid simp: bind_eq_Some_conv)
qed

definition sample_device :: pvalue where
  "sample_device =
     (case project DeviceDetailDevice_projection (p_zero DeviceDetailDevice_projection)
        (JObj [(''description'', JStr ''Porch''), (''health'', JObj [(''battery_level'', JNum (NLit ''87''))]),
               (''id'', JNum (NLit ''7'')), (''kind'', JStr ''doorbell'')])
      of Some v \<Rightarrow> v | None \<Rightarrow> p_zero DeviceDetailDevice_projection)"

theorem battery_percent_sound_witness:
  "st_BatteryPercent (Status sample_device) = Some (Finite 87)
   \<and> (\<exists>q. Finite 87 = Finite q \<and> 0 \<le> q \<and> q \<le> 100)"
proof -
  have "st_BatteryPercent (Status sample_device) = Some (Finite 87)" by code_simp
  with battery_percent_sound [OF this] show ?thesis by blast
qed

lemma unknown_members_ignored:
  "project (PStruct fs) old (JObj kvs) = project (PStruct fs) old (JObj (filter (\<lambda>kv. known_member fs (fst kv)) kvs))"
  by (simp add: project_members_unknown)


end
