(* ===== verification/RestResponses.thy ===== *)
theory RestResponses
  imports RestClient
begin

text \<open>
  The sending half of the generated HTTP client, \<open>internal/generatedhttp/client.gen.go\<close>: the client and its options,
  a method per operation, the parser of each response, and the methods that do both. All are instances of
  \<open>client_do\<close>, \<open>parse_response\<close> and \<open>with_response\<close>; a method \<open>X\<close> of the generated client is \<open>generated_X\<close> here, because
  the REST client has operations of the same names. Not modelled: the methods over URL-encoded forms.
\<close>

section \<open>The client\<close>

type_synonym request_editor = "http_request \<Rightarrow> goerr + http_request"

record generated_client =
  gc_Server :: string
  gc_RequestEditors :: "request_editor list"

text \<open>The HTTP client that \<open>WithHTTPClient\<close> sets is the peer of the exchange.\<close>

datatype generated_option = GeneratedWithHTTPClient | WithRequestEditorFn request_editor | WithBaseURL string

definition apply_generated_option :: "generated_option \<Rightarrow> generated_client \<Rightarrow> goerr + generated_client" where
  "apply_generated_option opt c =
     (case opt of
        GeneratedWithHTTPClient \<Rightarrow> Inr c
      | WithRequestEditorFn f \<Rightarrow> Inr (c\<lparr>gc_RequestEditors := gc_RequestEditors c @ [f]\<rparr>)
      | WithBaseURL baseURL \<Rightarrow>
          (case url_parse baseURL of
             Inl e \<Rightarrow> Inl (parse_error e)
           | Inr newBaseURL \<Rightarrow> Inr (c\<lparr>gc_Server := url_String newBaseURL\<rparr>)))"

fun apply_generated_options :: "generated_option list \<Rightarrow> generated_client \<Rightarrow> goerr + generated_client" where
  "apply_generated_options [] c = Inr c"
| "apply_generated_options (opt # opts) c =
     (case apply_generated_option opt c of Inl e \<Rightarrow> Inl e | Inr c' \<Rightarrow> apply_generated_options opts c')"

definition generated_NewClient :: "string \<Rightarrow> generated_option list \<Rightarrow> goerr + generated_client" where
  "generated_NewClient server opts =
     (case apply_generated_options opts \<lparr>gc_Server = server, gc_RequestEditors = []\<rparr> of
        Inl e \<Rightarrow> Inl e
      | Inr c \<Rightarrow> Inr (if has_suffix (gc_Server c) ''/'' then c else c\<lparr>gc_Server := gc_Server c @ ''/''\<rparr>))"

fun apply_editors :: "request_editor list \<Rightarrow> http_request \<Rightarrow> goerr + http_request" where
  "apply_editors [] req = Inr req"
| "apply_editors (r # rs) req = (case r req of Inl e \<Rightarrow> Inl e | Inr req' \<Rightarrow> apply_editors rs req')"

definition client_do ::
  "http_env \<Rightarrow> generated_client \<Rightarrow> request_editor list \<Rightarrow> goerr + http_request \<Rightarrow> http_reply http_step" where
  "client_do env c reqEditors built_request =
     lbind (lift (or_fail built_request)) (\<lambda>req.
     lbind (lift (or_fail (apply_editors (gc_RequestEditors c @ reqEditors) req))) (\<lambda>req.
       http_do env req))"

section \<open>Responses\<close>

text \<open>The fields of a response that its parser sets, by name, beside the body and the reply.\<close>

record parsed_response =
  pr_Body :: string
  pr_HTTPResponse :: http_response
  pr_contentType :: string
  pr_fields :: "(string \<times> rest_value) list"

text \<open>A case has the name of its field, the status it needs, if any, and the type of the body.\<close>

type_synonym response_case = "string \<times> int option \<times> rest_type"

definition response_case_matches :: "http_reply \<Rightarrow> response_case \<Rightarrow> bool" where
  "response_case_matches rsp c \<longleftrightarrow>
     (case c of (_, status, _) \<Rightarrow>
        str_contains (hp_contentType rsp) ''json''
        \<and> (case status of Some code \<Rightarrow> resp_code (hp_resp rsp) = code | None \<Rightarrow> True))"

definition parse_response :: "response_case list \<Rightarrow> http_reply \<Rightarrow> goerr + parsed_response" where
  "parse_response cases rsp =
     (case hp_body rsp of
        Inl e \<Rightarrow> Inl e
      | Inr bodyBytes \<Rightarrow>
          let response = \<lparr>pr_Body = bodyBytes, pr_HTTPResponse = hp_resp rsp, pr_contentType = hp_contentType rsp,
                          pr_fields = []\<rparr> in
          (case find (response_case_matches rsp) cases of
             None \<Rightarrow> Inr response
           | Some (field, _, T) \<Rightarrow>
               (case rest_decode T (hp_json rsp) of
                  (_, True) \<Rightarrow> Inl JSONError
                | (dest, False) \<Rightarrow> Inr (response\<lparr>pr_fields := [(field, dest)]\<rparr>))))"

definition response_field :: "string \<Rightarrow> parsed_response \<Rightarrow> rest_value option" where
  "response_field field response = map_of (pr_fields response) field"

definition response_StatusCode :: "parsed_response \<Rightarrow> int" where
  "response_StatusCode response = resp_code (pr_HTTPResponse response)"

definition response_ContentType :: "parsed_response \<Rightarrow> string" where
  "response_ContentType response = pr_contentType response"

definition with_response ::
  "(http_reply \<Rightarrow> goerr + parsed_response) \<Rightarrow> http_reply http_step \<Rightarrow> parsed_response http_step" where
  "with_response parse rsp = lbind rsp (\<lambda>rsp. lift (or_fail (parse rsp)))"

text \<open>The parsers, in the order of the file.\<close>

definition ParseRequestLegacySignalingTicketResponse :: "http_reply \<Rightarrow> goerr + parsed_response" where
  "ParseRequestLegacySignalingTicketResponse rsp = parse_response
     [(''JSON200'', Some 200, LegacySignalingTicket_model)] rsp"

definition ParseGetCapturedLocationTicketsResponse :: "http_reply \<Rightarrow> goerr + parsed_response" where
  "ParseGetCapturedLocationTicketsResponse rsp = parse_response
     [(''JSON200'', Some 200, CapturedTickets_model)] rsp"

definition ParseSetChimeVolumeResponse :: "http_reply \<Rightarrow> goerr + parsed_response" where
  "ParseSetChimeVolumeResponse rsp = parse_response
     [(''JSON200'', Some 200, RPlain TAny),
      (''JSONDefault'', None, RPlain TAny)] rsp"

definition ParseTestChimeSoundResponse :: "http_reply \<Rightarrow> goerr + parsed_response" where
  "ParseTestChimeSoundResponse rsp = parse_response
     [(''JSON200'', Some 200, RPlain TAny),
      (''JSONDefault'', None, RPlain TAny)] rsp"

definition ParseRegisterPushDeviceResponse :: "http_reply \<Rightarrow> goerr + parsed_response" where
  "ParseRegisterPushDeviceResponse rsp = parse_response
     [] rsp"

definition ParseGetActiveDingsResponse :: "http_reply \<Rightarrow> goerr + parsed_response" where
  "ParseGetActiveDingsResponse rsp = parse_response
     [(''JSON200'', Some 200, RSlice Recording_model),
      (''JSONDefault'', None, RPlain TAny)] rsp"

definition ParseDeleteRecordingResponse :: "http_reply \<Rightarrow> goerr + parsed_response" where
  "ParseDeleteRecordingResponse rsp = parse_response
     [] rsp"

definition ParseFavoriteRecordingResponse :: "http_reply \<Rightarrow> goerr + parsed_response" where
  "ParseFavoriteRecordingResponse rsp = parse_response
     [] rsp"

definition ParseGetLegacyRecordingShareURLResponse :: "http_reply \<Rightarrow> goerr + parsed_response" where
  "ParseGetLegacyRecordingShareURLResponse rsp = parse_response
     [(''JSON200'', Some 200, RPlain RecordingShare_type),
      (''JSONDefault'', None, RPlain TAny)] rsp"

definition ParseUpdateLegacyDoorbotControlsResponse :: "http_reply \<Rightarrow> goerr + parsed_response" where
  "ParseUpdateLegacyDoorbotControlsResponse rsp = parse_response
     [(''JSON200'', Some 200, RPlain TAny),
      (''JSONDefault'', None, RPlain TAny)] rsp"

definition ParseTurnFloodlightOffResponse :: "http_reply \<Rightarrow> goerr + parsed_response" where
  "ParseTurnFloodlightOffResponse rsp = parse_response
     [(''JSON200'', Some 200, RPlain TAny),
      (''JSONDefault'', None, RPlain TAny)] rsp"

definition ParseTurnFloodlightOnResponse :: "http_reply \<Rightarrow> goerr + parsed_response" where
  "ParseTurnFloodlightOnResponse rsp = parse_response
     [(''JSON200'', Some 200, RPlain TAny),
      (''JSONDefault'', None, RPlain TAny)] rsp"

definition ParseGetLegacyDeviceHistoryResponse :: "http_reply \<Rightarrow> goerr + parsed_response" where
  "ParseGetLegacyDeviceHistoryResponse rsp = parse_response
     [(''JSON200'', Some 200, RSlice Recording_model),
      (''JSONDefault'', None, RPlain TAny)] rsp"

definition ParseSubscribeDeviceMotionResponse :: "http_reply \<Rightarrow> goerr + parsed_response" where
  "ParseSubscribeDeviceMotionResponse rsp = parse_response
     [] rsp"

definition ParseTurnSirenOffResponse :: "http_reply \<Rightarrow> goerr + parsed_response" where
  "ParseTurnSirenOffResponse rsp = parse_response
     [] rsp"

definition ParseTurnSirenOnResponse :: "http_reply \<Rightarrow> goerr + parsed_response" where
  "ParseTurnSirenOnResponse rsp = parse_response
     [(''JSON200'', Some 200, SirenStatus_model)] rsp"

definition ParseSubscribeDeviceDingResponse :: "http_reply \<Rightarrow> goerr + parsed_response" where
  "ParseSubscribeDeviceDingResponse rsp = parse_response
     [] rsp"

definition ParseGetLegacyDeviceHealthResponse :: "http_reply \<Rightarrow> goerr + parsed_response" where
  "ParseGetLegacyDeviceHealthResponse rsp = parse_response
     [(''JSON200'', Some 200, LegacyDeviceHealth_model),
      (''JSONDefault'', None, RPlain TAny)] rsp"

definition ParseRegisterClientSessionResponse :: "http_reply \<Rightarrow> goerr + parsed_response" where
  "ParseRegisterClientSessionResponse rsp = parse_response
     [(''JSON200'', Some 200, RPlain TAny),
      (''JSONDefault'', None, RPlain TAny)] rsp"

definition ParseGetLegacySnapshotImageResponse :: "http_reply \<Rightarrow> goerr + parsed_response" where
  "ParseGetLegacySnapshotImageResponse rsp = parse_response
     [(''JSONDefault'', None, RPlain TAny)] rsp"

definition ParseRefreshLegacySnapshotTimestampResponse :: "http_reply \<Rightarrow> goerr + parsed_response" where
  "ParseRefreshLegacySnapshotTimestampResponse rsp = parse_response
     [(''JSON200'', Some 200, RPlain SnapshotTimestampResponse_type),
      (''JSONDefault'', None, RPlain TAny)] rsp"

definition ParseSendDeviceCommandResponse :: "http_reply \<Rightarrow> goerr + parsed_response" where
  "ParseSendDeviceCommandResponse rsp = parse_response
     [] rsp"

definition ParseUnlockIntercomResponse :: "http_reply \<Rightarrow> goerr + parsed_response" where
  "ParseUnlockIntercomResponse rsp = parse_response
     [] rsp"

definition ParseListDevicesResponse :: "http_reply \<Rightarrow> goerr + parsed_response" where
  "ParseListDevicesResponse rsp = parse_response
     [(''JSON200'', Some 200, DeviceList_model)] rsp"

definition ParseGetDeviceResponse :: "http_reply \<Rightarrow> goerr + parsed_response" where
  "ParseGetDeviceResponse rsp = parse_response
     [(''JSON200'', Some 200, DeviceDetail_model)] rsp"

definition ParseGetDeviceSettingsResponse :: "http_reply \<Rightarrow> goerr + parsed_response" where
  "ParseGetDeviceSettingsResponse rsp = parse_response
     [(''JSON200'', Some 200, DeviceSettings_model)] rsp"

definition ParsePatchDeviceSettingsResponse :: "http_reply \<Rightarrow> goerr + parsed_response" where
  "ParsePatchDeviceSettingsResponse rsp = parse_response
     [(''JSON200'', Some 200, DeviceSettings_model)] rsp"

definition ParseSetLiveViewEnabledResponse :: "http_reply \<Rightarrow> goerr + parsed_response" where
  "ParseSetLiveViewEnabledResponse rsp = parse_response
     [] rsp"

definition ParseGetDeviceTimelineResponse :: "http_reply \<Rightarrow> goerr + parsed_response" where
  "ParseGetDeviceTimelineResponse rsp = parse_response
     [(''JSON200'', Some 200, DeviceTimeline_model)] rsp"

definition ParseGetHistoryDevicesResponse :: "http_reply \<Rightarrow> goerr + parsed_response" where
  "ParseGetHistoryDevicesResponse rsp = parse_response
     [(''JSON200'', Some 200, HistoryDevices_model)] rsp"

definition ParseListLocationDevicesResponse :: "http_reply \<Rightarrow> goerr + parsed_response" where
  "ParseListLocationDevicesResponse rsp = parse_response
     [(''JSON200'', Some 200, LocationGroupDevices_model)] rsp"

definition ParseListLocationGroupsResponse :: "http_reply \<Rightarrow> goerr + parsed_response" where
  "ParseListLocationGroupsResponse rsp = parse_response
     [(''JSON200'', Some 200, LocationGroups_model)] rsp"

definition ParseListLocationsResponse :: "http_reply \<Rightarrow> goerr + parsed_response" where
  "ParseListLocationsResponse rsp = parse_response
     [(''JSON200'', Some 200, LocationList_model)] rsp"

definition ParseGetLocationResponse :: "http_reply \<Rightarrow> goerr + parsed_response" where
  "ParseGetLocationResponse rsp = parse_response
     [(''JSON200'', Some 200, LocationDetail_model)] rsp"

definition ParseExchangeOrRefreshOAuthTokenResponse :: "http_reply \<Rightarrow> goerr + parsed_response" where
  "ParseExchangeOrRefreshOAuthTokenResponse rsp = parse_response
     [(''JSON200'', Some 200, OAuthToken_model),
      (''JSON400'', Some 400, RPlain TAny),
      (''JSON401'', Some 401, RPlain TAny),
      (''JSON412'', Some 412, RPlain TAny),
      (''JSON429'', Some 429, RPlain TAny),
      (''JSONDefault'', None, RPlain TAny)] rsp"

definition ParseVerifyOAuthTwoFactorCodeResponse :: "http_reply \<Rightarrow> goerr + parsed_response" where
  "ParseVerifyOAuthTwoFactorCodeResponse rsp = parse_response
     [(''JSON200'', Some 200, RPlain TAny),
      (''JSON201'', Some 201, RPlain TAny),
      (''JSON400'', Some 400, RPlain TAny),
      (''JSON401'', Some 401, RPlain TAny),
      (''JSONDefault'', None, RPlain TAny)] rsp"

section \<open>Methods\<close>

definition generated_RequestLegacySignalingTicket ::
  "http_env \<Rightarrow> runtime \<Rightarrow> generated_client \<Rightarrow> request_editor list \<Rightarrow> http_reply http_step" where
  "generated_RequestLegacySignalingTicket env rt c reqEditors =
     client_do env c reqEditors (NewRequestLegacySignalingTicketRequest rt (gc_Server c))"

definition generated_GetCapturedLocationTickets ::
  "http_env \<Rightarrow> runtime \<Rightarrow> generated_client \<Rightarrow> GetCapturedLocationTicketsParams option \<Rightarrow> request_editor list \<Rightarrow> http_reply http_step" where
  "generated_GetCapturedLocationTickets env rt c params reqEditors =
     client_do env c reqEditors (NewGetCapturedLocationTicketsRequest rt (gc_Server c) params)"

definition generated_SetChimeVolume ::
  "http_env \<Rightarrow> runtime \<Rightarrow> generated_client \<Rightarrow> int \<Rightarrow> SetChimeVolumeParams option \<Rightarrow> request_editor list \<Rightarrow> http_reply http_step" where
  "generated_SetChimeVolume env rt c deviceId params reqEditors =
     client_do env c reqEditors (NewSetChimeVolumeRequest rt (gc_Server c) deviceId params)"

definition generated_TestChimeSound ::
  "http_env \<Rightarrow> runtime \<Rightarrow> generated_client \<Rightarrow> int \<Rightarrow> TestChimeSoundParams option \<Rightarrow> request_editor list \<Rightarrow> http_reply http_step" where
  "generated_TestChimeSound env rt c deviceId params reqEditors =
     client_do env c reqEditors (NewTestChimeSoundRequest rt (gc_Server c) deviceId params)"

definition generated_RegisterPushDeviceWithBody ::
  "http_env \<Rightarrow> runtime \<Rightarrow> generated_client \<Rightarrow> string \<Rightarrow> request_body \<Rightarrow> request_editor list \<Rightarrow> http_reply http_step" where
  "generated_RegisterPushDeviceWithBody env rt c contentType body reqEditors =
     client_do env c reqEditors (NewRegisterPushDeviceRequestWithBody rt (gc_Server c) contentType body)"

definition generated_RegisterPushDevice ::
  "http_env \<Rightarrow> runtime \<Rightarrow> generated_client \<Rightarrow> json \<Rightarrow> request_editor list \<Rightarrow> http_reply http_step" where
  "generated_RegisterPushDevice env rt c body reqEditors =
     client_do env c reqEditors (NewRegisterPushDeviceRequest rt (gc_Server c) body)"

definition generated_GetActiveDings ::
  "http_env \<Rightarrow> runtime \<Rightarrow> generated_client \<Rightarrow> request_editor list \<Rightarrow> http_reply http_step" where
  "generated_GetActiveDings env rt c reqEditors =
     client_do env c reqEditors (NewGetActiveDingsRequest rt (gc_Server c))"

definition generated_DeleteRecording ::
  "http_env \<Rightarrow> runtime \<Rightarrow> generated_client \<Rightarrow> int \<Rightarrow> DeleteRecordingParams option \<Rightarrow> request_editor list \<Rightarrow> http_reply http_step" where
  "generated_DeleteRecording env rt c recordingId params reqEditors =
     client_do env c reqEditors (NewDeleteRecordingRequest rt (gc_Server c) recordingId params)"

definition generated_FavoriteRecording ::
  "http_env \<Rightarrow> runtime \<Rightarrow> generated_client \<Rightarrow> int \<Rightarrow> request_editor list \<Rightarrow> http_reply http_step" where
  "generated_FavoriteRecording env rt c recordingId reqEditors =
     client_do env c reqEditors (NewFavoriteRecordingRequest rt (gc_Server c) recordingId)"

definition generated_StreamRecording ::
  "http_env \<Rightarrow> runtime \<Rightarrow> generated_client \<Rightarrow> int \<Rightarrow> request_editor list \<Rightarrow> http_reply http_step" where
  "generated_StreamRecording env rt c recordingId reqEditors =
     client_do env c reqEditors (NewStreamRecordingRequest rt (gc_Server c) recordingId)"

definition generated_GetLegacyRecordingShareURL ::
  "http_env \<Rightarrow> runtime \<Rightarrow> generated_client \<Rightarrow> int \<Rightarrow> request_editor list \<Rightarrow> http_reply http_step" where
  "generated_GetLegacyRecordingShareURL env rt c recordingId reqEditors =
     client_do env c reqEditors (NewGetLegacyRecordingShareURLRequest rt (gc_Server c) recordingId)"

definition generated_UpdateLegacyDoorbotControls ::
  "http_env \<Rightarrow> runtime \<Rightarrow> generated_client \<Rightarrow> int \<Rightarrow> UpdateLegacyDoorbotControlsParams option \<Rightarrow> request_editor list \<Rightarrow> http_reply http_step" where
  "generated_UpdateLegacyDoorbotControls env rt c deviceId params reqEditors =
     client_do env c reqEditors (NewUpdateLegacyDoorbotControlsRequest rt (gc_Server c) deviceId params)"

definition generated_TurnFloodlightOff ::
  "http_env \<Rightarrow> runtime \<Rightarrow> generated_client \<Rightarrow> int \<Rightarrow> request_editor list \<Rightarrow> http_reply http_step" where
  "generated_TurnFloodlightOff env rt c deviceId reqEditors =
     client_do env c reqEditors (NewTurnFloodlightOffRequest rt (gc_Server c) deviceId)"

definition generated_TurnFloodlightOn ::
  "http_env \<Rightarrow> runtime \<Rightarrow> generated_client \<Rightarrow> int \<Rightarrow> request_editor list \<Rightarrow> http_reply http_step" where
  "generated_TurnFloodlightOn env rt c deviceId reqEditors =
     client_do env c reqEditors (NewTurnFloodlightOnRequest rt (gc_Server c) deviceId)"

definition generated_GetLegacyDeviceHistory ::
  "http_env \<Rightarrow> runtime \<Rightarrow> generated_client \<Rightarrow> int \<Rightarrow> GetLegacyDeviceHistoryParams option \<Rightarrow> request_editor list \<Rightarrow> http_reply http_step" where
  "generated_GetLegacyDeviceHistory env rt c deviceId params reqEditors =
     client_do env c reqEditors (NewGetLegacyDeviceHistoryRequest rt (gc_Server c) deviceId params)"

definition generated_SubscribeDeviceMotion ::
  "http_env \<Rightarrow> runtime \<Rightarrow> generated_client \<Rightarrow> int \<Rightarrow> request_editor list \<Rightarrow> http_reply http_step" where
  "generated_SubscribeDeviceMotion env rt c deviceId reqEditors =
     client_do env c reqEditors (NewSubscribeDeviceMotionRequest rt (gc_Server c) deviceId)"

definition generated_TurnSirenOff ::
  "http_env \<Rightarrow> runtime \<Rightarrow> generated_client \<Rightarrow> int \<Rightarrow> request_editor list \<Rightarrow> http_reply http_step" where
  "generated_TurnSirenOff env rt c deviceId reqEditors =
     client_do env c reqEditors (NewTurnSirenOffRequest rt (gc_Server c) deviceId)"

definition generated_TurnSirenOn ::
  "http_env \<Rightarrow> runtime \<Rightarrow> generated_client \<Rightarrow> int \<Rightarrow> request_editor list \<Rightarrow> http_reply http_step" where
  "generated_TurnSirenOn env rt c deviceId reqEditors =
     client_do env c reqEditors (NewTurnSirenOnRequest rt (gc_Server c) deviceId)"

definition generated_SubscribeDeviceDing ::
  "http_env \<Rightarrow> runtime \<Rightarrow> generated_client \<Rightarrow> int \<Rightarrow> request_editor list \<Rightarrow> http_reply http_step" where
  "generated_SubscribeDeviceDing env rt c deviceId reqEditors =
     client_do env c reqEditors (NewSubscribeDeviceDingRequest rt (gc_Server c) deviceId)"

definition generated_GetLegacyDeviceHealth ::
  "http_env \<Rightarrow> runtime \<Rightarrow> generated_client \<Rightarrow> int \<Rightarrow> request_editor list \<Rightarrow> http_reply http_step" where
  "generated_GetLegacyDeviceHealth env rt c deviceId reqEditors =
     client_do env c reqEditors (NewGetLegacyDeviceHealthRequest rt (gc_Server c) deviceId)"

definition generated_RegisterClientSessionWithBody ::
  "http_env \<Rightarrow> runtime \<Rightarrow> generated_client \<Rightarrow> string \<Rightarrow> request_body \<Rightarrow> request_editor list \<Rightarrow> http_reply http_step" where
  "generated_RegisterClientSessionWithBody env rt c contentType body reqEditors =
     client_do env c reqEditors (NewRegisterClientSessionRequestWithBody rt (gc_Server c) contentType body)"

definition generated_RegisterClientSession ::
  "http_env \<Rightarrow> runtime \<Rightarrow> generated_client \<Rightarrow> json \<Rightarrow> request_editor list \<Rightarrow> http_reply http_step" where
  "generated_RegisterClientSession env rt c body reqEditors =
     client_do env c reqEditors (NewRegisterClientSessionRequest rt (gc_Server c) body)"

definition generated_GetLegacySnapshotImage ::
  "http_env \<Rightarrow> runtime \<Rightarrow> generated_client \<Rightarrow> int \<Rightarrow> request_editor list \<Rightarrow> http_reply http_step" where
  "generated_GetLegacySnapshotImage env rt c deviceId reqEditors =
     client_do env c reqEditors (NewGetLegacySnapshotImageRequest rt (gc_Server c) deviceId)"

definition generated_RefreshLegacySnapshotTimestampWithBody ::
  "http_env \<Rightarrow> runtime \<Rightarrow> generated_client \<Rightarrow> string \<Rightarrow> request_body \<Rightarrow> request_editor list \<Rightarrow> http_reply http_step" where
  "generated_RefreshLegacySnapshotTimestampWithBody env rt c contentType body reqEditors =
     client_do env c reqEditors (NewRefreshLegacySnapshotTimestampRequestWithBody rt (gc_Server c) contentType body)"

definition generated_RefreshLegacySnapshotTimestamp ::
  "http_env \<Rightarrow> runtime \<Rightarrow> generated_client \<Rightarrow> json \<Rightarrow> request_editor list \<Rightarrow> http_reply http_step" where
  "generated_RefreshLegacySnapshotTimestamp env rt c body reqEditors =
     client_do env c reqEditors (NewRefreshLegacySnapshotTimestampRequest rt (gc_Server c) body)"

definition generated_SendDeviceCommandWithBody ::
  "http_env \<Rightarrow> runtime \<Rightarrow> generated_client \<Rightarrow> int \<Rightarrow> string \<Rightarrow> request_body \<Rightarrow> request_editor list \<Rightarrow> http_reply http_step" where
  "generated_SendDeviceCommandWithBody env rt c deviceId contentType body reqEditors =
     client_do env c reqEditors (NewSendDeviceCommandRequestWithBody rt (gc_Server c) deviceId contentType body)"

definition generated_SendDeviceCommand ::
  "http_env \<Rightarrow> runtime \<Rightarrow> generated_client \<Rightarrow> int \<Rightarrow> json \<Rightarrow> request_editor list \<Rightarrow> http_reply http_step" where
  "generated_SendDeviceCommand env rt c deviceId body reqEditors =
     client_do env c reqEditors (NewSendDeviceCommandRequest rt (gc_Server c) deviceId body)"

definition generated_UnlockIntercomWithBody ::
  "http_env \<Rightarrow> runtime \<Rightarrow> generated_client \<Rightarrow> int \<Rightarrow> string \<Rightarrow> request_body \<Rightarrow> request_editor list \<Rightarrow> http_reply http_step" where
  "generated_UnlockIntercomWithBody env rt c deviceId contentType body reqEditors =
     client_do env c reqEditors (NewUnlockIntercomRequestWithBody rt (gc_Server c) deviceId contentType body)"

definition generated_UnlockIntercom ::
  "http_env \<Rightarrow> runtime \<Rightarrow> generated_client \<Rightarrow> int \<Rightarrow> json \<Rightarrow> request_editor list \<Rightarrow> http_reply http_step" where
  "generated_UnlockIntercom env rt c deviceId body reqEditors =
     client_do env c reqEditors (NewUnlockIntercomRequest rt (gc_Server c) deviceId body)"

definition generated_ListDevices ::
  "http_env \<Rightarrow> runtime \<Rightarrow> generated_client \<Rightarrow> request_editor list \<Rightarrow> http_reply http_step" where
  "generated_ListDevices env rt c reqEditors =
     client_do env c reqEditors (NewListDevicesRequest rt (gc_Server c))"

definition generated_GetDevice ::
  "http_env \<Rightarrow> runtime \<Rightarrow> generated_client \<Rightarrow> int \<Rightarrow> request_editor list \<Rightarrow> http_reply http_step" where
  "generated_GetDevice env rt c deviceId reqEditors =
     client_do env c reqEditors (NewGetDeviceRequest rt (gc_Server c) deviceId)"

definition generated_GetDeviceSettings ::
  "http_env \<Rightarrow> runtime \<Rightarrow> generated_client \<Rightarrow> int \<Rightarrow> request_editor list \<Rightarrow> http_reply http_step" where
  "generated_GetDeviceSettings env rt c deviceId reqEditors =
     client_do env c reqEditors (NewGetDeviceSettingsRequest rt (gc_Server c) deviceId)"

definition generated_PatchDeviceSettingsWithBody ::
  "http_env \<Rightarrow> runtime \<Rightarrow> generated_client \<Rightarrow> int \<Rightarrow> string \<Rightarrow> request_body \<Rightarrow> request_editor list \<Rightarrow> http_reply http_step" where
  "generated_PatchDeviceSettingsWithBody env rt c deviceId contentType body reqEditors =
     client_do env c reqEditors (NewPatchDeviceSettingsRequestWithBody rt (gc_Server c) deviceId contentType body)"

definition generated_PatchDeviceSettings ::
  "http_env \<Rightarrow> runtime \<Rightarrow> generated_client \<Rightarrow> int \<Rightarrow> json \<Rightarrow> request_editor list \<Rightarrow> http_reply http_step" where
  "generated_PatchDeviceSettings env rt c deviceId body reqEditors =
     client_do env c reqEditors (NewPatchDeviceSettingsRequest rt (gc_Server c) deviceId body)"

definition generated_SetLiveViewEnabledWithBody ::
  "http_env \<Rightarrow> runtime \<Rightarrow> generated_client \<Rightarrow> int \<Rightarrow> string \<Rightarrow> request_body \<Rightarrow> request_editor list \<Rightarrow> http_reply http_step" where
  "generated_SetLiveViewEnabledWithBody env rt c deviceId contentType body reqEditors =
     client_do env c reqEditors (NewSetLiveViewEnabledRequestWithBody rt (gc_Server c) deviceId contentType body)"

definition generated_SetLiveViewEnabled ::
  "http_env \<Rightarrow> runtime \<Rightarrow> generated_client \<Rightarrow> int \<Rightarrow> json \<Rightarrow> request_editor list \<Rightarrow> http_reply http_step" where
  "generated_SetLiveViewEnabled env rt c deviceId body reqEditors =
     client_do env c reqEditors (NewSetLiveViewEnabledRequest rt (gc_Server c) deviceId body)"

definition generated_GetDeviceTimeline ::
  "http_env \<Rightarrow> runtime \<Rightarrow> generated_client \<Rightarrow> int \<Rightarrow> GetDeviceTimelineParams option \<Rightarrow> request_editor list \<Rightarrow> http_reply http_step" where
  "generated_GetDeviceTimeline env rt c deviceId params reqEditors =
     client_do env c reqEditors (NewGetDeviceTimelineRequest rt (gc_Server c) deviceId params)"

definition generated_GetHistoryDevices ::
  "http_env \<Rightarrow> runtime \<Rightarrow> generated_client \<Rightarrow> GetHistoryDevicesParams option \<Rightarrow> request_editor list \<Rightarrow> http_reply http_step" where
  "generated_GetHistoryDevices env rt c params reqEditors =
     client_do env c reqEditors (NewGetHistoryDevicesRequest rt (gc_Server c) params)"

definition generated_ListLocationDevices ::
  "http_env \<Rightarrow> runtime \<Rightarrow> generated_client \<Rightarrow> string \<Rightarrow> request_editor list \<Rightarrow> http_reply http_step" where
  "generated_ListLocationDevices env rt c locationId reqEditors =
     client_do env c reqEditors (NewListLocationDevicesRequest rt (gc_Server c) locationId)"

definition generated_ListLocationGroups ::
  "http_env \<Rightarrow> runtime \<Rightarrow> generated_client \<Rightarrow> string \<Rightarrow> request_editor list \<Rightarrow> http_reply http_step" where
  "generated_ListLocationGroups env rt c locationId reqEditors =
     client_do env c reqEditors (NewListLocationGroupsRequest rt (gc_Server c) locationId)"

definition generated_ListLocations ::
  "http_env \<Rightarrow> runtime \<Rightarrow> generated_client \<Rightarrow> request_editor list \<Rightarrow> http_reply http_step" where
  "generated_ListLocations env rt c reqEditors =
     client_do env c reqEditors (NewListLocationsRequest rt (gc_Server c))"

definition generated_GetLocation ::
  "http_env \<Rightarrow> runtime \<Rightarrow> generated_client \<Rightarrow> string \<Rightarrow> GetLocationParams option \<Rightarrow> request_editor list \<Rightarrow> http_reply http_step" where
  "generated_GetLocation env rt c locationId params reqEditors =
     client_do env c reqEditors (NewGetLocationRequest rt (gc_Server c) locationId params)"

definition generated_ExchangeOrRefreshOAuthTokenWithBody ::
  "http_env \<Rightarrow> runtime \<Rightarrow> generated_client \<Rightarrow> string \<Rightarrow> request_body \<Rightarrow> request_editor list \<Rightarrow> http_reply http_step" where
  "generated_ExchangeOrRefreshOAuthTokenWithBody env rt c contentType body reqEditors =
     client_do env c reqEditors (NewExchangeOrRefreshOAuthTokenRequestWithBody rt (gc_Server c) contentType body)"

definition generated_VerifyOAuthTwoFactorCodeWithBody ::
  "http_env \<Rightarrow> runtime \<Rightarrow> generated_client \<Rightarrow> string \<Rightarrow> request_body \<Rightarrow> request_editor list \<Rightarrow> http_reply http_step" where
  "generated_VerifyOAuthTwoFactorCodeWithBody env rt c contentType body reqEditors =
     client_do env c reqEditors (NewVerifyOAuthTwoFactorCodeRequestWithBody rt (gc_Server c) contentType body)"

definition generated_BeginOrContinueOAuthAuthorization ::
  "http_env \<Rightarrow> runtime \<Rightarrow> generated_client \<Rightarrow> BeginOrContinueOAuthAuthorizationParams option \<Rightarrow> request_editor list \<Rightarrow> http_reply http_step" where
  "generated_BeginOrContinueOAuthAuthorization env rt c params reqEditors =
     client_do env c reqEditors (NewBeginOrContinueOAuthAuthorizationRequest rt (gc_Server c) params)"

definition generated_SubmitOAuthCredentialsWithBody ::
  "http_env \<Rightarrow> runtime \<Rightarrow> generated_client \<Rightarrow> string \<Rightarrow> request_body \<Rightarrow> request_editor list \<Rightarrow> http_reply http_step" where
  "generated_SubmitOAuthCredentialsWithBody env rt c contentType body reqEditors =
     client_do env c reqEditors (NewSubmitOAuthCredentialsRequestWithBody rt (gc_Server c) contentType body)"

definition generated_RequestLegacySignalingTicketWithResponse ::
  "http_env \<Rightarrow> runtime \<Rightarrow> generated_client \<Rightarrow> request_editor list \<Rightarrow> parsed_response http_step" where
  "generated_RequestLegacySignalingTicketWithResponse env rt c reqEditors =
     with_response ParseRequestLegacySignalingTicketResponse (generated_RequestLegacySignalingTicket env rt c reqEditors)"

definition generated_GetCapturedLocationTicketsWithResponse ::
  "http_env \<Rightarrow> runtime \<Rightarrow> generated_client \<Rightarrow> GetCapturedLocationTicketsParams option \<Rightarrow> request_editor list \<Rightarrow> parsed_response http_step" where
  "generated_GetCapturedLocationTicketsWithResponse env rt c params reqEditors =
     with_response ParseGetCapturedLocationTicketsResponse (generated_GetCapturedLocationTickets env rt c params reqEditors)"

definition generated_SetChimeVolumeWithResponse ::
  "http_env \<Rightarrow> runtime \<Rightarrow> generated_client \<Rightarrow> int \<Rightarrow> SetChimeVolumeParams option \<Rightarrow> request_editor list \<Rightarrow> parsed_response http_step" where
  "generated_SetChimeVolumeWithResponse env rt c deviceId params reqEditors =
     with_response ParseSetChimeVolumeResponse (generated_SetChimeVolume env rt c deviceId params reqEditors)"

definition generated_TestChimeSoundWithResponse ::
  "http_env \<Rightarrow> runtime \<Rightarrow> generated_client \<Rightarrow> int \<Rightarrow> TestChimeSoundParams option \<Rightarrow> request_editor list \<Rightarrow> parsed_response http_step" where
  "generated_TestChimeSoundWithResponse env rt c deviceId params reqEditors =
     with_response ParseTestChimeSoundResponse (generated_TestChimeSound env rt c deviceId params reqEditors)"

definition generated_RegisterPushDeviceWithBodyWithResponse ::
  "http_env \<Rightarrow> runtime \<Rightarrow> generated_client \<Rightarrow> string \<Rightarrow> request_body \<Rightarrow> request_editor list \<Rightarrow> parsed_response http_step" where
  "generated_RegisterPushDeviceWithBodyWithResponse env rt c contentType body reqEditors =
     with_response ParseRegisterPushDeviceResponse (generated_RegisterPushDeviceWithBody env rt c contentType body reqEditors)"

definition generated_RegisterPushDeviceWithResponse ::
  "http_env \<Rightarrow> runtime \<Rightarrow> generated_client \<Rightarrow> json \<Rightarrow> request_editor list \<Rightarrow> parsed_response http_step" where
  "generated_RegisterPushDeviceWithResponse env rt c body reqEditors =
     with_response ParseRegisterPushDeviceResponse (generated_RegisterPushDevice env rt c body reqEditors)"

definition generated_GetActiveDingsWithResponse ::
  "http_env \<Rightarrow> runtime \<Rightarrow> generated_client \<Rightarrow> request_editor list \<Rightarrow> parsed_response http_step" where
  "generated_GetActiveDingsWithResponse env rt c reqEditors =
     with_response ParseGetActiveDingsResponse (generated_GetActiveDings env rt c reqEditors)"

definition generated_DeleteRecordingWithResponse ::
  "http_env \<Rightarrow> runtime \<Rightarrow> generated_client \<Rightarrow> int \<Rightarrow> DeleteRecordingParams option \<Rightarrow> request_editor list \<Rightarrow> parsed_response http_step" where
  "generated_DeleteRecordingWithResponse env rt c recordingId params reqEditors =
     with_response ParseDeleteRecordingResponse (generated_DeleteRecording env rt c recordingId params reqEditors)"

definition generated_FavoriteRecordingWithResponse ::
  "http_env \<Rightarrow> runtime \<Rightarrow> generated_client \<Rightarrow> int \<Rightarrow> request_editor list \<Rightarrow> parsed_response http_step" where
  "generated_FavoriteRecordingWithResponse env rt c recordingId reqEditors =
     with_response ParseFavoriteRecordingResponse (generated_FavoriteRecording env rt c recordingId reqEditors)"

definition generated_GetLegacyRecordingShareURLWithResponse ::
  "http_env \<Rightarrow> runtime \<Rightarrow> generated_client \<Rightarrow> int \<Rightarrow> request_editor list \<Rightarrow> parsed_response http_step" where
  "generated_GetLegacyRecordingShareURLWithResponse env rt c recordingId reqEditors =
     with_response ParseGetLegacyRecordingShareURLResponse (generated_GetLegacyRecordingShareURL env rt c recordingId reqEditors)"

definition generated_UpdateLegacyDoorbotControlsWithResponse ::
  "http_env \<Rightarrow> runtime \<Rightarrow> generated_client \<Rightarrow> int \<Rightarrow> UpdateLegacyDoorbotControlsParams option \<Rightarrow> request_editor list \<Rightarrow> parsed_response http_step" where
  "generated_UpdateLegacyDoorbotControlsWithResponse env rt c deviceId params reqEditors =
     with_response ParseUpdateLegacyDoorbotControlsResponse (generated_UpdateLegacyDoorbotControls env rt c deviceId params reqEditors)"

definition generated_TurnFloodlightOffWithResponse ::
  "http_env \<Rightarrow> runtime \<Rightarrow> generated_client \<Rightarrow> int \<Rightarrow> request_editor list \<Rightarrow> parsed_response http_step" where
  "generated_TurnFloodlightOffWithResponse env rt c deviceId reqEditors =
     with_response ParseTurnFloodlightOffResponse (generated_TurnFloodlightOff env rt c deviceId reqEditors)"

definition generated_TurnFloodlightOnWithResponse ::
  "http_env \<Rightarrow> runtime \<Rightarrow> generated_client \<Rightarrow> int \<Rightarrow> request_editor list \<Rightarrow> parsed_response http_step" where
  "generated_TurnFloodlightOnWithResponse env rt c deviceId reqEditors =
     with_response ParseTurnFloodlightOnResponse (generated_TurnFloodlightOn env rt c deviceId reqEditors)"

definition generated_GetLegacyDeviceHistoryWithResponse ::
  "http_env \<Rightarrow> runtime \<Rightarrow> generated_client \<Rightarrow> int \<Rightarrow> GetLegacyDeviceHistoryParams option \<Rightarrow> request_editor list \<Rightarrow> parsed_response http_step" where
  "generated_GetLegacyDeviceHistoryWithResponse env rt c deviceId params reqEditors =
     with_response ParseGetLegacyDeviceHistoryResponse (generated_GetLegacyDeviceHistory env rt c deviceId params reqEditors)"

definition generated_SubscribeDeviceMotionWithResponse ::
  "http_env \<Rightarrow> runtime \<Rightarrow> generated_client \<Rightarrow> int \<Rightarrow> request_editor list \<Rightarrow> parsed_response http_step" where
  "generated_SubscribeDeviceMotionWithResponse env rt c deviceId reqEditors =
     with_response ParseSubscribeDeviceMotionResponse (generated_SubscribeDeviceMotion env rt c deviceId reqEditors)"

definition generated_TurnSirenOffWithResponse ::
  "http_env \<Rightarrow> runtime \<Rightarrow> generated_client \<Rightarrow> int \<Rightarrow> request_editor list \<Rightarrow> parsed_response http_step" where
  "generated_TurnSirenOffWithResponse env rt c deviceId reqEditors =
     with_response ParseTurnSirenOffResponse (generated_TurnSirenOff env rt c deviceId reqEditors)"

definition generated_TurnSirenOnWithResponse ::
  "http_env \<Rightarrow> runtime \<Rightarrow> generated_client \<Rightarrow> int \<Rightarrow> request_editor list \<Rightarrow> parsed_response http_step" where
  "generated_TurnSirenOnWithResponse env rt c deviceId reqEditors =
     with_response ParseTurnSirenOnResponse (generated_TurnSirenOn env rt c deviceId reqEditors)"

definition generated_SubscribeDeviceDingWithResponse ::
  "http_env \<Rightarrow> runtime \<Rightarrow> generated_client \<Rightarrow> int \<Rightarrow> request_editor list \<Rightarrow> parsed_response http_step" where
  "generated_SubscribeDeviceDingWithResponse env rt c deviceId reqEditors =
     with_response ParseSubscribeDeviceDingResponse (generated_SubscribeDeviceDing env rt c deviceId reqEditors)"

definition generated_GetLegacyDeviceHealthWithResponse ::
  "http_env \<Rightarrow> runtime \<Rightarrow> generated_client \<Rightarrow> int \<Rightarrow> request_editor list \<Rightarrow> parsed_response http_step" where
  "generated_GetLegacyDeviceHealthWithResponse env rt c deviceId reqEditors =
     with_response ParseGetLegacyDeviceHealthResponse (generated_GetLegacyDeviceHealth env rt c deviceId reqEditors)"

definition generated_RegisterClientSessionWithBodyWithResponse ::
  "http_env \<Rightarrow> runtime \<Rightarrow> generated_client \<Rightarrow> string \<Rightarrow> request_body \<Rightarrow> request_editor list \<Rightarrow> parsed_response http_step" where
  "generated_RegisterClientSessionWithBodyWithResponse env rt c contentType body reqEditors =
     with_response ParseRegisterClientSessionResponse (generated_RegisterClientSessionWithBody env rt c contentType body reqEditors)"

definition generated_RegisterClientSessionWithResponse ::
  "http_env \<Rightarrow> runtime \<Rightarrow> generated_client \<Rightarrow> json \<Rightarrow> request_editor list \<Rightarrow> parsed_response http_step" where
  "generated_RegisterClientSessionWithResponse env rt c body reqEditors =
     with_response ParseRegisterClientSessionResponse (generated_RegisterClientSession env rt c body reqEditors)"

definition generated_GetLegacySnapshotImageWithResponse ::
  "http_env \<Rightarrow> runtime \<Rightarrow> generated_client \<Rightarrow> int \<Rightarrow> request_editor list \<Rightarrow> parsed_response http_step" where
  "generated_GetLegacySnapshotImageWithResponse env rt c deviceId reqEditors =
     with_response ParseGetLegacySnapshotImageResponse (generated_GetLegacySnapshotImage env rt c deviceId reqEditors)"

definition generated_RefreshLegacySnapshotTimestampWithBodyWithResponse ::
  "http_env \<Rightarrow> runtime \<Rightarrow> generated_client \<Rightarrow> string \<Rightarrow> request_body \<Rightarrow> request_editor list \<Rightarrow> parsed_response http_step" where
  "generated_RefreshLegacySnapshotTimestampWithBodyWithResponse env rt c contentType body reqEditors =
     with_response ParseRefreshLegacySnapshotTimestampResponse (generated_RefreshLegacySnapshotTimestampWithBody env rt c contentType body reqEditors)"

definition generated_RefreshLegacySnapshotTimestampWithResponse ::
  "http_env \<Rightarrow> runtime \<Rightarrow> generated_client \<Rightarrow> json \<Rightarrow> request_editor list \<Rightarrow> parsed_response http_step" where
  "generated_RefreshLegacySnapshotTimestampWithResponse env rt c body reqEditors =
     with_response ParseRefreshLegacySnapshotTimestampResponse (generated_RefreshLegacySnapshotTimestamp env rt c body reqEditors)"

definition generated_SendDeviceCommandWithBodyWithResponse ::
  "http_env \<Rightarrow> runtime \<Rightarrow> generated_client \<Rightarrow> int \<Rightarrow> string \<Rightarrow> request_body \<Rightarrow> request_editor list \<Rightarrow> parsed_response http_step" where
  "generated_SendDeviceCommandWithBodyWithResponse env rt c deviceId contentType body reqEditors =
     with_response ParseSendDeviceCommandResponse (generated_SendDeviceCommandWithBody env rt c deviceId contentType body reqEditors)"

definition generated_SendDeviceCommandWithResponse ::
  "http_env \<Rightarrow> runtime \<Rightarrow> generated_client \<Rightarrow> int \<Rightarrow> json \<Rightarrow> request_editor list \<Rightarrow> parsed_response http_step" where
  "generated_SendDeviceCommandWithResponse env rt c deviceId body reqEditors =
     with_response ParseSendDeviceCommandResponse (generated_SendDeviceCommand env rt c deviceId body reqEditors)"

definition generated_UnlockIntercomWithBodyWithResponse ::
  "http_env \<Rightarrow> runtime \<Rightarrow> generated_client \<Rightarrow> int \<Rightarrow> string \<Rightarrow> request_body \<Rightarrow> request_editor list \<Rightarrow> parsed_response http_step" where
  "generated_UnlockIntercomWithBodyWithResponse env rt c deviceId contentType body reqEditors =
     with_response ParseUnlockIntercomResponse (generated_UnlockIntercomWithBody env rt c deviceId contentType body reqEditors)"

definition generated_UnlockIntercomWithResponse ::
  "http_env \<Rightarrow> runtime \<Rightarrow> generated_client \<Rightarrow> int \<Rightarrow> json \<Rightarrow> request_editor list \<Rightarrow> parsed_response http_step" where
  "generated_UnlockIntercomWithResponse env rt c deviceId body reqEditors =
     with_response ParseUnlockIntercomResponse (generated_UnlockIntercom env rt c deviceId body reqEditors)"

definition generated_ListDevicesWithResponse ::
  "http_env \<Rightarrow> runtime \<Rightarrow> generated_client \<Rightarrow> request_editor list \<Rightarrow> parsed_response http_step" where
  "generated_ListDevicesWithResponse env rt c reqEditors =
     with_response ParseListDevicesResponse (generated_ListDevices env rt c reqEditors)"

definition generated_GetDeviceWithResponse ::
  "http_env \<Rightarrow> runtime \<Rightarrow> generated_client \<Rightarrow> int \<Rightarrow> request_editor list \<Rightarrow> parsed_response http_step" where
  "generated_GetDeviceWithResponse env rt c deviceId reqEditors =
     with_response ParseGetDeviceResponse (generated_GetDevice env rt c deviceId reqEditors)"

definition generated_GetDeviceSettingsWithResponse ::
  "http_env \<Rightarrow> runtime \<Rightarrow> generated_client \<Rightarrow> int \<Rightarrow> request_editor list \<Rightarrow> parsed_response http_step" where
  "generated_GetDeviceSettingsWithResponse env rt c deviceId reqEditors =
     with_response ParseGetDeviceSettingsResponse (generated_GetDeviceSettings env rt c deviceId reqEditors)"

definition generated_PatchDeviceSettingsWithBodyWithResponse ::
  "http_env \<Rightarrow> runtime \<Rightarrow> generated_client \<Rightarrow> int \<Rightarrow> string \<Rightarrow> request_body \<Rightarrow> request_editor list \<Rightarrow> parsed_response http_step" where
  "generated_PatchDeviceSettingsWithBodyWithResponse env rt c deviceId contentType body reqEditors =
     with_response ParsePatchDeviceSettingsResponse (generated_PatchDeviceSettingsWithBody env rt c deviceId contentType body reqEditors)"

definition generated_PatchDeviceSettingsWithResponse ::
  "http_env \<Rightarrow> runtime \<Rightarrow> generated_client \<Rightarrow> int \<Rightarrow> json \<Rightarrow> request_editor list \<Rightarrow> parsed_response http_step" where
  "generated_PatchDeviceSettingsWithResponse env rt c deviceId body reqEditors =
     with_response ParsePatchDeviceSettingsResponse (generated_PatchDeviceSettings env rt c deviceId body reqEditors)"

definition generated_SetLiveViewEnabledWithBodyWithResponse ::
  "http_env \<Rightarrow> runtime \<Rightarrow> generated_client \<Rightarrow> int \<Rightarrow> string \<Rightarrow> request_body \<Rightarrow> request_editor list \<Rightarrow> parsed_response http_step" where
  "generated_SetLiveViewEnabledWithBodyWithResponse env rt c deviceId contentType body reqEditors =
     with_response ParseSetLiveViewEnabledResponse (generated_SetLiveViewEnabledWithBody env rt c deviceId contentType body reqEditors)"

definition generated_SetLiveViewEnabledWithResponse ::
  "http_env \<Rightarrow> runtime \<Rightarrow> generated_client \<Rightarrow> int \<Rightarrow> json \<Rightarrow> request_editor list \<Rightarrow> parsed_response http_step" where
  "generated_SetLiveViewEnabledWithResponse env rt c deviceId body reqEditors =
     with_response ParseSetLiveViewEnabledResponse (generated_SetLiveViewEnabled env rt c deviceId body reqEditors)"

definition generated_GetDeviceTimelineWithResponse ::
  "http_env \<Rightarrow> runtime \<Rightarrow> generated_client \<Rightarrow> int \<Rightarrow> GetDeviceTimelineParams option \<Rightarrow> request_editor list \<Rightarrow> parsed_response http_step" where
  "generated_GetDeviceTimelineWithResponse env rt c deviceId params reqEditors =
     with_response ParseGetDeviceTimelineResponse (generated_GetDeviceTimeline env rt c deviceId params reqEditors)"

definition generated_GetHistoryDevicesWithResponse ::
  "http_env \<Rightarrow> runtime \<Rightarrow> generated_client \<Rightarrow> GetHistoryDevicesParams option \<Rightarrow> request_editor list \<Rightarrow> parsed_response http_step" where
  "generated_GetHistoryDevicesWithResponse env rt c params reqEditors =
     with_response ParseGetHistoryDevicesResponse (generated_GetHistoryDevices env rt c params reqEditors)"

definition generated_ListLocationDevicesWithResponse ::
  "http_env \<Rightarrow> runtime \<Rightarrow> generated_client \<Rightarrow> string \<Rightarrow> request_editor list \<Rightarrow> parsed_response http_step" where
  "generated_ListLocationDevicesWithResponse env rt c locationId reqEditors =
     with_response ParseListLocationDevicesResponse (generated_ListLocationDevices env rt c locationId reqEditors)"

definition generated_ListLocationGroupsWithResponse ::
  "http_env \<Rightarrow> runtime \<Rightarrow> generated_client \<Rightarrow> string \<Rightarrow> request_editor list \<Rightarrow> parsed_response http_step" where
  "generated_ListLocationGroupsWithResponse env rt c locationId reqEditors =
     with_response ParseListLocationGroupsResponse (generated_ListLocationGroups env rt c locationId reqEditors)"

definition generated_ListLocationsWithResponse ::
  "http_env \<Rightarrow> runtime \<Rightarrow> generated_client \<Rightarrow> request_editor list \<Rightarrow> parsed_response http_step" where
  "generated_ListLocationsWithResponse env rt c reqEditors =
     with_response ParseListLocationsResponse (generated_ListLocations env rt c reqEditors)"

definition generated_GetLocationWithResponse ::
  "http_env \<Rightarrow> runtime \<Rightarrow> generated_client \<Rightarrow> string \<Rightarrow> GetLocationParams option \<Rightarrow> request_editor list \<Rightarrow> parsed_response http_step" where
  "generated_GetLocationWithResponse env rt c locationId params reqEditors =
     with_response ParseGetLocationResponse (generated_GetLocation env rt c locationId params reqEditors)"

definition generated_ExchangeOrRefreshOAuthTokenWithBodyWithResponse ::
  "http_env \<Rightarrow> runtime \<Rightarrow> generated_client \<Rightarrow> string \<Rightarrow> request_body \<Rightarrow> request_editor list \<Rightarrow> parsed_response http_step" where
  "generated_ExchangeOrRefreshOAuthTokenWithBodyWithResponse env rt c contentType body reqEditors =
     with_response ParseExchangeOrRefreshOAuthTokenResponse (generated_ExchangeOrRefreshOAuthTokenWithBody env rt c contentType body reqEditors)"

definition generated_VerifyOAuthTwoFactorCodeWithBodyWithResponse ::
  "http_env \<Rightarrow> runtime \<Rightarrow> generated_client \<Rightarrow> string \<Rightarrow> request_body \<Rightarrow> request_editor list \<Rightarrow> parsed_response http_step" where
  "generated_VerifyOAuthTwoFactorCodeWithBodyWithResponse env rt c contentType body reqEditors =
     with_response ParseVerifyOAuthTwoFactorCodeResponse (generated_VerifyOAuthTwoFactorCodeWithBody env rt c contentType body reqEditors)"

section \<open>Facts\<close>

lemma generated_NewClient_server:
  "generated_NewClient server [GeneratedWithHTTPClient]
   = Inr \<lparr>gc_Server = (if has_suffix server ''/'' then server else server @ ''/''), gc_RequestEditors = []\<rparr>"
  by (simp add: generated_NewClient_def apply_generated_option_def)

text \<open>What a parser has set comes from a JSON body whose status is that of the case, and decodes without an error.\<close>

lemma parse_response_field:
  assumes "parse_response cases rsp = Inr response" "response_field field response = Some v"
  shows "\<exists>status T. (field, status, T) \<in> set cases \<and> str_contains (hp_contentType rsp) ''json''
    \<and> (\<forall>code. status = Some code \<longrightarrow> resp_code (hp_resp rsp) = code) \<and> rest_decode T (hp_json rsp) = (v, False)"
proof -
  from assms obtain status T where f: "find (response_case_matches rsp) cases = Some (field, status, T)"
    and d: "rest_decode T (hp_json rsp) = (v, False)"
    by (auto simp: parse_response_def response_field_def Let_def split: sum.splits option.splits prod.splits bool.splits if_splits)
  from f have "(field, status, T) \<in> set cases" "response_case_matches rsp (field, status, T)"
    by (auto simp: find_Some_iff)
  moreover from this have "status = Some code \<Longrightarrow> resp_code (hp_resp rsp) = code" for code
    by (simp add: response_case_matches_def)
  ultimately show ?thesis using d unfolding response_case_matches_def by blast
qed

lemma parse_response_status:
  "parse_response cases rsp = Inr response \<Longrightarrow> pr_HTTPResponse response = hp_resp rsp \<and> hp_body rsp = Inr (pr_Body response)"
  by (auto simp: parse_response_def Let_def split: sum.splits option.splits prod.splits bool.splits)

end
