(* ===== verification/Sockets.thy ===== *)
theory Sockets
  imports RestResponses AccountSafety Connection AccountEvents
begin

text \<open>
  Opening the sockets of a client: the signaling ticket and \<open>OpenSignaling\<close> (\<open>pkg/ring/client_session.go\<close>), the captured
  tickets (\<open>client_captured_http.go\<close>), and the account events with their listener (\<open>client_events.go\<close>). The
  requests for tickets go through the generated client to the Solutions origin. A dial is a function of the
  headers and the URL; the identifier that \<open>uuid.NewString\<close> draws is an argument.
\<close>

section \<open>Signaling tickets\<close>

definition wrap_failure :: "(goerr \<Rightarrow> goerr) \<Rightarrow> 'a http_step \<Rightarrow> 'a http_step" where
  "wrap_failure f m w = (case m w of (Err e, w') \<Rightarrow> (Err (f e), w') | r \<Rightarrow> r)"

definition solutions_base :: "ring_call \<Rightarrow> string" where
  "solutions_base g = ep_SolutionsBaseURL (cl_endpoints (rg_client g))"

definition hardware_pair :: "string \<Rightarrow> (string \<times> string) list \<Rightarrow> (string \<times> string) list" where
  "hardware_pair hardwareID headers = (if hardwareID \<noteq> [] then gm_put ''Hardware_id'' hardwareID headers else headers)"

definition ticket_headers :: "ring_call \<Rightarrow> rest_call \<Rightarrow> string \<Rightarrow> (string \<times> string) list" where
  "ticket_headers g call token =
     hardware_pair (ring_hardwareIDFor call)
       (gm_put ''Content-Type'' ''application/json''
         (gm_put ''User-Agent'' (cl_userAgent (rg_client g)) (gm_put ''Authorization'' (''Bearer '' @ token) [])))"

definition requestSignalingTicket :: "ring_call \<Rightarrow> rest_call \<Rightarrow> string http_step" where
  "requestSignalingTicket g call =
     lbind (wrap_failure (\<lambda>e. NewConnectionError ''failed to register Ring session'' (Some e)) (ensureSession call)) (\<lambda>_.
     lbind (wrap_failure (\<lambda>e. NewTokenError ''failed to get token for signaling'' (Some e))
              (lift (or_fail (ring_getToken call)))) (\<lambda>token.
       if solutions_base g = [] then
         lfail (NewConnectionError
           ''Solutions bootstrap URL is unverified for selected region; configure WithEndpoints'' None)
       else
         lbind (wrap_failure (\<lambda>e. NewNetworkError ''failed to configure signaling ticket client'' (Some e))
                  (lift (or_fail (generated_NewClient (solutions_base g) [GeneratedWithHTTPClient])))) (\<lambda>wire.
         lbind (wrap_failure (\<lambda>e. NewNetworkError ''failed to request signaling ticket'' (Some e))
                  (generated_RequestLegacySignalingTicket (rg_env g) (rg_runtime g) wire
                     [\<lambda>req. Inr (req\<lparr>hr_headers := ticket_headers g call token\<rparr>)])) (\<lambda>response.
           lift (or_fail (ticket_response (hp_resp response) (hp_body response) (hp_json response)))))))"

definition socket_headers :: "ring_call \<Rightarrow> rest_call \<Rightarrow> (string \<times> string) list" where
  "socket_headers g call =
     hardware_pair (ring_hardwareIDFor call) (gm_put ''User-Agent'' (cl_userAgent (rg_client g)) [])"

definition ring_OpenSignaling ::
  "ring_call \<Rightarrow> auth_context \<Rightarrow> string \<Rightarrow> ((string \<times> string) list \<Rightarrow> string \<Rightarrow> goerr + 'c option)
   \<Rightarrow> ('c \<times> connection) http_step" where
  "ring_OpenSignaling g auth clientID dial w =
     (let call = accountContext g auth in
      case he_cancelled (rg_env g) w of
        Some e \<Rightarrow> (Err (NewConnectionError ''signaling open canceled'' (Some e)), w)
      | None \<Rightarrow>
          lbind (requestSignalingTicket g call) (\<lambda>ticket.
          lbind (lift (or_fail (dial_signaling_socket (rg_client g) clientID ticket (dial (socket_headers g call))))) (\<lambda>conn.
            lreturn (conn, new_connection))) w)"

section \<open>Captured tickets\<close>

definition tickets_editor :: "ring_call \<Rightarrow> rest_call \<Rightarrow> string \<Rightarrow> request_editor" where
  "tickets_editor g call token req =
     (let req = header ''User-Agent'' (cl_userAgent (rg_client g))
                  (header ''Accept'' ''application/json'' (header ''Authorization'' (''Bearer '' @ token) req)) in
      Inr (if ring_hardwareIDFor call \<noteq> [] then header ''Hardware_id'' (ring_hardwareIDFor call) req else req))"

definition tickets_failure :: "goerr \<Rightarrow> goerr" where
  "tickets_failure e =
     (if errors_is e JSONError then NewInternalServerError ''captured ticket response is malformed'' (Some e)
      else NewNetworkError ''captured ticket request failed'' (Some e))"

definition captured_tickets :: "parsed_response \<Rightarrow> goerr + pvalue" where
  "captured_tickets response =
     (case response_field ''JSON200'' response of
        Some tickets \<Rightarrow>
          if rest_string CapturedTickets_model ''ticket'' tickets = []
          then Inl (NewInternalServerError ''captured ticket response lacks a ticket'' None)
          else projectCaptured CapturedTickets_projection CapturedTickets_model tickets
      | None \<Rightarrow>
          if response_StatusCode response < 200 \<or> 300 \<le> response_StatusCode response
          then Inl (ClassifyHTTPError (pr_HTTPResponse response) (pr_Body response))
          else Inl (NewInternalServerError ''captured ticket response was not JSON'' None))"

definition ring_GetCapturedTickets :: "ring_call \<Rightarrow> auth_context \<Rightarrow> tickets_params \<Rightarrow> pvalue http_step" where
  "ring_GetCapturedTickets g auth params =
     (let call = accountContext g auth in
      if solutions_base g = []
      then lfail (NewConnectionError ''Solutions endpoint is not configured for this region'' None)
      else
        lbind (lift (or_fail (ring_getToken call))) (\<lambda>token.
        lbind (wrap_failure (\<lambda>e. NewBadRequestError ''invalid Solutions endpoint'' (Some e))
                 (lift (or_fail (generated_NewClient (solutions_base g) [GeneratedWithHTTPClient])))) (\<lambda>wire.
        lbind (wrap_failure tickets_failure
                 (generated_GetCapturedLocationTicketsWithResponse (rg_env g) (rg_runtime g) wire
                    (Some (CapturedTicketsParams_wire params)) [tickets_editor g call token])) (\<lambda>response.
          lift (or_fail (captured_tickets response))))))"

section \<open>Account events\<close>

definition event_headers :: "string \<Rightarrow> string \<Rightarrow> (string \<times> string) list" where
  "event_headers token hardwareID = hardware_pair hardwareID (gm_put ''Authorization'' (''Bearer '' @ token) [])"

definition ring_ConnectEvents ::
  "ring_call \<Rightarrow> auth_context \<Rightarrow> ((string \<times> string) list \<Rightarrow> string \<Rightarrow> goerr + 'c) \<Rightarrow> goerr + ('c \<times> event_stream)" where
  "ring_ConnectEvents g auth dial =
     (let call = accountContext g auth in
      case ring_getToken call of
        Inl e \<Rightarrow> Inl (NewTokenError ''failed to get token for event connection'' (Some e))
      | Inr token \<Rightarrow>
          (case connect_events_socket (rg_client g) (dial (event_headers token (ring_hardwareIDFor call))) of
             Inl e \<Rightarrow> Inl e
           | Inr conn \<Rightarrow> Inr (conn, events_start)))"

record ring_event =
  ev_Data :: "(string \<times> json) list"
  ev_DeviceID :: int
  ev_Kind :: string
  ev_Timestamp :: string

text \<open>\<open>EventConnection.Receive\<close> of the client, on what \<open>ReceiveFrame\<close> of the transport returned.\<close>

definition receive_event :: "event_result \<Rightarrow> ring_event outcome" where
  "receive_event received =
     (case received of
        Failure err \<Rightarrow>
          if IsClosedError (Some err) then Err (NewClosedError ''event connection closed'' [Some err])
          else Err (NewConnectionError ''failed to receive event frame'' (Some err))
      | Event e \<Rightarrow>
          obind (on_decode (json_decode TMap (ae_raw e)) (\<lambda>c. NewConnectionError ''invalid account event payload'' (Some c)))
            (\<lambda>v. case as_map v of
               None \<Rightarrow> Err (NewConnectionError ''invalid account event payload'' None)
             | Some payload \<Rightarrow>
                 Ok \<lparr>ev_Data = payload, ev_DeviceID = as_int (field_of AccountEventFrame ''device_id'' (ae_frame e)),
                     ev_Kind = as_string (field_of AccountEventFrame ''kind'' (ae_frame e)),
                     ev_Timestamp = as_string (field_of AccountEventFrame ''timestamp'' (ae_frame e))\<rparr>))"

text \<open>
  A round of \<open>Listen\<close>: the context before it, what arrives, and the context after a failure. The callback may depend
  on the events it has seen. The result is the events passed to it and, once listening ends, the error or nil.
\<close>

record listen_round =
  lr_before :: "goerr option"
  lr_received :: event_result
  lr_after :: "goerr option"

fun Listen ::
  "(ring_event list \<Rightarrow> ring_event \<Rightarrow> goerr option) option \<Rightarrow> ring_event list \<Rightarrow> listen_round list
   \<Rightarrow> (ring_event list \<times> goerr option option) outcome" where
  "Listen callback seen [] = Ok (seen, None)"
| "Listen callback seen (r # rs) =
     (case lr_before r of
        Some e \<Rightarrow> Ok (seen, Some (Some (NewConnectionError ''event listener canceled'' (Some e))))
      | None \<Rightarrow>
          (case receive_event (lr_received r) of
             Panic \<Rightarrow> Panic
           | Err err \<Rightarrow>
               Ok (seen, Some
                 (case lr_after r of
                    Some e \<Rightarrow> Some (NewConnectionError ''event listener canceled'' (Some e))
                  | None \<Rightarrow> if IsClosedError (Some err) then None else Some err))
           | Ok event \<Rightarrow>
               (case callback of
                  None \<Rightarrow> Listen callback seen rs
                | Some f \<Rightarrow>
                    (case f seen event of
                       Some err \<Rightarrow> Ok (seen @ [event], Some (Some err))
                     | None \<Rightarrow> Listen callback (seen @ [event]) rs))))"

definition ring_Listen ::
  "ring_call \<Rightarrow> auth_context \<Rightarrow> ((string \<times> string) list \<Rightarrow> string \<Rightarrow> goerr + 'c)
   \<Rightarrow> (ring_event list \<Rightarrow> ring_event \<Rightarrow> goerr option) option \<Rightarrow> listen_round list
   \<Rightarrow> (ring_event list \<times> goerr option option) outcome" where
  "ring_Listen g auth dial callback rounds =
     (case ring_ConnectEvents g auth dial of
        Inl e \<Rightarrow> Ok ([], Some (Some e))
      | Inr _ \<Rightarrow> Listen callback [] rounds)"

end
