(* ===== verification/SocketsSafety.thy ===== *)
theory SocketsSafety
  imports Sockets AccountResults
begin

text \<open>
  What opening the sockets sends and when it succeeds: requests for tickets go to the Solutions origin with the
  credentials of the call and are not retried; a signaling socket is dialed only with a ticket from that server and
  at a URL that has passed the checks. Listening to events hands them over in order until it ends.
\<close>

section \<open>Requests for tickets\<close>

definition solutions_server :: "ring_call \<Rightarrow> string" where
  "solutions_server g = (if has_suffix (solutions_base g) ''/'' then solutions_base g else solutions_base g @ ''/'')"

definition ticket_request :: "ring_call \<Rightarrow> auth_context \<Rightarrow> http_request \<Rightarrow> bool" where
  "ticket_request g auth req \<longleftrightarrow>
     at_origin (solutions_server g) req
     \<and> auth_AccessToken auth \<noteq> []
     \<and> map_of (hr_headers req) ''Authorization'' = Some (''Bearer '' @ auth_AccessToken auth)
     \<and> map_of (hr_headers req) ''Hardware_id'' = (if hardware_of auth = [] then None else Some (hardware_of auth))
     \<and> map_of (hr_headers req) ''User-Agent'' = Some (cl_userAgent (rg_client g))"

lemma account_context [simp]:
  "ring_hardwareIDFor (accountContext g auth) = hardware_of auth"
  "ring_getToken (accountContext g auth) =
     (if auth_AccessToken auth = [] then Inl (NewTokenError ''no token in request'' None) else Inr (auth_AccessToken auth))"
  by (simp_all add: accountContext_def WithAccount_def ring_hardwareIDFor_def ring_getToken_def hardware_of_def Let_def)

lemma wrap_failure_state [simp]: "snd (wrap_failure f m w) = snd (m w)"
  by (simp add: wrap_failure_def split: prod.split outcome.split)

lemma sends_wrap: "sends n Q m \<Longrightarrow> sends n Q (wrap_failure f m)"
  by (simp add: sends_def)

lemma bind_wrapped [simp]:
  "lbind (wrap_failure f (lift (or_fail (Inr x)))) k = k x"
  "lbind (wrap_failure f (lift (or_fail (Inl e)))) k = lfail (f e)"
  "lbind (lift (or_fail (Inr x))) k = k x" "lbind (lift (or_fail (Inl e))) k = lfail e"
  by (simp_all add: fun_eq_iff lbind_def wrap_failure_def lift_def or_fail_def lfail_def)

text \<open>At most \<open>n\<close> requests with \<open>Q\<close>, and after them at most \<open>k\<close> with \<open>R\<close>.\<close>

definition sends_in_order ::
  "nat \<Rightarrow> (http_request \<Rightarrow> bool) \<Rightarrow> nat \<Rightarrow> (http_request \<Rightarrow> bool) \<Rightarrow> 'a http_step \<Rightarrow> bool" where
  "sends_in_order n Q k R m \<longleftrightarrow>
     (\<forall>w. \<exists>as bs. hs_sent (snd (m w)) = hs_sent w @ as @ bs \<and> list_all Q as \<and> length as \<le> n
        \<and> list_all R bs \<and> length bs \<le> k)"

lemma sends_in_orderI:
  assumes m: "sends n Q m" and f: "\<And>x. sends k R (f x)"
  shows "sends_in_order n Q k R (lbind m f)"
  unfolding sends_in_order_def
proof
  fix w
  obtain r w' where r: "m w = (r, w')" by fastforce
  from m obtain as where as: "hs_sent w' = hs_sent w @ as" "list_all Q as" "length as \<le> n"
    by (rule sendsE [where w = w]) (simp add: r)
  show "\<exists>as bs. hs_sent (snd (lbind m f w)) = hs_sent w @ as @ bs \<and> list_all Q as \<and> length as \<le> n
     \<and> list_all R bs \<and> length bs \<le> k"
  proof (cases r)
    case (Ok x)
    from f [of x] obtain bs where bs: "hs_sent (snd (f x w')) = hs_sent w' @ bs" "list_all R bs" "length bs \<le> k"
      by (rule sendsE [where w = w'])
    with as Ok r show ?thesis by (intro exI [of _ as] exI [of _ bs]) (simp add: lbind_def)
  next
    case (Err e)
    with as r show ?thesis by (intro exI [of _ as] exI [of _ "[]"]) (simp add: lbind_def)
  next
    case Panic
    with as r show ?thesis by (intro exI [of _ as] exI [of _ "[]"]) (simp add: lbind_def)
  qed
qed

lemma sends_in_order_then:
  assumes "sends_in_order n Q k R m" and f: "\<And>x. sends 0 R (f x)"
  shows "sends_in_order n Q k R (lbind m f)"
proof -
  have "hs_sent (snd (f x w)) = hs_sent w" for x w
    using f [of x] by (rule sendsE [where w = w]) simp
  then have "hs_sent (snd (lbind m f w)) = hs_sent (snd (m w))" for w
    by (cases "m w") (auto simp: lbind_def split: outcome.split)
  with assms(1) show ?thesis by (simp add: sends_in_order_def)
qed

lemma sends_client_do:
  assumes "\<And>req req'. b = Inr req \<Longrightarrow> apply_editors (gc_RequestEditors c @ es) req = Inr req' \<Longrightarrow> Q req'"
  shows "sends 1 Q (client_do env c es b)"
proof (cases b)
  case (Inr req)
  then show ?thesis using assms [of req]
    by (cases "apply_editors (gc_RequestEditors c @ es) req")
       (auto simp: client_do_def sends_def lbind_def lift_def or_fail_def http_do_def Let_def split: sum.split)
qed (simp add: client_do_def sends_def lbind_def lift_def or_fail_def)

lemma solutions_client:
  "generated_NewClient (solutions_base g) [GeneratedWithHTTPClient]
   = Inr \<lparr>gc_Server = solutions_server g, gc_RequestEditors = []\<rparr>"
  by (simp add: generated_NewClient_server solutions_server_def)

lemma sends_signaling_ticket:
  assumes "auth_AccessToken auth \<noteq> []"
  shows "sends 1 (ticket_request g auth)
    (generated_RequestLegacySignalingTicket (rg_env g) (rg_runtime g) \<lparr>gc_Server = solutions_server g, gc_RequestEditors = []\<rparr>
       [\<lambda>req. Inr (req\<lparr>hr_headers := ticket_headers g (accountContext g auth) (auth_AccessToken auth)\<rparr>)])"
  unfolding generated_RequestLegacySignalingTicket_def NewRequestLegacySignalingTicketRequest_def
proof (rule sends_client_do, clarsimp)
  fix req assume "build_request (rg_runtime g) ''POST'' (solutions_server g) (''/api/v1/clap/ticket/request/signalsocket'', None) None NoBody = Inr req"
  with build_request_sound assms show "ticket_request g auth
      (req\<lparr>hr_headers := ticket_headers g (accountContext g auth) (auth_AccessToken auth)\<rparr>)"
    by (auto simp: ticket_request_def ticket_headers_def hardware_pair_def at_origin_def gm_wf_def)
qed

lemma sends_requestSignalingTicket:
  "sends_in_order 1 (account_request g auth) 1 (ticket_request g auth) (requestSignalingTicket g (accountContext g auth))"
  unfolding requestSignalingTicket_def
proof (rule sends_in_orderI)
  show "sends 1 (account_request g auth)
      (wrap_failure (\<lambda>e. NewConnectionError ''failed to register Ring session'' (Some e)) (ensureSession (accountContext g auth)))"
    using sends_wrap [OF sends_ensureSession [of "accountContext g auth", unfolded authorized_account]] by simp
next
  let ?token = "auth_AccessToken auth" and ?call = "accountContext g auth"
  show "sends 1 (ticket_request g auth)
      (lbind (wrap_failure (\<lambda>e. NewTokenError ''failed to get token for signaling'' (Some e)) (lift (or_fail (ring_getToken ?call))))
        (\<lambda>token. if solutions_base g = [] then
           lfail (NewConnectionError ''Solutions bootstrap URL is unverified for selected region; configure WithEndpoints'' None)
         else
           lbind (wrap_failure (\<lambda>e. NewNetworkError ''failed to configure signaling ticket client'' (Some e))
                    (lift (or_fail (generated_NewClient (solutions_base g) [GeneratedWithHTTPClient])))) (\<lambda>wire.
           lbind (wrap_failure (\<lambda>e. NewNetworkError ''failed to request signaling ticket'' (Some e))
                    (generated_RequestLegacySignalingTicket (rg_env g) (rg_runtime g) wire
                       [\<lambda>req. Inr (req\<lparr>hr_headers := ticket_headers g ?call token\<rparr>)])) (\<lambda>response.
             lift (or_fail (ticket_response (hp_resp response) (hp_body response) (hp_json response)))))))"
    by (cases "?token = []")
       (auto simp: solutions_client intro: sends_mono [OF sends_none(2)] sends_none
         intro!: sends_then [OF sends_wrap [OF sends_signaling_ticket [unfolded One_nat_def]]])
qed

lemma sends_OpenSignaling:
  "sends_in_order 1 (account_request g auth) 1 (ticket_request g auth) (ring_OpenSignaling g auth clientID dial)"
proof -
  let ?call = "accountContext g auth"
  let ?go = "lbind (requestSignalingTicket g ?call) (\<lambda>ticket.
      lbind (lift (or_fail (dial_signaling_socket (rg_client g) clientID ticket (dial (socket_headers g ?call))))) (\<lambda>conn.
        lreturn (conn, new_connection)))"
  have "sends_in_order 1 (account_request g auth) 1 (ticket_request g auth) ?go"
    by (intro sends_in_order_then sends_requestSignalingTicket sends_then sends_none)
  then show ?thesis
    by (auto simp: sends_in_order_def ring_OpenSignaling_def Let_def split: option.split)
qed

section \<open>An open socket\<close>

lemma wrap_failure_Ok [simp]: "wrap_failure f m w = (Ok x, w') \<longleftrightarrow> m w = (Ok x, w')"
  by (simp add: wrap_failure_def split: prod.split outcome.split)

lemma client_do_Ok:
  assumes "client_do env c es b w = (Ok r, w')"
  shows "he_server env (hs_sent w') = Inr r"
  using assms unfolding client_do_def
  by (auto elim!: lbind_OkE simp: http_do_def lift_def Let_def split: sum.splits)

lemma lift_Ok: "lift (or_fail r) w = (Ok x, w') \<longleftrightarrow> r = Inr x \<and> w' = w"
  by (auto simp: lift_def or_fail_def split: sum.splits)

lemma ticket_response_nonempty: "ticket_response resp body doc = Inr ticket \<Longrightarrow> ticket \<noteq> []"
  by (auto simp: ticket_response_def Let_def split: sum.splits prod.splits bool.splits if_splits)

lemma requestSignalingTicket_Ok:
  assumes "requestSignalingTicket g call w = (Ok ticket, w')"
  shows "\<exists>reply. he_server (rg_env g) (hs_sent w') = Inr reply
    \<and> ticket_response (hp_resp reply) (hp_body reply) (hp_json reply) = Inr ticket"
proof -
  from assms obtain reply c es b and w1 :: http_state where
    "client_do (rg_env g) c es b w1 = (Ok reply, w')"
    "ticket_response (hp_resp reply) (hp_body reply) (hp_json reply) = Inr ticket"
    unfolding requestSignalingTicket_def generated_RequestLegacySignalingTicket_def
    by (auto elim!: lbind_OkE simp: lift_Ok lfail_def split: if_splits)
  then show ?thesis using client_do_Ok by blast
qed

lemma DialSignaling_Inr:
  "DialSignaling dial wsURL = Inr conn \<longleftrightarrow> validateSignalingDialURL wsURL = None \<and> dial wsURL = Inr (Some conn)"
  by (auto simp: DialSignaling_def split: option.splits sum.splits)

lemma dial_signaling_socket_Inr:
  "dial_signaling_socket c clientID ticket dial = Inr conn \<longleftrightarrow>
   (\<exists>wsURL. checked_signaling_url (cl_signalingWebSocketURL c) clientID ticket = Inr wsURL
      \<and> validateSignalingDialURL wsURL = None \<and> dial wsURL = Inr (Some conn))"
  by (auto simp: dial_signaling_socket_def DialSignaling_Inr [symmetric] split: sum.splits)

text \<open>The connection that was dialed, for a ticket in the answer to the last request before \<open>w\<close>.\<close>

definition dialed_with_ticket ::
  "ring_call \<Rightarrow> auth_context \<Rightarrow> string \<Rightarrow> ((string \<times> string) list \<Rightarrow> string \<Rightarrow> goerr + 'c option) \<Rightarrow> 'c \<Rightarrow> http_state \<Rightarrow> bool"
where
  "dialed_with_ticket g auth clientID dial conn w \<longleftrightarrow>
     (\<exists>reply ticket wsURL. he_server (rg_env g) (hs_sent w) = Inr reply
        \<and> ticket_response (hp_resp reply) (hp_body reply) (hp_json reply) = Inr ticket \<and> ticket \<noteq> []
        \<and> checked_signaling_url (cl_signalingWebSocketURL (rg_client g)) clientID ticket = Inr wsURL
        \<and> validateSignalingDialURL wsURL = None
        \<and> dial (socket_headers g (accountContext g auth)) wsURL = Inr (Some conn))"

lemma OpenSignaling_Ok:
  assumes "ring_OpenSignaling g auth clientID dial w = (Ok (conn, c), w')"
  shows "c = new_connection \<and> dialed_with_ticket g auth clientID dial conn w'"
proof -
  let ?call = "accountContext g auth"
  from assms obtain ticket and w1 :: http_state where
    ticket: "requestSignalingTicket g ?call w = (Ok ticket, w1)"
    and dial: "dial_signaling_socket (rg_client g) clientID ticket (dial (socket_headers g ?call)) = Inr conn"
    and c: "c = new_connection" "w' = w1"
    by (auto elim!: lbind_OkE simp: ring_OpenSignaling_def Let_def lift_Ok lreturn_def split: option.splits)
  from requestSignalingTicket_Ok [OF ticket] obtain reply where
    "he_server (rg_env g) (hs_sent w1) = Inr reply"
    "ticket_response (hp_resp reply) (hp_body reply) (hp_json reply) = Inr ticket" by blast
  with ticket_response_nonempty dial c show ?thesis
    unfolding dialed_with_ticket_def dial_signaling_socket_Inr by blast
qed


section \<open>Captured tickets\<close>

lemma sends_captured_tickets:
  assumes "auth_AccessToken auth \<noteq> []"
  shows "sends 1 (ticket_request g auth)
    (generated_GetCapturedLocationTicketsWithResponse (rg_env g) (rg_runtime g)
       \<lparr>gc_Server = solutions_server g, gc_RequestEditors = []\<rparr> params
       [tickets_editor g (accountContext g auth) (auth_AccessToken auth)])"
  unfolding generated_GetCapturedLocationTicketsWithResponse_def with_response_def
    generated_GetCapturedLocationTickets_def NewGetCapturedLocationTicketsRequest_def
  using assms
  by (intro sends_then [OF sends_client_do sends_none(3)])
     (auto dest!: build_request_sound
       simp: ticket_request_def tickets_editor_def header_def at_origin_def gm_wf_def Let_def)

lemma sends_GetCapturedTickets:
  "sends 1 (ticket_request g auth) (ring_GetCapturedTickets g auth params)"
  unfolding ring_GetCapturedTickets_def Let_def
  by (cases "auth_AccessToken auth = []")
     (auto simp: solutions_client intro: sends_mono [OF sends_none(2)] sends_none
       intro!: sends_then [OF sends_wrap [OF sends_captured_tickets [unfolded One_nat_def]]])

lemma captured_tickets_reply:
  assumes "ParseGetCapturedLocationTicketsResponse reply = Inr response" "captured_tickets response = Inr v"
  shows "\<exists>tickets. resp_code (hp_resp reply) = 200 \<and> rest_decode CapturedTickets_model (hp_json reply) = (tickets, False)
    \<and> rest_string CapturedTickets_model ''ticket'' tickets \<noteq> []
    \<and> projectCaptured CapturedTickets_projection CapturedTickets_model tickets = Inr v"
proof -
  from assms(2) obtain tickets where "response_field ''JSON200'' response = Some tickets"
    "rest_string CapturedTickets_model ''ticket'' tickets \<noteq> []"
    "projectCaptured CapturedTickets_projection CapturedTickets_model tickets = Inr v"
    by (auto simp: captured_tickets_def split: option.splits if_splits)
  moreover from parse_response_field [OF assms(1) [unfolded ParseGetCapturedLocationTicketsResponse_def] this(1)]
  have "resp_code (hp_resp reply) = 200 \<and> rest_decode CapturedTickets_model (hp_json reply) = (tickets, False)" by auto
  ultimately show ?thesis by blast
qed

lemma GetCapturedTickets_Ok:
  assumes "ring_GetCapturedTickets g auth params w = (Ok v, w')"
  shows "\<exists>reply tickets. he_server (rg_env g) (hs_sent w') = Inr reply \<and> resp_code (hp_resp reply) = 200
    \<and> rest_decode CapturedTickets_model (hp_json reply) = (tickets, False)
    \<and> rest_string CapturedTickets_model ''ticket'' tickets \<noteq> []
    \<and> projectCaptured CapturedTickets_projection CapturedTickets_model tickets = Inr v"
proof -
  from assms obtain reply response c es b and w1 :: http_state where
    reply: "client_do (rg_env g) c es b w1 = (Ok reply, w')"
    and parsed: "ParseGetCapturedLocationTicketsResponse reply = Inr response" "captured_tickets response = Inr v"
    unfolding ring_GetCapturedTickets_def generated_GetCapturedLocationTicketsWithResponse_def with_response_def
      generated_GetCapturedLocationTickets_def
    by (auto elim!: lbind_OkE simp: Let_def lift_Ok lfail_def split: if_splits)
  from client_do_Ok [OF reply] captured_tickets_reply [OF parsed] show ?thesis by blast
qed

text \<open>Reading the captured tickets sends at most one request, which goes to the Solutions origin with the credentials of
  that call. Tickets that are returned are the projection of a reply of status 200 which decodes without an error
  and whose ticket is not empty.\<close>

theorem captured_tickets_confined:
  "\<exists>reqs. hs_sent (snd (ring_GetCapturedTickets g auth params w)) = hs_sent w @ reqs
     \<and> list_all (ticket_request g auth) reqs \<and> length reqs \<le> 1
     \<and> (case ring_GetCapturedTickets g auth params w of
          (Ok v, w') \<Rightarrow>
            (\<exists>reply tickets. he_server (rg_env g) (hs_sent w') = Inr reply \<and> resp_code (hp_resp reply) = 200
               \<and> rest_decode CapturedTickets_model (hp_json reply) = (tickets, False)
               \<and> rest_string CapturedTickets_model ''ticket'' tickets \<noteq> []
               \<and> projectCaptured CapturedTickets_projection CapturedTickets_model tickets = Inr v)
        | _ \<Rightarrow> True)"
proof -
  from sends_GetCapturedTickets [of g auth params] obtain reqs where
    "hs_sent (snd (ring_GetCapturedTickets g auth params w)) = hs_sent w @ reqs"
    "list_all (ticket_request g auth) reqs" "length reqs \<le> 1" by (rule sendsE)
  then show ?thesis
    by (intro exI [of _ reqs]) (auto dest!: GetCapturedTickets_Ok split: prod.split outcome.split)
qed

section \<open>Listening\<close>

lemma wrapped_closed:
  "IsClosedError (Some (NewConnectionError m c)) \<longleftrightarrow> IsClosedError c"
  "IsClosedError (Some (NewClosedError m [c]))"
  by (cases c; simp add: IsClosedError_def errors_as_option_def errors_as_def new_error_defs error_chain.simps)+

lemma receive_error_closed:
  assumes "receive_event received = Err err"
  shows "IsClosedError (Some err) \<longleftrightarrow> (\<exists>c. received = Failure c \<and> IsClosedError (Some c))"
proof (cases received)
  case (Failure c)
  with assms show ?thesis by (auto simp: receive_event_def wrapped_closed split: if_splits)
next
  case (Event e)
  have "\<not> IsClosedError None" "\<not> IsClosedError (Some JSONError)"
    by (simp_all add: IsClosedError_def errors_as_option_def errors_as_def error_chain.simps)
  with Event assms show ?thesis
    by (auto simp: receive_event_def wrapped_closed obind_Err_iff on_decode_def split: decoded.splits option.splits)
qed

text \<open>The callback sees the events in the order in which they arrive, each once, and as long as it accepts them.\<close>

lemma Listen_in_order:
  assumes "Listen (Some f) seen rs = Ok (seen', r)"
  shows "\<exists>events. seen' = seen @ events \<and> length events \<le> length rs
    \<and> map (\<lambda>r. receive_event (lr_received r)) (take (length events) rs) = map Ok events
    \<and> (r = Some None \<longrightarrow> length events < length rs \<and> (\<exists>err. lr_received (rs ! length events) = Failure err \<and> IsClosedError (Some err)))"
  using assms
proof (induction rs arbitrary: seen)
  case (Cons x rs)
  show ?case
  proof (cases "lr_before x")
    case None
    show ?thesis
    proof (cases "receive_event (lr_received x)")
      case (Ok event)
      then show ?thesis
      proof (cases "f seen event")
        case None
        with Cons.prems Ok \<open>lr_before x = None\<close> have "Listen (Some f) (seen @ [event]) rs = Ok (seen', r)" by simp
        from Cons.IH [OF this] obtain events where
          "seen' = (seen @ [event]) @ events" "length events \<le> length rs"
          "map (\<lambda>r. receive_event (lr_received r)) (take (length events) rs) = map Ok events"
          "r = Some None \<longrightarrow> length events < length rs
            \<and> (\<exists>err. lr_received (rs ! length events) = Failure err \<and> IsClosedError (Some err))" by blast
        with Ok show ?thesis by (intro exI [of _ "event # events"]) simp
      qed (use Cons.prems Ok \<open>lr_before x = None\<close> in \<open>auto intro: exI [of _ "[event]"]\<close>)
    next
      case (Err err)
      then show ?thesis using Cons.prems \<open>lr_before x = None\<close>
        by (auto simp: receive_error_closed split: option.splits if_splits)
    qed (use Cons.prems \<open>lr_before x = None\<close> in simp)
  qed (use Cons.prems in auto)
qed simp

end
