(* ===== verification/Routes.thy ===== *)
theory Routes
  imports RestRequests
begin

text \<open>
  Where in a server the built requests go. A path parameter is escaped into one segment of the path, and the route of
  the operation survives the resolution against the server URL, unless the parameter is a dot segment.
\<close>

section \<open>Segments\<close>

definition segments :: "string list \<Rightarrow> string" where
  "segments es = concat (map (\<lambda>e. ''/'' @ e) es)"

definition route_char :: "char \<Rightarrow> bool" where
  "route_char c \<longleftrightarrow> path_char c \<or> c = CHR ''%''"

definition decodes :: "string \<Rightarrow> bool" where
  "decodes s = (case unescape encodePath s of Inr _ \<Rightarrow> True | Inl _ \<Rightarrow> False)"

definition route_segment :: "string \<Rightarrow> bool" where
  "route_segment e \<longleftrightarrow> list_all route_char e \<and> decodes e \<and> e \<noteq> ''.'' \<and> e \<noteq> ''..''"

lemma segments_append: "segments (as @ bs) = segments as @ segments bs"
  by (simp add: segments_def)

lemma segments_simps [simp]: "segments [] = []" "segments (e # es) = CHR ''/'' # e @ segments es"
  by (simp_all add: segments_def)

lemma route_char_not:
  "\<not> route_char (CHR ''/'')" "\<not> route_char (CHR ''?'')" "\<not> route_char (CHR ''#'')"
  by (simp_all add: route_char_def path_char_def is_alnum_def)

lemma route_char_control: "route_char c \<Longrightarrow> \<not> isControl c"
  by (auto simp: route_char_def path_char_def isControl_def is_alnum_def Let_def)

text \<open>The bytes of a path made of segments.\<close>

lemma segments_chars: "list_all route_segment es \<Longrightarrow> list_all (\<lambda>c. route_char c \<or> c = CHR ''/'') (segments es)"
  by (induction es) (auto simp: route_segment_def list_all_iff)

lemma unescape_append:
  "unescape encodePath a = Inr x \<Longrightarrow> unescape encodePath (a @ b) = map_sum id (\<lambda>y. x @ y) (unescape encodePath b)"
proof (induction encodePath a arbitrary: x rule: unescape.induct)
  case 1
  then show ?case by (cases "unescape encodePath b") simp_all
next
  case (2 c s)
  show ?case
  proof (cases "c = CHR ''%''")
    case True
    with "2.prems" obtain y z r t where s: "s = y # z # r" "ishex y" "ishex z" "escape_ok encodePath y z"
      and t: "unescape encodePath r = Inr t" "x = char_of (unhex y * 16 + unhex z) # t"
      by (auto split: list.splits if_splits simp: map_sum_def sum.case_eq_if) (metis sum.collapse(2))
    from "2.hyps"(1) [OF True s(1) refl] s t(1)
    have "unescape encodePath (r @ b) = map_sum id (\<lambda>y. t @ y) (unescape encodePath b)" by simp
    with True s t show ?thesis by (cases "unescape encodePath b") simp_all
  next
    case False
    with "2.prems" obtain t where t: "unescape encodePath s = Inr t" "x = c # t"
      by (cases "unescape encodePath s") auto
    from "2.hyps"(2) [OF False _ t(1)] have "unescape encodePath (s @ b) = map_sum id (\<lambda>y. t @ y) (unescape encodePath b)"
      by simp
    with False t show ?thesis by (cases "unescape encodePath b") simp_all
  qed
qed

lemma decodes_append: "decodes a \<Longrightarrow> decodes b \<Longrightarrow> decodes (a @ b)"
  using unescape_append by (auto simp: decodes_def split: sum.splits)

lemma decodes_plain: "c \<noteq> CHR ''%'' \<Longrightarrow> decodes (c # s) = decodes s"
  by (cases "unescape encodePath s") (simp_all add: decodes_def)

lemma decodes_segments: "list_all route_segment es \<Longrightarrow> decodes (segments es)"
proof (induction es)
  case (Cons e es)
  then have "decodes e" "decodes (segments es)" by (simp_all add: route_segment_def)
  then show ?case by (simp add: decodes_plain decodes_append)
qed (simp add: decodes_def)

section \<open>Resolving a path of segments\<close>

lemma path_elements_append:
  assumes "CHR ''/'' \<notin> set e"
  shows "path_elements (e @ CHR ''/'' # s) = e # path_elements s" "path_elements e = [e]"
proof -
  define f where "f = (\<lambda>c (cur, es). if c = CHR ''/'' then ([], cur # es) else (c # cur, es :: string list))"
  have "foldr f e (cur, es) = (e @ cur, es)" for cur es
    using assms by (induction e) (auto simp: f_def)
  then show "path_elements (e @ CHR ''/'' # s) = e # path_elements s" "path_elements e = [e]"
    by (auto simp: path_elements_def f_def [symmetric] split: prod.split) (simp_all add: f_def)
qed

lemma path_elements_segments:
  "list_all (\<lambda>e. CHR ''/'' \<notin> set e) (e # es) \<Longrightarrow> path_elements (e @ segments es) = e # es"
proof (induction es arbitrary: e)
  case (Cons x es)
  then show ?case using path_elements_append(1) [of e "x @ segments es"] by simp
qed (simp add: path_elements_append)

lemma resolve_segments:
  "list_all route_segment es \<Longrightarrow> resolve_elements dst False (es @ fs) = resolve_elements (dst @ segments es) False fs"
  by (induction es arbitrary: dst) (auto simp: route_segment_def)

lemma no_slash: "route_segment e \<Longrightarrow> CHR ''/'' \<notin> set e"
  using route_char_not by (auto simp: route_segment_def list_all_iff)

text \<open>A base path that ends in a slash, and a reference that starts with a dot segment, as the builders make it.\<close>

lemma resolvePath_segments:
  assumes "list_all route_segment bs" "list_all route_segment es" "es \<noteq> []"
  shows "resolvePath (segments bs @ ''/'') (''.'' @ segments es) = segments (bs @ es)"
proof -
  have cut: "cut_last (CHR ''/'') (segments bs @ ''/'') = Some (segments bs, [])" by (simp add: cut_last_def)
  have full: "segments bs @ ''/'' @ ''.'' @ segments es = segments (bs @ ''.'' # es)"
    by (simp add: segments_append)
  have els: "path_elements (segments (bs @ ''.'' # es)) = [] # bs @ ''.'' # es"
  proof -
    have "list_all (\<lambda>e. CHR ''/'' \<notin> set e) ([] # bs @ ''.'' # es)"
      using assms(1,2) no_slash by (auto simp: list_all_iff)
    from path_elements_segments [OF this] show ?thesis by simp
  qed
  have some: "segments (bs @ ''.'' # es) \<noteq> []" "''.'' @ segments es \<noteq> []" by (simp_all add: segments_append)
  have last: "last ([] # bs @ ''.'' # es) \<noteq> ''.''" "last ([] # bs @ ''.'' # es) \<noteq> ''..''"
    using assms last_in_set by (auto simp: list_all_iff route_segment_def)
  have "resolve_elements ''/'' True ([] # bs @ ''.'' # es) = resolve_elements ''/'' False (bs @ ''.'' # es @ [])" by simp
  also have "\<dots> = ''/'' @ segments (bs @ es)"
    by (simp only: resolve_segments [OF assms(1)]) (simp add: resolve_segments [OF assms(2), where fs = "[]", simplified] segments_append)
  finally have res: "resolve_elements ''/'' True ([] # bs @ ''.'' # es) = ''/'' @ segments (bs @ es)" .
  obtain c t where t: "segments (bs @ es) = CHR ''/'' # t"
    using assms(3) by (cases "bs @ es") auto
  have hd: "hd (''.'' @ segments es) \<noteq> CHR ''/''" by simp
  show ?thesis unfolding resolvePath_def Let_def
    by (simp only: cut hd if_True if_False option.case prod.case simp_thms append_assoc full els res last some)
       (simp add: t)
qed

section \<open>The escaped parameter\<close>

lemma path_char_plain: "path_char c \<Longrightarrow> c \<noteq> CHR ''%''"
  by (auto simp: path_char_def is_alnum_def)

lemma PathEscape_Cons:
  "PathEscape (c # s) = (if path_char c then [c]
     else [CHR ''%'', upper_hex ((of_char c :: nat) div 16), upper_hex ((of_char c :: nat) mod 16)]) @ PathEscape s"
  by (simp add: PathEscape_def)

lemma char_nibbles: "(of_char (c :: char) :: nat) div 16 < 16" "(of_char (c :: char) :: nat) mod 16 < 16"
  using of_char_less [of c] by (intro less_mult_imp_div_less) simp_all

lemma unescape_PathEscape: "unescape encodePath (PathEscape s) = Inr s"
proof (induction s)
  case (Cons c s)
  have ok: "escape_ok encodePath x y" for x y by (simp add: escape_ok_def)
  with Cons char_nibbles [of c] path_char_plain show ?case by (auto simp: PathEscape_Cons hex_pair)
qed (simp add: PathEscape_def)

lemma PathEscape_route: "list_all route_char (PathEscape s)"
proof (induction s)
  case (Cons c s)
  from Cons is_alnum_upper_hex [OF char_nibbles(1) [of c]] is_alnum_upper_hex [OF char_nibbles(2) [of c]] show ?case
    by (auto simp: PathEscape_Cons route_char_def path_char_def)
qed (simp add: PathEscape_def)

lemma PathEscape_segment:
  assumes "s \<noteq> ''.''" "s \<noteq> ''..''"
  shows "route_segment (PathEscape s)"
proof -
  have "PathEscape s \<noteq> t" if "s \<noteq> t" "unescape encodePath t = Inr t" for t
    using that unescape_PathEscape [of s] by auto
  with assms PathEscape_route unescape_PathEscape show ?thesis by (auto simp: route_segment_def decodes_def)
qed

section \<open>The URL of a request\<close>

lemma route_valid: "route_char c \<or> c = CHR ''/'' \<Longrightarrow> c \<in> set ''!$&()*+,;=:@[]%'' \<or> c = CHR 0x27 \<or> \<not> shouldEscape c encodePath"
  by (auto simp: route_char_def path_char_def shouldEscape_def)

lemma setPath_EscapedPath:
  assumes "setPath p u = Inr v" "list_all (\<lambda>c. route_char c \<or> c = CHR ''/'') p" "hd p \<in> {CHR ''/'', CHR ''.''}" "p \<noteq> []"
  shows "EscapedPath v = p" "u_Path v \<noteq> []"
proof -
  from assms(1) obtain path where path: "unescape encodePath p = Inr path"
    and v: "v = u\<lparr>u_Path := path, u_RawPath := if p = url_escape encodePath path then [] else p\<rparr>"
    by (auto simp: setPath_def split: sum.splits)
  obtain q where "p = hd p # q" using assms(4) by (cases p) auto
  with path assms(3) have "path \<noteq> ''*'' \<and> path \<noteq> []"
    by (cases "unescape encodePath q") auto
  moreover have "validEncoded p encodePath"
    using assms(2) route_valid by (auto simp: validEncoded_def list_all_iff)
  ultimately show "EscapedPath v = p" "u_Path v \<noteq> []"
    using path assms(4) by (auto simp: v EscapedPath_def)
qed

lemma setPath_total: "decodes p \<Longrightarrow> \<exists>v. setPath p u = Inr v"
  by (auto simp: decodes_def setPath_def split: sum.splits)

lemma setPath_other: "setPath p u = Inr v \<Longrightarrow> u_RawQuery v = u_RawQuery u \<and> u_ForceQuery v = u_ForceQuery u
    \<and> u_Fragment v = u_Fragment u"
  by (auto simp: setPath_def split: sum.splits)

lemma path_text_plain:
  assumes "list_all (\<lambda>c. route_char c \<or> c = CHR ''/'') p"
  shows "CHR ''?'' \<notin> set p" "CHR ''#'' \<notin> set p" "\<not> list_ex isControl p"
proof -
  have slash: "\<not> isControl (CHR ''/'')" by (simp add: isControl_def)
  show "CHR ''?'' \<notin> set p" "CHR ''#'' \<notin> set p"
    using assms route_char_not unfolding list_all_iff by blast+
  show "\<not> list_ex isControl p"
    using assms slash route_char_control unfolding list_all_iff list_ex_iff by blast
qed

lemma no_suffix: "c \<notin> set p \<Longrightarrow> \<not> has_suffix p [c]"
  unfolding has_suffix_def by (metis in_set_dropD list.set_intros(1))

text \<open>The reference that a builder makes out of a path of segments.\<close>

lemma parse_route:
  assumes "list_all route_segment es" "es \<noteq> []"
  obtains ref where "url_parse (''.'' @ segments es) = Inr ref" "EscapedPath ref = ''.'' @ segments es"
    "u_RawQuery ref = []" "\<not> u_ForceQuery ref" "u_Fragment ref = []"
proof -
  let ?p = "''.'' @ segments es"
  obtain t where t: "segments es = CHR ''/'' # t" using assms(2) by (cases es) auto
  have chars: "list_all (\<lambda>c. route_char c \<or> c = CHR ''/'') ?p"
    using segments_chars [OF assms(1)] by (simp add: route_char_def path_char_def)
  from path_text_plain [OF this]
  have no: "CHR ''?'' \<notin> set ?p" "CHR ''#'' \<notin> set ?p" "\<not> list_ex isControl ?p" .
  have query: "split_query ?p = (?p, [], False)"
    using no(1) no_suffix [OF no(1)]
    unfolding split_query_def by (simp add: cut_absent)
  obtain v where v: "setPath ?p empty_url = Inr v"
    using setPath_total [of ?p] decodes_plain [of "CHR ''.''"] decodes_segments [OF assms(1)] by auto
  have "getScheme ?p = Inr ([], ?p)" by (simp add: getScheme_def is_letter_def is_alnum_def is_digit_def t)
  with no query v t have "parse_url0 ?p = Inr v"
    by (simp add: parse_url0_def parse_hier_def cut_def empty_url_def)
  with no(2) have "url_parse ?p = Inr v" by (simp add: url_parse_def cut_absent)
  moreover have "EscapedPath v = ?p" using setPath_EscapedPath [OF v chars] by simp
  ultimately show ?thesis using setPath_other [OF v] by (intro that) (auto simp: empty_url_def)
qed

text \<open>A server URL with a host, whose path is made of segments and ends in a slash.\<close>

definition route_server :: "string \<Rightarrow> url \<Rightarrow> string list \<Rightarrow> bool" where
  "route_server server s bs \<longleftrightarrow>
     url_parse server = Inr s \<and> u_Scheme s \<noteq> [] \<and> u_Host s \<noteq> [] \<and> EscapedPath s = segments bs @ ''/''
     \<and> list_all route_segment bs"

lemma ResolveReference_route:
  assumes s: "EscapedPath s = segments bs @ ''/''" "list_all route_segment bs"
    and es: "list_all route_segment es" "es \<noteq> []"
    and ref: "url_parse (''.'' @ segments es) = Inr ref" "EscapedPath ref = ''.'' @ segments es"
      "u_RawQuery ref = []" "\<not> u_ForceQuery ref" "u_Fragment ref = []"
  shows "same_origin s (ResolveReference s ref) \<and> EscapedPath (ResolveReference s ref) = segments (bs @ es)
    \<and> \<not> u_ForceQuery (ResolveReference s ref) \<and> u_Fragment (ResolveReference s ref) = []
    \<and> u_RawQuery (ResolveReference s ref) = []"
proof -
  obtain r where "segments es = CHR ''/'' # r" using es(2) by (cases es) auto
  with ref(1) relative_reference [of r] have rel: "u_Scheme ref = [] \<and> u_Host ref = [] \<and> u_User ref = None
      \<and> u_Opaque ref = [] \<and> u_Path ref \<noteq> []" by simp
  let ?r = "ref\<lparr>u_Scheme := u_Scheme s, u_Host := u_Host s, u_User := u_User s\<rparr>"
  have eq: "ResolveReference s ref = setPath_ignore (segments (bs @ es)) ?r"
    using rel by (simp add: ResolveReference_def Let_def s(1) ref(2) resolvePath_segments [OF s(2) es, simplified])
  have all: "list_all route_segment (bs @ es)" using s(2) es(1) by simp
  obtain v where v: "setPath (segments (bs @ es)) ?r = Inr v" using setPath_total [OF decodes_segments [OF all]] by blast
  have "segments (bs @ es) \<noteq> []" "hd (segments (bs @ es)) = CHR ''/''" using es(2) by (cases "bs @ es"; simp)+
  with setPath_EscapedPath(1) [OF v segments_chars [OF all]] have "EscapedPath v = segments (bs @ es)" by simp
  with eq v setPath_other [OF v] ref(3-5) ResolveReference_origin [OF rel, of s] show ?thesis
    by (simp add: setPath_ignore_def)
qed

lemma url_String_route:
  assumes "same_origin s u" "u_Scheme s \<noteq> []" "u_Host s \<noteq> []" "EscapedPath u = CHR ''/'' # t"
    "\<not> u_ForceQuery u" "u_Fragment u = []"
  shows "url_String u = origin_text s @ EscapedPath u @ (if u_RawQuery u = [] then [] else ''?'' @ u_RawQuery u)"
proof -
  have "origin_String u = ''//'' @ (case u_User s of None \<Rightarrow> [] | Some ui \<Rightarrow> userinfo_String ui @ ''@'')
      @ url_escape encodeHost (u_Host s)"
    using assms by (simp add: origin_String_def same_origin_def)
  with assms show ?thesis by (simp add: url_String_def Let_def same_origin_def origin_text_def)
qed

lemma build_request_route:
  assumes server: "route_server server s bs"
    and path: "style_path rt path = Inr (segments es)" "list_all route_segment es" "es \<noteq> []"
    and built: "build_request rt verb server path params body = Inr req"
  shows "\<exists>q. hr_url req = origin_text s @ segments (bs @ es) @ q \<and> (q = [] \<or> params \<noteq> None \<and> hd q = CHR ''?'')"
proof -
  from server have s: "url_parse server = Inr s" "u_Scheme s \<noteq> []" "u_Host s \<noteq> []" "EscapedPath s = segments bs @ ''/''"
    "list_all route_segment bs" by (auto simp: route_server_def)
  from parse_route [OF path(2,3)] obtain ref where ref: "url_parse (''.'' @ segments es) = Inr ref"
    "EscapedPath ref = ''.'' @ segments es" "u_RawQuery ref = []" "\<not> u_ForceQuery ref" "u_Fragment ref = []" by blast
  have op: "operation_ref (segments es) = ''.'' @ segments es"
    using path(3) by (cases es) (simp_all add: operation_ref_def)
  let ?u = "ResolveReference s ref"
  note r = ResolveReference_route [OF s(4,5) path(2,3) ref]
  obtain t where t: "segments (bs @ es) = CHR ''/'' # t" using path(3) by (cases "bs @ es") auto
  have same: "u\<lparr>u_RawQuery := []\<rparr> = u" if "u_RawQuery u = []" for u :: url using that by (cases u) simp
  obtain q where q: "params = None \<longrightarrow> q = []" and "req = \<lparr>hr_method = verb, hr_url = url_String (?u\<lparr>u_RawQuery := q\<rparr>), hr_headers = [], hr_body = body\<rparr>"
  proof (cases params)
    case None
    with built path(1) s(1) op ref(1) have "new_request verb (url_String ?u) body = Inr req"
      by (simp add: build_request_def)
    from new_request_Inr [OF this] show ?thesis using that [of "[]"] r same by simp
  next
    case (Some ps)
    with built path(1) s(1) op ref(1) obtain q where "new_request verb (url_String (?u\<lparr>u_RawQuery := q\<rparr>)) body = Inr req"
      by (auto simp: build_request_def Let_def split: sum.splits)
    from new_request_Inr [OF this] Some show ?thesis using that [of q] by simp
  qed
  moreover have "EscapedPath (?u\<lparr>u_RawQuery := q\<rparr>) = EscapedPath ?u" by (simp add: EscapedPath_def)
  ultimately have "hr_url req = origin_text s @ segments (bs @ es) @ (if q = [] then [] else ''?'' @ q)"
    using url_String_route [of s "?u\<lparr>u_RawQuery := q\<rparr>" t] r s(2,3) t by (simp add: same_origin_def)
  with q show ?thesis by (intro exI [of _ "if q = [] then [] else ''?'' @ q"]) auto
qed

text \<open>A parameter of the path: the builders have it as the segment between two literals.\<close>

lemma build_request_parameter_route:
  assumes "runtime_documented rt" "route_server server s bs"
    and "list_all route_segment pre" "list_all route_segment post" "param_text v \<noteq> ''.''" "param_text v \<noteq> ''..''"
    and "build_request rt verb server (segments pre @ ''/'', Some (name, v, segments post)) params body = Inr req"
  shows "\<exists>q. hr_url req = origin_text s @ segments (bs @ pre @ PathEscape (param_text v) # post) @ q
    \<and> (q = [] \<or> params \<noteq> None \<and> hd q = CHR ''?'')"
proof (rule build_request_route [OF assms(2) _ _ _ assms(7)])
  show "style_path rt (segments pre @ ''/'', Some (name, v, segments post))
      = Inr (segments (pre @ PathEscape (param_text v) # post))"
    using assms(1) by (simp add: style_path_def runtime_documented_def segments_append)
  show "list_all route_segment (pre @ PathEscape (param_text v) # post)"
    using assms(3,4) PathEscape_segment [OF assms(5,6)] by simp
qed simp

section \<open>Locations\<close>

text \<open>C40: a location identifier stays one segment of the route. For any text but the dot segments, with slashes, question
  marks, percent signs or anything else in it, the three requests about a location go to exactly their routes
  below the server URL, and decoding the segment gives the identifier back; only the detail has a query.\<close>

theorem location_id_keeps_route:
  assumes "runtime_documented rt" "route_server server s bs" "locationId \<noteq> ''.''" "locationId \<noteq> ''..''"
    and "NewListLocationDevicesRequest rt server locationId = Inr devices"
    and "NewListLocationGroupsRequest rt server locationId = Inr groups"
    and "NewGetLocationRequest rt server locationId params = Inr detail"
  shows "hr_url devices = origin_text s @ segments (bs @ [''groups'', ''v1'', ''locations'', PathEscape locationId, ''devices''])
    \<and> hr_url groups = origin_text s @ segments (bs @ [''groups'', ''v1'', ''locations'', PathEscape locationId, ''groups''])
    \<and> (\<exists>q. hr_url detail = origin_text s @ segments (bs @ [''location_info'', ''v4'', ''locations'', PathEscape locationId]) @ q
          \<and> (q = [] \<or> hd q = CHR ''?''))
    \<and> unescape encodePath (PathEscape locationId) = Inr locationId
    \<and> list_all (\<lambda>c. c \<notin> set ''/?#'') (PathEscape locationId)"
proof -
  have lits: "list_all route_segment [''groups'', ''v1'', ''locations'']" "list_all route_segment [''devices'']"
    "list_all route_segment [''groups'']" "list_all route_segment [''location_info'', ''v4'', ''locations'']"
    by code_simp+
  note r = build_request_parameter_route [OF assms(1,2) _ _, where v = "StringParam locationId", simplified param_text_def param.case, OF _ _ assms(3,4)]
  have "list_all (\<lambda>c. c \<notin> set ''/?#'') (PathEscape locationId)"
    using PathEscape_route [of locationId] route_char_not by (auto simp: list_all_iff)
  moreover have "hr_url devices = origin_text s @ segments (bs @ [''groups'', ''v1'', ''locations'', PathEscape locationId, ''devices''])"
    using r [OF lits(1,2)] assms(5) by (fastforce simp: NewListLocationDevicesRequest_def)
  moreover have "hr_url groups = origin_text s @ segments (bs @ [''groups'', ''v1'', ''locations'', PathEscape locationId, ''groups''])"
    using r [OF lits(1,3)] assms(6) by (fastforce simp: NewListLocationGroupsRequest_def)
  moreover have "\<exists>q. hr_url detail = origin_text s @ segments (bs @ [''location_info'', ''v4'', ''locations'', PathEscape locationId]) @ q
          \<and> (q = [] \<or> hd q = CHR ''?'')"
    using r [OF lits(4), of "[]"] assms(7) by (fastforce simp: NewGetLocationRequest_def)
  ultimately show ?thesis using unescape_PathEscape by simp
qed

definition sample_server :: url where
  "sample_server = (case url_parse ''https://api.ring.com/'' of Inr s \<Rightarrow> s | Inl _ \<Rightarrow> empty_url)"

theorem location_id_keeps_route_witness:
  "\<exists>devices. NewListLocationDevicesRequest documented_runtime ''https://api.ring.com/'' ''../a b'' = Inr devices
     \<and> hr_url devices = ''https://api.ring.com/groups/v1/locations/..%2Fa%20b/devices''"
proof -
  have server: "route_server ''https://api.ring.com/'' sample_server []" by code_simp
  have built: "\<not> isl (NewListLocationDevicesRequest documented_runtime ''https://api.ring.com/'' ''../a b'')"
    "\<not> isl (NewListLocationGroupsRequest documented_runtime ''https://api.ring.com/'' ''../a b'')"
    "\<not> isl (NewGetLocationRequest documented_runtime ''https://api.ring.com/'' ''../a b'' None)" by code_simp+
  then obtain devices groups detail where
    "NewListLocationDevicesRequest documented_runtime ''https://api.ring.com/'' ''../a b'' = Inr devices"
    "NewListLocationGroupsRequest documented_runtime ''https://api.ring.com/'' ''../a b'' = Inr groups"
    "NewGetLocationRequest documented_runtime ''https://api.ring.com/'' ''../a b'' None = Inr detail"
    by (metis isl_def sum.collapse(2))
  note requests = this
  from location_id_keeps_route [OF runtime_documented_possible server _ _ requests]
  have "hr_url devices = origin_text sample_server @ segments [''groups'', ''v1'', ''locations'', PathEscape ''../a b'', ''devices'']"
    by simp
  moreover have "origin_text sample_server @ segments [''groups'', ''v1'', ''locations'', PathEscape ''../a b'', ''devices'']
      = ''https://api.ring.com/groups/v1/locations/..%2Fa%20b/devices''" by code_simp
  ultimately show ?thesis using requests(1) by simp
qed

text \<open>The identifier \<open>..\<close> is not blank, and leaves the route.\<close>

lemma dot_dot_leaves_route:
  "map_sum id hr_url (NewListLocationDevicesRequest documented_runtime ''https://api.ring.com/'' ''..'')
     = Inr ''https://api.ring.com/groups/v1/devices''"
  by code_simp

end
