(* ===== verification/PushNotifications.thy ===== *)
theory PushNotifications
  imports RestModels AccountSafety
begin

text \<open>
  Push notifications: the generated FCM models (\<open>pkg/dependencymodels/fcm\<close>), the reading of a notification, and the
  connection that registers a receiver with Ring and passes its events on (\<open>pkg/ring/client_push.go\<close>), with the
  translation of the receiver's events (\<open>pkg/dependencies/push/receiver.go\<close>). The receiver itself is third-party code:
  what it reports is a list of events.
\<close>

section \<open>Models\<close>

definition FCMRegistrationResponse_model :: rest_type where
  "FCMRegistrationResponse_model = RStruct
     [(''pushSet'', True, RPtr (RPlain TString)),
      (''token'', False, RPlain TString)]"

definition FCMRegistrationResponse_MarshalJSON :: "rest_value \<Rightarrow> json" where
  "FCMRegistrationResponse_MarshalJSON = rest_marshal FCMRegistrationResponse_model"

definition FCMRegistrationResponse_UnmarshalJSON :: "rest_value \<Rightarrow> json \<Rightarrow> rest_value \<times> bool" where
  "FCMRegistrationResponse_UnmarshalJSON = rest_unmarshal FCMRegistrationResponse_model"

lemma FCMRegistrationResponse_wf [rest_wf_models]: "rest_wf FCMRegistrationResponse_model"
  by (simp add: FCMRegistrationResponse_model_def rest_names_def rest_wf_models)

definition InstallationAuthToken_model :: rest_type where
  "InstallationAuthToken_model = RStruct
     [(''expiresIn'', True, RPtr (RPlain TString)),
      (''token'', False, RPlain TString)]"

definition InstallationAuthToken_MarshalJSON :: "rest_value \<Rightarrow> json" where
  "InstallationAuthToken_MarshalJSON = rest_marshal InstallationAuthToken_model"

definition InstallationAuthToken_UnmarshalJSON :: "rest_value \<Rightarrow> json \<Rightarrow> rest_value \<times> bool" where
  "InstallationAuthToken_UnmarshalJSON = rest_unmarshal InstallationAuthToken_model"

lemma InstallationAuthToken_wf [rest_wf_models]: "rest_wf InstallationAuthToken_model"
  by (simp add: InstallationAuthToken_model_def rest_names_def rest_wf_models)

definition InstallationResponse_model :: rest_type where
  "InstallationResponse_model = RStruct
     [(''authToken'', False, InstallationAuthToken_model),
      (''fid'', False, RPlain TString),
      (''name'', False, RPlain TString),
      (''refreshToken'', False, RPlain TString)]"

definition InstallationResponse_MarshalJSON :: "rest_value \<Rightarrow> json" where
  "InstallationResponse_MarshalJSON = rest_marshal InstallationResponse_model"

definition InstallationResponse_UnmarshalJSON :: "rest_value \<Rightarrow> json \<Rightarrow> rest_value \<times> bool" where
  "InstallationResponse_UnmarshalJSON = rest_unmarshal InstallationResponse_model"

lemma InstallationResponse_wf [rest_wf_models]: "rest_wf InstallationResponse_model"
  by (simp add: InstallationResponse_model_def rest_names_def rest_wf_models)

definition RingPushNotificationConfig_model :: rest_type where
  "RingPushNotificationConfig_model = RStruct
     [(''category'', True, RPtr (RPlain TString))]"

definition RingPushNotificationConfig_MarshalJSON :: "rest_value \<Rightarrow> json" where
  "RingPushNotificationConfig_MarshalJSON = rest_marshal RingPushNotificationConfig_model"

definition RingPushNotificationConfig_UnmarshalJSON :: "rest_value \<Rightarrow> json \<Rightarrow> rest_value \<times> bool" where
  "RingPushNotificationConfig_UnmarshalJSON = rest_unmarshal RingPushNotificationConfig_model"

lemma RingPushNotificationConfig_wf [rest_wf_models]: "rest_wf RingPushNotificationConfig_model"
  by (simp add: RingPushNotificationConfig_model_def rest_names_def rest_wf_models)

definition RingPushNotificationDevice_model :: rest_type where
  "RingPushNotificationDevice_model = RStruct
     [(''id'', True, RPtr (RPlain TInt))]"

definition RingPushNotificationDevice_MarshalJSON :: "rest_value \<Rightarrow> json" where
  "RingPushNotificationDevice_MarshalJSON = rest_marshal RingPushNotificationDevice_model"

definition RingPushNotificationDevice_UnmarshalJSON :: "rest_value \<Rightarrow> json \<Rightarrow> rest_value \<times> bool" where
  "RingPushNotificationDevice_UnmarshalJSON = rest_unmarshal RingPushNotificationDevice_model"

lemma RingPushNotificationDevice_wf [rest_wf_models]: "rest_wf RingPushNotificationDevice_model"
  by (simp add: RingPushNotificationDevice_model_def rest_names_def rest_wf_models)

definition RingPushNotificationEnvelope_model :: rest_type where
  "RingPushNotificationEnvelope_model = RStruct
     [(''android_config'', True, RPtr RUnion),
      (''data'', True, RPtr RUnion),
      (''doorbot_id'', True, RPtr (RPlain TInt))]"

definition RingPushNotificationEnvelope_MarshalJSON :: "rest_value \<Rightarrow> json" where
  "RingPushNotificationEnvelope_MarshalJSON = rest_marshal RingPushNotificationEnvelope_model"

definition RingPushNotificationEnvelope_UnmarshalJSON :: "rest_value \<Rightarrow> json \<Rightarrow> rest_value \<times> bool" where
  "RingPushNotificationEnvelope_UnmarshalJSON = rest_unmarshal RingPushNotificationEnvelope_model"

lemma RingPushNotificationEnvelope_wf [rest_wf_models]: "rest_wf RingPushNotificationEnvelope_model"
  by (simp add: RingPushNotificationEnvelope_model_def rest_names_def rest_wf_models)

definition RingPushNotificationGCMData_model :: rest_type where
  "RingPushNotificationGCMData_model = RStruct
     [(''action'', True, RPtr (RPlain TString))]"

definition RingPushNotificationGCMData_MarshalJSON :: "rest_value \<Rightarrow> json" where
  "RingPushNotificationGCMData_MarshalJSON = rest_marshal RingPushNotificationGCMData_model"

definition RingPushNotificationGCMData_UnmarshalJSON :: "rest_value \<Rightarrow> json \<Rightarrow> rest_value \<times> bool" where
  "RingPushNotificationGCMData_UnmarshalJSON = rest_unmarshal RingPushNotificationGCMData_model"

lemma RingPushNotificationGCMData_wf [rest_wf_models]: "rest_wf RingPushNotificationGCMData_model"
  by (simp add: RingPushNotificationGCMData_model_def rest_names_def rest_wf_models)

definition RingPushNotificationPayload_model :: rest_type where
  "RingPushNotificationPayload_model = RStruct
     [(''device'', True, RPtr RingPushNotificationDevice_model),
      (''gcmData'', True, RPtr RingPushNotificationGCMData_model)]"

definition RingPushNotificationPayload_MarshalJSON :: "rest_value \<Rightarrow> json" where
  "RingPushNotificationPayload_MarshalJSON = rest_marshal RingPushNotificationPayload_model"

definition RingPushNotificationPayload_UnmarshalJSON :: "rest_value \<Rightarrow> json \<Rightarrow> rest_value \<times> bool" where
  "RingPushNotificationPayload_UnmarshalJSON = rest_unmarshal RingPushNotificationPayload_model"

lemma RingPushNotificationPayload_wf [rest_wf_models]: "rest_wf RingPushNotificationPayload_model"
  by (simp add: RingPushNotificationPayload_model_def rest_names_def rest_wf_models)


section \<open>Events\<close>

datatype fcm_kind =
    PushCredentials
  | PushRegistered
  | PushConnected
  | PushMessage
  | PushRetry
  | PushClosed
  | OtherKind string

record fcm_event =
  fe_Kind :: fcm_kind
  fe_Token :: string
  fe_DeviceID :: string
  fe_Action :: string
  fe_Credentials :: raw_message
  fe_Data :: raw_message
  fe_Err :: "goerr option"

definition push_event_of :: "fcm_kind \<Rightarrow> fcm_event" where
  "push_event_of kind =
     \<lparr>fe_Kind = kind, fe_Token = [], fe_DeviceID = [], fe_Action = [], fe_Credentials = RawNil, fe_Data = RawNil,
      fe_Err = None\<rparr>"

section \<open>Reading a notification\<close>

text \<open>A text that is itself a JSON document stands for that document.\<close>

definition expanded :: "json \<Rightarrow> json" where
  "expanded raw =
     (case raw of
        JStr encoded \<Rightarrow> (case json_text encoded of RawJson j \<Rightarrow> j | _ \<Rightarrow> raw)
      | _ \<Rightarrow> raw)"

definition expandedObject :: "json option \<Rightarrow> (string \<times> json) list" where
  "expandedObject raw =
     (case raw of
        Some j \<Rightarrow> (case expanded j of JObj kvs \<Rightarrow> gm_build kvs | _ \<Rightarrow> [])
      | None \<Rightarrow> [])"

text \<open>A decoder whose error is ignored leaves what it has read.\<close>

definition read_model :: "rest_type \<Rightarrow> json option \<Rightarrow> rest_value" where
  "read_model T raw = fst (rest_decode T (case raw of Some j \<Rightarrow> RawJson j | None \<Rightarrow> RawNil))"

definition read_int64 :: "json option \<Rightarrow> int option" where
  "read_int64 raw =
     (case raw of
        None \<Rightarrow> None
      | Some j \<Rightarrow> (case json_decode TInt (RawJson j) of Decoded v \<Rightarrow> Some (as_int v) | _ \<Rightarrow> None))"

definition notification_envelope :: "(string \<times> json) list \<Rightarrow> (string \<times> json) list" where
  "notification_envelope envelope =
     (let nested = expandedObject (map_of envelope ''data'');
          chosen = (if map_of nested ''android_config'' \<noteq> None \<or> map_of nested ''data'' \<noteq> None then nested else envelope) in
      map (\<lambda>(k, v). (k, expanded v)) chosen)"

definition notification_fields :: "(string \<times> json) list \<Rightarrow> string \<times> string" where
  "notification_fields envelope =
     (let config = read_model RingPushNotificationConfig_model (map_of envelope ''android_config'');
          payload = read_model RingPushNotificationPayload_model (map_of envelope ''data'');
          category = rest_string_ptr RingPushNotificationConfig_model ''category'' config;
          device = (case rest_field RingPushNotificationPayload_model ''device'' payload of
              Some (RVPtr (Some d)) \<Rightarrow> rest_int_ptr RingPushNotificationDevice_model ''id'' d
            | _ \<Rightarrow> None);
          gcm = (case rest_field RingPushNotificationPayload_model ''gcmData'' payload of
              Some (RVPtr (Some d)) \<Rightarrow> rest_string_ptr RingPushNotificationGCMData_model ''action'' d
            | _ \<Rightarrow> None);
          action = (case category of Some c \<Rightarrow> c | None \<Rightarrow> []);
          action = (if action = [] then (case gcm of Some a \<Rightarrow> a | None \<Rightarrow> []) else action);
          deviceID = (case device of Some i \<Rightarrow> dec_int i | None \<Rightarrow> []);
          deviceID = (if deviceID = [] then
              (case read_int64 (map_of envelope ''doorbot_id'') of Some i \<Rightarrow> dec_int i | None \<Rightarrow> [])
            else deviceID) in
      (action, deviceID))"

definition ParseFCMNotification :: "raw_message \<Rightarrow> fcm_event" where
  "ParseFCMNotification data =
     (let event = (push_event_of PushMessage)\<lparr>fe_Data := data\<rparr> in
      case (case data of RawJson (JObj kvs) \<Rightarrow> Some (gm_build kvs) | RawJson JNull \<Rightarrow> Some [] | _ \<Rightarrow> None) of
        None \<Rightarrow> event
      | Some envelope \<Rightarrow>
          (let (action, deviceID) = notification_fields (notification_envelope envelope) in
           event\<lparr>fe_Action := action, fe_DeviceID := deviceID\<rparr>))"

section \<open>The receiver\<close>

datatype receiver_event =
    UpdateCredentialsEvent string raw_message "goerr option"
    \<comment> \<open>the token, the credentials as text, and the error of printing them\<close>
  | ConnectedEvent
  | MessageEvent raw_message
  | RetryEvent "goerr option"
  | UnauthorizedError "goerr option"
  | DisconnectedEvent
  | OtherReceiverEvent

definition TranslateEvent :: "receiver_event \<Rightarrow> fcm_event option" where
  "TranslateEvent raw =
     (case raw of
        UpdateCredentialsEvent token credentials err \<Rightarrow>
          Some ((push_event_of PushCredentials)\<lparr>fe_Token := token, fe_Credentials := credentials, fe_Err := err\<rparr>)
      | ConnectedEvent \<Rightarrow> Some (push_event_of PushConnected)
      | MessageEvent data \<Rightarrow> Some ((push_event_of PushMessage)\<lparr>fe_Data := data\<rparr>)
      | RetryEvent err \<Rightarrow> Some ((push_event_of PushRetry)\<lparr>fe_Err := err\<rparr>)
      | UnauthorizedError err \<Rightarrow> Some ((push_event_of PushRetry)\<lparr>fe_Err := err\<rparr>)
      | DisconnectedEvent \<Rightarrow> Some (push_event_of PushClosed)
      | OtherReceiverEvent \<Rightarrow> None)"

text \<open>
  The events that \<open>StartWithTransports\<close> passes on: the saved credentials first, a final close when the receiver ends.
  \<open>failed\<close> is the last failed route of the registration transport at each event.
\<close>

definition receiver_failure :: "string \<Rightarrow> fcm_event \<Rightarrow> fcm_event" where
  "receiver_failure stage e =
     (case fe_Err e of
        Some c \<Rightarrow> if stage \<noteq> [] then e\<lparr>fe_Err := Some (NewConnectionError (''FCM '' @ stage @ '' failed'') (Some c))\<rparr> else e
      | None \<Rightarrow> e)"

definition receiver_stream :: "(string \<times> raw_message) option \<Rightarrow> (receiver_event \<times> string) list \<Rightarrow> fcm_event list" where
  "receiver_stream saved raws =
     (case saved of
        Some (token, credentials) \<Rightarrow> [(push_event_of PushCredentials)\<lparr>fe_Token := token, fe_Credentials := credentials\<rparr>]
      | None \<Rightarrow> [])
     @ List.map_filter (\<lambda>(raw, stage). map_option (receiver_failure stage) (TranslateEvent raw)) raws
     @ [push_event_of PushClosed]"

text \<open>\<open>decode\<close> reads the token of saved credentials, which are a structure of the third-party receiver.\<close>

definition StartWithTransports ::
  "(raw_message \<Rightarrow> goerr + string) \<Rightarrow> raw_message \<Rightarrow> (receiver_event \<times> string) list \<Rightarrow> goerr + fcm_event list" where
  "StartWithTransports decode saved raws =
     (if saved = RawNil then Inr (receiver_stream None raws)
      else
        (case decode saved of
           Inl e \<Rightarrow> Inl (NewBadRequestError ''decode saved FCM credentials'' (Some e))
         | Inr token \<Rightarrow>
             if token = [] then Inl (NewBadRequestError ''saved FCM credentials have no token'' None)
             else Inr (receiver_stream (Some (token, saved)) raws)))"

definition defaultFCMSource ::
  "(raw_message \<Rightarrow> goerr + string) \<Rightarrow> (receiver_event \<times> string) list \<Rightarrow> raw_message \<Rightarrow> goerr + fcm_event list" where
  "defaultFCMSource decode raws saved =
     (case StartWithTransports decode saved raws of
        Inl e \<Rightarrow> Inl (NewBadRequestError ''invalid saved FCM credentials'' (Some e))
      | Inr stream \<Rightarrow> Inr stream)"

section \<open>The connection\<close>

definition push_subscribe :: "rest_call \<Rightarrow> bool \<Rightarrow> bool \<Rightarrow> int \<Rightarrow> unit http_step" where
  "push_subscribe call ding motion i =
     lbind (if ding then SubscribeDeviceDing call i else lreturn ()) (\<lambda>_.
       if motion then SubscribeDeviceMotion call i else lreturn ())"

fun push_subscriptions :: "rest_call \<Rightarrow> bool \<Rightarrow> bool \<Rightarrow> int list \<Rightarrow> unit http_step" where
  "push_subscriptions call ding motion [] = lreturn ()"
| "push_subscriptions call ding motion (i # is) =
     lbind (push_subscribe call ding motion i) (\<lambda>_. push_subscriptions call ding motion is)"

definition push_register :: "rest_call \<Rightarrow> string \<Rightarrow> int list \<Rightarrow> bool \<Rightarrow> bool \<Rightarrow> unit http_step" where
  "push_register call token deviceIDs ding motion =
     lbind (ensureSession call) (\<lambda>_.
     lbind (RegisterPushDevice call token) (\<lambda>_.
       push_subscriptions call ding motion deviceIDs))"

text \<open>One round of \<open>run\<close>: what an event of the receiver makes the connection emit.\<close>

definition push_round :: "rest_call \<Rightarrow> int list \<Rightarrow> bool \<Rightarrow> bool \<Rightarrow> fcm_event \<Rightarrow> fcm_event list http_step" where
  "push_round call deviceIDs ding motion event =
     (case fe_Kind event of
        PushCredentials \<Rightarrow>
          (\<lambda>w. let credentials = (push_event_of PushCredentials)\<lparr>fe_Credentials := fe_Credentials event\<rparr> in
               case push_register call (fe_Token event) deviceIDs ding motion w of
                 (Ok _, w') \<Rightarrow> (Ok [credentials, push_event_of PushRegistered], w')
               | (Err e, w') \<Rightarrow> (Ok [credentials, (push_event_of PushRetry)\<lparr>fe_Err := Some e\<rparr>], w')
               | (Panic, w') \<Rightarrow> (Panic, w'))
      | PushConnected \<Rightarrow> lreturn [push_event_of PushConnected]
      | PushMessage \<Rightarrow> lreturn [ParseFCMNotification (fe_Data event)]
      | PushRetry \<Rightarrow> lreturn [(push_event_of PushRetry)\<lparr>fe_Err := fe_Err event\<rparr>]
      | PushClosed \<Rightarrow> lreturn [push_event_of PushClosed]
      | PushRegistered \<Rightarrow> lreturn []
      | OtherKind _ \<Rightarrow> lreturn [])"

text \<open>\<open>run\<close> on the events that it receives before its context ends or the stream is closed.\<close>

fun push_run :: "rest_call \<Rightarrow> int list \<Rightarrow> bool \<Rightarrow> bool \<Rightarrow> fcm_event list \<Rightarrow> fcm_event list http_step" where
  "push_run call deviceIDs ding motion [] = lreturn []"
| "push_run call deviceIDs ding motion (e # es) =
     lbind (push_round call deviceIDs ding motion e) (\<lambda>out.
     lbind (push_run call deviceIDs ding motion es) (\<lambda>outs. lreturn (out @ outs)))"

fun push_device_ids :: "string list \<Rightarrow> goerr + int list" where
  "push_device_ids [] = Inr []"
| "push_device_ids (rawID # rest) =
     (case settingsDeviceID rawID of
        Inl e \<Rightarrow> Inl e
      | Inr i \<Rightarrow> (case push_device_ids rest of Inl e \<Rightarrow> Inl e | Inr is \<Rightarrow> Inr (i # is)))"

record push_request =
  pq_DeviceIDs :: "string list"
  pq_Ding :: bool
  pq_Motion :: bool
  pq_Credentials :: raw_message

text \<open>\<open>ConnectPush\<close> and the run of the connection it starts; \<open>source\<close> makes the stream out of the saved credentials.\<close>

definition ring_ConnectPush ::
  "ring_call \<Rightarrow> auth_context \<Rightarrow> push_request \<Rightarrow> (raw_message \<Rightarrow> goerr + fcm_event list) \<Rightarrow> fcm_event list http_step" where
  "ring_ConnectPush g auth req source =
     (if auth_AccessToken auth = [] then lfail (NewTokenError ''push connection requires an access token'' None)
      else
        lbind (lift (or_fail (push_device_ids (pq_DeviceIDs req)))) (\<lambda>deviceIDs.
          case source (pq_Credentials req) of
            Inl e \<Rightarrow> lfail (NewBadRequestError ''invalid saved push credentials'' (Some e))
          | Inr stream \<Rightarrow> push_run (accountContext g auth) deviceIDs (pq_Ding req) (pq_Motion req) stream))"

end
