(* ===== verification/PushSafety.thy ===== *)
theory PushSafety
  imports PushNotifications RetryPolicy AccountResults
begin

text \<open>
  Properties of push: a notification means the same whether its parts are JSON documents or texts that hold them; the
  connection only talks to Ring with the credentials of its account, never passes on the token of the receiver, and
  reports that it is registered only when the server has accepted the device and every subscription.
\<close>

section \<open>Texts and documents\<close>

text \<open>\<open>b\<close> is the document \<open>a\<close>, which is not a text, or a text that holds it.\<close>

definition encodes :: "json \<Rightarrow> json \<Rightarrow> bool" where
  "encodes a b \<longleftrightarrow>
     (case a of JStr _ \<Rightarrow> False | _ \<Rightarrow> True)
     \<and> (b = a \<or> (case b of JStr t \<Rightarrow> json_text t = RawJson a | _ \<Rightarrow> False))"

lemma encodes_expanded: "encodes a b \<Longrightarrow> expanded b = a \<and> expanded a = a"
  by (auto simp: encodes_def expanded_def split: json.splits)

definition expand_members :: "(string \<times> json) list \<Rightarrow> (string \<times> json) list" where
  "expand_members = map (\<lambda>(k, v). (k, expanded v))"

lemma gm_put_map: "map (\<lambda>(k, v). (k, f v)) (gm_put k v m) = gm_put k (f v) (map (\<lambda>(k, v). (k, f v)) m)"
  by (induction m) auto

lemma gm_build_map: "map (\<lambda>(k, v). (k, f v)) (gm_build kvs) = gm_build (map (\<lambda>(k, v). (k, f v)) kvs)"
proof -
  have "map (\<lambda>(k, v). (k, f v)) (fold (\<lambda>(k, v) m. gm_put k v m) kvs m)
      = fold (\<lambda>(k, v) m. gm_put k v m) (map (\<lambda>(k, v). (k, f v)) kvs) (map (\<lambda>(k, v). (k, f v)) m)" for m
    by (induction kvs arbitrary: m) (auto simp: gm_put_map)
  from this [of "[]"] show ?thesis by (simp add: gm_build_def)
qed

lemma map_of_expanded: "map_option expanded (map_of m k) = map_of (expand_members m) k"
  by (induction m) (auto simp: expand_members_def)

lemma expandedObject_expanded:
  "expandedObject raw = (case map_option expanded raw of Some (JObj kvs) \<Rightarrow> gm_build kvs | _ \<Rightarrow> [])"
  by (cases raw) (auto simp: expandedObject_def split: json.split)

text \<open>The envelope that is read depends on the members only as far as they are expanded.\<close>

lemma notification_envelope_canonical:
  "expand_members (gm_build kvs) = expand_members (gm_build kvs')
   \<Longrightarrow> notification_envelope (gm_build kvs) = notification_envelope (gm_build kvs')"
  unfolding notification_envelope_def expandedObject_expanded map_of_expanded expand_members_def [symmetric] Let_def
  by simp

lemma expand_members_encodes:
  assumes "list_all2 (\<lambda>x y. fst y = fst x \<and> encodes (snd x) (snd y)) kvs kvs'"
  shows "expand_members (gm_build kvs) = expand_members (gm_build kvs')"
proof -
  from assms have "expand_members kvs = expand_members kvs'"
    by (induction rule: list_all2_induct) (auto simp: expand_members_def dest: encodes_expanded)
  then show ?thesis by (simp add: expand_members_def gm_build_map)
qed

text \<open>An envelope: it has one of the two parts, and its data is not an envelope again.\<close>

definition enveloped :: "(string \<times> json) list \<Rightarrow> bool" where
  "enveloped kvs \<longleftrightarrow>
     (map_of (gm_build kvs) ''android_config'' \<noteq> None \<or> map_of (gm_build kvs) ''data'' \<noteq> None)
     \<and> map_of (expandedObject (map_of (gm_build kvs) ''data'')) ''android_config'' = None
     \<and> map_of (expandedObject (map_of (gm_build kvs) ''data'')) ''data'' = None"

definition notification_of :: "raw_message \<Rightarrow> string \<times> string" where
  "notification_of data = (fe_Action (ParseFCMNotification data), fe_DeviceID (ParseFCMNotification data))"

lemma notification_of_object:
  "notification_of (RawJson (JObj kvs)) = notification_fields (notification_envelope (gm_build kvs))"
  by (simp add: notification_of_def ParseFCMNotification_def Let_def split: prod.split)

lemma notification_envelope_nested:
  assumes "enveloped kvs" "expanded b = JObj kvs"
  shows "notification_envelope (gm_build [(''data'', b)]) = notification_envelope (gm_build kvs)"
proof -
  have "expandedObject (map_of (gm_build [(''data'', b)]) ''data'') = gm_build kvs"
    using assms(2) by (simp add: expandedObject_def gm_build_def)
  moreover have "notification_envelope (gm_build kvs) = map (\<lambda>(k, v). (k, expanded v)) (gm_build kvs)"
    using assms(1) by (simp add: notification_envelope_def enveloped_def)
  ultimately show ?thesis using assms(1) by (simp add: notification_envelope_def enveloped_def)
qed


definition plain_notification :: "(string \<times> json) list" where
  "plain_notification =
     [(''android_config'', JObj [(''category'', JStr ''com.ring.push.HANDLE_NEW_DING'')]),
      (''data'', JObj [(''device'', JObj [(''id'', JNum (NLit ''42''))])])]"

abbreviation quoted :: "string \<Rightarrow> string" where "quoted s \<equiv> CHR 0x22 # s @ [CHR 0x22]"

definition encoded_notification :: "(string \<times> json) list" where
  "encoded_notification =
     [(''android_config'', JObj [(''category'', JStr ''com.ring.push.HANDLE_NEW_DING'')]),
      (''data'', JStr (''{'' @ quoted ''device'' @ '':{'' @ quoted ''id'' @ '':42}}''))]"


text \<open>
  Two readings that the code gives and hardly means: a device identifier that is no number is a pointer to zero behind
  the ignored decoding error, and a null doorbot identifier decodes without an error.
\<close>

lemma unreadable_device_is_zero:
  "snd (notification_of (RawJson (JObj [(''data'', JObj [(''device'', JObj [(''id'', JStr ''a7'')])]),
      (''doorbot_id'', JNum (NLit ''42''))]))) = ''0''"
  by code_simp

lemma null_doorbot_is_zero: "snd (notification_of (RawJson (JObj [(''doorbot_id'', JNull)]))) = ''0''"
  by code_simp

section \<open>Requests of a push connection\<close>

lemma sends_push_subscribe: "sends (of_bool ding + of_bool motion) (authorized call) (push_subscribe call ding motion i)"
  unfolding push_subscribe_def
proof (rule sends_bind)
  show "sends (of_bool ding) (authorized call) (if ding then SubscribeDeviceDing call i else lreturn ())"
    by (cases ding) (simp_all add: sends_SubscribeDeviceDing sends_none)
  show "sends (of_bool motion) (authorized call) (if motion then SubscribeDeviceMotion call i else lreturn ())"
    by (cases motion) (simp_all add: sends_SubscribeDeviceMotion sends_none)
qed

lemma sends_push_subscriptions:
  "sends (length is * (of_bool ding + of_bool motion)) (authorized call) (push_subscriptions call ding motion is)"
  by (induction "is") (simp_all add: sends_none sends_bind [OF sends_push_subscribe])

definition registration_requests :: "int list \<Rightarrow> bool \<Rightarrow> bool \<Rightarrow> nat" where
  "registration_requests deviceIDs ding motion = 2 + length deviceIDs * (of_bool ding + of_bool motion)"

lemma sends_push_register:
  "sends (registration_requests deviceIDs ding motion) (authorized call) (push_register call token deviceIDs ding motion)"
  using sends_bind [OF sends_ensureSession sends_bind [OF sends_RegisterPushDevice sends_push_subscriptions]]
  unfolding push_register_def registration_requests_def by fastforce

definition registrations :: "fcm_event list \<Rightarrow> nat" where
  "registrations es = length (filter (\<lambda>e. fe_Kind e = PushCredentials) es)"

lemma sends_push_round:
  "sends (registrations [e] * registration_requests deviceIDs ding motion) (authorized call)
     (push_round call deviceIDs ding motion e)"
proof (cases "fe_Kind e = PushCredentials")
  case True
  have "snd (push_round call deviceIDs ding motion e w) = snd (push_register call (fe_Token e) deviceIDs ding motion w)" for w
    using True by (simp add: push_round_def Let_def split: prod.split outcome.split)
  with sends_push_register show ?thesis using True by (simp add: sends_def registrations_def)
next
  case False
  then show ?thesis by (cases "fe_Kind e") (simp_all add: push_round_def registrations_def sends_none)
qed

lemma sends_push_run:
  "sends (registrations es * registration_requests deviceIDs ding motion) (authorized call)
     (push_run call deviceIDs ding motion es)"
proof (induction es)
  case (Cons e es)
  have "registrations (e # es) = registrations [e] + registrations es" by (simp add: registrations_def)
  with sends_bind [OF sends_push_round sends_then [OF Cons.IH sends_none(1)]] show ?case
    by (simp add: add_mult_distrib)
qed (simp add: sends_none registrations_def)

section \<open>What is reported\<close>

text \<open>\<open>m\<close> returns only after exactly \<open>n\<close> requests, each of which the server has accepted.\<close>

definition accepted :: "http_env \<Rightarrow> nat \<Rightarrow> 'a http_step \<Rightarrow> bool" where
  "accepted env n m \<longleftrightarrow>
     (\<forall>w x w'. m w = (Ok x, w') \<longrightarrow>
        (\<exists>reqs. hs_sent w' = hs_sent w @ reqs \<and> length reqs = n
           \<and> (\<forall>k<n. \<exists>r. he_server env (hs_sent w @ take (Suc k) reqs) = Inr r
                \<and> 200 \<le> resp_code (hp_resp r) \<and> resp_code (hp_resp r) < 300)))"

lemma acceptedE:
  assumes "accepted env n m" "m w = (Ok x, w')"
  obtains reqs where "hs_sent w' = hs_sent w @ reqs" "length reqs = n"
    "\<And>k. k < n \<Longrightarrow> \<exists>r. he_server env (hs_sent w @ take (Suc k) reqs) = Inr r
       \<and> 200 \<le> resp_code (hp_resp r) \<and> resp_code (hp_resp r) < 300"
  using assms unfolding accepted_def by blast

lemma accepted_return: "accepted env 0 (lreturn x)"
  by (auto simp: accepted_def lreturn_def)

lemma accepted_bind:
  assumes m: "accepted env n m" and f: "\<And>x. accepted env k (f x)"
  shows "accepted env (n + k) (lbind m f)"
  unfolding accepted_def
proof (intro allI impI)
  fix w :: http_state and y and w'
  assume "lbind m f w = (Ok y, w')"
  then obtain x w1 where run: "m w = (Ok x, w1)" "f x w1 = (Ok y, w')" by (rule lbind_OkE)
  from m run(1) obtain as where as: "hs_sent w1 = hs_sent w @ as" "length as = n"
    "\<And>j. j < n \<Longrightarrow> \<exists>r. he_server env (hs_sent w @ take (Suc j) as) = Inr r
       \<and> 200 \<le> resp_code (hp_resp r) \<and> resp_code (hp_resp r) < 300" by (rule acceptedE) auto
  from f run(2) obtain bs where bs: "hs_sent w' = hs_sent w1 @ bs" "length bs = k"
    "\<And>j. j < k \<Longrightarrow> \<exists>r. he_server env (hs_sent w1 @ take (Suc j) bs) = Inr r
       \<and> 200 \<le> resp_code (hp_resp r) \<and> resp_code (hp_resp r) < 300" by (rule acceptedE) auto
  have "\<exists>r. he_server env (hs_sent w @ take (Suc j) (as @ bs)) = Inr r
      \<and> 200 \<le> resp_code (hp_resp r) \<and> resp_code (hp_resp r) < 300" if "j < n + k" for j
  proof (cases "j < n")
    case True
    with as show ?thesis by simp
  next
    case False
    then have "take (Suc j) (as @ bs) = as @ take (Suc (j - n)) bs" using as(2) by (simp add: Suc_diff_le)
    with bs(3) [of "j - n"] as(1) that False show ?thesis by simp
  qed
  with as bs show "\<exists>reqs. hs_sent w' = hs_sent w @ reqs \<and> length reqs = n + k
      \<and> (\<forall>j<n + k. \<exists>r. he_server env (hs_sent w @ take (Suc j) reqs) = Inr r
           \<and> 200 \<le> resp_code (hp_resp r) \<and> resp_code (hp_resp r) < 300)"
    by (intro exI [of _ "as @ bs"]) simp
qed

lemma send_attempts_once:
  assumes "send_attempts env req 1 0 w = (Ok (Inr resp), w')"
  shows "hs_sent w' = hs_sent w @ [req] \<and> he_server env (hs_sent w @ [req]) = Inr resp"
  using assms by (subst (asm) send_attempts.simps) (auto simp: Let_def)

lemma sendAuthorizedRequest_once:
  assumes "sendAuthorizedRequest call req w = (Ok resp, w')" "hr_method req \<notin> {''GET'', ''HEAD''}"
  shows "\<exists>req'. hs_sent w' = hs_sent w @ [req'] \<and> he_server (rl_env call) (hs_sent w @ [req']) = Inr resp"
proof -
  from assms(1) obtain token where "sendWithRetry (rl_env call) (authorize call token req) w = (Ok resp, w')"
    by (auto simp: sendAuthorizedRequest_def split: option.splits sum.splits)
  moreover have "max_attempts (authorize call token req) = 1" using assms(2) by (simp add: max_attempts_def)
  ultimately have "send_attempts (rl_env call) (authorize call token req) 1 0 w = (Ok (Inr resp), w')"
    unfolding sendWithRetry_def by (auto elim!: lbind_OkE simp: lfail_def lreturn_def split: sum.splits)
  from send_attempts_once [OF this] show ?thesis by blast
qed

lemma accepted_plain_operation:
  assumes "\<And>req. r = Inr req \<Longrightarrow> built_ok (rest_base call) verb req" "verb \<notin> {''GET'', ''HEAD''}"
  shows "accepted (rl_env call) 1 (plain_operation call msg r)"
  unfolding accepted_def
proof (intro allI impI)
  fix w :: http_state and x w'
  assume "plain_operation call msg r w = (Ok x, w')"
  then obtain req resp v where r: "r = Inr req" and send: "sendAuthorizedRequest call req w = (Ok resp, w')"
    and ok: "decodeJSONResponse None resp = Inr v"
    unfolding plain_operation_def doGeneratedJSON_def
    by (auto elim!: lbind_OkE simp: built_def lift_def or_fail_def lreturn_def split: sum.splits)
  from assms r have "hr_method req \<notin> {''GET'', ''HEAD''}" by (simp add: built_ok_def)
  from sendAuthorizedRequest_once [OF send this] obtain req' where
    "hs_sent w' = hs_sent w @ [req']" "he_server (rl_env call) (hs_sent w @ [req']) = Inr resp" by blast
  moreover from ok have "200 \<le> resp_code (hp_resp resp) \<and> resp_code (hp_resp resp) < 300"
    by (auto simp: decodeJSONResponse_def split: sum.splits if_splits)
  ultimately show "\<exists>reqs. hs_sent w' = hs_sent w @ reqs \<and> length reqs = 1
      \<and> (\<forall>k<1. \<exists>r. he_server (rl_env call) (hs_sent w @ take (Suc k) reqs) = Inr r
           \<and> 200 \<le> resp_code (hp_resp r) \<and> resp_code (hp_resp r) < 300)"
    by (intro exI [of _ "[req']"]) simp
qed

lemma accepted_registrations:
  "accepted (rl_env call) 1 (RegisterSession call)" "accepted (rl_env call) 1 (RegisterPushDevice call token)"
  "accepted (rl_env call) 1 (SubscribeDeviceDing call i)" "accepted (rl_env call) 1 (SubscribeDeviceMotion call i)"
  unfolding RegisterSession_def RegisterPushDevice_def SubscribeDeviceDing_def SubscribeDeviceMotion_def
  by (auto intro!: accepted_plain_operation [unfolded One_nat_def] simp: NewRegisterClientSessionRequest_def
      NewRegisterClientSessionRequestWithBody_def NewRegisterPushDeviceRequest_def NewRegisterPushDeviceRequestWithBody_def
      NewSubscribeDeviceDingRequest_def NewSubscribeDeviceMotionRequest_def dest!: build_request_ok with_content_type_ok)

lemma accepted_push_subscriptions:
  "accepted (rl_env call) (length is * (of_bool ding + of_bool motion)) (push_subscriptions call ding motion is)"
proof (induction "is")
  case (Cons i "is")
  have "accepted (rl_env call) (of_bool ding + of_bool motion) (push_subscribe call ding motion i)"
    unfolding push_subscribe_def
  proof (rule accepted_bind)
    show "accepted (rl_env call) (of_bool ding) (if ding then SubscribeDeviceDing call i else lreturn ())"
      by (cases ding) (simp_all add: accepted_registrations accepted_return, use accepted_registrations(3) in simp)
    show "accepted (rl_env call) (of_bool motion) (if motion then SubscribeDeviceMotion call i else lreturn ())"
      by (cases motion) (simp_all add: accepted_registrations accepted_return, use accepted_registrations(4) in simp)
  qed
  from accepted_bind [OF this Cons.IH] show ?case by simp
qed (simp add: accepted_return)

definition registration_count :: "auth_context \<Rightarrow> int list \<Rightarrow> bool \<Rightarrow> bool \<Rightarrow> nat" where
  "registration_count auth deviceIDs ding motion =
     of_bool (hardware_of auth \<noteq> []) + (1 + length deviceIDs * (of_bool ding + of_bool motion))"

lemma accepted_push_register:
  "accepted (rg_env g) (registration_count auth deviceIDs ding motion)
     (push_register (accountContext g auth) token deviceIDs ding motion)"
proof -
  let ?call = "accountContext g auth"
  have env: "rl_env ?call = rg_env g" by (simp add: accountContext_def WithAccount_def Let_def)
  have "accepted (rg_env g) (of_bool (hardware_of auth \<noteq> [])) (ensureSession ?call)"
    using accepted_registrations(1) [of ?call] accepted_return [of "rg_env g"] unfolding env
    by (auto simp: ensureSession_def accountContext_def WithAccount_def hardware_of_def Let_def)
  from accepted_bind [OF this accepted_bind [OF accepted_registrations(2) [of ?call, unfolded env]
        accepted_push_subscriptions [of ?call, unfolded env]]]
  show ?thesis unfolding push_register_def registration_count_def .
qed

definition accepted_reply :: "goerr + http_reply \<Rightarrow> bool" where
  "accepted_reply reply =
     (case reply of Inr r \<Rightarrow> 200 \<le> resp_code (hp_resp r) \<and> resp_code (hp_resp r) < 300 | Inl _ \<Rightarrow> False)"

lemma push_round_cases:
  assumes "push_round call deviceIDs ding motion e w = (Ok outs, w')"
  shows "list_all (\<lambda>out. fe_Token out = []) outs
    \<and> (filter (\<lambda>out. fe_Kind out = PushRegistered) outs = []
       \<or> push_register call (fe_Token e) deviceIDs ding motion w = (Ok (), w'))"
  using assms
  by (cases "fe_Kind e")
     (auto simp: push_round_def push_event_of_def ParseFCMNotification_def lreturn_def Let_def
       split: prod.splits outcome.splits option.splits)


end
