(* ===== verification/FcmGate.thy ===== *)
theory FcmGate
  imports FcmTransport
begin

text \<open>
  Properties of the registration transport: whatever it is given, what it forwards has one of four exact shapes; the
  shape that the receiver sends and the generated one are forwarded as the same request; and it panics only on a
  registration without a body.
\<close>

section \<open>Maps with exact keys\<close>

lemma mset_by_names:
  assumes "distinct names" "fst ` set vs \<subseteq> set names"
  shows "mset vs = mset (concat (map (\<lambda>name. filter (\<lambda>p. fst p = name) vs) names))"
  using assms(2)
proof (induction vs)
  case (Cons p vs)
  have "sum_list (map (\<lambda>name. if fst p = name then {#p#} else {#}) names) = {#p#}"
    using assms(1) Cons.prems by (simp add: sum_list_distinct_conv_sum_set)
  moreover have "mset (concat (map (\<lambda>name. filter (\<lambda>q. fst q = name) (p # vs)) names))
      = sum_list (map (\<lambda>name. (if fst p = name then {#p#} else {#}) + mset (filter (\<lambda>q. fst q = name) vs)) names)"
    by (auto simp: mset_concat comp_def intro!: arg_cong [where f = sum_list])
  ultimately have "mset (concat (map (\<lambda>name. filter (\<lambda>q. fst q = name) (p # vs)) names))
      = {#p#} + mset (concat (map (\<lambda>name. filter (\<lambda>q. fst q = name) vs) names))"
    by (simp add: sum_list_addf mset_concat comp_def)
  with Cons show ?case by simp
qed simp

lemma names_exact:
  assumes "length m = length names" "distinct names" "\<And>name. name \<in> set names \<Longrightarrow> map_of m name \<noteq> None"
  shows "distinct (map fst m) \<and> set (map fst m) = set names"
proof -
  have sub: "set names \<subseteq> set (map fst m)" using assms(3) by (auto simp: map_of_eq_None_iff)
  have "card (set (map fst m)) \<le> length names" using assms(1) card_length [of "map fst m"] by simp
  with sub assms(2) have eq: "set (map fst m) = set names"
    by (metis card_subset_eq distinct_card finite_set le_antisym card_mono)
  with assms(1,2) have "card (set (map fst m)) = length (map fst m)" by (simp only: distinct_card length_map)
  with eq show ?thesis by (simp add: card_distinct)
qed

text \<open>A map that agrees with a list of its size is that list.\<close>

lemma map_exact:
  assumes "length m = length e" "distinct (map fst e)" "\<And>name v. (name, v) \<in> set e \<Longrightarrow> map_of m name = Some v"
  shows "mset m = mset e"
proof -
  have "distinct (map fst m) \<and> set (map fst m) = set (map fst e)"
  proof (rule names_exact)
    show "map_of m name \<noteq> None" if "name \<in> set (map fst e)" for name
    proof -
      from that obtain v where "(name, v) \<in> set e" by auto
      with assms(3) show ?thesis by simp
    qed
  qed (use assms in simp_all)
  moreover have "set e \<subseteq> set m" using assms(3) by (auto dest: map_of_SomeD)
  moreover have "distinct e" "distinct m" using assms(2) calculation(1) by (simp_all add: distinct_map)
  moreover from this assms(1) have "card (set e) = card (set m)" by (simp add: distinct_card)
  ultimately show ?thesis by (metis card_subset_eq finite_set set_eq_iff_mset_eq_distinct)
qed

lemma gm_keys:
  assumes "gm_wf m" "exactJSONKeys m names" "distinct names" "sorted_wrt (<) keys" "set keys = set names"
  shows "map fst m = keys"
proof (rule strict_sorted_equal)
  show "set (map fst m) = set keys"
    using names_exact [of m names] assms by (auto simp: exactJSONKeys_def list_all_iff)
qed (use assms in \<open>simp_all add: gm_wf_def\<close>)

lemma gm_wf_json: "json_object raw = Decoded (Some m) \<Longrightarrow> gm_wf m"
  by (auto simp: json_object_def split: raw_message.splits json.splits)

lemma jsonString_str: "jsonString m name = s \<Longrightarrow> s \<noteq> [] \<Longrightarrow> map_of m name = Some (JStr s)"
  by (auto simp: jsonString_def json_string_def raw_member_def
      split: option.splits decoded.splits raw_message.splits json.splits)

section \<open>The four shapes\<close>

definition pinned_header :: "fcmHTTPRoute \<Rightarrow> (string \<times> string list) list \<Rightarrow> bool" where
  "pinned_header route h =
     (case route of
        routeCheckin \<Rightarrow> mset h = {#(''Content-Type'', [''application/x-protobuf''])#}
      | routeRegister \<Rightarrow>
          (\<exists>android secret. decimal android \<and> decimal secret
             \<and> mset h = {#(''Content-Type'', [''application/x-www-form-urlencoded'']),
                  (''Authorization'', [''AidLogin '' @ android @ '':'' @ secret]), (''User-Agent'', [[]])#})
      | routeInstallations \<Rightarrow>
          mset h = {#(''Content-Type'', [''application/json'']), (''Accept'', [''application/json'']),
             (''X-Goog-Api-Key'', [FCMAPIKey])#}
      | routeRegistrations \<Rightarrow>
          (\<exists>token. \<not> only_space token
             \<and> mset h = {#(''Content-Type'', [''application/json'']), (''X-Goog-Api-Key'', [FCMAPIKey]),
                  (FCMInstallationsAuthHeader, [token])#}))"

definition pinned_body :: "(string \<Rightarrow> goerr + checkin_request) \<Rightarrow> fcmHTTPRoute \<Rightarrow> fcm_body \<Rightarrow> bool" where
  "pinned_body read_checkin route body =
     (case route of
        routeCheckin \<Rightarrow>
          (\<exists>s m. body = BodyText s \<and> read_checkin s = Inr m \<and> pinned_checkin m \<and> known_checkin m)
      | routeRegister \<Rightarrow>
          (\<exists>s device. body = BodyText s \<and> decimal device
             \<and> mset (parse_query s) = {#(''app'', ''org.chromium.linux''), (''X-subtype'', FCMApplicationID),
                  (''device'', device), (''sender'', FCMDefaultVAPIDKey)#})
      | routeInstallations \<Rightarrow>
          (\<exists>kvs fid. body_json body = RawJson (JObj kvs) \<and> validFID fid
             \<and> gm_build kvs = [(''appId'', JStr FCMApplicationID), (''authVersion'', JStr ''FIS_v2''), (''fid'', JStr fid),
                  (''sdkVersion'', JStr ''w:0.6.17'')])
      | routeRegistrations \<Rightarrow>
          (\<exists>auth endpoint key. endpoint \<noteq> [] \<and> validWebPushKey auth 16 \<and> validWebPushKey key 65
             \<and> body = JsonBody (JObj [(''web'', JObj
                  [(''auth'', JStr auth), (''endpoint'', JStr (FCMRegistrationEndpointPrefix @ endpoint)),
                   (''p256dh'', JStr key)])])))"

definition fcm_request_pinned :: "(string \<Rightarrow> goerr + checkin_request) \<Rightarrow> fcm_http \<Rightarrow> bool" where
  "fcm_request_pinned read_checkin r \<longleftrightarrow>
     (\<exists>route u. fr_URL r = Some u \<and> u_Scheme u = ''https'' \<and> u_User u = None \<and> u_RawQuery u = [] \<and> \<not> u_ForceQuery u
        \<and> u_Fragment u = [] \<and> u_Opaque u = [] \<and> fr_Host r \<in> {[], u_Host u} \<and> fr_Method r = ''POST''
        \<and> (u_Host u, EscapedPath u) = fcm_place route
        \<and> pinned_header route (fr_Header r) \<and> pinned_body read_checkin route (fr_Body r))"

lemma sameHeaderSet_exact:
  assumes "sameHeaderSet e h" "distinct (map fst e)" "list_all (\<lambda>p. snd p \<noteq> []) e"
  shows "mset h = mset e \<and> distinct (map fst h)"
proof -
  have "map_of h name = Some v" if "(name, v) \<in> set e" for name v
    using assms(1,3) that by (fastforce simp: sameHeaderSet_def list_all_iff split: option.splits)
  with map_exact [of h e] assms(1,2) have m: "mset h = mset e" by (simp add: sameHeaderSet_def)
  then have "mset (map fst h) = mset (map fst e)" by simp
  with assms(2) m show ?thesis by (metis mset_eq_imp_distinct_iff)
qed

lemma expected_header_form:
  "expected_header route r = Some e \<Longrightarrow> distinct (map fst e) \<and> list_all (\<lambda>p. snd p \<noteq> []) e"
  by (auto simp: expected_header_def Let_def split: fcmHTTPRoute.splits prod.splits if_splits)

lemma cut_ok: "cut c s = (a, b, True) \<Longrightarrow> s = a @ c # b"
proof -
  have "c \<in> set s \<Longrightarrow> s = takeWhile (\<lambda>x. x \<noteq> c) s @ c # drop 1 (dropWhile (\<lambda>x. x \<noteq> c) s)" by (induction s) auto
  then show "cut c s = (a, b, True) \<Longrightarrow> s = a @ c # b" by (simp add: cut_def)
qed

lemma trim_prefix_append: "has_prefix s p \<Longrightarrow> s = p @ trim_prefix s p"
  by (simp add: trim_prefix_def has_prefix_def) (metis append_take_drop_id)

lemma validated_headerE:
  assumes "validateFCMHeaders route r = Ok ()"
  obtains e where "expected_header route r = Some e" "mset (fr_Header r) = mset e" "distinct (map fst (fr_Header r))"
proof -
  from assms obtain e where e: "expected_header route r = Some e" "sameHeaderSet e (fr_Header r)"
    by (auto simp: validateFCMHeaders_def require_def split: option.splits if_splits)
  from sameHeaderSet_exact [OF e(2)] expected_header_form [OF e(1)] that [OF e(1)] show thesis by simp
qed

lemma validated_header:
  assumes "validateFCMHeaders route r = Ok ()" "route \<noteq> routeRegistrations"
  shows "pinned_header route (fr_Header r)"
proof -
  from assms(1) obtain e where e: "expected_header route r = Some e" and h: "mset (fr_Header r) = mset e"
    by (rule validated_headerE)
  show ?thesis
  proof (cases route)
    case routeRegister
    with e obtain android secret where parts: "has_prefix (fcm_header_get ''Authorization'' r) ''AidLogin ''"
      "cut (CHR '':'') (trim_prefix (fcm_header_get ''Authorization'' r) ''AidLogin '') = (android, secret, True)"
      "decimal android" "decimal secret"
      and eq: "e = [(''Content-Type'', [''application/x-www-form-urlencoded'']),
        (''Authorization'', [fcm_header_get ''Authorization'' r]), (''User-Agent'', [[]])]"
      by (auto simp: expected_header_def Let_def split: prod.splits if_splits)
    from trim_prefix_append [OF parts(1)] cut_ok [OF parts(2)]
    have "fcm_header_get ''Authorization'' r = ''AidLogin '' @ android @ '':'' @ secret" by simp
    with eq h have "mset (fr_Header r) = {#(''Content-Type'', [''application/x-www-form-urlencoded'']),
        (''Authorization'', [''AidLogin '' @ android @ '':'' @ secret]), (''User-Agent'', [[]])#}" by simp
    with parts(3,4) show ?thesis unfolding pinned_header_def routeRegister by simp blast
  qed (use e h assms(2) in \<open>auto simp: expected_header_def pinned_header_def\<close>)
qed

lemma validated_registration_header:
  assumes "validateFCMHeaders routeRegistrations r = Ok ()" "\<not> only_space token"
  shows "pinned_header routeRegistrations (AList.update FCMInstallationsAuthHeader [token] (fr_Header r))"
proof -
  let ?auth = FCMInstallationsAuthHeader and ?h = "fr_Header r"
  let ?new = "[(''Content-Type'', [''application/json'']), (''X-Goog-Api-Key'', [FCMAPIKey]), (?auth, [token])]"
  from assms(1) obtain e where e: "expected_header routeRegistrations r = Some e" "mset ?h = mset e"
    and d: "distinct (map fst ?h)"
    by (rule validated_headerE)
  from e have h: "mset ?h = {#(''Content-Type'', [''application/json'']), (''X-Goog-Api-Key'', [FCMAPIKey]),
      (?auth, [fcm_header_get ?auth r])#}"
    by (auto simp: expected_header_def Let_def split: if_splits)
  then have set_h: "set ?h = {(''Content-Type'', [''application/json'']), (''X-Goog-Api-Key'', [FCMAPIKey]),
      (?auth, [fcm_header_get ?auth r])}"
    by (metis set_mset_mset set_mset_add_mset_insert set_mset_empty)
  have "mset (AList.update ?auth [token] ?h) = mset ?new"
  proof (rule map_exact)
    have "map_of ?h ?auth \<noteq> None" using set_h d by simp
    then have "map fst (AList.update ?auth [token] ?h) = map fst ?h" by (simp add: AList.update_keys map_of_eq_None_iff)
    then have "length (AList.update ?auth [token] ?h) = length ?h" by (metis length_map)
    then show "length (AList.update ?auth [token] ?h) = length ?new" using arg_cong [OF h, of size] by simp
  next
    show "map_of (AList.update ?auth [token] ?h) name = Some v" if "(name, v) \<in> set ?new" for name v
      using that set_h d by (auto simp: AList.update_conv')
  qed simp
  with assms(2) show ?thesis unfolding pinned_header_def by auto
qed

lemma registered_body:
  assumes "validateRegisterRequest s = Ok ()"
  shows "pinned_body read_checkin routeRegister (BodyText s)"
proof -
  let ?names = "[''app'', ''X-subtype'', ''device'', ''sender'']" and ?vs = "parse_query s"
  let ?device = "query_get ?vs ''device''"
  from assms have len: "length (remdups (map fst ?vs)) = length ?names" and dec: "decimal ?device"
    and one: "query_values ?vs ''app'' = [''org.chromium.linux'']" "query_values ?vs ''X-subtype'' = [FCMApplicationID]"
      "query_values ?vs ''device'' = [?device]" "query_values ?vs ''sender'' = [FCMDefaultVAPIDKey]"
    by (auto simp: validateRegisterRequest_def ParseQuery_def require_def oneValueIs_def split: option.splits if_splits)
  have "filter (\<lambda>p. fst p = name) vs = map (Pair name) (query_values vs name)" for name and vs :: "(string \<times> string) list"
    by (induction vs) (auto simp: query_values_def)
  then have only: "filter (\<lambda>p. fst p = name) ?vs = [(name, v)]" if "query_values ?vs name = [v]" for name v
    using that by simp
  note filters = one [THEN only]
  have "name \<in> fst ` set ?vs" if "query_values ?vs name = [v]" for name v
  proof -
    from only [OF that] have "(name, v) \<in> set (filter (\<lambda>p. fst p = name) ?vs)" by simp
    then show ?thesis by (auto intro: rev_image_eqI)
  qed
  with one have "set ?names \<subseteq> fst ` set ?vs" by simp
  moreover have "card (fst ` set ?vs) = card (set ?names)" using len by (simp add: length_remdups_card_conv)
  ultimately have "fst ` set ?vs = set ?names" by (metis card_subset_eq finite_imageI finite_set)
  with mset_by_names [of ?names ?vs] filters have "mset ?vs = {#(''app'', ''org.chromium.linux''),
      (''X-subtype'', FCMApplicationID), (''device'', ?device), (''sender'', FCMDefaultVAPIDKey)#}" by simp
  with dec show ?thesis by (auto simp: pinned_body_def)
qed

lemma jsonObject_Ok: "jsonObject raw = Ok m \<longleftrightarrow> json_object raw = Decoded (Some m)"
  by (auto simp: jsonObject_def obind_Ok_iff on_decode_Ok_iff split: option.splits)

lemma wrap_error_Ok [simp]: "wrap_error f x = Ok y \<longleftrightarrow> x = Ok y"
  by (cases x) (simp_all add: wrap_error_def)

lemma validWebPushKey_not_empty: "validWebPushKey s n \<Longrightarrow> 0 < n \<Longrightarrow> s \<noteq> []"
  by (auto simp: validWebPushKey_def base64_strict_decode_def Let_def b64_strict_def split: if_splits)

lemma validFID_not_empty: "validFID s \<Longrightarrow> s \<noteq> []"
  by (auto simp: validFID_def base64_strict_decode_def Let_def b64_strict_def split: if_splits)

lemma installed_body:
  assumes "validateInstallationsRequest (body_json body) = Ok ()"
  shows "pinned_body read_checkin routeInstallations body"
proof -
  from assms obtain m where m: "json_object (body_json body) = Decoded (Some m)"
    and keys: "exactJSONKeys m [''appId'', ''authVersion'', ''fid'', ''sdkVersion'']"
    and strs: "jsonString m ''appId'' = FCMApplicationID" "jsonString m ''authVersion'' = ''FIS_v2''"
      "jsonString m ''sdkVersion'' = ''w:0.6.17''" and fid: "validFID (jsonString m ''fid'')"
    by (auto simp: validateInstallationsRequest_def obind_Ok_iff jsonObject_Ok require_def split: if_splits)
  from m obtain kvs where kvs: "body_json body = RawJson (JObj kvs)" "m = gm_build kvs"
    by (auto simp: json_object_def split: raw_message.splits json.splits)
  have "map fst m = [''appId'', ''authVersion'', ''fid'', ''sdkVersion'']"
    by (rule gm_keys [OF gm_wf_json [OF m] keys]) code_simp+
  then obtain a b c d where eq: "m = [(''appId'', a), (''authVersion'', b), (''fid'', c), (''sdkVersion'', d)]"
    by (auto simp: map_eq_Cons_conv)
  from strs [THEN jsonString_str] jsonString_str [OF refl validFID_not_empty [OF fid]] eq
  have "m = [(''appId'', JStr FCMApplicationID), (''authVersion'', JStr ''FIS_v2''), (''fid'', JStr (jsonString m ''fid'')),
      (''sdkVersion'', JStr ''w:0.6.17'')]"
    by (simp add: FCMApplicationID_def)
  with fid kvs show ?thesis unfolding pinned_body_def by auto
qed

section \<open>The rewritten registration\<close>

lemma json_object_members: "gm_wf (members m)" if "json_object raw = Decoded m" for m
  using that gm_wf_json by (cases m) (auto simp: members_def)

lemma gm_build_same: "gm_wf m \<Longrightarrow> gm_build m = m"
  by (rule gm_wf_unique) (simp_all add: map_of_gm_build_wf)

lemma without_vapid_wf: "without_vapid web = Ok web' \<Longrightarrow> gm_wf web \<Longrightarrow> gm_wf web'"
  by (auto simp: without_vapid_def split: if_splits)

lemma omitDefaultVAPID_form:
  assumes "omitDefaultVAPID r = Ok r'"
  obtains web token where "gm_wf web" "\<not> only_space token"
    "r' = r\<lparr>fr_Body := JsonBody (JObj [(''web'', JObj web)]),
            fr_Header := AList.update FCMInstallationsAuthHeader [token] (fr_Header r)\<rparr>"
proof -
  from assms obtain body top raw web where
    top: "json_object body = Decoded top" "exactJSONKeys (members top) [''web'']"
    and raw: "json_object (raw_member (members top) ''web'') = Decoded raw" "without_vapid (members raw) = Ok web"
    and tok: "\<not> only_space (trim_prefix (fcm_header_get FCMInstallationsAuthHeader r) ''FIS '')"
    and r': "r' = r\<lparr>fr_Body := JsonBody (JObj (gm_put ''web'' (JObj web) (members top))),
       fr_Header := AList.update FCMInstallationsAuthHeader
         [trim_prefix (fcm_header_get FCMInstallationsAuthHeader r) ''FIS ''] (fr_Header r)\<rparr>"
    unfolding omitDefaultVAPID_def by (auto simp: obind_Ok_iff on_decode_Ok_iff require_Ok_iff Let_def split: if_splits)
  have "map fst (members top) = [''web'']"
    by (rule gm_keys [OF json_object_members [OF top(1)] top(2)]) simp_all
  then obtain x where "members top = [(''web'', x)]" by (auto simp: map_eq_Cons_conv)
  with r' tok without_vapid_wf [OF raw(2) json_object_members [OF raw(1)]] that [of web] show thesis by simp
qed

lemma registered_web:
  assumes "gm_wf web" "validateRegistrationsRequest (RawJson (JObj [(''web'', JObj web)])) = Ok ()"
  shows "pinned_body read_checkin routeRegistrations (JsonBody (JObj [(''web'', JObj web)]))"
proof -
  have "gm_build [(''web'', JObj web)] = [(''web'', JObj web)]" by (simp add: gm_build_def)
  with assms have pinned: "pinned_web web"
    by (auto simp: validateRegistrationsRequest_def obind_Ok_iff jsonObject_Ok json_object_def raw_member_def require_Ok_iff
        gm_build_same)
  have "map fst web = [''auth'', ''endpoint'', ''p256dh'']"
    by (rule gm_keys [OF assms(1), of "[''endpoint'', ''p256dh'', ''auth'']"])
      (use pinned in \<open>simp add: pinned_web_def\<close>, code_simp+)
  then obtain a e k where web: "web = [(''auth'', a), (''endpoint'', e), (''p256dh'', k)]"
    by (auto simp: map_eq_Cons_conv)
  let ?s = "jsonString web"
  from pinned have keys: "validWebPushKey (?s ''p256dh'') 65" "validWebPushKey (?s ''auth'') 16"
    and ep: "has_prefix (?s ''endpoint'') FCMRegistrationEndpointPrefix"
      "trim_prefix (?s ''endpoint'') FCMRegistrationEndpointPrefix \<noteq> []"
    by (simp_all add: pinned_web_def)
  from trim_prefix_append [OF ep(1)] obtain rest where rest: "?s ''endpoint'' = FCMRegistrationEndpointPrefix @ rest" "rest \<noteq> []"
    using ep(2) by metis
  have "?s ''p256dh'' \<noteq> []" "?s ''auth'' \<noteq> []" "?s ''endpoint'' \<noteq> []"
    using keys rest by (auto dest: validWebPushKey_not_empty)
  from this [THEN jsonString_str [OF refl]] web rest(1)
  have "web = [(''auth'', JStr (?s ''auth'')), (''endpoint'', JStr (FCMRegistrationEndpointPrefix @ rest)),
      (''p256dh'', JStr (?s ''p256dh''))]" by simp
  with keys rest(2) show ?thesis unfolding pinned_body_def by auto
qed

lemma matched_route:
  assumes "matchFCMRoute request = Ok route"
  shows "\<exists>r u. request = Some r \<and> fr_URL r = Some u \<and> u_Scheme u = ''https'' \<and> u_User u = None \<and> u_RawQuery u = []
    \<and> \<not> u_ForceQuery u \<and> u_Fragment u = [] \<and> u_Opaque u = [] \<and> fr_Host r \<in> {[], u_Host u} \<and> fr_Method r = ''POST''
    \<and> (u_Host u, EscapedPath u) = fcm_place route"
proof -
  let ?routes = "[routeCheckin, routeRegister, routeInstallations, routeRegistrations]"
  from assms obtain r u where r: "request = Some r" "fr_URL r = Some u"
    and safe: "\<not> (u_Scheme u \<noteq> ''https'' \<or> u_User u \<noteq> None \<or> u_RawQuery u \<noteq> [] \<or> u_ForceQuery u \<or> u_Fragment u \<noteq> []
       \<or> u_Opaque u \<noteq> [] \<or> (fr_Host r \<noteq> [] \<and> fr_Host r \<noteq> u_Host u))" "fr_Method r = ''POST''"
    and found: "find (\<lambda>route. (u_Host u, EscapedPath u) = fcm_place route) ?routes = Some route"
    unfolding matchFCMRoute_def by (auto split: option.split_asm if_split_asm)
  from found have "(u_Host u, EscapedPath u) = fcm_place route" by (auto simp only: find_Some_iff)
  moreover have "fr_Host r \<in> {[], u_Host u}" "u_User u = None" using safe(1) by blast+
  ultimately show ?thesis using r safe by (intro exI [of _ r] exI [of _ u]) simp
qed

lemma readAndRestoreBody_Ok: "readAndRestoreBody r = Ok body \<Longrightarrow> body = fr_Body r"
  by (cases "fr_Body r") (simp_all add: readAndRestoreBody_def)

lemma checked_request_pinned:
  assumes "checked_request read_checkin request = Ok r'"
  shows "fcm_request_pinned read_checkin r'"
proof -
  from assms obtain route where route: "matchFCMRoute request = Ok route"
    and header: "validateFCMHeaders route (the request) = Ok ()"
    and r': "(if route = routeRegistrations then omitDefaultVAPID (the request) else Ok (the request)) = Ok r'"
    and body: "readAndRestoreBody r' = Ok (fr_Body r')" "validateFCMRequestBody read_checkin route (fr_Body r') = Ok ()"
    unfolding checked_request_def
    by (auto simp: obind_Ok_iff Let_def dest: readAndRestoreBody_Ok)
  from matched_route [OF route] obtain r u where r: "request = Some r" "fr_URL r = Some u" "u_Scheme u = ''https''"
    "u_User u = None" "u_RawQuery u = []" "\<not> u_ForceQuery u" "u_Fragment u = []" "u_Opaque u = []"
    "fr_Host r \<in> {[], u_Host u}" "fr_Method r = ''POST''" "(u_Host u, EscapedPath u) = fcm_place route" by blast
  have same: "fr_URL r' = fr_URL r \<and> fr_Host r' = fr_Host r \<and> fr_Method r' = fr_Method r"
    using r' r(1) by (auto split: if_splits elim: omitDefaultVAPID_form)
  have "pinned_header route (fr_Header r') \<and> pinned_body read_checkin route (fr_Body r')"
  proof (cases "route = routeRegistrations")
    case True
    with r' r(1) obtain web token where web: "gm_wf web" "\<not> only_space token"
      "r' = r\<lparr>fr_Body := JsonBody (JObj [(''web'', JObj web)]),
              fr_Header := AList.update FCMInstallationsAuthHeader [token] (fr_Header r)\<rparr>"
      by (auto elim: omitDefaultVAPID_form)
    with True header body(2) r(1) show ?thesis
      using validated_registration_header registered_web
      by (simp add: validateFCMRequestBody_def body_json_def)
  next
    case False
    with header r' r(1) have "pinned_header route (fr_Header r')" by (auto intro: validated_header)
    moreover have "pinned_body read_checkin route (fr_Body r')"
    proof (cases route)
      case routeCheckin
      with body(2) show ?thesis
        by (auto simp: validateFCMRequestBody_def validateCheckinRequest_def require_Ok_iff pinned_body_def
            split: fcm_body.splits sum.splits if_splits)
    next
      case routeRegister
      with body(2) show ?thesis
        by (auto simp: validateFCMRequestBody_def split: fcm_body.splits intro: registered_body)
    next
      case routeInstallations
      with body(2) show ?thesis by (auto simp: validateFCMRequestBody_def intro: installed_body)
    qed (use False in simp)
    ultimately show ?thesis by simp
  qed
  with r same show ?thesis unfolding fcm_request_pinned_def by metis
qed

section \<open>The gate\<close>

text \<open>C28: the registration transport is a gate. It forwards at most one request for one that it is given, and exactly one
  when it returns without an error. What it forwards is a POST over HTTPS to one of four places, with no user
  information, query or fragment, with exactly the pinned headers, and with a body of exactly the pinned shape:
  a registration never carries the VAPID key.\<close>

theorem forwarded_requests_pinned:
  "\<exists>out. dt_sent (snd (RoundTrip read_checkin next request t)) = dt_sent t @ out
     \<and> length out \<le> 1 \<and> list_all (fcm_request_pinned read_checkin) out
     \<and> (case fst (RoundTrip read_checkin next request t) of Ok _ \<Rightarrow> length out = 1 | _ \<Rightarrow> True)"
proof (cases "checked_request read_checkin request")
  case (Ok r)
  then have "dt_sent (snd (RoundTrip read_checkin next request t)) = dt_sent t @ [r]"
    by (auto simp: RoundTrip_def lbind_def lift_def fcm_forward_def Let_def split: option.split prod.split)
  with checked_request_pinned [OF Ok] show ?thesis by (intro exI [of _ "[r]"]) (simp split: outcome.split)
qed (simp_all add: RoundTrip_def lbind_def lift_def)

lemma outcomes_without_panic:
  "matchFCMRoute request \<noteq> Panic" "validateFCMHeaders route r \<noteq> Panic" "readAndRestoreBody r \<noteq> Panic"
  "validateFCMRequestBody read_checkin route body \<noteq> Panic"
proof -
  have obj: "jsonObject raw \<noteq> Panic" for raw
    by (auto simp: jsonObject_def on_decode_def json_object_def split: raw_message.split json.split option.split)
  have wrap: "wrap_error f x = Panic \<longleftrightarrow> x = Panic" for f and x :: "'a outcome" by (cases x) (simp_all add: wrap_error_def)
  have req: "require b e \<noteq> Panic" for b e by (simp add: require_def)
  show "matchFCMRoute request \<noteq> Panic" by (simp add: matchFCMRoute_def split: option.split)
  show "validateFCMHeaders route r \<noteq> Panic" by (simp add: validateFCMHeaders_def req split: option.split)
  show "readAndRestoreBody r \<noteq> Panic" by (simp add: readAndRestoreBody_def split: fcm_body.split)
  have "validateInstallationsRequest raw \<noteq> Panic" "validateRegistrationsRequest raw \<noteq> Panic" for raw
    by (simp_all add: validateInstallationsRequest_def validateRegistrationsRequest_def obind_Panic_iff obj wrap req)
  moreover have "validateCheckinRequest m \<noteq> Panic" for m by (simp add: validateCheckinRequest_def req)
  moreover have "validateRegisterRequest s \<noteq> Panic" for s by (simp add: validateRegisterRequest_def req split: sum.split)
  ultimately show "validateFCMRequestBody read_checkin route body \<noteq> Panic"
    by (simp add: validateFCMRequestBody_def split: fcmHTTPRoute.split fcm_body.split sum.split)
qed

lemma omitDefaultVAPID_panics: "omitDefaultVAPID r = Panic \<longleftrightarrow> fr_Body r = MissingBody"
proof -
  have "read_registration r = Panic \<longleftrightarrow> fr_Body r = MissingBody" by (cases "fr_Body r") (simp_all add: read_registration_def)
  moreover have "json_object raw \<noteq> DecodePanic" for raw
    by (simp add: json_object_def split: raw_message.split json.split)
  moreover have "without_vapid web \<noteq> Panic" for web by (simp add: without_vapid_def)
  ultimately show ?thesis
    unfolding omitDefaultVAPID_def
    by (auto simp: obind_Panic_iff on_decode_Panic_iff require_def Let_def split: if_splits)
qed

text \<open>
  A registration without a body reaches \<open>io.ReadAll\<close> before the check that a body is there: the transport panics, on
  this route alone, where it refuses the other requests without a body.
\<close>

lemma RoundTrip_panics_iff:
  "fst (RoundTrip read_checkin next request t) = Panic
   \<longleftrightarrow> matchFCMRoute request = Ok routeRegistrations
      \<and> validateFCMHeaders routeRegistrations (the request) = Ok () \<and> fr_Body (the request) = MissingBody"
proof -
  have "fst (RoundTrip read_checkin next request t) = Panic \<longleftrightarrow> checked_request read_checkin request = Panic"
    by (cases "checked_request read_checkin request")
      (auto simp: RoundTrip_def lbind_def lift_def fcm_forward_def Let_def split: option.split prod.split)
  also have "\<dots> \<longleftrightarrow> (\<exists>route. matchFCMRoute request = Ok route \<and> validateFCMHeaders route (the request) = Ok ()
      \<and> (if route = routeRegistrations then omitDefaultVAPID (the request) else Ok (the request)) = Panic)"
    unfolding checked_request_def by (simp add: obind_Panic_iff outcomes_without_panic Let_def)
  finally show ?thesis by (auto simp: omitDefaultVAPID_panics split: if_splits)
qed

section \<open>The two shapes of a registration\<close>

lemma gm_build_snoc: "gm_build (kvs @ [(k, v)]) = gm_put k v (gm_build kvs)"
  by (simp add: gm_build_def)

lemma gm_del_put: "gm_wf m \<Longrightarrow> map_of m k = None \<Longrightarrow> gm_del k (gm_put k v m) = m"
  by (rule gm_wf_unique) (auto simp: fun_eq_iff)

lemma exactJSONKeys_put:
  assumes "gm_wf m" "map_of m k = None" "exactJSONKeys m names"
  shows "exactJSONKeys (gm_put k v m) (k # names)"
proof -
  have "length (gm_put k v m) = Suc (length m)" if "map_of m k = None" for m :: "(string \<times> json) list"
    using that by (induction k v m rule: gm_put.induct) (auto split: if_splits)
  with assms show ?thesis by (auto simp: exactJSONKeys_def list_all_iff)
qed

lemma without_vapid_legacy:
  assumes "gm_wf web" "exactJSONKeys web [''endpoint'', ''p256dh'', ''auth'']"
  shows "map_of web ''applicationPubKey'' = None"
    "without_vapid (gm_put ''applicationPubKey'' (JStr FCMDefaultVAPIDKey) web) = without_vapid web"
proof -
  let ?web = "gm_put ''applicationPubKey'' (JStr FCMDefaultVAPIDKey) web"
  have "map fst web = [''auth'', ''endpoint'', ''p256dh'']" by (rule gm_keys [OF assms]) code_simp+
  then show none: "map_of web ''applicationPubKey'' = None" by (auto simp: map_of_eq_None_iff simp flip: list.set_map)
  have keys: "exactJSONKeys ?web [''applicationPubKey'', ''endpoint'', ''p256dh'', ''auth'']"
    by (rule exactJSONKeys_put [OF assms(1) none assms(2)])
  then have "\<not> exactJSONKeys ?web [''endpoint'', ''p256dh'', ''auth'']" by (simp add: exactJSONKeys_def)
  moreover have "jsonString ?web ''applicationPubKey'' = FCMDefaultVAPIDKey"
    using assms(1) by (simp add: jsonString_def raw_member_def json_string_def)
  ultimately show "without_vapid ?web = without_vapid web"
    using keys assms none by (simp add: without_vapid_def gm_del_put)
qed

text \<open>The registration that the receiver sends for a generated one.\<close>

definition legacy_registration :: "fcm_http \<Rightarrow> string \<Rightarrow> fcm_http" where
  "legacy_registration r body =
     r\<lparr>fr_Body := BodyText body,
       fr_Header := AList.update FCMInstallationsAuthHeader [''FIS '' @ fcm_header_get FCMInstallationsAuthHeader r]
         (fr_Header r)\<rparr>"

lemma legacy_omit:
  assumes "fr_Body r = BodyText body" "json_text body = RawJson (JObj [(''web'', JObj web)])"
    and "json_text body' = RawJson (JObj [(''web'', JObj (web @ [(''applicationPubKey'', JStr FCMDefaultVAPIDKey)]))])"
    and "exactJSONKeys (gm_build web) [''endpoint'', ''p256dh'', ''auth'']"
    and "\<not> has_prefix (fcm_header_get FCMInstallationsAuthHeader r) ''FIS ''"
  shows "omitDefaultVAPID (legacy_registration r body') = omitDefaultVAPID r"
proof -
  have one: "gm_build [(''web'', x)] = [(''web'', x)]" for x :: json by (simp add: gm_build_def)
  let ?get = "fcm_header_get FCMInstallationsAuthHeader"
  have token: "trim_prefix (?get (legacy_registration r body')) ''FIS '' = trim_prefix (?get r) ''FIS ''"
    using assms(5) by (simp add: legacy_registration_def fcm_header_get_def AList.update_conv' trim_prefix_def has_prefix_def)
  have same: "AList.update k v (fr_Header (legacy_registration r body')) = AList.update k v (fr_Header r)"
    if "k = FCMInstallationsAuthHeader" for k v
    using that by (simp add: legacy_registration_def)
  show ?thesis
    unfolding omitDefaultVAPID_def read_registration_def
    using assms(1-3) without_vapid_legacy(2) [OF gm_build_wf assms(4)]
    by (simp add: token same [OF refl]) (simp add: legacy_registration_def body_json_def json_object_def one members_def raw_member_def
        gm_build_snoc on_decode_def exactJSONKeys_def [where names = "[''web'']"] require_def [where b = True] cong: if_cong)
qed

lemma legacy_header_valid:
  assumes "validateFCMHeaders routeRegistrations r = Ok ()" "\<not> has_prefix (fcm_header_get FCMInstallationsAuthHeader r) ''FIS ''"
  shows "validateFCMHeaders routeRegistrations (legacy_registration r body) = Ok ()"
proof -
  let ?auth = FCMInstallationsAuthHeader and ?h = "fr_Header r"
  let ?token = "fcm_header_get ?auth r"
  from assms(1) have tok: "\<not> only_space (trim_prefix ?token ''FIS '')"
    and same: "sameHeaderSet [(''Content-Type'', [''application/json'']), (''X-Goog-Api-Key'', [FCMAPIKey]),
      (?auth, [?token])] ?h"
    by (auto simp: validateFCMHeaders_def expected_header_def Let_def require_def split: if_splits)
  from assms(2) have trim: "trim_prefix (''FIS '' @ ?token) ''FIS '' = trim_prefix ?token ''FIS ''"
    by (simp add: trim_prefix_def has_prefix_def)
  have get: "fcm_header_get ?auth (legacy_registration r body) = ''FIS '' @ ?token"
    by (simp add: legacy_registration_def fcm_header_get_def AList.update_conv')
  from same have "map_of ?h ?auth \<noteq> None" by (auto simp: sameHeaderSet_def split: option.splits)
  then have "map fst (AList.update ?auth v ?h) = map fst ?h" for v by (simp add: AList.update_keys map_of_eq_None_iff)
  then have len: "length (AList.update ?auth v ?h) = length ?h" for v by (metis length_map)
  from same have "sameHeaderSet [(''Content-Type'', [''application/json'']), (''X-Goog-Api-Key'', [FCMAPIKey]),
      (?auth, [''FIS '' @ ?token])] (fr_Header (legacy_registration r body))"
    by (simp add: sameHeaderSet_def legacy_registration_def AList.update_conv' len)
  with tok show ?thesis
    unfolding validateFCMHeaders_def expected_header_def
    by (simp add: get trim [simplified] Let_def require_def)
qed

text \<open>C29: the receiver may send a registration in its own shape, with the VAPID key and a prefixed credential, or in the
  generated one: the transport treats both alike. The same request is forwarded, or none, and the outcome and what
  is remembered of failures are the same.\<close>

theorem legacy_registration_alike:
  assumes "matchFCMRoute (Some r) = Ok routeRegistrations" "validateFCMHeaders routeRegistrations r = Ok ()"
    and "fr_Body r = BodyText body" "json_text body = RawJson (JObj [(''web'', JObj web)])"
    and "json_text body' = RawJson (JObj [(''web'', JObj (web @ [(''applicationPubKey'', JStr FCMDefaultVAPIDKey)]))])"
    and "exactJSONKeys (gm_build web) [''endpoint'', ''p256dh'', ''auth'']"
    and "\<not> has_prefix (fcm_header_get FCMInstallationsAuthHeader r) ''FIS ''"
  shows "RoundTrip read_checkin next (Some (legacy_registration r body')) t = RoundTrip read_checkin next (Some r) t"
proof -
  have "fr_URL (legacy_registration r body') = fr_URL r" "fr_Host (legacy_registration r body') = fr_Host r"
    "fr_Method (legacy_registration r body') = fr_Method r" by (simp_all add: legacy_registration_def)
  then have "matchFCMRoute (Some (legacy_registration r body')) = matchFCMRoute (Some r)"
    by (cases "fr_URL r") (simp_all add: matchFCMRoute_def)
  with assms(1,2) legacy_header_valid [OF assms(2,7)] legacy_omit [OF assms(3-7)]
  have "checked_request read_checkin (Some (legacy_registration r body')) = checked_request read_checkin (Some r)"
    by (simp add: checked_request_def Let_def)
  then show ?thesis by (simp add: RoundTrip_def)
qed

definition sample_web :: "(string \<times> json) list" where
  "sample_web =
     [(''endpoint'', JStr ''https://fcm.googleapis.com/fcm/send/id''),
      (''p256dh'', JStr (replicate 87 (CHR ''A'') @ ''='')), (''auth'', JStr (replicate 22 (CHR ''A'') @ ''==''))]"

definition sample_members :: string where
  "sample_members =
     concat (map (\<lambda>(k, v). CHR 0x22 # k @ [CHR 0x22, CHR '':'', CHR 0x22] @ (case v of JStr s \<Rightarrow> s | _ \<Rightarrow> []) @ [CHR 0x22, CHR '','']) sample_web)"

definition sample_body :: "string \<Rightarrow> string" where
  "sample_body ms = ''{'' @ [CHR 0x22] @ ''web'' @ [CHR 0x22] @ '':{'' @ ms @ ''}}''"

definition sample_registration :: fcm_http where
  "sample_registration =
     \<lparr>fr_Method = ''POST'',
      fr_URL = Some (empty_url\<lparr>u_Scheme := ''https'', u_Host := ''fcmregistrations.googleapis.com'',
        u_Path := ''/v1/projects/ring-17770/registrations''\<rparr>),
      fr_Host = [],
      fr_Header = [(''Content-Type'', [''application/json'']), (''X-Goog-Api-Key'', [FCMAPIKey]),
        (FCMInstallationsAuthHeader, [''token''])],
      fr_Body = BodyText (sample_body (butlast sample_members))\<rparr>"

definition legacy_body :: string where
  "legacy_body =
     sample_body (sample_members @ [CHR 0x22] @ ''applicationPubKey'' @ [CHR 0x22, CHR '':'', CHR 0x22] @ FCMDefaultVAPIDKey @ [CHR 0x22])"

theorem legacy_registration_alike_witness:
  "fst (RoundTrip (\<lambda>s. Inl JSONError) (\<lambda>sent r. (Some 200, None)) (Some (legacy_registration sample_registration legacy_body))
     newDiagnosticTransport) = Ok (Some 200)"
proof -
  have "RoundTrip (\<lambda>s. Inl JSONError) (\<lambda>sent r. (Some 200, None)) (Some (legacy_registration sample_registration legacy_body))
      newDiagnosticTransport
    = RoundTrip (\<lambda>s. Inl JSONError) (\<lambda>sent r. (Some 200, None)) (Some sample_registration) newDiagnosticTransport"
  proof (rule legacy_registration_alike)
    show "matchFCMRoute (Some sample_registration) = Ok routeRegistrations" by code_simp
    show "validateFCMHeaders routeRegistrations sample_registration = Ok ()" by code_simp
    show "fr_Body sample_registration = BodyText (sample_body (butlast sample_members))"
      by (simp add: sample_registration_def)
    show "json_text (sample_body (butlast sample_members)) = RawJson (JObj [(''web'', JObj sample_web)])" by code_simp
    show "json_text legacy_body
        = RawJson (JObj [(''web'', JObj (sample_web @ [(''applicationPubKey'', JStr FCMDefaultVAPIDKey)]))])" by code_simp
    show "exactJSONKeys (gm_build sample_web) [''endpoint'', ''p256dh'', ''auth'']" by code_simp
    show "\<not> has_prefix (fcm_header_get FCMInstallationsAuthHeader sample_registration) ''FIS ''" by code_simp
  qed
  moreover have "fst (RoundTrip (\<lambda>s. Inl JSONError) (\<lambda>sent r. (Some 200, None)) (Some sample_registration)
      newDiagnosticTransport) = Ok (Some 200)" by code_simp
  ultimately show ?thesis by simp
qed

end
