(* ===== verification/FcmClient.thy ===== *)
theory FcmClient
  imports FcmTransport RestResponses PushNotifications
begin

text \<open>
  The generated client that the receiver registers with, \<open>internal/generatedfcm/client.gen.go\<close>, and the structs of its
  requests (\<open>pkg/dependencymodels/fcm/models.gen.go\<close>): the builders, the methods, the parsers, and the methods that do
  both, over the schemes of the generated HTTP client. The client itself, its options and its editors are the same text
  as there (theory RestResponses). \<open>print_header\<close> is the library's printing of a header parameter, \<open>marshal_form\<close> its
  printing of a struct as form values; \<open>with_header_params\<close> stands for the text that every builder repeats.
\<close>

section \<open>Constants of the protocol\<close>

definition InstallationRequestAppId_Valid :: "string \<Rightarrow> bool" where
  "InstallationRequestAppId_Valid e \<longleftrightarrow> e \<in> {FCMApplicationID}"

definition InstallationRequestAuthVersion_Valid :: "string \<Rightarrow> bool" where
  "InstallationRequestAuthVersion_Valid e \<longleftrightarrow> e \<in> {''FIS_v2''}"

definition InstallationRequestSdkVersion_Valid :: "string \<Rightarrow> bool" where
  "InstallationRequestSdkVersion_Valid e \<longleftrightarrow> e \<in> {''w:0.6.17''}"

definition LegacyRegistrationRequestXSubtype_Valid :: "string \<Rightarrow> bool" where
  "LegacyRegistrationRequestXSubtype_Valid e \<longleftrightarrow> e \<in> {FCMApplicationID}"

definition LegacyRegistrationRequestApp_Valid :: "string \<Rightarrow> bool" where
  "LegacyRegistrationRequestApp_Valid e \<longleftrightarrow> e \<in> {''org.chromium.linux''}"

definition LegacyRegistrationRequestSender_Valid :: "string \<Rightarrow> bool" where
  "LegacyRegistrationRequestSender_Valid e \<longleftrightarrow> e \<in> {FCMDefaultVAPIDKey}"

definition GoogleAPIKey_Valid :: "string \<Rightarrow> bool" where
  "GoogleAPIKey_Valid e \<longleftrightarrow> e \<in> {FCMAPIKey}"

definition JSONAccept_Valid :: "string \<Rightarrow> bool" where
  "JSONAccept_Valid e \<longleftrightarrow> e \<in> {''application/json''}"

definition JSONContentType_Valid :: "string \<Rightarrow> bool" where
  "JSONContentType_Valid e \<longleftrightarrow> e \<in> {''application/json''}"

definition ProtobufContentType_Valid :: "string \<Rightarrow> bool" where
  "ProtobufContentType_Valid e \<longleftrightarrow> e \<in> {''application/x-protobuf''}"

definition RegisterFCMClientParamsContentType_Valid :: "string \<Rightarrow> bool" where
  "RegisterFCMClientParamsContentType_Valid e \<longleftrightarrow> e \<in> {''application/x-www-form-urlencoded''}"

definition CheckInFCMClientParamsContentType_Valid :: "string \<Rightarrow> bool" where
  "CheckInFCMClientParamsContentType_Valid e \<longleftrightarrow> e \<in> {''application/x-protobuf''}"

definition CreateFCMInstallationParamsAccept_Valid :: "string \<Rightarrow> bool" where
  "CreateFCMInstallationParamsAccept_Valid e \<longleftrightarrow> e \<in> {''application/json''}"

definition CreateFCMInstallationParamsContentType_Valid :: "string \<Rightarrow> bool" where
  "CreateFCMInstallationParamsContentType_Valid e \<longleftrightarrow> e \<in> {''application/json''}"

definition CreateFCMInstallationParamsXGoogApiKey_Valid :: "string \<Rightarrow> bool" where
  "CreateFCMInstallationParamsXGoogApiKey_Valid e \<longleftrightarrow> e \<in> {FCMAPIKey}"

definition RegisterFCMInstallationParamsContentType_Valid :: "string \<Rightarrow> bool" where
  "RegisterFCMInstallationParamsContentType_Valid e \<longleftrightarrow> e \<in> {''application/json''}"

definition RegisterFCMInstallationParamsXGoogApiKey_Valid :: "string \<Rightarrow> bool" where
  "RegisterFCMInstallationParamsXGoogApiKey_Valid e \<longleftrightarrow> e \<in> {FCMAPIKey}"

section \<open>Structs\<close>

definition FCMWebRegistration_type :: gotype where
  "FCMWebRegistration_type = TStruct [(''auth'', False, TString), (''endpoint'', False, TString), (''p256dh'', False, TString)]"

definition InstallationRequest_type :: gotype where
  "InstallationRequest_type = TStruct [(''appId'', False, TString), (''authVersion'', False, TString), (''fid'', False, TString), (''sdkVersion'', False, TString)]"

definition FCMRegistrationRequest_type :: gotype where
  "FCMRegistrationRequest_type = TStruct [(''web'', False, FCMWebRegistration_type)]"

record LegacyRegistrationRequest =
  LegacyRegistrationRequest_XSubtype :: string
  LegacyRegistrationRequest_App :: string
  LegacyRegistrationRequest_Device :: string
  LegacyRegistrationRequest_Sender :: string

record RegisterFCMClientParams =
  RegisterFCMClientParams_ContentType :: string
  RegisterFCMClientParams_Authorization :: string
  RegisterFCMClientParams_UserAgent :: string

record CheckInFCMClientParams =
  CheckInFCMClientParams_ContentType :: string

record CreateFCMInstallationParams =
  CreateFCMInstallationParams_Accept :: string
  CreateFCMInstallationParams_ContentType :: string
  CreateFCMInstallationParams_XGoogApiKey :: string

record RegisterFCMInstallationParams =
  RegisterFCMInstallationParams_ContentType :: string
  RegisterFCMInstallationParams_XGoogApiKey :: string
  RegisterFCMInstallationParams_XGoogFirebaseInstallationsAuth :: string

section \<open>Builders\<close>

type_synonym print_header = "string \<Rightarrow> string \<Rightarrow> goerr + string"

fun with_header_params :: "print_header \<Rightarrow> (string \<times> string) list \<Rightarrow> http_request \<Rightarrow> goerr + http_request" where
  "with_header_params print_header [] req = Inr req"
| "with_header_params print_header ((name, v) # ps) req =
     (case print_header name v of
        Inl e \<Rightarrow> Inl e
      | Inr text \<Rightarrow> with_header_params print_header ps (header name text req))"

definition fcm_request ::
  "runtime \<Rightarrow> print_header \<Rightarrow> string \<Rightarrow> string \<Rightarrow> (string \<times> string) list option \<Rightarrow> string \<Rightarrow> request_body \<Rightarrow> goerr + http_request"
  where
  "fcm_request rt print_header server path params contentType body =
     (case with_content_type contentType (build_request rt ''POST'' server (path, None) None) body of
        Inl e \<Rightarrow> Inl e
      | Inr req \<Rightarrow> (case params of None \<Rightarrow> Inr req | Some ps \<Rightarrow> with_header_params print_header ps req))"

definition NewRegisterFCMClientRequestWithBody ::
  "runtime \<Rightarrow> print_header \<Rightarrow> string \<Rightarrow> RegisterFCMClientParams option \<Rightarrow> string \<Rightarrow> request_body \<Rightarrow> goerr + http_request" where
  "NewRegisterFCMClientRequestWithBody rt print_header server params contentType body =
     fcm_request rt print_header server ''/c2dm/register3''
       (map_option (\<lambda>p. [(''Content-Type'', RegisterFCMClientParams_ContentType p),
          (''Authorization'', RegisterFCMClientParams_Authorization p),
          (''User-Agent'', RegisterFCMClientParams_UserAgent p)]) params)
       contentType body"

definition NewRegisterFCMClientRequestWithFormdataBody ::
  "(LegacyRegistrationRequest \<Rightarrow> goerr + (string \<times> string) list) \<Rightarrow> runtime \<Rightarrow> print_header \<Rightarrow> string
   \<Rightarrow> RegisterFCMClientParams option \<Rightarrow> LegacyRegistrationRequest \<Rightarrow> goerr + http_request" where
  "NewRegisterFCMClientRequestWithFormdataBody marshal_form rt print_header server params body =
     (case marshal_form body of
        Inl e \<Rightarrow> Inl e
      | Inr bodyStr \<Rightarrow>
          NewRegisterFCMClientRequestWithBody rt print_header server params ''application/x-www-form-urlencoded''
            (TextBody (Encode bodyStr)))"

definition NewCheckInFCMClientRequestWithBody ::
  "runtime \<Rightarrow> print_header \<Rightarrow> string \<Rightarrow> CheckInFCMClientParams option \<Rightarrow> string \<Rightarrow> request_body \<Rightarrow> goerr + http_request" where
  "NewCheckInFCMClientRequestWithBody rt print_header server params contentType body =
     fcm_request rt print_header server ''/checkin''
       (map_option (\<lambda>p. [(''Content-Type'', CheckInFCMClientParams_ContentType p)]) params)
       contentType body"

definition NewCreateFCMInstallationRequestWithBody ::
  "runtime \<Rightarrow> print_header \<Rightarrow> string \<Rightarrow> CreateFCMInstallationParams option \<Rightarrow> string \<Rightarrow> request_body \<Rightarrow> goerr + http_request" where
  "NewCreateFCMInstallationRequestWithBody rt print_header server params contentType body =
     fcm_request rt print_header server ''/v1/projects/ring-17770/installations''
       (map_option (\<lambda>p. [(''Accept'', CreateFCMInstallationParams_Accept p),
          (''Content-Type'', CreateFCMInstallationParams_ContentType p),
          (''X-Goog-Api-Key'', CreateFCMInstallationParams_XGoogApiKey p)]) params)
       contentType body"

definition NewCreateFCMInstallationRequest ::
  "runtime \<Rightarrow> print_header \<Rightarrow> string \<Rightarrow> CreateFCMInstallationParams option \<Rightarrow> goval \<Rightarrow> goerr + http_request" where
  "NewCreateFCMInstallationRequest rt print_header server params body =
     NewCreateFCMInstallationRequestWithBody rt print_header server params ''application/json'' (JSONBody (marshal InstallationRequest_type body))"

definition NewRegisterFCMInstallationRequestWithBody ::
  "runtime \<Rightarrow> print_header \<Rightarrow> string \<Rightarrow> RegisterFCMInstallationParams option \<Rightarrow> string \<Rightarrow> request_body \<Rightarrow> goerr + http_request" where
  "NewRegisterFCMInstallationRequestWithBody rt print_header server params contentType body =
     fcm_request rt print_header server ''/v1/projects/ring-17770/registrations''
       (map_option (\<lambda>p. [(''Content-Type'', RegisterFCMInstallationParams_ContentType p),
          (''X-Goog-Api-Key'', RegisterFCMInstallationParams_XGoogApiKey p),
          (''X-Goog-Firebase-Installations-Auth'', RegisterFCMInstallationParams_XGoogFirebaseInstallationsAuth p)]) params)
       contentType body"

definition NewRegisterFCMInstallationRequest ::
  "runtime \<Rightarrow> print_header \<Rightarrow> string \<Rightarrow> RegisterFCMInstallationParams option \<Rightarrow> goval \<Rightarrow> goerr + http_request" where
  "NewRegisterFCMInstallationRequest rt print_header server params body =
     NewRegisterFCMInstallationRequestWithBody rt print_header server params ''application/json'' (JSONBody (marshal FCMRegistrationRequest_type body))"

section \<open>Methods\<close>

definition RegisterFCMClientWithBody ::
  "runtime \<Rightarrow> print_header \<Rightarrow> http_env \<Rightarrow> generated_client \<Rightarrow> RegisterFCMClientParams option \<Rightarrow> string \<Rightarrow> request_body
   \<Rightarrow> request_editor list \<Rightarrow> http_reply http_step" where
  "RegisterFCMClientWithBody rt print_header env c params contentType body reqEditors =
     client_do env c reqEditors (NewRegisterFCMClientRequestWithBody rt print_header (gc_Server c) params contentType body)"

definition RegisterFCMClientWithFormdataBody ::
  "(LegacyRegistrationRequest \<Rightarrow> goerr + (string \<times> string) list) \<Rightarrow> runtime \<Rightarrow> print_header \<Rightarrow> http_env \<Rightarrow> generated_client \<Rightarrow> RegisterFCMClientParams option \<Rightarrow> LegacyRegistrationRequest
   \<Rightarrow> request_editor list \<Rightarrow> http_reply http_step" where
  "RegisterFCMClientWithFormdataBody marshal_form rt print_header env c params body reqEditors =
     client_do env c reqEditors (NewRegisterFCMClientRequestWithFormdataBody marshal_form rt print_header (gc_Server c) params body)"

definition CheckInFCMClientWithBody ::
  "runtime \<Rightarrow> print_header \<Rightarrow> http_env \<Rightarrow> generated_client \<Rightarrow> CheckInFCMClientParams option \<Rightarrow> string \<Rightarrow> request_body
   \<Rightarrow> request_editor list \<Rightarrow> http_reply http_step" where
  "CheckInFCMClientWithBody rt print_header env c params contentType body reqEditors =
     client_do env c reqEditors (NewCheckInFCMClientRequestWithBody rt print_header (gc_Server c) params contentType body)"

definition CreateFCMInstallationWithBody ::
  "runtime \<Rightarrow> print_header \<Rightarrow> http_env \<Rightarrow> generated_client \<Rightarrow> CreateFCMInstallationParams option \<Rightarrow> string \<Rightarrow> request_body
   \<Rightarrow> request_editor list \<Rightarrow> http_reply http_step" where
  "CreateFCMInstallationWithBody rt print_header env c params contentType body reqEditors =
     client_do env c reqEditors (NewCreateFCMInstallationRequestWithBody rt print_header (gc_Server c) params contentType body)"

definition CreateFCMInstallation ::
  "runtime \<Rightarrow> print_header \<Rightarrow> http_env \<Rightarrow> generated_client \<Rightarrow> CreateFCMInstallationParams option \<Rightarrow> goval
   \<Rightarrow> request_editor list \<Rightarrow> http_reply http_step" where
  "CreateFCMInstallation rt print_header env c params body reqEditors =
     client_do env c reqEditors (NewCreateFCMInstallationRequest rt print_header (gc_Server c) params body)"

definition RegisterFCMInstallationWithBody ::
  "runtime \<Rightarrow> print_header \<Rightarrow> http_env \<Rightarrow> generated_client \<Rightarrow> RegisterFCMInstallationParams option \<Rightarrow> string \<Rightarrow> request_body
   \<Rightarrow> request_editor list \<Rightarrow> http_reply http_step" where
  "RegisterFCMInstallationWithBody rt print_header env c params contentType body reqEditors =
     client_do env c reqEditors (NewRegisterFCMInstallationRequestWithBody rt print_header (gc_Server c) params contentType body)"

definition RegisterFCMInstallation ::
  "runtime \<Rightarrow> print_header \<Rightarrow> http_env \<Rightarrow> generated_client \<Rightarrow> RegisterFCMInstallationParams option \<Rightarrow> goval
   \<Rightarrow> request_editor list \<Rightarrow> http_reply http_step" where
  "RegisterFCMInstallation rt print_header env c params body reqEditors =
     client_do env c reqEditors (NewRegisterFCMInstallationRequest rt print_header (gc_Server c) params body)"

section \<open>Responses\<close>

definition ParseRegisterFCMClientResponse :: "http_reply \<Rightarrow> goerr + parsed_response" where
  "ParseRegisterFCMClientResponse rsp = parse_response [] rsp"

definition ParseCheckInFCMClientResponse :: "http_reply \<Rightarrow> goerr + parsed_response" where
  "ParseCheckInFCMClientResponse rsp = parse_response [] rsp"

definition ParseCreateFCMInstallationResponse :: "http_reply \<Rightarrow> goerr + parsed_response" where
  "ParseCreateFCMInstallationResponse rsp = parse_response [(''JSON200'', Some 200, InstallationResponse_model), (''JSON201'', Some 201, InstallationResponse_model)] rsp"

definition ParseRegisterFCMInstallationResponse :: "http_reply \<Rightarrow> goerr + parsed_response" where
  "ParseRegisterFCMInstallationResponse rsp = parse_response [(''JSON200'', Some 200, FCMRegistrationResponse_model), (''JSON201'', Some 201, FCMRegistrationResponse_model)] rsp"

definition RegisterFCMClientWithBodyWithResponse ::
  "runtime \<Rightarrow> print_header \<Rightarrow> http_env \<Rightarrow> generated_client \<Rightarrow> RegisterFCMClientParams option \<Rightarrow> string \<Rightarrow> request_body
   \<Rightarrow> request_editor list \<Rightarrow> parsed_response http_step" where
  "RegisterFCMClientWithBodyWithResponse rt print_header env c params contentType body reqEditors =
     with_response ParseRegisterFCMClientResponse (RegisterFCMClientWithBody rt print_header env c params contentType body reqEditors)"

definition RegisterFCMClientWithFormdataBodyWithResponse ::
  "(LegacyRegistrationRequest \<Rightarrow> goerr + (string \<times> string) list) \<Rightarrow> runtime \<Rightarrow> print_header \<Rightarrow> http_env \<Rightarrow> generated_client \<Rightarrow> RegisterFCMClientParams option \<Rightarrow> LegacyRegistrationRequest
   \<Rightarrow> request_editor list \<Rightarrow> parsed_response http_step" where
  "RegisterFCMClientWithFormdataBodyWithResponse marshal_form rt print_header env c params body reqEditors =
     with_response ParseRegisterFCMClientResponse (RegisterFCMClientWithFormdataBody marshal_form rt print_header env c params body reqEditors)"

definition CheckInFCMClientWithBodyWithResponse ::
  "runtime \<Rightarrow> print_header \<Rightarrow> http_env \<Rightarrow> generated_client \<Rightarrow> CheckInFCMClientParams option \<Rightarrow> string \<Rightarrow> request_body
   \<Rightarrow> request_editor list \<Rightarrow> parsed_response http_step" where
  "CheckInFCMClientWithBodyWithResponse rt print_header env c params contentType body reqEditors =
     with_response ParseCheckInFCMClientResponse (CheckInFCMClientWithBody rt print_header env c params contentType body reqEditors)"

definition CreateFCMInstallationWithBodyWithResponse ::
  "runtime \<Rightarrow> print_header \<Rightarrow> http_env \<Rightarrow> generated_client \<Rightarrow> CreateFCMInstallationParams option \<Rightarrow> string \<Rightarrow> request_body
   \<Rightarrow> request_editor list \<Rightarrow> parsed_response http_step" where
  "CreateFCMInstallationWithBodyWithResponse rt print_header env c params contentType body reqEditors =
     with_response ParseCreateFCMInstallationResponse (CreateFCMInstallationWithBody rt print_header env c params contentType body reqEditors)"

definition CreateFCMInstallationWithResponse ::
  "runtime \<Rightarrow> print_header \<Rightarrow> http_env \<Rightarrow> generated_client \<Rightarrow> CreateFCMInstallationParams option \<Rightarrow> goval
   \<Rightarrow> request_editor list \<Rightarrow> parsed_response http_step" where
  "CreateFCMInstallationWithResponse rt print_header env c params body reqEditors =
     with_response ParseCreateFCMInstallationResponse (CreateFCMInstallation rt print_header env c params body reqEditors)"

definition RegisterFCMInstallationWithBodyWithResponse ::
  "runtime \<Rightarrow> print_header \<Rightarrow> http_env \<Rightarrow> generated_client \<Rightarrow> RegisterFCMInstallationParams option \<Rightarrow> string \<Rightarrow> request_body
   \<Rightarrow> request_editor list \<Rightarrow> parsed_response http_step" where
  "RegisterFCMInstallationWithBodyWithResponse rt print_header env c params contentType body reqEditors =
     with_response ParseRegisterFCMInstallationResponse (RegisterFCMInstallationWithBody rt print_header env c params contentType body reqEditors)"

definition RegisterFCMInstallationWithResponse ::
  "runtime \<Rightarrow> print_header \<Rightarrow> http_env \<Rightarrow> generated_client \<Rightarrow> RegisterFCMInstallationParams option \<Rightarrow> goval
   \<Rightarrow> request_editor list \<Rightarrow> parsed_response http_step" where
  "RegisterFCMInstallationWithResponse rt print_header env c params body reqEditors =
     with_response ParseRegisterFCMInstallationResponse (RegisterFCMInstallation rt print_header env c params body reqEditors)"

end
