(* ===== verification/FcmClientGate.thy ===== *)
theory FcmClientGate
  imports FcmGate FcmClient
begin

text \<open>
  The generated client and the registration transport together: the requests that the client builds, with the constants
  of the protocol, pass the transport, unchanged.
\<close>

text \<open>A request that \<open>http.NewRequest\<close> made, as the transport below the HTTP client sees it.\<close>

definition transport_request :: "http_request \<Rightarrow> fcm_http" where
  "transport_request req =
     (let target = url_parse (hr_url req) in
      \<lparr>fr_Method = hr_method req,
       fr_URL = (case target of Inl _ \<Rightarrow> None | Inr u \<Rightarrow> Some u),
       fr_Host = (case target of Inl _ \<Rightarrow> [] | Inr u \<Rightarrow> u_Host u),
       fr_Header = map (\<lambda>(k, v). (k, [v])) (hr_headers req),
       fr_Body = (case hr_body req of NoBody \<Rightarrow> MissingBody | TextBody s \<Rightarrow> BodyText s | JSONBody j \<Rightarrow> JsonBody j)\<rparr>)"

definition installation_body :: "string \<Rightarrow> goval" where
  "installation_body fid = VStruct [VString FCMApplicationID, VString ''FIS_v2'', VString fid, VString ''w:0.6.17'']"

definition registration_body :: "string \<Rightarrow> string \<Rightarrow> string \<Rightarrow> goval" where
  "registration_body auth endpoint key =
     VStruct [VStruct [VString auth, VString (FCMRegistrationEndpointPrefix @ endpoint), VString key]]"

definition installation_params :: CreateFCMInstallationParams where
  "installation_params =
     \<lparr>CreateFCMInstallationParams_Accept = ''application/json'', CreateFCMInstallationParams_ContentType = ''application/json'',
      CreateFCMInstallationParams_XGoogApiKey = FCMAPIKey\<rparr>"

definition registration_params :: "string \<Rightarrow> RegisterFCMInstallationParams" where
  "registration_params token =
     \<lparr>RegisterFCMInstallationParams_ContentType = ''application/json'',
      RegisterFCMInstallationParams_XGoogApiKey = FCMAPIKey,
      RegisterFCMInstallationParams_XGoogFirebaseInstallationsAuth = token\<rparr>"

abbreviation installations_server :: string where
  "installations_server \<equiv> ''https://firebaseinstallations.googleapis.com''"

abbreviation registrations_server :: string where
  "registrations_server \<equiv> ''https://fcmregistrations.googleapis.com''"

lemma built_installation:
  "build_request rt ''POST'' installations_server (''/v1/projects/ring-17770/installations'', None) None body
   = Inr \<lparr>hr_method = ''POST'', hr_url = installations_server @ ''/v1/projects/ring-17770/installations'',
          hr_headers = [], hr_body = body\<rparr>"
proof -
  have "(case url_parse installations_server of Inl e \<Rightarrow> None | Inr s \<Rightarrow>
      (case url_parse (operation_ref ''/v1/projects/ring-17770/installations'') of Inl e \<Rightarrow> None | Inr ref \<Rightarrow>
        Some (url_String (ResolveReference s ref))))
      = Some (installations_server @ ''/v1/projects/ring-17770/installations'')" by code_simp
  moreover have "(case url_parse (installations_server @ ''/v1/projects/ring-17770/installations'') of Inl e \<Rightarrow> False | Inr u \<Rightarrow> True)"
    by code_simp
  ultimately show ?thesis
    unfolding build_request_def style_path_def new_request_def
    by (auto simp: Let_def split: sum.splits)
qed

lemma built_registration:
  "build_request rt ''POST'' registrations_server (''/v1/projects/ring-17770/registrations'', None) None body
   = Inr \<lparr>hr_method = ''POST'', hr_url = registrations_server @ ''/v1/projects/ring-17770/registrations'',
          hr_headers = [], hr_body = body\<rparr>"
proof -
  have "(case url_parse registrations_server of Inl e \<Rightarrow> None | Inr s \<Rightarrow>
      (case url_parse (operation_ref ''/v1/projects/ring-17770/registrations'') of Inl e \<Rightarrow> None | Inr ref \<Rightarrow>
        Some (url_String (ResolveReference s ref))))
      = Some (registrations_server @ ''/v1/projects/ring-17770/registrations'')" by code_simp
  moreover have "(case url_parse (registrations_server @ ''/v1/projects/ring-17770/registrations'') of Inl e \<Rightarrow> False | Inr u \<Rightarrow> True)"
    by code_simp
  ultimately show ?thesis
    unfolding build_request_def style_path_def new_request_def
    by (auto simp: Let_def split: sum.splits)
qed

lemma header_order:
  "''Accept'' < ''Content-Type''" "''Content-Type'' < ''X-Goog-Api-Key''" "''Accept'' < ''X-Goog-Api-Key''"
  "''Content-Type'' < FCMInstallationsAuthHeader" "''X-Goog-Api-Key'' < FCMInstallationsAuthHeader"
  by code_simp+

lemma created_installation:
  assumes "\<And>name v. print_header name v = Inr v"
  shows "NewCreateFCMInstallationRequest rt print_header installations_server (Some installation_params) (installation_body fid)
    = Inr \<lparr>hr_method = ''POST'', hr_url = installations_server @ ''/v1/projects/ring-17770/installations'',
        hr_headers = [(''Accept'', ''application/json''), (''Content-Type'', ''application/json''), (''X-Goog-Api-Key'', FCMAPIKey)],
        hr_body = JSONBody (JObj [(''appId'', JStr FCMApplicationID), (''authVersion'', JStr ''FIS_v2''), (''fid'', JStr fid),
          (''sdkVersion'', JStr ''w:0.6.17'')])\<rparr>"
  unfolding NewCreateFCMInstallationRequest_def NewCreateFCMInstallationRequestWithBody_def fcm_request_def
    with_content_type_def built_installation
  using header_order
  by (simp add: assms header_def installation_params_def installation_body_def InstallationRequest_type_def less_not_sym)

lemma created_registration:
  assumes "\<And>name v. print_header name v = Inr v"
  shows "NewRegisterFCMInstallationRequest rt print_header registrations_server (Some (registration_params token))
      (registration_body auth endpoint key)
    = Inr \<lparr>hr_method = ''POST'', hr_url = registrations_server @ ''/v1/projects/ring-17770/registrations'',
        hr_headers = [(''Content-Type'', ''application/json''), (''X-Goog-Api-Key'', FCMAPIKey), (FCMInstallationsAuthHeader, token)],
        hr_body = JSONBody (JObj [(''web'', JObj [(''auth'', JStr auth),
          (''endpoint'', JStr (FCMRegistrationEndpointPrefix @ endpoint)), (''p256dh'', JStr key)])])\<rparr>"
  unfolding NewRegisterFCMInstallationRequest_def NewRegisterFCMInstallationRequestWithBody_def fcm_request_def
    with_content_type_def built_registration
  using header_order
  by (simp add: assms header_def registration_params_def registration_body_def FCMRegistrationRequest_type_def
      FCMWebRegistration_type_def less_not_sym)

lemma installation_request:
  "transport_request \<lparr>hr_method = ''POST'', hr_url = installations_server @ ''/v1/projects/ring-17770/installations'',
      hr_headers = hs, hr_body = JSONBody j\<rparr>
   = \<lparr>fr_Method = ''POST'',
      fr_URL = Some (empty_url\<lparr>u_Scheme := ''https'', u_Host := ''firebaseinstallations.googleapis.com'',
        u_Path := ''/v1/projects/ring-17770/installations''\<rparr>),
      fr_Host = ''firebaseinstallations.googleapis.com'', fr_Header = map (\<lambda>(k, v). (k, [v])) hs, fr_Body = JsonBody j\<rparr>"
proof -
  have "url_parse (installations_server @ ''/v1/projects/ring-17770/installations'')
      = Inr (empty_url\<lparr>u_Scheme := ''https'', u_Host := ''firebaseinstallations.googleapis.com'',
        u_Path := ''/v1/projects/ring-17770/installations''\<rparr>)" by code_simp
  then show ?thesis unfolding transport_request_def by (simp add: Let_def empty_url_def)
qed

lemma registration_request:
  "transport_request \<lparr>hr_method = ''POST'', hr_url = registrations_server @ ''/v1/projects/ring-17770/registrations'',
      hr_headers = hs, hr_body = JSONBody j\<rparr>
   = \<lparr>fr_Method = ''POST'',
      fr_URL = Some (empty_url\<lparr>u_Scheme := ''https'', u_Host := ''fcmregistrations.googleapis.com'',
        u_Path := ''/v1/projects/ring-17770/registrations''\<rparr>),
      fr_Host = ''fcmregistrations.googleapis.com'', fr_Header = map (\<lambda>(k, v). (k, [v])) hs, fr_Body = JsonBody j\<rparr>"
proof -
  have "url_parse (registrations_server @ ''/v1/projects/ring-17770/registrations'')
      = Inr (empty_url\<lparr>u_Scheme := ''https'', u_Host := ''fcmregistrations.googleapis.com'',
        u_Path := ''/v1/projects/ring-17770/registrations''\<rparr>)" by code_simp
  then show ?thesis unfolding transport_request_def by (simp add: Let_def empty_url_def)
qed

text \<open>A request to a listed place, from \<open>http.NewRequest\<close>.\<close>

lemma match_place:
  assumes "fr_Method r = ''POST''" "fr_URL r = Some (empty_url\<lparr>u_Scheme := ''https'', u_Host := host, u_Path := path\<rparr>)"
    "fr_Host r = host"
    and "find (\<lambda>route. (host, EscapedPath (empty_url\<lparr>u_Scheme := ''https'', u_Host := host, u_Path := path\<rparr>)) = fcm_place route)
      [routeCheckin, routeRegister, routeInstallations, routeRegistrations] = Some route"
  shows "matchFCMRoute (Some r) = Ok route"
  using assms by (simp add: matchFCMRoute_def empty_url_def)

lemma installation_passes:
  assumes "\<And>name v. print_header name v = Inr v" "validFID fid"
  shows "\<exists>req. NewCreateFCMInstallationRequest rt print_header installations_server (Some installation_params) (installation_body fid)
        = Inr req
      \<and> checked_request read_checkin (Some (transport_request req)) = Ok (transport_request req)"
proof -
  let ?headers = "[(''Accept'', ''application/json''), (''Content-Type'', ''application/json''), (''X-Goog-Api-Key'', FCMAPIKey)]"
  let ?m = "[(''appId'', JStr FCMApplicationID), (''authVersion'', JStr ''FIS_v2''), (''fid'', JStr fid), (''sdkVersion'', JStr ''w:0.6.17'')]"
  let ?r = "transport_request \<lparr>hr_method = ''POST'', hr_url = installations_server @ ''/v1/projects/ring-17770/installations'',
    hr_headers = ?headers, hr_body = JSONBody (JObj ?m)\<rparr>"
  have "find (\<lambda>route. (''firebaseinstallations.googleapis.com'', EscapedPath (empty_url\<lparr>u_Scheme := ''https'',
        u_Host := ''firebaseinstallations.googleapis.com'', u_Path := ''/v1/projects/ring-17770/installations''\<rparr>)) = fcm_place route)
      [routeCheckin, routeRegister, routeInstallations, routeRegistrations] = Some routeInstallations" by code_simp
  then have route: "matchFCMRoute (Some ?r) = Ok routeInstallations"
    unfolding installation_request by (intro match_place) simp_all
  have header: "validateFCMHeaders routeInstallations ?r = Ok ()"
    unfolding installation_request
    by (simp add: validateFCMHeaders_def expected_header_def sameHeaderSet_def require_def)
  have "sorted_wrt (<) [''appId'', ''authVersion'', ''fid'', ''sdkVersion'']" by code_simp
  then have "gm_build ?m = ?m" by (intro gm_build_same) (simp add: gm_wf_def)
  with assms(2) have body: "validateFCMRequestBody read_checkin routeInstallations (fr_Body ?r) = Ok ()"
    unfolding installation_request
    by (simp add: validateFCMRequestBody_def validateInstallationsRequest_def jsonObject_def body_json_def json_object_def
        on_decode_def wrap_error_def exactJSONKeys_def jsonString_def json_string_def raw_member_def require_def)
  have "readAndRestoreBody ?r = Ok (fr_Body ?r)" unfolding installation_request by (simp add: readAndRestoreBody_def)
  with route header body have "checked_request read_checkin (Some ?r) = Ok ?r"
    by (simp add: checked_request_def Let_def)
  with created_installation [of print_header, OF assms(1)] show ?thesis by simp
qed

lemma registration_passes:
  assumes "\<And>name v. print_header name v = Inr v" "validWebPushKey auth 16" "validWebPushKey key 65" "endpoint \<noteq> []"
    and token: "\<not> only_space token" "\<not> has_prefix token ''FIS ''"
  shows "\<exists>req. NewRegisterFCMInstallationRequest rt print_header registrations_server (Some (registration_params token))
          (registration_body auth endpoint key) = Inr req
      \<and> checked_request read_checkin (Some (transport_request req)) = Ok (transport_request req)"
proof -
  let ?headers = "[(''Content-Type'', ''application/json''), (''X-Goog-Api-Key'', FCMAPIKey), (FCMInstallationsAuthHeader, token)]"
  let ?web = "[(''auth'', JStr auth), (''endpoint'', JStr (FCMRegistrationEndpointPrefix @ endpoint)), (''p256dh'', JStr key)]"
  define req where "req = \<lparr>hr_method = ''POST'', hr_url = registrations_server @ ''/v1/projects/ring-17770/registrations'',
    hr_headers = ?headers, hr_body = JSONBody (JObj [(''web'', JObj ?web)])\<rparr>"
  let ?r = "transport_request req"
  note r = registration_request [of ?headers "JObj [(''web'', JObj ?web)]", folded req_def]
  have "find (\<lambda>route. (''fcmregistrations.googleapis.com'', EscapedPath (empty_url\<lparr>u_Scheme := ''https'',
        u_Host := ''fcmregistrations.googleapis.com'', u_Path := ''/v1/projects/ring-17770/registrations''\<rparr>)) = fcm_place route)
      [routeCheckin, routeRegister, routeInstallations, routeRegistrations] = Some routeRegistrations" by code_simp
  then have route: "matchFCMRoute (Some ?r) = Ok routeRegistrations"
    unfolding r by (intro match_place) simp_all
  have trim: "trim_prefix token ''FIS '' = token" using token(2) by (simp add: trim_prefix_def)
  have get: "fcm_header_get FCMInstallationsAuthHeader ?r = token"
    unfolding r by (simp add: fcm_header_get_def)
  have header: "validateFCMHeaders routeRegistrations ?r = Ok ()"
    using token(1) unfolding validateFCMHeaders_def expected_header_def
    by (simp add: get trim Let_def) (simp add: r sameHeaderSet_def require_def)
  have "sorted_wrt (<) [''auth'', ''endpoint'', ''p256dh'']" by code_simp
  then have web: "gm_build ?web = ?web" by (intro gm_build_same) (simp add: gm_wf_def)
  have one: "gm_build [(''web'', x)] = [(''web'', x)]" for x :: json by (simp add: gm_build_def)
  have strings: "jsonString ?web ''auth'' = auth" "jsonString ?web ''p256dh'' = key"
    "jsonString ?web ''endpoint'' = FCMRegistrationEndpointPrefix @ endpoint"
    by (simp_all add: jsonString_def json_string_def raw_member_def)
  have keys: "exactJSONKeys ?web [''endpoint'', ''p256dh'', ''auth'']" by (simp add: exactJSONKeys_def)
  have "pinned_web ?web"
    using assms(2-4) keys unfolding pinned_web_def strings by (simp add: has_prefix_append trim_prefix_def)
  then have body: "validateFCMRequestBody read_checkin routeRegistrations (fr_Body ?r) = Ok ()"
    unfolding r
    by (simp add: validateFCMRequestBody_def validateRegistrationsRequest_def jsonObject_def body_json_def json_object_def
        on_decode_def wrap_error_def exactJSONKeys_def raw_member_def require_def one web)
  have "without_vapid ?web = Ok ?web" using keys by (simp add: without_vapid_def)
  then have "omitDefaultVAPID ?r = Ok ?r"
    unfolding omitDefaultVAPID_def get trim
    using token(1) unfolding r
    by (simp add: read_registration_def body_json_def json_object_def one members_def raw_member_def web on_decode_def
        exactJSONKeys_def require_def)
  moreover have "readAndRestoreBody ?r = Ok (fr_Body ?r)"
    unfolding r by (simp add: readAndRestoreBody_def)
  ultimately have "checked_request read_checkin (Some ?r) = Ok ?r"
    using route header body by (simp add: checked_request_def Let_def)
  moreover have "NewRegisterFCMInstallationRequest rt print_header registrations_server (Some (registration_params token))
      (registration_body auth endpoint key) = Inr req"
    unfolding req_def by (rule created_registration [OF assms(1)])
  ultimately show ?thesis by blast
qed

text \<open>C30: the generated client speaks the language of the transport. An installation with a well-formed identifier, and a
  registration with well-formed keys, an endpoint and a credential, are built without an error, and the transport
  passes on exactly the request that was built.\<close>

theorem generated_requests_pass:
  assumes "\<And>name v. print_header name v = Inr v"
    and "validFID fid" "validWebPushKey auth 16" "validWebPushKey key 65" "endpoint \<noteq> []"
    and "\<not> only_space token" "\<not> has_prefix token ''FIS ''"
  shows "(\<exists>req. NewCreateFCMInstallationRequest rt print_header installations_server (Some installation_params)
            (installation_body fid) = Inr req
          \<and> dt_sent (snd (RoundTrip read_checkin next (Some (transport_request req)) t)) = dt_sent t @ [transport_request req])
    \<and> (\<exists>req. NewRegisterFCMInstallationRequest rt print_header registrations_server (Some (registration_params token))
            (registration_body auth endpoint key) = Inr req
          \<and> dt_sent (snd (RoundTrip read_checkin next (Some (transport_request req)) t)) = dt_sent t @ [transport_request req])"
proof -
  have forwarded: "dt_sent (snd (RoundTrip read_checkin next (Some r) t)) = dt_sent t @ [r]"
    if "checked_request read_checkin (Some r) = Ok r" for r
    using that by (auto simp: RoundTrip_def lbind_def lift_def fcm_forward_def Let_def split: option.split prod.split)
  from installation_passes [of print_header, OF assms(1,2)] registration_passes [of print_header, OF assms(1,3-7)] forwarded
  show ?thesis by blast
qed

theorem generated_requests_pass_witness:
  "\<exists>req. NewRegisterFCMInstallationRequest documented_runtime (\<lambda>name v. Inr v) registrations_server
        (Some (registration_params ''token''))
        (registration_body (replicate 22 (CHR ''A'') @ ''=='') ''id'' (replicate 87 (CHR ''A'') @ ''='')) = Inr req
      \<and> dt_sent (snd (RoundTrip (\<lambda>s. Inl JSONError) (\<lambda>sent r. (Some 200, None)) (Some (transport_request req))
          newDiagnosticTransport)) = [transport_request req]"
proof -
  have "validFID (''dAAA'' @ replicate 19 (CHR ''A'') @ ''='')" by code_simp
  moreover have "validWebPushKey (replicate 22 (CHR ''A'') @ ''=='') 16" "validWebPushKey (replicate 87 (CHR ''A'') @ ''='') 65"
    by code_simp+
  moreover have "\<not> only_space ''token''" "\<not> has_prefix ''token'' ''FIS ''" by code_simp+
  ultimately have "\<exists>req. NewRegisterFCMInstallationRequest documented_runtime (\<lambda>name v. Inr v) registrations_server
        (Some (registration_params ''token''))
        (registration_body (replicate 22 (CHR ''A'') @ ''=='') ''id'' (replicate 87 (CHR ''A'') @ ''='')) = Inr req
      \<and> dt_sent (snd (RoundTrip (\<lambda>s. Inl JSONError) (\<lambda>sent r. (Some 200, None)) (Some (transport_request req))
          newDiagnosticTransport)) = dt_sent newDiagnosticTransport @ [transport_request req]"
    using generated_requests_pass [of "\<lambda>name v. Inr v" _ _ _ "''id''"] by blast
  then show ?thesis by (simp add: newDiagnosticTransport_def)
qed

end
