(* ===== verification/Spec2Isabelle.thy ===== *)
theory Spec2Isabelle
  imports GoErrors H264Bits H264Writer RtpRecording Sdp GoJson SignalingModels Outcome Steps Wire SignalingWriter Session Negotiation AccountEvents DeviceSession Ptz Connection Dialogs
    ConnectionSteps GoUrl RestModels RestAccount RestCameras RestDevices RestTables Endpoints Login LoginFlow LoginSafety
    RestRequests RestClient RetryPolicy AccessToken AccountOperations ReadModels AccountSafety AccountResults
    RestResponses Sockets SocketsSafety Routes PushNotifications PushSafety FcmTransport FcmGate FcmClient FcmClientGate
begin

text \<open>
  Verification of go-ring, a client library for Ring devices with a command-line program. This theory imports
  all others. File names are relative to the root of the repository.

  \<^bold>\<open>The program.\<close> A \<open>ring.Client\<close> (\<open>pkg/ring\<close>) is configured by options that select regional endpoints. It signs in
  over OAuth (\<open>pkg/dependencies/rest\<close>), talks to a REST API through generated models
  (\<open>pkg/dependencymodels/rest\<close>) and clients, follows account events over a web socket, and opens one signaling
  socket per account. Over that socket run dialogs: device sessions with WebRTC media, push
  subscriptions and cloud playbacks. Inbound frames are decoded by \<open>websocket.ReadSignaling\<close> (\<open>wire.go\<close>), routed by
  \<open>SignalingConnection\<close> to the dialog they name, and handled by the core session of \<open>internal/signaling\<close>;
  outbound frames go through a priority queue with one writer goroutine. The command-line program records and
  plays RTP and writes H.264.

  \<^bold>\<open>Shared theories.\<close>
  \<^item> Prelude: \<open>strconv\<close>, \<open>strings\<close> and \<open>fmt\<close> on byte strings, Go maps as sorted association lists, the collections
    of the automation, and the locales \<open>close_once\<close> (a value that ends once, with its first cause; interpreted for
    core and device sessions) and \<open>bounded_channel\<close> (a queue with non-blocking sends; interpreted for the event queue
    of a session and the mailbox of a dialog).
  \<^item> GoErrors: the error values and families of \<open>internal/ringerrors\<close>, wrapping, \<open>errors.Is\<close> and \<open>errors.As\<close>,
    the classification of HTTP statuses; the locale \<open>error_family\<close> is interpreted for each of its twelve
    predicates.
  \<^item> Outcome: results that may fail or panic. Steps: state-passing operations with such results and
    the rules for triples over them.
  \<^item> GoJson: \<open>encoding/json\<close> on parsed documents, with the panics of generated enum decoders. GoUrl: \<open>net/url\<close>.

  \<^bold>\<open>Signaling.\<close>
  \<^item> Protocol, SignalingModels: the names of \<open>internal/protocol\<close> and the wire types of
    \<open>pkg/dependencymodels/signaling\<close>.
  \<^item> Wire (\<open>websocket/wire.go\<close>, \<open>wire_close_union.go\<close>): decoding and encoding of frames. What is accepted or sent is
    well formed; which frames panic.
  \<^item> SignalingWriter (\<open>websocket/writer.go\<close>): the queue as functions, its goroutine as a step relation; every request is
    accounted for, priority is bounded, closing ends.
  \<^item> Session (\<open>internal/signaling/session.go\<close>): the core session as functions and a step relation with an invariant.
  \<^item> Negotiation (\<open>websocket/live_negotiation.go\<close>), DeviceSession, Ptz (\<open>pkg/ring/device_session*.go\<close>): opening a
    live session, its commands, the movement that closing has to stop.
  \<^item> Connection, Dialogs, ConnectionSteps (\<open>pkg/ring/signaling_connection.go\<close>, \<open>signaling_extras.go\<close>): the registry,
    routing, failing and closing; push subscriptions and playbacks; the connection with its goroutines as a step
    relation, whose invariant gives the isolation of dialogs and the end of all children.
  \<^item> AccountEvents (\<open>websocket/events.go\<close>): the reader and its consumers as steps.

  \<^bold>\<open>Accounts and REST.\<close>
  \<^item> Endpoints (\<open>pkg/ring/client_options.go\<close>, \<open>endpoints.go\<close>, \<open>internal/protocol/profiles.go\<close>, \<open>websocket.go\<close>): options,
    profiles, URL checks, the signaling URL.
  \<^item> RestModels with RestAccount, RestCameras, RestDevices, RestTables: the JSON methods of the generated models,
    each an instance of one scheme for which the round trip is proved.
  \<^item> Login, LoginFlow, LoginSafety (\<open>rest/auth.go\<close>, \<open>auth_authorize.go\<close>, \<open>pkg/ring/login_session.go\<close>, \<open>client_auth.go\<close>):
    the OAuth code flow with PKCE against any server; a login that completes; an invariant of the requests of a
    session (where they go, that a code is redeemed only with the verifier it was issued for).

  \<^bold>\<open>Account operations.\<close>
  \<^item> RestRequests, RestResponses (\<open>internal/generatedhttp/client.gen.go\<close>): the generated client, its request builders,
    senders and response parsers, each an instance of a few schemes. A request stays at the origin of its server
    URL; Routes shows that an escaped parameter stays in its route.
  \<^item> RestClient (\<open>pkg/dependencies/rest\<close>, \<open>internal/requestauth\<close>): credentials of a call, headers, retries, decoding and
    every operation. RetryPolicy: what the retries send and wait for, against any server.
  \<^item> AccessToken (\<open>pkg/ring/client.go\<close>): the hardware identifier in the claims of a token, with readers for base64url
    and for the text of JSON documents.
  \<^item> AccountOperations, ReadModels (\<open>pkg/ring/client_*.go\<close>, \<open>pkg/ringapimodels\<close>, \<open>pkg/ringtypes\<close>): controls, settings, snapshots,
    inventory, recordings, captured reads with their projection into the public types, the status of a device.
  \<^item> AccountSafety, AccountResults: what the operations send, that invalid arguments send nothing, and what their
    results mean (fresh snapshots, identifiers from tokens, projections).
  \<^item> Sockets, SocketsSafety (\<open>client_session.go\<close>, \<open>client_events.go\<close>): tickets, \<open>OpenSignaling\<close>, \<open>ConnectEvents\<close> and \<open>Listen\<close>.

  \<^bold>\<open>Push.\<close> PushNotifications (\<open>client_push.go\<close>, \<open>dependencies/push/receiver.go\<close>, \<open>dependencymodels/fcm\<close>): the reading of a
  notification, the events of the receiver, and the connection that registers with Ring and passes them on.
  PushSafety: encodings of a notification, and that success is only reported when every registration was accepted.
  FcmTransport (\<open>dependencies/push/http_transport.go\<close>): the transport of the receiver's registration; FcmGate: it lets
  only four exact shapes of request through, and treats the two forms of a registration alike. FcmClient
  (\<open>internal/generatedfcm\<close>): the generated client; FcmClientGate: what it builds passes the transport unchanged. The
  receiver is third-party code: what it reports and the requests it makes are arguments, as is the reading of protobuf.

  \<^bold>\<open>Media of the command-line program.\<close> Sdp (\<open>webrtc/sdp.go\<close>), H264Bits, H264Writer, RtpRecording
  (\<open>cmd/go-ring/h264_bits.go\<close>, \<open>h264_writer.go\<close>, \<open>rtp_recording.go\<close>).

  \<^bold>\<open>Conventions.\<close> A struct is a record, a sum of Go types a datatype, a fallible function returns \<open>goerr + 'a\<close>, or an
  outcome where it may panic. A goroutine is cut at the points where it reads a channel, a lock or a context;
  what runs under one lock is one step. Code outside the repository (the RTP and SDP codecs, cookies, regular
  expressions, servers, clocks, random bytes) is a parameter: the fields of \<open>h264_lib\<close>, \<open>recording_lib\<close>, \<open>sdp_lib\<close>, \<open>start_env\<close>,
  \<open>login_env\<close>, \<open>runtime\<close> (the printing of parameters), \<open>http_env\<close> (the server, the context and the clock of a call).
  Loops are bounded as in the code: five redirects of a login, nine levels of the CSRF
  search (\<open>maxCSRFSearchDepth\<close> and the root), three attempts of a request, the attempts of a snapshot, the
  nesting of 10000 levels that \<open>encoding/json\<close> allows. A JSON reader takes its text's length as a bound on its steps,
  which is enough because each step reads a byte. No theorem rests on fuel.

  \<^bold>\<open>Not modelled.\<close> The sockets themselves (\<open>WriteSignaling\<close>, \<open>ReadSignaling\<close>, the dials), the bodies of recordings, the
  percent encoding of forms, the union accessors of the REST models, \<open>pkg/generatedhttp\<close> (a copy of the generated
  client that only tests call), the push receiver (third-party), the commands and the user interface of the command-line program, the test kit, and the development tools under \<open>tools\<close>. \<open>strconv.ParseFloat\<close> is exact, without the
  rounding to a \<open>float64\<close>.
\<close>

end
